(* ===== verification/Prelude.thy ===== *)
theory Prelude
  imports Main "HOL-Library.List_Lexorder" "HOL-Library.Char_ord" "HOL-Library.Sublist"
begin

section \<open>Shared vocabulary: exceptions, results, Python text\<close>

text \<open>
  The vocabulary every component theory uses.
  \<^item> \<open>exn_class\<close> and \<open>issubclass\<close> are the exception hierarchy of
    \<^verbatim>\<open>errors.py\<close> together with the built-in exceptions the modelled code raises or
    catches; an exception value \<open>Exn c m\<close> is its class and the constant part of its
    message (interpolated values are dropped).
  \<^item> \<open>'a res\<close> is the result of a call: \<open>Inl\<close> the exception raised, \<open>Inr\<close> the value
    returned; \<open>rbind\<close> sequences two calls as Python statements do, \<open>check\<close> is
    \<^verbatim>\<open>if not c: raise\<close>, \<open>rmap\<close> and \<open>rfold\<close> are the two loops that stop at
    the first exception, \<open>rall\<close> a loop of checks.
  \<^item> Python text is \<open>string\<close>, one \<open>char\<close> per code point, so the model covers text over
    the first 256 code points; \<open>strip\<close>, \<open>lower\<close>, \<open>split_ws\<close>, \<open>join\<close> are the
    methods of \<^verbatim>\<open>str\<close> the code calls, and \<open>sorted_set\<close> is
    \<^verbatim>\<open>sorted(set(...))\<close>.
\<close>

named_theorems res_simps "evaluation of results"
named_theorems spec_defs "unfolding of declarative specifications"

subsection \<open>Exceptions\<close>

datatype exn_class =
    ConveyorError | ConfigurationError | SchemaValidationError | RepositoryError
  | QueueError | InvalidTransition | LockError | AmbiguousLockError | SafetyViolation
  | RecoveryError | IntegrationPlanError | SessionError | RetryExhausted
  | AutopilotStopRequested | TransactionError | EvidenceError | CorruptEvidenceError
  | ProjectionError | StaleProjectionCache
  | WarningEvidenceError | ValueError | KeyError | TypeError | AttributeError
  | PermissionError | OSError | RuntimeError | AssertionError | StopIteration | IndexError

fun base_class :: "exn_class \<Rightarrow> exn_class option" where
  "base_class ConveyorError = Some RuntimeError"
| "base_class ConfigurationError = Some ConveyorError"
| "base_class SchemaValidationError = Some ConfigurationError"
| "base_class RepositoryError = Some ConveyorError"
| "base_class QueueError = Some ConveyorError"
| "base_class InvalidTransition = Some ConveyorError"
| "base_class LockError = Some ConveyorError"
| "base_class AmbiguousLockError = Some LockError"
| "base_class SafetyViolation = Some ConveyorError"
| "base_class RecoveryError = Some ConveyorError"
| "base_class IntegrationPlanError = Some ConveyorError"
| "base_class SessionError = Some ConveyorError"
| "base_class RetryExhausted = Some ConveyorError"
| "base_class AutopilotStopRequested = Some ConveyorError"
| "base_class TransactionError = Some ConveyorError"
| "base_class EvidenceError = Some ConveyorError"
| "base_class CorruptEvidenceError = Some EvidenceError"
| "base_class ProjectionError = Some EvidenceError"
| "base_class StaleProjectionCache = Some ProjectionError"
| "base_class WarningEvidenceError = Some ValueError"
| "base_class PermissionError = Some OSError"
| "base_class _ = None"

text \<open>
  \<^verbatim>\<open>isinstance(exc, c)\<close>: the class or one of its bases. No class is more than four steps
  of \<open>base_class\<close> below another.
\<close>

definition issubclass :: "exn_class \<Rightarrow> exn_class \<Rightarrow> bool" where
  "issubclass c d \<longleftrightarrow> c = d \<or> base_class c = Some d
     \<or> Option.bind (base_class c) base_class = Some d
     \<or> Option.bind (Option.bind (base_class c) base_class) base_class = Some d
     \<or> Option.bind (Option.bind (Option.bind (base_class c) base_class) base_class) base_class = Some d"

datatype exn = Exn (exn_cls: exn_class) (exn_msg: string)

lemma subclass_refl [simp]: "issubclass c c"
  by (simp add: issubclass_def)

lemma subclass_trans: "issubclass a b \<Longrightarrow> issubclass b c \<Longrightarrow> issubclass a c"
  by (cases a; cases b; simp add: issubclass_def; cases c; simp)

subsection \<open>Results\<close>

type_synonym 'a res = "exn + 'a"

definition raise :: "exn_class \<Rightarrow> string \<Rightarrow> 'a res" where
  "raise c m = Inl (Exn c m)"

definition rbind :: "'a res \<Rightarrow> ('a \<Rightarrow> 'b res) \<Rightarrow> 'b res" where
  "rbind r f = (case r of Inl e \<Rightarrow> Inl e | Inr x \<Rightarrow> f x)"

definition check :: "bool \<Rightarrow> exn_class \<Rightarrow> string \<Rightarrow> unit res" where
  "check b c m = (if b then Inr () else raise c m)"

fun rmap :: "('a \<Rightarrow> 'b res) \<Rightarrow> 'a list \<Rightarrow> 'b list res" where
  "rmap f [] = Inr []"
| "rmap f (x # xs) = rbind (f x) (\<lambda>y. rbind (rmap f xs) (\<lambda>ys. Inr (y # ys)))"

fun rfold :: "('a \<Rightarrow> 's \<Rightarrow> 's res) \<Rightarrow> 'a list \<Rightarrow> 's \<Rightarrow> 's res" where
  "rfold f [] s = Inr s"
| "rfold f (x # xs) s = rbind (f x s) (rfold f xs)"

text \<open>A loop whose turns only check\<close>

fun rall :: "('a \<Rightarrow> unit res) \<Rightarrow> 'a list \<Rightarrow> unit res" where
  "rall f [] = Inr ()"
| "rall f (x # xs) = rbind (f x) (\<lambda>_. rall f xs)"

text \<open>\<^verbatim>\<open>try: r except c: raise d(m)\<close>\<close>

definition rewrap :: "exn_class list \<Rightarrow> exn_class \<Rightarrow> string \<Rightarrow> 'a res \<Rightarrow> 'a res" where
  "rewrap cs d m r =
     (case r of Inl e \<Rightarrow> if \<exists>c \<in> set cs. issubclass (exn_cls e) c then raise d m else Inl e
      | Inr x \<Rightarrow> Inr x)"

abbreviation succeeds :: "'a res \<Rightarrow> bool" where
  "succeeds r \<equiv> \<exists>x. r = Inr x"

abbreviation raises :: "exn_class \<Rightarrow> 'a res \<Rightarrow> bool" where
  "raises c r \<equiv> \<exists>m. r = Inl (Exn c m)"

lemma rbind_Inr [simp, res_simps]: "rbind (Inr x) f = f x"
  by (simp add: rbind_def)

lemma rbind_Inl [simp, res_simps]: "rbind (Inl e) f = Inl e"
  by (simp add: rbind_def)

lemma rbind_raise [simp, res_simps]: "rbind (raise c m) f = raise c m"
  by (simp add: rbind_def raise_def)

lemma rbind_eq_Inr [simp]: "rbind r f = Inr y \<longleftrightarrow> (\<exists>x. r = Inr x \<and> f x = Inr y)"
  by (cases r) (auto simp: rbind_def)

lemma rbind_InrE: "rbind r f = Inr v \<Longrightarrow> (\<And>x. r = Inr x \<Longrightarrow> f x = Inr v \<Longrightarrow> P) \<Longrightarrow> P"
  by auto

lemma rbind_eq_Inl: "rbind r f = Inl e \<longleftrightarrow> r = Inl e \<or> (\<exists>x. r = Inr x \<and> f x = Inl e)"
  by (cases r) (auto simp: rbind_def)

lemma raise_neq_Inr [simp]: "raise c m \<noteq> Inr x" "Inr x \<noteq> raise c m"
  by (auto simp: raise_def)

lemma raise_eq_Inl [simp]: "raise c m = Inl e \<longleftrightarrow> e = Exn c m"
  by (auto simp: raise_def)

lemma check_True [simp, res_simps]: "check True c m = Inr ()"
  by (simp add: check_def)

lemma check_False [simp, res_simps]: "check False c m = raise c m"
  by (simp add: check_def)

lemma check_eq_Inr [simp]: "check b c m = Inr u \<longleftrightarrow> b"
  by (simp add: check_def)

lemma check_eq_Inl [simp]: "check b c m = Inl e \<longleftrightarrow> \<not> b \<and> e = Exn c m"
  by (auto simp: check_def)

lemma rbind_assoc: "rbind (rbind r f) g = rbind r (\<lambda>x. rbind (f x) g)"
  by (cases r) simp_all

lemma rbind_cong [fundef_cong]:
  "r = r' \<Longrightarrow> (\<And>x. r' = Inr x \<Longrightarrow> f x = g x) \<Longrightarrow> rbind r f = rbind r' g"
  by (cases r') simp_all

lemma rmap_Inr_iff: "rmap f xs = Inr ys \<longleftrightarrow> list_all2 (\<lambda>x y. f x = Inr y) xs ys"
  by (induction xs arbitrary: ys) (auto simp: list_all2_Cons1)

lemma rmap_cong [fundef_cong]:
  "xs = ys \<Longrightarrow> (\<And>x. x \<in> set ys \<Longrightarrow> f x = g x) \<Longrightarrow> rmap f xs = rmap g ys"
  by (induction xs arbitrary: ys) (auto intro!: rbind_cong)

lemma rall_Inr [simp]: "rall f xs = Inr u \<longleftrightarrow> list_all (\<lambda>x. f x = Inr ()) xs"
  by (induction xs) auto

lemma rall_cong [fundef_cong]:
  "xs = ys \<Longrightarrow> (\<And>x. x \<in> set ys \<Longrightarrow> f x = g x) \<Longrightarrow> rall f xs = rall g ys"
  by (induction xs arbitrary: ys) (auto intro!: rbind_cong)

lemma rfold_append: "rfold f (xs @ ys) s = rbind (rfold f xs s) (rfold f ys)"
  by (induction xs arbitrary: s) (auto simp: rbind_def split: sum.split)

lemma rfold_invariant:
  assumes "rfold f xs s = Inr t" "P s"
    and "\<And>x s s'. x \<in> set xs \<Longrightarrow> P s \<Longrightarrow> f x s = Inr s' \<Longrightarrow> P s'"
  shows "P t"
  using assms by (induction xs arbitrary: s) auto

lemma rewrap_eq_Inr [simp]: "rewrap cs d m r = Inr x \<longleftrightarrow> r = Inr x"
  by (cases r) (auto simp: rewrap_def)

subsection \<open>Text\<close>

definition is_space :: "char \<Rightarrow> bool" where
  "is_space c = (let n = of_char c :: nat in
     (9 \<le> n \<and> n \<le> 13) \<or> (28 \<le> n \<and> n \<le> 32) \<or> n = 133 \<or> n = 160)"

definition lstrip :: "string \<Rightarrow> string" where
  "lstrip s = dropWhile is_space s"

definition strip :: "string \<Rightarrow> string" where
  "strip s = rev (lstrip (rev (lstrip s)))"

text \<open>\<^verbatim>\<open>s.strip()\<close> is truthy, that is, some character is not white space.\<close>

abbreviation nonblank :: "string \<Rightarrow> bool" where
  "nonblank s \<equiv> strip s \<noteq> []"

definition lower_char :: "char \<Rightarrow> char" where
  "lower_char c = (let n = of_char c :: nat in
     if (65 \<le> n \<and> n \<le> 90) \<or> (192 \<le> n \<and> n \<le> 222 \<and> n \<noteq> 215) then char_of (n + 32) else c)"

definition lower :: "string \<Rightarrow> string" where
  "lower s = map lower_char s"

fun split_ws_aux :: "string \<Rightarrow> string \<Rightarrow> string list" where
  "split_ws_aux acc [] = (if acc = [] then [] else [rev acc])"
| "split_ws_aux acc (c # cs) =
     (if is_space c then (if acc = [] then split_ws_aux [] cs else rev acc # split_ws_aux [] cs)
      else split_ws_aux (c # acc) cs)"

text \<open>\<^verbatim>\<open>s.split()\<close>\<close>

definition split_ws :: "string \<Rightarrow> string list" where
  "split_ws s = split_ws_aux [] s"

fun join :: "string \<Rightarrow> string list \<Rightarrow> string" where
  "join sep [] = []"
| "join sep [x] = x"
| "join sep (x # y # xs) = x @ sep @ join sep (y # xs)"

text \<open>\<^verbatim>\<open>s.split(c)\<close> for a separator of one character\<close>

fun split_on :: "char \<Rightarrow> string \<Rightarrow> string list" where
  "split_on c [] = [[]]"
| "split_on c (x # xs) =
     (if x = c then [] # split_on c xs
      else (case split_on c xs of [] \<Rightarrow> [[x]] | p # ps \<Rightarrow> (x # p) # ps))"

text \<open>\<^verbatim>\<open>sub in s\<close>\<close>

fun contains :: "string \<Rightarrow> string \<Rightarrow> bool" where
  "contains sub [] \<longleftrightarrow> sub = []"
| "contains sub (c # cs) \<longleftrightarrow> prefix sub (c # cs) \<or> contains sub cs"

definition digit_char :: "nat \<Rightarrow> char" where
  "digit_char n = ''0123456789'' ! n"

fun show_nat :: "nat \<Rightarrow> string" where
  "show_nat n = (if n < 10 then [digit_char n] else show_nat (n div 10) @ [digit_char (n mod 10)])"

declare show_nat.simps [simp del]

definition show_int :: "int \<Rightarrow> string" where
  "show_int i = (if i < 0 then CHR ''-'' # show_nat (nat (- i)) else show_nat (nat i))"

text \<open>\<^verbatim>\<open>dict.fromkeys(xs)\<close>: each element once, where it first occurs\<close>

definition firsts :: "'a list \<Rightarrow> 'a list" where
  "firsts xs = rev (remdups (rev xs))"

lemma set_firsts [simp]: "set (firsts xs) = set xs"
  by (simp add: firsts_def)

lemma distinct_firsts [simp]: "distinct (firsts xs)"
  by (simp add: firsts_def)

text \<open>\<^verbatim>\<open>sorted(set(xs))\<close>; \<^verbatim>\<open>str\<close> is ordered by code points, which is the
  lexicographic order of \<open>List_Lexorder\<close> over \<open>Char_ord\<close>.\<close>

definition sorted_set :: "'a::linorder list \<Rightarrow> 'a list" where
  "sorted_set xs = sort (remdups xs)"

lemma set_sorted_set [simp]: "set (sorted_set xs) = set xs"
  by (simp add: sorted_set_def)

lemma sorted_sorted_set [simp]: "sorted (sorted_set xs)"
  by (simp add: sorted_set_def)

lemma distinct_sorted_set [simp]: "distinct (sorted_set xs)"
  by (simp add: sorted_set_def)

lemma sorted_set_id: "sorted xs \<Longrightarrow> distinct xs \<Longrightarrow> sorted_set xs = xs"
  by (simp add: sorted_set_def sort_key_id_if_sorted distinct_remdups_id)

lemma sorted_set_fixpoint: "sorted_set xs = xs \<longleftrightarrow> sorted xs \<and> distinct xs"
  by (metis sorted_set_id sorted_sorted_set distinct_sorted_set)

lemma sorted_set_eqI: "set xs = set ys \<Longrightarrow> sorted_set xs = sorted_set ys"
  by (metis set_sorted_set sorted_sorted_set distinct_sorted_set sorted_distinct_set_unique)

text \<open>\<^verbatim>\<open>s.splitlines()\<close>: lines end at a line feed, a carriage return or both, or at one of
  the other separators of \<^verbatim>\<open>str\<close>.\<close>

definition line_break :: "char \<Rightarrow> bool" where
  "line_break c = (let n = of_char c :: nat in (10 \<le> n \<and> n \<le> 13) \<or> (28 \<le> n \<and> n \<le> 30) \<or> n = 133)"

fun str_splitlines :: "string \<Rightarrow> string list" where
  "str_splitlines [] = []"
| "str_splitlines (c # s) =
     (if line_break c then
        [] # (case s of [] \<Rightarrow> [] | d # t \<Rightarrow>
                if c = CHR 0x0D \<and> d = CHR 0x0A then str_splitlines t else str_splitlines s)
      else (case str_splitlines s of [] \<Rightarrow> [[c]] | l # ls \<Rightarrow> (c # l) # ls))"

subsection \<open>Tables\<close>

text \<open>A Python dictionary literal is an association list; later entries of the same key
  replace earlier ones in place, as \<^verbatim>\<open>d[k] = v\<close> does.\<close>

fun aset :: "'k \<Rightarrow> 'v \<Rightarrow> ('k \<times> 'v) list \<Rightarrow> ('k \<times> 'v) list" where
  "aset k v [] = [(k, v)]"
| "aset k v (kv # kvs) = (if fst kv = k then (k, v) # kvs else kv # aset k v kvs)"

lemma map_of_aset [simp]: "map_of (aset k v kvs) = (map_of kvs)(k \<mapsto> v)"
  by (induction kvs) auto

lemma map_of_aset_apply: "map_of (aset k v kvs) k' = (if k' = k then Some v else map_of kvs k')"
  by simp

lemma keys_aset: "set (map fst (aset k v kvs)) = insert k (set (map fst kvs))"
  by (induction kvs) auto

lemma distinct_aset: "distinct (map fst kvs) \<Longrightarrow> distinct (map fst (aset k v kvs))"
proof (induction kvs)
  case Nil
  then show ?case by simp
next
  case (Cons kv kvs)
  then show ?case using keys_aset [of k v kvs] by auto
qed

lemma find_SomeD: "List.find P xs = Some x \<Longrightarrow> P x \<and> x \<in> set xs"
  by (induction xs) (auto split: if_splits)

definition adel :: "'k \<Rightarrow> ('k \<times> 'v) list \<Rightarrow> ('k \<times> 'v) list" where
  "adel k kvs = filter (\<lambda>kv. fst kv \<noteq> k) kvs"

lemma map_of_adel: "map_of (adel k kvs) k' = (if k' = k then None else map_of kvs k')"
  by (induction kvs) (auto simp: adel_def)

lemma distinct_adel: "distinct (map fst kvs) \<Longrightarrow> distinct (map fst (adel k kvs))"
  by (induction kvs) (auto simp: adel_def)

end
