(* ===== verification/State_Machine.thy ===== *)
theory State_Machine
  imports Prelude
begin

section \<open>Portfolio and feature-cycle state machines\<close>

text \<open>
  \<^verbatim>\<open>state_machine.py\<close>: the two explicit transition tables and the transition operation
  over them. States are text, as in the source, so that an unknown state is a branch of the
  model. \<open>transition\<close> is \<^verbatim>\<open>StateMachine.transition\<close>, \<open>make_machine\<close> its
  constructor, \<open>run\<close> a sequence of calls. The locale \<open>explicit_machine\<close> is the contract
  a table has to meet and \<open>guarded_state\<close> the states that can only be entered through
  given guards; both are interpreted on the tables of the source.
\<close>

subsection \<open>The machine\<close>

record transition_result =
  tr_previous :: string
  tr_current :: string
  tr_changed :: bool

definition Transition :: "string \<Rightarrow> string \<Rightarrow> bool \<Rightarrow> transition_result" where
  "Transition p c b = \<lparr>tr_previous = p, tr_current = c, tr_changed = b\<rparr>"

lemma Transition_sel [simp]:
  "tr_previous (Transition p c b) = p" "tr_current (Transition p c b) = c"
  "tr_changed (Transition p c b) = b"
  by (simp_all add: Transition_def)

datatype state_machine =
  StateMachine (sm_states: "string list") (sm_transitions: "(string \<times> string list) list")

definition make_machine :: "string list \<Rightarrow> (string \<times> string list) list \<Rightarrow> state_machine res" where
  "make_machine states transitions =
     (if set states \<noteq> set (map fst transitions)
      then raise ValueError ''every state must have an explicit transition set''
      else Inr (StateMachine states transitions))"

definition has_state :: "state_machine \<Rightarrow> string \<Rightarrow> bool" where
  "has_state m s \<longleftrightarrow> s \<in> set (map fst (sm_transitions m))"

definition targets :: "state_machine \<Rightarrow> string \<Rightarrow> string list" where
  "targets m s = (case map_of (sm_transitions m) s of None \<Rightarrow> [] | Some ts \<Rightarrow> ts)"

definition transition :: "state_machine \<Rightarrow> string \<Rightarrow> string \<Rightarrow> transition_result res" where
  "transition m current target =
     (if \<not> has_state m current then raise InvalidTransition ''unknown current state''
      else if \<not> has_state m target then raise InvalidTransition ''unknown target state''
      else if current = target then Inr (Transition current target False)
      else if target \<notin> set (targets m current) then raise InvalidTransition ''invalid transition''
      else Inr (Transition current target True))"

subsection \<open>The tables of the source\<close>

definition PORTFOLIO_STATES :: "string list" where
  "PORTFOLIO_STATES =
    [''discover'', ''bootstrap_required'', ''baseline_required'', ''queue_reconciliation'',
     ''feature_ready'', ''feature_preparing'', ''feature_running'', ''feature_review'',
     ''feature_accepted'', ''integration_pending'', ''integration_ready'', ''integrating'',
     ''integration_validation'', ''integration_blocked'', ''feature_integrated'',
     ''milestone_gate'', ''milestone_ready_for_merge'', ''human_merge_approval'',
     ''next_milestone'', ''human_decision_required'', ''repository_dirty'', ''validation_failed'',
     ''architecture_decision_required'', ''destructive_change_required'', ''conveyor_error'',
     ''paused'', ''disabled'']"

definition CYCLE_STATES :: "string list" where
  "CYCLE_STATES =
    [''idle'', ''preflight'', ''feature_selected'', ''branch_preparing'', ''feature_in_progress'',
     ''feature_review'', ''feature_repair'', ''feature_accepted'', ''integration_pending'',
     ''integration_ready'', ''integrating'', ''integration_validation'', ''feature_integrated'',
     ''next_feature_selection'', ''milestone_gate'', ''completed'', ''blocked'',
     ''human_decision_required'', ''failed'']"

definition PORTFOLIO_TRANSITIONS :: "(string \<times> string list) list" where
  "PORTFOLIO_TRANSITIONS =
    [(''discover'', [''bootstrap_required'', ''baseline_required'', ''queue_reconciliation'', ''feature_ready'',
        ''repository_dirty'', ''human_decision_required'', ''conveyor_error'', ''paused'',
        ''disabled'']),
     (''bootstrap_required'', [''discover'', ''baseline_required'', ''queue_reconciliation'', ''human_decision_required'',
        ''conveyor_error'', ''paused'', ''disabled'']),
     (''baseline_required'', [''queue_reconciliation'', ''repository_dirty'', ''human_decision_required'',
        ''conveyor_error'', ''paused'', ''disabled'']),
     (''queue_reconciliation'', [''feature_ready'', ''integration_pending'', ''integration_ready'', ''milestone_gate'',
        ''validation_failed'', ''architecture_decision_required'', ''human_decision_required'',
        ''conveyor_error'', ''paused'', ''disabled'']),
     (''feature_ready'', [''queue_reconciliation'', ''feature_preparing'', ''feature_running'', ''repository_dirty'',
        ''human_decision_required'', ''conveyor_error'', ''paused'', ''disabled'']),
     (''feature_preparing'', [''feature_running'', ''feature_ready'', ''repository_dirty'', ''validation_failed'',
        ''human_decision_required'', ''conveyor_error'', ''paused'', ''disabled'']),
     (''feature_running'', [''queue_reconciliation'', ''feature_review'', ''feature_accepted'',
        ''integration_pending'', ''integration_blocked'', ''feature_ready'', ''milestone_gate'',
        ''repository_dirty'', ''validation_failed'', ''architecture_decision_required'',
        ''destructive_change_required'', ''human_decision_required'', ''conveyor_error'', ''paused'']),
     (''feature_review'', [''feature_running'', ''feature_accepted'', ''validation_failed'',
        ''architecture_decision_required'', ''destructive_change_required'',
        ''human_decision_required'', ''conveyor_error'', ''paused'']),
     (''feature_accepted'', [''queue_reconciliation'', ''integration_pending'', ''integration_ready'',
        ''feature_ready'', ''milestone_gate'', ''validation_failed'', ''human_decision_required'',
        ''conveyor_error'', ''paused'']),
     (''integration_pending'', [''queue_reconciliation'', ''integration_ready'', ''integrating'', ''integration_blocked'',
        ''human_decision_required'', ''validation_failed'', ''paused'']),
     (''integration_ready'', [''integrating'', ''integration_blocked'', ''human_decision_required'',
        ''validation_failed'', ''paused'']),
     (''integrating'', [''integration_validation'', ''integration_blocked'', ''feature_integrated'',
        ''human_decision_required'', ''validation_failed'', ''paused'']),
     (''integration_validation'', [''feature_integrated'', ''integration_blocked'', ''human_decision_required'',
        ''validation_failed'', ''paused'']),
     (''integration_blocked'', [''human_decision_required'', ''queue_reconciliation'', ''paused'']),
     (''feature_integrated'', [''queue_reconciliation'', ''feature_ready'', ''milestone_gate'', ''paused'']),
     (''milestone_gate'', [''queue_reconciliation'', ''milestone_ready_for_merge'', ''validation_failed'',
        ''architecture_decision_required'', ''human_decision_required'', ''conveyor_error'',
        ''paused'']),
     (''milestone_ready_for_merge'', [''queue_reconciliation'', ''human_merge_approval'', ''human_decision_required'', ''paused'']),
     (''human_merge_approval'', [''next_milestone'', ''human_decision_required'', ''paused'']),
     (''next_milestone'', [''queue_reconciliation'', ''feature_ready'', ''human_decision_required'', ''paused'',
        ''disabled'']),
     (''human_decision_required'', [''discover'', ''queue_reconciliation'', ''feature_ready'', ''feature_preparing'',
        ''feature_running'', ''integration_ready'', ''integrating'', ''milestone_gate'',
        ''paused'', ''disabled'']),
     (''repository_dirty'', [''discover'', ''queue_reconciliation'', ''feature_ready'', ''human_decision_required'',
        ''paused'', ''disabled'']),
     (''validation_failed'', [''queue_reconciliation'', ''feature_ready'', ''feature_running'', ''milestone_gate'',
        ''human_decision_required'', ''paused'', ''disabled'']),
     (''architecture_decision_required'', [''queue_reconciliation'', ''feature_ready'', ''human_decision_required'', ''paused'',
        ''disabled'']),
     (''destructive_change_required'', [''human_decision_required'', ''paused'', ''disabled'']),
     (''conveyor_error'', [''discover'', ''queue_reconciliation'', ''feature_ready'', ''feature_running'',
        ''human_decision_required'', ''paused'', ''disabled'']),
     (''paused'', [''discover'', ''queue_reconciliation'', ''feature_ready'', ''feature_running'',
        ''milestone_gate'', ''human_decision_required'', ''disabled'']),
     (''disabled'', [''discover'', ''paused''])]"

definition CYCLE_TRANSITIONS :: "(string \<times> string list) list" where
  "CYCLE_TRANSITIONS =
    [(''idle'', [''preflight'']),
     (''preflight'', [''feature_selected'', ''milestone_gate'', ''blocked'', ''human_decision_required'',
        ''failed'']),
     (''feature_selected'', [''branch_preparing'', ''human_decision_required'', ''failed'']),
     (''branch_preparing'', [''feature_in_progress'', ''human_decision_required'', ''failed'']),
     (''feature_in_progress'', [''feature_review'', ''feature_repair'', ''feature_accepted'', ''human_decision_required'',
        ''failed'']),
     (''feature_review'', [''feature_repair'', ''feature_accepted'', ''human_decision_required'', ''failed'']),
     (''feature_repair'', [''feature_in_progress'', ''feature_review'', ''integration_validation'',
        ''human_decision_required'', ''failed'']),
     (''feature_accepted'', [''integration_pending'', ''human_decision_required'', ''failed'']),
     (''integration_pending'', [''integration_ready'', ''integrating'', ''human_decision_required'', ''failed'']),
     (''integration_ready'', [''integrating'', ''human_decision_required'', ''failed'']),
     (''integrating'', [''integration_validation'', ''human_decision_required'', ''failed'']),
     (''integration_validation'', [''feature_integrated'', ''feature_repair'', ''human_decision_required'', ''failed'']),
     (''feature_integrated'', [''next_feature_selection'', ''milestone_gate'', ''completed'']),
     (''next_feature_selection'', [''feature_selected'', ''milestone_gate'', ''blocked'', ''human_decision_required'',
        ''completed'']),
     (''milestone_gate'', [''completed'', ''human_decision_required'', ''failed'']),
     (''completed'', []),
     (''blocked'', [''preflight'', ''human_decision_required'', ''failed'']),
     (''human_decision_required'', [''preflight'', ''branch_preparing'', ''feature_in_progress'', ''integration_pending'',
        ''integration_ready'', ''integrating'', ''milestone_gate'', ''failed'']),
     (''failed'', [''preflight'', ''feature_in_progress'', ''integration_pending'', ''milestone_gate'',
        ''human_decision_required''])]"

definition PORTFOLIO_MACHINE :: state_machine where
  "PORTFOLIO_MACHINE = StateMachine PORTFOLIO_STATES PORTFOLIO_TRANSITIONS"

definition CYCLE_MACHINE :: state_machine where
  "CYCLE_MACHINE = StateMachine CYCLE_STATES CYCLE_TRANSITIONS"

text \<open>A sequence of calls of \<^verbatim>\<open>transition\<close>, stopped by the first exception.\<close>

fun run :: "state_machine \<Rightarrow> string \<Rightarrow> string list \<Rightarrow> string res" where
  "run m s [] = Inr s"
| "run m s (t # ts) = rbind (transition m s t) (\<lambda>r. run m (tr_current r) ts)"

subsection \<open>Table facts\<close>

lemmas machine_defs = PORTFOLIO_MACHINE_def CYCLE_MACHINE_def
lemmas portfolio_tables = PORTFOLIO_STATES_def PORTFOLIO_TRANSITIONS_def
lemmas cycle_tables = CYCLE_STATES_def CYCLE_TRANSITIONS_def

text \<open>The states a table allows to be entered from another state.\<close>

definition predecessors :: "(string \<times> string list) list \<Rightarrow> string \<Rightarrow> string list" where
  "predecessors table t = map fst (filter (\<lambda>row. t \<in> set (snd row)) table)"

definition table_ok :: "string list \<Rightarrow> (string \<times> string list) list \<Rightarrow> bool" where
  "table_ok states table \<longleftrightarrow> set states = set (map fst table) \<and> distinct (map fst table)
     \<and> (\<forall>row \<in> set table. set (snd row) \<subseteq> set states)"

lemma transition_Inr:
  "transition m s t = Inr r \<longleftrightarrow>
     has_state m s \<and> has_state m t \<and>
     (if s = t then r = Transition s t False
      else t \<in> set (targets m s) \<and> r = Transition s t True)"
  by (auto simp: transition_def split: if_splits)

lemma transition_current: "transition m s t = Inr r \<Longrightarrow> tr_current r = t"
  by (auto simp: transition_Inr split: if_splits)

lemma run_Cons_Inr:
  "run m s (t # ts) = Inr u \<longleftrightarrow> succeeds (transition m s t) \<and> run m t ts = Inr u"
  using transition_current by fastforce

declare run.simps(2) [simp del]

lemma run_append: "run m s (ts @ us) = rbind (run m s ts) (\<lambda>u. run m u us)"
  by (induction ts arbitrary: s) (auto simp: run.simps(2) rbind_assoc intro!: rbind_cong)

lemma targets_predecessors:
  assumes "t \<in> set (targets m s)"
  shows "s \<in> set (predecessors (sm_transitions m) t)"
proof -
  from assms obtain ts where "map_of (sm_transitions m) s = Some ts" "t \<in> set ts"
    by (cases "map_of (sm_transitions m) s") (auto simp: targets_def)
  then have "(s, ts) \<in> set (sm_transitions m)" "t \<in> set ts" by (auto dest: map_of_SomeD)
  then show ?thesis by (auto simp: predecessors_def intro!: image_eqI [where x = "(s, ts)"])
qed

text \<open>
  The contract of one explicit machine: its table is total over its states and closed.
  Whatever run succeeds stays in the declared states and ends where the last call asked.
\<close>

locale explicit_machine =
  fixes m :: state_machine
  assumes table_ok: "table_ok (sm_states m) (sm_transitions m)"
begin

lemma known_iff: "has_state m s \<longleftrightarrow> s \<in> set (sm_states m)"
  using table_ok by (auto simp: has_state_def table_ok_def)

lemma transition_states:
  "transition m s t = Inr r \<Longrightarrow> s \<in> set (sm_states m) \<and> t \<in> set (sm_states m)"
  by (simp add: transition_Inr known_iff)

lemma run_states:
  assumes "run m s ts = Inr u" "s \<in> set (sm_states m)"
  shows "u \<in> set (sm_states m) \<and> set ts \<subseteq> set (sm_states m)"
  using assms
proof (induction ts arbitrary: s)
  case (Cons t ts)
  then show ?case using transition_states by (auto simp: run_Cons_Inr)
qed simp

lemma run_last: "run m s ts = Inr u \<Longrightarrow> u = last (s # ts)"
  by (induction ts arbitrary: s) (auto simp: run_Cons_Inr)

end

text \<open>
  A guarded state: the table lets it be entered only from its guards. Then no run enters
  it without having been in one of the guards first.
\<close>

locale guarded_state = explicit_machine +
  fixes goal :: string and guards :: "string list"
  assumes guarded: "set (predecessors (sm_transitions m) goal) \<subseteq> set guards"
begin

lemma entry_guarded:
  assumes "run m s ts = Inr u" "s \<noteq> goal" "goal \<in> set ts"
  shows "\<exists>g \<in> set guards. g \<in> set (s # takeWhile (\<lambda>x. x \<noteq> goal) ts)"
  using assms
proof (induction ts arbitrary: s)
  case (Cons t ts)
  show ?case
  proof (cases "t = goal")
    case True
    with Cons.prems have "goal \<in> set (targets m s)"
      by (auto simp: run_Cons_Inr transition_Inr split: if_splits)
    then have "s \<in> set guards" using targets_predecessors guarded by blast
    then show ?thesis by auto
  next
    case False
    with Cons.prems Cons.IH [of t] show ?thesis by (auto simp: run_Cons_Inr)
  qed
qed simp

end

lemma portfolio_table_ok: "table_ok PORTFOLIO_STATES PORTFOLIO_TRANSITIONS"
  by code_simp

lemma cycle_table_ok: "table_ok CYCLE_STATES CYCLE_TRANSITIONS"
  by code_simp

interpretation portfolio: explicit_machine PORTFOLIO_MACHINE
  by unfold_locales (simp add: PORTFOLIO_MACHINE_def portfolio_table_ok)

interpretation cycle: explicit_machine CYCLE_MACHINE
  by unfold_locales (simp add: CYCLE_MACHINE_def cycle_table_ok)

subsection \<open>Runs through gated states\<close>

text \<open>A chain of states each of which can only be entered from the one before it.\<close>

fun gated_chain :: "state_machine \<Rightarrow> string list \<Rightarrow> bool" where
  "gated_chain m (g # x # xs) =
     (set (predecessors (sm_transitions m) x) \<subseteq> {g} \<and> gated_chain m (x # xs))"
| "gated_chain m _ = True"

lemma gated_chain_append:
  "gated_chain m (gs @ [g, x]) \<longleftrightarrow>
     gated_chain m (gs @ [g]) \<and> set (predecessors (sm_transitions m) x) \<subseteq> {g}"
proof (induction gs)
  case (Cons a gs)
  then show ?case by (cases gs) auto
qed simp

lemma run_entry:
  assumes "run m s (pre @ x # post) = Inr u" "last (s # pre) \<noteq> x"
  shows "last (s # pre) \<in> set (predecessors (sm_transitions m) x)"
  using assms
proof (induction pre arbitrary: s)
  case Nil
  then show ?case
    by (auto simp: run_Cons_Inr transition_Inr intro: targets_predecessors split: if_splits)
next
  case (Cons p pre)
  then have "run m p (pre @ x # post) = Inr u" "last (p # pre) \<noteq> x"
    by (auto simp: run_Cons_Inr)
  from Cons.IH [OF this] show ?case by simp
qed

lemma run_prefix: "run m s (pre @ post) = Inr u \<Longrightarrow> \<exists>v. run m s pre = Inr v"
  by (auto simp: run_append)

lemma gated_chain_run:
  assumes "gated_chain m gs" "run m s ts = Inr u" "s \<notin> set gs" "gs \<noteq> []" "last gs \<in> set ts"
  shows "subseq gs ts"
  using assms
proof (induction gs arbitrary: ts u rule: rev_induct)
  case Nil
  then show ?case by simp
next
  case (snoc x gs)
  then obtain pre post where ts: "ts = pre @ x # post" "x \<notin> set pre"
    by (auto dest: split_list_first)
  show ?case
  proof (cases gs rule: rev_cases)
    case Nil
    with ts show ?thesis by (simp add: subseq_singleton_left)
  next
    case (snoc gs' g)
    from snoc.prems(3) ts have ne: "last (s # pre) \<noteq> x"
      by (cases pre rule: rev_cases) auto
    have "last (s # pre) \<in> set (predecessors (sm_transitions m) x)"
      using run_entry [OF _ ne] snoc.prems(2) ts by simp
    moreover have "set (predecessors (sm_transitions m) x) \<subseteq> {g}" and chain: "gated_chain m gs"
      using snoc.prems(1) snoc gated_chain_append [of m gs' g x] by auto
    ultimately have g: "last (s # pre) = g" by auto
    with snoc.prems(3) snoc have "g \<in> set pre"
      by (cases pre rule: rev_cases) auto
    moreover obtain v where "run m s pre = Inr v"
      using snoc.prems(2) ts run_prefix by blast
    ultimately have "subseq gs pre"
      using snoc.IH [OF chain] snoc.prems(3) snoc by auto
    then show ?thesis unfolding ts
      using list_emb_append_mono [of "(=)" gs pre "[x]" "x # post"] by simp
  qed
qed

text \<open>Routes found by breadth-first search, one for each state.\<close>

definition portfolio_routes :: "(string \<times> string list) list" where
  "portfolio_routes =
    [(''discover'', []),
     (''bootstrap_required'', [''bootstrap_required'']),
     (''baseline_required'', [''baseline_required'']),
     (''queue_reconciliation'', [''queue_reconciliation'']),
     (''feature_ready'', [''feature_ready'']),
     (''feature_preparing'', [''feature_ready'', ''feature_preparing'']),
     (''feature_running'', [''feature_ready'', ''feature_running'']),
     (''feature_review'', [''feature_ready'', ''feature_running'', ''feature_review'']),
     (''feature_accepted'', [''feature_ready'', ''feature_running'', ''feature_accepted'']),
     (''integration_pending'', [''queue_reconciliation'', ''integration_pending'']),
     (''integration_ready'', [''queue_reconciliation'', ''integration_ready'']),
     (''integrating'', [''human_decision_required'', ''integrating'']),
     (''integration_validation'', [''human_decision_required'', ''integrating'',
        ''integration_validation'']),
     (''integration_blocked'', [''queue_reconciliation'', ''integration_pending'',
        ''integration_blocked'']),
     (''feature_integrated'', [''human_decision_required'', ''integrating'',
        ''feature_integrated'']),
     (''milestone_gate'', [''queue_reconciliation'', ''milestone_gate'']),
     (''milestone_ready_for_merge'', [''queue_reconciliation'', ''milestone_gate'',
        ''milestone_ready_for_merge'']),
     (''human_merge_approval'', [''queue_reconciliation'', ''milestone_gate'',
        ''milestone_ready_for_merge'', ''human_merge_approval'']),
     (''next_milestone'', [''queue_reconciliation'', ''milestone_gate'',
        ''milestone_ready_for_merge'', ''human_merge_approval'', ''next_milestone'']),
     (''human_decision_required'', [''human_decision_required'']),
     (''repository_dirty'', [''repository_dirty'']),
     (''validation_failed'', [''queue_reconciliation'', ''validation_failed'']),
     (''architecture_decision_required'', [''queue_reconciliation'',
        ''architecture_decision_required'']),
     (''destructive_change_required'', [''feature_ready'', ''feature_running'',
        ''destructive_change_required'']),
     (''conveyor_error'', [''conveyor_error'']),
     (''paused'', [''paused'']),
     (''disabled'', [''disabled''])]"

definition cycle_routes :: "(string \<times> string list) list" where
  "cycle_routes =
    [(''idle'', [''preflight'', ''milestone_gate'', ''completed'']),
     (''preflight'', [''milestone_gate'', ''completed'']),
     (''feature_selected'', [''human_decision_required'', ''milestone_gate'', ''completed'']),
     (''branch_preparing'', [''human_decision_required'', ''milestone_gate'', ''completed'']),
     (''feature_in_progress'', [''human_decision_required'', ''milestone_gate'', ''completed'']),
     (''feature_review'', [''human_decision_required'', ''milestone_gate'', ''completed'']),
     (''feature_repair'', [''integration_validation'', ''feature_integrated'', ''completed'']),
     (''feature_accepted'', [''human_decision_required'', ''milestone_gate'', ''completed'']),
     (''integration_pending'', [''human_decision_required'', ''milestone_gate'', ''completed'']),
     (''integration_ready'', [''human_decision_required'', ''milestone_gate'', ''completed'']),
     (''integrating'', [''integration_validation'', ''feature_integrated'', ''completed'']),
     (''integration_validation'', [''feature_integrated'', ''completed'']),
     (''feature_integrated'', [''completed'']),
     (''next_feature_selection'', [''completed'']),
     (''milestone_gate'', [''completed'']),
     (''completed'', []),
     (''blocked'', [''preflight'', ''milestone_gate'', ''completed'']),
     (''human_decision_required'', [''milestone_gate'', ''completed'']),
     (''failed'', [''milestone_gate'', ''completed''])]"

lemma portfolio_routes_ok:
  "set (map fst portfolio_routes) = set PORTFOLIO_STATES"
  "list_all (\<lambda>(t, p). run PORTFOLIO_MACHINE ''discover'' p = Inr t) portfolio_routes"
  "list_all (\<lambda>s. run PORTFOLIO_MACHINE s [''paused'', ''discover''] = Inr ''discover'') PORTFOLIO_STATES"
  by code_simp+

lemma cycle_routes_ok:
  "set (map fst cycle_routes) = set CYCLE_STATES"
  "list_all (\<lambda>(s, p). run CYCLE_MACHINE s p = Inr ''completed'') cycle_routes"
  by code_simp+

interpretation cycle_integrated: guarded_state CYCLE_MACHINE "''feature_integrated''" "[''integration_validation'']"
  by unfold_locales code_simp

interpretation portfolio_integrated:
  guarded_state PORTFOLIO_MACHINE "''feature_integrated''" "[''integrating'', ''integration_validation'']"
  by unfold_locales code_simp

interpretation portfolio_destructive:
  guarded_state PORTFOLIO_MACHINE "''destructive_change_required''" "[''feature_running'', ''feature_review'']"
  by unfold_locales code_simp

subsection \<open>Properties\<close>

text \<open>
  Claim C5. No milestone is left behind without the human gate: every successful sequence of
  portfolio transitions from \<^verbatim>\<open>discover\<close> that reaches \<^verbatim>\<open>next_milestone\<close> went
  through the milestone gate, the merge-ready state and the human merge approval, in that order.
\<close>

theorem next_milestone_needs_human_approval:
  assumes "run PORTFOLIO_MACHINE ''discover'' path = Inr u"
    and "''next_milestone'' \<in> set path"
  shows "subseq [''milestone_gate'', ''milestone_ready_for_merge'', ''human_merge_approval'',
                 ''next_milestone''] path"
proof -
  have "gated_chain PORTFOLIO_MACHINE
    [''milestone_gate'', ''milestone_ready_for_merge'', ''human_merge_approval'', ''next_milestone'']"
    by code_simp
  from gated_chain_run [OF this assms(1)] assms(2) show ?thesis by simp
qed

theorem next_milestone_needs_human_approval_witness:
  "subseq [''milestone_gate'', ''milestone_ready_for_merge'', ''human_merge_approval'', ''next_milestone'']
    [''queue_reconciliation'', ''milestone_gate'', ''milestone_ready_for_merge'',
     ''human_merge_approval'', ''next_milestone'']"
proof -
  have "run PORTFOLIO_MACHINE ''discover''
      [''queue_reconciliation'', ''milestone_gate'', ''milestone_ready_for_merge'',
       ''human_merge_approval'', ''next_milestone''] = Inr ''next_milestone''"
    by code_simp
  from next_milestone_needs_human_approval [OF this] show ?thesis by simp
qed

text \<open>
  In a feature cycle, integration is never recorded before it was validated: any
  run that enters \<^verbatim>\<open>feature_integrated\<close> has been in \<^verbatim>\<open>integration_validation\<close>
  before its first entry.
\<close>

theorem cycle_integrated_needs_validation:
  assumes "run CYCLE_MACHINE s path = Inr u" and "s \<noteq> ''feature_integrated''"
    and "''feature_integrated'' \<in> set path"
  shows "''integration_validation'' \<in> set (s # takeWhile (\<lambda>x. x \<noteq> ''feature_integrated'') path)"
  using cycle_integrated.entry_guarded [OF assms] by simp

theorem cycle_integrated_needs_validation_witness:
  "''integration_validation'' \<in> set (''integrating'' # takeWhile (\<lambda>x. x \<noteq> ''feature_integrated'')
     [''integration_validation'', ''feature_integrated'', ''completed''])"
proof -
  have "run CYCLE_MACHINE ''integrating'' [''integration_validation'', ''feature_integrated'', ''completed'']
      = Inr ''completed''"
    by code_simp
  from cycle_integrated_needs_validation [OF this] show ?thesis by simp
qed

text \<open>
  No state of either machine is a dead end: an operator can bring the portfolio
  from any state to any other by declared transitions, and every state of a feature cycle
  still has a run to \<^verbatim>\<open>completed\<close>.
\<close>

theorem machines_never_stuck:
  "(\<forall>s \<in> set PORTFOLIO_STATES. \<forall>t \<in> set PORTFOLIO_STATES. \<exists>path. run PORTFOLIO_MACHINE s path = Inr t)
   \<and> (\<forall>s \<in> set CYCLE_STATES. \<exists>path. run CYCLE_MACHINE s path = Inr ''completed'')"
proof (intro conjI ballI)
  fix s t assume "s \<in> set PORTFOLIO_STATES" "t \<in> set PORTFOLIO_STATES"
  then obtain p where p: "(t, p) \<in> set portfolio_routes" using portfolio_routes_ok(1) by force
  have "run PORTFOLIO_MACHINE s ([''paused'', ''discover''] @ p) = Inr t"
    using \<open>s \<in> _\<close> p portfolio_routes_ok(2,3) unfolding run_append list_all_iff by fastforce
  then show "\<exists>path. run PORTFOLIO_MACHINE s path = Inr t" by blast
next
  fix s assume "s \<in> set CYCLE_STATES"
  then obtain p where "(s, p) \<in> set cycle_routes" using cycle_routes_ok(1) by force
  then show "\<exists>path. run CYCLE_MACHINE s path = Inr ''completed''"
    using cycle_routes_ok(2) unfolding list_all_iff by fastforce
qed

theorem machines_never_stuck_witness:
  "(\<exists>path. run PORTFOLIO_MACHINE ''disabled'' path = Inr ''next_milestone'')
   \<and> (\<exists>path. run CYCLE_MACHINE ''failed'' path = Inr ''completed'')"
proof -
  have "''disabled'' \<in> set PORTFOLIO_STATES" "''next_milestone'' \<in> set PORTFOLIO_STATES"
    "''failed'' \<in> set CYCLE_STATES"
    by code_simp+
  then show ?thesis using machines_never_stuck by blast
qed

end
