(* ===== verification/Json.thy ===== *)
theory Json
  imports Prelude
begin

section \<open>JSON values as Python objects\<close>

text \<open>
  The dynamically typed values the controller stores and compares: what
  \<^verbatim>\<open>json.loads\<close> returns. A dictionary is an association list in insertion order; the
  values that occur in a running program have distinct keys (\<open>json_wf\<close>). A
  \<^verbatim>\<open>float\<close> is its \<^verbatim>\<open>repr\<close>, which determines it.
  \<^item> \<open>truthy\<close> is \<^verbatim>\<open>bool(v)\<close>, \<open>py_eq\<close> is \<^verbatim>\<open>==\<close> (dictionaries
    compare without regard to order, \<^verbatim>\<open>True == 1\<close>), \<open>py_str\<close> is
    \<^verbatim>\<open>str(v)\<close>, \<open>is_int\<close> is \<^verbatim>\<open>isinstance(v, int)\<close>, which holds of
    Booleans.
  \<^item> \<open>oget\<close> is \<^verbatim>\<open>d.get(k)\<close>, \<open>oset\<close> is \<^verbatim>\<open>d[k] = v\<close>,
    \<open>oupdate\<close> is \<^verbatim>\<open>d.update(e)\<close> and \<^verbatim>\<open>{**d, **e}\<close>.
  \<^item> \<open>dumps\<close> is \<^verbatim>\<open>json.dumps(v, sort_keys=True, separators=(",", ":"),
    ensure_ascii=False)\<close>.
\<close>

datatype json =
    JNull
  | JBool bool
  | JInt int
  | JFloat string
  | JStr string
  | JArr "json list"
  | JObj "(string \<times> json) list"

type_synonym obj = "(string \<times> json) list"

subsection \<open>Type tests and truth\<close>

fun truthy :: "json \<Rightarrow> bool" where
  "truthy JNull = False"
| "truthy (JBool b) = b"
| "truthy (JInt i) = (i \<noteq> 0)"
| "truthy (JFloat r) = (r \<noteq> ''0.0'' \<and> r \<noteq> ''-0.0'')"
| "truthy (JStr s) = (s \<noteq> [])"
| "truthy (JArr xs) = (xs \<noteq> [])"
| "truthy (JObj kvs) = (kvs \<noteq> [])"

fun is_str :: "json \<Rightarrow> bool" where
  "is_str (JStr _) = True" | "is_str _ = False"

fun is_bool :: "json \<Rightarrow> bool" where
  "is_bool (JBool _) = True" | "is_bool _ = False"

fun is_int :: "json \<Rightarrow> bool" where
  "is_int (JInt _) = True" | "is_int (JBool _) = True" | "is_int _ = False"

text \<open>\<^verbatim>\<open>type(v) is int\<close>, which does not hold of Booleans\<close>

fun is_exact_int :: "json \<Rightarrow> bool" where
  "is_exact_int (JInt _) = True" | "is_exact_int _ = False"

fun is_float :: "json \<Rightarrow> bool" where
  "is_float (JFloat _) = True" | "is_float _ = False"

fun is_list :: "json \<Rightarrow> bool" where
  "is_list (JArr _) = True" | "is_list _ = False"

fun is_dict :: "json \<Rightarrow> bool" where
  "is_dict (JObj _) = True" | "is_dict _ = False"

fun str_of :: "json \<Rightarrow> string option" where
  "str_of (JStr s) = Some s" | "str_of _ = None"

fun obj_of :: "json \<Rightarrow> obj option" where
  "obj_of (JObj kvs) = Some kvs" | "obj_of _ = None"

fun arr_of :: "json \<Rightarrow> json list option" where
  "arr_of (JArr xs) = Some xs" | "arr_of _ = None"

fun int_of :: "json \<Rightarrow> int option" where
  "int_of (JInt i) = Some i" | "int_of (JBool b) = Some (of_bool b)" | "int_of _ = None"

definition nonempty_str :: "json \<Rightarrow> bool" where
  "nonempty_str v = (case v of JStr s \<Rightarrow> s \<noteq> [] | _ \<Rightarrow> False)"

definition nonblank_str :: "json \<Rightarrow> bool" where
  "nonblank_str v = (case v of JStr s \<Rightarrow> nonblank s | _ \<Rightarrow> False)"

text \<open>\<^verbatim>\<open>a or b\<close>\<close>

definition jor :: "json \<Rightarrow> json \<Rightarrow> json" where
  "jor a b = (if truthy a then a else b)"

fun of_opt :: "string option \<Rightarrow> json" where
  "of_opt None = JNull" | "of_opt (Some s) = JStr s"

definition strs :: "string list \<Rightarrow> json" where
  "strs xs = JArr (map JStr xs)"

text \<open>\<^verbatim>\<open>iter(v)\<close>: the elements of a list, the keys of a dictionary, the characters of a text\<close>

fun elements :: "json \<Rightarrow> json list res" where
  "elements (JArr xs) = Inr xs"
| "elements (JObj kvs) = Inr (map (\<lambda>kv. JStr (fst kv)) kvs)"
| "elements (JStr s) = Inr (map (\<lambda>c. JStr [c]) s)"
| "elements _ = raise TypeError ''object is not iterable''"

lemma is_str_iff: "is_str v \<longleftrightarrow> (\<exists>s. v = JStr s)" by (cases v) auto
lemma is_exact_int_iff: "is_exact_int v \<longleftrightarrow> (\<exists>i. v = JInt i)" by (cases v) auto
lemma is_list_iff: "is_list v \<longleftrightarrow> (\<exists>xs. v = JArr xs)" by (cases v) auto
lemma is_dict_iff: "is_dict v \<longleftrightarrow> (\<exists>kvs. v = JObj kvs)" by (cases v) auto
lemma str_of_iff [simp]: "str_of v = Some s \<longleftrightarrow> v = JStr s" by (cases v) auto
lemma obj_of_iff [simp]: "obj_of v = Some kvs \<longleftrightarrow> v = JObj kvs" by (cases v) auto
lemma arr_of_iff [simp]: "arr_of v = Some xs \<longleftrightarrow> v = JArr xs" by (cases v) auto

lemma str_of_None: "str_of v = None \<longleftrightarrow> \<not> is_str v" by (cases v) auto
lemma obj_of_None: "obj_of v = None \<longleftrightarrow> \<not> is_dict v" by (cases v) auto

lemma nonempty_str_JStr [simp]: "nonempty_str (JStr s) \<longleftrightarrow> s \<noteq> []"
  by (simp add: nonempty_str_def)

lemma nonempty_str_iff: "nonempty_str v \<longleftrightarrow> (\<exists>s. v = JStr s \<and> s \<noteq> [])"
  by (cases v) (auto simp: nonempty_str_def)

lemma nonblank_str_iff: "nonblank_str v \<longleftrightarrow> (\<exists>s. v = JStr s \<and> nonblank s)"
  by (cases v) (auto simp: nonblank_str_def)

lemma nonblank_str_JStr [simp]: "nonblank_str (JStr s) \<longleftrightarrow> nonblank s"
  by (simp add: nonblank_str_def)

lemma of_opt_inject [simp]: "of_opt a = of_opt b \<longleftrightarrow> a = b"
  by (cases a; cases b) auto

subsection \<open>Dictionaries\<close>

definition oget :: "obj \<Rightarrow> string \<Rightarrow> json" where
  "oget d k = (case map_of d k of None \<Rightarrow> JNull | Some v \<Rightarrow> v)"

definition oget_or :: "obj \<Rightarrow> string \<Rightarrow> json \<Rightarrow> json" where
  "oget_or d k v = (case map_of d k of None \<Rightarrow> v | Some w \<Rightarrow> w)"

definition ohas :: "obj \<Rightarrow> string \<Rightarrow> bool" where
  "ohas d k \<longleftrightarrow> k \<in> set (map fst d)"

abbreviation oset :: "string \<Rightarrow> json \<Rightarrow> obj \<Rightarrow> obj" where
  "oset \<equiv> aset"

definition oupdate :: "obj \<Rightarrow> obj \<Rightarrow> obj" where
  "oupdate d e = foldl (\<lambda>acc kv. oset (fst kv) (snd kv) acc) d e"

text \<open>\<^verbatim>\<open>d[k]\<close>\<close>

definition osub :: "obj \<Rightarrow> string \<Rightarrow> json res" where
  "osub d k = (case map_of d k of None \<Rightarrow> raise KeyError k | Some v \<Rightarrow> Inr v)"

text \<open>\<^verbatim>\<open>(v or {}).get(k)\<close>, where a value that is not a dictionary has no
  \<^verbatim>\<open>get\<close>\<close>

definition jget :: "json \<Rightarrow> string \<Rightarrow> json res" where
  "jget v k = (case v of JObj d \<Rightarrow> Inr (oget d k) | _ \<Rightarrow> raise AttributeError ''get'')"

lemma ohas_iff: "ohas d k \<longleftrightarrow> map_of d k \<noteq> None"
  by (simp add: ohas_def map_of_eq_None_iff)

lemma oget_oset [simp]: "oget (oset k v d) k' = (if k' = k then v else oget d k')"
  by (simp add: oget_def)

lemma oget_Nil [simp]: "oget [] k = JNull"
  by (simp add: oget_def)

lemma oget_Cons [simp]: "oget ((k, v) # d) k' = (if k' = k then v else oget d k')"
  by (simp add: oget_def)

lemma ohas_Cons [simp]: "ohas ((k, v) # d) k' \<longleftrightarrow> k' = k \<or> ohas d k'"
  by (auto simp: ohas_def)

lemma ohas_Nil [simp]: "\<not> ohas [] k"
  by (simp add: ohas_def)

lemma not_ohas_oget: "\<not> ohas d k \<Longrightarrow> oget d k = JNull"
  by (simp add: ohas_iff oget_def)

lemma osub_Inr [simp]: "osub d k = Inr v \<longleftrightarrow> map_of d k = Some v"
  by (auto simp: osub_def split: option.splits)

lemma map_of_oupdate:
  "map_of (oupdate d e) k = (case map_of (rev e) k of None \<Rightarrow> map_of d k | Some v \<Rightarrow> Some v)"
proof (induction e rule: rev_induct)
  case Nil
  then show ?case by (simp add: oupdate_def)
next
  case (snoc kv e)
  then show ?case by (auto simp: oupdate_def split: option.splits)
qed

lemma map_of_oupdate_distinct:
  assumes "distinct (map fst e)"
  shows "map_of (oupdate d e) = map_of d ++ map_of e"
proof
  fix k
  have "map_of (rev e) = map_of e"
    using assms by (metis distinct_rev map_of_inject_set rev_map set_rev)
  then show "map_of (oupdate d e) k = (map_of d ++ map_of e) k"
    by (simp add: map_of_oupdate map_add_def)
qed

lemma oupdate_Nil [simp]: "oupdate d [] = d"
  by (simp add: oupdate_def)

lemma distinct_oupdate: "distinct (map fst d) \<Longrightarrow> distinct (map fst (oupdate d e))"
proof (induction e arbitrary: d)
  case Nil
  then show ?case by simp
next
  case (Cons kv e)
  from Cons.prems have "distinct (map fst (oset (fst kv) (snd kv) d))"
    by (rule distinct_aset)
  from Cons.IH [OF this] show ?case by (simp add: oupdate_def)
qed

subsection \<open>Well-formed values, equality\<close>

fun json_wf :: "json \<Rightarrow> bool" where
  "json_wf (JArr xs) = list_all json_wf xs"
| "json_wf (JObj kvs) = (distinct (map fst kvs) \<and> list_all (\<lambda>kv. json_wf (snd kv)) kvs)"
| "json_wf _ = True"

fun num_eq :: "int \<Rightarrow> json \<Rightarrow> bool" where
  "num_eq i (JBool b) = (i = of_bool b)"
| "num_eq i (JInt j) = (i = j)"
| "num_eq i (JFloat r) = (r = show_int i @ ''.0'' \<or> (i = 0 \<and> r = ''-0.0''))"
| "num_eq i _ = False"

fun float_eq :: "string \<Rightarrow> json \<Rightarrow> bool" where
  "float_eq r (JBool b) = num_eq (of_bool b) (JFloat r)"
| "float_eq r (JInt j) = num_eq j (JFloat r)"
| "float_eq r (JFloat q) =
     ((r = q \<and> r \<noteq> ''nan'') \<or> (r \<in> {''0.0'', ''-0.0''} \<and> q \<in> {''0.0'', ''-0.0''}))"
| "float_eq r _ = False"

fun py_eq :: "json \<Rightarrow> json \<Rightarrow> bool" where
  "py_eq JNull w = (w = JNull)"
| "py_eq (JBool b) w = num_eq (of_bool b) w"
| "py_eq (JInt i) w = num_eq i w"
| "py_eq (JFloat r) w = float_eq r w"
| "py_eq (JStr s) w = (w = JStr s)"
| "py_eq (JArr xs) w = (case w of JArr ys \<Rightarrow> list_all2 py_eq xs ys | _ \<Rightarrow> False)"
| "py_eq (JObj xs) w =
     (case w of
        JObj ys \<Rightarrow> length xs = length ys
          \<and> list_all (\<lambda>kv. case map_of ys (fst kv) of None \<Rightarrow> False | Some u \<Rightarrow> py_eq (snd kv) u) xs
      | _ \<Rightarrow> False)"

lemma num_eq_JStr [simp]: "\<not> num_eq i (JStr s)" "\<not> num_eq i JNull" by simp_all

lemma py_eq_JStr_right [simp]: "py_eq v (JStr s) \<longleftrightarrow> v = JStr s"
  by (cases v) auto

lemma py_eq_JNull_right [simp]: "py_eq v JNull \<longleftrightarrow> v = JNull"
  by (cases v) auto

lemma py_eq_of_opt [simp]: "py_eq (of_opt a) v \<longleftrightarrow> v = of_opt a"
  by (cases a) auto

subsection \<open>Text of a value\<close>

definition hex_digit :: "nat \<Rightarrow> char" where
  "hex_digit n = ''0123456789abcdef'' ! n"

definition esc_char :: "char \<Rightarrow> string" where
  "esc_char c = (let n = of_char c :: nat in
     if n = 34 \<or> n = 92 then [CHR 92, c]
     else if n = 10 then [CHR 92, CHR ''n'']
     else if n = 13 then [CHR 92, CHR ''r'']
     else if n = 9 then [CHR 92, CHR ''t'']
     else if n = 8 then [CHR 92, CHR ''b'']
     else if n = 12 then [CHR 92, CHR ''f'']
     else if n < 32 then [CHR 92, CHR ''u'', CHR ''0'', CHR ''0'', hex_digit (n div 16), hex_digit (n mod 16)]
     else [c])"

definition dumps_str :: "string \<Rightarrow> string" where
  "dumps_str s = CHR 34 # concat (map esc_char s) @ [CHR 34]"

definition dumps_float :: "string \<Rightarrow> string" where
  "dumps_float r = (if r = ''nan'' then ''NaN'' else if r = ''inf'' then ''Infinity''
     else if r = ''-inf'' then ''-Infinity'' else r)"

fun dumps :: "json \<Rightarrow> string" where
  "dumps JNull = ''null''"
| "dumps (JBool b) = (if b then ''true'' else ''false'')"
| "dumps (JInt i) = show_int i"
| "dumps (JFloat r) = dumps_float r"
| "dumps (JStr s) = dumps_str s"
| "dumps (JArr xs) = ''['' @ join '','' (map dumps xs) @ '']''"
| "dumps (JObj kvs) =
     ''{'' @ join '','' (map snd (sort_key fst
        (map (\<lambda>kv. (fst kv, dumps_str (fst kv) @ '':'' @ dumps (snd kv))) kvs))) @ ''}''"

declare dumps.simps(7) [simp del]

text \<open>\<^verbatim>\<open>json.dumps\<close> with its default \<^verbatim>\<open>ensure_ascii=True\<close>: a text, and a value with its keys
  sorted, where everything outside the printable ASCII characters is escaped\<close>

definition ascii_char :: "char \<Rightarrow> string" where
  "ascii_char c = (let n = of_char c :: nat in
     if n < 127 then esc_char c
     else [CHR 92, CHR ''u'', CHR ''0'', CHR ''0'', hex_digit (n div 16), hex_digit (n mod 16)])"

definition ascii_str :: "string \<Rightarrow> string" where
  "ascii_str s = CHR 34 # concat (map ascii_char s) @ [CHR 34]"

definition escape_ascii :: "char \<Rightarrow> string" where
  "escape_ascii c = (let n = of_char c :: nat in
     if n < 127 then [c]
     else [CHR 92, CHR ''u'', CHR ''0'', CHR ''0'', hex_digit (n div 16), hex_digit (n mod 16)])"

definition dumps_ascii :: "json \<Rightarrow> string" where
  "dumps_ascii v = concat (map escape_ascii (dumps v))"

text \<open>\<^verbatim>\<open>repr\<close> of text: single quotes unless the text holds single quotes only\<close>

definition repr_char :: "char \<Rightarrow> char \<Rightarrow> string" where
  "repr_char q c = (let n = of_char c :: nat in
     if c = q \<or> n = 92 then [CHR 92, c]
     else if n = 10 then [CHR 92, CHR ''n'']
     else if n = 13 then [CHR 92, CHR ''r'']
     else if n = 9 then [CHR 92, CHR ''t'']
     else if n < 32 \<or> (127 \<le> n \<and> n \<le> 160) \<or> n = 173
       then [CHR 92, CHR ''x'', hex_digit (n div 16), hex_digit (n mod 16)]
     else [c])"

definition repr_str :: "string \<Rightarrow> string" where
  "repr_str s = (let q = (if CHR 39 \<in> set s \<and> CHR 34 \<notin> set s then CHR 34 else CHR 39)
     in q # concat (map (repr_char q) s) @ [q])"

fun py_repr :: "json \<Rightarrow> string" where
  "py_repr JNull = ''None''"
| "py_repr (JBool b) = (if b then ''True'' else ''False'')"
| "py_repr (JInt i) = show_int i"
| "py_repr (JFloat r) = r"
| "py_repr (JStr s) = repr_str s"
| "py_repr (JArr xs) = ''['' @ join '', '' (map py_repr xs) @ '']''"
| "py_repr (JObj kvs) =
     ''{'' @ join '', '' (map (\<lambda>kv. repr_str (fst kv) @ '': '' @ py_repr (snd kv)) kvs) @ ''}''"

definition py_str :: "json \<Rightarrow> string" where
  "py_str v = (case v of JStr s \<Rightarrow> s | _ \<Rightarrow> py_repr v)"

lemma py_str_JStr [simp]: "py_str (JStr s) = s"
  by (simp add: py_str_def)

end
