(* ===== verification/Warning_Evidence.thy ===== *)
theory Warning_Evidence
  imports Json
begin

section \<open>Warning evidence at the queue-validation boundary\<close>

text \<open>
  \<^verbatim>\<open>warning_evidence.py\<close>. \<open>normalize_warning_evidence\<close> turns one of three accepted
  shapes (structured, deterministic, one explicitly authorised legacy summary) into a
  \<open>warning_evidence\<close> record or raises \<^verbatim>\<open>WarningEvidenceError\<close>;
  \<open>compare_warning_evidence\<close> compares a structured claim with the deterministic evidence.
  The lemmas give the invariant of every accepted record (\<open>warning_ok\<close>) and the exact
  meaning of an empty list of disagreements.
\<close>

record warning_evidence =
  we_warning_count :: "int option"
  we_warnings_scope :: "string option"
  we_blocking_warnings :: "string list"
  we_explicit_warnings :: "string list option"
  we_legacy_summary :: bool

abbreviation warning_error :: "string \<Rightarrow> 'a res" where
  "warning_error \<equiv> raise WarningEvidenceError"

definition string_array :: "json \<Rightarrow> string \<Rightarrow> string list res" where
  "string_array value field =
     (case value of
        JArr items \<Rightarrow>
          if list_all nonempty_str items then Inr (List.map_filter str_of items)
          else warning_error (''queue validation '' @ field @ '' must be a string array'')
      | _ \<Rightarrow> warning_error (''queue validation '' @ field @ '' must be a string array''))"

text \<open>The two results of reading \<^verbatim>\<open>warnings\<close>: the explicit list and the summary.\<close>

definition read_warnings :: "obj \<Rightarrow> string \<Rightarrow> string option \<Rightarrow> (string list option \<times> string option) res" where
  "read_warnings value source legacy_summary =
     (if ohas value ''warnings'' then
        (let raw = oget value ''warnings'' in
         if is_list raw then rbind (string_array raw ''warnings'') (\<lambda>ws. Inr (Some ws, None))
         else if source = ''structured'' \<and> is_str raw \<and> legacy_summary \<noteq> None \<and> str_of raw = legacy_summary
           then Inr (None, legacy_summary)
         else warning_error ''queue validation warnings must be a string array'')
      else if source = ''deterministic'' then
        warning_error ''deterministic queue validation warnings must be a string array''
      else Inr (None, None))"

definition read_warning_count ::
  "obj \<Rightarrow> string \<Rightarrow> string list option \<Rightarrow> string option \<Rightarrow> int option res" where
  "read_warning_count value source explicit_warnings warning_summary =
     (case oget value ''warning_count'' of
        JNull \<Rightarrow>
          if source = ''structured'' \<and> warning_summary = None
          then warning_error ''queue validation warning_count is required''
          else Inr (map_option (\<lambda>ws. int (length ws)) explicit_warnings)
      | JInt n \<Rightarrow>
          if n < 0 then warning_error ''queue validation warning_count must be a non-negative integer''
          else Inr (Some n)
      | _ \<Rightarrow> warning_error ''queue validation warning_count must be a non-negative integer'')"

definition normalize_warning_evidence ::
  "json \<Rightarrow> string \<Rightarrow> string option \<Rightarrow> warning_evidence res" where
  "normalize_warning_evidence v source legacy_summary =
     (case v of
        JObj value \<Rightarrow>
          if source \<notin> {''structured'', ''deterministic''} then warning_error ''warning evidence source is invalid''
          else
          rbind (read_warnings value source legacy_summary) (\<lambda>(explicit_warnings, warning_summary).
          rbind (read_warning_count value source explicit_warnings warning_summary) (\<lambda>warning_count.
          rbind (check (\<not> (explicit_warnings \<noteq> None \<and> warning_count \<noteq> None
                   \<and> warning_count \<noteq> map_option (\<lambda>ws. int (length ws)) explicit_warnings))
                   WarningEvidenceError ''queue validation warning_count disagrees with warnings'') (\<lambda>_.
          let scope = oget value ''warnings_scope'' in
          rbind (check (\<not> (scope \<noteq> JNull \<and> \<not> nonblank_str scope))
                   WarningEvidenceError ''queue validation warnings_scope must be a non-empty string'') (\<lambda>_.
          rbind (check (\<not> (source = ''deterministic'' \<and> \<not> ohas value ''blocking_warnings''))
                   WarningEvidenceError
                   ''deterministic queue validation blocking_warnings must be a string array'') (\<lambda>_.
          rbind (string_array (oget_or value ''blocking_warnings'' (JArr [])) ''blocking_warnings'') (\<lambda>blocking.
          rbind (check (distinct blocking)
                   WarningEvidenceError ''queue validation blocking_warnings contains duplicates'') (\<lambda>_.
          rbind (check (case explicit_warnings of None \<Rightarrow> True | Some ws \<Rightarrow> set blocking \<subseteq> set ws)
                   WarningEvidenceError
                   ''queue validation blocking_warnings must be included in warnings'') (\<lambda>_.
          Inr \<lparr>we_warning_count = warning_count,
               we_warnings_scope = (if warning_summary \<noteq> None then warning_summary else str_of scope),
               we_blocking_warnings = sort blocking,
               we_explicit_warnings = explicit_warnings,
               we_legacy_summary = (warning_summary \<noteq> None)\<rparr>))))))))
      | _ \<Rightarrow> warning_error ''queue validation evidence must be an object'')"

record warning_comparison =
  wc_structured :: warning_evidence
  wc_deterministic :: warning_evidence
  wc_disagreements :: "string list"

definition warning_disagreements :: "warning_evidence \<Rightarrow> warning_evidence \<Rightarrow> string list" where
  "warning_disagreements s d =
     (if \<not> we_legacy_summary s \<and> we_warning_count s \<noteq> we_warning_count d then [''warning_count''] else [])
     @ (if we_blocking_warnings s \<noteq> we_blocking_warnings d then [''blocking_warnings''] else [])
     @ (if we_explicit_warnings s \<noteq> None \<and> we_explicit_warnings s \<noteq> we_explicit_warnings d
        then [''explicit_warnings''] else [])"

definition compare_warning_evidence :: "json \<Rightarrow> json \<Rightarrow> string option \<Rightarrow> warning_comparison res" where
  "compare_warning_evidence structured deterministic legacy_summary =
     rbind (normalize_warning_evidence structured ''structured'' legacy_summary) (\<lambda>s.
     rbind (normalize_warning_evidence deterministic ''deterministic'' None) (\<lambda>d.
     Inr \<lparr>wc_structured = s, wc_deterministic = d, wc_disagreements = warning_disagreements s d\<rparr>))"

text \<open>The canonical dictionary of a normalised record, in the shape the boundary reads.\<close>

definition warning_dict :: "warning_evidence \<Rightarrow> obj" where
  "warning_dict w =
     (case we_explicit_warnings w of None \<Rightarrow> [] | Some ws \<Rightarrow> [(''warnings'', strs ws)])
     @ [(''warning_count'', (case we_warning_count w of None \<Rightarrow> JNull | Some n \<Rightarrow> JInt n)),
        (''warnings_scope'', of_opt (we_warnings_scope w)),
        (''blocking_warnings'', strs (we_blocking_warnings w))]"

subsection \<open>What is accepted\<close>

lemma string_array_Inr:
  "string_array v f = Inr xs \<longleftrightarrow> v = strs xs \<and> [] \<notin> set xs"
proof
  assume "string_array v f = Inr xs"
  then obtain items where items: "v = JArr items" "list_all nonempty_str items"
    "xs = List.map_filter str_of items"
    by (cases v) (simp_all add: string_array_def split: if_splits)
  have "map JStr xs = items \<and> [] \<notin> set xs"
    using items(2) unfolding items(3)
    by (induction items) (auto simp: List.map_filter_simps nonempty_str_iff)
  then show "v = strs xs \<and> [] \<notin> set xs" using items(1) by (simp add: strs_def)
next
  assume *: "v = strs xs \<and> [] \<notin> set xs"
  have "List.map_filter str_of (map JStr xs) = xs"
    by (induction xs) (simp_all add: List.map_filter_simps)
  moreover have "list_all nonempty_str (map JStr xs)"
    using * by (auto simp: list_all_iff)
  ultimately show "string_array v f = Inr xs" using * by (simp add: string_array_def strs_def)
qed

definition warning_ok :: "string \<Rightarrow> warning_evidence \<Rightarrow> bool" where
  "warning_ok source w \<longleftrightarrow>
     sorted (we_blocking_warnings w) \<and> distinct (we_blocking_warnings w)
     \<and> [] \<notin> set (we_blocking_warnings w)
     \<and> (\<forall>n. we_warning_count w = Some n \<longrightarrow> 0 \<le> n)
     \<and> (\<forall>ws. we_explicit_warnings w = Some ws \<longrightarrow>
          we_warning_count w = Some (int (length ws)) \<and> set (we_blocking_warnings w) \<subseteq> set ws
          \<and> [] \<notin> set ws)
     \<and> (\<not> we_legacy_summary w \<longrightarrow> we_warning_count w \<noteq> None)
     \<and> (source = ''deterministic'' \<longrightarrow> we_explicit_warnings w \<noteq> None)
     \<and> (we_legacy_summary w \<longrightarrow> source = ''structured'' \<and> we_explicit_warnings w = None)"

lemma read_warnings_Inr:
  assumes "read_warnings value source legacy = Inr (ex, summ)"
  shows "(\<forall>ws. ex = Some ws \<longrightarrow> [] \<notin> set ws \<and> summ = None)
    \<and> (source = ''deterministic'' \<longrightarrow> ex \<noteq> None)
    \<and> (summ \<noteq> None \<longrightarrow> source = ''structured'' \<and> ex = None \<and> summ = legacy)"
  using assms by (auto simp: read_warnings_def Let_def string_array_Inr split: if_splits)

lemma read_warning_count_Inr:
  assumes "read_warning_count value source ex summ = Inr c"
  shows "(\<forall>n. c = Some n \<longrightarrow> 0 \<le> n)
    \<and> (c = None \<longrightarrow> ex = None \<and> \<not> (source = ''structured'' \<and> summ = None))"
  using assms by (auto simp: read_warning_count_def split: json.splits if_splits)

lemma normalize_warning_evidence_JObj:
  assumes "normalize_warning_evidence v source legacy = Inr w"
  obtains d where "v = JObj d" "source \<in> {''structured'', ''deterministic''}"
  using assms
  by (cases v; cases "source \<in> {''structured'', ''deterministic''}")
     (simp_all add: normalize_warning_evidence_def)

lemma normalize_warning_evidence_cases:
  assumes "normalize_warning_evidence v source legacy = Inr w"
  obtains d ex summ c blocking where
    "v = JObj d" "source \<in> {''structured'', ''deterministic''}"
    "read_warnings d source legacy = Inr (ex, summ)"
    "read_warning_count d source ex summ = Inr c"
    "\<not> (ex \<noteq> None \<and> c \<noteq> None \<and> c \<noteq> map_option (\<lambda>ws. int (length ws)) ex)"
    "\<not> (oget d ''warnings_scope'' \<noteq> JNull \<and> \<not> nonblank_str (oget d ''warnings_scope''))"
    "oget_or d ''blocking_warnings'' (JArr []) = strs blocking" "[] \<notin> set blocking"
    "distinct blocking" "\<And>ws. ex = Some ws \<Longrightarrow> set blocking \<subseteq> set ws"
    "w = \<lparr>we_warning_count = c,
       we_warnings_scope = (if summ \<noteq> None then summ else str_of (oget d ''warnings_scope'')),
       we_blocking_warnings = sort blocking, we_explicit_warnings = ex,
       we_legacy_summary = (summ \<noteq> None)\<rparr>"
proof -
  obtain d where d: "v = JObj d" "source \<in> {''structured'', ''deterministic''}"
    using normalize_warning_evidence_JObj [OF assms] by metis
  show thesis
    using assms d(2) unfolding d(1) normalize_warning_evidence_def Let_def json.case
    apply (simp only: not_not simp_thms if_False if_True rbind_eq_Inr check_eq_Inr string_array_Inr split_paired_Ex prod.case sum.inject)
    apply (elim exE conjE)
    apply (rule that [OF d])
            apply (assumption | simp split: option.splits)+
    done
qed
lemma normalize_warning_evidence_sound:
  assumes "normalize_warning_evidence v source legacy = Inr w"
  shows "warning_ok source w"
  using assms
proof (rule normalize_warning_evidence_cases)
  fix d ex summ c blocking
  assume "read_warnings d source legacy = Inr (ex, summ)"
    "read_warning_count d source ex summ = Inr c"
    "\<not> (ex \<noteq> None \<and> c \<noteq> None \<and> c \<noteq> map_option (\<lambda>ws. int (length ws)) ex)"
    "[] \<notin> set blocking" "distinct blocking" "\<And>ws. ex = Some ws \<Longrightarrow> set blocking \<subseteq> set ws"
    "source \<in> {''structured'', ''deterministic''}"
    "w = \<lparr>we_warning_count = c,
       we_warnings_scope = (if summ \<noteq> None then summ else str_of (oget d ''warnings_scope'')),
       we_blocking_warnings = sort blocking, we_explicit_warnings = ex,
       we_legacy_summary = (summ \<noteq> None)\<rparr>"
  then show ?thesis
    using read_warnings_Inr [of d source legacy ex summ]
      read_warning_count_Inr [of d source ex summ c]
    by (cases ex; cases c) (auto simp: warning_ok_def)
qed

text \<open>A record the boundary can have produced, with a scope that survives being read again.\<close>

lemma ohas_warning_dict_blocking [simp]: "ohas (warning_dict w) ''blocking_warnings''"
  by (cases "we_explicit_warnings w") (simp_all add: warning_dict_def)

lemma normalize_warning_dict:
  assumes "warning_ok source w" "\<not> we_legacy_summary w" "source \<in> {''structured'', ''deterministic''}"
    and "\<And>s. we_warnings_scope w = Some s \<Longrightarrow> nonblank s"
  shows "normalize_warning_evidence (JObj (warning_dict w)) source None = Inr w"
proof -
  obtain n where n: "we_warning_count w = Some n" "0 \<le> n"
    using assms(1,2) by (auto simp: warning_ok_def)
  let ?d = "warning_dict w"
  have look: "oget ?d ''warning_count'' = JInt n" "oget ?d ''warnings_scope'' = of_opt (we_warnings_scope w)"
    "oget_or ?d ''blocking_warnings'' (JArr []) = strs (we_blocking_warnings w)"
    "ohas ?d ''blocking_warnings''"
    using n by (cases "we_explicit_warnings w"; simp add: warning_dict_def oget_or_def)+
  have rw: "read_warnings ?d source None = Inr (we_explicit_warnings w, None)"
    using assms(1,3)
    by (cases "we_explicit_warnings w")
       (auto simp: read_warnings_def warning_dict_def warning_ok_def strs_def
          string_array_Inr [unfolded strs_def])
  have rc: "read_warning_count ?d source (we_explicit_warnings w) None = Inr (Some n)"
    using n by (simp add: read_warning_count_def look)
  have sa: "string_array (strs (we_blocking_warnings w)) ''blocking_warnings'' = Inr (we_blocking_warnings w)"
    using assms(1) by (simp add: string_array_Inr warning_ok_def)
  have sc: "\<not> (of_opt (we_warnings_scope w) \<noteq> JNull \<and> \<not> nonblank_str (of_opt (we_warnings_scope w)))"
    "str_of (of_opt (we_warnings_scope w)) = we_warnings_scope w"
    using assms(4) by (cases "we_warnings_scope w"; auto)+
  show ?thesis
    using assms(1-3) n sc
    unfolding normalize_warning_evidence_def json.case look rw rbind_Inr prod.case rc Let_def sa
    by (cases "we_explicit_warnings w"; cases w)
       (auto simp: warning_ok_def look sa sort_key_id_if_sorted)
qed

text \<open>
  Normalisation of warning evidence is a canonical form: every accepted record is
  well formed (sorted, duplicate-free blocking warnings drawn from the explicit ones, a count
  that matches them), and for evidence that is not the legacy summary, writing the record out
  as a dictionary and normalising it again gives the same record.
\<close>

theorem normalize_warning_evidence_canonical:
  assumes "normalize_warning_evidence v source legacy = Inr w"
  shows "warning_ok source w \<and>
    (\<not> we_legacy_summary w \<longrightarrow> normalize_warning_evidence (JObj (warning_dict w)) source None = Inr w)"
proof -
  have scope: "nonblank s" if "\<not> we_legacy_summary w" "we_warnings_scope w = Some s" for s
    using that by (rule_tac normalize_warning_evidence_cases [OF assms]) (auto simp: nonblank_str_iff)
  show ?thesis
  proof (intro conjI impI)
    show ok: "warning_ok source w" by (rule normalize_warning_evidence_sound [OF assms])
    assume "\<not> we_legacy_summary w"
    then show "normalize_warning_evidence (JObj (warning_dict w)) source None = Inr w"
      using normalize_warning_dict [OF ok] scope normalize_warning_evidence_JObj [OF assms] by metis
  qed
qed

definition sample_warning_evidence :: obj where
  "sample_warning_evidence =
     [(''warnings'', strs [''b'', ''a'']), (''warning_count'', JInt 2),
      (''blocking_warnings'', strs [''b'', ''a''])]"

lemma sample_warning_evidence_ok:
  "normalize_warning_evidence (JObj sample_warning_evidence) ''deterministic'' None =
     Inr \<lparr>we_warning_count = Some 2, we_warnings_scope = None, we_blocking_warnings = [''a'', ''b''],
          we_explicit_warnings = Some [''b'', ''a''], we_legacy_summary = False\<rparr>"
  by code_simp

theorem normalize_warning_evidence_canonical_witness:
  "\<exists>w. we_blocking_warnings w = [''a'', ''b''] \<and> warning_ok ''deterministic'' w
     \<and> normalize_warning_evidence (JObj (warning_dict w)) ''deterministic'' None = Inr w"
  by (rule exI [of _ "\<lparr>we_warning_count = Some 2, we_warnings_scope = None,
        we_blocking_warnings = [''a'', ''b''], we_explicit_warnings = Some [''b'', ''a''],
        we_legacy_summary = False\<rparr>"])
     (use normalize_warning_evidence_canonical [OF sample_warning_evidence_ok] in simp)

text \<open>
  A structured claim that agrees with the deterministic evidence understates
  nothing: the deterministic evidence always carries its explicit warnings, the claimed count
  is their number, and the claimed blocking warnings are exactly the deterministic ones, each
  of them among the explicit warnings.
\<close>

theorem agreed_warnings_are_authoritative:
  assumes "compare_warning_evidence structured deterministic legacy = Inr r"
    and "wc_disagreements r = []" and "\<not> we_legacy_summary (wc_structured r)"
  shows "\<exists>ws. we_explicit_warnings (wc_deterministic r) = Some ws
    \<and> we_warning_count (wc_structured r) = Some (int (length ws))
    \<and> we_blocking_warnings (wc_structured r) = we_blocking_warnings (wc_deterministic r)
    \<and> set (we_blocking_warnings (wc_structured r)) \<subseteq> set ws"
proof -
  from assms(1) have s: "normalize_warning_evidence structured ''structured'' legacy = Inr (wc_structured r)"
    and d: "normalize_warning_evidence deterministic ''deterministic'' None = Inr (wc_deterministic r)"
    and dis: "wc_disagreements r = warning_disagreements (wc_structured r) (wc_deterministic r)"
    by (auto simp: compare_warning_evidence_def)
  have "warning_ok ''deterministic'' (wc_deterministic r)"
    by (rule normalize_warning_evidence_sound [OF d])
  then obtain ws where ws: "we_explicit_warnings (wc_deterministic r) = Some ws"
    "we_warning_count (wc_deterministic r) = Some (int (length ws))"
    "set (we_blocking_warnings (wc_deterministic r)) \<subseteq> set ws"
    by (auto simp: warning_ok_def)
  have "we_warning_count (wc_structured r) = we_warning_count (wc_deterministic r)"
    "we_blocking_warnings (wc_structured r) = we_blocking_warnings (wc_deterministic r)"
    using assms(2,3) unfolding dis by (auto simp: warning_disagreements_def split: if_splits)
  with ws show ?thesis by auto
qed

theorem agreed_warnings_are_authoritative_witness:
  "\<exists>r. compare_warning_evidence (JObj sample_warning_evidence) (JObj sample_warning_evidence) None = Inr r
     \<and> we_blocking_warnings (wc_structured r) = we_blocking_warnings (wc_deterministic r)"
proof -
  let ?c = "compare_warning_evidence (JObj sample_warning_evidence) (JObj sample_warning_evidence) None"
  have "\<not> isl ?c" "wc_disagreements (projr ?c) = []" "\<not> we_legacy_summary (wc_structured (projr ?c))"
    by code_simp+
  moreover from this have "?c = Inr (projr ?c)" by simp
  ultimately show ?thesis using agreed_warnings_are_authoritative by blast
qed

end
