(* ===== verification/Hashing.thy ===== *)
theory Hashing
  imports Json "HOL-Library.Word"
begin

section \<open>Fingerprints: UTF-8, SHA-256 and hexadecimal digests\<close>

text \<open>
  \<^verbatim>\<open>hashlib.sha256(text.encode("utf-8")).hexdigest()\<close>, written out from the SHA-256
  standard so that a fingerprint is a function of the value and nothing else. No theorem
  of the development assumes that the hash has no collisions: theorems that rest on it end
  in an explicit pair of values with the same fingerprint.
\<close>

unbundle bit_operations_syntax

definition utf8 :: "string \<Rightarrow> nat list" where
  "utf8 s = concat (map (\<lambda>c. let n = of_char c :: nat in
     if n < 128 then [n] else [192 + n div 64, 128 + n mod 64]) s)"

text \<open>The round constants, eight to a number.\<close>

definition sha256_k :: "32 word list" where
  "sha256_k = concat (map (\<lambda>n :: int. map (\<lambda>i. of_int (n div 2 ^ (32 * i) mod 2 ^ 32)) (rev [0..<8]))
    [0x428a2f9871374491b5c0fbcfe9b5dba53956c25b59f111f1923f82a4ab1c5ed5,
     0xd807aa9812835b01243185be550c7dc372be5d7480deb1fe9bdc06a7c19bf174,
     0xe49b69c1efbe47860fc19dc6240ca1cc2de92c6f4a7484aa5cb0a9dc76f988da,
     0x983e5152a831c66db00327c8bf597fc7c6e00bf3d5a7914706ca635114292967,
     0x27b70a852e1b21384d2c6dfc53380d13650a7354766a0abb81c2c92e92722c85,
     0xa2bfe8a1a81a664bc24b8b70c76c51a3d192e819d6990624f40e3585106aa070,
     0x19a4c1161e376c082748774c34b0bcb5391c0cb34ed8aa4a5b9cca4f682e6ff3,
     0x748f82ee78a5636f84c878148cc7020890befffaa4506cebbef9a3f7c67178f2])"

type_synonym sha_state =
  "32 word \<times> 32 word \<times> 32 word \<times> 32 word \<times> 32 word \<times> 32 word \<times> 32 word \<times> 32 word"

definition sha256_init :: sha_state where
  "sha256_init = (0x6a09e667, 0xbb67ae85, 0x3c6ef372, 0xa54ff53a,
                  0x510e527f, 0x9b05688c, 0x1f83d9ab, 0x5be0cd19)"

definition sha256_pad :: "nat list \<Rightarrow> nat list" where
  "sha256_pad bs = (let l = length bs in
     bs @ [128] @ replicate ((119 - l mod 64) mod 64) 0
        @ map (\<lambda>i. nat (8 * int l div 256 ^ i mod 256)) (rev [0..<8]))"

fun sha256_words :: "nat list \<Rightarrow> 32 word list" where
  "sha256_words (a # b # c # d # bs) =
     (of_nat a * 0x1000000 + of_nat b * 0x10000 + of_nat c * 0x100 + of_nat d) # sha256_words bs"
| "sha256_words _ = []"

definition ssig0 :: "32 word \<Rightarrow> 32 word" where
  "ssig0 x = word_rotr 7 x XOR word_rotr 18 x XOR drop_bit 3 x"

definition ssig1 :: "32 word \<Rightarrow> 32 word" where
  "ssig1 x = word_rotr 17 x XOR word_rotr 19 x XOR drop_bit 10 x"

definition bsig0 :: "32 word \<Rightarrow> 32 word" where
  "bsig0 x = word_rotr 2 x XOR word_rotr 13 x XOR word_rotr 22 x"

definition bsig1 :: "32 word \<Rightarrow> 32 word" where
  "bsig1 x = word_rotr 6 x XOR word_rotr 11 x XOR word_rotr 25 x"

text \<open>The message schedule, kept in reverse: the last word is the head.\<close>

fun sha256_schedule :: "nat \<Rightarrow> 32 word list \<Rightarrow> 32 word list" where
  "sha256_schedule 0 ws = ws"
| "sha256_schedule (Suc n) ws =
     sha256_schedule n ((ssig1 (ws ! 1) + ws ! 6 + ssig0 (ws ! 14) + ws ! 15) # ws)"

fun sha256_round :: "sha_state \<Rightarrow> 32 word \<times> 32 word \<Rightarrow> sha_state" where
  "sha256_round (a, b, c, d, e, f, g, h) (k, w) =
     (let t1 = h + bsig1 e + ((e AND f) XOR (NOT e AND g)) + k + w;
          t2 = bsig0 a + ((a AND b) XOR (a AND c) XOR (b AND c))
      in (t1 + t2, a, b, c, d + t1, e, f, g))"

fun sha_add :: "sha_state \<Rightarrow> sha_state \<Rightarrow> sha_state" where
  "sha_add (a, b, c, d, e, f, g, h) (a', b', c', d', e', f', g', h') =
     (a + a', b + b', c + c', d + d', e + e', f + f', g + g', h + h')"

definition sha256_block :: "sha_state \<Rightarrow> 32 word list \<Rightarrow> sha_state" where
  "sha256_block st ws =
     sha_add st (foldl sha256_round st (zip sha256_k (rev (sha256_schedule 48 (rev ws)))))"

function sha256_blocks :: "sha_state \<Rightarrow> 32 word list \<Rightarrow> sha_state" where
  "sha256_blocks st ws =
     (if ws = [] then st else sha256_blocks (sha256_block st (take 16 ws)) (drop 16 ws))"
  by pat_completeness auto
termination
  by (relation "measure (\<lambda>(st, ws). length ws)") auto

declare sha256_blocks.simps [simp del]

definition hex_word :: "32 word \<Rightarrow> string" where
  "hex_word w = map (\<lambda>i. hex_digit (unat (drop_bit (4 * i) w AND 15))) (rev [0..<8])"

text \<open>\<^verbatim>\<open>hashlib.sha256(data)\<close>: the eight words, \<^verbatim>\<open>hexdigest()\<close> and
  \<^verbatim>\<open>digest()\<close>\<close>

definition sha256_digest :: "nat list \<Rightarrow> 32 word list" where
  "sha256_digest bs =
     (case sha256_blocks sha256_init (sha256_words (sha256_pad bs)) of
        (a, b, c, d, e, f, g, h) \<Rightarrow> [a, b, c, d, e, f, g, h])"

definition sha256_bytes :: "nat list \<Rightarrow> string" where
  "sha256_bytes bs = concat (map hex_word (sha256_digest bs))"

definition sha256_raw :: "nat list \<Rightarrow> nat list" where
  "sha256_raw bs =
     concat (map (\<lambda>w. map (\<lambda>i. unat (drop_bit (8 * i) w AND 255)) (rev [0..<4])) (sha256_digest bs))"

definition sha256_hex :: "string \<Rightarrow> string" where
  "sha256_hex s = sha256_bytes (utf8 s)"

definition fingerprint_hex_chars :: "string" where
  "fingerprint_hex_chars = ''0123456789abcdef''"

lemma hex_digit_in: "n < 16 \<Longrightarrow> hex_digit n \<in> set fingerprint_hex_chars"
  unfolding hex_digit_def fingerprint_hex_chars_def by (rule nth_mem) simp

lemma low_nibble_less: "unat (x AND (15 :: 32 word)) < 16"
proof -
  have "unat (x AND 15) \<le> unat (15 :: 32 word)"
    by (rule word_and_le1 [THEN word_le_nat_alt [THEN iffD1]])
  then show ?thesis by simp
qed

lemma hex_word_chars: "set (hex_word w) \<subseteq> set fingerprint_hex_chars"
  by (auto simp: hex_word_def intro!: hex_digit_in low_nibble_less)

lemma length_hex_word [simp]: "length (hex_word w) = 8"
  by (simp add: hex_word_def)

text \<open>Every digest is 64 hexadecimal characters.\<close>

lemma length_sha256_digest [simp]: "length (sha256_digest bs) = 8"
  by (simp add: sha256_digest_def split: prod.split)

lemma length_sha256_bytes [simp]: "length (sha256_bytes bs) = 64"
  by (simp add: sha256_bytes_def length_concat comp_def sum_list_triv)

lemma sha256_bytes_chars: "set (sha256_bytes bs) \<subseteq> set fingerprint_hex_chars"
  using hex_word_chars by (fastforce simp: sha256_bytes_def)

lemma length_sha256_hex [simp]: "length (sha256_hex s) = 64"
  by (simp add: sha256_hex_def)

lemma sha256_hex_chars: "set (sha256_hex s) \<subseteq> set fingerprint_hex_chars"
  by (simp add: sha256_hex_def sha256_bytes_chars)

end
