(* ===== verification/Contracts.thy ===== *)
theory Contracts
  imports Hashing Warning_Evidence
begin

section \<open>Typed contracts shared by every writable workflow\<close>

text \<open>
  \<^verbatim>\<open>contracts.py\<close>: the enumerations and their tables, the human gate, the mutation
  policy, the repository snapshot, the phase transaction with its life cycle, and the
  session-result envelope. Enumerations are datatypes with the source's member names;
  \<open>workflow_value\<close> and its kin give the \<^verbatim>\<open>.value\<close> and \<open>parse_workflow\<close> is the
  call \<^verbatim>\<open>WorkflowType(v)\<close>. The transaction states are ordered by their place in the
  life cycle (an instance of \<^verbatim>\<open>linorder\<close>), which makes progress a matter of
  comparison.
\<close>

subsection \<open>Enumerations\<close>

datatype workflow_type =
    QUEUE_RECONCILIATION | FEATURE_PREPARATION | FEATURE_EXECUTION | FEATURE_ACCEPTANCE
  | MILESTONE_INTEGRATION | MILESTONE_GATE | HUMAN_DECISION_RESOLUTION | RECOVERY

fun workflow_value :: "workflow_type \<Rightarrow> string" where
  "workflow_value QUEUE_RECONCILIATION = ''queue_reconciliation''"
| "workflow_value FEATURE_PREPARATION = ''feature_preparation''"
| "workflow_value FEATURE_EXECUTION = ''feature_execution''"
| "workflow_value FEATURE_ACCEPTANCE = ''feature_acceptance''"
| "workflow_value MILESTONE_INTEGRATION = ''milestone_integration''"
| "workflow_value MILESTONE_GATE = ''milestone_gate''"
| "workflow_value HUMAN_DECISION_RESOLUTION = ''human_decision_resolution''"
| "workflow_value RECOVERY = ''recovery''"

definition all_workflows :: "workflow_type list" where
  "all_workflows =
    [QUEUE_RECONCILIATION, FEATURE_PREPARATION, FEATURE_EXECUTION, FEATURE_ACCEPTANCE,
     MILESTONE_INTEGRATION, MILESTONE_GATE, HUMAN_DECISION_RESOLUTION, RECOVERY]"

definition parse_workflow :: "json \<Rightarrow> workflow_type res" where
  "parse_workflow v =
     (case List.find (\<lambda>w. v = JStr (workflow_value w)) all_workflows of
        None \<Rightarrow> raise ValueError ''not a valid WorkflowType'' | Some w \<Rightarrow> Inr w)"

lemma all_workflows_all [simp]: "w \<in> set all_workflows"
  by (cases w) (simp_all add: all_workflows_def)

lemma workflow_value_inject [simp]: "workflow_value a = workflow_value b \<longleftrightarrow> a = b"
  by (cases a; cases b; simp)

lemma workflow_value_nonempty [simp]: "workflow_value w \<noteq> []"
  by (cases w) simp_all

lemma parse_workflow_value [simp]: "parse_workflow (JStr (workflow_value w)) = Inr w"
  by (cases w) (simp_all add: parse_workflow_def all_workflows_def)

lemma parse_workflow_Inr: "parse_workflow v = Inr w \<longleftrightarrow> v = JStr (workflow_value w)"
proof
  assume "parse_workflow v = Inr w"
  then show "v = JStr (workflow_value w)"
    by (auto simp: parse_workflow_def dest: find_SomeD split: option.splits)
qed simp

datatype transaction_state =
    CREATED | LEASE_PENDING | ACTIVE | RESULT_PENDING | VALIDATING | FINALIZING
  | COMPLETED | BLOCKED | HUMAN_DECISION_REQUIRED | RETRYABLE_FAILURE | TERMINAL_FAILURE
  | SUPERSEDED

fun state_value :: "transaction_state \<Rightarrow> string" where
  "state_value CREATED = ''created''"
| "state_value LEASE_PENDING = ''lease_pending''"
| "state_value ACTIVE = ''active''"
| "state_value RESULT_PENDING = ''result_pending''"
| "state_value VALIDATING = ''validating''"
| "state_value FINALIZING = ''finalizing''"
| "state_value COMPLETED = ''completed''"
| "state_value BLOCKED = ''blocked''"
| "state_value HUMAN_DECISION_REQUIRED = ''human_decision_required''"
| "state_value RETRYABLE_FAILURE = ''retryable_failure''"
| "state_value TERMINAL_FAILURE = ''terminal_failure''"
| "state_value SUPERSEDED = ''superseded''"

definition TERMINAL_STATES :: "transaction_state list" where
  "TERMINAL_STATES = [COMPLETED, BLOCKED, HUMAN_DECISION_REQUIRED, RETRYABLE_FAILURE,
     TERMINAL_FAILURE, SUPERSEDED]"

definition non_completed_terminals :: "transaction_state list" where
  "non_completed_terminals = filter (\<lambda>s. s \<noteq> COMPLETED) TERMINAL_STATES"

fun ALLOWED_TRANSITIONS :: "transaction_state \<Rightarrow> transaction_state list" where
  "ALLOWED_TRANSITIONS CREATED = LEASE_PENDING # non_completed_terminals"
| "ALLOWED_TRANSITIONS LEASE_PENDING = ACTIVE # non_completed_terminals"
| "ALLOWED_TRANSITIONS ACTIVE = RESULT_PENDING # non_completed_terminals"
| "ALLOWED_TRANSITIONS RESULT_PENDING = VALIDATING # non_completed_terminals"
| "ALLOWED_TRANSITIONS VALIDATING = FINALIZING # non_completed_terminals"
| "ALLOWED_TRANSITIONS FINALIZING = COMPLETED # non_completed_terminals"
| "ALLOWED_TRANSITIONS _ = []"

text \<open>The place of a state in the life cycle: the members in their order of declaration.\<close>

fun state_index :: "transaction_state \<Rightarrow> nat" where
  "state_index CREATED = 0"
| "state_index LEASE_PENDING = 1"
| "state_index ACTIVE = 2"
| "state_index RESULT_PENDING = 3"
| "state_index VALIDATING = 4"
| "state_index FINALIZING = 5"
| "state_index COMPLETED = 6"
| "state_index BLOCKED = 7"
| "state_index HUMAN_DECISION_REQUIRED = 8"
| "state_index RETRYABLE_FAILURE = 9"
| "state_index TERMINAL_FAILURE = 10"
| "state_index SUPERSEDED = 11"

lemma state_index_inject: "state_index a = state_index b \<Longrightarrow> a = b"
  by (cases a; cases b; simp)

instantiation transaction_state :: linorder
begin

definition less_eq_transaction_state :: "transaction_state \<Rightarrow> transaction_state \<Rightarrow> bool" where
  "less_eq_transaction_state a b \<longleftrightarrow> state_index a \<le> state_index b"

definition less_transaction_state :: "transaction_state \<Rightarrow> transaction_state \<Rightarrow> bool" where
  "less_transaction_state a b \<longleftrightarrow> state_index a < state_index b"

instance
  by standard
     (auto simp: less_eq_transaction_state_def less_transaction_state_def intro: state_index_inject)

end

lemmas state_order = less_eq_transaction_state_def less_transaction_state_def

datatype lease_type =
  PLANNING_WRITER | FEATURE_WRITER | INTEGRATION_WRITER | MILESTONE_GATE_WRITER | RECOVERY_WRITER

fun lease_value :: "lease_type \<Rightarrow> string" where
  "lease_value PLANNING_WRITER = ''planning_writer''"
| "lease_value FEATURE_WRITER = ''feature_writer''"
| "lease_value INTEGRATION_WRITER = ''integration_writer''"
| "lease_value MILESTONE_GATE_WRITER = ''milestone_gate_writer''"
| "lease_value RECOVERY_WRITER = ''recovery_writer''"

definition all_lease_types :: "lease_type list" where
  "all_lease_types =
    [PLANNING_WRITER, FEATURE_WRITER, INTEGRATION_WRITER, MILESTONE_GATE_WRITER, RECOVERY_WRITER]"

definition parse_lease_type :: "json \<Rightarrow> lease_type res" where
  "parse_lease_type v =
     (case List.find (\<lambda>l. v = JStr (lease_value l)) all_lease_types of
        None \<Rightarrow> raise ValueError ''not a valid LeaseType'' | Some l \<Rightarrow> Inr l)"

lemma parse_lease_value [simp]: "parse_lease_type (JStr (lease_value l)) = Inr l"
  by (cases l) (simp_all add: parse_lease_type_def all_lease_types_def)

fun WORKFLOW_LEASE :: "workflow_type \<Rightarrow> lease_type" where
  "WORKFLOW_LEASE QUEUE_RECONCILIATION = PLANNING_WRITER"
| "WORKFLOW_LEASE FEATURE_PREPARATION = FEATURE_WRITER"
| "WORKFLOW_LEASE FEATURE_EXECUTION = FEATURE_WRITER"
| "WORKFLOW_LEASE FEATURE_ACCEPTANCE = FEATURE_WRITER"
| "WORKFLOW_LEASE MILESTONE_INTEGRATION = INTEGRATION_WRITER"
| "WORKFLOW_LEASE MILESTONE_GATE = MILESTONE_GATE_WRITER"
| "WORKFLOW_LEASE HUMAN_DECISION_RESOLUTION = RECOVERY_WRITER"
| "WORKFLOW_LEASE RECOVERY = RECOVERY_WRITER"

datatype command_category =
    CONFIGURED_REQUIRED_VALIDATION | KERNEL_REQUIRED_FINALIZATION | WORKFLOW_REQUIRED_EVIDENCE
  | OPTIONAL_DIAGNOSTIC | STATUS_OBSERVATION | UNSUPPORTED_COMMAND

fun category_value :: "command_category \<Rightarrow> string" where
  "category_value CONFIGURED_REQUIRED_VALIDATION = ''configured_required_validation''"
| "category_value KERNEL_REQUIRED_FINALIZATION = ''kernel_required_finalization''"
| "category_value WORKFLOW_REQUIRED_EVIDENCE = ''workflow_required_evidence''"
| "category_value OPTIONAL_DIAGNOSTIC = ''optional_diagnostic''"
| "category_value STATUS_OBSERVATION = ''status_observation''"
| "category_value UNSUPPORTED_COMMAND = ''unsupported_command''"

definition AUTHORITATIVE_COMMAND_CATEGORIES :: "command_category list" where
  "AUTHORITATIVE_COMMAND_CATEGORIES =
    [CONFIGURED_REQUIRED_VALIDATION, KERNEL_REQUIRED_FINALIZATION, WORKFLOW_REQUIRED_EVIDENCE]"

fun WORKFLOW_CLASSIFICATIONS :: "workflow_type \<Rightarrow> string list" where
  "WORKFLOW_CLASSIFICATIONS QUEUE_RECONCILIATION =
     [''RECONCILED_READY_WORK'', ''RECONCILED_NO_READY_WORK'', ''HUMAN_DECISION_REQUIRED'',
      ''MILESTONE_COMPLETE'',
      ''PLANNING_VALIDATION_FAILED'', ''PLANNING_SEMANTIC_CONFLICT'',
      ''RETRYABLE_PLANNING_FAILURE'', ''TERMINAL_PLANNING_FAILURE'']"
| "WORKFLOW_CLASSIFICATIONS FEATURE_PREPARATION =
     [''FEATURE_PREPARED'', ''FEATURE_VALIDATION_FAILED'', ''HUMAN_DECISION_REQUIRED'',
      ''RETRYABLE_FEATURE_FAILURE'', ''TERMINAL_FEATURE_FAILURE'']"
| "WORKFLOW_CLASSIFICATIONS FEATURE_EXECUTION =
     [''FEATURE_ACCEPTED'', ''FEATURE_REJECTED'', ''FEATURE_VALIDATION_FAILED'',
      ''HUMAN_DECISION_REQUIRED'', ''RETRYABLE_FEATURE_FAILURE'', ''TERMINAL_FEATURE_FAILURE'']"
| "WORKFLOW_CLASSIFICATIONS FEATURE_ACCEPTANCE =
     [''FEATURE_ACCEPTED'', ''FEATURE_REJECTED'', ''FEATURE_VALIDATION_FAILED'',
      ''HUMAN_DECISION_REQUIRED'', ''RETRYABLE_FEATURE_FAILURE'', ''TERMINAL_FEATURE_FAILURE'']"
| "WORKFLOW_CLASSIFICATIONS MILESTONE_INTEGRATION =
     [''INTEGRATED'', ''VALIDATION_FAILED'', ''HUMAN_DECISION_REQUIRED'', ''SEMANTIC_CONFLICT'',
      ''RETRYABLE_INTEGRATION_FAILURE'', ''TERMINAL_INTEGRATION_FAILURE'']"
| "WORKFLOW_CLASSIFICATIONS MILESTONE_GATE =
     [''MILESTONE_GATE_PASSED'', ''MILESTONE_GATE_FAILED'', ''HUMAN_DECISION_REQUIRED'',
      ''RETRYABLE_GATE_FAILURE'', ''TERMINAL_GATE_FAILURE'']"
| "WORKFLOW_CLASSIFICATIONS HUMAN_DECISION_RESOLUTION =
     [''HUMAN_GATE_RESOLVED'', ''HUMAN_DECISION_REQUIRED'', ''TERMINAL_RESOLUTION_FAILURE'']"
| "WORKFLOW_CLASSIFICATIONS RECOVERY =
     [''RECOVERY_APPLIED'', ''TRANSACTION_SUPERSEDED'', ''HUMAN_DECISION_REQUIRED'',
      ''RETRYABLE_RECOVERY_FAILURE'', ''TERMINAL_RECOVERY_FAILURE'']"

fun WORKFLOW_SUCCESS_CLASSIFICATIONS :: "workflow_type \<Rightarrow> string list" where
  "WORKFLOW_SUCCESS_CLASSIFICATIONS QUEUE_RECONCILIATION =
     [''RECONCILED_READY_WORK'', ''RECONCILED_NO_READY_WORK'', ''MILESTONE_COMPLETE'']"
| "WORKFLOW_SUCCESS_CLASSIFICATIONS FEATURE_PREPARATION = [''FEATURE_PREPARED'']"
| "WORKFLOW_SUCCESS_CLASSIFICATIONS FEATURE_EXECUTION = [''FEATURE_ACCEPTED'']"
| "WORKFLOW_SUCCESS_CLASSIFICATIONS FEATURE_ACCEPTANCE = [''FEATURE_ACCEPTED'']"
| "WORKFLOW_SUCCESS_CLASSIFICATIONS MILESTONE_INTEGRATION = [''INTEGRATED'']"
| "WORKFLOW_SUCCESS_CLASSIFICATIONS MILESTONE_GATE = [''MILESTONE_GATE_PASSED'']"
| "WORKFLOW_SUCCESS_CLASSIFICATIONS HUMAN_DECISION_RESOLUTION = [''HUMAN_GATE_RESOLVED'']"
| "WORKFLOW_SUCCESS_CLASSIFICATIONS RECOVERY = [''RECOVERY_APPLIED'']"

lemma success_is_classification:
  "set (WORKFLOW_SUCCESS_CLASSIFICATIONS w) \<subseteq> set (WORKFLOW_CLASSIFICATIONS w)"
  by (cases w) simp_all

text \<open>\<^verbatim>\<open>v in frozenset(names)\<close>: an unhashable value raises.\<close>

definition hash_in :: "json \<Rightarrow> string list \<Rightarrow> bool res" where
  "hash_in v names =
     (if is_list v \<or> is_dict v then raise TypeError ''unhashable type''
      else Inr (case v of JStr s \<Rightarrow> s \<in> set names | _ \<Rightarrow> False))"

lemma hash_in_JStr [simp]: "hash_in (JStr s) names = Inr (s \<in> set names)"
  by (simp add: hash_in_def)

lemma hash_in_True: "hash_in v names = Inr True \<longleftrightarrow> (\<exists>s. v = JStr s \<and> s \<in> set names)"
  by (cases v) (auto simp: hash_in_def)

subsection \<open>Identifiers, fingerprints, paths\<close>

definition alnum_char :: "char \<Rightarrow> bool" where
  "alnum_char c = (let n = of_char c :: nat in
     (48 \<le> n \<and> n \<le> 57) \<or> (65 \<le> n \<and> n \<le> 90) \<or> (97 \<le> n \<and> n \<le> 122))"

text \<open>\<^verbatim>\<open>SAFE_IDENTIFIER.fullmatch(s)\<close>\<close>

definition SAFE_IDENTIFIER :: "string \<Rightarrow> bool" where
  "SAFE_IDENTIFIER s =
     (case s of [] \<Rightarrow> False
      | c # cs \<Rightarrow> alnum_char c \<and> length cs \<le> 255
          \<and> list_all (\<lambda>d. alnum_char d \<or> d \<in> set ''._:-'') cs)"

definition fingerprint :: "json \<Rightarrow> string" where
  "fingerprint v = sha256_hex (dumps v)"

lemma length_fingerprint [simp]: "length (fingerprint v) = 64"
  by (simp add: fingerprint_def)

lemma fingerprint_nonempty [simp]: "fingerprint v \<noteq> []"
  by (metis length_fingerprint list.size(3) zero_neq_numeral)

text \<open>\<^verbatim>\<open>PurePosixPath(v).parts\<close> of a path that is not absolute, and its
  \<^verbatim>\<open>as_posix()\<close>\<close>

definition posix_parts :: "string \<Rightarrow> string list" where
  "posix_parts v = filter (\<lambda>p. p \<noteq> [] \<and> p \<noteq> ''.'') (split_on (CHR ''/'') v)"

definition as_posix :: "string \<Rightarrow> string" where
  "as_posix v = (if posix_parts v = [] then ''.'' else join ''/'' (posix_parts v))"

definition is_absolute :: "string \<Rightarrow> bool" where
  "is_absolute v = (case v of [] \<Rightarrow> False | c # _ \<Rightarrow> c = CHR ''/'')"

definition safe_path :: "string \<Rightarrow> bool" where
  "safe_path v \<longleftrightarrow> v \<noteq> [] \<and> \<not> is_absolute v \<and> ''..'' \<notin> set (posix_parts v) \<and> as_posix v = v"

definition safe_relative_path :: "string \<Rightarrow> string res" where
  "safe_relative_path v =
     (if v = [] \<or> is_absolute v \<or> ''..'' \<in> set (posix_parts v) \<or> as_posix v \<noteq> v
      then raise TransactionError ''unsafe repository-relative path'' else Inr v)"

lemma safe_relative_path_Inr [simp]: "safe_relative_path v = Inr w \<longleftrightarrow> safe_path v \<and> w = v"
  by (auto simp: safe_relative_path_def safe_path_def)

lemma rmap_safe_relative_path [simp]:
  "rmap safe_relative_path vs = Inr ws \<longleftrightarrow> list_all safe_path vs \<and> ws = vs"
  by (induction vs arbitrary: ws) auto

lemma rmap_safe_relative_path_ok: "list_all safe_path vs \<Longrightarrow> rmap safe_relative_path vs = Inr vs"
  by simp

definition rstrip_slash :: "string \<Rightarrow> string" where
  "rstrip_slash s = rev (dropWhile (\<lambda>c. c = CHR ''/'') (rev s))"

end
