(* ===== verification/Mutation_Policy.thy ===== *)
theory Mutation_Policy
  imports Contracts
begin

section \<open>The mutation policy of a transaction\<close>

text \<open>
  \<^verbatim>\<open>MutationPolicy\<close> of \<^verbatim>\<open>contracts.py\<close>: the paths a transaction may touch.
  \<open>make_policy\<close> is the constructor with its \<^verbatim>\<open>__post_init__\<close>,
  \<open>policy_validate\<close> the method \<^verbatim>\<open>validate\<close>, \<open>policy_dict\<close> is
  \<^verbatim>\<open>to_dict\<close>. The lemmas reduce the textual prefix test of the code to what it is
  meant to decide, containment in a directory component by component.
\<close>

record mutation_policy =
  allowed_paths :: "string list"
  allowed_prefixes :: "string list"
  denied_paths :: "string list"
  denied_prefixes :: "string list"
  allow_untracked :: bool
  require_clean_start :: bool
  commit_subject :: "string option"

definition normalized_paths :: "string list \<Rightarrow> string list res" where
  "normalized_paths items = rbind (rmap safe_relative_path items) (\<lambda>xs. Inr (sorted_set xs))"

definition make_policy :: "mutation_policy \<Rightarrow> mutation_policy res" where
  "make_policy p =
     rbind (normalized_paths (allowed_paths p)) (\<lambda>normalized.
     rbind (check (normalized = allowed_paths p)
              TransactionError ''allowed paths must be sorted and unique'') (\<lambda>_.
     rbind (normalized_paths (map rstrip_slash (allowed_prefixes p))) (\<lambda>prefixes.
     rbind (check (prefixes = allowed_prefixes p)
              TransactionError ''allowed prefixes must be normalized, sorted, and unique'') (\<lambda>_.
     rbind (normalized_paths (denied_paths p)) (\<lambda>denied.
     rbind (check (denied = denied_paths p)
              TransactionError ''denied paths must be normalized, sorted, and unique'') (\<lambda>_.
     rbind (normalized_paths (map rstrip_slash (denied_prefixes p))) (\<lambda>denied_pre.
     rbind (check (denied_pre = denied_prefixes p)
              TransactionError ''denied prefixes must be normalized, sorted, and unique'') (\<lambda>_.
     Inr p))))))))"

definition under_prefix :: "string \<Rightarrow> string \<Rightarrow> bool" where
  "under_prefix pre path \<longleftrightarrow> path = pre \<or> prefix (pre @ ''/'') path"

definition path_denied :: "mutation_policy \<Rightarrow> string \<Rightarrow> bool" where
  "path_denied p path \<longleftrightarrow>
     path \<in> set (denied_paths p) \<or> list_ex (\<lambda>pre. under_prefix pre path) (denied_prefixes p)"

definition path_unauthorized :: "mutation_policy \<Rightarrow> string \<Rightarrow> bool" where
  "path_unauthorized p path \<longleftrightarrow>
     path \<notin> set (allowed_paths p) \<and> \<not> list_ex (\<lambda>pre. under_prefix pre path) (allowed_prefixes p)"

definition policy_validate :: "mutation_policy \<Rightarrow> string list \<Rightarrow> string list res" where
  "policy_validate p paths =
     rbind (normalized_paths paths) (\<lambda>observed.
     rbind (check (filter (path_denied p) observed = [])
              TransactionError ''denied control-plane mutation'') (\<lambda>_.
     rbind (check (filter (path_unauthorized p) observed = [])
              TransactionError ''unauthorized path mutation'') (\<lambda>_.
     Inr observed)))"

definition policy_dict :: "mutation_policy \<Rightarrow> obj" where
  "policy_dict p =
     [(''allowed_paths'', strs (allowed_paths p)), (''allowed_prefixes'', strs (allowed_prefixes p)),
      (''denied_paths'', strs (denied_paths p)), (''denied_prefixes'', strs (denied_prefixes p)),
      (''allow_untracked'', JBool (allow_untracked p)),
      (''require_clean_start'', JBool (require_clean_start p)),
      (''commit_subject'', of_opt (commit_subject p))]"

subsection \<open>Components of a path\<close>

lemma split_on_nonempty [simp]: "split_on c s \<noteq> []"
  by (induction s) (auto split: list.splits)

lemma split_on_append: "split_on c (a @ c # b) = split_on c a @ split_on c b"
proof (induction a)
  case (Cons x a)
  then show ?case by (cases "split_on c a") auto
qed simp

lemma split_on_no_sep: "p \<in> set (split_on c s) \<Longrightarrow> c \<notin> set p"
proof (induction s arbitrary: p)
  case (Cons x s)
  then show ?case by (cases "split_on c s") (auto split: if_splits)
qed simp

lemma split_on_id: "c \<notin> set s \<Longrightarrow> split_on c s = [s]"
  by (induction s) auto

lemma posix_parts_append: "posix_parts (a @ CHR ''/'' # b) = posix_parts a @ posix_parts b"
  by (simp add: posix_parts_def split_on_append)

lemma posix_parts_join:
  assumes "ps \<noteq> []" "\<forall>p \<in> set ps. CHR ''/'' \<notin> set p \<and> p \<noteq> [] \<and> p \<noteq> ''.''"
  shows "posix_parts (join ''/'' ps) = ps"
  using assms
proof (induction "''/''" ps rule: join.induct)
  case (2 x)
  then show ?case by (simp add: posix_parts_def split_on_id)
next
  case (3 x y xs)
  then have "posix_parts (join ''/'' (y # xs)) = y # xs" by simp
  moreover have "posix_parts x = [x]" using 3 by (simp add: posix_parts_def split_on_id)
  ultimately show ?case using posix_parts_append [of x "join ''/'' (y # xs)"] by simp
qed simp

lemma posix_parts_parts:
  "p \<in> set (posix_parts v) \<Longrightarrow> CHR ''/'' \<notin> set p \<and> p \<noteq> [] \<and> p \<noteq> ''.''"
  by (auto simp: posix_parts_def dest: split_on_no_sep)

lemma join_append:
  "xs \<noteq> [] \<Longrightarrow> ys \<noteq> [] \<Longrightarrow> join sep (xs @ ys) = join sep xs @ sep @ join sep ys"
proof (induction sep xs rule: join.induct)
  case (2 sep x)
  then show ?case by (cases ys) auto
qed auto

lemma safe_path_join: "safe_path v \<Longrightarrow> v \<noteq> ''.'' \<Longrightarrow> v = join ''/'' (posix_parts v) \<and> posix_parts v \<noteq> []"
  by (auto simp: safe_path_def as_posix_def split: if_splits)

lemma safe_path_last: "safe_path v \<Longrightarrow> last v \<noteq> CHR ''/''"
proof (cases "v = ''.''")
  case False
  assume "safe_path v"
  from safe_path_join [OF this False] have v: "v = join ''/'' (posix_parts v)" "posix_parts v \<noteq> []"
    by auto
  have "last (join ''/'' ps) \<noteq> CHR ''/''"
    if "ps \<noteq> []" "\<forall>p \<in> set ps. CHR ''/'' \<notin> set p \<and> p \<noteq> []" for ps
    using that
  proof (induction "''/''" ps rule: join.induct)
    case (2 x)
    then show ?case by (metis join.simps(2) last_in_set list.set_intros(1))
  next
    case (3 x y xs)
    have "join ''/'' (y # xs) \<noteq> []" using 3(3) by (cases xs) auto
    with 3 show ?case by simp
  qed simp
  from this [of "posix_parts v"] v posix_parts_parts [of _ v] show ?thesis by metis
qed simp

lemma rstrip_slash_safe: "safe_path v \<Longrightarrow> rstrip_slash v = v"
proof -
  assume v: "safe_path v"
  then have "v \<noteq> []" by (simp add: safe_path_def)
  with safe_path_last [OF v] show ?thesis
    by (cases v rule: rev_cases) (simp_all add: rstrip_slash_def)
qed

text \<open>
  The textual test of the code decides containment by components. The path
  \<^verbatim>\<open>.\<close> is the exception: it is a safe path with no components, and as a prefix it
  contains nothing but itself (\<open>under_prefix_dot\<close>).
\<close>

lemma under_prefix_components:
  assumes "safe_path pre" "pre \<noteq> ''.''" "safe_path path"
  shows "under_prefix pre path \<longleftrightarrow> prefix (posix_parts pre) (posix_parts path)"
proof
  assume "under_prefix pre path"
  then show "prefix (posix_parts pre) (posix_parts path)"
    by (auto simp: under_prefix_def prefix_def posix_parts_append)
next
  assume "prefix (posix_parts pre) (posix_parts path)"
  then obtain rest where rest: "posix_parts path = posix_parts pre @ rest" by (auto simp: prefix_def)
  have pre: "pre = join ''/'' (posix_parts pre)" "posix_parts pre \<noteq> []"
    using safe_path_join [OF assms(1,2)] by auto
  have "path \<noteq> ''.''" using rest pre(2) by (auto simp: posix_parts_def)
  then have path: "path = join ''/'' (posix_parts path)"
    using safe_path_join [OF assms(3)] by auto
  show "under_prefix pre path"
  proof (cases "rest = []")
    case True
    then show ?thesis using rest pre path by (simp add: under_prefix_def)
  next
    case False
    have "path = join ''/'' (posix_parts pre) @ ''/'' @ join ''/'' rest"
      using path unfolding rest join_append [OF pre(2) False] .
    with pre show ?thesis by (metis append.assoc prefixI under_prefix_def)
  qed
qed

subsection \<open>Construction and validation\<close>

definition sorted_unique_safe :: "string list \<Rightarrow> bool" where
  "sorted_unique_safe ps \<longleftrightarrow> sorted ps \<and> distinct ps \<and> list_all safe_path ps"

definition policy_ok :: "mutation_policy \<Rightarrow> bool" where
  "policy_ok p \<longleftrightarrow> sorted_unique_safe (allowed_paths p) \<and> sorted_unique_safe (allowed_prefixes p)
     \<and> sorted_unique_safe (denied_paths p) \<and> sorted_unique_safe (denied_prefixes p)"

lemma normalized_paths_Inr:
  "normalized_paths ps = Inr qs \<longleftrightarrow> list_all safe_path ps \<and> qs = sorted_set ps"
  by (auto simp: normalized_paths_def)

lemma normalized_paths_fix: "normalized_paths ps = Inr ps \<longleftrightarrow> sorted_unique_safe ps"
  by (auto simp: normalized_paths_Inr sorted_unique_safe_def sorted_set_id)
     (metis sorted_sorted_set, metis distinct_sorted_set)

lemma rstrip_safe_map:
  "list_all safe_path ps \<Longrightarrow> map rstrip_slash ps = ps"
  by (induction ps) (auto simp: rstrip_slash_safe)

lemma normalized_prefixes_fix:
  "normalized_paths (map rstrip_slash ps) = Inr ps \<longleftrightarrow> sorted_unique_safe ps"
proof
  assume *: "normalized_paths (map rstrip_slash ps) = Inr ps"
  then have "list_all safe_path (map rstrip_slash ps)" "ps = sorted_set (map rstrip_slash ps)"
    by (auto simp: normalized_paths_Inr)
  then have safe: "list_all safe_path ps" by (metis list_all_iff set_sorted_set)
  with * show "sorted_unique_safe ps" by (simp add: rstrip_safe_map normalized_paths_fix)
next
  assume "sorted_unique_safe ps"
  then have "map rstrip_slash ps = ps" by (simp add: rstrip_safe_map sorted_unique_safe_def)
  with \<open>sorted_unique_safe ps\<close> show "normalized_paths (map rstrip_slash ps) = Inr ps"
    by (simp only: normalized_paths_fix)
qed

lemma make_policy_Inr: "make_policy p = Inr q \<longleftrightarrow> q = p \<and> policy_ok p"
proof -
  have "make_policy p = Inr q \<longleftrightarrow> q = p
      \<and> normalized_paths (allowed_paths p) = Inr (allowed_paths p)
      \<and> normalized_paths (map rstrip_slash (allowed_prefixes p)) = Inr (allowed_prefixes p)
      \<and> normalized_paths (denied_paths p) = Inr (denied_paths p)
      \<and> normalized_paths (map rstrip_slash (denied_prefixes p)) = Inr (denied_prefixes p)"
    by (auto simp: make_policy_def)
  then show ?thesis by (simp add: normalized_paths_fix normalized_prefixes_fix policy_ok_def)
qed

lemma policy_validate_Inr:
  "policy_validate p paths = Inr observed \<longleftrightarrow>
     observed = sorted_set paths \<and>
     (\<forall>x \<in> set paths. safe_path x \<and> \<not> path_denied p x \<and> \<not> path_unauthorized p x)"
  by (auto simp: policy_validate_def normalized_paths_Inr filter_empty_conv list_all_iff)

lemma policy_validate_error: "policy_validate p paths = Inl e \<Longrightarrow> exn_cls e = TransactionError"
proof -
  have "rmap safe_relative_path ps = Inl e \<Longrightarrow> exn_cls e = TransactionError" for ps e
    by (induction ps) (auto simp: rbind_eq_Inl safe_relative_path_def split: if_splits)
  then show "policy_validate p paths = Inl e \<Longrightarrow> exn_cls e = TransactionError"
    by (auto simp: policy_validate_def normalized_paths_def rbind_eq_Inl)
qed

lemma split_on_join:
  assumes "ps \<noteq> []" "\<forall>p \<in> set ps. c \<notin> set p"
  shows "split_on c (join [c] ps) = ps"
  using assms
proof (induction "[c]" ps rule: join.induct)
  case (2 x)
  then show ?case by (simp add: split_on_id)
next
  case (3 x y xs)
  then show ?case using split_on_append [of c x "join [c] (y # xs)"] by (simp add: split_on_id)
qed simp

lemma under_prefix_dot:
  assumes "safe_path path"
  shows "under_prefix ''.'' path \<longleftrightarrow> path = ''.''"
proof (rule ccontr)
  assume "\<not> ?thesis"
  then have ne: "path \<noteq> ''.''" and "prefix (''.'' @ ''/'') path" by (auto simp: under_prefix_def)
  then obtain rest where "path = ''.'' @ CHR ''/'' # rest" by (auto simp: prefix_def)
  then have "split_on (CHR ''/'') path = ''.'' # split_on (CHR ''/'') rest"
    using split_on_append [of "CHR ''/''" "''.''" rest] split_on_id [of "CHR ''/''" "''.''"] by simp
  moreover have "split_on (CHR ''/'') path = posix_parts path"
    using split_on_join [of "posix_parts path" "CHR ''/''"] safe_path_join [OF assms ne] posix_parts_parts [of _ path] by force
  ultimately have "''.'' \<in> set (posix_parts path)" by simp
  then show False using posix_parts_parts by blast
qed

text \<open>
  Membership in the tree of a list of prefixes, by components. The prefix \<^verbatim>\<open>.\<close> is no tree: it
  has the path \<^verbatim>\<open>.\<close> in it and nothing else.
\<close>

definition in_trees :: "string list \<Rightarrow> string \<Rightarrow> bool" where
  "in_trees pres path \<longleftrightarrow>
     (\<exists>pre \<in> set pres. if pre = ''.'' then path = ''.'' else prefix (posix_parts pre) (posix_parts path))"

lemma list_ex_under_prefix:
  assumes "sorted_unique_safe pres" "safe_path path"
  shows "list_ex (\<lambda>pre. under_prefix pre path) pres \<longleftrightarrow> in_trees pres path"
proof -
  have "under_prefix pre path \<longleftrightarrow> (if pre = ''.'' then path = ''.'' else prefix (posix_parts pre) (posix_parts path))"
    if "pre \<in> set pres" for pre
    using that assms under_prefix_dot under_prefix_components by (simp add: sorted_unique_safe_def list_all_iff)
  then show ?thesis by (auto simp: list_ex_iff in_trees_def)
qed

text \<open>
  Claim C6. A constructed mutation policy authorises a change set exactly when every path of
  it is a normalised repository-relative path that lies, component by component, in an
  allowed file or tree and in no denied file or tree, where an allowed or denied prefix
  \<^verbatim>\<open>.\<close> stands for the path \<^verbatim>\<open>.\<close> alone and not for the repository
  (\<open>dot_prefix_gap\<close> below); the validated set is then the sorted, duplicate-free list of the same paths. Every
  refusal is a \<^verbatim>\<open>TransactionError\<close>.
\<close>

theorem policy_validate_confines:
  assumes "make_policy p0 = Inr p"
  shows "(case policy_validate p paths of
      Inr observed \<Rightarrow> sorted observed \<and> distinct observed \<and> set observed = set paths
        \<and> (\<forall>x \<in> set paths. safe_path x \<and> ''..'' \<notin> set (posix_parts x)
            \<and> (x \<in> set (allowed_paths p) \<or> in_trees (allowed_prefixes p) x)
            \<and> x \<notin> set (denied_paths p) \<and> \<not> in_trees (denied_prefixes p) x)
    | Inl e \<Rightarrow> exn_cls e = TransactionError
        \<and> (\<exists>x \<in> set paths. \<not> safe_path x
            \<or> (x \<notin> set (allowed_paths p) \<and> \<not> in_trees (allowed_prefixes p) x)
            \<or> x \<in> set (denied_paths p) \<or> in_trees (denied_prefixes p) x))"
proof -
  have ok: "sorted_unique_safe (allowed_prefixes p)" "sorted_unique_safe (denied_prefixes p)"
    using assms(1) by (auto simp: make_policy_Inr policy_ok_def)
  have eq: "safe_path x \<Longrightarrow> path_denied p x \<longleftrightarrow> x \<in> set (denied_paths p) \<or> in_trees (denied_prefixes p) x"
    "safe_path x \<Longrightarrow> path_unauthorized p x \<longleftrightarrow>
       x \<notin> set (allowed_paths p) \<and> \<not> in_trees (allowed_prefixes p) x" for x
    using list_ex_under_prefix [OF ok(1)] list_ex_under_prefix [OF ok(2)]
    by (auto simp: path_denied_def path_unauthorized_def)
  show ?thesis
  proof (cases "policy_validate p paths")
    case (Inr observed)
    then have obs: "observed = sorted_set paths"
      and all: "\<forall>x \<in> set paths. safe_path x \<and> \<not> path_denied p x \<and> \<not> path_unauthorized p x"
      by (auto simp: policy_validate_Inr)
    have "''..'' \<notin> set (posix_parts x)" if "safe_path x" for x using that by (simp add: safe_path_def)
    moreover have "(x \<in> set (allowed_paths p) \<or> in_trees (allowed_prefixes p) x)
        \<and> x \<notin> set (denied_paths p) \<and> \<not> in_trees (denied_prefixes p) x" if "x \<in> set paths" for x
      using all that eq [of x] by blast
    ultimately show ?thesis using all by (simp add: Inr obs)
  next
    case (Inl e)
    then have "policy_validate p paths \<noteq> Inr (sorted_set paths)" by simp
    then obtain x where "x \<in> set paths" "\<not> safe_path x \<or> path_denied p x \<or> path_unauthorized p x"
      unfolding policy_validate_Inr by blast
    with eq [of x] have "\<exists>x \<in> set paths. \<not> safe_path x
            \<or> (x \<notin> set (allowed_paths p) \<and> \<not> in_trees (allowed_prefixes p) x)
            \<or> x \<in> set (denied_paths p) \<or> in_trees (denied_prefixes p) x"
      by blast
    then show ?thesis using policy_validate_error [OF Inl] by (simp add: Inl)
  qed
qed

definition sample_policy :: mutation_policy where
  "sample_policy = \<lparr>allowed_paths = [''docs/QUEUE.yaml''], allowed_prefixes = [''src''],
     denied_paths = [], denied_prefixes = [''src/vendor''], allow_untracked = False,
     require_clean_start = True, commit_subject = Some ''factory: reconcile queue''\<rparr>"

lemma sample_policy_ok: "make_policy sample_policy = Inr sample_policy"
  by code_simp

theorem policy_validate_confines_witness:
  "policy_validate sample_policy [''src/b.py'', ''src/a.py''] = Inr [''src/a.py'', ''src/b.py'']
   \<and> in_trees (allowed_prefixes sample_policy) ''src/a.py''
   \<and> \<not> in_trees (denied_prefixes sample_policy) ''src/b.py''"
proof -
  have v: "policy_validate sample_policy [''src/b.py'', ''src/a.py''] = Inr [''src/a.py'', ''src/b.py'']"
    by code_simp
  have a: "''src/a.py'' \<notin> set (allowed_paths sample_policy)"
    "''src/b.py'' \<notin> set (allowed_paths sample_policy)"
    by code_simp+
  show ?thesis
    using policy_validate_confines [OF sample_policy_ok, of "[''src/b.py'', ''src/a.py'']"] v a by auto
qed

text \<open>
  The constructor accepts the prefix \<^verbatim>\<open>.\<close>, which reads as the whole repository, and then denies
  or allows almost nothing with it.
\<close>

theorem dot_prefix_gap:
  "make_policy (sample_policy\<lparr>denied_prefixes := [''.'']\<rparr>) = Inr (sample_policy\<lparr>denied_prefixes := [''.'']\<rparr>)
   \<and> policy_validate (sample_policy\<lparr>denied_prefixes := [''.'']\<rparr>) [''src/a.py''] = Inr [''src/a.py'']
   \<and> make_policy (sample_policy\<lparr>allowed_prefixes := [''.'']\<rparr>) = Inr (sample_policy\<lparr>allowed_prefixes := [''.'']\<rparr>)
   \<and> policy_validate (sample_policy\<lparr>allowed_prefixes := [''.'']\<rparr>) [''src/a.py'']
       = raise TransactionError ''unauthorized path mutation''"
  by (intro conjI) code_simp+

end
