(* ===== verification/Human_Gate.thy ===== *)
theory Human_Gate
  imports Contracts
begin

section \<open>Human-decision gates\<close>

text \<open>
  \<^verbatim>\<open>bind_human_gate\<close> and \<^verbatim>\<open>validate_human_gate\<close> of
  \<^verbatim>\<open>contracts.py\<close>: an untrusted blocker becomes a gate bound to one transaction, and a
  gate is accepted only with a complete durable identity. \<open>gate_ok\<close> is that identity as a
  predicate on the dictionary.
\<close>

definition gate_bound_fields :: "string list" where
  "gate_bound_fields = [''transaction_id'', ''project_id'', ''repository_identity'',
     ''repository_path_fingerprint'', ''workflow_type'']"

definition validate_human_gate :: "json \<Rightarrow> obj res" where
  "validate_human_gate v =
     (case v of
        JObj gate \<Rightarrow>
          rbind (check (case oget gate ''gate_id'' of JStr s \<Rightarrow> SAFE_IDENTIFIER s | _ \<Rightarrow> False)
                   TransactionError ''human-decision gate requires a safe unique gate_id'') (\<lambda>_.
          rbind (check (nonblank_str (oget gate ''classification''))
                   TransactionError ''human-decision gate requires nonempty classification'') (\<lambda>_.
          rbind (check (nonblank_str (oget gate ''reason''))
                   TransactionError ''human-decision gate requires nonempty reason'') (\<lambda>_.
          rbind (check (nonempty_str (oget gate ''approved_next_state''))
                   TransactionError ''human-decision gate requires approved_next_state'') (\<lambda>_.
          rbind (check (list_all (\<lambda>f. nonempty_str (oget gate f)) gate_bound_fields)
                   TransactionError ''human-decision gate requires transaction-bound field'') (\<lambda>_.
          rbind (rewrap [ValueError] TransactionError ''human-decision gate has invalid workflow_type''
                   (parse_workflow (JStr (py_str (oget gate ''workflow_type''))))) (\<lambda>_.
          Inr gate))))))
      | _ \<Rightarrow> raise TransactionError ''human-decision terminal requires an exact gate object'')"

record gate_binding =
  gb_transaction_id :: string
  gb_project_id :: string
  gb_repository_identity :: string
  gb_repository_path_fingerprint :: string
  gb_workflow_type :: workflow_type
  gb_approved_next_state :: string

definition gate_bindings :: "gate_binding \<Rightarrow> obj" where
  "gate_bindings b =
     [(''transaction_id'', JStr (gb_transaction_id b)), (''project_id'', JStr (gb_project_id b)),
      (''repository_identity'', JStr (gb_repository_identity b)),
      (''repository_path_fingerprint'', JStr (gb_repository_path_fingerprint b)),
      (''workflow_type'', JStr (workflow_value (gb_workflow_type b))),
      (''approved_next_state'', JStr (gb_approved_next_state b))]"

definition gate_reason :: "obj \<Rightarrow> string" where
  "gate_reason source =
     (case jor (oget source ''reason'') (oget source ''decision'') of
        JStr s \<Rightarrow> if nonblank s then s else ''workflow requires an explicit human decision''
      | _ \<Rightarrow> ''workflow requires an explicit human decision'')"

definition gate_classification :: "obj \<Rightarrow> string \<Rightarrow> string" where
  "gate_classification source terminal_classification =
     (case jor (jor (oget source ''classification'') (oget source ''gate_classification''))
             (JStr terminal_classification) of
        JStr s \<Rightarrow> if nonblank s then s else ''HUMAN_DECISION_REQUIRED''
      | _ \<Rightarrow> ''HUMAN_DECISION_REQUIRED'')"

definition gate_identity :: "gate_binding \<Rightarrow> string \<Rightarrow> string \<Rightarrow> string" where
  "gate_identity b classification reason =
     ''gate-'' @ take 32 (fingerprint (JObj
        (gate_bindings b @ [(''classification'', JStr classification), (''reason'', JStr reason)])))"

definition bind_human_gate :: "json \<Rightarrow> gate_binding \<Rightarrow> string \<Rightarrow> obj res" where
  "bind_human_gate v b terminal_classification =
     (let source = (case v of JObj d \<Rightarrow> d | _ \<Rightarrow> []);
          reason = gate_reason source;
          classification = gate_classification source terminal_classification
      in validate_human_gate (JObj (oupdate source
           (gate_bindings b @
            [(''gate_id'', JStr (gate_identity b classification reason)),
             (''classification'', JStr classification), (''reason'', JStr reason)]))))"

subsection \<open>Accepted gates\<close>

definition gate_ok :: "obj \<Rightarrow> bool" where
  "gate_ok gate \<longleftrightarrow>
     (\<exists>s. oget gate ''gate_id'' = JStr s \<and> SAFE_IDENTIFIER s)
     \<and> nonblank_str (oget gate ''classification'') \<and> nonblank_str (oget gate ''reason'')
     \<and> nonempty_str (oget gate ''approved_next_state'')
     \<and> (\<forall>f \<in> set gate_bound_fields. nonempty_str (oget gate f))
     \<and> (\<exists>w. oget gate ''workflow_type'' = JStr (workflow_value w))"

lemma validate_human_gate_Inr: "validate_human_gate v = Inr g \<longleftrightarrow> v = JObj g \<and> gate_ok g"
proof (cases v)
  case (JObj d)
  have id: "(case oget d ''gate_id'' of JStr s \<Rightarrow> SAFE_IDENTIFIER s | _ \<Rightarrow> False) \<longleftrightarrow>
      (\<exists>s. oget d ''gate_id'' = JStr s \<and> SAFE_IDENTIFIER s)"
    by (cases "oget d ''gate_id''") auto
  have "nonempty_str (oget d ''workflow_type'') \<Longrightarrow>
      parse_workflow (JStr (py_str (oget d ''workflow_type''))) = Inr w \<longleftrightarrow>
      oget d ''workflow_type'' = JStr (workflow_value w)" for w
    by (auto simp: nonempty_str_iff parse_workflow_Inr)
  moreover have "''workflow_type'' \<in> set gate_bound_fields" by (simp add: gate_bound_fields_def)
  ultimately show ?thesis unfolding JObj
    by (auto simp: validate_human_gate_def gate_ok_def id list_all_iff)
qed (simp_all add: validate_human_gate_def)

lemma gate_reason_nonblank: "nonblank (gate_reason source)"
  by (auto simp: gate_reason_def strip_def lstrip_def is_space_def split: json.splits)

lemma gate_classification_nonblank: "nonblank (gate_classification source c)"
  by (auto simp: gate_classification_def strip_def lstrip_def is_space_def split: json.splits)

lemma hex_alnum: "c \<in> set fingerprint_hex_chars \<Longrightarrow> alnum_char c"
  by (auto simp: fingerprint_hex_chars_def alnum_char_def)

lemma gate_identity_safe: "SAFE_IDENTIFIER (gate_identity b c r)"
proof -
  have "set (take 32 (fingerprint v)) \<subseteq> set fingerprint_hex_chars" for v
    using sha256_hex_chars set_take_subset unfolding fingerprint_def by fastforce
  then have "list_all (\<lambda>d. alnum_char d \<or> d \<in> set ''._:-'') (take 32 (fingerprint v))" for v
    using hex_alnum unfolding list_all_iff by blast
  then show ?thesis
    by (simp add: SAFE_IDENTIFIER_def gate_identity_def alnum_char_def)
qed

lemma map_of_rev_distinct: "distinct (map fst e) \<Longrightarrow> map_of (rev e) = map_of e"
  by (metis distinct_rev map_of_inject_set rev_map set_rev)

lemma oget_oupdate:
  "distinct (map fst e) \<Longrightarrow>
     oget (oupdate d e) k = (case map_of e k of Some v \<Rightarrow> v | None \<Rightarrow> oget d k)"
  by (simp add: oget_def map_of_oupdate map_of_rev_distinct split: option.split)

text \<open>
  Whatever a session reports as its blocker, binding it yields a gate that passes
  validation: it carries exactly the controller's transaction, project, repository, workflow
  and next state (a report cannot override them), a nonblank classification and reason, and an
  identity computed from these values alone.
\<close>

theorem bind_human_gate_total:
  assumes "gb_transaction_id b \<noteq> []" "gb_project_id b \<noteq> []" "gb_repository_identity b \<noteq> []"
    and "gb_repository_path_fingerprint b \<noteq> []" "gb_approved_next_state b \<noteq> []"
  shows "\<exists>gate c r. bind_human_gate v b terminal_classification = Inr gate
    \<and> validate_human_gate (JObj gate) = Inr gate
    \<and> (\<forall>(k, x) \<in> set (gate_bindings b). oget gate k = x)
    \<and> oget gate ''classification'' = JStr c \<and> oget gate ''reason'' = JStr r
    \<and> nonblank c \<and> nonblank r \<and> oget gate ''gate_id'' = JStr (gate_identity b c r)"
proof -
  define d where "d = (case v of JObj d \<Rightarrow> d | _ \<Rightarrow> [])"
  define c where "c = gate_classification d terminal_classification"
  define r where "r = gate_reason d"
  define new where "new = gate_bindings b @
    [(''gate_id'', JStr (gate_identity b c r)), (''classification'', JStr c), (''reason'', JStr r)]"
  let ?g = "oupdate d new"
  have dist: "distinct (map fst new)" by (simp add: new_def gate_bindings_def)
  have get: "oget ?g k = x" if "(k, x) \<in> set new" for k x
    using that dist by (simp add: oget_oupdate)
  have bound: "\<forall>(k, x) \<in> set (gate_bindings b). oget ?g k = x"
    using get by (auto simp: new_def)
  have named: "oget ?g ''gate_id'' = JStr (gate_identity b c r)" "oget ?g ''classification'' = JStr c"
    "oget ?g ''reason'' = JStr r"
    by (rule get, simp add: new_def)+
  have nb: "nonblank c" "nonblank r"
    unfolding c_def r_def by (rule gate_classification_nonblank, rule gate_reason_nonblank)
  have "gate_ok ?g"
    using bound named nb assms gate_identity_safe
    by (auto simp: gate_ok_def gate_bindings_def gate_bound_fields_def)
  then have "validate_human_gate (JObj ?g) = Inr ?g" by (simp add: validate_human_gate_Inr)
  moreover have "bind_human_gate v b terminal_classification = validate_human_gate (JObj ?g)"
    by (simp add: bind_human_gate_def Let_def new_def c_def r_def d_def)
  ultimately show ?thesis using bound named nb by auto
qed

theorem bind_human_gate_total_witness:
  "\<exists>gate. bind_human_gate (JObj [(''transaction_id'', JStr ''forged'')])
      \<lparr>gb_transaction_id = ''t1'', gb_project_id = ''p'', gb_repository_identity = ''r'',
       gb_repository_path_fingerprint = ''f'', gb_workflow_type = RECOVERY,
       gb_approved_next_state = ''queue_reconciliation''\<rparr> '''' = Inr gate
    \<and> oget gate ''transaction_id'' = JStr ''t1''"
proof -
  let ?b = "\<lparr>gb_transaction_id = ''t1'', gb_project_id = ''p'', gb_repository_identity = ''r'',
       gb_repository_path_fingerprint = ''f'', gb_workflow_type = RECOVERY,
       gb_approved_next_state = ''queue_reconciliation''\<rparr>"
  show ?thesis
    using bind_human_gate_total [of ?b "JObj [(''transaction_id'', JStr ''forged'')]" "''''"]
    by (fastforce simp: gate_bindings_def)
qed

end
