(* ===== verification/Phase_Transaction.thy ===== *)
theory Phase_Transaction
  imports Mutation_Policy
begin

section \<open>Snapshots and the phase transaction\<close>

text \<open>
  \<^verbatim>\<open>RepositorySnapshot\<close> and \<^verbatim>\<open>PhaseTransaction\<close> of
  \<^verbatim>\<open>contracts.py\<close>. A transaction is the record the source keeps in a mutable object;
  \<open>tx_transition\<close> and \<open>tx_terminate\<close> return the updated record or the exception, which
  leaves the object as it was. \<open>tx_ops\<close> runs a sequence of such calls, each failure caught
  by its caller.
\<close>

record snapshot =
  sn_repository_identity :: string
  sn_repository_path_fingerprint :: string
  sn_branch :: string
  sn_head :: string
  sn_queue_fingerprint :: "string option"
  sn_tracked_diff_fingerprint :: string
  sn_untracked_fingerprint :: string
  sn_tracked_changed_paths :: "string list"
  sn_untracked_paths :: "string list"
  sn_git_operations :: "(string \<times> bool) list"

definition snapshot_clean :: "snapshot \<Rightarrow> bool" where
  "snapshot_clean s \<longleftrightarrow> sn_tracked_changed_paths s = [] \<and> sn_untracked_paths s = []"

definition snapshot_busy :: "snapshot \<Rightarrow> bool" where
  "snapshot_busy s \<longleftrightarrow> list_ex snd (sn_git_operations s)"

definition snapshot_dict :: "snapshot \<Rightarrow> obj" where
  "snapshot_dict s =
     [(''repository_identity'', JStr (sn_repository_identity s)),
      (''repository_path_fingerprint'', JStr (sn_repository_path_fingerprint s)),
      (''branch'', JStr (sn_branch s)), (''head'', JStr (sn_head s)),
      (''queue_fingerprint'', of_opt (sn_queue_fingerprint s)),
      (''tracked_diff_fingerprint'', JStr (sn_tracked_diff_fingerprint s)),
      (''untracked_fingerprint'', JStr (sn_untracked_fingerprint s)),
      (''tracked_changed_paths'', strs (sn_tracked_changed_paths s)),
      (''untracked_paths'', strs (sn_untracked_paths s)),
      (''git_operations'', JObj (map (\<lambda>(k, b). (k, JBool b)) (sn_git_operations s)))]"

record phase_transaction =
  tx_schema_version :: int
  tx_id :: string
  tx_workflow :: workflow_type
  tx_project_id :: string
  tx_repository_identity :: string
  tx_repository_path_fingerprint :: string
  tx_milestone :: "string option"
  tx_feature_id :: "string option"
  tx_run_id :: string
  tx_session_ids :: "string list"
  tx_starting_branch :: string
  tx_starting_head :: string
  tx_starting_queue_fingerprint :: "string option"
  tx_starting_tracked_diff_fingerprint :: string
  tx_starting_untracked_fingerprint :: string
  tx_policy :: mutation_policy
  tx_lease_identity :: "string option"
  tx_state :: transaction_state
  tx_terminal_classification :: "string option"
  tx_terminal_reference :: "string option"
  tx_next_project_state :: "string option"

text \<open>The identity the caller asked for, or the fresh one of \<^verbatim>\<open>uuid.uuid4()\<close>.\<close>

definition id_or :: "string option \<Rightarrow> string \<Rightarrow> string" where
  "id_or requested fresh = (case requested of Some s \<Rightarrow> if s = [] then fresh else s | None \<Rightarrow> fresh)"

definition tx_create ::
  "workflow_type \<Rightarrow> string \<Rightarrow> snapshot \<Rightarrow> string option \<Rightarrow> string option \<Rightarrow> string
   \<Rightarrow> mutation_policy \<Rightarrow> string option \<Rightarrow> string \<Rightarrow> phase_transaction res" where
  "tx_create workflow project_id s milestone feature_id run_id policy transaction_id fresh =
     (if \<not> SAFE_IDENTIFIER project_id then raise TransactionError ''invalid project_id''
      else if \<not> SAFE_IDENTIFIER run_id then raise TransactionError ''invalid run_id''
      else Inr
        \<lparr>tx_schema_version = 1, tx_id = id_or transaction_id fresh, tx_workflow = workflow,
         tx_project_id = project_id,
         tx_repository_identity = sn_repository_identity s,
         tx_repository_path_fingerprint = sn_repository_path_fingerprint s,
         tx_milestone = milestone, tx_feature_id = feature_id, tx_run_id = run_id,
         tx_session_ids = [], tx_starting_branch = sn_branch s, tx_starting_head = sn_head s,
         tx_starting_queue_fingerprint = sn_queue_fingerprint s,
         tx_starting_tracked_diff_fingerprint = sn_tracked_diff_fingerprint s,
         tx_starting_untracked_fingerprint = sn_untracked_fingerprint s,
         tx_policy = policy, tx_lease_identity = None, tx_state = CREATED,
         tx_terminal_classification = None, tx_terminal_reference = None,
         tx_next_project_state = None\<rparr>)"

definition tx_transition :: "transaction_state \<Rightarrow> phase_transaction \<Rightarrow> phase_transaction res" where
  "tx_transition target tx =
     (if target = tx_state tx then Inr tx
      else if target \<notin> set (ALLOWED_TRANSITIONS (tx_state tx))
        then raise TransactionError ''invalid transaction transition''
      else if tx_state tx \<in> set TERMINAL_STATES
        then raise TransactionError ''completed or terminal transaction is immutable''
      else Inr (tx\<lparr>tx_state := target\<rparr>))"

definition tx_terminate ::
  "transaction_state \<Rightarrow> string \<Rightarrow> string option \<Rightarrow> phase_transaction \<Rightarrow> phase_transaction res" where
  "tx_terminate st classification reference tx =
     (if st \<notin> set TERMINAL_STATES then raise TransactionError ''terminal outcome requires a terminal state''
      else if tx_terminal_classification tx \<noteq> None \<or> tx_state tx \<in> set TERMINAL_STATES
        then raise TransactionError ''transaction already has a terminal outcome''
      else rbind (tx_transition st tx) (\<lambda>tx'.
             Inr (tx'\<lparr>tx_terminal_classification := Some classification,
                      tx_terminal_reference := reference\<rparr>)))"

definition tx_dict :: "phase_transaction \<Rightarrow> obj" where
  "tx_dict tx =
     [(''schema_version'', JInt (tx_schema_version tx)), (''transaction_id'', JStr (tx_id tx)),
      (''workflow_type'', JStr (workflow_value (tx_workflow tx))),
      (''project_id'', JStr (tx_project_id tx)),
      (''repository_identity'', JStr (tx_repository_identity tx)),
      (''repository_path_fingerprint'', JStr (tx_repository_path_fingerprint tx)),
      (''milestone'', of_opt (tx_milestone tx)), (''feature_id'', of_opt (tx_feature_id tx)),
      (''run_id'', JStr (tx_run_id tx)), (''session_ids'', strs (tx_session_ids tx)),
      (''starting_branch'', JStr (tx_starting_branch tx)),
      (''starting_head'', JStr (tx_starting_head tx)),
      (''starting_queue_fingerprint'', of_opt (tx_starting_queue_fingerprint tx)),
      (''starting_tracked_diff_fingerprint'', JStr (tx_starting_tracked_diff_fingerprint tx)),
      (''starting_untracked_fingerprint'', JStr (tx_starting_untracked_fingerprint tx)),
      (''allowed_mutation_policy'', JObj (policy_dict (tx_policy tx))),
      (''lease_identity'', of_opt (tx_lease_identity tx)),
      (''current_state'', JStr (state_value (tx_state tx))),
      (''terminal_classification'', of_opt (tx_terminal_classification tx)),
      (''terminal_reference'', of_opt (tx_terminal_reference tx)),
      (''next_project_state'', of_opt (tx_next_project_state tx))]"

subsection \<open>The life cycle\<close>

datatype tx_op =
    Tx_transition transaction_state
  | Tx_terminate transaction_state string "string option"

fun tx_apply :: "tx_op \<Rightarrow> phase_transaction \<Rightarrow> phase_transaction res" where
  "tx_apply (Tx_transition s) tx = tx_transition s tx"
| "tx_apply (Tx_terminate s c r) tx = tx_terminate s c r tx"

definition tx_after :: "tx_op \<Rightarrow> phase_transaction \<Rightarrow> phase_transaction" where
  "tx_after op tx = (case tx_apply op tx of Inl _ \<Rightarrow> tx | Inr tx' \<Rightarrow> tx')"

text \<open>The transactions after each call of a sequence.\<close>

fun tx_ops :: "tx_op list \<Rightarrow> phase_transaction \<Rightarrow> phase_transaction list" where
  "tx_ops [] tx = []"
| "tx_ops (op # ops) tx = tx_after op tx # tx_ops ops (tx_after op tx)"

definition life_cycle :: "transaction_state list" where
  "life_cycle = [LEASE_PENDING, ACTIVE, RESULT_PENDING, VALIDATING, FINALIZING, COMPLETED]"

lemma tx_transition_Inr:
  "tx_transition s tx = Inr tx' \<longleftrightarrow>
     (s = tx_state tx \<and> tx' = tx) \<or>
     (s \<noteq> tx_state tx \<and> s \<in> set (ALLOWED_TRANSITIONS (tx_state tx)) \<and> tx' = tx\<lparr>tx_state := s\<rparr>)"
proof -
  have "s \<in> set (ALLOWED_TRANSITIONS t) \<Longrightarrow> t \<notin> set TERMINAL_STATES" for t
    by (cases t) (simp_all add: TERMINAL_STATES_def)
  then show ?thesis by (auto simp: tx_transition_def)
qed

lemma allowed_increases: "s \<in> set (ALLOWED_TRANSITIONS t) \<Longrightarrow> t < s"
  by (cases t) (auto simp: state_order non_completed_terminals_def TERMINAL_STATES_def)

lemma allowed_next:
  "s \<in> set (ALLOWED_TRANSITIONS t) \<Longrightarrow> s \<le> COMPLETED \<Longrightarrow> state_index s = Suc (state_index t)"
  by (cases t) (auto simp: state_order non_completed_terminals_def TERMINAL_STATES_def)

lemma tx_apply_state:
  assumes "tx_apply op tx = Inr tx'"
  shows "tx_state tx' = tx_state tx \<or> tx_state tx' \<in> set (ALLOWED_TRANSITIONS (tx_state tx))"
proof (cases op)
  case (Tx_transition s)
  with assms show ?thesis by (auto simp: tx_transition_Inr)
next
  case (Tx_terminate s c r)
  with assms obtain t where "tx_transition s tx = Inr t" "tx_state tx' = tx_state t"
    by (auto simp: tx_terminate_def split: if_splits)
  then show ?thesis by (auto simp: tx_transition_Inr)
qed

lemma tx_after_state:
  "tx_state (tx_after op tx) = tx_state tx \<or> tx_state (tx_after op tx) \<in> set (ALLOWED_TRANSITIONS (tx_state tx))"
  using tx_apply_state by (auto simp: tx_after_def split: sum.split)

lemma terminal_no_successor: "t \<in> set TERMINAL_STATES \<Longrightarrow> ALLOWED_TRANSITIONS t = []"
  by (auto simp: TERMINAL_STATES_def)

lemma tx_after_terminal: "tx_state tx \<in> set TERMINAL_STATES \<Longrightarrow> tx_after op tx = tx"
  by (cases op) (auto simp: tx_after_def tx_transition_def tx_terminate_def raise_def terminal_no_successor)

lemma tx_ops_append:
  "tx_ops (ops @ ops') tx = tx_ops ops tx @ tx_ops ops' (last (tx # tx_ops ops tx))"
  by (induction ops arbitrary: tx) simp_all

lemma life_cycle_take:
  "s \<le> COMPLETED \<Longrightarrow> state_index s = Suc n \<Longrightarrow> take (Suc n) life_cycle = take n life_cycle @ [s]"
  by (cases s) (auto simp: life_cycle_def state_order)

lemma tx_ops_prefix_of_life_cycle:
  assumes "tx_state tx = CREATED" "tx_state (last (tx # tx_ops ops tx)) \<le> COMPLETED"
  shows "subseq (take (state_index (tx_state (last (tx # tx_ops ops tx)))) life_cycle)
           (map tx_state (tx_ops ops tx))"
  using assms
proof (induction ops rule: rev_induct)
  case Nil
  then show ?case by simp
next
  case (snoc op ops)
  let ?prev = "last (tx # tx_ops ops tx)" and ?new = "tx_after op (last (tx # tx_ops ops tx))"
  have ops: "tx_ops (ops @ [op]) tx = tx_ops ops tx @ [?new]" by (simp add: tx_ops_append)
  have le: "tx_state ?new \<le> COMPLETED" using snoc.prems(2) by (simp add: ops)
  from tx_after_state [of op ?prev] have mono: "tx_state ?prev \<le> tx_state ?new"
    using allowed_increases by fastforce
  from mono le have "tx_state ?prev \<le> COMPLETED" by (rule order_trans)
  from snoc.IH [OF snoc.prems(1) this]
  have IH: "subseq (take (state_index (tx_state ?prev)) life_cycle) (map tx_state (tx_ops ops tx))" .
  have "subseq (take (state_index (tx_state ?new)) life_cycle)
          (map tx_state (tx_ops ops tx) @ [tx_state ?new])"
  proof (cases "tx_state ?new = tx_state ?prev")
    case True
    show ?thesis unfolding True using IH by (rule list_emb_prefix)
  next
    case False
    with tx_after_state [of op ?prev] have "state_index (tx_state ?new) = Suc (state_index (tx_state ?prev))"
      using allowed_next [OF _ le] by blast
    with life_cycle_take [OF le this] IH show ?thesis by (simp add: list_emb_append_mono)
  qed
  then show ?case by (simp add: ops)
qed

lemma tx_after_mono: "tx_state t \<le> tx_state (tx_after op t)"
  using tx_after_state [of op t] allowed_increases by fastforce

lemma tx_ops_sorted: "sorted (map tx_state (tx # tx_ops ops tx))"
proof (induction ops arbitrary: tx)
  case Nil
  show ?case by simp
next
  case (Cons op ops)
  have "sorted (map tx_state (tx_after op tx # tx_ops ops (tx_after op tx)))" by (rule Cons.IH)
  then show ?case using tx_after_mono [of tx op]
    by (auto intro: order_trans simp del: tx_after_mono)
qed

lemma tx_ops_take: "tx_ops (take n ops) tx = take n (tx_ops ops tx)"
proof (induction ops arbitrary: tx n)
  case (Cons op ops)
  then show ?case by (cases n) simp_all
qed simp

lemma tx_ops_completed:
  assumes "tx_state tx = CREATED" "COMPLETED \<in> set (map tx_state (tx_ops ops tx))"
  shows "subseq life_cycle (map tx_state (tx_ops ops tx))"
proof -
  from assms(2) obtain pre post t where split: "tx_ops ops tx = pre @ t # post" "tx_state t = COMPLETED"
    by (auto simp: in_set_conv_decomp)
  have "tx_ops (take (Suc (length pre)) ops) tx = pre @ [t]"
    by (simp add: tx_ops_take split(1))
  with tx_ops_prefix_of_life_cycle [OF assms(1), of "take (Suc (length pre)) ops"] split(2)
  have "subseq life_cycle (map tx_state (pre @ [t]))"
    by (simp add: life_cycle_def)
  then have "subseq (life_cycle @ []) (map tx_state (pre @ [t]) @ map tx_state post)"
    by (intro list_emb_append_mono) simp_all
  then show ?thesis by (simp add: split(1))
qed

lemma tx_ops_of_terminal:
  "tx_state tx \<in> set TERMINAL_STATES \<Longrightarrow> tx_ops ops tx = replicate (length ops) tx"
  by (induction ops) (simp_all add: tx_after_terminal)

lemma tx_ops_terminal_last:
  "t \<in> set (tx_ops ops tx) \<Longrightarrow> tx_state t \<in> set TERMINAL_STATES \<Longrightarrow> last (tx_ops ops tx) = t"
proof (induction ops arbitrary: tx)
  case (Cons op ops)
  show ?case
  proof (cases "t \<in> set (tx_ops ops (tx_after op tx))")
    case True
    with Cons.IH Cons.prems(2) have "last (tx_ops ops (tx_after op tx)) = t" by blast
    with True show ?thesis by auto
  next
    case False
    with Cons.prems have "t = tx_after op tx" by simp
    with Cons.prems(2) show ?thesis by (simp add: tx_ops_of_terminal)
  qed
qed simp

text \<open>
  Claim C7. Whatever a caller does with a created transaction, its state only moves forward
  in the life cycle; it reaches \<^verbatim>\<open>completed\<close> only after having been leased, active,
  awaiting its result, validated and finalising, in this order; and from its first terminal
  state on no call changes it any more.
\<close>

theorem transaction_life_cycle:
  assumes "tx_create w project s milestone feature run_id policy tid fresh = Inr tx"
  shows "sorted (map tx_state (tx # tx_ops ops tx))
    \<and> (COMPLETED \<in> set (map tx_state (tx_ops ops tx)) \<longrightarrow> subseq life_cycle (map tx_state (tx_ops ops tx)))
    \<and> (\<forall>t \<in> set (tx_ops ops tx). tx_state t \<in> set TERMINAL_STATES \<longrightarrow> last (tx_ops ops tx) = t)"
proof -
  have "tx_state tx = CREATED" using assms by (auto simp: tx_create_def split: if_splits)
  then show ?thesis using tx_ops_sorted tx_ops_completed tx_ops_terminal_last by blast
qed

definition sample_snapshot :: snapshot where
  "sample_snapshot =
     \<lparr>sn_repository_identity = ''repo'', sn_repository_path_fingerprint = ''f0'',
      sn_branch = ''main'', sn_head = ''c0ffee'', sn_queue_fingerprint = None,
      sn_tracked_diff_fingerprint = ''f1'', sn_untracked_fingerprint = ''f2'',
      sn_tracked_changed_paths = [], sn_untracked_paths = [], sn_git_operations = []\<rparr>"

definition sample_tx :: phase_transaction where
  "sample_tx = (case tx_create FEATURE_EXECUTION ''project'' sample_snapshot (Some ''M1'') (Some ''F1'')
     ''run-1'' sample_policy None ''id'' of Inr tx \<Rightarrow> tx)"

lemma sample_tx_created:
  "tx_create FEATURE_EXECUTION ''project'' sample_snapshot (Some ''M1'') (Some ''F1'')
     ''run-1'' sample_policy None ''id'' = Inr sample_tx"
  unfolding sample_tx_def sample_snapshot_def by code_simp

lemma transaction_life_cycle_witness:
  "subseq life_cycle (map tx_state (tx_ops
     [Tx_transition LEASE_PENDING, Tx_transition FINALIZING, Tx_transition ACTIVE,
      Tx_transition RESULT_PENDING, Tx_transition VALIDATING, Tx_transition FINALIZING,
      Tx_terminate COMPLETED ''done'' None, Tx_terminate SUPERSEDED ''late'' None] sample_tx))"
    (is "subseq _ (map tx_state ?ts)")
proof -
  have "COMPLETED \<in> set (map tx_state ?ts)" by code_simp
  with transaction_life_cycle [OF sample_tx_created] show ?thesis by blast
qed

end
