(* ===== verification/Effects.thy ===== *)
theory Effects
  imports Prelude
begin

section \<open>Stateful calls that may raise\<close>

text \<open>
  A method of an object is a function from the state of the object to its outcome and the state
  it leaves; an exception leaves the changes made before it was raised. \<open>sbind\<close> is statement
  sequence, \<open>slift\<close> calls a function that has no effect.
\<close>

type_synonym ('s, 'a) eff = "'s \<Rightarrow> 'a res \<times> 's"

definition sret :: "'a \<Rightarrow> ('s, 'a) eff" where
  "sret x = (\<lambda>s. (Inr x, s))"

definition sthrow :: "exn_class \<Rightarrow> string \<Rightarrow> ('s, 'a) eff" where
  "sthrow c m = (\<lambda>s. (raise c m, s))"

definition slift :: "'a res \<Rightarrow> ('s, 'a) eff" where
  "slift r = (\<lambda>s. (r, s))"

definition sbind :: "('s, 'a) eff \<Rightarrow> ('a \<Rightarrow> ('s, 'b) eff) \<Rightarrow> ('s, 'b) eff" where
  "sbind m f = (\<lambda>s. case m s of (Inl e, t) \<Rightarrow> (Inl e, t) | (Inr x, t) \<Rightarrow> f x t)"

definition sget :: "('s, 's) eff" where
  "sget = (\<lambda>s. (Inr s, s))"

definition smodify :: "('s \<Rightarrow> 's) \<Rightarrow> ('s, unit) eff" where
  "smodify f = (\<lambda>s. (Inr (), f s))"

definition scheck :: "bool \<Rightarrow> exn_class \<Rightarrow> string \<Rightarrow> ('s, unit) eff" where
  "scheck b c m = slift (check b c m)"

named_theorems eff_simps "evaluation of stateful calls"
named_theorems eff_runs "what a sequence of calls that returns has done"

lemma sret_apply [eff_simps]: "sret x s = (Inr x, s)" by (simp add: sret_def)
lemma slift_apply [eff_simps]: "slift r s = (r, s)" by (simp add: slift_def)
lemma sthrow_apply [eff_simps]: "sthrow c m s = (raise c m, s)" by (simp add: sthrow_def)
lemma sget_apply [eff_simps]: "sget s = (Inr s, s)" by (simp add: sget_def)
lemma smodify_apply [eff_simps]: "smodify f s = (Inr (), f s)" by (simp add: smodify_def)
lemma scheck_apply [eff_simps]: "scheck b c m s = (check b c m, s)" by (simp add: scheck_def slift_def)

lemma sbind_Inr: "m s = (Inr x, t) \<Longrightarrow> sbind m f s = f x t"
  by (simp add: sbind_def)

lemma sbind_Inl: "m s = (Inl e, t) \<Longrightarrow> sbind m f s = (Inl e, t)"
  by (simp add: sbind_def)

lemma sbind_eq_Inr:
  "sbind m f s = (Inr y, u) \<longleftrightarrow> (\<exists>x t. m s = (Inr x, t) \<and> f x t = (Inr y, u))"
  by (auto simp: sbind_def split: prod.split sum.split)

lemma sbind_slift_Inr [eff_simps]: "sbind (slift (Inr x)) f s = f x s"
  by (simp add: sbind_def slift_def)

lemma sbind_slift_Inl [eff_simps]: "sbind (slift (Inl e)) f s = (Inl e, s)"
  by (simp add: sbind_def slift_def)

lemma slift_eq_Inr: "slift r s = (Inr x, t) \<longleftrightarrow> r = Inr x \<and> t = s"
  by (auto simp: slift_def)

lemma smodify_eq_Inr: "smodify f s = (Inr x, t) \<longleftrightarrow> t = f s"
  by (auto simp: smodify_def)

lemma sget_eq_Inr: "sget s = (Inr x, t) \<longleftrightarrow> x = s \<and> t = s"
  by (auto simp: sget_def)

lemma sret_eq_Inr: "sret y s = (Inr x, t) \<longleftrightarrow> x = y \<and> t = s"
  by (auto simp: sret_def)

lemma scheck_eq_Inr: "scheck b c m s = (Inr u, t) \<longleftrightarrow> b \<and> t = s"
  by (auto simp: scheck_def slift_def)

lemma sthrow_neq_Inr [simp]: "sthrow c m s \<noteq> (Inr x, t)"
  by (simp add: sthrow_def)

lemmas eff_elims = sbind_eq_Inr slift_eq_Inr smodify_eq_Inr sget_eq_Inr sret_eq_Inr scheck_eq_Inr

text \<open>The run of a sequence whose first call is one of the above, without intermediate states.\<close>

lemma sbind_sget [eff_runs]: "sbind sget f s = f s s"
  by (simp add: sbind_def sget_def)

lemma sbind_smodify [eff_runs]: "sbind (smodify g) f s = f () (g s)"
  by (simp add: sbind_def smodify_def)

lemma sbind_sret [eff_runs]: "sbind (sret x) f s = f x s"
  by (simp add: sbind_def sret_def)

lemma ex_unit [eff_runs]: "(\<exists>u :: unit. P u) \<longleftrightarrow> P ()"
  by (metis (full_types) old.unit.exhaust)

lemma sbind_scheck_eq_Inr [eff_runs]:
  "sbind (scheck b c m) f s = (Inr y, u) \<longleftrightarrow> b \<and> f () s = (Inr y, u)"
  by (simp add: sbind_eq_Inr scheck_eq_Inr)

lemma sbind_slift_eq_Inr [eff_runs]:
  "sbind (slift r) f s = (Inr y, u) \<longleftrightarrow> (\<exists>x. r = Inr x \<and> f x s = (Inr y, u))"
  by (auto simp: sbind_eq_Inr slift_eq_Inr)

text \<open>A call that changes nothing when it raises, or when it returns.\<close>

definition preserves :: "('s \<Rightarrow> bool) \<Rightarrow> ('s, 'a) eff \<Rightarrow> bool" where
  "preserves P m \<longleftrightarrow> (\<forall>s. P s \<longrightarrow> P (snd (m s)))"

lemma preserves_sbind:
  "preserves P m \<Longrightarrow> (\<And>x. preserves P (f x)) \<Longrightarrow> preserves P (sbind m f)"
proof -
  assume a: "preserves P m" "\<And>x. preserves P (f x)"
  have "P (snd (sbind m f s))" if "P s" for s
  proof (cases "m s")
    case (Pair r t)
    then have "P t" using a(1) that by (metis preserves_def snd_conv)
    then show ?thesis using Pair a(2) by (cases r) (simp_all add: sbind_def preserves_def)
  qed
  then show ?thesis by (simp add: preserves_def)
qed

lemma preserves_pure [simp]:
  "preserves P (sret x)" "preserves P (slift r)" "preserves P (sthrow c m)" "preserves P sget"
  "preserves P (scheck b c m)"
  by (simp_all add: preserves_def eff_simps)

subsection \<open>Conditionals, iteration, handlers, parts of a state\<close>

definition swhen :: "bool \<Rightarrow> ('s, unit) eff \<Rightarrow> ('s, unit) eff" where
  "swhen b m = (if b then m else sret ())"

fun smap :: "('a \<Rightarrow> ('s, 'b) eff) \<Rightarrow> 'a list \<Rightarrow> ('s, 'b list) eff" where
  "smap f [] = sret []"
| "smap f (x # xs) = sbind (f x) (\<lambda>y. sbind (smap f xs) (\<lambda>ys. sret (y # ys)))"

fun sall :: "('a \<Rightarrow> ('s, unit) eff) \<Rightarrow> 'a list \<Rightarrow> ('s, unit) eff" where
  "sall f [] = sret ()"
| "sall f (x # xs) = sbind (f x) (\<lambda>_. sall f xs)"

text \<open>\<^verbatim>\<open>try: m except C: h\<close>; the handler starts in the state the exception left.\<close>

definition scatch :: "(exn \<Rightarrow> bool) \<Rightarrow> ('s, 'a) eff \<Rightarrow> (exn \<Rightarrow> ('s, 'a) eff) \<Rightarrow> ('s, 'a) eff" where
  "scatch caught m h = (\<lambda>s. case m s of
     (Inl e, t) \<Rightarrow> if caught e then h e t else (Inl e, t)
   | (Inr x, t) \<Rightarrow> (Inr x, t))"

text \<open>A call on a part of the state.\<close>

definition spart :: "('s \<Rightarrow> 'p) \<Rightarrow> ('p \<Rightarrow> 's \<Rightarrow> 's) \<Rightarrow> ('p, 'a) eff \<Rightarrow> ('s, 'a) eff" where
  "spart get put m = (\<lambda>s. case m (get s) of (r, p) \<Rightarrow> (r, put p s))"

lemma spart_eq_Inr: "spart get put m s = (Inr x, t) \<longleftrightarrow> (\<exists>p. m (get s) = (Inr x, p) \<and> t = put p s)"
  by (auto simp: spart_def split: prod.splits)

lemma swhen_eq_Inr: "swhen b m s = (Inr u, t) \<longleftrightarrow> (if b then m s = (Inr u, t) else t = s)"
  by (auto simp: swhen_def sret_def)

subsection \<open>What every run of a call does\<close>

text \<open>\<open>steps R m\<close>: the state before and the state after are related, whether the call returns
  or raises.\<close>

definition steps :: "('s \<Rightarrow> 's \<Rightarrow> bool) \<Rightarrow> ('s, 'a) eff \<Rightarrow> bool" where
  "steps R m \<longleftrightarrow> (\<forall>s. R s (snd (m s)))"

named_theorems steps_intros "calls whose runs are steps of a relation"

lemma stepsD: "steps R m \<Longrightarrow> m s = (r, t) \<Longrightarrow> R s t"
  by (metis snd_conv steps_def)

lemma stepsI: "(\<And>s r t. m s = (r, t) \<Longrightarrow> R s t) \<Longrightarrow> steps R m"
  unfolding steps_def by (metis prod.collapse)

lemma steps_sbind [steps_intros]:
  "transp R \<Longrightarrow> steps R m \<Longrightarrow> (\<And>x. steps R (f x)) \<Longrightarrow> steps R (sbind m f)"
  by (rule stepsI) (auto simp: sbind_def split: prod.splits sum.splits dest!: stepsD intro: transpD)

lemma steps_pure [steps_intros]:
  "reflp R \<Longrightarrow> steps R (sret x)" "reflp R \<Longrightarrow> steps R (slift r)" "reflp R \<Longrightarrow> steps R (sthrow c m)"
  "reflp R \<Longrightarrow> steps R sget" "reflp R \<Longrightarrow> steps R (scheck b c m)"
  by (simp_all add: steps_def eff_simps reflpD)

lemma steps_if [steps_intros]: "steps R m \<Longrightarrow> steps R n \<Longrightarrow> steps R (if b then m else n)"
  by simp

lemma steps_option [steps_intros]:
  "steps R m \<Longrightarrow> (\<And>x. steps R (f x)) \<Longrightarrow> steps R (case a of None \<Rightarrow> m | Some x \<Rightarrow> f x)"
  by (cases a) simp_all

lemma steps_swhen [steps_intros]: "reflp R \<Longrightarrow> steps R m \<Longrightarrow> steps R (swhen b m)"
  by (simp add: swhen_def steps_pure)

lemma steps_smap [steps_intros]: "reflp R \<Longrightarrow> transp R \<Longrightarrow> (\<And>x. steps R (f x)) \<Longrightarrow> steps R (smap f xs)"
  by (induction xs) (simp_all add: steps_pure steps_sbind)

lemma steps_sall [steps_intros]: "reflp R \<Longrightarrow> transp R \<Longrightarrow> (\<And>x. steps R (f x)) \<Longrightarrow> steps R (sall f xs)"
  by (induction xs) (simp_all add: steps_pure steps_sbind)

lemma steps_scatch [steps_intros]:
  "transp R \<Longrightarrow> steps R m \<Longrightarrow> (\<And>e. steps R (h e)) \<Longrightarrow> steps R (scatch c m h)"
  by (rule stepsI) (auto simp: scatch_def split: prod.splits sum.splits if_splits dest!: stepsD intro: transpD)

end
