(* ===== verification/Redaction.thy ===== *)
theory Redaction
  imports Json
begin

section \<open>Redaction before persistence\<close>

text \<open>
  \<^verbatim>\<open>redact_value\<close> of \<^verbatim>\<open>redaction.py\<close> on the values that are persisted. The text
  patterns of \<^verbatim>\<open>redact_text\<close> (regular expressions, URL parsing) are the parameter
  \<open>rt\<close>. \<open>leaks\<close> says that a value holds something under a sensitive key.
\<close>

definition REDACTED :: string where
  "REDACTED = ''[REDACTED]''"

definition SENSITIVE_QUERY_KEYS :: "string list" where
  "SENSITIVE_QUERY_KEYS =
    [''access_token'', ''api_key'', ''apikey'', ''auth'', ''authorization'', ''cookie'', ''key'',
     ''secret'', ''signature'', ''sig'', ''token'']"

definition sensitive_key :: "string \<Rightarrow> bool" where
  "sensitive_key k \<longleftrightarrow> lower k \<in> set SENSITIVE_QUERY_KEYS
     \<or> list_ex (\<lambda>w. contains w (lower k)) [''password'', ''private_key'', ''credential'']"

fun redact_value :: "(string \<Rightarrow> string) \<Rightarrow> json \<Rightarrow> json" where
  "redact_value rt (JStr s) = JStr (rt s)"
| "redact_value rt (JArr xs) = JArr (map (redact_value rt) xs)"
| "redact_value rt (JObj kvs) =
     JObj (map (\<lambda>kv. (fst kv, if sensitive_key (fst kv) then JStr REDACTED else redact_value rt (snd kv))) kvs)"
| "redact_value rt v = v"

text \<open>Some string of the value is none the redaction may leave: it stands under a sensitive key
  and is not the placeholder, or it is not in the range of the text patterns.\<close>

fun leaks :: "(string \<Rightarrow> bool) \<Rightarrow> json \<Rightarrow> bool" where
  "leaks clean (JStr s) \<longleftrightarrow> \<not> clean s"
| "leaks clean (JArr xs) \<longleftrightarrow> list_ex (leaks clean) xs"
| "leaks clean (JObj kvs) \<longleftrightarrow>
     list_ex (\<lambda>kv. if sensitive_key (fst kv) then snd kv \<noteq> JStr REDACTED else leaks clean (snd kv)) kvs"
| "leaks clean _ \<longleftrightarrow> False"

lemma redact_value_is_dict [simp]: "is_dict (redact_value rt v) = is_dict v"
  by (cases v) auto

lemma redact_value_keys: "redact_value rt (JObj d) = JObj d' \<Longrightarrow> map fst d' = map fst d"
  by (auto simp: comp_def)

lemma redact_value_wf: "json_wf v \<Longrightarrow> json_wf (redact_value rt v)"
  by (induction v) (auto simp: list_all_iff comp_def)

lemma redact_value_leaks: "(\<And>s. clean (rt s)) \<Longrightarrow> \<not> leaks clean (redact_value rt v)"
  by (induction v) (auto simp: list_ex_iff)

lemma redact_value_fixpoint: "(\<And>s. clean s \<Longrightarrow> rt s = s) \<Longrightarrow> \<not> leaks clean v \<Longrightarrow> redact_value rt v = v"
proof (induction v)
  case (JArr xs)
  then show ?case by (auto simp: list_ex_iff intro: map_idI)
next
  case (JObj kvs)
  then show ?case by (fastforce simp: list_ex_iff intro!: map_idI split: if_splits)
qed auto

text \<open>
  Nothing sensitive is persisted: in a redacted value every entry under a sensitive
  key, at any depth, is the placeholder, and every other text has passed the text patterns. If
  these are idempotent, redaction is too: persisting a persisted value again changes nothing.
\<close>

theorem redaction_complete:
  assumes "\<And>s. rt (rt s) = rt s"
  shows "\<not> leaks (\<lambda>s. s \<in> range rt) (redact_value rt v)
    \<and> redact_value rt (redact_value rt v) = redact_value rt v"
proof -
  have "\<not> leaks (\<lambda>s. s \<in> range rt) (redact_value rt v)" by (rule redact_value_leaks) simp
  moreover from this have "redact_value rt (redact_value rt v) = redact_value rt v"
    by (rule redact_value_fixpoint [rotated]) (auto simp: assms)
  ultimately show ?thesis by blast
qed

theorem redaction_complete_witness:
  "\<not> leaks (\<lambda>s. s \<in> range (\<lambda>s. if contains ''sk-'' s then REDACTED else s))
      (redact_value (\<lambda>s. if contains ''sk-'' s then REDACTED else s)
        (JObj [(''API_KEY'', JStr ''v''), (''note'', JStr ''sk-1''), (''n'', JInt 1)]))
   \<and> redact_value (\<lambda>s. if contains ''sk-'' s then REDACTED else s)
        (JObj [(''API_KEY'', JStr ''v''), (''note'', JStr ''sk-1''), (''n'', JInt 1)])
      = JObj [(''API_KEY'', JStr REDACTED), (''note'', JStr REDACTED), (''n'', JInt 1)]"
proof -
  let ?rt = "\<lambda>s. if contains ''sk-'' s then REDACTED else s"
  have "?rt (?rt s) = ?rt s" for s by (simp add: REDACTED_def)
  from conjunct1 [OF redaction_complete [of ?rt, OF this]] show ?thesis
    by (rule conjI) code_simp
qed

end
