(* ===== verification/Json_Parse.thy ===== *)
theory Json_Parse
  imports Json
begin

section \<open>Reading JSON text\<close>

text \<open>
  \<^verbatim>\<open>json.loads\<close> on text, with the grammar of Python's decoder: the whitespace, string,
  number and literal scanners (\<open>NaN\<close> and the infinities included), the first of which that
  matches decides, arrays and objects, the last of two equal keys winning, and nothing but
  whitespace after the value. A Unicode escape beyond the first 256 code points names a character
  the model's text does not have; it is refused. \<open>fr\<close> is \<^verbatim>\<open>repr(float(literal))\<close>, the
  number the literal denotes. The recursion takes fuel; twice the length of the text is enough
  (\<open>parse_fuel\<close>).

  The round trip \<open>loads_dumps\<close> holds of every well-formed value: reading canonical text back
  gives the value with its keys sorted (\<open>canon\<close>); so canonical text determines the value up to
  the order of its keys (\<open>dumps_inject\<close>).
\<close>

definition json_ws :: "char \<Rightarrow> bool" where
  "json_ws c \<longleftrightarrow> c \<in> {CHR '' '', CHR 0x09, CHR 0x0A, CHR 0x0D}"

definition skip_ws :: "string \<Rightarrow> string" where
  "skip_ws s = dropWhile json_ws s"

definition is_digit :: "char \<Rightarrow> bool" where
  "is_digit c \<longleftrightarrow> c \<in> set ''0123456789''"

definition digit_val :: "char \<Rightarrow> nat" where
  "digit_val c = of_char c - 48"

definition hex_val :: "char \<Rightarrow> nat option" where
  "hex_val c = (let n = of_char c :: nat in
     if 48 \<le> n \<and> n \<le> 57 then Some (n - 48) else if 97 \<le> n \<and> n \<le> 102 then Some (n - 87)
     else if 65 \<le> n \<and> n \<le> 70 then Some (n - 55) else None)"

fun hex4 :: "string \<Rightarrow> (nat \<times> string) option" where
  "hex4 (a # b # c # d # r) =
     (case (hex_val a, hex_val b, hex_val c, hex_val d) of
        (Some w, Some x, Some y, Some z) \<Rightarrow> Some (w * 4096 + x * 256 + y * 16 + z, r)
      | _ \<Rightarrow> None)"
| "hex4 _ = None"

definition unescape :: "char \<Rightarrow> char option" where
  "unescape c =
     (if c = CHR 34 \<or> c = CHR 92 \<or> c = CHR ''/'' then Some c
      else if c = CHR ''b'' then Some (CHR 0x08) else if c = CHR ''f'' then Some (CHR 0x0C)
      else if c = CHR ''n'' then Some (CHR 0x0A) else if c = CHR ''r'' then Some (CHR 0x0D)
      else if c = CHR ''t'' then Some (CHR 0x09) else None)"

text \<open>The characters of a string up to its closing quote, and what follows it.\<close>

function scan_string :: "string \<Rightarrow> (string \<times> string) option" where
  "scan_string s =
     (case s of
        [] \<Rightarrow> None
      | c # r \<Rightarrow>
          if c = CHR 34 then Some ([], r)
          else if c = CHR 92 then
            (case r of
               [] \<Rightarrow> None
             | d # r1 \<Rightarrow>
                 if d = CHR ''u'' then
                   (case hex4 r1 of
                      Some (n, r2) \<Rightarrow>
                        if n < 256 then map_option (\<lambda>(t, q). (char_of n # t, q)) (scan_string r2) else None
                    | None \<Rightarrow> None)
                 else (case unescape d of
                      Some x \<Rightarrow> map_option (\<lambda>(t, q). (x # t, q)) (scan_string r1)
                    | None \<Rightarrow> None))
          else if (of_char c :: nat) < 32 then None
          else map_option (\<lambda>(t, q). (c # t, q)) (scan_string r))"
  by pat_completeness auto

lemma hex4_shorter: "hex4 s = Some (n, r) \<Longrightarrow> length s = length r + 4"
  by (induction s rule: hex4.induct) (auto split: option.splits)

termination scan_string
  by (relation "measure length") (auto dest: hex4_shorter)

declare scan_string.simps [simp del]

text \<open>The literal of a number, whether it has a fraction or an exponent, and what follows it.\<close>

definition scan_digits :: "string \<Rightarrow> (string \<times> string) option" where
  "scan_digits s = (let ds = takeWhile is_digit s in
     if ds = [] then None else Some (ds, dropWhile is_digit s))"

definition scan_int :: "string \<Rightarrow> (string \<times> string) option" where
  "scan_int s =
     (case s of
        [] \<Rightarrow> None
      | c # r \<Rightarrow> if c = CHR ''0'' then Some (''0'', r) else scan_digits s)"

definition scan_fraction :: "string \<Rightarrow> string \<times> string" where
  "scan_fraction s =
     (case s of
        c # r \<Rightarrow> if c = CHR ''.'' then (case scan_digits r of Some (ds, q) \<Rightarrow> (c # ds, q) | None \<Rightarrow> ([], s))
                else ([], s)
      | [] \<Rightarrow> ([], s))"

definition scan_exponent :: "string \<Rightarrow> string \<times> string" where
  "scan_exponent s =
     (case s of
        c # r \<Rightarrow>
          if c = CHR ''e'' \<or> c = CHR ''E'' then
            (case r of
               d # q \<Rightarrow>
                 if d = CHR ''+'' \<or> d = CHR ''-''
                 then (case scan_digits q of Some (ds, q) \<Rightarrow> (c # d # ds, q) | None \<Rightarrow> ([], s))
                 else (case scan_digits r of Some (ds, q) \<Rightarrow> (c # ds, q) | None \<Rightarrow> ([], s))
             | [] \<Rightarrow> ([], s))
          else ([], s)
      | [] \<Rightarrow> ([], s))"

definition scan_unsigned :: "string \<Rightarrow> (string \<times> bool \<times> string) option" where
  "scan_unsigned s =
     (case scan_int s of
        None \<Rightarrow> None
      | Some (ds, r) \<Rightarrow>
          (case scan_fraction r of (fs, q) \<Rightarrow> (case scan_exponent q of (es, p) \<Rightarrow>
             Some (ds @ fs @ es, fs \<noteq> [] \<or> es \<noteq> [], p))))"

definition scan_number :: "string \<Rightarrow> (string \<times> bool \<times> string) option" where
  "scan_number s =
     (case s of
        [] \<Rightarrow> None
      | c # r \<Rightarrow> if c = CHR ''-'' then map_option (\<lambda>(l, q). (c # l, q)) (scan_unsigned r)
                 else scan_unsigned s)"

definition read_nat :: "string \<Rightarrow> nat" where
  "read_nat s = foldl (\<lambda>n c. 10 * n + digit_val c) 0 s"

definition read_int :: "string \<Rightarrow> int" where
  "read_int s =
     (case s of
        [] \<Rightarrow> 0
      | c # r \<Rightarrow> if c = CHR ''-'' then - int (read_nat r) else int (read_nat s))"

definition read_number :: "(string \<Rightarrow> string) \<Rightarrow> string \<Rightarrow> (json \<times> string) option" where
  "read_number fr s =
     (case scan_number s of
        Some (l, float, r) \<Rightarrow> Some (if float then JFloat (fr l) else JInt (read_int l), r)
      | None \<Rightarrow>
          if prefix ''NaN'' s then Some (JFloat ''nan'', drop 3 s)
          else if prefix ''Infinity'' s then Some (JFloat ''inf'', drop 8 s)
          else if prefix ''-Infinity'' s then Some (JFloat ''-inf'', drop 9 s)
          else None)"

fun parse_value :: "(string \<Rightarrow> string) \<Rightarrow> nat \<Rightarrow> string \<Rightarrow> (json \<times> string) option"
  and parse_elems :: "(string \<Rightarrow> string) \<Rightarrow> nat \<Rightarrow> string \<Rightarrow> (json list \<times> string) option"
  and parse_members :: "(string \<Rightarrow> string) \<Rightarrow> nat \<Rightarrow> string \<Rightarrow> (obj \<times> string) option" where
  "parse_value fr 0 s = None"
| "parse_value fr (Suc n) s =
     (case s of
        [] \<Rightarrow> None
      | c # r \<Rightarrow>
          if c = CHR 34 then map_option (\<lambda>(t, q). (JStr t, q)) (scan_string r)
          else if c = CHR ''{'' then
            (case skip_ws r of
               [] \<Rightarrow> None
             | d # q \<Rightarrow> if d = CHR ''}'' then Some (JObj [], q)
                 else map_option (\<lambda>(kvs, q). (JObj (oupdate [] kvs), q)) (parse_members fr n (d # q)))
          else if c = CHR ''['' then
            (case skip_ws r of
               [] \<Rightarrow> None
             | d # q \<Rightarrow> if d = CHR '']'' then Some (JArr [], q)
                 else map_option (\<lambda>(vs, q). (JArr vs, q)) (parse_elems fr n (d # q)))
          else if prefix ''null'' s then Some (JNull, drop 4 s)
          else if prefix ''true'' s then Some (JBool True, drop 4 s)
          else if prefix ''false'' s then Some (JBool False, drop 5 s)
          else read_number fr s)"
| "parse_elems fr 0 s = None"
| "parse_elems fr (Suc n) s =
     (case parse_value fr n s of
        None \<Rightarrow> None
      | Some (v, r) \<Rightarrow>
          (case skip_ws r of
             [] \<Rightarrow> None
           | c # q \<Rightarrow> if c = CHR '']'' then Some ([v], q)
               else if c = CHR '','' then
                 map_option (\<lambda>(vs, p). (v # vs, p)) (parse_elems fr n (skip_ws q))
               else None))"
| "parse_members fr 0 s = None"
| "parse_members fr (Suc n) s =
     (case s of
        [] \<Rightarrow> None
      | c # r \<Rightarrow> if c \<noteq> CHR 34 then None else
          (case scan_string r of
             None \<Rightarrow> None
           | Some (k, r1) \<Rightarrow>
               (case skip_ws r1 of
                  [] \<Rightarrow> None
                | d # r2 \<Rightarrow> if d \<noteq> CHR '':'' then None else
                    (case parse_value fr n (skip_ws r2) of
                       None \<Rightarrow> None
                     | Some (v, r3) \<Rightarrow>
                         (case skip_ws r3 of
                            [] \<Rightarrow> None
                          | x # q \<Rightarrow> if x = CHR ''}'' then Some ([(k, v)], q)
                              else if x = CHR '','' then
                                map_option (\<lambda>(kvs, p). ((k, v) # kvs, p)) (parse_members fr n (skip_ws q))
                              else None)))))"

definition json_loads :: "(string \<Rightarrow> string) \<Rightarrow> string \<Rightarrow> json option" where
  "json_loads fr s =
     (case parse_value fr (2 * length s + 1) (skip_ws s) of
        Some (v, r) \<Rightarrow> if skip_ws r = [] then Some v else None
      | None \<Rightarrow> None)"

subsection \<open>Strings\<close>

lemma of_char_less_256: "(of_char c :: nat) < 256"
  by simp

lemma hex_val_digit [simp]: "n < 16 \<Longrightarrow> hex_val (hex_digit n) = Some n"
proof -
  have "\<forall>n \<in> {..<16}. hex_val (hex_digit n) = Some n"
    by (simp add: hex_val_def hex_digit_def lessThan_Suc numeral_eq_Suc del: upt_Suc)
  then show "n < 16 \<Longrightarrow> hex_val (hex_digit n) = Some n" by simp
qed

lemma scan_string_esc: "scan_string (esc_char c @ s) = map_option (\<lambda>(t, q). (c # t, q)) (scan_string s)"
proof -
  let ?n = "of_char c :: nat"
  consider (short) "c \<in> {CHR 34, CHR 92, CHR 0x0A, CHR 0x0D, CHR 0x09, CHR 0x08, CHR 0x0C}"
    | (ctl) "?n < 32" "?n \<notin> {8, 9, 10, 12, 13}"
    | (plain) "?n \<ge> 32" "?n \<noteq> 34" "?n \<noteq> 92"
  proof -
    have "?n = of_char d \<Longrightarrow> c = d" for d by (simp only: of_char_eq_iff)
    from this [of "CHR 34"] this [of "CHR 92"] this [of "CHR 0x0A"] this [of "CHR 0x0D"]
      this [of "CHR 0x09"] this [of "CHR 0x08"] this [of "CHR 0x0C"]
    have "?n \<in> {34, 92, 10, 13, 9, 8, 12} \<Longrightarrow>
        c \<in> {CHR 34, CHR 92, CHR 0x0A, CHR 0x0D, CHR 0x09, CHR 0x08, CHR 0x0C}"
      by auto
    then show ?thesis using short ctl plain by fastforce
  qed
  then show ?thesis
  proof cases
    case short
    then show ?thesis
      by (auto simp: esc_char_def scan_string.simps [of "CHR 92 # _"] unescape_def)
  next
    case ctl
    define k m where "k = ?n div 16" and "m = ?n mod 16"
    have km: "k < 16" "m < 16" "k * 16 + m = ?n"
      unfolding k_def m_def using ctl by simp_all
    have "hex_val (CHR ''0'') = Some 0" by (simp add: hex_val_def)
    moreover have "esc_char c = [CHR 92, CHR ''u'', CHR ''0'', CHR ''0'', hex_digit k, hex_digit m]"
      using ctl by (simp add: esc_char_def Let_def k_def m_def)
    ultimately show ?thesis
      using km by (simp add: scan_string.simps [of "CHR 92 # _"])
  next
    case plain
    then have "c \<noteq> CHR 34" "c \<noteq> CHR 92" by auto
    with plain show ?thesis by (simp add: esc_char_def scan_string.simps [of "c # _"])
  qed
qed

lemma scan_string_dumps: "scan_string (concat (map esc_char s) @ CHR 34 # r) = Some (s, r)"
  by (induction s) (simp_all add: scan_string_esc scan_string.simps [of "CHR 34 # _"])

subsection \<open>Numbers\<close>

text \<open>A text after which a number ends.\<close>

definition stops :: "string \<Rightarrow> bool" where
  "stops r \<longleftrightarrow>
     (case r of [] \<Rightarrow> True | c # _ \<Rightarrow> \<not> is_digit c \<and> c \<notin> set ''.eE+-'')"

lemma digit_char_cases: "n < 10 \<Longrightarrow> n \<in> {0, 1, 2, 3, 4, 5, 6, 7, 8, 9 :: nat}"
  by auto

lemma is_digit_digit_char [simp]: "n < 10 \<Longrightarrow> is_digit (digit_char n)"
  by (drule digit_char_cases) (auto simp: is_digit_def digit_char_def)

lemma digit_val_digit_char [simp]: "n < 10 \<Longrightarrow> digit_val (digit_char n) = n"
  by (drule digit_char_cases) (auto simp: digit_val_def digit_char_def)

lemma digit_char_zero: "n < 10 \<Longrightarrow> digit_char n = CHR ''0'' \<longleftrightarrow> n = 0"
  by (drule digit_char_cases) (auto simp: digit_char_def)

lemma show_nat_digits: "list_all is_digit (show_nat n)"
  by (induction n rule: show_nat.induct) (subst show_nat.simps, auto)

lemma read_nat_show_nat [simp]: "read_nat (show_nat n) = n"
proof (induction n rule: show_nat.induct)
  case (1 n)
  then show ?case by (subst show_nat.simps) (simp add: read_nat_def)
qed

lemma show_nat_Cons: "\<exists>c r. show_nat n = c # r \<and> is_digit c \<and> (c = CHR ''0'' \<longrightarrow> n = 0 \<and> r = [])"
proof (induction n rule: show_nat.induct)
  case (1 n)
  show ?case
  proof (cases "n < 10")
    case True
    then show ?thesis by (subst show_nat.simps) (simp add: digit_char_zero)
  next
    case False
    with 1 obtain c r where "show_nat (n div 10) = c # r" "is_digit c" "c = CHR ''0'' \<longrightarrow> n div 10 = 0"
      by blast
    moreover have "n div 10 \<noteq> 0" using False by simp
    ultimately show ?thesis using False by (subst show_nat.simps) simp
  qed
qed

lemma scan_digits_append:
  "stops r \<Longrightarrow> scan_digits (s @ r) = map_option (\<lambda>(d, q). (d, q @ r)) (scan_digits s)"
proof -
  assume "stops r"
  then have r: "takeWhile is_digit r = []" "dropWhile is_digit r = r"
    by (cases r; simp add: stops_def)+
  show ?thesis
  proof (cases "list_all is_digit s")
    case True
    then have "takeWhile is_digit s = s" "dropWhile is_digit s = []"
      "takeWhile is_digit (s @ r) = s" "dropWhile is_digit (s @ r) = r"
      using r by (simp_all add: list_all_iff takeWhile_eq_all_conv takeWhile_append dropWhile_append)
    then show ?thesis unfolding scan_digits_def Let_def by (simp only: split: if_split) simp
  next
    case False
    then show ?thesis
      by (auto simp: scan_digits_def Let_def list_all_iff takeWhile_append dropWhile_append)
  qed
qed

lemma scan_digits_stops [simp]: "stops r \<Longrightarrow> scan_digits r = None"
  by (cases r) (simp_all add: scan_digits_def stops_def)

lemma scan_int_append:
  "stops r \<Longrightarrow> scan_int (s @ r) = map_option (\<lambda>(d, q). (d, q @ r)) (scan_int s)"
proof (cases s)
  case Nil
  assume "stops r"
  then have "scan_int r = None"
    by (cases r) (auto simp: scan_int_def stops_def is_digit_def scan_digits_def)
  then show ?thesis by (simp add: Nil) (simp add: scan_int_def)
next
  case (Cons c t)
  assume "stops r"
  then show ?thesis using scan_digits_append [of r s] by (simp add: Cons scan_int_def)
qed

lemma stops_Cons [simp]: "stops (c # r) \<longleftrightarrow> \<not> is_digit c \<and> c \<notin> set ''.eE+-''"
  by (simp add: stops_def)

lemma scan_fraction_append:
  "stops r \<Longrightarrow> scan_fraction (s @ r) = map_prod id (\<lambda>q. q @ r) (scan_fraction s)"
proof (cases s)
  case Nil
  assume "stops r"
  then show ?thesis by (cases r) (auto simp: Nil scan_fraction_def)
next
  case (Cons c t)
  assume "stops r"
  then show ?thesis using scan_digits_append [of r t]
    by (auto simp: Cons scan_fraction_def split: option.split)
qed

lemma scan_exponent_append:
  "stops r \<Longrightarrow> scan_exponent (s @ r) = map_prod id (\<lambda>q. q @ r) (scan_exponent s)"
proof (cases s)
  case Nil
  assume "stops r"
  then show ?thesis by (cases r) (auto simp: Nil scan_exponent_def)
next
  case (Cons c t)
  assume r: "stops r"
  show ?thesis
  proof (cases t)
    case Nil
    with r show ?thesis
      by (cases r) (auto simp: Cons scan_exponent_def scan_digits_def)
  next
    case (Cons d q)
    then show ?thesis using \<open>s = c # t\<close> scan_digits_append [OF r, of q] scan_digits_append [OF r, of t]
      by (auto simp: scan_exponent_def split: option.split)
  qed
qed

lemma scan_number_append:
  assumes "stops r"
  shows "scan_number (s @ r) = map_option (\<lambda>(l, b, q). (l, b, q @ r)) (scan_number s)"
proof -
  have u: "scan_unsigned (t @ r) = map_option (\<lambda>(l, b, q). (l, b, q @ r)) (scan_unsigned t)" for t
    using scan_int_append [OF assms, of t] scan_fraction_append [OF assms] scan_exponent_append [OF assms]
    by (auto simp: scan_unsigned_def split: option.splits prod.splits)
  show ?thesis
  proof (cases s)
    case Nil
    with assms u [of "[]"] show ?thesis
      by (cases r) (auto simp: scan_number_def scan_unsigned_def scan_int_def)
  next
    case (Cons c t)
    then show ?thesis using u [of t] u [of s]
      by (auto simp: scan_number_def option.map_comp comp_def case_prod_beta)
  qed
qed

lemma scan_digits_all: "list_all is_digit s \<Longrightarrow> s \<noteq> [] \<Longrightarrow> scan_digits s = Some (s, [])"
proof -
  assume "list_all is_digit s" "s \<noteq> []"
  then have "takeWhile is_digit s = s" "dropWhile is_digit s = []"
    by (simp_all add: list_all_iff takeWhile_eq_all_conv)
  then show ?thesis using \<open>s \<noteq> []\<close> unfolding scan_digits_def Let_def by (simp only: simp_thms if_False)
qed

lemma scan_unsigned_show_nat: "scan_unsigned (show_nat n) = Some (show_nat n, False, [])"
proof -
  obtain c r where cr: "show_nat n = c # r" "c = CHR ''0'' \<longrightarrow> r = []" using show_nat_Cons [of n] by blast
  have "scan_int (show_nat n) = Some (show_nat n, [])"
  proof (cases "c = CHR ''0''")
    case True
    with cr show ?thesis by (simp add: scan_int_def)
  next
    case False
    with cr show ?thesis using scan_digits_all [of "show_nat n"] show_nat_digits [of n]
      by (simp add: scan_int_def)
  qed
  then show ?thesis by (simp add: scan_unsigned_def scan_fraction_def scan_exponent_def)
qed

lemma show_nat_not_minus: "show_nat n = c # r \<Longrightarrow> c \<noteq> CHR ''-''"
  using show_nat_Cons [of n] by (auto simp: is_digit_def)

lemma scan_number_show_int: "scan_number (show_int i) = Some (show_int i, False, [])"
proof (cases "i < 0")
  case True
  then show ?thesis by (simp add: show_int_def scan_number_def scan_unsigned_show_nat)
next
  case False
  obtain c r where "show_nat (nat i) = c # r" using show_nat_Cons by blast
  then show ?thesis using False show_nat_not_minus [of "nat i" c r] scan_unsigned_show_nat [of "nat i"]
    by (simp add: show_int_def scan_number_def)
qed

lemma read_int_show_int [simp]: "read_int (show_int i) = i"
proof (cases "i < 0")
  case False
  then have "read_nat (show_nat (nat i)) = nat i" by simp
  then show ?thesis using False show_nat_not_minus [of "nat i"]
    by (auto simp: show_int_def read_int_def read_nat_def split: list.split)
qed (simp add: show_int_def read_int_def)

text \<open>The floats a decoder returns: the special values, and decimal literals that
  \<^verbatim>\<open>repr(float(...))\<close> leaves as they are.\<close>

definition float_ok :: "(string \<Rightarrow> string) \<Rightarrow> string \<Rightarrow> bool" where
  "float_ok fr r \<longleftrightarrow>
     r \<in> {''nan'', ''inf'', ''-inf''} \<or> (scan_number r = Some (r, True, []) \<and> fr r = r)"

lemma read_number_int: "stops r \<Longrightarrow> read_number fr (show_int i @ r) = Some (JInt i, r)"
  by (simp add: read_number_def scan_number_append scan_number_show_int)

lemma read_number_float:
  assumes "float_ok fr f" "stops r"
  shows "read_number fr (dumps_float f @ r) = Some (JFloat f, r)"
proof (cases "f \<in> {''nan'', ''inf'', ''-inf''}")
  case True
  then show ?thesis
    by (auto simp: read_number_def dumps_float_def scan_number_def scan_unsigned_def scan_int_def
        scan_digits_def is_digit_def)
next
  case False
  with assms show ?thesis
    by (auto simp: float_ok_def read_number_def dumps_float_def scan_number_append)
qed

subsection \<open>Reading canonical text back\<close>

fun canon :: "json \<Rightarrow> json" where
  "canon (JArr xs) = JArr (map canon xs)"
| "canon (JObj kvs) = JObj (sort_key fst (map (\<lambda>kv. (fst kv, canon (snd kv))) kvs))"
| "canon v = v"

fun floats_ok :: "(string \<Rightarrow> string) \<Rightarrow> json \<Rightarrow> bool" where
  "floats_ok fr (JFloat r) = float_ok fr r"
| "floats_ok fr (JArr xs) = list_all (floats_ok fr) xs"
| "floats_ok fr (JObj kvs) = list_all (\<lambda>kv. floats_ok fr (snd kv)) kvs"
| "floats_ok fr _ = True"

lemma insort_key_map: "insort_key f (g x) (map g xs) = map g (insort_key (\<lambda>x. f (g x)) x xs)"
  by (induction xs) simp_all

lemma sort_key_map: "sort_key f (map g xs) = map g (sort_key (f \<circ> g) xs)"
  by (induction xs) (simp_all add: insort_key_map comp_def)

lemma sort_key_map_fst: "sort_key fst (map (\<lambda>kv. (fst kv, h kv)) kvs) = map (\<lambda>kv. (fst kv, h kv)) (sort_key fst kvs)"
  by (simp add: sort_key_map comp_def)

definition dumps_member :: "string \<times> json \<Rightarrow> string" where
  "dumps_member kv = dumps_str (fst kv) @ '':'' @ dumps (snd kv)"

lemma dumps_JObj:
  "dumps (JObj kvs) = ''{'' @ join '','' (map dumps_member (sort_key fst kvs)) @ ''}''"
  by (simp add: dumps.simps(7) sort_key_map_fst dumps_member_def [abs_def] comp_def)

lemma canon_JObj: "canon (JObj kvs) = JObj (map (\<lambda>kv. (fst kv, canon (snd kv))) (sort_key fst kvs))"
  by (simp add: sort_key_map_fst)

declare canon.simps(2) [simp del]

text \<open>The text of a value begins with a character that neither ends a list nor is skipped.\<close>

definition starts :: "string \<Rightarrow> bool" where
  "starts s \<longleftrightarrow>
     (case s of [] \<Rightarrow> False | c # _ \<Rightarrow> \<not> json_ws c \<and> c \<noteq> CHR '']'' \<and> c \<noteq> CHR ''}'')"

lemma starts_append: "starts s \<Longrightarrow> starts (s @ r)"
  by (cases s) (simp_all add: starts_def)

lemma starts_skip_ws [simp]: "starts s \<Longrightarrow> skip_ws s = s"
  by (cases s) (simp_all add: starts_def skip_ws_def)

lemma starts_number: "scan_number s = Some x \<Longrightarrow> starts s"
proof (cases s)
  case (Cons c t)
  assume "scan_number s = Some x"
  then have "c = CHR ''-'' \<or> is_digit c"
    by (auto simp: Cons scan_number_def scan_unsigned_def scan_int_def scan_digits_def is_digit_def
        split: if_splits)
  then show ?thesis by (auto simp: Cons starts_def json_ws_def is_digit_def)
qed (simp add: scan_number_def)

lemma starts_dumps: "floats_ok fr v \<Longrightarrow> starts (dumps v)"
proof (cases v)
  case (JFloat r)
  assume v: "floats_ok fr v"
  show ?thesis
  proof (cases "r \<in> {''nan'', ''inf'', ''-inf''}")
    case True
    then have "dumps_float r \<in> {''NaN'', ''Infinity'', ''-Infinity''}" by (auto simp: dumps_float_def)
    then show ?thesis unfolding JFloat by (auto simp: starts_def json_ws_def)
  next
    case False
    then have "dumps_float r = r" "scan_number r = Some (r, True, [])"
      using v by (auto simp: JFloat float_ok_def dumps_float_def)
    then show ?thesis using starts_number [of r] by (simp add: JFloat)
  qed
next
  case (JInt i)
  then show ?thesis using starts_number [OF scan_number_show_int] by simp
qed (simp_all add: starts_def json_ws_def dumps_str_def dumps_JObj)

lemma skip_ws_Cons [simp]: "\<not> json_ws c \<Longrightarrow> skip_ws (c # s) = c # s"
  by (simp add: skip_ws_def)

lemma json_ws_punct [simp]:
  "\<not> json_ws (CHR '']'')" "\<not> json_ws (CHR ''}'')" "\<not> json_ws (CHR '','')" "\<not> json_ws (CHR '':'')"
  "\<not> json_ws (CHR 34)"
  by (simp_all add: json_ws_def)

lemma is_digit_punct [simp]:
  "\<not> is_digit (CHR '']'')" "\<not> is_digit (CHR ''}'')" "\<not> is_digit (CHR '','')"
  by (simp_all add: is_digit_def)

lemma stops_punct [simp]:
  "stops (CHR '']'' # r)" "stops (CHR ''}'' # r)" "stops (CHR '','' # r)" "stops []"
  by (simp_all add: is_digit_def stops_def)

lemma parse_elems_dumps:
  assumes "\<And>v r n. v \<in> set vs \<Longrightarrow> stops r \<Longrightarrow> 2 * length (dumps v) < n \<Longrightarrow>
      parse_value fr n (dumps v @ r) = Some (canon v, r)"
    and "\<forall>v \<in> set vs. starts (dumps v)" "vs \<noteq> []"
    and "2 * length (join '','' (map dumps vs)) + 1 < n"
  shows "parse_elems fr n (join '','' (map dumps vs) @ CHR '']'' # r) = Some (map canon vs, r)"
  using assms
proof (induction vs arbitrary: n)
  case (Cons v vs)
  obtain m where n: "n = Suc m" using Cons.prems(4) by (cases n) auto
  show ?case
  proof (cases vs)
    case Nil
    with Cons.prems(1) [of v "CHR '']'' # r" m] Cons.prems(4) n show ?thesis by simp
  next
    case (Cons w ws)
    have "starts (dumps w)" using Cons.prems(2) Cons by simp
    then have "starts (join '','' (map dumps vs) @ CHR '']'' # r)"
      unfolding Cons by (cases ws) (simp_all add: starts_append)
    moreover have "parse_elems fr m (join '','' (map dumps vs) @ CHR '']'' # r) = Some (map canon vs, r)"
    proof (rule Cons.IH)
      show "2 * length (join '','' (map dumps vs)) + 1 < m"
        using Cons.prems(4) by (simp add: Cons n)
    qed (use Cons.prems Cons in auto)
    moreover have "parse_value fr m (dumps v @ CHR '','' # join '','' (map dumps vs) @ CHR '']'' # r) =
        Some (canon v, CHR '','' # join '','' (map dumps vs) @ CHR '']'' # r)"
      using Cons.prems(1) [of v] Cons.prems(4) by (simp add: Cons n)
    ultimately show ?thesis unfolding Cons n by simp
  qed
qed simp

lemma scan_string_member: "scan_string (concat (map esc_char k) @ CHR 34 # r) = Some (k, r)"
  by (rule scan_string_dumps)

lemma dumps_member_split:
  "dumps_member (k, v) @ r = CHR 34 # concat (map esc_char k) @ CHR 34 # CHR '':'' # dumps v @ r"
  by (simp add: dumps_member_def dumps_str_def)

lemma parse_members_dumps:
  assumes "\<And>k v r n. (k, v) \<in> set kvs \<Longrightarrow> stops r \<Longrightarrow> 2 * length (dumps v) < n \<Longrightarrow>
      parse_value fr n (dumps v @ r) = Some (canon v, r)"
    and "\<forall>(k, v) \<in> set kvs. starts (dumps v)" "kvs \<noteq> []"
    and "2 * length (join '','' (map dumps_member kvs)) + 1 < n"
  shows "parse_members fr n (join '','' (map dumps_member kvs) @ CHR ''}'' # r) =
    Some (map (\<lambda>kv. (fst kv, canon (snd kv))) kvs, r)"
  using assms
proof (induction kvs arbitrary: n)
  case (Cons kv kvs)
  obtain k v where kv: "kv = (k, v)" by (cases kv)
  obtain m where n: "n = Suc m" using Cons.prems(4) by (cases n) auto
  have st: "starts (dumps v)" using Cons.prems(2) by (simp add: kv)
  have len: "2 * length (dumps v) < m"
    using Cons.prems(4) by (cases kvs) (auto simp: n kv dumps_member_def)
  have val: "parse_value fr m (dumps v @ q) = Some (canon v, q)" if "stops q" for q
    using Cons.prems(1) [of k v q m] that len by (simp add: kv)
  have sk: "skip_ws (dumps v @ q) = dumps v @ q" for q
    using st by (simp add: starts_append)
  show ?case
  proof (cases kvs)
    case Nil
    show ?thesis unfolding Nil kv n
      by (simp add: dumps_member_split scan_string_dumps sk val)
  next
    case (Cons w ws)
    obtain wk wv where w: "w = (wk, wv)" by (cases w)
    let ?rest = "join '','' (map dumps_member kvs) @ CHR ''}'' # r"
    have "\<exists>t. ?rest = CHR 34 # t"
      unfolding Cons w by (cases ws) (simp_all add: dumps_member_def dumps_str_def)
    then have skr: "skip_ws ?rest = ?rest" by auto
    have "parse_members fr m ?rest = Some (map (\<lambda>kv. (fst kv, canon (snd kv))) kvs, r)"
    proof (rule Cons.IH)
      show "2 * length (join '','' (map dumps_member kvs)) + 1 < m"
        using Cons.prems(4) by (simp add: Cons n)
    qed (use Cons.prems Cons in auto)
    moreover have eq: "join '','' (map dumps_member (kv # kvs)) @ CHR ''}'' # r =
        CHR 34 # concat (map esc_char k) @ CHR 34 # CHR '':'' # dumps v @ CHR '','' # ?rest"
      unfolding Cons kv by (simp add: dumps_member_def dumps_str_def)
    ultimately show ?thesis unfolding n eq
      by (simp add: kv scan_string_dumps sk val skr)
  qed
qed simp

lemma oupdate_Nil_distinct: "distinct (map fst kvs) \<Longrightarrow> oupdate [] kvs = kvs"
proof (induction kvs rule: rev_induct)
  case (snoc kv kvs)
  have "k \<notin> set (map fst d) \<Longrightarrow> oset k v d = d @ [(k, v)]" for k v d
    by (induction d) auto
  with snoc show ?case by (cases kv) (simp add: oupdate_def)
qed simp

lemma parse_value_dumps:
  "json_wf v \<Longrightarrow> floats_ok fr v \<Longrightarrow> stops r \<Longrightarrow> 2 * length (dumps v) < n \<Longrightarrow>
     parse_value fr n (dumps v @ r) = Some (canon v, r)"
proof (induction v arbitrary: r n)
  case (JInt i)
  obtain m where n: "n = Suc m" using JInt.prems(4) by (cases n) auto
  obtain c t where c: "show_int i = c # t" "c = CHR ''-'' \<or> is_digit c"
    using show_nat_Cons [of "nat i"] by (cases "i < 0") (auto simp: show_int_def)
  then have "c \<noteq> CHR 34" "c \<noteq> CHR ''{''" "c \<noteq> CHR ''[''" "c \<noteq> CHR ''n''" "c \<noteq> CHR ''t''" "c \<noteq> CHR ''f''"
    by (auto simp: is_digit_def)
  then show ?case using c(1) read_number_int [OF JInt.prems(3), of fr i] by (simp add: n)
next
  case (JFloat f)
  obtain m where n: "n = Suc m" using JFloat.prems(4) by (cases n) auto
  obtain c t where c: "dumps_float f = c # t" "c \<in> {CHR ''-'', CHR ''N'', CHR ''I''} \<or> is_digit c"
  proof (cases "f \<in> {''nan'', ''inf'', ''-inf''}")
    case True
    then show ?thesis using that by (auto simp: dumps_float_def)
  next
    case False
    then have f: "dumps_float f = f" "scan_number f = Some (f, True, [])"
      using JFloat.prems(2) by (auto simp: dumps_float_def float_ok_def)
    then obtain c t where "f = c # t" by (cases f) (auto simp: scan_number_def)
    moreover with f(2) have "c = CHR ''-'' \<or> is_digit c"
      by (auto simp: scan_number_def scan_unsigned_def scan_int_def scan_digits_def is_digit_def
          split: if_splits)
    ultimately show ?thesis using f(1) that by auto
  qed
  then have "c \<noteq> CHR 34" "c \<noteq> CHR ''{''" "c \<noteq> CHR ''[''" "c \<noteq> CHR ''n''" "c \<noteq> CHR ''t''" "c \<noteq> CHR ''f''"
    by (auto simp: is_digit_def)
  then show ?case using c(1) read_number_float [of fr f r] JFloat.prems by (simp add: n)
next
  case (JStr s)
  then obtain m where "n = Suc m" by (cases n) auto
  then show ?case by (simp add: dumps_str_def scan_string_dumps)
next
  case (JArr vs)
  then obtain m where n: "n = Suc m" by (cases n) auto
  show ?case
  proof (cases "vs = []")
    case False
    have st: "\<forall>v \<in> set vs. starts (dumps v)"
      using JArr.prems(2) starts_dumps by (auto simp: list_all_iff)
    have "starts (join '','' (map dumps vs) @ CHR '']'' # r)"
      using False st by (cases vs; cases "tl vs") (auto simp: starts_append)
    then have "skip_ws (join '','' (map dumps vs) @ CHR '']'' # r) = join '','' (map dumps vs) @ CHR '']'' # r"
      and "\<exists>d q. join '','' (map dumps vs) @ CHR '']'' # r = d # q \<and> d \<noteq> CHR '']''"
      by (simp, auto simp: starts_def split: list.splits)
    moreover have "parse_elems fr m (join '','' (map dumps vs) @ CHR '']'' # r) = Some (map canon vs, r)"
    proof (rule parse_elems_dumps)
      show "parse_value fr n (dumps v @ r) = Some (canon v, r)"
        if "v \<in> set vs" "stops r" "2 * length (dumps v) < n" for v r n
        using JArr.IH [OF that(1) _ _ that(2,3)] JArr.prems that(1) by (auto simp: list_all_iff)
    qed (use st False JArr.prems(4) n in auto)
    ultimately show ?thesis by (auto simp: n)
  qed (simp add: n)
next
  case (JObj kvs)
  then obtain m where n: "n = Suc m" by (cases n) auto
  show ?case
  proof (cases "kvs = []")
    case False
    let ?kvs = "sort_key fst kvs"
    let ?s = "join '','' (map dumps_member ?kvs) @ CHR ''}'' # r"
    have ne: "?kvs \<noteq> []" using False by (metis set_empty set_sort)
    then obtain k v ws where kv: "?kvs = (k, v) # ws" by (metis list.exhaust surj_pair)
    have "\<exists>t. ?s = CHR 34 # t"
      unfolding kv by (cases ws) (simp_all add: dumps_member_def dumps_str_def)
    moreover have "parse_members fr m ?s = Some (map (\<lambda>kv. (fst kv, canon (snd kv))) ?kvs, r)"
    proof (rule parse_members_dumps)
      show "parse_value fr n (dumps v @ r) = Some (canon v, r)"
        if "(k, v) \<in> set ?kvs" "stops r" "2 * length (dumps v) < n" for k v r n
      proof -
        have "(k, v) \<in> set kvs" using that(1) by simp
        then have "json_wf v" "floats_ok fr v" using JObj.prems(1,2) by (fastforce simp: list_all_iff)+
        then show ?thesis using JObj.IH [of "(k, v)" v r n] \<open>(k, v) \<in> set kvs\<close> that(2,3) by simp
      qed
      show "\<forall>(k, v) \<in> set ?kvs. starts (dumps v)"
        using JObj.prems(2) starts_dumps by (fastforce simp: list_all_iff)
      show "2 * length (join '','' (map dumps_member ?kvs)) + 1 < m"
        using JObj.prems(4) by (simp add: dumps_JObj n)
    qed (rule ne)
    moreover have "distinct (map fst (map (\<lambda>kv. (fst kv, canon (snd kv))) ?kvs))"
      using JObj.prems(1) by (simp add: comp_def) (metis distinct_map distinct_sort set_sort)
    ultimately show ?thesis
      by (auto simp: n dumps_JObj canon_JObj oupdate_Nil_distinct)
  qed (simp add: n dumps_JObj canon_JObj)
next
  case (JBool b)
  then obtain m where "n = Suc m" by (cases n) auto
  then show ?case by simp
next
  case JNull
  then obtain m where "n = Suc m" by (cases n) auto
  then show ?case by simp
qed

theorem loads_dumps:
  "json_wf v \<Longrightarrow> floats_ok fr v \<Longrightarrow> json_loads fr (dumps v) = Some (canon v)"
proof -
  assume v: "json_wf v" "floats_ok fr v"
  have "parse_value fr (2 * length (dumps v) + 1) (dumps v) = Some (canon v, [])"
    using parse_value_dumps [OF v, of "[]" "2 * length (dumps v) + 1"] by (simp only: stops_punct append_Nil2)
  moreover have "skip_ws (dumps v) = dumps v" using starts_dumps [OF v(2)] by simp
  ultimately show ?thesis by (simp add: json_loads_def skip_ws_def)
qed

lemma dumps_inject:
  assumes "dumps v = dumps w" "json_wf v" "json_wf w" "floats_ok fr v" "floats_ok fr w"
  shows "canon v = canon w"
  using loads_dumps [of v fr] loads_dumps [of w fr] assms by simp

lemma dumps_canon [simp]: "dumps (canon v) = dumps v"
proof (induction v)
  case (JArr vs)
  then have "map (dumps \<circ> canon) vs = map dumps vs" by simp
  then show ?case by (simp only: canon.simps dumps.simps map_map)
next
  case (JObj kvs)
  have "map dumps_member (map (\<lambda>kv. (fst kv, canon (snd kv))) (sort_key fst kvs)) =
      map dumps_member (sort_key fst kvs)"
    using JObj by (auto simp: dumps_member_def)
  moreover have "sort_key fst (map (\<lambda>kv. (fst kv, canon (snd kv))) (sort_key fst kvs)) =
      map (\<lambda>kv. (fst kv, canon (snd kv))) (sort_key fst kvs)"
    by (rule sort_key_id_if_sorted) (simp add: comp_def)
  ultimately show ?case by (simp only: canon_JObj dumps_JObj)
qed simp_all

lemma map_of_sort_key_fst: "distinct (map fst kvs) \<Longrightarrow> map_of (sort_key fst kvs) = map_of kvs"
  by (metis distinct_map distinct_sort map_of_inject_set set_sort)

lemma map_of_canon:
  "distinct (map fst kvs) \<Longrightarrow>
     map_of (sort_key fst (map (\<lambda>kv. (fst kv, canon (snd kv))) kvs)) k = map_option canon (map_of kvs k)"
proof -
  assume "distinct (map fst kvs)"
  then have "map_of (sort_key fst (map (\<lambda>kv. (fst kv, canon (snd kv))) kvs)) k =
      map_of (map (\<lambda>kv. (fst kv, canon (snd kv))) kvs) k"
    using map_of_sort_key_fst [of "map (\<lambda>kv. (fst kv, canon (snd kv))) kvs"] by (simp add: comp_def)
  also have "map_of (map (\<lambda>kv. (fst kv, canon (snd kv))) kvs) k = map_option canon (map_of kvs k)"
    by (induction kvs) auto
  finally show ?thesis by simp
qed

lemma canon_JStr [simp]: "canon v = JStr s \<longleftrightarrow> v = JStr s"
  by (cases v) (auto simp: canon_JObj)

text \<open>Equal canonical text of two dictionaries gives every field the same text.\<close>

lemma dumps_inject_field:
  assumes "dumps (JObj a) = dumps (JObj b)" "json_wf (JObj a)" "json_wf (JObj b)"
    and "floats_ok fr (JObj a)" "floats_ok fr (JObj b)"
  shows "map_option canon (map_of a k) = map_option canon (map_of b k)"
proof -
  have "canon (JObj a) = canon (JObj b)" using dumps_inject [OF assms] .
  then show ?thesis using map_of_canon [of a k] map_of_canon [of b k] assms(2,3)
    by (simp add: canon.simps(2))
qed

subsection \<open>The fuel of the parser\<close>

lemma skip_ws_length: "length (skip_ws s) \<le> length s"
  by (simp add: skip_ws_def length_dropWhile_le)

lemma scan_string_shorter: "scan_string s = Some (t, r) \<Longrightarrow> length r < length s"
proof (induction s arbitrary: t r rule: scan_string.induct)
  case (1 s)
  show ?case
  proof (cases s)
    case Nil
    with 1 show ?thesis by (simp add: scan_string.simps [of "[]"])
  next
    case (Cons c q)
    with 1 show ?thesis
      by (auto simp: scan_string.simps [of "c # q"] dest!: hex4_shorter
          split: if_splits list.splits option.splits) fastforce+
  qed
qed

lemma scan_digits_shorter: "scan_digits s = Some (d, q) \<Longrightarrow> length q < length s"
proof -
  assume "scan_digits s = Some (d, q)"
  then have "takeWhile is_digit s = d" "d \<noteq> []" "dropWhile is_digit s = q"
    by (auto simp: scan_digits_def Let_def split: if_splits)
  then have "length s = length d + length q" by (metis length_append takeWhile_dropWhile_id)
  with \<open>d \<noteq> []\<close> show ?thesis by simp
qed

lemma scan_fraction_length: "length (snd (scan_fraction s)) \<le> length s"
  by (auto simp: scan_fraction_def split: list.split option.split dest!: scan_digits_shorter)

lemma scan_exponent_length: "length (snd (scan_exponent s)) \<le> length s"
  by (auto simp: scan_exponent_def split: list.split option.split dest!: scan_digits_shorter)

lemma scan_number_shorter: "scan_number s = Some (l, b, r) \<Longrightarrow> length r < length s"
proof -
  have int: "scan_int t = Some (d, q) \<Longrightarrow> length q < length t" for t d q
    by (auto simp: scan_int_def split: list.splits if_splits dest: scan_digits_shorter)
  have uns: "scan_unsigned t = Some (l, b, r) \<Longrightarrow> length r < length t" for t l
  proof -
    assume "scan_unsigned t = Some (l, b, r)"
    then obtain ds q where "scan_int t = Some (ds, q)"
      and r: "r = snd (scan_exponent (snd (scan_fraction q)))"
      by (auto simp: scan_unsigned_def split: option.splits prod.splits)
    moreover from this(1) have "length q < length t" by (rule int)
    ultimately show ?thesis
      using scan_fraction_length [of q] scan_exponent_length [of "snd (scan_fraction q)"] by simp
  qed
  assume "scan_number s = Some (l, b, r)"
  then show ?thesis
    by (auto simp: scan_number_def split: list.splits if_splits dest: uns)
qed

lemma read_number_shorter: "read_number fr s = Some (v, r) \<Longrightarrow> length r < length s"
proof -
  assume a: "read_number fr s = Some (v, r)"
  show ?thesis
  proof (cases "scan_number s")
    case None
    with a show ?thesis by (auto simp: read_number_def prefix_def split: if_splits)
  next
    case (Some x)
    with a show ?thesis
      using scan_number_shorter by (cases x) (auto simp: read_number_def)
  qed
qed

lemma skip_ws_eq_Cons: "skip_ws s = c # q \<Longrightarrow> length q < length s"
  using skip_ws_length [of s] by simp

lemma parse_shorter:
  "(parse_value fr n s = Some (v, r) \<longrightarrow> length r < length s)
   \<and> (parse_elems fr n s = Some (vs, r) \<longrightarrow> length r < length s)
   \<and> (parse_members fr n s = Some (kvs, r) \<longrightarrow> length r < length s)"
proof (induction n arbitrary: s v vs kvs r)
  case (Suc n)
  have val: "length r < length s" if "parse_value fr n s = Some (v, r)" for s v r
    using Suc.IH that by blast
  have val_ws: "length r < length s" if "parse_value fr n (skip_ws s) = Some (v, r)" for s v r
    using val [OF that] skip_ws_length [of s] by simp
  have elems: "length r < length s" if "parse_elems fr n s = Some (vs, r)" for s vs r
    using Suc.IH that by blast
  have elems_ws: "length r < length s" if "parse_elems fr n (skip_ws s) = Some (vs, r)" for s vs r
    using elems [OF that] skip_ws_length [of s] by simp
  have members: "length r < length s" if "parse_members fr n s = Some (kvs, r)" for s kvs r
    using Suc.IH that by blast
  have members_ws: "length r < length s" if "parse_members fr n (skip_ws s) = Some (kvs, r)" for s kvs r
    using members [OF that] skip_ws_length [of s] by simp
  have "length r < length s" if p: "parse_value fr (Suc n) s = Some (v, r)"
  proof (cases s)
    case (Cons c t)
    have list: "length q < length s" if "skip_ws t = d # q" for d q
      using skip_ws_eq_Cons [OF that] Cons by simp
    consider (string) "c = CHR 34" | (obj) "c = CHR ''{''" | (arr) "c = CHR ''[''"
      | (literal) "c \<noteq> CHR 34" "c \<noteq> CHR ''{''" "c \<noteq> CHR ''[''" by blast
    then show ?thesis
    proof cases
      case string
      with p Cons obtain u where "scan_string t = Some (u, r)" by auto
      then show ?thesis using scan_string_shorter Cons by fastforce
    next
      case obj
      with p Cons obtain d q where q: "skip_ws t = d # q" by (auto split: list.splits)
      with p Cons obj have "r = q \<or> (\<exists>kvs. parse_members fr n (d # q) = Some (kvs, r))"
        by (auto split: if_splits)
      then show ?thesis using list [OF q] skip_ws_length [of t] q Cons members by fastforce
    next
      case arr
      with p Cons obtain d q where q: "skip_ws t = d # q" by (auto split: list.splits)
      with p Cons arr have "r = q \<or> (\<exists>vs. parse_elems fr n (d # q) = Some (vs, r))"
        by (auto split: if_splits)
      then show ?thesis using list [OF q] skip_ws_length [of t] q Cons elems by fastforce
    next
      case literal
      with p Cons have "r = drop 4 s \<or> r = drop 5 s \<or> read_number fr s = Some (v, r)"
        by (simp split: if_splits)
      then show ?thesis using read_number_shorter [of fr s v r] Cons by auto
    qed
  qed (use p in simp)
  moreover have "length r < length s" if p: "parse_elems fr (Suc n) s = Some (vs, r)"
    using p by (auto split: if_splits list.splits option.splits dest!: skip_ws_eq_Cons elems_ws val)
  moreover have "length r < length s" if p: "parse_members fr (Suc n) s = Some (kvs, r)"
    using p by (auto split: if_splits list.splits option.splits
        dest!: skip_ws_eq_Cons scan_string_shorter members_ws val_ws)
  ultimately show ?case by blast
qed simp

text \<open>
  A text of length \<open>l\<close> needs fuel \<open>2 * l + 1\<close> for a value and one more for a list of members:
  more fuel changes nothing.
\<close>

lemma parse_fuel:
  "(2 * length s < n \<longrightarrow> n \<le> m \<longrightarrow> parse_value fr n s = parse_value fr m s)
   \<and> (2 * length s + 1 < n \<longrightarrow> n \<le> m \<longrightarrow> parse_elems fr n s = parse_elems fr m s)
   \<and> (2 * length s + 1 < n \<longrightarrow> n \<le> m \<longrightarrow> parse_members fr n s = parse_members fr m s)"
proof (induction n arbitrary: s m)
  case (Suc n)
  show ?case
  proof (cases m)
    case (Suc k)
    have val: "parse_value fr n s = parse_value fr k s" if "2 * length s < n" "n \<le> k" for s
      using Suc.IH that by blast
    have elems: "parse_elems fr n s = parse_elems fr k s" if "2 * length s + 1 < n" "n \<le> k" for s
      using Suc.IH that by blast
    have members: "parse_members fr n s = parse_members fr k s" if "2 * length s + 1 < n" "n \<le> k" for s
      using Suc.IH that by blast
    have "parse_value fr (Suc n) s = parse_value fr (Suc k) s" if "2 * length s < Suc n" "n \<le> k"
    proof (cases s)
      case (Cons c t)
      have "parse_elems fr n (d # q) = parse_elems fr k (d # q)"
        "parse_members fr n (d # q) = parse_members fr k (d # q)" if "skip_ws t = d # q" for d q
        using that \<open>2 * length s < Suc n\<close> \<open>n \<le> k\<close> skip_ws_length [of t] Cons
        by (auto intro!: elems members)
      then show ?thesis by (auto simp: Cons split: list.split)
    qed simp
    moreover have "parse_elems fr (Suc n) s = parse_elems fr (Suc k) s"
      if len: "2 * length s + 1 < Suc n" and "n \<le> k"
    proof -
      have tail: "parse_elems fr n (skip_ws q) = parse_elems fr k (skip_ws q)"
        if "parse_value fr n s = Some (v, r)" "skip_ws r = c # q" for v r c q
        using parse_shorter that len \<open>n \<le> k\<close> skip_ws_length [of q] skip_ws_eq_Cons [OF that(2)]
        by (intro elems) fastforce+
      show ?thesis using tail val [of s] len \<open>n \<le> k\<close> by (auto split: option.split list.split)
    qed
    moreover have "parse_members fr (Suc n) s = parse_members fr (Suc k) s"
      if len: "2 * length s + 1 < Suc n" and "n \<le> k"
    proof (cases s)
      case (Cons c t)
      have head: "parse_value fr n (skip_ws q) = parse_value fr k (skip_ws q)"
        if "scan_string t = Some (x, r)" "skip_ws r = d # q" for x r d q
        using scan_string_shorter [OF that(1)] skip_ws_eq_Cons [OF that(2)] skip_ws_length [of q]
          len \<open>n \<le> k\<close> Cons by (intro val) simp_all
      have tail: "parse_members fr n (skip_ws q2) = parse_members fr k (skip_ws q2)"
        if "scan_string t = Some (x, r)" "skip_ws r = d # q"
          "parse_value fr n (skip_ws q) = Some (v, r2)" "skip_ws r2 = e # q2" for x r d q v r2 e q2
      proof (intro members)
        have "length r2 < length (skip_ws q)" using parse_shorter that(3) by blast
        then show "2 * length (skip_ws q2) + 1 < n"
          using scan_string_shorter [OF that(1)] skip_ws_eq_Cons [OF that(2)] skip_ws_length [of q]
            skip_ws_eq_Cons [OF that(4)] skip_ws_length [of q2] len Cons by simp
      qed (rule \<open>n \<le> k\<close>)
      show ?thesis unfolding Cons
        using head tail by (auto split: option.split list.split)
    qed simp
    ultimately show ?thesis by (simp add: Suc del: parse_value.simps parse_elems.simps parse_members.simps)
  qed simp
qed simp

end
