(* ===== verification/Ledger.thy ===== *)
theory Ledger
  imports Human_Gate
begin

section \<open>The evidence ledger: event contract and validation\<close>

text \<open>
  \<^verbatim>\<open>EvidenceLedger._validate\<close> of \<^verbatim>\<open>ledger.py\<close>, on the dictionaries that
  \<^verbatim>\<open>_decode\<close> returns. The local variables of the validating loop are the record
  \<open>vstate\<close>; a dictionary keyed by transaction is an association list in insertion order. One
  turn of the loop is \<open>validate_event\<close>, cut at the source's own blocks: the shape of the
  record, the identity it must carry, the workflow of its transaction, starts, terminals, human
  gates, checkpoints, and the hash chain. \<open>check_history\<close> is the pass over the histories that
  follows the loop.
\<close>

definition GENESIS_FINGERPRINT :: string where
  "GENESIS_FINGERPRINT = replicate 64 (CHR ''0'')"

definition EVENT_TYPES :: "string list" where
  "EVENT_TYPES =
    [''TransactionStarted'', ''LeaseAcquired'', ''LeaseReleased'', ''SnapshotCaptured'',
     ''SessionLaunched'', ''SessionResultAccepted'', ''ChangesDetected'', ''ValidationStarted'',
     ''DeterministicExecutionStarted'', ''DeterministicResultAccepted'',
     ''ValidationPassed'', ''ValidationFailed'', ''CommitFinalized'', ''HumanGateRaised'',
     ''HumanGateResolved'', ''TransactionBlocked'', ''TransactionCompleted'',
     ''TransactionSuperseded'', ''RecoveryApplied'', ''ProjectionUpdated'',
     ''LegacyEvidenceImported'', ''CheckpointRecorded'']"

definition TERMINAL_EVENT_TYPES :: "string list" where
  "TERMINAL_EVENT_TYPES =
    [''TransactionBlocked'', ''TransactionCompleted'', ''TransactionSuperseded'', ''HumanGateRaised'']"

text \<open>The event types a terminal transaction still accepts.\<close>

definition POST_TERMINAL_TYPES :: "string list" where
  "POST_TERMINAL_TYPES =
    [''LeaseReleased'', ''RecoveryApplied'', ''ProjectionUpdated'', ''LegacyEvidenceImported'',
     ''CheckpointRecorded'']"

text \<open>The types a payload field may have, each as the test of \<^verbatim>\<open>isinstance\<close>.\<close>

definition PAYLOAD_CONTRACTS :: "string \<Rightarrow> (string \<times> (json \<Rightarrow> bool)) list" where
  "PAYLOAD_CONTRACTS t =
     (if t = ''TransactionStarted'' then
        [(''run_id'', is_str), (''starting_branch'', is_str), (''starting_head'', is_str),
         (''allowed_mutation_policy'', is_dict)]
      else if t = ''LeaseAcquired'' then [(''lease_id'', is_str), (''lease_type'', is_str)]
      else if t = ''SnapshotCaptured'' then [(''snapshot'', is_dict)]
      else if t = ''SessionLaunched'' then [(''session_id'', is_str)]
      else if t = ''SessionResultAccepted'' then
        [(''classification'', is_str), (''session_id'', is_str), (''changed_paths'', is_list),
         (''envelope'', is_dict)]
      else if t = ''DeterministicExecutionStarted'' then
        [(''plan_fingerprint'', is_str), (''model_session_launched'', is_bool)]
      else if t = ''DeterministicResultAccepted'' then
        [(''classification'', is_str), (''plan_fingerprint'', is_str),
         (''changed_paths'', is_list), (''model_session_launched'', is_bool)]
      else if t = ''ChangesDetected'' then
        [(''changed_paths'', is_list), (''diff_fingerprint'', is_str)]
      else if t = ''ValidationFailed'' then [(''diagnostic'', is_str)]
      else if t = ''CommitFinalized'' then [(''commit'', is_str), (''changed_paths'', is_list)]
      else if t = ''LeaseReleased'' then [(''lease_id'', \<lambda>v. is_str v \<or> v = JNull)]
      else if t = ''ProjectionUpdated'' then [(''current_state'', is_str)]
      else [])"

subsection \<open>Events\<close>

record ledger =
  lg_project_id :: string
  lg_repository_identity :: string
  lg_repository_path_fingerprint :: string

definition estr :: "obj \<Rightarrow> string \<Rightarrow> string" where
  "estr e k = (case oget e k of JStr s \<Rightarrow> s | _ \<Rightarrow> [])"

definition eint :: "obj \<Rightarrow> string \<Rightarrow> int" where
  "eint e k = (case oget e k of JInt i \<Rightarrow> i | _ \<Rightarrow> 0)"

definition payload :: "obj \<Rightarrow> obj" where
  "payload e = (case oget e ''payload'' of JObj d \<Rightarrow> d | _ \<Rightarrow> [])"

abbreviation etype :: "obj \<Rightarrow> string" where
  "etype e \<equiv> estr e ''event_type''"

abbreviation etx :: "obj \<Rightarrow> string" where
  "etx e \<equiv> estr e ''transaction_id''"

definition legacy_import :: "obj \<Rightarrow> bool" where
  "legacy_import e \<longleftrightarrow> truthy (oget (payload e) ''legacy_import'')"

definition event_fingerprint :: "obj \<Rightarrow> string" where
  "event_fingerprint e = fingerprint (JObj e)"

definition unsigned_event :: "obj \<Rightarrow> obj" where
  "unsigned_event e = adel ''fingerprint'' e"

definition typed_strings :: "string list" where
  "typed_strings = [''event_id'', ''event_type'', ''timestamp'', ''project_id'', ''repository_identity'',
     ''repository_path_fingerprint'', ''transaction_id'', ''workflow_type'',
     ''previous_fingerprint'', ''fingerprint'']"

definition event_required :: "string list" where
  "event_required = ''schema_version'' # ''sequence'' # ''payload'' # typed_strings"

definition hex64 :: "string \<Rightarrow> bool" where
  "hex64 s \<longleftrightarrow> length s = 64 \<and> list_all (\<lambda>c. c \<in> set fingerprint_hex_chars) s"

definition payload_contract_ok :: "obj \<Rightarrow> bool" where
  "payload_contract_ok e =
     list_all (\<lambda>(k, test). ohas (payload e) k \<longrightarrow> test (oget (payload e) k)) (PAYLOAD_CONTRACTS (etype e))"

definition event_shape :: "int \<Rightarrow> obj \<Rightarrow> unit res" where
  "event_shape expected e =
     rbind (check (list_all (ohas e) event_required) CorruptEvidenceError ''ledger sequence is missing fields'') (\<lambda>_.
     rbind (check (list_all (\<lambda>kv. fst kv \<in> set event_required) e)
              CorruptEvidenceError ''ledger sequence has unexpected fields'') (\<lambda>_.
     rbind (check (is_exact_int (oget e ''schema_version'') \<and> is_exact_int (oget e ''sequence''))
              CorruptEvidenceError ''ledger sequence has invalid integer fields'') (\<lambda>_.
     rbind (check (list_all (\<lambda>k. nonempty_str (oget e k)) typed_strings)
              CorruptEvidenceError ''ledger sequence has invalid string fields'') (\<lambda>_.
     rbind (check (is_dict (oget e ''payload''))
              CorruptEvidenceError ''ledger sequence payload is not an object'') (\<lambda>_.
     rbind (check (payload_contract_ok e)
              CorruptEvidenceError ''ledger sequence has invalid payload field'') (\<lambda>_.
     rbind (check (length (estr e ''repository_identity'') \<ge> 64
                   \<and> length (estr e ''repository_path_fingerprint'') \<ge> 64)
              CorruptEvidenceError ''ledger sequence has short repository identity fields'') (\<lambda>_.
     rbind (check (hex64 (estr e ''previous_fingerprint'') \<and> hex64 (estr e ''fingerprint''))
              CorruptEvidenceError ''ledger sequence has invalid fingerprint fields'') (\<lambda>_.
     check (eint e ''schema_version'' = 1 \<and> eint e ''sequence'' = expected)
       CorruptEvidenceError ''ledger sequence mismatch''))))))))"

definition event_identity :: "ledger \<Rightarrow> obj \<Rightarrow> unit res" where
  "event_identity L e =
     rbind (check (etype e \<in> set EVENT_TYPES) CorruptEvidenceError ''unsupported ledger event type'') (\<lambda>_.
     rbind (check (estr e ''project_id'' = lg_project_id L) CorruptEvidenceError ''project identity mismatch'') (\<lambda>_.
     rbind (check (estr e ''repository_identity'' = lg_repository_identity L)
              CorruptEvidenceError ''repository identity mismatch'') (\<lambda>_.
     rbind (check (estr e ''repository_path_fingerprint'' = lg_repository_path_fingerprint L)
              CorruptEvidenceError ''repository path fingerprint mismatch'') (\<lambda>_.
     rbind (rewrap [TypeError, ValueError] CorruptEvidenceError ''invalid workflow type''
              (parse_workflow (oget e ''workflow_type''))) (\<lambda>_.
     check (nonempty_str (oget e ''transaction_id''))
       CorruptEvidenceError ''invalid transaction identity'')))))"

subsection \<open>The validating loop\<close>

record vstate =
  vs_previous :: string
  vs_event_ids :: "string list"
  vs_terminals :: "(string \<times> string) list"
  vs_started :: "string list"
  vs_workflows :: "(string \<times> string) list"
  vs_histories :: "(string \<times> string list) list"
  vs_raised :: "(string \<times> (string \<times> string)) list"
  vs_bindings :: "(string \<times> (string \<times> string)) list"
  vs_resolved :: "string list"

definition vinit :: vstate where
  "vinit = \<lparr>vs_previous = GENESIS_FINGERPRINT, vs_event_ids = [], vs_terminals = [], vs_started = [],
     vs_workflows = [], vs_histories = [], vs_raised = [], vs_bindings = [], vs_resolved = []\<rparr>"

definition v_event_id :: "obj \<Rightarrow> vstate \<Rightarrow> vstate res" where
  "v_event_id e s =
     (if estr e ''event_id'' \<in> set (vs_event_ids s)
      then raise CorruptEvidenceError ''duplicate ledger event ID''
      else Inr (s\<lparr>vs_event_ids := estr e ''event_id'' # vs_event_ids s\<rparr>))"

definition v_workflow :: "obj \<Rightarrow> vstate \<Rightarrow> vstate res" where
  "v_workflow e s =
     (case map_of (vs_workflows s) (etx e) of
        Some w \<Rightarrow> if w \<noteq> estr e ''workflow_type''
                  then raise CorruptEvidenceError ''transaction workflow changed''
                  else Inr s
      | None \<Rightarrow> Inr (s\<lparr>vs_workflows := aset (etx e) (estr e ''workflow_type'') (vs_workflows s)\<rparr>))"

text \<open>\<^verbatim>\<open>histories.setdefault(transaction_id, [])\<close>\<close>

definition v_history :: "obj \<Rightarrow> vstate \<Rightarrow> vstate" where
  "v_history e s =
     (if map_of (vs_histories s) (etx e) = None
      then s\<lparr>vs_histories := aset (etx e) [] (vs_histories s)\<rparr> else s)"

definition v_start :: "obj \<Rightarrow> vstate \<Rightarrow> vstate res" where
  "v_start e s =
     (if etype e = ''TransactionStarted'' then
        (if etx e \<in> set (vs_started s) then raise CorruptEvidenceError ''duplicate transaction start''
         else let s = s\<lparr>vs_started := etx e # vs_started s\<rparr>;
                  gate = oget (payload e) ''resolved_gate_id'';
                  fp = oget (payload e) ''resolved_gate_fingerprint''
              in if gate \<noteq> JNull \<or> fp \<noteq> JNull then
                   (case (gate, fp) of
                      (JStr g, JStr f) \<Rightarrow>
                        if estr e ''workflow_type'' \<noteq> workflow_value HUMAN_DECISION_RESOLUTION
                        then raise CorruptEvidenceError ''invalid human-resolution binding''
                        else Inr (s\<lparr>vs_bindings := aset (etx e) (g, f) (vs_bindings s)\<rparr>)
                    | _ \<Rightarrow> raise CorruptEvidenceError ''invalid human-resolution binding'')
                 else Inr s)
      else if etx e \<notin> set (vs_started s) \<and> \<not> legacy_import e
        then raise CorruptEvidenceError ''event precedes transaction start''
      else Inr s)"

definition v_terminal :: "obj \<Rightarrow> vstate \<Rightarrow> vstate res" where
  "v_terminal e s =
     (if etype e \<in> set TERMINAL_EVENT_TYPES then
        (if map_of (vs_terminals s) (etx e) \<noteq> None
         then raise CorruptEvidenceError ''transaction has conflicting terminal events''
         else Inr (s\<lparr>vs_terminals := aset (etx e) (etype e) (vs_terminals s)\<rparr>))
      else Inr s)"

definition v_raise_gate :: "obj \<Rightarrow> vstate \<Rightarrow> vstate res" where
  "v_raise_gate e s =
     (case validate_human_gate (oget (payload e) ''gate'') of
        Inl _ \<Rightarrow> raise CorruptEvidenceError ''human gate violates its durable contract''
      | Inr gate \<Rightarrow>
          let gate_id = py_str (oget gate ''gate_id''); actual = fingerprint (JObj gate)
          in if map_of (vs_raised s) gate_id \<noteq> None
             then raise CorruptEvidenceError ''duplicate human gate identity''
             else if oget (payload e) ''gate_id'' \<noteq> JStr gate_id
                  \<or> oget (payload e) ''gate_fingerprint'' \<noteq> JStr actual
             then raise CorruptEvidenceError ''human gate identity mismatch''
             else Inr (s\<lparr>vs_raised := aset gate_id (etx e, actual) (vs_raised s)\<rparr>))"

definition v_resolve_gate :: "obj \<Rightarrow> vstate \<Rightarrow> vstate res" where
  "v_resolve_gate e s =
     (let gate_id = py_str (oget (payload e) ''gate_id'');
          fp = oget (payload e) ''gate_fingerprint''
      in if gate_id \<in> set (vs_resolved s)
            \<or> (case map_of (vs_raised s) gate_id of
                 Some (tx, f) \<Rightarrow> fp \<noteq> JStr f \<or> oget (payload e) ''raised_transaction_id'' \<noteq> JStr tx
               | None \<Rightarrow>
                   (case map_of (vs_bindings s) (etx e) of
                      None \<Rightarrow> True
                    | Some (g, f) \<Rightarrow> g \<noteq> gate_id \<or> fp \<noteq> JStr f))
         then raise CorruptEvidenceError ''human gate resolution is not exactly bound''
         else Inr (s\<lparr>vs_resolved := gate_id # vs_resolved s\<rparr>))"

definition v_gate :: "obj \<Rightarrow> vstate \<Rightarrow> vstate res" where
  "v_gate e s =
     (if etype e = ''HumanGateRaised'' then v_raise_gate e s
      else if etype e = ''HumanGateResolved'' then v_resolve_gate e s
      else if map_of (vs_terminals s) (etx e) \<noteq> None \<and> etype e \<notin> set TERMINAL_EVENT_TYPES
              \<and> etype e \<notin> set POST_TERMINAL_TYPES
        then raise CorruptEvidenceError ''terminal transaction was mutated''
      else Inr s)"

definition post_terminal_checkpoint :: "obj \<Rightarrow> bool" where
  "post_terminal_checkpoint e \<longleftrightarrow>
     oget (payload e) ''checkpoint'' = JStr ''compatibility_materialization_acknowledged''"

definition v_checkpoint :: "obj \<Rightarrow> vstate \<Rightarrow> unit res" where
  "v_checkpoint e s =
     check (\<not> (map_of (vs_terminals s) (etx e) \<noteq> None \<and> etype e = ''CheckpointRecorded''
               \<and> \<not> post_terminal_checkpoint e))
       CorruptEvidenceError ''terminal transaction has an invalid post-terminal checkpoint''"

definition v_chain :: "obj \<Rightarrow> vstate \<Rightarrow> vstate res" where
  "v_chain e s =
     rbind (check (estr e ''previous_fingerprint'' = vs_previous s)
              CorruptEvidenceError ''broken ledger fingerprint chain'') (\<lambda>_.
     rbind (check (estr e ''fingerprint'' = event_fingerprint (unsigned_event e))
              CorruptEvidenceError ''ledger fingerprint mismatch'') (\<lambda>_.
     Inr (s\<lparr>vs_previous := estr e ''fingerprint'',
            vs_histories := aset (etx e) ((case map_of (vs_histories s) (etx e) of Some h \<Rightarrow> h | None \<Rightarrow> []) @ [etype e])
                              (vs_histories s)\<rparr>)))"

definition validate_event :: "ledger \<Rightarrow> int \<Rightarrow> obj \<Rightarrow> vstate \<Rightarrow> vstate res" where
  "validate_event L expected e s =
     rbind (event_shape expected e) (\<lambda>_.
     rbind (v_event_id e s) (\<lambda>s.
     rbind (event_identity L e) (\<lambda>_.
     rbind (v_workflow e s) (\<lambda>s.
     rbind (v_start e (v_history e s)) (\<lambda>s.
     rbind (v_terminal e s) (\<lambda>s.
     rbind (v_gate e s) (\<lambda>s.
     rbind (v_checkpoint e s) (\<lambda>_.
     v_chain e s))))))))"

fun validate_events :: "ledger \<Rightarrow> int \<Rightarrow> obj list \<Rightarrow> vstate \<Rightarrow> vstate res" where
  "validate_events L n [] s = Inr s"
| "validate_events L n (e # es) s = rbind (validate_event L n e s) (validate_events L (n + 1) es)"

subsection \<open>The histories of the transactions\<close>

definition first_pos :: "string \<Rightarrow> string list \<Rightarrow> nat" where
  "first_pos x h = length (takeWhile (\<lambda>y. y \<noteq> x) h)"

definition positions_of :: "string \<Rightarrow> string list \<Rightarrow> nat list" where
  "positions_of x h = filter (\<lambda>i. h ! i = x) [0..<length h]"

definition ordered_pairs :: "(string \<times> string) list" where
  "ordered_pairs =
    [(''TransactionStarted'', ''LeaseAcquired''), (''LeaseAcquired'', ''SnapshotCaptured''),
     (''SnapshotCaptured'', ''SessionLaunched''), (''SessionLaunched'', ''SessionResultAccepted''),
     (''SnapshotCaptured'', ''DeterministicExecutionStarted''),
     (''DeterministicExecutionStarted'', ''DeterministicResultAccepted''),
     (''ValidationStarted'', ''ValidationPassed''), (''ValidationPassed'', ''CommitFinalized''),
     (''CommitFinalized'', ''TransactionCompleted''), (''TransactionCompleted'', ''LeaseReleased''),
     (''LeaseReleased'', ''ProjectionUpdated'')]"

definition lifecycle_events :: "string list" where
  "lifecycle_events = [''LeaseAcquired'', ''SnapshotCaptured'', ''ValidationStarted'', ''ValidationPassed'']"

definition leases_recovered :: "string list \<Rightarrow> bool" where
  "leases_recovered h =
     (let leases = positions_of ''LeaseAcquired'' h; recoveries = positions_of ''RecoveryApplied'' h
      in list_all (\<lambda>(p, r). list_ex (\<lambda>i. p < i \<and> i < r) recoveries) (zip leases (tl leases)))"

definition pair_ordered :: "string list \<Rightarrow> string \<times> string \<Rightarrow> bool" where
  "pair_ordered h p =
     (fst p \<in> set h \<and> snd p \<in> set h \<longrightarrow> first_pos (fst p) h \<le> first_pos (snd p) h)"

definition requires :: "string \<Rightarrow> string \<Rightarrow> string list \<Rightarrow> bool" where
  "requires later earlier h \<longleftrightarrow> later \<in> set h \<longrightarrow> earlier \<in> set h"

definition completed_legacy :: "obj list \<Rightarrow> string \<Rightarrow> bool" where
  "completed_legacy events tx =
     (case List.find (\<lambda>e. etx e = tx \<and> etype e = ''TransactionCompleted'') events of
        Some e \<Rightarrow> legacy_import e | None \<Rightarrow> False)"

definition check_history :: "obj list \<Rightarrow> string \<times> string list \<Rightarrow> unit res" where
  "check_history events th = (let h = snd th in
     rbind (check (case h of [] \<Rightarrow> False | x # _ \<Rightarrow> x = ''TransactionStarted'')
              CorruptEvidenceError ''transaction does not begin with TransactionStarted'') (\<lambda>_.
     rbind (check (leases_recovered h)
              CorruptEvidenceError ''transaction reacquired a lease without prior recovery authorization'') (\<lambda>_.
     rbind (check (list_all (pair_ordered h) ordered_pairs)
              CorruptEvidenceError ''transaction has invalid event order'') (\<lambda>_.
     rbind (check (requires ''SessionResultAccepted'' ''SessionLaunched'' h)
              CorruptEvidenceError ''transaction accepted a result without a session launch'') (\<lambda>_.
     rbind (check (requires ''ValidationPassed'' ''ValidationStarted'' h)
              CorruptEvidenceError ''transaction passed validation without starting validation'') (\<lambda>_.
     rbind (check (requires ''CommitFinalized'' ''ValidationPassed'' h)
              CorruptEvidenceError ''transaction finalized a commit without validation'') (\<lambda>_.
     rbind (check (''ProjectionUpdated'' \<in> set h \<longrightarrow> list_ex (\<lambda>t. t \<in> set h) TERMINAL_EVENT_TYPES)
              CorruptEvidenceError ''transaction projected state before a terminal outcome'') (\<lambda>_.
     check (''TransactionCompleted'' \<in> set h \<longrightarrow>
              list_all (\<lambda>t. t \<in> set h) lifecycle_events \<or> completed_legacy events (fst th))
       CorruptEvidenceError ''transaction skips canonical lifecycle events''))))))))"

record integrity =
  li_valid :: bool
  li_sequence :: int
  li_fingerprint :: string
  li_event_count :: int
  li_transactions :: int
  li_errors :: "string list"

definition validate :: "ledger \<Rightarrow> obj list \<Rightarrow> integrity res" where
  "validate L events =
     rbind (validate_events L 1 events vinit) (\<lambda>s.
     rbind (rfold (\<lambda>th _. check_history events th) (vs_histories s) ()) (\<lambda>_.
     Inr \<lparr>li_valid = True, li_sequence = int (length events), li_fingerprint = vs_previous s,
          li_event_count = int (length events), li_transactions = int (length (vs_started s)),
          li_errors = []\<rparr>))"

end
