(* ===== verification/Ledger_Spec.thy ===== *)
theory Ledger_Spec
  imports Ledger
begin

section \<open>What the validation of a ledger accepts\<close>

text \<open>
  The declarative reading of \<open>validate\<close>. \<open>event_ok L es e\<close> says when the event \<open>e\<close> may
  follow the ledger \<open>es\<close>, in terms of the events of \<open>es\<close> alone; \<open>ledger_ok\<close> says it of every
  event, and \<open>history_ok\<close> adds what the final pass demands of a transaction. The lemmas show
  that the loop's local variables are functions of the events read so far (\<open>vinv\<close>), so that
  \<open>validate\<close> accepts exactly the ledgers of the specification (\<open>validate_iff\<close>).
\<close>

definition of_tx :: "string \<Rightarrow> obj list \<Rightarrow> obj list" where
  "of_tx tx es = filter (\<lambda>e. etx e = tx) es"

definition history :: "obj list \<Rightarrow> string \<Rightarrow> string list" where
  "history es tx = map etype (of_tx tx es)"

definition last_fp :: "obj list \<Rightarrow> string" where
  "last_fp es = (if es = [] then GENESIS_FINGERPRINT else estr (last es) ''fingerprint'')"

definition terminal_in :: "string list \<Rightarrow> bool" where
  "terminal_in h \<longleftrightarrow> list_ex (\<lambda>t. t \<in> set TERMINAL_EVENT_TYPES) h"

definition gate_binding_of :: "obj \<Rightarrow> (string \<times> string) option" where
  "gate_binding_of e =
     (case (oget (payload e) ''resolved_gate_id'', oget (payload e) ''resolved_gate_fingerprint'') of
        (JStr g, JStr f) \<Rightarrow> Some (g, f) | _ \<Rightarrow> None)"

definition binding_ok :: "obj \<Rightarrow> bool" where
  "binding_ok e \<longleftrightarrow>
     (oget (payload e) ''resolved_gate_id'' = JNull \<and> oget (payload e) ''resolved_gate_fingerprint'' = JNull)
     \<or> (gate_binding_of e \<noteq> None \<and> estr e ''workflow_type'' = workflow_value HUMAN_DECISION_RESOLUTION)"

definition raised_in :: "obj list \<Rightarrow> string \<Rightarrow> (string \<times> string) option" where
  "raised_in es g =
     map_option (\<lambda>e. (etx e, estr (payload e) ''gate_fingerprint''))
       (List.find (\<lambda>e. etype e = ''HumanGateRaised'' \<and> oget (payload e) ''gate_id'' = JStr g) es)"

definition bound_in :: "obj list \<Rightarrow> string \<Rightarrow> (string \<times> string) option" where
  "bound_in es tx =
     Option.bind (List.find (\<lambda>e. etype e = ''TransactionStarted'' \<and> etx e = tx) es) gate_binding_of"

definition resolved_gate :: "obj \<Rightarrow> string" where
  "resolved_gate e = py_str (oget (payload e) ''gate_id'')"

definition resolved_in :: "obj list \<Rightarrow> string set" where
  "resolved_in es = resolved_gate ` {e \<in> set es. etype e = ''HumanGateResolved''}"

definition raise_ok :: "obj list \<Rightarrow> obj \<Rightarrow> bool" where
  "raise_ok es e \<longleftrightarrow>
     (\<exists>gate g. oget (payload e) ''gate'' = JObj gate \<and> gate_ok gate \<and> oget gate ''gate_id'' = JStr g
        \<and> raised_in es g = None \<and> oget (payload e) ''gate_id'' = JStr g
        \<and> oget (payload e) ''gate_fingerprint'' = JStr (fingerprint (JObj gate)))"

definition resolve_ok :: "obj list \<Rightarrow> obj \<Rightarrow> bool" where
  "resolve_ok es e \<longleftrightarrow>
     resolved_gate e \<notin> resolved_in es
     \<and> (case raised_in es (resolved_gate e) of
          Some (tx, f) \<Rightarrow> oget (payload e) ''gate_fingerprint'' = JStr f
            \<and> oget (payload e) ''raised_transaction_id'' = JStr tx
        | None \<Rightarrow> (\<exists>f. bound_in es (etx e) = Some (resolved_gate e, f)
            \<and> oget (payload e) ''gate_fingerprint'' = JStr f))"

definition event_ok :: "ledger \<Rightarrow> obj list \<Rightarrow> obj \<Rightarrow> bool" where
  "event_ok L es e \<longleftrightarrow>
     event_shape (int (length es) + 1) e = Inr () \<and> event_identity L e = Inr ()
     \<and> estr e ''event_id'' \<notin> set (map (\<lambda>e. estr e ''event_id'') es)
     \<and> (\<forall>d \<in> set (of_tx (etx e) es). estr d ''workflow_type'' = estr e ''workflow_type'')
     \<and> (if etype e = ''TransactionStarted''
        then ''TransactionStarted'' \<notin> set (history es (etx e)) \<and> binding_ok e
        else ''TransactionStarted'' \<in> set (history es (etx e)) \<or> legacy_import e)
     \<and> (etype e \<in> set TERMINAL_EVENT_TYPES \<longrightarrow> \<not> terminal_in (history es (etx e)))
     \<and> (etype e = ''HumanGateRaised'' \<longrightarrow> raise_ok es e)
     \<and> (etype e = ''HumanGateResolved'' \<longrightarrow> resolve_ok es e)
     \<and> (terminal_in (history es (etx e)) \<longrightarrow>
          etype e \<in> set POST_TERMINAL_TYPES \<or> etype e = ''HumanGateResolved'')
     \<and> (terminal_in (history es (etx e)) \<and> etype e = ''CheckpointRecorded'' \<longrightarrow> post_terminal_checkpoint e)
     \<and> estr e ''previous_fingerprint'' = last_fp es
     \<and> estr e ''fingerprint'' = event_fingerprint (unsigned_event e)"

definition ledger_ok :: "ledger \<Rightarrow> obj list \<Rightarrow> bool" where
  "ledger_ok L es \<longleftrightarrow> (\<forall>i < length es. event_ok L (take i es) (es ! i))"

definition history_ok :: "obj list \<Rightarrow> string \<Rightarrow> bool" where
  "history_ok es tx \<longleftrightarrow> check_history es (tx, history es tx) = Inr ()"

lemma ledger_ok_Nil [simp]: "ledger_ok L []"
  by (simp add: ledger_ok_def)

lemma ledger_ok_snoc [simp]: "ledger_ok L (es @ [e]) \<longleftrightarrow> ledger_ok L es \<and> event_ok L es e"
  by (auto simp: ledger_ok_def nth_append less_Suc_eq)

lemma event_ok_shape: "event_ok L es e \<Longrightarrow> event_shape (int (length es) + 1) e = Inr ()"
  by (simp add: event_ok_def)

lemma event_ok_start:
  "event_ok L es e \<Longrightarrow> etype e = ''TransactionStarted'' \<Longrightarrow> ''TransactionStarted'' \<notin> set (history es (etx e))"
  by (simp add: event_ok_def)

lemma event_ok_chain:
  "event_ok L es e \<Longrightarrow> estr e ''previous_fingerprint'' = last_fp es
     \<and> estr e ''fingerprint'' = event_fingerprint (unsigned_event e)"
  by (simp add: event_ok_def)

lemma of_tx_snoc: "of_tx tx (es @ [e]) = (if etx e = tx then of_tx tx es @ [e] else of_tx tx es)"
  by (simp add: of_tx_def)

lemma history_snoc: "history (es @ [e]) tx = (if etx e = tx then history es tx @ [etype e] else history es tx)"
  by (simp add: history_def of_tx_snoc)

lemma terminal_in_snoc [simp]: "terminal_in (h @ [t]) \<longleftrightarrow> terminal_in h \<or> t \<in> set TERMINAL_EVENT_TYPES"
  by (auto simp: terminal_in_def)

lemma last_fp_snoc [simp]: "last_fp (es @ [e]) = estr e ''fingerprint''"
  by (simp add: last_fp_def)

lemma find_snoc:
  "List.find P (es @ [e]) = (case List.find P es of Some x \<Rightarrow> Some x | None \<Rightarrow> if P e then Some e else None)"
  by (induction es) auto

subsection \<open>The blocks of the loop\<close>

text \<open>What each block does to the fields of the state, and what it asks of them.\<close>

definition new_workflows :: "obj \<Rightarrow> (string \<times> string) list \<Rightarrow> (string \<times> string) list" where
  "new_workflows e ws =
     (if map_of ws (etx e) = None then aset (etx e) (estr e ''workflow_type'') ws else ws)"

definition new_histories :: "obj \<Rightarrow> (string \<times> string list) list \<Rightarrow> (string \<times> string list) list" where
  "new_histories e hs = aset (etx e) ((case map_of hs (etx e) of Some h \<Rightarrow> h | None \<Rightarrow> []) @ [etype e]) hs"

definition new_started :: "obj \<Rightarrow> string list \<Rightarrow> string list" where
  "new_started e ts = (if etype e = ''TransactionStarted'' then etx e # ts else ts)"

definition new_bindings :: "obj \<Rightarrow> (string \<times> (string \<times> string)) list \<Rightarrow> (string \<times> (string \<times> string)) list" where
  "new_bindings e bs =
     (if etype e = ''TransactionStarted''
      then (case gate_binding_of e of None \<Rightarrow> bs | Some b \<Rightarrow> aset (etx e) b bs) else bs)"

definition new_terminals :: "obj \<Rightarrow> (string \<times> string) list \<Rightarrow> (string \<times> string) list" where
  "new_terminals e ts = (if etype e \<in> set TERMINAL_EVENT_TYPES then aset (etx e) (etype e) ts else ts)"

definition new_raised :: "obj \<Rightarrow> (string \<times> (string \<times> string)) list \<Rightarrow> (string \<times> (string \<times> string)) list" where
  "new_raised e rs =
     (if etype e = ''HumanGateRaised''
      then aset (estr (payload e) ''gate_id'') (etx e, estr (payload e) ''gate_fingerprint'') rs else rs)"

definition new_resolved :: "obj \<Rightarrow> string list \<Rightarrow> string list" where
  "new_resolved e rs = (if etype e = ''HumanGateResolved'' then resolved_gate e # rs else rs)"

definition workflow_cond :: "obj \<Rightarrow> (string \<times> string) list \<Rightarrow> bool" where
  "workflow_cond e ws \<longleftrightarrow> (\<forall>w. map_of ws (etx e) = Some w \<longrightarrow> w = estr e ''workflow_type'')"

definition start_cond :: "obj \<Rightarrow> string list \<Rightarrow> bool" where
  "start_cond e ts \<longleftrightarrow>
     (if etype e = ''TransactionStarted'' then etx e \<notin> set ts \<and> binding_ok e
      else etx e \<in> set ts \<or> legacy_import e)"

definition terminal_cond :: "obj \<Rightarrow> (string \<times> string) list \<Rightarrow> bool" where
  "terminal_cond e ts \<longleftrightarrow> (etype e \<in> set TERMINAL_EVENT_TYPES \<longrightarrow> map_of ts (etx e) = None)"

definition immutable_cond :: "obj \<Rightarrow> (string \<times> string) list \<Rightarrow> bool" where
  "immutable_cond e ts \<longleftrightarrow>
     (map_of ts (etx e) \<noteq> None \<longrightarrow> etype e \<in> set TERMINAL_EVENT_TYPES
          \<or> etype e \<in> set POST_TERMINAL_TYPES \<or> etype e = ''HumanGateResolved'')"

definition checkpoint_cond :: "obj \<Rightarrow> (string \<times> string) list \<Rightarrow> bool" where
  "checkpoint_cond e ts \<longleftrightarrow>
     (map_of ts (etx e) \<noteq> None \<and> etype e = ''CheckpointRecorded'' \<longrightarrow> post_terminal_checkpoint e)"

text \<open>What the gate block asks, with the gates raised, bound and resolved so far as maps.\<close>

definition raised_ok :: "(string \<Rightarrow> (string \<times> string) option) \<Rightarrow> obj \<Rightarrow> bool" where
  "raised_ok raised e \<longleftrightarrow>
     (\<exists>gate g. oget (payload e) ''gate'' = JObj gate \<and> gate_ok gate \<and> oget gate ''gate_id'' = JStr g
        \<and> raised g = None \<and> oget (payload e) ''gate_id'' = JStr g
        \<and> oget (payload e) ''gate_fingerprint'' = JStr (fingerprint (JObj gate)))"

definition resolution_ok ::
  "(string \<Rightarrow> (string \<times> string) option) \<Rightarrow> (string \<Rightarrow> (string \<times> string) option) \<Rightarrow> string set \<Rightarrow> obj \<Rightarrow> bool" where
  "resolution_ok raised bound resolved e \<longleftrightarrow>
     resolved_gate e \<notin> resolved
     \<and> (case raised (resolved_gate e) of
          Some (tx, f) \<Rightarrow> oget (payload e) ''gate_fingerprint'' = JStr f
            \<and> oget (payload e) ''raised_transaction_id'' = JStr tx
        | None \<Rightarrow> (\<exists>f. bound (etx e) = Some (resolved_gate e, f)
            \<and> oget (payload e) ''gate_fingerprint'' = JStr f))"

definition gate_cond ::
  "obj \<Rightarrow> (string \<times> (string \<times> string)) list \<Rightarrow> (string \<times> (string \<times> string)) list \<Rightarrow> string list \<Rightarrow> bool" where
  "gate_cond e raised bound resolved \<longleftrightarrow>
     (etype e = ''HumanGateRaised'' \<longrightarrow> raised_ok (map_of raised) e)
     \<and> (etype e = ''HumanGateResolved'' \<longrightarrow>
          resolution_ok (map_of raised) (map_of bound) (set resolved) e)"

lemma raise_ok_raised: "raise_ok es e \<longleftrightarrow> raised_ok (raised_in es) e"
  by (simp add: raise_ok_def raised_ok_def)

lemma resolve_ok_resolution: "resolve_ok es e \<longleftrightarrow> resolution_ok (raised_in es) (bound_in es) (resolved_in es) e"
  by (simp add: resolve_ok_def resolution_ok_def)

lemma v_event_id_Inr:
  "v_event_id e s = Inr s' \<longleftrightarrow> estr e ''event_id'' \<notin> set (vs_event_ids s)
     \<and> s' = s\<lparr>vs_event_ids := estr e ''event_id'' # vs_event_ids s\<rparr>"
  by (auto simp: v_event_id_def)

lemma v_workflow_Inr:
  "v_workflow e s = Inr s' \<longleftrightarrow> workflow_cond e (vs_workflows s)
     \<and> s' = s\<lparr>vs_workflows := new_workflows e (vs_workflows s)\<rparr>"
  by (auto simp: v_workflow_def workflow_cond_def new_workflows_def split: option.splits if_splits)

lemma v_start_Inr:
  "v_start e s = Inr s' \<longleftrightarrow> start_cond e (vs_started s)
     \<and> s' = s\<lparr>vs_started := new_started e (vs_started s), vs_bindings := new_bindings e (vs_bindings s)\<rparr>"
proof (cases "etype e = ''TransactionStarted''")
  case True
  then show ?thesis
    by (cases "oget (payload e) ''resolved_gate_id''"; cases "oget (payload e) ''resolved_gate_fingerprint''")
      (auto simp: v_start_def binding_ok_def gate_binding_of_def Let_def start_cond_def
        new_started_def new_bindings_def)
next
  case False
  then show ?thesis by (auto simp: v_start_def start_cond_def new_started_def new_bindings_def)
qed

lemma v_terminal_Inr:
  "v_terminal e s = Inr s' \<longleftrightarrow> terminal_cond e (vs_terminals s)
     \<and> s' = s\<lparr>vs_terminals := new_terminals e (vs_terminals s)\<rparr>"
  by (auto simp: v_terminal_def terminal_cond_def new_terminals_def)

lemma aset_aset [simp]: "aset k v (aset k w kvs) = aset k v kvs"
  by (induction kvs) auto

text \<open>The empty history that \<^verbatim>\<open>setdefault\<close> leaves is overwritten by the last block.\<close>

lemma v_chain_history:
  "v_chain e s = Inr s' \<longleftrightarrow>
     estr e ''previous_fingerprint'' = vs_previous s
     \<and> estr e ''fingerprint'' = event_fingerprint (unsigned_event e)
     \<and> s' = s\<lparr>vs_previous := estr e ''fingerprint'', vs_histories := new_histories e (vs_histories s)\<rparr>"
  by (auto simp: v_chain_def new_histories_def)

lemma new_histories_default:
  "new_histories e (if map_of hs (etx e) = None then aset (etx e) [] hs else hs) = new_histories e hs"
  by (simp add: new_histories_def)

lemma v_history_eq:
  "v_history e s = s\<lparr>vs_histories := (if map_of (vs_histories s) (etx e) = None
     then aset (etx e) [] (vs_histories s) else vs_histories s)\<rparr>"
  by (simp add: v_history_def)

lemma event_types_disjoint:
  "etype e = ''HumanGateResolved'' \<Longrightarrow> etype e \<notin> set TERMINAL_EVENT_TYPES"
  "etype e = ''CheckpointRecorded'' \<Longrightarrow> etype e \<notin> set TERMINAL_EVENT_TYPES"
  "etype e = ''TransactionStarted'' \<Longrightarrow> etype e \<notin> set TERMINAL_EVENT_TYPES"
  "etype e = ''HumanGateRaised'' \<Longrightarrow> etype e \<in> set TERMINAL_EVENT_TYPES"
  "etype e \<in> set POST_TERMINAL_TYPES \<Longrightarrow> etype e \<notin> set TERMINAL_EVENT_TYPES"
  by (auto simp: TERMINAL_EVENT_TYPES_def POST_TERMINAL_TYPES_def)

lemma v_raise_gate_Inr:
  "v_raise_gate e s = Inr s' \<longleftrightarrow>
     raised_ok (map_of (vs_raised s)) e
     \<and> s' = s\<lparr>vs_raised := aset (estr (payload e) ''gate_id'')
                (etx e, estr (payload e) ''gate_fingerprint'') (vs_raised s)\<rparr>"
proof (cases "validate_human_gate (oget (payload e) ''gate'')")
  case (Inl x)
  then have "\<not> raised_ok (map_of (vs_raised s)) e"
    by (metis raised_ok_def validate_human_gate_Inr Inl_Inr_False)
  with Inl show ?thesis by (simp add: v_raise_gate_def)
next
  case (Inr gate)
  then have gate: "oget (payload e) ''gate'' = JObj gate" "gate_ok gate"
    by (simp_all add: validate_human_gate_Inr)
  then obtain g where g: "oget gate ''gate_id'' = JStr g" by (auto simp: gate_ok_def)
  have "raised_ok (map_of (vs_raised s)) e \<longleftrightarrow>
      map_of (vs_raised s) g = None \<and> oget (payload e) ''gate_id'' = JStr g
      \<and> oget (payload e) ''gate_fingerprint'' = JStr (fingerprint (JObj gate))"
    using gate g by (simp add: raised_ok_def)
  then show ?thesis
    using Inr g by (auto simp: v_raise_gate_def py_str_def Let_def estr_def)
qed

lemma v_resolve_gate_Inr:
  "v_resolve_gate e s = Inr s' \<longleftrightarrow>
     resolution_ok (map_of (vs_raised s)) (map_of (vs_bindings s)) (set (vs_resolved s)) e
     \<and> s' = s\<lparr>vs_resolved := resolved_gate e # vs_resolved s\<rparr>"
  by (auto simp: v_resolve_gate_def resolution_ok_def resolved_gate_def Let_def split: option.splits)

lemma v_gate_Inr:
  "v_gate e s = Inr s' \<longleftrightarrow>
     gate_cond e (vs_raised s) (vs_bindings s) (vs_resolved s) \<and> immutable_cond e (vs_terminals s)
     \<and> s' = s\<lparr>vs_raised := new_raised e (vs_raised s), vs_resolved := new_resolved e (vs_resolved s)\<rparr>"
  using event_types_disjoint(4) [of e]
  by (auto simp: v_gate_def v_raise_gate_Inr v_resolve_gate_Inr gate_cond_def immutable_cond_def
      new_raised_def new_resolved_def)

lemma v_checkpoint_Inr: "v_checkpoint e s = Inr u \<longleftrightarrow> checkpoint_cond e (vs_terminals s)"
  unfolding v_checkpoint_def check_eq_Inr checkpoint_cond_def by blast

text \<open>One turn of the loop: what it asks of the state, and the state it leaves.\<close>

definition vready :: "ledger \<Rightarrow> int \<Rightarrow> obj \<Rightarrow> vstate \<Rightarrow> bool" where
  "vready L n e s \<longleftrightarrow>
     event_shape n e = Inr () \<and> event_identity L e = Inr ()
     \<and> estr e ''event_id'' \<notin> set (vs_event_ids s)
     \<and> workflow_cond e (vs_workflows s) \<and> start_cond e (vs_started s) \<and> terminal_cond e (vs_terminals s)
     \<and> gate_cond e (vs_raised s) (new_bindings e (vs_bindings s)) (vs_resolved s)
     \<and> immutable_cond e (new_terminals e (vs_terminals s))
     \<and> checkpoint_cond e (new_terminals e (vs_terminals s))
     \<and> estr e ''previous_fingerprint'' = vs_previous s
     \<and> estr e ''fingerprint'' = event_fingerprint (unsigned_event e)"

definition vnext :: "obj \<Rightarrow> vstate \<Rightarrow> vstate" where
  "vnext e s =
     s\<lparr>vs_event_ids := estr e ''event_id'' # vs_event_ids s,
       vs_workflows := new_workflows e (vs_workflows s),
       vs_started := new_started e (vs_started s), vs_bindings := new_bindings e (vs_bindings s),
       vs_terminals := new_terminals e (vs_terminals s),
       vs_raised := new_raised e (vs_raised s), vs_resolved := new_resolved e (vs_resolved s),
       vs_previous := estr e ''fingerprint'', vs_histories := new_histories e (vs_histories s)\<rparr>"

lemmas validate_blocks = v_event_id_Inr v_workflow_Inr v_history_eq v_start_Inr v_terminal_Inr
  v_gate_Inr v_checkpoint_Inr v_chain_history new_histories_default

lemma validate_event_Inr: "validate_event L n e s = Inr s' \<longleftrightarrow> vready L n e s \<and> s' = vnext e s"
  unfolding validate_event_def vready_def vnext_def
  by (simp add: validate_blocks del: not_None_eq if_split) blast

subsection \<open>The local variables as functions of the events read\<close>

definition vinv :: "obj list \<Rightarrow> vstate \<Rightarrow> bool" where
  "vinv es s \<longleftrightarrow>
     vs_previous s = last_fp es
     \<and> set (vs_event_ids s) = set (map (\<lambda>e. estr e ''event_id'') es)
     \<and> (\<forall>d \<in> set es. map_of (vs_workflows s) (etx d) = Some (estr d ''workflow_type''))
     \<and> (\<forall>tx. map_of (vs_workflows s) tx \<noteq> None \<longrightarrow> of_tx tx es \<noteq> [])
     \<and> (\<forall>tx. map_of (vs_histories s) tx = (if of_tx tx es = [] then None else Some (history es tx)))
     \<and> (\<forall>tx. tx \<in> set (vs_started s) \<longleftrightarrow> ''TransactionStarted'' \<in> set (history es tx))
     \<and> length (vs_started s) = length (filter (\<lambda>e. etype e = ''TransactionStarted'') es)
     \<and> (\<forall>tx. map_of (vs_terminals s) tx \<noteq> None \<longleftrightarrow> terminal_in (history es tx))
     \<and> map_of (vs_raised s) = raised_in es
     \<and> map_of (vs_bindings s) = bound_in es
     \<and> set (vs_resolved s) = resolved_in es
     \<and> distinct (map fst (vs_histories s))"

lemma vinv_init: "vinv [] vinit"
  by (simp add: vinv_def vinit_def last_fp_def of_tx_def history_def terminal_in_def
      raised_in_def bound_in_def resolved_in_def fun_eq_iff)

lemma raised_in_snoc:
  "raised_in (es @ [e]) =
     (if etype e = ''HumanGateRaised'' \<and> raised_in es (estr (payload e) ''gate_id'') = None
         \<and> oget (payload e) ''gate_id'' = JStr (estr (payload e) ''gate_id'')
      then (raised_in es)(estr (payload e) ''gate_id'' \<mapsto> (etx e, estr (payload e) ''gate_fingerprint''))
      else raised_in es)" (is "_ = ?rhs")
proof
  fix g
  show "raised_in (es @ [e]) g = ?rhs g"
  proof (cases "raised_in es g")
    case (Some y)
    then have "raised_in (es @ [e]) g = raised_in es g"
      by (auto simp: raised_in_def find_snoc)
    with Some show ?thesis by (cases "estr (payload e) ''gate_id'' = g") auto
  next
    case None
    then have "raised_in (es @ [e]) g =
        (if etype e = ''HumanGateRaised'' \<and> oget (payload e) ''gate_id'' = JStr g
         then Some (etx e, estr (payload e) ''gate_fingerprint'') else None)"
      by (simp add: raised_in_def find_snoc)
    moreover have "estr (payload e) ''gate_id'' = g" if "oget (payload e) ''gate_id'' = JStr g"
      using that by (simp add: estr_def)
    ultimately show ?thesis using None by (cases "estr (payload e) ''gate_id'' = g") auto
  qed
qed

lemma find_started:
  "List.find (\<lambda>e. etype e = ''TransactionStarted'' \<and> etx e = tx) es = None \<longleftrightarrow>
     ''TransactionStarted'' \<notin> set (history es tx)"
  by (force simp: find_None_iff history_def of_tx_def)

lemma bound_in_snoc:
  "etype e = ''TransactionStarted'' \<Longrightarrow> ''TransactionStarted'' \<notin> set (history es (etx e)) \<Longrightarrow>
     bound_in (es @ [e]) = (case gate_binding_of e of None \<Rightarrow> bound_in es
        | Some b \<Rightarrow> (bound_in es)(etx e \<mapsto> b))"
  using find_started [of "etx e" es]
  by (fastforce simp: bound_in_def find_snoc fun_eq_iff split: option.split)

lemma bound_in_snoc_other:
  "etype e \<noteq> ''TransactionStarted'' \<Longrightarrow> bound_in (es @ [e]) = bound_in es"
  by (auto simp: bound_in_def find_snoc fun_eq_iff split: option.split)

lemma resolved_in_snoc:
  "resolved_in (es @ [e]) =
     (if etype e = ''HumanGateResolved'' then insert (resolved_gate e) (resolved_in es) else resolved_in es)"
  by (auto simp: resolved_in_def)


subsection \<open>Validation against the specification\<close>

lemma new_workflows_inv:
  assumes "\<forall>d \<in> set es. map_of ws (etx d) = Some (estr d ''workflow_type'')"
    and "\<forall>tx. map_of ws tx \<noteq> None \<longrightarrow> of_tx tx es \<noteq> []" and "workflow_cond e ws"
  shows "(\<forall>d \<in> set (es @ [e]). map_of (new_workflows e ws) (etx d) = Some (estr d ''workflow_type''))
    \<and> (\<forall>tx. map_of (new_workflows e ws) tx \<noteq> None \<longrightarrow> of_tx tx (es @ [e]) \<noteq> [])"
  using assms by (auto simp: new_workflows_def workflow_cond_def of_tx_snoc split: if_splits)

lemma workflow_cond_iff:
  assumes "\<forall>d \<in> set es. map_of ws (etx d) = Some (estr d ''workflow_type'')"
    and "\<forall>tx. map_of ws tx \<noteq> None \<longrightarrow> of_tx tx es \<noteq> []"
  shows "workflow_cond e ws \<longleftrightarrow> (\<forall>d \<in> set (of_tx (etx e) es). estr d ''workflow_type'' = estr e ''workflow_type'')"
proof
  assume "workflow_cond e ws"
  then show "\<forall>d \<in> set (of_tx (etx e) es). estr d ''workflow_type'' = estr e ''workflow_type''"
    using assms(1) by (fastforce simp: workflow_cond_def of_tx_def)
next
  assume same: "\<forall>d \<in> set (of_tx (etx e) es). estr d ''workflow_type'' = estr e ''workflow_type''"
  show "workflow_cond e ws" unfolding workflow_cond_def
  proof (intro allI impI)
    fix w assume w: "map_of ws (etx e) = Some w"
    with assms(2) obtain d where d: "d \<in> set (of_tx (etx e) es)"
      by (metis list.set_intros(1) neq_Nil_conv option.distinct(1))
    then have "map_of ws (etx e) = Some (estr d ''workflow_type'')"
      using assms(1) by (auto simp: of_tx_def)
    with w d same show "w = estr e ''workflow_type''" by simp
  qed
qed

lemma new_bindings_bound:
  assumes "map_of bs = bound_in es"
    and "etype e = ''TransactionStarted'' \<Longrightarrow> ''TransactionStarted'' \<notin> set (history es (etx e))"
  shows "map_of (new_bindings e bs) = bound_in (es @ [e])"
  using assms by (auto simp: new_bindings_def bound_in_snoc bound_in_snoc_other split: option.splits)

lemma new_raised_raised:
  assumes "map_of rs = raised_in es" and "etype e = ''HumanGateRaised'' \<Longrightarrow> raised_ok (map_of rs) e"
  shows "map_of (new_raised e rs) = raised_in (es @ [e])"
  using assms by (auto simp: new_raised_def raised_in_snoc raised_ok_def estr_def)

lemma vinv_step:
  assumes inv: "vinv es s" and ready: "vready L n e s"
  shows "vinv (es @ [e]) (vnext e s)"
proof -
  have started: "etype e = ''TransactionStarted'' \<Longrightarrow> ''TransactionStarted'' \<notin> set (history es (etx e))"
    using inv ready by (simp add: vready_def start_cond_def vinv_def)
  have raised: "etype e = ''HumanGateRaised'' \<Longrightarrow> raised_ok (map_of (vs_raised s)) e"
    using ready by (simp add: vready_def gate_cond_def)
  have hist: "map_of (new_histories e (vs_histories s)) tx =
      (if of_tx tx (es @ [e]) = [] then None else Some (history (es @ [e]) tx))" for tx
    using inv by (auto simp: vinv_def new_histories_def of_tx_snoc history_snoc history_def)
  have wf: "(\<forall>d \<in> set (es @ [e]). map_of (new_workflows e (vs_workflows s)) (etx d) = Some (estr d ''workflow_type''))
    \<and> (\<forall>tx. map_of (new_workflows e (vs_workflows s)) tx \<noteq> None \<longrightarrow> of_tx tx (es @ [e]) \<noteq> [])"
    using inv ready by (intro new_workflows_inv) (simp_all add: vinv_def vready_def)
  have st: "tx \<in> set (new_started e (vs_started s)) \<longleftrightarrow> ''TransactionStarted'' \<in> set (history (es @ [e]) tx)" for tx
    using inv by (auto simp: vinv_def new_started_def history_snoc)
  have tm: "map_of (new_terminals e (vs_terminals s)) tx \<noteq> None \<longleftrightarrow> terminal_in (history (es @ [e]) tx)" for tx
    using inv by (auto simp: vinv_def new_terminals_def history_snoc)
  have gb: "map_of (new_raised e (vs_raised s)) = raised_in (es @ [e])"
    "map_of (new_bindings e (vs_bindings s)) = bound_in (es @ [e])"
    using inv raised started by (intro new_raised_raised new_bindings_bound; simp add: vinv_def)+
  have rest: "distinct (map fst (new_histories e (vs_histories s)))"
    "set (new_resolved e (vs_resolved s)) = resolved_in (es @ [e])"
    "length (new_started e (vs_started s)) = length (filter (\<lambda>e. etype e = ''TransactionStarted'') (es @ [e]))"
    using inv by (auto simp: vinv_def new_histories_def new_resolved_def resolved_in_snoc new_started_def
        intro!: distinct_aset)
  show ?thesis
    using wf hist st tm gb rest inv unfolding vinv_def vnext_def by simp
qed

lemma vready_event_ok:
  assumes inv: "vinv es s"
  shows "vready L (int (length es) + 1) e s \<longleftrightarrow> event_ok L es e"
proof -
  have tm: "map_of (vs_terminals s) (etx e) \<noteq> None \<longleftrightarrow> terminal_in (history es (etx e))"
    using inv by (simp add: vinv_def)
  have wf: "workflow_cond e (vs_workflows s) \<longleftrightarrow>
      (\<forall>d \<in> set (of_tx (etx e) es). estr d ''workflow_type'' = estr e ''workflow_type'')"
    using inv by (intro workflow_cond_iff) (simp_all add: vinv_def)
  have st: "start_cond e (vs_started s) \<longleftrightarrow>
      (if etype e = ''TransactionStarted''
        then ''TransactionStarted'' \<notin> set (history es (etx e)) \<and> binding_ok e
        else ''TransactionStarted'' \<in> set (history es (etx e)) \<or> legacy_import e)"
    using inv by (simp add: vinv_def start_cond_def)
  have te: "terminal_cond e (vs_terminals s) \<longleftrightarrow>
      (etype e \<in> set TERMINAL_EVENT_TYPES \<longrightarrow> \<not> terminal_in (history es (etx e)))"
    using tm by (auto simp: terminal_cond_def)
  have "etype e = ''HumanGateResolved'' \<Longrightarrow> new_bindings e (vs_bindings s) = vs_bindings s"
    by (simp add: new_bindings_def)
  then have ga: "gate_cond e (vs_raised s) (new_bindings e (vs_bindings s)) (vs_resolved s) \<longleftrightarrow>
      (etype e = ''HumanGateRaised'' \<longrightarrow> raise_ok es e) \<and> (etype e = ''HumanGateResolved'' \<longrightarrow> resolve_ok es e)"
    using inv by (auto simp: gate_cond_def raise_ok_raised resolve_ok_resolution vinv_def)
  have im: "terminal_cond e (vs_terminals s) \<Longrightarrow> immutable_cond e (new_terminals e (vs_terminals s)) \<longleftrightarrow>
      (terminal_in (history es (etx e)) \<longrightarrow> etype e \<in> set POST_TERMINAL_TYPES \<or> etype e = ''HumanGateResolved'')"
    using tm te by (auto simp: immutable_cond_def new_terminals_def)
  have ck: "checkpoint_cond e (new_terminals e (vs_terminals s)) \<longleftrightarrow>
      (terminal_in (history es (etx e)) \<and> etype e = ''CheckpointRecorded'' \<longrightarrow> post_terminal_checkpoint e)"
    using tm event_types_disjoint(2) [of e] by (auto simp: checkpoint_cond_def new_terminals_def)
  have ids: "set (vs_event_ids s) = set (map (\<lambda>e. estr e ''event_id'') es)"
    and pv: "vs_previous s = last_fp es" using inv by (simp_all add: vinv_def)
  show ?thesis
    unfolding vready_def event_ok_def ids pv wf st ga ck
    using te im by blast
qed

lemma validate_events_snoc:
  "validate_events L n (es @ [e]) s =
     rbind (validate_events L n es s) (validate_event L (n + int (length es)) e)"
proof (induction es arbitrary: n s)
  case Nil
  have "validate_events L m [] = Inr" for m by (simp add: fun_eq_iff)
  then show ?case by (cases "validate_event L n e s") simp_all
next
  case (Cons a es)
  have "validate_events L (n + 1) (es @ [e]) =
      (\<lambda>s. rbind (validate_events L (n + 1) es s) (validate_event L (n + 1 + int (length es)) e))"
    using Cons.IH by (simp add: fun_eq_iff)
  then show ?case by (simp add: rbind_assoc add.assoc)
qed

lemma validate_events_iff:
  "(\<exists>s. validate_events L 1 es vinit = Inr s) \<longleftrightarrow> ledger_ok L es"
  "validate_events L 1 es vinit = Inr s \<Longrightarrow> vinv es s"
proof (induction es arbitrary: s rule: rev_induct)
  case Nil
  { case 1 show ?case by simp }
  { case 2 then show ?case by (simp add: vinv_init) }
next
  case (snoc e es)
  have step: "validate_events L 1 (es @ [e]) vinit = Inr s' \<longleftrightarrow>
      (\<exists>s. validate_events L 1 es vinit = Inr s \<and> event_ok L es e \<and> s' = vnext e s)" for s'
    unfolding validate_events_snoc rbind_eq_Inr validate_event_Inr
    using snoc.IH(2) vready_event_ok by (metis add.commute)
  { case 1 show ?case using snoc.IH(1) step by auto }
  { case 2 then show ?case
      using step snoc.IH(2) vinv_step vready_event_ok by metis }
qed

lemma rfold_unit_Inr: "rfold (\<lambda>x _. f x) xs () = Inr u \<longleftrightarrow> (\<forall>x \<in> set xs. f x = Inr ())"
  by (induction xs) auto

lemma vinv_histories:
  assumes "vinv es s"
  shows "set (vs_histories s) = (\<lambda>tx. (tx, history es tx)) ` etx ` set es"
proof -
  have "distinct (map fst (vs_histories s))" using assms by (simp add: vinv_def)
  then have "(tx, h) \<in> set (vs_histories s) \<longleftrightarrow> map_of (vs_histories s) tx = Some h" for tx h
    by (simp add: map_of_eq_Some_iff)
  moreover have "map_of (vs_histories s) tx = (if of_tx tx es = [] then None else Some (history es tx))" for tx
    using assms by (simp add: vinv_def)
  moreover have "of_tx tx es = [] \<longleftrightarrow> tx \<notin> etx ` set es" for tx
    by (auto simp: of_tx_def filter_empty_conv)
  ultimately show ?thesis by (auto split: if_splits)
qed

definition integrity_of :: "obj list \<Rightarrow> integrity" where
  "integrity_of es =
     \<lparr>li_valid = True, li_sequence = int (length es), li_fingerprint = last_fp es,
      li_event_count = int (length es),
      li_transactions = int (length (filter (\<lambda>e. etype e = ''TransactionStarted'') es)),
      li_errors = []\<rparr>"

lemma validate_Inr:
  "validate L es = Inr i \<longleftrightarrow>
     ledger_ok L es \<and> (\<forall>e \<in> set es. history_ok es (etx e)) \<and> i = integrity_of es"
proof -
  have "validate L es = Inr i \<longleftrightarrow> (\<exists>s. validate_events L 1 es vinit = Inr s
      \<and> (\<forall>th \<in> set (vs_histories s). check_history es th = Inr ())
      \<and> i = \<lparr>li_valid = True, li_sequence = int (length es), li_fingerprint = vs_previous s,
          li_event_count = int (length es), li_transactions = int (length (vs_started s)), li_errors = []\<rparr>)"
    by (auto simp: validate_def rfold_unit_Inr)
  also have "\<dots> \<longleftrightarrow> (\<exists>s. validate_events L 1 es vinit = Inr s
      \<and> (\<forall>e \<in> set es. history_ok es (etx e)) \<and> i = integrity_of es)"
  proof (rule iff_exI, rule conj_cong [OF refl])
    fix s assume "validate_events L 1 es vinit = Inr s"
    then have inv: "vinv es s" by (rule validate_events_iff(2))
    then show "((\<forall>th \<in> set (vs_histories s). check_history es th = Inr ())
      \<and> i = \<lparr>li_valid = True, li_sequence = int (length es), li_fingerprint = vs_previous s,
          li_event_count = int (length es), li_transactions = int (length (vs_started s)), li_errors = []\<rparr>)
      = ((\<forall>e \<in> set es. history_ok es (etx e)) \<and> i = integrity_of es)"
      unfolding vinv_histories [OF inv] integrity_of_def history_ok_def
      by (simp add: vinv_def)
  qed
  finally show ?thesis using validate_events_iff(1) by auto
qed

end
