(* ===== verification/Ledger_Append.thy ===== *)
theory Ledger_Append
  imports Ledger_Spec Redaction
begin

section \<open>Appending one event\<close>

text \<open>
  \<^verbatim>\<open>_validate_append\<close> and the event that \<^verbatim>\<open>append\<close> builds. The incremental checks
  look at the new event against the history of its transaction; \<open>append_residue\<close> is what the
  full validation of the extended ledger asks and the incremental checks leave to the caller.
  \<open>append_validate\<close> shows that the two together are exactly the validity of the new ledger.
\<close>

definition required_predecessor :: "string \<Rightarrow> string option" where
  "required_predecessor t =
     map_of [(''SnapshotCaptured'', ''LeaseAcquired''), (''ValidationStarted'', ''SnapshotCaptured''),
       (''SessionResultAccepted'', ''SessionLaunched''),
       (''DeterministicExecutionStarted'', ''SnapshotCaptured''),
       (''DeterministicResultAccepted'', ''DeterministicExecutionStarted''),
       (''ValidationPassed'', ''ValidationStarted''), (''CommitFinalized'', ''ValidationPassed'')] t"

text \<open>The entry of \<^verbatim>\<open>ProjectionUpdated\<close> is the first terminal event of the history, or
  nothing; either way it is no further condition, so it has no place in the table.\<close>

definition validate_append :: "obj list \<Rightarrow> obj \<Rightarrow> unit res" where
  "validate_append existing e =
     (let h = history existing (etx e); t = etype e in
      if estr e ''event_id'' \<in> set (map (\<lambda>x. estr x ''event_id'') existing)
        then raise CorruptEvidenceError ''duplicate ledger event ID''
      else if t = ''TransactionStarted''
        then (if h \<noteq> [] then raise CorruptEvidenceError ''duplicate transaction start'' else Inr ())
      else if h = [] then raise CorruptEvidenceError ''event precedes transaction start''
      else if t = ''LeaseAcquired'' \<and> ''LeaseAcquired'' \<in> set h \<and> ''RecoveryApplied'' \<notin> set h
        then raise CorruptEvidenceError ''reacquired lease requires prior recovery authorization''
      else if t \<in> set TERMINAL_EVENT_TYPES \<and> terminal_in h
        then raise CorruptEvidenceError ''transaction has conflicting terminal events''
      else if terminal_in h \<and> t \<notin> set POST_TERMINAL_TYPES
        then raise CorruptEvidenceError ''terminal transaction is immutable''
      else if terminal_in h \<and> t = ''CheckpointRecorded'' \<and> \<not> post_terminal_checkpoint e
        then raise CorruptEvidenceError ''terminal transaction has an invalid post-terminal checkpoint''
      else if (case required_predecessor t of None \<Rightarrow> False | Some p \<Rightarrow> p \<notin> set h)
        then raise CorruptEvidenceError ''event requires a prior event''
      else if t = ''TransactionCompleted'' \<and> \<not> list_all (\<lambda>x. x \<in> set h) lifecycle_events \<and> \<not> legacy_import e
        then raise CorruptEvidenceError ''completed transaction skips canonical lifecycle events''
      else Inr ())"

text \<open>The dictionary that \<^verbatim>\<open>append\<close> builds, signed; \<open>tid\<close> is the transaction,
  \<open>pay\<close> the redacted payload.\<close>

definition make_event ::
  "ledger \<Rightarrow> integrity \<Rightarrow> string \<Rightarrow> string \<Rightarrow> string \<Rightarrow> string \<Rightarrow> workflow_type \<Rightarrow> obj \<Rightarrow> obj" where
  "make_event L i event_id t stamp tid w pay =
     (let e = [(''schema_version'', JInt 1), (''sequence'', JInt (li_sequence i + 1)),
        (''event_id'', JStr event_id), (''event_type'', JStr t), (''timestamp'', JStr stamp),
        (''project_id'', JStr (lg_project_id L)),
        (''repository_identity'', JStr (lg_repository_identity L)),
        (''repository_path_fingerprint'', JStr (lg_repository_path_fingerprint L)),
        (''transaction_id'', JStr tid), (''workflow_type'', JStr (workflow_value w)),
        (''previous_fingerprint'', JStr (li_fingerprint i)), (''payload'', JObj pay)]
      in oset ''fingerprint'' (JStr (event_fingerprint e)) e)"

definition ledger_wf :: "ledger \<Rightarrow> bool" where
  "ledger_wf L \<longleftrightarrow> lg_project_id L \<noteq> [] \<and> length (lg_repository_identity L) \<ge> 64
     \<and> length (lg_repository_path_fingerprint L) \<ge> 64"

subsection \<open>The event that is built\<close>

lemma make_event_fields:
  assumes "e = make_event L i event_id t stamp tid w pay"
  shows "oget e ''schema_version'' = JInt 1" "oget e ''sequence'' = JInt (li_sequence i + 1)"
    "oget e ''event_id'' = JStr event_id" "oget e ''event_type'' = JStr t" "oget e ''timestamp'' = JStr stamp"
    "oget e ''project_id'' = JStr (lg_project_id L)"
    "oget e ''repository_identity'' = JStr (lg_repository_identity L)"
    "oget e ''repository_path_fingerprint'' = JStr (lg_repository_path_fingerprint L)"
    "oget e ''transaction_id'' = JStr tid" "oget e ''workflow_type'' = JStr (workflow_value w)"
    "oget e ''previous_fingerprint'' = JStr (li_fingerprint i)" "oget e ''payload'' = JObj pay"
    "oget e ''fingerprint'' = JStr (event_fingerprint (unsigned_event e))"
  using assms by (simp_all add: make_event_def Let_def unsigned_event_def adel_def)

lemma make_event_keys:
  "map fst (make_event L i event_id t stamp tid w pay) =
     [''schema_version'', ''sequence'', ''event_id'', ''event_type'', ''timestamp'', ''project_id'',
      ''repository_identity'', ''repository_path_fingerprint'', ''transaction_id'', ''workflow_type'',
      ''previous_fingerprint'', ''payload'', ''fingerprint'']"
  by (simp add: make_event_def Let_def)

lemma make_event_estr:
  assumes "e = make_event L i event_id t stamp tid w pay"
  shows "estr e ''event_id'' = event_id" "etype e = t" "etx e = tid" "payload e = pay"
    "estr e ''workflow_type'' = workflow_value w" "estr e ''previous_fingerprint'' = li_fingerprint i"
    "estr e ''fingerprint'' = event_fingerprint (unsigned_event e)"
    "eint e ''sequence'' = li_sequence i + 1" "eint e ''schema_version'' = 1"
  by (simp_all add: estr_def eint_def payload_def make_event_fields [OF assms])

lemma hex64_fingerprint: "hex64 (fingerprint v)"
  using sha256_hex_chars [of "dumps v"] by (auto simp: hex64_def fingerprint_def list_all_iff)

lemma event_shape_Inr:
  "event_shape n e = Inr () \<longleftrightarrow>
     list_all (ohas e) event_required \<and> list_all (\<lambda>kv. fst kv \<in> set event_required) e
     \<and> is_exact_int (oget e ''schema_version'') \<and> is_exact_int (oget e ''sequence'')
     \<and> list_all (\<lambda>k. nonempty_str (oget e k)) typed_strings \<and> is_dict (oget e ''payload'')
     \<and> payload_contract_ok e \<and> length (estr e ''repository_identity'') \<ge> 64
     \<and> length (estr e ''repository_path_fingerprint'') \<ge> 64
     \<and> hex64 (estr e ''previous_fingerprint'') \<and> hex64 (estr e ''fingerprint'')
     \<and> eint e ''schema_version'' = 1 \<and> eint e ''sequence'' = n"
  unfolding event_shape_def rbind_eq_Inr check_eq_Inr by simp

lemma make_event_shape:
  assumes e: "e = make_event L i event_id t stamp tid w pay"
    and "ledger_wf L" "event_id \<noteq> []" "t \<noteq> []" "stamp \<noteq> []" "tid \<noteq> []" "hex64 (li_fingerprint i)"
  shows "event_shape n e = Inr () \<longleftrightarrow> payload_contract_ok e \<and> n = li_sequence i + 1"
proof -
  have nz: "li_fingerprint i \<noteq> []" using assms(7) by (auto simp: hex64_def)
  have keys: "list_all (ohas e) event_required" "list_all (\<lambda>kv. fst kv \<in> set event_required) e"
    by (simp_all add: ohas_def e make_event_keys event_required_def typed_strings_def)
      (simp add: make_event_def Let_def)
  have "fingerprint v \<noteq> []" for v by simp
  then have typed: "list_all (\<lambda>k. nonempty_str (oget e k)) typed_strings"
    using assms(2-) nz by (auto simp: typed_strings_def make_event_fields [OF e] ledger_wf_def event_fingerprint_def)
  have rest: "estr e ''repository_identity'' = lg_repository_identity L"
    "estr e ''repository_path_fingerprint'' = lg_repository_path_fingerprint L"
    by (simp_all add: estr_def make_event_fields [OF e])
  show ?thesis
    unfolding event_shape_Inr make_event_estr [OF e] make_event_fields [OF e] rest
    using keys typed assms(2,7) hex64_fingerprint
    by (auto simp: ledger_wf_def event_fingerprint_def)
qed

lemma make_event_identity:
  assumes e: "e = make_event L i event_id t stamp tid w pay" and "tid \<noteq> []"
  shows "event_identity L e = Inr () \<longleftrightarrow> t \<in> set EVENT_TYPES"
  unfolding event_identity_def rbind_eq_Inr check_eq_Inr make_event_estr [OF e] estr_def
    make_event_fields [OF e] using assms(2) by simp

subsection \<open>Incremental and full validation\<close>

text \<open>
  What the full validation asks of a new event and the incremental checks do not: the payload
  types, the workflow of the transaction, the bindings of human gates, a recovery between two
  leases, the order of events of which one is missing, and a terminal outcome before its
  projection.
\<close>

definition order_residue :: "string list \<Rightarrow> string \<Rightarrow> bool" where
  "order_residue h t \<longleftrightarrow> list_all (\<lambda>(a, b). a = t \<and> t \<notin> set h \<longrightarrow> b \<notin> set h) ordered_pairs"

definition append_residue :: "obj list \<Rightarrow> obj \<Rightarrow> bool" where
  "append_residue es e \<longleftrightarrow>
     payload_contract_ok e
     \<and> (\<forall>d \<in> set (of_tx (etx e) es). estr d ''workflow_type'' = estr e ''workflow_type'')
     \<and> (etype e = ''TransactionStarted'' \<longrightarrow> binding_ok e)
     \<and> (etype e = ''HumanGateRaised'' \<longrightarrow> raise_ok es e)
     \<and> (etype e = ''HumanGateResolved'' \<longrightarrow> resolve_ok es e)
     \<and> (etype e = ''LeaseAcquired'' \<longrightarrow> leases_recovered (history es (etx e) @ [etype e]))
     \<and> order_residue (history es (etx e)) (etype e)
     \<and> (etype e = ''ProjectionUpdated'' \<longrightarrow> terminal_in (history es (etx e)))"

lemma check_history_Inr:
  "check_history es (tx, h) = Inr () \<longleftrightarrow>
     h \<noteq> [] \<and> hd h = ''TransactionStarted'' \<and> leases_recovered h
     \<and> list_all (pair_ordered h) ordered_pairs
     \<and> requires ''SessionResultAccepted'' ''SessionLaunched'' h
     \<and> requires ''ValidationPassed'' ''ValidationStarted'' h
     \<and> requires ''CommitFinalized'' ''ValidationPassed'' h
     \<and> (''ProjectionUpdated'' \<in> set h \<longrightarrow> terminal_in h)
     \<and> (''TransactionCompleted'' \<in> set h \<longrightarrow>
          list_all (\<lambda>t. t \<in> set h) lifecycle_events \<or> completed_legacy es tx)"
proof -
  have "(case h of [] \<Rightarrow> False | x # _ \<Rightarrow> x = ''TransactionStarted'') \<longleftrightarrow>
      h \<noteq> [] \<and> hd h = ''TransactionStarted''" by (cases h) auto
  moreover have "list_ex (\<lambda>t. t \<in> set h) TERMINAL_EVENT_TYPES \<longleftrightarrow> terminal_in h"
    by (auto simp: terminal_in_def list_ex_iff)
  ultimately show ?thesis
    unfolding check_history_def Let_def rbind_eq_Inr check_eq_Inr by simp
qed

lemma first_pos_snoc: "first_pos x (h @ [t]) = (if x \<in> set h then first_pos x h else length h + (if x = t then 0 else 1))"
proof (cases "x \<in> set h")
  case True
  then show ?thesis by (simp add: first_pos_def takeWhile_append1 [OF True])
next
  case False
  then have "takeWhile (\<lambda>y. y \<noteq> x) (h @ [t]) = h @ takeWhile (\<lambda>y. y \<noteq> x) [t]"
    by (intro takeWhile_append2) auto
  with False show ?thesis by (simp add: first_pos_def)
qed

lemma first_pos_less: "x \<in> set h \<longleftrightarrow> first_pos x h < length h"
  by (induction h) (auto simp: first_pos_def)

lemma pair_ordered_snoc:
  "fst p \<noteq> snd p \<Longrightarrow> pair_ordered (h @ [t]) p \<longleftrightarrow>
     pair_ordered h p \<and> (fst p = t \<and> t \<notin> set h \<longrightarrow> snd p \<notin> set h)"
  using first_pos_less [of "fst p" h] first_pos_less [of "snd p" h]
  by (auto simp: pair_ordered_def first_pos_snoc)

lemma positions_of_snoc:
  "positions_of x (h @ [t]) = (if t = x then positions_of x h @ [length h] else positions_of x h)"
proof -
  have "filter (\<lambda>i. (h @ [t]) ! i = x) [0..<length h] = filter (\<lambda>i. h ! i = x) [0..<length h]"
    by (rule filter_cong) (simp_all add: nth_append)
  then show ?thesis by (simp add: positions_of_def nth_append)
qed

lemma positions_of_bound: "i \<in> set (positions_of x h) \<Longrightarrow> i < length h"
  by (simp add: positions_of_def)

lemma zip_tl_mem: "(a, b) \<in> set (zip xs (tl xs)) \<Longrightarrow> a \<in> set xs \<and> b \<in> set xs"
  using set_zip_leftD [of a b xs "tl xs"] set_zip_rightD [of a b xs "tl xs"] by (cases xs) auto

text \<open>An event other than a lease leaves the pairs of leases, and recoveries only grow.\<close>

lemma leases_recovered_snoc:
  assumes "t \<noteq> ''LeaseAcquired''"
  shows "leases_recovered (h @ [t]) \<longleftrightarrow> leases_recovered h"
proof -
  let ?leases = "positions_of ''LeaseAcquired'' h"
  have "list_ex (\<lambda>i. fst q < i \<and> i < snd q) (positions_of ''RecoveryApplied'' (h @ [t])) \<longleftrightarrow>
      list_ex (\<lambda>i. fst q < i \<and> i < snd q) (positions_of ''RecoveryApplied'' h)"
    if "q \<in> set (zip ?leases (tl ?leases))" for q
  proof -
    from that zip_tl_mem [of "fst q" "snd q" ?leases] have "snd q < length h"
      using positions_of_bound [of "snd q" "''LeaseAcquired''" h] by simp
    then show ?thesis by (simp add: positions_of_snoc)
  qed
  then have "list_all (\<lambda>q. list_ex (\<lambda>i. fst q < i \<and> i < snd q) (positions_of ''RecoveryApplied'' (h @ [t])))
      (zip ?leases (tl ?leases)) \<longleftrightarrow>
      list_all (\<lambda>q. list_ex (\<lambda>i. fst q < i \<and> i < snd q) (positions_of ''RecoveryApplied'' h)) (zip ?leases (tl ?leases))"
    by (intro list.pred_cong) simp_all
  moreover have "positions_of ''LeaseAcquired'' (h @ [t]) = ?leases"
    using assms by (simp add: positions_of_snoc)
  ultimately show ?thesis unfolding leases_recovered_def Let_def case_prod_beta by simp
qed

lemma requires_snoc:
  "a \<noteq> b \<Longrightarrow> requires a b (h @ [t]) \<longleftrightarrow>
     (if t = b then True else requires a b h \<and> (t = a \<longrightarrow> b \<in> set h))"
  by (auto simp: requires_def)

lemma validate_append_Inr:
  "validate_append es e = Inr () \<longleftrightarrow>
     (let h = history es (etx e); t = etype e in
      estr e ''event_id'' \<notin> set (map (\<lambda>x. estr x ''event_id'') es)
      \<and> (if t = ''TransactionStarted'' then h = []
         else h \<noteq> []
          \<and> (t = ''LeaseAcquired'' \<and> ''LeaseAcquired'' \<in> set h \<longrightarrow> ''RecoveryApplied'' \<in> set h)
          \<and> (t \<in> set TERMINAL_EVENT_TYPES \<longrightarrow> \<not> terminal_in h)
          \<and> (terminal_in h \<longrightarrow> t \<in> set POST_TERMINAL_TYPES)
          \<and> (terminal_in h \<and> t = ''CheckpointRecorded'' \<longrightarrow> post_terminal_checkpoint e)
          \<and> (\<forall>p. required_predecessor t = Some p \<longrightarrow> p \<in> set h)
          \<and> (t = ''TransactionCompleted'' \<longrightarrow> list_all (\<lambda>x. x \<in> set h) lifecycle_events \<or> legacy_import e)))"
  by (cases "required_predecessor (etype e)") (simp_all add: validate_append_def Let_def)

lemma history_Nil: "history es tx = [] \<longleftrightarrow> tx \<notin> etx ` set es"
  by (auto simp: history_def of_tx_def filter_empty_conv)

lemma history_ok_snoc_other:
  "etx e \<noteq> tx \<Longrightarrow> history_ok (es @ [e]) tx \<longleftrightarrow> history_ok es tx"
proof -
  assume "etx e \<noteq> tx"
  then have "completed_legacy (es @ [e]) tx = completed_legacy es tx"
    by (simp add: completed_legacy_def find_snoc split: option.split)
  with \<open>etx e \<noteq> tx\<close> show ?thesis by (simp add: history_ok_def history_snoc check_history_Inr)
qed

lemma validate_snoc_iff:
  assumes "validate L es = Inr i"
  shows "(\<exists>j. validate L (es @ [e]) = Inr j) \<longleftrightarrow> event_ok L es e \<and> history_ok (es @ [e]) (etx e)"
  using assms history_ok_snoc_other [of e _ es] by (auto simp: validate_Inr) metis

lemma ordered_pairs_distinct: "list_all (\<lambda>p. fst p \<noteq> snd p) ordered_pairs"
  by (simp add: ordered_pairs_def)

lemma pairs_ordered_snoc:
  "list_all (pair_ordered (h @ [t])) ordered_pairs \<longleftrightarrow>
     list_all (pair_ordered h) ordered_pairs \<and> order_residue h t"
  using ordered_pairs_distinct pair_ordered_snoc
  by (auto simp: list_all_iff order_residue_def case_prod_beta)

lemma completed_legacy_snoc:
  assumes "''TransactionCompleted'' \<in> set (history es (etx e)) \<Longrightarrow> etype e \<noteq> ''TransactionCompleted''"
  shows "completed_legacy (es @ [e]) (etx e) \<longleftrightarrow>
    (if etype e = ''TransactionCompleted'' then legacy_import e else completed_legacy es (etx e))"
proof -
  have "List.find (\<lambda>d. etx d = etx e \<and> etype d = ''TransactionCompleted'') es = None \<longleftrightarrow>
      ''TransactionCompleted'' \<notin> set (history es (etx e))"
    by (force simp: find_None_iff history_def of_tx_def)
  then show ?thesis using assms
    by (auto simp: completed_legacy_def find_snoc split: option.split)
qed

lemma terminal_completed: "''TransactionCompleted'' \<in> set h \<Longrightarrow> terminal_in h"
  by (auto simp: terminal_in_def list_ex_iff TERMINAL_EVENT_TYPES_def)

text \<open>The history of a transaction after an event the incremental checks let pass.\<close>

lemma history_ok_snoc:
  assumes old: "history es (etx e) \<noteq> [] \<Longrightarrow> history_ok es (etx e)"
    and app: "validate_append es e = Inr ()"
  shows "history_ok (es @ [e]) (etx e) \<longleftrightarrow>
    (etype e = ''LeaseAcquired'' \<longrightarrow> leases_recovered (history es (etx e) @ [etype e]))
     \<and> order_residue (history es (etx e)) (etype e)
     \<and> (etype e = ''ProjectionUpdated'' \<longrightarrow> terminal_in (history es (etx e)))"
proof (cases "etype e = ''TransactionStarted''")
  case True
  with app have "history es (etx e) = []" by (simp add: validate_append_Inr Let_def)
  with True show ?thesis
    by (simp add: history_ok_def history_snoc check_history_Inr leases_recovered_def positions_of_def
        pairs_ordered_snoc requires_def order_residue_def ordered_pairs_def pair_ordered_def)
next
  case False
  let ?h = "history es (etx e)" and ?t = "etype e"
  have a: "?h \<noteq> []" "?t \<in> set TERMINAL_EVENT_TYPES \<Longrightarrow> \<not> terminal_in ?h"
    "\<And>p. required_predecessor ?t = Some p \<Longrightarrow> p \<in> set ?h"
    "?t = ''TransactionCompleted'' \<Longrightarrow> list_all (\<lambda>x. x \<in> set ?h) lifecycle_events \<or> legacy_import e"
    using app False by (simp_all add: validate_append_Inr Let_def)
  have h: "hd ?h = ''TransactionStarted''" "leases_recovered ?h" "list_all (pair_ordered ?h) ordered_pairs"
    "requires ''SessionResultAccepted'' ''SessionLaunched'' ?h"
    "requires ''ValidationPassed'' ''ValidationStarted'' ?h"
    "requires ''CommitFinalized'' ''ValidationPassed'' ?h"
    "''ProjectionUpdated'' \<in> set ?h \<Longrightarrow> terminal_in ?h"
    "''TransactionCompleted'' \<in> set ?h \<Longrightarrow>
          list_all (\<lambda>t. t \<in> set ?h) lifecycle_events \<or> completed_legacy es (etx e)"
    using old [OF a(1)] by (simp_all add: history_ok_def check_history_Inr)
  have pred: "?t = ''SessionResultAccepted'' \<Longrightarrow> ''SessionLaunched'' \<in> set ?h"
    "?t = ''ValidationPassed'' \<Longrightarrow> ''ValidationStarted'' \<in> set ?h"
    "?t = ''CommitFinalized'' \<Longrightarrow> ''ValidationPassed'' \<in> set ?h"
    by (rule a(3), simp add: required_predecessor_def)+
  have req: "requires ''SessionResultAccepted'' ''SessionLaunched'' (?h @ [?t])"
    "requires ''ValidationPassed'' ''ValidationStarted'' (?h @ [?t])"
    "requires ''CommitFinalized'' ''ValidationPassed'' (?h @ [?t])"
    using h(4-6) pred by (simp_all add: requires_snoc)
  have once: "''TransactionCompleted'' \<in> set ?h \<Longrightarrow> ?t \<noteq> ''TransactionCompleted''"
    using a(2) terminal_completed by (auto simp: TERMINAL_EVENT_TYPES_def)
  have compl: "''TransactionCompleted'' \<in> set (?h @ [?t]) \<Longrightarrow>
      list_all (\<lambda>t. t \<in> set (?h @ [?t])) lifecycle_events \<or> completed_legacy (es @ [e]) (etx e)"
    using a(4) h(8) once completed_legacy_snoc [OF once]
    by (cases "?t = ''TransactionCompleted''") (auto simp: list_all_iff)
  have lease: "leases_recovered (?h @ [?t]) \<longleftrightarrow> (?t = ''LeaseAcquired'' \<longrightarrow> leases_recovered (?h @ [?t]))"
    using h(2) leases_recovered_snoc [of ?t ?h] by blast
  have proj: "(''ProjectionUpdated'' \<in> set (?h @ [?t]) \<longrightarrow> terminal_in (?h @ [?t])) \<longleftrightarrow>
      (?t = ''ProjectionUpdated'' \<longrightarrow> terminal_in ?h)"
    using h(7) by (auto simp: TERMINAL_EVENT_TYPES_def)
  show ?thesis
    unfolding history_ok_def history_snoc
    using h(1,3) a(1) req compl lease proj
    by (simp add: check_history_Inr pairs_ordered_snoc)
qed

lemma hex64_last_fp: "ledger_ok L es \<Longrightarrow> hex64 (last_fp es)"
proof (cases es rule: rev_cases)
  case Nil
  then show ?thesis by (simp add: last_fp_def hex64_def GENESIS_FINGERPRINT_def fingerprint_hex_chars_def list_all_iff)
next
  case (snoc ds d)
  assume "ledger_ok L es"
  then show ?thesis using hex64_fingerprint by (simp add: snoc event_ok_def event_fingerprint_def)
qed

lemma nonempty_event_type: "t \<in> set EVENT_TYPES \<Longrightarrow> t \<noteq> []"
  by (auto simp: EVENT_TYPES_def)

lemma append_event_ok:
  assumes "ledger_ok L es" "ledger_wf L" "eid \<noteq> []" "t \<in> set EVENT_TYPES" "stamp \<noteq> []" "tid \<noteq> []"
    and e: "e = make_event L (integrity_of es) eid t stamp tid w pay"
    and app: "validate_append es e = Inr ()"
    and started: "history es tid \<noteq> [] \<Longrightarrow> ''TransactionStarted'' \<in> set (history es tid)"
  shows "event_ok L es e \<longleftrightarrow>
     payload_contract_ok e
     \<and> (\<forall>d \<in> set (of_tx (etx e) es). estr d ''workflow_type'' = estr e ''workflow_type'')
     \<and> (etype e = ''TransactionStarted'' \<longrightarrow> binding_ok e)
     \<and> (etype e = ''HumanGateRaised'' \<longrightarrow> raise_ok es e)
     \<and> (etype e = ''HumanGateResolved'' \<longrightarrow> resolve_ok es e)"
proof -
  have "hex64 (li_fingerprint (integrity_of es))"
    using hex64_last_fp [OF assms(1)] by (simp add: integrity_of_def)
  then have shape: "event_shape (int (length es) + 1) e = Inr () \<longleftrightarrow> payload_contract_ok e"
    using make_event_shape [OF e assms(2,3) nonempty_event_type [OF assms(4)] assms(5,6)]
    by (simp add: integrity_of_def)
  have ident: "event_identity L e = Inr ()"
    using make_event_identity [OF e assms(6)] assms(4) by simp
  have fields: "estr e ''previous_fingerprint'' = last_fp es"
    "estr e ''fingerprint'' = event_fingerprint (unsigned_event e)" "etx e = tid"
    by (simp_all add: make_event_estr [OF e] integrity_of_def)
  show ?thesis
  proof (cases "etype e = ''TransactionStarted''")
    case True
    then have h: "history es (etx e) = []" and ids: "estr e ''event_id'' \<notin> set (map (\<lambda>x. estr x ''event_id'') es)"
      using app by (simp_all add: validate_append_Inr Let_def)
    have t: "terminal_in [] = False" "etype e \<notin> set TERMINAL_EVENT_TYPES"
      using True event_types_disjoint(3) [of e] by (simp_all add: terminal_in_def)
    show ?thesis unfolding event_ok_def shape h
      using True ids fields t by (simp add: ident)
  next
    case False
    then have a: "estr e ''event_id'' \<notin> set (map (\<lambda>x. estr x ''event_id'') es)" "history es (etx e) \<noteq> []"
      "etype e \<in> set TERMINAL_EVENT_TYPES \<longrightarrow> \<not> terminal_in (history es (etx e))"
      "terminal_in (history es (etx e)) \<longrightarrow> etype e \<in> set POST_TERMINAL_TYPES"
      "terminal_in (history es (etx e)) \<and> etype e = ''CheckpointRecorded'' \<longrightarrow> post_terminal_checkpoint e"
      using app by (simp_all add: validate_append_Inr Let_def)
    then have st: "''TransactionStarted'' \<in> set (history es (etx e))" using started fields(3) by simp
    have imm: "terminal_in (history es (etx e)) \<longrightarrow>
        etype e \<in> set POST_TERMINAL_TYPES \<or> etype e = ''HumanGateResolved''" using a(4) by blast
    show ?thesis unfolding event_ok_def shape if_not_P [OF False]
      using False a(1,3,5) fields(1,2) ident st imm by blast
  qed
qed

lemma validate_raises: "validate L es = Inl x \<Longrightarrow> exn_cls x = CorruptEvidenceError"
proof -
  have shape: "event_shape n e = Inl x \<Longrightarrow> exn_cls x = CorruptEvidenceError" for n e
    by (auto simp: event_shape_def rbind_eq_Inl)
  have ident: "event_identity L e = Inl x \<Longrightarrow> exn_cls x = CorruptEvidenceError" for e
    by (auto simp: event_identity_def rbind_eq_Inl rewrap_def parse_workflow_def
        raise_def issubclass_def split: sum.splits option.splits if_splits)
  have gate: "v_gate e s = Inl x \<Longrightarrow> exn_cls x = CorruptEvidenceError" for e s
    by (auto simp: v_gate_def v_raise_gate_def v_resolve_gate_def Let_def split: sum.splits if_splits)
  have blocks: "v_event_id e s = Inl x \<Longrightarrow> exn_cls x = CorruptEvidenceError"
    "v_workflow e s = Inl x \<Longrightarrow> exn_cls x = CorruptEvidenceError"
    "v_terminal e s = Inl x \<Longrightarrow> exn_cls x = CorruptEvidenceError"
    "v_checkpoint e s = Inl x \<Longrightarrow> exn_cls x = CorruptEvidenceError"
    "v_chain e s = Inl x \<Longrightarrow> exn_cls x = CorruptEvidenceError" for e s
    by (auto simp: v_event_id_def v_workflow_def v_terminal_def v_checkpoint_def v_chain_def rbind_eq_Inl
        split: if_splits option.splits)
  have start: "v_start e s = Inl x \<Longrightarrow> exn_cls x = CorruptEvidenceError" for e s
    by (auto simp: v_start_def Let_def split: if_splits json.splits)
  have "validate_event L n e s = Inl x \<Longrightarrow> exn_cls x = CorruptEvidenceError" for n e s
    unfolding validate_event_def rbind_eq_Inl using shape ident gate blocks start by blast
  then have events: "validate_events L n ds s = Inl x \<Longrightarrow> exn_cls x = CorruptEvidenceError" for n ds s
    by (induction L n ds s rule: validate_events.induct) (auto simp: rbind_eq_Inl)
  have hist: "check_history ds th = Inl x \<Longrightarrow> exn_cls x = CorruptEvidenceError" for ds th
    by (auto simp: check_history_def Let_def rbind_eq_Inl)
  have "rfold (\<lambda>th _. check_history ds th) hs () = Inl x \<Longrightarrow> exn_cls x = CorruptEvidenceError" for ds hs
    by (induction hs) (auto simp: rbind_eq_Inl hist)
  then show "validate L es = Inl x \<Longrightarrow> exn_cls x = CorruptEvidenceError"
    unfolding validate_def rbind_eq_Inl using events by blast
qed

lemma append_extends:
  assumes "validate L es = Inr i" "ledger_wf L"
    and "eid \<noteq> []" "t \<in> set EVENT_TYPES" "stamp \<noteq> []" "tid \<noteq> []"
    and "e = make_event L i eid t stamp tid w pay" "validate_append es e = Inr ()"
  shows "(if append_residue es e then validate L (es @ [e]) = Inr (integrity_of (es @ [e]))
          else raises CorruptEvidenceError (validate L (es @ [e])))
    \<and> li_fingerprint (integrity_of (es @ [e])) = event_fingerprint (unsigned_event e)
    \<and> li_sequence (integrity_of (es @ [e])) = li_sequence i + 1"
proof -
  have ok: "ledger_ok L es" "i = integrity_of es" "\<forall>d \<in> set es. history_ok es (etx d)"
    using assms(1) by (simp_all add: validate_Inr)
  have old: "history es tx \<noteq> [] \<Longrightarrow> history_ok es tx" for tx
    using ok(3) by (auto simp: history_Nil)
  have e: "e = make_event L (integrity_of es) eid t stamp tid w pay" using assms(7) ok(2) by simp
  have started: "history es tid \<noteq> [] \<Longrightarrow> ''TransactionStarted'' \<in> set (history es tid)"
    using old [of tid] by (simp add: history_ok_def check_history_Inr) (metis hd_in_set)
  have iff: "(\<exists>j. validate L (es @ [e]) = Inr j) \<longleftrightarrow> append_residue es e"
    unfolding validate_snoc_iff [OF assms(1)] append_residue_def
    using append_event_ok [OF ok(1) assms(2-6) e assms(8) started] history_ok_snoc [OF old assms(8)]
    by blast
  have "li_fingerprint (integrity_of (es @ [e])) = event_fingerprint (unsigned_event e)"
    "li_sequence (integrity_of (es @ [e])) = li_sequence i + 1"
    by (simp_all add: integrity_of_def ok(2) make_event_estr(7) [OF e])
  moreover have "validate L (es @ [e]) = Inr j \<Longrightarrow> j = integrity_of (es @ [e])" for j
    by (simp add: validate_Inr)
  moreover have "raises CorruptEvidenceError (validate L (es @ [e]))" if "\<not> append_residue es e"
  proof (cases "validate L (es @ [e])")
    case (Inl x)
    then show ?thesis using validate_raises [OF Inl] by (cases x) simp
  qed (use iff that in blast)
  ultimately show ?thesis using iff by (cases "append_residue es e") auto
qed


text \<open>
  For a valid ledger and an event that \<^verbatim>\<open>append\<close> builds and its incremental
  checks let pass, the extended ledger is valid exactly if the residue holds; the new head is
  then the new event.
\<close>

theorem append_validate:
  assumes "validate L es = Inr i" "ledger_wf L"
    and "eid \<noteq> []" "t \<in> set EVENT_TYPES" "stamp \<noteq> []" "tid \<noteq> []"
    and "e = make_event L i eid t stamp tid w pay" "validate_append es e = Inr ()"
  shows "(if append_residue es e then validate L (es @ [e]) = Inr (integrity_of (es @ [e]))
          else raises CorruptEvidenceError (validate L (es @ [e])))
    \<and> li_fingerprint (integrity_of (es @ [e])) = event_fingerprint (unsigned_event e)
    \<and> li_sequence (integrity_of (es @ [e])) = li_sequence i + 1"
  using append_extends [OF assms] .

end
