(* ===== verification/Ledger_Theorems.thy ===== *)
theory Ledger_Theorems
  imports Ledger_Append Json_Parse
begin

section \<open>What a valid ledger guarantees\<close>

text \<open>
  Properties of the validation and of appending: the exact set of accepted ledgers, the life
  cycle of a transaction in an accepted ledger, tamper evidence by the hash chain, and the gap
  between the incremental and the full validation.
\<close>

text \<open>
  Claim C8. The one-pass validation, with its eight local tables, accepts exactly the ledgers
  in which every event is admissible after the events before it and every transaction has an
  admissible history, and returns the length, the head fingerprint and the number of
  transactions; everything else is refused as corrupt evidence.
\<close>

theorem validate_iff:
  "if ledger_ok L es \<and> list_all (\<lambda>e. history_ok es (etx e)) es
   then validate L es = Inr (integrity_of es) else raises CorruptEvidenceError (validate L es)"
proof (cases "validate L es")
  case (Inl x)
  then show ?thesis using validate_raises [OF Inl] validate_Inr [of L es "integrity_of es"]
    by (cases x) (auto simp: list_all_iff)
next
  case (Inr i)
  then show ?thesis by (simp add: validate_Inr list_all_iff)
qed

subsection \<open>Life cycle\<close>

definition after_terminal :: "string list \<Rightarrow> string list" where
  "after_terminal h = tl (dropWhile (\<lambda>t. t \<notin> set TERMINAL_EVENT_TYPES) h)"

lemma after_terminal_snoc:
  "after_terminal (h @ [t]) = (if terminal_in h then after_terminal h @ [t] else [])"
proof (cases "terminal_in h")
  case True
  then obtain x where x: "x \<in> set h" "x \<in> set TERMINAL_EVENT_TYPES" by (auto simp: terminal_in_def list_ex_iff)
  then have "dropWhile (\<lambda>t. t \<notin> set TERMINAL_EVENT_TYPES) h \<noteq> []"
    by (auto simp: dropWhile_eq_Nil_conv)
  with x True show ?thesis by (auto simp: after_terminal_def dropWhile_append1)
next
  case False
  then show ?thesis by (simp add: after_terminal_def terminal_in_def list_ex_iff dropWhile_append2)
qed

lemma ledger_after_terminal:
  "ledger_ok L es \<Longrightarrow> set (after_terminal (history es tx)) \<subseteq> insert ''HumanGateResolved'' (set POST_TERMINAL_TYPES)"
proof (induction es rule: rev_induct)
  case Nil
  show ?case by (simp add: history_def of_tx_def after_terminal_def)
next
  case (snoc e es)
  then show ?case by (auto simp: history_snoc after_terminal_snoc event_ok_def)
qed

lemma ledger_started_once: "ledger_ok L es \<Longrightarrow> count_list (history es tx) ''TransactionStarted'' \<le> 1"
proof (induction es rule: rev_induct)
  case Nil
  show ?case by (simp add: history_def of_tx_def)
next
  case (snoc e es)
  then have "''TransactionStarted'' \<notin> set (history es (etx e))" if "etype e = ''TransactionStarted''"
    using event_ok_start [of L es e] that by simp
  with snoc show ?case by (auto simp: history_snoc count_list_0_iff)
qed

lemma subseq_pair:
  "first_pos a h \<le> first_pos b h \<Longrightarrow> a \<noteq> b \<Longrightarrow> b \<in> set h \<Longrightarrow> subseq [a, b] h"
  by (induction h) (auto simp: first_pos_def subseq_singleton_left split: if_splits)

lemma first_pos_prefix: "a \<in> set pre \<Longrightarrow> first_pos a (pre @ post) = first_pos a pre"
  by (simp add: first_pos_def takeWhile_append1)

text \<open>Two events before the terminal one, in the order of their first occurrences.\<close>

lemma completed_subseq:
  assumes "h = pre @ c # post" "hd h = s" "a \<in> set pre" "b \<in> set pre" "pair_ordered h (a, b)"
    and "a \<noteq> b" "a \<noteq> s" "b \<noteq> s"
  shows "subseq [s, a, b, c] h"
proof -
  obtain pre' where pre: "pre = s # pre'" using assms(1-3) by (cases pre) auto
  have "first_pos a pre \<le> first_pos b pre"
    using assms(3-5) unfolding assms(1) by (simp add: pair_ordered_def first_pos_prefix)
  then have "first_pos a pre' \<le> first_pos b pre'" using assms(7,8) by (simp add: pre first_pos_def)
  moreover have "b \<in> set pre'" using assms(4,8) by (simp add: pre)
  ultimately have "subseq [a, b] pre'" using assms(6) by (intro subseq_pair)
  then have "subseq ([a, b] @ [c]) (pre' @ c # post)"
    by (intro list_emb_append_mono) (auto simp: subseq_singleton_left)
  then show ?thesis by (simp add: assms(1) pre)
qed

lemma terminal_split:
  assumes "''TransactionCompleted'' \<in> set h"
    and "set (after_terminal h) \<subseteq> insert ''HumanGateResolved'' (set POST_TERMINAL_TYPES)"
  shows "\<exists>pre post. h = pre @ ''TransactionCompleted'' # post
    \<and> set post \<subseteq> insert ''HumanGateResolved'' (set POST_TERMINAL_TYPES)"
proof -
  let ?T = "\<lambda>t. t \<notin> set TERMINAL_EVENT_TYPES"
  obtain x post where d: "dropWhile ?T h = x # post"
    using assms(1) by (cases "dropWhile ?T h") (auto simp: dropWhile_eq_Nil_conv TERMINAL_EVENT_TYPES_def)
  have h: "h = takeWhile ?T h @ x # post" by (metis d takeWhile_dropWhile_id)
  have post: "set post \<subseteq> insert ''HumanGateResolved'' (set POST_TERMINAL_TYPES)"
    using assms(2) by (simp add: after_terminal_def d)
  have "''TransactionCompleted'' \<notin> set (takeWhile ?T h)"
    by (auto dest!: set_takeWhileD simp: TERMINAL_EVENT_TYPES_def)
  moreover have "''TransactionCompleted'' \<notin> set post"
    using post by (auto simp: POST_TERMINAL_TYPES_def)
  ultimately have "x = ''TransactionCompleted''" using assms(1) h by (metis Un_iff set_ConsD set_append)
  with h post show ?thesis by metis
qed

text \<open>
  Claim C9. In a valid ledger every transaction starts exactly once, with its first event;
  after its terminal event nothing is recorded of it but the release of its lease, recoveries,
  projections, imports, acknowledged checkpoints and the resolution of its gate; and a
  transaction is completed only after it acquired a lease and then captured its snapshot, and
  started and then passed validation, unless the completion is a legacy import.
\<close>

theorem valid_ledger_lifecycle:
  assumes "validate L es = Inr i" "e \<in> set es"
  shows "hd (history es (etx e)) = ''TransactionStarted''
    \<and> count_list (history es (etx e)) ''TransactionStarted'' = 1
    \<and> set (after_terminal (history es (etx e))) \<subseteq> insert ''HumanGateResolved'' (set POST_TERMINAL_TYPES)
    \<and> (''TransactionCompleted'' \<in> set (history es (etx e)) \<and> \<not> completed_legacy es (etx e) \<longrightarrow>
         subseq [''TransactionStarted'', ''LeaseAcquired'', ''SnapshotCaptured'', ''TransactionCompleted'']
           (history es (etx e))
         \<and> subseq [''TransactionStarted'', ''ValidationStarted'', ''ValidationPassed'', ''TransactionCompleted'']
           (history es (etx e)))"
proof -
  let ?h = "history es (etx e)"
  have ok: "ledger_ok L es" "history_ok es (etx e)" using assms by (simp_all add: validate_Inr)
  then have h: "?h \<noteq> []" "hd ?h = ''TransactionStarted''" "list_all (pair_ordered ?h) ordered_pairs"
    "''TransactionCompleted'' \<in> set ?h \<Longrightarrow>
          list_all (\<lambda>t. t \<in> set ?h) lifecycle_events \<or> completed_legacy es (etx e)"
    by (simp_all add: history_ok_def check_history_Inr)
  have after: "set (after_terminal ?h) \<subseteq> insert ''HumanGateResolved'' (set POST_TERMINAL_TYPES)"
    using ledger_after_terminal [OF ok(1)] .
  have "count_list ?h ''TransactionStarted'' \<noteq> 0"
    using h(1,2) by (metis count_list_0_iff hd_in_set)
  then have once: "count_list ?h ''TransactionStarted'' = 1"
    using ledger_started_once [OF ok(1), of "etx e"] by simp
  have "subseq [''TransactionStarted'', ''LeaseAcquired'', ''SnapshotCaptured'', ''TransactionCompleted''] ?h
         \<and> subseq [''TransactionStarted'', ''ValidationStarted'', ''ValidationPassed'', ''TransactionCompleted''] ?h"
    if c: "''TransactionCompleted'' \<in> set ?h" "\<not> completed_legacy es (etx e)"
  proof -
    obtain pre post where sp: "?h = pre @ ''TransactionCompleted'' # post"
      and post: "set post \<subseteq> insert ''HumanGateResolved'' (set POST_TERMINAL_TYPES)"
      using terminal_split [OF c(1) after] by blast
    have "list_all (\<lambda>t. t \<in> set ?h) lifecycle_events" using h(4) c by blast
    then have "t \<in> set pre" if "t \<in> set lifecycle_events" for t
      using that post sp by (auto simp: list_all_iff lifecycle_events_def POST_TERMINAL_TYPES_def)
    then have "''LeaseAcquired'' \<in> set pre" "''SnapshotCaptured'' \<in> set pre"
      "''ValidationStarted'' \<in> set pre" "''ValidationPassed'' \<in> set pre"
      by (simp_all add: lifecycle_events_def)
    moreover have "pair_ordered ?h (''LeaseAcquired'', ''SnapshotCaptured'')"
      "pair_ordered ?h (''ValidationStarted'', ''ValidationPassed'')"
      using h(3) by (simp_all add: ordered_pairs_def)
    ultimately show ?thesis using completed_subseq [OF sp h(2)] by simp
  qed
  then show ?thesis using h(2) once after by blast
qed

subsection \<open>A sample ledger\<close>

definition sample_L :: ledger where
  "sample_L = \<lparr>lg_project_id = ''project'', lg_repository_identity = replicate 64 (CHR ''a''),
     lg_repository_path_fingerprint = replicate 64 (CHR ''b'')\<rparr>"

lemma sample_L_wf: "ledger_wf sample_L"
  by (simp add: ledger_wf_def sample_L_def)

text \<open>The event a call of \<^verbatim>\<open>append\<close> builds over the events \<open>es\<close>, all in one transaction.\<close>

definition sample_event :: "obj list \<Rightarrow> string \<Rightarrow> string \<Rightarrow> obj" where
  "sample_event es eid t = make_event sample_L (integrity_of es) eid t ''now'' ''tx'' FEATURE_EXECUTION []"

lemma sample_event_fields:
  "estr (sample_event es eid t) ''event_id'' = eid" "etype (sample_event es eid t) = t"
  "etx (sample_event es eid t) = ''tx''" "payload (sample_event es eid t) = []"
  "estr (sample_event es eid t) ''workflow_type'' = workflow_value FEATURE_EXECUTION"
  by (simp_all add: sample_event_def make_event_estr [OF refl])

definition ev1 :: obj where "ev1 = sample_event [] ''1'' ''TransactionStarted''"
definition ev2 :: obj where "ev2 = sample_event [ev1] ''2'' ''LeaseAcquired''"
definition ev3 :: obj where "ev3 = sample_event [ev1, ev2] ''3'' ''SnapshotCaptured''"
definition ev4 :: obj where "ev4 = sample_event [ev1, ev2, ev3] ''4'' ''ValidationStarted''"
definition ev5 :: obj where "ev5 = sample_event [ev1, ev2, ev3, ev4] ''5'' ''ValidationPassed''"
definition ev6 :: obj where "ev6 = sample_event [ev1, ev2, ev3, ev4, ev5] ''6'' ''TransactionCompleted''"

lemmas sample_fields = ev1_def ev2_def ev3_def ev4_def ev5_def ev6_def

lemma sample_simps:
  "estr ev1 ''event_id'' = ''1''" "etype ev1 = ''TransactionStarted''" "etx ev1 = ''tx''" "payload ev1 = []"
  "estr ev2 ''event_id'' = ''2''" "etype ev2 = ''LeaseAcquired''" "etx ev2 = ''tx''" "payload ev2 = []"
  "estr ev3 ''event_id'' = ''3''" "etype ev3 = ''SnapshotCaptured''" "etx ev3 = ''tx''" "payload ev3 = []"
  "estr ev4 ''event_id'' = ''4''" "etype ev4 = ''ValidationStarted''" "etx ev4 = ''tx''" "payload ev4 = []"
  "estr ev5 ''event_id'' = ''5''" "etype ev5 = ''ValidationPassed''" "etx ev5 = ''tx''" "payload ev5 = []"
  "estr ev6 ''event_id'' = ''6''" "etype ev6 = ''TransactionCompleted''" "etx ev6 = ''tx''" "payload ev6 = []"
  by (simp_all add: sample_fields sample_event_fields)

lemma sample_workflow:
  "estr ev1 ''workflow_type'' = workflow_value FEATURE_EXECUTION"
  "estr ev2 ''workflow_type'' = workflow_value FEATURE_EXECUTION"
  "estr ev3 ''workflow_type'' = workflow_value FEATURE_EXECUTION"
  "estr ev4 ''workflow_type'' = workflow_value FEATURE_EXECUTION"
  "estr ev5 ''workflow_type'' = workflow_value FEATURE_EXECUTION"
  "estr ev6 ''workflow_type'' = workflow_value FEATURE_EXECUTION"
  by (simp_all add: sample_fields sample_event_fields)

text \<open>The library form of the step: a valid ledger, an event that passes both checks.\<close>

lemma validate_extend:
  assumes "validate sample_L es = Inr i" "eid \<noteq> []" "t \<in> set EVENT_TYPES"
    and "validate_append es (sample_event es eid t) = Inr ()" "append_residue es (sample_event es eid t)"
  shows "validate sample_L (es @ [sample_event es eid t]) = Inr (integrity_of (es @ [sample_event es eid t]))"
proof -
  have "i = integrity_of es" using assms(1) by (simp add: validate_Inr)
  then have e: "sample_event es eid t = make_event sample_L i eid t ''now'' ''tx'' FEATURE_EXECUTION []"
    by (simp add: sample_event_def)
  show ?thesis
    using append_extends [OF assms(1) sample_L_wf assms(2,3) _ _ e assms(4)] assms(5) by simp
qed

lemmas sample_eval = validate_append_Inr append_residue_def Let_def history_def of_tx_def sample_simps
  sample_workflow payload_contract_ok_def PAYLOAD_CONTRACTS_def binding_ok_def terminal_in_def
  TERMINAL_EVENT_TYPES_def POST_TERMINAL_TYPES_def required_predecessor_def lifecycle_events_def
  order_residue_def ordered_pairs_def leases_recovered_def positions_of_def EVENT_TYPES_def

lemma sample_ledger_valid:
  "validate sample_L [ev1, ev2, ev3, ev4, ev5, ev6] = Inr (integrity_of [ev1, ev2, ev3, ev4, ev5, ev6])"
proof -
  have 0: "validate sample_L [] = Inr (integrity_of [])" by (simp add: validate_Inr)
  have 1: "validate sample_L [ev1] = Inr (integrity_of [ev1])"
    using validate_extend [OF 0, of "''1''" "''TransactionStarted''"]
    by (simp add: ev1_def [symmetric] sample_eval)
  have 2: "validate sample_L [ev1, ev2] = Inr (integrity_of [ev1, ev2])"
    using validate_extend [OF 1, of "''2''" "''LeaseAcquired''"]
    by (simp add: ev2_def [symmetric] sample_eval)
  have 3: "validate sample_L [ev1, ev2, ev3] = Inr (integrity_of [ev1, ev2, ev3])"
    using validate_extend [OF 2, of "''3''" "''SnapshotCaptured''"]
    by (simp add: ev3_def [symmetric] sample_eval)
  have 4: "validate sample_L [ev1, ev2, ev3, ev4] = Inr (integrity_of [ev1, ev2, ev3, ev4])"
    using validate_extend [OF 3, of "''4''" "''ValidationStarted''"]
    by (simp add: ev4_def [symmetric] sample_eval)
  have 5: "validate sample_L [ev1, ev2, ev3, ev4, ev5] = Inr (integrity_of [ev1, ev2, ev3, ev4, ev5])"
    using validate_extend [OF 4, of "''5''" "''ValidationPassed''"]
    by (simp add: ev5_def [symmetric] sample_eval)
  show ?thesis
    using validate_extend [OF 5, of "''6''" "''TransactionCompleted''"]
    by (simp add: ev6_def [symmetric] sample_eval)
qed

theorem valid_ledger_lifecycle_witness:
  "subseq [''TransactionStarted'', ''LeaseAcquired'', ''SnapshotCaptured'', ''TransactionCompleted'']
     (history [ev1, ev2, ev3, ev4, ev5, ev6] ''tx'')"
proof -
  have "\<not> completed_legacy [ev1, ev2, ev3, ev4, ev5, ev6] (etx ev6)"
    by (simp add: completed_legacy_def legacy_import_def sample_simps)
  moreover have "''TransactionCompleted'' \<in> set (history [ev1, ev2, ev3, ev4, ev5, ev6] (etx ev6))"
    by (simp add: sample_eval)
  ultimately have "subseq [''TransactionStarted'', ''LeaseAcquired'', ''SnapshotCaptured'', ''TransactionCompleted'']
     (history [ev1, ev2, ev3, ev4, ev5, ev6] (etx ev6))"
    using valid_ledger_lifecycle [OF sample_ledger_valid, of ev6] by simp
  then show ?thesis by (simp only: sample_simps)
qed

theorem append_validate_witness:
  "validate sample_L [ev1, ev2] = Inr (integrity_of [ev1, ev2])
   \<and> li_sequence (integrity_of [ev1, ev2]) = 2"
proof -
  have 0: "validate sample_L [] = Inr (integrity_of [])" by (simp add: validate_Inr)
  have 1: "validate sample_L [ev1] = Inr (integrity_of [ev1])"
    using validate_extend [OF 0, of "''1''" "''TransactionStarted''"]
    by (simp add: ev1_def [symmetric] sample_eval)
  have "validate_append [ev1] ev2 = Inr ()" "append_residue [ev1] ev2"
    by (simp_all add: sample_eval)
  then show ?thesis
    using append_validate [OF 1 sample_L_wf, of "''2''" "''LeaseAcquired''" "''now''" "''tx''" ev2 FEATURE_EXECUTION "[]"]
    by (simp add: ev2_def sample_event_def EVENT_TYPES_def integrity_of_def)
qed

definition ev_projection :: obj where
  "ev_projection = sample_event [ev1, ev2] ''3'' ''ProjectionUpdated''"

definition ev_session :: obj where
  "ev_session = sample_event [ev1, ev2] ''3'' ''SessionLaunched''"

definition ev_snapshot :: obj where
  "ev_snapshot = sample_event [ev1, ev2, ev_session] ''4'' ''SnapshotCaptured''"

definition ev_untyped :: obj where
  "ev_untyped = make_event sample_L (integrity_of [ev1]) ''2'' ''LeaseAcquired'' ''now'' ''tx'' FEATURE_EXECUTION
     [(''lease_id'', JInt 7)]"

lemma gap_simps:
  "estr ev_projection ''event_id'' = ''3''" "etype ev_projection = ''ProjectionUpdated''"
  "etx ev_projection = ''tx''" "payload ev_projection = []"
  "estr ev_session ''event_id'' = ''3''" "etype ev_session = ''SessionLaunched''"
  "etx ev_session = ''tx''" "payload ev_session = []"
  "estr ev_snapshot ''event_id'' = ''4''" "etype ev_snapshot = ''SnapshotCaptured''"
  "etx ev_snapshot = ''tx''" "payload ev_snapshot = []"
  "estr ev_untyped ''event_id'' = ''2''" "etype ev_untyped = ''LeaseAcquired''"
  "etx ev_untyped = ''tx''" "payload ev_untyped = [(''lease_id'', JInt 7)]"
  "estr ev_projection ''workflow_type'' = workflow_value FEATURE_EXECUTION"
  "estr ev_session ''workflow_type'' = workflow_value FEATURE_EXECUTION"
  "estr ev_snapshot ''workflow_type'' = workflow_value FEATURE_EXECUTION"
  by (simp_all add: ev_projection_def ev_session_def ev_snapshot_def ev_untyped_def sample_event_fields
      make_event_estr [OF refl])

lemma validate_rejects:
  assumes "validate sample_L es = Inr i" "eid \<noteq> []" "t \<in> set EVENT_TYPES"
    and "e = make_event sample_L (integrity_of es) eid t ''now'' ''tx'' FEATURE_EXECUTION pay"
    and "validate_append es e = Inr ()" "\<not> append_residue es e"
  shows "raises CorruptEvidenceError (validate sample_L (es @ [e]))"
proof -
  have "i = integrity_of es" using assms(1) by (simp add: validate_Inr)
  with assms(4) have e: "e = make_event sample_L i eid t ''now'' ''tx'' FEATURE_EXECUTION pay" by simp
  show ?thesis
    using append_extends [OF assms(1) sample_L_wf assms(2,3) _ _ e assms(5)] assms(6) by simp
qed

lemma sample_prefix_valid:
  "validate sample_L [ev1] = Inr (integrity_of [ev1])"
  "validate sample_L [ev1, ev2] = Inr (integrity_of [ev1, ev2])"
  "validate sample_L [ev1, ev2, ev_session] = Inr (integrity_of [ev1, ev2, ev_session])"
proof -
  have 0: "validate sample_L [] = Inr (integrity_of [])" by (simp add: validate_Inr)
  show 1: "validate sample_L [ev1] = Inr (integrity_of [ev1])"
    using validate_extend [OF 0, of "''1''" "''TransactionStarted''"]
    by (simp add: ev1_def [symmetric] sample_eval)
  show 2: "validate sample_L [ev1, ev2] = Inr (integrity_of [ev1, ev2])"
    using validate_extend [OF 1, of "''2''" "''LeaseAcquired''"]
    by (simp add: ev2_def [symmetric] sample_eval)
  show "validate sample_L [ev1, ev2, ev_session] = Inr (integrity_of [ev1, ev2, ev_session])"
    using validate_extend [OF 2, of "''3''" "''SessionLaunched''"]
    by (simp add: ev_session_def [symmetric] sample_eval gap_simps)
qed

text \<open>
  The incremental checks of \<^verbatim>\<open>append\<close> are weaker than the validation of the
  next reader: \<^verbatim>\<open>append\<close> accepts the projection of a transaction that has no terminal
  event, the capture of a snapshot after the session it should precede, and a payload of the
  wrong type; from then on every validation of the ledger raises.
\<close>

theorem append_gap:
  "validate_append [ev1, ev2] ev_projection = Inr ()
   \<and> raises CorruptEvidenceError (validate sample_L [ev1, ev2, ev_projection])
   \<and> validate_append [ev1, ev2, ev_session] ev_snapshot = Inr ()
   \<and> raises CorruptEvidenceError (validate sample_L [ev1, ev2, ev_session, ev_snapshot])
   \<and> validate_append [ev1] ev_untyped = Inr ()
   \<and> raises CorruptEvidenceError (validate sample_L [ev1, ev_untyped])"
proof -
  have app: "validate_append [ev1, ev2] ev_projection = Inr ()"
    "validate_append [ev1, ev2, ev_session] ev_snapshot = Inr ()" "validate_append [ev1] ev_untyped = Inr ()"
    by (simp_all add: sample_eval gap_simps)
  have gap: "\<not> append_residue [ev1, ev2] ev_projection" "\<not> append_residue [ev1, ev2, ev_session] ev_snapshot"
    "\<not> append_residue [ev1] ev_untyped"
    by (simp_all add: sample_eval gap_simps)
  have types: "''ProjectionUpdated'' \<in> set EVENT_TYPES" "''SnapshotCaptured'' \<in> set EVENT_TYPES"
    "''LeaseAcquired'' \<in> set EVENT_TYPES"
    by (simp_all add: EVENT_TYPES_def)
  show ?thesis
    using app
      validate_rejects [OF sample_prefix_valid(2) _ types(1) ev_projection_def [unfolded sample_event_def] app(1) gap(1)]
      validate_rejects [OF sample_prefix_valid(3) _ types(2) ev_snapshot_def [unfolded sample_event_def] app(2) gap(2)]
      validate_rejects [OF sample_prefix_valid(1) _ types(3) ev_untyped_def app(3) gap(3)]
    by simp
qed

subsection \<open>Tamper evidence\<close>

text \<open>The text an event signs, and two events that sign different texts with one fingerprint.\<close>

definition signed_text :: "obj \<Rightarrow> string" where
  "signed_text e = dumps (JObj (unsigned_event e))"

definition fp_collision :: "obj list \<Rightarrow> obj list \<Rightarrow> bool" where
  "fp_collision es ds \<longleftrightarrow>
     list_ex (\<lambda>(a, b). signed_text a \<noteq> signed_text b \<and> sha256_hex (signed_text a) = sha256_hex (signed_text b))
       (zip es ds)"

definition event_wf :: "(string \<Rightarrow> string) \<Rightarrow> obj \<Rightarrow> bool" where
  "event_wf fr e \<longleftrightarrow> json_wf (JObj e) \<and> floats_ok fr (JObj e)"

lemma unsigned_wf: "event_wf fr e \<Longrightarrow> event_wf fr (unsigned_event e)"
  by (auto simp: event_wf_def unsigned_event_def adel_def list_all_iff distinct_adel [unfolded adel_def])

lemma signed_text_fields:
  assumes "signed_text a = signed_text b" "event_wf fr a" "event_wf fr b" "k \<noteq> ''fingerprint''"
  shows "map_option canon (map_of a k) = map_option canon (map_of b k)"
proof -
  have "map_option canon (map_of (unsigned_event a) k) = map_option canon (map_of (unsigned_event b) k)"
    using assms(1) unsigned_wf [OF assms(2)] unsigned_wf [OF assms(3)]
    unfolding signed_text_def event_wf_def by (intro dumps_inject_field) auto
  then show ?thesis using assms(4) by (simp add: unsigned_event_def map_of_adel)
qed

lemma estr_canon: "map_option canon (map_of a k) = map_option canon (map_of b k) \<Longrightarrow> estr a k = estr b k"
proof -
  assume eq: "map_option canon (map_of a k) = map_option canon (map_of b k)"
  define g where "g x = (case x of JStr s \<Rightarrow> s | _ \<Rightarrow> [])" for x
  have g: "g (canon x) = g x" for x by (cases x) (simp_all add: canon_JObj g_def)
  have est: "estr d k = (case map_option canon (map_of d k) of None \<Rightarrow> [] | Some x \<Rightarrow> g x)" for d
    by (cases "map_of d k") (simp_all add: estr_def oget_def g, simp_all add: g_def)
  show ?thesis by (simp only: est eq)
qed

lemma canon_JObj_eqI:
  assumes "distinct (map fst a)" "distinct (map fst b)"
    and "\<And>k. map_option canon (map_of a k) = map_option canon (map_of b k)"
  shows "canon (JObj a) = canon (JObj b)"
proof -
  let ?c = "\<lambda>d. sort_key fst (map (\<lambda>kv. (fst kv, canon (snd kv))) d)"
  have d: "distinct (map fst (?c d))" if "distinct (map fst d)" for d
  proof -
    have "distinct (map fst (map (\<lambda>kv. (fst kv, canon (snd kv))) d))" using that by (simp add: comp_def)
    then have "distinct (map (\<lambda>kv. (fst kv, canon (snd kv))) d)"
      "inj_on fst (set (map (\<lambda>kv. (fst kv, canon (snd kv))) d))"
      unfolding distinct_map [of fst] by blast+
    then show ?thesis unfolding distinct_map [of fst] set_sort distinct_sort by (intro conjI)
  qed
  have "map_of (?c a) = map_of (?c b)"
    by (rule ext) (simp only: map_of_canon [OF assms(1)] map_of_canon [OF assms(2)] assms(3))
  then have "set (?c a) = set (?c b)"
    using map_of_inject_set [OF d [OF assms(1)] d [OF assms(2)]] by blast
  then have "?c a = ?c b"
    using d [OF assms(1)] d [OF assms(2)]
    by (intro map_sorted_distinct_set_unique [of fst]) (simp_all add: distinct_map)
  then show ?thesis by (simp add: canon.simps(2))
qed

lemma same_event_text:
  assumes "signed_text a = signed_text b" "estr a ''fingerprint'' = estr b ''fingerprint''"
    and "event_wf fr a" "event_wf fr b" "event_shape n a = Inr ()" "event_shape m b = Inr ()"
  shows "dumps (JObj a) = dumps (JObj b)"
proof -
  have fp: "map_of d ''fingerprint'' = Some (JStr (estr d ''fingerprint''))" if "event_shape l d = Inr ()" for l d
  proof -
    have "nonempty_str (oget d ''fingerprint'')"
      using that by (simp add: event_shape_Inr typed_strings_def)
    then show ?thesis by (auto simp: nonempty_str_iff estr_def oget_def split: option.splits)
  qed
  have "map_option canon (map_of a k) = map_option canon (map_of b k)" for k
    using signed_text_fields [OF assms(1,3,4), of k] fp [OF assms(5)] fp [OF assms(6)] assms(2)
    by (cases "k = ''fingerprint''") simp_all
  then have "canon (JObj a) = canon (JObj b)"
    using assms(3,4) by (intro canon_JObj_eqI) (simp_all add: event_wf_def)
  then show ?thesis by (metis dumps_canon)
qed

lemma tamper_core:
  assumes "ledger_ok L es" "ledger_ok L ds" "length es = length ds" "last_fp es = last_fp ds"
    and "list_all (event_wf fr) es" "list_all (event_wf fr) ds"
  shows "map (\<lambda>e. dumps (JObj e)) es = map (\<lambda>e. dumps (JObj e)) ds \<or> fp_collision es ds"
  using assms
proof (induction es arbitrary: ds rule: rev_induct)
  case (snoc a es)
  then obtain bs b where ds: "ds = bs @ [b]" by (cases ds rule: rev_cases) auto
  have ab: "event_ok L es a" "event_ok L bs b" using snoc.prems(1,2) by (simp_all add: ds)
  have len: "length es = length bs" and fp: "estr a ''fingerprint'' = estr b ''fingerprint''"
    using snoc.prems(3,4) by (simp_all add: ds)
  show ?case
  proof (cases "signed_text a = signed_text b")
    case True
    have wf: "event_wf fr a" "event_wf fr b" using snoc.prems(5,6) by (simp_all add: ds)
    have "estr a ''previous_fingerprint'' = estr b ''previous_fingerprint''"
      using signed_text_fields [OF True wf] by (intro estr_canon) simp
    then have "last_fp es = last_fp bs" using event_ok_chain ab by metis
    then have "map (\<lambda>e. dumps (JObj e)) es = map (\<lambda>e. dumps (JObj e)) bs \<or> fp_collision es bs"
      using snoc.prems len by (intro snoc.IH) (simp_all add: ds)
    moreover have "dumps (JObj a) = dumps (JObj b)"
      using same_event_text [OF True fp wf] event_ok_shape ab by blast
    ultimately show ?thesis using len by (auto simp: ds fp_collision_def)
  next
    case False
    have "sha256_hex (signed_text a) = sha256_hex (signed_text b)"
      using ab fp by (simp add: event_ok_def event_fingerprint_def fingerprint_def signed_text_def)
    with False len show ?thesis by (simp add: ds fp_collision_def)
  qed
qed simp

text \<open>
  Claim C10. The ledger is tamper evident: two valid ledgers of the same length with the same head
  fingerprint are line for line the same text, or the two files exhibit two different signed texts with
  one SHA-256 digest, at the same place of both.
\<close>

theorem ledger_tamper_evident:
  assumes "validate L es = Inr i" "validate L ds = Inr j"
    and "li_sequence i = li_sequence j" "li_fingerprint i = li_fingerprint j"
    and "list_all (event_wf fr) es" "list_all (event_wf fr) ds"
  shows "map (\<lambda>e. dumps (JObj e)) es = map (\<lambda>e. dumps (JObj e)) ds \<or> fp_collision es ds"
proof -
  have "ledger_ok L es" "ledger_ok L ds" "length es = length ds" "last_fp es = last_fp ds"
    using assms(1-4) by (auto simp: validate_Inr integrity_of_def)
  then show ?thesis using assms(5,6) by (rule tamper_core)
qed

theorem ledger_tamper_evident_witness:
  "\<exists>e. etype e = ''LeaseAcquired'' \<and>
     (map (\<lambda>e. dumps (JObj e)) [ev1, ev2] = map (\<lambda>e. dumps (JObj e)) [ev1, e] \<or> fp_collision [ev1, ev2] [ev1, e])"
proof -
  have "event_wf id (make_event sample_L i eid t ''now'' ''tx'' w [])" for i eid t w
    by (simp add: event_wf_def make_event_def Let_def)
  then have "list_all (event_wf id) [ev1, ev2]"
    by (simp add: ev1_def ev2_def sample_event_def)
  from ledger_tamper_evident [OF sample_prefix_valid(2) sample_prefix_valid(2) refl refl this this]
  have "map (\<lambda>e. dumps (JObj e)) [ev1, ev2] = map (\<lambda>e. dumps (JObj e)) [ev1, ev2] \<or> fp_collision [ev1, ev2] [ev1, ev2]" .
  then show ?thesis using sample_simps(6) by blast
qed

end
