(* ===== verification/Ledger_Store.thy ===== *)
theory Ledger_Store
  imports Ledger_Append Json_Parse Effects
begin

section \<open>The ledger on disk\<close>

text \<open>
  \<^verbatim>\<open>EvidenceLedger\<close> with its files: the event log, the durable head anchor beside it, and
  the cache one process keeps of what it validated last. A call runs under the exclusive file
  lock, so the calls of all processes form one sequence; \<open>append_crash\<close> is the state in
  which a process that died within an append left the files.
  \<^item> \<open>fs_log\<close> is the content of the log, decoded from UTF-8, \<open>None\<close> when there is no file;
    \<open>fs_stamp\<close> stands for the inode, size and modification time of \<^verbatim>\<open>_signature\<close>: it
    changes whenever the log is written.
  \<^item> \<open>fs_head\<close> is the anchor file, parsed: what \<^verbatim>\<open>json.loads\<close> returns for it, \<open>None\<close>
    for an absent file and \<open>Some None\<close> for text that is no JSON.
  \<^item> \<open>fr\<close> is \<^verbatim>\<open>repr(float(...))\<close> as in \<open>json_loads\<close>, \<open>rt\<close> is \<^verbatim>\<open>redact_text\<close>.
  Symbolic links and file types (\<^verbatim>\<open>_validate_storage_path\<close>, \<^verbatim>\<open>_open_regular\<close>) are not
  modelled: the paths are regular files.
\<close>

record files =
  fs_log :: "string option"
  fs_stamp :: nat
  fs_head :: "json option option"
  fs_cache_stamp :: "nat option"
  fs_cache_events :: "obj list option"
  fs_cache_integrity :: "integrity option"

definition newline :: char where
  "newline = CHR 0x0A"

definition canonical_bytes :: "obj \<Rightarrow> string" where
  "canonical_bytes e = dumps (JObj e)"

text \<open>\<^verbatim>\<open>bytes.splitlines()\<close>: lines end at a line feed, a carriage return, or both.\<close>

fun splitlines :: "string \<Rightarrow> string list" where
  "splitlines [] = []"
| "splitlines (c # s) =
     (if c = CHR 0x0A then [] # splitlines s
      else if c = CHR 0x0D then
        (case s of [] \<Rightarrow> [[]] | d # t \<Rightarrow> if d = CHR 0x0A then [] # splitlines t else [] # splitlines s)
      else (case splitlines s of [] \<Rightarrow> [[c]] | l # ls \<Rightarrow> (c # l) # ls))"

definition decode_line :: "(string \<Rightarrow> string) \<Rightarrow> string \<Rightarrow> obj res" where
  "decode_line fr raw =
     (if raw = [] then raise CorruptEvidenceError ''evidence ledger has an empty record''
      else case json_loads fr raw of
        None \<Rightarrow> raise CorruptEvidenceError ''malformed evidence ledger record''
      | Some (JObj e) \<Rightarrow>
          if canonical_bytes e \<noteq> raw
          then raise CorruptEvidenceError ''evidence ledger record is not canonically serialized''
          else Inr e
      | Some _ \<Rightarrow> raise CorruptEvidenceError ''evidence ledger record is not an object'')"

definition decode :: "(string \<Rightarrow> string) \<Rightarrow> string \<Rightarrow> obj list res" where
  "decode fr content =
     (if content = [] then Inr []
      else if last content \<noteq> newline
        then raise CorruptEvidenceError ''evidence ledger is truncated: final record lacks newline''
      else rmap (decode_line fr) (splitlines content))"

subsection \<open>The head anchor\<close>

definition head_record :: "obj \<Rightarrow> json" where
  "head_record e = JObj [(''schema_version'', JInt 1), (''sequence'', oget e ''sequence''),
     (''fingerprint'', oget e ''fingerprint'')]"

definition read_head :: "files \<Rightarrow> (int \<times> string) option res" where
  "read_head f =
     (case fs_head f of
        None \<Rightarrow> Inr None
      | Some None \<Rightarrow> raise CorruptEvidenceError ''ledger durable head anchor is malformed''
      | Some (Some (JObj d)) \<Rightarrow>
          (if set (map fst d) = {''schema_version'', ''sequence'', ''fingerprint''}
              \<and> py_eq (oget d ''schema_version'') (JInt 1)
           then (case (oget d ''sequence'', oget d ''fingerprint'') of
                   (JInt n, JStr fp) \<Rightarrow> Inr (Some (n, fp))
                 | _ \<Rightarrow> raise CorruptEvidenceError ''ledger durable head anchor violates its contract'')
           else raise CorruptEvidenceError ''ledger durable head anchor violates its contract'')
      | Some (Some _) \<Rightarrow> raise CorruptEvidenceError ''ledger durable head anchor violates its contract'')"

text \<open>\<^verbatim>\<open>atomic_write_json\<close> of the anchor: redacted, then replaced as a whole.\<close>

definition write_head :: "(string \<Rightarrow> string) \<Rightarrow> obj \<Rightarrow> files \<Rightarrow> files" where
  "write_head rt e f = f\<lparr>fs_head := Some (Some (redact_value rt (head_record e)))\<rparr>"

definition verify_head :: "(string \<Rightarrow> string) \<Rightarrow> obj list \<Rightarrow> bool \<Rightarrow> (files, unit) eff" where
  "verify_head rt events repair =
     sbind sget (\<lambda>f.
     sbind (slift (read_head f)) (\<lambda>head.
     if events = [] then
       scheck (head = None) CorruptEvidenceError ''ledger is shorter than its durable head anchor''
     else (case head of
         None \<Rightarrow> sthrow CorruptEvidenceError ''non-empty ledger lacks its durable head anchor''
       | Some (n, fp) \<Rightarrow>
           (let tail = last events in
            if n = eint tail ''sequence'' \<and> fp = estr tail ''fingerprint'' then sret ()
            else if repair \<and> eint tail ''sequence'' = n + 1 \<and> estr tail ''previous_fingerprint'' = fp
              then smodify (write_head rt tail)
            else sthrow CorruptEvidenceError ''ledger tail contradicts its durable head anchor''))))"

subsection \<open>Reading\<close>

definition log_text :: "files \<Rightarrow> string" where
  "log_text f = (case fs_log f of None \<Rightarrow> [] | Some s \<Rightarrow> s)"

definition signature :: "files \<Rightarrow> nat option" where
  "signature f = map_option (\<lambda>_. fs_stamp f) (fs_log f)"

text \<open>\<^verbatim>\<open>read\<close> and \<^verbatim>\<open>verify\<close>: the same steps, a different result.\<close>

definition read_verified :: "(string \<Rightarrow> string) \<Rightarrow> (string \<Rightarrow> string) \<Rightarrow> ledger \<Rightarrow> (files, obj list \<times> integrity) eff" where
  "read_verified fr rt L =
     sbind sget (\<lambda>f.
     sbind (slift (decode fr (log_text f))) (\<lambda>events.
     sbind (slift (validate L events)) (\<lambda>i.
     sbind (verify_head rt events True) (\<lambda>_.
     sret (events, i)))))"

definition ledger_read :: "(string \<Rightarrow> string) \<Rightarrow> (string \<Rightarrow> string) \<Rightarrow> ledger \<Rightarrow> (files, obj list) eff" where
  "ledger_read fr rt L = sbind (read_verified fr rt L) (\<lambda>(events, i). sret events)"

definition ledger_verify :: "(string \<Rightarrow> string) \<Rightarrow> (string \<Rightarrow> string) \<Rightarrow> ledger \<Rightarrow> (files, integrity) eff" where
  "ledger_verify fr rt L = sbind (read_verified fr rt L) (\<lambda>(events, i). sret i)"

definition read_for_append :: "(string \<Rightarrow> string) \<Rightarrow> (string \<Rightarrow> string) \<Rightarrow> ledger \<Rightarrow> (files, obj list) eff" where
  "read_for_append fr rt L =
     sbind sget (\<lambda>f.
     if signature f = fs_cache_stamp f \<and> fs_cache_events f \<noteq> None
     then sret (the (fs_cache_events f))
     else
       sbind (slift (decode fr (log_text f))) (\<lambda>events.
       sbind (slift (validate L events)) (\<lambda>i.
       sbind (verify_head rt events True) (\<lambda>_.
       sbind (smodify (\<lambda>g. g\<lparr>fs_cache_stamp := signature f, fs_cache_events := Some events,
                fs_cache_integrity := Some i\<rparr>)) (\<lambda>_.
       sret events)))))"

subsection \<open>Appending\<close>

record append_args =
  ap_event_type :: string
  ap_transaction_id :: string
  ap_workflow_type :: json
  ap_payload :: "obj option"
  ap_event_id :: "string option"
  ap_timestamp :: "string option"

text \<open>The two writes. \<open>fresh\<close> is the stamp the write of the log leaves.\<close>

definition write_log :: "obj \<Rightarrow> nat \<Rightarrow> files \<Rightarrow> files" where
  "write_log e fresh f = f\<lparr>fs_log := Some (log_text f @ canonical_bytes e @ [newline]), fs_stamp := fresh\<rparr>"

definition cache_event :: "obj list \<Rightarrow> obj \<Rightarrow> integrity \<Rightarrow> bool \<Rightarrow> files \<Rightarrow> files" where
  "cache_event existing e i started f =
     f\<lparr>fs_cache_stamp := signature f, fs_cache_events := Some (existing @ [e]),
       fs_cache_integrity := Some
         \<lparr>li_valid = True, li_sequence = eint e ''sequence'', li_fingerprint = estr e ''fingerprint'',
          li_event_count = int (length existing) + 1,
          li_transactions = li_transactions i + (if started then 1 else 0), li_errors = []\<rparr>\<rparr>"

text \<open>The event that a call appends to the ledger \<open>existing\<close> whose integrity is \<open>i\<close>; \<open>uid\<close> and
  \<open>now\<close> are \<^verbatim>\<open>uuid.uuid4()\<close> and \<^verbatim>\<open>utc_now()\<close>.\<close>

definition new_event ::
  "(string \<Rightarrow> string) \<Rightarrow> ledger \<Rightarrow> append_args \<Rightarrow> string \<Rightarrow> string \<Rightarrow> workflow_type \<Rightarrow> integrity \<Rightarrow> obj res" where
  "new_event rt L a uid now w i =
     (case redact_value rt (JObj (case ap_payload a of None \<Rightarrow> [] | Some p \<Rightarrow> p)) of
        JObj pay \<Rightarrow> Inr (make_event L i
          (case ap_event_id a of None \<Rightarrow> uid | Some s \<Rightarrow> if s = [] then uid else s) (ap_event_type a)
          (case ap_timestamp a of None \<Rightarrow> now | Some s \<Rightarrow> if s = [] then now else s)
          (ap_transaction_id a) w pay)
      | _ \<Rightarrow> raise EvidenceError ''ledger event payload must be an object'')"

definition ledger_append ::
  "(string \<Rightarrow> string) \<Rightarrow> (string \<Rightarrow> string) \<Rightarrow> ledger \<Rightarrow> string \<Rightarrow> string \<Rightarrow> nat \<Rightarrow> append_args \<Rightarrow> (files, obj) eff" where
  "ledger_append fr rt L uid now fresh a =
     sbind (scheck (ap_event_type a \<in> set EVENT_TYPES) EvidenceError ''unsupported evidence event type'') (\<lambda>_.
     sbind (slift (parse_workflow (ap_workflow_type a))) (\<lambda>w.
     sbind sget (\<lambda>f.
     sbind (read_for_append fr rt L) (\<lambda>existing.
     sbind (slift (if signature f = fs_cache_stamp f \<and> fs_cache_events f \<noteq> None
                   then (case fs_cache_integrity f of Some i \<Rightarrow> Inr i | None \<Rightarrow> validate L existing)
                   else validate L existing)) (\<lambda>i.
     sbind (slift (new_event rt L a uid now w i)) (\<lambda>e.
     sbind (slift (validate_append existing e)) (\<lambda>_.
     sbind (smodify (write_log e fresh)) (\<lambda>_.
     sbind (smodify (write_head rt e)) (\<lambda>_.
     sbind (smodify (cache_event existing e i (ap_event_type a = ''TransactionStarted''))) (\<lambda>_.
     sret e))))))))))"

text \<open>The call of a process that dies after the event is in the log and before the anchor is.\<close>

definition append_crash :: "obj \<Rightarrow> nat \<Rightarrow> files \<Rightarrow> files" where
  "append_crash e fresh f =
     (write_log e fresh f)\<lparr>fs_cache_stamp := None, fs_cache_events := None, fs_cache_integrity := None\<rparr>"

subsection \<open>Queries\<close>

definition terminal_event :: "string \<Rightarrow> obj list \<Rightarrow> obj option res" where
  "terminal_event tx events =
     (case filter (\<lambda>e. etx e = tx \<and> etype e \<in> set TERMINAL_EVENT_TYPES) events of
        [] \<Rightarrow> Inr None | [e] \<Rightarrow> Inr (Some e)
      | _ \<Rightarrow> raise CorruptEvidenceError ''transaction has multiple terminal events'')"

definition event_by_source_fingerprint :: "json \<Rightarrow> obj list \<Rightarrow> obj option res" where
  "event_by_source_fingerprint fp events =
     (case filter (\<lambda>e. etype e = ''LegacyEvidenceImported''
          \<and> py_eq (oget (payload e) ''source_fingerprint'') fp) events of
        [] \<Rightarrow> Inr None | [e] \<Rightarrow> Inr (Some e)
      | _ \<Rightarrow> raise CorruptEvidenceError ''legacy evidence source was imported more than once'')"

end
