(* ===== verification/Ledger_Durable.thy ===== *)
theory Ledger_Durable
  imports Ledger_Store Ledger_Theorems
begin

section \<open>Durability of the ledger\<close>

text \<open>
  What is written is what is read: the lines of the log decode to the events appended
  (\<open>decode_log\<close>), a completed append is followed by reads that return the longer ledger, an
  append cut short after the log was written is completed by the next reader, and a log that is
  not the anchored one or its one-event continuation is refused.
\<close>

subsection \<open>Canonical dictionaries\<close>

definition canon_obj :: "obj \<Rightarrow> obj" where
  "canon_obj e = sort_key fst (map (\<lambda>kv. (fst kv, canon (snd kv))) e)"

lemma canon_JObj_obj: "canon (JObj e) = JObj (canon_obj e)"
  by (simp add: canon_obj_def canon.simps(2))

lemma map_of_canon_obj: "distinct (map fst e) \<Longrightarrow> map_of (canon_obj e) k = map_option canon (map_of e k)"
  unfolding canon_obj_def by (rule map_of_canon)

lemma canon_JNull [simp]: "canon JNull = JNull" by simp

lemma oget_canon_obj: "distinct (map fst e) \<Longrightarrow> oget (canon_obj e) k = canon (oget e k)"
  by (simp add: oget_def map_of_canon_obj split: option.split)

lemma set_keys_canon_obj [simp]: "fst ` set (canon_obj e) = fst ` set e"
  by (simp add: canon_obj_def image_image)

lemma ohas_canon_obj [simp]: "ohas (canon_obj e) = ohas e"
  by (simp add: ohas_def fun_eq_iff)

lemma distinct_canon_obj: "distinct (map fst e) \<Longrightarrow> distinct (map fst (canon_obj e))"
proof -
  assume "distinct (map fst e)"
  then have "distinct (map fst (map (\<lambda>kv. (fst kv, canon (snd kv))) e))" by (simp add: comp_def)
  then have "distinct (map (\<lambda>kv. (fst kv, canon (snd kv))) e)"
    "inj_on fst (set (map (\<lambda>kv. (fst kv, canon (snd kv))) e))"
    unfolding distinct_map [of fst] by blast+
  then show ?thesis unfolding canon_obj_def distinct_map [of fst] set_sort distinct_sort by (intro conjI)
qed

lemma canon_JObj_iff: "(\<exists>d. canon v = JObj d) \<longleftrightarrow> (\<exists>d. v = JObj d)"
  by (cases v) (simp_all add: canon_JObj)

lemma sort_key_Nil_iff [simp]: "sort_key f xs = [] \<longleftrightarrow> xs = []"
  by (metis set_empty set_sort)

lemma canon_tests [simp]:
  "is_int (canon v) = is_int v" "is_exact_int (canon v) = is_exact_int v" "is_str (canon v) = is_str v" "is_dict (canon v) = is_dict v"
  "is_list (canon v) = is_list v" "is_bool (canon v) = is_bool v" "nonempty_str (canon v) = nonempty_str v"
  "nonblank_str (canon v) = nonblank_str v" "canon v = JNull \<longleftrightarrow> v = JNull"
  by (cases v; simp add: canon_JObj nonempty_str_def nonblank_str_def)+

lemma truthy_canon [simp]: "truthy (canon v) = truthy v"
  by (cases v) (simp_all add: canon_JObj)

lemma canon_idem [simp]: "canon (canon v) = canon v"
proof (induction v)
  case (JObj kvs)
  let ?c = "map (\<lambda>kv. (fst kv, canon (snd kv)))"
  have "sort_key fst (?c (sort_key fst kvs)) = ?c (sort_key fst kvs)"
    by (rule sort_key_id_if_sorted) (simp add: comp_def)
  then show ?case using JObj by (auto simp: canon_JObj)
qed simp_all

lemma canon_JInt [simp]: "canon v = JInt i \<longleftrightarrow> v = JInt i"
  by (cases v) (simp_all add: canon_JObj)

lemma estr_canon_obj: "distinct (map fst e) \<Longrightarrow> estr (canon_obj e) k = estr e k"
  by (cases "oget e k") (simp_all add: estr_def oget_canon_obj canon_JObj)

lemma eint_canon_obj: "distinct (map fst e) \<Longrightarrow> eint (canon_obj e) k = eint e k"
  by (cases "oget e k") (simp_all add: eint_def oget_canon_obj canon_JObj)

lemma payload_canon_obj: "distinct (map fst e) \<Longrightarrow> payload (canon_obj e) = canon_obj (payload e)"
  by (cases "oget e ''payload''") (simp_all add: payload_def oget_canon_obj canon_JObj_obj, simp_all add: canon_obj_def)

lemma adel_canon_obj: "distinct (map fst e) \<Longrightarrow> canon_obj (adel k (canon_obj e)) = canon_obj (adel k e)"
proof -
  assume d: "distinct (map fst e)"
  have "canon (JObj (adel k (canon_obj e))) = canon (JObj (adel k e))"
  proof (rule canon_JObj_eqI)
    show "distinct (map fst (adel k (canon_obj e)))" "distinct (map fst (adel k e))"
      using d by (simp_all add: distinct_adel distinct_canon_obj)
    show "map_option canon (map_of (adel k (canon_obj e)) j) = map_option canon (map_of (adel k e) j)" for j
      using d by (simp add: map_of_adel map_of_canon_obj option.map_comp comp_def)
  qed
  then show ?thesis by (simp add: canon_JObj_obj)
qed

lemma canon_wf: "json_wf v \<Longrightarrow> json_wf (canon v)"
proof (induction v)
  case (JObj kvs)
  then have "distinct (map fst (canon_obj kvs))" by (intro distinct_canon_obj) simp
  with JObj show ?case unfolding canon_JObj_obj
    by (auto simp: list_all_iff canon_obj_def)
qed (auto simp: list_all_iff)

lemma canon_floats: "floats_ok fr v \<Longrightarrow> floats_ok fr (canon v)"
proof (induction v)
  case (JObj kvs)
  then show ?case unfolding canon_JObj_obj by (auto simp: list_all_iff canon_obj_def)
qed (auto simp: list_all_iff)

lemma event_wf_canon: "event_wf fr e \<Longrightarrow> event_wf fr (canon_obj e)"
  unfolding event_wf_def canon_JObj_obj [symmetric] by (blast intro: canon_wf canon_floats)

subsection \<open>Validation of the decoded event\<close>

lemma unsigned_canon: "distinct (map fst e) \<Longrightarrow>
    event_fingerprint (unsigned_event (canon_obj e)) = event_fingerprint (unsigned_event e)"
proof -
  assume "distinct (map fst e)"
  then have "canon (JObj (unsigned_event (canon_obj e))) = canon (JObj (unsigned_event e))"
    by (simp add: unsigned_event_def canon_JObj_obj adel_canon_obj)
  then show ?thesis unfolding event_fingerprint_def fingerprint_def by (metis dumps_canon)
qed

lemma payload_contract_canon:
  assumes "distinct (map fst e)" "distinct (map fst (payload e))"
  shows "payload_contract_ok (canon_obj e) = payload_contract_ok e"
proof -
  have "test (canon v) = test v" if "(k, test) \<in> set (PAYLOAD_CONTRACTS t)" for k test t v
    using that by (auto simp: PAYLOAD_CONTRACTS_def split: if_splits)
  then show ?thesis
    unfolding payload_contract_ok_def estr_canon_obj [OF assms(1)] payload_canon_obj [OF assms(1)]
    by (intro list.pred_cong) (auto simp: oget_canon_obj assms(2))
qed

lemma event_shape_canon:
  assumes "distinct (map fst e)" "distinct (map fst (payload e))"
  shows "event_shape n (canon_obj e) = Inr () \<longleftrightarrow> event_shape n e = Inr ()"
proof -
  have "list_all (\<lambda>kv. fst kv \<in> set event_required) d \<longleftrightarrow> fst ` set d \<subseteq> set event_required" for d :: obj
    by (auto simp: list_all_iff)
  then show ?thesis
    unfolding event_shape_Inr payload_contract_canon [OF assms]
    by (simp add: assms estr_canon_obj eint_canon_obj oget_canon_obj)
qed

lemma event_identity_canon:
  assumes "distinct (map fst e)"
  shows "event_identity L (canon_obj e) = Inr () \<longleftrightarrow> event_identity L e = Inr ()"
  unfolding event_identity_def rbind_eq_Inr check_eq_Inr rewrap_eq_Inr parse_workflow_Inr
  using assms by (simp add: estr_canon_obj oget_canon_obj)

lemma gate_ok_canon: "distinct (map fst g) \<Longrightarrow> gate_ok (canon_obj g) = gate_ok g"
  by (simp add: gate_ok_def oget_canon_obj)

text \<open>The events whose reading does not depend on the order of keys: the identity of a resolved
  gate, which the code turns into text, is text.\<close>

definition ordered_free :: "obj \<Rightarrow> bool" where
  "ordered_free e \<longleftrightarrow> (etype e = ''HumanGateResolved'' \<longrightarrow> is_str (oget (payload e) ''gate_id''))"

lemma event_ok_canon:
  assumes wf: "json_wf (JObj e)" and "ordered_free e"
  shows "event_ok L es (canon_obj e) \<longleftrightarrow> event_ok L es e"
proof -
  have d: "distinct (map fst e)" using wf by simp
  have "json_wf (oget e ''payload'')"
    using wf by (auto simp: oget_def list_all_iff split: option.split dest: map_of_SomeD)
  then have dp: "distinct (map fst (payload e))" and wfp: "json_wf (JObj (payload e))"
    by (cases "oget e ''payload''"; simp add: payload_def)+
  have pg: "oget (payload (canon_obj e)) k = canon (oget (payload e) k)" for k
    by (simp add: payload_canon_obj d oget_canon_obj dp)
  have bind: "gate_binding_of (canon_obj e) = gate_binding_of e"
    by (cases "oget (payload e) ''resolved_gate_id''"; cases "oget (payload e) ''resolved_gate_fingerprint''")
      (simp_all add: gate_binding_of_def pg canon_JObj)
  have bok: "binding_ok (canon_obj e) = binding_ok e"
    by (simp add: binding_ok_def bind pg estr_canon_obj d)
  have raise: "raise_ok es (canon_obj e) = raise_ok es e"
  proof (cases "oget (payload e) ''gate''")
    case (JObj g)
    have "distinct (map fst g)"
      using wfp JObj by (auto simp: oget_def list_all_iff split: option.splits dest!: map_of_SomeD)
    moreover have "dumps (JObj (canon_obj g)) = dumps (JObj g)"
      using dumps_canon [of "JObj g"] by (simp only: canon_JObj_obj)
    ultimately show ?thesis
      by (simp add: raise_ok_def pg JObj canon_JObj_obj gate_ok_canon oget_canon_obj fingerprint_def)
  qed (simp_all add: raise_ok_def pg)
  have res: "resolve_ok es (canon_obj e) = resolve_ok es e" if "etype e = ''HumanGateResolved''"
  proof -
    from assms(2) that obtain g where "oget (payload e) ''gate_id'' = JStr g"
      by (auto simp: ordered_free_def is_str_iff)
    then show ?thesis by (simp add: resolve_ok_def resolved_gate_def pg estr_canon_obj d split: option.split)
  qed
  show ?thesis
    unfolding event_ok_def event_shape_canon [OF d dp] event_identity_canon [OF d] estr_canon_obj [OF d]
      bok raise unsigned_canon [OF d] legacy_import_def post_terminal_checkpoint_def pg
    using res by (simp cong: conj_cong)
qed

subsection \<open>Lines\<close>

definition line_char :: "char \<Rightarrow> bool" where
  "line_char c \<longleftrightarrow> c \<noteq> CHR 0x0A \<and> c \<noteq> CHR 0x0D"

lemma splitlines_line:
  "list_all line_char l \<Longrightarrow> splitlines (l @ CHR 0x0A # s) = l # splitlines s"
proof (induction l)
  case (Cons c l)
  then have "c \<noteq> CHR 0x0A" "c \<noteq> CHR 0x0D" by (simp_all add: line_char_def)
  with Cons show ?case 
    by (simp only: append_Cons splitlines.simps(2) if_False list.pred_inject simp_thms list.case)
qed simp

lemma line_char_digit: "is_digit c \<Longrightarrow> line_char c"
  by (auto simp: is_digit_def line_char_def)

lemma line_char_digits: "list_all is_digit s \<Longrightarrow> list_all line_char s"
  by (erule list.pred_mono_strong) (rule line_char_digit)

lemma line_char_punct [simp]:
  "line_char (CHR ''['')" "line_char (CHR '']'')" "line_char (CHR ''{'')" "line_char (CHR ''}'')"
  "line_char (CHR '','')" "line_char (CHR '':'')" "line_char (CHR ''-'')"
  by (simp_all add: line_char_def)

lemma line_char_esc: "list_all line_char (esc_char c)"
proof -
  have hex: "line_char (hex_digit k)" if "k < 16" for k
  proof -
    have "hex_digit k \<in> set fingerprint_hex_chars" using hex_digit_in [OF that] .
    then show ?thesis by (auto simp: fingerprint_hex_chars_def line_char_def)
  qed
  have "line_char c" if "(of_char c :: nat) \<noteq> 10" "(of_char c :: nat) \<noteq> 13"
    using that by (auto simp: line_char_def)
  moreover have "(of_char c :: nat) div 16 < 16" using of_char_less_256 [of c] by linarith
  ultimately show ?thesis
    using hex [of "of_char c div 16"] hex [of "of_char c mod 16"]
    by (auto simp: esc_char_def Let_def) (simp_all add: line_char_def)
qed

lemma line_char_dumps_str: "list_all line_char (dumps_str s)"
proof -
  have "list_all line_char (concat (map esc_char s))"
    using line_char_esc by (auto simp: list_all_iff)
  then show ?thesis by (simp add: dumps_str_def line_char_def)
qed

lemma list_all_join: "list_all P sep \<Longrightarrow> \<forall>x \<in> set xs. list_all P x \<Longrightarrow> list_all P (join sep xs)"
  by (induction sep xs rule: join.induct) auto

lemma scan_digits_chars: "scan_digits s = Some (d, q) \<Longrightarrow> s = d @ q \<and> list_all is_digit d"
  by (auto simp: scan_digits_def Let_def list_all_iff split: if_splits dest: set_takeWhileD)

lemma scan_number_chars: "scan_number s = Some (l, b, q) \<Longrightarrow> list_all (\<lambda>c. is_digit c \<or> c \<in> set ''+-.eE'') l"
proof -
  let ?P = "\<lambda>c. is_digit c \<or> c \<in> set ''+-.eE''"
  have dig: "list_all is_digit d \<Longrightarrow> list_all ?P d" for d by (auto simp: list_all_iff)
  have int: "scan_int t = Some (d, q) \<Longrightarrow> list_all ?P d" for t d q
    by (auto simp: scan_int_def is_digit_def split: list.splits if_splits dest!: scan_digits_chars dig)
  have frac: "list_all ?P (fst (scan_fraction t))" for t
    by (auto simp: scan_fraction_def split: list.split option.split dest!: scan_digits_chars dig)
  have exp: "list_all ?P (fst (scan_exponent t))" for t
    by (auto simp: scan_exponent_def split: list.split option.split dest!: scan_digits_chars dig)
  have uns: "scan_unsigned t = Some (l, b, q) \<Longrightarrow> list_all ?P l" for t l b q
  proof -
    assume "scan_unsigned t = Some (l, b, q)"
    then obtain ds r where "scan_int t = Some (ds, r)"
      "l = ds @ fst (scan_fraction r) @ fst (scan_exponent (snd (scan_fraction r)))"
      by (auto simp: scan_unsigned_def split: option.splits prod.splits)
    with int [of t ds r] frac exp show ?thesis by simp
  qed
  show "scan_number s = Some (l, b, q) \<Longrightarrow> list_all ?P l"
    by (auto simp: scan_number_def split: list.splits if_splits dest: uns)
qed

lemma line_char_dumps: "floats_ok fr v \<Longrightarrow> list_all line_char (dumps v)"
proof (induction v)
  case (JInt i)
  have "list_all line_char (show_nat n)" for n using show_nat_digits by (rule line_char_digits)
  then show ?case by (cases "i < 0") (simp_all add: show_int_def)
next
  case (JFloat r)
  have "line_char c" if "is_digit c \<or> c \<in> set ''+-.eE''" for c
    using that line_char_digit by (auto simp: line_char_def)
  then have "list_all line_char r" if "scan_number r = Some (r, b, q)" for b q
    using scan_number_chars [OF that] by (rule list.pred_mono_strong [rotated])
  moreover have "list_all line_char ''NaN''" "list_all line_char ''Infinity''" "list_all line_char ''-Infinity''"
    by (simp_all add: line_char_def)
  ultimately show ?case using JFloat by (auto simp: float_ok_def dumps_float_def)
next
  case (JArr vs)
  then have "list_all line_char (join '','' (map dumps vs))"
    by (intro list_all_join) (auto simp: list_all_iff)
  then show ?case by simp
next
  case (JObj kvs)
  have "list_all line_char (dumps_member kv)" if "kv \<in> set kvs" for kv
    using JObj.IH [of kv "snd kv"] JObj.prems that line_char_dumps_str
    by (cases kv) (auto simp: dumps_member_def list_all_iff)
  then have "list_all line_char (join '','' (map dumps_member (sort_key fst kvs)))"
    by (intro list_all_join) auto
  then show ?case by (simp add: dumps_JObj)
qed (simp_all add: line_char_def line_char_dumps_str)

definition log_line :: "obj \<Rightarrow> string" where
  "log_line e = canonical_bytes e @ [newline]"

lemma canon_obj_wf: "event_wf fr e \<Longrightarrow> decode_line fr (canonical_bytes e) = Inr (canon_obj e)"
proof -
  assume wf: "event_wf fr e"
  have "canonical_bytes (canon_obj e) = canonical_bytes e"
    using dumps_canon [of "JObj e"] by (simp only: canonical_bytes_def canon_JObj_obj)
  moreover have "json_loads fr (canonical_bytes e) = Some (JObj (canon_obj e))"
    using loads_dumps [of "JObj e" fr] wf
    by (simp only: event_wf_def canonical_bytes_def canon_JObj_obj)
  moreover have "canonical_bytes e \<noteq> []" by (simp add: canonical_bytes_def dumps_JObj)
  ultimately show ?thesis by (simp add: decode_line_def)
qed

lemma splitlines_log:
  "list_all (event_wf fr) es \<Longrightarrow> splitlines (concat (map log_line es)) = map canonical_bytes es"
proof (induction es)
  case (Cons e es)
  then have "list_all line_char (canonical_bytes e)"
    by (auto simp: canonical_bytes_def event_wf_def intro: line_char_dumps)
  then show ?case using Cons by (simp add: log_line_def newline_def splitlines_line)
qed simp

lemma log_last: "es \<noteq> [] \<Longrightarrow> concat (map log_line es) \<noteq> [] \<and> last (concat (map log_line es)) = newline"
  by (cases es rule: rev_cases) (auto simp: log_line_def)

lemma decode_log:
  assumes "list_all (event_wf fr) es"
  shows "decode fr (concat (map log_line es)) = Inr (map canon_obj es)"
proof (cases "es = []")
  case False
  have "rmap (decode_line fr) (map canonical_bytes es) = Inr (map canon_obj es)"
    using assms by (induction es) (simp_all add: canon_obj_wf)
  moreover define c where "c = concat (map log_line es)"
  ultimately show ?thesis
    using log_last [OF False] splitlines_log [OF assms] unfolding c_def [symmetric] by (simp add: decode_def)
qed (simp add: decode_def)

subsection \<open>Reading and appending\<close>

text \<open>
  The files hold the ledger \<open>es\<close>: the log decodes to \<open>es\<close>, they are valid, the anchor names the
  last of them, and what this process has cached, if the log is still the one it wrote or read, is
  \<open>es\<close> up to the order of keys.
\<close>

definition anchor_of :: "obj list \<Rightarrow> (int \<times> string) option" where
  "anchor_of es =
     (if es = [] then None else Some (eint (last es) ''sequence'', estr (last es) ''fingerprint''))"

definition same_view :: "obj \<Rightarrow> obj \<Rightarrow> bool" where
  "same_view a b \<longleftrightarrow> (\<forall>k. estr a k = estr b k)"

definition cache_ok :: "files \<Rightarrow> obj list \<Rightarrow> bool" where
  "cache_ok f es \<longleftrightarrow>
     (signature f = fs_cache_stamp f \<and> fs_cache_events f \<noteq> None \<longrightarrow>
        (\<exists>ces. fs_cache_events f = Some ces \<and> list_all2 same_view ces es)
        \<and> fs_cache_integrity f = Some (integrity_of es))"

definition holds :: "(string \<Rightarrow> string) \<Rightarrow> ledger \<Rightarrow> files \<Rightarrow> obj list \<Rightarrow> bool" where
  "holds fr L f es \<longleftrightarrow>
     decode fr (log_text f) = Inr es \<and> validate L es = Inr (integrity_of es)
     \<and> read_head f = Inr (anchor_of es) \<and> cache_ok f es"

lemma verify_head_anchored:
  "read_head f = Inr (anchor_of es) \<Longrightarrow> verify_head rt es r f = (Inr (), f)"
  by (simp add: verify_head_def sbind_def eff_simps anchor_of_def Let_def)

lemma read_holds:
  "holds fr L f es \<Longrightarrow> read_verified fr rt L f = (Inr (es, integrity_of es), f)"
  by (simp add: read_verified_def holds_def sbind_def eff_simps verify_head_anchored)

text \<open>The texts a digest and the anchor consist of pass the redaction unchanged.\<close>

definition redacts_digests :: "(string \<Rightarrow> string) \<Rightarrow> bool" where
  "redacts_digests rt \<longleftrightarrow> (\<forall>s. hex64 s \<longrightarrow> rt s = s)"

lemma not_sensitive_head:
  "\<not> sensitive_key ''schema_version''" "\<not> sensitive_key ''sequence''" "\<not> sensitive_key ''fingerprint''"
  by code_simp+

lemma read_head_write:
  assumes "redacts_digests rt" "hex64 (estr e ''fingerprint'')"
    and "oget e ''sequence'' = JInt n" "oget e ''fingerprint'' = JStr fp"
  shows "read_head (write_head rt e f) = Inr (Some (n, fp))"
  using assms by (auto simp: read_head_def write_head_def head_record_def not_sensitive_head
      redacts_digests_def estr_def)

lemma event_shape_fields:
  assumes "event_shape n e = Inr ()"
  shows "oget e ''sequence'' = JInt n" "oget e ''fingerprint'' = JStr (estr e ''fingerprint'')"
    "hex64 (estr e ''fingerprint'')" "eint e ''sequence'' = n"
proof -
  have "is_exact_int (oget e ''sequence'')" "eint e ''sequence'' = n" "hex64 (estr e ''fingerprint'')"
    "nonempty_str (oget e ''fingerprint'')"
    using assms by (simp_all add: event_shape_Inr typed_strings_def)
  then show "oget e ''sequence'' = JInt n" "oget e ''fingerprint'' = JStr (estr e ''fingerprint'')"
    "hex64 (estr e ''fingerprint'')" "eint e ''sequence'' = n"
    by (auto simp: is_exact_int_iff eint_def estr_def nonempty_str_iff)
qed

text \<open>
  The next reader finds a log that is one event ahead of the anchor and completes the append.
\<close>

lemma read_ahead:
  assumes "decode fr (log_text f) = Inr (es @ [e])" "validate L (es @ [e]) = Inr (integrity_of (es @ [e]))"
    and "read_head f = Inr (anchor_of es)" "es \<noteq> []"
  shows "read_verified fr rt L f = (Inr (es @ [e], integrity_of (es @ [e])), write_head rt e f)"
proof -
  have ok: "ledger_ok L es" "event_ok L es e" using assms(2) by (simp_all add: validate_Inr)
  obtain ds d where es: "es = ds @ [d]" using assms(4) by (cases es rule: rev_cases) auto
  have "event_shape (int (length ds) + 1) d = Inr ()" "event_shape (int (length es) + 1) e = Inr ()"
    using ok by (auto simp: es event_ok_def)
  then have "eint d ''sequence'' = int (length ds) + 1" "eint e ''sequence'' = int (length es) + 1"
    by (simp_all add: event_shape_Inr)
  then have "eint e ''sequence'' = eint d ''sequence'' + 1" by (simp add: es)
  moreover have "estr e ''previous_fingerprint'' = estr d ''fingerprint''"
    using ok(2) by (simp add: event_ok_def es)
  ultimately show ?thesis
    using assms(1-3) by (simp add: read_verified_def sbind_def eff_simps verify_head_def anchor_of_def es Let_def)
qed

lemma splitlines_Cons: "splitlines (c # s) \<noteq> []"
proof (cases "c = CHR 0x0D")
  case True
  then show ?thesis by (cases s) simp_all
next
  case False
  then show ?thesis by (cases "splitlines s") simp_all
qed

lemma splitlines_append:
  "t = [] \<or> last t = CHR 0x0A \<Longrightarrow> splitlines (t @ s) = splitlines t @ splitlines s"
proof (induction t rule: splitlines.induct)
  case (2 c t)
  show ?case
  proof (cases t)
    case Nil
    with "2.prems" show ?thesis by simp
  next
    case (Cons d u)
    then have t: "t = [] \<or> last t = CHR 0x0A" "u = [] \<or> last u = CHR 0x0A"
      using "2.prems" by (auto split: if_splits)
    consider (lf) "c = CHR 0x0A" | (crlf) "c = CHR 0x0D" "d = CHR 0x0A" | (cr) "c = CHR 0x0D" "d \<noteq> CHR 0x0A"
      | (other) "c \<noteq> CHR 0x0A" "c \<noteq> CHR 0x0D" by blast
    then show ?thesis
    proof cases
      case lf
      then show ?thesis using "2.IH"(1) t by simp
    next
      case crlf
      then show ?thesis using "2.IH"(2) [of d u] t Cons by simp
    next
      case cr
      then show ?thesis using "2.IH"(3) [of d u] t Cons by simp
    next
      case other
      have "splitlines t \<noteq> []" unfolding Cons by (rule splitlines_Cons)
      then show ?thesis using "2.IH"(4) t other by (cases "splitlines t") simp_all
    qed
  qed
qed simp

lemma rmap_append: "rmap f (xs @ ys) = rbind (rmap f xs) (\<lambda>us. rbind (rmap f ys) (\<lambda>vs. Inr (us @ vs)))"
  by (induction xs) (cases "rmap f ys"; auto simp: rbind_def split: sum.split)+

lemma decode_append:
  assumes "decode fr t = Inr es" "event_wf fr e"
  shows "decode fr (t @ log_line e) = Inr (es @ [canon_obj e])"
proof -
  have t: "t = [] \<or> last t = CHR 0x0A" using assms(1) by (auto simp: decode_def newline_def split: if_splits)
  have "rmap (decode_line fr) (splitlines t) = Inr es"
    using assms(1) by (auto simp: decode_def split: if_splits)
  moreover have "splitlines (log_line e) = [canonical_bytes e]"
    using splitlines_log [of fr "[e]"] assms(2) by simp
  moreover have "t @ log_line e \<noteq> []" "last (t @ log_line e) = newline" by (simp_all add: log_line_def)
  ultimately show ?thesis
    using splitlines_append [OF t, of "log_line e"] canon_obj_wf [OF assms(2)]
    by (simp add: decode_def rmap_append)
qed

lemma same_view_history: "list_all2 same_view ces es \<Longrightarrow> history ces tx = history es tx"
  by (induction rule: list_all2_induct) (auto simp: history_def of_tx_def same_view_def)

lemma same_view_ids: "list_all2 same_view ces es \<Longrightarrow> map (\<lambda>x. estr x k) ces = map (\<lambda>x. estr x k) es"
  by (induction rule: list_all2_induct) (auto simp: same_view_def)

lemma validate_append_view:
  "list_all2 same_view ces es \<Longrightarrow> validate_append ces e = validate_append es e"
  unfolding validate_append_def using same_view_history [of ces es] same_view_ids [of ces es] by simp

lemma history_ok_canon:
  assumes "distinct (map fst e)" "distinct (map fst (payload e))"
  shows "history_ok (es @ [canon_obj e]) tx = history_ok (es @ [e]) tx"
proof -
  have "legacy_import (canon_obj e) = legacy_import e"
    by (simp add: legacy_import_def payload_canon_obj assms oget_canon_obj)
  then have "completed_legacy (es @ [canon_obj e]) tx = completed_legacy (es @ [e]) tx"
    by (auto simp: completed_legacy_def find_snoc estr_canon_obj assms split: option.split)
  moreover have "history (es @ [canon_obj e]) tx = history (es @ [e]) tx"
    by (simp add: history_snoc estr_canon_obj assms)
  ultimately show ?thesis by (simp add: history_ok_def check_history_Inr)
qed

lemma payload_distinct: "json_wf (JObj e) \<Longrightarrow> distinct (map fst (payload e))"
proof -
  assume "json_wf (JObj e)"
  then have "json_wf (oget e ''payload'')"
    by (auto simp: oget_def list_all_iff split: option.split dest: map_of_SomeD)
  then show ?thesis by (cases "oget e ''payload''") (simp_all add: payload_def)
qed

lemma validate_canon:
  assumes "validate L es = Inr i" "validate L (es @ [e]) = Inr (integrity_of (es @ [e]))"
    and "json_wf (JObj e)" "ordered_free e"
  shows "validate L (es @ [canon_obj e]) = Inr (integrity_of (es @ [e]))"
proof -
  have d: "distinct (map fst e)" using assms(3) by simp
  have "event_ok L es e \<and> history_ok (es @ [e]) (etx e)"
    using validate_snoc_iff [OF assms(1)] assms(2) by blast
  then have "\<exists>j. validate L (es @ [canon_obj e]) = Inr j"
    unfolding validate_snoc_iff [OF assms(1)] event_ok_canon [OF assms(3,4)]
      history_ok_canon [OF d payload_distinct [OF assms(3)]] estr_canon_obj [OF d] .
  moreover have "integrity_of (es @ [canon_obj e]) = integrity_of (es @ [e])"
    by (simp add: integrity_of_def estr_canon_obj d)
  ultimately show ?thesis by (auto simp: validate_Inr)
qed

text \<open>What a successful call did: the event it built over the ledger, and the three writes.\<close>

lemma read_for_append_holds:
  assumes "holds fr L f es"
  obtains ces f' where "read_for_append fr rt L f = (Inr ces, f')" "list_all2 same_view ces es"
    "fs_log f' = fs_log f" "fs_head f' = fs_head f"
    "(if signature f = fs_cache_stamp f \<and> fs_cache_events f \<noteq> None
      then (case fs_cache_integrity f of Some i \<Rightarrow> Inr i | None \<Rightarrow> validate L ces)
      else validate L ces) = Inr (integrity_of es)"
proof (cases "signature f = fs_cache_stamp f \<and> fs_cache_events f \<noteq> None")
  case True
  with assms obtain ces where "fs_cache_events f = Some ces" "list_all2 same_view ces es"
    "fs_cache_integrity f = Some (integrity_of es)"
    by (auto simp: holds_def cache_ok_def)
  with True that [of ces f] show ?thesis by (simp add: read_for_append_def sbind_def eff_simps)
next
  case False
  have "list_all2 same_view es es" by (simp add: list_all2_refl same_view_def)
  with False assms that [of es "f\<lparr>fs_cache_stamp := signature f, fs_cache_events := Some es,
      fs_cache_integrity := Some (integrity_of es)\<rparr>"]
  show ?thesis
    by (auto simp: read_for_append_def sbind_def eff_simps holds_def verify_head_anchored)
qed

lemma append_run:
  assumes "holds fr L f es" "ledger_append fr rt L uid now fresh a f = (Inr e, g)"
  obtains w eid stamp pay ces f' where
    "e = make_event L (integrity_of es) eid (ap_event_type a) stamp (ap_transaction_id a) w pay"
    "ap_event_type a \<in> set EVENT_TYPES" "validate_append es e = Inr ()" "list_all2 same_view ces es"
    "uid \<noteq> [] \<longrightarrow> eid \<noteq> []" "now \<noteq> [] \<longrightarrow> stamp \<noteq> []"
    "fs_log f' = fs_log f" "fs_head f' = fs_head f"
    "g = cache_event ces e (integrity_of es) (ap_event_type a = ''TransactionStarted'')
           (write_head rt e (write_log e fresh f'))"
proof -
  obtain ces f' where r: "read_for_append fr rt L f = (Inr ces, f')" "list_all2 same_view ces es"
    "fs_log f' = fs_log f" "fs_head f' = fs_head f"
    "(if signature f = fs_cache_stamp f \<and> fs_cache_events f \<noteq> None
      then (case fs_cache_integrity f of Some i \<Rightarrow> Inr i | None \<Rightarrow> validate L ces)
      else validate L ces) = Inr (integrity_of es)"
    using read_for_append_holds [OF assms(1)] by blast
  from assms(2) [unfolded ledger_append_def eff_runs sbind_eq_Inr [of "read_for_append fr rt L"] sret_eq_Inr]
  obtain w xs t i e' where a: "ap_event_type a \<in> set EVENT_TYPES"
    "read_for_append fr rt L f = (Inr xs, t)"
    "(if signature f = fs_cache_stamp f \<and> fs_cache_events f \<noteq> None
      then (case fs_cache_integrity f of Some i \<Rightarrow> Inr i | None \<Rightarrow> validate L xs)
      else validate L xs) = Inr i"
    "new_event rt L a uid now w i = Inr e'" "validate_append xs e' = Inr ()"
    "g = cache_event xs e' i (ap_event_type a = ''TransactionStarted'')
           (write_head rt e' (write_log e' fresh t))" "e = e'"
    by (elim exE conjE) (rule that)
  note a = a(1-6) [folded a(7)]
  from a(2) r(1) have xs: "xs = ces" "t = f'" by simp_all
  from a(3) r(5) have i: "i = integrity_of es" unfolding xs by (metis sum.inject(2))
  note w = a(1) a(4-6) [unfolded xs i]
  have "validate_append es e = Inr ()" using w(3) validate_append_view [OF r(2)] by simp
  moreover obtain eid stamp pay where
    "e = make_event L (integrity_of es) eid (ap_event_type a) stamp (ap_transaction_id a) w pay"
    "uid \<noteq> [] \<longrightarrow> eid \<noteq> []" "now \<noteq> [] \<longrightarrow> stamp \<noteq> []"
    using w(2) by (auto simp: new_event_def split: json.splits option.splits if_splits)
  ultimately show ?thesis using that [of eid stamp w pay ces f'] w(1,4) r(2-4) by blast
qed

text \<open>What the event of an accepted append leaves on disk.\<close>

lemma holds_extended:
  assumes h: "holds fr L f es" and "redacts_digests rt" "event_wf fr e" "ordered_free e"
    and v: "validate L (es @ [e]) = Inr (integrity_of (es @ [e]))"
    and g: "log_text g = log_text f @ log_line e" "fs_head g = fs_head (write_head rt e f')"
    and "cache_ok g (es @ [canon_obj e])"
  shows "holds fr L g (es @ [canon_obj e])"
proof -
  have wf: "json_wf (JObj e)" and d: "distinct (map fst e)" using assms(3) by (simp_all add: event_wf_def)
  have "event_ok L es e" using v by (simp add: validate_Inr)
  note f = event_shape_fields [OF event_ok_shape [OF this]]
  have "read_head (write_head rt e f') = Inr (Some (eint e ''sequence'', estr e ''fingerprint''))"
    using read_head_write [OF assms(2) f(3,1,2)] f(4) by simp
  then have head: "read_head g = Inr (Some (eint e ''sequence'', estr e ''fingerprint''))"
    by (simp add: read_head_def g(2))
  have i: "integrity_of (es @ [canon_obj e]) = integrity_of (es @ [e])"
    by (simp add: integrity_of_def estr_canon_obj d)
  have "validate L es = Inr (integrity_of es)" using h by (simp add: holds_def)
  from validate_canon [OF this v wf assms(4)] have "validate L (es @ [canon_obj e]) = Inr (integrity_of (es @ [canon_obj e]))"
    by (simp add: i)
  moreover have "decode fr (log_text g) = Inr (es @ [canon_obj e])"
    unfolding g(1) using decode_append [OF _ assms(3)] h by (simp add: holds_def)
  moreover have "read_head g = Inr (anchor_of (es @ [canon_obj e]))"
    by (simp add: head anchor_of_def eint_canon_obj estr_canon_obj d)
  ultimately show ?thesis using assms(8) by (simp add: holds_def)
qed

text \<open>
  Claim C11. A successful append of an event that the reader's validation admits is durable: the log grows by
  exactly the canonical line of the event, and the files then hold the longer ledger, so that every later read,
  whether of this process with its cache or of another one, returns it unchanged. What the reader checks beyond
  \<^verbatim>\<open>append\<close> is the hypothesis \<open>append_residue\<close> (contract of the payload, one
  workflow per transaction, bindings, gates, order, terminal rules): \<^verbatim>\<open>append\<close> does not check it,
  and without it the append can succeed and every later read raise (\<open>append_gap\<close>). The other hypotheses: the
  identities of the ledger have their length, the event's identity, the time and the transaction are not empty, the event is a JSON value with a text as
  \<^verbatim>\<open>gate_id\<close> of a resolved gate, and redaction leaves digests alone.
\<close>

theorem append_durable:
  assumes "holds fr L f es" "ledger_wf L" "redacts_digests rt"
    and "ledger_append fr rt L uid now fresh a f = (Inr e, g)"
    and "uid \<noteq> []" "now \<noteq> []" "ap_transaction_id a \<noteq> []"
    and "event_wf fr e" "ordered_free e" "append_residue es e"
  shows "log_text g = log_text f @ canonical_bytes e @ [newline] \<and> holds fr L g (es @ [canon_obj e])
    \<and> ledger_read fr rt L g = (Inr (es @ [canon_obj e]), g)"
proof -
  obtain w eid stamp pay ces f' where r:
    "e = make_event L (integrity_of es) eid (ap_event_type a) stamp (ap_transaction_id a) w pay"
    "ap_event_type a \<in> set EVENT_TYPES" "validate_append es e = Inr ()" "list_all2 same_view ces es"
    "uid \<noteq> [] \<longrightarrow> eid \<noteq> []" "now \<noteq> [] \<longrightarrow> stamp \<noteq> []"
    "fs_log f' = fs_log f" "fs_head f' = fs_head f"
    "g = cache_event ces e (integrity_of es) (ap_event_type a = ''TransactionStarted'')
           (write_head rt e (write_log e fresh f'))"
    by (rule append_run [OF assms(1,4)]) (rule that)
  have v: "validate L es = Inr (integrity_of es)" using assms(1) by (simp add: holds_def)
  have ext: "validate L (es @ [e]) = Inr (integrity_of (es @ [e]))"
    using append_extends [OF v assms(2) mp [OF r(5) assms(5)] r(2) mp [OF r(6) assms(6)] assms(7) r(1,3)] assms(10)
    by simp
  have log: "log_text g = log_text f @ log_line e"
    by (simp add: r(9) cache_event_def write_head_def write_log_def log_text_def log_line_def r(7))
  have d: "distinct (map fst e)" using assms(8) by (simp add: event_wf_def)
  have "list_all2 same_view (ces @ [e]) (es @ [canon_obj e])"
    using r(4) by (simp add: list_all2_appendI same_view_def estr_canon_obj d)
  moreover have "length ces = length es" using r(4) by (rule list_all2_lengthD)
  moreover have "eint e ''sequence'' = int (length es) + 1" "etype e = ap_event_type a"
    by (simp_all add: make_event_estr [OF r(1)] integrity_of_def)
  ultimately have "cache_ok g (es @ [canon_obj e])"
    by (simp add: cache_ok_def r(9) cache_event_def integrity_of_def estr_canon_obj d)
  from holds_extended [OF assms(1,3,8,9) ext log _ this, of "write_log e fresh f'"]
  have h: "holds fr L g (es @ [canon_obj e])" by (simp add: r(9) cache_event_def write_head_def)
  then have "ledger_read fr rt L g = (Inr (es @ [canon_obj e]), g)"
    by (simp add: ledger_read_def sbind_def read_holds eff_simps)
  with log h show ?thesis by (simp add: log_line_def)
qed

text \<open>A first append, to a ledger without files.\<close>

definition no_files :: files where
  "no_files = \<lparr>fs_log = None, fs_stamp = 0, fs_head = None, fs_cache_stamp = None, fs_cache_events = None,
     fs_cache_integrity = None\<rparr>"

definition sample_args :: append_args where
  "sample_args = \<lparr>ap_event_type = ''TransactionStarted'', ap_transaction_id = ''tx'',
     ap_workflow_type = JStr (workflow_value FEATURE_EXECUTION), ap_payload = None,
     ap_event_id = Some ''1'', ap_timestamp = None\<rparr>"

lemma holds_no_files: "holds id L no_files []"
  by (simp add: holds_def no_files_def log_text_def decode_def validate_Inr read_head_def anchor_of_def
      cache_ok_def)

lemma sample_event_wf: "event_wf id (sample_event es eid t)"
  by (simp add: event_wf_def sample_event_def make_event_def Let_def)

lemma sample_append: "\<exists>g. ledger_append id id sample_L ''1'' ''now'' 1 sample_args no_files = (Inr ev1, g)"
proof -
  have rd: "read_for_append id id sample_L no_files =
      (Inr [], no_files\<lparr>fs_cache_stamp := None, fs_cache_events := Some [],
         fs_cache_integrity := Some (integrity_of [])\<rparr>)"
    using holds_no_files [of sample_L]
    by (simp add: read_for_append_def holds_def sbind_def eff_simps verify_head_anchored no_files_def signature_def)
  have pw: "parse_workflow (ap_workflow_type sample_args) = Inr FEATURE_EXECUTION"
    by (simp add: sample_args_def parse_workflow_Inr)
  have v: "validate sample_L [] = Inr (integrity_of [])" by (simp add: validate_Inr)
  have ne: "new_event id sample_L sample_args ''1'' ''now'' FEATURE_EXECUTION (integrity_of []) = Inr ev1"
    by (simp add: new_event_def sample_args_def ev1_def sample_event_def)
  have va: "validate_append [] ev1 = Inr ()" by (simp add: sample_eval)
  have ty: "ap_event_type sample_args \<in> set EVENT_TYPES" by (simp add: sample_args_def EVENT_TYPES_def)
  have nc: "fs_cache_events no_files = None" by (simp add: no_files_def)
  show ?thesis by (simp add: ledger_append_def sbind_def eff_simps pw rd v ne va ty nc)
qed

lemma ev1_wf: "event_wf id ev1" "ordered_free ev1" "append_residue [] ev1"
  using sample_event_wf [of "[]" "''1''" "''TransactionStarted''"]
  by (simp_all add: ev1_def [symmetric] ordered_free_def sample_eval)

theorem append_durable_witness:
  "\<exists>g. ledger_append id id sample_L ''1'' ''now'' 1 sample_args no_files = (Inr ev1, g)
    \<and> ledger_read id id sample_L g = (Inr [canon_obj ev1], g)"
proof -
  obtain g where g: "ledger_append id id sample_L ''1'' ''now'' 1 sample_args no_files = (Inr ev1, g)"
    using sample_append by blast
  have "redacts_digests id" by (simp add: redacts_digests_def)
  from append_durable [OF holds_no_files sample_L_wf this g _ _ _ ev1_wf]
  have "ledger_read id id sample_L g = (Inr [canon_obj ev1], g)" by (simp add: sample_args_def)
  with g show ?thesis by blast
qed

subsection \<open>Crashes\<close>

lemma append_crash_files:
  "log_text (append_crash e fresh f) = log_text f @ log_line e" "fs_head (append_crash e fresh f) = fs_head f"
  "cache_ok (append_crash e fresh f) ds"
  by (simp_all add: append_crash_def write_log_def log_text_def log_line_def cache_ok_def)

text \<open>
  Claim C12. A process that dies between the two writes of an append to a ledger that has an event already loses
  nothing: the next reader finds the log one event ahead of the anchor, returns the event and repairs the anchor,
  so that the files hold the longer ledger again. The first append, before which there is no anchor, is left out:
  a crash there is never repaired (\<open>first_append_crash\<close> below). The event is one the reader's validation
  admits, and redaction leaves digests alone.
\<close>

theorem append_crash_recovered:
  assumes "holds fr L f es" "es \<noteq> []" "redacts_digests rt"
    and "validate L (es @ [e]) = Inr i" "event_wf fr e" "ordered_free e"
  shows "\<exists>g. ledger_read fr rt L (append_crash e fresh f) = (Inr (es @ [canon_obj e]), g)
    \<and> holds fr L g (es @ [canon_obj e])"
proof -
  let ?c = "append_crash e fresh f" and ?es = "es @ [canon_obj e]"
  have v: "validate L (es @ [e]) = Inr (integrity_of (es @ [e]))" using assms(4) by (simp add: validate_Inr)
  have vs: "validate L es = Inr (integrity_of es)" using assms(1) by (simp add: holds_def)
  have d: "distinct (map fst e)" using assms(5) by (simp add: event_wf_def)
  have ie: "integrity_of ?es = integrity_of (es @ [e])"
    by (simp add: integrity_of_def estr_canon_obj d)
  have wf: "json_wf (JObj e)" using assms(5) by (simp add: event_wf_def)
  have vc: "validate L ?es = Inr (integrity_of ?es)"
    using validate_canon [OF vs v wf assms(6)] by (simp only: ie)
  have dec: "decode fr (log_text ?c) = Inr ?es"
    unfolding append_crash_files using decode_append [OF _ assms(5)] assms(1) by (simp add: holds_def)
  have head: "read_head ?c = Inr (anchor_of es)"
    using assms(1) by (simp add: read_head_def append_crash_files holds_def)
  have read: "ledger_read fr rt L ?c = (Inr ?es, write_head rt (canon_obj e) ?c)"
    by (simp add: ledger_read_def sbind_def eff_simps read_ahead [OF dec vc head assms(2)])
  have "event_ok L es (canon_obj e)" using vc by (simp add: validate_Inr)
  note f = event_shape_fields [OF event_ok_shape [OF this]]
  have "read_head (write_head rt (canon_obj e) ?c) = Inr (anchor_of ?es)"
    using read_head_write [OF assms(3) f(3,1,2)] f(4) by (simp add: anchor_of_def)
  then have "holds fr L (write_head rt (canon_obj e) ?c) ?es"
    using dec vc by (simp add: holds_def write_head_def log_text_def cache_ok_def append_crash_def)
  with read show ?thesis by blast
qed

text \<open>
  The first append has no such protection: if the process dies between the two writes of
  it, there is no anchor, and every later read raises and changes nothing.
\<close>

theorem first_append_crash:
  assumes "holds fr L f []" "validate L [e] = Inr i" "event_wf fr e" "ordered_free e"
  shows "ledger_read fr rt L (append_crash e fresh f) =
    (raise CorruptEvidenceError ''non-empty ledger lacks its durable head anchor'', append_crash e fresh f)"
proof -
  let ?c = "append_crash e fresh f"
  have v: "validate L ([] @ [e]) = Inr (integrity_of ([] @ [e]))" using assms(2) by (simp add: validate_Inr)
  have vs: "validate L [] = Inr (integrity_of [])" using assms(1) by (simp add: holds_def)
  have wf: "json_wf (JObj e)" using assms(3) by (simp add: event_wf_def)
  have vc: "succeeds (validate L [canon_obj e])"
    using validate_canon [OF vs v wf assms(4)] by simp
  have dec: "decode fr (log_text ?c) = Inr [canon_obj e]"
    unfolding append_crash_files using decode_append [OF _ assms(3), of "log_text f" "[]"] assms(1)
    by (simp add: holds_def)
  have "read_head ?c = Inr None"
    using assms(1) by (simp add: read_head_def append_crash_files holds_def anchor_of_def)
  with vc dec show ?thesis
    by (auto simp: ledger_read_def read_verified_def sbind_def eff_simps verify_head_def raise_def)
qed

definition one_event_files :: files where
  "one_event_files = write_head id ev1 (append_crash ev1 1 no_files)"

lemma ev1_valid: "validate sample_L ([] @ [ev1]) = Inr (integrity_of ([] @ [ev1]))"
  using sample_prefix_valid(1) by simp

lemma id_redacts_digests: "redacts_digests id"
  by (simp add: redacts_digests_def)

lemma holds_one_event: "holds id sample_L one_event_files [canon_obj ev1]"
proof -
  have "holds id sample_L one_event_files ([] @ [canon_obj ev1])"
    by (rule holds_extended [OF holds_no_files id_redacts_digests ev1_wf(1,2) ev1_valid,
          of _ "append_crash ev1 1 no_files"])
      (simp_all add: one_event_files_def write_head_def append_crash_def write_log_def log_text_def
        log_line_def no_files_def cache_ok_def)
  then show ?thesis by simp
qed

lemma two_events_valid: "validate sample_L ([canon_obj ev1] @ [ev2]) = Inr (integrity_of ([canon_obj ev1] @ [ev2]))"
proof -
  have d: "distinct (map fst ev1)" using ev1_wf(1) by (simp add: event_wf_def)
  have "integrity_of [canon_obj ev1] = integrity_of [ev1]"
    by (simp add: integrity_of_def last_fp_def estr_canon_obj d)
  then have e: "sample_event [canon_obj ev1] ''2'' ''LeaseAcquired'' = ev2"
    by (simp add: ev2_def sample_event_def)
  have v: "validate sample_L [canon_obj ev1] = Inr (integrity_of [canon_obj ev1])"
    using holds_one_event by (simp add: holds_def)
  show ?thesis
    using validate_extend [OF v, of "''2''" "''LeaseAcquired''"] unfolding e
    by (simp add: sample_eval estr_canon_obj [OF d])
qed

lemma ev2_wf: "event_wf id ev2" "ordered_free ev2"
  using sample_event_wf [of "[ev1]" "''2''" "''LeaseAcquired''"]
  by (simp_all add: ev2_def [symmetric] ordered_free_def sample_eval)

theorem append_crash_recovered_witness:
  "\<exists>g. ledger_read id id sample_L (append_crash ev2 2 one_event_files) = (Inr [canon_obj ev1, canon_obj ev2], g)"
proof -
  obtain g where
    "ledger_read id id sample_L (append_crash ev2 2 one_event_files) = (Inr ([canon_obj ev1] @ [canon_obj ev2]), g)"
    using append_crash_recovered [OF holds_one_event _ id_redacts_digests two_events_valid ev2_wf] by blast
  then show ?thesis by auto
qed

theorem first_append_crash_witness:
  "raises CorruptEvidenceError (fst (ledger_read id id sample_L (append_crash ev1 1 no_files)))"
  using first_append_crash [OF holds_no_files _ ev1_wf(1,2), of sample_L _ id 1] sample_prefix_valid(1)
  by (simp add: raise_def)

subsection \<open>Rollback\<close>

lemma read_verified_Inr:
  assumes "read_verified fr rt L f = (Inr (ds, i), g)"
  shows "validate L ds = Inr i"
    "ds \<noteq> [] \<Longrightarrow> \<exists>n fp. read_head f = Inr (Some (n, fp)) \<and>
       (n = eint (last ds) ''sequence'' \<and> fp = estr (last ds) ''fingerprint''
        \<or> eint (last ds) ''sequence'' = n + 1 \<and> estr (last ds) ''previous_fingerprint'' = fp)"
    "ds = [] \<Longrightarrow> read_head f = Inr None"
proof -
  obtain t where r: "validate L ds = Inr i" "verify_head rt ds True f = (Inr (), t)"
    using assms by (auto simp: read_verified_def eff_runs sbind_eq_Inr [of "verify_head rt _ True"] sret_eq_Inr)
  show "validate L ds = Inr i" by (rule r(1))
  show "ds = [] \<Longrightarrow> read_head f = Inr None"
    using r(2) by (auto simp: verify_head_def eff_runs eff_elims)
  show "\<exists>n fp. read_head f = Inr (Some (n, fp)) \<and>
       (n = eint (last ds) ''sequence'' \<and> fp = estr (last ds) ''fingerprint''
        \<or> eint (last ds) ''sequence'' = n + 1 \<and> estr (last ds) ''previous_fingerprint'' = fp)"
    if "ds \<noteq> []"
  proof -
    from r(2) that obtain head where h: "read_head f = Inr head"
      "(case head of None \<Rightarrow> False | Some (n, fp) \<Rightarrow>
         n = eint (last ds) ''sequence'' \<and> fp = estr (last ds) ''fingerprint''
         \<or> eint (last ds) ''sequence'' = n + 1 \<and> estr (last ds) ''previous_fingerprint'' = fp)"
      unfolding verify_head_def eff_runs Let_def
      by (elim exE conjE) (simp split: option.splits if_splits add: split_beta)
    then show ?thesis by (cases head) auto
  qed
qed

lemma ledger_sequence: "ledger_ok L (es @ [e]) \<Longrightarrow> eint e ''sequence'' = int (length es) + 1"
  using event_ok_shape [of L es e] event_shape_fields(4) [of _ e] by auto

text \<open>
  Claim C13. Rolling the log back, truncating it or rewriting it is detected: when the anchor names the
  head of the ledger \<open>es\<close> and a read of whatever the log now contains succeeds, it returned the
  ledger \<open>es\<close> line for line, or \<open>es\<close> followed by one more event; otherwise the two ledgers
  exhibit a SHA-256 collision.
\<close>

theorem ledger_rollback_detected:
  assumes "validate L es = Inr i" "es \<noteq> []" "read_head f = Inr (anchor_of es)"
    and "ledger_read fr rt L f = (Inr ds, g)"
    and "list_all (event_wf fr) es" "list_all (event_wf fr) ds"
  shows "map canonical_bytes ds = map canonical_bytes es
    \<or> length ds = length es + 1 \<and> map canonical_bytes (butlast ds) = map canonical_bytes es
    \<or> fp_collision es ds"
proof -
  have cb: "canonical_bytes = (\<lambda>e. dumps (JObj e))" by (simp add: fun_eq_iff canonical_bytes_def)
  obtain j where r: "read_verified fr rt L f = (Inr (ds, j), g)"
    using assms(4) by (auto simp: ledger_read_def sbind_eq_Inr sret_eq_Inr)
  have okd: "ledger_ok L ds" using read_verified_Inr(1) [OF r] by (simp add: validate_Inr)
  have oke: "ledger_ok L es" using assms(1) by (simp add: validate_Inr)
  obtain es' e where es: "es = es' @ [e]" using assms(2) by (cases es rule: rev_cases) auto
  have "ds \<noteq> []" using read_verified_Inr(3) [OF r] assms(2,3) by (auto simp: anchor_of_def)
  then obtain ds' d where ds: "ds = ds' @ [d]" by (cases ds rule: rev_cases) auto
  have seq: "eint e ''sequence'' = int (length es') + 1" "eint d ''sequence'' = int (length ds') + 1"
    using ledger_sequence oke okd unfolding es ds by blast+
  consider (same) "eint d ''sequence'' = eint e ''sequence''" "estr d ''fingerprint'' = estr e ''fingerprint''"
    | (ahead) "eint d ''sequence'' = eint e ''sequence'' + 1" "estr d ''previous_fingerprint'' = estr e ''fingerprint''"
    using read_verified_Inr(2) [OF r] assms(2,3) by (auto simp: anchor_of_def es ds)
  then show ?thesis
  proof cases
    case same
    have "length es = length ds" "last_fp es = last_fp ds" using same seq by (simp_all add: es ds)
    from tamper_core [OF oke okd this assms(5,6)] show ?thesis unfolding cb by metis
  next
    case ahead
    have len: "length es = length ds'" using ahead(1) seq by (simp add: es)
    have "last_fp ds' = estr d ''previous_fingerprint''" using okd event_ok_chain [of L ds' d] by (simp add: ds)
    then have fp: "last_fp es = last_fp ds'" using ahead(2) by (simp add: es)
    have "ledger_ok L ds'" using okd by (simp add: ds)
    from tamper_core [OF oke this len fp assms(5)] assms(6)
    have "map (\<lambda>e. dumps (JObj e)) es = map (\<lambda>e. dumps (JObj e)) ds' \<or> fp_collision es ds'"
      by (simp add: ds)
    moreover have "fp_collision es ds' \<Longrightarrow> fp_collision es ds"
      using len zip_append [of es ds' "[]" "[d]"] by (simp add: fp_collision_def ds)
    moreover have "length ds = length es + 1" "butlast ds = ds'" using len by (simp_all add: ds)
    ultimately show ?thesis unfolding cb by metis
  qed
qed

theorem ledger_rollback_detected_witness:
  "\<exists>ds g. ledger_read id id sample_L one_event_files = (Inr ds, g)
     \<and> (map canonical_bytes ds = map canonical_bytes [canon_obj ev1]
        \<or> length ds = 2 \<and> map canonical_bytes (butlast ds) = map canonical_bytes [canon_obj ev1]
        \<or> fp_collision [canon_obj ev1] ds)"
proof -
  have read: "ledger_read id id sample_L one_event_files = (Inr [canon_obj ev1], one_event_files)"
    using read_holds [OF holds_one_event, of id] by (simp add: ledger_read_def sbind_def eff_simps)
  have h: "validate sample_L [canon_obj ev1] = Inr (integrity_of [canon_obj ev1])"
    "read_head one_event_files = Inr (anchor_of [canon_obj ev1])"
    using holds_one_event by (simp_all add: holds_def)
  have "event_wf id (canon_obj ev1)" using ev1_wf(1) by (rule event_wf_canon)
  then have "list_all (event_wf id) [canon_obj ev1]" by simp
  from ledger_rollback_detected [OF h(1) _ h(2) read this this] read show ?thesis by auto
qed

end
