(* ===== verification/Schema_Validation.thy ===== *)
theory Schema_Validation
  imports Contracts
begin

section \<open>Validation of documents against schemas\<close>

text \<open>
  \<^verbatim>\<open>validate_schema\<close> of \<^verbatim>\<open>validation.py\<close>. A schema is itself a JSON value, and a
  schema of the wrong type raises what Python raises. \<open>rx p s\<close> is
  \<^verbatim>\<open>re.search(p, s) is not None\<close> for the patterns of the schema files, \<open>lt a b\<close> is
  \<^verbatim>\<open>a < b\<close> where one of the numbers is a float. Paths only occur in messages and are left
  out.
\<close>

definition matches_type :: "json \<Rightarrow> json \<Rightarrow> bool res" where
  "matches_type v expected =
     (if expected = JStr ''object'' then Inr (is_dict v)
      else if expected = JStr ''array'' then Inr (is_list v)
      else if expected = JStr ''string'' then Inr (is_str v)
      else if expected = JStr ''integer'' then Inr (is_exact_int v)
      else if expected = JStr ''number'' then Inr (is_exact_int v \<or> is_float v)
      else if expected = JStr ''boolean'' then Inr (is_bool v)
      else if expected = JStr ''null'' then Inr (v = JNull)
      else raise SchemaValidationError ''unsupported schema type'')"

fun matches_any :: "json \<Rightarrow> json list \<Rightarrow> bool res" where
  "matches_any v [] = Inr False"
| "matches_any v (t # ts) = rbind (matches_type v t) (\<lambda>b. if b then Inr True else matches_any v ts)"

text \<open>The \<^verbatim>\<open>type\<close> keyword; the result tells whether validation ends here, as it does for
  an admitted \<^verbatim>\<open>None\<close>.\<close>

definition check_type :: "json \<Rightarrow> obj \<Rightarrow> bool res" where
  "check_type v s =
     (let expected = oget s ''type'' in
      if expected = JNull then Inr False
      else rbind (if is_str expected then Inr [expected] else elements expected) (\<lambda>types.
           rbind (matches_any v types) (\<lambda>b.
           if b then Inr (v = JNull) else raise SchemaValidationError ''unexpected type'')))"

text \<open>\<^verbatim>\<open>v in c\<close>\<close>

definition member_in :: "json \<Rightarrow> json \<Rightarrow> bool res" where
  "member_in v c =
     (case c of
        JArr ys \<Rightarrow> Inr (list_ex (\<lambda>y. py_eq y v) ys)
      | JObj kvs \<Rightarrow> hash_in v (map fst kvs)
      | JStr t \<Rightarrow> (case v of JStr s \<Rightarrow> Inr (contains s t) | _ \<Rightarrow> raise TypeError ''in <string> requires string'')
      | _ \<Rightarrow> raise TypeError ''argument is not iterable'')"

definition check_enum :: "json \<Rightarrow> obj \<Rightarrow> unit res" where
  "check_enum v s =
     (if ohas s ''enum'' then rbind (member_in v (oget s ''enum'')) (\<lambda>b.
        check b SchemaValidationError ''value is not in enum'')
      else Inr ())"

definition check_required :: "obj \<Rightarrow> obj \<Rightarrow> unit res" where
  "check_required kvs s =
     rbind (elements (oget_or s ''required'' (JArr []))) (\<lambda>required.
     rbind (rmap (\<lambda>k. rbind (hash_in k (map fst kvs)) (\<lambda>b. Inr (k, b))) required) (\<lambda>found.
     let missing = map fst (filter (\<lambda>kb. \<not> snd kb) found) in
     if missing = [] then Inr ()
     else if list_all is_str missing then raise SchemaValidationError ''missing required keys''
     else raise TypeError ''sequence item: expected str instance''))"

definition check_extras :: "obj \<Rightarrow> obj \<Rightarrow> unit res" where
  "check_extras kvs s =
     (if oget s ''additionalProperties'' = JBool False then
        rbind (elements (oget_or s ''properties'' (JObj []))) (\<lambda>allowed.
        rbind (rall (\<lambda>k. check (\<not> is_list k \<and> \<not> is_dict k) TypeError ''unhashable type'') allowed) (\<lambda>_.
        check (list_all (\<lambda>kv. JStr (fst kv) \<in> set allowed) kvs) SchemaValidationError ''unsupported keys''))
      else Inr ())"

definition child_schema :: "obj \<Rightarrow> string \<Rightarrow> json res" where
  "child_schema s k =
     (case oget_or s ''properties'' (JObj []) of
        JObj props \<Rightarrow> Inr (oget props k)
      | _ \<Rightarrow> raise AttributeError ''object has no attribute get'')"

definition check_array :: "json list \<Rightarrow> obj \<Rightarrow> unit res" where
  "check_array xs s =
     check (truthy (oget s ''uniqueItems'') \<longrightarrow> distinct (map py_repr xs))
       SchemaValidationError ''array items must be unique''"

definition check_string :: "(string \<Rightarrow> string \<Rightarrow> bool) \<Rightarrow> string \<Rightarrow> obj \<Rightarrow> unit res" where
  "check_string rx t s =
     rbind (check (case int_of (oget s ''minLength'') of Some n \<Rightarrow> int (length t) \<ge> n | None \<Rightarrow> True)
              SchemaValidationError ''string is too short'') (\<lambda>_.
     check (case oget s ''pattern'' of JStr p \<Rightarrow> rx p t | _ \<Rightarrow> True)
       SchemaValidationError ''value does not match'')"

definition num_less :: "(json \<Rightarrow> json \<Rightarrow> bool) \<Rightarrow> json \<Rightarrow> json \<Rightarrow> bool res" where
  "num_less lt a b =
     (case (int_of a, int_of b) of
        (Some i, Some j) \<Rightarrow> Inr (i < j)
      | _ \<Rightarrow> if (is_float a \<or> is_int a) \<and> (is_float b \<or> is_int b) then Inr (lt a b)
            else raise TypeError ''not supported between instances'')"

definition check_number :: "(json \<Rightarrow> json \<Rightarrow> bool) \<Rightarrow> json \<Rightarrow> obj \<Rightarrow> unit res" where
  "check_number lt v s =
     (let minimum = oget s ''minimum''; maximum = oget s ''maximum'' in
      rbind (if minimum = JNull then Inr () else rbind (num_less lt v minimum) (\<lambda>b.
               check (\<not> b) SchemaValidationError ''value is below the minimum'')) (\<lambda>_.
      if maximum = JNull then Inr () else rbind (num_less lt maximum v) (\<lambda>b.
        check (\<not> b) SchemaValidationError ''value is above the maximum'')))"

lemma size_child: "kv \<in> set kvs \<Longrightarrow> size (snd kv) < size (JObj kvs)"
  by (induction kvs) (auto simp: size_prod_def)

lemma size_item: "x \<in> set xs \<Longrightarrow> size x < size (JArr xs)"
  by (induction xs) auto

function validate_schema ::
  "(string \<Rightarrow> string \<Rightarrow> bool) \<Rightarrow> (json \<Rightarrow> json \<Rightarrow> bool) \<Rightarrow> json \<Rightarrow> json \<Rightarrow> unit res" where
  "validate_schema rx lt v schema =
     (case schema of
        JObj s \<Rightarrow>
          rbind (check_type v s) (\<lambda>done. if done then Inr () else
          rbind (check_enum v s) (\<lambda>_.
          case v of
            JObj kvs \<Rightarrow>
              rbind (check_required kvs s) (\<lambda>_.
              rbind (check_extras kvs s) (\<lambda>_.
              rall (\<lambda>kv. rbind (child_schema s (fst kv)) (\<lambda>c.
                if c = JNull then Inr () else validate_schema rx lt (snd kv) c)) kvs))
          | JArr xs \<Rightarrow>
              rbind (check_array xs s) (\<lambda>_.
              case oget s ''items'' of
                JObj i \<Rightarrow> rall (\<lambda>x. validate_schema rx lt x (JObj i)) xs
              | _ \<Rightarrow> Inr ())
          | JStr t \<Rightarrow> check_string rx t s
          | JInt i \<Rightarrow> check_number lt v s
          | JFloat r \<Rightarrow> check_number lt v s
          | _ \<Rightarrow> Inr ()))
      | _ \<Rightarrow> raise AttributeError ''object has no attribute get'')"
  by pat_completeness auto

termination
  by (relation "measure (\<lambda>(rx, lt, v, s). size v)") (auto dest: size_child size_item)

declare validate_schema.simps [simp del]

subsection \<open>The parts of a document\<close>

text \<open>
  What a schema means, without the order of the checks and without errors. The names of the types of a value, what
  one value owes to the keywords of its own schema, and the step from a value to a part of it with the schema
  declared for that part.
\<close>

fun type_names :: "json \<Rightarrow> string set" where
  "type_names JNull = {''null''}"
| "type_names (JBool b) = {''boolean''}"
| "type_names (JInt i) = {''integer'', ''number''}"
| "type_names (JFloat x) = {''number''}"
| "type_names (JStr t) = {''string''}"
| "type_names (JArr xs) = {''array''}"
| "type_names (JObj kvs) = {''object''}"

definition TYPE_NAMES :: "string set" where
  "TYPE_NAMES = {''object'', ''array'', ''string'', ''integer'', ''number'', ''boolean'', ''null''}"

text \<open>A list of types is read from the left: an unknown name is an error only where no name before it matches.\<close>

definition one_of_types :: "json \<Rightarrow> string list \<Rightarrow> bool" where
  "one_of_types v ts \<longleftrightarrow> (\<exists>us t ws. ts = us @ t # ws \<and> t \<in> type_names v \<and> set us \<subseteq> TYPE_NAMES)"

definition type_conforms :: "json \<Rightarrow> obj \<Rightarrow> bool" where
  "type_conforms v s \<longleftrightarrow>
     (case oget s ''type'' of
        JNull \<Rightarrow> True
      | JStr t \<Rightarrow> t \<in> type_names v
      | JArr ts \<Rightarrow> (\<exists>us ws. ts = map JStr us @ ws \<and> one_of_types v us)
      | JObj kvs \<Rightarrow> one_of_types v (map fst kvs)
      | _ \<Rightarrow> False)"

definition enum_conforms :: "json \<Rightarrow> obj \<Rightarrow> bool" where
  "enum_conforms v s \<longleftrightarrow> (''enum'' \<in> fst ` set s \<longrightarrow>
     (case oget s ''enum'' of
        JArr ys \<Rightarrow> (\<exists>y \<in> set ys. py_eq y v)
      | JObj kvs \<Rightarrow> (\<exists>k \<in> fst ` set kvs. v = JStr k)
      | JStr t \<Rightarrow> (\<exists>p u q. v = JStr u \<and> t = p @ u @ q)
      | _ \<Rightarrow> False))"

definition object_conforms :: "obj \<Rightarrow> obj \<Rightarrow> bool" where
  "object_conforms kvs s \<longleftrightarrow>
     (case oget_or s ''required'' (JArr []) of
        JArr ks \<Rightarrow> set ks \<subseteq> (\<lambda>kv. JStr (fst kv)) ` set kvs
      | JObj ks \<Rightarrow> fst ` set ks \<subseteq> fst ` set kvs
      | JStr t \<Rightarrow> (\<lambda>c. [c]) ` set t \<subseteq> fst ` set kvs
      | _ \<Rightarrow> False)
   \<and> (let closed = (oget s ''additionalProperties'' = JBool False) in
      case oget_or s ''properties'' (JObj []) of
        JObj props \<Rightarrow> (closed \<longrightarrow> fst ` set kvs \<subseteq> fst ` set props)
      | JArr ks \<Rightarrow> kvs = [] \<and> (closed \<longrightarrow> (\<forall>k \<in> set ks. \<not> is_list k \<and> \<not> is_dict k))
      | JStr t \<Rightarrow> kvs = []
      | _ \<Rightarrow> kvs = [] \<and> \<not> closed)"

text \<open>\<^verbatim>\<open>a\<close> is a number and not smaller than \<^verbatim>\<open>b\<close>\<close>

definition at_least :: "(json \<Rightarrow> json \<Rightarrow> bool) \<Rightarrow> json \<Rightarrow> json \<Rightarrow> bool" where
  "at_least lt a b \<longleftrightarrow>
     (case (a, b) of
        (JFloat _, JFloat _) \<Rightarrow> \<not> lt a b
      | (JFloat _, _) \<Rightarrow> int_of b \<noteq> None \<and> \<not> lt a b
      | (_, JFloat _) \<Rightarrow> int_of a \<noteq> None \<and> \<not> lt a b
      | _ \<Rightarrow> (\<exists>i j. int_of a = Some i \<and> int_of b = Some j \<and> j \<le> i))"

fun keywords_conform :: "(string \<Rightarrow> string \<Rightarrow> bool) \<Rightarrow> (json \<Rightarrow> json \<Rightarrow> bool) \<Rightarrow> json \<Rightarrow> obj \<Rightarrow> bool" where
  "keywords_conform rx lt (JObj kvs) s \<longleftrightarrow> object_conforms kvs s"
| "keywords_conform rx lt (JArr xs) s \<longleftrightarrow>
     (truthy (oget s ''uniqueItems'') \<longrightarrow> (\<forall>i j. i < j \<and> j < length xs \<longrightarrow> py_repr (xs ! i) \<noteq> py_repr (xs ! j)))"
| "keywords_conform rx lt (JStr t) s \<longleftrightarrow>
     (\<forall>n. int_of (oget s ''minLength'') = Some n \<longrightarrow> n \<le> int (length t))
     \<and> (\<forall>p. oget s ''pattern'' = JStr p \<longrightarrow> rx p t)"
| "keywords_conform rx lt JNull s \<longleftrightarrow> True"
| "keywords_conform rx lt (JBool b) s \<longleftrightarrow> True"
| "keywords_conform rx lt v s \<longleftrightarrow>
     (oget s ''minimum'' \<noteq> JNull \<longrightarrow> at_least lt v (oget s ''minimum''))
     \<and> (oget s ''maximum'' \<noteq> JNull \<longrightarrow> at_least lt (oget s ''maximum'') v)"

text \<open>A \<^verbatim>\<open>None\<close> that a declared type admits owes nothing else.\<close>

definition conforms_here :: "(string \<Rightarrow> string \<Rightarrow> bool) \<Rightarrow> (json \<Rightarrow> json \<Rightarrow> bool) \<Rightarrow> json \<Rightarrow> json \<Rightarrow> bool" where
  "conforms_here rx lt v schema \<longleftrightarrow>
     (\<exists>s. schema = JObj s \<and> type_conforms v s
        \<and> (v = JNull \<and> oget s ''type'' \<noteq> JNull \<or> enum_conforms v s \<and> keywords_conform rx lt v s))"

inductive sub_step :: "json \<times> json \<Rightarrow> json \<times> json \<Rightarrow> bool" where
  key: "kv \<in> set kvs \<Longrightarrow> oget_or s ''properties'' (JObj []) = JObj props \<Longrightarrow> oget props (fst kv) \<noteq> JNull
     \<Longrightarrow> sub_step (JObj kvs, JObj s) (snd kv, oget props (fst kv))"
| item: "x \<in> set xs \<Longrightarrow> oget s ''items'' = JObj i \<Longrightarrow> sub_step (JArr xs, JObj s) (x, JObj i)"

inductive_simps sub_step_rules: "sub_step (v, s) p"

lemma child_schema_iff: "child_schema s k = Inr c \<longleftrightarrow>
    (\<exists>props. oget_or s ''properties'' (JObj []) = JObj props \<and> c = oget props k)"
  by (auto simp: child_schema_def raise_def split: json.split)

lemma sub_step_simps: "sub_step (v, s) p \<longleftrightarrow>
    (\<exists>kv kvs s' c. v = JObj kvs \<and> s = JObj s' \<and> p = (snd kv, c) \<and> kv \<in> set kvs
        \<and> child_schema s' (fst kv) = Inr c \<and> c \<noteq> JNull)
    \<or> (\<exists>x xs s' i. v = JArr xs \<and> s = JObj s' \<and> p = (x, JObj i) \<and> x \<in> set xs \<and> oget s' ''items'' = JObj i)"
proof
  assume "sub_step (v, s) p"
  then show "(\<exists>kv kvs s' c. v = JObj kvs \<and> s = JObj s' \<and> p = (snd kv, c) \<and> kv \<in> set kvs
        \<and> child_schema s' (fst kv) = Inr c \<and> c \<noteq> JNull)
      \<or> (\<exists>x xs s' i. v = JArr xs \<and> s = JObj s' \<and> p = (x, JObj i) \<and> x \<in> set xs \<and> oget s' ''items'' = JObj i)"
  proof (cases rule: sub_step.cases)
    case (key kv kvs s' props)
    then have "child_schema s' (fst kv) = Inr (oget props (fst kv))" by (simp add: child_schema_def)
    with key show ?thesis by blast
  next
    case (item x xs s' i)
    then show ?thesis by blast
  qed
next
  assume "(\<exists>kv kvs s' c. v = JObj kvs \<and> s = JObj s' \<and> p = (snd kv, c) \<and> kv \<in> set kvs
        \<and> child_schema s' (fst kv) = Inr c \<and> c \<noteq> JNull)
      \<or> (\<exists>x xs s' i. v = JArr xs \<and> s = JObj s' \<and> p = (x, JObj i) \<and> x \<in> set xs \<and> oget s' ''items'' = JObj i)"
  then show "sub_step (v, s) p"
    by (elim disjE exE conjE) (simp_all only: child_schema_iff, (elim exE conjE, hypsubst, rule sub_step.key; assumption), rule sub_step.item)
qed


subsection \<open>The checks of one value\<close>

text \<open>The code's checks of one value against its own schema, without those of its parts.\<close>

definition local_checks ::
  "(string \<Rightarrow> string \<Rightarrow> bool) \<Rightarrow> (json \<Rightarrow> json \<Rightarrow> bool) \<Rightarrow> json \<Rightarrow> json \<Rightarrow> unit res" where
  "local_checks rx lt v schema =
     (case schema of
        JObj s \<Rightarrow>
          rbind (check_type v s) (\<lambda>done. if done then Inr () else
          rbind (check_enum v s) (\<lambda>_.
          case v of
            JObj kvs \<Rightarrow>
              rbind (check_required kvs s) (\<lambda>_.
              rbind (check_extras kvs s) (\<lambda>_.
              rall (\<lambda>kv. rbind (child_schema s (fst kv)) (\<lambda>_. Inr ())) kvs))
          | JArr xs \<Rightarrow> check_array xs s
          | JStr t \<Rightarrow> check_string rx t s
          | JInt i \<Rightarrow> check_number lt v s
          | JFloat r \<Rightarrow> check_number lt v s
          | _ \<Rightarrow> Inr ()))
      | _ \<Rightarrow> raise AttributeError ''object has no attribute get'')"

lemma check_type_done: "check_type v s = Inr True \<Longrightarrow> v = JNull"
  by (auto simp: check_type_def Let_def split: if_splits)

lemma validate_schema_step:
  "validate_schema rx lt v s = Inr () \<longleftrightarrow> local_checks rx lt v s = Inr ()
     \<and> (\<forall>u t. sub_step (v, s) (u, t) \<longrightarrow> validate_schema rx lt u t = Inr ())"
proof (cases s)
  case (JObj s')
  show ?thesis
  proof (cases v)
    case JNull
    show ?thesis unfolding validate_schema.simps [of rx lt v] local_checks_def
      by (simp add: JObj JNull sub_step_simps)
  next
    case (JObj kvs)
    have nd: "check_type (JObj kvs) s' \<noteq> Inr True" using check_type_done by fastforce
    have ch: "rbind (child_schema s' k) (\<lambda>c. if c = JNull then Inr () else validate_schema rx lt u c) = Inr ()
      \<longleftrightarrow> succeeds (child_schema s' k)
        \<and> (\<forall>c. child_schema s' k = Inr c \<and> c \<noteq> JNull \<longrightarrow> validate_schema rx lt u c = Inr ())" for k u
      by (cases "child_schema s' k") auto
    have kids: "(\<forall>u t. sub_step (v, s) (u, t) \<longrightarrow> validate_schema rx lt u t = Inr ()) \<longleftrightarrow>
        list_all (\<lambda>kv. \<forall>c. child_schema s' (fst kv) = Inr c \<and> c \<noteq> JNull
           \<longrightarrow> validate_schema rx lt (snd kv) c = Inr ()) kvs"
      by (auto simp: JObj \<open>s = JObj s'\<close> sub_step_simps list_all_iff) blast
    define f where "f = (\<lambda>kv. rbind (child_schema s' (fst kv)) (\<lambda>c.
        if c = JNull then Inr () else validate_schema rx lt (snd kv) c))"
    define g where "g = (\<lambda>kv :: string \<times> json. rbind (child_schema s' (fst kv)) (\<lambda>_. Inr ()))"
    have loop: "rall f kvs = Inr () \<longleftrightarrow> rall g kvs = Inr ()
        \<and> (\<forall>u t. sub_step (v, s) (u, t) \<longrightarrow> validate_schema rx lt u t = Inr ())"
      unfolding kids rall_Inr f_def g_def ch list_all_iff by auto
    have "validate_schema rx lt v s = rbind (check_type v s') (\<lambda>done. if done then Inr () else
        rbind (check_enum v s') (\<lambda>_. rbind (check_required kvs s') (\<lambda>_. rbind (check_extras kvs s') (\<lambda>_. rall f kvs))))"
      unfolding f_def \<open>s = JObj s'\<close> JObj by (subst validate_schema.simps, unfold json.case, rule refl)
    moreover have "local_checks rx lt v s = rbind (check_type v s') (\<lambda>done. if done then Inr () else
        rbind (check_enum v s') (\<lambda>_. rbind (check_required kvs s') (\<lambda>_. rbind (check_extras kvs s') (\<lambda>_. rall g kvs))))"
      unfolding local_checks_def g_def \<open>s = JObj s'\<close> JObj json.case ..
    ultimately show ?thesis
      using nd by (cases "check_type v s'") (auto simp: JObj [symmetric] loop simp del: rall_Inr)
  next
    case (JArr xs)
    have nd: "check_type (JArr xs) s' \<noteq> Inr True" using check_type_done by fastforce
    show ?thesis unfolding validate_schema.simps [of rx lt v] local_checks_def
      using nd by (cases "oget s' ''items''")
        (auto simp: \<open>s = JObj s'\<close> JArr sub_step_simps list_all_iff split: if_splits)
  qed (simp only: \<open>s = JObj s'\<close>, subst validate_schema.simps, simp add: local_checks_def sub_step_simps)+
qed (subst validate_schema.simps, simp add: local_checks_def sub_step_simps)+

lemma validate_schema_local: "validate_schema rx lt v s = Inr () \<Longrightarrow> local_checks rx lt v s = Inr ()"
  using validate_schema_step by blast

lemma sub_step_size: "sub_step (v, s) (u, t) \<Longrightarrow> size u < size v"
  by (auto simp: sub_step_simps dest: size_child size_item)

lemma validate_schema_parts:
  "validate_schema rx lt v s = Inr () \<longleftrightarrow> (\<forall>p. sub_step\<^sup>*\<^sup>* (v, s) p \<longrightarrow> local_checks rx lt (fst p) (snd p) = Inr ())"
proof
  assume ok: "validate_schema rx lt v s = Inr ()"
  have "validate_schema rx lt (fst p) (snd p) = Inr ()" if "sub_step\<^sup>*\<^sup>* (v, s) p" for p
    using that
  proof (induction rule: rtranclp_induct)
    case (step p q)
    then have "sub_step (fst p, snd p) (fst q, snd q)" by simp
    with step.IH show ?case using validate_schema_step [of rx lt "fst p" "snd p"] by blast
  qed (simp add: ok)
  then show "\<forall>p. sub_step\<^sup>*\<^sup>* (v, s) p \<longrightarrow> local_checks rx lt (fst p) (snd p) = Inr ()"
    by (auto intro: validate_schema_local)
next
  assume "\<forall>p. sub_step\<^sup>*\<^sup>* (v, s) p \<longrightarrow> local_checks rx lt (fst p) (snd p) = Inr ()"
  then show "validate_schema rx lt v s = Inr ()"
  proof (induction "size v" arbitrary: v s rule: less_induct)
    case less
    have "validate_schema rx lt u t = Inr ()" if "sub_step (v, s) (u, t)" for u t
      using less.hyps [OF sub_step_size [OF that]] less.prems that
      by (meson converse_rtranclp_into_rtranclp)
    moreover have "local_checks rx lt v s = Inr ()" using less.prems by (metis fst_conv rtranclp.rtrancl_refl snd_conv)
    ultimately show ?case using validate_schema_step by blast
  qed
qed

subsection \<open>The checks decide conformance\<close>

lemma matches_type_iff: "matches_type v t = Inr True \<longleftrightarrow> (\<exists>n. t = JStr n \<and> n \<in> type_names v)"
  by (cases v) (auto simp: matches_type_def raise_def)

lemma matches_type_False: "matches_type v t = Inr False \<longleftrightarrow> (\<exists>n. t = JStr n \<and> n \<in> TYPE_NAMES - type_names v)"
  by (cases v) (auto simp: matches_type_def TYPE_NAMES_def raise_def)

lemma matches_any_iff:
  "matches_any v ts = Inr True \<longleftrightarrow> (\<exists>us ws. ts = map JStr us @ ws \<and> one_of_types v us)"
proof (induction ts)
  case Nil
  then show ?case by (simp add: one_of_types_def)
next
  case (Cons t ts)
  have "matches_any v (t # ts) = Inr True \<longleftrightarrow>
      matches_type v t = Inr True \<or> matches_type v t = Inr False \<and> matches_any v ts = Inr True"
    by (cases "matches_type v t") auto
  also have "\<dots> \<longleftrightarrow> (\<exists>us ws. t # ts = map JStr us @ ws \<and> one_of_types v us)"
  proof (intro iffI; elim disjE conjE exE)
    assume "matches_type v t = Inr True"
    then obtain n where n: "t = JStr n" "n \<in> type_names v" by (auto simp: matches_type_iff)
    then have "one_of_types v [n]" "t # ts = map JStr [n] @ ts" by (force simp: one_of_types_def)+
    then show "\<exists>us ws. t # ts = map JStr us @ ws \<and> one_of_types v us" by blast
  next
    assume "matches_type v t = Inr False" "matches_any v ts = Inr True"
    then obtain n us ws where n: "t = JStr n" "n \<in> TYPE_NAMES" "ts = map JStr us @ ws" "one_of_types v us"
      unfolding matches_type_False Cons.IH by blast
    obtain a m b where "us = a @ m # b" "m \<in> type_names v" "set a \<subseteq> TYPE_NAMES"
      using n(4) unfolding one_of_types_def by blast
    then have "n # us = (n # a) @ m # b \<and> m \<in> type_names v \<and> set (n # a) \<subseteq> TYPE_NAMES" using n(2) by simp
    then have "one_of_types v (n # us)" unfolding one_of_types_def by blast
    moreover have "t # ts = map JStr (n # us) @ ws" using n by simp
    ultimately show "\<exists>us ws. t # ts = map JStr us @ ws \<and> one_of_types v us" by blast
  next
    fix us ws
    assume eq: "t # ts = map JStr us @ ws" and "one_of_types v us"
    then obtain a m b where u: "us = a @ m # b" "m \<in> type_names v" "set a \<subseteq> TYPE_NAMES"
      unfolding one_of_types_def by blast
    show "matches_type v t = Inr True \<or> matches_type v t = Inr False \<and> matches_any v ts = Inr True"
    proof (cases a)
      case Nil
      then show ?thesis using u eq by (simp add: matches_type_iff)
    next
      case (Cons n a')
      then have t: "t = JStr n" "n \<in> TYPE_NAMES" "ts = map JStr (a' @ m # b) @ ws" using u eq by simp_all
      have "one_of_types v (a' @ m # b)" using u Cons unfolding one_of_types_def by force
      then have "matches_any v ts = Inr True" unfolding Cons.IH using t(3) by blast
      then show ?thesis using t by (auto simp: matches_type_iff matches_type_False)
    qed
  qed
  finally show ?case .
qed

lemma check_type_iff: "check_type v s = Inr d \<longleftrightarrow>
    type_conforms v s \<and> d = (v = JNull \<and> oget s ''type'' \<noteq> JNull)"
proof -
  have one: "matches_any v [JStr n] = Inr True \<longleftrightarrow> n \<in> type_names v" for n
    by (cases "matches_type v (JStr n)") (use matches_type_iff [of v "JStr n"] in auto)
  have keys: "(\<exists>us ws. map (\<lambda>kv. JStr (fst kv)) kvs = map JStr us @ ws \<and> one_of_types v us) \<longleftrightarrow> one_of_types v (map fst kvs)"
    for kvs :: obj
  proof (intro iffI; (elim exE conjE)?)
    fix us ws assume m: "map (\<lambda>kv. JStr (fst kv)) kvs = map JStr us @ ws" and o: "one_of_types v us"
    have "map fst kvs = us @ drop (length us) (map fst kvs)"
      using arg_cong [OF m, of "\<lambda>l. map (\<lambda>x. case x of JStr n \<Rightarrow> n | _ \<Rightarrow> []) (take (length us) l)"]
      by (simp add: comp_def take_map) (metis append_take_drop_id take_map)
    moreover have "one_of_types v (us @ zs)" for zs using o unfolding one_of_types_def by force
    ultimately show "one_of_types v (map fst kvs)" by metis
  next
    assume "one_of_types v (map fst kvs)"
    moreover have "map (\<lambda>kv. JStr (fst kv)) kvs = map JStr (map fst kvs) @ []" by simp
    ultimately show "\<exists>us ws. map (\<lambda>kv. JStr (fst kv)) kvs = map JStr us @ ws \<and> one_of_types v us" by blast
  qed
  have m: "rbind (matches_any v ts) (\<lambda>b. if b then Inr (v = JNull) else raise SchemaValidationError ''unexpected type'') = Inr d
      \<longleftrightarrow> matches_any v ts = Inr True \<and> d = (v = JNull)" for ts
    by (cases "matches_any v ts") (auto simp: raise_def)
  define ty where "ty = oget s ''type''"
  have "check_type v s = (if ty = JNull then Inr False
      else rbind (if is_str ty then Inr [ty] else elements ty) (\<lambda>ts. rbind (matches_any v ts)
        (\<lambda>b. if b then Inr (v = JNull) else raise SchemaValidationError ''unexpected type'')))"
    by (simp only: check_type_def ty_def Let_def)
  moreover have "type_conforms v s = (case ty of JNull \<Rightarrow> True | JStr t \<Rightarrow> t \<in> type_names v
      | JArr ts \<Rightarrow> matches_any v ts = Inr True | JObj kvs \<Rightarrow> matches_any v (map (\<lambda>kv. JStr (fst kv)) kvs) = Inr True | _ \<Rightarrow> False)"
    unfolding type_conforms_def ty_def matches_any_iff keys ..
  ultimately show ?thesis
    unfolding ty_def [symmetric] by (cases ty) (auto simp: m one raise_def simp del: matches_any.simps)
qed

lemma contains_iff: "contains u t \<longleftrightarrow> (\<exists>p q. t = p @ u @ q)"
proof (induction t)
  case (Cons c t)
  then show ?case by (auto simp: prefix_def Cons_eq_append_conv)
qed auto

lemma member_in_iff: "member_in v c = Inr True \<longleftrightarrow>
    (case c of
        JArr ys \<Rightarrow> (\<exists>y \<in> set ys. py_eq y v)
      | JObj kvs \<Rightarrow> (\<exists>k \<in> fst ` set kvs. v = JStr k)
      | JStr t \<Rightarrow> (\<exists>p u q. v = JStr u \<and> t = p @ u @ q)
      | _ \<Rightarrow> False)"
proof (cases c)
  case (JObj kvs)
  then show ?thesis by (simp add: member_in_def hash_in_True) blast
next
  case (JStr t)
  then show ?thesis by (cases v) (auto simp: member_in_def contains_iff raise_def)
qed (auto simp: member_in_def list_ex_iff raise_def)

lemma check_enum_iff: "check_enum v s = Inr () \<longleftrightarrow> enum_conforms v s"
proof -
  have "''enum'' \<in> fst ` set s \<longleftrightarrow> ohas s ''enum''" by (simp add: ohas_def)
  then show ?thesis
    unfolding enum_conforms_def member_in_iff [symmetric]
    by (cases "member_in v (oget s ''enum'')") (auto simp: check_enum_def)
qed

lemma check_required_iff: "check_required kvs s = Inr () \<longleftrightarrow>
    (case oget_or s ''required'' (JArr []) of
        JArr ks \<Rightarrow> set ks \<subseteq> (\<lambda>kv. JStr (fst kv)) ` set kvs
      | JObj ks \<Rightarrow> fst ` set ks \<subseteq> fst ` set kvs
      | JStr t \<Rightarrow> (\<lambda>c. [c]) ` set t \<subseteq> fst ` set kvs
      | _ \<Rightarrow> False)"
proof -
  define req where "req = oget_or s ''required'' (JArr [])"
  define f where "f ks =
     rbind (rmap (\<lambda>k. rbind (hash_in k (map fst kvs)) (\<lambda>b. Inr (k, b))) ks) (\<lambda>found.
     let missing = map fst (filter (\<lambda>kb. \<not> snd kb) found) in
     if missing = [] then Inr ()
     else if list_all is_str missing then raise SchemaValidationError ''missing required keys''
     else raise TypeError ''sequence item: expected str instance'')" for ks
  have each: "f ks = Inr () \<longleftrightarrow> (\<forall>k \<in> set ks. hash_in k (map fst kvs) = Inr True)" for ks
  proof (cases "rmap (\<lambda>k. rbind (hash_in k (map fst kvs)) (\<lambda>b. Inr (k, b))) ks")
    case (Inl e)
    moreover have "\<exists>bs. rmap (\<lambda>k. rbind (hash_in k (map fst kvs)) (\<lambda>b. Inr (k, b))) ks = Inr bs"
      if "\<forall>k \<in> set ks. hash_in k (map fst kvs) = Inr True"
      using that by (induction ks) auto
    ultimately show ?thesis by (auto simp: f_def)
  next
    case (Inr found)
    then have "(filter (\<lambda>kb. \<not> snd kb) found = []) \<longleftrightarrow> (\<forall>k \<in> set ks. hash_in k (map fst kvs) = Inr True)"
      by (induction ks arbitrary: found) (auto split: if_splits)
    then show ?thesis by (simp add: Inr Let_def raise_def f_def)
  qed
  have "check_required kvs s = rbind (elements req) f"
    unfolding check_required_def req_def f_def ..
  then show ?thesis
    unfolding req_def [symmetric] by (cases req) (auto simp: each hash_in_True raise_def dest!: subsetD)
qed

lemma check_extras_iff: "check_extras kvs s = Inr () \<longleftrightarrow>
    (oget s ''additionalProperties'' = JBool False \<longrightarrow>
     (case oget_or s ''properties'' (JObj []) of
        JObj props \<Rightarrow> fst ` set kvs \<subseteq> fst ` set props
      | JArr ks \<Rightarrow> (\<forall>k \<in> set ks. \<not> is_list k \<and> \<not> is_dict k) \<and> (\<lambda>kv. JStr (fst kv)) ` set kvs \<subseteq> set ks
      | JStr t \<Rightarrow> fst ` set kvs \<subseteq> (\<lambda>c. [c]) ` set t
      | _ \<Rightarrow> False))"
proof -
  define props where "props = oget_or s ''properties'' (JObj [])"
  define closed where "closed = (oget s ''additionalProperties'' = JBool False)"
  show ?thesis
    unfolding check_extras_def props_def [symmetric] closed_def [symmetric]
    by (cases props) (auto simp: list_all_iff raise_def image_iff)
qed

lemma object_conforms_iff:
  "object_conforms kvs s \<longleftrightarrow> check_required kvs s = Inr () \<and> check_extras kvs s = Inr ()
     \<and> rall (\<lambda>kv. rbind (child_schema s (fst kv)) (\<lambda>_. Inr ())) kvs = Inr ()"
proof -
  define props where "props = oget_or s ''properties'' (JObj [])"
  define closed where "closed = (oget s ''additionalProperties'' = JBool False)"
  have "rall (\<lambda>kv. rbind (child_schema s (fst kv)) (\<lambda>_. Inr ())) kvs = Inr () \<longleftrightarrow> kvs = [] \<or> is_dict props"
    unfolding child_schema_def props_def [symmetric]
    by (cases props; cases kvs) (auto simp: list_all_iff raise_def)
  then show ?thesis
    unfolding object_conforms_def check_required_iff check_extras_iff props_def [symmetric] closed_def [symmetric] Let_def
    by (cases props) auto
qed

lemma num_less_iff: "num_less lt a b = Inr False \<longleftrightarrow> at_least lt a b"
  by (cases a; cases b) (auto simp: num_less_def at_least_def raise_def)

lemma check_number_iff: "check_number lt v s = Inr () \<longleftrightarrow>
    (oget s ''minimum'' \<noteq> JNull \<longrightarrow> at_least lt v (oget s ''minimum''))
     \<and> (oget s ''maximum'' \<noteq> JNull \<longrightarrow> at_least lt (oget s ''maximum'') v)"
proof -
  have "rbind (num_less lt a b) (\<lambda>b. check (\<not> b) SchemaValidationError m) = Inr () \<longleftrightarrow> at_least lt a b" for a b m
    unfolding num_less_iff [symmetric] by (cases "num_less lt a b") auto
  then show ?thesis by (simp add: check_number_def Let_def split del: if_split) simp
qed

lemma check_array_iff: "check_array xs s = Inr () \<longleftrightarrow> keywords_conform rx lt (JArr xs) s"
  by (auto simp: check_array_def distinct_conv_nth) (metis nat_neq_iff nth_map)+

lemma check_string_iff: "check_string rx t s = Inr () \<longleftrightarrow> keywords_conform rx lt (JStr t) s"
  by (cases "oget s ''pattern''") (auto simp: check_string_def split: option.splits)

lemma local_checks_iff: "local_checks rx lt v schema = Inr () \<longleftrightarrow> conforms_here rx lt v schema"
proof (cases schema)
  case (JObj s)
  have here: "rbind (check_type v s) (\<lambda>d. if d then Inr () else rbind (check_enum v s) (\<lambda>_. m)) = Inr ()
      \<longleftrightarrow> type_conforms v s \<and> (v = JNull \<and> oget s ''type'' \<noteq> JNull \<or> enum_conforms v s \<and> m = Inr ())" for m
    using check_type_iff [of v s] check_enum_iff [of v s]
    by (cases "check_type v s"; cases "check_enum v s") auto
  show ?thesis
    unfolding local_checks_def JObj json.case conforms_here_def here
    by (cases v) (auto simp: object_conforms_iff check_array_iff [of _ s rx lt] check_string_iff [of rx _ s lt]
        check_number_iff simp del: rall_Inr)
qed (simp_all add: local_checks_def conforms_here_def raise_def)

text \<open>
  Claim C24. A document is accepted exactly when it conforms: every part reached through declared
  properties and array items has a type its schema admits, lies in its enumeration, has the
  required keys and no undeclared one where these are closed, no repeated item where items are unique, and keeps
  the bounds on length, pattern and size. The schema of a part that is not an object conforms to nothing.
\<close>

theorem validate_schema_deep:
  "validate_schema rx lt v s = Inr () \<longleftrightarrow>
     {p. sub_step\<^sup>*\<^sup>* (v, s) p} \<subseteq> {(u, t). conforms_here rx lt u t}"
  unfolding validate_schema_parts local_checks_iff by auto

end
