(* ===== verification/Command_Safety.thy ===== *)
theory Command_Safety
  imports Contracts Effects
begin

section \<open>Command safety\<close>

text \<open>
  \<^verbatim>\<open>SafetyPolicy\<close> of \<^verbatim>\<open>validation.py\<close>: the checks every command of the
  controller passes before a process is started, and the observations they leave. An argument
  array is a list of texts, as the annotation says, so the test for text never fails. The state
  of a call is the context variable \<^verbatim>\<open>_observation_sink\<close>: \<open>None\<close>, or the
  observations made so far. \<open>rp\<close> is \<^verbatim>\<open>str(path.expanduser().resolve())\<close>, which reads
  the file system.
\<close>

definition PROHIBITED_WORDS :: "string list" where
  "PROHIBITED_WORDS = [''deploy'', ''deployment'', ''publish'', ''publication'', ''release'',
     ''notarize'', ''notarization'']"

definition SAFE_GIT_READ_COMMANDS :: "string list" where
  "SAFE_GIT_READ_COMMANDS = [''branch'', ''check-ref-format'', ''check-ignore'', ''diff'', ''diff-tree'',
     ''for-each-ref'', ''log'', ''ls-files'', ''merge-base'', ''rev-list'', ''rev-parse'', ''show'',
     ''status'', ''symbolic-ref'', ''worktree'']"

text \<open>\<^verbatim>\<open>Path(a).name\<close>\<close>

definition path_name :: "string \<Rightarrow> string" where
  "path_name a = (let ps = posix_parts a in if ps = [] then [] else last ps)"

text \<open>\<^verbatim>\<open>re.split(r"[^a-z0-9_-]+", item)\<close> without the empty parts: the maximal runs of the
  other characters.\<close>

definition token_char :: "char \<Rightarrow> bool" where
  "token_char c = (let n = of_char c :: nat in
     (97 \<le> n \<and> n \<le> 122) \<or> (48 \<le> n \<and> n \<le> 57) \<or> n = 95 \<or> n = 45)"

fun tokens_aux :: "string \<Rightarrow> string \<Rightarrow> string list" where
  "tokens_aux acc [] = (if acc = [] then [] else [rev acc])"
| "tokens_aux acc (c # cs) =
     (if token_char c then tokens_aux (c # acc) cs
      else if acc = [] then tokens_aux [] cs else rev acc # tokens_aux [] cs)"

definition tokens_of :: "string list \<Rightarrow> string list" where
  "tokens_of items = concat (map (tokens_aux []) items)"

definition is_swift_release_build :: "string \<Rightarrow> string list \<Rightarrow> bool" where
  "is_swift_release_build executable lowered \<longleftrightarrow> executable = ''swift''
     \<and> lowered \<in> {[''build'', ''-c'', ''release''], [''build'', ''--configuration'', ''release'']}"

subsection \<open>Observations\<close>

definition category_tokens :: "(string \<times> string) list" where
  "category_tokens = [(''deploy'', ''deploy''), (''deployment'', ''deploy''), (''publish'', ''publish''),
     (''publication'', ''publish''), (''release'', ''release''), (''notarize'', ''notarize''),
     (''notarization'', ''notarize''), (''notarytool'', ''notarize'')]"

definition prohibited_categories :: "string \<Rightarrow> string list \<Rightarrow> string \<Rightarrow> string list" where
  "prohibited_categories executable lowered authority =
     (let git = (if executable = ''git'' \<and> lowered \<noteq> [] \<and> hd lowered \<in> {''push'', ''tag''} then [hd lowered] else []);
          named = map snd (filter (\<lambda>tc. fst tc \<in> set (tokens_of lowered)) category_tokens);
          found = git @ named
      in sorted_set (if authority = ''configured_validation'' \<and> is_swift_release_build executable lowered
                     then filter (\<lambda>c. c \<noteq> ''release'') found else found))"

definition observation :: "(string \<Rightarrow> string) \<Rightarrow> string list \<Rightarrow> string \<Rightarrow> string \<Rightarrow> obj" where
  "observation rp argv cwd authority =
     (let executable = lower (path_name (hd argv)); lowered = map lower (tl argv)
      in [(''authority'', JStr authority), (''executable'', JStr executable),
          (''operation'', if lowered = [] then JNull else JStr (hd lowered)),
          (''prohibited_categories'', strs (prohibited_categories executable lowered authority)),
          (''cwd_fingerprint'', JStr (sha256_hex (rp cwd)))])"

definition observe_command_attempt ::
  "(string \<Rightarrow> string) \<Rightarrow> string list \<Rightarrow> string \<Rightarrow> string \<Rightarrow> (obj list option, unit) eff" where
  "observe_command_attempt rp argv cwd authority =
     smodify (\<lambda>sink. case sink of None \<Rightarrow> None
       | Some obs \<Rightarrow> if argv = [] then Some obs else Some (obs @ [observation rp argv cwd authority]))"

subsection \<open>Authorisation\<close>

abbreviation unsafe :: "string \<Rightarrow> unit res" where
  "unsafe m \<equiv> raise SafetyViolation m"

definition controller_git :: "string list \<Rightarrow> string list \<Rightarrow> unit res" where
  "controller_git argv lowered =
     (case lowered of
        [] \<Rightarrow> unsafe ''unstructured git invocation is prohibited''
      | operation # _ \<Rightarrow>
          if operation \<in> set [''push'', ''tag'', ''merge'', ''stash'', ''clean'', ''reset'', ''rebase'']
            then unsafe ''git operation is prohibited for the controller''
          else if operation = ''checkout'' \<or> ''--force'' \<in> set lowered \<or> ''-f'' \<in> set lowered
               \<or> ''-d'' \<in> set lowered \<or> ''-D'' \<in> set (tl argv)
            then unsafe ''discarding checkout, force, or branch deletion is prohibited''
          else if operation \<notin> set SAFE_GIT_READ_COMMANDS
            then unsafe ''git operation is not on the controller allowlist''
          else Inr ())"

definition controller_command ::
  "(string \<Rightarrow> string) \<Rightarrow> string list \<Rightarrow> string \<Rightarrow> string option \<Rightarrow> bool \<Rightarrow> unit res" where
  "controller_command rp argv cwd registered allow_codex =
     (if argv = [] \<or> [] \<in> set argv then unsafe ''commands must be non-empty argument arrays''
      else if (case registered of None \<Rightarrow> False | Some r \<Rightarrow> rp cwd \<noteq> rp r)
        then unsafe ''operation outside the registered repository''
      else (let executable = lower (path_name (hd argv)); lowered = map lower (tl argv) in
        if list_ex (\<lambda>w. w \<in> set (tokens_of lowered)) PROHIBITED_WORDS
          then unsafe ''release, publication, deployment, and notarization operations are prohibited''
        else if executable = ''git'' then controller_git argv lowered
        else if executable = ''codex'' \<and> allow_codex then
          (if ''--dangerously-bypass-approvals-and-sandbox'' \<in> set lowered \<or> ''--ignore-rules'' \<in> set lowered
           then unsafe ''unsafe Codex launcher options are prohibited'' else Inr ())
        else unsafe ''controller executable is not allowlisted''))"

definition validate_controller_command ::
  "(string \<Rightarrow> string) \<Rightarrow> string list \<Rightarrow> string \<Rightarrow> string option \<Rightarrow> bool \<Rightarrow> (obj list option, unit) eff" where
  "validate_controller_command rp argv cwd registered allow_codex =
     sbind (observe_command_attempt rp argv cwd ''controller'') (\<lambda>_.
     slift (controller_command rp argv cwd registered allow_codex))"

definition configured_command :: "(string \<Rightarrow> string) \<Rightarrow> string list \<Rightarrow> string \<Rightarrow> string \<Rightarrow> unit res" where
  "configured_command rp argv cwd registered =
     (if argv = [] \<or> [] \<in> set argv then unsafe ''configured commands must be non-empty argument arrays''
      else if rp cwd \<noteq> rp registered then unsafe ''configured command is outside the registered repository''
      else (let executable = lower (path_name (hd argv)); lowered = map lower (tl argv);
                all = tokens_of (executable # lowered);
                tokens = (if is_swift_release_build executable lowered
                          then filter (\<lambda>t. t \<noteq> ''release'') all else all) in
        if list_ex (\<lambda>w. w \<in> set tokens) PROHIBITED_WORDS \<or> ''notarytool'' \<in> set tokens
          then unsafe ''configured release, publication, deployment, and notarization operations are prohibited''
        else if executable \<in> set [''sh'', ''bash'', ''zsh'', ''dash'', ''fish''] \<and> ''-c'' \<in> set lowered
          then unsafe ''configured shell command strings are prohibited''
        else if executable = ''git'' \<and> (lowered = [] \<or> hd lowered \<notin> set SAFE_GIT_READ_COMMANDS)
          then unsafe ''configured git operation is not a read-only operation''
        else Inr ()))"

definition validate_configured_command ::
  "(string \<Rightarrow> string) \<Rightarrow> string list \<Rightarrow> string \<Rightarrow> string \<Rightarrow> (obj list option, unit) eff" where
  "validate_configured_command rp argv cwd registered =
     sbind (observe_command_attempt rp argv cwd ''configured_validation'') (\<lambda>_.
     slift (configured_command rp argv cwd registered))"

definition feature_branch_switch ::
  "(string \<Rightarrow> string) \<Rightarrow> string list \<Rightarrow> string \<Rightarrow> string \<Rightarrow> string \<Rightarrow> string option \<Rightarrow> unit res" where
  "feature_branch_switch rp argv cwd registered branch start =
     (if rp cwd \<noteq> rp registered then unsafe ''feature-branch recovery is outside the registered repository''
      else let expected = (case start of
               Some c \<Rightarrow> [''git'', ''switch'', ''-c'', branch, c]
             | None \<Rightarrow> [''git'', ''switch'', branch])
           in if argv \<noteq> expected then unsafe ''only the exact non-forced feature-branch switch is allowed''
              else Inr ())"

definition validate_feature_branch_switch ::
  "(string \<Rightarrow> string) \<Rightarrow> string list \<Rightarrow> string \<Rightarrow> string \<Rightarrow> string \<Rightarrow> string option \<Rightarrow> (obj list option, unit) eff" where
  "validate_feature_branch_switch rp argv cwd registered branch start =
     sbind (observe_command_attempt rp argv cwd ''feature_branch_switch'') (\<lambda>_.
     slift (feature_branch_switch rp argv cwd registered branch start))"

definition planning_path_ok :: "string \<Rightarrow> bool" where
  "planning_path_ok v \<longleftrightarrow> \<not> (is_absolute v \<or> ''..'' \<in> set (posix_parts v) \<or> as_posix v \<noteq> v)"

definition planning_subject :: "string \<Rightarrow> bool" where
  "planning_subject s \<longleftrightarrow> prefix ''factory: reconcile '' s \<or> prefix ''factory: scope '' s"

definition planning_git_mutation ::
  "(string \<Rightarrow> string) \<Rightarrow> string list \<Rightarrow> string \<Rightarrow> string \<Rightarrow> string list \<Rightarrow> string \<Rightarrow> unit res" where
  "planning_git_mutation rp argv cwd registered changed subject =
     (if rp cwd \<noteq> rp registered then unsafe ''planning Git mutation is outside the registered repository''
      else if changed = [] \<or> changed \<noteq> sorted_set changed
        then unsafe ''planning paths must be a non-empty sorted unique list''
      else if \<not> list_all planning_path_ok changed then unsafe ''unsafe planning path''
      else if argv \<noteq> [''git'', ''add'', ''--''] @ changed
           \<and> argv \<noteq> [''git'', ''commit'', ''-m'', subject, ''--''] @ changed
        then unsafe ''only exact planning-path staging and commit are allowed''
      else if take 2 argv = [''git'', ''commit'']
           \<and> (\<not> planning_subject subject \<or> ''--amend'' \<in> set argv \<or> ''--no-verify'' \<in> set argv)
        then unsafe ''planning commit subject or options are not authorized''
      else Inr ())"

definition validate_planning_git_mutation ::
  "(string \<Rightarrow> string) \<Rightarrow> string list \<Rightarrow> string \<Rightarrow> string \<Rightarrow> string list \<Rightarrow> string \<Rightarrow> (obj list option, unit) eff" where
  "validate_planning_git_mutation rp argv cwd registered changed subject =
     sbind (observe_command_attempt rp argv cwd ''planning_git_mutation'') (\<lambda>_.
     slift (planning_git_mutation rp argv cwd registered changed subject))"

text \<open>\<^verbatim>\<open>with observe_command_attempts()\<close>: the commands of the block run under a fresh
  sink, whose observations are the result; afterwards the outer sink is in place again, also
  when the block raises.\<close>

definition observe_command_attempts :: "(obj list option, 'a) eff \<Rightarrow> (obj list option, 'a \<times> obj list) eff" where
  "observe_command_attempts block =
     (\<lambda>outer. case block (Some []) of
        (Inl e, _) \<Rightarrow> (Inl e, outer)
      | (Inr x, sink) \<Rightarrow> (Inr (x, case sink of Some obs \<Rightarrow> obs | None \<Rightarrow> []), outer))"

subsection \<open>Words\<close>

text \<open>A word of a text: a run of word characters that no word character borders.\<close>

definition word_of :: "string \<Rightarrow> string \<Rightarrow> bool" where
  "word_of w s \<longleftrightarrow> w \<noteq> [] \<and> list_all token_char w
     \<and> (\<exists>u v. s = u @ w @ v \<and> (u = [] \<or> \<not> token_char (last u)) \<and> (v = [] \<or> \<not> token_char (hd v)))"

lemma word_ofI:
  "w \<noteq> [] \<Longrightarrow> list_all token_char w \<Longrightarrow> s = u @ w @ v \<Longrightarrow> u = [] \<or> \<not> token_char (last u) \<Longrightarrow>
    v = [] \<or> \<not> token_char (hd v) \<Longrightarrow> word_of w s"
  unfolding word_of_def by blast

lemma tokens_aux_split:
  "list_all token_char acc \<Longrightarrow> tokens_aux acc s =
     (let w = rev acc @ takeWhile token_char s; r = dropWhile token_char s
      in (if w = [] then [] else [w]) @ (case r of [] \<Rightarrow> [] | c # cs \<Rightarrow> tokens_aux [] cs))"
  by (induction s arbitrary: acc) (auto simp: Let_def)

lemma word_of_border:
  assumes "\<not> token_char c" "list_all token_char t"
  shows "word_of w (t @ c # s) \<longleftrightarrow> (w \<noteq> [] \<and> w = t) \<or> word_of w s"
proof
  assume "word_of w (t @ c # s)"
  then obtain u v where w: "w \<noteq> []" "list_all token_char w" and e: "t @ c # s = u @ w @ v"
    and u: "u = [] \<or> \<not> token_char (last u)" and v: "v = [] \<or> \<not> token_char (hd v)"
    by (auto simp: word_of_def)
  consider (left) x where "u = t @ c # x" "s = x @ w @ v" | (in_t) "length u \<le> length t"
  proof (cases "length u \<le> length t")
    case False
    then have "prefix (t @ [c]) u"
      using e by (metis append_Cons append_Nil append_assoc prefix_length_prefix prefixI
          length_append_singleton Suc_leI linorder_not_le)
    then obtain x where "u = (t @ [c]) @ x" by (rule prefixE)
    with e that(1) [of x] show ?thesis by simp
  qed blast
  then show "(w \<noteq> [] \<and> w = t) \<or> word_of w s"
  proof cases
    case left
    have "x = [] \<or> \<not> token_char (last x)" using u left(1) by (auto split: if_splits)
    then show ?thesis using left(2) w v by (auto simp: word_of_def)
  next
    case in_t
    have "u = take (length u) t" using e in_t by (metis append_eq_conv_conj append_take_drop_id take_append
          diff_is_0_eq take0 append_Nil2)
    then have "set u \<subseteq> set t" by (metis set_take_subset)
    then have "u = []" using u assms(2) by (cases u rule: rev_cases) (auto simp: list_all_iff)
    then have e': "t @ c # s = w @ v" using e by simp
    have tw: "takeWhile token_char (t @ c # s) = t" using assms by (simp add: list_all_iff)
    have "takeWhile token_char (w @ v) = w" using w(2) v by (cases v) (auto simp: list_all_iff)
    then show ?thesis using tw e' w(1) by simp
  qed
next
  assume "(w \<noteq> [] \<and> w = t) \<or> word_of w s"
  then show "word_of w (t @ c # s)"
  proof
    assume "w \<noteq> [] \<and> w = t"
    then show ?thesis using assms by (intro word_ofI [of _ _ "[]" "c # s"]) auto
  next
    assume "word_of w s"
    then obtain u v where "w \<noteq> []" "list_all token_char w" "s = u @ w @ v"
      "u = [] \<or> \<not> token_char (last u)" "v = [] \<or> \<not> token_char (hd v)"
      by (auto simp: word_of_def)
    moreover from this have "\<not> token_char (last (t @ c # u))" using assms(1) by auto
    ultimately show ?thesis
      by (intro word_ofI [of _ _ "t @ c # u" v]) auto
  qed
qed

lemma word_of_all:
  assumes "list_all token_char t"
  shows "word_of w t \<longleftrightarrow> w \<noteq> [] \<and> w = t"
proof
  assume "word_of w t"
  then obtain u v where e: "w \<noteq> []" "t = u @ w @ v"
    "u = [] \<or> \<not> token_char (last u)" "v = [] \<or> \<not> token_char (hd v)"
    by (auto simp: word_of_def)
  have "u = []" using e assms by (cases u rule: rev_cases) auto
  moreover have "v = []" using e assms by (cases v) auto
  ultimately show "w \<noteq> [] \<and> w = t" using e by simp
next
  assume "w \<noteq> [] \<and> w = t"
  then show "word_of w t" using assms by (intro word_ofI [of _ _ "[]" "[]"]) auto
qed

text \<open>Splitting at the other characters finds exactly the words.\<close>

lemma tokens_words: "w \<in> set (tokens_aux [] s) \<longleftrightarrow> word_of w s"
proof (induction s rule: length_induct)
  case (1 s)
  define t where "t = takeWhile token_char s"
  have t: "list_all token_char t" by (auto simp: t_def list_all_iff dest: set_takeWhileD)
  show ?case
  proof (cases "dropWhile token_char s")
    case Nil
    then have "s = t" by (metis t_def takeWhile_dropWhile_id append_Nil2)
    moreover have "tokens_aux [] s = (if t = [] then [] else [t])"
      unfolding t_def tokens_aux_split [of "[]" s, simplified] Nil by (simp add: Let_def)
    ultimately show ?thesis using word_of_all [OF t, of w] by auto
  next
    case (Cons c r)
    then have s: "s = t @ c # r" by (metis t_def takeWhile_dropWhile_id)
    have c: "\<not> token_char c" using Cons by (metis dropWhile_eq_Cons_conv)
    have "w \<in> set (tokens_aux [] r) \<longleftrightarrow> word_of w r" using "1.IH" s by simp
    then show ?thesis
      using word_of_border [OF c t, of w r] tokens_aux_split [of "[]" s] Cons unfolding s [symmetric]
      by (auto simp: Let_def t_def [symmetric])
  qed
qed

lemma tokens_of_words: "w \<in> set (tokens_of items) \<longleftrightarrow> (\<exists>s \<in> set items. word_of w s)"
  by (simp add: tokens_of_def tokens_words)

subsection \<open>What is authorised\<close>

text \<open>No word of an argument, in any case of letters, is a prohibited one.\<close>

definition free_of_releases :: "string list \<Rightarrow> bool" where
  "free_of_releases args \<longleftrightarrow> (\<forall>a \<in> set args. \<forall>w \<in> set PROHIBITED_WORDS. \<not> word_of w (lower a))"

lemma no_prohibited:
  "\<not> list_ex (\<lambda>w. w \<in> set (tokens_of (map lower args))) PROHIBITED_WORDS \<longleftrightarrow> free_of_releases args"
  by (auto simp: list_ex_iff tokens_of_words free_of_releases_def)

lemma controller_git_Inr:
  "controller_git argv lowered = Inr () \<longleftrightarrow> lowered \<noteq> [] \<and> hd lowered \<in> set SAFE_GIT_READ_COMMANDS
     \<and> set lowered \<inter> {''--force'', ''-f'', ''-d''} = {} \<and> ''-D'' \<notin> set (tl argv)"
proof (cases lowered)
  case (Cons op rest)
  have "op \<notin> set [''push'', ''tag'', ''merge'', ''stash'', ''clean'', ''reset'', ''rebase'']" "op \<noteq> ''checkout''"
    if "op \<in> set SAFE_GIT_READ_COMMANDS"
    using that by (auto simp: SAFE_GIT_READ_COMMANDS_def)
  with Cons show ?thesis by (auto simp: controller_git_def)
qed (simp add: controller_git_def)

lemma controller_command_Inr:
  "controller_command rp argv cwd registered allow = Inr () \<longleftrightarrow>
     argv \<noteq> [] \<and> [] \<notin> set argv \<and> (\<forall>r. registered = Some r \<longrightarrow> rp cwd = rp r) \<and> free_of_releases (tl argv)
     \<and> (lower (path_name (hd argv)) = ''git'' \<and> controller_git argv (map lower (tl argv)) = Inr ()
        \<or> lower (path_name (hd argv)) = ''codex'' \<and> allow
          \<and> set (map lower (tl argv)) \<inter> {''--dangerously-bypass-approvals-and-sandbox'', ''--ignore-rules''} = {})"
  unfolding controller_command_def Let_def no_prohibited [symmetric]
  by (auto split: option.splits)

text \<open>
  Claim C25. The exact set of commands the controller accepts, with or without a registered repository: when one is
  given, the command runs in it, and when none is given the directory is not restricted. No argument contains a
  release word, in whatever case and between whatever separators. A \<^verbatim>\<open>git\<close> command has its first
  argument on the read list and none of the four arguments \<^verbatim>\<open>--force\<close>, \<^verbatim>\<open>-f\<close>,
  \<^verbatim>\<open>-d\<close> and \<^verbatim>\<open>-D\<close>; these are the only ones refused, so the long form
  \<^verbatim>\<open>git branch --delete\<close> is accepted (\<open>command_policy_gaps\<close> below). Any other command is
  \<^verbatim>\<open>codex\<close>, when the caller allows it, without its two unsafe options.
\<close>

theorem controller_command_confined:
  "fst (validate_controller_command rp argv cwd registered allow sink) = Inr () \<longleftrightarrow>
     argv \<noteq> [] \<and> [] \<notin> set argv \<and> (case registered of None \<Rightarrow> True | Some repo \<Rightarrow> rp cwd = rp repo)
     \<and> free_of_releases (tl argv)
     \<and> (lower (path_name (hd argv)) = ''git'' \<and> tl argv \<noteq> []
          \<and> lower (hd (tl argv)) \<in> set SAFE_GIT_READ_COMMANDS
          \<and> set (map lower (tl argv)) \<inter> {''--force'', ''-f'', ''-d''} = {} \<and> ''-D'' \<notin> set (tl argv)
        \<or> lower (path_name (hd argv)) = ''codex'' \<and> allow
          \<and> set (map lower (tl argv)) \<inter> {''--dangerously-bypass-approvals-and-sandbox'', ''--ignore-rules''} = {})"
proof -
  have "fst (validate_controller_command rp argv cwd registered allow sink)
      = controller_command rp argv cwd registered allow"
    by (simp add: validate_controller_command_def observe_command_attempt_def eff_runs eff_simps)
  moreover have "(\<forall>r. registered = Some r \<longrightarrow> rp cwd = rp r) \<longleftrightarrow> (case registered of None \<Rightarrow> True | Some repo \<Rightarrow> rp cwd = rp repo)"
    by (simp split: option.split)
  ultimately show ?thesis
    by (cases "tl argv") (auto simp: controller_command_Inr controller_git_Inr)
qed

subsection \<open>Observation of every attempt\<close>

datatype attempt =
    Controller "string list" string "string option" bool
  | Configured "string list" string string
  | Switch "string list" string string string "string option"
  | Planning "string list" string string "string list" string

fun attempt_call :: "(string \<Rightarrow> string) \<Rightarrow> attempt \<Rightarrow> (obj list option, unit) eff" where
  "attempt_call rp (Controller argv cwd r allow) = validate_controller_command rp argv cwd r allow"
| "attempt_call rp (Configured argv cwd r) = validate_configured_command rp argv cwd r"
| "attempt_call rp (Switch argv cwd r b c) = validate_feature_branch_switch rp argv cwd r b c"
| "attempt_call rp (Planning argv cwd r ps m) = validate_planning_git_mutation rp argv cwd r ps m"

fun attempt_observation :: "(string \<Rightarrow> string) \<Rightarrow> attempt \<Rightarrow> obj" where
  "attempt_observation rp (Controller argv cwd r allow) = observation rp argv cwd ''controller''"
| "attempt_observation rp (Configured argv cwd r) = observation rp argv cwd ''configured_validation''"
| "attempt_observation rp (Switch argv cwd r b c) = observation rp argv cwd ''feature_branch_switch''"
| "attempt_observation rp (Planning argv cwd r ps m) = observation rp argv cwd ''planning_git_mutation''"

fun attempt_argv :: "attempt \<Rightarrow> string list" where
  "attempt_argv (Controller argv _ _ _) = argv"
| "attempt_argv (Configured argv _ _) = argv"
| "attempt_argv (Switch argv _ _ _ _) = argv"
| "attempt_argv (Planning argv _ _ _ _) = argv"

text \<open>A block of code that makes the attempts one after the other and handles what each raises.\<close>

fun attempts :: "(string \<Rightarrow> string) \<Rightarrow> attempt list \<Rightarrow> (obj list option, unit res list) eff" where
  "attempts rp [] s = (Inr [], s)"
| "attempts rp (a # as) s =
     (case attempt_call rp a s of (r, t) \<Rightarrow>
      (case attempts rp as t of (Inr rs, u) \<Rightarrow> (Inr (r # rs), u) | (Inl e, u) \<Rightarrow> (Inl e, u)))"

lemma attempt_call_state:
  "attempt_call rp a sink =
     (fst (attempt_call rp a None),
      case sink of None \<Rightarrow> None
      | Some obs \<Rightarrow> Some (obs @ (if attempt_argv a = [] then [] else [attempt_observation rp a])))"
  by (cases a; cases sink)
    (simp_all add: validate_controller_command_def validate_configured_command_def
      validate_feature_branch_switch_def validate_planning_git_mutation_def observe_command_attempt_def
      eff_runs eff_simps)

lemma attempts_observed:
  "attempts rp as (Some obs) = (Inr (map (\<lambda>a. fst (attempt_call rp a None)) as),
     Some (obs @ map (attempt_observation rp) (filter (\<lambda>a. attempt_argv a \<noteq> []) as)))"
proof (induction as arbitrary: obs)
  case (Cons a as)
  show ?case using Cons by (simp add: attempt_call_state [of rp a "Some obs"])
qed simp

text \<open>
  Inside an observed block every attempted command leaves exactly one observation, in
  the order of the attempts and whether it was authorised or refused; observing does not change any
  outcome, and nothing reaches the sink outside the block.
\<close>

theorem command_attempts_observed:
  "observe_command_attempts (attempts rp as) outer =
     (Inr (map (\<lambda>a. fst (attempt_call rp a None)) as,
           map (attempt_observation rp) (filter (\<lambda>a. attempt_argv a \<noteq> []) as)), outer)"
  by (simp add: observe_command_attempts_def attempts_observed)

text \<open>
  Commands the refusals name are authorised when they are spelled differently: a long
  branch deletion by the controller, any branch deletion by a configured command, which only looks at
  the first argument, a shell command string behind combined switches, and the staging of the whole
  working tree by a planning commit.
\<close>

theorem command_policy_gaps:
  "controller_command id [''git'', ''branch'', ''--delete'', ''feature''] ''/r'' (Some ''/r'') False = Inr ()
   \<and> configured_command id [''git'', ''branch'', ''-D'', ''main''] ''/r'' ''/r'' = Inr ()
   \<and> configured_command id [''bash'', ''-ec'', ''git push''] ''/r'' ''/r'' = Inr ()
   \<and> planning_git_mutation id [''git'', ''add'', ''--'', ''.''] ''/r'' ''/r'' [''.''] ''factory: scope x'' = Inr ()"
  by (intro conjI) code_simp+

end
