(* ===== verification/Command_Authority.thy ===== *)
theory Command_Authority
  imports Contracts
begin

section \<open>Command classification and transaction authority\<close>

text \<open>
  \<^verbatim>\<open>command_authority.py\<close>: which commands decide a transaction. The five sets of argument
  arrays of a \<^verbatim>\<open>CommandAuthority\<close> are the record \<open>command_authority\<close>; \<open>rt\<close> is
  \<^verbatim>\<open>redact_text\<close>.
\<close>

record command_record =
  cr_command :: "string list"
  cr_classification :: command_category
  cr_configured_source :: "string option"
  cr_exit_status :: int
  cr_effect_on_transaction :: string
  cr_diagnostic :: "string option"

definition authoritative :: "command_record \<Rightarrow> bool" where
  "authoritative r \<longleftrightarrow> cr_classification r \<in> set AUTHORITATIVE_COMMAND_CATEGORIES"

definition command_passed :: "command_record \<Rightarrow> bool" where
  "command_passed r \<longleftrightarrow> cr_exit_status r = 0"

definition command_dict :: "command_record \<Rightarrow> obj" where
  "command_dict r =
     [(''command'', strs (cr_command r)), (''classification'', JStr (category_value (cr_classification r))),
      (''configured_source'', of_opt (cr_configured_source r)), (''exit_status'', JInt (cr_exit_status r)),
      (''effect_on_transaction'', JStr (cr_effect_on_transaction r)), (''diagnostic'', of_opt (cr_diagnostic r))]"

record command_authority =
  ca_configured_required :: "string list list"
  ca_kernel_required :: "string list list"
  ca_workflow_evidence :: "string list list"
  ca_optional_diagnostics :: "string list list"
  ca_status_observations :: "string list list"

definition unsupported_diagnostic :: string where
  "unsupported_diagnostic = ''unsupported command cannot determine transaction success''"

definition classify ::
  "(string \<Rightarrow> string) \<Rightarrow> command_authority \<Rightarrow> string list \<Rightarrow> int \<Rightarrow> string option \<Rightarrow> string option \<Rightarrow> command_record res" where
  "classify rt A argv status src diag =
     (if argv = [] \<or> [] \<in> set argv
      then raise TransactionError ''command authority requires a non-empty argument array''
      else
        let decided = (if status = 0 then ''passed'' else ''transaction_failure'');
            (category, effect, diag) =
              (if argv \<in> set (ca_configured_required A) then (CONFIGURED_REQUIRED_VALIDATION, decided, diag)
               else if argv \<in> set (ca_kernel_required A) then (KERNEL_REQUIRED_FINALIZATION, decided, diag)
               else if argv \<in> set (ca_workflow_evidence A) then (WORKFLOW_REQUIRED_EVIDENCE, decided, diag)
               else if argv \<in> set (ca_optional_diagnostics A) then (OPTIONAL_DIAGNOSTIC, ''warning_only'', diag)
               else if argv \<in> set (ca_status_observations A) then (STATUS_OBSERVATION, ''observation_only'', diag)
               else (UNSUPPORTED_COMMAND, ''not_authoritative'',
                     case diag of Some (c # d) \<Rightarrow> Some (c # d) | _ \<Rightarrow> Some unsupported_diagnostic))
        in Inr \<lparr>cr_command = argv, cr_classification = category, cr_configured_source = src,
             cr_exit_status = status, cr_effect_on_transaction = effect,
             cr_diagnostic = map_option rt diag\<rparr>)"

definition validate_commands :: "command_record list \<Rightarrow> (command_record list \<times> command_record list) res" where
  "validate_commands records =
     (let failures = filter (\<lambda>r. authoritative r \<and> \<not> command_passed r) records;
          warnings = filter (\<lambda>r. cr_classification r \<in> {OPTIONAL_DIAGNOSTIC, UNSUPPORTED_COMMAND}
                                 \<and> \<not> command_passed r) records
      in if failures \<noteq> [] then raise TransactionError ''authoritative command failed''
         else Inr (records, warnings))"

subsection \<open>Who decides a transaction\<close>

definition required_command :: "command_authority \<Rightarrow> string list \<Rightarrow> bool" where
  "required_command A argv \<longleftrightarrow>
     argv \<in> set (ca_configured_required A) \<union> set (ca_kernel_required A) \<union> set (ca_workflow_evidence A)"

lemma classify_Inr:
  assumes "classify rt A argv status src diag = Inr r"
  shows "cr_command r = argv" "cr_exit_status r = status" "authoritative r \<longleftrightarrow> required_command A argv"
    "cr_classification r \<in> {OPTIONAL_DIAGNOSTIC, UNSUPPORTED_COMMAND} \<longleftrightarrow>
       \<not> required_command A argv \<and> (argv \<in> set (ca_optional_diagnostics A) \<or> argv \<notin> set (ca_status_observations A))"
  using assms
  by (auto simp: classify_def Let_def authoritative_def required_command_def AUTHORITATIVE_COMMAND_CATEGORIES_def
      split: if_splits)

definition classify_all ::
  "(string \<Rightarrow> string) \<Rightarrow> command_authority \<Rightarrow> (string list \<times> int) list \<Rightarrow> command_record list res" where
  "classify_all rt A runs = rmap (\<lambda>(argv, status). classify rt A argv status None None) runs"

lemma classify_all_outcomes:
  assumes "classify_all rt A runs = Inr rs"
  shows "map (\<lambda>r. (cr_command r, cr_exit_status r)) rs = runs"
    "list_ex (\<lambda>r. authoritative r \<and> \<not> command_passed r) rs \<longleftrightarrow>
       list_ex (\<lambda>(argv, status). required_command A argv \<and> status \<noteq> 0) runs"
    "map (\<lambda>r. (cr_command r, cr_exit_status r)) (filter (\<lambda>r. cr_classification r \<in> {OPTIONAL_DIAGNOSTIC, UNSUPPORTED_COMMAND}
        \<and> \<not> command_passed r) rs) =
       filter (\<lambda>(argv, status). \<not> required_command A argv \<and> status \<noteq> 0
         \<and> (argv \<in> set (ca_optional_diagnostics A) \<or> argv \<notin> set (ca_status_observations A))) runs"
  using assms unfolding classify_all_def
  by (induction runs arbitrary: rs) (auto simp: command_passed_def dest: classify_Inr)

text \<open>
  Only the required commands decide a transaction: it fails exactly when a command from one of
  the three required sets failed, whatever the other commands returned; otherwise it passes with one
  record per command, in order, and warns of exactly the failed commands that are optional or
  unknown.
\<close>

theorem commands_decide_transaction:
  assumes "classify_all rt A runs = Inr rs"
  shows "if list_ex (\<lambda>(argv, status). required_command A argv \<and> status \<noteq> 0) runs
    then validate_commands rs = raise TransactionError ''authoritative command failed''
    else \<exists>ws. validate_commands rs = Inr (rs, ws)
      \<and> map (\<lambda>r. (cr_command r, cr_exit_status r)) rs = runs
      \<and> map (\<lambda>r. (cr_command r, cr_exit_status r)) ws =
          filter (\<lambda>(argv, status). \<not> required_command A argv \<and> status \<noteq> 0
            \<and> (argv \<in> set (ca_optional_diagnostics A) \<or> argv \<notin> set (ca_status_observations A))) runs"
proof -
  have "filter P xs \<noteq> [] \<longleftrightarrow> list_ex P xs" for P and xs :: "command_record list"
    by (auto simp: filter_empty_conv list_ex_iff)
  then show ?thesis using classify_all_outcomes [OF assms] by (simp add: validate_commands_def)
qed

definition sample_authority :: command_authority where
  "sample_authority = \<lparr>ca_configured_required = [[''make'', ''test'']], ca_kernel_required = [],
     ca_workflow_evidence = [], ca_optional_diagnostics = [[''lint'']], ca_status_observations = [[''git'', ''status'']]\<rparr>"

theorem commands_decide_transaction_witness:
  "\<exists>rs ws. classify_all id sample_authority [([''make'', ''test''], 0), ([''lint''], 1), ([''git'', ''status''], 2)] = Inr rs
     \<and> validate_commands rs = Inr (rs, ws)
     \<and> map (\<lambda>r. (cr_command r, cr_exit_status r)) ws = [([''lint''], 1)]"
proof -
  let ?runs = "[([''make'', ''test''], 0), ([''lint''], 1), ([''git'', ''status''], 2 :: int)]"
  obtain rs where rs: "classify_all id sample_authority ?runs = Inr rs"
    by (simp add: classify_all_def classify_def sample_authority_def Let_def)
  show ?thesis
    using rs commands_decide_transaction [OF rs]
    by (auto simp: required_command_def sample_authority_def)
qed

end
