(* ===== verification/Retry_Budget.thy ===== *)
theory Retry_Budget
  imports Json_Parse Effects
begin

section \<open>Retry budgets\<close>

text \<open>
  \<^verbatim>\<open>retries.py\<close>: a budget of focused retries that refuses a repeated hypothesis. The two
  substitutions of \<^verbatim>\<open>_normalize\<close> are written out as matchers: \<open>match_*\<close> is the text after
  the match at the start of a text, if there is one; neither pattern needs backtracking, because what
  follows each repeated digit is no digit.
\<close>

subsection \<open>Normalisation\<close>

definition eat :: "char \<Rightarrow> string \<Rightarrow> string option" where
  "eat c s = (case s of [] \<Rightarrow> None | d # t \<Rightarrow> if d = c then Some t else None)"

fun eat_digits :: "nat \<Rightarrow> string \<Rightarrow> string option" where
  "eat_digits 0 s = Some s"
| "eat_digits (Suc n) s = (case s of [] \<Rightarrow> None | d # t \<Rightarrow> if is_digit d then eat_digits n t else None)"

fun eat_all :: "(string \<Rightarrow> string option) list \<Rightarrow> string \<Rightarrow> string option" where
  "eat_all [] s = Some s"
| "eat_all (m # ms) s = Option.bind (m s) (eat_all ms)"

definition eat_fraction :: "string \<Rightarrow> string option" where
  "eat_fraction s =
     (case s of c # t \<Rightarrow> if c = CHR ''.'' \<and> takeWhile is_digit t \<noteq> [] then Some (dropWhile is_digit t) else Some s
      | [] \<Rightarrow> Some s)"

definition eat_zone :: "string \<Rightarrow> string option" where
  "eat_zone s =
     (case s of [] \<Rightarrow> None
      | c # t \<Rightarrow> if c = CHR ''z'' then Some t
          else if c = CHR ''+'' \<or> c = CHR ''-'' then eat_all [eat_digits 2, eat (CHR '':''), eat_digits 2] t
          else None)"

definition match_timestamp :: "string \<Rightarrow> string option" where
  "match_timestamp =
     eat_all [eat_digits 4, eat (CHR ''-''), eat_digits 2, eat (CHR ''-''), eat_digits 2, eat (CHR ''t''),
       eat_digits 2, eat (CHR '':''), eat_digits 2, eat (CHR '':''), eat_digits 2, eat_fraction, eat_zone]"

definition match_repair :: "string \<Rightarrow> string option" where
  "match_repair s =
     Option.bind (eat_all (map eat ''-repair-'') s) (\<lambda>t.
       if takeWhile is_digit t = [] then None else eat_all (map eat ''.json'') (dropWhile is_digit t))"

text \<open>\<^verbatim>\<open>re.sub\<close> of a pattern that matches no empty text: from the left, without overlap\<close>

function sub_all :: "(string \<Rightarrow> string option) \<Rightarrow> string \<Rightarrow> string \<Rightarrow> string" where
  "sub_all m new s =
     (case s of [] \<Rightarrow> []
      | c # t \<Rightarrow> (case m s of
            Some r \<Rightarrow> if length r < length s then new @ sub_all m new r else c # sub_all m new t
          | None \<Rightarrow> c # sub_all m new t))"
  by pat_completeness auto
termination by (relation "measure (\<lambda>(m, new, s). length s)") auto

declare sub_all.simps [simp del]

definition retry_normalize :: "string \<Rightarrow> string" where
  "retry_normalize v =
     sub_all match_repair ''-repair-<n>.json''
       (sub_all match_timestamp ''<timestamp>'' (join '' '' (split_ws (lower v))))"

subsection \<open>The budget\<close>

record retry_attempt =
  ra_hypothesis :: string
  ra_normalized_hypothesis :: string
  ra_normalized_signature :: "(string \<times> string) list"
  ra_evidence :: string
  ra_remediation_action :: string

record retry_budget =
  rb_limit :: int
  rb_attempts :: "retry_attempt list"

record retry_args =
  rg_hypothesis :: string
  rg_evidence :: string
  rg_failure_classification :: string
  rg_command :: "string list"
  rg_session_id :: "string option"
  rg_model :: "string option"
  rg_reasoning :: "string option"
  rg_remediation_action :: "string option"

definition or_empty :: "string option \<Rightarrow> string" where
  "or_empty v = (case v of None \<Rightarrow> [] | Some s \<Rightarrow> s)"

definition retry_signature :: "retry_args \<Rightarrow> (string \<times> string) list" where
  "retry_signature a =
     [(''failure_classification'', retry_normalize (rg_failure_classification a)),
      (''command'', retry_normalize (join '' '' (rg_command a))),
      (''session_id'', retry_normalize (or_empty (rg_session_id a))),
      (''model'', retry_normalize (or_empty (rg_model a))),
      (''reasoning'', retry_normalize (or_empty (rg_reasoning a))),
      (''remediation_action'', retry_normalize (or_empty (rg_remediation_action a)))]"

definition retry_record :: "retry_args \<Rightarrow> (retry_budget, int) eff" where
  "retry_record a =
     sbind (scheck (nonblank (rg_hypothesis a) \<and> nonblank (rg_evidence a)
              \<and> nonblank (or_empty (rg_remediation_action a))) ConveyorError
              ''retry requires a hypothesis, supporting evidence, and materially different remediation action'') (\<lambda>_.
     sbind sget (\<lambda>b.
     sbind (scheck (\<not> list_ex (\<lambda>t. ra_normalized_hypothesis t = retry_normalize (rg_hypothesis a)
                \<or> ra_normalized_signature t = retry_signature a) (rb_attempts b)) ConveyorError
              ''refusing to repeat the same failed repair hypothesis or retry signature'') (\<lambda>_.
     sbind (scheck (int (length (rb_attempts b)) < rb_limit b) RetryExhausted
              ''focused retry limit exhausted'') (\<lambda>_.
     sbind (smodify (\<lambda>b. b\<lparr>rb_attempts := rb_attempts b @
              [\<lparr>ra_hypothesis = rg_hypothesis a,
                ra_normalized_hypothesis = retry_normalize (rg_hypothesis a),
                ra_normalized_signature = retry_signature a, ra_evidence = rg_evidence a,
                ra_remediation_action = or_empty (rg_remediation_action a)\<rparr>]\<rparr>)) (\<lambda>_.
     sbind sget (\<lambda>b. sret (int (length (rb_attempts b)))))))))"

definition retry_remaining :: "retry_budget \<Rightarrow> int" where
  "retry_remaining b = max 0 (rb_limit b - int (length (rb_attempts b)))"

subsection \<open>Runs of calls\<close>

text \<open>The outcomes of a sequence of calls on one budget, each handled by its caller.\<close>

fun retry_run :: "retry_args list \<Rightarrow> retry_budget \<Rightarrow> int res list \<times> retry_budget" where
  "retry_run [] b = ([], b)"
| "retry_run (a # as) b =
     (case retry_record a b of (r, b') \<Rightarrow> case retry_run as b' of (rs, b'') \<Rightarrow> (r # rs, b''))"

definition retry_inv :: "retry_budget \<Rightarrow> bool" where
  "retry_inv b \<longleftrightarrow> int (length (rb_attempts b)) \<le> max 0 (rb_limit b)
     \<and> distinct (map ra_normalized_hypothesis (rb_attempts b))
     \<and> distinct (map ra_normalized_signature (rb_attempts b))"

definition accepted :: "int res list \<Rightarrow> int list" where
  "accepted rs = concat (map (\<lambda>r. case r of Inl _ \<Rightarrow> [] | Inr n \<Rightarrow> [n]) rs)"

lemma accepted_simps [simp]:
  "accepted [] = []" "accepted (Inl e # rs) = accepted rs" "accepted (Inr n # rs) = n # accepted rs"
  by (simp_all add: accepted_def)

lemma retry_record_cases:
  obtains (refused) e where "retry_record a b = (Inl e, b)" "issubclass (exn_cls e) ConveyorError"
  | (added) t where "retry_record a b = (Inr (int (length (rb_attempts b)) + 1), b\<lparr>rb_attempts := rb_attempts b @ [t]\<rparr>)"
      "ra_normalized_hypothesis t \<notin> set (map ra_normalized_hypothesis (rb_attempts b))"
      "ra_normalized_signature t \<notin> set (map ra_normalized_signature (rb_attempts b))"
      "int (length (rb_attempts b)) < rb_limit b"
proof -
  let ?t = "\<lparr>ra_hypothesis = rg_hypothesis a, ra_normalized_hypothesis = retry_normalize (rg_hypothesis a),
      ra_normalized_signature = retry_signature a, ra_evidence = rg_evidence a,
      ra_remediation_action = or_empty (rg_remediation_action a)\<rparr>"
  let ?A = "nonblank (rg_hypothesis a) \<and> nonblank (rg_evidence a) \<and> nonblank (or_empty (rg_remediation_action a))"
  let ?B = "list_ex (\<lambda>t. ra_normalized_hypothesis t = retry_normalize (rg_hypothesis a)
          \<or> ra_normalized_signature t = retry_signature a) (rb_attempts b)"
  have sub: "issubclass ConveyorError ConveyorError" "issubclass RetryExhausted ConveyorError"
    by (simp_all add: issubclass_def)
  consider (blank) "\<not> ?A" | (repeated) ?A ?B | (exhausted) ?A "\<not> ?B" "\<not> int (length (rb_attempts b)) < rb_limit b"
    | (ok) ?A "\<not> ?B" "int (length (rb_attempts b)) < rb_limit b"
    by blast
  then show thesis
  proof cases
    case ok
    then have "retry_record a b = (Inr (int (length (rb_attempts b)) + 1), b\<lparr>rb_attempts := rb_attempts b @ [?t]\<rparr>)"
      by (simp add: retry_record_def sbind_def eff_simps)
    then show thesis using ok by (intro added [of ?t]) (auto simp: list_ex_iff)
  next
    case blank
    then have "\<exists>m. retry_record a b = (Inl (Exn ConveyorError m), b)"
      by (simp add: retry_record_def sbind_def eff_simps check_def raise_def)
    then show thesis using sub refused by (metis exn.sel(1))
  next
    case repeated
    then have "\<exists>m. retry_record a b = (Inl (Exn ConveyorError m), b)"
      by (simp add: retry_record_def sbind_def eff_simps check_def raise_def)
    then show thesis using sub refused by (metis exn.sel(1))
  next
    case exhausted
    then have "\<exists>m. retry_record a b = (Inl (Exn RetryExhausted m), b)"
      by (simp add: retry_record_def sbind_def eff_simps check_def raise_def)
    then show thesis using sub refused by (metis exn.sel(1))
  qed
qed

lemma retry_run_core:
  assumes "retry_inv b" "retry_run as b = (rs, b')"
  shows "retry_inv b' \<and> rb_limit b' = rb_limit b
    \<and> accepted rs = map int [Suc (length (rb_attempts b)) ..< Suc (length (rb_attempts b'))]
    \<and> prefix (rb_attempts b) (rb_attempts b')"
  using assms
proof (induction as arbitrary: b rs)
  case Nil
  then show ?case by simp
next
  case (Cons a as)
  show ?case
  proof (cases rule: retry_record_cases [of a b])
    case (refused e)
    with Cons show ?thesis by (auto split: prod.splits simp del: upt_Suc)
  next
    case (added t)
    obtain qs where q: "retry_run as (b\<lparr>rb_attempts := rb_attempts b @ [t]\<rparr>) = (qs, b')"
      "rs = Inr (int (length (rb_attempts b)) + 1) # qs"
      using Cons.prems(2) added(1) by (auto split: prod.splits)
    have "retry_inv (b\<lparr>rb_attempts := rb_attempts b @ [t]\<rparr>)"
      using Cons.prems(1) added by (auto simp: retry_inv_def)
    note ih = Cons.IH [OF this q(1)]
    then have "prefix (rb_attempts b @ [t]) (rb_attempts b')" by simp
    then have p: "prefix (rb_attempts b) (rb_attempts b')" "length (rb_attempts b) < length (rb_attempts b')"
      by (auto dest: append_prefixD prefix_length_le)
    with ih show ?thesis
      by (simp add: q(2) upt_conv_Cons [of "Suc (length (rb_attempts b))"] add.commute del: upt_Suc)
  qed
qed

text \<open>
  Whatever calls are made on a fresh budget, at most \<open>limit\<close> of them are accepted; no
  two accepted attempts share their normalised hypothesis or their normalised signature; the
  accepted calls return 1, 2, 3 and so on; and what remains is the limit less the accepted calls.
\<close>

theorem retry_budget_bounded:
  "case retry_run as \<lparr>rb_limit = l, rb_attempts = []\<rparr> of (rs, b) \<Rightarrow>
     int (length (rb_attempts b)) \<le> max 0 l
     \<and> distinct (map ra_normalized_hypothesis (rb_attempts b))
     \<and> distinct (map ra_normalized_signature (rb_attempts b))
     \<and> accepted rs = map int [1 ..< Suc (length (rb_attempts b))]
     \<and> retry_remaining b = max 0 (l - int (length (accepted rs)))"
proof -
  obtain rs b where r: "retry_run as \<lparr>rb_limit = l, rb_attempts = []\<rparr> = (rs, b)" by fastforce
  have "retry_inv \<lparr>rb_limit = l, rb_attempts = []\<rparr>" by (simp add: retry_inv_def)
  note c = retry_run_core [OF this r]
  then have "length (accepted rs) = length (rb_attempts b)" by (simp del: upt_Suc)
  with c show ?thesis by (auto simp: r retry_inv_def retry_remaining_def simp del: upt_Suc)
qed

definition sample_retry :: "string \<Rightarrow> string \<Rightarrow> retry_args" where
  "sample_retry h act = \<lparr>rg_hypothesis = h, rg_evidence = ''log'', rg_failure_classification = ''unknown'',
     rg_command = [], rg_session_id = None, rg_model = None, rg_reasoning = None,
     rg_remediation_action = Some act\<rparr>"

text \<open>
  A retry that differs only in letter case, white space, a timestamp or the number of a
  repair file from one that failed is refused, and an exhausted budget refuses every new one.
\<close>

theorem retry_repeats_refused:
  "map (\<lambda>r. case r of Inl e \<Rightarrow> Some (exn_cls e) | Inr n \<Rightarrow> None)
     (fst (retry_run
       [sample_retry ''Bad file out-repair-1.json at 2026-01-02T03:04:05Z'' ''a'',
        sample_retry ''bad  FILE out-repair-22.json at 2027-11-12t13:14:15.5+00:00'' ''b'',
        sample_retry ''other'' ''c'', sample_retry ''third'' ''d'']
       \<lparr>rb_limit = 2, rb_attempts = []\<rparr>))
   = [None, Some ConveyorError, None, Some RetryExhausted]"
  by code_simp

end
