(* ===== verification/Scheduler.thy ===== *)
theory Scheduler
  imports Json "HOL-Library.Product_Lexorder" "HOL-Library.Multiset"
begin

section \<open>The project registry and the portfolio scheduler\<close>

text \<open>
  \<^verbatim>\<open>registry.py\<close> and \<^verbatim>\<open>scheduler.py\<close>. A project keeps the values of its
  configuration entry as they are; the schema of the portfolio makes the identity a text and the
  priority an integer, which is how the sort keys read them (\<open>project_key\<close>). \<open>rp\<close> resolves
  a path. The thread pool is modelled by its effect: the futures complete in some order, which is an
  argument of \<open>scheduler_run\<close>.
\<close>

record project =
  pj_project_id :: json
  pj_repository :: string
  pj_enabled :: json
  pj_priority :: json
  pj_active_milestone :: json
  pj_recovery_branch :: json
  pj_milestone_branch :: json
  pj_validated_baseline_commit :: json
  pj_queue_location :: json
  pj_autonomy_contract_location :: json
  pj_validation_source :: json
  pj_automation_mode :: json
  pj_maximum_retries :: json
  pj_schedule :: json
  pj_human_gates :: "json list"
  pj_last_accepted_feature :: json
  pj_last_accepted_commit :: json
  pj_current_state :: json
  pj_registration_notes :: json
  pj_human_decision_gate :: json
  pj_inventory_blocking_warning_patterns :: "json list"

definition resolved_path :: "(string \<Rightarrow> string) \<Rightarrow> json \<Rightarrow> string res" where
  "resolved_path rp v = (case v of JStr s \<Rightarrow> Inr (rp s)
     | _ \<Rightarrow> raise TypeError ''argument should be a str or an os.PathLike object'')"

definition project_from_dict :: "(string \<Rightarrow> string) \<Rightarrow> obj \<Rightarrow> project res" where
  "project_from_dict rp v =
     rbind (osub v ''project_id'') (\<lambda>pid.
     rbind (rbind (osub v ''repository'') (resolved_path rp)) (\<lambda>repository.
     rbind (rmap (osub v) [''enabled'', ''priority'', ''active_milestone'', ''recovery_branch'',
              ''milestone_branch'', ''validated_baseline_commit'', ''queue_location'',
              ''autonomy_contract_location'', ''validation_source'', ''automation_mode'',
              ''maximum_retries'', ''schedule'']) (\<lambda>fields.
     rbind (rbind (osub v ''human_gates'') elements) (\<lambda>gates.
     rbind (rmap (osub v) [''last_accepted_feature'', ''last_accepted_commit'', ''current_state'',
              ''registration_notes'']) (\<lambda>more.
     rbind (elements (jor (oget v ''inventory_blocking_warning_patterns'') (JArr []))) (\<lambda>patterns.
     Inr \<lparr>pj_project_id = pid, pj_repository = repository, pj_enabled = fields ! 0, pj_priority = fields ! 1,
          pj_active_milestone = fields ! 2, pj_recovery_branch = fields ! 3, pj_milestone_branch = fields ! 4,
          pj_validated_baseline_commit = fields ! 5, pj_queue_location = fields ! 6,
          pj_autonomy_contract_location = fields ! 7, pj_validation_source = fields ! 8,
          pj_automation_mode = fields ! 9, pj_maximum_retries = fields ! 10, pj_schedule = fields ! 11,
          pj_human_gates = gates, pj_last_accepted_feature = more ! 0, pj_last_accepted_commit = more ! 1,
          pj_current_state = more ! 2, pj_registration_notes = more ! 3,
          pj_human_decision_gate = oget v ''human_decision_gate'',
          pj_inventory_blocking_warning_patterns = patterns\<rparr>))))))"

definition pid :: "project \<Rightarrow> string" where
  "pid p = (case pj_project_id p of JStr s \<Rightarrow> s | _ \<Rightarrow> [])"

definition prio :: "project \<Rightarrow> int" where
  "prio p = (case pj_priority p of JInt i \<Rightarrow> i | JBool b \<Rightarrow> of_bool b | _ \<Rightarrow> 0)"

text \<open>\<^verbatim>\<open>(-item.priority, item.project_id)\<close>\<close>

definition project_key :: "project \<Rightarrow> int \<times> string" where
  "project_key p = (- prio p, pid p)"

subsection \<open>The registry\<close>

definition make_registry :: "project list \<Rightarrow> (string \<times> project) list" where
  "make_registry ps = fold (\<lambda>p. aset (pid p) p) ps []"

definition registry_get :: "(string \<times> project) list \<Rightarrow> string \<Rightarrow> project res" where
  "registry_get R k = (case map_of R k of Some p \<Rightarrow> Inr p
     | None \<Rightarrow> raise ConfigurationError ''unknown project'')"

definition registry_enabled :: "(string \<times> project) list \<Rightarrow> project list" where
  "registry_enabled R = sort_key project_key (filter (\<lambda>p. truthy (pj_enabled p)) (map snd R))"

definition registry_all :: "(string \<times> project) list \<Rightarrow> project list" where
  "registry_all R = sort_key project_key (map snd R)"

subsection \<open>The scheduler\<close>

definition schedule_key :: "(project \<Rightarrow> bool) \<Rightarrow> project \<Rightarrow> bool \<times> int \<times> string" where
  "schedule_key active p = (\<not> active p, - prio p, pid p)"

definition order_projects :: "(project \<Rightarrow> bool) \<Rightarrow> project list \<Rightarrow> project list" where
  "order_projects active ps = sort_key (schedule_key active) ps"

definition make_scheduler :: "int \<Rightarrow> int res" where
  "make_scheduler n = (if n < 1 then raise ValueError ''maximum_parallel_projects must be positive'' else Inr n)"

text \<open>The result recorded for one project: that of the worker, or the failure it raised.\<close>

definition project_outcome :: "(project \<Rightarrow> obj res) \<Rightarrow> project \<Rightarrow> obj" where
  "project_outcome worker p =
     (case worker p of
        Inr d \<Rightarrow> d
      | Inl e \<Rightarrow> [(''project_id'', pj_project_id p), (''outcome'', JStr ''conveyor_error''), (''error'', JStr (exn_msg e))])"

text \<open>\<^verbatim>\<open>{project.project_id: index for index, project in enumerate(ordered)}\<close>, and a look-up
  in it with the number of projects as default.\<close>

definition position_of :: "project list \<Rightarrow> string \<Rightarrow> nat" where
  "position_of ordered k =
     (case map_of (rev (zip (map pid ordered) [0..<length ordered])) k of Some i \<Rightarrow> i | None \<Rightarrow> length ordered)"

definition scheduler_run ::
  "(project \<Rightarrow> bool) \<Rightarrow> (project \<Rightarrow> obj res) \<Rightarrow> (project list \<Rightarrow> project list) \<Rightarrow> project list \<Rightarrow> obj list" where
  "scheduler_run active worker completion projects =
     (let ordered = order_projects active (filter (\<lambda>p. truthy (pj_enabled p)) projects);
          results = map (project_outcome worker) (completion ordered)
      in sort_key (\<lambda>item. position_of ordered (py_str (oget item ''project_id''))) results)"

subsection \<open>Properties\<close>

lemma registry_keys: "map_of (make_registry ps) k = List.find (\<lambda>p. pid p = k) (rev ps)"
proof -
  have "map_of (fold (\<lambda>p. aset (pid p) p) ps R) k =
      (case List.find (\<lambda>p. pid p = k) (rev ps) of Some p \<Rightarrow> Some p | None \<Rightarrow> map_of R k)" for R
    by (induction ps rule: rev_induct) auto
  then show ?thesis by (simp add: make_registry_def split: option.split)
qed

lemma position_of_nth:
  assumes "distinct (map pid ordered)" "i < length ordered"
  shows "position_of ordered (pid (ordered ! i)) = i"
proof -
  let ?z = "zip (map pid ordered) [0..<length ordered]"
  have d: "distinct (map fst (rev ?z))" using assms(1) by (simp flip: rev_map)
  have "(pid (ordered ! i), i) \<in> set ?z"
    using assms(2) by (force simp: set_zip)
  then have "map_of (rev ?z) (pid (ordered ! i)) = Some i" using d by (intro map_of_is_SomeI) simp_all
  then show ?thesis by (simp add: position_of_def)
qed

lemma distinct_inj: "distinct (map f xs) \<Longrightarrow> inj_on f (set xs)"
  by (simp add: distinct_map)

text \<open>
  The report of a portfolio run does not depend on the interleaving of the workers: for
  every order in which they complete, and whichever of them fail, it has one result for each enabled
  project, in the scheduling order, which puts active cycles first, then higher priority, then the
  identity.
\<close>

theorem scheduler_deterministic:
  assumes "distinct (map pid projects)"
    and "\<And>p d. worker p = Inr d \<Longrightarrow> oget d ''project_id'' = JStr (pid p)"
    and "\<And>p. p \<in> set projects \<Longrightarrow> pj_project_id p = JStr (pid p)"
    and "\<And>ps. mset (completion ps) = mset ps"
  shows "scheduler_run active worker completion projects =
      map (project_outcome worker) (order_projects active (filter (\<lambda>p. truthy (pj_enabled p)) projects))
    \<and> sorted (map (schedule_key active) (order_projects active (filter (\<lambda>p. truthy (pj_enabled p)) projects)))"
proof -
  let ?os = "order_projects active (filter (\<lambda>p. truthy (pj_enabled p)) projects)"
  let ?key = "\<lambda>item. position_of ?os (py_str (oget item ''project_id''))"
  have sub: "set ?os \<subseteq> set projects" by (auto simp: order_projects_def)
  have "mset ?os = mset (filter (\<lambda>p. truthy (pj_enabled p)) projects)" by (simp add: order_projects_def)
  then have d: "distinct (map pid ?os)"
    using assms(1) by (metis distinct_map_filter mset_map mset_eq_imp_distinct_iff)
  have out: "oget (project_outcome worker p) ''project_id'' = JStr (pid p)" if "p \<in> set ?os" for p
    using assms(2,3) sub that by (auto simp: project_outcome_def split: sum.split)
  have key: "?key (project_outcome worker p) = position_of ?os (pid p)" if "p \<in> set ?os" for p
    using out [OF that] by simp
  have "map ?key (map (project_outcome worker) ?os) = [0..<length ?os]"
    using key position_of_nth [OF d] by (intro nth_equalityI) auto
  then have s: "sorted (map ?key (map (project_outcome worker) ?os))"
    "inj_on ?key (set (map (project_outcome worker) ?os))"
    by (simp, intro distinct_inj, simp)
  have m: "mset (map (project_outcome worker) (completion ?os)) = mset (map (project_outcome worker) ?os)"
    using assms(4) [of ?os] by (simp only: mset_map)
  then have "set (map (project_outcome worker) (completion ?os)) = set (map (project_outcome worker) ?os)"
    by (metis set_mset_mset)
  then have "scheduler_run active worker completion projects = map (project_outcome worker) ?os"
    unfolding scheduler_run_def Let_def using m s by (intro sort_key_inj_key_eq) simp_all
  then show ?thesis by (simp add: order_projects_def)
qed

definition sample_project :: "string \<Rightarrow> int \<Rightarrow> project" where
  "sample_project k n = \<lparr>pj_project_id = JStr k, pj_repository = ''/r'', pj_enabled = JBool True, pj_priority = JInt n,
     pj_active_milestone = JNull, pj_recovery_branch = JNull, pj_milestone_branch = JNull,
     pj_validated_baseline_commit = JNull, pj_queue_location = JNull, pj_autonomy_contract_location = JNull,
     pj_validation_source = JNull, pj_automation_mode = JNull, pj_maximum_retries = JNull, pj_schedule = JNull,
     pj_human_gates = [], pj_last_accepted_feature = JNull, pj_last_accepted_commit = JNull,
     pj_current_state = JNull, pj_registration_notes = JNull, pj_human_decision_gate = JNull,
     pj_inventory_blocking_warning_patterns = []\<rparr>"

definition sample_worker :: "project \<Rightarrow> obj res" where
  "sample_worker p = (if pid p = ''b'' then raise SessionError ''lost'' else Inr [(''project_id'', JStr (pid p))])"

theorem scheduler_deterministic_witness:
  "map (\<lambda>d. (oget d ''project_id'', oget d ''error''))
     (scheduler_run (\<lambda>p. pid p = ''c'') sample_worker rev [sample_project ''a'' 1, sample_project ''b'' 5, sample_project ''c'' 0])
   = [(JStr ''c'', JNull), (JStr ''b'', JStr ''lost''), (JStr ''a'', JNull)]"
proof -
  let ?ps = "[sample_project ''a'' 1, sample_project ''b'' 5, sample_project ''c'' 0]"
  have h: "distinct (map pid ?ps)" "p \<in> set ?ps \<Longrightarrow> pj_project_id p = JStr (pid p)"
    "sample_worker p = Inr d \<Longrightarrow> oget d ''project_id'' = JStr (pid p)" for p d
    by (auto simp: sample_project_def pid_def sample_worker_def split: if_splits)
  have "scheduler_run (\<lambda>p. pid p = ''c'') sample_worker rev ?ps =
      map (project_outcome sample_worker)
        (order_projects (\<lambda>p. pid p = ''c'') (filter (\<lambda>p. truthy (pj_enabled p)) ?ps))"
    by (rule conjunct1 [OF scheduler_deterministic, OF h(1) h(3) h(2)]) simp_all
  moreover have "map (\<lambda>d. (oget d ''project_id'', oget d ''error'')) (map (project_outcome sample_worker)
        (order_projects (\<lambda>p. pid p = ''c'') (filter (\<lambda>p. truthy (pj_enabled p)) ?ps)))
      = [(JStr ''c'', JNull), (JStr ''b'', JStr ''lost''), (JStr ''a'', JNull)]"
    by code_simp
  ultimately show ?thesis by simp
qed

end
