(* ===== verification/Lock_Exclusion.thy ===== *)
theory Lock_Exclusion
  imports Effects
begin

section \<open>Exclusive ownership of a lock file\<close>

text \<open>
  The contract the four lock classes share, as a locale: an operation has an actor and a role, and the
  laws say what a successful operation proves about the ownership before and after it. From the laws
  alone, every run of operations by any actors in any order is \<open>exclusive\<close>: nobody takes or
  keeps the lock between another actor's acquisition and the next release or recovery. The locale is
  interpreted on the operations of each class.
\<close>

datatype role = Take | Keep | Drop | Reclaim

text \<open>The successes of a run, and the test that they respect one owner at a time.\<close>

fun lock_trace :: "('op \<Rightarrow> ('s, 'r) eff) \<Rightarrow> 'op list \<Rightarrow> 's \<Rightarrow> ('op \<times> bool) list" where
  "lock_trace step [] s = []"
| "lock_trace step (a # as) s =
     (case step a s of (r, t) \<Rightarrow> (a, case r of Inl _ \<Rightarrow> False | Inr _ \<Rightarrow> True) # lock_trace step as t)"

fun exclusive :: "('op \<Rightarrow> 'k) \<Rightarrow> ('op \<Rightarrow> role) \<Rightarrow> 'k option \<Rightarrow> ('op \<times> bool) list \<Rightarrow> bool" where
  "exclusive actor role h [] \<longleftrightarrow> True"
| "exclusive actor role h ((a, ok) # es) \<longleftrightarrow>
     (if \<not> ok then exclusive actor role h es
      else (case role a of
          Take \<Rightarrow> (h = None \<or> h = Some (actor a)) \<and> exclusive actor role (Some (actor a)) es
        | Keep \<Rightarrow> h = Some (actor a) \<and> exclusive actor role h es
        | Drop \<Rightarrow> (h = None \<or> h = Some (actor a)) \<and> exclusive actor role None es
        | Reclaim \<Rightarrow> exclusive actor role None es))"

locale lock_slot =
  fixes step :: "'op \<Rightarrow> ('s, 'r) eff" and actor :: "'op \<Rightarrow> 'k" and role :: "'op \<Rightarrow> role"
    and valid :: "'op \<Rightarrow> bool" and owned_by :: "'k \<Rightarrow> 's \<Rightarrow> bool" and held :: "'s \<Rightarrow> bool"
  assumes owner_unique: "owned_by k s \<Longrightarrow> owned_by l s \<Longrightarrow> k = l"
    and owner_held: "owned_by k s \<Longrightarrow> held s"
    and failure: "step a s = (Inl e, t) \<Longrightarrow> t = s"
    and take: "valid a \<Longrightarrow> role a = Take \<Longrightarrow> step a s = (Inr r, t) \<Longrightarrow>
      owned_by (actor a) t \<and> (held s \<longrightarrow> owned_by (actor a) s)"
    and keep: "valid a \<Longrightarrow> role a = Keep \<Longrightarrow> step a s = (Inr r, t) \<Longrightarrow>
      owned_by (actor a) s \<and> owned_by (actor a) t"
    and drop: "valid a \<Longrightarrow> role a = Drop \<Longrightarrow> step a s = (Inr r, t) \<Longrightarrow>
      \<not> held t \<and> (held s \<longrightarrow> owned_by (actor a) s)"
    and reclaim: "valid a \<Longrightarrow> role a = Reclaim \<Longrightarrow> step a s = (Inr r, t) \<Longrightarrow> \<not> held t"
begin

text \<open>What the successes so far say of the state.\<close>

definition consistent :: "'k option \<Rightarrow> 's \<Rightarrow> bool" where
  "consistent h s \<longleftrightarrow> (case h of None \<Rightarrow> \<not> held s | Some k \<Rightarrow> owned_by k s)"

lemma consistent_owner: "consistent h s \<Longrightarrow> owned_by k s \<Longrightarrow> h = Some k"
  using owner_unique owner_held by (auto simp: consistent_def split: option.splits)

lemma exclusive_from:
  "consistent h s \<Longrightarrow> list_all valid as \<Longrightarrow> exclusive actor role h (lock_trace step as s)"
proof (induction as arbitrary: h s)
  case (Cons a as)
  obtain r t where st: "step a s = (r, t)" by fastforce
  have v: "valid a" "list_all valid as" using Cons.prems(2) by simp_all
  show ?case
  proof (cases r)
    case (Inl e)
    then have "t = s" using failure st by blast
    with Inl st Cons show ?thesis by simp
  next
    case (Inr x)
    note st = st [unfolded Inr]
    have free: "h = None \<or> h = Some (actor a)" if "held s \<longrightarrow> owned_by (actor a) s"
    proof (cases "held s")
      case True
      with that Cons.prems(1) consistent_owner show ?thesis by blast
    next
      case False
      with Cons.prems(1) owner_held show ?thesis by (auto simp: consistent_def split: option.splits)
    qed
    show ?thesis
    proof (cases "role a")
      case Take
      have "consistent (Some (actor a)) t" using take [OF v(1) Take st] by (simp add: consistent_def)
      from Cons.IH [OF this v(2)] free take [OF v(1) Take st] Take st show ?thesis by simp
    next
      case Keep
      note k = keep [OF v(1) Keep st]
      then have h: "h = Some (actor a)" using consistent_owner Cons.prems(1) by blast
      with k have "consistent h t" by (simp add: consistent_def)
      from Cons.IH [OF this v(2)] h Keep st show ?thesis by simp
    next
      case Drop
      have "consistent None t" using drop [OF v(1) Drop st] by (simp add: consistent_def)
      from Cons.IH [OF this v(2)] free drop [OF v(1) Drop st] Drop st show ?thesis by simp
    next
      case Reclaim
      have "consistent None t" using reclaim [OF v(1) Reclaim st] by (simp add: consistent_def)
      from Cons.IH [OF this v(2)] Reclaim st show ?thesis by simp
    qed
  qed
qed simp

lemma exclusive_run:
  "\<not> held s \<Longrightarrow> exclusive actor role None (lock_trace step (filter valid as) s)"
  by (rule exclusive_from) (simp_all add: consistent_def list_all_iff)

end

subsection \<open>Calls that fail without a trace\<close>

text \<open>The class of the exception a call raised, if it did.\<close>

definition failure_class :: "'a res \<Rightarrow> exn_class option" where
  "failure_class r = (case r of Inl e \<Rightarrow> Some (exn_cls e) | Inr _ \<Rightarrow> None)"

text \<open>A call that raises before its single write changes nothing.\<close>

definition clean :: "('s, 'a) eff \<Rightarrow> bool" where
  "clean m \<longleftrightarrow> (\<forall>s e t. m s = (Inl e, t) \<longrightarrow> t = s)"

lemma clean_pure [simp]: "clean (sret x)" "clean (slift r)" "clean (sthrow c m)" "clean sget"
    "clean (scheck b c m)" "clean (smodify f)"
  by (auto simp: clean_def eff_simps)

lemma clean_sbind:
  assumes "\<And>s r t. m s = (r, t) \<Longrightarrow> t = s" "\<And>x. clean (f x)"
  shows "clean (sbind m f)"
  using assms by (auto simp: clean_def sbind_def split: prod.splits sum.splits) blast+

lemma clean_get [simp]: "(\<And>x. clean (f x)) \<Longrightarrow> clean (sbind sget f)"
  by (intro clean_sbind; auto simp: eff_simps)

lemma clean_lift [simp]: "(\<And>x. clean (f x)) \<Longrightarrow> clean (sbind (slift r) f)"
  by (intro clean_sbind; auto simp: eff_simps)

lemma clean_check [simp]: "(\<And>x. clean (f x)) \<Longrightarrow> clean (sbind (scheck b c m) f)"
  by (intro clean_sbind; auto simp: eff_simps)

lemma clean_then [simp]: "clean m \<Longrightarrow> clean (sbind m (\<lambda>x. sret (f x)))"
  by (auto simp: clean_def sbind_def eff_simps split: prod.splits sum.splits)

lemma clean_option [simp]:
  "clean a \<Longrightarrow> (\<And>x. clean (f x)) \<Longrightarrow> clean (case v of None \<Rightarrow> a | Some x \<Rightarrow> f x)"
  by (cases v) simp_all

lemma cleanD: "clean m \<Longrightarrow> m s = (Inl e, t) \<Longrightarrow> t = s"
  by (simp add: clean_def)

end
