(* ===== verification/Locks.thy ===== *)
theory Locks
  imports Redaction Lock_Exclusion
begin

section \<open>Lock files\<close>

text \<open>
  \<^verbatim>\<open>locks.py\<close>: the controller's launch reservation, the writer lease of a repository and the
  writer lease of a planning run. Each is one JSON file whose presence is the lock. The state of a call
  is the directory of the lock: \<open>ld_lock\<close> is the file (\<open>None\<close> when it is absent,
  \<open>Some None\<close> when it holds no JSON), \<open>ld_evidence\<close> the recovery files beside it. The process
  that makes the call is a \<open>proc\<close>: its identity, the time it reads, and what
  \<^verbatim>\<open>os.kill(pid, 0)\<close> tells it of another process (\<open>None\<close> when it may not ask).
  \<open>rp\<close> is \<^verbatim>\<open>expanduser().resolve()\<close>, \<open>rt\<close> is \<^verbatim>\<open>redact_text\<close>,
  which \<^verbatim>\<open>atomic_write_json\<close> applies to what it writes.
\<close>

type_synonym lock_file = "json option option"

record lock_dir =
  ld_lock :: lock_file
  ld_evidence :: "(string \<times> json option) list"

record proc =
  pr_pid :: int
  pr_host :: string
  pr_now :: string
  pr_alive :: "int \<Rightarrow> bool option"

definition read_lock :: "lock_file \<Rightarrow> obj option res" where
  "read_lock f =
     (case f of
        None \<Rightarrow> Inr None
      | Some None \<Rightarrow> raise AmbiguousLockError ''lock is unreadable''
      | Some (Some (JObj r)) \<Rightarrow> Inr (Some r)
      | Some (Some _) \<Rightarrow> raise AmbiguousLockError ''lock is not an object'')"

definition load_lock :: "(lock_dir, obj option) eff" where
  "load_lock = sbind sget (\<lambda>d. slift (read_lock (ld_lock d)))"

text \<open>\<^verbatim>\<open>os.open(path, O_WRONLY | O_CREAT | O_EXCL)\<close> and the write of the record\<close>

definition create_lock :: "string \<Rightarrow> obj \<Rightarrow> (lock_dir, unit) eff" where
  "create_lock m r =
     sbind sget (\<lambda>d.
     sbind (scheck (ld_lock d = None) LockError m) (\<lambda>_.
     smodify (\<lambda>d. d\<lparr>ld_lock := Some (Some (JObj r))\<rparr>)))"

definition replace_lock :: "(string \<Rightarrow> string) \<Rightarrow> obj \<Rightarrow> (lock_dir, unit) eff" where
  "replace_lock rt r = smodify (\<lambda>d. d\<lparr>ld_lock := Some (Some (redact_value rt (JObj r)))\<rparr>)"

definition unlink_lock :: "(lock_dir, unit) eff" where
  "unlink_lock = smodify (\<lambda>d. d\<lparr>ld_lock := None\<rparr>)"

record lock_status =
  lk_exists :: bool
  lk_owned_by_run :: bool
  lk_process_alive :: "bool option"
  lk_ambiguous :: bool
  lk_record :: "obj option"

text \<open>\<^verbatim>\<open>process_alive(int(pid)) if host == gethostname() and isinstance(pid, int) else None\<close>\<close>

definition holder_alive :: "proc \<Rightarrow> json \<Rightarrow> json \<Rightarrow> bool option" where
  "holder_alive w host pid =
     (if host = JStr (pr_host w) then (case int_of pid of Some i \<Rightarrow> pr_alive w i | None \<Rightarrow> None) else None)"

definition no_lock :: lock_status where
  "no_lock = \<lparr>lk_exists = False, lk_owned_by_run = False, lk_process_alive = None, lk_ambiguous = False,
     lk_record = None\<rparr>"

subsection \<open>The launch reservation\<close>

definition durable_acquire :: "obj \<Rightarrow> (lock_dir, unit) eff" where
  "durable_acquire r = create_lock ''launch reservation already exists'' r"

definition durable_heartbeat :: "(string \<Rightarrow> string) \<Rightarrow> proc \<Rightarrow> string \<Rightarrow> string \<Rightarrow> (lock_dir, obj) eff" where
  "durable_heartbeat rt w run_id phase =
     sbind load_lock (\<lambda>existing.
     case existing of
       None \<Rightarrow> sthrow LockError ''launch reservation belongs to another run''
     | Some r \<Rightarrow>
         sbind (scheck (oget r ''run_id'' = JStr run_id) LockError ''launch reservation belongs to another run'') (\<lambda>_.
         let r = oset ''current_phase'' (JStr phase) (oset ''last_confirmed_time'' (JStr (pr_now w)) r) in
         sbind (replace_lock rt r) (\<lambda>_. sret r)))"

definition durable_release :: "string \<Rightarrow> (lock_dir, unit) eff" where
  "durable_release run_id =
     sbind load_lock (\<lambda>existing.
     case existing of
       None \<Rightarrow> sret ()
     | Some r \<Rightarrow>
         sbind (scheck (oget r ''run_id'' = JStr run_id) LockError
                  ''refusing to release another run's launch reservation'') (\<lambda>_. unlink_lock))"

definition durable_status :: "proc \<Rightarrow> string option \<Rightarrow> lock_file \<Rightarrow> lock_status res" where
  "durable_status w run_id f =
     rbind (read_lock f) (\<lambda>existing.
     case existing of
       None \<Rightarrow> Inr no_lock
     | Some r \<Rightarrow>
         let host = jor (oget r ''host_identity'') (oget r ''host'');
             pid = jor (oget r ''process_id'') (oget r ''pid'');
             alive = holder_alive w host pid
         in Inr \<lparr>lk_exists = True, lk_owned_by_run = (oget r ''run_id'' = of_opt run_id), lk_process_alive = alive,
              lk_ambiguous = (host \<noteq> JStr (pr_host w) \<or> alive = None), lk_record = Some r\<rparr>)"

text \<open>The recovery file is named after the run; \<^verbatim>\<open>with_name\<close> refuses a name with a
  separator. \<open>dir\<close> and \<open>stem\<close> are the parts of the path of the lock.\<close>

definition recovery_name :: "string \<Rightarrow> obj \<Rightarrow> string" where
  "recovery_name stem r = stem @ ''.recovered-'' @ py_str (oget_or r ''run_id'' (JStr ''unknown'')) @ ''.json''"

definition recover_stale :: "proc \<Rightarrow> string \<Rightarrow> string \<Rightarrow> string \<Rightarrow> (lock_dir, obj) eff" where
  "recover_stale w dir stem expected_identity =
     sbind load_lock (\<lambda>existing.
     case existing of
       None \<Rightarrow> sthrow LockError ''no lock exists''
     | Some r \<Rightarrow>
         sbind (scheck (oget r ''repository_identity'' = JStr expected_identity) AmbiguousLockError
                  ''lock repository identity does not match'') (\<lambda>_.
         sbind (scheck (oget r ''host_identity'' = JStr (pr_host w)) AmbiguousLockError
                  ''foreign-host lock ownership is ambiguous'') (\<lambda>_.
         sbind (scheck (case int_of (oget r ''process_id'') of Some i \<Rightarrow> pr_alive w i = Some False | None \<Rightarrow> False)
                  AmbiguousLockError ''process identity does not prove the lock stale'') (\<lambda>_.
         sbind (scheck (CHR ''/'' \<notin> set (recovery_name stem r)) ValueError ''Invalid name'') (\<lambda>_.
         sbind sget (\<lambda>d.
         sbind (scheck (map_of (ld_evidence d) (recovery_name stem r) = None) AmbiguousLockError
                  ''a recovery evidence file already exists'') (\<lambda>_.
         sbind (smodify (\<lambda>d. d\<lparr>ld_evidence := (recovery_name stem r, Some (JObj r)) # ld_evidence d, ld_lock := None\<rparr>)) (\<lambda>_.
         sret [(''recovered_lock'', JStr (dir @ ''/'' @ recovery_name stem r)), (''record'', JObj r),
               (''timestamp_alone_used'', JBool False)]))))))))"

definition make_lock_record ::
  "proc \<Rightarrow> string \<Rightarrow> string \<Rightarrow> string \<Rightarrow> string option \<Rightarrow> string \<Rightarrow> obj" where
  "make_lock_record w project_id repository_identity run_id current_feature current_phase =
     [(''project_id'', JStr project_id), (''repository_identity'', JStr repository_identity),
      (''run_id'', JStr run_id), (''process_id'', JInt (pr_pid w)), (''host_identity'', JStr (pr_host w)),
      (''start_time'', JStr (pr_now w)), (''last_confirmed_time'', JStr (pr_now w)),
      (''current_feature'', of_opt current_feature), (''current_phase'', JStr current_phase)]"

subsection \<open>The writer lease of a repository\<close>

text \<open>
  \<^verbatim>\<open>acquire_or_resume\<close> reads the file and then writes it, without a lock around the two:
  \<open>lease_decide\<close> is what it concludes from what it read, \<open>lease_commit\<close> the write. A call that
  no other process interrupts is \<open>acquire_or_resume\<close>.
\<close>

definition lease_record :: "proc \<Rightarrow> string \<Rightarrow> string \<Rightarrow> string \<Rightarrow> string \<Rightarrow> obj" where
  "lease_record w repository feature branch run_id =
     [(''repository'', JStr repository), (''feature_id'', JStr feature), (''branch'', JStr branch),
      (''worktree'', JStr repository), (''agent_run'', JStr run_id),
      (''purpose'', JStr ''development-conveyor-feature''), (''pid'', JInt (pr_pid w)),
      (''host'', JStr (pr_host w)), (''start_time'', JStr (pr_now w)), (''last_heartbeat'', JStr (pr_now w))]"

definition lease_matches ::
  "(string \<Rightarrow> string res) \<Rightarrow> obj \<Rightarrow> string \<Rightarrow> string \<Rightarrow> string \<Rightarrow> string \<Rightarrow> bool res" where
  "lease_matches rp r repository feature branch run_id =
     (case rbind (rp (py_str (oget r ''repository''))) (\<lambda>a.
           rbind (rp (py_str (oget r ''worktree''))) (\<lambda>b. Inr (a, b))) of
        Inl e \<Rightarrow> if list_ex (issubclass (exn_cls e)) [OSError, RuntimeError, ValueError] then Inr False else Inl e
      | Inr (a, b) \<Rightarrow> Inr (a = repository \<and> b = repository \<and> oget r ''feature_id'' = JStr feature
          \<and> oget r ''branch'' = JStr branch \<and> oget r ''agent_run'' = JStr run_id))"

datatype lease_action = Create obj | Resume obj

definition lease_decide ::
  "(string \<Rightarrow> string res) \<Rightarrow> proc \<Rightarrow> string \<Rightarrow> string \<Rightarrow> string \<Rightarrow> string \<Rightarrow> obj option \<Rightarrow> lease_action res" where
  "lease_decide rp w repository feature branch run_id existing =
     (case existing of
        None \<Rightarrow> Inr (Create (lease_record w repository feature branch run_id))
      | Some r \<Rightarrow>
          rbind (lease_matches rp r repository feature branch run_id) (\<lambda>m.
          rbind (check m LockError ''repository writer lease belongs to another feature or run'') (\<lambda>_.
          let host = jor (oget r ''host'') (oget r ''host_identity'');
              pid = jor (oget r ''pid'') (oget r ''process_id'');
              alive = holder_alive w host pid
          in rbind (check (host = JStr (pr_host w) \<and> alive \<noteq> None) AmbiguousLockError
                     ''matching writer lease ownership is ambiguous'') (\<lambda>_.
             rbind (check (\<not> (alive = Some True \<and> int_of pid \<noteq> Some (pr_pid w))) LockError
                     ''matching writer lease is still owned by a live process'') (\<lambda>_.
             Inr (Resume (oupdate r [(''pid'', JInt (pr_pid w)), (''host'', JStr (pr_host w)),
                (''last_heartbeat'', JStr (pr_now w))])))))))"

definition lease_commit :: "(string \<Rightarrow> string) \<Rightarrow> lease_action \<Rightarrow> (lock_dir, obj) eff" where
  "lease_commit rt a =
     (case a of
        Create r \<Rightarrow> sbind (create_lock ''repository writer lease appeared concurrently'' r) (\<lambda>_. sret r)
      | Resume r \<Rightarrow> sbind (replace_lock rt r) (\<lambda>_. sret r))"

definition acquire_or_resume ::
  "(string \<Rightarrow> string res) \<Rightarrow> (string \<Rightarrow> string) \<Rightarrow> proc \<Rightarrow> string \<Rightarrow> string \<Rightarrow> string \<Rightarrow> string \<Rightarrow> (lock_dir, obj) eff" where
  "acquire_or_resume rp rt w repository feature branch run_id =
     sbind load_lock (\<lambda>existing.
     sbind (slift (lease_decide rp w repository feature branch run_id existing)) (lease_commit rt))"

definition lease_release :: "string \<Rightarrow> (lock_dir, unit) eff" where
  "lease_release run_id =
     sbind load_lock (\<lambda>existing.
     case existing of
       None \<Rightarrow> sret ()
     | Some r \<Rightarrow>
         sbind (scheck (oget r ''agent_run'' = JStr run_id) LockError
                  ''refusing to release another run's repository writer lease'') (\<lambda>_. unlink_lock))"

definition inspect_repository_writer_lock ::
  "(string \<Rightarrow> string res) \<Rightarrow> proc \<Rightarrow> string \<Rightarrow> lock_file \<Rightarrow> lock_status res" where
  "inspect_repository_writer_lock rp w repository f =
     rbind (read_lock f) (\<lambda>existing.
     case existing of
       None \<Rightarrow> Inr no_lock
     | Some r \<Rightarrow>
         rbind (if oget r ''repository'' = JNull then Inr True
                else rbind (rp (py_str (oget r ''repository''))) (\<lambda>a. rbind (rp repository) (\<lambda>b. Inr (a = b)))) (\<lambda>same.
         if \<not> same then Inr \<lparr>lk_exists = True, lk_owned_by_run = False, lk_process_alive = None,
                             lk_ambiguous = True, lk_record = Some r\<rparr>
         else
           let host = jor (oget r ''host'') (oget r ''host_identity'');
               pid = jor (oget r ''pid'') (oget r ''process_id'');
               alive = holder_alive w host pid
           in Inr \<lparr>lk_exists = True, lk_owned_by_run = False, lk_process_alive = alive,
                lk_ambiguous = (host \<noteq> JStr (pr_host w) \<or> alive = None), lk_record = Some r\<rparr>))"

subsection \<open>The writer lease of a planning run\<close>

record planning_args =
  pa_repository_identity :: string
  pa_project_id :: string
  pa_milestone :: string
  pa_run_id :: string
  pa_session_id :: "string option"
  pa_branch :: string
  pa_head :: string
  pa_worktree_fingerprint :: string
  pa_allowed_paths :: "string list"

definition planning_record :: "proc \<Rightarrow> string \<Rightarrow> planning_args \<Rightarrow> obj" where
  "planning_record w repository a =
     [(''repository'', JStr repository), (''repository_identity'', JStr (pa_repository_identity a)),
      (''project_id'', JStr (pa_project_id a)), (''milestone'', JStr (pa_milestone a)),
      (''queue_reconciliation_run_id'', JStr (pa_run_id a)), (''session_id'', of_opt (pa_session_id a)),
      (''branch'', JStr (pa_branch a)), (''starting_head'', JStr (pa_head a)),
      (''starting_worktree_fingerprint'', JStr (pa_worktree_fingerprint a)),
      (''approved_planning_paths'', strs (pa_allowed_paths a)), (''phase'', JStr ''queue_reconciliation''),
      (''purpose'', JStr ''development-conveyor-planning''), (''agent_run'', JStr (pa_run_id a)),
      (''pid'', JInt (pr_pid w)), (''host'', JStr (pr_host w)), (''start_time'', JStr (pr_now w)),
      (''last_heartbeat'', JStr (pr_now w))]"

definition planning_acquire :: "proc \<Rightarrow> string \<Rightarrow> planning_args \<Rightarrow> (lock_dir, obj) eff" where
  "planning_acquire w repository a =
     sbind load_lock (\<lambda>existing.
     sbind (scheck (existing = None) LockError ''repository writer lease already exists'') (\<lambda>_.
     sbind (create_lock ''repository writer lease appeared concurrently'' (planning_record w repository a)) (\<lambda>_.
     sret (planning_record w repository a))))"

record planning_checks =
  pc_session_id :: "string option"
  pc_repository_identity :: "string option"
  pc_branch :: "string option"
  pc_head :: "string option"

definition optional_field :: "obj \<Rightarrow> string \<Rightarrow> string option \<Rightarrow> bool" where
  "optional_field r k expected \<longleftrightarrow> (case expected of None \<Rightarrow> True | Some s \<Rightarrow> oget r k = JStr s)"

definition planning_revalidate ::
  "(string \<Rightarrow> string res) \<Rightarrow> string \<Rightarrow> string \<Rightarrow> planning_checks \<Rightarrow> (lock_dir, obj) eff" where
  "planning_revalidate rp repository run_id c =
     sbind load_lock (\<lambda>existing.
     case existing of
       None \<Rightarrow> sthrow LockError ''planning writer lease is absent''
     | Some r \<Rightarrow>
         sbind (slift (rp (py_str (oget r ''repository'')))) (\<lambda>recorded.
         sbind (scheck (oget r ''purpose'' = JStr ''development-conveyor-planning''
                  \<and> oget r ''phase'' = JStr ''queue_reconciliation''
                  \<and> oget r ''queue_reconciliation_run_id'' = JStr run_id \<and> recorded = repository
                  \<and> optional_field r ''session_id'' (pc_session_id c)
                  \<and> optional_field r ''repository_identity'' (pc_repository_identity c)
                  \<and> optional_field r ''branch'' (pc_branch c)
                  \<and> optional_field r ''starting_head'' (pc_head c))
                LockError ''planning writer lease identity mismatch'') (\<lambda>_.
         sret r)))"

definition no_checks :: planning_checks where
  "no_checks = \<lparr>pc_session_id = None, pc_repository_identity = None, pc_branch = None, pc_head = None\<rparr>"

definition planning_bind_session ::
  "(string \<Rightarrow> string res) \<Rightarrow> (string \<Rightarrow> string) \<Rightarrow> proc \<Rightarrow> string \<Rightarrow> string \<Rightarrow> string \<Rightarrow> (lock_dir, obj) eff" where
  "planning_bind_session rp rt w repository run_id session_id =
     sbind (planning_revalidate rp repository run_id no_checks) (\<lambda>r.
     let recorded = oget r ''session_id'' in
     sbind (scheck (\<not> is_list recorded \<and> \<not> is_dict recorded) TypeError ''unhashable type'') (\<lambda>_.
     sbind (scheck (recorded = JNull \<or> recorded = JStr session_id) LockError
              ''planning lease session identity mismatch'') (\<lambda>_.
     let r = oset ''last_heartbeat'' (JStr (pr_now w)) (oset ''session_id'' (JStr session_id) r) in
     sbind (replace_lock rt r) (\<lambda>_. sret r))))"

definition planning_release :: "string \<Rightarrow> (lock_dir, unit) eff" where
  "planning_release run_id =
     sbind load_lock (\<lambda>existing.
     case existing of
       None \<Rightarrow> sret ()
     | Some r \<Rightarrow>
         sbind (scheck (oget r ''purpose'' = JStr ''development-conveyor-planning''
                  \<and> oget r ''queue_reconciliation_run_id'' = JStr run_id) LockError
                  ''refusing to release another writer lease'') (\<lambda>_. unlink_lock))"

subsection \<open>Facts on the operations\<close>

text \<open>A field of the record in the file.\<close>

definition lock_field :: "string \<Rightarrow> string \<Rightarrow> lock_dir \<Rightarrow> bool" where
  "lock_field k v d \<longleftrightarrow> (\<exists>r. ld_lock d = Some (Some (JObj r)) \<and> oget r k = JStr v)"

definition locked :: "lock_dir \<Rightarrow> bool" where
  "locked d \<longleftrightarrow> ld_lock d \<noteq> None"

named_theorems lock_defs "unfolding of the lock operations"

lemmas [lock_defs] = durable_acquire_def durable_heartbeat_def durable_release_def recover_stale_def
  acquire_or_resume_def lease_commit_def lease_release_def planning_acquire_def planning_bind_session_def
  planning_revalidate_def planning_release_def create_lock_def replace_lock_def unlink_lock_def

lemma lock_field_unique: "lock_field k v d \<Longrightarrow> lock_field k w d \<Longrightarrow> v = w"
  by (auto simp: lock_field_def)

lemma lock_field_locked: "lock_field k v d \<Longrightarrow> locked d"
  by (auto simp: lock_field_def locked_def)

lemma load_lock_apply: "load_lock d = (read_lock (ld_lock d), d)"
  by (simp add: load_lock_def eff_runs eff_simps)

lemma load_lock_run: "load_lock d = (Inr e, t) \<longleftrightarrow> read_lock (ld_lock d) = Inr e \<and> t = d"
  by (auto simp: load_lock_apply)

lemma read_lock_Inr:
  "read_lock f = Inr e \<longleftrightarrow> (f = None \<and> e = None) \<or> (\<exists>r. f = Some (Some (JObj r)) \<and> e = Some r)"
  by (auto simp: read_lock_def split: option.splits json.splits)

lemmas lock_runs = load_lock_run read_lock_Inr sbind_eq_Inr slift_eq_Inr smodify_eq_Inr sget_eq_Inr
  sret_eq_Inr scheck_eq_Inr Let_def

lemma clean_load [simp]: "clean load_lock" "(\<And>x. clean (f x)) \<Longrightarrow> clean (sbind load_lock f)"
  by (simp add: clean_def load_lock_apply) (intro clean_sbind; auto simp: load_lock_apply)

lemma oget_redact:
  "oget (map (\<lambda>kv. (fst kv, if sensitive_key (fst kv) then JStr REDACTED else redact_value rt (snd kv))) r) k
    = (if sensitive_key k \<and> ohas r k then JStr REDACTED else redact_value rt (oget r k))"
  by (induction r) (auto simp: oget_def ohas_def)

lemma not_sensitive_owner:
  "\<not> sensitive_key ''run_id''" "\<not> sensitive_key ''agent_run''"
  "\<not> sensitive_key ''queue_reconciliation_run_id''"
  by code_simp+

subsection \<open>The launch reservation is exclusive\<close>

datatype durable_op =
    DAcquire obj | DHeartbeat proc string string | DRelease string | DRecover proc string string string

fun durable_step :: "(string \<Rightarrow> string) \<Rightarrow> durable_op \<Rightarrow> (lock_dir, unit) eff" where
  "durable_step rt (DAcquire r) = durable_acquire r"
| "durable_step rt (DHeartbeat w k phase) = sbind (durable_heartbeat rt w k phase) (\<lambda>_. sret ())"
| "durable_step rt (DRelease k) = durable_release k"
| "durable_step rt (DRecover w dir stem i) = sbind (recover_stale w dir stem i) (\<lambda>_. sret ())"

fun durable_actor :: "durable_op \<Rightarrow> string" where
  "durable_actor (DAcquire r) = (case oget r ''run_id'' of JStr k \<Rightarrow> k | _ \<Rightarrow> [])"
| "durable_actor (DHeartbeat w k phase) = k"
| "durable_actor (DRelease k) = k"
| "durable_actor (DRecover w dir stem i) = []"

fun durable_role :: "durable_op \<Rightarrow> role" where
  "durable_role (DAcquire r) = Take"
| "durable_role (DHeartbeat w k phase) = Keep"
| "durable_role (DRelease k) = Drop"
| "durable_role (DRecover w dir stem i) = Reclaim"

text \<open>The record names its run by a text, which the redaction of a heartbeat leaves alone.\<close>

fun durable_valid :: "(string \<Rightarrow> string) \<Rightarrow> durable_op \<Rightarrow> bool" where
  "durable_valid rt (DAcquire r) = is_str (oget r ''run_id'')"
| "durable_valid rt (DHeartbeat w k phase) = (rt k = k)"
| "durable_valid rt _ = True"

lemma clean_durable: "clean (durable_step rt a)"
  by (cases a) (simp_all add: lock_defs Let_def)

interpretation durable: lock_slot "durable_step rt" durable_actor durable_role "durable_valid rt"
    "lock_field ''run_id''" locked for rt
proof
  show "t = s" if "durable_step rt a s = (Inl e, t)" for rt a s e t
    using clean_durable that by (rule cleanD)
next
  fix rt a s r t
  assume v: "durable_valid rt a" and st: "durable_step rt a s = (Inr r, t)"
  show "lock_field ''run_id'' (durable_actor a) t \<and> (locked s \<longrightarrow> lock_field ''run_id'' (durable_actor a) s)"
    if "durable_role a = Take"
    using v st that by (cases a) (auto simp: lock_defs lock_runs lock_field_def locked_def is_str_iff)
  show "lock_field ''run_id'' (durable_actor a) s \<and> lock_field ''run_id'' (durable_actor a) t"
    if "durable_role a = Keep"
    using v st that
    by (cases a) (auto simp: lock_defs lock_runs lock_field_def oget_redact not_sensitive_owner)
  show "\<not> locked t \<and> (locked s \<longrightarrow> lock_field ''run_id'' (durable_actor a) s)" if "durable_role a = Drop"
    using v st that by (cases a) (auto simp: lock_defs lock_runs lock_field_def locked_def)
  show "\<not> locked t" if "durable_role a = Reclaim"
    using v st that by (cases a) (auto simp: lock_defs lock_runs locked_def)
qed (auto dest: lock_field_unique lock_field_locked)

text \<open>
  The launch reservation has one owner at a time: whatever acquisitions, heartbeats, releases
  and recoveries are attempted, by whichever runs and in whichever order, no run acquires or
  confirms it between the acquisition of another run and the next release by that run or recovery.
\<close>

theorem launch_reservation_exclusive:
  "exclusive durable_actor durable_role None
     (lock_trace (durable_step rt) (filter (durable_valid rt) as) (d\<lparr>ld_lock := None\<rparr>))"
  by (rule durable.exclusive_run) (simp add: locked_def)

text \<open>
  A recovery happens only with proof that the holder is gone, its process being dead on this
  very host and its repository the expected one, and it destroys nothing: the record moves to a
  recovery file that did not exist.
\<close>

theorem recovery_proves_death:
  assumes "recover_stale w dir stem expected d = (Inr report, t)"
  shows "\<exists>r i. ld_lock d = Some (Some (JObj r)) \<and> oget r ''repository_identity'' = JStr expected
    \<and> oget r ''host_identity'' = JStr (pr_host w) \<and> int_of (oget r ''process_id'') = Some i
    \<and> pr_alive w i = Some False \<and> map_of (ld_evidence d) (recovery_name stem r) = None
    \<and> t = \<lparr>ld_lock = None, ld_evidence = (recovery_name stem r, Some (JObj r)) # ld_evidence d\<rparr>
    \<and> oget report ''record'' = JObj r"
  using assms by (auto simp: recover_stale_def lock_runs split: option.splits)

definition sample_proc :: "int \<Rightarrow> proc" where
  "sample_proc pid = \<lparr>pr_pid = pid, pr_host = ''host'', pr_now = ''now'',
     pr_alive = (\<lambda>i. if i = 9 then Some False else Some True)\<rparr>"

definition sample_reservation :: obj where
  "sample_reservation = make_lock_record (sample_proc 9) ''p'' ''id'' ''run'' None ''launch''"

theorem recovery_proves_death_witness:
  "\<exists>report t. recover_stale (sample_proc 1) ''/locks'' ''launch'' ''id''
       \<lparr>ld_lock = Some (Some (JObj sample_reservation)), ld_evidence = []\<rparr> = (Inr report, t)
     \<and> ld_lock t = None \<and> oget report ''record'' = JObj sample_reservation"
proof -
  let ?d = "\<lparr>ld_lock = Some (Some (JObj sample_reservation)), ld_evidence = []\<rparr>"
  obtain report t where r: "recover_stale (sample_proc 1) ''/locks'' ''launch'' ''id'' ?d = (Inr report, t)"
    by (simp add: recover_stale_def sbind_def eff_simps load_lock_apply read_lock_def sample_reservation_def
        make_lock_record_def sample_proc_def recovery_name_def oget_or_def)
  from recovery_proves_death [OF r] r show ?thesis by auto
qed

subsection \<open>The writer lease of a repository is exclusive\<close>

datatype lease_op = LAcquire proc string string string string | LRelease string

fun lease_step ::
  "(string \<Rightarrow> string res) \<Rightarrow> (string \<Rightarrow> string) \<Rightarrow> lease_op \<Rightarrow> (lock_dir, unit) eff" where
  "lease_step rp rt (LAcquire w repository feature branch k) =
     sbind (acquire_or_resume rp rt w repository feature branch k) (\<lambda>_. sret ())"
| "lease_step rp rt (LRelease k) = lease_release k"

fun lease_actor :: "lease_op \<Rightarrow> string" where
  "lease_actor (LAcquire w repository feature branch k) = k"
| "lease_actor (LRelease k) = k"

fun lease_role :: "lease_op \<Rightarrow> role" where
  "lease_role (LAcquire w repository feature branch k) = Take"
| "lease_role (LRelease k) = Drop"

definition lease_valid :: "(string \<Rightarrow> string) \<Rightarrow> lease_op \<Rightarrow> bool" where
  "lease_valid rt a \<longleftrightarrow> rt (lease_actor a) = lease_actor a"

lemma clean_commit [simp]: "clean (lease_commit rt a)"
  by (cases a) (simp_all add: lease_commit_def create_lock_def replace_lock_def)

lemma clean_lease: "clean (lease_step rp rt a)"
  by (cases a) (simp_all add: acquire_or_resume_def lease_release_def unlink_lock_def)

lemma lease_decide_Inr:
  assumes "lease_decide rp w repository feature branch k existing = Inr a"
  shows "case existing of
      None \<Rightarrow> a = Create (lease_record w repository feature branch k)
    | Some r \<Rightarrow> oget r ''agent_run'' = JStr k \<and> (\<exists>u. a = Resume u \<and> oget u ''agent_run'' = JStr k)"
proof (cases existing)
  case (Some r)
  from assms Some have "lease_matches rp r repository feature branch k = Inr True"
    "a = Resume (oupdate r [(''pid'', JInt (pr_pid w)), (''host'', JStr (pr_host w)), (''last_heartbeat'', JStr (pr_now w))])"
    by (auto simp: lease_decide_def Let_def)
  moreover from this(1) have "oget r ''agent_run'' = JStr k"
    by (auto simp: lease_matches_def split: sum.splits prod.splits if_splits)
  ultimately show ?thesis by (simp add: Some oupdate_def)
qed (use assms in \<open>simp add: lease_decide_def\<close>)

lemma lease_roles [simp]: "lease_role a \<noteq> Keep" "lease_role a \<noteq> Reclaim"
  by (cases a; simp)+

interpretation lease: lock_slot "lease_step rp rt" lease_actor lease_role "lease_valid rt"
    "lock_field ''agent_run''" locked for rp rt
proof
  show "t = s" if "lease_step rp rt a s = (Inl e, t)" for rp rt a s e t
    using clean_lease that by (rule cleanD)
next
  fix rp :: "string \<Rightarrow> string res" and rt a s r t
  assume v: "lease_valid rt a" and st: "lease_step rp rt a s = (Inr r, t)"
  show "\<not> locked t \<and> (locked s \<longrightarrow> lock_field ''agent_run'' (lease_actor a) s)" if "lease_role a = Drop"
    using v st that by (cases a) (auto simp: lock_defs lock_runs lock_field_def locked_def)
  show "lock_field ''agent_run'' (lease_actor a) t \<and> (locked s \<longrightarrow> lock_field ''agent_run'' (lease_actor a) s)"
    if take: "lease_role a = Take"
  proof (cases a)
    case (LAcquire w repository feature branch k)
    from st LAcquire obtain e c x where d: "read_lock (ld_lock s) = Inr e"
      "lease_decide rp w repository feature branch k e = Inr c" "lease_commit rt c s = (Inr x, t)"
      by (auto simp: acquire_or_resume_def lock_runs simp del: read_lock_Inr)
    show ?thesis
      using lease_decide_Inr [OF d(2)] d(1,3) v
      by (auto simp: LAcquire lease_valid_def lease_commit_def create_lock_def replace_lock_def lock_runs
          lock_field_def locked_def lease_record_def oget_redact not_sensitive_owner)
  qed (use take in simp)
qed (auto dest: lock_field_unique lock_field_locked)

text \<open>
  Claim C16. The writer lease of a repository belongs to one run at a time: whatever acquisitions,
  resumptions and releases are attempted, no other run acquires it before its holder releases it.
\<close>

theorem writer_lease_exclusive:
  "exclusive lease_actor lease_role None
     (lock_trace (lease_step rp rt) (filter (lease_valid rt) as) (d\<lparr>ld_lock := None\<rparr>))"
  by (rule lease.exclusive_run) (simp add: locked_def)

definition dead_lease :: lock_dir where
  "dead_lease = \<lparr>ld_lock = Some (Some (JObj (lease_record (sample_proc 9) ''/r'' ''f'' ''b'' ''run''))), ld_evidence = []\<rparr>"

text \<open>What process \<open>i\<close> decides after reading, and its two steps without interruption.\<close>

definition sample_decide :: "int \<Rightarrow> lock_dir \<Rightarrow> lease_action res" where
  "sample_decide i d =
     rbind (read_lock (ld_lock d)) (lease_decide Inr (sample_proc i) ''/r'' ''f'' ''b'' ''run'')"

definition sample_call :: "int \<Rightarrow> (lock_dir, obj) eff" where
  "sample_call i = acquire_or_resume Inr id (sample_proc i) ''/r'' ''f'' ''b'' ''run''"

text \<open>
  Between reading and writing, resumption is not exclusive: of two processes of one run that find the
  lease of a dead process, the second is refused when the first has finished, but when both have
  read the file before either writes, both are told that they hold the lease. Creation has no such
  race.
\<close>

theorem resume_race:
  "(case (sample_decide 1 dead_lease, sample_decide 2 dead_lease) of
      (Inr a, Inr b) \<Rightarrow>
        [failure_class (fst (lease_commit id a dead_lease)),
         failure_class (fst (lease_commit id b (snd (lease_commit id a dead_lease))))]
    | _ \<Rightarrow> []) = [None, None]
   \<and> [failure_class (fst (sample_call 1 dead_lease)),
      failure_class (fst (sample_call 2 (snd (sample_call 1 dead_lease))))] = [None, Some LockError]
   \<and> (let free = dead_lease\<lparr>ld_lock := None\<rparr>; won = lease_commit id (Create []) free
      in [failure_class (fst won), failure_class (fst (lease_commit id (Create []) (snd won)))]
         = [None, Some LockError])"
  by (intro conjI) code_simp+

definition cloud_redaction :: "string \<Rightarrow> string" where
  "cloud_redaction s =
     (if prefix ''/Users/u/Library/CloudStorage/'' s then ''[REDACTED_USER_DATA_PATH]'' else s)"

text \<open>
  Resuming a lease rewrites its record through the redaction of persisted values, which replaces
  repository paths under a cloud storage folder; the lease then no longer names its repository, and
  its own run is refused.
\<close>

theorem resume_redaction_lockout:
  "let call = acquire_or_resume Inr cloud_redaction (sample_proc 1) ''/Users/u/Library/CloudStorage/repo'' ''f'' ''b'' ''run'';
       start = \<lparr>ld_lock = None, ld_evidence = []\<rparr>;
       d1 = snd (call start); d2 = snd (call d1)
   in [failure_class (fst (call start)), failure_class (fst (call d1)), failure_class (fst (call d2))]
      = [None, None, Some LockError]"
  by code_simp

subsection \<open>The writer lease of a planning run is exclusive\<close>

datatype planning_op =
    PAcquire proc string planning_args | PBind proc string string string
  | PRevalidate string string planning_checks | PRelease string

fun planning_step ::
  "(string \<Rightarrow> string res) \<Rightarrow> (string \<Rightarrow> string) \<Rightarrow> planning_op \<Rightarrow> (lock_dir, unit) eff" where
  "planning_step rp rt (PAcquire w repository a) = sbind (planning_acquire w repository a) (\<lambda>_. sret ())"
| "planning_step rp rt (PBind w repository k session) =
     sbind (planning_bind_session rp rt w repository k session) (\<lambda>_. sret ())"
| "planning_step rp rt (PRevalidate repository k c) =
     sbind (planning_revalidate rp repository k c) (\<lambda>_. sret ())"
| "planning_step rp rt (PRelease k) = planning_release k"

fun planning_actor :: "planning_op \<Rightarrow> string" where
  "planning_actor (PAcquire w repository a) = pa_run_id a"
| "planning_actor (PBind w repository k session) = k"
| "planning_actor (PRevalidate repository k c) = k"
| "planning_actor (PRelease k) = k"

fun planning_role :: "planning_op \<Rightarrow> role" where
  "planning_role (PAcquire w repository a) = Take"
| "planning_role (PBind w repository k session) = Keep"
| "planning_role (PRevalidate repository k c) = Keep"
| "planning_role (PRelease k) = Drop"

definition planning_valid :: "(string \<Rightarrow> string) \<Rightarrow> planning_op \<Rightarrow> bool" where
  "planning_valid rt a \<longleftrightarrow> rt (planning_actor a) = planning_actor a"

lemma planning_role_cases [simp]: "planning_role a \<noteq> Reclaim"
  by (cases a) simp_all

lemma revalidate_run:
  "planning_revalidate rp repository k c s = (Inr r, t) \<Longrightarrow>
     t = s \<and> ld_lock s = Some (Some (JObj r)) \<and> oget r ''queue_reconciliation_run_id'' = JStr k"
  by (auto simp: planning_revalidate_def lock_runs split: option.splits)

lemma revalidate_state: "planning_revalidate rp repository k c s = (r, t) \<Longrightarrow> t = s"
  by (auto simp: planning_revalidate_def sbind_def eff_simps load_lock_apply check_def
      split: sum.splits option.splits if_splits)

lemma clean_revalidate [simp]:
  "clean (planning_revalidate rp repository k c)"
  "(\<And>x. clean (f x)) \<Longrightarrow> clean (sbind (planning_revalidate rp repository k c) f)"
  by (auto simp: clean_def dest: revalidate_state)[1] (rule clean_sbind; auto dest: revalidate_state)

lemma clean_planning: "clean (planning_step rp rt a)"
  by (cases a) (simp_all add: planning_acquire_def planning_bind_session_def planning_release_def create_lock_def
      unlink_lock_def replace_lock_def Let_def)

interpretation planning: lock_slot "planning_step rp rt" planning_actor planning_role "planning_valid rt"
    "lock_field ''queue_reconciliation_run_id''" locked for rp rt
proof
  show "t = s" if "planning_step rp rt a s = (Inl e, t)" for rp rt a s e t
    using clean_planning that by (rule cleanD)
next
  fix rp :: "string \<Rightarrow> string res" and rt a s r t
  assume v: "planning_valid rt a" and st: "planning_step rp rt a s = (Inr r, t)"
  let ?own = "lock_field ''queue_reconciliation_run_id'' (planning_actor a)"
  show "?own t \<and> (locked s \<longrightarrow> ?own s)" if "planning_role a = Take"
    using v st that
    by (cases a) (auto simp: planning_acquire_def create_lock_def lock_runs lock_field_def locked_def planning_record_def)
  show "?own s \<and> ?own t" if keep: "planning_role a = Keep"
  proof (cases a)
    case (PBind w repository k session)
    from st PBind obtain x y u where b: "planning_revalidate rp repository k no_checks s = (Inr x, s)"
      "t = s\<lparr>ld_lock := Some (Some (redact_value rt (JObj (oset ''last_heartbeat'' y (oset ''session_id'' u x)))))\<rparr>"
      by (auto simp: planning_bind_session_def replace_lock_def lock_runs simp del: read_lock_Inr redact_value.simps
          dest: revalidate_state)
    show ?thesis
      using revalidate_run [OF b(1)] b(2) v PBind
      by (auto simp: lock_field_def oget_redact not_sensitive_owner planning_valid_def)
  qed (use st keep in \<open>auto simp: lock_field_def sbind_eq_Inr sret_eq_Inr dest!: revalidate_run\<close>)
  show "\<not> locked t \<and> (locked s \<longrightarrow> ?own s)" if "planning_role a = Drop"
    using v st that
    by (cases a) (auto simp: planning_release_def unlink_lock_def lock_runs lock_field_def locked_def)
qed (auto dest: lock_field_unique lock_field_locked)

text \<open>
  The planning lease belongs to one run at a time, and only the run that holds it revalidates it
  or binds a session to it.
\<close>

theorem planning_lease_exclusive:
  "exclusive planning_actor planning_role None
     (lock_trace (planning_step rp rt) (filter (planning_valid rt) as) (d\<lparr>ld_lock := None\<rparr>))"
  by (rule planning.exclusive_run) (simp add: locked_def)

end
