(* ===== verification/Execution_Profiles.thy ===== *)
theory Execution_Profiles
  imports Json
begin

section \<open>Execution profiles\<close>

text \<open>
  \<^verbatim>\<open>execution_profiles.py\<close>: the validation of a feature's execution policy and of the
  configuration, the recorded evidence an escalation needs, and the resolution of the profile a run is
  executed with. The Markdown form of a policy (\<^verbatim>\<open>markdown_execution_policy\<close>,
  \<^verbatim>\<open>render_markdown_execution_policy\<close>) is not modelled. The argument
  \<^verbatim>\<open>error_type\<close> is \<open>err\<close>; a value is in \<^verbatim>\<open>PROFILE_NAMES\<close>, a tuple, when
  it is equal to one of its texts.
\<close>

definition PROFILE_NAMES :: "string list" where
  "PROFILE_NAMES =
    [''mechanical'', ''repository_aware'', ''bounded_precise'', ''multi_module_precise'',
     ''application_feature_implementation'', ''generic_or_architectural'', ''ambiguous_or_authoritative'',
     ''unresolved_after_high'']"

definition profile_entry :: "string \<Rightarrow> string \<Rightarrow> json" where
  "profile_entry model reasoning = JObj [(''model'', JStr model), (''reasoning'', JStr reasoning)]"

definition DEFAULT_PROFILES :: obj where
  "DEFAULT_PROFILES =
    [(''mechanical'', profile_entry ''gpt-5.6-luna'' ''medium''),
     (''repository_aware'', profile_entry ''gpt-5.6-luna'' ''high''),
     (''bounded_precise'', profile_entry ''gpt-5.6-terra'' ''medium''),
     (''multi_module_precise'', profile_entry ''gpt-5.6-terra'' ''high''),
     (''application_feature_implementation'', profile_entry ''gpt-5.6-terra'' ''medium''),
     (''generic_or_architectural'', profile_entry ''gpt-5.6-sol'' ''medium''),
     (''ambiguous_or_authoritative'', profile_entry ''gpt-5.6-sol'' ''high''),
     (''unresolved_after_high'', profile_entry ''gpt-5.6-sol'' ''xhigh'')]"

definition DEFAULT_WORKFLOW_FALLBACKS :: obj where
  "DEFAULT_WORKFLOW_FALLBACKS =
    [(''queue_reconciliation'', JStr ''repository_aware''), (''application_feature'', JStr ''bounded_precise''),
     (''controller_repair'', JStr ''generic_or_architectural''), (''metadata'', JStr ''mechanical'')]"

definition MODEL_COST_RANK :: "(string \<times> nat) list" where
  "MODEL_COST_RANK = [(''gpt-5.6-luna'', 0), (''gpt-5.6-terra'', 1), (''gpt-5.6-sol'', 2)]"

definition GENERIC_CHILD_JUSTIFICATIONS :: "string list" where
  "GENERIC_CHILD_JUSTIFICATIONS =
    [''save tokens'', ''cost saving'', ''cheaper child'', ''reduce cost'', ''use a child'']"

definition UNSUITABLE_CHILD_BOUNDARY_TERMS :: "string list" where
  "UNSUITABLE_CHILD_BOUNDARY_TERMS =
    [''whole application'', ''architecture decision'', ''durable state'', ''integration decision'',
     ''recovery decision'', ''dispatch policy'', ''repository-wide contradiction'']"

record execution_policy =
  xp_profile :: string
  xp_parent :: int
  xp_child :: int
  xp_trigger :: "string option"
  xp_escalation :: "string option"
  xp_delegation :: "obj option"

definition execution_policy_dict :: "execution_policy \<Rightarrow> obj" where
  "execution_policy_dict p =
     [(''profile'', JStr (xp_profile p)), (''parent_sessions'', JInt (xp_parent p)),
      (''child_sessions'', JInt (xp_child p))]
     @ (case (xp_trigger p, xp_escalation p) of
          (Some t, Some e) \<Rightarrow> [(''escalation'', JObj [(''trigger'', JStr t), (''profile'', JStr e)])] | _ \<Rightarrow> [])
     @ (case xp_delegation p of Some d \<Rightarrow> [(''child_delegation'', JObj d)] | None \<Rightarrow> [])"

subsection \<open>Validation of a policy\<close>

definition profile_name :: "json \<Rightarrow> bool" where
  "profile_name v \<longleftrightarrow> (case v of JStr s \<Rightarrow> s \<in> set PROFILE_NAMES | _ \<Rightarrow> False)"

definition delegation_fields :: "string list" where
  "delegation_fields =
    [''role'', ''profile'', ''cost_saving_justification'', ''task_boundary'', ''expected_input_context_bytes'',
     ''parent_context_bytes'', ''expected_output_contract'', ''read_only'', ''owned_paths'', ''parent_owned_paths'']"

definition delegation_texts :: "(string \<times> nat) list" where
  "delegation_texts = [(''role'', 1), (''cost_saving_justification'', 20), (''task_boundary'', 12),
     (''expected_output_contract'', 12)]"

definition stripped :: "obj \<Rightarrow> string \<Rightarrow> string" where
  "stripped v k = (case oget v k of JStr s \<Rightarrow> strip s | _ \<Rightarrow> [])"

definition generic_justification :: "string \<Rightarrow> bool" where
  "generic_justification j \<longleftrightarrow> j \<in> set GENERIC_CHILD_JUSTIFICATIONS
     \<or> (list_ex (\<lambda>t. contains t j) GENERIC_CHILD_JUSTIFICATIONS \<and> length (split_ws j) \<le> 6)"

definition positive_int :: "json \<Rightarrow> bool" where
  "positive_int v \<longleftrightarrow> (case v of JInt i \<Rightarrow> i \<ge> 1 | _ \<Rightarrow> False)"

definition path_list :: "json \<Rightarrow> string list option" where
  "path_list v = (case v of
     JArr xs \<Rightarrow> if list_all nonblank_str xs \<and> distinct xs
                then Some (sort (map (\<lambda>x. case x of JStr s \<Rightarrow> s | _ \<Rightarrow> []) xs)) else None
   | _ \<Rightarrow> None)"

definition validate_child_delegation :: "exn_class \<Rightarrow> json \<Rightarrow> obj res" where
  "validate_child_delegation err value =
     (case value of JObj v \<Rightarrow>
        rbind (check (set (map fst v) = set delegation_fields) err ''missing or unsupported fields'') (\<lambda>_.
        rbind (rall (\<lambda>(k, n). check (is_str (oget v k) \<and> length (stripped v k) \<ge> n) err
                 ''expected non-whitespace characters'') delegation_texts) (\<lambda>_.
        rbind (check (\<not> generic_justification (lower (stripped v ''cost_saving_justification''))) err
                 ''generic justification is not cost evidence'') (\<lambda>_.
        rbind (check (\<not> list_ex (\<lambda>t. contains t (lower (stripped v ''task_boundary''))) UNSUITABLE_CHILD_BOUNDARY_TERMS)
                 err ''child cannot own architecture or durable authority'') (\<lambda>_.
        rbind (check (profile_name (oget v ''profile'')) err ''unsupported profile'') (\<lambda>_.
        rbind (rall (\<lambda>k. check (positive_int (oget v k)) err ''expected a positive integer'')
                 [''expected_input_context_bytes'', ''parent_context_bytes'']) (\<lambda>_.
        rbind (case (oget v ''expected_input_context_bytes'', oget v ''parent_context_bytes'') of
                 (JInt a, JInt b) \<Rightarrow> check (a * 2 \<le> b) err ''child context must be materially smaller than parent context''
               | _ \<Rightarrow> raise err ''expected a positive integer'') (\<lambda>_.
        rbind (check (is_bool (oget v ''read_only'')) err ''expected a boolean'') (\<lambda>_.
        case (path_list (oget v ''owned_paths''), path_list (oget v ''parent_owned_paths'')) of
          (Some own, Some parent) \<Rightarrow>
            rbind (check (oget v ''read_only'' = JBool True \<or> own \<noteq> []) err
                     ''a writing child requires exclusive owned_paths'') (\<lambda>_.
            rbind (check (set own \<inter> set parent = {}) err
                     ''child and parent production-file ownership overlaps'') (\<lambda>_.
            Inr (oset ''parent_owned_paths'' (strs parent) (oset ''owned_paths'' (strs own)
                  (foldl (\<lambda>d (k, n). oset k (JStr (stripped v k)) d) v delegation_texts)))))
        | _ \<Rightarrow> raise err ''expected unique non-empty repository-relative paths''))))))))
      | _ \<Rightarrow> raise err ''expected an object'')"

definition read_escalation :: "exn_class \<Rightarrow> string \<Rightarrow> json \<Rightarrow> (string \<times> string) option res" where
  "read_escalation err profile value =
     (case value of
        JNull \<Rightarrow> Inr None
      | JObj e \<Rightarrow>
          rbind (check (set (map fst e) = {''trigger'', ''profile''}) err ''expected exactly trigger and profile'') (\<lambda>_.
          rbind (check (nonblank_str (oget e ''trigger'')) err ''expected a non-empty string'') (\<lambda>_.
          rbind (check (profile_name (oget e ''profile'')) err ''unsupported profile'') (\<lambda>_.
          rbind (check (oget e ''profile'' \<noteq> JStr profile) err ''must change the profile'') (\<lambda>_.
          Inr (Some (stripped e ''trigger'', case oget e ''profile'' of JStr s \<Rightarrow> s | _ \<Rightarrow> []))))))
      | _ \<Rightarrow> raise err ''expected exactly trigger and profile'')"

definition validate_feature_execution_policy :: "exn_class \<Rightarrow> json \<Rightarrow> execution_policy res" where
  "validate_feature_execution_policy err value =
     (case value of JObj v \<Rightarrow>
        rbind (check (set (map fst v) \<subseteq> {''profile'', ''parent_sessions'', ''child_sessions'', ''escalation'',
                 ''child_delegation''}) err ''unsupported keys'') (\<lambda>_.
        rbind (case oget v ''profile'' of JStr s \<Rightarrow> if s \<in> set PROFILE_NAMES then Inr s else raise err ''unsupported profile''
               | _ \<Rightarrow> raise err ''unsupported profile'') (\<lambda>profile.
        rbind (case oget v ''parent_sessions'' of JInt i \<Rightarrow> if i \<ge> 1 then Inr i else raise err ''expected an integer of at least 1''
               | _ \<Rightarrow> raise err ''expected an integer of at least 1'') (\<lambda>parent.
        rbind (case oget v ''child_sessions'' of JInt i \<Rightarrow> if i \<ge> 0 then Inr i else raise err ''expected a non-negative integer''
               | _ \<Rightarrow> raise err ''expected a non-negative integer'') (\<lambda>child.
        rbind (check (child \<le> 1) err ''initial policy permits at most one child'') (\<lambda>_.
        let delegation = oget v ''child_delegation'' in
        rbind (check (\<not> (child = 0 \<and> delegation \<noteq> JNull)) err ''must be absent when child_sessions is zero'') (\<lambda>_.
        rbind (check (\<not> (child = 1 \<and> delegation = JNull)) err ''required when child_sessions is positive'') (\<lambda>_.
        rbind (if delegation = JNull then Inr None
               else rbind (validate_child_delegation err delegation) (\<lambda>d. Inr (Some d))) (\<lambda>d.
        rbind (read_escalation err profile (oget v ''escalation'')) (\<lambda>e.
        Inr \<lparr>xp_profile = profile, xp_parent = parent, xp_child = child, xp_trigger = map_option fst e,
             xp_escalation = map_option snd e, xp_delegation = d\<rparr>)))))))))
      | _ \<Rightarrow> raise err ''expected an object'')"

subsection \<open>Configuration\<close>

definition policy_entry :: "json \<Rightarrow> (string \<times> string) list \<Rightarrow> (string \<times> string) list res" where
  "policy_entry item seen =
     (case item of JObj d \<Rightarrow>
        rbind (check (set (map fst d) = {''project_id'', ''feature_id'', ''execution_policy''}) ConfigurationError
                 ''feature_policies must define exactly project_id, feature_id, and execution_policy'') (\<lambda>_.
        case (oget d ''project_id'', oget d ''feature_id'') of
          (JStr p, JStr f) \<Rightarrow>
            rbind (check (nonblank p \<and> nonblank f) ConfigurationError ''feature_policies must be non-empty'') (\<lambda>_.
            rbind (check ((p, f) \<notin> set seen) ConfigurationError ''duplicate feature execution policy'') (\<lambda>_.
            rbind (validate_feature_execution_policy ConfigurationError (oget d ''execution_policy'')) (\<lambda>_.
            Inr ((p, f) # seen))))
        | _ \<Rightarrow> raise ConfigurationError ''feature_policies must be non-empty'')
      | _ \<Rightarrow> raise ConfigurationError ''feature_policies must define exactly project_id, feature_id, and execution_policy'')"

definition profile_configured :: "obj \<Rightarrow> string \<times> json \<Rightarrow> unit res" where
  "profile_configured profiles ne =
     (case oget profiles (fst ne) of JObj c \<Rightarrow>
        rbind (check (set (map fst c) = {''model'', ''reasoning''}) ConfigurationError
                 ''execution profile must define exactly model and reasoning'') (\<lambda>_.
        check (py_eq (JObj c) (snd ne)) ConfigurationError ''execution profile must resolve to its default'')
      | _ \<Rightarrow> raise ConfigurationError ''execution profile must define exactly model and reasoning'')"

definition validate_execution_profile_configuration :: "json \<Rightarrow> obj res" where
  "validate_execution_profile_configuration value =
     (case value of JObj v \<Rightarrow>
        (case oget v ''profiles'' of JObj profiles \<Rightarrow>
           rbind (check (set (map fst profiles) = set PROFILE_NAMES) ConfigurationError
                    ''execution profile configuration must define every named profile exactly once'') (\<lambda>_.
           rbind (rall (profile_configured profiles) DEFAULT_PROFILES) (\<lambda>_.
           case oget v ''workflow_fallbacks'' of JObj fallbacks \<Rightarrow>
             rbind (rall (\<lambda>kv. check (profile_name (snd kv)) ConfigurationError
                      ''workflow fallback references an unsupported profile'') fallbacks) (\<lambda>_.
             case oget_or v ''feature_policies'' (JArr []) of JArr policies \<Rightarrow>
               rbind (rfold policy_entry policies []) (\<lambda>_. Inr v)
             | _ \<Rightarrow> raise ConfigurationError ''feature_policies must be an array'')
           | _ \<Rightarrow> raise ConfigurationError ''workflow_fallbacks must be an object''))
         | _ \<Rightarrow> raise ConfigurationError ''execution profile configuration must define every named profile exactly once'')
      | _ \<Rightarrow> raise ConfigurationError ''execution profile configuration must be an object'')"

definition profile_configuration :: "json option \<Rightarrow> obj res" where
  "profile_configuration value =
     (case value of
        None \<Rightarrow> Inr [(''profiles'', JObj DEFAULT_PROFILES), (''workflow_fallbacks'', JObj DEFAULT_WORKFLOW_FALLBACKS),
                     (''feature_policies'', JArr [])]
      | Some c \<Rightarrow> validate_execution_profile_configuration c)"

subsection \<open>Resolution\<close>

text \<open>\<^verbatim>\<open>_feature_policy\<close>: the policy of the queue entry or of the configuration, and its source.\<close>

definition configured_policy :: "obj \<Rightarrow> string option \<Rightarrow> obj \<Rightarrow> json res" where
  "configured_policy f project configuration =
     (if project = None \<or> project = Some [] then Inr JNull
      else rbind (elements (oget_or configuration ''feature_policies'' (JArr []))) (\<lambda>items.
        rbind (rmap (\<lambda>i. case i of JObj d \<Rightarrow> Inr d | _ \<Rightarrow> raise AttributeError ''get'') items) (\<lambda>ds.
        Inr (case filter (\<lambda>d. py_eq (oget d ''project_id'') (of_opt project)
                  \<and> py_eq (oget d ''feature_id'') (oget f ''id'')) ds of
               [] \<Rightarrow> JNull | d # _ \<Rightarrow> oget d ''execution_policy''))))"

definition feature_policy ::
  "obj option \<Rightarrow> string option \<Rightarrow> obj \<Rightarrow> (execution_policy \<times> string) option res" where
  "feature_policy feature project configuration =
     (let embedded = (case feature of None \<Rightarrow> JNull | Some f \<Rightarrow> oget f ''execution_policy'') in
      rbind (case feature of None \<Rightarrow> Inr JNull | Some f \<Rightarrow> configured_policy f project configuration) (\<lambda>configured.
      rbind (check (\<not> (embedded \<noteq> JNull \<and> configured \<noteq> JNull \<and> \<not> py_eq embedded configured)) ConfigurationError
               ''queue and controller feature execution policies disagree'') (\<lambda>_.
      if embedded \<noteq> JNull
        then rbind (validate_feature_execution_policy QueueError embedded) (\<lambda>p. Inr (Some (p, ''selected_feature_profile'')))
      else if configured \<noteq> JNull
        then rbind (validate_feature_execution_policy ConfigurationError configured)
               (\<lambda>p. Inr (Some (p, ''reconciled_feature_profile'')))
      else Inr None)))"

definition escalation_record_fields :: "string list" where
  "escalation_record_fields =
    [''previous_profile'', ''previous_model'', ''previous_reasoning'', ''failed_command_or_unresolved_evidence'',
     ''escalation_trigger'', ''new_profile'', ''new_model'', ''new_reasoning'', ''expected_resolution'',
     ''attempt_number'']"

definition default_part :: "string \<Rightarrow> string \<Rightarrow> json" where
  "default_part profile k = (case oget DEFAULT_PROFILES profile of JObj d \<Rightarrow> oget d k | _ \<Rightarrow> JNull)"

definition escalation_record_ok :: "obj \<Rightarrow> string \<Rightarrow> string \<Rightarrow> string \<Rightarrow> bool" where
  "escalation_record_ok e profile trigger target \<longleftrightarrow>
     oget e ''recorded'' = JBool True \<and> oget e ''trigger'' = JStr trigger
     \<and> oget e ''escalation_trigger'' = JStr trigger \<and> oget e ''context_complete'' = JBool True
     \<and> oget e ''missing_context'' \<noteq> JBool True \<and> oget e ''environment_failure'' \<noteq> JBool True
     \<and> oget e ''localized_test_omission'' \<noteq> JBool True
     \<and> list_all (ohas e) escalation_record_fields
     \<and> oget e ''previous_profile'' = JStr profile
     \<and> py_eq (oget e ''previous_model'') (default_part profile ''model'')
     \<and> py_eq (oget e ''previous_reasoning'') (default_part profile ''reasoning'')
     \<and> oget e ''new_profile'' = JStr target
     \<and> py_eq (oget e ''new_model'') (default_part target ''model'')
     \<and> py_eq (oget e ''new_reasoning'') (default_part target ''reasoning'')
     \<and> nonblank_str (oget e ''failed_command_or_unresolved_evidence'') \<and> nonblank_str (oget e ''expected_resolution'')
     \<and> (case oget e ''attempt_number'' of
          JInt n \<Rightarrow> n \<ge> 1 \<and> \<not> (target = ''unresolved_after_high'' \<and> n < 2) | _ \<Rightarrow> False)
     \<and> nonblank_str (oget e ''evidence_id'')"

definition eligible_escalation :: "execution_policy \<Rightarrow> json \<Rightarrow> json option" where
  "eligible_escalation p evidence =
     (case (xp_trigger p, xp_escalation p, evidence) of
        (Some t, Some target, JObj e) \<Rightarrow>
          if t \<noteq> [] \<and> target \<noteq> [] \<and> escalation_record_ok e (xp_profile p) t target
          then Some (oget e ''evidence_id'') else None
      | _ \<Rightarrow> None)"

record resolved_profile =
  rp_profile :: json
  rp_source :: string
  rp_model :: json
  rp_reasoning :: json
  rp_parent :: int
  rp_child :: int
  rp_trigger :: "string option"
  rp_escalation :: "string option"
  rp_escalated :: bool
  rp_evidence :: json
  rp_delegation :: "obj option"

definition resolved_profile_dict :: "resolved_profile \<Rightarrow> obj" where
  "resolved_profile_dict r =
     [(''profile'', rp_profile r), (''resolution_source'', JStr (rp_source r)), (''model'', rp_model r),
      (''reasoning'', rp_reasoning r), (''parent_sessions'', JInt (rp_parent r)),
      (''child_sessions'', JInt (rp_child r)), (''escalation_trigger'', of_opt (rp_trigger r)),
      (''escalation_profile'', of_opt (rp_escalation r)), (''escalated'', JBool (rp_escalated r)),
      (''escalation_evidence_id'', rp_evidence r),
      (''child_delegation'', case rp_delegation r of None \<Rightarrow> JNull | Some d \<Rightarrow> JObj d)]"

text \<open>\<^verbatim>\<open>configured["profiles"][name]\<close>: its model and its reasoning\<close>

definition profile_parts :: "obj \<Rightarrow> json \<Rightarrow> (json \<times> json) res" where
  "profile_parts configured name =
     (case oget configured ''profiles'' of JObj ps \<Rightarrow>
        rbind (case name of JStr k \<Rightarrow> osub ps k | _ \<Rightarrow> raise KeyError ''profile'') (\<lambda>c.
        case c of JObj d \<Rightarrow> rbind (osub d ''model'') (\<lambda>m. rbind (osub d ''reasoning'') (\<lambda>q. Inr (m, q)))
        | _ \<Rightarrow> raise TypeError ''object is not subscriptable'')
      | _ \<Rightarrow> raise KeyError ''profiles'')"

definition cost_rank :: "json \<Rightarrow> nat option res" where
  "cost_rank m = rbind (check (\<not> is_list m \<and> \<not> is_dict m) TypeError ''unhashable type'') (\<lambda>_.
     Inr (case m of JStr s \<Rightarrow> map_of MODEL_COST_RANK s | _ \<Rightarrow> None))"

definition cheaper :: "nat option \<Rightarrow> nat option \<Rightarrow> bool" where
  "cheaper child parent \<longleftrightarrow> (case (child, parent) of (Some c, Some p) \<Rightarrow> c < p | _ \<Rightarrow> False)"

text \<open>The policy of a run and where it comes from.\<close>

definition run_policy ::
  "string \<Rightarrow> string option \<Rightarrow> obj \<Rightarrow> (execution_policy \<times> string) option \<Rightarrow> (execution_policy \<times> string) res" where
  "run_policy workflow override configured own =
     (case override of
        Some profile \<Rightarrow>
          rbind (check (profile \<in> set PROFILE_NAMES) ConfigurationError ''unsupported explicit execution profile'') (\<lambda>_.
          Inr (case own of
                 None \<Rightarrow> \<lparr>xp_profile = profile, xp_parent = 1, xp_child = 0, xp_trigger = None, xp_escalation = None,
                          xp_delegation = None\<rparr>
               | Some ps \<Rightarrow> (fst ps)\<lparr>xp_profile := profile\<rparr>, ''explicit_run_override''))
      | None \<Rightarrow>
          (case own of
             Some ps \<Rightarrow> Inr ps
           | None \<Rightarrow>
               (case oget_or configured ''workflow_fallbacks'' (JObj []) of JObj fs \<Rightarrow>
                  (case oget fs workflow of
                     JStr f \<Rightarrow> if f \<in> set PROFILE_NAMES
                       then Inr (\<lparr>xp_profile = f, xp_parent = 1, xp_child = 0, xp_trigger = None, xp_escalation = None,
                                  xp_delegation = None\<rparr>, ''workflow_fallback'')
                       else raise ConfigurationError ''workflow has no validated execution-profile fallback''
                   | _ \<Rightarrow> raise ConfigurationError ''workflow has no validated execution-profile fallback'')
                | _ \<Rightarrow> raise AttributeError ''get'')))"

definition child_binding :: "obj \<Rightarrow> execution_policy \<Rightarrow> json \<Rightarrow> obj option res" where
  "child_binding configured policy model =
     (if xp_child policy = 0 then Inr (xp_delegation policy)
      else case xp_delegation policy of
        None \<Rightarrow> raise AssertionError []
      | Some d \<Rightarrow>
          rbind (osub d ''profile'') (\<lambda>name.
          rbind (profile_parts configured name) (\<lambda>(m, q).
          rbind (cost_rank model) (\<lambda>parent.
          rbind (cost_rank m) (\<lambda>child.
          rbind (check (cheaper child parent) ConfigurationError
                   ''positive child budget requires a strictly cheaper configured child model'') (\<lambda>_.
          Inr (Some (oset ''reasoning'' q (oset ''model'' m d)))))))))"

definition resolve_execution_profile ::
  "string \<Rightarrow> bool \<Rightarrow> obj option \<Rightarrow> string option \<Rightarrow> json option \<Rightarrow> string option \<Rightarrow> json \<Rightarrow> resolved_profile res" where
  "resolve_execution_profile workflow deterministic feature project configuration override evidence =
     rbind (profile_configuration configuration) (\<lambda>configured.
     if deterministic then
       Inr \<lparr>rp_profile = JNull, rp_source = ''deterministic_zero_model'', rp_model = JNull, rp_reasoning = JNull,
            rp_parent = 0, rp_child = 0, rp_trigger = None, rp_escalation = None, rp_escalated = False,
            rp_evidence = JNull, rp_delegation = None\<rparr>
     else
       rbind (feature_policy feature project configured) (\<lambda>own.
       rbind (run_policy workflow override configured own) (\<lambda>(policy, source).
       let eligible = (if source = ''explicit_run_override'' then None else eligible_escalation policy evidence);
           profile = (case (eligible, xp_escalation policy) of (Some _, Some target) \<Rightarrow> target | _ \<Rightarrow> xp_profile policy) in
       rbind (profile_parts configured (JStr profile)) (\<lambda>(model, reasoning).
       rbind (child_binding configured policy model) (\<lambda>delegation.
       Inr \<lparr>rp_profile = JStr profile,
            rp_source = (if eligible \<noteq> None then ''evidence_based_escalation'' else source), rp_model = model,
            rp_reasoning = reasoning, rp_parent = xp_parent policy, rp_child = xp_child policy,
            rp_trigger = xp_trigger policy, rp_escalation = xp_escalation policy, rp_escalated = (eligible \<noteq> None),
            rp_evidence = (case eligible of None \<Rightarrow> JNull | Some i \<Rightarrow> i), rp_delegation = delegation\<rparr>)))))"

definition binding_checks :: "obj \<Rightarrow> json list \<Rightarrow> json list \<Rightarrow> bool" where
  "binding_checks r prior observed \<longleftrightarrow>
     list_all2 (\<lambda>k v. py_eq (oget r k) v) [''previous_profile'', ''previous_model'', ''previous_reasoning''] (take 3 prior)
     \<and> list_all2 (\<lambda>k v. py_eq (oget r k) v) [''new_profile'', ''new_model'', ''new_reasoning''] (take 3 observed)
     \<and> nonblank_str (oget r ''escalation_trigger'') \<and> nonblank_str (oget r ''failed_command_or_unresolved_evidence'')
     \<and> nonblank_str (oget r ''expected_resolution'') \<and> positive_int (oget r ''attempt_number'')"

definition validate_authenticated_profile_binding :: "obj \<Rightarrow> resolved_profile \<Rightarrow> json \<Rightarrow> unit res" where
  "validate_authenticated_profile_binding authenticated current record =
     (let prior = map (oget authenticated) [''profile'', ''model'', ''reasoning'', ''parent_sessions'', ''child_sessions''];
          observed = [rp_profile current, rp_model current, rp_reasoning current, JInt (rp_parent current),
                      JInt (rp_child current)]
      in if list_all2 py_eq prior observed then Inr ()
         else case record of
           JObj r \<Rightarrow> check (binding_checks r prior observed) ConfigurationError
                      ''authenticated execution profile escalation record is invalid''
         | _ \<Rightarrow> raise ConfigurationError ''authenticated execution profile changed without an escalation record'')"

text \<open>The policy an explicit value of the queue or of the specification stands for.\<close>

definition explicit_policy :: "json \<Rightarrow> obj option res" where
  "explicit_policy v = (if v = JNull then Inr None
     else rbind (validate_feature_execution_policy QueueError v) (\<lambda>p. Inr (Some (execution_policy_dict p))))"

definition resolve_feature_execution_policy ::
  "obj \<Rightarrow> string \<Rightarrow> json \<Rightarrow> json option \<Rightarrow> obj res" where
  "resolve_feature_execution_policy feature project specification configuration =
     rbind (check (nonempty_str (oget feature ''id'')) ConfigurationError
              ''feature execution-policy resolution requires a feature ID'') (\<lambda>_.
     rbind (explicit_policy (oget feature ''execution_policy'')) (\<lambda>queue.
     rbind (explicit_policy specification) (\<lambda>spec.
     rbind (check (case (queue, spec) of (Some a, Some b) \<Rightarrow> py_eq (JObj a) (JObj b) | _ \<Rightarrow> True) ConfigurationError
              ''queue and feature specification execution policies disagree'') (\<lambda>_.
     let explicit = (if queue \<noteq> None then queue else spec);
         candidate = (case explicit of None \<Rightarrow> feature | Some p \<Rightarrow> oset ''execution_policy'' (JObj p) feature) in
     rbind (resolve_execution_profile ''application_feature'' False (Some candidate) (Some project) configuration None JNull) (\<lambda>r.
     rbind (check (rp_profile r \<noteq> JNull \<and> rp_model r \<noteq> JNull \<and> rp_reasoning r \<noteq> JNull \<and> rp_parent r \<ge> 1
              \<and> rp_child r \<ge> 0 \<and> rp_source r \<in> {''selected_feature_profile'', ''reconciled_feature_profile'',
              ''workflow_fallback''}) ConfigurationError
              ''feature does not resolve to one unambiguous executable policy'') (\<lambda>_.
     let policy = (case explicit of Some p \<Rightarrow> p
           | None \<Rightarrow> execution_policy_dict \<lparr>xp_profile = (case rp_profile r of JStr s \<Rightarrow> s | _ \<Rightarrow> []),
               xp_parent = rp_parent r, xp_child = rp_child r, xp_trigger = rp_trigger r,
               xp_escalation = rp_escalation r, xp_delegation = None\<rparr>) in
     rbind (validate_feature_execution_policy QueueError (JObj policy)) (\<lambda>_.
     Inr [(''feature_id'', oget feature ''id''), (''execution_policy'', JObj policy),
          (''resolved_execution_profile'', JObj (resolved_profile_dict r)), (''policy_source'', JStr (rp_source r)),
          (''explicit_policy_preserved'', JBool (explicit \<noteq> None))])))))))"

subsection \<open>What a resolved profile guarantees\<close>

definition policy_ok :: "execution_policy \<Rightarrow> bool" where
  "policy_ok p \<longleftrightarrow> xp_profile p \<in> set PROFILE_NAMES \<and> 1 \<le> xp_parent p \<and> xp_child p \<in> {0, 1}
     \<and> (xp_child p = 0 \<longleftrightarrow> xp_delegation p = None)
     \<and> (case xp_escalation p of None \<Rightarrow> True | Some t \<Rightarrow> t \<in> set PROFILE_NAMES)"

lemma profile_name_iff: "profile_name v \<longleftrightarrow> (\<exists>s. v = JStr s \<and> s \<in> set PROFILE_NAMES)"
  by (cases v) (auto simp: profile_name_def)

lemma read_escalation_Inr:
  "read_escalation err profile v = Inr (Some (t, e)) \<Longrightarrow> e \<in> set PROFILE_NAMES"
  by (auto simp: read_escalation_def profile_name_iff split: json.splits)

lemma validate_policy_ok:
  assumes "validate_feature_execution_policy err v = Inr p"
  shows "policy_ok p"
proof -
  obtain d profile parent child e dl where d: "v = JObj d"
    and profile: "(case oget d ''profile'' of JStr s \<Rightarrow> if s \<in> set PROFILE_NAMES then Inr s else raise err ''unsupported profile''
               | _ \<Rightarrow> raise err ''unsupported profile'') = Inr profile"
    and parent: "(case oget d ''parent_sessions'' of JInt i \<Rightarrow> if i \<ge> 1 then Inr i else raise err ''expected an integer of at least 1''
               | _ \<Rightarrow> raise err ''expected an integer of at least 1'') = Inr parent"
    and child: "(case oget d ''child_sessions'' of JInt i \<Rightarrow> if i \<ge> 0 then Inr i else raise err ''expected a non-negative integer''
               | _ \<Rightarrow> raise err ''expected a non-negative integer'') = Inr child"
    and c1: "child \<le> 1" and c2: "\<not> (child = 0 \<and> oget d ''child_delegation'' \<noteq> JNull)"
    and c3: "\<not> (child = 1 \<and> oget d ''child_delegation'' = JNull)"
    and dl: "(if oget d ''child_delegation'' = JNull then Inr None
               else rbind (validate_child_delegation err (oget d ''child_delegation'')) (\<lambda>d. Inr (Some d))) = Inr dl"
    and e: "read_escalation err profile (oget d ''escalation'') = Inr e"
    and p: "p = \<lparr>xp_profile = profile, xp_parent = parent, xp_child = child, xp_trigger = map_option fst e,
             xp_escalation = map_option snd e, xp_delegation = dl\<rparr>"
  proof (cases v)
    case (JObj d)
    then show ?thesis
      using assms
      unfolding validate_feature_execution_policy_def JObj json.case Let_def rbind_eq_Inr check_eq_Inr sum.inject
      by (elim exE conjE) (rule that [OF JObj]; (assumption | erule sym))
  qed (use assms in \<open>simp_all add: validate_feature_execution_policy_def\<close>)
  have "profile \<in> set PROFILE_NAMES" using profile by (auto split: json.splits if_splits)
  moreover have "1 \<le> parent" using parent by (auto split: json.splits if_splits)
  moreover have "0 \<le> child" using child by (auto split: json.splits if_splits)
  moreover have "dl = None \<longleftrightarrow> oget d ''child_delegation'' = JNull" using dl by (auto split: if_splits)
  moreover have "case map_option snd e of None \<Rightarrow> True | Some t \<Rightarrow> t \<in> set PROFILE_NAMES"
    using e read_escalation_Inr by (auto split: option.split)
  ultimately show ?thesis
    using c1 c2 c3 by (auto simp: policy_ok_def p)
qed

lemma feature_policy_ok:
  "feature_policy feature project configuration = Inr (Some (p, source)) \<Longrightarrow> policy_ok p"
  unfolding feature_policy_def Let_def
  by (auto split: if_splits dest: validate_policy_ok)

lemma run_policy_ok:
  assumes "run_policy workflow override configured own = Inr (p, source)"
    and "\<And>q src. own = Some (q, src) \<Longrightarrow> policy_ok q"
  shows "policy_ok p"
proof (cases override)
  case None
  with assms show ?thesis
    by (auto simp: run_policy_def policy_ok_def split: option.splits json.splits if_splits)
next
  case (Some profile)
  with assms show ?thesis
    by (cases own) (auto simp: run_policy_def policy_ok_def)
qed

text \<open>A validated configuration gives every profile its default model and reasoning.\<close>

lemma configured_entry:
  assumes "profile_configured ps (n, profile_entry m q) = Inr ()" "oget ps n = JObj c"
  shows "osub c ''model'' = Inr x \<Longrightarrow> x = JStr m" "osub c ''reasoning'' = Inr x \<Longrightarrow> x = JStr q"
proof -
  have eq: "list_all (\<lambda>kv. case map_of [(''model'', JStr m), (''reasoning'', JStr q)] (fst kv) of
      None \<Rightarrow> False | Some u \<Rightarrow> py_eq (snd kv) u) c"
    using assms by (simp add: profile_configured_def profile_entry_def)
  show "x = JStr m" if "osub c ''model'' = Inr x"
    using eq map_of_SomeD [of c "''model''" x] that by (fastforce simp: list_all_iff)
  show "x = JStr q" if "osub c ''reasoning'' = Inr x"
    using eq map_of_SomeD [of c "''reasoning''" x] that by (fastforce simp: list_all_iff)
qed

lemma default_entries:
  "list_all (\<lambda>n. (n, profile_entry (case default_part n ''model'' of JStr s \<Rightarrow> s | _ \<Rightarrow> [])
       (case default_part n ''reasoning'' of JStr s \<Rightarrow> s | _ \<Rightarrow> [])) \<in> set DEFAULT_PROFILES
     \<and> is_str (default_part n ''model'') \<and> is_str (default_part n ''reasoning'')) PROFILE_NAMES"
  by code_simp

lemma profile_parts_default:
  assumes "profile_configuration c = Inr v" "n \<in> set PROFILE_NAMES" "profile_parts v (JStr n) = Inr (m, q)"
  shows "m = default_part n ''model'' \<and> q = default_part n ''reasoning''"
proof -
  obtain a b where ab: "(n, profile_entry a b) \<in> set DEFAULT_PROFILES" "default_part n ''model'' = JStr a"
    "default_part n ''reasoning'' = JStr b"
    using default_entries assms(2) by (auto simp: list_all_iff is_str_iff)
  obtain ps d where ps: "oget v ''profiles'' = JObj ps" "osub ps n = Inr (JObj d)"
    "osub d ''model'' = Inr m" "osub d ''reasoning'' = Inr q"
  proof -
    obtain ps x where x: "oget v ''profiles'' = JObj ps" "osub ps n = Inr x"
      "(case x of JObj d \<Rightarrow> rbind (osub d ''model'') (\<lambda>m. rbind (osub d ''reasoning'') (\<lambda>q. Inr (m, q)))
        | _ \<Rightarrow> raise TypeError ''object is not subscriptable'') = Inr (m, q)"
      using assms(3) by (cases "oget v ''profiles''") (simp_all add: profile_parts_def, blast)
    then show ?thesis using that by (cases x) auto
  qed
  have "oget ps n = JObj d" using ps(2) by (simp add: oget_def)
  moreover have "profile_configured ps (n, profile_entry a b) = Inr ()"
  proof (cases c)
    case None
    have "list_all (\<lambda>ne. profile_configured DEFAULT_PROFILES ne = Inr ()) DEFAULT_PROFILES" by code_simp
    with None assms(1) ps(1) ab(1) show ?thesis by (auto simp: profile_configuration_def list_all_iff)
  next
    case (Some u)
    with assms(1) ps(1) ab(1) show ?thesis
      by (auto simp: profile_configuration_def validate_execution_profile_configuration_def list_all_iff
          split: json.splits)
  qed
  ultimately show ?thesis using configured_entry ps(3,4) ab(2,3) by metis
qed

definition named_default :: "json \<Rightarrow> json \<Rightarrow> json \<Rightarrow> bool" where
  "named_default name model reasoning \<longleftrightarrow>
     list_ex (\<lambda>n. name = JStr n \<and> model = default_part n ''model'' \<and> reasoning = default_part n ''reasoning'') PROFILE_NAMES"

definition trusted_profile :: "bool \<Rightarrow> json \<Rightarrow> resolved_profile \<Rightarrow> bool" where
  "trusted_profile deterministic evidence r \<longleftrightarrow>
     (if deterministic then rp_profile r = JNull \<and> rp_model r = JNull \<and> rp_parent r = 0 \<and> rp_child r = 0
      else named_default (rp_profile r) (rp_model r) (rp_reasoning r)
        \<and> 1 \<le> rp_parent r \<and> rp_child r \<in> {0, 1}
        \<and> (if rp_child r = 0 then rp_delegation r = None
           else \<exists>d p c. rp_delegation r = Some d \<and> cost_rank (oget d ''model'') = Inr c
             \<and> cost_rank (rp_model r) = Inr p \<and> cheaper c p)
        \<and> (if rp_escalated r
           then \<exists>e base trigger target. evidence = JObj e \<and> rp_profile r = JStr target \<and> rp_escalation r = Some target
             \<and> rp_trigger r = Some trigger \<and> escalation_record_ok e base trigger target
             \<and> rp_evidence r = oget e ''evidence_id''
           else rp_source r \<noteq> ''evidence_based_escalation''))"

lemma eligible_escalation_Some:
  assumes "eligible_escalation p evidence = Some i"
  shows "\<exists>e t target. evidence = JObj e \<and> xp_trigger p = Some t \<and> xp_escalation p = Some target
    \<and> escalation_record_ok e (xp_profile p) t target \<and> i = oget e ''evidence_id''"
  using assms by (auto simp: eligible_escalation_def split: option.splits json.splits if_splits)

lemma child_binding_Inr:
  assumes "child_binding configured p model = Inr dl" "policy_ok p"
  shows "if xp_child p = 0 then dl = None
    else \<exists>d pr c. dl = Some d \<and> cost_rank (oget d ''model'') = Inr c \<and> cost_rank model = Inr pr \<and> cheaper c pr"
  using assms
  by (auto simp: child_binding_def policy_ok_def split: option.splits if_splits prod.splits)

lemma source_names:
  "feature_policy feature project configuration = Inr (Some (p, source)) \<Longrightarrow> source \<noteq> ''evidence_based_escalation''"
  unfolding feature_policy_def Let_def by (auto split: if_splits)

lemma run_policy_source:
  assumes "run_policy workflow override configured own = Inr (p, source)"
    and "\<And>q src. own = Some (q, src) \<Longrightarrow> src \<noteq> ''evidence_based_escalation''"
  shows "source \<noteq> ''evidence_based_escalation''"
  using assms by (cases own) (auto simp: run_policy_def split: option.splits json.splits if_splits)

lemma resolve_trusted:
  "case resolve_execution_profile workflow deterministic feature project configuration override evidence of
     Inl e \<Rightarrow> True
   | Inr r \<Rightarrow> trusted_profile deterministic evidence r"
proof (cases "resolve_execution_profile workflow deterministic feature project configuration override evidence")
  case (Inr r)
  show ?thesis
  proof (cases deterministic)
    case True
    with Inr show ?thesis by (auto simp: resolve_execution_profile_def trusted_profile_def)
  next
    case False
    obtain configured own p source model reasoning dl where c: "profile_configuration configuration = Inr configured"
      and own: "feature_policy feature project configured = Inr own"
      and p: "run_policy workflow override configured own = Inr (p, source)"
      and parts: "profile_parts configured (JStr (case (if source = ''explicit_run_override'' then None
            else eligible_escalation p evidence, xp_escalation p) of (Some _, Some target) \<Rightarrow> target
          | _ \<Rightarrow> xp_profile p)) = Inr (model, reasoning)"
      and dl: "child_binding configured p model = Inr dl"
      and r: "r = \<lparr>rp_profile = JStr (case (if source = ''explicit_run_override'' then None
            else eligible_escalation p evidence, xp_escalation p) of (Some _, Some target) \<Rightarrow> target
          | _ \<Rightarrow> xp_profile p),
            rp_source = (if (if source = ''explicit_run_override'' then None else eligible_escalation p evidence) \<noteq> None
              then ''evidence_based_escalation'' else source), rp_model = model,
            rp_reasoning = reasoning, rp_parent = xp_parent p, rp_child = xp_child p,
            rp_trigger = xp_trigger p, rp_escalation = xp_escalation p,
            rp_escalated = ((if source = ''explicit_run_override'' then None else eligible_escalation p evidence) \<noteq> None),
            rp_evidence = (case (if source = ''explicit_run_override'' then None else eligible_escalation p evidence) of
              None \<Rightarrow> JNull | Some i \<Rightarrow> i), rp_delegation = dl\<rparr>"
      using Inr False unfolding resolve_execution_profile_def Let_def by auto
    have ok: "policy_ok p" using p own run_policy_ok feature_policy_ok by metis
    have src: "source \<noteq> ''evidence_based_escalation''" using p own run_policy_source source_names by metis
    note child = child_binding_Inr [OF dl ok]
    define el where "el = (if source = ''explicit_run_override'' then None else eligible_escalation p evidence)"
    define n where "n = (case (el, xp_escalation p) of (Some _, Some target) \<Rightarrow> target | _ \<Rightarrow> xp_profile p)"
    have n: "n \<in> set PROFILE_NAMES"
      using ok by (auto simp: n_def policy_ok_def split: option.splits)
    have "named_default (JStr n) model reasoning"
      using profile_parts_default [OF c n] parts n
      by (auto simp: named_default_def list_ex_iff n_def el_def simp del: profile_parts_def)
    moreover have esc: "\<exists>e base trigger target. evidence = JObj e \<and> n = target \<and> xp_escalation p = Some target
        \<and> xp_trigger p = Some trigger \<and> escalation_record_ok e base trigger target \<and> i = oget e ''evidence_id''"
      if "el = Some i" for i
      using that eligible_escalation_Some [of p evidence i] by (auto simp: el_def n_def split: if_splits)
    ultimately show ?thesis
      using child ok src Inr False
      unfolding r el_def [symmetric] n_def [symmetric]
      by (cases el) (auto simp: trusted_profile_def policy_ok_def)
  qed
qed simp

text \<open>
  Claim C21. A resolved profile is never made up: a deterministic run has no model and no session; every
  other run has one of the named profiles with exactly the model and reasoning fixed for it, at least one
  parent session and at most one child, and a child only on a model that is strictly cheaper. A run is
  escalated only on a complete record, for the trigger and to the profile its policy names.
\<close>

theorem resolved_profile_trusted:
  "case resolve_execution_profile workflow deterministic feature project configuration override evidence of
     Inl e \<Rightarrow> True
   | Inr r \<Rightarrow> trusted_profile deterministic evidence r"
  by (rule resolve_trusted)

subsection \<open>A policy the controller configures cannot have a child\<close>

definition sample_delegation :: obj where
  "sample_delegation =
     [(''role'', JStr ''reviewer''), (''profile'', JStr ''mechanical''),
      (''cost_saving_justification'', JStr ''reads logs on a smaller model''),
      (''task_boundary'', JStr ''summarise test logs''), (''expected_input_context_bytes'', JInt 10),
      (''parent_context_bytes'', JInt 100), (''expected_output_contract'', JStr ''one JSON summary''),
      (''read_only'', JBool True), (''owned_paths'', JArr []), (''parent_owned_paths'', JArr [])]"

definition sample_policy :: obj where
  "sample_policy = [(''profile'', JStr ''bounded_precise''), (''parent_sessions'', JInt 1), (''child_sessions'', JInt 1),
     (''child_delegation'', JObj sample_delegation)]"

definition sample_configuration :: json where
  "sample_configuration =
     JObj [(''profiles'', JObj DEFAULT_PROFILES), (''workflow_fallbacks'', JObj DEFAULT_WORKFLOW_FALLBACKS),
       (''feature_policies'', JArr [JObj [(''project_id'', JStr ''p''), (''feature_id'', JStr ''f''),
          (''execution_policy'', JObj sample_policy)]])]"

text \<open>
  A feature whose policy stands in the controller's configuration, with one child session: a run of it
  resolves, with the child. The executable policy of the same feature is refused, since the
  fallback branch of \<^verbatim>\<open>resolve_feature_execution_policy\<close> rebuilds the policy without its
  child delegation; the same policy in the queue entry is accepted.
\<close>

theorem configured_child_refused:
  "case resolve_execution_profile ''application_feature'' False (Some [(''id'', JStr ''f'')]) (Some ''p'')
          (Some sample_configuration) None JNull of
     Inr r \<Rightarrow> rp_source r = ''reconciled_feature_profile'' \<and> rp_child r = 1 | Inl e \<Rightarrow> False"
  "case resolve_feature_execution_policy [(''id'', JStr ''f'')] ''p'' JNull (Some sample_configuration) of
     Inr v \<Rightarrow> False | Inl e \<Rightarrow> exn_cls e = QueueError"
  "case resolve_feature_execution_policy [(''id'', JStr ''f''), (''execution_policy'', JObj sample_policy)] ''p''
          JNull (Some sample_configuration) of
     Inr v \<Rightarrow> True | Inl e \<Rightarrow> False"
  by code_simp+

end
