(* ===== verification/Feature_Queue.thy ===== *)
theory Feature_Queue
  imports Mutation_Policy Execution_Profiles Json_Parse Effects
begin

section \<open>The feature queue\<close>

text \<open>
  \<^verbatim>\<open>queue.py\<close>: the queue document of a repository is validated and normalised once; then
  features are selected, classified and summarised from it. A feature or milestone stays a
  dictionary, as in the code. What the file system tells is the record \<open>qenv\<close>, what Git answers, when its
  commands run, the record \<open>git\<close>; a queue is the record \<open>feature_queue\<close>. Numbers in milestone names have fewer digits than
  \<^verbatim>\<open>int\<close> refuses (4300).
\<close>

definition COMPLETE_STATUSES :: "string list" where
  "COMPLETE_STATUSES = [''integrated'', ''done'']"

definition ACTIVE_STATUSES :: "string list" where
  "ACTIVE_STATUSES = [''in_progress'', ''review'', ''accepted'', ''integration_pending'', ''integrating'']"

definition BLOCKED_STATUSES :: "string list" where
  "BLOCKED_STATUSES = [''blocked'', ''human_decision_required'', ''deferred'', ''rejected'', ''failed'']"

definition SUPPORTED_STATUSES :: "string list" where
  "SUPPORTED_STATUSES =
    [''proposed'', ''ready'', ''in_progress'', ''review'', ''accepted'', ''integration_pending'',
     ''integrating'', ''integrated'', ''failed'', ''human_decision_required'', ''blocked'', ''done'',
     ''deferred'', ''rejected'']"

definition STATUS_ALIASES :: "(string \<times> string) list" where
  "STATUS_ALIASES =
    [(''complete'', ''done''), (''completed'', ''done''), (''inprogress'', ''in_progress''),
     (''pending_integration'', ''integration_pending''),
     (''awaiting_human_decision'', ''human_decision_required'')]"

record qenv =
  qe_home :: string
  qe_expand :: "string \<Rightarrow> string"
  qe_resolve :: "string \<Rightarrow> string"
  qe_exists :: "string \<Rightarrow> bool"
  qe_is_file :: "string \<Rightarrow> bool"

subsection \<open>Text\<close>

text \<open>\<^verbatim>\<open>s.replace(old, new)\<close>; \<open>k\<close> characters of a match are still to be skipped.\<close>

fun replace_from :: "string \<Rightarrow> string \<Rightarrow> nat \<Rightarrow> string \<Rightarrow> string" where
  "replace_from old new k [] = []"
| "replace_from old new (Suc k) (c # s) = replace_from old new k s"
| "replace_from old new 0 (c # s) =
     (if prefix old (c # s) then new @ replace_from old new (length old - 1) s
      else c # replace_from old new 0 s)"

definition key_char :: "char \<Rightarrow> bool" where
  "key_char c \<longleftrightarrow> c \<in> set ''abcdefghijklmnopqrstuvwxyz0123456789''"

text \<open>\<^verbatim>\<open>re.sub(r"[^a-z0-9]+", sep, s)\<close>; the flag says that a run of other characters has begun.\<close>

fun sub_others :: "char \<Rightarrow> bool \<Rightarrow> string \<Rightarrow> string" where
  "sub_others sep inside [] = []"
| "sub_others sep inside (c # s) =
     (if key_char c then c # sub_others sep False s
      else if inside then sub_others sep True s else sep # sub_others sep True s)"

definition strip_char :: "char \<Rightarrow> string \<Rightarrow> string" where
  "strip_char c s = rev (dropWhile ((=) c) (rev (dropWhile ((=) c) s)))"

definition key_of :: "char \<Rightarrow> string \<Rightarrow> string" where
  "key_of sep s = strip_char sep (sub_others sep False (lower (strip s)))"

text \<open>\<^verbatim>\<open>re.fullmatch\<close> of a name followed by digits, and the number\<close>

definition numbered :: "string list \<Rightarrow> string \<Rightarrow> string option" where
  "numbered names s =
     (case filter (\<lambda>n. prefix n s \<and> length n < length s \<and> list_all is_digit (drop (length n) s)) names of
        [] \<Rightarrow> None | n # _ \<Rightarrow> Some (show_nat (read_nat (drop (length n) s))))"

definition normalize_milestone_name :: "string \<Rightarrow> string" where
  "normalize_milestone_name s =
     (let k = key_of (CHR ''-'') s in
      case numbered [''p'', ''phase'', ''phase-''] k of
        Some n \<Rightarrow> ''phase-'' @ n
      | None \<Rightarrow> (case numbered [''m'', ''milestone'', ''milestone-''] k of
            Some n \<Rightarrow> ''milestone-'' @ n | None \<Rightarrow> k))"

definition normalize_status :: "json \<Rightarrow> string res" where
  "normalize_status v =
     (case v of JStr s \<Rightarrow>
        rbind (check (nonblank s) QueueError ''expected a non-empty status string'') (\<lambda>_.
        let k = key_of (CHR ''_'') s;
            n = (case map_of STATUS_ALIASES k of Some a \<Rightarrow> a | None \<Rightarrow> k) in
        rbind (check (n \<in> set SUPPORTED_STATUSES) QueueError ''unsupported status'') (\<lambda>_. Inr n))
      | _ \<Rightarrow> raise QueueError ''expected a non-empty status string'')"

definition upper_char :: "char \<Rightarrow> char" where
  "upper_char c = (let n = of_char c :: nat in
     if (97 \<le> n \<and> n \<le> 122) \<or> (224 \<le> n \<and> n \<le> 254 \<and> n \<noteq> 247) then char_of (n - 32) else c)"

definition PRIORITY_LABELS :: "string list" where
  "PRIORITY_LABELS = [''P1'', ''P2'', ''P3'']"

definition priority_label :: "json \<Rightarrow> string" where
  "priority_label v =
     (case v of
        JStr s \<Rightarrow> if map upper_char s \<in> set PRIORITY_LABELS then map upper_char s else ''P2''
      | JInt i \<Rightarrow> if i \<in> {1, 2, 3} then ''P'' @ show_int i else ''P2''
      | _ \<Rightarrow> ''P2'')"

definition queue_priority :: "json \<Rightarrow> nat" where
  "queue_priority v = (if priority_label v = ''P1'' then 1 else if priority_label v = ''P2'' then 2 else 3)"

subsection \<open>The document\<close>

definition relative_to :: "string \<Rightarrow> string \<Rightarrow> bool" where
  "relative_to path root \<longleftrightarrow> prefix (posix_parts root) (posix_parts path)"

definition resolve_queue_path :: "qenv \<Rightarrow> string \<Rightarrow> json \<Rightarrow> string res" where
  "resolve_queue_path Q repository configured =
     (let root = qe_resolve Q (qe_expand Q repository) in
      case configured of JStr s \<Rightarrow>
        rbind (check (nonblank s) QueueError ''expected a non-empty path'') (\<lambda>_.
        let expanded = replace_from ''${HOME}'' (qe_home Q) 0 s in
        rbind (check (\<not> contains ''${'' expanded) QueueError ''unresolved environment variable'') (\<lambda>_.
        let path = qe_expand Q expanded;
            resolved = qe_resolve Q (if is_absolute path then path else root @ ''/'' @ path) in
        rbind (check (relative_to resolved root) QueueError ''resolved path escapes registered repository'') (\<lambda>_.
        rbind (check (qe_exists Q resolved) QueueError ''queue file is missing'') (\<lambda>_.
        rbind (check (qe_is_file Q resolved) QueueError ''queue path is not a regular file'') (\<lambda>_.
        Inr resolved)))))
      | _ \<Rightarrow> raise QueueError ''expected a non-empty path'')"

text \<open>The content of the file: \<open>None\<close> when it cannot be read.\<close>

definition load_queue :: "(string \<Rightarrow> string) \<Rightarrow> string option \<Rightarrow> obj res" where
  "load_queue fr content =
     (case content of
        None \<Rightarrow> raise QueueError ''cannot read queue''
      | Some text \<Rightarrow>
          (case json_loads fr text of
             None \<Rightarrow> raise QueueError ''unsupported queue format''
           | Some (JObj v) \<Rightarrow>
               rbind (rall (\<lambda>k. rbind (check (ohas v k) QueueError ''missing required key'') (\<lambda>_.
                        check (is_list (oget v k)) QueueError ''expected an array'')) [''milestones'', ''features'']) (\<lambda>_.
               Inr v)
           | Some _ \<Rightarrow> raise QueueError ''expected an object''))"

record feature_queue =
  fq_path :: "string option"
  fq_root :: "string option"
  fq_milestones :: "obj list"
  fq_features :: "obj list"

definition item_id :: "obj \<Rightarrow> string" where
  "item_id d = (case oget d ''id'' of JStr s \<Rightarrow> s | _ \<Rightarrow> [])"

definition item_status :: "obj \<Rightarrow> string" where
  "item_status d = (case oget d ''status'' of JStr s \<Rightarrow> s | _ \<Rightarrow> [])"

definition normalize_milestone :: "json \<Rightarrow> obj res" where
  "normalize_milestone raw =
     (case raw of JObj d \<Rightarrow>
        rbind (check (nonblank_str (oget d ''id'')) QueueError ''expected a non-empty string'') (\<lambda>_.
        let i = strip (item_id d) in
        Inr (oset ''normalized_id'' (JStr (normalize_milestone_name i)) (oset ''id'' (JStr i) d)))
      | _ \<Rightarrow> raise QueueError ''expected an object'')"

definition only :: "'a list \<Rightarrow> 'a option" where
  "only xs = (case xs of [x] \<Rightarrow> Some x | _ \<Rightarrow> None)"

definition milestone_in :: "obj list \<Rightarrow> string \<Rightarrow> obj option" where
  "milestone_in ms i =
     (case only (filter (\<lambda>m. oget m ''id'' = JStr i) ms) of
        Some m \<Rightarrow> Some m
      | None \<Rightarrow> only (filter (\<lambda>m. oget m ''normalized_id'' = JStr (normalize_milestone_name i)) ms))"

definition spec_value :: "obj \<Rightarrow> json" where
  "spec_value f = jor (oget f ''spec'') (jor (oget f ''specification'') (oget f ''spec_path''))"

definition safe_spec :: "string \<Rightarrow> bool" where
  "safe_spec s \<longleftrightarrow> \<not> is_absolute s \<and> ''..'' \<notin> set (posix_parts s)"

definition check_spec :: "qenv \<Rightarrow> string option \<Rightarrow> obj \<Rightarrow> unit res" where
  "check_spec Q root f =
     (case spec_value f of
        JNull \<Rightarrow> Inr ()
      | JStr s \<Rightarrow>
          rbind (check (nonblank s) QueueError ''expected a non-empty repository-relative path'') (\<lambda>_.
          rbind (check (safe_spec s) QueueError ''path must be repository-relative and cannot traverse'') (\<lambda>_.
          case root of None \<Rightarrow> Inr ()
          | Some r \<Rightarrow> check (relative_to (qe_resolve Q (r @ ''/'' @ s)) r) QueueError
                       ''resolved path escapes the registered repository''))
      | _ \<Rightarrow> raise QueueError ''expected a non-empty repository-relative path'')"

definition read_dependencies :: "obj \<Rightarrow> json list res" where
  "read_dependencies d =
     rbind (check (\<not> (ohas d ''dependencies'' \<and> ohas d ''depends_on''
              \<and> \<not> py_eq (oget d ''dependencies'') (oget d ''depends_on''))) QueueError
              ''dependencies and depends_on disagree'') (\<lambda>_.
     case oget_or d ''dependencies'' (oget_or d ''depends_on'' (JArr [])) of
       JArr xs \<Rightarrow> rmap (\<lambda>x. case x of
           JStr s \<Rightarrow> rbind (check (nonblank s) QueueError ''expected a non-empty feature ID'') (\<lambda>_. Inr (JStr (strip s)))
         | _ \<Rightarrow> raise QueueError ''expected a non-empty feature ID'') xs
     | _ \<Rightarrow> raise QueueError ''expected an array of feature IDs'')"

definition read_commit :: "obj \<Rightarrow> obj res" where
  "read_commit d =
     (let c = oget_or d ''accepted_commit'' (oget d ''commit'') in
      rbind (check (c = JNull \<or> nonblank_str c) QueueError ''expected a non-empty commit reference'') (\<lambda>_.
      rbind (check (oget d ''commit'' = JNull \<or> nonblank_str (oget d ''commit'')) QueueError
               ''expected a non-empty commit reference'') (\<lambda>_.
      Inr (case c of JStr s \<Rightarrow> oset ''accepted_commit'' (JStr (strip s)) d | _ \<Rightarrow> d))))"

definition normalize_feature :: "qenv \<Rightarrow> string option \<Rightarrow> obj list \<Rightarrow> json \<Rightarrow> obj res" where
  "normalize_feature Q root ms raw =
     (case raw of JObj d0 \<Rightarrow>
        rbind (check (nonblank_str (oget d0 ''id'')) QueueError ''expected a non-empty string'') (\<lambda>_.
        let d1 = oset ''id'' (JStr (strip (item_id d0))) d0;
            title = oget_or d1 ''title'' (oget_or d1 ''name'' (oget d1 ''id'')) in
        rbind (case title of JStr t \<Rightarrow> if nonblank t then Inr (strip t) else raise QueueError ''expected a non-empty title or name''
               | _ \<Rightarrow> raise QueueError ''expected a non-empty title or name'') (\<lambda>t.
        rbind (normalize_status (oget d1 ''status'')) (\<lambda>st.
        let d2 = oset ''status'' (JStr st) (oset ''title'' (JStr t) d1) in
        rbind (case oget d2 ''milestone'' of JStr m \<Rightarrow> if nonblank m then Inr m else raise QueueError ''expected a non-empty string''
               | _ \<Rightarrow> raise QueueError ''expected a non-empty string'') (\<lambda>m.
        case milestone_in ms m of
          None \<Rightarrow> raise QueueError ''unknown milestone''
        | Some mil \<Rightarrow>
            let d3 = oset ''milestone'' (oget mil ''id'') d2 in
            rbind (read_dependencies d3) (\<lambda>deps.
            rbind (read_commit (oset ''dependencies'' (JArr deps) d3)) (\<lambda>d4.
            let criteria = oget d4 ''acceptance_criteria''; human = oget d4 ''requires_human_decision'' in
            rbind (check (case criteria of JNull \<Rightarrow> True | JArr xs \<Rightarrow> list_all nonblank_str xs | _ \<Rightarrow> False)
                     QueueError ''expected non-empty strings'') (\<lambda>_.
            rbind (check (human = JNull \<or> is_bool human) QueueError ''expected a boolean'') (\<lambda>_.
            rbind (if ohas d4 ''execution_policy''
                   then rbind (validate_feature_execution_policy QueueError (oget d4 ''execution_policy'')) (\<lambda>_. Inr ())
                   else Inr ()) (\<lambda>_.
            rbind (check_spec Q root d4) (\<lambda>_. Inr d4))))))))))
      | _ \<Rightarrow> raise QueueError ''expected an object'')"

definition dependency_ids :: "obj \<Rightarrow> json list" where
  "dependency_ids f = (case oget_or f ''dependencies'' (JArr []) of JArr xs \<Rightarrow> xs | _ \<Rightarrow> [])"

definition make_queue :: "qenv \<Rightarrow> obj \<Rightarrow> string option \<Rightarrow> string option \<Rightarrow> feature_queue res" where
  "make_queue Q document path repository_root =
     (let root = map_option (qe_resolve Q) repository_root in
      case (oget document ''milestones'', oget document ''features'') of
        (JArr raw_milestones, JArr raw_features) \<Rightarrow>
          rbind (rmap normalize_milestone raw_milestones) (\<lambda>ms.
          rbind (check (distinct (map (\<lambda>m. oget m ''id'') ms)) QueueError ''milestone IDs must be unique'') (\<lambda>_.
          rbind (check (distinct (map (\<lambda>m. oget m ''normalized_id'') ms)) QueueError
                   ''milestone IDs are ambiguous after normalization'') (\<lambda>_.
          rbind (rmap (normalize_feature Q root ms) raw_features) (\<lambda>fs.
          rbind (check (distinct (map (\<lambda>f. oget f ''id'') fs)) QueueError ''feature IDs must be unique'') (\<lambda>_.
          rbind (check (list_all (\<lambda>f. set (dependency_ids f) \<subseteq> set (map (\<lambda>f. oget f ''id'') fs)) fs) QueueError
                   ''unknown feature IDs'') (\<lambda>_.
          Inr \<lparr>fq_path = path, fq_root = root, fq_milestones = ms, fq_features = fs\<rparr>))))))
      | (JArr _, _) \<Rightarrow> raise QueueError ''features: expected an array''
      | _ \<Rightarrow> raise QueueError ''milestones: expected an array'')"

text \<open>\<open>content\<close> is what reading a file gives.\<close>

definition queue_from_path ::
  "(string \<Rightarrow> string) \<Rightarrow> qenv \<Rightarrow> (string \<Rightarrow> string option) \<Rightarrow> string \<Rightarrow> string option \<Rightarrow> feature_queue res" where
  "queue_from_path fr Q content path root =
     (let p = qe_resolve Q path in rbind (load_queue fr (content p)) (\<lambda>d. make_queue Q d (Some p) root))"

definition queue_from_location ::
  "(string \<Rightarrow> string) \<Rightarrow> qenv \<Rightarrow> (string \<Rightarrow> string option) \<Rightarrow> string \<Rightarrow> json \<Rightarrow> feature_queue res" where
  "queue_from_location fr Q content repository configured =
     (let root = qe_resolve Q repository in
      rbind (resolve_queue_path Q root configured) (\<lambda>p.
      rbind (load_queue fr (content p)) (\<lambda>d. make_queue Q d (Some p) (Some root))))"

subsection \<open>Lookup and readiness\<close>

definition feature_in :: "feature_queue \<Rightarrow> json \<Rightarrow> obj option" where
  "feature_in q i = only (filter (\<lambda>f. py_eq (oget f ''id'') i) (fq_features q))"

definition features_for_milestone :: "feature_queue \<Rightarrow> string \<Rightarrow> obj list" where
  "features_for_milestone q m =
     (case milestone_in (fq_milestones q) m of
        None \<Rightarrow> [] | Some d \<Rightarrow> filter (\<lambda>f. py_eq (oget f ''milestone'') (oget d ''id'')) (fq_features q))"

definition has_status :: "string list \<Rightarrow> obj \<Rightarrow> bool" where
  "has_status sts f \<longleftrightarrow> item_status f \<in> set sts"

definition active_features :: "feature_queue \<Rightarrow> string option \<Rightarrow> obj list" where
  "active_features q m = filter (has_status ACTIVE_STATUSES)
     (case m of None \<Rightarrow> fq_features q | Some i \<Rightarrow> features_for_milestone q i)"

text \<open>\<^verbatim>\<open>x in v\<close> for a text \<open>x\<close> and a value of a document\<close>

definition text_in :: "string \<Rightarrow> json \<Rightarrow> bool res" where
  "text_in x v =
     (case v of JArr xs \<Rightarrow> Inr (JStr x \<in> set xs) | JObj d \<Rightarrow> Inr (ohas d x) | JStr s \<Rightarrow> Inr (contains x s)
      | _ \<Rightarrow> raise TypeError ''argument is not iterable'')"

definition dependency_complete :: "feature_queue \<Rightarrow> json \<Rightarrow> bool res" where
  "dependency_complete q i =
     (case feature_in q i of
        None \<Rightarrow> Inr False
      | Some d \<Rightarrow>
          if \<not> has_status COMPLETE_STATUSES d then Inr False
          else if item_status d \<noteq> ''integrated'' then Inr True
          else if oget d ''integration_status'' \<noteq> JStr ''passed'' \<or> \<not> is_str (oget d ''integrated_commit'') then Inr False
          else text_in (case i of JStr s \<Rightarrow> s | _ \<Rightarrow> [])
            (case milestone_in (fq_milestones q) (py_str (oget d ''milestone'')) of
               None \<Rightarrow> JArr [] | Some m \<Rightarrow> if m = [] then JArr [] else oget_or m ''integrated_features'' (JArr [])))"

fun all_complete :: "feature_queue \<Rightarrow> json list \<Rightarrow> bool res" where
  "all_complete q [] = Inr True"
| "all_complete q (i # is) = rbind (dependency_complete q i) (\<lambda>b. if b then all_complete q is else Inr False)"

definition dependencies_complete :: "feature_queue \<Rightarrow> obj \<Rightarrow> bool res" where
  "dependencies_complete q f = all_complete q (dependency_ids f)"

definition specified :: "qenv \<Rightarrow> feature_queue \<Rightarrow> obj \<Rightarrow> bool" where
  "specified Q q f =
     (let criteria = (case oget f ''acceptance_criteria'' of JArr xs \<Rightarrow> xs \<noteq> [] | _ \<Rightarrow> False) in
      case fq_path q of
        None \<Rightarrow> truthy (spec_value f) \<and> criteria
      | Some _ \<Rightarrow>
          (case (spec_value f, fq_root q) of
             (JStr s, Some r) \<Rightarrow> s \<noteq> [] \<and> safe_spec s
               \<and> (let p = qe_resolve Q (r @ ''/'' @ s) in relative_to p r \<and> qe_is_file Q p) \<and> criteria
           | _ \<Rightarrow> False))"

text \<open>The features of a list that pass a test which may raise.\<close>

fun rfilter :: "('a \<Rightarrow> bool res) \<Rightarrow> 'a list \<Rightarrow> 'a list res" where
  "rfilter P [] = Inr []"
| "rfilter P (x # xs) = rbind (P x) (\<lambda>b. rbind (rfilter P xs) (\<lambda>ys. Inr (if b then x # ys else ys)))"

definition ready_feature :: "qenv \<Rightarrow> feature_queue \<Rightarrow> obj \<Rightarrow> bool res" where
  "ready_feature Q q f =
     (if item_status f \<noteq> ''ready'' \<or> oget f ''requires_human_decision'' = JBool True then Inr False
      else rbind (dependencies_complete q f) (\<lambda>b. Inr (b \<and> specified Q q f)))"

definition feature_rank :: "obj \<Rightarrow> nat" where
  "feature_rank f = queue_priority (oget f ''priority'')"

text \<open>The sort is stable, which is the second key of the code, the index; the third never decides.\<close>

definition ready :: "qenv \<Rightarrow> feature_queue \<Rightarrow> string \<Rightarrow> obj list res" where
  "ready Q q m = rbind (rfilter (ready_feature Q q) (features_for_milestone q m)) (\<lambda>fs. Inr (sort_key feature_rank fs))"

record selection =
  sl_feature_id :: string
  sl_title :: json
  sl_reason :: string
  sl_feature :: obj

definition select_next :: "qenv \<Rightarrow> feature_queue \<Rightarrow> string \<Rightarrow> selection option res" where
  "select_next Q q m =
     rbind (ready Q q m) (\<lambda>fs.
     Inr (case fs of
            [] \<Rightarrow> None
          | f # _ \<Rightarrow> Some \<lparr>sl_feature_id = item_id f, sl_title = oget f ''title'',
              sl_reason = ''Selected deterministically from the active milestone by priority, queue order, ''
                @ ''eligible status, completed dependencies, unblocked state, then feature ID; ''
                @ ''dependencies are complete for '' @ item_id f @ ''.'', sl_feature = f\<rparr>))"

record readiness =
  rd_ready :: bool
  rd_dependencies_complete :: bool
  rd_blocked_reason :: "string option"

definition feature_readiness :: "qenv \<Rightarrow> feature_queue \<Rightarrow> obj \<Rightarrow> readiness res" where
  "feature_readiness Q q f =
     rbind (dependencies_complete q f) (\<lambda>complete.
     let status = py_str (oget f ''status'');
         blocked = (\<lambda>why. Inr \<lparr>rd_ready = False, rd_dependencies_complete = complete, rd_blocked_reason = Some why\<rparr>) in
     if status \<in> set COMPLETE_STATUSES then blocked (''feature status is '' @ status)
     else if status \<in> set BLOCKED_STATUSES then
       blocked (py_str (jor (oget f ''blocked_reason'') (jor (oget f ''blocking_reason'')
         (JStr (''feature status is '' @ status)))))
     else if status \<noteq> ''ready'' then blocked (''feature status is '' @ status @ ''; expected ready'')
     else if oget f ''requires_human_decision'' = JBool True then blocked ''feature requires a human decision''
     else if \<not> complete then
       rbind (rfilter (\<lambda>i. rbind (all_complete q [i]) (\<lambda>b. Inr (\<not> b))) (dependency_ids f)) (\<lambda>is.
       blocked (''dependencies incomplete: '' @ join '', '' (map py_str is)))
     else if \<not> specified Q q f then blocked ''feature specification or acceptance criteria are incomplete''
     else Inr \<lparr>rd_ready = True, rd_dependencies_complete = complete, rd_blocked_reason = None\<rparr>)"

definition select_exact :: "qenv \<Rightarrow> feature_queue \<Rightarrow> string \<Rightarrow> string \<Rightarrow> selection res" where
  "select_exact Q q m i =
     (case feature_in q (JStr i) of
        None \<Rightarrow> raise QueueError ''unknown feature''
      | Some f \<Rightarrow>
          rbind (check (case milestone_in (fq_milestones q) m of
                          None \<Rightarrow> False | Some d \<Rightarrow> py_eq (oget f ''milestone'') (oget d ''id''))
                   QueueError ''feature is not in active milestone'') (\<lambda>_.
          rbind (feature_readiness Q q f) (\<lambda>rd.
          rbind (check (rd_ready rd) QueueError ''feature is ineligible'') (\<lambda>_.
          Inr \<lparr>sl_feature_id = item_id f, sl_title = oget f ''title'',
               sl_reason = ''Selected exact requested feature '' @ i @ '' without changing ''
                 @ ''queue order; status, dependencies, blocked state, and specification are eligible.'',
               sl_feature = f\<rparr>))))"

definition no_ready_reasons :: "qenv \<Rightarrow> feature_queue \<Rightarrow> string \<Rightarrow> (string \<times> string) list res" where
  "no_ready_reasons Q q m =
     rbind (rmap (\<lambda>f. rbind (feature_readiness Q q f) (\<lambda>rd. Inr (f, rd))) (features_for_milestone q m)) (\<lambda>rs.
     Inr (map (\<lambda>(f, rd). (item_id f, case rd_blocked_reason rd of None \<Rightarrow> ''None'' | Some s \<Rightarrow> s))
            (filter (\<lambda>(f, rd). \<not> rd_ready rd) rs)))"

subsection \<open>Integration and classification\<close>

definition integration_candidates :: "feature_queue \<Rightarrow> string \<Rightarrow> obj list" where
  "integration_candidates q m =
     sort_key feature_rank (filter (\<lambda>f. has_status [''accepted'', ''integration_pending''] f
       \<and> oget_or f ''integration_status'' (JStr ''pending'') = JStr ''pending'') (features_for_milestone q m))"

definition select_integration :: "feature_queue \<Rightarrow> string \<Rightarrow> selection option res" where
  "select_integration q m =
     (case integration_candidates q m of
        [] \<Rightarrow> Inr None
      | [f] \<Rightarrow> Inr (Some \<lparr>sl_feature_id = item_id f, sl_title = oget f ''title'',
           sl_reason = ''Accepted integration-pending work takes precedence over selection of any new ready feature.'',
           sl_feature = f\<rparr>)
      | _ \<Rightarrow> raise QueueError ''multiple accepted features await integration'')"

definition milestone_complete :: "feature_queue \<Rightarrow> string \<Rightarrow> bool" where
  "milestone_complete q m =
     (let fs = filter (\<lambda>f. \<not> has_status [''deferred'', ''rejected''] f) (features_for_milestone q m)
      in fs \<noteq> [] \<and> list_all (has_status COMPLETE_STATUSES) fs)"

fun awaits_human :: "feature_queue \<Rightarrow> obj list \<Rightarrow> bool res" where
  "awaits_human q [] = Inr False"
| "awaits_human q (f # fs) =
     (if item_status f = ''human_decision_required'' then Inr True
      else rbind (if oget f ''requires_human_decision'' = JBool True then dependencies_complete q f else Inr False) (\<lambda>b.
           if b then Inr True else awaits_human q fs))"

definition reconciliation_classification :: "qenv \<Rightarrow> feature_queue \<Rightarrow> string \<Rightarrow> string res" where
  "reconciliation_classification Q q m =
     (let fs = features_for_milestone q m in
      if milestone_in (fq_milestones q) m = None then Inr ''invalid_queue''
      else if integration_candidates q m \<noteq> [] then Inr ''reconciled_integration_pending''
      else rbind (ready Q q m) (\<lambda>rs.
        if rs \<noteq> [] then Inr ''reconciled_ready_work''
        else if milestone_complete q m then Inr ''milestone_complete''
        else rbind (awaits_human q fs) (\<lambda>human.
          if human then Inr ''human_decision_required''
          else (let actionable = filter (\<lambda>f. \<not> has_status (COMPLETE_STATUSES @ [''deferred'', ''rejected'']) f) fs
                in Inr (if actionable \<noteq> [] \<and> list_all (has_status [''blocked'']) actionable
                        then ''legitimately_blocked'' else ''reconciled_no_ready_work'')))))"

definition status_counts :: "obj list \<Rightarrow> obj" where
  "status_counts fs = foldl (\<lambda>d f. let k = py_str (oget f ''status'') in
     oset k (JInt ((case oget d k of JInt n \<Rightarrow> n | _ \<Rightarrow> 0) + 1)) d) [] fs"

definition ids :: "obj list \<Rightarrow> json" where
  "ids fs = JArr (map (\<lambda>f. oget f ''id'') fs)"

definition queue_summary :: "qenv \<Rightarrow> feature_queue \<Rightarrow> string \<Rightarrow> obj res" where
  "queue_summary Q q m =
     (let fs = features_for_milestone q m; milestone = milestone_in (fq_milestones q) m in
      rbind (select_next Q q m) (\<lambda>next_sel.
      rbind (select_integration q m) (\<lambda>integration.
      rbind (if milestone = None then Inr [] else ready Q q m) (\<lambda>rs.
      rbind (reconciliation_classification Q q m) (\<lambda>c.
      Inr [(''milestone_found'', JBool (milestone \<noteq> None)), (''configured_milestone'', JStr m),
           (''resolved_milestone'', case milestone of None \<Rightarrow> JNull | Some d \<Rightarrow> oget d ''id''),
           (''feature_count'', JInt (int (length fs))), (''total_feature_count'', JInt (int (length (fq_features q)))),
           (''global_feature_count'', JInt (int (length (fq_features q)))),
           (''global_milestone_count'', JInt (int (length (fq_milestones q)))),
           (''status_counts'', JObj (status_counts fs)), (''active_features'', ids (active_features q (Some m))),
           (''completed_features'', ids (filter (has_status COMPLETE_STATUSES) fs)), (''ready_features'', ids rs),
           (''selected_feature'', of_opt (map_option sl_feature_id next_sel)),
           (''integration_candidates'', ids (integration_candidates q m)),
           (''selected_integration_feature'', of_opt (map_option sl_feature_id integration)),
           (''milestone_complete'', JBool (milestone_complete q m)), (''reconciliation_classification'', JStr c)])))))"

subsection \<open>Accepted commits\<close>

record git =
  gt_ref_exists :: "string \<Rightarrow> bool"
  gt_is_ancestor :: "string \<Rightarrow> string \<Rightarrow> bool"
  gt_file_at :: "string \<Rightarrow> string \<Rightarrow> string option"
  gt_changed :: "string \<Rightarrow> string list"
  gt_root :: string

record commit_resolution =
  cr_feature_id :: string
  cr_commit :: string
  cr_source :: string

text \<open>\<^verbatim>\<open>s.casefold()\<close>; of the first 256 code points only the sharp s is not just lowered.\<close>

definition casefold :: "string \<Rightarrow> string" where
  "casefold s = concat (map (\<lambda>c. if (of_char c :: nat) = 223 then ''ss'' else [lower_char c]) s)"

text \<open>\<^verbatim>\<open>queue.path.resolve().relative_to(root).as_posix()\<close>\<close>

definition relative_path :: "qenv \<Rightarrow> string \<Rightarrow> string \<Rightarrow> string res" where
  "relative_path Q root path =
     (let p = posix_parts (qe_resolve Q path); r = posix_parts root in
      if prefix r p then Inr (if p = r then ''.'' else join ''/'' (drop (length r) p))
      else raise ValueError ''path is not in the subpath'')"

definition candidate_feature ::
  "(string \<Rightarrow> string) \<Rightarrow> qenv \<Rightarrow> git \<Rightarrow> string \<Rightarrow> string \<Rightarrow> string \<Rightarrow> obj res" where
  "candidate_feature fr Q G candidate relative i =
     (case gt_file_at G candidate relative of
        None \<Rightarrow> raise QueueError ''queue containing SELF is absent from candidate commit''
      | Some text \<Rightarrow>
          rbind (case json_loads fr text of
                   None \<Rightarrow> raise QueueError ''candidate queue cannot verify SELF''
                 | Some (JObj d) \<Rightarrow> rewrap [QueueError] QueueError ''candidate queue cannot verify SELF'' (make_queue Q d None None)
                 | Some _ \<Rightarrow> raise AttributeError ''get'') (\<lambda>q.
          case feature_in q (JStr i) of
            None \<Rightarrow> raise QueueError ''candidate commit does not contain matching completed SELF evidence''
          | Some f \<Rightarrow> rbind (check (oget f ''accepted_commit'' = JStr ''SELF'' \<and> has_status COMPLETE_STATUSES f) QueueError
                         ''candidate commit does not contain matching completed SELF evidence'') (\<lambda>_. Inr f)))"

definition corroborated :: "git \<Rightarrow> string \<Rightarrow> string \<Rightarrow> json \<Rightarrow> unit res" where
  "corroborated G candidate i path =
     (case path of JStr p \<Rightarrow>
        rbind (check (p \<noteq> []) QueueError ''SELF lacks specification or status evidence'') (\<lambda>_.
        check (case gt_file_at G candidate p of None \<Rightarrow> False | Some c \<Rightarrow> contains (casefold i) (casefold c)) QueueError
          ''evidence does not corroborate the SELF association'')
      | _ \<Rightarrow> raise QueueError ''SELF lacks specification or status evidence'')"

definition self_commit ::
  "(string \<Rightarrow> string) \<Rightarrow> qenv \<Rightarrow> git \<Rightarrow> obj \<Rightarrow> feature_queue \<Rightarrow> string option \<Rightarrow> string option \<Rightarrow> string option
    \<Rightarrow> string option \<Rightarrow> commit_resolution res" where
  "self_commit fr Q G f q branch baseline registered registered_feature =
     rbind (check (has_status COMPLETE_STATUSES f) QueueError ''SELF is permitted only for a completed feature'') (\<lambda>_.
     rbind (case (registered, registered_feature) of
              (Some c, Some l) \<Rightarrow> if c \<noteq> [] \<and> l \<noteq> [] then Inr (c, l)
                else raise QueueError ''SELF has no registered accepted-commit association''
            | _ \<Rightarrow> raise QueueError ''SELF has no registered accepted-commit association'') (\<lambda>(candidate, label).
     rbind (check (contains (casefold (item_id f)) (casefold label)) QueueError
              ''registered accepted feature does not identify SELF'') (\<lambda>_.
     rbind (check (gt_ref_exists G candidate) QueueError ''registered SELF candidate does not exist'') (\<lambda>_.
     rbind (case branch of Some b \<Rightarrow> if b \<noteq> [] \<and> gt_ref_exists G b then Inr b
                else raise QueueError ''configured milestone branch is missing''
            | None \<Rightarrow> raise QueueError ''configured milestone branch is missing'') (\<lambda>b.
     rbind (check (gt_is_ancestor G candidate b) QueueError
              ''SELF candidate is not contained by the milestone branch'') (\<lambda>_.
     rbind (case jor (oget f ''integration_base_commit'') (of_opt baseline) of
              JStr s \<Rightarrow> if gt_ref_exists G s then Inr s else raise QueueError ''SELF has no verified starting point''
            | _ \<Rightarrow> raise QueueError ''SELF has no verified starting point'') (\<lambda>start.
     rbind (check (candidate \<noteq> start \<and> gt_is_ancestor G start candidate) QueueError
              ''SELF candidate is not a descendant of its starting point'') (\<lambda>_.
     rbind (case fq_path q of None \<Rightarrow> raise QueueError ''SELF requires a repository-backed queue''
            | Some p \<Rightarrow> relative_path Q (gt_root G) p) (\<lambda>relative.
     rbind (candidate_feature fr Q G candidate relative (item_id f)) (\<lambda>cf.
     let changed = gt_changed G candidate;
         evidence = [spec_value cf, JStr ''docs/CURRENT_STATUS.md'', JStr ''docs/RUN_LOG.md''] in
     rbind (check (relative \<in> set changed) QueueError ''SELF candidate did not change the queue file'') (\<lambda>_.
     rbind (rall (corroborated G candidate (item_id f)) evidence) (\<lambda>_.
     rbind (check (list_ex (\<lambda>v. py_str v \<in> set changed) evidence) QueueError
              ''SELF candidate lacks changed corroborating evidence'') (\<lambda>_.
     Inr \<lparr>cr_feature_id = item_id f, cr_commit = candidate, cr_source = ''SELF''\<rparr>)))))))))))))"

definition resolve_feature_commit ::
  "(string \<Rightarrow> string) \<Rightarrow> qenv \<Rightarrow> git \<Rightarrow> obj \<Rightarrow> feature_queue \<Rightarrow> string option \<Rightarrow> string option \<Rightarrow> string option
    \<Rightarrow> string option \<Rightarrow> commit_resolution option res" where
  "resolve_feature_commit fr Q G f q branch baseline registered registered_feature =
     (case oget f ''accepted_commit'' of
        JNull \<Rightarrow> Inr None
      | JStr r \<Rightarrow>
          if r \<noteq> ''SELF'' then
            rbind (check (gt_ref_exists G r) QueueError ''accepted commit does not exist'') (\<lambda>_.
            Inr (Some \<lparr>cr_feature_id = item_id f, cr_commit = r, cr_source = ''queue''\<rparr>))
          else rbind (self_commit fr Q G f q branch baseline registered registered_feature) (\<lambda>c. Inr (Some c))
      | _ \<Rightarrow> raise TypeError ''expected str, bytes or os.PathLike object'')"

end
