(* ===== verification/Feature_Queue_Theorems.thy ===== *)
theory Feature_Queue_Theorems
  imports Feature_Queue
begin

section \<open>What the feature queue guarantees\<close>

text \<open>
  A queue that could be made is well formed; the selected feature is the first of the best priority among
  the eligible ones; the classification of a milestone says what it is.
\<close>

subsection \<open>Eligible features\<close>

definition eligible :: "qenv \<Rightarrow> feature_queue \<Rightarrow> obj \<Rightarrow> bool" where
  "eligible Q q f \<longleftrightarrow> item_status f = ''ready'' \<and> oget f ''requires_human_decision'' \<noteq> JBool True
     \<and> list_all (\<lambda>i. dependency_complete q i = Inr True) (dependency_ids f) \<and> specified Q q f"

lemma all_complete_True: "all_complete q is = Inr True \<longleftrightarrow> list_all (\<lambda>i. dependency_complete q i = Inr True) is"
  by (induction "is") auto

lemma ready_feature_eligible: "ready_feature Q q f = Inr True \<longleftrightarrow> eligible Q q f"
  by (cases "all_complete q (dependency_ids f)")
    (auto simp: ready_feature_def eligible_def dependencies_complete_def simp flip: all_complete_True)

lemma rfilter_Inr: "rfilter P xs = Inr ys \<Longrightarrow> ys = filter (\<lambda>x. P x = Inr True) xs"
  by (induction xs arbitrary: ys) (auto split: if_splits)

lemma ready_Inr: "ready Q q m = Inr fs \<Longrightarrow> fs = sort_key feature_rank (filter (eligible Q q) (features_for_milestone q m))"
  by (auto simp: ready_def ready_feature_eligible dest!: rfilter_Inr)

lemma sort_key_hd:
  "sort_key k xs = f # ys \<Longrightarrow>
     \<exists>pre post. xs = pre @ f # post \<and> (\<forall>g \<in> set pre. k f < k g) \<and> (\<forall>g \<in> set post. k f \<le> k g)"
proof (induction xs arbitrary: f ys)
  case (Cons x xs)
  show ?case
  proof (cases "sort_key k xs")
    case Nil
    then have "xs = []" by (metis set_empty set_sort)
    with Cons.prems have "x # xs = [] @ f # []" by simp
    then show ?thesis by (intro exI [of _ "[]"]) simp
  next
    case (Cons h t)
    from Cons.IH [OF this] obtain pre post where split: "xs = pre @ h # post" "\<forall>g \<in> set pre. k h < k g"
      "\<forall>g \<in> set post. k h \<le> k g" by blast
    show ?thesis
    proof (cases "k x \<le> k h")
      case True
      with Cons Cons.prems have "f = x" by simp
      moreover have "\<forall>g \<in> set xs. k x \<le> k g" using split True by fastforce
      ultimately show ?thesis by fastforce
    next
      case False
      with Cons Cons.prems have "f = h" by simp
      with split False have "x # xs = (x # pre) @ f # post" "\<forall>g \<in> set (x # pre). k f < k g" by auto
      with split \<open>f = h\<close> show ?thesis by blast
    qed
  qed
qed simp

lemma filter_split:
  "filter P xs = pre @ f # post \<Longrightarrow> \<exists>us vs. xs = us @ f # vs \<and> filter P us = pre \<and> filter P vs = post \<and> P f"
proof (induction xs arbitrary: pre)
  case (Cons x xs)
  show ?case
  proof (cases "P x \<and> pre = []")
    case True
    with Cons.prems have "x # xs = [] @ f # xs \<and> filter P [] = pre \<and> filter P xs = post \<and> P f" by auto
    then show ?thesis by blast
  next
    case False
    then obtain pre' where "filter P xs = pre' @ f # post" "pre = (if P x then x # pre' else pre')"
      using Cons.prems by (cases pre) (auto split: if_splits)
    with Cons.IH obtain us vs where "xs = us @ f # vs" "filter P us = pre'" "filter P vs = post" "P f" by blast
    with \<open>pre = _\<close> have "x # xs = (x # us) @ f # vs \<and> filter P (x # us) = pre \<and> filter P vs = post \<and> P f" by simp
    then show ?thesis by blast
  qed
qed simp

text \<open>
  Claim C22. Selection is deterministic and fair: nothing is selected only when no feature of the milestone is
  eligible, that is, ready, free of a human decision, specified, with every dependency complete;
  otherwise the selected feature is eligible, every eligible feature before it in the queue has a strictly
  lower priority, and none after it has a higher one.
\<close>

theorem select_next_first:
  "case select_next Q q m of
     Inl e \<Rightarrow> True
   | Inr None \<Rightarrow> filter (eligible Q q) (features_for_milestone q m) = []
   | Inr (Some s) \<Rightarrow> eligible Q q (sl_feature s) \<and> sl_feature_id s = item_id (sl_feature s)
       \<and> (\<exists>pre post. features_for_milestone q m = pre @ sl_feature s # post
            \<and> list_all (\<lambda>g. feature_rank (sl_feature s) < feature_rank g) (filter (eligible Q q) pre)
            \<and> list_all (\<lambda>g. feature_rank (sl_feature s) \<le> feature_rank g) (filter (eligible Q q) post))"
proof (cases "ready Q q m")
  case (Inr fs)
  note fs = ready_Inr [OF Inr]
  show ?thesis
  proof (cases fs)
    case Nil
    then have "filter (eligible Q q) (features_for_milestone q m) = []" using fs by (metis set_empty set_sort)
    with Inr Nil show ?thesis by (simp add: select_next_def)
  next
    case (Cons f t)
    from sort_key_hd [OF fs [unfolded Cons, symmetric]] obtain pre post
      where "filter (eligible Q q) (features_for_milestone q m) = pre @ f # post"
        and "\<forall>g \<in> set pre. feature_rank f < feature_rank g" "\<forall>g \<in> set post. feature_rank f \<le> feature_rank g"
      by blast
    with filter_split [OF this(1)] obtain us vs where "features_for_milestone q m = us @ f # vs \<and> eligible Q q f
        \<and> list_all (\<lambda>g. feature_rank f < feature_rank g) (filter (eligible Q q) us)
        \<and> list_all (\<lambda>g. feature_rank f \<le> feature_rank g) (filter (eligible Q q) vs)"
      by (auto simp: list_all_iff)
    with Inr Cons show ?thesis by (auto simp: select_next_def)
  qed
qed (simp add: select_next_def)

subsection \<open>Classification\<close>

definition waits_for_human :: "feature_queue \<Rightarrow> obj \<Rightarrow> bool" where
  "waits_for_human q f \<longleftrightarrow> item_status f = ''human_decision_required''
     \<or> (oget f ''requires_human_decision'' = JBool True \<and> dependencies_complete q f = Inr True)"

definition settled_statuses :: "string list" where
  "settled_statuses = COMPLETE_STATUSES @ [''deferred'', ''rejected'']"

text \<open>What each classification says of the features of the milestone.\<close>

definition classified :: "qenv \<Rightarrow> feature_queue \<Rightarrow> string \<Rightarrow> string \<Rightarrow> bool" where
  "classified Q q m c \<longleftrightarrow>
     (let fs = features_for_milestone q m in
      if milestone_in (fq_milestones q) m = None then c = ''invalid_queue''
      else if integration_candidates q m \<noteq> [] then c = ''reconciled_integration_pending''
      else if list_ex (eligible Q q) fs then c = ''reconciled_ready_work''
      else if list_ex (has_status COMPLETE_STATUSES) fs \<and> list_all (has_status settled_statuses) fs
        then c = ''milestone_complete''
      else if list_ex (waits_for_human q) fs then c = ''human_decision_required''
      else if list_ex (has_status [''blocked'']) fs \<and> list_all (has_status (''blocked'' # settled_statuses)) fs
        then c = ''legitimately_blocked''
      else c = ''reconciled_no_ready_work'')"

lemma awaits_human_Inr: "awaits_human q fs = Inr b \<Longrightarrow> b \<longleftrightarrow> list_ex (waits_for_human q) fs"
proof (induction fs)
  case (Cons f fs)
  then show ?case
    by (cases "item_status f = ''human_decision_required''"; cases "oget f ''requires_human_decision'' = JBool True")
      (auto simp: waits_for_human_def split: if_splits)
qed simp

lemma settled_rest:
  assumes "\<And>x. c x \<Longrightarrow> \<not> d x" "\<And>x. s x \<longleftrightarrow> c x \<or> d x"
  shows "(let xs = filter (\<lambda>x. \<not> d x) fs in xs \<noteq> [] \<and> list_all c xs) \<longleftrightarrow> list_ex c fs \<and> list_all s fs"
proof -
  have "list_all c (filter (\<lambda>x. \<not> d x) fs) \<longleftrightarrow> list_all s fs"
    using assms by (auto simp: list_all_iff)
  moreover have "filter (\<lambda>x. \<not> d x) fs \<noteq> [] \<longleftrightarrow> list_ex c fs" if "list_all s fs"
    using assms that by (auto simp: list_all_iff list_ex_iff filter_empty_conv)
  ultimately show ?thesis by (auto simp: Let_def)
qed

lemma milestone_complete_iff:
  "milestone_complete q m \<longleftrightarrow> list_ex (has_status COMPLETE_STATUSES) (features_for_milestone q m)
     \<and> list_all (has_status settled_statuses) (features_for_milestone q m)"
  unfolding milestone_complete_def
  by (rule settled_rest) (auto simp: has_status_def settled_statuses_def COMPLETE_STATUSES_def)

lemma blocked_iff:
  "(let actionable = filter (\<lambda>f. \<not> has_status (COMPLETE_STATUSES @ [''deferred'', ''rejected'']) f) fs
    in actionable \<noteq> [] \<and> list_all (has_status [''blocked'']) actionable) \<longleftrightarrow>
   list_ex (has_status [''blocked'']) fs \<and> list_all (has_status (''blocked'' # settled_statuses)) fs"
  by (rule settled_rest) (auto simp: has_status_def settled_statuses_def COMPLETE_STATUSES_def)

text \<open>
  The classification that drives the controller is a decision list over the features of the
  milestone: accepted work awaiting integration comes before ready work, ready work before completion;
  a milestone counts as complete only when every feature is integrated, done, deferred or rejected and
  one of them is complete, and as blocked only when every feature not settled is blocked.
\<close>

theorem reconciliation_classified:
  "case reconciliation_classification Q q m of Inl e \<Rightarrow> True | Inr c \<Rightarrow> classified Q q m c"
proof (cases "milestone_in (fq_milestones q) m = None \<or> integration_candidates q m \<noteq> []")
  case True
  then show ?thesis by (auto simp: reconciliation_classification_def classified_def Let_def)
next
  case False
  show ?thesis
  proof (cases "ready Q q m")
    case (Inl e)
    with False show ?thesis by (auto simp: reconciliation_classification_def Let_def)
  next
    case (Inr rs)
    have rs: "rs \<noteq> [] \<longleftrightarrow> list_ex (eligible Q q) (features_for_milestone q m)"
      using ready_Inr [OF Inr] by (metis filter_empty_conv list_ex_iff set_empty set_sort)
    show ?thesis
    proof (cases "rs \<noteq> [] \<or> milestone_complete q m")
      case True
      with False Inr rs show ?thesis
        by (auto simp: reconciliation_classification_def classified_def milestone_complete_iff Let_def)
    next
      case more: False
      show ?thesis
      proof (cases "awaits_human q (features_for_milestone q m)")
        case (Inl e)
        with False \<open>ready Q q m = Inr rs\<close> more show ?thesis by (auto simp: reconciliation_classification_def Let_def)
      next
        case human: (Inr b)
        from awaits_human_Inr [OF human] False Inr rs more human show ?thesis
          using blocked_iff [of "features_for_milestone q m"]
          by (auto simp: reconciliation_classification_def classified_def milestone_complete_iff Let_def)
      qed
    qed
  qed
qed

subsection \<open>Well-formed queues\<close>

definition feature_wf :: "obj list \<Rightarrow> json set \<Rightarrow> obj \<Rightarrow> bool" where
  "feature_wf ms known f \<longleftrightarrow> nonempty_str (oget f ''id'') \<and> item_status f \<in> set SUPPORTED_STATUSES
     \<and> is_str (oget f ''status'') \<and> nonempty_str (oget f ''title'')
     \<and> oget f ''milestone'' \<in> (\<lambda>m. oget m ''id'') ` set ms
     \<and> list_all is_str (dependency_ids f) \<and> set (dependency_ids f) \<subseteq> known
     \<and> (oget f ''accepted_commit'' = JNull \<or> nonempty_str (oget f ''accepted_commit''))"

definition queue_wf :: "feature_queue \<Rightarrow> bool" where
  "queue_wf q \<longleftrightarrow> distinct (map (\<lambda>m. oget m ''id'') (fq_milestones q))
     \<and> distinct (map (\<lambda>f. oget f ''id'') (fq_features q))
     \<and> list_all (feature_wf (fq_milestones q) (set (map (\<lambda>f. oget f ''id'') (fq_features q)))) (fq_features q)"

lemma only_mem: "only xs = Some x \<Longrightarrow> x \<in> set xs"
  by (auto simp: only_def split: list.splits)

lemma milestone_in_mem: "milestone_in ms i = Some m \<Longrightarrow> m \<in> set ms"
  by (auto simp: milestone_in_def dest!: only_mem split: option.splits)

lemma normalize_status_Inr: "normalize_status v = Inr s \<Longrightarrow> s \<in> set SUPPORTED_STATUSES"
  by (auto simp: normalize_status_def Let_def split: json.splits)

lemma strip_nonempty [simp]: "nonblank s \<Longrightarrow> strip s \<noteq> []" .

lemma rmap_all: "rmap f xs = Inr ys \<Longrightarrow> (\<And>x y. f x = Inr y \<Longrightarrow> P y) \<Longrightarrow> list_all P ys"
  by (induction xs arbitrary: ys) auto

lemma read_dependencies_Inr: "read_dependencies d = Inr xs \<Longrightarrow> list_all is_str xs"
  by (auto simp: read_dependencies_def split: json.splits elim!: rmap_all)

lemma read_commit_Inr:
  assumes "read_commit d = Inr d'"
  shows "(oget d' ''accepted_commit'' = JNull \<or> nonempty_str (oget d' ''accepted_commit''))
    \<and> (\<forall>k. k \<noteq> ''accepted_commit'' \<longrightarrow> map_of d' k = map_of d k)"
proof -
  define c where "c = oget_or d ''accepted_commit'' (oget d ''commit'')"
  have c: "c = JNull \<or> nonblank_str c" and d': "d' = (case c of JStr s \<Rightarrow> oset ''accepted_commit'' (JStr (strip s)) d | _ \<Rightarrow> d)"
    using assms by (auto simp: read_commit_def Let_def c_def [symmetric])
  show ?thesis
  proof (cases "c = JNull")
    case True
    then have "oget d ''accepted_commit'' = JNull"
      by (auto simp: c_def oget_or_def oget_def split: option.splits)
    with True d' show ?thesis by simp
  next
    case False
    with c obtain s where "c = JStr s" "strip s \<noteq> []" by (auto simp: nonblank_str_iff)
    with d' show ?thesis by simp
  qed
qed

lemma normalize_feature_Inr:
  assumes "normalize_feature Q root ms raw = Inr f"
  shows "feature_wf ms (set (dependency_ids f)) f"
proof -
  obtain d0 where raw: "raw = JObj d0"
    using assms by (cases raw) (simp_all add: normalize_feature_def)
  obtain t st m mil deps where id: "nonblank_str (oget d0 ''id'')"
    and t: "t \<noteq> []" and st: "st \<in> set SUPPORTED_STATUSES" and mil: "milestone_in ms m = Some mil"
    and deps: "list_all is_str deps"
    and f: "read_commit (oset ''dependencies'' (JArr deps) (oset ''milestone'' (oget mil ''id'')
      (oset ''status'' (JStr st) (oset ''title'' (JStr t) (oset ''id'' (JStr (strip (item_id d0))) d0))))) = Inr f"
  proof -
    note run = assms [unfolded raw normalize_feature_def json.case Let_def rbind_eq_Inr check_eq_Inr]
    show thesis
      using run
    proof (elim exE conjE, goal_cases)
      case (1 u t st m)
      from 1(2) have "t \<noteq> []" by (auto split: json.splits if_splits)
      moreover from 1(3) have "st \<in> set SUPPORTED_STATUSES" by (rule normalize_status_Inr)
      ultimately show thesis
        using 1(1,5)
        by (cases "milestone_in ms m")
          (auto intro!: that dest!: read_dependencies_Inr)
    qed
  qed
  note c = read_commit_Inr [OF f]
  have keep: "oget f k = oget (oset ''dependencies'' (JArr deps) (oset ''milestone'' (oget mil ''id'')
      (oset ''status'' (JStr st) (oset ''title'' (JStr t) (oset ''id'' (JStr (strip (item_id d0))) d0))))) k"
    if "k \<noteq> ''accepted_commit''" for k
    using c that by (simp add: oget_def)
  have "dependency_ids f = deps"
    using c by (simp add: dependency_ids_def oget_or_def)
  then show ?thesis
    using c keep id t st deps milestone_in_mem [OF mil]
    by (auto simp: feature_wf_def item_status_def item_id_def nonblank_str_iff)
qed

lemma make_queue_wf:
  "case make_queue Q document path repository_root of Inl e \<Rightarrow> True | Inr q \<Rightarrow> queue_wf q"
proof (cases "make_queue Q document path repository_root")
  case (Inr q)
  let ?root = "map_option (qe_resolve Q) repository_root"
  obtain rms rfs where doc: "oget document ''milestones'' = JArr rms" "oget document ''features'' = JArr rfs"
    using Inr by (cases "oget document ''milestones''"; cases "oget document ''features''")
      (simp_all add: make_queue_def Let_def)
  obtain ms fs where ms: "rmap normalize_milestone rms = Inr ms" "distinct (map (\<lambda>m. oget m ''id'') ms)"
    and fs: "rmap (normalize_feature Q ?root ms) rfs = Inr fs" "distinct (map (\<lambda>f. oget f ''id'') fs)"
    and known: "list_all (\<lambda>f. set (dependency_ids f) \<subseteq> set (map (\<lambda>f. oget f ''id'') fs)) fs"
    and q: "q = \<lparr>fq_path = path, fq_root = ?root, fq_milestones = ms, fq_features = fs\<rparr>"
    using Inr unfolding make_queue_def Let_def doc prod.case json.case rbind_eq_Inr check_eq_Inr sum.inject
    by (elim exE conjE) (rule that; (assumption | erule sym))
  have "list_all (\<lambda>f. feature_wf ms (set (dependency_ids f)) f) fs"
    using fs(1) by (rule rmap_all) (rule normalize_feature_Inr)
  then have "list_all (feature_wf ms (set (map (\<lambda>f. oget f ''id'') fs))) fs"
    using known by (auto simp: list_all_iff feature_wf_def)
  with Inr q ms fs show ?thesis by (simp add: queue_wf_def)
qed simp

text \<open>
  Claim C23. A queue that could be made is well formed, whatever the document was: its milestone and feature
  identities are unique, every feature has a nonempty identity, a supported status, a title, a milestone of the queue and
  dependencies that are features of the queue, and an accepted commit, where it has one, is text.
\<close>

theorem made_queue_wf:
  "case make_queue Q document path repository_root of Inl e \<Rightarrow> True | Inr q \<Rightarrow> queue_wf q"
  by (rule make_queue_wf)

end
