(* ===== verification/Session_Envelope.thy ===== *)
theory Session_Envelope
  imports Warning_Evidence Contracts Json_Parse
begin

section \<open>Session-result envelopes\<close>

text \<open>
  \<^verbatim>\<open>SessionResultEnvelope\<close>, \<^verbatim>\<open>_normalize_corroborated_terminal_envelope\<close> and
  \<^verbatim>\<open>extract_terminal_envelope\<close> of \<^verbatim>\<open>contracts.py\<close>: how the result of a model
  session is read out of its output and bound to the transaction that launched it. \<open>fr\<close> is the
  normal form of floats of \<open>json_loads\<close>.
\<close>

record session_envelope =
  se_workflow_type :: workflow_type
  se_classification :: string
  se_project_id :: string
  se_repository_identity :: string
  se_transaction_id :: string
  se_run_id :: string
  se_session_id :: string
  se_starting_branch :: string
  se_starting_commit :: string
  se_current_commit :: string
  se_feature_id :: "string option"
  se_changed_paths :: "string list"
  se_evidence :: obj
  se_next_state :: string

abbreviation schema_error :: "string \<Rightarrow> 'a res" where
  "schema_error m \<equiv> raise SchemaValidationError m"

definition envelope_required :: "string list" where
  "envelope_required = [''schema_version'', ''workflow_type'', ''classification'', ''project_id'',
     ''repository_identity'', ''transaction_id'', ''run_id'', ''session_id'', ''starting_branch'',
     ''starting_commit'', ''current_commit'', ''changed_paths'', ''evidence'', ''next_state'']"

definition envelope_strings :: "string list" where
  "envelope_strings = [''project_id'', ''repository_identity'', ''transaction_id'', ''run_id'', ''session_id'',
     ''starting_branch'', ''starting_commit'', ''current_commit'', ''next_state'']"

text \<open>\<^verbatim>\<open>changed_paths\<close>: an array of safe relative paths, sorted and without repetition.\<close>

definition read_changed_paths :: "json \<Rightarrow> string list res" where
  "read_changed_paths v =
     (case v of
        JArr items \<Rightarrow>
          if list_all is_str items then
            (let changed = map (\<lambda>i. case i of JStr s \<Rightarrow> s | _ \<Rightarrow> []) items in
             rbind (rmap safe_relative_path changed) (\<lambda>safe.
             if changed = sorted_set safe then Inr changed
             else schema_error ''session-result changed_paths must be sorted and unique''))
          else schema_error ''session-result changed_paths must be a string array''
      | _ \<Rightarrow> schema_error ''session-result changed_paths must be a string array'')"

definition read_evidence :: "workflow_type \<Rightarrow> json \<Rightarrow> obj res" where
  "read_evidence w v =
     (case v of
        JObj evidence \<Rightarrow>
          if w = QUEUE_RECONCILIATION then
            (if is_dict (oget evidence ''queue_validation'') then
               rbind (rewrap [WarningEvidenceError] SchemaValidationError ''invalid warning evidence''
                 (normalize_warning_evidence (oget evidence ''queue_validation'') ''structured'' None)) (\<lambda>_. Inr evidence)
             else schema_error ''queue-reconciliation evidence.queue_validation must be an object'')
          else Inr evidence
      | _ \<Rightarrow> schema_error ''session-result evidence must be an object'')"

definition feature_workflows :: "workflow_type list" where
  "feature_workflows = [FEATURE_PREPARATION, FEATURE_EXECUTION, FEATURE_ACCEPTANCE, MILESTONE_INTEGRATION]"

definition read_feature :: "workflow_type \<Rightarrow> json \<Rightarrow> string option res" where
  "read_feature w v =
     (if v \<noteq> JNull \<and> \<not> nonempty_str v
      then schema_error ''session-result feature_id must be null or a non-empty string''
      else if w \<in> set feature_workflows \<and> v = JNull
      then schema_error ''session-result feature_id is required''
      else Inr (str_of v))"

definition the_str :: "obj \<Rightarrow> string \<Rightarrow> string" where
  "the_str d k = (case oget d k of JStr s \<Rightarrow> s | _ \<Rightarrow> [])"

definition envelope_from_dict :: "obj \<Rightarrow> session_envelope res" where
  "envelope_from_dict v =
     rbind (check (list_all (ohas v) envelope_required) SchemaValidationError
              ''session-result envelope is incomplete'') (\<lambda>_.
     rbind (rewrap [TypeError, ValueError] SchemaValidationError ''session-result workflow_type is invalid''
              (parse_workflow (oget v ''workflow_type''))) (\<lambda>w.
     rbind (check (py_eq (oget v ''schema_version'') (JInt 1)) SchemaValidationError
              ''session-result schema_version must be 1'') (\<lambda>_.
     rbind (hash_in (oget v ''classification'') (WORKFLOW_CLASSIFICATIONS w)) (\<lambda>known.
     rbind (check known SchemaValidationError ''classification is not valid for the workflow'') (\<lambda>_.
     rbind (read_changed_paths (oget v ''changed_paths'')) (\<lambda>changed.
     rbind (read_evidence w (oget v ''evidence'')) (\<lambda>evidence.
     rbind (check (list_all (\<lambda>k. nonempty_str (oget v k)) envelope_strings) SchemaValidationError
              ''session-result identity fields must be non-empty strings'') (\<lambda>_.
     rbind (read_feature w (oget v ''feature_id'')) (\<lambda>feature.
     Inr \<lparr>se_workflow_type = w, se_classification = the_str v ''classification'',
          se_project_id = the_str v ''project_id'', se_repository_identity = the_str v ''repository_identity'',
          se_transaction_id = the_str v ''transaction_id'', se_run_id = the_str v ''run_id'',
          se_session_id = the_str v ''session_id'', se_starting_branch = the_str v ''starting_branch'',
          se_starting_commit = the_str v ''starting_commit'', se_current_commit = the_str v ''current_commit'',
          se_feature_id = feature, se_changed_paths = changed, se_evidence = evidence,
          se_next_state = the_str v ''next_state''\<rparr>)))))))))"

definition envelope_dict :: "session_envelope \<Rightarrow> obj" where
  "envelope_dict e =
     [(''schema_version'', JInt 1), (''workflow_type'', JStr (workflow_value (se_workflow_type e))),
      (''classification'', JStr (se_classification e)), (''project_id'', JStr (se_project_id e)),
      (''repository_identity'', JStr (se_repository_identity e)), (''transaction_id'', JStr (se_transaction_id e)),
      (''run_id'', JStr (se_run_id e)), (''session_id'', JStr (se_session_id e)),
      (''starting_branch'', JStr (se_starting_branch e)), (''starting_commit'', JStr (se_starting_commit e)),
      (''current_commit'', JStr (se_current_commit e)), (''feature_id'', of_opt (se_feature_id e)),
      (''changed_paths'', strs (se_changed_paths e)), (''evidence'', JObj (se_evidence e)),
      (''next_state'', JStr (se_next_state e))]"

subsection \<open>Corroboration\<close>

definition TERMINAL_ENVELOPE_MARKER :: string where
  "TERMINAL_ENVELOPE_MARKER = ''CONVEYOR_TRANSACTION_RESULT=''"

definition alias_step :: "string \<times> string \<Rightarrow> obj \<Rightarrow> obj res" where
  "alias_step ca n =
     (let canonical = fst ca; alias = snd ca; cv = oget n canonical; av = oget n alias in
      if cv \<noteq> JNull \<and> av \<noteq> JNull \<and> \<not> py_eq cv av
      then schema_error ''terminal session-result envelope has conflicting fields''
      else Inr (adel alias (if \<not> ohas n canonical \<and> ohas n alias then oset canonical av n else n)))"

definition identity_step :: "bool \<Rightarrow> string \<times> json \<Rightarrow> obj \<Rightarrow> obj res" where
  "identity_step compatible ke n =
     (let observed = oget n (fst ke) in
      if observed = JNull \<and> \<not> (compatible \<and> fst ke = ''project_id'')
        then schema_error ''terminal session-result envelope field is absent''
      else if observed \<noteq> JNull \<and> \<not> py_eq observed (snd ke)
        then schema_error ''terminal session-result envelope field conflicts with controller metadata''
      else if observed = JNull then Inr (oset (fst ke) (snd ke) n) else Inr n)"

definition identity_keys :: "string list" where
  "identity_keys = [''project_id'', ''repository_identity'', ''transaction_id'', ''run_id'', ''session_id'',
     ''starting_branch'', ''starting_commit'']"

definition workflow_step :: "bool \<Rightarrow> json \<Rightarrow> obj \<Rightarrow> obj res" where
  "workflow_step compatible expected n =
     (let observed = oget n ''workflow_type'' in
      if observed = JNull \<and> \<not> compatible then schema_error ''terminal session-result envelope workflow_type is absent''
      else if observed \<noteq> JNull \<and> \<not> py_eq observed expected
        then schema_error ''terminal session-result envelope workflow_type conflicts with invoked workflow''
      else if observed = JNull then Inr (oset ''workflow_type'' expected n) else Inr n)"

definition next_state_step :: "bool \<Rightarrow> obj \<Rightarrow> obj res" where
  "next_state_step compatible n =
     (if compatible \<and> oget n ''classification'' = JStr ''RECONCILED_READY_WORK'' then
        rbind (hash_in (oget n ''next_state'') [''feature_preparation'', ''feature_preparing'', ''feature_ready'']) (\<lambda>b.
        Inr (if b then oset ''next_state'' (JStr ''feature_ready'') n else n))
      else Inr n)"

definition normalize_corroborated :: "obj \<Rightarrow> obj \<Rightarrow> obj res" where
  "normalize_corroborated value corroborated =
     rbind (osub corroborated ''workflow_type'') (\<lambda>expected.
     rbind (rmap (\<lambda>k. rbind (osub corroborated k) (\<lambda>x. Inr (k, x))) identity_keys) (\<lambda>identity.
     let compatible = (expected = JStr (workflow_value QUEUE_RECONCILIATION));
         aliases = (if compatible then [(''repository_identity'', ''repository''), (''classification'', ''result''),
                                        (''feature_id'', ''feature'')] else [])
     in rbind (rfold alias_step aliases value) (\<lambda>n.
        rbind (rfold (identity_step compatible) identity n) (\<lambda>n.
        rbind (workflow_step compatible expected n) (next_state_step compatible)))))"

definition corroboration_ok :: "obj \<Rightarrow> bool" where
  "corroboration_ok c \<longleftrightarrow> list_all (\<lambda>k. nonempty_str (oget c k)) (''workflow_type'' # identity_keys)"

subsection \<open>Extraction\<close>

text \<open>The text of an agent message that the line completes, if it does.\<close>

definition agent_message :: "(string \<Rightarrow> string) \<Rightarrow> string \<Rightarrow> string option" where
  "agent_message fr line =
     (case json_loads fr line of
        Some (JObj event) \<Rightarrow>
          if oget event ''type'' = JStr ''item.completed'' then
            (case oget event ''item'' of
               JObj i \<Rightarrow> if oget i ''type'' = JStr ''agent_message'' then str_of (oget i ''text'') else None
             | _ \<Rightarrow> None)
          else None
      | _ \<Rightarrow> None)"

definition agent_messages :: "(string \<Rightarrow> string) \<Rightarrow> string \<Rightarrow> string list" where
  "agent_messages fr output = List.map_filter (agent_message fr) (str_splitlines output)"

definition marked :: "string \<Rightarrow> bool" where
  "marked line = prefix TERMINAL_ENVELOPE_MARKER line"

definition terminal_marker :: "string \<Rightarrow> string res" where
  "terminal_marker message =
     (let lines = str_splitlines message;
          markers = map (drop (length TERMINAL_ENVELOPE_MARKER)) (filter marked lines)
      in case markers of
           [m] \<Rightarrow>
             (case List.find nonblank (rev lines) of
                Some l \<Rightarrow> if marked l then Inr m
                  else schema_error ''terminal session-result envelope marker must be the final nonblank line''
              | None \<Rightarrow> schema_error ''terminal session-result envelope marker must be the final nonblank line'')
         | _ \<Rightarrow> schema_error ''terminal assistant result must contain exactly one envelope marker'')"

definition terminal_value :: "(string \<Rightarrow> string) \<Rightarrow> string \<Rightarrow> obj option \<Rightarrow> session_envelope res" where
  "terminal_value fr m corroborated =
     (case json_loads fr m of
        None \<Rightarrow> schema_error ''terminal session-result envelope is invalid JSON''
      | Some (JObj value) \<Rightarrow>
          (case corroborated of
             None \<Rightarrow> envelope_from_dict value
           | Some c \<Rightarrow>
               if corroboration_ok c then rbind (normalize_corroborated value c) envelope_from_dict
               else schema_error ''controller corroboration metadata is incomplete'')
      | Some _ \<Rightarrow> schema_error ''terminal session-result envelope must be an object'')"

definition extract_terminal_envelope ::
  "(string \<Rightarrow> string) \<Rightarrow> string \<Rightarrow> obj option \<Rightarrow> session_envelope res" where
  "extract_terminal_envelope fr output corroborated =
     (let messages = agent_messages fr output in
      if messages = [] then schema_error ''terminal assistant result is absent''
      else rbind (terminal_marker (last messages)) (\<lambda>m. terminal_value fr m corroborated))"

subsection \<open>Accepted envelopes\<close>

text \<open>The type of an accepted envelope.\<close>

definition envelope_ok :: "session_envelope \<Rightarrow> bool" where
  "envelope_ok e \<longleftrightarrow>
     se_classification e \<in> set (WORKFLOW_CLASSIFICATIONS (se_workflow_type e))
     \<and> list_all safe_path (se_changed_paths e) \<and> sorted (se_changed_paths e) \<and> distinct (se_changed_paths e)
     \<and> list_all (\<lambda>s. s \<noteq> []) [se_project_id e, se_repository_identity e, se_transaction_id e, se_run_id e,
          se_session_id e, se_starting_branch e, se_starting_commit e, se_current_commit e, se_next_state e]
     \<and> se_feature_id e \<noteq> Some [] \<and> (se_workflow_type e \<in> set feature_workflows \<longrightarrow> se_feature_id e \<noteq> None)
     \<and> (se_workflow_type e = QUEUE_RECONCILIATION \<longrightarrow> is_dict (oget (se_evidence e) ''queue_validation'')
          \<and> succeeds (normalize_warning_evidence (oget (se_evidence e) ''queue_validation'') ''structured'' None))"

lemma strs_of: "list_all is_str items \<Longrightarrow> map JStr (map (\<lambda>i. case i of JStr s \<Rightarrow> s | _ \<Rightarrow> []) items) = items"
  by (induction items) (auto simp: is_str_iff)

lemma read_changed_paths_Inr:
  "read_changed_paths v = Inr ps \<longleftrightarrow> v = strs ps \<and> list_all safe_path ps \<and> sorted ps \<and> distinct ps"
proof
  assume r: "read_changed_paths v = Inr ps"
  then obtain items where v: "v = JArr items" "list_all is_str items"
    by (auto simp: read_changed_paths_def split: json.splits if_splits)
  with r have "ps = map (\<lambda>i. case i of JStr s \<Rightarrow> s | _ \<Rightarrow> []) items" "ps = sorted_set ps" "list_all safe_path ps"
    by (auto simp: read_changed_paths_def Let_def split: if_splits)
  then show "v = strs ps \<and> list_all safe_path ps \<and> sorted ps \<and> distinct ps"
    using v strs_of [OF v(2)] sorted_set_fixpoint [of ps] by (simp add: strs_def)
next
  assume a: "v = strs ps \<and> list_all safe_path ps \<and> sorted ps \<and> distinct ps"
  moreover have "map (\<lambda>i. case i of JStr s \<Rightarrow> s | _ \<Rightarrow> []) (map JStr ps) = ps" by (induction ps) auto
  moreover have "list_all is_str (map JStr ps)" by (simp add: list_all_iff)
  ultimately show "read_changed_paths v = Inr ps"
    using sorted_set_id [of ps] by (simp add: read_changed_paths_def strs_def Let_def rmap_safe_relative_path_ok)
qed

lemma read_evidence_Inr:
  "read_evidence w v = Inr d \<longleftrightarrow> v = JObj d \<and> (w = QUEUE_RECONCILIATION \<longrightarrow> is_dict (oget d ''queue_validation'')
     \<and> succeeds (normalize_warning_evidence (oget d ''queue_validation'') ''structured'' None))"
  by (cases v) (auto simp: read_evidence_def split: if_splits)

lemma read_feature_Inr:
  "read_feature w v = Inr f \<longleftrightarrow> v = of_opt f \<and> f \<noteq> Some [] \<and> (w \<in> set feature_workflows \<longrightarrow> f \<noteq> None)"
  by (cases f; cases v) (auto simp: read_feature_def nonempty_str_def)

lemma hash_in_value: "hash_in v names = Inr True \<Longrightarrow> v = JStr (case v of JStr s \<Rightarrow> s | _ \<Rightarrow> [])"
  by (auto simp: hash_in_True)

lemma nonempty_the_str: "nonempty_str (oget v k) \<longleftrightarrow> oget v k = JStr (the_str v k) \<and> the_str v k \<noteq> []"
  by (auto simp: the_str_def nonempty_str_iff split: json.splits)

lemma envelope_from_dict_Inr:
  "envelope_from_dict v = Inr e \<longleftrightarrow>
     list_all (ohas v) envelope_required \<and> py_eq (oget v ''schema_version'') (JInt 1) \<and> envelope_ok e
     \<and> oget v ''workflow_type'' = JStr (workflow_value (se_workflow_type e))
     \<and> oget v ''classification'' = JStr (se_classification e) \<and> oget v ''project_id'' = JStr (se_project_id e)
     \<and> oget v ''repository_identity'' = JStr (se_repository_identity e)
     \<and> oget v ''transaction_id'' = JStr (se_transaction_id e) \<and> oget v ''run_id'' = JStr (se_run_id e)
     \<and> oget v ''session_id'' = JStr (se_session_id e) \<and> oget v ''starting_branch'' = JStr (se_starting_branch e)
     \<and> oget v ''starting_commit'' = JStr (se_starting_commit e)
     \<and> oget v ''current_commit'' = JStr (se_current_commit e) \<and> oget v ''feature_id'' = of_opt (se_feature_id e)
     \<and> oget v ''changed_paths'' = strs (se_changed_paths e) \<and> oget v ''evidence'' = JObj (se_evidence e)
     \<and> oget v ''next_state'' = JStr (se_next_state e)"
  (is "?L = ?R")
proof
  assume ?L
  then obtain w b ch ev f where r: "list_all (ohas v) envelope_required" "py_eq (oget v ''schema_version'') (JInt 1)"
    "oget v ''workflow_type'' = JStr (workflow_value w)" "hash_in (oget v ''classification'') (WORKFLOW_CLASSIFICATIONS w) = Inr b" b
    "read_changed_paths (oget v ''changed_paths'') = Inr ch" "read_evidence w (oget v ''evidence'') = Inr ev"
    "list_all (\<lambda>k. nonempty_str (oget v k)) envelope_strings" "read_feature w (oget v ''feature_id'') = Inr f"
    "e = \<lparr>se_workflow_type = w, se_classification = the_str v ''classification'',
          se_project_id = the_str v ''project_id'', se_repository_identity = the_str v ''repository_identity'',
          se_transaction_id = the_str v ''transaction_id'', se_run_id = the_str v ''run_id'',
          se_session_id = the_str v ''session_id'', se_starting_branch = the_str v ''starting_branch'',
          se_starting_commit = the_str v ''starting_commit'', se_current_commit = the_str v ''current_commit'',
          se_feature_id = f, se_changed_paths = ch, se_evidence = ev,
          se_next_state = the_str v ''next_state''\<rparr>"
    unfolding envelope_from_dict_def rbind_eq_Inr check_eq_Inr rewrap_eq_Inr parse_workflow_Inr
    by (elim exE conjE) (rule that, assumption+, simp)
  then have "hash_in (oget v ''classification'') (WORKFLOW_CLASSIFICATIONS w) = Inr True" by simp
  then obtain s where c: "oget v ''classification'' = JStr s" "s \<in> set (WORKFLOW_CLASSIFICATIONS w)"
    by (auto simp: hash_in_True)
  then have "the_str v ''classification'' = s" by (simp add: the_str_def)
  with r c show ?R
    unfolding read_changed_paths_Inr read_evidence_Inr read_feature_Inr envelope_strings_def
    by (simp add: envelope_ok_def nonempty_the_str)
next
  assume r: ?R
  then have "list_all (\<lambda>k. nonempty_str (oget v k)) envelope_strings"
    by (simp add: envelope_ok_def envelope_strings_def)
  moreover have "read_changed_paths (oget v ''changed_paths'') = Inr (se_changed_paths e)"
    "read_evidence (se_workflow_type e) (oget v ''evidence'') = Inr (se_evidence e)"
    "read_feature (se_workflow_type e) (oget v ''feature_id'') = Inr (se_feature_id e)"
    using r unfolding read_changed_paths_Inr read_evidence_Inr read_feature_Inr by (simp_all add: envelope_ok_def)
  moreover have "hash_in (oget v ''classification'') (WORKFLOW_CLASSIFICATIONS (se_workflow_type e)) = Inr True"
    using r by (simp add: envelope_ok_def)
  ultimately show ?L
    unfolding envelope_from_dict_def using r by (cases e) (simp add: the_str_def rewrap_def)
qed

lemma envelope_from_dict_ok: "envelope_from_dict v = Inr e \<Longrightarrow> envelope_ok e"
  by (simp add: envelope_from_dict_Inr)

lemma envelope_dict_ok: "envelope_ok e \<Longrightarrow> envelope_from_dict (envelope_dict e) = Inr e"
  by (simp add: envelope_from_dict_Inr envelope_dict_def envelope_required_def)

text \<open>
  Claim C20. An accepted envelope is well typed: its classification belongs to its workflow, its changed
  paths are safe, sorted and distinct, its identities are non-empty and a feature workflow names
  its feature. Written out with \<^verbatim>\<open>to_dict\<close> it is read back as the same envelope.
\<close>

theorem envelope_roundtrip:
  assumes "envelope_from_dict v = Inr e"
  shows "envelope_ok e \<and> envelope_from_dict (envelope_dict e) = Inr e"
  using envelope_from_dict_ok [OF assms] envelope_dict_ok by blast

definition sample_envelope :: session_envelope where
  "sample_envelope = \<lparr>se_workflow_type = FEATURE_EXECUTION, se_classification = ''FEATURE_ACCEPTED'',
     se_project_id = ''p'', se_repository_identity = ''i'', se_transaction_id = ''t'', se_run_id = ''r'',
     se_session_id = ''s'', se_starting_branch = ''b'', se_starting_commit = ''c'', se_current_commit = ''d'',
     se_feature_id = Some ''f'', se_changed_paths = [''src/a.py''], se_evidence = [], se_next_state = ''n''\<rparr>"

lemma sample_envelope_ok: "envelope_ok sample_envelope"
proof -
  have "safe_path ''src/a.py''" by code_simp
  then show ?thesis by (simp add: envelope_ok_def sample_envelope_def feature_workflows_def)
qed

theorem envelope_roundtrip_witness:
  "envelope_from_dict (oset ''extra'' JNull (envelope_dict sample_envelope)) = Inr sample_envelope
   \<and> envelope_from_dict (envelope_dict sample_envelope) = Inr sample_envelope"
proof -
  have "envelope_from_dict (oset ''extra'' JNull (envelope_dict sample_envelope)) = Inr sample_envelope"
    using sample_envelope_ok by (simp add: envelope_from_dict_Inr envelope_dict_def envelope_required_def)
  from this envelope_roundtrip [OF this] show ?thesis by blast
qed

subsection \<open>Binding to the transaction\<close>

lemma identity_step_Inr:
  assumes "identity_step c (k, JStr x) n = Inr m"
  shows "oget m k = JStr x" "j \<noteq> k \<Longrightarrow> oget m j = oget n j"
  using assms by (auto simp: identity_step_def Let_def split: if_splits)

lemma identity_steps:
  assumes "rfold (identity_step c) ids n = Inr m" "distinct (map fst ids)" "list_all (is_str \<circ> snd) ids"
  shows "list_all (\<lambda>(k, x). oget m k = x) ids" "j \<notin> set (map fst ids) \<Longrightarrow> oget m j = oget n j"
proof -
  have "list_all (\<lambda>(k, x). oget m k = x) ids \<and> (\<forall>j. j \<notin> set (map fst ids) \<longrightarrow> oget m j = oget n j)"
    using assms
  proof (induction ids arbitrary: n)
    case (Cons kx ids)
    obtain k x where kx: "kx = (k, JStr x)" using Cons.prems(3) by (cases kx) (auto simp: is_str_iff)
    from Cons.prems(1) obtain n' where n': "identity_step c (k, JStr x) n = Inr n'"
      "rfold (identity_step c) ids n' = Inr m" by (auto simp: kx)
    from Cons.IH [OF n'(2)] Cons.prems(2,3) have ih: "list_all (\<lambda>(k, x). oget m k = x) ids"
      "\<forall>j. j \<notin> set (map fst ids) \<longrightarrow> oget m j = oget n' j" by simp_all
    moreover have "k \<notin> set (map fst ids)" using Cons.prems(2) by (simp add: kx)
    ultimately show ?case using identity_step_Inr [OF n'(1)] by (simp add: kx)
  qed simp
  then show "list_all (\<lambda>(k, x). oget m k = x) ids" "j \<notin> set (map fst ids) \<Longrightarrow> oget m j = oget n j" by blast+
qed

lemma workflow_step_Inr:
  "workflow_step c (JStr x) n = Inr m \<Longrightarrow> oget m ''workflow_type'' = JStr x
     \<and> (\<forall>j. j \<noteq> ''workflow_type'' \<longrightarrow> oget m j = oget n j)"
  by (auto simp: workflow_step_def Let_def split: if_splits)

lemma next_state_step_Inr:
  "next_state_step c n = Inr m \<Longrightarrow> j \<noteq> ''next_state'' \<Longrightarrow> oget m j = oget n j"
  by (auto simp: next_state_step_def split: if_splits)

lemma identity_pairs:
  "rmap (\<lambda>k. rbind (osub c k) (\<lambda>x. Inr (k, x))) ks = Inr ids \<Longrightarrow>
     map fst ids = ks \<and> list_all (\<lambda>(k, x). oget c k = x) ids"
  by (induction ks arbitrary: ids) (auto simp: oget_def)

lemma normalize_corroborated_identity:
  assumes "normalize_corroborated v c = Inr n" "corroboration_ok c" "k \<in> set (''workflow_type'' # identity_keys)"
  shows "oget n k = oget c k"
proof -
  have str: "is_str (oget c k)" if "k \<in> set (''workflow_type'' # identity_keys)" for k
    using assms(2) that by (auto simp: corroboration_ok_def list_all_iff nonempty_str_iff)
  obtain w ids a b d where s: "osub c ''workflow_type'' = Inr w"
    "rmap (\<lambda>k. rbind (osub c k) (\<lambda>x. Inr (k, x))) identity_keys = Inr ids"
    "rfold (identity_step (w = JStr (workflow_value QUEUE_RECONCILIATION))) ids a = Inr b"
    "workflow_step (w = JStr (workflow_value QUEUE_RECONCILIATION)) w b = Inr d"
    "next_state_step (w = JStr (workflow_value QUEUE_RECONCILIATION)) d = Inr n"
    using assms(1) unfolding normalize_corroborated_def Let_def rbind_eq_Inr
    by (elim exE conjE) (rule that)
  note p = identity_pairs [OF s(2)]
  have "is_str (snd kx)" if "kx \<in> set ids" for kx
  proof -
    have "fst kx \<in> set identity_keys" using that p by (metis image_eqI list.set_map)
    moreover have "oget c (fst kx) = snd kx" using that p by (auto simp: list_all_iff)
    ultimately show ?thesis by (metis str list.set_intros(2))
  qed
  then have "list_all (is_str \<circ> snd) ids" by (simp add: list_all_iff)
  moreover have "distinct (map fst ids)" using p by (simp add: identity_keys_def)
  ultimately have b: "list_all (\<lambda>(k, x). oget b k = x) ids" using identity_steps(1) [OF s(3)] by blast
  have w: "w = oget c ''workflow_type''" using s(1) by (auto simp: oget_def)
  moreover obtain x where "w = JStr x" using str [of "''workflow_type''"] w by (auto simp: is_str_iff)
  ultimately have d: "oget d ''workflow_type'' = oget c ''workflow_type''"
    "\<And>j. j \<noteq> ''workflow_type'' \<Longrightarrow> oget d j = oget b j"
    using workflow_step_Inr s(4) by metis+
  have "oget b j = oget c j" if "j \<in> set identity_keys" for j
  proof -
    from that p obtain x where "(j, x) \<in> set ids" by (metis (no_types) image_iff list.set_map prod.collapse)
    with b p show ?thesis by (auto simp: list_all_iff)
  qed
  moreover have "''workflow_type'' \<notin> set identity_keys" "k \<noteq> ''next_state''"
    using assms(3) by (auto simp: identity_keys_def)
  ultimately show ?thesis using assms(3) d next_state_step_Inr [OF s(5), of k] by (cases "k = ''workflow_type''") auto
qed

lemma extract_terminal_value:
  "extract_terminal_envelope fr output c = Inr e \<Longrightarrow> \<exists>m. terminal_value fr m c = Inr e"
  by (auto simp: extract_terminal_envelope_def Let_def split: if_splits)

text \<open>
  Claim C19. What a session prints cannot impersonate another transaction: an envelope extracted against
  the controller's metadata carries the project, repository, transaction, run, session, branch,
  commit and workflow of the controller, whatever the output contains, and is well typed.
\<close>

theorem extracted_envelope_bound:
  assumes "extract_terminal_envelope fr output (Some c) = Inr e"
  shows "envelope_ok e \<and> oget c ''workflow_type'' = JStr (workflow_value (se_workflow_type e))
    \<and> oget c ''project_id'' = JStr (se_project_id e)
    \<and> oget c ''repository_identity'' = JStr (se_repository_identity e)
    \<and> oget c ''transaction_id'' = JStr (se_transaction_id e) \<and> oget c ''run_id'' = JStr (se_run_id e)
    \<and> oget c ''session_id'' = JStr (se_session_id e) \<and> oget c ''starting_branch'' = JStr (se_starting_branch e)
    \<and> oget c ''starting_commit'' = JStr (se_starting_commit e)"
proof -
  obtain v n where n: "corroboration_ok c" "normalize_corroborated v c = Inr n" "envelope_from_dict n = Inr e"
  proof -
    obtain m where m: "terminal_value fr m (Some c) = Inr e" using extract_terminal_value [OF assms] by blast
    obtain v where "(if corroboration_ok c then rbind (normalize_corroborated v c) envelope_from_dict
        else schema_error ''controller corroboration metadata is incomplete'') = Inr e"
      using m unfolding terminal_value_def by (simp split: option.splits json.splits)
    then show thesis using that by (cases "corroboration_ok c") auto
  qed
  have "oget n ''workflow_type'' = oget c ''workflow_type''" "oget n ''project_id'' = oget c ''project_id''"
    "oget n ''repository_identity'' = oget c ''repository_identity''"
    "oget n ''transaction_id'' = oget c ''transaction_id''" "oget n ''run_id'' = oget c ''run_id''"
    "oget n ''session_id'' = oget c ''session_id''" "oget n ''starting_branch'' = oget c ''starting_branch''"
    "oget n ''starting_commit'' = oget c ''starting_commit''"
    by (rule normalize_corroborated_identity [OF n(2,1)], simp add: identity_keys_def)+
  with n(3) show ?thesis unfolding envelope_from_dict_Inr by simp
qed

subsection \<open>A sample session\<close>

text \<open>The text of a value has no line break, unless a string of it has the one that is not escaped.\<close>

definition breakless :: "string \<Rightarrow> bool" where
  "breakless s \<longleftrightarrow> list_all (\<lambda>c. \<not> line_break c) s"

fun printable :: "json \<Rightarrow> bool" where
  "printable (JStr s) \<longleftrightarrow> CHR 0x85 \<notin> set s"
| "printable (JFloat r) \<longleftrightarrow> False"
| "printable (JArr xs) \<longleftrightarrow> list_all printable xs"
| "printable (JObj kvs) \<longleftrightarrow> list_all (\<lambda>kv. CHR 0x85 \<notin> set (fst kv) \<and> printable (snd kv)) kvs"
| "printable _ \<longleftrightarrow> True"

lemma breakless_simps [simp]:
  "breakless []" "breakless (c # s) \<longleftrightarrow> \<not> line_break c \<and> breakless s"
  "breakless (s @ t) \<longleftrightarrow> breakless s \<and> breakless t"
  by (simp_all add: breakless_def)

lemma breakless_join: "breakless sep \<Longrightarrow> \<forall>x \<in> set xs. breakless x \<Longrightarrow> breakless (join sep xs)"
  by (induction sep xs rule: join.induct) auto

lemma line_break_punct [simp]:
  "\<not> line_break (CHR ''['')" "\<not> line_break (CHR '']'')" "\<not> line_break (CHR ''{'')" "\<not> line_break (CHR ''}'')"
  "\<not> line_break (CHR '','')" "\<not> line_break (CHR '':'')" "\<not> line_break (CHR ''-'')" "\<not> line_break (CHR 34)"
  "\<not> line_break (CHR 92)" "\<not> line_break (CHR ''u'')" "\<not> line_break (CHR ''n'')" "\<not> line_break (CHR ''r'')"
  "\<not> line_break (CHR ''t'')" "\<not> line_break (CHR ''b'')" "\<not> line_break (CHR ''f'')" "\<not> line_break (CHR ''0'')"
  by (simp_all add: line_break_def)

lemma breakless_hex: "k < 16 \<Longrightarrow> \<not> line_break (hex_digit k)"
  using hex_digit_in [of k] by (auto simp: fingerprint_hex_chars_def line_break_def)

lemma breakless_esc: "c \<noteq> CHR 0x85 \<Longrightarrow> breakless (esc_char c)"
proof -
  assume "c \<noteq> CHR 0x85"
  then have "(of_char c :: nat) \<noteq> of_char (CHR 0x85)" unfolding of_char_eq_iff .
  then have "(of_char c :: nat) \<noteq> 133" by simp
  moreover have "(of_char c :: nat) div 16 < 16" using of_char_less_256 [of c] by linarith
  ultimately show ?thesis
    using breakless_hex [of "of_char c div 16"] breakless_hex [of "of_char c mod 16"]
    by (auto simp: esc_char_def Let_def) (simp_all add: line_break_def Let_def)
qed

lemma breakless_digits: "list_all is_digit s \<Longrightarrow> breakless s"
  unfolding breakless_def by (erule list.pred_mono_strong) (auto simp: is_digit_def line_break_def)

lemma breakless_dumps_str: "CHR 0x85 \<notin> set s \<Longrightarrow> breakless (dumps_str s)"
proof -
  assume "CHR 0x85 \<notin> set s"
  then have "breakless (concat (map esc_char s))"
    by (induction s) (auto simp: breakless_esc)
  then show ?thesis by (simp add: dumps_str_def)
qed

lemma breakless_dumps: "printable v \<Longrightarrow> breakless (dumps v)"
proof (induction v)
  case (JInt i)
  have "breakless (show_nat n)" for n using show_nat_digits by (rule breakless_digits)
  then show ?case by (cases "i < 0") (simp_all add: show_int_def)
next
  case (JArr xs)
  then have "breakless (join '','' (map dumps xs))" by (intro breakless_join) (auto simp: list_all_iff)
  then show ?case by simp
next
  case (JObj kvs)
  have "breakless (dumps_member kv)" if "kv \<in> set kvs" for kv
    using JObj.IH [of kv "snd kv"] JObj.prems that breakless_dumps_str
    by (cases kv) (auto simp: dumps_member_def list_all_iff)
  then have "breakless (join '','' (map dumps_member (sort_key fst kvs)))"
    by (intro breakless_join) auto
  then show ?case by (simp add: dumps_JObj)
next
  case (JStr s)
  then show ?case by (simp add: breakless_dumps_str)
qed (simp_all add: breakless_def line_break_def)

lemma str_splitlines_single: "breakless s \<Longrightarrow> s \<noteq> [] \<Longrightarrow> str_splitlines s = [s]"
proof (induction s)
  case (Cons c s)
  then show ?case by (cases "s = []") simp_all
qed simp

definition sample_line :: json where
  "sample_line = JObj [(''item'', JObj [(''text'', JStr (TERMINAL_ENVELOPE_MARKER @ dumps (JObj (envelope_dict sample_envelope)))),
     (''type'', JStr ''agent_message'')]), (''type'', JStr ''item.completed'')]"

definition sample_output :: string where
  "sample_output = dumps sample_line"

definition sample_corroboration :: obj where
  "sample_corroboration = [(''workflow_type'', JStr (workflow_value FEATURE_EXECUTION)), (''project_id'', JStr ''p''),
     (''repository_identity'', JStr ''i''), (''transaction_id'', JStr ''t''), (''run_id'', JStr ''r''),
     (''session_id'', JStr ''s''), (''starting_branch'', JStr ''b''), (''starting_commit'', JStr ''c'')]"

lemma sample_text_printable:
  "breakless (TERMINAL_ENVELOPE_MARKER @ dumps (JObj (envelope_dict sample_envelope)))"
proof -
  have "printable (JObj (envelope_dict sample_envelope))" by code_simp
  moreover have "breakless TERMINAL_ENVELOPE_MARKER" by code_simp
  ultimately show ?thesis using breakless_dumps by simp
qed

lemma sample_messages:
  "agent_messages id sample_output = [TERMINAL_ENVELOPE_MARKER @ dumps (JObj (envelope_dict sample_envelope))]"
proof -
  have no85: "CHR 0x85 \<notin> set s" if "breakless s" for s
    using that by (auto simp: breakless_def list_all_iff line_break_def)
  have "breakless sample_output"
    unfolding sample_output_def
    using no85 [OF sample_text_printable] by (intro breakless_dumps) (simp add: sample_line_def)
  moreover have "sample_output \<noteq> []" by (simp add: sample_output_def sample_line_def dumps_JObj)
  moreover have "json_loads id sample_output = Some (canon sample_line)"
    unfolding sample_output_def by (rule loads_dumps) (simp_all add: sample_line_def)
  moreover have "canon sample_line = sample_line" by (simp add: sample_line_def canon_JObj)
  ultimately show ?thesis
    by (simp add: agent_messages_def str_splitlines_single List.map_filter_def agent_message_def sample_line_def)
qed

lemma sample_marker:
  "terminal_marker (TERMINAL_ENVELOPE_MARKER @ dumps (JObj (envelope_dict sample_envelope)))
     = Inr (dumps (JObj (envelope_dict sample_envelope)))"
proof -
  have "strip (c # s) \<noteq> []" if "\<not> is_space c" for c s
    using that by (simp add: strip_def lstrip_def dropWhile_append3)
  then have "nonblank (TERMINAL_ENVELOPE_MARKER @ x)" for x
    by (simp add: TERMINAL_ENVELOPE_MARKER_def is_space_def)
  then show ?thesis
    using str_splitlines_single [OF sample_text_printable]
    by (simp add: terminal_marker_def marked_def Let_def TERMINAL_ENVELOPE_MARKER_def)
qed

lemma sample_extracted:
  "extract_terminal_envelope id sample_output (Some sample_corroboration) = Inr sample_envelope"
proof -
  have "json_loads id (dumps (JObj (envelope_dict sample_envelope))) = Some (canon (JObj (envelope_dict sample_envelope)))"
    by (rule loads_dumps) (simp_all add: envelope_dict_def sample_envelope_def strs_def)
  moreover have "(case canon (JObj (envelope_dict sample_envelope)) of JObj v \<Rightarrow>
      rbind (normalize_corroborated v sample_corroboration) envelope_from_dict | _ \<Rightarrow> Inl undefined) = Inr sample_envelope"
    by code_simp
  moreover have "corroboration_ok sample_corroboration" by code_simp
  ultimately have "terminal_value id (dumps (JObj (envelope_dict sample_envelope))) (Some sample_corroboration) = Inr sample_envelope"
    by (simp add: terminal_value_def canon_JObj)
  then show ?thesis by (simp add: extract_terminal_envelope_def sample_messages sample_marker)
qed

theorem extracted_envelope_bound_witness:
  "extract_terminal_envelope id sample_output (Some sample_corroboration) = Inr sample_envelope
   \<and> oget sample_corroboration ''transaction_id'' = JStr (se_transaction_id sample_envelope)"
  using sample_extracted extracted_envelope_bound [OF sample_extracted] by blast

end
