(* ===== verification/Workflow_Lease.thy ===== *)
theory Workflow_Lease
  imports Mutation_Policy Locks
begin

section \<open>Writer leases of the workflow kernel\<close>

text \<open>
  \<^verbatim>\<open>workflow_lease.py\<close>: the typed lease a workflow holds on a repository. The state is what
  the file system has on the path of the lease, from the confinement root down: the entries above the
  target and the target itself. The environment \<open>wenv\<close> extends the process of the lock files with
  the output of \<^verbatim>\<open>ps\<close> and the two ways the code resolves a path. Fields that
  \<^verbatim>\<open>from_dict\<close> takes over unchecked stay JSON values. An optional argument is an
  \<open>option\<close>; one with the sentinel \<^verbatim>\<open>_UNSET\<close> is an option of an option.
\<close>

datatype entry = Missing | Directory | Link | Regular nat "json option" | Special

record lease_fs =
  lf_ancestors :: "entry list"
  lf_target :: entry

record wenv = proc +
  we_ps :: "string \<Rightarrow> string"
  we_expand :: "string \<Rightarrow> string res"
  we_resolve :: "string \<Rightarrow> string res"
  we_uuid :: string
  we_root :: string

definition process_start_evidence :: "wenv \<Rightarrow> json \<Rightarrow> string" where
  "process_start_evidence w pid =
     (let v = strip (we_ps w (py_str pid))
      in if v = [] then ''process-start-unavailable:'' @ py_str pid else v)"

subsection \<open>The record\<close>

record workflow_lease =
  wl_schema_version :: json
  wl_lease_id :: json
  wl_lease_type :: lease_type
  wl_repository_identity :: json
  wl_repository_path_fingerprint :: json
  wl_repository_path :: json
  wl_project_id :: json
  wl_controller_project_id :: json
  wl_adapter_project_id :: json
  wl_transaction_id :: json
  wl_workflow_type :: workflow_type
  wl_milestone :: json
  wl_feature_id :: json
  wl_feature_branch :: json
  wl_accepted_commit :: json
  wl_starting_branch :: json
  wl_starting_head :: json
  wl_run_id :: json
  wl_session_id :: json
  wl_owner_pid :: json
  wl_owner_process_start :: json
  wl_owner_host :: json
  wl_created_at :: json
  wl_last_heartbeat :: json
  wl_allowed_mutations :: json

fun lease_purpose :: "workflow_type \<Rightarrow> string" where
  "lease_purpose QUEUE_RECONCILIATION = ''development-conveyor-planning''"
| "lease_purpose FEATURE_PREPARATION = ''development-conveyor-feature-preparation''"
| "lease_purpose FEATURE_EXECUTION = ''development-conveyor-feature''"
| "lease_purpose FEATURE_ACCEPTANCE = ''development-conveyor-feature-acceptance''"
| "lease_purpose MILESTONE_INTEGRATION = ''development-conveyor-integration''"
| "lease_purpose MILESTONE_GATE = ''development-conveyor-milestone-gate''"
| "lease_purpose HUMAN_DECISION_RESOLUTION = ''development-conveyor-recovery''"
| "lease_purpose RECOVERY = ''development-conveyor-recovery''"

definition wl_dict :: "workflow_lease \<Rightarrow> obj" where
  "wl_dict r =
     [(''schema_version'', wl_schema_version r), (''lease_id'', wl_lease_id r),
      (''lease_type'', JStr (lease_value (wl_lease_type r))),
      (''repository_identity'', wl_repository_identity r),
      (''repository_path_fingerprint'', wl_repository_path_fingerprint r),
      (''repository_path'', wl_repository_path r), (''project_id'', wl_project_id r),
      (''controller_project_id'', wl_controller_project_id r),
      (''adapter_project_id'', wl_adapter_project_id r), (''transaction_id'', wl_transaction_id r),
      (''workflow_type'', JStr (workflow_value (wl_workflow_type r))), (''milestone'', wl_milestone r),
      (''feature_id'', wl_feature_id r), (''feature_branch'', wl_feature_branch r),
      (''accepted_commit'', wl_accepted_commit r), (''starting_branch'', wl_starting_branch r),
      (''starting_head'', wl_starting_head r), (''run_id'', wl_run_id r), (''session_id'', wl_session_id r),
      (''owner_pid'', wl_owner_pid r), (''owner_process_start'', wl_owner_process_start r),
      (''owner_host'', wl_owner_host r), (''created_at'', wl_created_at r),
      (''last_heartbeat'', wl_last_heartbeat r), (''allowed_mutations'', wl_allowed_mutations r),
      (''repository'', wl_repository_path r), (''worktree'', wl_repository_path r),
      (''branch'', wl_starting_branch r), (''agent_run'', wl_run_id r),
      (''phase'', JStr (workflow_value (wl_workflow_type r))),
      (''purpose'', JStr (lease_purpose (wl_workflow_type r)))]"

definition wl_fields :: "obj \<Rightarrow> workflow_lease res" where
  "wl_fields v =
     rbind (rmap (osub v) [''schema_version'', ''lease_id'']) (\<lambda>ids.
     rbind (rbind (osub v ''lease_type'') parse_lease_type) (\<lambda>l.
     rbind (rmap (osub v) [''repository_identity'', ''repository_path_fingerprint'']) (\<lambda>repo.
     rbind (rmap (osub v) [''project_id'', ''transaction_id'']) (\<lambda>tx.
     rbind (rbind (osub v ''workflow_type'') parse_workflow) (\<lambda>w.
     rbind (rmap (osub v) [''starting_branch'', ''starting_head'', ''run_id'', ''owner_pid'',
              ''owner_process_start'', ''owner_host'', ''created_at'', ''last_heartbeat'',
              ''allowed_mutations'']) (\<lambda>rest.
     let path = jor (jor (oget v ''repository_path'') (oget v ''repository'')) (oget v ''worktree'') in
     rbind (check (truthy path) ValueError ''repository path is absent'') (\<lambda>_.
     Inr \<lparr>wl_schema_version = ids ! 0, wl_lease_id = ids ! 1, wl_lease_type = l,
          wl_repository_identity = repo ! 0, wl_repository_path_fingerprint = repo ! 1,
          wl_repository_path = path, wl_project_id = tx ! 0,
          wl_controller_project_id = oget v ''controller_project_id'',
          wl_adapter_project_id = oget v ''adapter_project_id'', wl_transaction_id = tx ! 1,
          wl_workflow_type = w, wl_milestone = oget v ''milestone'', wl_feature_id = oget v ''feature_id'',
          wl_feature_branch = oget v ''feature_branch'', wl_accepted_commit = oget v ''accepted_commit'',
          wl_starting_branch = rest ! 0, wl_starting_head = rest ! 1, wl_run_id = rest ! 2,
          wl_session_id = oget v ''session_id'', wl_owner_pid = rest ! 3,
          wl_owner_process_start = rest ! 4, wl_owner_host = rest ! 5, wl_created_at = rest ! 6,
          wl_last_heartbeat = rest ! 7, wl_allowed_mutations = rest ! 8\<rparr>)))))))"

definition wl_from_dict :: "obj \<Rightarrow> workflow_lease res" where
  "wl_from_dict v =
     rewrap [KeyError, TypeError, ValueError] AmbiguousLockError
       ''writer lease does not satisfy the typed lease contract'' (wl_fields v)"

subsection \<open>The file\<close>

text \<open>\<^verbatim>\<open>_reject_symlinked_target_or_ancestors\<close>\<close>

definition reject_links :: "(lease_fs, unit) eff" where
  "reject_links =
     sbind sget (\<lambda>f.
     sbind (slift (rall (\<lambda>e. rbind (check (e \<noteq> Link) LockError ''writer lease path contains a symbolic link'') (\<lambda>_.
              check (e = Missing \<or> e = Directory) LockError ''writer lease ancestor is not a directory''))
            (lf_ancestors f))) (\<lambda>_.
     scheck (lf_target f \<noteq> Link) LockError ''writer lease path contains a symbolic link''))"

definition valid_descriptor :: "entry \<Rightarrow> bool" where
  "valid_descriptor e \<longleftrightarrow> (case e of Regular links _ \<Rightarrow> links = 1 | _ \<Rightarrow> False)"

definition write_existing :: "obj \<Rightarrow> (lease_fs, unit) eff" where
  "write_existing v =
     sbind reject_links (\<lambda>_.
     sbind sget (\<lambda>f.
     sbind (scheck (lf_target f \<noteq> Missing) LockError ''writer lease cannot be securely opened for rewrite'') (\<lambda>_.
     sbind (scheck (valid_descriptor (lf_target f)) LockError ''writer lease is not a regular file'') (\<lambda>_.
     smodify (\<lambda>f. f\<lparr>lf_target := Regular 1 (Some (JObj v))\<rparr>)))))"

definition wl_read :: "(lease_fs, workflow_lease option) eff" where
  "wl_read =
     sbind reject_links (\<lambda>_.
     sbind sget (\<lambda>f.
     case lf_target f of
       Missing \<Rightarrow> sret None
     | Regular links content \<Rightarrow>
         sbind (scheck (links = 1 \<and> content \<noteq> None) AmbiguousLockError ''writer lease is unreadable or unsafe'') (\<lambda>_.
         case content of
           Some (JObj v) \<Rightarrow> sbind (slift (wl_from_dict v)) (\<lambda>r. sret (Some r))
         | _ \<Rightarrow> sthrow AmbiguousLockError ''writer lease root must be an object'')
     | _ \<Rightarrow> sthrow AmbiguousLockError ''writer lease is unreadable or unsafe''))"

subsection \<open>Acquisition\<close>

record acquire_args =
  aq_lease_type :: lease_type
  aq_repository_identity :: string
  aq_repository_path_fingerprint :: string
  aq_repository_path :: "string option"
  aq_project_id :: string
  aq_transaction_id :: string
  aq_workflow_type :: workflow_type
  aq_milestone :: "string option"
  aq_feature_id :: "string option"
  aq_starting_branch :: string
  aq_starting_head :: string
  aq_run_id :: string
  aq_session_id :: "string option"
  aq_policy :: mutation_policy

definition new_lease :: "wenv \<Rightarrow> acquire_args \<Rightarrow> string \<Rightarrow> workflow_lease" where
  "new_lease w a worktree =
     \<lparr>wl_schema_version = JInt 1, wl_lease_id = JStr (we_uuid w), wl_lease_type = aq_lease_type a,
      wl_repository_identity = JStr (aq_repository_identity a),
      wl_repository_path_fingerprint = JStr (aq_repository_path_fingerprint a),
      wl_repository_path = JStr worktree, wl_project_id = JStr (aq_project_id a),
      wl_controller_project_id = JNull, wl_adapter_project_id = JNull,
      wl_transaction_id = JStr (aq_transaction_id a), wl_workflow_type = aq_workflow_type a,
      wl_milestone = of_opt (aq_milestone a), wl_feature_id = of_opt (aq_feature_id a),
      wl_feature_branch = JNull, wl_accepted_commit = JNull,
      wl_starting_branch = JStr (aq_starting_branch a), wl_starting_head = JStr (aq_starting_head a),
      wl_run_id = JStr (aq_run_id a), wl_session_id = of_opt (aq_session_id a),
      wl_owner_pid = JInt (pr_pid w),
      wl_owner_process_start = JStr (process_start_evidence w (JInt (pr_pid w))),
      wl_owner_host = JStr (pr_host w), wl_created_at = JStr (pr_now w),
      wl_last_heartbeat = JStr (pr_now w), wl_allowed_mutations = JObj (policy_dict (aq_policy a))\<rparr>"

definition wl_acquire :: "wenv \<Rightarrow> acquire_args \<Rightarrow> (lease_fs, workflow_lease) eff" where
  "wl_acquire w a =
     sbind (scheck (aq_lease_type a = WORKFLOW_LEASE (aq_workflow_type a)) LockError
              ''lease type cannot authorize the workflow'') (\<lambda>_.
     sbind reject_links (\<lambda>_.
     sbind sget (\<lambda>f.
     sbind (scheck (lf_target f = Missing) LockError ''repository writer lease already exists'') (\<lambda>_.
     sbind (slift (case aq_repository_path a of None \<Rightarrow> we_resolve w (we_root w) | Some p \<Rightarrow> we_expand w p)) (\<lambda>worktree.
     sbind (scheck (aq_repository_path a = None \<or> sha256_hex worktree = aq_repository_path_fingerprint a) LockError
              ''writer lease worktree path fingerprint mismatch'') (\<lambda>_.
     sbind (smodify (\<lambda>f. f\<lparr>lf_ancestors := map (\<lambda>e. if e = Missing then Directory else e) (lf_ancestors f),
              lf_target := Regular 1 (Some (JObj (wl_dict (new_lease w a worktree))))\<rparr>)) (\<lambda>_.
     sret (new_lease w a worktree))))))))"

subsection \<open>Revalidation\<close>

record lease_checks =
  lc_transaction_id :: string
  lc_workflow_type :: workflow_type
  lc_repository_identity :: string
  lc_project_id :: string
  lc_lease_type :: "lease_type option"
  lc_repository_path_fingerprint :: "string option"
  lc_repository_path :: "string option"
  lc_lease_id :: "string option"
  lc_milestone :: "string option option"
  lc_feature_id :: "string option option"
  lc_starting_branch :: "string option"
  lc_starting_head :: "string option"
  lc_run_id :: "string option"
  lc_session_id :: "string option option"
  lc_policy :: "mutation_policy option"

definition basic_checks :: "string \<Rightarrow> workflow_type \<Rightarrow> string \<Rightarrow> string \<Rightarrow> lease_checks" where
  "basic_checks tx wt repo project =
     \<lparr>lc_transaction_id = tx, lc_workflow_type = wt, lc_repository_identity = repo, lc_project_id = project,
      lc_lease_type = None, lc_repository_path_fingerprint = None, lc_repository_path = None, lc_lease_id = None,
      lc_milestone = None, lc_feature_id = None, lc_starting_branch = None, lc_starting_head = None,
      lc_run_id = None, lc_session_id = None, lc_policy = None\<rparr>"

definition when_given :: "'a option \<Rightarrow> ('a \<Rightarrow> bool) \<Rightarrow> bool" where
  "when_given a P = (case a of None \<Rightarrow> True | Some x \<Rightarrow> P x)"

text \<open>\<^verbatim>\<open>Path(v).resolve()\<close>\<close>

definition resolve_json :: "wenv \<Rightarrow> json \<Rightarrow> string res" where
  "resolve_json w v = (case v of JStr s \<Rightarrow> we_resolve w s
     | _ \<Rightarrow> raise TypeError ''argument should be a str or an os.PathLike object'')"

definition lease_checks_ok :: "wenv \<Rightarrow> lease_checks \<Rightarrow> workflow_lease \<Rightarrow> bool res" where
  "lease_checks_ok w c r =
     rbind (case lc_repository_path c of None \<Rightarrow> Inr True
            | Some p \<Rightarrow> rbind (resolve_json w (wl_repository_path r)) (\<lambda>a.
                        rbind (we_resolve w p) (\<lambda>b. Inr (a = b)))) (\<lambda>same_path.
     Inr (wl_transaction_id r = JStr (lc_transaction_id c) \<and> wl_workflow_type r = lc_workflow_type c
       \<and> wl_lease_type r = (case lc_lease_type c of Some l \<Rightarrow> l | None \<Rightarrow> WORKFLOW_LEASE (lc_workflow_type c))
       \<and> wl_repository_identity r = JStr (lc_repository_identity c) \<and> wl_project_id r = JStr (lc_project_id c)
       \<and> when_given (lc_repository_path_fingerprint c) (\<lambda>s. wl_repository_path_fingerprint r = JStr s)
       \<and> same_path
       \<and> when_given (lc_lease_id c) (\<lambda>s. wl_lease_id r = JStr s)
       \<and> when_given (lc_milestone c) (\<lambda>m. wl_milestone r = of_opt m)
       \<and> when_given (lc_feature_id c) (\<lambda>m. wl_feature_id r = of_opt m)
       \<and> when_given (lc_starting_branch c) (\<lambda>s. wl_starting_branch r = JStr s)
       \<and> when_given (lc_starting_head c) (\<lambda>s. wl_starting_head r = JStr s)
       \<and> when_given (lc_run_id c) (\<lambda>s. wl_run_id r = JStr s)
       \<and> when_given (lc_session_id c) (\<lambda>m. wl_session_id r = of_opt m)
       \<and> when_given (lc_policy c) (\<lambda>p. py_eq (wl_allowed_mutations r) (JObj (policy_dict p)))
       \<and> wl_owner_host r = JStr (pr_host w) \<and> py_eq (wl_owner_pid r) (JInt (pr_pid w))
       \<and> wl_owner_process_start r = JStr (process_start_evidence w (JInt (pr_pid w)))))"

definition wl_revalidate :: "wenv \<Rightarrow> lease_checks \<Rightarrow> (lease_fs, workflow_lease) eff" where
  "wl_revalidate w c =
     sbind wl_read (\<lambda>found.
     case found of
       None \<Rightarrow> sthrow LockError ''writer lease is absent''
     | Some r \<Rightarrow>
         sbind (slift (lease_checks_ok w c r)) (\<lambda>ok.
         sbind (scheck ok LockError ''writer lease identity mismatch'') (\<lambda>_. sret r)))"

text \<open>\<^verbatim>\<open>_write_existing(value)\<close> and the record read back from the value\<close>

definition rewrite_lease :: "obj \<Rightarrow> (lease_fs, workflow_lease) eff" where
  "rewrite_lease v = sbind (write_existing v) (\<lambda>_. slift (wl_from_dict v))"

definition wl_heartbeat :: "wenv \<Rightarrow> string \<Rightarrow> workflow_type \<Rightarrow> string \<Rightarrow> string \<Rightarrow> (lease_fs, workflow_lease) eff" where
  "wl_heartbeat w tx wt repo project =
     sbind (wl_revalidate w (basic_checks tx wt repo project)) (\<lambda>r.
     rewrite_lease (oset ''last_heartbeat'' (JStr (pr_now w)) (wl_dict r)))"

definition wl_bind_session ::
  "wenv \<Rightarrow> string \<Rightarrow> workflow_type \<Rightarrow> string \<Rightarrow> string \<Rightarrow> string \<Rightarrow> (lease_fs, workflow_lease) eff" where
  "wl_bind_session w tx wt repo project session =
     sbind (wl_revalidate w (basic_checks tx wt repo project)) (\<lambda>r.
     rewrite_lease (oset ''last_heartbeat'' (JStr (pr_now w)) (oset ''session_id'' (JStr session) (wl_dict r))))"

subsection \<open>Leases adopted by a child process\<close>

definition adopted_fields :: "string list" where
  "adopted_fields = [''lease_id'', ''lease_type'', ''repository_identity'', ''repository_path_fingerprint'',
     ''repository_path'', ''project_id'', ''controller_project_id'', ''adapter_project_id'', ''transaction_id'',
     ''workflow_type'', ''milestone'', ''feature_id'', ''feature_branch'', ''accepted_commit'',
     ''starting_branch'', ''starting_head'', ''run_id'', ''session_id'', ''owner_pid'',
     ''owner_process_start'', ''owner_host'', ''allowed_mutations'']"

definition identity_fields :: "obj \<Rightarrow> obj \<Rightarrow> string list" where
  "identity_fields actual expected =
     (if \<not> ohas expected ''controller_project_id'' \<and> \<not> ohas expected ''adapter_project_id''
         \<and> oget actual ''controller_project_id'' = JNull \<and> oget actual ''adapter_project_id'' = JNull
      then filter (\<lambda>k. k \<notin> {''controller_project_id'', ''adapter_project_id''}) adopted_fields
      else adopted_fields)"

definition json_alive :: "wenv \<Rightarrow> json \<Rightarrow> bool option res" where
  "json_alive w pid = (case int_of pid of Some i \<Rightarrow> Inr (pr_alive w i)
     | None \<Rightarrow> raise TypeError ''an integer is required'')"

definition revalidate_adopted :: "wenv \<Rightarrow> obj \<Rightarrow> (lease_fs, workflow_lease) eff" where
  "revalidate_adopted w expected =
     sbind wl_read (\<lambda>found.
     case found of
       None \<Rightarrow> sthrow LockError ''controller integration lease is absent''
     | Some r \<Rightarrow>
         let actual = wl_dict r; fields = identity_fields actual expected in
         sbind (scheck (list_all (ohas expected) fields) LockError
                  ''controller integration plan has incomplete lease identity'') (\<lambda>_.
         sbind (scheck (list_all (\<lambda>k. py_eq (oget actual k) (oget expected k)) fields) LockError
                  ''controller integration lease identity mismatch'') (\<lambda>_.
         sbind (scheck (wl_session_id r = JNull) LockError
                  ''deterministic integration lease must not be bound to a model session'') (\<lambda>_.
         sbind (scheck (wl_owner_host r = JStr (pr_host w)) LockError
                  ''controller integration lease owner host does not match'') (\<lambda>_.
         sbind (slift (json_alive w (wl_owner_pid r))) (\<lambda>alive.
         sbind (scheck (alive = Some True) LockError
                  ''controller integration lease owner process is not alive'') (\<lambda>_.
         sbind (scheck (wl_owner_process_start r = JStr (process_start_evidence w (wl_owner_pid r))) LockError
                  ''controller integration lease owner process-start evidence changed'') (\<lambda>_.
         sret r))))))))"

definition heartbeat_adopted :: "wenv \<Rightarrow> obj \<Rightarrow> (lease_fs, workflow_lease) eff" where
  "heartbeat_adopted w expected =
     sbind (revalidate_adopted w expected) (\<lambda>r.
     rewrite_lease (oset ''last_heartbeat'' (JStr (pr_now w)) (wl_dict r)))"

text \<open>\<^verbatim>\<open>v not in {None, s}\<close> raises\<close>

definition check_unbound :: "json \<Rightarrow> string \<Rightarrow> string \<Rightarrow> unit res" where
  "check_unbound v s m =
     rbind (check (\<not> is_list v \<and> \<not> is_dict v) TypeError ''unhashable type'') (\<lambda>_.
     check (v = JNull \<or> v = JStr s) LockError m)"

definition bind_controller_plan ::
  "wenv \<Rightarrow> string \<Rightarrow> string \<Rightarrow> string \<Rightarrow> string \<Rightarrow> string \<Rightarrow> string \<Rightarrow> (lease_fs, workflow_lease) eff" where
  "bind_controller_plan w tx repo controller adapter branch commit =
     sbind (wl_revalidate w ((basic_checks tx MILESTONE_INTEGRATION repo controller)\<lparr>lc_session_id := Some None\<rparr>)) (\<lambda>r.
     sbind (scheck (controller \<noteq> [] \<and> adapter \<noteq> []) LockError
              ''controller integration project identity binding is incomplete'') (\<lambda>_.
     sbind (scheck (branch \<noteq> [] \<and> commit \<noteq> []) LockError
              ''controller integration ref binding is incomplete'') (\<lambda>_.
     sbind (slift (check_unbound (wl_controller_project_id r) controller
                     ''controller integration controller-project binding changed'')) (\<lambda>_.
     sbind (slift (check_unbound (wl_adapter_project_id r) adapter
                     ''controller integration adapter-project binding changed'')) (\<lambda>_.
     sbind (slift (check_unbound (wl_feature_branch r) branch
                     ''controller integration feature-branch binding changed'')) (\<lambda>_.
     sbind (slift (check_unbound (wl_accepted_commit r) commit
                     ''controller integration accepted-commit binding changed'')) (\<lambda>_.
     rewrite_lease (oset ''last_heartbeat'' (JStr (pr_now w)) (oset ''accepted_commit'' (JStr commit)
       (oset ''feature_branch'' (JStr branch) (oset ''adapter_project_id'' (JStr adapter)
       (oset ''controller_project_id'' (JStr controller) (wl_dict r)))))))))))))"

subsection \<open>Release\<close>

definition wl_release :: "wenv \<Rightarrow> lease_checks \<Rightarrow> (lease_fs, unit) eff" where
  "wl_release w c =
     sbind wl_read (\<lambda>found.
     case found of
       None \<Rightarrow> sthrow LockError ''writer lease is absent''
     | Some r \<Rightarrow>
         sbind (slift (resolve_json w (wl_repository_path r))) (\<lambda>recorded.
         sbind (slift (we_resolve w (we_root w))) (\<lambda>root.
         sbind (scheck (\<not> (recorded \<noteq> root \<and> (lc_repository_path_fingerprint c = None
                  \<or> lc_repository_path c = None \<or> lc_run_id c = None))) LockError
                  ''linked-worktree lease release requires exact worktree and run identity'') (\<lambda>_.
         sbind (wl_revalidate w (c\<lparr>lc_lease_type := None\<rparr>)) (\<lambda>_.
         smodify (\<lambda>f. f\<lparr>lf_target := Missing\<rparr>))))))"

definition stale_evidence :: "wenv \<Rightarrow> (lease_fs, obj) eff" where
  "stale_evidence w =
     sbind wl_read (\<lambda>found.
     case found of
       None \<Rightarrow> sret [(''exists'', JBool False), (''recoverable'', JBool False)]
     | Some r \<Rightarrow>
         let same_host = (wl_owner_host r = JStr (pr_host w)) in
         sbind (slift (if same_host then json_alive w (wl_owner_pid r) else Inr None)) (\<lambda>alive.
         sret [(''exists'', JBool True), (''same_host'', JBool same_host),
           (''process_alive'', case alive of None \<Rightarrow> JNull | Some b \<Rightarrow> JBool b),
           (''process_start_matches'', if same_host \<and> alive = Some True
              then JBool (wl_owner_process_start r = JStr (process_start_evidence w (wl_owner_pid r))) else JNull),
           (''recoverable'', JBool (same_host \<and> alive = Some False)),
           (''timestamp_used_as_stale_proof'', JBool False), (''transaction_id'', wl_transaction_id r),
           (''workflow_type'', JStr (workflow_value (wl_workflow_type r)))]))"

end
