(* ===== verification/Workflow_Lease_Safety.thy ===== *)
theory Workflow_Lease_Safety
  imports Workflow_Lease
begin

section \<open>What a workflow lease guarantees\<close>

text \<open>
  The workflow lease satisfies the contract of an exclusive lock, its record is read back as it was
  written, and no operation but release and acquisition changes the identity it was acquired with.
\<close>

subsection \<open>Reading and rewriting\<close>

lemma wl_from_dict_Inr:
  "wl_from_dict v = Inr r \<Longrightarrow> truthy (wl_repository_path r) \<and> wl_transaction_id r = oget v ''transaction_id''"
  by (auto simp: wl_from_dict_def wl_fields_def Let_def oget_def)

lemma wl_from_dict_dict: "truthy (wl_repository_path r) \<Longrightarrow> wl_from_dict (wl_dict r) = Inr r"
  by (cases r) (simp add: wl_from_dict_def wl_fields_def wl_dict_def osub_def jor_def)

lemma wl_dict_updates:
  "oset ''last_heartbeat'' v (wl_dict r) = wl_dict (r\<lparr>wl_last_heartbeat := v\<rparr>)"
  "oset ''session_id'' v (wl_dict r) = wl_dict (r\<lparr>wl_session_id := v\<rparr>)"
  "oset ''controller_project_id'' v (wl_dict r) = wl_dict (r\<lparr>wl_controller_project_id := v\<rparr>)"
  "oset ''adapter_project_id'' v (wl_dict r) = wl_dict (r\<lparr>wl_adapter_project_id := v\<rparr>)"
  "oset ''feature_branch'' v (wl_dict r) = wl_dict (r\<lparr>wl_feature_branch := v\<rparr>)"
  "oset ''accepted_commit'' v (wl_dict r) = wl_dict (r\<lparr>wl_accepted_commit := v\<rparr>)"
  by (simp_all add: wl_dict_def)

lemma reject_links_state: "reject_links f = (x, g) \<Longrightarrow> g = f"
  by (auto simp: reject_links_def sbind_def eff_simps split: sum.splits)

lemma wl_read_state: "wl_read f = (x, g) \<Longrightarrow> g = f"
  by (auto simp: wl_read_def sbind_def eff_simps split: sum.splits entry.splits option.splits json.splits prod.splits
      dest!: reject_links_state)

lemma wl_read_Inr:
  assumes "wl_read f = (Inr x, g)"
  shows "g = f" "case x of None \<Rightarrow> lf_target f = Missing
    | Some r \<Rightarrow> \<exists>v. lf_target f = Regular 1 (Some (JObj v)) \<and> wl_from_dict v = Inr r"
proof -
  show "g = f" using assms by (rule wl_read_state)
  obtain h where h: "reject_links f = (Inr (), h)" using assms by (auto simp: wl_read_def sbind_eq_Inr)
  then have "h = f" by (rule reject_links_state)
  with assms h show "case x of None \<Rightarrow> lf_target f = Missing
    | Some r \<Rightarrow> \<exists>v. lf_target f = Regular 1 (Some (JObj v)) \<and> wl_from_dict v = Inr r"
    by (auto simp: wl_read_def sbind_eq_Inr eff_simps check_def slift_eq_Inr sret_eq_Inr scheck_eq_Inr sget_eq_Inr
        split: entry.splits option.splits json.splits if_splits)
qed

lemma wl_revalidate_state: "wl_revalidate w c f = (x, g) \<Longrightarrow> g = f"
  by (auto simp: wl_revalidate_def sbind_def eff_simps split: prod.splits sum.splits option.splits dest!: wl_read_state)

definition owner_is :: "wenv \<Rightarrow> workflow_lease \<Rightarrow> bool" where
  "owner_is w r \<longleftrightarrow> wl_owner_host r = JStr (pr_host w) \<and> py_eq (wl_owner_pid r) (JInt (pr_pid w))
     \<and> wl_owner_process_start r = JStr (process_start_evidence w (JInt (pr_pid w)))"

text \<open>The lease the file holds.\<close>

definition lease_of :: "lease_fs \<Rightarrow> workflow_lease option" where
  "lease_of f =
     (case lf_target f of
        Regular links (Some (JObj v)) \<Rightarrow> (case wl_from_dict v of Inr r \<Rightarrow> Some r | Inl _ \<Rightarrow> None)
      | _ \<Rightarrow> None)"

lemma wl_revalidate_Inr:
  assumes "wl_revalidate w c f = (Inr r, g)"
  shows "g = f \<and> lease_of f = Some r \<and> owner_is w r \<and> truthy (wl_repository_path r)
    \<and> wl_transaction_id r = JStr (lc_transaction_id c)
    \<and> (\<exists>v. lf_target f = Regular 1 (Some (JObj v)) \<and> oget v ''transaction_id'' = JStr (lc_transaction_id c))"
proof -
  from assms have read: "wl_read f = (Inr (Some r), f)" and ok: "lease_checks_ok w c r = Inr True"
    by (auto simp: wl_revalidate_def sbind_eq_Inr slift_eq_Inr scheck_eq_Inr sret_eq_Inr
        split: option.splits dest: wl_read_state)
  obtain v where v: "lf_target f = Regular 1 (Some (JObj v))" "wl_from_dict v = Inr r"
    using wl_read_Inr(2) [OF read] by auto
  have "wl_transaction_id r = JStr (lc_transaction_id c)" "owner_is w r"
    using ok by (auto simp: lease_checks_ok_def owner_is_def)
  with v wl_from_dict_Inr [OF v(2)] wl_revalidate_state [OF assms] show ?thesis by (simp add: lease_of_def)
qed

text \<open>A rewrite replaces the record or changes nothing.\<close>

lemma rewrite_lease_cases:
  assumes "rewrite_lease (wl_dict r) f = (x, g)" "truthy (wl_repository_path r)"
  shows "(\<exists>e. x = Inl e \<and> g = f) \<or> (x = Inr r \<and> g = f\<lparr>lf_target := Regular 1 (Some (JObj (wl_dict r)))\<rparr>)"
proof (cases "fst (reject_links f)")
  case (Inl e)
  then have "reject_links f = (Inl e, f)" by (metis prod.collapse reject_links_state)
  with assms(1) show ?thesis by (auto simp: rewrite_lease_def write_existing_def sbind_def)
next
  case (Inr u)
  then have "reject_links f = (Inr u, f)" by (metis prod.collapse reject_links_state)
  with assms show ?thesis
    by (cases "lf_target f \<noteq> Missing"; cases "valid_descriptor (lf_target f)")
      (auto simp: rewrite_lease_def write_existing_def sbind_def eff_simps raise_def wl_from_dict_dict)
qed

lemma wl_dict_tx [simp]: "oget (wl_dict r) ''transaction_id'' = wl_transaction_id r"
  by (simp add: wl_dict_def)

subsection \<open>Operations\<close>

datatype wl_op =
    WAcquire wenv acquire_args | WRevalidate wenv lease_checks
  | WHeartbeat wenv string workflow_type string string
  | WBind wenv string workflow_type string string string
  | WPlan wenv string string string string string string
  | WAdopted wenv obj | WRelease wenv lease_checks

fun wl_step :: "wl_op \<Rightarrow> (lease_fs, unit) eff" where
  "wl_step (WAcquire w a) = sbind (wl_acquire w a) (\<lambda>_. sret ())"
| "wl_step (WRevalidate w c) = sbind (wl_revalidate w c) (\<lambda>_. sret ())"
| "wl_step (WHeartbeat w tx wt repo project) = sbind (wl_heartbeat w tx wt repo project) (\<lambda>_. sret ())"
| "wl_step (WBind w tx wt repo project s) = sbind (wl_bind_session w tx wt repo project s) (\<lambda>_. sret ())"
| "wl_step (WPlan w tx repo c a b k) = sbind (bind_controller_plan w tx repo c a b k) (\<lambda>_. sret ())"
| "wl_step (WAdopted w expected) = sbind (heartbeat_adopted w expected) (\<lambda>_. sret ())"
| "wl_step (WRelease w c) = wl_release w c"

fun wl_actor :: "wl_op \<Rightarrow> string" where
  "wl_actor (WAcquire w a) = aq_transaction_id a"
| "wl_actor (WRevalidate w c) = lc_transaction_id c"
| "wl_actor (WHeartbeat w tx wt repo project) = tx"
| "wl_actor (WBind w tx wt repo project s) = tx"
| "wl_actor (WPlan w tx repo c a b k) = tx"
| "wl_actor (WAdopted w expected) = (case oget expected ''transaction_id'' of JStr s \<Rightarrow> s | _ \<Rightarrow> [])"
| "wl_actor (WRelease w c) = lc_transaction_id c"

fun wl_role :: "wl_op \<Rightarrow> role" where
  "wl_role (WAcquire w a) = Take" | "wl_role (WRelease w c) = Drop" | "wl_role _ = Keep"

text \<open>The plan of a child process names its transaction by a text.\<close>

fun wl_valid :: "wl_op \<Rightarrow> bool" where
  "wl_valid (WAdopted w expected) = is_str (oget expected ''transaction_id'')" | "wl_valid _ = True"

text \<open>What every operation that keeps the lease does: it reads the record and writes an amended one.\<close>

definition amends :: "(lease_fs, 'a) eff \<Rightarrow> (workflow_lease \<Rightarrow> bool) \<Rightarrow> (workflow_lease \<Rightarrow> workflow_lease \<Rightarrow> bool) \<Rightarrow> bool" where
  "amends m P Q \<longleftrightarrow> (\<forall>f x g. m f = (x, g) \<longrightarrow>
     (case x of
        Inl e \<Rightarrow> g = f
      | Inr y \<Rightarrow> \<exists>r r' v v'. lease_of f = Some r \<and> lease_of g = Some r' \<and> P r \<and> Q r r'
          \<and> lf_target f = Regular 1 (Some (JObj v)) \<and> oget v ''transaction_id'' = wl_transaction_id r
          \<and> lf_target g = Regular 1 (Some (JObj v')) \<and> oget v' ''transaction_id'' = wl_transaction_id r'))"

lemma amends_rewrite:
  assumes read: "\<And>f x g. m f = (x, g) \<Longrightarrow> g = f"
    and ok: "\<And>f r g. m f = (Inr r, g) \<Longrightarrow> P r \<and> lease_of f = Some r \<and> truthy (wl_repository_path r)
        \<and> (\<exists>v. lf_target f = Regular 1 (Some (JObj v)) \<and> oget v ''transaction_id'' = wl_transaction_id r)"
    and upd: "\<And>r z. P r \<Longrightarrow> b r = Inr z \<Longrightarrow> Q r (u r) \<and> wl_repository_path (u r) = wl_repository_path r"
    and pure: "\<And>r f. k r f = (case b r of Inl e \<Rightarrow> (Inl e, f) | Inr _ \<Rightarrow> rewrite_lease (wl_dict (u r)) f)"
  shows "amends (sbind m k) P Q"
  unfolding amends_def
proof (intro allI impI)
  fix f x g assume run: "sbind m k f = (x, g)"
  obtain y h where m: "m f = (y, h)" by fastforce
  then have h: "h = f" by (rule read)
  show "case x of Inl e \<Rightarrow> g = f
      | Inr y \<Rightarrow> \<exists>r r' v v'. lease_of f = Some r \<and> lease_of g = Some r' \<and> P r \<and> Q r r'
          \<and> lf_target f = Regular 1 (Some (JObj v)) \<and> oget v ''transaction_id'' = wl_transaction_id r
          \<and> lf_target g = Regular 1 (Some (JObj v')) \<and> oget v' ''transaction_id'' = wl_transaction_id r'"
  proof (cases y)
    case (Inl e)
    with run m h show ?thesis by (auto simp: sbind_def)
  next
    case (Inr r)
    note r = ok [OF m [unfolded Inr]]
    from run m h Inr have "k r f = (x, g)" by (simp add: sbind_def)
    then show ?thesis
    proof (cases "b r")
      case (Inr z)
      with \<open>k r f = (x, g)\<close> have rw: "rewrite_lease (wl_dict (u r)) f = (x, g)" by (simp add: pure)
      have q: "Q r (u r)" "truthy (wl_repository_path (u r))" using upd [OF _ Inr] r by auto
      from rewrite_lease_cases [OF rw q(2)] show ?thesis
      proof
        assume "x = Inr (u r) \<and> g = f\<lparr>lf_target := Regular 1 (Some (JObj (wl_dict (u r))))\<rparr>"
        then have x: "x = Inr (u r)" "lf_target g = Regular 1 (Some (JObj (wl_dict (u r))))" by simp_all
        then have "lease_of g = Some (u r)" using wl_from_dict_dict [OF q(2)] by (simp add: lease_of_def)
        then show ?thesis using r q x by simp
      qed auto
    next
      case (Inl e)
      with \<open>k r f = (x, g)\<close> have "x = Inl e \<and> g = f" by (simp add: pure)
      then show ?thesis by simp
    qed
  qed
qed

lemma amendsD:
  assumes "amends m P Q" "m f = (x, g)"
  shows "case x of Inl e \<Rightarrow> g = f
      | Inr y \<Rightarrow> \<exists>r r' v v'. lease_of f = Some r \<and> lease_of g = Some r' \<and> P r \<and> Q r r'
          \<and> lf_target f = Regular 1 (Some (JObj v)) \<and> oget v ''transaction_id'' = wl_transaction_id r
          \<and> lf_target g = Regular 1 (Some (JObj v')) \<and> oget v' ''transaction_id'' = wl_transaction_id r'"
  using assms by (simp add: amends_def)

subsection \<open>What is kept\<close>

text \<open>
  The identity is the record without its session, heartbeat and plan bindings; a binding that is set
  is never changed.
\<close>

definition wl_identity :: "workflow_lease \<Rightarrow> workflow_lease" where
  "wl_identity r = r\<lparr>wl_session_id := JNull, wl_last_heartbeat := JNull, wl_controller_project_id := JNull,
     wl_adapter_project_id := JNull, wl_feature_branch := JNull, wl_accepted_commit := JNull\<rparr>"

definition plan_bindings :: "workflow_lease \<Rightarrow> json list" where
  "plan_bindings r = [wl_controller_project_id r, wl_adapter_project_id r, wl_feature_branch r, wl_accepted_commit r]"

definition kept :: "workflow_lease \<Rightarrow> workflow_lease \<Rightarrow> bool" where
  "kept r r' \<longleftrightarrow> wl_identity r' = wl_identity r
     \<and> list_all2 (\<lambda>a b. a = JNull \<or> b = a) (plan_bindings r) (plan_bindings r')"

lemma kept_fields: "kept r r' \<Longrightarrow> wl_transaction_id r' = wl_transaction_id r \<and> wl_repository_path r' = wl_repository_path r"
  by (cases r; cases r') (simp add: kept_def wl_identity_def)

lemma kept_updates [simp]:
  "kept r r" "kept r (r\<lparr>wl_last_heartbeat := v\<rparr>)" "kept r (r\<lparr>wl_session_id := s, wl_last_heartbeat := v\<rparr>)"
  by (simp_all add: kept_def wl_identity_def plan_bindings_def)

lemma amends_owner:
  assumes "\<And>r z. b r = Inr z \<Longrightarrow> kept r (u r)"
    and "\<And>r f. k r f = (case b r of Inl e \<Rightarrow> (Inl e, f) | Inr _ \<Rightarrow> rewrite_lease (wl_dict (u r)) f)"
  shows "amends (sbind (wl_revalidate w c) k)
    (\<lambda>r. owner_is w r \<and> wl_transaction_id r = JStr (lc_transaction_id c)) kept"
proof (rule amends_rewrite [where b = b and u = u])
  fix f r g assume run: "wl_revalidate w c f = (Inr r, g)"
  show "(owner_is w r \<and> wl_transaction_id r = JStr (lc_transaction_id c)) \<and> lease_of f = Some r
      \<and> truthy (wl_repository_path r)
      \<and> (\<exists>v. lf_target f = Regular 1 (Some (JObj v)) \<and> oget v ''transaction_id'' = wl_transaction_id r)"
    using wl_revalidate_Inr [OF run] by auto
qed (use assms in \<open>auto dest: wl_revalidate_state kept_fields\<close>)

lemma amends_heartbeat: "amends (wl_heartbeat w tx wt repo project)
    (\<lambda>r. owner_is w r \<and> wl_transaction_id r = JStr tx) kept"
  using amends_owner [of "\<lambda>_. Inr ()" "\<lambda>r. r\<lparr>wl_last_heartbeat := JStr (pr_now w)\<rparr>"
      "\<lambda>r. rewrite_lease (oset ''last_heartbeat'' (JStr (pr_now w)) (wl_dict r))" w "basic_checks tx wt repo project"]
  by (simp add: wl_heartbeat_def wl_dict_updates basic_checks_def)

lemma amends_bind_session: "amends (wl_bind_session w tx wt repo project s)
    (\<lambda>r. owner_is w r \<and> wl_transaction_id r = JStr tx) kept"
  using amends_owner [of "\<lambda>_. Inr ()" "\<lambda>r. r\<lparr>wl_session_id := JStr s, wl_last_heartbeat := JStr (pr_now w)\<rparr>"
      "\<lambda>r. rewrite_lease (oset ''last_heartbeat'' (JStr (pr_now w)) (oset ''session_id'' (JStr s) (wl_dict r)))"
      w "basic_checks tx wt repo project"]
  by (simp add: wl_bind_session_def wl_dict_updates basic_checks_def)

text \<open>The checks and the record of \<open>bind_controller_plan\<close>\<close>

definition plan_checks :: "string \<Rightarrow> string \<Rightarrow> string \<Rightarrow> string \<Rightarrow> workflow_lease \<Rightarrow> unit res" where
  "plan_checks controller adapter branch commit r =
     rbind (check (controller \<noteq> [] \<and> adapter \<noteq> []) LockError
              ''controller integration project identity binding is incomplete'') (\<lambda>_.
     rbind (check (branch \<noteq> [] \<and> commit \<noteq> []) LockError
              ''controller integration ref binding is incomplete'') (\<lambda>_.
     rbind (check_unbound (wl_controller_project_id r) controller
              ''controller integration controller-project binding changed'') (\<lambda>_.
     rbind (check_unbound (wl_adapter_project_id r) adapter
              ''controller integration adapter-project binding changed'') (\<lambda>_.
     rbind (check_unbound (wl_feature_branch r) branch
              ''controller integration feature-branch binding changed'') (\<lambda>_.
     check_unbound (wl_accepted_commit r) commit
              ''controller integration accepted-commit binding changed'')))))"

definition plan_record :: "wenv \<Rightarrow> string \<Rightarrow> string \<Rightarrow> string \<Rightarrow> string \<Rightarrow> workflow_lease \<Rightarrow> workflow_lease" where
  "plan_record w controller adapter branch commit r =
     r\<lparr>wl_controller_project_id := JStr controller, wl_adapter_project_id := JStr adapter,
       wl_feature_branch := JStr branch, wl_accepted_commit := JStr commit, wl_last_heartbeat := JStr (pr_now w)\<rparr>"

lemma check_unbound_Inr: "check_unbound v s m = Inr u \<Longrightarrow> v = JNull \<or> v = JStr s"
  by (auto simp: check_unbound_def)

lemma plan_kept: "plan_checks c a b k r = Inr z \<Longrightarrow> kept r (plan_record w c a b k r)"
  by (auto simp: plan_checks_def kept_def plan_record_def wl_identity_def plan_bindings_def dest!: check_unbound_Inr)

lemma sbind_slift_rbind: "sbind (slift (rbind a b)) f = sbind (slift a) (\<lambda>x. sbind (slift (b x)) f)"
  by (rule ext) (cases a; simp add: sbind_def slift_def)

lemma sbind_slift_case: "sbind (slift a) f s = (case a of Inl e \<Rightarrow> (Inl e, s) | Inr x \<Rightarrow> f x s)"
  by (cases a) (simp_all add: sbind_def slift_def)

lemma amends_bind_plan: "amends (bind_controller_plan w tx repo c a b k)
    (\<lambda>r. owner_is w r \<and> wl_transaction_id r = JStr tx) kept"
proof -
  have eq: "bind_controller_plan w tx repo c a b k =
      sbind (wl_revalidate w ((basic_checks tx MILESTONE_INTEGRATION repo c)\<lparr>lc_session_id := Some None\<rparr>))
        (\<lambda>r. sbind (slift (plan_checks c a b k r)) (\<lambda>_. rewrite_lease (wl_dict (plan_record w c a b k r))))"
    by (simp add: bind_controller_plan_def plan_checks_def plan_record_def sbind_slift_rbind scheck_def wl_dict_updates)
  show ?thesis
    using amends_owner [of "plan_checks c a b k" "plan_record w c a b k"
        "\<lambda>r. sbind (slift (plan_checks c a b k r)) (\<lambda>_. rewrite_lease (wl_dict (plan_record w c a b k r)))" w
        "(basic_checks tx MILESTONE_INTEGRATION repo c)\<lparr>lc_session_id := Some None\<rparr>"]
    unfolding eq by (simp add: basic_checks_def sbind_slift_case plan_kept)
qed

text \<open>What a child process proves of the lease it adopts.\<close>

definition adoptable :: "wenv \<Rightarrow> obj \<Rightarrow> workflow_lease \<Rightarrow> bool" where
  "adoptable w expected r \<longleftrightarrow> py_eq (wl_transaction_id r) (oget expected ''transaction_id'')
     \<and> wl_session_id r = JNull \<and> wl_owner_host r = JStr (pr_host w)
     \<and> json_alive w (wl_owner_pid r) = Inr (Some True)
     \<and> wl_owner_process_start r = JStr (process_start_evidence w (wl_owner_pid r))"

lemma transaction_is_identity: "''transaction_id'' \<in> set (identity_fields a b)"
  by (simp add: identity_fields_def adopted_fields_def)

lemma revalidate_adopted_state: "revalidate_adopted w e f = (x, g) \<Longrightarrow> g = f"
  by (auto simp: revalidate_adopted_def sbind_def eff_simps Let_def
      split: prod.splits sum.splits option.splits dest!: wl_read_state)

lemma revalidate_adopted_Inr:
  assumes run: "revalidate_adopted w e f = (Inr r, g)"
  shows "adoptable w e r \<and> lease_of f = Some r \<and> truthy (wl_repository_path r)
    \<and> (\<exists>v. lf_target f = Regular 1 (Some (JObj v)) \<and> oget v ''transaction_id'' = wl_transaction_id r)"
proof -
  obtain x h where rd: "wl_read f = (Inr x, h)"
    and rest: "(case x of None \<Rightarrow> sthrow LockError ''controller integration lease is absent'' | Some r \<Rightarrow>
         let actual = wl_dict r; fields = identity_fields actual e in
         sbind (scheck (list_all (ohas e) fields) LockError
                  ''controller integration plan has incomplete lease identity'') (\<lambda>_.
         sbind (scheck (list_all (\<lambda>k. py_eq (oget actual k) (oget e k)) fields) LockError
                  ''controller integration lease identity mismatch'') (\<lambda>_.
         sbind (scheck (wl_session_id r = JNull) LockError
                  ''deterministic integration lease must not be bound to a model session'') (\<lambda>_.
         sbind (scheck (wl_owner_host r = JStr (pr_host w)) LockError
                  ''controller integration lease owner host does not match'') (\<lambda>_.
         sbind (slift (json_alive w (wl_owner_pid r))) (\<lambda>alive.
         sbind (scheck (alive = Some True) LockError
                  ''controller integration lease owner process is not alive'') (\<lambda>_.
         sbind (scheck (wl_owner_process_start r = JStr (process_start_evidence w (wl_owner_pid r))) LockError
                  ''controller integration lease owner process-start evidence changed'') (\<lambda>_.
         sret r)))))))) h = (Inr r, g)"
    using run unfolding revalidate_adopted_def sbind_eq_Inr [of wl_read] by blast
  have h: "h = f" using rd by (rule wl_read_state)
  obtain r' where x: "x = Some r'" using rest by (cases x) auto
  let ?fields = "identity_fields (wl_dict r') e"
  from rest [unfolded x] have all: "list_all (\<lambda>k. py_eq (oget (wl_dict r') k) (oget e k)) ?fields"
    and rest': "wl_session_id r' = JNull" "wl_owner_host r' = JStr (pr_host w)"
      "json_alive w (wl_owner_pid r') = Inr (Some True)"
      "wl_owner_process_start r' = JStr (process_start_evidence w (wl_owner_pid r'))" "r' = r"
    by (auto simp: Let_def eff_elims)
  have "py_eq (wl_transaction_id r') (oget e ''transaction_id'')"
    using all transaction_is_identity [of "wl_dict r'" e] by (auto simp: list_all_iff)
  moreover obtain v where v: "lf_target f = Regular 1 (Some (JObj v))" "wl_from_dict v = Inr r'"
    using wl_read_Inr(2) [OF rd] x by auto
  ultimately show ?thesis
    using rest' wl_from_dict_Inr [OF v(2)] by (simp add: adoptable_def lease_of_def)
qed

lemma amends_adopted: "amends (heartbeat_adopted w e) (adoptable w e) kept"
  unfolding heartbeat_adopted_def
proof (rule amends_rewrite [where b = "\<lambda>_. Inr ()" and u = "\<lambda>r. r\<lparr>wl_last_heartbeat := JStr (pr_now w)\<rparr>"])
qed (auto dest: revalidate_adopted_state revalidate_adopted_Inr simp: wl_dict_updates)

lemmas amends_all = amends_heartbeat amends_bind_session amends_bind_plan amends_adopted

subsection \<open>The contract of a lock\<close>

definition lease_owned_by :: "string \<Rightarrow> lease_fs \<Rightarrow> bool" where
  "lease_owned_by tx f \<longleftrightarrow>
     (case lf_target f of Regular links (Some (JObj v)) \<Rightarrow> oget v ''transaction_id'' = JStr tx | _ \<Rightarrow> False)"

definition lease_present :: "lease_fs \<Rightarrow> bool" where
  "lease_present f \<longleftrightarrow> lf_target f \<noteq> Missing"

lemma clean_reads [simp]:
  "(\<And>x. clean (k x)) \<Longrightarrow> clean (sbind reject_links k)"
  "(\<And>x. clean (k' x)) \<Longrightarrow> clean (sbind wl_read k')"
  "(\<And>x. clean (k'' x)) \<Longrightarrow> clean (sbind (wl_revalidate w c) k'')"
  by (auto intro: clean_sbind dest: reject_links_state wl_read_state wl_revalidate_state)

lemma wl_acquire_cases:
  assumes "wl_acquire w a f = (x, g)"
  shows "case x of Inl e \<Rightarrow> g = f
    | Inr r \<Rightarrow> lf_target f = Missing \<and> lf_target g = Regular 1 (Some (JObj (wl_dict r)))
        \<and> wl_transaction_id r = JStr (aq_transaction_id a)"
proof (cases x)
  case (Inr r)
  with assms show ?thesis
    by (auto simp: wl_acquire_def eff_elims new_lease_def dest!: reject_links_state)
next
  case (Inl e)
  have "clean (wl_acquire w a)"
    by (simp add: wl_acquire_def)
  with assms Inl show ?thesis by (auto dest: cleanD)
qed

lemma wl_release_cases:
  assumes "wl_release w c f = (x, g)"
  shows "case x of Inl e \<Rightarrow> g = f
    | Inr u \<Rightarrow> lf_target g = Missing \<and> lease_owned_by (lc_transaction_id c) f"
proof (cases x)
  case (Inr u)
  with assms show ?thesis
    by (auto simp: wl_release_def eff_elims lease_owned_by_def split: option.splits
        dest!: wl_read_state wl_revalidate_Inr)
next
  case (Inl e)
  have "clean (wl_release w c)"
    by (simp add: wl_release_def)
  with assms Inl show ?thesis by (auto dest: cleanD)
qed

lemma amends_sret: "amends m P Q \<Longrightarrow> amends (sbind m (\<lambda>_. sret ())) P Q"
  by (fastforce simp: amends_def sbind_def eff_simps split: prod.splits sum.splits)

text \<open>Who may keep the lease: the process that owns it, or a child that proves its owner alive.\<close>

fun wl_authorised :: "wl_op \<Rightarrow> workflow_lease \<Rightarrow> bool" where
  "wl_authorised (WHeartbeat w tx wt repo project) = (\<lambda>r. owner_is w r \<and> wl_transaction_id r = JStr tx)"
| "wl_authorised (WBind w tx wt repo project s) = (\<lambda>r. owner_is w r \<and> wl_transaction_id r = JStr tx)"
| "wl_authorised (WPlan w tx repo c a b k) = (\<lambda>r. owner_is w r \<and> wl_transaction_id r = JStr tx)"
| "wl_authorised (WAdopted w expected) = adoptable w expected"
| "wl_authorised (WRevalidate w c) = (\<lambda>r. owner_is w r \<and> wl_transaction_id r = JStr (lc_transaction_id c))"
| "wl_authorised _ = (\<lambda>r. False)"

lemma amends_revalidate: "amends (wl_revalidate w c)
    (\<lambda>r. owner_is w r \<and> wl_transaction_id r = JStr (lc_transaction_id c)) kept"
  unfolding amends_def
  by (auto split: sum.splits dest: wl_revalidate_state dest!: wl_revalidate_Inr)

lemma wl_keep: "wl_role a = Keep \<Longrightarrow> amends (wl_step a) (wl_authorised a) kept"
  by (cases a) (auto intro!: amends_sret amends_all amends_revalidate)

lemma wl_authorised_actor: "wl_valid a \<Longrightarrow> wl_authorised a r \<Longrightarrow> wl_transaction_id r = JStr (wl_actor a)"
  by (cases a) (auto simp: adoptable_def is_str_iff)

lemma wl_failure: "wl_step a f = (Inl e, g) \<Longrightarrow> g = f"
proof (cases "wl_role a")
  case Keep
  assume "wl_step a f = (Inl e, g)"
  from amendsD [OF wl_keep [OF Keep] this] show ?thesis by simp
qed (cases a; auto simp: sbind_def eff_simps split: prod.splits sum.splits dest: wl_acquire_cases wl_release_cases)+

interpretation wlease: lock_slot wl_step wl_actor wl_role wl_valid lease_owned_by lease_present
proof
  show "t = s" if "wl_step a s = (Inl e, t)" for a s e t
    using that by (rule wl_failure)
next
  fix a s r t
  assume v: "wl_valid a" and st: "wl_step a s = (Inr r, t)"
  show "lease_owned_by (wl_actor a) t \<and> (lease_present s \<longrightarrow> lease_owned_by (wl_actor a) s)" if "wl_role a = Take"
    using st that by (cases a) (auto simp: lease_owned_by_def lease_present_def eff_elims dest!: wl_acquire_cases)
  show "lease_owned_by (wl_actor a) s \<and> lease_owned_by (wl_actor a) t" if "wl_role a = Keep"
    using amendsD [OF wl_keep [OF that] st] wl_authorised_actor [OF v]
    by (auto simp: lease_owned_by_def dest: kept_fields)
  show "\<not> lease_present t \<and> (lease_present s \<longrightarrow> lease_owned_by (wl_actor a) s)" if "wl_role a = Drop"
    using st that by (cases a) (auto simp: lease_present_def dest!: wl_release_cases)
  show "\<not> lease_present t" if "wl_role a = Reclaim"
    using that by (cases a) simp_all
qed (auto simp: lease_owned_by_def lease_present_def split: entry.splits option.splits json.splits)

text \<open>
  Claim C17. A repository has one workflow transaction that holds its writer lease: whatever
  acquisitions, revalidations, heartbeats, session and plan bindings, adoptions by child processes and
  releases are attempted, in any order and by any process, no transaction acquires, keeps or amends the
  lease between the acquisition of another one and its release.
\<close>

theorem workflow_lease_exclusive:
  "exclusive wl_actor wl_role None (lock_trace wl_step (filter wl_valid as) (f\<lparr>lf_target := Missing\<rparr>))"
  by (rule wlease.exclusive_run) (simp add: lease_present_def)

text \<open>
  Claim C18. An operation that raises leaves the lease file as it was. One that keeps the lease finds and
  leaves a well-formed record: every identity field (lease, repository, project, transaction, workflow,
  starting point, run, owner, allowed mutations) is unchanged, a plan binding changes only from absent,
  and the caller is the owning process, or a child which has proved that the owner is alive with the
  same start time and that no model session is bound.
\<close>

theorem lease_identity_kept:
  "case wl_step a f of
     (Inl e, g) \<Rightarrow> g = f
   | (Inr u, g) \<Rightarrow>
       if wl_role a = Keep
       then (case (lease_of f, lease_of g) of
               (Some r, Some r') \<Rightarrow> wl_authorised a r \<and> kept r r'
             | _ \<Rightarrow> False)
       else lease_present f \<noteq> lease_present g"
proof -
  obtain x g where st: "wl_step a f = (x, g)" by fastforce
  show ?thesis
  proof (cases x)
    case (Inl e)
    with st show ?thesis by (auto dest: wl_failure)
  next
    case (Inr u)
    show ?thesis
    proof (cases "wl_role a = Keep")
      case True
      from amendsD [OF wl_keep [OF True] st] st Inr True show ?thesis by auto
    next
      case False
      have "lease_present f \<noteq> lease_present g"
        using st Inr False
        by (cases a) (auto simp: lease_present_def lease_owned_by_def eff_elims
          dest!: wl_acquire_cases wl_release_cases split: entry.splits)
      with st Inr False show ?thesis by simp
    qed
  qed
qed

end
