(* ===== verification/Projection.thy ===== *)
theory Projection
  imports Ledger_Durable Workflow_Lease
begin

section \<open>The projection of the ledger\<close>

text \<open>
  \<^verbatim>\<open>projection.py\<close>: the current state as a fold over the events of the ledger, and the
  cache file that keeps it. \<open>pstate\<close> holds the local variables of \<^verbatim>\<open>rebuild\<close>;
  \<^verbatim>\<open>transaction_order\<close> is the order of the keys of \<open>ps_transactions\<close>, since both grow
  together. \<open>project_event\<close> is one turn of the loop, \<open>settle\<close> what follows the loop,
  \<open>observe\<close> the comparison with the observations, \<open>projection_dict\<close> the dictionary. Payload fields
  are unchecked JSON values: where the code uses one as a key or in a set, a list or a dictionary
  raises \<^verbatim>\<open>TypeError\<close>.
\<close>

definition WORKFLOW_ACTIVE_STATE :: "(string \<times> string) list" where
  "WORKFLOW_ACTIVE_STATE =
    [(''queue_reconciliation'', ''queue_reconciliation''), (''feature_preparation'', ''feature_preparing''),
     (''feature_execution'', ''feature_running''), (''feature_acceptance'', ''feature_review''),
     (''milestone_integration'', ''integrating''), (''milestone_gate'', ''milestone_gate''),
     (''human_decision_resolution'', ''human_decision_required''), (''recovery'', ''queue_reconciliation'')]"

definition NEXT_ACTION :: "(string \<times> string) list" where
  "NEXT_ACTION =
    [(''feature_ready'', ''feature_cycle''), (''feature_preparing'', ''feature_cycle''),
     (''feature_accepted'', ''milestone_integration''), (''integration_pending'', ''milestone_integration''),
     (''integration_ready'', ''milestone_integration''), (''feature_integrated'', ''queue_reconciliation''),
     (''queue_reconciliation'', ''queue_reconciliation''), (''milestone_gate'', ''milestone_gate''),
     (''human_decision_required'', ''human_decision_resolution''),
     (''milestone_complete'', ''human_merge_approval''),
     (''milestone_ready_for_merge'', ''human_merge_approval'')]"

definition PROJECTION_SEMANTICS_VERSION :: int where
  "PROJECTION_SEMANTICS_VERSION = 2"

definition projection_fingerprint :: "obj \<Rightarrow> string" where
  "projection_fingerprint v = fingerprint (JObj (adel ''projection_fingerprint'' v))"

definition build_projection_observations ::
  "string option \<Rightarrow> string option \<Rightarrow> bool \<Rightarrow> (string \<times> bool) list \<Rightarrow> string option \<Rightarrow> string option
    \<Rightarrow> string option \<Rightarrow> bool \<Rightarrow> string option \<Rightarrow> obj" where
  "build_projection_observations branch head tidy git feature integration lease valid session =
     (let v = [(''branch'', of_opt branch), (''head'', of_opt head), (''clean'', JBool tidy),
               (''git_operations'', JObj (map (\<lambda>(k, b). (k, JBool b)) (sort_key fst git))),
               (''queue_feature'', of_opt feature), (''queue_integration_status'', of_opt integration),
               (''lease_transaction'', of_opt lease), (''lease_valid'', JBool valid),
               (''live_session_id'', of_opt session)]
      in oset ''observation_fingerprint'' (JStr (fingerprint (JObj v))) v)"

subsection \<open>Values as keys\<close>

definition hashable :: "json \<Rightarrow> unit res" where
  "hashable v = check (\<not> is_list v \<and> \<not> is_dict v) TypeError ''unhashable type''"

definition in_set :: "json \<Rightarrow> json list \<Rightarrow> bool res" where
  "in_set v xs = rbind (hashable v) (\<lambda>_. Inr (list_ex (py_eq v) xs))"

definition commit_of :: "(json \<times> json) list \<Rightarrow> json \<Rightarrow> json res" where
  "commit_of cs k = rbind (hashable k) (\<lambda>_.
     Inr (case List.find (\<lambda>kv. py_eq (fst kv) k) cs of None \<Rightarrow> JNull | Some kv \<Rightarrow> snd kv))"

fun put_commit :: "json \<Rightarrow> json \<Rightarrow> (json \<times> json) list \<Rightarrow> (json \<times> json) list" where
  "put_commit k v [] = [(k, v)]"
| "put_commit k v (kv # cs) = (if py_eq (fst kv) k then (fst kv, v) # cs else kv # put_commit k v cs)"

subsection \<open>The fold\<close>

record pstate =
  ps_transactions :: "(string \<times> obj) list"
  ps_state :: json
  ps_feature :: json
  ps_selected :: json
  ps_selected_commit :: json
  ps_accepted :: json
  ps_integration :: json
  ps_planning :: json
  ps_gate :: json
  ps_commits :: "(json \<times> json) list"
  ps_integrated :: "json list"
  ps_outcomes :: "json list"
  ps_warnings :: "string list"
  ps_facts :: obj

definition pinit :: pstate where
  "pinit = \<lparr>ps_transactions = [], ps_state = JStr ''discover'', ps_feature = JNull, ps_selected = JNull,
     ps_selected_commit = JNull, ps_accepted = JNull, ps_integration = JNull, ps_planning = JNull,
     ps_gate = JNull, ps_commits = [], ps_integrated = [], ps_outcomes = [], ps_warnings = [], ps_facts = []\<rparr>"

definition new_transaction :: "obj \<Rightarrow> obj" where
  "new_transaction e =
     [(''transaction_id'', oget e ''transaction_id''), (''workflow_type'', oget e ''workflow_type''),
      (''state'', JStr ''created''), (''feature_id'', oget (payload e) ''feature_id''),
      (''milestone'', oget (payload e) ''milestone''), (''run_id'', oget (payload e) ''run_id''),
      (''session_ids'', JArr []), (''terminal_classification'', JNull), (''terminal_reference'', JNull),
      (''starting_snapshot'', JNull), (''terminal_snapshot'', JNull), (''last_sequence'', oget e ''sequence'')]"

definition sessions :: "obj \<Rightarrow> json list" where
  "sessions t = (case oget t ''session_ids'' of JArr xs \<Rightarrow> xs | _ \<Rightarrow> [])"

text \<open>The branches of one turn: the transaction and the state they leave.\<close>

definition on_started :: "obj \<Rightarrow> obj \<Rightarrow> pstate \<Rightarrow> (obj \<times> pstate) res" where
  "on_started e t s =
     (let p = payload e;
          s1 = (if \<not> truthy (oget p ''legacy_import'') \<and> \<not> truthy (oget p ''migration_batch'')
                then s\<lparr>ps_facts := []\<rparr> else s);
          t1 = oupdate t [(''state'', JStr ''lease_pending''), (''feature_id'', oget p ''feature_id''),
                 (''milestone'', oget p ''milestone''), (''run_id'', oget p ''run_id'')];
          s2 = s1\<lparr>ps_state := (case map_of WORKFLOW_ACTIVE_STATE (estr e ''workflow_type'') of
                 Some v \<Rightarrow> JStr v | None \<Rightarrow> ps_state s1)\<rparr>;
          f = oget p ''feature_id''
      in if truthy f then
           rbind (commit_of (ps_commits s2) f) (\<lambda>c.
           rbind (in_set f (ps_integrated s2)) (\<lambda>done_before.
           Inr (t1, s2\<lparr>ps_feature := f, ps_accepted := c,
                 ps_integration := (if done_before then JStr ''passed'' else JNull)\<rparr>)))
         else Inr (t1, s2))"

definition on_session :: "obj \<Rightarrow> obj \<Rightarrow> obj" where
  "on_session e t =
     (let v = oget (payload e) ''session_id'';
          t1 = (if truthy v \<and> \<not> list_ex (py_eq v) (sessions t)
                then oset ''session_ids'' (JArr (sessions t @ [v])) t else t)
      in oset ''state'' (JStr ''result_pending'') t1)"

definition on_gate_raised :: "obj \<Rightarrow> obj \<Rightarrow> pstate \<Rightarrow> obj \<times> pstate" where
  "on_gate_raised e t s =
     (let p = payload e in
      (oupdate t [(''state'', JStr ''human_decision_required''),
         (''terminal_classification'', oget_or p ''classification'' (JStr ''HUMAN_DECISION_REQUIRED'')),
         (''terminal_reference'', oget p ''gate_id''), (''terminal_snapshot'', oget p ''terminal_snapshot'')],
       s\<lparr>ps_gate := jor (oget p ''gate'') (JObj p), ps_state := JStr ''human_decision_required''\<rparr>))"

definition on_blocked :: "obj \<Rightarrow> obj \<Rightarrow> pstate \<Rightarrow> obj \<times> pstate" where
  "on_blocked e t s =
     (let p = payload e in
      (oupdate t [(''state'', oget_or p ''terminal_state'' (JStr ''blocked'')),
         (''terminal_classification'', oget p ''classification''), (''terminal_reference'', oget p ''reference''),
         (''terminal_snapshot'', oget p ''terminal_snapshot'')],
       s\<lparr>ps_state := oget_or p ''next_state'' (ps_state s)\<rparr>))"

definition on_superseded :: "obj \<Rightarrow> obj \<Rightarrow> pstate \<Rightarrow> obj \<times> pstate" where
  "on_superseded e t s =
     (let p = payload e in
      (oupdate t [(''state'', JStr ''superseded''),
         (''terminal_classification'', oget_or p ''classification'' (JStr ''TRANSACTION_SUPERSEDED'')),
         (''terminal_reference'', oget p ''superseded_by''), (''terminal_snapshot'', oget p ''terminal_snapshot'')],
       s\<lparr>ps_state := oget_or p ''next_state'' (ps_state s)\<rparr>))"

definition integration_outcome :: "obj \<Rightarrow> json res" where
  "integration_outcome e =
     (let p = payload e; snap = jor (oget p ''terminal_snapshot'') (JObj []) in
      rbind (jget snap ''head'') (\<lambda>head.
      rbind (jget snap ''clean'') (\<lambda>tidy.
      Inr (JObj [(''transaction_id'', oget e ''transaction_id''), (''classification'', oget p ''classification''),
        (''feature_id'', oget p ''feature_id''), (''accepted_commit'', oget p ''accepted_feature_commit''),
        (''integrated_commit'', oget p ''integrated_commit''), (''terminal_head'', head),
        (''terminal_repository_clean'', tidy), (''sequence'', oget e ''sequence'')]))))"

definition on_completed :: "obj \<Rightarrow> obj \<Rightarrow> pstate \<Rightarrow> (obj \<times> pstate) res" where
  "on_completed e t s =
     (let p = payload e;
          t1 = oupdate t [(''state'', JStr ''completed''), (''terminal_classification'', oget p ''classification''),
                 (''terminal_reference'', oget p ''reference''), (''terminal_snapshot'', oget p ''terminal_snapshot'')];
          s1 = s\<lparr>ps_state := oget_or p ''next_state'' (ps_state s), ps_feature := oget_or p ''feature_id'' (ps_feature s),
                 ps_selected := oget_or p ''selected_feature'' (ps_selected s),
                 ps_selected_commit := oget_or p ''selected_feature_starting_commit'' (ps_selected_commit s),
                 ps_accepted := oget_or p ''accepted_feature_commit'' (ps_accepted s)\<rparr>;
          f = oget t1 ''feature_id''; c = oget p ''accepted_feature_commit''
      in rbind (if truthy f \<and> truthy c
                then rbind (hashable f) (\<lambda>_. Inr (s1\<lparr>ps_commits := put_commit f c (ps_commits s1)\<rparr>))
                else Inr s1) (\<lambda>s2.
         let s3 = s2\<lparr>ps_integration := oget_or p ''integration_status'' (ps_integration s2),
                 ps_planning := oget_or p ''planning_status'' (ps_planning s2),
                 ps_gate := oget_or p ''human_merge_gate'' (ps_gate s2)\<rparr>
         in if estr e ''workflow_type'' = ''milestone_integration'' then
              (let g = jor (oget p ''feature_id'') f in
               rbind (if truthy g then rbind (hashable g) (\<lambda>_. Inr (s3\<lparr>ps_integrated := g # ps_integrated s3\<rparr>))
                      else Inr s3) (\<lambda>s4.
               rbind (integration_outcome e) (\<lambda>o'. Inr (t1, s4\<lparr>ps_outcomes := ps_outcomes s4 @ [o']\<rparr>))))
            else Inr (t1, s3)))"

definition on_projection :: "obj \<Rightarrow> pstate \<Rightarrow> pstate" where
  "on_projection e s =
     (let p = payload e in
      s\<lparr>ps_state := oget_or p ''current_state'' (ps_state s),
        ps_selected := oget_or p ''selected_feature'' (ps_selected s),
        ps_feature := oget_or p ''current_feature'' (ps_feature s),
        ps_facts := (case oget p ''projection_facts'' of JObj d \<Rightarrow> oupdate (ps_facts s) d | _ \<Rightarrow> ps_facts s)\<rparr>)"

definition apply_event :: "obj \<Rightarrow> obj \<Rightarrow> pstate \<Rightarrow> (obj \<times> pstate) res" where
  "apply_event e t s =
     (let kind = etype e; p = payload e; state = (\<lambda>v. oset ''state'' (JStr v) t) in
      if kind = ''TransactionStarted'' then on_started e t s
      else if kind = ''LeaseAcquired'' then Inr (state ''active'', s)
      else if kind = ''SnapshotCaptured''
        then Inr (oset ''state'' (JStr ''active'') (oset ''starting_snapshot'' (oget p ''snapshot'') t), s)
      else if kind = ''SessionLaunched'' then Inr (on_session e t, s)
      else if kind = ''DeterministicExecutionStarted''
        then Inr (oset ''deterministic_plan_fingerprint'' (oget p ''plan_fingerprint'') (state ''result_pending''), s)
      else if kind = ''SessionResultAccepted'' then Inr (state ''validating'', s)
      else if kind = ''DeterministicResultAccepted''
        then Inr (oset ''deterministic_result_classification'' (oget p ''classification'') (state ''validating''), s)
      else if kind = ''ValidationStarted'' then Inr (state ''validating'', s)
      else if kind = ''ValidationPassed'' then Inr (state ''finalizing'', s)
      else if kind = ''ValidationFailed''
        then Inr (t, s\<lparr>ps_warnings := ps_warnings s @ [''validation_failed:'' @ etx e]\<rparr>)
      else if kind = ''CommitFinalized'' then Inr (state ''finalizing'', s)
      else if kind = ''HumanGateRaised'' then Inr (on_gate_raised e t s)
      else if kind = ''HumanGateResolved'' then Inr (t, s\<lparr>ps_gate := JNull\<rparr>)
      else if kind = ''TransactionBlocked'' then Inr (on_blocked e t s)
      else if kind = ''TransactionSuperseded'' then Inr (on_superseded e t s)
      else if kind = ''TransactionCompleted'' then on_completed e t s
      else if kind = ''ProjectionUpdated'' then Inr (t, on_projection e s)
      else Inr (t, s))"

definition project_event :: "obj \<Rightarrow> pstate \<Rightarrow> pstate res" where
  "project_event e s =
     (let t = (case map_of (ps_transactions s) (etx e) of Some t \<Rightarrow> t | None \<Rightarrow> new_transaction e) in
      rbind (apply_event e (oset ''last_sequence'' (oget e ''sequence'') t) s) (\<lambda>(t', s').
      Inr (s'\<lparr>ps_transactions := aset (etx e) t' (ps_transactions s')\<rparr>)))"

definition project_events :: "obj list \<Rightarrow> pstate res" where
  "project_events es = rfold project_event es pinit"

subsection \<open>After the loop\<close>

definition TERMINAL_PROJECTION_STATES :: "string list" where
  "TERMINAL_PROJECTION_STATES =
    [''completed'', ''blocked'', ''human_decision_required'', ''retryable_failure'', ''terminal_failure'',
     ''superseded'']"

definition active_ids :: "pstate \<Rightarrow> string list res" where
  "active_ids s =
     rbind (rmap (\<lambda>(tx, t). rbind (in_set (oget t ''state'') (map JStr TERMINAL_PROJECTION_STATES))
              (\<lambda>b. Inr (tx, b))) (ps_transactions s)) (\<lambda>xs.
     Inr (map fst (filter (\<lambda>x. \<not> snd x) xs)))"

definition active_transaction :: "pstate \<Rightarrow> string option res" where
  "active_transaction s =
     rbind (active_ids s) (\<lambda>ids.
     rbind (check (length ids \<le> 1) ProjectionError
              ''multiple incomplete transactions violate single-writer projection invariants'') (\<lambda>_.
     Inr (if ids = [] then None else Some (last ids))))"

text \<open>Without an active transaction, work on a feature that is integrated is over.\<close>

definition retire_feature :: "pstate \<Rightarrow> pstate res" where
  "retire_feature s =
     rbind (in_set (ps_feature s) (ps_integrated s)) (\<lambda>done_before.
     if \<not> done_before \<or> ps_feature s = JNull then Inr s
     else
       rbind (in_set (ps_selected s) (ps_integrated s)) (\<lambda>stale.
       let sel = (if stale then JNull else ps_selected s) in
       rbind (in_set sel (ps_integrated s)) (\<lambda>again.
       let f = (if again then JNull else sel) in
       rbind (if f = JNull
              then in_set (ps_state s) (map JStr [''feature_ready'', ''feature_accepted'', ''integration_pending'',
                     ''integration_ready'', ''feature_integrated''])
              else Inr False) (\<lambda>idle.
       let st = (if idle then JStr ''queue_reconciliation'' else ps_state s) in
       Inr (s\<lparr>ps_selected := sel, ps_feature := f, ps_accepted := JNull, ps_integration := JNull,
              ps_state := st, ps_gate := (if st = JStr ''human_decision_required'' then ps_gate s else JNull)\<rparr>)))))"

record settled =
  se_state :: pstate
  se_active :: "string option"
  se_commit :: json
  se_resume :: bool

definition tx_dict_of :: "pstate \<Rightarrow> string \<Rightarrow> obj" where
  "tx_dict_of s tx = (case map_of (ps_transactions s) tx of Some t \<Rightarrow> t | None \<Rightarrow> [])"

definition settle :: "pstate \<Rightarrow> settled res" where
  "settle s0 =
     rbind (active_transaction s0) (\<lambda>active.
     rbind (if active = None then retire_feature s0 else Inr s0) (\<lambda>s.
     rbind (if truthy (ps_feature s) then commit_of (ps_commits s) (ps_feature s) else Inr (ps_accepted s)) (\<lambda>commit.
     rbind (if truthy commit \<and> ps_state s = JStr ''feature_running''
            then in_set (ps_feature s) (ps_integrated s) else Inr True) (\<lambda>integrated.
     let s' = (if integrated then s else s\<lparr>ps_state := JStr ''integration_ready''\<rparr>) in
     Inr \<lparr>se_state = s', se_active = active, se_commit = commit,
          se_resume = (case active of None \<Rightarrow> False
            | Some tx \<Rightarrow> tx \<noteq> [] \<and> oget (tx_dict_of s' tx) ''state'' \<in> {JStr ''active'', JStr ''result_pending''}
                \<and> sessions (tx_dict_of s' tx) \<noteq> [] \<and> \<not> truthy commit)\<rparr>))))"

subsection \<open>Observations\<close>

text \<open>
  The consistency of the repository with the projection, whether the session may be resumed, and the
  integration status.
\<close>

record comparison =
  cm_consistency :: string
  cm_resume :: bool
  cm_integration :: json
  cm_observed :: json

definition repository_consistency :: "settled \<Rightarrow> obj \<Rightarrow> string res" where
  "repository_consistency x v =
     (let active = se_active x; is_active = (active \<noteq> None \<and> active \<noteq> Some []); feature = ps_feature (se_state x) in
      rbind (case oget_or v ''git_operations'' (JObj []) of JObj ops \<Rightarrow> Inr (map snd ops)
             | _ \<Rightarrow> raise AttributeError ''values'') (\<lambda>ops.
      Inr (if list_ex truthy ops \<or> oget v ''branch'' = JNull then ''unsafe_git_state''
           else if is_active \<and> (\<not> truthy (oget v ''lease_valid'')
             \<or> oget v ''lease_transaction'' \<noteq> of_opt active) then ''lease_mismatch''
           else if \<not> is_active \<and> oget v ''lease_transaction'' \<noteq> JNull then ''orphaned_lease''
           else if feature \<noteq> JNull \<and> oget v ''queue_feature'' \<noteq> JNull
             \<and> \<not> py_eq (oget v ''queue_feature'') feature then ''queue_projection_disagreement''
           else if \<not> truthy (oget v ''clean'') \<and> \<not> is_active then ''unexplained_dirty_worktree''
           else ''consistent'')))"

definition observe :: "settled \<Rightarrow> obj option \<Rightarrow> comparison res" where
  "observe x observations =
     (case observations of
        None \<Rightarrow> Inr \<lparr>cm_consistency = ''not_observed'', cm_resume = se_resume x,
                     cm_integration = ps_integration (se_state x), cm_observed = JNull\<rparr>
      | Some given \<Rightarrow>
          let claimed = oget given ''observation_fingerprint''; v = adel ''observation_fingerprint'' given in
          rbind (check (claimed = JStr (fingerprint (JObj v))) ProjectionError
                   ''current observation fingerprint is invalid'') (\<lambda>_.
          let v' = oset ''observation_fingerprint'' claimed v;
              ss = (case se_active x of None \<Rightarrow> [] | Some tx \<Rightarrow> if tx = [] then [] else sessions (tx_dict_of (se_state x) tx));
              queue = oget v' ''queue_integration_status'' in
          rbind (repository_consistency x v') (\<lambda>c.
          rbind (if ss = [] then Inr True
                 else rbind (hashable (last ss)) (\<lambda>_. in_set (oget v' ''live_session_id'') [JNull, last ss])) (\<lambda>live.
          Inr \<lparr>cm_consistency = (if live then c else ''stale_session''), cm_resume = se_resume x \<and> live,
               cm_integration = (if truthy (ps_feature (se_state x)) \<and> queue \<noteq> JNull then queue
                                 else ps_integration (se_state x)),
               cm_observed = JObj v'\<rparr>))))"

subsection \<open>The dictionary\<close>

definition next_action :: "json \<Rightarrow> json res" where
  "next_action st = rbind (hashable st) (\<lambda>_.
     Inr (case str_of st of None \<Rightarrow> JStr ''verify_consistency''
          | Some k \<Rightarrow> (case map_of NEXT_ACTION k of None \<Rightarrow> JStr ''verify_consistency'' | Some a \<Rightarrow> JStr a)))"

definition required_lease :: "settled \<Rightarrow> json res" where
  "required_lease x =
     (case se_active x of
        None \<Rightarrow> Inr JNull
      | Some tx \<Rightarrow> if tx = [] then Inr JNull
          else rbind (parse_workflow (oget (tx_dict_of (se_state x) tx) ''workflow_type'')) (\<lambda>w.
               Inr (JStr (lease_value (WORKFLOW_LEASE w)))))"

definition projection_fields ::
  "ledger \<Rightarrow> integrity \<Rightarrow> settled \<Rightarrow> comparison \<Rightarrow> json \<Rightarrow> json \<Rightarrow> obj" where
  "projection_fields L i x c action lease =
     (let s = se_state x in
      [(''schema_version'', JInt 1), (''projection_semantics_version'', JInt PROJECTION_SEMANTICS_VERSION),
       (''project_id'', JStr (lg_project_id L)), (''repository_identity'', JStr (lg_repository_identity L)),
       (''repository_path_fingerprint'', JStr (lg_repository_path_fingerprint L)),
       (''ledger_sequence'', JInt (li_sequence i)), (''ledger_fingerprint'', JStr (li_fingerprint i)),
       (''current_state'', ps_state s), (''active_transaction'', of_opt (se_active x)),
       (''current_feature'', ps_feature s), (''selected_next_feature'', ps_selected s),
       (''selected_feature_starting_commit'', ps_selected_commit s), (''accepted_feature_commit'', se_commit x),
       (''integration_status'', cm_integration c), (''planning_status'', ps_planning s),
       (''human_gate'', ps_gate s), (''allowed_next_action'', action),
       (''session_resume_eligible'', JBool (cm_resume c)), (''required_lease'', lease),
       (''historical_integration_outcomes'', JArr (ps_outcomes s)),
       (''current_repository_consistency'', JStr (cm_consistency c)), (''current_observations'', cm_observed c),
       (''transactions'', JArr (map (\<lambda>x. JObj (snd x)) (ps_transactions s))), (''warnings'', strs (ps_warnings s))])"

definition projection_dict :: "ledger \<Rightarrow> obj list \<Rightarrow> integrity \<Rightarrow> obj option \<Rightarrow> obj res" where
  "projection_dict L es i observations =
     rbind (project_events es) (\<lambda>s0.
     rbind (settle s0) (\<lambda>x.
     rbind (observe x observations) (\<lambda>c.
     rbind (next_action (ps_state (se_state x))) (\<lambda>action.
     rbind (required_lease x) (\<lambda>lease.
     let d = oupdate (projection_fields L i x c action lease) (ps_facts (se_state x));
         d' = (if cm_consistency c \<in> {''not_observed'', ''consistent''} then d
               else oset ''allowed_next_action'' (JStr ''verify_consistency'') d)
     in Inr (oset ''projection_fingerprint'' (JStr (projection_fingerprint d')) d'))))))"

subsection \<open>The engine and its cache\<close>

text \<open>
  The files of the ledger, and what is at the directory and at the path of the cache. A cache file
  that holds no JSON is \<open>Regular n None\<close>.
\<close>

record proj_fs =
  pf_ledger :: files
  pf_parent :: entry
  pf_cache :: entry

record engine =
  en_ledger :: ledger
  en_cached :: bool

definition make_engine :: "(string \<Rightarrow> string) \<Rightarrow> (string \<Rightarrow> string) \<Rightarrow> ledger \<Rightarrow> string \<Rightarrow> string option \<Rightarrow> engine res" where
  "make_engine absolute parent L ledger_path cache =
     rbind (check (case cache of None \<Rightarrow> True | Some p \<Rightarrow> parent (absolute p) = parent ledger_path) ProjectionError
              ''projection cache must be confined beside its evidence ledger'') (\<lambda>_.
     Inr \<lparr>en_ledger = L, en_cached = (cache \<noteq> None)\<rparr>)"

text \<open>A call of the ledger, within the state of the engine.\<close>

definition on_ledger :: "(files, 'a) eff \<Rightarrow> (proj_fs, 'a) eff" where
  "on_ledger m = (\<lambda>s. case m (pf_ledger s) of (r, f) \<Rightarrow> (r, s\<lparr>pf_ledger := f\<rparr>))"

definition validate_cache_path :: "engine \<Rightarrow> (proj_fs, unit) eff" where
  "validate_cache_path E =
     sbind sget (\<lambda>s.
     if \<not> en_cached E \<or> pf_parent s = Missing then sret ()
     else sbind (scheck (pf_parent s = Directory) ProjectionError ''projection cache parent is unsafe'') (\<lambda>_.
     case pf_cache s of
       Missing \<Rightarrow> sret ()
     | Regular n c \<Rightarrow> scheck (n = 1) ProjectionError ''projection cache has an unsafe hard-link count''
     | _ \<Rightarrow> sthrow ProjectionError ''projection cache target is unsafe''))"

text \<open>\<^verbatim>\<open>atomic_write_json\<close>: keys are sorted in the file.\<close>

definition write_cache :: "(string \<Rightarrow> string) \<Rightarrow> obj \<Rightarrow> proj_fs \<Rightarrow> proj_fs" where
  "write_cache rt v s = s\<lparr>pf_parent := Directory, pf_cache := Regular 1 (Some (canon (redact_value rt (JObj v))))\<rparr>"

definition rebuild ::
  "(string \<Rightarrow> string) \<Rightarrow> (string \<Rightarrow> string) \<Rightarrow> engine \<Rightarrow> bool \<Rightarrow> obj option \<Rightarrow> (proj_fs, obj) eff" where
  "rebuild fr rt E persist observations =
     sbind (on_ledger (ledger_read fr rt (en_ledger E))) (\<lambda>events.
     sbind (on_ledger (ledger_verify fr rt (en_ledger E))) (\<lambda>i.
     sbind (slift (projection_dict (en_ledger E) events i observations)) (\<lambda>v.
     if persist \<and> en_cached E
     then sbind (validate_cache_path E) (\<lambda>_. sbind (smodify (write_cache rt v)) (\<lambda>_. sret v))
     else sret v)))"

definition check_cache :: "obj \<Rightarrow> integrity \<Rightarrow> unit res" where
  "check_cache v i =
     (case int_of (oget v ''ledger_sequence'') of
        None \<Rightarrow> raise ProjectionError ''projection cache ledger sequence is invalid''
      | Some n \<Rightarrow>
          rbind (check (n \<le> li_sequence i) ProjectionError ''projection cache claims a later sequence than the ledger'') (\<lambda>_.
          rbind (check (n \<ge> li_sequence i) StaleProjectionCache ''projection cache is older than the ledger'') (\<lambda>_.
          check (oget v ''ledger_fingerprint'' = JStr (li_fingerprint i)) ProjectionError
            ''projection cache does not match the ledger fingerprint'')))"

definition load_cache :: "(string \<Rightarrow> string) \<Rightarrow> (string \<Rightarrow> string) \<Rightarrow> engine \<Rightarrow> (proj_fs, obj option) eff" where
  "load_cache fr rt E =
     (if \<not> en_cached E then sret None
      else sbind (validate_cache_path E) (\<lambda>_.
      sbind sget (\<lambda>s.
      case pf_cache s of
        Regular n content \<Rightarrow>
          sbind (scheck (content \<noteq> None) ProjectionError ''projection cache is unreadable'') (\<lambda>_.
          case content of
            Some (JObj v) \<Rightarrow>
              sbind (scheck (py_eq (oget v ''schema_version'') (JInt 1)) ProjectionError
                       ''projection cache has an invalid schema'') (\<lambda>_.
              sbind (scheck (oget v ''projection_fingerprint'' = JStr (projection_fingerprint v)) ProjectionError
                       ''projection cache fingerprint is invalid'') (\<lambda>_.
              sbind (on_ledger (ledger_verify fr rt (en_ledger E))) (\<lambda>i.
              sbind (slift (check_cache v i)) (\<lambda>_. sret (Some v)))))
          | _ \<Rightarrow> sthrow ProjectionError ''projection cache has an invalid schema'')
      | _ \<Rightarrow> sret None)))"

text \<open>\<^verbatim>\<open>try: m except StaleProjectionCache: None\<close>\<close>

definition unless_stale :: "(proj_fs, obj option) eff \<Rightarrow> (proj_fs, obj option) eff" where
  "unless_stale m = (\<lambda>s. case m s of
     (Inl e, t) \<Rightarrow> (if issubclass (exn_cls e) StaleProjectionCache then Inr None else Inl e, t)
   | (Inr x, t) \<Rightarrow> (Inr x, t))"

definition current_projection :: "(string \<Rightarrow> string) \<Rightarrow> (string \<Rightarrow> string) \<Rightarrow> engine \<Rightarrow> (proj_fs, obj) eff" where
  "current_projection fr rt E =
     sbind (unless_stale (load_cache fr rt E)) (\<lambda>cache.
     sbind (on_ledger (ledger_verify fr rt (en_ledger E))) (\<lambda>i.
     case cache of
       Some v \<Rightarrow>
         if py_eq (oget v ''ledger_sequence'') (JInt (li_sequence i))
             \<and> oget v ''ledger_fingerprint'' = JStr (li_fingerprint i)
         then sret v else rebuild fr rt E True None
     | None \<Rightarrow> rebuild fr rt E True None))"

definition cache_agrees :: "obj \<Rightarrow> obj \<Rightarrow> bool" where
  "cache_agrees cache projection \<longleftrightarrow>
     list_all (\<lambda>k. py_eq (oget cache k) (oget projection k))
       [''ledger_sequence'', ''ledger_fingerprint'', ''projection_fingerprint'']"

end
