(* ===== verification/Projection_Safety.thy ===== *)
theory Projection_Safety
  imports Projection
begin

section \<open>What the projection says of the ledger\<close>

text \<open>
  The projection refines the ledger: a transaction is active in it exactly when the ledger holds no
  terminal event of it, so the single-writer check is a statement on the ledger. Work on an integrated
  feature is never offered again, and the cache never answers for another ledger than the current one.
\<close>

lemma oget_or_simps [simp]:
  "oget_or [] k v = v" "oget_or ((k', w) # d) k v = (if k' = k then w else oget_or d k v)"
  by (simp_all add: oget_or_def)

lemma oget_oupdate_Cons: "oget (oupdate t (kv # kvs)) k = oget (oupdate (oset (fst kv) (snd kv) t) kvs) k"
  by (simp add: oupdate_def)

subsection \<open>The state of a transaction\<close>

text \<open>The state a turn of the loop leaves for the transaction of its event, from the state before.\<close>

definition phase_states :: "(string \<times> string) list" where
  "phase_states =
    [(''TransactionStarted'', ''lease_pending''), (''LeaseAcquired'', ''active''), (''SnapshotCaptured'', ''active''),
     (''SessionLaunched'', ''result_pending''), (''DeterministicExecutionStarted'', ''result_pending''),
     (''SessionResultAccepted'', ''validating''), (''DeterministicResultAccepted'', ''validating''),
     (''ValidationStarted'', ''validating''), (''ValidationPassed'', ''finalizing''), (''CommitFinalized'', ''finalizing''),
     (''HumanGateRaised'', ''human_decision_required''), (''TransactionSuperseded'', ''superseded''),
     (''TransactionCompleted'', ''completed'')]"

definition state_after :: "obj \<Rightarrow> json \<Rightarrow> json" where
  "state_after e v =
     (case map_of phase_states (etype e) of
        Some s \<Rightarrow> JStr s
      | None \<Rightarrow> if etype e = ''TransactionBlocked'' then oget_or (payload e) ''terminal_state'' (JStr ''blocked'') else v)"

lemma on_completed_Inr:
  "on_completed e t s = Inr (t', s') \<Longrightarrow>
     oget t' ''state'' = JStr ''completed'' \<and> ps_transactions s' = ps_transactions s"
  by (auto simp: on_completed_def Let_def oget_oupdate_Cons split: if_splits)

lemma on_started_Inr:
  "on_started e t s = Inr (t', s') \<Longrightarrow>
     oget t' ''state'' = JStr ''lease_pending'' \<and> ps_transactions s' = ps_transactions s"
  by (auto simp: on_started_def Let_def oget_oupdate_Cons split: if_splits)

lemma apply_event_state:
  assumes "apply_event e t s = Inr (t', s')"
  shows "oget t' ''state'' = state_after e (oget t ''state'') \<and> ps_transactions s' = ps_transactions s"
  using assms
  by (auto simp: apply_event_def Let_def state_after_def phase_states_def on_session_def on_gate_raised_def
      on_blocked_def on_superseded_def on_projection_def oget_oupdate_Cons
      dest: on_completed_Inr on_started_Inr split: if_splits)

text \<open>The transactions of a ledger in the order of their first events, and those without a terminal one.\<close>

definition tx_order :: "obj list \<Rightarrow> string list" where
  "tx_order es = rev (remdups (rev (map etx es)))"

definition unfinished :: "obj list \<Rightarrow> string list" where
  "unfinished es = filter (\<lambda>tx. \<not> terminal_in (history es tx)) (tx_order es)"

definition projected_terminal :: "json \<Rightarrow> bool" where
  "projected_terminal v \<longleftrightarrow> v \<in> JStr ` set TERMINAL_PROJECTION_STATES"

text \<open>Every block that names a terminal state names one of the six.\<close>

definition blocks_terminally :: "obj list \<Rightarrow> bool" where
  "blocks_terminally es \<longleftrightarrow>
     list_all (\<lambda>e. etype e \<noteq> ''TransactionBlocked''
       \<or> projected_terminal (oget_or (payload e) ''terminal_state'' (JStr ''blocked''))) es"

lemma tx_order_snoc: "tx_order (es @ [e]) = (if etx e \<in> set (tx_order es) then tx_order es else tx_order es @ [etx e])"
  by (simp add: tx_order_def)

lemma set_tx_order: "set (tx_order es) = etx ` set es"
  by (simp add: tx_order_def)

lemma keys_aset_list: "map fst (aset k v kvs) = (if k \<in> set (map fst kvs) then map fst kvs else map fst kvs @ [k])"
  by (induction kvs) auto

lemma phase_terminal:
  assumes "map_of phase_states k = Some v"
  shows "projected_terminal (JStr v) \<longleftrightarrow> k \<in> set TERMINAL_EVENT_TYPES"
  using assms
  by (auto simp: phase_states_def projected_terminal_def TERMINAL_PROJECTION_STATES_def TERMINAL_EVENT_TYPES_def
      split: if_splits)

lemma no_phase_terminal:
  "map_of phase_states k = None \<Longrightarrow> k \<in> set TERMINAL_EVENT_TYPES \<longleftrightarrow> k = ''TransactionBlocked''"
  by (auto simp: phase_states_def TERMINAL_EVENT_TYPES_def)

lemma post_terminal_no_phase:
  assumes "k \<in> set POST_TERMINAL_TYPES \<or> k = ''HumanGateResolved''"
  shows "map_of phase_states k = None \<and> k \<noteq> ''TransactionBlocked'' \<and> k \<notin> set TERMINAL_EVENT_TYPES"
proof -
  have "list_all (\<lambda>k. map_of phase_states k = None \<and> k \<noteq> ''TransactionBlocked'' \<and> k \<notin> set TERMINAL_EVENT_TYPES)
      (''HumanGateResolved'' # POST_TERMINAL_TYPES)"
    by code_simp
  with assms show ?thesis by (auto simp: list_all_iff)
qed

lemma state_after_terminal:
  assumes ok: "event_ok L es e" and blocks: "blocks_terminally [e]"
    and before: "projected_terminal v \<longleftrightarrow> terminal_in (history es (etx e))"
  shows "projected_terminal (state_after e v) \<longleftrightarrow> terminal_in (history (es @ [e]) (etx e))"
proof (cases "terminal_in (history es (etx e))")
  case True
  with ok have "etype e \<in> set POST_TERMINAL_TYPES \<or> etype e = ''HumanGateResolved''"
    unfolding event_ok_def by blast
  note no = post_terminal_no_phase [OF this]
  with True before show ?thesis by (simp add: state_after_def history_snoc)
next
  case False
  show ?thesis
  proof (cases "map_of phase_states (etype e)")
    case None
    show ?thesis
      using False None no_phase_terminal [OF None] before blocks
      by (simp add: state_after_def history_snoc blocks_terminally_def)
  next
    case (Some w)
    with False phase_terminal [OF Some] show ?thesis by (simp add: state_after_def history_snoc)
  qed
qed

definition tracks :: "obj list \<Rightarrow> pstate \<Rightarrow> bool" where
  "tracks es s \<longleftrightarrow> map fst (ps_transactions s) = tx_order es
     \<and> (\<forall>tx t. map_of (ps_transactions s) tx = Some t \<longrightarrow>
          (projected_terminal (oget t ''state'') \<longleftrightarrow> terminal_in (history es tx)) \<and> is_str (oget t ''state''))"

lemma history_absent: "tx \<notin> etx ` set es \<Longrightarrow> history es tx = []"
  by (induction es) (auto simp: history_def of_tx_def)

lemma state_after_str: "is_str v \<Longrightarrow> blocks_terminally [e] \<Longrightarrow> is_str (state_after e v)"
  by (auto simp: state_after_def blocks_terminally_def projected_terminal_def split: option.split)

lemma tracks_step:
  assumes tr: "tracks es s" and ok: "event_ok L es e" and blocks: "blocks_terminally [e]"
    and step: "project_event e s = Inr s'"
  shows "tracks (es @ [e]) s'"
proof -
  define t where "t = (case map_of (ps_transactions s) (etx e) of Some t \<Rightarrow> t | None \<Rightarrow> new_transaction e)"
  have t: "(projected_terminal (oget t ''state'') \<longleftrightarrow> terminal_in (history es (etx e))) \<and> is_str (oget t ''state'')"
  proof (cases "map_of (ps_transactions s) (etx e)")
    case None
    then have "etx e \<notin> etx ` set es"
      using tr by (simp add: tracks_def map_of_eq_None_iff flip: set_tx_order set_map)
    then show ?thesis
      using None by (simp add: t_def new_transaction_def projected_terminal_def TERMINAL_PROJECTION_STATES_def
          history_absent terminal_in_def image_iff)
  next
    case (Some u)
    with tr show ?thesis by (simp add: tracks_def t_def)
  qed
  from step obtain t' s1 where ap: "apply_event e (oset ''last_sequence'' (oget e ''sequence'') t) s = Inr (t', s1)"
    and s': "s' = s1\<lparr>ps_transactions := aset (etx e) t' (ps_transactions s1)\<rparr>"
    by (auto simp: project_event_def Let_def t_def)
  note ap = apply_event_state [OF ap]
  have new: "(projected_terminal (oget t' ''state'') \<longleftrightarrow> terminal_in (history (es @ [e]) (etx e)))
      \<and> is_str (oget t' ''state'')"
    using ap t state_after_terminal [OF ok blocks] state_after_str [OF _ blocks] by simp
  show ?thesis
    unfolding tracks_def
  proof (intro conjI allI impI)
    show "map fst (ps_transactions s') = tx_order (es @ [e])"
      using tr ap by (simp add: s' keys_aset_list tx_order_snoc tracks_def)
  next
    fix tx u assume u: "map_of (ps_transactions s') tx = Some u"
    show "projected_terminal (oget u ''state'') \<longleftrightarrow> terminal_in (history (es @ [e]) tx)"
      using u new tr ap by (cases "tx = etx e") (auto simp: s' tracks_def history_snoc)
    show "is_str (oget u ''state'')"
      using u new tr ap by (cases "tx = etx e") (auto simp: s' tracks_def)
  qed
qed

lemma project_events_snoc: "project_events (es @ [e]) = rbind (project_events es) (project_event e)"
  by (cases "project_events es") (simp_all add: project_events_def rfold_append rbind_def split: sum.split)

lemma project_tracks:
  assumes "ledger_ok L es" "blocks_terminally es" "project_events es = Inr s"
  shows "tracks es s"
  using assms
proof (induction es arbitrary: s rule: rev_induct)
  case Nil
  then show ?case by (auto simp: project_events_def tracks_def pinit_def tx_order_def)
next
  case (snoc e es)
  then obtain s0 where "project_events es = Inr s0" "project_event e s0 = Inr s"
    by (auto simp: project_events_snoc)
  with snoc show ?case
    by (auto simp: blocks_terminally_def intro!: tracks_step [of es s0 L e s])
qed

lemma active_ids_tracks:
  assumes "tracks es s"
  shows "active_ids s = Inr (unfinished es)"
proof -
  have d: "distinct (map fst (ps_transactions s))"
    using assms by (simp add: tracks_def tx_order_def)
  have mem: "in_set v (map JStr TERMINAL_PROJECTION_STATES) = Inr (projected_terminal v)" if "is_str v" for v
    using that by (auto simp: in_set_def hashable_def projected_terminal_def is_str_iff list_ex_iff)
  have "rmap (\<lambda>(tx, t). rbind (in_set (oget t ''state'') (map JStr TERMINAL_PROJECTION_STATES)) (\<lambda>b. Inr (tx, b))) xs
      = Inr (map (\<lambda>(tx, t). (tx, projected_terminal (oget t ''state''))) xs)"
    if "set xs \<subseteq> set (ps_transactions s)" for xs
    using that
  proof (induction xs)
    case (Cons x xs)
    obtain tx t where x: "x = (tx, t)" by fastforce
    with Cons.prems d have "map_of (ps_transactions s) tx = Some t" by simp
    then have "is_str (oget t ''state'')" using assms by (simp add: tracks_def)
    with Cons x show ?case by (simp add: mem)
  qed simp
  from this [OF subset_refl] have "active_ids s =
      Inr (map fst (filter (\<lambda>x. \<not> snd x) (map (\<lambda>(tx, t). (tx, projected_terminal (oget t ''state''))) (ps_transactions s))))"
    by (simp add: active_ids_def)
  also have "map fst (filter (\<lambda>x. \<not> snd x) (map (\<lambda>(tx, t). (tx, projected_terminal (oget t ''state''))) xs))
      = filter (\<lambda>tx. \<not> terminal_in (history es tx)) (map fst xs)" if "set xs \<subseteq> set (ps_transactions s)" for xs
    using that
  proof (induction xs)
    case (Cons x xs)
    obtain tx t where x: "x = (tx, t)" by fastforce
    with Cons.prems d have "map_of (ps_transactions s) tx = Some t" by simp
    then have "projected_terminal (oget t ''state'') \<longleftrightarrow> terminal_in (history es tx)"
      using assms by (simp add: tracks_def)
    with Cons x show ?case by simp
  qed simp
  finally show ?thesis using assms by (simp add: unfinished_def tracks_def)
qed

text \<open>
  Claim C14. In a valid ledger whose \<^verbatim>\<open>TransactionBlocked\<close> events all name a state that the
  projection counts as terminal (\<open>blocks_terminally\<close>, which the validation of the ledger does not check), the
  projection names as active transaction the only one whose history has no terminal event, names none
  when every history has one, and refuses a ledger in which two transactions are unfinished.
\<close>

theorem projection_active_transaction:
  assumes "validate L es = Inr i" "blocks_terminally es" "project_events es = Inr s"
  shows "active_transaction s =
    (case unfinished es of
       [] \<Rightarrow> Inr None
     | [tx] \<Rightarrow> Inr (Some tx)
     | _ \<Rightarrow> raise ProjectionError ''multiple incomplete transactions violate single-writer projection invariants'')"
proof -
  have "tracks es s" using assms project_tracks by (auto simp: validate_Inr)
  from active_ids_tracks [OF this] show ?thesis
    by (simp add: active_transaction_def split: list.split)
qed

theorem projection_active_transaction_witness:
  "\<exists>s. project_events [ev1, ev2] = Inr s \<and> active_transaction s = Inr (Some ''tx'')"
proof -
  have wf: "estr ev1 ''workflow_type'' = ''feature_execution''" by (simp add: sample_workflow)
  obtain s where s: "project_events [ev1, ev2] = Inr s"
    by (simp add: project_events_def project_event_def apply_event_def on_started_def sample_simps Let_def pinit_def)
  have "unfinished [ev1, ev2] = [''tx'']"
    by (simp add: unfinished_def tx_order_def history_def of_tx_def sample_simps terminal_in_def TERMINAL_EVENT_TYPES_def)
  with projection_active_transaction [OF sample_prefix_valid(2) _ s] s show ?thesis
    by (simp add: blocks_terminally_def sample_simps)
qed

subsection \<open>Integrated features\<close>

lemma retire_feature_Inr:
  assumes "retire_feature s = Inr s'"
  shows "ps_feature s' = JNull \<or> in_set (ps_feature s') (ps_integrated s') = Inr False"
proof -
  obtain d where d: "in_set (ps_feature s) (ps_integrated s) = Inr d"
    and rest: "(if \<not> d \<or> ps_feature s = JNull then Inr s
     else
       rbind (in_set (ps_selected s) (ps_integrated s)) (\<lambda>stale.
       let sel = (if stale then JNull else ps_selected s) in
       rbind (in_set sel (ps_integrated s)) (\<lambda>again.
       let f = (if again then JNull else sel) in
       rbind (if f = JNull
              then in_set (ps_state s) (map JStr [''feature_ready'', ''feature_accepted'', ''integration_pending'',
                     ''integration_ready'', ''feature_integrated''])
              else Inr False) (\<lambda>idle.
       let st = (if idle then JStr ''queue_reconciliation'' else ps_state s) in
       Inr (s\<lparr>ps_selected := sel, ps_feature := f, ps_accepted := JNull, ps_integration := JNull,
              ps_state := st, ps_gate := (if st = JStr ''human_decision_required'' then ps_gate s else JNull)\<rparr>))))) = Inr s'"
    using assms unfolding retire_feature_def rbind_eq_Inr [of "in_set (ps_feature s) (ps_integrated s)"] by blast
  show ?thesis
  proof (cases "\<not> d \<or> ps_feature s = JNull")
    case True
    then show ?thesis using rest d by auto
  next
    case False
    then obtain stale again st where "in_set (if stale then JNull else ps_selected s) (ps_integrated s) = Inr again"
      and "s' = s\<lparr>ps_selected := (if stale then JNull else ps_selected s),
        ps_feature := (if again then JNull else if stale then JNull else ps_selected s), ps_accepted := JNull,
        ps_integration := JNull, ps_state := st,
        ps_gate := (if st = JStr ''human_decision_required'' then ps_gate s else JNull)\<rparr>"
      using rest unfolding Let_def rbind_eq_Inr if_not_P [OF False] by blast
    then show ?thesis by (cases again) simp_all
  qed
qed

text \<open>
  After the loop, with no transaction active, the feature the projection names as current is
  none that has been integrated, so that the work on it is not started again.
\<close>

theorem integrated_feature_retired:
  "case settle s of
     Inl e \<Rightarrow> True
   | Inr x \<Rightarrow>
       if se_active x = None
       then ps_feature (se_state x) = JNull
         \<or> in_set (ps_feature (se_state x)) (ps_integrated (se_state x)) = Inr False
       else active_transaction s = Inr (se_active x)"
proof (cases "settle s")
  case (Inr x)
  then obtain active s1 integrated where a: "active_transaction s = Inr active"
    and s1: "(if active = None then retire_feature s else Inr s) = Inr s1"
    and x: "se_active x = active" "se_state x = (if integrated then s1 else s1\<lparr>ps_state := JStr ''integration_ready''\<rparr>)"
    unfolding settle_def rbind_eq_Inr Let_def by fastforce
  show ?thesis
    using Inr a s1 x retire_feature_Inr [of s s1] by (cases integrated) (auto split: if_splits)
qed simp

subsection \<open>The cache\<close>

lemma projection_dict_Inr:
  assumes "projection_dict L es i obs = Inr v"
  shows "distinct (map fst v)" "oget v ''projection_fingerprint'' = JStr (projection_fingerprint v)"
proof -
  have keys: "distinct (map fst (projection_fields L i x c action lease))" for x c action lease
    by (simp add: projection_fields_def Let_def)
  have "\<exists>d. distinct (map fst d) \<and> v = oset ''projection_fingerprint'' (JStr (projection_fingerprint d)) d"
    using assms distinct_oupdate [OF keys] distinct_aset
    by (fastforce simp: projection_dict_def Let_def)
  then obtain d where d: "distinct (map fst d)"
    and v: "v = oset ''projection_fingerprint'' (JStr (projection_fingerprint d)) d" by blast
  show "distinct (map fst v)" using d v distinct_aset by auto
  have "adel k (aset k w d) = adel k d" for k w
    by (induction d) (auto simp: adel_def)
  then show "oget v ''projection_fingerprint'' = JStr (projection_fingerprint v)"
    by (simp add: v projection_fingerprint_def)
qed

lemma projection_fingerprint_canon:
  "distinct (map fst v) \<Longrightarrow> projection_fingerprint (canon_obj v) = projection_fingerprint v"
  unfolding projection_fingerprint_def fingerprint_def
  by (metis adel_canon_obj canon_JObj_obj dumps_canon)

text \<open>
  What the file keeps of a projection is the projection: the redaction changes nothing in it, and the
  imported facts have not overwritten the fields that bind it to its ledger.
\<close>

definition projectable :: "(string \<Rightarrow> string) \<Rightarrow> ledger \<Rightarrow> obj list \<Rightarrow> obj \<Rightarrow> bool" where
  "projectable rt L es v \<longleftrightarrow> projection_dict L es (integrity_of es) None = Inr v
     \<and> redact_value rt (JObj v) = JObj v \<and> oget v ''schema_version'' = JInt 1
     \<and> oget v ''ledger_sequence'' = JInt (int (length es)) \<and> oget v ''ledger_fingerprint'' = JStr (last_fp es)"

text \<open>The files of an engine: the ledger holds \<open>es\<close>, the cache nothing or the projection of a prefix.\<close>

definition cached_prefix :: "(string \<Rightarrow> string) \<Rightarrow> ledger \<Rightarrow> obj list \<Rightarrow> entry \<Rightarrow> bool" where
  "cached_prefix rt L es c \<longleftrightarrow>
     c = Missing \<or> (\<exists>n v. n \<le> length es \<and> projectable rt L (take n es) v \<and> c = Regular 1 (Some (canon (JObj v))))"

definition engine_ok :: "(string \<Rightarrow> string) \<Rightarrow> (string \<Rightarrow> string) \<Rightarrow> engine \<Rightarrow> obj list \<Rightarrow> proj_fs \<Rightarrow> bool" where
  "engine_ok fr rt E es s \<longleftrightarrow> en_cached E \<and> holds fr (en_ledger E) (pf_ledger s) es
     \<and> pf_parent s = Directory \<and> cached_prefix rt (en_ledger E) es (pf_cache s)"

lemma on_ledger_reads:
  assumes "holds fr L (pf_ledger s) es"
  shows "on_ledger (ledger_read fr rt L) s = (Inr es, s)"
    and "on_ledger (ledger_verify fr rt L) s = (Inr (integrity_of es), s)"
  using read_holds [OF assms, of rt]
  by (simp_all add: on_ledger_def ledger_read_def ledger_verify_def sbind_def sret_def)

lemma validate_cache_path_ok: "engine_ok fr rt E es s \<Longrightarrow> validate_cache_path E s = (Inr (), s)"
  by (auto simp: validate_cache_path_def engine_ok_def cached_prefix_def sbind_def eff_simps)

lemma rebuild_ok:
  assumes ok: "engine_ok fr rt E es s" and v: "projectable rt (en_ledger E) es v"
  shows "rebuild fr rt E True None s = (Inr v, write_cache rt v s)"
    and "engine_ok fr rt E es (write_cache rt v s)"
proof -
  have "holds fr (en_ledger E) (pf_ledger s) es" "en_cached E" using ok by (simp_all add: engine_ok_def)
  then show "rebuild fr rt E True None s = (Inr v, write_cache rt v s)"
    using v validate_cache_path_ok [OF ok]
    by (simp add: rebuild_def sbind_def on_ledger_reads eff_simps projectable_def)
  have "projectable rt (en_ledger E) (take (length es) es) v" using v by simp
  then have "cached_prefix rt (en_ledger E) es (Regular 1 (Some (canon (JObj v))))"
    unfolding cached_prefix_def by blast
  then show "engine_ok fr rt E es (write_cache rt v s)"
    using ok v by (simp add: engine_ok_def write_cache_def projectable_def del: redact_value.simps)
qed

lemma load_cache_ok:
  assumes ok: "engine_ok fr rt E es s"
  shows "unless_stale (load_cache fr rt E) s = (Inr None, s)
    \<or> (\<exists>v. unless_stale (load_cache fr rt E) s = (Inr (Some (canon_obj v)), s) \<and> projectable rt (en_ledger E) es v)"
proof (cases "pf_cache s = Missing")
  case True
  then show ?thesis
    using ok validate_cache_path_ok [OF ok]
    by (simp add: load_cache_def unless_stale_def sbind_def eff_simps engine_ok_def)
next
  case False
  then obtain n v where n: "n \<le> length es" "projectable rt (en_ledger E) (take n es) v"
    and c: "pf_cache s = Regular 1 (Some (JObj (canon_obj v)))"
    using ok by (auto simp: engine_ok_def cached_prefix_def canon_JObj_obj)
  have d: "distinct (map fst v)" and fp: "oget v ''projection_fingerprint'' = JStr (projection_fingerprint v)"
    using n(2) projection_dict_Inr by (auto simp: projectable_def)
  have f: "oget (canon_obj v) ''schema_version'' = JInt 1"
    "oget (canon_obj v) ''ledger_sequence'' = JInt (int n)"
    "oget (canon_obj v) ''ledger_fingerprint'' = JStr (last_fp (take n es))"
    "oget (canon_obj v) ''projection_fingerprint'' = JStr (projection_fingerprint (canon_obj v))"
    using n d fp by (simp_all add: oget_canon_obj projectable_def projection_fingerprint_canon)
  have h: "holds fr (en_ledger E) (pf_ledger s) es" "en_cached E" using ok by (simp_all add: engine_ok_def)
  have run: "load_cache fr rt E s = (case check_cache (canon_obj v) (integrity_of es) of
      Inl e \<Rightarrow> (Inl e, s) | Inr _ \<Rightarrow> (Inr (Some (canon_obj v)), s))"
    using h f validate_cache_path_ok [OF ok]
    by (simp add: load_cache_def sbind_def eff_simps c on_ledger_reads split: sum.split)
  show ?thesis
  proof (cases "n = length es")
    case True
    then have "check_cache (canon_obj v) (integrity_of es) = Inr ()"
      using f by (simp add: check_cache_def integrity_of_def)
    with run n True show ?thesis by (auto simp: unless_stale_def)
  next
    case False
    with n have "check_cache (canon_obj v) (integrity_of es) =
        raise StaleProjectionCache ''projection cache is older than the ledger''"
      using f by (simp add: check_cache_def integrity_of_def)
    with run show ?thesis by (simp add: unless_stale_def raise_def)
  qed
qed

text \<open>
  Claim C15. The cache never answers for another ledger: from a cache that is absent or was written for
  any earlier state of the ledger, the current projection is the one a rebuild of the present
  ledger computes, up to the order of keys, and the files stay such that this holds of the next call.
\<close>

theorem current_is_rebuild:
  assumes "engine_ok fr rt E es s" "projectable rt (en_ledger E) es v"
  shows "\<exists>w t. current_projection fr rt E s = (Inr w, t) \<and> canon (JObj w) = canon (JObj v)
    \<and> rebuild fr rt E True None s = (Inr v, write_cache rt v s) \<and> engine_ok fr rt E es t"
proof -
  have h: "holds fr (en_ledger E) (pf_ledger s) es" using assms(1) by (simp add: engine_ok_def)
  from load_cache_ok [OF assms(1)] show ?thesis
  proof
    assume "unless_stale (load_cache fr rt E) s = (Inr None, s)"
    then have "current_projection fr rt E s = (Inr v, write_cache rt v s)"
      using rebuild_ok [OF assms] h by (simp add: current_projection_def sbind_def on_ledger_reads)
    with rebuild_ok [OF assms] show ?thesis by blast
  next
    assume "\<exists>u. unless_stale (load_cache fr rt E) s = (Inr (Some (canon_obj u)), s) \<and> projectable rt (en_ledger E) es u"
    then obtain u where u: "unless_stale (load_cache fr rt E) s = (Inr (Some (canon_obj u)), s)"
      "projectable rt (en_ledger E) es u" by blast
    then have "u = v" using assms(2) by (simp add: projectable_def)
    then have "distinct (map fst u)" using u(2) projection_dict_Inr by (auto simp: projectable_def)
    then have "current_projection fr rt E s = (Inr (canon_obj u), s)"
      using u h
      by (simp add: current_projection_def sbind_def on_ledger_reads oget_canon_obj projectable_def integrity_of_def sret_def)
    with \<open>u = v\<close> rebuild_ok [OF assms] assms(1) show ?thesis by (metis canon_JObj_obj canon_idem)
  qed
qed

text \<open>A fresh engine: no file, the empty ledger.\<close>

definition sample_projection :: obj where
  "sample_projection = (case projection_dict sample_L [] (integrity_of []) None of Inr v \<Rightarrow> v | Inl _ \<Rightarrow> [])"

lemma redact_plain:
  "list_all (\<lambda>kv. \<not> sensitive_key (fst kv) \<and> redact_value rt (snd kv) = snd kv) d \<Longrightarrow>
     redact_value rt (JObj d) = JObj d"
  by (auto simp: list_all_iff intro!: map_idI)

lemma sample_projectable: "projectable id sample_L [] sample_projection"
proof -
  let ?d = "[(''schema_version'', JInt 1), (''projection_semantics_version'', JInt PROJECTION_SEMANTICS_VERSION),
       (''project_id'', JStr (lg_project_id sample_L)), (''repository_identity'', JStr (lg_repository_identity sample_L)),
       (''repository_path_fingerprint'', JStr (lg_repository_path_fingerprint sample_L)),
       (''ledger_sequence'', JInt 0), (''ledger_fingerprint'', JStr (last_fp [])),
       (''current_state'', JStr ''discover''), (''active_transaction'', JNull),
       (''current_feature'', JNull), (''selected_next_feature'', JNull),
       (''selected_feature_starting_commit'', JNull), (''accepted_feature_commit'', JNull),
       (''integration_status'', JNull), (''planning_status'', JNull),
       (''human_gate'', JNull), (''allowed_next_action'', JStr ''verify_consistency''),
       (''session_resume_eligible'', JBool False), (''required_lease'', JNull),
       (''historical_integration_outcomes'', JArr []),
       (''current_repository_consistency'', JStr ''not_observed''), (''current_observations'', JNull),
       (''transactions'', JArr []), (''warnings'', JArr [])]"
  let ?v = "?d @ [(''projection_fingerprint'', JStr (projection_fingerprint ?d))]"
  have "projection_dict sample_L [] (integrity_of []) None = Inr ?v"
    by (simp add: projection_dict_def project_events_def settle_def active_transaction_def active_ids_def
        retire_feature_def in_set_def hashable_def pinit_def observe_def next_action_def NEXT_ACTION_def
        required_lease_def projection_fields_def strs_def integrity_of_def Let_def)
  moreover have "redact_value id (JObj ?v) = JObj ?v"
  proof (rule redact_plain)
    have "list_all (\<lambda>k. \<not> sensitive_key k) (map fst ?v)" by (simp, code_simp)
    then show "list_all (\<lambda>kv. \<not> sensitive_key (fst kv) \<and> redact_value id (snd kv) = snd kv) ?v"
      by (simp add: list_all_iff)
  qed
  ultimately show ?thesis by (simp add: projectable_def sample_projection_def del: redact_value.simps)
qed

theorem current_is_rebuild_witness:
  "\<exists>w t. current_projection id id \<lparr>en_ledger = sample_L, en_cached = True\<rparr>
       \<lparr>pf_ledger = no_files, pf_parent = Directory, pf_cache = Missing\<rparr> = (Inr w, t)
     \<and> canon (JObj w) = canon (JObj sample_projection)"
proof -
  let ?E = "\<lparr>en_ledger = sample_L, en_cached = True\<rparr>"
  let ?s = "\<lparr>pf_ledger = no_files, pf_parent = Directory, pf_cache = Missing\<rparr>"
  have "engine_ok id id ?E [] ?s" by (simp add: engine_ok_def holds_no_files cached_prefix_def)
  moreover have "projectable id (en_ledger ?E) [] sample_projection" by (simp add: sample_projectable)
  ultimately show ?thesis using current_is_rebuild by blast
qed

end
