(* ===== verification/Repository.thy ===== *)
theory Repository
  imports Feature_Queue Command_Safety Phase_Transaction
begin

section \<open>The repository seen through Git\<close>

text \<open>
  \<^verbatim>\<open>RepositoryInspector\<close> of \<^verbatim>\<open>repository.py\<close> (without the two methods that
  write \<^verbatim>\<open>info/exclude\<close>) and \<^verbatim>\<open>capture_repository_snapshot\<close> of
  \<^verbatim>\<open>snapshots.py\<close>. Git and the file system are the record \<open>host\<close>: \<open>ho_run cwd argv\<close>
  is \<^verbatim>\<open>subprocess.run(argv, cwd=cwd)\<close>, which may change the machine, so that whatever other
  processes do to the repository can happen within any call of Git; \<open>ho_lstat\<close> and \<open>ho_stat\<close>
  are what is at a path, without and with following links, together with the bytes of a regular
  file (\<open>None\<close> when they cannot be read); \<open>ho_resolve\<close> is \<^verbatim>\<open>Path.resolve\<close>.
  The state of a call is the machine and the two context variables: the sink of attempted commands
  and the observer of content reads.
\<close>

datatype node = No_node | Dir_node | Link_node | File_node nat "nat list option" | Other_node

record completed =
  cp_status :: int
  cp_out :: string
  cp_err :: string

record 'r host =
  ho_home :: string
  ho_expand :: "string \<Rightarrow> string"
  ho_resolve :: "'r \<Rightarrow> string \<Rightarrow> string"
  ho_lstat :: "'r \<Rightarrow> string \<Rightarrow> node"
  ho_stat :: "'r \<Rightarrow> string \<Rightarrow> node"
  ho_run :: "string \<Rightarrow> string list \<Rightarrow> 'r \<Rightarrow> completed \<times> 'r"

record 'r repo =
  rp_machine :: 'r
  rp_attempts :: "obj list option"
  rp_reads :: "string list option"

subsection \<open>Paths and text\<close>

text \<open>\<^verbatim>\<open>a / b\<close> and \<^verbatim>\<open>p.parent\<close>\<close>

definition path_div :: "string \<Rightarrow> string \<Rightarrow> string" where
  "path_div a b = (if is_absolute b then b else a @ ''/'' @ b)"

definition path_parent :: "string \<Rightarrow> string" where
  "path_parent p =
     (let ps = butlast (posix_parts p) in
      if is_absolute p then ''/'' @ join ''/'' ps else if ps = [] then ''.'' else join ''/'' ps)"

definition full_lines :: "string \<Rightarrow> string list" where
  "full_lines s = filter (\<lambda>l. l \<noteq> []) (str_splitlines s)"

definition nul_items :: "string \<Rightarrow> string list" where
  "nul_items s = filter (\<lambda>l. l \<noteq> []) (split_on (CHR 0x00) s)"

text \<open>\<^verbatim>\<open>json.dumps(v, sort_keys=True)\<close> of the identity material: ASCII, with spaces\<close>

definition identity_text :: "string \<Rightarrow> string list \<Rightarrow> string" where
  "identity_text dir roots =
     ''{'' @ ascii_str ''common_git_dir'' @ '': '' @ ascii_str dir @ '', '' @ ascii_str ''root_commits''
       @ '': ['' @ join '', '' (map ascii_str roots) @ '']}''"

subsection \<open>Running Git\<close>

definition machine :: "('r repo, 'r) eff" where
  "machine = (\<lambda>s. (Inr (rp_machine s), s))"

definition run_process :: "'r host \<Rightarrow> string \<Rightarrow> string list \<Rightarrow> ('r repo, completed) eff" where
  "run_process H cwd argv =
     (\<lambda>s. case ho_run H cwd argv (rp_machine s) of (c, m) \<Rightarrow> (Inr c, s\<lparr>rp_machine := m\<rparr>))"

definition on_attempts :: "(obj list option, 'a) eff \<Rightarrow> ('r repo, 'a) eff" where
  "on_attempts = spart rp_attempts (\<lambda>a s. s\<lparr>rp_attempts := a\<rparr>)"

definition inspector_git :: "'r host \<Rightarrow> string \<Rightarrow> string list \<Rightarrow> bool \<Rightarrow> ('r repo, completed) eff" where
  "inspector_git H root arguments chk =
     sbind machine (\<lambda>m.
     sbind (on_attempts (validate_controller_command (ho_resolve H m) (''git'' # arguments) root (Some root) False)) (\<lambda>_.
     sbind (run_process H root (''git'' # arguments)) (\<lambda>c.
     sbind (scheck (\<not> (chk \<and> cp_status c \<noteq> 0)) RepositoryError ''Git command failed'') (\<lambda>_. sret c))))"

definition git_output :: "'r host \<Rightarrow> string \<Rightarrow> string list \<Rightarrow> ('r repo, string) eff" where
  "git_output H root arguments = sbind (inspector_git H root arguments True) (\<lambda>c. sret (cp_out c))"

text \<open>\<^verbatim>\<open>RepositoryInspector(root)\<close> returns the resolved root.\<close>

definition make_inspector :: "'r host \<Rightarrow> string \<Rightarrow> ('r repo, string) eff" where
  "make_inspector H path =
     sbind machine (\<lambda>m.
     let root = ho_resolve H m (ho_expand H path) in
     sbind (scheck (ho_stat H m root = Dir_node) RepositoryError ''repository does not exist'') (\<lambda>_.
     sbind (git_output H root [''rev-parse'', ''--show-toplevel'']) (\<lambda>out.
     sbind machine (\<lambda>m.
     sbind (scheck (ho_resolve H m (strip out) = root) RepositoryError
              ''registered path is not the exact Git root'') (\<lambda>_. sret root)))))"

definition rev_parse :: "'r host \<Rightarrow> string \<Rightarrow> string \<Rightarrow> bool \<Rightarrow> ('r repo, string option) eff" where
  "rev_parse H root v chk =
     sbind (inspector_git H root [''rev-parse'', ''--verify'', v] chk) (\<lambda>c.
     sret (if cp_status c = 0 then Some (strip (cp_out c)) else None))"

definition common_git_dir :: "'r host \<Rightarrow> string \<Rightarrow> ('r repo, string) eff" where
  "common_git_dir H root =
     sbind (git_output H root [''rev-parse'', ''--git-common-dir'']) (\<lambda>out.
     sbind machine (\<lambda>m. sret (ho_resolve H m (path_div root (strip out)))))"

definition worktree_prefix :: string where
  "worktree_prefix = ''worktree ''"

definition primary_worktree :: "'r host \<Rightarrow> string \<Rightarrow> ('r repo, string) eff" where
  "primary_worktree H root =
     sbind (git_output H root [''worktree'', ''list'', ''--porcelain'']) (\<lambda>out.
     sbind machine (\<lambda>m.
     sret (case filter (prefix worktree_prefix) (str_splitlines out) of
         [] \<Rightarrow> root | l # _ \<Rightarrow> ho_resolve H m (drop (length worktree_prefix) l))))"

text \<open>\<^verbatim>\<open>line.partition(" ")\<close>, and the entries of \<^verbatim>\<open>git worktree list\<close>: a blank line ends
  one\<close>

definition partition_space :: "string \<Rightarrow> string \<times> string" where
  "partition_space l = (takeWhile (\<lambda>c. c \<noteq> CHR '' '') l, tl (dropWhile (\<lambda>c. c \<noteq> CHR '' '') l))"

fun worktree_entries :: "obj \<Rightarrow> string list \<Rightarrow> obj list" where
  "worktree_entries current [] = []"
| "worktree_entries current (l # ls) =
     (if l = [] then (if current = [] then worktree_entries [] ls else current # worktree_entries [] ls)
      else case partition_space l of (k, v) \<Rightarrow>
        worktree_entries
          (if k \<in> {''worktree'', ''HEAD'', ''branch''}
           then oset k (if v = [] then JNull else JStr v) current else current) ls)"

definition worktrees :: "'r host \<Rightarrow> string \<Rightarrow> ('r repo, obj list) eff" where
  "worktrees H root =
     sbind (git_output H root [''worktree'', ''list'', ''--porcelain'']) (\<lambda>out.
     sret (worktree_entries [] (str_splitlines out @ [[]])))"

definition local_branches :: "'r host \<Rightarrow> string \<Rightarrow> ('r repo, string list) eff" where
  "local_branches H root =
     sbind (git_output H root [''for-each-ref'', ''--format=%(refname:short)'', ''refs/heads/'']) (\<lambda>out.
     sret (full_lines out))"

definition current_branch :: "'r host \<Rightarrow> string \<Rightarrow> ('r repo, string option) eff" where
  "current_branch H root =
     sbind (git_output H root [''branch'', ''--show-current'']) (\<lambda>out.
     sret (if strip out = [] then None else Some (strip out)))"

definition repo_head :: "'r host \<Rightarrow> string \<Rightarrow> ('r repo, string) eff" where
  "repo_head H root =
     sbind (rev_parse H root ''HEAD'' True) (\<lambda>v.
     case v of None \<Rightarrow> sthrow RepositoryError ''repository has no HEAD'' | Some h \<Rightarrow> sret h)"

definition dirty_entries :: "'r host \<Rightarrow> string \<Rightarrow> ('r repo, string list) eff" where
  "dirty_entries H root = sbind (git_output H root [''status'', ''--porcelain'']) (\<lambda>out. sret (full_lines out))"

definition is_clean :: "'r host \<Rightarrow> string \<Rightarrow> ('r repo, bool) eff" where
  "is_clean H root = sbind (dirty_entries H root) (\<lambda>es. sret (es = []))"

subsection \<open>Contents\<close>

text \<open>\<^verbatim>\<open>safe_worktree_file_bytes(relative, allow_missing)\<close>\<close>

definition file_bytes :: "'r host \<Rightarrow> string \<Rightarrow> string \<Rightarrow> bool \<Rightarrow> ('r repo, nat list option) eff" where
  "file_bytes H root relative allow_missing =
     sbind machine (\<lambda>m.
     let candidate = path_div root relative in
     sbind (scheck (relative_to (ho_resolve H m (path_parent candidate)) root) RepositoryError
              ''worktree path escapes the registered repository'') (\<lambda>_.
     case ho_lstat H m candidate of
       No_node \<Rightarrow>
         if allow_missing then sret None else sthrow RepositoryError ''worktree path is missing''
     | Link_node \<Rightarrow> sthrow RepositoryError ''cannot securely open worktree path''
     | File_node k None \<Rightarrow> sthrow RepositoryError ''cannot securely open worktree path''
     | File_node k (Some content) \<Rightarrow>
         sbind (scheck (k = 1) RepositoryError ''worktree path has an unsafe hard-link count'') (\<lambda>_.
         sbind (smodify (\<lambda>s. s\<lparr>rp_reads := map_option (\<lambda>rs. rs @ [relative]) (rp_reads s)\<rparr>)) (\<lambda>_.
         sret (Some content)))
     | _ \<Rightarrow> sthrow RepositoryError ''worktree path is not a regular file''))"

text \<open>\<^verbatim>\<open>with observe_content_reads()\<close>\<close>

definition observe_content_reads :: "('r repo, 'a) eff \<Rightarrow> ('r repo, 'a \<times> string list) eff" where
  "observe_content_reads block =
     (\<lambda>s. case block (s\<lparr>rp_reads := Some []\<rparr>) of
        (Inl e, t) \<Rightarrow> (Inl e, t\<lparr>rp_reads := rp_reads s\<rparr>)
      | (Inr x, t) \<Rightarrow> (Inr (x, case rp_reads t of Some rs \<Rightarrow> rs | None \<Rightarrow> []), t\<lparr>rp_reads := rp_reads s\<rparr>))"

definition modified_hash :: "'r host \<Rightarrow> string \<Rightarrow> string \<Rightarrow> ('r repo, string \<times> string) eff" where
  "modified_hash H root entry =
     sbind (scheck (4 \<le> length entry \<and> take 2 entry \<in> {'' M'', ''M '', ''MM''} \<and> entry ! 2 = CHR '' '')
              RepositoryError ''dirty-state recovery supports only tracked modified files'') (\<lambda>_.
     sbind machine (\<lambda>m.
     let relative = drop 3 entry; candidate = ho_resolve H m (path_div root relative) in
     sbind (scheck (relative_to candidate root) RepositoryError
              ''dirty path escapes the registered repository'') (\<lambda>_.
     case ho_stat H m candidate of
       File_node k (Some content) \<Rightarrow> sret (relative, sha256_bytes content)
     | File_node k None \<Rightarrow> sthrow OSError ''permission denied''
     | _ \<Rightarrow> sthrow RepositoryError ''dirty path is not a regular file'')))"

text \<open>\<^verbatim>\<open>dict(sorted(hashes.items()))\<close> of assignments in order\<close>

definition sorted_dict :: "(string \<times> string) list \<Rightarrow> (string \<times> string) list" where
  "sorted_dict kvs = sort_key fst (foldl (\<lambda>d kv. aset (fst kv) (snd kv) d) [] kvs)"

definition modified_file_hashes :: "'r host \<Rightarrow> string \<Rightarrow> ('r repo, (string \<times> string) list) eff" where
  "modified_file_hashes H root =
     sbind (git_output H root [''status'', ''--porcelain=v1'', ''-z'']) (\<lambda>out.
     sbind (smap (modified_hash H root) (nul_items out)) (\<lambda>kvs. sret (sorted_dict kvs)))"

definition tracked_changed_paths :: "'r host \<Rightarrow> string \<Rightarrow> ('r repo, string list) eff" where
  "tracked_changed_paths H root =
     sbind (git_output H root [''diff'', ''--name-only'', ''HEAD'', ''--'']) (\<lambda>out. sret (sort (full_lines out)))"

definition staged_changed_paths :: "'r host \<Rightarrow> string \<Rightarrow> ('r repo, string list) eff" where
  "staged_changed_paths H root =
     sbind (git_output H root [''diff'', ''--cached'', ''--name-only'', ''--'']) (\<lambda>out. sret (sort (full_lines out)))"

definition runtime_path :: "string \<Rightarrow> bool" where
  "runtime_path p \<longleftrightarrow> p \<in> {''.factory/locks/writer.json'', ''.factory/conveyor-state.json''}
     \<or> prefix ''.factory/runtime/'' p"

definition untracked_entries :: "string \<Rightarrow> string list" where
  "untracked_entries out =
     filter (\<lambda>p. \<not> runtime_path p) (map (drop 3) (filter (prefix ''?? '') (nul_items out)))"

definition untracked_file_hashes :: "'r host \<Rightarrow> string \<Rightarrow> ('r repo, (string \<times> string) list) eff" where
  "untracked_file_hashes H root =
     sbind (git_output H root [''status'', ''--porcelain=v1'', ''-z'', ''--untracked-files=all'']) (\<lambda>out.
     sbind (smap (\<lambda>p. sbind (file_bytes H root p False) (\<lambda>c.
              case c of None \<Rightarrow> sthrow AssertionError [] | Some b \<Rightarrow> sret (p, sha256_bytes b)))
            (untracked_entries out)) (\<lambda>kvs. sret (sorted_dict kvs)))"

definition as_bytes :: "string \<Rightarrow> nat list" where
  "as_bytes s = map of_char s"

text \<open>\<^verbatim>\<open>planning_diff\<close> reads bytes: the output of this run is one character for a byte.\<close>

definition planning_diff :: "'r host \<Rightarrow> string \<Rightarrow> ('r repo, nat list) eff" where
  "planning_diff H root =
     (let argv = [''git'', ''diff'', ''--binary'', ''--no-ext-diff'', ''HEAD'', ''--''] in
      sbind machine (\<lambda>m.
      sbind (on_attempts (validate_controller_command (ho_resolve H m) argv root (Some root) False)) (\<lambda>_.
      sbind (run_process H root argv) (\<lambda>c.
      sbind (scheck (cp_status c = 0) RepositoryError ''cannot capture planning diff'') (\<lambda>_.
      sret (as_bytes (cp_out c)))))))"

definition planning_diff_fingerprint :: "'r host \<Rightarrow> string \<Rightarrow> ('r repo, string) eff" where
  "planning_diff_fingerprint H root = sbind (planning_diff H root) (\<lambda>d. sret (sha256_bytes d))"

definition content_bytes :: "'r host \<Rightarrow> string \<Rightarrow> string option \<Rightarrow> string \<Rightarrow> ('r repo, nat list option) eff" where
  "content_bytes H root commit relative =
     (case commit of
        None \<Rightarrow> file_bytes H root relative True
      | Some c \<Rightarrow>
          sbind (run_process H root [''git'', ''show'', c @ '':'' @ relative]) (\<lambda>r.
          sret (if cp_status r = 0 then Some (as_bytes (cp_out r)) else None)))"

definition content_digest :: "(string \<times> nat list option) list \<Rightarrow> string" where
  "content_digest items =
     sha256_bytes (concat (map (\<lambda>(p, c). utf8 p @ [0]
       @ (case c of None \<Rightarrow> utf8 ''deleted'' @ [0] | Some b \<Rightarrow> utf8 ''file'' @ [0] @ sha256_raw b) @ [0]) items))"

definition content_diff_fingerprint :: "'r host \<Rightarrow> string \<Rightarrow> string list \<Rightarrow> string option \<Rightarrow> ('r repo, string) eff" where
  "content_diff_fingerprint H root paths commit =
     sbind (smap (\<lambda>p. sbind (content_bytes H root commit p) (\<lambda>c. sret (p, c))) (sorted_set paths)) (\<lambda>items.
     sret (content_digest items))"

subsection \<open>Commits and refs\<close>

definition ref_exists :: "'r host \<Rightarrow> string \<Rightarrow> string \<Rightarrow> ('r repo, bool) eff" where
  "ref_exists H root v = sbind (rev_parse H root (v @ ''^{commit}'') False) (\<lambda>c. sret (c \<noteq> None))"

definition branch_worktree :: "'r host \<Rightarrow> string \<Rightarrow> string \<Rightarrow> ('r repo, string option) eff" where
  "branch_worktree H root branch =
     sbind (worktrees H root) (\<lambda>ws.
     sbind machine (\<lambda>m.
     let matches = map (\<lambda>w. ho_resolve H m (py_str (oget w ''worktree'')))
           (filter (\<lambda>w. oget w ''branch'' = JStr (''refs/heads/'' @ branch) \<and> truthy (oget w ''worktree'')) ws) in
     case matches of
       [] \<Rightarrow> sret None
     | [p] \<Rightarrow> sret (Some p)
     | _ \<Rightarrow> sthrow RepositoryError ''feature branch is checked out in multiple worktrees''))"

definition is_ancestor :: "'r host \<Rightarrow> string \<Rightarrow> string \<Rightarrow> string \<Rightarrow> ('r repo, bool) eff" where
  "is_ancestor H root a d =
     sbind (inspector_git H root [''merge-base'', ''--is-ancestor'', a, d] False) (\<lambda>c. sret (cp_status c = 0))"

text \<open>\<^verbatim>\<open>int(s)\<close> of the digits Git prints\<close>

definition commit_count :: "'r host \<Rightarrow> string \<Rightarrow> string \<Rightarrow> string \<Rightarrow> ('r repo, nat) eff" where
  "commit_count H root a b =
     sbind (git_output H root [''rev-list'', ''--count'', a @ ''..'' @ b]) (\<lambda>out.
     if strip out \<noteq> [] \<and> list_all is_digit (strip out) then sret (read_nat (strip out))
     else sthrow ValueError ''invalid literal for int()'')"

definition git_operation_names :: "(string \<times> string) list" where
  "git_operation_names = [(''cherry_pick'', ''CHERRY_PICK_HEAD''), (''merge'', ''MERGE_HEAD''),
     (''rebase_merge'', ''rebase-merge''), (''rebase_apply'', ''rebase-apply'')]"

definition git_operation_state :: "'r host \<Rightarrow> string \<Rightarrow> ('r repo, (string \<times> bool) list) eff" where
  "git_operation_state H root =
     smap (\<lambda>(k, name).
       sbind (git_output H root [''rev-parse'', ''--git-path'', name]) (\<lambda>out.
       sbind machine (\<lambda>m.
       sret (k, ho_stat H m (path_div root (strip out)) \<noteq> No_node)))) git_operation_names"

record identity =
  id_repository_id :: string
  id_path_fingerprint :: string
  id_root :: string
  id_common_git_dir :: string
  id_root_commits :: "string list"

definition repo_identity :: "'r host \<Rightarrow> string \<Rightarrow> ('r repo, identity) eff" where
  "repo_identity H root =
     sbind (git_output H root [''rev-list'', ''--max-parents=0'', ''HEAD'']) (\<lambda>out.
     let roots = sort (filter (\<lambda>l. l \<noteq> []) (map strip (str_splitlines out))) in
     sbind (common_git_dir H root) (\<lambda>material_dir.
     sbind (common_git_dir H root) (\<lambda>dir.
     sret \<lparr>id_repository_id = sha256_hex (identity_text material_dir roots), id_path_fingerprint = sha256_hex root,
       id_root = root, id_common_git_dir = dir, id_root_commits = roots\<rparr>)))"

definition writer_lock_path :: "'r host \<Rightarrow> string \<Rightarrow> string \<Rightarrow> ('r repo, string) eff" where
  "writer_lock_path H root relative = sbind (primary_worktree H root) (\<lambda>w. sret (path_div w relative))"

definition cycle_state_path :: "'r host \<Rightarrow> string \<Rightarrow> ('r repo, string) eff" where
  "cycle_state_path H root =
     sbind (primary_worktree H root) (\<lambda>w. sret (path_div w ''.factory/conveyor-state.json''))"

definition patch_fingerprint :: "'r host \<Rightarrow> string \<Rightarrow> string \<Rightarrow> ('r repo, string) eff" where
  "patch_fingerprint H root commit =
     sbind (rev_parse H root (commit @ ''^'') True) (\<lambda>parent.
     case parent of
       None \<Rightarrow> sthrow RepositoryError ''accepted commit has no parent''
     | Some p \<Rightarrow> sbind (git_output H root [''diff'', ''--binary'', p, commit]) (\<lambda>out. sret (sha256_hex out)))"

definition repo_commit_subject :: "'r host \<Rightarrow> string \<Rightarrow> string \<Rightarrow> ('r repo, string) eff" where
  "repo_commit_subject H root commit =
     sbind (git_output H root [''show'', ''-s'', ''--format=%s'', commit]) (\<lambda>out. sret (strip out))"

definition commit_timestamp :: "'r host \<Rightarrow> string \<Rightarrow> string \<Rightarrow> ('r repo, string) eff" where
  "commit_timestamp H root commit =
     sbind (git_output H root [''show'', ''-s'', ''--format=%cI'', commit]) (\<lambda>out. sret (strip out))"

definition file_at_commit :: "'r host \<Rightarrow> string \<Rightarrow> string \<Rightarrow> string \<Rightarrow> ('r repo, string option) eff" where
  "file_at_commit H root commit path =
     sbind (scheck (\<not> is_absolute path \<and> ''..'' \<notin> set (posix_parts path)) RepositoryError
              ''unsafe repository-relative path'') (\<lambda>_.
     sbind (inspector_git H root [''show'', commit @ '':'' @ as_posix path] False) (\<lambda>c.
     sret (if cp_status c = 0 then Some (cp_out c) else None)))"

definition commit_changed_paths :: "'r host \<Rightarrow> string \<Rightarrow> string \<Rightarrow> ('r repo, string list) eff" where
  "commit_changed_paths H root commit =
     sbind (git_output H root [''show'', ''--format='', ''--name-only'', commit]) (\<lambda>out.
     sret (filter (\<lambda>l. l \<noteq> []) (map strip (str_splitlines out))))"

text \<open>A text that is given and not empty decides whether a ref is looked up.\<close>

definition given :: "string option \<Rightarrow> string option" where
  "given v = (case v of Some [] \<Rightarrow> None | _ \<Rightarrow> v)"

definition identity_dict :: "identity \<Rightarrow> obj" where
  "identity_dict i = [(''repository_id'', JStr (id_repository_id i)), (''path_fingerprint'', JStr (id_path_fingerprint i)),
     (''root'', JStr (id_root i)), (''common_git_dir'', JStr (id_common_git_dir i)),
     (''root_commits'', strs (id_root_commits i))]"

definition looked_up :: "string option \<Rightarrow> (string \<Rightarrow> ('r repo, json) eff) \<Rightarrow> ('r repo, json) eff" where
  "looked_up v f = (case given v of None \<Rightarrow> sret JNull | Some s \<Rightarrow> f s)"

definition inspect :: "'r host \<Rightarrow> string \<Rightarrow> string option \<Rightarrow> string option \<Rightarrow> ('r repo, obj) eff" where
  "inspect H root baseline milestone =
     sbind (repo_identity H root) (\<lambda>identity.
     sbind (git_operation_state H root) (\<lambda>operations.
     sbind (looked_up baseline (\<lambda>b. sbind (ref_exists H root b) (\<lambda>x. sret (JBool x)))) (\<lambda>baseline_exists.
     sbind (looked_up milestone (\<lambda>b. sbind (ref_exists H root b) (\<lambda>x. sret (JBool x)))) (\<lambda>milestone_exists.
     sbind (if baseline_exists = JBool True \<and> milestone_exists = JBool True
            then sbind (is_ancestor H root (the baseline) (the milestone)) (\<lambda>x. sret (JBool x))
            else sret JNull) (\<lambda>ancestor.
     sbind (repo_head H root) (\<lambda>hd1.
     sbind (repo_head H root) (\<lambda>hd2.
     sbind (commit_timestamp H root hd2) (\<lambda>stamp.
     sbind (current_branch H root) (\<lambda>branch.
     sbind (is_clean H root) (\<lambda>clean_now.
     sbind (dirty_entries H root) (\<lambda>dirty.
     sbind (looked_up milestone (\<lambda>b. sbind (rev_parse H root b False) (\<lambda>x. sret (of_opt x)))) (\<lambda>milestone_head.
     sbind (cycle_state_path H root) (\<lambda>state_path.
     sbind machine (\<lambda>m1.
     sbind (writer_lock_path H root ''.factory/locks/writer.json'') (\<lambda>lock_path.
     sbind machine (\<lambda>m2.
     sbind (worktrees H root) (\<lambda>ws.
     sbind (local_branches H root) (\<lambda>branches.
     sret [(''identity'', JObj (identity_dict identity)), (''head'', JStr hd1), (''head_commit_timestamp'', JStr stamp),
       (''branch'', of_opt branch), (''clean'', JBool clean_now), (''dirty_entry_count'', JInt (int (length dirty))),
       (''git_operations'', JObj (map (\<lambda>(k, b). (k, JBool b)) operations)),
       (''baseline_exists'', baseline_exists), (''milestone_branch_exists'', milestone_exists),
       (''milestone_branch_head'', milestone_head), (''baseline_is_ancestor_of_milestone'', ancestor),
       (''cycle_state_exists'', JBool (ho_stat H m1 state_path \<noteq> No_node)),
       (''writer_lock_exists'', JBool (ho_stat H m2 lock_path \<noteq> No_node)),
       (''worktrees'', JArr (map JObj ws)), (''local_branches'', strs branches)]))))))))))))))))))"

subsection \<open>Mutations\<close>

definition stage_planning_paths :: "'r host \<Rightarrow> string \<Rightarrow> string list \<Rightarrow> string \<Rightarrow> ('r repo, unit) eff" where
  "stage_planning_paths H root paths subject =
     (let argv = [''git'', ''add'', ''--''] @ paths in
      sbind machine (\<lambda>m.
      sbind (on_attempts (validate_planning_git_mutation (ho_resolve H m) argv root root paths subject)) (\<lambda>_.
      sbind (run_process H root argv) (\<lambda>c.
      scheck (cp_status c = 0) RepositoryError ''planning-path staging failed''))))"

definition commit_planning_paths :: "'r host \<Rightarrow> string \<Rightarrow> string list \<Rightarrow> string \<Rightarrow> ('r repo, string) eff" where
  "commit_planning_paths H root paths subject =
     (let argv = [''git'', ''commit'', ''-m'', subject, ''--''] @ paths in
      sbind machine (\<lambda>m.
      sbind (on_attempts (validate_planning_git_mutation (ho_resolve H m) argv root root paths subject)) (\<lambda>_.
      sbind (run_process H root argv) (\<lambda>c.
      sbind (scheck (cp_status c = 0) RepositoryError ''planning commit failed'') (\<lambda>_. repo_head H root)))))"

definition switch_feature_branch :: "'r host \<Rightarrow> string \<Rightarrow> string \<Rightarrow> string option \<Rightarrow> ('r repo, completed) eff" where
  "switch_feature_branch H root branch start =
     sbind (inspector_git H root [''check-ref-format'', ''--branch'', branch] False) (\<lambda>valid.
     sbind (scheck (cp_status valid = 0) RepositoryError ''invalid feature branch name'') (\<lambda>_.
     let argv = (case start of Some c \<Rightarrow> [''git'', ''switch'', ''-c'', branch, c] | None \<Rightarrow> [''git'', ''switch'', branch]) in
     sbind machine (\<lambda>m.
     sbind (on_attempts (validate_feature_branch_switch (ho_resolve H m) argv root root branch start)) (\<lambda>_.
     sbind (run_process H root argv) (\<lambda>c.
     sbind (scheck (cp_status c = 0) RepositoryError ''feature branch switch failed'') (\<lambda>_. sret c))))))"

subsection \<open>Snapshots\<close>

definition queue_env :: "'r host \<Rightarrow> 'r \<Rightarrow> qenv" where
  "queue_env H m =
     \<lparr>qe_home = ho_home H, qe_expand = ho_expand H, qe_resolve = ho_resolve H m,
      qe_exists = (\<lambda>p. ho_stat H m p \<noteq> No_node),
      qe_is_file = (\<lambda>p. case ho_stat H m p of File_node _ _ \<Rightarrow> True | _ \<Rightarrow> False)\<rparr>"

text \<open>\<^verbatim>\<open>path.read_bytes()\<close>, \<open>None\<close> when it raises \<^verbatim>\<open>OSError\<close>\<close>

definition stat_bytes :: "'r host \<Rightarrow> 'r \<Rightarrow> string \<Rightarrow> nat list option" where
  "stat_bytes H m p = (case ho_stat H m p of File_node _ c \<Rightarrow> c | _ \<Rightarrow> None)"

definition capture_repository_snapshot :: "'r host \<Rightarrow> string \<Rightarrow> json \<Rightarrow> ('r repo, snapshot) eff" where
  "capture_repository_snapshot H repository queue_location =
     sbind (make_inspector H repository) (\<lambda>root.
     sbind (repo_identity H root) (\<lambda>identity.
     sbind machine (\<lambda>m.
     sbind (slift (resolve_queue_path (queue_env H m) repository queue_location)) (\<lambda>queue_path.
     let queue_fingerprint = map_option sha256_bytes (stat_bytes H m queue_path) in
     sbind (tracked_changed_paths H root) (\<lambda>tracked.
     sbind (untracked_file_hashes H root) (\<lambda>untracked.
     sbind (current_branch H root) (\<lambda>branch.
     sbind (repo_head H root) (\<lambda>hd.
     sbind (planning_diff_fingerprint H root) (\<lambda>diff.
     sbind (git_operation_state H root) (\<lambda>operations.
     sret \<lparr>sn_repository_identity = id_repository_id identity,
       sn_repository_path_fingerprint = id_path_fingerprint identity,
       sn_branch = (case given branch of Some b \<Rightarrow> b | None \<Rightarrow> ''DETACHED''), sn_head = hd,
       sn_queue_fingerprint = queue_fingerprint, sn_tracked_diff_fingerprint = diff,
       sn_untracked_fingerprint = fingerprint (JObj (map (\<lambda>(p, h). (p, JStr h)) untracked)),
       sn_tracked_changed_paths = tracked, sn_untracked_paths = sort (map fst untracked),
       sn_git_operations = operations\<rparr>))))))))))"

end
