(* ===== verification/Run_Logic.thy ===== *)
theory Run_Logic
  imports Effects
begin

section \<open>A logic of runs\<close>

text \<open>
  \<open>runs m s Q E\<close>: started in \<open>s\<close>, the call \<open>m\<close> returns a value and a state with \<open>Q\<close> or raises
  an exception in a state with \<open>E\<close>. The rules take a sequence apart from left to right; those in
  \<open>runs_intros\<close> are applied by \<open>intro\<close>.
\<close>

definition runs :: "('s, 'a) eff \<Rightarrow> 's \<Rightarrow> ('a \<Rightarrow> 's \<Rightarrow> bool) \<Rightarrow> (exn \<Rightarrow> 's \<Rightarrow> bool) \<Rightarrow> bool" where
  "runs m s Q E \<longleftrightarrow> (case m s of (Inl e, t) \<Rightarrow> E e t | (Inr x, t) \<Rightarrow> Q x t)"

named_theorems runs_intros "rules for the calls of a sequence"

lemma runsI: "(\<And>x t. m s = (Inr x, t) \<Longrightarrow> Q x t) \<Longrightarrow> (\<And>e t. m s = (Inl e, t) \<Longrightarrow> E e t) \<Longrightarrow> runs m s Q E"
  by (auto simp: runs_def split: prod.split sum.split)

lemma runs_Inr: "runs m s Q E \<Longrightarrow> m s = (Inr x, t) \<Longrightarrow> Q x t"
  by (simp add: runs_def)

lemma runs_Inl: "runs m s Q E \<Longrightarrow> m s = (Inl e, t) \<Longrightarrow> E e t"
  by (simp add: runs_def)

lemma runs_sbind [runs_intros]: "runs m s (\<lambda>x t. runs (f x) t Q E) E \<Longrightarrow> runs (sbind m f) s Q E"
  by (auto simp: runs_def sbind_def split: prod.splits sum.splits)

lemma runs_conseq:
  "runs m s Q' E' \<Longrightarrow> (\<And>x t. Q' x t \<Longrightarrow> Q x t) \<Longrightarrow> (\<And>e t. E' e t \<Longrightarrow> E e t) \<Longrightarrow> runs m s Q E"
  by (auto simp: runs_def split: prod.splits sum.splits)

lemma runs_sret [runs_intros]: "Q x s \<Longrightarrow> runs (sret x) s Q E"
  by (simp add: runs_def eff_simps)

lemma runs_sget [runs_intros]: "Q s s \<Longrightarrow> runs sget s Q E"
  by (simp add: runs_def eff_simps)

lemma runs_smodify [runs_intros]: "Q () (f s) \<Longrightarrow> runs (smodify f) s Q E"
  by (simp add: runs_def eff_simps)

lemma runs_sthrow [runs_intros]: "E (Exn c m) s \<Longrightarrow> runs (sthrow c m) s Q E"
  by (simp add: runs_def eff_simps raise_def)

lemma runs_scheck [runs_intros]:
  "(b \<Longrightarrow> Q () s) \<Longrightarrow> (\<not> b \<Longrightarrow> E (Exn c m) s) \<Longrightarrow> runs (scheck b c m) s Q E"
  by (simp add: runs_def eff_simps check_def raise_def)

lemma runs_slift [runs_intros]:
  "(\<And>x. r = Inr x \<Longrightarrow> Q x s) \<Longrightarrow> (\<And>e. r = Inl e \<Longrightarrow> E e s) \<Longrightarrow> runs (slift r) s Q E"
  by (simp add: runs_def eff_simps split: sum.split)

lemma runs_if [runs_intros]:
  "(b \<Longrightarrow> runs m s Q E) \<Longrightarrow> (\<not> b \<Longrightarrow> runs n s Q E) \<Longrightarrow> runs (if b then m else n) s Q E"
  by simp

lemma runs_swhen [runs_intros]:
  "(b \<Longrightarrow> runs m s Q E) \<Longrightarrow> (\<not> b \<Longrightarrow> Q () s) \<Longrightarrow> runs (swhen b m) s Q E"
  by (simp add: swhen_def runs_sret)

lemma runs_option [runs_intros]:
  "(a = None \<Longrightarrow> runs m s Q E) \<Longrightarrow> (\<And>x. a = Some x \<Longrightarrow> runs (f x) s Q E)
   \<Longrightarrow> runs (case a of None \<Rightarrow> m | Some x \<Rightarrow> f x) s Q E"
  by (cases a) simp_all

lemma runs_prod [runs_intros]: "(\<And>a b. p = (a, b) \<Longrightarrow> runs (f a b) s Q E) \<Longrightarrow> runs (case p of (a, b) \<Rightarrow> f a b) s Q E"
  by (cases p) simp

lemma runs_list [runs_intros]:
  "(xs = [] \<Longrightarrow> runs m s Q E) \<Longrightarrow> (\<And>y ys. xs = y # ys \<Longrightarrow> runs (f y ys) s Q E)
   \<Longrightarrow> runs (case xs of [] \<Rightarrow> m | y # ys \<Rightarrow> f y ys) s Q E"
  by (cases xs) simp_all

lemma runs_let [runs_intros]: "runs (f v) s Q E \<Longrightarrow> runs (let x = v in f x) s Q E"
  by simp

lemma runs_scatch [runs_intros]:
  "runs m s Q (\<lambda>e t. if c e then runs (h e) t Q E else E e t) \<Longrightarrow> runs (scatch c m h) s Q E"
  by (auto simp: runs_def scatch_def split: prod.splits sum.splits if_splits)

text \<open>A call of which only the steps of a relation are known.\<close>

lemma runs_steps:
  "steps R m \<Longrightarrow> (\<And>x t. R s t \<Longrightarrow> Q x t) \<Longrightarrow> (\<And>e t. R s t \<Longrightarrow> E e t) \<Longrightarrow> runs m s Q E"
  by (rule runsI) (auto dest: stepsD)

end
