(* ===== verification/Kernel_State.thy ===== *)
theory Kernel_State
  imports Repository Projection Session_Envelope Command_Authority Human_Gate
begin

section \<open>The workflow kernel: its state and what every operation uses\<close>

text \<open>
  \<^verbatim>\<open>WorkflowKernel\<close> of \<^verbatim>\<open>kernel.py\<close>. The state \<open>kstate\<close> is the object and
  what it drives: the transaction in memory, the evidence it has collected, the repository, the lease
  file, the ledger with the projection cache, and a counter of the calls that draw a time or an
  identity. \<open>kenv\<close> is what does not change: the host, the ledger and projection engine, the project,
  the process as it is at each tick, the fresh identities, and the interruption hook, which may run
  code on the repository and may raise. A text that \<^verbatim>\<open>restore\<close> reads from a payload
  is absent (\<open>None\<close>, or empty where the field is no option) when the payload has no text there;
  values it copies without looking at them stay JSON.
\<close>

record 'r kstate =
  ks_transaction :: "phase_transaction option"
  ks_envelope :: "session_envelope option"
  ks_commands :: "command_record list"
  ks_final :: json
  ks_validated :: json
  ks_prepared_paths :: "json list option"
  ks_prepared_commit :: json
  ks_normalization :: "obj option"
  ks_preacquired :: "workflow_lease option"
  ks_repo :: "'r repo"
  ks_lease :: lease_fs
  ks_proj :: proj_fs
  ks_tick :: nat

record 'r kenv =
  ke_host :: "'r host"
  ke_engine :: engine
  ke_project_id :: string
  ke_repository :: string
  ke_root :: string
  ke_queue_location :: string
  ke_float :: "string \<Rightarrow> string"
  ke_redact :: "string \<Rightarrow> string"
  ke_text :: "'r \<Rightarrow> string \<Rightarrow> string option"
  ke_process :: "nat \<Rightarrow> wenv"
  ke_uid :: "nat \<Rightarrow> string"
  ke_now :: "nat \<Rightarrow> string"
  ke_stamp :: "nat \<Rightarrow> nat"
  ke_hook :: "string \<Rightarrow> phase_transaction \<Rightarrow> ('r repo, unit) eff"

abbreviation tx_error :: "string \<Rightarrow> ('s, 'a) eff" where
  "tx_error m \<equiv> sthrow TransactionError m"

abbreviation tx_check :: "bool \<Rightarrow> string \<Rightarrow> ('s, unit) eff" where
  "tx_check b m \<equiv> scheck b TransactionError m"

abbreviation ke_ledger :: "'r kenv \<Rightarrow> ledger" where
  "ke_ledger K \<equiv> en_ledger (ke_engine K)"

subsection \<open>Calls of the parts\<close>

definition k_repo :: "('r repo, 'a) eff \<Rightarrow> ('r kstate, 'a) eff" where
  "k_repo = spart ks_repo (\<lambda>r s. s\<lparr>ks_repo := r\<rparr>)"

definition k_proj :: "(proj_fs, 'a) eff \<Rightarrow> ('r kstate, 'a) eff" where
  "k_proj = spart ks_proj (\<lambda>p s. s\<lparr>ks_proj := p\<rparr>)"

text \<open>A call of the lease by the process as it is now.\<close>

definition k_lease :: "'r kenv \<Rightarrow> (wenv \<Rightarrow> (lease_fs, 'a) eff) \<Rightarrow> ('r kstate, 'a) eff" where
  "k_lease K m =
     (\<lambda>s. case m (ke_process K (ks_tick s)) (ks_lease s) of
        (r, f) \<Rightarrow> (r, s\<lparr>ks_lease := f, ks_tick := Suc (ks_tick s)\<rparr>))"

definition k_fresh :: "'r kenv \<Rightarrow> ('r kstate, string) eff" where
  "k_fresh K = (\<lambda>s. (Inr (ke_uid K (ks_tick s)), s\<lparr>ks_tick := Suc (ks_tick s)\<rparr>))"

definition k_read :: "'r kenv \<Rightarrow> ('r kstate, obj list) eff" where
  "k_read K = k_proj (on_ledger (ledger_read (ke_float K) (ke_redact K) (ke_ledger K)))"

text \<open>\<^verbatim>\<open>self.ledger.append(event_type=t, transaction_id=..., workflow_type=..., payload=...)\<close>\<close>

definition append_of :: "phase_transaction \<Rightarrow> string \<Rightarrow> obj \<Rightarrow> append_args" where
  "append_of tx t pay =
     \<lparr>ap_event_type = t, ap_transaction_id = tx_id tx, ap_workflow_type = JStr (workflow_value (tx_workflow tx)),
      ap_payload = Some pay, ap_event_id = None, ap_timestamp = None\<rparr>"

definition k_append :: "'r kenv \<Rightarrow> phase_transaction \<Rightarrow> string \<Rightarrow> obj \<Rightarrow> ('r kstate, unit) eff" where
  "k_append K tx t pay =
     (\<lambda>s. case ledger_append (ke_float K) (ke_redact K) (ke_ledger K) (ke_uid K (ks_tick s)) (ke_now K (ks_tick s))
             (ke_stamp K (ks_tick s)) (append_of tx t pay) (pf_ledger (ks_proj s)) of
        (r, f) \<Rightarrow> (case r of Inl e \<Rightarrow> Inl e | Inr _ \<Rightarrow> Inr (),
                  s\<lparr>ks_proj := (ks_proj s)\<lparr>pf_ledger := f\<rparr>, ks_tick := Suc (ks_tick s)\<rparr>))"

definition k_rebuild :: "'r kenv \<Rightarrow> bool \<Rightarrow> ('r kstate, obj) eff" where
  "k_rebuild K persist = k_proj (rebuild (ke_float K) (ke_redact K) (ke_engine K) persist None)"

definition k_interrupt :: "'r kenv \<Rightarrow> string \<Rightarrow> phase_transaction \<Rightarrow> ('r kstate, unit) eff" where
  "k_interrupt K boundary tx = k_repo (ke_hook K boundary tx)"

definition k_snapshot :: "'r kenv \<Rightarrow> ('r kstate, snapshot) eff" where
  "k_snapshot K = k_repo (capture_repository_snapshot (ke_host K) (ke_repository K) (JStr (ke_queue_location K)))"

text \<open>A method of the kernel's inspector.\<close>

definition k_ask :: "'r kenv \<Rightarrow> ('r host \<Rightarrow> string \<Rightarrow> ('r repo, 'a) eff) \<Rightarrow> ('r kstate, 'a) eff" where
  "k_ask K q = k_repo (q (ke_host K) (ke_root K))"

text \<open>\<^verbatim>\<open>_run_git\<close>: outside the command policy of the inspector\<close>

definition k_run_git :: "'r kenv \<Rightarrow> string list \<Rightarrow> ('r kstate, unit) eff" where
  "k_run_git K arguments =
     sbind (k_repo (run_process (ke_host K) (ke_repository K) (''git'' # arguments))) (\<lambda>c.
     scheck (cp_status c = 0) RepositoryError ''kernel Git finalization failed'')"

subsection \<open>The transaction in memory\<close>

definition k_require :: "('r kstate, phase_transaction) eff" where
  "k_require = sbind sget (\<lambda>s. case ks_transaction s of
     None \<Rightarrow> tx_error ''workflow transaction has not begun'' | Some tx \<Rightarrow> sret tx)"

definition k_update :: "(phase_transaction \<Rightarrow> phase_transaction res) \<Rightarrow> ('r kstate, unit) eff" where
  "k_update f =
     sbind k_require (\<lambda>tx.
     sbind (slift (f tx)) (\<lambda>tx'.
     smodify (\<lambda>s. s\<lparr>ks_transaction := Some tx'\<rparr>)))"

definition k_transition :: "transaction_state \<Rightarrow> ('r kstate, unit) eff" where
  "k_transition st = k_update (tx_transition st)"

definition k_next_state :: "string \<Rightarrow> ('r kstate, unit) eff" where
  "k_next_state v = k_update (\<lambda>tx. Inr (tx\<lparr>tx_next_project_state := Some v\<rparr>))"

definition last_session :: "phase_transaction \<Rightarrow> string option" where
  "last_session tx = (if tx_session_ids tx = [] then None else Some (last (tx_session_ids tx)))"

subsection \<open>The lease\<close>

definition tx_checks :: "'r kenv \<Rightarrow> phase_transaction \<Rightarrow> lease_checks" where
  "tx_checks K tx =
     \<lparr>lc_transaction_id = tx_id tx, lc_workflow_type = tx_workflow tx,
      lc_repository_identity = tx_repository_identity tx, lc_project_id = tx_project_id tx,
      lc_lease_type = Some (WORKFLOW_LEASE (tx_workflow tx)),
      lc_repository_path_fingerprint = Some (tx_repository_path_fingerprint tx),
      lc_repository_path = Some (ke_repository K), lc_lease_id = tx_lease_identity tx,
      lc_milestone = Some (tx_milestone tx), lc_feature_id = Some (tx_feature_id tx),
      lc_starting_branch = Some (tx_starting_branch tx), lc_starting_head = Some (tx_starting_head tx),
      lc_run_id = Some (tx_run_id tx), lc_session_id = Some (last_session tx), lc_policy = Some (tx_policy tx)\<rparr>"

definition revalidate_lease :: "'r kenv \<Rightarrow> ('r kstate, workflow_lease) eff" where
  "revalidate_lease K = sbind k_require (\<lambda>tx. k_lease K (\<lambda>w. wl_revalidate w (tx_checks K tx)))"

definition tx_acquire :: "'r kenv \<Rightarrow> phase_transaction \<Rightarrow> acquire_args" where
  "tx_acquire K tx =
     \<lparr>aq_lease_type = WORKFLOW_LEASE (tx_workflow tx), aq_repository_identity = tx_repository_identity tx,
      aq_repository_path_fingerprint = tx_repository_path_fingerprint tx,
      aq_repository_path = Some (ke_repository K), aq_project_id = tx_project_id tx,
      aq_transaction_id = tx_id tx, aq_workflow_type = tx_workflow tx, aq_milestone = tx_milestone tx,
      aq_feature_id = tx_feature_id tx, aq_starting_branch = tx_starting_branch tx,
      aq_starting_head = tx_starting_head tx, aq_run_id = tx_run_id tx, aq_session_id = None,
      aq_policy = tx_policy tx\<rparr>"

definition k_bind_lease :: "workflow_lease \<Rightarrow> ('r kstate, unit) eff" where
  "k_bind_lease r = k_update (\<lambda>tx. Inr (tx\<lparr>tx_lease_identity := str_of (wl_lease_id r)\<rparr>))"

definition preacquire_lease :: "'r kenv \<Rightarrow> ('r kstate, unit) eff" where
  "preacquire_lease K =
     sbind k_require (\<lambda>tx.
     sbind sget (\<lambda>s.
     if ks_preacquired s \<noteq> None then sbind (revalidate_lease K) (\<lambda>r. k_bind_lease r)
     else
       sbind (k_lease K (\<lambda>w. wl_acquire w (tx_acquire K tx))) (\<lambda>r.
       sbind (k_bind_lease r) (\<lambda>_.
       smodify (\<lambda>s. s\<lparr>ks_preacquired := Some r\<rparr>)))))"

definition release_owned_lease :: "'r kenv \<Rightarrow> ('r kstate, unit) eff" where
  "release_owned_lease K =
     sbind k_require (\<lambda>tx. k_lease K (\<lambda>w. wl_release w ((tx_checks K tx)\<lparr>lc_lease_type := None\<rparr>)))"

definition release_preacquired_lease :: "'r kenv \<Rightarrow> ('r kstate, unit) eff" where
  "release_preacquired_lease K =
     sbind sget (\<lambda>s.
     if ks_preacquired s = None then sret ()
     else
       sbind (revalidate_lease K) (\<lambda>_.
       sbind (release_owned_lease K) (\<lambda>_.
       smodify (\<lambda>s. s\<lparr>ks_preacquired := None\<rparr>))))"

subsection \<open>What the repository has changed\<close>

definition same_start :: "snapshot \<Rightarrow> phase_transaction \<Rightarrow> bool" where
  "same_start sn tx \<longleftrightarrow>
     sn_repository_identity sn = tx_repository_identity tx
     \<and> sn_repository_path_fingerprint sn = tx_repository_path_fingerprint tx
     \<and> sn_branch sn = tx_starting_branch tx \<and> sn_head sn = tx_starting_head tx
     \<and> sn_queue_fingerprint sn = tx_starting_queue_fingerprint tx
     \<and> sn_tracked_diff_fingerprint sn = tx_starting_tracked_diff_fingerprint tx
     \<and> sn_untracked_fingerprint sn = tx_starting_untracked_fingerprint tx"

definition baseline_unchanged :: "'r kenv \<Rightarrow> ('r kstate, bool) eff" where
  "baseline_unchanged K = sbind k_require (\<lambda>tx. sbind (k_snapshot K) (\<lambda>sn. sret (same_start sn tx)))"

definition observed_paths :: "'r kenv \<Rightarrow> ('r kstate, string list \<times> string list) eff" where
  "observed_paths K =
     sbind (k_ask K tracked_changed_paths) (\<lambda>tracked.
     sbind (k_ask K untracked_file_hashes) (\<lambda>untracked. sret (tracked, map fst untracked)))"

definition changed_paths :: "'r kenv \<Rightarrow> ('r kstate, string list) eff" where
  "changed_paths K =
     sbind (observed_paths K) (\<lambda>(tracked, untracked).
     sbind k_require (\<lambda>tx.
     if require_clean_start (tx_policy tx) then sret (sorted_set (tracked @ untracked))
     else
       sbind (baseline_unchanged K) (\<lambda>same.
       if same then sret []
       else
         sbind (tx_check (tracked \<noteq> [] \<or> untracked \<noteq> [])
                  ''observation-only dirty baseline changed after recovery start'') (\<lambda>_.
         sret (sorted_set (tracked @ untracked))))))"

definition mutation_path_ok :: "'r host \<Rightarrow> 'r \<Rightarrow> string \<Rightarrow> string \<Rightarrow> unit res" where
  "mutation_path_ok H m root relative =
     (let candidate = path_div root relative in
      rbind (check (relative_to (ho_resolve H m (path_parent candidate)) root) TransactionError
               ''mutation path escapes repository'') (\<lambda>_.
      case ho_lstat H m candidate of
        Link_node \<Rightarrow> raise TransactionError ''mutation path is a symbolic link''
      | No_node \<Rightarrow> Inr ()
      | File_node k _ \<Rightarrow> check (k = 1) TransactionError ''mutation path has an unsafe hard-link count''
      | _ \<Rightarrow> raise TransactionError ''mutation path is not a regular file''))"

definition validate_mutation_paths :: "'r kenv \<Rightarrow> string list \<Rightarrow> ('r kstate, unit) eff" where
  "validate_mutation_paths K paths =
     sbind (k_repo machine) (\<lambda>m.
     slift (rall (mutation_path_ok (ke_host K) m (ho_resolve (ke_host K) m (ke_repository K))) paths))"

definition validate_untracked_policy :: "'r kenv \<Rightarrow> ('r kstate, unit) eff" where
  "validate_untracked_policy K =
     sbind k_require (\<lambda>tx.
     sbind (k_ask K untracked_file_hashes) (\<lambda>untracked.
     tx_check (untracked = [] \<or> allow_untracked (tx_policy tx))
       ''transaction policy does not allow untracked mutations''))"

definition diff_fingerprint :: "'r kenv \<Rightarrow> ('r kstate, string) eff" where
  "diff_fingerprint K =
     sbind (changed_paths K) (\<lambda>paths.
     sbind (validate_mutation_paths K paths) (\<lambda>_.
     k_ask K (\<lambda>H root. content_diff_fingerprint H root paths None)))"

definition tx_events :: "phase_transaction \<Rightarrow> obj list \<Rightarrow> obj list" where
  "tx_events tx es = filter (\<lambda>e. etx e = tx_id tx) es"

definition typed_events :: "phase_transaction \<Rightarrow> string \<Rightarrow> obj list \<Rightarrow> obj list" where
  "typed_events tx t es = filter (\<lambda>e. etx e = tx_id tx \<and> etype e = t) es"

text \<open>\<^verbatim>\<open>tuple(v or ())\<close>\<close>

definition tuple_of :: "json \<Rightarrow> json list res" where
  "tuple_of v = elements (jor v (JArr []))"

definition boundary_of :: "obj \<Rightarrow> (json list \<times> json) res" where
  "boundary_of e =
     rbind (tuple_of (oget (payload e) ''changed_paths'')) (\<lambda>ps. Inr (ps, oget (payload e) ''diff_fingerprint''))"

definition assert_durable_boundary :: "'r kenv \<Rightarrow> string list \<Rightarrow> string \<Rightarrow> ('r kstate, unit) eff" where
  "assert_durable_boundary K paths fp =
     sbind k_require (\<lambda>tx.
     sbind (k_read K) (\<lambda>es.
     sbind (slift (rmap boundary_of (typed_events tx ''ChangesDetected'' es))) (\<lambda>bs.
     case bs of
       [] \<Rightarrow> tx_error ''validation requires a durable mutation boundary''
     | (ps, d) # rest \<Rightarrow>
         sbind (tx_check (list_all (\<lambda>(qs, g). list_all2 py_eq qs ps \<and> py_eq g d) rest)
                  ''durable mutation boundary is contradictory'') (\<lambda>_.
         tx_check (map JStr paths = ps \<and> d = JStr fp)
           ''repository diff does not match durable mutation boundary''))))"

definition checkpoint :: "'r kenv \<Rightarrow> string \<Rightarrow> obj \<Rightarrow> ('r kstate, unit) eff" where
  "checkpoint K name pay =
     sbind k_require (\<lambda>tx.
     sbind (revalidate_lease K) (\<lambda>_.
     k_append K tx ''CheckpointRecorded'' (oupdate [(''checkpoint'', JStr name)] pay)))"

end
