(* ===== verification/Kernel_Phases.thy ===== *)
theory Kernel_Phases
  imports Kernel_State
begin

section \<open>The workflow kernel: from the start of a transaction to its accepted result\<close>

text \<open>
  \<^verbatim>\<open>restore\<close>, \<^verbatim>\<open>begin\<close>, \<^verbatim>\<open>begin_for_branch\<close>, the lease, the snapshot, the
  launch of a session, the acceptance of its result, the preparation of integration changes and the
  durable mutation boundary, of \<^verbatim>\<open>kernel.py\<close>.
\<close>

subsection \<open>Restoring a transaction\<close>

definition first_of :: "string \<Rightarrow> obj list \<Rightarrow> obj option" where
  "first_of t es = List.find (\<lambda>e. etype e = t) es"

text \<open>\<^verbatim>\<open>(event or {}).get("payload", {}).get(k)\<close>\<close>

definition payload_get :: "obj option \<Rightarrow> string \<Rightarrow> json" where
  "payload_get e k = (case e of None \<Rightarrow> JNull | Some d \<Rightarrow> oget (payload d) k)"

definition has_type :: "string list \<Rightarrow> obj list \<Rightarrow> bool" where
  "has_type ts es \<longleftrightarrow> list_ex (\<lambda>e. etype e \<in> set ts) es"

definition text_of :: "json \<Rightarrow> string" where
  "text_of v = (case v of JStr s \<Rightarrow> s | _ \<Rightarrow> [])"

definition text_tuple :: "json \<Rightarrow> string list res" where
  "text_tuple v =
     rbind (tuple_of v) (\<lambda>xs. rmap (\<lambda>x. case x of JStr s \<Rightarrow> Inr s
       | _ \<Rightarrow> raise TypeError ''argument should be a str or an os.PathLike object'') xs)"

definition restored_policy :: "obj \<Rightarrow> mutation_policy res" where
  "restored_policy v =
     rbind (text_tuple (oget v ''allowed_paths'')) (\<lambda>paths.
     rbind (text_tuple (oget v ''allowed_prefixes'')) (\<lambda>prefixes.
     rbind (text_tuple (oget v ''denied_paths'')) (\<lambda>denied.
     rbind (text_tuple (oget v ''denied_prefixes'')) (\<lambda>denied_pre.
     make_policy
       \<lparr>allowed_paths = paths, allowed_prefixes = prefixes, denied_paths = denied, denied_prefixes = denied_pre,
        allow_untracked = truthy (oget_or v ''allow_untracked'' (JBool False)),
        require_clean_start = truthy (oget_or v ''require_clean_start'' (JBool True)),
        commit_subject = str_of (oget v ''commit_subject'')\<rparr>))))"

definition dict_or_empty :: "json \<Rightarrow> obj" where
  "dict_or_empty v = (case v of JObj d \<Rightarrow> d | _ \<Rightarrow> [])"

definition restored_state :: "obj list \<Rightarrow> transaction_state res" where
  "restored_state es =
     (if has_type [''TransactionCompleted''] es then Inr COMPLETED
      else if has_type [''TransactionBlocked'', ''HumanGateRaised'', ''TransactionSuperseded''] es
        then raise TransactionError ''terminal non-completed transaction cannot be resumed''
      else if has_type [''ValidationPassed'', ''CommitFinalized''] es then Inr FINALIZING
      else if has_type [''SessionResultAccepted'', ''ValidationStarted'', ''ValidationFailed''] es then Inr VALIDATING
      else if has_type [''SessionLaunched''] es then Inr RESULT_PENDING
      else if has_type [''LeaseAcquired''] es then Inr ACTIVE
      else Inr LEASE_PENDING)"

definition EMPTY_DIFF :: string where
  "EMPTY_DIFF = sha256_hex []"

definition EMPTY_UNTRACKED :: string where
  "EMPTY_UNTRACKED = sha256_hex ''{}''"

definition restored_transaction ::
  "'r kenv \<Rightarrow> string \<Rightarrow> obj \<Rightarrow> obj list \<Rightarrow> workflow_type \<Rightarrow> mutation_policy \<Rightarrow> transaction_state \<Rightarrow> phase_transaction" where
  "restored_transaction K tx start es w policy st =
     (let p = payload start;
          sn = dict_or_empty (payload_get (first_of ''SnapshotCaptured'' es) ''snapshot'');
          terminal = (if st = COMPLETED then first_of ''TransactionCompleted'' es else None)
      in \<lparr>tx_schema_version = 1, tx_id = tx, tx_workflow = w, tx_project_id = ke_project_id K,
       tx_repository_identity = lg_repository_identity (ke_ledger K),
       tx_repository_path_fingerprint = lg_repository_path_fingerprint (ke_ledger K),
       tx_milestone = str_of (oget p ''milestone''), tx_feature_id = str_of (oget p ''feature_id''),
       tx_run_id = text_of (oget p ''run_id''),
       tx_session_ids = map text_of (filter truthy (map (\<lambda>e. oget (payload e) ''session_id'')
         (filter (\<lambda>e. etype e = ''SessionLaunched'') es))),
       tx_starting_branch = text_of (oget p ''starting_branch''), tx_starting_head = text_of (oget p ''starting_head''),
       tx_starting_queue_fingerprint = str_of (oget_or sn ''queue_fingerprint'' (oget p ''starting_queue_fingerprint'')),
       tx_starting_tracked_diff_fingerprint = text_of (oget_or sn ''tracked_diff_fingerprint''
         (oget_or p ''starting_tracked_diff_fingerprint'' (JStr EMPTY_DIFF))),
       tx_starting_untracked_fingerprint = text_of (oget_or sn ''untracked_fingerprint''
         (oget_or p ''starting_untracked_fingerprint'' (JStr EMPTY_UNTRACKED))),
       tx_policy = policy,
       tx_lease_identity = (case filter (\<lambda>e. etype e = ''LeaseAcquired'') es of
           [] \<Rightarrow> None | acquired \<Rightarrow> str_of (oget (payload (last acquired)) ''lease_id'')),
       tx_state = st, tx_terminal_classification = str_of (payload_get terminal ''classification''),
       tx_terminal_reference = str_of (payload_get terminal ''reference''),
       tx_next_project_state = str_of (payload_get terminal ''next_state'')\<rparr>)"

definition checkpoint_named :: "string \<Rightarrow> obj list \<Rightarrow> obj option" where
  "checkpoint_named name es =
     List.find (\<lambda>e. etype e = ''CheckpointRecorded'' \<and> oget (payload e) ''checkpoint'' = JStr name) es"

definition normalization_fields :: "string list" where
  "normalization_fields = [''source_paths'', ''normalization_paths'', ''final_paths'', ''final_diff_fingerprint'',
     ''model_session_launched'']"

definition restore :: "'r kenv \<Rightarrow> string \<Rightarrow> ('r kstate, phase_transaction) eff" where
  "restore K tx =
     sbind (k_read K) (\<lambda>all.
     let es = filter (\<lambda>e. etx e = tx) all in
     case es of
       [] \<Rightarrow> tx_error ''cannot restore a transaction without its start event''
     | start # _ \<Rightarrow>
         sbind (tx_check (etype start = ''TransactionStarted'')
                  ''cannot restore a transaction without its start event'') (\<lambda>_.
         sbind (slift (restored_policy (dict_or_empty (oget (payload start) ''allowed_mutation_policy'')))) (\<lambda>policy.
         sbind (slift (parse_workflow (oget start ''workflow_type''))) (\<lambda>w.
         sbind (slift (restored_state es)) (\<lambda>st.
         sbind (slift (case payload_get (first_of ''SessionResultAccepted'' es) ''envelope'' of
                  JObj v \<Rightarrow> rbind (envelope_from_dict v) (\<lambda>e. Inr (Some e)) | _ \<Rightarrow> Inr None)) (\<lambda>envelope.
         sbind (slift (case first_of ''ChangesDetected'' es of
                  Some c \<Rightarrow> if w = MILESTONE_INTEGRATION
                    then rbind (tuple_of (oget (payload c) ''changed_paths'')) (\<lambda>ps. Inr (Some ps)) else Inr None
                | None \<Rightarrow> Inr None)) (\<lambda>prepared.
         let t = restored_transaction K tx start es w policy st in
         sbind (smodify (\<lambda>s. s\<lparr>ks_envelope := envelope,
             ks_validated := payload_get (first_of ''ValidationPassed'' es) ''diff_fingerprint'',
             ks_final := payload_get (first_of ''CommitFinalized'' es) ''commit'',
             ks_prepared_paths := (case prepared of None \<Rightarrow> ks_prepared_paths s | Some ps \<Rightarrow> Some ps),
             ks_normalization := (case checkpoint_named ''controller_execution_policy_normalization'' es of
                 None \<Rightarrow> ks_normalization s
               | Some e \<Rightarrow> Some (filter (\<lambda>kv. ohas (payload e) (fst kv))
                     (map (\<lambda>k. (k, oget (payload e) k)) normalization_fields))),
             ks_prepared_commit := (case checkpoint_named ''integration_target'' es of
                 None \<Rightarrow> ks_prepared_commit s | Some e \<Rightarrow> oget (payload e) ''accepted_commit''),
             ks_transaction := Some t\<rparr>)) (\<lambda>_. sret t))))))))"

subsection \<open>Beginning a transaction\<close>

record begin_args =
  ba_workflow :: workflow_type
  ba_milestone :: "string option"
  ba_feature_id :: "string option"
  ba_run_id :: string
  ba_policy :: mutation_policy
  ba_transaction_id :: "string option"
  ba_start_evidence :: obj
  ba_expected_branch :: "string option"
  ba_expected_head :: "string option"

definition created :: "'r kenv \<Rightarrow> begin_args \<Rightarrow> snapshot \<Rightarrow> ('r kstate, phase_transaction) eff" where
  "created K a sn =
     sbind (k_fresh K) (\<lambda>uid.
     slift (tx_create (ba_workflow a) (ke_project_id K) sn (ba_milestone a) (ba_feature_id a) (ba_run_id a)
       (ba_policy a) (ba_transaction_id a) uid))"

definition canonical_start_fields :: "string list" where
  "canonical_start_fields = [''run_id'', ''milestone'', ''feature_id'', ''starting_branch'', ''starting_head'',
     ''starting_queue_fingerprint'', ''starting_tracked_diff_fingerprint'', ''starting_untracked_fingerprint'',
     ''allowed_mutation_policy'']"

definition start_payload :: "begin_args \<Rightarrow> snapshot \<Rightarrow> obj" where
  "start_payload a sn =
     [(''run_id'', JStr (ba_run_id a)), (''milestone'', of_opt (ba_milestone a)),
      (''feature_id'', of_opt (ba_feature_id a)), (''starting_branch'', JStr (sn_branch sn)),
      (''starting_head'', JStr (sn_head sn)), (''starting_queue_fingerprint'', of_opt (sn_queue_fingerprint sn)),
      (''starting_tracked_diff_fingerprint'', JStr (sn_tracked_diff_fingerprint sn)),
      (''starting_untracked_fingerprint'', JStr (sn_untracked_fingerprint sn)),
      (''allowed_mutation_policy'', JObj (policy_dict (ba_policy a)))]"

text \<open>The handler of both ways to begin: the lease is released, the transaction forgotten, and the
  exception raised again; if the release raises, that exception leaves the handler.\<close>

definition abandon :: "'r kenv \<Rightarrow> exn \<Rightarrow> ('r kstate, 'a) eff" where
  "abandon K e =
     sbind (release_preacquired_lease K) (\<lambda>_.
     sbind (smodify (\<lambda>s. s\<lparr>ks_transaction := None\<rparr>)) (\<lambda>_. slift (Inl e)))"

definition no_transaction :: "('r kstate, unit) eff" where
  "no_transaction = sbind sget (\<lambda>s. tx_check (ks_transaction s = None) ''kernel instance already owns a transaction'')"

definition k_begin :: "'r kenv \<Rightarrow> begin_args \<Rightarrow> ('r kstate, phase_transaction) eff" where
  "k_begin K a =
     sbind no_transaction (\<lambda>_.
     sbind (k_snapshot K) (\<lambda>sn0.
     sbind (created K a sn0) (\<lambda>tx0.
     sbind (k_interrupt K ''before_lease'' tx0) (\<lambda>_.
     sbind (k_snapshot K) (\<lambda>sn.
     sbind (tx_check (\<not> snapshot_busy sn) ''cannot begin a transaction during an active Git operation'') (\<lambda>_.
     sbind (tx_check (\<not> (require_clean_start (ba_policy a) \<and> \<not> snapshot_clean sn))
              ''new transaction requires a clean repository snapshot'') (\<lambda>_.
     sbind (tx_check (when_given (ba_expected_branch a) (\<lambda>b. sn_branch sn = b)
                \<and> when_given (ba_expected_head a) (\<lambda>h. sn_head sn = h))
              ''repository snapshot differs from the planned transaction start'') (\<lambda>_.
     sbind (created K a sn) (\<lambda>tx.
     sbind (smodify (\<lambda>s. s\<lparr>ks_transaction := Some tx\<rparr>)) (\<lambda>_.
     sbind (preacquire_lease K) (\<lambda>_.
     sbind (scatch (\<lambda>_. True)
       (sbind (k_snapshot K) (\<lambda>leased.
        sbind (tx_check (same_start leased tx
                 \<and> \<not> (require_clean_start (ba_policy a) \<and> \<not> snapshot_clean leased) \<and> \<not> snapshot_busy leased)
                 ''repository changed before the planned writer lease was acquired'') (\<lambda>_.
        sbind (tx_check (list_all (\<lambda>kv. fst kv \<notin> set canonical_start_fields) (ba_start_evidence a))
                 ''start evidence cannot override canonical transaction identity'') (\<lambda>_.
        k_append K tx ''TransactionStarted'' (oupdate (start_payload a sn) (ba_start_evidence a))))))
       (abandon K)) (\<lambda>_.
     sbind (k_transition LEASE_PENDING) (\<lambda>_. k_require)))))))))))))"

text \<open>The queue file of a commit, as its fingerprint.\<close>

definition committed_queue :: "'r kenv \<Rightarrow> string \<Rightarrow> ('r kstate, string option) eff" where
  "committed_queue K commit =
     sbind (k_ask K (\<lambda>H root. inspector_git H root [''show'', commit @ '':'' @ ke_queue_location K] False)) (\<lambda>c.
     sret (if cp_status c = 0 then Some (sha256_hex (cp_out c)) else None))"

definition k_begin_for_branch :: "'r kenv \<Rightarrow> begin_args \<Rightarrow> string \<Rightarrow> ('r kstate, phase_transaction) eff" where
  "k_begin_for_branch K a target_branch =
     sbind no_transaction (\<lambda>_.
     sbind (k_snapshot K) (\<lambda>live.
     sbind (k_ask K (\<lambda>H root. rev_parse H root target_branch False)) (\<lambda>target_head.
     case target_head of
       None \<Rightarrow> tx_error ''target workflow branch does not exist''
     | Some target_head \<Rightarrow>
     sbind (tx_check (when_given (ba_expected_branch a) (\<lambda>b. target_branch = b)
                \<and> when_given (ba_expected_head a) (\<lambda>h. target_head = h))
              ''target branch differs from the planned transaction start'') (\<lambda>_.
     sbind (tx_check (snapshot_clean live \<and> \<not> snapshot_busy live)
              ''target-branch workflow requires a clean repository'') (\<lambda>_.
     sbind (committed_queue K target_head) (\<lambda>target_queue.
     let target = live\<lparr>sn_branch := target_branch, sn_head := target_head, sn_queue_fingerprint := target_queue\<rparr> in
     sbind (created K a target) (\<lambda>tx.
     sbind (k_interrupt K ''before_lease'' tx) (\<lambda>_.
     sbind (smodify (\<lambda>s. s\<lparr>ks_transaction := Some tx\<rparr>)) (\<lambda>_.
     sbind (preacquire_lease K) (\<lambda>_.
     sbind (scatch (\<lambda>_. True)
       (sbind (k_snapshot K) (\<lambda>leased.
        sbind (k_ask K (\<lambda>H root. rev_parse H root target_branch False)) (\<lambda>leased_head.
        sbind (case leased_head of None \<Rightarrow> sret None | Some h \<Rightarrow> committed_queue K h) (\<lambda>leased_queue.
        sbind (tx_check (sn_repository_identity leased = tx_repository_identity tx
                 \<and> sn_repository_path_fingerprint leased = tx_repository_path_fingerprint tx
                 \<and> leased_head = Some (tx_starting_head tx) \<and> leased_queue = tx_starting_queue_fingerprint tx
                 \<and> sn_tracked_diff_fingerprint leased = tx_starting_tracked_diff_fingerprint tx
                 \<and> sn_untracked_fingerprint leased = tx_starting_untracked_fingerprint tx
                 \<and> snapshot_clean leased \<and> \<not> snapshot_busy leased)
                 ''repository changed before the planned branch writer lease was acquired'') (\<lambda>_.
        k_append K tx ''TransactionStarted'' (start_payload a target
          @ [(''provisional_observed_branch'', JStr (sn_branch live)),
             (''provisional_observed_head'', JStr (sn_head live))]))))))
       (abandon K)) (\<lambda>_.
     sbind (k_transition LEASE_PENDING) (\<lambda>_. k_require))))))))))))"

definition prepare_starting_branch :: "'r kenv \<Rightarrow> ('r kstate, unit) eff" where
  "prepare_starting_branch K =
     sbind k_require (\<lambda>tx.
     sbind (revalidate_lease K) (\<lambda>_.
     sbind (k_ask K is_clean) (\<lambda>c.
     sbind (if c then sbind (k_ask K git_operation_state) (\<lambda>os. sret (\<not> list_ex snd os)) else sret False) (\<lambda>ready.
     sbind (tx_check ready ''cannot prepare workflow branch from a dirty repository'') (\<lambda>_.
     sbind (k_ask K current_branch) (\<lambda>b.
     sbind (swhen (b \<noteq> Some (tx_starting_branch tx)) (k_run_git K [''switch'', tx_starting_branch tx])) (\<lambda>_.
     sbind (k_ask K repo_head) (\<lambda>h.
     tx_check (h = tx_starting_head tx) ''prepared workflow branch HEAD differs from transaction start''))))))))"

subsection \<open>Lease, snapshot, session\<close>

definition acquire_lease :: "'r kenv \<Rightarrow> ('r kstate, obj) eff" where
  "acquire_lease K =
     sbind k_require (\<lambda>tx.
     sbind sget (\<lambda>s.
     sbind (case ks_preacquired s of
         None \<Rightarrow> k_lease K (\<lambda>w. wl_acquire w (tx_acquire K tx))
       | Some r \<Rightarrow> sbind (revalidate_lease K) (\<lambda>_. sret r)) (\<lambda>r.
     sbind (smodify (\<lambda>s. s\<lparr>ks_preacquired := None\<rparr>)) (\<lambda>_.
     sbind (k_bind_lease r) (\<lambda>_.
     sbind (k_transition ACTIVE) (\<lambda>_.
     sbind (k_append K tx ''LeaseAcquired''
         [(''lease_id'', wl_lease_id r), (''lease_type'', JStr (lease_value (wl_lease_type r))),
          (''owner_pid'', wl_owner_pid r), (''owner_process_start'', wl_owner_process_start r),
          (''starting_branch'', wl_starting_branch r), (''starting_head'', wl_starting_head r)]) (\<lambda>_.
     sbind k_require (\<lambda>tx'.
     sbind (k_interrupt K ''after_lease'' tx') (\<lambda>_. sret (wl_dict r))))))))))"

definition capture_snapshot :: "'r kenv \<Rightarrow> ('r kstate, obj) eff" where
  "capture_snapshot K =
     sbind k_require (\<lambda>tx.
     sbind (revalidate_lease K) (\<lambda>_.
     sbind (k_snapshot K) (\<lambda>sn.
     sbind (tx_check (same_start sn tx)
              ''repository changed between transaction start and snapshot capture'') (\<lambda>_.
     sbind (k_append K tx ''SnapshotCaptured'' [(''snapshot'', JObj (snapshot_dict sn))]) (\<lambda>_.
     sbind (k_interrupt K ''after_snapshot'' tx) (\<lambda>_. sret (snapshot_dict sn)))))))"

definition session_launched :: "'r kenv \<Rightarrow> string \<Rightarrow> ('r kstate, unit) eff" where
  "session_launched K session_id =
     sbind k_require (\<lambda>tx.
     sbind (revalidate_lease K) (\<lambda>_.
     sbind (validate_mutation_paths K (allowed_paths (tx_policy tx))) (\<lambda>_.
     sbind (tx_check (tx_state tx \<in> {ACTIVE, RESULT_PENDING})
              ''session launch requires an active or result-pending transaction'') (\<lambda>_.
     sbind (k_lease K (\<lambda>w. wl_bind_session w (tx_id tx) (tx_workflow tx) (tx_repository_identity tx)
              (tx_project_id tx) session_id)) (\<lambda>_.
     sbind (k_update (\<lambda>tx. Inr (if session_id \<in> set (tx_session_ids tx) then tx
              else tx\<lparr>tx_session_ids := tx_session_ids tx @ [session_id]\<rparr>))) (\<lambda>_.
     sbind (k_transition RESULT_PENDING) (\<lambda>_.
     sbind (k_append K tx ''SessionLaunched'' [(''session_id'', JStr session_id)]) (\<lambda>_.
     sbind k_require (\<lambda>tx'. k_interrupt K ''after_session_launch'' tx')))))))))"

subsection \<open>The result\<close>

text \<open>Everything a result must repeat of its transaction; \<open>h\<close> is the HEAD of the repository.\<close>

definition envelope_matches :: "phase_transaction \<Rightarrow> workflow_lease \<Rightarrow> string \<Rightarrow> session_envelope \<Rightarrow> bool" where
  "envelope_matches tx r h e \<longleftrightarrow>
     se_workflow_type e = tx_workflow tx \<and> se_project_id e = tx_project_id tx
     \<and> se_repository_identity e = tx_repository_identity tx \<and> se_transaction_id e = tx_id tx
     \<and> se_run_id e = tx_run_id tx
     \<and> last_session tx = Some (se_session_id e) \<and> wl_session_id r = JStr (se_session_id e)
     \<and> se_starting_branch e = tx_starting_branch tx \<and> se_starting_commit e = tx_starting_head tx
     \<and> se_current_commit e = tx_starting_head tx \<and> tx_starting_head tx = h
     \<and> se_feature_id e = tx_feature_id tx"

definition normalization_ok :: "obj \<Rightarrow> phase_transaction \<Rightarrow> session_envelope \<Rightarrow> string list \<Rightarrow> bool res" where
  "normalization_ok n tx e observed =
     rbind (tuple_of (oget n ''source_paths'')) (\<lambda>source.
     rbind (tuple_of (oget n ''final_paths'')) (\<lambda>final.
     Inr (tx_workflow tx = QUEUE_RECONCILIATION \<and> map JStr (se_changed_paths e) = source
       \<and> final = map JStr observed)))"

definition accept_result :: "'r kenv \<Rightarrow> session_envelope \<Rightarrow> ('r kstate, unit) eff" where
  "accept_result K e =
     sbind k_require (\<lambda>tx.
     sbind (revalidate_lease K) (\<lambda>r.
     sbind (if se_current_commit e = tx_starting_head tx then k_ask K repo_head else sret (tx_starting_head tx)) (\<lambda>hd.
     sbind (tx_check (envelope_matches tx r hd e) ''session-result identity mismatch'') (\<lambda>_.
     sbind sget (\<lambda>s.
     sbind (tx_check (ks_envelope s = None) ''transaction already accepted a session result'') (\<lambda>_.
     sbind (slift (policy_validate (tx_policy tx) (se_changed_paths e))) (\<lambda>_.
     sbind (changed_paths K) (\<lambda>observed.
     sbind (validate_mutation_paths K observed) (\<lambda>_.
     sbind (case ks_normalization s of
         None \<Rightarrow> sret ()
       | Some n \<Rightarrow> sbind (slift (normalization_ok n tx e observed)) (\<lambda>ok.
           tx_check ok ''session result disagrees with authenticated controller normalization'')) (\<lambda>_.
     sbind (if observed = se_changed_paths e
            then sbind (k_ask K (\<lambda>H root. content_diff_fingerprint H root observed None)) (\<lambda>fp. sret (Some fp))
            else sret None) (\<lambda>fp.
     sbind (smodify (\<lambda>s. s\<lparr>ks_envelope := Some e\<rparr>)) (\<lambda>_.
     sbind (k_transition VALIDATING) (\<lambda>_.
     sbind (k_append K tx ''SessionResultAccepted''
         [(''classification'', JStr (se_classification e)), (''session_id'', JStr (se_session_id e)),
          (''current_commit'', JStr (se_current_commit e)), (''changed_paths'', strs (se_changed_paths e)),
          (''next_state'', JStr (se_next_state e)), (''observed_diff_fingerprint'', of_opt fp),
          (''envelope'', JObj (envelope_dict e))]) (\<lambda>_.
     sbind k_require (\<lambda>tx'. k_interrupt K ''after_session_result'' tx')))))))))))))))"

definition authorize_normalization ::
  "'r kenv \<Rightarrow> string list \<Rightarrow> string list \<Rightarrow> string \<Rightarrow> ('r kstate, unit) eff" where
  "authorize_normalization K source_paths normalization_paths expected_fingerprint =
     sbind k_require (\<lambda>tx.
     sbind sget (\<lambda>s.
     sbind (tx_check (tx_workflow tx = QUEUE_RECONCILIATION \<and> ks_envelope s = None \<and> ks_normalization s = None)
              ''controller execution-policy normalization is not available'') (\<lambda>_.
     sbind (revalidate_lease K) (\<lambda>_.
     let source = sorted_set source_paths; normalization = sorted_set normalization_paths in
     sbind (changed_paths K) (\<lambda>observed.
     sbind (if normalization \<noteq> [] \<and> sorted_set (source @ normalization) = observed
            then sbind (k_ask K planning_diff_fingerprint) (\<lambda>fp. sret (fp = expected_fingerprint)) else sret False) (\<lambda>ok.
     sbind (tx_check ok ''controller execution-policy normalization does not match the final planning diff'') (\<lambda>_.
     sbind (slift (policy_validate (tx_policy tx) observed)) (\<lambda>_.
     let evidence = [(''source_paths'', strs source), (''normalization_paths'', strs normalization),
       (''final_paths'', strs observed), (''final_diff_fingerprint'', JStr expected_fingerprint),
       (''model_session_launched'', JBool False)] in
     sbind (smodify (\<lambda>s. s\<lparr>ks_normalization := Some evidence\<rparr>)) (\<lambda>_.
     checkpoint K ''controller_execution_policy_normalization'' evidence)))))))))"

definition record_file_mutation_boundary :: "'r kenv \<Rightarrow> ('r kstate, unit) eff" where
  "record_file_mutation_boundary K =
     sbind k_require (\<lambda>tx.
     sbind (k_read K) (\<lambda>es.
     sbind (tx_check (typed_events tx ''ChangesDetected'' es = [])
              ''transaction already has a durable mutation boundary'') (\<lambda>_.
     sbind (changed_paths K) (\<lambda>paths.
     sbind (validate_mutation_paths K paths) (\<lambda>_.
     sbind (validate_untracked_policy K) (\<lambda>_.
     sbind (slift (policy_validate (tx_policy tx) paths)) (\<lambda>_.
     sbind (diff_fingerprint K) (\<lambda>fp.
     sbind (k_append K tx ''ChangesDetected''
         [(''changed_paths'', strs paths), (''diff_fingerprint'', JStr fp)]) (\<lambda>_.
     k_interrupt K ''after_file_mutation'' tx)))))))))"

subsection \<open>Integration changes\<close>

definition integration_of :: "phase_transaction \<Rightarrow> string \<Rightarrow> obj \<Rightarrow> bool" where
  "integration_of tx commit e \<longleftrightarrow>
     etype e = ''TransactionCompleted'' \<and> oget e ''workflow_type'' = JStr (workflow_value MILESTONE_INTEGRATION)
     \<and> (py_eq (oget (payload e) ''feature_id'') (of_opt (tx_feature_id tx))
        \<or> oget (payload e) ''accepted_feature_commit'' = JStr commit)"

definition queue_feature :: "'r kenv \<Rightarrow> string \<Rightarrow> ('r kstate, obj option) eff" where
  "queue_feature K feature =
     sbind (k_repo machine) (\<lambda>m.
     sbind (slift (queue_from_location (ke_float K) (queue_env (ke_host K) m) (ke_text K m) (ke_repository K)
              (JStr (ke_queue_location K)))) (\<lambda>q.
     sret (feature_in q (JStr feature))))"

definition check_not_in_history :: "'r kenv \<Rightarrow> string \<Rightarrow> string \<Rightarrow> ('r kstate, unit) eff" where
  "check_not_in_history K patch commit =
     sbind (k_ask K (\<lambda>H root. rev_parse H root (commit @ ''^'') False)) (\<lambda>parent.
     swhen (parent \<noteq> None)
       (sbind (k_ask K (\<lambda>H root. patch_fingerprint H root commit)) (\<lambda>fp.
        tx_check (fp \<noteq> patch) ''accepted patch is already present in milestone history'')))"

definition prepare_integration_changes :: "'r kenv \<Rightarrow> string \<Rightarrow> ('r kstate, string list) eff" where
  "prepare_integration_changes K accepted =
     sbind k_require (\<lambda>tx.
     sbind (tx_check (tx_workflow tx = MILESTONE_INTEGRATION)
              ''integration preparation requires milestone_integration'') (\<lambda>_.
     sbind (tx_check (tx_state tx = VALIDATING) ''integration changes require an accepted typed result'') (\<lambda>_.
     sbind (revalidate_lease K) (\<lambda>_.
     sbind (k_ask K repo_head) (\<lambda>hd.
     sbind (if hd = tx_starting_head tx
            then sbind (k_ask K current_branch) (\<lambda>b. sret (b = Some (tx_starting_branch tx))) else sret False) (\<lambda>same.
     sbind (tx_check same ''integration branch changed before applying accepted commit'') (\<lambda>_.
     sbind (k_ask K (\<lambda>H root. rev_parse H root accepted True)) (\<lambda>resolved.
     let accepted_commit = (case given resolved of Some c \<Rightarrow> c | None \<Rightarrow> accepted) in
     sbind (k_ask K (\<lambda>H root. is_ancestor H root accepted_commit (tx_starting_branch tx))) (\<lambda>merged.
     sbind (tx_check (\<not> merged) ''accepted commit is already integrated by ancestry'') (\<lambda>_.
     sbind (k_read K) (\<lambda>es.
     sbind (tx_check (filter (integration_of tx accepted_commit) es = [])
              ''feature or accepted commit already has terminal integration evidence'') (\<lambda>_.
     sbind (case given (tx_feature_id tx) of
         None \<Rightarrow> sret ()
       | Some f \<Rightarrow> sbind (queue_feature K f) (\<lambda>found.
           case found of None \<Rightarrow> sret ()
           | Some d \<Rightarrow> tx_check (\<not> (oget d ''status'' = JStr ''integrated'' \<or> is_str (oget d ''integrated_commit'')))
               ''feature queue already records completed integration'')) (\<lambda>_.
     sbind (k_ask K (\<lambda>H root. patch_fingerprint H root accepted_commit)) (\<lambda>patch.
     sbind (k_ask K (\<lambda>H root. git_output H root [''rev-list'', tx_starting_head tx])) (\<lambda>history_out.
     sbind (sall (check_not_in_history K patch) (str_splitlines history_out)) (\<lambda>_.
     sbind (k_ask K (\<lambda>H root. git_output H root
         [''diff-tree'', ''--no-commit-id'', ''--name-only'', ''-r'', accepted_commit])) (\<lambda>out.
     let paths = sort (str_splitlines out) in
     sbind (tx_check (paths \<noteq> []) ''accepted integration commit has no changed paths'') (\<lambda>_.
     sbind (slift (policy_validate (tx_policy tx) paths)) (\<lambda>_.
     sbind (checkpoint K ''integration_target''
         [(''accepted_commit'', JStr accepted_commit), (''accepted_patch_fingerprint'', JStr patch),
          (''expected_paths'', strs paths)]) (\<lambda>_.
     sbind (k_run_git K [''cherry-pick'', ''--no-commit'', accepted_commit]) (\<lambda>_.
     sbind (changed_paths K) (\<lambda>prepared.
     sbind (tx_check (prepared \<noteq> []) ''integration preparation produced no repository diff'') (\<lambda>_.
     sbind (tx_check (prepared = paths) ''prepared integration diff does not exactly match accepted paths'') (\<lambda>_.
     sbind (smodify (\<lambda>s. s\<lparr>ks_prepared_paths := Some (map JStr paths),
              ks_prepared_commit := JStr accepted_commit\<rparr>)) (\<lambda>_. sret paths)))))))))))))))))))))))))"

end
