(* ===== verification/Kernel_Finalize.thy ===== *)
theory Kernel_Finalize
  imports Kernel_Phases
begin

section \<open>The workflow kernel: validation, the final commit and the terminal event\<close>

text \<open>
  \<^verbatim>\<open>validate\<close>, \<^verbatim>\<open>finalize\<close>, \<^verbatim>\<open>finalize_feature_branch\<close>,
  \<^verbatim>\<open>complete\<close>, \<^verbatim>\<open>_revalidate_terminal_repository\<close> and
  \<^verbatim>\<open>block\<close> of \<^verbatim>\<open>kernel.py\<close>.
\<close>

subsection \<open>Validation\<close>

text \<open>The change sets a result may claim for the observed paths.\<close>

definition allowed_claims :: "phase_transaction \<Rightarrow> obj option \<Rightarrow> json list option \<Rightarrow> json list \<Rightarrow> json list list res" where
  "allowed_claims tx normalization prepared paths =
     rbind (case normalization of
         Some n \<Rightarrow>
           if tx_workflow tx = QUEUE_RECONCILIATION
           then rbind (tuple_of (oget n ''final_paths'')) (\<lambda>final.
             if final = paths then rbind (tuple_of (oget n ''source_paths'')) (\<lambda>source. Inr [source]) else Inr [])
           else Inr []
       | None \<Rightarrow> Inr []) (\<lambda>sources.
     Inr (paths # sources
       @ (if tx_workflow tx = MILESTONE_INTEGRATION \<and> prepared = Some paths then [[]] else [])))"

text \<open>The block of \<^verbatim>\<open>validate\<close> whose \<^verbatim>\<open>TransactionError\<close> is recorded.\<close>

definition decide ::
  "phase_transaction \<Rightarrow> session_envelope \<Rightarrow> string list \<Rightarrow> command_record list
   \<Rightarrow> (session_envelope \<Rightarrow> string list \<Rightarrow> unit res) option \<Rightarrow> (command_record list \<times> command_record list) res" where
  "decide tx e paths results semantic =
     rbind (validate_commands results) (\<lambda>decided.
     rbind (check (se_classification e \<in> set (WORKFLOW_SUCCESS_CLASSIFICATIONS (tx_workflow tx))) TransactionError
              ''a terminal non-success result cannot finalize'') (\<lambda>_.
     rbind (case semantic of None \<Rightarrow> Inr () | Some f \<Rightarrow> f e paths) (\<lambda>_. Inr decided)))"

definition is_tx_error :: "exn \<Rightarrow> bool" where
  "is_tx_error e \<longleftrightarrow> issubclass (exn_cls e) TransactionError"

definition k_validate ::
  "'r kenv \<Rightarrow> command_record list \<Rightarrow> (session_envelope \<Rightarrow> string list \<Rightarrow> unit res) option \<Rightarrow> ('r kstate, obj list) eff" where
  "k_validate K results semantic =
     sbind k_require (\<lambda>tx.
     sbind sget (\<lambda>s0.
     case ks_envelope s0 of
       None \<Rightarrow> tx_error ''validation requires one accepted session result''
     | Some e \<Rightarrow>
     sbind (tx_check (tx_state tx = VALIDATING) ''validation requires one accepted session result'') (\<lambda>_.
     sbind (k_interrupt K ''before_validation'' tx) (\<lambda>_.
     sbind (revalidate_lease K) (\<lambda>_.
     sbind (changed_paths K) (\<lambda>paths.
     sbind (validate_mutation_paths K paths) (\<lambda>_.
     sbind (k_snapshot K) (\<lambda>current.
     sbind (tx_check (sn_branch current = tx_starting_branch tx) ''starting branch changed before finalization'') (\<lambda>_.
     sbind (tx_check (sn_head current = tx_starting_head tx) ''starting HEAD changed before kernel finalization'') (\<lambda>_.
     sbind (validate_untracked_policy K) (\<lambda>_.
     sbind (slift (policy_validate (tx_policy tx) paths)) (\<lambda>_.
     sbind (slift (allowed_claims tx (ks_normalization s0) (ks_prepared_paths s0) (map JStr paths))) (\<lambda>claims.
     sbind (tx_check (map JStr (se_changed_paths e) \<in> set claims)
              ''session-result changed paths do not match repository evidence'') (\<lambda>_.
     sbind (diff_fingerprint K) (\<lambda>fp.
     sbind (assert_durable_boundary K paths fp) (\<lambda>_.
     sbind (smodify (\<lambda>s. s\<lparr>ks_validated := JStr fp\<rparr>)) (\<lambda>_.
     sbind (k_append K tx ''ValidationStarted'' [(''changed_paths'', strs paths)]) (\<lambda>_.
     sbind (scatch is_tx_error (slift (decide tx e paths results semantic))
              (\<lambda>exc. sbind (k_append K tx ''ValidationFailed'' [(''diagnostic'', JStr (exn_msg exc))]) (\<lambda>_.
                 slift (Inl exc)))) (\<lambda>(records, warnings).
     sbind (smodify (\<lambda>s. s\<lparr>ks_commands := records\<rparr>)) (\<lambda>_.
     sbind (k_append K tx ''ValidationPassed''
         [(''commands'', JArr (map (\<lambda>r. JObj (command_dict r)) records)),
          (''warnings'', JArr (map (\<lambda>r. JObj (command_dict r)) warnings)), (''diff_fingerprint'', JStr fp)]) (\<lambda>_.
     sbind (k_transition FINALIZING) (\<lambda>_.
     sbind k_require (\<lambda>tx'.
     sbind (k_interrupt K ''after_validation'' tx') (\<lambda>_.
     sret (map command_dict records)))))))))))))))))))))))))"

subsection \<open>The final commit\<close>

definition empty_commit_payload :: "phase_transaction \<Rightarrow> obj" where
  "empty_commit_payload tx =
     [(''commit'', JStr (tx_starting_head tx)), (''parent'', JNull), (''changed_paths'', JArr []),
      (''diff_fingerprint'', JNull), (''commit_subject'', JNull), (''no_change'', JBool True)]"

text \<open>An empty diff: only phases that need not change anything may end with one.\<close>

definition finalize_unchanged :: "'r kenv \<Rightarrow> phase_transaction \<Rightarrow> session_envelope option \<Rightarrow> ('r kstate, string) eff" where
  "finalize_unchanged K tx envelope =
     (let reference = (case envelope of None \<Rightarrow> JNull | Some e \<Rightarrow> oget (se_evidence e) ''accepted_feature_commit'') in
      sbind (case (tx_workflow tx, reference) of
          (FEATURE_ACCEPTANCE, JStr c) \<Rightarrow>
            sbind (k_ask K (\<lambda>H root. rev_parse H root c False)) (\<lambda>v. sret (v = Some (tx_starting_head tx)))
        | _ \<Rightarrow> sret False) (\<lambda>read_only_acceptance.
      sbind (tx_check (\<not> (tx_workflow tx \<in> {FEATURE_EXECUTION, MILESTONE_INTEGRATION}
                \<or> (tx_workflow tx = FEATURE_ACCEPTANCE \<and> \<not> read_only_acceptance)))
               ''cannot finalize without a nonempty diff'') (\<lambda>_.
      sbind (smodify (\<lambda>s. s\<lparr>ks_final := JStr (tx_starting_head tx)\<rparr>)) (\<lambda>_.
      sbind (k_append K tx ''CommitFinalized'' (empty_commit_payload tx)) (\<lambda>_.
      sbind (k_interrupt K ''after_commit'' tx) (\<lambda>_. sret (tx_starting_head tx)))))))"

text \<open>An integration commit is the accepted patch on top of the milestone.\<close>

definition check_integration_commit :: "'r kenv \<Rightarrow> phase_transaction \<Rightarrow> json \<Rightarrow> string \<Rightarrow> ('r kstate, unit) eff" where
  "check_integration_commit K tx accepted commit =
     sbind (tx_check (truthy accepted) ''integration finalization lacks accepted-commit identity'') (\<lambda>_.
     sbind (k_ask K (\<lambda>H root. rev_parse H root (commit @ ''^'') False)) (\<lambda>parent.
     sbind (tx_check (parent = Some (tx_starting_head tx))
              ''integration commit is not a direct child of the milestone start'') (\<lambda>_.
     sbind (k_ask K (\<lambda>H root. patch_fingerprint H root commit)) (\<lambda>a.
     sbind (k_ask K (\<lambda>H root. patch_fingerprint H root (py_str accepted))) (\<lambda>b.
     tx_check (a = b) ''integration commit patch differs from accepted commit'')))))"

definition finalize_changes :: "'r kenv \<Rightarrow> phase_transaction \<Rightarrow> string list \<Rightarrow> ('r kstate, string) eff" where
  "finalize_changes K tx paths =
     (case given (commit_subject (tx_policy tx)) of
       None \<Rightarrow> tx_error ''writable transaction has no kernel commit subject''
     | Some subject \<Rightarrow>
     sbind (validate_mutation_paths K paths) (\<lambda>_.
     sbind (k_run_git K ([''add'', ''--''] @ paths)) (\<lambda>_.
     sbind (k_ask K staged_changed_paths) (\<lambda>staged.
     sbind (tx_check (staged = paths) ''staged paths do not match the authorized mutation set'') (\<lambda>_.
     sbind (k_run_git K ([''commit'', ''-m'', subject, ''--''] @ paths)) (\<lambda>_.
     sbind (k_ask K repo_head) (\<lambda>commit.
     sbind (tx_check (commit \<noteq> tx_starting_head tx) ''kernel finalization did not create a commit'') (\<lambda>_.
     sbind (smodify (\<lambda>s. s\<lparr>ks_final := JStr commit\<rparr>)) (\<lambda>_.
     sbind (k_interrupt K ''after_commit'' tx) (\<lambda>_.
     sbind sget (\<lambda>s.
     sbind (if tx_workflow tx = MILESTONE_INTEGRATION
            then check_integration_commit K tx (ks_prepared_commit s) commit else sret ()) (\<lambda>_.
     sbind (k_ask K (\<lambda>H root. patch_fingerprint H root commit)) (\<lambda>patch.
     sbind (k_append K tx ''CommitFinalized''
         [(''commit'', JStr commit), (''parent'', JStr (tx_starting_head tx)), (''changed_paths'', strs paths),
          (''diff_fingerprint'', JStr patch), (''commit_subject'', JStr subject),
          (''accepted_commit'', ks_prepared_commit s),
          (''integration_once'', JBool (tx_workflow tx = MILESTONE_INTEGRATION))]) (\<lambda>_.
     sbind (k_ask K is_clean) (\<lambda>c.
     sbind (tx_check c ''repository is not clean after kernel finalization'') (\<lambda>_.
     sret commit))))))))))))))))"

definition k_finalize :: "'r kenv \<Rightarrow> ('r kstate, string) eff" where
  "k_finalize K =
     sbind k_require (\<lambda>tx.
     sbind (tx_check (tx_state tx = FINALIZING) ''finalization requires passed validation'') (\<lambda>_.
     sbind (revalidate_lease K) (\<lambda>_.
     sbind (k_interrupt K ''before_commit'' tx) (\<lambda>_.
     sbind (changed_paths K) (\<lambda>paths.
     sbind (validate_mutation_paths K paths) (\<lambda>_.
     sbind (k_snapshot K) (\<lambda>current.
     sbind (tx_check (sn_branch current = tx_starting_branch tx \<and> sn_head current = tx_starting_head tx)
              ''branch or HEAD changed after validation'') (\<lambda>_.
     sbind (validate_untracked_policy K) (\<lambda>_.
     sbind (slift (policy_validate (tx_policy tx) paths)) (\<lambda>_.
     sbind (diff_fingerprint K) (\<lambda>fp.
     sbind (assert_durable_boundary K paths fp) (\<lambda>_.
     sbind sget (\<lambda>s.
     sbind (tx_check (ks_validated s = JStr fp) ''repository diff changed after validation'') (\<lambda>_.
     if paths = [] then finalize_unchanged K tx (ks_envelope s) else finalize_changes K tx paths))))))))))))))"

definition finalize_feature_branch :: "'r kenv \<Rightarrow> string \<Rightarrow> ('r kstate, string) eff" where
  "finalize_feature_branch K branch =
     sbind k_require (\<lambda>tx.
     sbind (tx_check (tx_workflow tx = FEATURE_PREPARATION)
              ''feature-branch finalization requires feature_preparation'') (\<lambda>_.
     sbind (tx_check (tx_state tx = FINALIZING) ''feature-branch finalization requires passed validation'') (\<lambda>_.
     sbind (revalidate_lease K) (\<lambda>_.
     sbind (k_interrupt K ''before_commit'' tx) (\<lambda>_.
     sbind (k_ask K current_branch) (\<lambda>b.
     sbind (if b = Some (tx_starting_branch tx)
            then sbind (k_ask K repo_head) (\<lambda>h. sret (h = tx_starting_head tx)) else sret False) (\<lambda>same.
     sbind (tx_check same ''feature branch preparation start changed'') (\<lambda>_.
     sbind (k_append K tx ''CheckpointRecorded''
         [(''checkpoint'', JStr ''feature_branch_target''), (''branch'', JStr branch)]) (\<lambda>_.
     sbind (k_ask K (\<lambda>H root. ref_exists H root branch)) (\<lambda>exists.
     sbind (if exists
            then sbind (k_ask K (\<lambda>H root. rev_parse H root branch True)) (\<lambda>v.
                 sbind (tx_check (v = Some (tx_starting_head tx))
                          ''existing feature branch does not match the transaction start'') (\<lambda>_.
                 k_run_git K [''switch'', branch]))
            else k_run_git K [''switch'', ''-c'', branch, tx_starting_head tx]) (\<lambda>_.
     sbind (smodify (\<lambda>s. s\<lparr>ks_final := JStr (tx_starting_head tx)\<rparr>)) (\<lambda>_.
     sbind (k_interrupt K ''after_commit'' tx) (\<lambda>_.
     sbind (k_append K tx ''CommitFinalized''
         [(''commit'', JStr (tx_starting_head tx)), (''parent'', JNull), (''changed_paths'', JArr []),
          (''branch_created'', JStr branch), (''no_change'', JBool True)]) (\<lambda>_.
     sret (tx_starting_head tx)))))))))))))))"

subsection \<open>The repository before the terminal event\<close>

definition parent_is :: "'r kenv \<Rightarrow> string \<Rightarrow> string \<Rightarrow> ('r kstate, bool) eff" where
  "parent_is K commit parent =
     sbind (k_ask K (\<lambda>H root. rev_parse H root (commit @ ''^'') False)) (\<lambda>v. sret (v = Some parent))"

definition same_patch :: "'r kenv \<Rightarrow> string \<Rightarrow> string \<Rightarrow> ('r kstate, bool) eff" where
  "same_patch K a b =
     sbind (k_ask K (\<lambda>H root. patch_fingerprint H root a)) (\<lambda>x.
     sbind (k_ask K (\<lambda>H root. patch_fingerprint H root b)) (\<lambda>y. sret (x = y)))"

definition recovery_chain :: "'r kenv \<Rightarrow> phase_transaction \<Rightarrow> obj \<Rightarrow> string \<Rightarrow> string \<Rightarrow> ('r kstate, string) eff" where
  "recovery_chain K tx p resulting expected_head =
     (case (oget p ''recovered_pre_integration_head'', oget p ''integrating_metadata_commit'') of
        (JStr parent, JStr integrating) \<Rightarrow>
          sbind (if tx_starting_head tx = integrating
                 then sbind (parent_is K integrating resulting) (\<lambda>a.
                      if a then parent_is K expected_head integrating else sret False)
                 else sret False) (\<lambda>ok.
          sbind (tx_check ok ''controller-plan recovery chain differs from the reserved topology'') (\<lambda>_. sret parent))
      | _ \<Rightarrow> tx_error ''controller-plan recovery chain differs from the reserved topology'')"

definition check_terminal_integration ::
  "'r kenv \<Rightarrow> phase_transaction \<Rightarrow> obj \<Rightarrow> json list \<Rightarrow> ('r kstate, unit) eff" where
  "check_terminal_integration K tx p paths =
     (let accepted = oget p ''accepted_commit''; mode = oget p ''integration_execution_mode'';
          expected_head = py_str (oget p ''commit'') in
      sbind (tx_check (truthy accepted \<and> paths \<noteq> [])
               ''integration terminal evidence lacks nonempty accepted diff'') (\<lambda>_.
      sbind (slift (hash_in mode [''controller_plan'', ''controller_plan_recovery''])) (\<lambda>planned.
      if planned then
        (case oget p ''resulting_feature_commit'' of
           JStr resulting \<Rightarrow>
             sbind (if mode = JStr ''controller_plan_recovery''
                    then recovery_chain K tx p resulting expected_head else sret (tx_starting_head tx)) (\<lambda>parent.
             sbind (parent_is K resulting parent) (\<lambda>a.
             sbind (tx_check a ''controller-plan feature commit is not a direct child of the milestone start'') (\<lambda>_.
             sbind (same_patch K resulting (py_str accepted)) (\<lambda>b.
             sbind (tx_check b ''controller-plan feature commit differs from the accepted patch'') (\<lambda>_.
             sbind (k_ask K (\<lambda>H root. is_ancestor H root resulting expected_head)) (\<lambda>c.
             tx_check c ''controller-plan final evidence does not descend from the feature commit''))))))
         | _ \<Rightarrow> tx_error ''controller-plan integration lacks its resulting feature commit'')
      else
        sbind (parent_is K expected_head (tx_starting_head tx)) (\<lambda>a.
        sbind (tx_check a ''integration terminal commit is not a direct child'') (\<lambda>_.
        sbind (same_patch K expected_head (py_str accepted)) (\<lambda>b.
        tx_check b ''integration terminal patch differs from accepted patch''))))))"

definition revalidate_terminal_repository :: "'r kenv \<Rightarrow> ('r kstate, unit) eff" where
  "revalidate_terminal_repository K =
     sbind k_require (\<lambda>tx.
     sbind (revalidate_lease K) (\<lambda>_.
     sbind (k_ask K git_operation_state) (\<lambda>ops.
     sbind (tx_check (\<not> list_ex snd ops) ''Git operation appeared before transaction completion'') (\<lambda>_.
     sbind (k_ask K is_clean) (\<lambda>c.
     sbind (if c then sret True
            else if require_clean_start (tx_policy tx) then sret False else baseline_unchanged K) (\<lambda>ok.
     sbind (tx_check ok ''repository is not clean before transaction completion'') (\<lambda>_.
     sbind (k_read K) (\<lambda>es.
     case rev (typed_events tx ''CommitFinalized'' es) of
       [] \<Rightarrow> tx_error ''completion requires durable commit-finalization evidence''
     | finalized # _ \<Rightarrow>
     let p = payload finalized;
         expected_branch = (if tx_workflow tx = FEATURE_PREPARATION then oget p ''branch_created''
                            else JStr (tx_starting_branch tx)) in
     sbind (k_ask K current_branch) (\<lambda>b.
     sbind (if of_opt b = expected_branch
            then sbind (k_ask K repo_head) (\<lambda>h. sret (oget p ''commit'' = JStr h)) else sret False) (\<lambda>same.
     sbind (tx_check same ''repository branch or HEAD changed before terminal evidence'') (\<lambda>_.
     sbind (slift (tuple_of (oget p ''changed_paths''))) (\<lambda>paths.
     sbind (if paths = [] then sret True
            else sbind (k_ask K (\<lambda>H root. commit_changed_paths H root (py_str (oget p ''commit'')))) (\<lambda>final.
              sret (JArr (map JStr (sort final)) = JArr (sort_key text_of paths)))) (\<lambda>ok2.
     sbind (tx_check ok2 ''final commit paths differ from durable finalization evidence'') (\<lambda>_.
     sbind (if truthy (oget p ''diff_fingerprint'')
            then sbind (k_ask K (\<lambda>H root. patch_fingerprint H root (py_str (oget p ''commit'')))) (\<lambda>fp.
              sret (oget p ''diff_fingerprint'' = JStr fp)) else sret True) (\<lambda>ok3.
     sbind (tx_check ok3 ''final commit diff differs from durable finalization evidence'') (\<lambda>_.
     if tx_workflow tx = MILESTONE_INTEGRATION then check_terminal_integration K tx p paths
     else sret ()))))))))))))))))"

subsection \<open>The terminal event\<close>

record complete_args =
  ca_classification :: "string option"
  ca_evidence :: obj
  ca_materialization :: "obj option"

definition reserved_terminal_fields :: "string list" where
  "reserved_terminal_fields = [''classification'', ''reference'', ''feature_id'', ''next_state'', ''terminal_snapshot'']"

definition terminal_snapshot_dict :: "snapshot \<Rightarrow> obj" where
  "terminal_snapshot_dict sn = oset ''clean'' (JBool (snapshot_clean sn)) (snapshot_dict sn)"

text \<open>Where the materialisation of a terminal callback stands: the identity the pending checkpoint
  names, if there is one, and whether it was acknowledged.\<close>

definition pending_id :: "obj list \<Rightarrow> json option" where
  "pending_id es = map_option (\<lambda>e. oget (payload e) ''materialization_id'')
     (checkpoint_named ''compatibility_materialization_pending'' es)"

definition acknowledged :: "obj list \<Rightarrow> bool" where
  "acknowledged es \<longleftrightarrow> checkpoint_named ''compatibility_materialization_acknowledged'' es \<noteq> None"

definition completion_payload ::
  "phase_transaction \<Rightarrow> json \<Rightarrow> string \<Rightarrow> string \<Rightarrow> snapshot \<Rightarrow> obj \<Rightarrow> obj" where
  "completion_payload tx final classification next_state sn evidence =
     (let base = oupdate [(''classification'', JStr classification), (''reference'', final),
            (''feature_id'', of_opt (tx_feature_id tx)), (''next_state'', JStr next_state),
            (''terminal_snapshot'', JObj (terminal_snapshot_dict sn))] evidence;
          candidate_only = (tx_workflow tx = FEATURE_EXECUTION \<and> truthy (oget evidence ''candidate_implementation_commit''));
          accepted = (if tx_workflow tx \<in> {FEATURE_EXECUTION, FEATURE_ACCEPTANCE} \<and> \<not> candidate_only
                        \<and> \<not> truthy (oget base ''accepted_feature_commit'')
                      then oset ''accepted_feature_commit'' final base else base)
      in if tx_workflow tx = MILESTONE_INTEGRATION \<and> \<not> truthy (oget accepted ''integrated_commit'')
         then oset ''integrated_commit'' final accepted else accepted)"

text \<open>The materialisation intent; the result is the identity to acknowledge and whether one is pending.\<close>

definition k_intent ::
  "'r kenv \<Rightarrow> phase_transaction \<Rightarrow> bool \<Rightarrow> bool \<Rightarrow> obj option \<Rightarrow> obj list \<Rightarrow> ('r kstate, json \<times> bool) eff" where
  "k_intent K tx terminal callback materialization es =
     (let own = of_opt (map_option (\<lambda>m. fingerprint (JObj m)) materialization) in
      sbind (tx_check (\<not> (callback \<and> materialization = None))
               ''terminal callback requires a deterministic materialization descriptor'') (\<lambda>_.
      case pending_id es of
        Some expected \<Rightarrow>
          sbind (tx_check (own = JNull \<or> own = expected)
                   ''terminal materialization descriptor changed during replay'') (\<lambda>_. sret (expected, True))
      | None \<Rightarrow>
          if callback then
            sbind (tx_check (\<not> terminal) ''completed transaction lacks durable materialization intent'') (\<lambda>_.
            sbind (k_append K tx ''CheckpointRecorded''
                [(''checkpoint'', JStr ''compatibility_materialization_pending''), (''materialization_id'', own),
                 (''descriptor'', case materialization of None \<Rightarrow> JNull | Some m \<Rightarrow> JObj m)]) (\<lambda>_.
            sret (own, True)))
          else sret (own, False)))"

text \<open>The lease is released if there is one, under its own identity, and the release recorded.\<close>

definition k_release :: "'r kenv \<Rightarrow> ('r kstate, unit) eff" where
  "k_release K =
     sbind (k_lease K (\<lambda>w. wl_read)) (\<lambda>found.
     case found of
       None \<Rightarrow> sret ()
     | Some _ \<Rightarrow>
         sbind (revalidate_lease K) (\<lambda>_.
         sbind (release_owned_lease K) (\<lambda>_.
         sbind k_require (\<lambda>tx.
         k_append K tx ''LeaseReleased'' [(''lease_id'', of_opt (tx_lease_identity tx))]))))"

definition k_terminate ::
  "'r kenv \<Rightarrow> string \<Rightarrow> obj \<Rightarrow> transaction_state \<Rightarrow> string \<Rightarrow> string option \<Rightarrow> string \<Rightarrow> ('r kstate, unit) eff" where
  "k_terminate K event pay st classification reference next_state =
     sbind k_require (\<lambda>tx.
     sbind (k_interrupt K ''before_terminal_event'' tx) (\<lambda>_.
     sbind (k_append K tx event pay) (\<lambda>_.
     sbind (k_update (tx_terminate st classification reference)) (\<lambda>_.
     sbind (k_next_state next_state) (\<lambda>_.
     sbind k_require (\<lambda>tx'. k_interrupt K ''after_terminal_event'' tx'))))))"

definition k_announce :: "'r kenv \<Rightarrow> string \<Rightarrow> json \<Rightarrow> ('r kstate, unit) eff" where
  "k_announce K next_state selected =
     sbind k_require (\<lambda>tx.
     k_append K tx ''ProjectionUpdated''
       [(''current_state'', JStr next_state), (''current_feature'', of_opt (tx_feature_id tx)),
        (''selected_feature'', selected)])"

definition k_complete ::
  "'r kenv \<Rightarrow> complete_args \<Rightarrow> (obj \<Rightarrow> ('r repo, unit) eff) option \<Rightarrow> ('r kstate, obj \<times> obj) eff" where
  "k_complete K a callback =
     sbind k_require (\<lambda>tx.
     sbind (tx_check (tx_state tx \<in> {FINALIZING, COMPLETED}) ''completion requires a finalized transaction'') (\<lambda>_.
     sbind (k_read K) (\<lambda>es0.
     sbind (slift (terminal_event (tx_id tx) es0)) (\<lambda>terminal.
     sbind sget (\<lambda>s.
     let classification = (case given (ca_classification a) of Some c \<Rightarrow> c
           | None \<Rightarrow> (case ks_envelope s of Some e \<Rightarrow> se_classification e | None \<Rightarrow> ''COMPLETED''));
         next_state = (case given (case ks_envelope s of Some e \<Rightarrow> Some (se_next_state e)
             | None \<Rightarrow> tx_next_project_state tx) of Some n \<Rightarrow> n | None \<Rightarrow> ''feature_ready'') in
     sbind (k_snapshot K) (\<lambda>sn.
     sbind (tx_check (list_all (\<lambda>kv. fst kv \<notin> set reserved_terminal_fields) (ca_evidence a))
              ''completion evidence attempts to override reserved terminal fields'') (\<lambda>_.
     sbind (k_read K) (\<lambda>es1.
     let own = tx_events tx es1 in
     sbind (k_intent K tx (terminal \<noteq> None) (callback \<noteq> None) (ca_materialization a) own) (\<lambda>(mid, pending).
     sbind (tx_check (\<not> (pending \<and> \<not> acknowledged own \<and> callback = None))
              ''pending terminal materialization requires deterministic replay'') (\<lambda>_.
     sbind (case terminal of
         None \<Rightarrow>
           sbind (revalidate_terminal_repository K) (\<lambda>_.
           k_terminate K ''TransactionCompleted''
             (completion_payload tx (ks_final s) classification next_state sn (ca_evidence a))
             COMPLETED classification (str_of (ks_final s)) next_state)
       | Some e \<Rightarrow> tx_check (etype e = ''TransactionCompleted'')
           ''transaction already has a non-completed terminal outcome'') (\<lambda>_.
     sbind (case callback of
         None \<Rightarrow> sret ()
       | Some f \<Rightarrow>
           swhen (\<not> acknowledged own)
             (sbind (k_rebuild K False) (\<lambda>v.
              sbind (k_repo (f v)) (\<lambda>_.
              k_append K tx ''CheckpointRecorded''
                [(''checkpoint'', JStr ''compatibility_materialization_acknowledged''), (''materialization_id'', mid)])))) (\<lambda>_.
     sbind k_require (\<lambda>tx'.
     sbind (k_interrupt K ''before_lease_release'' tx') (\<lambda>_.
     sbind (k_release K) (\<lambda>_.
     sbind (k_interrupt K ''after_lease_release'' tx') (\<lambda>_.
     sbind (k_interrupt K ''before_projection_update'' tx') (\<lambda>_.
     sbind (k_read K) (\<lambda>es2.
     sbind (swhen (typed_events tx ''ProjectionUpdated'' es2 = [])
              (k_announce K next_state (oget (ca_evidence a) ''selected_feature''))) (\<lambda>_.
     sbind (k_rebuild K True) (\<lambda>v.
     sbind k_require (\<lambda>tx''. sret (tx_dict tx'', v))))))))))))))))))))))"

record block_args =
  bl_state :: transaction_state
  bl_classification :: string
  bl_next_state :: string
  bl_reference :: "string option"
  bl_gate :: json

definition blocking_event :: "transaction_state \<Rightarrow> string" where
  "blocking_event st = (if st = HUMAN_DECISION_REQUIRED then ''HumanGateRaised''
     else if st = SUPERSEDED then ''TransactionSuperseded'' else ''TransactionBlocked'')"

definition tx_gate_binding :: "phase_transaction \<Rightarrow> gate_binding" where
  "tx_gate_binding tx =
     \<lparr>gb_transaction_id = tx_id tx, gb_project_id = tx_project_id tx,
      gb_repository_identity = tx_repository_identity tx,
      gb_repository_path_fingerprint = tx_repository_path_fingerprint tx,
      gb_workflow_type = tx_workflow tx, gb_approved_next_state = ''queue_reconciliation''\<rparr>"

definition raised_gate_id :: "obj \<Rightarrow> json res" where
  "raised_gate_id e = jget (jor (oget (payload e) ''gate'') (JObj [])) ''gate_id''"

text \<open>The exact gate of a human decision, which no earlier event may have raised.\<close>

definition bound_gate :: "'r kenv \<Rightarrow> phase_transaction \<Rightarrow> block_args \<Rightarrow> ('r kstate, obj option) eff" where
  "bound_gate K tx b =
     (if bl_state b = HUMAN_DECISION_REQUIRED \<or> bl_classification b = ''SEMANTIC_CONFLICT'' then
        sbind (tx_check (is_dict (bl_gate b)) ''human-decision terminal requires an exact gate object'') (\<lambda>_.
        sbind (slift (bind_human_gate (bl_gate b) (tx_gate_binding tx) (bl_classification b))) (\<lambda>g.
        sbind (k_read K) (\<lambda>es.
        sbind (slift (rmap raised_gate_id (filter (\<lambda>e. etype e = ''HumanGateRaised'') es))) (\<lambda>ids_raised.
        sbind (tx_check (list_all (\<lambda>i. i \<noteq> JStr (py_str (oget g ''gate_id''))) ids_raised)
                 ''human-decision gate_id already exists in durable evidence'') (\<lambda>_. sret (Some g))))))
      else sret None)"

definition block_payload :: "block_args \<Rightarrow> obj option \<Rightarrow> snapshot \<Rightarrow> obj" where
  "block_payload b gate sn =
     [(''classification'', JStr (bl_classification b)), (''terminal_state'', JStr (state_value (bl_state b))),
      (''reference'', of_opt (bl_reference b)), (''next_state'', JStr (bl_next_state b)),
      (''gate'', case gate of None \<Rightarrow> JNull | Some g \<Rightarrow> JObj g),
      (''gate_id'', case gate of None \<Rightarrow> JNull | Some g \<Rightarrow> oget g ''gate_id''),
      (''gate_fingerprint'', case gate of None \<Rightarrow> JNull | Some g \<Rightarrow> JStr (fingerprint (JObj g))),
      (''terminal_snapshot'', JObj (snapshot_dict sn))]"

text \<open>The result is the projection and what the caller's gate object holds afterwards.\<close>

definition k_block :: "'r kenv \<Rightarrow> block_args \<Rightarrow> ('r kstate, obj \<times> obj option) eff" where
  "k_block K b =
     sbind k_require (\<lambda>tx.
     sbind (tx_check (bl_state b \<in> set non_completed_terminals) ''block requires a non-completed terminal state'') (\<lambda>_.
     sbind (revalidate_lease K) (\<lambda>_.
     sbind (bound_gate K tx b) (\<lambda>gate.
     sbind (k_snapshot K) (\<lambda>sn.
     sbind (k_terminate K (blocking_event (bl_state b)) (block_payload b gate sn) (bl_state b)
              (bl_classification b) (bl_reference b) (bl_next_state b)) (\<lambda>_.
     sbind k_require (\<lambda>tx'.
     sbind (k_interrupt K ''before_lease_release'' tx') (\<lambda>_.
     sbind (k_release K) (\<lambda>_.
     sbind (k_interrupt K ''after_lease_release'' tx') (\<lambda>_.
     sbind (k_interrupt K ''before_projection_update'' tx') (\<lambda>_.
     sbind (k_announce K (bl_next_state b) JNull) (\<lambda>_.
     sbind (k_rebuild K True) (\<lambda>v. sret (v, gate))))))))))))))"

end
