(* ===== verification/Kernel_Recovery.thy ===== *)
theory Kernel_Recovery
  imports Kernel_Finalize
begin

section \<open>The workflow kernel: phases without a model session\<close>

text \<open>
  The methods of \<^verbatim>\<open>kernel.py\<close> that take a transaction from its snapshot to its final commit
  with a deterministic executor: \<^verbatim>\<open>accept_deterministic_integration_result\<close> (with
  \<^verbatim>\<open>validate_integration_result\<close> of \<^verbatim>\<open>integration_executor.py\<close>),
  \<^verbatim>\<open>finalize_deterministic_planning\<close>, its recovery, the adoption of a committed planning
  result, the recovery of a failed launch and of a preserved feature diff. Dictionaries given by the
  caller are \<open>obj\<close>; a change list of an executor is a list of texts, any other is refused.
\<close>

abbreviation no_model :: "string \<times> json" where
  "no_model \<equiv> (''model_session_launched'', JBool False)"

abbreviation no_children :: "string \<times> json" where
  "no_children \<equiv> (''child_sessions_launched'', JInt 0)"

subsection \<open>Integration results\<close>

definition LEGACY_PLAN_SCHEMA_VERSION :: int where
  "LEGACY_PLAN_SCHEMA_VERSION = 1"

definition RESULT_SCHEMA_VERSION :: int where
  "RESULT_SCHEMA_VERSION = 1"

definition controller_project_id :: "obj \<Rightarrow> string res" where
  "controller_project_id plan =
     (case oget plan ''controller_project_id'' of
        JStr (c # cs) \<Rightarrow> Inr (c # cs)
      | _ \<Rightarrow>
        (case oget plan ''project_id'' of
           JStr (c # cs) \<Rightarrow>
             if py_eq (oget plan ''schema_version'') (JInt LEGACY_PLAN_SCHEMA_VERSION)
                \<and> oget plan ''adapter_project_id'' = JStr (c # cs) then Inr (c # cs)
             else raise IntegrationPlanError ''legacy integration plan may not default controller_project_id''
         | _ \<Rightarrow> raise IntegrationPlanError ''legacy integration plan may not default controller_project_id''))"

definition integration_result_required :: "string list" where
  "integration_result_required = [''schema_version'', ''classification'', ''plan_fingerprint'', ''project_id'',
     ''repository_identity'', ''repository_path_fingerprint'', ''transaction_id'', ''run_id'', ''feature_id'',
     ''feature_branch'', ''accepted_commit'', ''milestone_id'', ''milestone_branch'', ''starting_commit'', ''lease_id'',
     ''model_session_launched'', ''current_commit'', ''resulting_feature_commit'', ''evidence_commit'', ''changed_paths'',
     ''validation'', ''runtime'', ''human_gate'']"

text \<open>The fields of a result that repeat one of the plan, under the name of the plan.\<close>

definition integration_identity :: "(string \<times> string) list" where
  "integration_identity = [(''repository_identity'', ''repository_identity''),
     (''repository_path_fingerprint'', ''repository_path_fingerprint''), (''transaction_id'', ''transaction_id''),
     (''run_id'', ''run_id''), (''feature_id'', ''feature_id''), (''feature_branch'', ''feature_branch''),
     (''accepted_commit'', ''accepted_commit''), (''milestone_id'', ''milestone_id''),
     (''milestone_branch'', ''milestone_branch''), (''starting_commit'', ''pre_integration_head'')]"

definition validate_integration_result :: "obj \<Rightarrow> obj \<Rightarrow> unit res" where
  "validate_integration_result plan r =
     rbind (check (list_all (ohas r) integration_result_required) IntegrationPlanError
              ''deterministic integration result is missing fields'') (\<lambda>_.
     rbind (osub plan ''plan_fingerprint'') (\<lambda>fp.
     rbind (controller_project_id plan) (\<lambda>project.
     rbind (rmap (\<lambda>(k, p). rbind (osub plan p) (\<lambda>v. Inr (py_eq (oget r k) v))) integration_identity) (\<lambda>same.
     rbind (rbind (osub plan ''lease_identity'') (\<lambda>l. case l of JObj d \<Rightarrow> osub d ''lease_id''
              | _ \<Rightarrow> raise TypeError ''object is not subscriptable'')) (\<lambda>lease.
     rbind (check (py_eq (oget r ''schema_version'') (JInt RESULT_SCHEMA_VERSION) \<and> py_eq (oget r ''plan_fingerprint'') fp
                \<and> oget r ''project_id'' = JStr project \<and> list_all id same \<and> py_eq (oget r ''lease_id'') lease
                \<and> oget r ''model_session_launched'' = JBool False)
              IntegrationPlanError ''deterministic integration result identity mismatch'') (\<lambda>_.
     rbind (hash_in (oget r ''classification'') [''INTEGRATED'', ''VALIDATION_FAILED'', ''SEMANTIC_CONFLICT'']) (\<lambda>known.
     rbind (check known IntegrationPlanError ''deterministic integration classification is unsupported'') (\<lambda>_.
     check (case oget r ''changed_paths'' of
              JArr xs \<Rightarrow> list_all is_str xs \<and> map text_of xs = sorted_set (map text_of xs) | _ \<Rightarrow> False)
       IntegrationPlanError ''deterministic integration changed_paths are invalid''))))))))"

definition recovery_identity_ok :: "phase_transaction \<Rightarrow> obj \<Rightarrow> json \<Rightarrow> bool res" where
  "recovery_identity_ok tx plan recovery =
     (case recovery of
        JNull \<Rightarrow> Inr True
      | JObj r \<Rightarrow>
          rbind (osub plan ''transaction_id'') (\<lambda>t.
          rbind (osub plan ''pre_integration_head'') (\<lambda>h.
          Inr (py_eq (oget r ''blocked_transaction_id'') t
            \<and> oget r ''integrating_metadata_commit'' = JStr (tx_starting_head tx)
            \<and> py_eq (oget r ''pre_integration_head'') h)))
      | _ \<Rightarrow> Inr False)"

text \<open>A field of the recovery a result describes, if it describes one.\<close>

definition recovered :: "json \<Rightarrow> string \<Rightarrow> json" where
  "recovered recovery k = (case recovery of JObj r \<Rightarrow> oget r k | _ \<Rightarrow> JNull)"

text \<open>The commit an integrated result ends in, after its validation passed.\<close>

definition k_integrated :: "'r kenv \<Rightarrow> phase_transaction \<Rightarrow> obj \<Rightarrow> obj \<Rightarrow> obj \<Rightarrow> ('r kstate, unit) eff" where
  "k_integrated K tx plan r validation =
     (let recovery = oget r ''recovery'' in
      case (oget r ''evidence_commit'', oget r ''resulting_feature_commit'') of
        (JStr final, JStr resulting) \<Rightarrow>
          sbind (k_ask K (\<lambda>H root. rev_parse H root final False)) (\<lambda>a.
          sbind (if a = Some final then k_ask K (\<lambda>H root. rev_parse H root resulting False) else sret None) (\<lambda>b.
          sbind (tx_check (b = Some resulting)
                   ''deterministic integration result lacks exact final commit identities'') (\<lambda>_.
          sbind (k_append K tx ''ValidationPassed''
              [(''commands'', oget_or validation ''commands'' (JArr [])), (''warnings'', JArr []),
               (''validated_commit'', oget validation ''validated_commit''), (''executor'', JStr ''controller_plan'')]) (\<lambda>_.
          sbind (k_transition FINALIZING) (\<lambda>_.
          sbind (slift (osub plan ''accepted_commit'')) (\<lambda>accepted.
          sbind (smodify (\<lambda>s. s\<lparr>ks_final := JStr final, ks_prepared_commit := accepted\<rparr>)) (\<lambda>_.
          sbind (k_ask K (\<lambda>H root. commit_changed_paths H root final)) (\<lambda>changed.
          sbind (slift (policy_validate (tx_policy tx) (sort changed))) (\<lambda>_.
          sbind (k_ask K (\<lambda>H root. rev_parse H root (final @ ''^'') False)) (\<lambda>parent.
          sbind (k_ask K (\<lambda>H root. patch_fingerprint H root final)) (\<lambda>patch.
          sbind (slift (osub plan ''plan_fingerprint'')) (\<lambda>fp.
          sbind (k_append K tx ''CommitFinalized''
              [(''commit'', JStr final), (''parent'', of_opt parent), (''changed_paths'', strs (sort changed)),
               (''diff_fingerprint'', JStr patch), (''accepted_commit'', accepted),
               (''resulting_feature_commit'', JStr resulting),
               (''integration_execution_mode'', JStr (if is_dict recovery then ''controller_plan_recovery'' else ''controller_plan'')),
               (''recovered_transaction_id'', recovered recovery ''blocked_transaction_id''),
               (''recovered_pre_integration_head'', recovered recovery ''pre_integration_head''),
               (''integrating_metadata_commit'', oget r ''integrating_metadata_commit''),
               (''integration_once'', JBool True), (''plan_fingerprint'', fp)]) (\<lambda>_.
          k_next_state (if oget r ''milestone_complete'' = JBool True then ''milestone_gate'' else ''feature_ready''))))))))))))))
      | _ \<Rightarrow> tx_error ''deterministic integration result lacks exact final commit identities'')"

definition accept_deterministic_integration_result :: "'r kenv \<Rightarrow> obj \<Rightarrow> obj \<Rightarrow> ('r kstate, unit) eff" where
  "accept_deterministic_integration_result K plan r =
     sbind k_require (\<lambda>tx.
     sbind (tx_check (tx_workflow tx = MILESTONE_INTEGRATION)
              ''deterministic integration results require milestone_integration'') (\<lambda>_.
     sbind (tx_check (tx_state tx = ACTIVE) ''deterministic integration result requires an active transaction'') (\<lambda>_.
     sbind (revalidate_lease K) (\<lambda>_.
     sbind (slift (validate_integration_result plan r)) (\<lambda>_.
     let recovery = oget r ''recovery'' in
     sbind (slift (recovery_identity_ok tx plan recovery)) (\<lambda>ok.
     sbind (tx_check ok ''deterministic integration recovery identity is inconsistent'') (\<lambda>_.
     sbind (k_transition RESULT_PENDING) (\<lambda>_.
     sbind (slift (osub plan ''plan_fingerprint'')) (\<lambda>fp.
     sbind (k_append K tx ''DeterministicExecutionStarted''
         [(''plan_fingerprint'', fp), (''plan_path'', oget plan ''controller_plan_path''), no_model,
          (''recovered_transaction_id'', recovered recovery ''blocked_transaction_id'')]) (\<lambda>_.
     sbind (k_transition VALIDATING) (\<lambda>_.
     sbind (k_append K tx ''DeterministicResultAccepted''
         [(''classification'', oget r ''classification''), (''plan_fingerprint'', fp),
          (''current_commit'', oget r ''current_commit''), (''changed_paths'', oget r ''changed_paths''), no_model]) (\<lambda>_.
     if oget r ''classification'' = JStr ''SEMANTIC_CONFLICT'' then sret ()
     else
       sbind (k_append K tx ''ValidationStarted''
           [(''changed_paths'', oget r ''changed_paths''), (''executor'', JStr ''controller_plan'')]) (\<lambda>_.
       if oget r ''classification'' = JStr ''VALIDATION_FAILED'' then
         k_append K tx ''ValidationFailed''
           [(''diagnostic'', JStr ''deterministic integration validation failed''),
            (''blockers'', case oget r ''validation'' of JObj v \<Rightarrow> oget_or v ''blockers'' (JArr []) | _ \<Rightarrow> JArr [])]
       else
         (case oget r ''validation'' of
            JObj v \<Rightarrow>
              sbind (tx_check (truthy (oget v ''ok''))
                       ''deterministic integration success lacks passing validation evidence'') (\<lambda>_.
              k_integrated K tx plan r v)
          | _ \<Rightarrow> tx_error ''deterministic integration success lacks passing validation evidence''))))))))))))))"

subsection \<open>Planning\<close>

record planning_recovery =
  pr_original_transaction :: string
  pr_changed_paths :: "string list"
  pr_expected_diff :: string
  pr_source_diff :: "string option"
  pr_plan_fingerprint :: string
  pr_validation :: obj
  pr_selected_feature :: "string option"
  pr_next_state :: string

definition finalize_deterministic_planning_recovery :: "'r kenv \<Rightarrow> planning_recovery \<Rightarrow> ('r kstate, string) eff" where
  "finalize_deterministic_planning_recovery K a =
     sbind k_require (\<lambda>tx.
     sbind (tx_check (tx_workflow tx = RECOVERY) ''planning finalization requires a recovery transaction'') (\<lambda>_.
     sbind (tx_check (tx_state tx = ACTIVE) ''planning recovery must finalize from an active transaction'') (\<lambda>_.
     sbind (tx_check (tx_session_ids tx = []) ''deterministic planning recovery cannot own a model session'') (\<lambda>_.
     sbind (tx_check (\<not> require_clean_start (tx_policy tx))
              ''planning recovery must adopt an exact dirty starting snapshot'') (\<lambda>_.
     sbind (revalidate_lease K) (\<lambda>_.
     sbind (observed_paths K) (\<lambda>(tracked, untracked).
     let paths = sorted_set (tracked @ untracked) in
     sbind (tx_check (paths = sort (pr_changed_paths a))
              ''planning recovery changed paths differ from the reserved baseline'') (\<lambda>_.
     sbind (k_ask K untracked_file_hashes) (\<lambda>again.
     sbind (tx_check (again = [] \<or> allow_untracked (tx_policy tx))
              ''planning recovery refuses untracked application content'') (\<lambda>_.
     sbind (k_ask K planning_diff_fingerprint) (\<lambda>diff.
     sbind (tx_check (diff = pr_expected_diff a) ''planning recovery diff differs from the reserved baseline'') (\<lambda>_.
     let source = (case given (pr_source_diff a) of Some d \<Rightarrow> d | None \<Rightarrow> pr_expected_diff a) in
     sbind (if tx_starting_tracked_diff_fingerprint tx = source
            then sbind (k_snapshot K) (\<lambda>sn. sret (tx_starting_untracked_fingerprint tx = sn_untracked_fingerprint sn))
            else sret False) (\<lambda>same.
     sbind (tx_check same ''planning recovery starting snapshot changed'') (\<lambda>_.
     sbind (slift (policy_validate (tx_policy tx) paths)) (\<lambda>_.
     sbind (k_transition RESULT_PENDING) (\<lambda>_.
     sbind (k_append K tx ''DeterministicExecutionStarted''
         [(''plan_fingerprint'', JStr (pr_plan_fingerprint a)), no_model,
          (''recovered_transaction_id'', JStr (pr_original_transaction a))]) (\<lambda>_.
     sbind (k_transition VALIDATING) (\<lambda>_.
     sbind (k_append K tx ''DeterministicResultAccepted''
         [(''classification'', JStr ''RECOVERY_APPLIED''), (''plan_fingerprint'', JStr (pr_plan_fingerprint a)),
          (''current_commit'', JStr (tx_starting_head tx)), (''changed_paths'', strs paths), no_model]) (\<lambda>_.
     sbind (k_append K tx ''ChangesDetected''
         [(''changed_paths'', strs paths), (''diff_fingerprint'', JStr (pr_expected_diff a)),
          (''adopted_existing_planning_diff'', JBool True), (''source_diff_fingerprint'', JStr source)]) (\<lambda>_.
     sbind (k_append K tx ''ValidationStarted''
         [(''changed_paths'', strs paths), (''executor'', JStr ''deterministic_planning_finalization'')]) (\<lambda>_.
     sbind (k_append K tx ''ValidationPassed''
         [(''commands'', oget_or (pr_validation a) ''commands'' (JArr [])),
          (''warnings'', oget_or (pr_validation a) ''warnings'' (JArr [])),
          (''diff_fingerprint'', JStr (pr_expected_diff a)),
          (''executor'', JStr ''deterministic_planning_finalization'')]) (\<lambda>_.
     sbind (k_transition FINALIZING) (\<lambda>_.
     case given (commit_subject (tx_policy tx)) of
       None \<Rightarrow> tx_error ''planning recovery lacks an exact commit subject''
     | Some subject \<Rightarrow>
     sbind (k_ask K (\<lambda>H root. stage_planning_paths H root paths subject)) (\<lambda>_.
     sbind (k_ask K staged_changed_paths) (\<lambda>staged.
     sbind (tx_check (staged = paths) ''planning recovery staged paths differ from the reserved baseline'') (\<lambda>_.
     sbind (k_ask K (\<lambda>H root. commit_planning_paths H root paths subject)) (\<lambda>commit.
     sbind (parent_is K commit (tx_starting_head tx)) (\<lambda>direct.
     sbind (if direct then sbind (k_ask K (\<lambda>H root. commit_changed_paths H root commit)) (\<lambda>ps. sret (ps = paths))
            else sret False) (\<lambda>same_paths.
     sbind (if same_paths then k_ask K is_clean else sret False) (\<lambda>ok.
     sbind (tx_check ok ''planning recovery did not create one exact clean commit'') (\<lambda>_.
     sbind (smodify (\<lambda>s. s\<lparr>ks_final := JStr commit\<rparr>)) (\<lambda>_.
     sbind (k_ask K (\<lambda>H root. patch_fingerprint H root commit)) (\<lambda>patch.
     sbind (k_append K tx ''CommitFinalized''
         [(''commit'', JStr commit), (''parent'', JStr (tx_starting_head tx)), (''changed_paths'', strs paths),
          (''diff_fingerprint'', JStr patch), (''source_diff_fingerprint'', JStr source),
          (''finalized_diff_fingerprint'', JStr (pr_expected_diff a)), (''commit_subject'', JStr subject),
          (''recovered_transaction_id'', JStr (pr_original_transaction a)), no_model]) (\<lambda>_.
     sbind (k_append K tx ''RecoveryApplied''
         [(''recovered_transaction_id'', JStr (pr_original_transaction a)),
          (''classification'', JStr ''planning_finalization_recovery''),
          (''selected_feature'', of_opt (pr_selected_feature a)), no_model]) (\<lambda>_.
     sbind (k_next_state (pr_next_state a)) (\<lambda>_. sret commit))))))))))))))))))))))))))))))))))))"

record planning_args =
  pl_changed_paths :: "string list"
  pl_plan_fingerprint :: string
  pl_validation :: obj
  pl_selected_feature :: string
  pl_next_state :: string
  pl_execution_mode :: string

definition finalize_deterministic_planning :: "'r kenv \<Rightarrow> planning_args \<Rightarrow> ('r kstate, unit) eff" where
  "finalize_deterministic_planning K a =
     sbind k_require (\<lambda>tx.
     sbind (tx_check (tx_workflow tx = QUEUE_RECONCILIATION) ''deterministic planning requires queue_reconciliation'') (\<lambda>_.
     sbind (tx_check (tx_state tx = ACTIVE) ''deterministic planning must finalize from an active transaction'') (\<lambda>_.
     sbind (tx_check (tx_session_ids tx = []) ''deterministic planning cannot own a model session'') (\<lambda>_.
     sbind (revalidate_lease K) (\<lambda>_.
     sbind (changed_paths K) (\<lambda>paths.
     sbind (tx_check (paths = sort (pl_changed_paths a))
              ''deterministic planning changed paths differ from the reserved plan'') (\<lambda>_.
     sbind (slift (policy_validate (tx_policy tx) paths)) (\<lambda>_.
     sbind (diff_fingerprint K) (\<lambda>diff.
     sbind (k_transition RESULT_PENDING) (\<lambda>_.
     sbind (k_append K tx ''DeterministicExecutionStarted''
         [(''execution_mode'', JStr (pl_execution_mode a)), (''plan_fingerprint'', JStr (pl_plan_fingerprint a)),
          no_model, no_children]) (\<lambda>_.
     sbind (k_transition VALIDATING) (\<lambda>_.
     sbind (k_append K tx ''DeterministicResultAccepted''
         [(''classification'', JStr ''RECONCILED_READY_WORK''), (''plan_fingerprint'', JStr (pl_plan_fingerprint a)),
          (''current_commit'', JStr (tx_starting_head tx)), (''changed_paths'', strs paths),
          (''selected_feature'', JStr (pl_selected_feature a)), no_model, no_children]) (\<lambda>_.
     sbind (k_append K tx ''ChangesDetected''
         [(''changed_paths'', strs paths), (''diff_fingerprint'', JStr diff), (''deterministic_planning'', JBool True)]) (\<lambda>_.
     sbind (k_append K tx ''ValidationStarted''
         [(''changed_paths'', strs paths), (''executor'', JStr (pl_execution_mode a))]) (\<lambda>_.
     sbind (k_append K tx ''ValidationPassed''
         [(''commands'', oget_or (pl_validation a) ''commands'' (JArr [])),
          (''warnings'', oget_or (pl_validation a) ''warnings'' (JArr [])),
          (''checks'', oget_or (pl_validation a) ''checks'' (JObj [])), (''diff_fingerprint'', JStr diff),
          (''executor'', JStr (pl_execution_mode a))]) (\<lambda>_.
     sbind (smodify (\<lambda>s. s\<lparr>ks_validated := JStr diff\<rparr>)) (\<lambda>_.
     sbind (k_next_state (pl_next_state a)) (\<lambda>_.
     k_transition FINALIZING))))))))))))))))))"

record committed_planning =
  cp_original_transaction :: string
  cp_commit :: string
  cp_expected_parent :: string
  cp_expected_paths :: "string list"
  cp_expected_subject :: string
  cp_plan_fingerprint :: string
  cp_selected_feature :: "string option"
  cp_next_state :: string
  cp_original_run :: string
  cp_original_session :: string
  cp_queue_fingerprint :: string
  cp_recovery_evidence :: string

definition adopt_committed_planning_recovery :: "'r kenv \<Rightarrow> committed_planning \<Rightarrow> ('r kstate, string) eff" where
  "adopt_committed_planning_recovery K a =
     sbind k_require (\<lambda>tx.
     sbind (tx_check (tx_workflow tx = RECOVERY \<and> tx_state tx = ACTIVE)
              ''committed planning recovery requires an active recovery transaction'') (\<lambda>_.
     sbind (if tx_session_ids tx = [] then sbind (k_ask K repo_head) (\<lambda>h. sret (h = cp_commit a)) else sret False) (\<lambda>at.
     sbind (if at then sbind (k_ask K current_branch) (\<lambda>b. sret (b = Some (tx_starting_branch tx))) else sret False) (\<lambda>same.
     sbind (tx_check same ''committed planning recovery topology changed'') (\<lambda>_.
     sbind (parent_is K (cp_commit a) (cp_expected_parent a)) (\<lambda>direct.
     sbind (tx_check direct ''committed planning recovery parent changed'') (\<lambda>_.
     sbind (k_ask K (\<lambda>H root. repo_commit_subject H root (cp_commit a))) (\<lambda>subject.
     sbind (if subject = cp_expected_subject a then k_ask K is_clean else sret False) (\<lambda>ok.
     sbind (tx_check ok ''committed planning recovery commit or cleanliness changed'') (\<lambda>_.
     sbind (k_ask K (\<lambda>H root. commit_changed_paths H root (cp_commit a))) (\<lambda>changed.
     let paths = sort changed in
     sbind (tx_check (paths = sort (cp_expected_paths a)) ''committed planning recovery paths changed'') (\<lambda>_.
     sbind (revalidate_lease K) (\<lambda>_.
     sbind (k_transition RESULT_PENDING) (\<lambda>_.
     sbind (k_append K tx ''DeterministicExecutionStarted''
         [(''plan_fingerprint'', JStr (cp_plan_fingerprint a)), no_model,
          (''recovered_transaction_id'', JStr (cp_original_transaction a)),
          (''original_run_id'', JStr (cp_original_run a)), (''original_session_id'', JStr (cp_original_session a)),
          (''queue_fingerprint'', JStr (cp_queue_fingerprint a)),
          (''recovery_evidence_fingerprint'', JStr (cp_recovery_evidence a))]) (\<lambda>_.
     sbind (k_transition VALIDATING) (\<lambda>_.
     sbind (k_append K tx ''DeterministicResultAccepted''
         [(''classification'', JStr ''RECOVERY_APPLIED''), (''current_commit'', JStr (cp_commit a)),
          (''changed_paths'', strs paths), no_model]) (\<lambda>_.
     sbind (k_append K tx ''ValidationStarted''
         [(''changed_paths'', strs paths), (''executor'', JStr ''committed_planning_finalization'')]) (\<lambda>_.
     sbind (k_append K tx ''ValidationPassed''
         [(''commands'', JArr []), (''preserved_existing_commit'', JStr (cp_commit a))]) (\<lambda>_.
     sbind (k_transition FINALIZING) (\<lambda>_.
     sbind (smodify (\<lambda>s. s\<lparr>ks_final := JStr (cp_commit a)\<rparr>)) (\<lambda>_.
     sbind (k_ask K (\<lambda>H root. patch_fingerprint H root (cp_commit a))) (\<lambda>patch.
     sbind (k_append K tx ''CommitFinalized''
         [(''commit'', JStr (cp_commit a)), (''parent'', JStr (cp_expected_parent a)), (''changed_paths'', strs paths),
          (''diff_fingerprint'', JStr patch), (''commit_subject'', JStr (cp_expected_subject a)),
          (''reused_existing_commit'', JBool True),
          (''recovered_transaction_id'', JStr (cp_original_transaction a))]) (\<lambda>_.
     sbind (k_append K tx ''RecoveryApplied''
         [(''recovered_transaction_id'', JStr (cp_original_transaction a)),
          (''classification'', JStr ''queue_reconciliation_committed_finalization_recovery''),
          (''original_run_id'', JStr (cp_original_run a)), (''original_session_id'', JStr (cp_original_session a)),
          (''planning_result_commit'', JStr (cp_commit a)), (''queue_fingerprint'', JStr (cp_queue_fingerprint a)),
          (''recovery_evidence_fingerprint'', JStr (cp_recovery_evidence a)),
          (''selected_feature'', of_opt (cp_selected_feature a)), no_model]) (\<lambda>_.
     sbind (k_next_state (cp_next_state a)) (\<lambda>_. sret (cp_commit a))))))))))))))))))))))))))"

subsection \<open>Features\<close>

definition finalize_clean_prelaunch_recovery ::
  "'r kenv \<Rightarrow> string \<Rightarrow> string \<Rightarrow> string \<Rightarrow> string \<Rightarrow> ('r kstate, unit) eff" where
  "finalize_clean_prelaunch_recovery K failed_tx failed_run plan feature =
     sbind k_require (\<lambda>tx.
     sbind (if tx_workflow tx = RECOVERY \<and> tx_state tx = ACTIVE \<and> tx_feature_id tx = Some feature \<and> tx_session_ids tx = []
            then k_ask K is_clean else sret False) (\<lambda>ok.
     sbind (tx_check ok ''prelaunch recovery requires one clean active zero-session recovery'') (\<lambda>_.
     sbind (changed_paths K) (\<lambda>paths.
     sbind (tx_check (paths = []) ''prelaunch recovery refuses application changes'') (\<lambda>_.
     sbind (revalidate_lease K) (\<lambda>_.
     sbind (k_transition RESULT_PENDING) (\<lambda>_.
     sbind (k_append K tx ''DeterministicExecutionStarted''
         [(''execution_mode'', JStr ''feature_prelaunch_recovery''), (''plan_fingerprint'', JStr plan),
          (''failed_transaction_id'', JStr failed_tx), (''failed_autopilot_run_id'', JStr failed_run),
          no_model, no_children]) (\<lambda>_.
     sbind (k_transition VALIDATING) (\<lambda>_.
     sbind (k_append K tx ''DeterministicResultAccepted''
         [(''classification'', JStr ''RECOVERY_APPLIED''), (''plan_fingerprint'', JStr plan),
          (''current_commit'', JStr (tx_starting_head tx)), (''changed_paths'', JArr []), no_model, no_children]) (\<lambda>_.
     sbind (diff_fingerprint K) (\<lambda>diff.
     sbind (k_append K tx ''ChangesDetected'' [(''changed_paths'', JArr []), (''diff_fingerprint'', JStr diff)]) (\<lambda>_.
     sbind (k_append K tx ''ValidationStarted''
         [(''changed_paths'', JArr []), (''executor'', JStr ''feature_prelaunch_recovery'')]) (\<lambda>_.
     sbind (k_append K tx ''ValidationPassed''
         [(''commands'', JArr []), (''checks'', JObj [(''application_unchanged'', JBool True),
           (''model_sessions_launched'', JInt 0), (''child_sessions_launched'', JInt 0),
           (''implementation_attempts_consumed'', JInt 0)])]) (\<lambda>_.
     sbind (smodify (\<lambda>s. s\<lparr>ks_final := JStr (tx_starting_head tx)\<rparr>)) (\<lambda>_.
     sbind (k_append K tx ''CommitFinalized''
         [(''commit'', JStr (tx_starting_head tx)), (''parent'', JNull), (''changed_paths'', JArr []),
          (''no_change'', JBool True), (''recovery_only'', JBool True), (''failed_transaction_id'', JStr failed_tx)]) (\<lambda>_.
     sbind (k_append K tx ''RecoveryApplied''
         [(''classification'', JStr ''FEATURE_PRELAUNCH_RECOVERY''), (''failed_transaction_id'', JStr failed_tx),
          (''selected_feature'', JStr feature), no_model, no_children]) (\<lambda>_.
     sbind (k_next_state ''feature_preparing'') (\<lambda>_.
     k_transition FINALIZING))))))))))))))))))"

record feature_recovery =
  fr_original_transaction :: string
  fr_changed_paths :: "string list"
  fr_original_content :: string
  fr_plan_fingerprint :: string
  fr_validation :: obj

text \<open>The commit of a recovered diff: one child of the start with exactly the reserved paths and contents.\<close>

definition exact_feature_commit ::
  "'r kenv \<Rightarrow> phase_transaction \<Rightarrow> string list \<Rightarrow> string \<Rightarrow> string \<Rightarrow> ('r kstate, bool) eff" where
  "exact_feature_commit K tx paths content commit =
     sbind (parent_is K commit (tx_starting_head tx)) (\<lambda>direct.
     sbind (k_ask K (\<lambda>H root. commit_changed_paths H root commit)) (\<lambda>changed.
     sbind (k_ask K (\<lambda>H root. content_diff_fingerprint H root paths (Some commit))) (\<lambda>fp.
     sbind (k_ask K is_clean) (\<lambda>c.
     sret (direct \<and> sort changed = paths \<and> fp = content \<and> c)))))"

definition finalize_deterministic_feature_recovery :: "'r kenv \<Rightarrow> feature_recovery \<Rightarrow> ('r kstate, string) eff" where
  "finalize_deterministic_feature_recovery K a =
     sbind k_require (\<lambda>tx.
     sbind (tx_check (tx_workflow tx = FEATURE_EXECUTION) ''feature-result recovery requires feature_execution'') (\<lambda>_.
     sbind (tx_check (tx_state tx = ACTIVE) ''feature-result recovery must finalize from an active transaction'') (\<lambda>_.
     sbind (tx_check (tx_session_ids tx = []) ''feature-result recovery cannot own a model session'') (\<lambda>_.
     sbind (tx_check (\<not> require_clean_start (tx_policy tx))
              ''feature-result recovery must adopt an exact dirty baseline'') (\<lambda>_.
     sbind (revalidate_lease K) (\<lambda>_.
     sbind (observed_paths K) (\<lambda>(tracked, untracked).
     let paths = sorted_set (tracked @ untracked) in
     sbind (tx_check (paths = sort (fr_changed_paths a))
              ''feature-result recovery changed paths differ from the reserved baseline'') (\<lambda>_.
     sbind (slift (policy_validate (tx_policy tx) paths)) (\<lambda>_.
     sbind (tx_check (truthy (oget (fr_validation a) ''all_required_passed''))
              ''feature-result recovery lacks passing host validation'') (\<lambda>_.
     sbind (k_transition RESULT_PENDING) (\<lambda>_.
     sbind (k_append K tx ''DeterministicExecutionStarted''
         [(''plan_fingerprint'', JStr (fr_plan_fingerprint a)), no_model,
          (''recovered_transaction_id'', JStr (fr_original_transaction a)),
          (''execution_mode'', JStr ''preserved_feature_result_recovery'')]) (\<lambda>_.
     sbind (k_transition VALIDATING) (\<lambda>_.
     sbind (k_append K tx ''DeterministicResultAccepted''
         [(''classification'', JStr ''FEATURE_ACCEPTED''), (''plan_fingerprint'', JStr (fr_plan_fingerprint a)),
          (''current_commit'', JStr (tx_starting_head tx)), (''changed_paths'', strs paths), no_model]) (\<lambda>_.
     sbind (k_ask K (\<lambda>H root. content_diff_fingerprint H root paths None)) (\<lambda>content.
     sbind (k_append K tx ''ChangesDetected''
         [(''changed_paths'', strs paths), (''diff_fingerprint'', JStr content),
          (''original_content_fingerprint'', JStr (fr_original_content a)),
          (''adopted_existing_feature_diff'', JBool True)]) (\<lambda>_.
     sbind (k_append K tx ''ValidationStarted''
         [(''changed_paths'', strs paths), (''executor'', JStr ''controller_host_feature_result_recovery'')]) (\<lambda>_.
     sbind (k_append K tx ''ValidationPassed''
         [(''commands'', oget_or (fr_validation a) ''commands'' (JArr [])),
          (''checks'', oget_or (fr_validation a) ''checks'' (JArr [])),
          (''warnings'', oget_or (fr_validation a) ''warnings'' (JArr [])), (''diff_fingerprint'', JStr content),
          (''executor'', JStr ''controller_host_feature_result_recovery'')]) (\<lambda>_.
     sbind (k_transition FINALIZING) (\<lambda>_.
     case given (commit_subject (tx_policy tx)) of
       None \<Rightarrow> tx_error ''feature-result recovery lacks an exact commit subject''
     | Some subject \<Rightarrow>
     sbind (k_run_git K ([''add'', ''--''] @ paths)) (\<lambda>_.
     sbind (k_ask K staged_changed_paths) (\<lambda>staged.
     sbind (tx_check (staged = paths) ''feature-result recovery staged paths differ from the baseline'') (\<lambda>_.
     sbind (k_run_git K ([''commit'', ''-m'', subject, ''--''] @ paths)) (\<lambda>_.
     sbind (k_ask K repo_head) (\<lambda>commit.
     sbind (exact_feature_commit K tx paths content commit) (\<lambda>ok.
     sbind (tx_check ok ''feature-result recovery did not create one exact clean commit'') (\<lambda>_.
     sbind (smodify (\<lambda>s. s\<lparr>ks_final := JStr commit\<rparr>)) (\<lambda>_.
     sbind (k_ask K (\<lambda>H root. patch_fingerprint H root commit)) (\<lambda>patch.
     sbind (k_append K tx ''CommitFinalized''
         [(''commit'', JStr commit), (''parent'', JStr (tx_starting_head tx)), (''changed_paths'', strs paths),
          (''diff_fingerprint'', JStr patch), (''content_fingerprint'', JStr content), (''commit_subject'', JStr subject),
          (''recovered_transaction_id'', JStr (fr_original_transaction a)), no_model]) (\<lambda>_.
     sbind (k_append K tx ''RecoveryApplied''
         [(''recovered_transaction_id'', JStr (fr_original_transaction a)),
          (''classification'', JStr ''preserved_feature_result_recovery''),
          (''selected_feature'', of_opt (tx_feature_id tx)), (''accepted_feature_commit'', JStr commit), no_model]) (\<lambda>_.
     sbind (k_next_state ''integration_pending'') (\<lambda>_. sret commit)))))))))))))))))))))))))))))))"

end
