(* ===== verification/Phase_Adapters.thy ===== *)
theory Phase_Adapters
  imports Session_Envelope Mutation_Policy
begin

section \<open>Phase adapters\<close>

text \<open>
  \<^verbatim>\<open>PhaseAdapter\<close> and its subclasses of \<^verbatim>\<open>kernel.py\<close>: what each phase makes of a
  classification. A subclass is its workflow type, its two tables and its handled failure; an adapter
  is the policy and the next state it was built with.
\<close>

fun CLASSIFICATION_STATES :: "workflow_type \<Rightarrow> (string \<times> transaction_state option) list" where
  "CLASSIFICATION_STATES QUEUE_RECONCILIATION =
     [(''RECONCILED_READY_WORK'', None), (''RECONCILED_NO_READY_WORK'', None), (''MILESTONE_COMPLETE'', None),
      (''HUMAN_DECISION_REQUIRED'', Some HUMAN_DECISION_REQUIRED),
      (''PLANNING_VALIDATION_FAILED'', Some TERMINAL_FAILURE), (''PLANNING_SEMANTIC_CONFLICT'', Some TERMINAL_FAILURE),
      (''RETRYABLE_PLANNING_FAILURE'', Some RETRYABLE_FAILURE), (''TERMINAL_PLANNING_FAILURE'', Some TERMINAL_FAILURE)]"
| "CLASSIFICATION_STATES FEATURE_PREPARATION =
     [(''FEATURE_PREPARED'', None), (''FEATURE_VALIDATION_FAILED'', Some TERMINAL_FAILURE),
      (''HUMAN_DECISION_REQUIRED'', Some HUMAN_DECISION_REQUIRED),
      (''RETRYABLE_FEATURE_FAILURE'', Some RETRYABLE_FAILURE), (''TERMINAL_FEATURE_FAILURE'', Some TERMINAL_FAILURE)]"
| "CLASSIFICATION_STATES MILESTONE_INTEGRATION =
     [(''INTEGRATED'', None), (''VALIDATION_FAILED'', Some TERMINAL_FAILURE),
      (''HUMAN_DECISION_REQUIRED'', Some HUMAN_DECISION_REQUIRED), (''SEMANTIC_CONFLICT'', Some HUMAN_DECISION_REQUIRED),
      (''RETRYABLE_INTEGRATION_FAILURE'', Some RETRYABLE_FAILURE), (''TERMINAL_INTEGRATION_FAILURE'', Some TERMINAL_FAILURE)]"
| "CLASSIFICATION_STATES MILESTONE_GATE =
     [(''MILESTONE_GATE_PASSED'', None), (''MILESTONE_GATE_FAILED'', Some TERMINAL_FAILURE),
      (''HUMAN_DECISION_REQUIRED'', Some HUMAN_DECISION_REQUIRED),
      (''RETRYABLE_GATE_FAILURE'', Some RETRYABLE_FAILURE), (''TERMINAL_GATE_FAILURE'', Some TERMINAL_FAILURE)]"
| "CLASSIFICATION_STATES HUMAN_DECISION_RESOLUTION =
     [(''HUMAN_GATE_RESOLVED'', None), (''HUMAN_DECISION_REQUIRED'', Some HUMAN_DECISION_REQUIRED),
      (''TERMINAL_RESOLUTION_FAILURE'', Some TERMINAL_FAILURE)]"
| "CLASSIFICATION_STATES RECOVERY =
     [(''RECOVERY_APPLIED'', None), (''TRANSACTION_SUPERSEDED'', Some SUPERSEDED),
      (''HUMAN_DECISION_REQUIRED'', Some HUMAN_DECISION_REQUIRED),
      (''RETRYABLE_RECOVERY_FAILURE'', Some RETRYABLE_FAILURE), (''TERMINAL_RECOVERY_FAILURE'', Some TERMINAL_FAILURE)]"
| "CLASSIFICATION_STATES _ =
     [(''FEATURE_ACCEPTED'', None), (''FEATURE_REJECTED'', Some TERMINAL_FAILURE),
      (''FEATURE_VALIDATION_FAILED'', Some TERMINAL_FAILURE),
      (''HUMAN_DECISION_REQUIRED'', Some HUMAN_DECISION_REQUIRED),
      (''RETRYABLE_FEATURE_FAILURE'', Some RETRYABLE_FAILURE), (''TERMINAL_FEATURE_FAILURE'', Some TERMINAL_FAILURE)]"

fun CLASSIFICATION_NEXT_STATES :: "workflow_type \<Rightarrow> (string \<times> string option) list" where
  "CLASSIFICATION_NEXT_STATES QUEUE_RECONCILIATION =
     [(''RECONCILED_READY_WORK'', Some ''feature_ready''), (''RECONCILED_NO_READY_WORK'', Some ''paused''),
      (''MILESTONE_COMPLETE'', Some ''milestone_gate''), (''HUMAN_DECISION_REQUIRED'', Some ''human_decision_required''),
      (''PLANNING_VALIDATION_FAILED'', Some ''validation_failed''), (''PLANNING_SEMANTIC_CONFLICT'', Some ''validation_failed''),
      (''RETRYABLE_PLANNING_FAILURE'', Some ''validation_failed''), (''TERMINAL_PLANNING_FAILURE'', Some ''validation_failed'')]"
| "CLASSIFICATION_NEXT_STATES FEATURE_PREPARATION =
     [(''FEATURE_PREPARED'', None), (''FEATURE_VALIDATION_FAILED'', Some ''validation_failed''),
      (''HUMAN_DECISION_REQUIRED'', Some ''human_decision_required''),
      (''RETRYABLE_FEATURE_FAILURE'', Some ''validation_failed''), (''TERMINAL_FEATURE_FAILURE'', Some ''validation_failed'')]"
| "CLASSIFICATION_NEXT_STATES MILESTONE_INTEGRATION =
     [(''INTEGRATED'', None), (''VALIDATION_FAILED'', Some ''validation_failed''),
      (''HUMAN_DECISION_REQUIRED'', Some ''human_decision_required''), (''SEMANTIC_CONFLICT'', Some ''human_decision_required''),
      (''RETRYABLE_INTEGRATION_FAILURE'', Some ''integration_ready''), (''TERMINAL_INTEGRATION_FAILURE'', Some ''validation_failed'')]"
| "CLASSIFICATION_NEXT_STATES MILESTONE_GATE =
     [(''MILESTONE_GATE_PASSED'', None), (''MILESTONE_GATE_FAILED'', Some ''validation_failed''),
      (''HUMAN_DECISION_REQUIRED'', Some ''human_decision_required''), (''RETRYABLE_GATE_FAILURE'', Some ''milestone_gate''),
      (''TERMINAL_GATE_FAILURE'', Some ''validation_failed'')]"
| "CLASSIFICATION_NEXT_STATES HUMAN_DECISION_RESOLUTION =
     [(''HUMAN_GATE_RESOLVED'', None), (''HUMAN_DECISION_REQUIRED'', Some ''human_decision_required''),
      (''TERMINAL_RESOLUTION_FAILURE'', Some ''human_decision_required'')]"
| "CLASSIFICATION_NEXT_STATES RECOVERY =
     [(''RECOVERY_APPLIED'', None), (''TRANSACTION_SUPERSEDED'', None),
      (''HUMAN_DECISION_REQUIRED'', Some ''human_decision_required''), (''RETRYABLE_RECOVERY_FAILURE'', None),
      (''TERMINAL_RECOVERY_FAILURE'', Some ''human_decision_required'')]"
| "CLASSIFICATION_NEXT_STATES _ =
     [(''FEATURE_ACCEPTED'', None), (''FEATURE_REJECTED'', Some ''validation_failed''),
      (''FEATURE_VALIDATION_FAILED'', Some ''validation_failed''),
      (''HUMAN_DECISION_REQUIRED'', Some ''human_decision_required''),
      (''RETRYABLE_FEATURE_FAILURE'', Some ''validation_failed''), (''TERMINAL_FEATURE_FAILURE'', Some ''validation_failed'')]"

fun HANDLED_FAILURE_CLASSIFICATION :: "workflow_type \<Rightarrow> string" where
  "HANDLED_FAILURE_CLASSIFICATION QUEUE_RECONCILIATION = ''PLANNING_VALIDATION_FAILED''"
| "HANDLED_FAILURE_CLASSIFICATION MILESTONE_INTEGRATION = ''VALIDATION_FAILED''"
| "HANDLED_FAILURE_CLASSIFICATION MILESTONE_GATE = ''MILESTONE_GATE_FAILED''"
| "HANDLED_FAILURE_CLASSIFICATION HUMAN_DECISION_RESOLUTION = ''TERMINAL_RESOLUTION_FAILURE''"
| "HANDLED_FAILURE_CLASSIFICATION RECOVERY = ''TERMINAL_RECOVERY_FAILURE''"
| "HANDLED_FAILURE_CLASSIFICATION _ = ''FEATURE_VALIDATION_FAILED''"

definition HANDLED_FAILURE_NEXT_STATE :: "workflow_type \<Rightarrow> string" where
  "HANDLED_FAILURE_NEXT_STATE w =
     (if w \<in> {HUMAN_DECISION_RESOLUTION, RECOVERY} then ''human_decision_required'' else ''validation_failed'')"

record adapter =
  ad_workflow :: workflow_type
  ad_policy :: mutation_policy
  ad_next_state :: string

text \<open>\<^verbatim>\<open>PhaseAdapter(...)\<close>: \<open>p\<close> holds the arguments, which are sorted before the policy is made.\<close>

definition make_adapter :: "workflow_type \<Rightarrow> mutation_policy \<Rightarrow> string \<Rightarrow> adapter res" where
  "make_adapter w p next_state =
     rbind (make_policy (p\<lparr>allowed_paths := sorted_set (allowed_paths p), allowed_prefixes := sorted_set (allowed_prefixes p),
        denied_paths := sorted_set (denied_paths p), denied_prefixes := sorted_set (denied_prefixes p)\<rparr>)) (\<lambda>policy.
     Inr \<lparr>ad_workflow = w, ad_policy = policy, ad_next_state = next_state\<rparr>)"

definition expected_next_state :: "adapter \<Rightarrow> string \<Rightarrow> string" where
  "expected_next_state a c =
     (case map_of (CLASSIFICATION_NEXT_STATES (ad_workflow a)) c of Some (Some n) \<Rightarrow> n | _ \<Rightarrow> ad_next_state a)"

definition phase_semantic_validate :: "adapter \<Rightarrow> session_envelope \<Rightarrow> unit res" where
  "phase_semantic_validate a e =
     rbind (check (se_classification e \<in> fst ` set (CLASSIFICATION_STATES (ad_workflow a))) TransactionError
              ''workflow does not authorize classification'') (\<lambda>_.
     check (se_next_state e = expected_next_state a (se_classification e)) TransactionError
       ''phase result next_state does not match'')"

definition queue_semantic_validate :: "session_envelope \<Rightarrow> unit res" where
  "queue_semantic_validate e =
     rbind (check (map_of (CLASSIFICATION_NEXT_STATES QUEUE_RECONCILIATION) (se_classification e)
                     = Some (Some (se_next_state e))) TransactionError
              ''queue terminal classification does not authorize its projected next state'') (\<lambda>_.
     (case oget (se_evidence e) ''queue_validation'' of
        JObj v \<Rightarrow> rbind (rewrap [WarningEvidenceError] TransactionError ''invalid warning evidence''
           (normalize_warning_evidence (JObj v) ''structured'' None)) (\<lambda>_. Inr ())
      | _ \<Rightarrow> raise TransactionError ''queue reconciliation result lacks queue-validation evidence''))"

definition semantic_validate :: "adapter \<Rightarrow> session_envelope \<Rightarrow> unit res" where
  "semantic_validate a e =
     (if ad_workflow a = QUEUE_RECONCILIATION then queue_semantic_validate e else phase_semantic_validate a e)"

definition terminal_state :: "adapter \<Rightarrow> session_envelope \<Rightarrow> transaction_state option res" where
  "terminal_state a e =
     rbind (semantic_validate a e) (\<lambda>_.
     case map_of (CLASSIFICATION_STATES (ad_workflow a)) (se_classification e) of
       Some st \<Rightarrow> Inr st | None \<Rightarrow> raise KeyError (se_classification e))"

text \<open>
  The adapters and the contract agree: a phase authorises exactly the classifications an
  envelope of its workflow may have, lets exactly its success classifications go on to the final
  commit, ends every other one in a state that \<^verbatim>\<open>block\<close> accepts, and its handled failure is
  one of them, ending in \<^verbatim>\<open>TERMINAL_FAILURE\<close> with the next state a result of that class
  would have.
\<close>

theorem adapters_match_contract:
  "set (map fst (CLASSIFICATION_STATES w)) = set (WORKFLOW_CLASSIFICATIONS w)
   \<and> set (map fst (CLASSIFICATION_NEXT_STATES w)) = set (WORKFLOW_CLASSIFICATIONS w)
   \<and> distinct (map fst (CLASSIFICATION_STATES w))
   \<and> map fst (filter (\<lambda>cs. snd cs = None) (CLASSIFICATION_STATES w)) = WORKFLOW_SUCCESS_CLASSIFICATIONS w
   \<and> list_all (\<lambda>cs. case snd cs of None \<Rightarrow> True | Some st \<Rightarrow> st \<in> set non_completed_terminals) (CLASSIFICATION_STATES w)
   \<and> map_of (CLASSIFICATION_STATES w) (HANDLED_FAILURE_CLASSIFICATION w) = Some (Some TERMINAL_FAILURE)
   \<and> map_of (CLASSIFICATION_NEXT_STATES w) (HANDLED_FAILURE_CLASSIFICATION w) = Some (Some (HANDLED_FAILURE_NEXT_STATE w))"
  by (cases w) (simp_all add: HANDLED_FAILURE_NEXT_STATE_def non_completed_terminals_def TERMINAL_STATES_def
      insert_commute)

end
