(* ===== verification/Workflow_Bridge.thy ===== *)
theory Workflow_Bridge
  imports Kernel_Finalize Phase_Adapters
begin

section \<open>The bridge from a command handler to the kernel\<close>

text \<open>
  \<^verbatim>\<open>KernelWorkflowBridge\<close> of \<^verbatim>\<open>workflow_bridge.py\<close>: one call of \<open>bridge_run\<close>
  takes a phase from its start to its terminal event. The handler of the phase is a parameter: code
  that may run anything on the repository, and returns evidence or raises. It is given the transaction
  to look at; that it does not assign to it is assumed, as the docstring of the bridge asks.
\<close>

record phase_execution =
  pe_envelope :: session_envelope
  pe_commands :: "command_record list"
  pe_completion :: "obj option"
  pe_returncode :: int

type_synonym 'r phase_handler = "phase_transaction \<Rightarrow> ('r repo, phase_execution) eff"

record phase_call =
  pc_adapter :: adapter
  pc_run_id :: string
  pc_milestone :: "string option"
  pc_feature_id :: "string option"
  pc_session_id :: string

text \<open>\<^verbatim>\<open>type(exc).__name__\<close>\<close>

fun class_name :: "exn_class \<Rightarrow> string" where
  "class_name ConveyorError = ''ConveyorError''"
| "class_name ConfigurationError = ''ConfigurationError''"
| "class_name SchemaValidationError = ''SchemaValidationError''"
| "class_name RepositoryError = ''RepositoryError''"
| "class_name QueueError = ''QueueError''"
| "class_name InvalidTransition = ''InvalidTransition''"
| "class_name LockError = ''LockError''"
| "class_name AmbiguousLockError = ''AmbiguousLockError''"
| "class_name SafetyViolation = ''SafetyViolation''"
| "class_name RecoveryError = ''RecoveryError''"
| "class_name IntegrationPlanError = ''IntegrationPlanError''"
| "class_name SessionError = ''SessionError''"
| "class_name RetryExhausted = ''RetryExhausted''"
| "class_name AutopilotStopRequested = ''AutopilotStopRequested''"
| "class_name TransactionError = ''TransactionError''"
| "class_name EvidenceError = ''EvidenceError''"
| "class_name CorruptEvidenceError = ''CorruptEvidenceError''"
| "class_name ProjectionError = ''ProjectionError''"
| "class_name StaleProjectionCache = ''StaleProjectionCache''"
| "class_name WarningEvidenceError = ''WarningEvidenceError''"
| "class_name ValueError = ''ValueError''"
| "class_name KeyError = ''KeyError''"
| "class_name TypeError = ''TypeError''"
| "class_name AttributeError = ''AttributeError''"
| "class_name PermissionError = ''PermissionError''"
| "class_name OSError = ''OSError''"
| "class_name RuntimeError = ''RuntimeError''"
| "class_name AssertionError = ''AssertionError''"

definition phase_begin :: "phase_call \<Rightarrow> begin_args" where
  "phase_begin c =
     \<lparr>ba_workflow = ad_workflow (pc_adapter c), ba_milestone = pc_milestone c, ba_feature_id = pc_feature_id c,
      ba_run_id = pc_run_id c, ba_policy = ad_policy (pc_adapter c), ba_transaction_id = None,
      ba_start_evidence = [], ba_expected_branch = None, ba_expected_head = None\<rparr>"

definition phase_gate :: "session_envelope \<Rightarrow> json" where
  "phase_gate e =
     (case jor (oget (se_evidence e) ''human_decision'') (oget (se_evidence e) ''gate'') of
        JObj g \<Rightarrow> JObj g | _ \<Rightarrow> JNull)"

definition bridge_report :: "obj \<Rightarrow> ('r kstate, obj) eff" where
  "bridge_report projection =
     sbind k_require (\<lambda>tx. sret [(''transaction'', JObj (tx_dict tx)), (''projection'', JObj projection)])"

definition bridge_block :: "'r kenv \<Rightarrow> block_args \<Rightarrow> ('r kstate, obj) eff" where
  "bridge_block K b = sbind (k_block K b) (\<lambda>(projection, _). sret projection)"

text \<open>The block of \<^verbatim>\<open>run\<close> after the start of the transaction.\<close>

definition phase_body :: "'r kenv \<Rightarrow> phase_call \<Rightarrow> 'r phase_handler \<Rightarrow> ('r kstate, obj) eff" where
  "phase_body K c execute =
     sbind (acquire_lease K) (\<lambda>_.
     sbind (capture_snapshot K) (\<lambda>_.
     sbind (session_launched K (pc_session_id c)) (\<lambda>_.
     sbind k_require (\<lambda>tx.
     sbind (k_repo (execute tx)) (\<lambda>r.
     let e = pe_envelope r in
     sbind (scheck (se_session_id e = pc_session_id c) ValueError
              ''phase handler returned evidence for another session'') (\<lambda>_.
     sbind (accept_result K e) (\<lambda>_.
     sbind (slift (terminal_state (pc_adapter c) e)) (\<lambda>terminal.
     case terminal of
       Some st \<Rightarrow>
         sbind (bridge_block K
             \<lparr>bl_state = st, bl_classification = se_classification e, bl_next_state = se_next_state e,
              bl_reference = None, bl_gate = phase_gate e\<rparr>) bridge_report
     | None \<Rightarrow>
         sbind (record_file_mutation_boundary K) (\<lambda>_.
         sbind (k_validate K (pe_commands r) (Some (\<lambda>e _. semantic_validate (pc_adapter c) e))) (\<lambda>_.
         sbind (k_finalize K) (\<lambda>_.
         sbind (k_complete K
             \<lparr>ca_classification = None, ca_evidence = (case pe_completion r of None \<Rightarrow> [] | Some o' \<Rightarrow> o'),
              ca_materialization = None\<rparr> None) (\<lambda>(t, v).
         sret [(''transaction'', JObj t), (''projection'', JObj v)]))))))))))))"

definition phase_handled :: "exn \<Rightarrow> bool" where
  "phase_handled e \<longleftrightarrow> issubclass (exn_cls e) TransactionError \<or> issubclass (exn_cls e) ValueError"

definition handled_failure :: "phase_call \<Rightarrow> exn \<Rightarrow> block_args" where
  "handled_failure c e =
     \<lparr>bl_state = TERMINAL_FAILURE,
      bl_classification = HANDLED_FAILURE_CLASSIFICATION (ad_workflow (pc_adapter c)),
      bl_next_state = HANDLED_FAILURE_NEXT_STATE (ad_workflow (pc_adapter c)),
      bl_reference = Some (class_name (exn_cls e)), bl_gate = JNull\<rparr>"

text \<open>The handler: a failure the kernel understands becomes a terminal outcome while the transaction
  is open and there is a lease; any other is raised again.\<close>

definition phase_failed :: "'r kenv \<Rightarrow> phase_call \<Rightarrow> exn \<Rightarrow> ('r kstate, obj) eff" where
  "phase_failed K c e =
     sbind k_require (\<lambda>tx.
     sbind (if tx_state tx \<notin> set TERMINAL_STATES
            then sbind (k_lease K (\<lambda>w. wl_read)) (\<lambda>found. sret (found \<noteq> None)) else sret False) (\<lambda>open_lease.
     if open_lease then
       sbind (bridge_block K (handled_failure c e)) (\<lambda>projection.
       sbind (bridge_report projection) (\<lambda>d. sret (d @ [(''error'', JStr (exn_msg e))])))
     else slift (Inl e)))"

definition bridge_run :: "'r kenv \<Rightarrow> phase_call \<Rightarrow> 'r phase_handler \<Rightarrow> ('r kstate, obj) eff" where
  "bridge_run K c execute =
     sbind (k_begin K (phase_begin c)) (\<lambda>_. scatch phase_handled (phase_body K c execute) (phase_failed K c))"

end
