(* ===== verification/Kernel_Logic.thy ===== *)
theory Kernel_Logic
  imports Kernel_Recovery Workflow_Lease_Safety Ledger_Durable Run_Logic
begin

section \<open>What the calls of the kernel leave alone\<close>

text \<open>
  Most calls of a kernel method only look: \<open>quiet\<close> relates two states that differ in nothing but the
  repository, the caches of the ledger and the tick. What an append does is \<open>appended\<close>: the log grows
  by the line of one event, the rest stays. The rules on \<open>runs\<close> make each kernel method a sequence of
  these two and of the updates of the object itself.
\<close>

definition klog :: "'r kstate \<Rightarrow> string" where
  "klog s = log_text (pf_ledger (ks_proj s))"

definition quiet :: "'r kstate \<Rightarrow> 'r kstate \<Rightarrow> bool" where
  "quiet s t \<longleftrightarrow>
     ks_transaction t = ks_transaction s \<and> ks_envelope t = ks_envelope s \<and> ks_commands t = ks_commands s
     \<and> ks_final t = ks_final s \<and> ks_validated t = ks_validated s \<and> ks_prepared_paths t = ks_prepared_paths s
     \<and> ks_prepared_commit t = ks_prepared_commit s \<and> ks_normalization t = ks_normalization s
     \<and> ks_preacquired t = ks_preacquired s \<and> ks_lease t = ks_lease s \<and> klog t = klog s"

lemma quiet_refl [simp]: "quiet s s"
  by (simp add: quiet_def)

lemma quiet_trans: "quiet s t \<Longrightarrow> quiet t u \<Longrightarrow> quiet s u"
  by (simp add: quiet_def)

lemma reflp_quiet [simp]: "reflp quiet"
  by (simp add: reflp_def)

lemma transp_quiet [simp]: "transp quiet"
  by (auto intro!: transpI elim: quiet_trans)

subsection \<open>Quiet calls\<close>

lemma quiet_k_repo [steps_intros]: "steps quiet (k_repo m)"
  by (rule stepsI) (auto simp: k_repo_def spart_def quiet_def klog_def split: prod.splits)

lemma quiet_k_calls [steps_intros]:
  "steps quiet (k_ask K q)" "steps quiet (k_snapshot K)" "steps quiet (k_interrupt K b tx)"
  "steps quiet (k_run_git K as)"
  unfolding k_ask_def k_snapshot_def k_interrupt_def k_run_git_def by (intro steps_intros; simp)+

lemma quiet_k_fresh [steps_intros]: "steps quiet (k_fresh K)"
  by (rule stepsI) (auto simp: k_fresh_def quiet_def klog_def)

lemma quiet_k_require [steps_intros]: "steps quiet k_require"
  unfolding k_require_def by (rule stepsI) (auto simp: eff_runs eff_simps sbind_def split: option.splits)

lemma verify_head_log: "verify_head rt es r f = (x, g) \<Longrightarrow> fs_log g = fs_log f"
  by (auto simp: verify_head_def sbind_def eff_simps Let_def write_head_def split: sum.splits if_splits option.splits prod.splits)

lemma ledger_read_log: "ledger_read fr rt L f = (x, g) \<Longrightarrow> fs_log g = fs_log f"
  by (auto simp: ledger_read_def read_verified_def sbind_def eff_simps split: sum.splits prod.splits
      dest!: verify_head_log)

lemma ledger_verify_log: "ledger_verify fr rt L f = (x, g) \<Longrightarrow> fs_log g = fs_log f"
  by (auto simp: ledger_verify_def read_verified_def sbind_def eff_simps split: sum.splits prod.splits
      dest!: verify_head_log)

lemma quiet_k_proj:
  assumes "\<And>p x q. m p = (x, q) \<Longrightarrow> fs_log (pf_ledger q) = fs_log (pf_ledger p)"
  shows "steps quiet (k_proj m)"
  using assms by (intro stepsI) (auto simp: k_proj_def spart_def quiet_def klog_def log_text_def split: prod.splits)

lemma quiet_k_read [steps_intros]: "steps quiet (k_read K)"
  unfolding k_read_def by (rule quiet_k_proj) (auto simp: on_ledger_def split: prod.splits dest!: ledger_read_log)

definition same_log :: "proj_fs \<Rightarrow> proj_fs \<Rightarrow> bool" where
  "same_log p q \<longleftrightarrow> fs_log (pf_ledger q) = fs_log (pf_ledger p)"

lemma same_log_rel [simp]: "reflp same_log" "transp same_log"
  by (auto simp: same_log_def reflp_def intro: transpI)

lemma same_log_on_ledger:
  "(\<And>f x g. m f = (x, g) \<Longrightarrow> fs_log g = fs_log f) \<Longrightarrow> steps same_log (on_ledger m)"
  by (rule stepsI) (auto simp: on_ledger_def same_log_def split: prod.splits)

lemma same_log_rebuild: "steps same_log (rebuild fr rt E persist obs)"
proof -
  have "steps same_log (validate_cache_path E)"
    by (rule stepsI) (auto simp: validate_cache_path_def sbind_def eff_simps same_log_def
        split: entry.splits if_splits sum.splits prod.splits)
  moreover have "steps same_log (smodify (write_cache rt v))" for v
    by (simp add: steps_def eff_simps same_log_def write_cache_def)
  ultimately show ?thesis
    unfolding rebuild_def
    by (intro steps_intros same_log_on_ledger) (auto dest: ledger_read_log ledger_verify_log)
qed

lemma quiet_k_rebuild [steps_intros]: "steps quiet (k_rebuild K b)"
  unfolding k_rebuild_def
  by (rule quiet_k_proj) (use same_log_rebuild stepsD in \<open>fastforce simp: same_log_def\<close>)

lemma quiet_k_lease: "(\<And>w f x g. m w f = (x, g) \<Longrightarrow> g = f) \<Longrightarrow> steps quiet (k_lease K m)"
  by (rule stepsI) (fastforce simp: k_lease_def quiet_def klog_def split: prod.splits)

lemma quiet_revalidate [steps_intros]: "steps quiet (revalidate_lease K)"
  unfolding revalidate_lease_def by (intro steps_intros quiet_k_lease) (auto dest: wl_revalidate_state)

lemma quiet_queries [steps_intros]:
  "steps quiet (baseline_unchanged K)" "steps quiet (observed_paths K)" "steps quiet (validate_mutation_paths K ps)"
  "steps quiet (validate_untracked_policy K)"
  unfolding baseline_unchanged_def observed_paths_def validate_mutation_paths_def validate_untracked_policy_def
  by (intro steps_intros; simp)+

lemma steps_prod [steps_intros]: "(\<And>a b. steps R (f a b)) \<Longrightarrow> steps R (case p of (a, b) \<Rightarrow> f a b)"
  by (cases p) simp

lemma steps_list [steps_intros]:
  "steps R m \<Longrightarrow> (\<And>y ys. steps R (f y ys)) \<Longrightarrow> steps R (case xs of [] \<Rightarrow> m | y # ys \<Rightarrow> f y ys)"
  by (cases xs) simp_all

lemma steps_let [steps_intros]: "steps R (f v) \<Longrightarrow> steps R (let x = v in f x)"
  by simp

lemma steps_json:
  "(\<And>x. steps R (f x)) \<Longrightarrow> steps R m \<Longrightarrow> steps R (case v of JStr x \<Rightarrow> f x | _ \<Rightarrow> m)"
  "(\<And>x. steps R (g x)) \<Longrightarrow> steps R m \<Longrightarrow> steps R (case v of JObj x \<Rightarrow> g x | _ \<Rightarrow> m)"
  by (cases v; simp)+

lemma quiet_paths [steps_intros]:
  "steps quiet (changed_paths K)" "steps quiet (assert_durable_boundary K ps fp)"
  unfolding changed_paths_def assert_durable_boundary_def by (intro steps_intros; simp)+

lemma quiet_diff [steps_intros]: "steps quiet (diff_fingerprint K)"
  unfolding diff_fingerprint_def by (intro steps_intros; simp)

lemma quiet_parts [steps_intros]:
  "steps quiet (parent_is K a b)" "steps quiet (same_patch K a b)" "steps quiet (committed_queue K a)"
  "steps quiet (queue_feature K f)" "steps quiet (check_not_in_history K p c)"
  "steps quiet (exact_feature_commit K tx ps fp c)" "steps quiet (recovery_chain K tx q a b)"
  "steps quiet (check_integration_commit K tx j c)" "steps quiet no_transaction" "steps quiet (created K ba sn)"
  unfolding parent_is_def same_patch_def committed_queue_def queue_feature_def check_not_in_history_def
    exact_feature_commit_def recovery_chain_def check_integration_commit_def no_transaction_def created_def
  by (intro steps_intros steps_json; simp)+

lemma quiet_terminal [steps_intros]:
  "steps quiet (check_terminal_integration K tx p ps)" "steps quiet (revalidate_terminal_repository K)"
  "steps quiet (bound_gate K tx b)"
  unfolding check_terminal_integration_def revalidate_terminal_repository_def bound_gate_def
  by (intro steps_intros steps_json quiet_parts; simp)+

lemmas quiet_calls = quiet_k_repo quiet_k_calls quiet_k_fresh quiet_k_require quiet_k_read quiet_k_rebuild
  quiet_revalidate quiet_queries quiet_paths quiet_diff quiet_parts quiet_terminal

subsection \<open>Appends\<close>

lemma read_for_append_log: "read_for_append fr rt L f = (x, g) \<Longrightarrow> fs_log g = fs_log f"
  by (auto simp: read_for_append_def sbind_def eff_simps split: if_splits sum.splits prod.splits dest!: verify_head_log)

lemma ledger_append_log:
  assumes "ledger_append fr rt L uid now fresh a f = (x, g)"
  shows "case x of Inl e \<Rightarrow> fs_log g = fs_log f
    | Inr e \<Rightarrow> log_text g = log_text f @ log_line e \<and> etype e = ap_event_type a \<and> etx e = ap_transaction_id a"
proof (cases x)
  case (Inl e)
  with assms show ?thesis
    by (auto simp: ledger_append_def sbind_def eff_simps split: sum.splits prod.splits dest!: read_for_append_log)
next
  case (Inr e)
  from assms [unfolded Inr ledger_append_def eff_runs sbind_eq_Inr [of "read_for_append fr rt L"] sret_eq_Inr]
  obtain w xs t i e' where a: "read_for_append fr rt L f = (Inr xs, t)" "new_event rt L a uid now w i = Inr e'"
    "g = cache_event xs e' i (ap_event_type a = ''TransactionStarted'') (write_head rt e' (write_log e' fresh t))" "e = e'"
    by (elim exE conjE) (rule that)
  from a(2) have "etype e' = ap_event_type a \<and> etx e' = ap_transaction_id a"
    by (auto simp: new_event_def make_event_estr [OF refl] split: json.splits)
  with a read_for_append_log [OF a(1)] Inr show ?thesis
    by (simp add: cache_event_def write_head_def write_log_def log_text_def log_line_def)
qed

text \<open>A call that appends one event of a type for a transaction.\<close>

definition appended :: "string \<Rightarrow> string \<Rightarrow> 'r kstate \<Rightarrow> 'r kstate \<Rightarrow> bool" where
  "appended tx T s t \<longleftrightarrow>
     (\<exists>e l n. klog t = klog s @ log_line e \<and> etype e = T \<and> etx e = tx
        \<and> t = s\<lparr>ks_proj := (ks_proj s)\<lparr>pf_ledger := l\<rparr>, ks_tick := n\<rparr>)"

lemma k_append_cases:
  "case k_append K tx T p s of (Inl e, t) \<Rightarrow> quiet s t | (Inr u, t) \<Rightarrow> appended (tx_id tx) T s t"
proof -
  obtain x g where a: "ledger_append (ke_float K) (ke_redact K) (ke_ledger K) (ke_uid K (ks_tick s)) (ke_now K (ks_tick s))
      (ke_stamp K (ks_tick s)) (append_of tx T p) (pf_ledger (ks_proj s)) = (x, g)"
    by (rule prod.exhaust)
  have "k_append K tx T p s = (case x of Inl e \<Rightarrow> Inl e | Inr _ \<Rightarrow> Inr (),
      s\<lparr>ks_proj := (ks_proj s)\<lparr>pf_ledger := g\<rparr>, ks_tick := Suc (ks_tick s)\<rparr>)"
    by (simp add: k_append_def a)
  with ledger_append_log [OF a] show ?thesis
    by (cases x) (auto simp: quiet_def appended_def klog_def log_text_def append_of_def)
qed

lemma runs_k_append:
  "(\<And>t. appended (tx_id tx) T s t \<Longrightarrow> Q () t) \<Longrightarrow> (\<And>e t. quiet s t \<Longrightarrow> E e t) \<Longrightarrow> runs (k_append K tx T p) s Q E"
  using k_append_cases [where K = K and tx = tx and T = T and p = p and s = s] by (auto simp: runs_def split: prod.splits sum.splits)

end
