(* ===== verification/Kernel_Evidence.thy ===== *)
theory Kernel_Evidence
  imports Kernel_Logic Workflow_Bridge
begin

section \<open>The transaction in memory and its evidence in the ledger\<close>

text \<open>
  A method of the kernel moves the transaction object and appends events. Each type of event is evidence
  for a stage of the life cycle, the one from which \<^verbatim>\<open>restore\<close> takes the state of an
  interrupted transaction; the other types are neutral. \<open>stands\<close> says where the object and the evidence
  are, \<open>advances\<close> is a triple over it: whatever happens, the evidence is never ahead of the object, and a
  call that returns leaves them as its last argument says. Neutral steps are the relation \<open>still\<close>, so
  that the rules need to name only the calls that matter.
\<close>

subsection \<open>Stages\<close>

definition stage :: "transaction_state \<Rightarrow> nat" where
  "stage st = min 5 (state_index st - 1)"

definition evidence_stage :: "string \<Rightarrow> nat" where
  "evidence_stage t =
     (if t \<in> set TERMINAL_EVENT_TYPES then 5
      else if t \<in> {''ValidationPassed'', ''CommitFinalized''} then 4
      else if t \<in> {''SessionResultAccepted'', ''ValidationStarted'', ''ValidationFailed''} then 3
      else if t = ''SessionLaunched'' then 2
      else if t = ''LeaseAcquired'' then 1 else 0)"

fun level :: "obj list \<Rightarrow> nat" where
  "level [] = 0"
| "level (e # es) = max (evidence_stage (etype e)) (level es)"

definition ends :: "obj list \<Rightarrow> string list" where
  "ends es = filter (\<lambda>t. t \<in> set TERMINAL_EVENT_TYPES) (map etype es)"

text \<open>The terminal event of a state.\<close>

definition ending :: "transaction_state \<Rightarrow> string list" where
  "ending st = (if st = COMPLETED then [''TransactionCompleted'']
     else if st \<in> set non_completed_terminals then [blocking_event st] else [])"

lemma level_append [simp]: "level (es @ fs) = max (level es) (level fs)"
  by (induction es) simp_all

lemma ends_append [simp]: "ends (es @ fs) = ends es @ ends fs"
  by (simp add: ends_def)

lemma level_0: "level es = 0 \<Longrightarrow> ends es = []"
  by (induction es) (auto simp: ends_def evidence_stage_def max_def split: if_splits)

lemma level_geq: "0 < n \<Longrightarrow> n \<le> level es \<longleftrightarrow> list_ex (\<lambda>e. n \<le> evidence_stage (etype e)) es"
  by (induction es) (auto simp: le_max_iff_disj)

lemma stage_bounds: "stage st \<le> 5" "stage st = 5 \<longleftrightarrow> st \<in> set TERMINAL_STATES"
  by (cases st; simp add: stage_def TERMINAL_STATES_def)+

lemma stage_allowed: "target \<in> set (ALLOWED_TRANSITIONS st) \<Longrightarrow> stage st \<le> stage target"
  by (auto dest!: allowed_increases simp: stage_def state_order)

lemma no_way_back: "CREATED \<notin> set (ALLOWED_TRANSITIONS st)"
  by (cases st) (simp_all add: non_completed_terminals_def TERMINAL_STATES_def)

subsection \<open>Neutral steps\<close>

definition core :: "phase_transaction \<Rightarrow> string \<times> transaction_state \<times> string option" where
  "core tx = (tx_id tx, tx_state tx, tx_terminal_classification tx)"

definition open_id :: "'r kstate \<Rightarrow> string option" where
  "open_id s = map_option tx_id (ks_transaction s)"

definition still :: "string \<Rightarrow> 'r kstate \<Rightarrow> 'r kstate \<Rightarrow> bool" where
  "still I s t \<longleftrightarrow> open_id s \<noteq> Some I \<or>
     map_option core (ks_transaction t) = map_option core (ks_transaction s)
     \<and> (\<exists>es. klog t = klog s @ concat (map log_line es) \<and> list_all (\<lambda>e. etx e = I) es \<and> level es = 0)"

lemma still_id: "still I s t \<Longrightarrow> open_id s = Some I \<Longrightarrow> open_id t = Some I"
  by (cases "ks_transaction s"; cases "ks_transaction t") (auto simp: still_def core_def open_id_def)

lemma still_trans: "still I s t \<Longrightarrow> still I t u \<Longrightarrow> still I s u"
proof (cases "open_id s = Some I")
  case True
  assume a: "still I s t" "still I t u"
  from still_id [OF a(1) True] have t: "open_id t = Some I" .
  from a(1) True obtain es where 1: "map_option core (ks_transaction t) = map_option core (ks_transaction s)"
    "klog t = klog s @ concat (map log_line es)" "list_all (\<lambda>e. etx e = I) es" "level es = 0"
    by (auto simp: still_def)
  from a(2) t obtain fs where 2: "map_option core (ks_transaction u) = map_option core (ks_transaction t)"
    "klog u = klog t @ concat (map log_line fs)" "list_all (\<lambda>e. etx e = I) fs" "level fs = 0"
    by (auto simp: still_def)
  from 1 2 have "klog u = klog s @ concat (map log_line (es @ fs))" "list_all (\<lambda>e. etx e = I) (es @ fs)"
    "level (es @ fs) = 0" "map_option core (ks_transaction u) = map_option core (ks_transaction s)" by simp_all
  then show ?thesis unfolding still_def by blast
qed (simp add: still_def)

definition same :: "'r kstate \<Rightarrow> 'r kstate \<Rightarrow> bool" where
  "same s t \<longleftrightarrow> klog t = klog s \<and> map_option core (ks_transaction t) = map_option core (ks_transaction s)"

lemma same_rel [simp]: "reflp same" "transp same"
  by (auto simp: same_def reflp_def intro!: transpI)

lemma same_still: "same s t \<Longrightarrow> still I s t"
  by (auto simp: still_def same_def intro!: exI [of _ "[]"])

lemma still_rel [simp]: "reflp (still I)" "transp (still I)"
  by (auto simp: reflp_def same_def intro: same_still) (blast intro: transpI still_trans)

lemma quiet_same: "quiet s t \<Longrightarrow> same s t"
  by (simp add: quiet_def same_def)

lemma steps_mono: "steps R m \<Longrightarrow> (\<And>s t. R s t \<Longrightarrow> S s t) \<Longrightarrow> steps S m"
  by (auto simp: steps_def)

lemma steps_same: "steps quiet m \<Longrightarrow> steps same m"
  by (erule steps_mono) (rule quiet_same)

lemma same_lease: "steps same (k_lease K m)"
  by (rule stepsI) (auto simp: k_lease_def klog_def same_def split: prod.splits)

lemma same_smodify:
  "(\<And>s. ks_transaction (f s) = ks_transaction s \<and> ks_proj (f s) = ks_proj s) \<Longrightarrow> steps same (smodify f)"
  by (rule stepsI) (auto simp: smodify_def klog_def same_def)

lemma same_update:
  assumes "\<And>tx tx'. f tx = Inr tx' \<Longrightarrow> core tx' = core tx"
  shows "steps same (k_update f)"
  by (rule stepsI) (auto simp: k_update_def k_require_def eff_runs eff_simps sbind_def raise_def klog_def
      same_def assms split: option.splits sum.splits)

lemmas same_calls [steps_intros] = quiet_calls [THEN steps_same] same_lease same_smodify same_update

lemma same_fields [steps_intros]:
  "steps same (k_next_state v)" "steps same (k_bind_lease r)" "steps same (release_owned_lease K)"
  unfolding k_next_state_def k_bind_lease_def release_owned_lease_def
  by (intro steps_intros; auto simp: core_def)+

lemma steps_still: "steps same m \<Longrightarrow> steps (still I) m"
  by (erule steps_mono) (rule same_still)

lemmas still_calls [steps_intros] = same_calls [THEN steps_still] same_fields [THEN steps_still]

lemma k_require_run: "k_require s = (case ks_transaction s of
    None \<Rightarrow> (raise TransactionError ''workflow transaction has not begun'', s) | Some tx \<Rightarrow> (Inr tx, s))"
  by (simp add: k_require_def eff_runs eff_simps split: option.split)

lemma still_require [steps_intros]:
  assumes "\<And>tx. tx_id tx = I \<Longrightarrow> steps (still I) (f tx)"
  shows "steps (still I) (sbind k_require f)"
proof (rule stepsI)
  fix s r t
  assume r: "sbind k_require f s = (r, t)"
  show "still I s t"
  proof (cases "ks_transaction s")
    case None
    then show ?thesis by (simp add: still_def open_id_def)
  next
    case (Some tx)
    with r have "f tx s = (r, t)" by (simp add: sbind_def k_require_run)
    show ?thesis
    proof (cases "tx_id tx = I")
      case True
      show ?thesis by (rule stepsD [OF assms [OF True] \<open>f tx s = (r, t)\<close>])
    qed (simp add: still_def open_id_def Some)
  qed
qed

lemma still_append [steps_intros]:
  assumes "tx_id tx = I" "evidence_stage T = 0"
  shows "steps (still I) (k_append K tx T p)"
proof (rule stepsI)
  fix s r t
  assume "k_append K tx T p s = (r, t)"
  with k_append_cases [where K = K and tx = tx and T = T and p = p and s = s]
  have "quiet s t \<or> appended I T s t" using assms(1) by (auto split: sum.splits)
  then show "still I s t"
  proof
    assume "appended I T s t"
    then obtain e l n where a: "klog t = klog s @ log_line e" "etype e = T" "etx e = I"
      "t = s\<lparr>ks_proj := (ks_proj s)\<lparr>pf_ledger := l\<rparr>, ks_tick := n\<rparr>" unfolding appended_def by blast
    from a(4) have "ks_transaction t = ks_transaction s" by simp
    with a(1-3) assms(2) show ?thesis
      unfolding still_def by (intro disjI2 conjI exI [of _ "[e]"]) simp_all
  qed (auto intro: same_still quiet_same)
qed

subsection \<open>Triples\<close>

definition stands :: "string \<Rightarrow> string \<Rightarrow> transaction_state \<Rightarrow> nat \<Rightarrow> string list \<Rightarrow> 'r kstate \<Rightarrow> bool" where
  "stands L I st lv fin s \<longleftrightarrow>
     (\<exists>tx es. ks_transaction s = Some tx \<and> core tx = (I, st, tx_terminal_classification tx) \<and> st \<noteq> CREATED
        \<and> (st \<notin> set TERMINAL_STATES \<longrightarrow> tx_terminal_classification tx = None)
        \<and> klog s = L @ concat (map log_line es) \<and> list_all (\<lambda>e. etx e = I) es
        \<and> level es = lv \<and> ends es = fin)"

text \<open>The evidence is at most \<open>d\<close> stages ahead of the object.\<close>

definition not_ahead :: "nat \<Rightarrow> string \<Rightarrow> string \<Rightarrow> 'r kstate \<Rightarrow> bool" where
  "not_ahead d L I s \<longleftrightarrow> (\<exists>st lv fin. stands L I st lv fin s \<and> lv \<le> stage st + d)"

definition settled :: "string \<Rightarrow> string \<Rightarrow> 'r kstate \<Rightarrow> bool" where
  "settled L I s \<longleftrightarrow> (\<exists>st. stands L I st (stage st) (ending st) s)"

definition advances ::
  "nat \<Rightarrow> string \<Rightarrow> string \<Rightarrow> transaction_state \<Rightarrow> nat \<Rightarrow> string list \<Rightarrow> ('r kstate, 'a) eff \<Rightarrow> ('r kstate \<Rightarrow> bool) \<Rightarrow> bool" where
  "advances d L I st lv fin m Q \<longleftrightarrow> (\<forall>s. stands L I st lv fin s \<longrightarrow> runs m s (\<lambda>_. Q) (\<lambda>_. not_ahead d L I))"

named_theorems advances_intros "triples of the calls of a kernel method"

lemma advancesI: "(\<And>s. stands L I st lv fin s \<Longrightarrow> runs m s (\<lambda>_. Q) (\<lambda>_. not_ahead d L I)) \<Longrightarrow> advances d L I st lv fin m Q"
  by (simp add: advances_def)

lemma advancesD: "advances d L I st lv fin m Q \<Longrightarrow> stands L I st lv fin s \<Longrightarrow> runs m s (\<lambda>_. Q) (\<lambda>_. not_ahead d L I)"
  by (simp add: advances_def)

lemma stands_not_ahead: "stands L I st lv fin s \<Longrightarrow> lv \<le> stage st + d \<Longrightarrow> not_ahead d L I s"
  by (auto simp: not_ahead_def)

lemma stands_still: "stands L I st lv fin s \<Longrightarrow> still I s t \<Longrightarrow> stands L I st lv fin t"
proof -
  assume "stands L I st lv fin s"
  then obtain tx es where s: "ks_transaction s = Some tx" "core tx = (I, st, tx_terminal_classification tx)" "st \<noteq> CREATED"
    "st \<notin> set TERMINAL_STATES \<longrightarrow> tx_terminal_classification tx = None"
    "klog s = L @ concat (map log_line es)" "list_all (\<lambda>e. etx e = I) es" "level es = lv" "ends es = fin"
    unfolding stands_def by blast
  from s(1,2) have "open_id s = Some I" by (simp add: open_id_def core_def)
  moreover assume "still I s t"
  ultimately obtain fs where t: "map_option core (ks_transaction t) = map_option core (ks_transaction s)"
    "klog t = klog s @ concat (map log_line fs)" "list_all (\<lambda>e. etx e = I) fs" "level fs = 0"
    by (auto simp: still_def)
  from t(1) s(1) obtain tx' where "ks_transaction t = Some tx'" "core tx' = core tx" by auto
  moreover have "klog t = L @ concat (map log_line (es @ fs))" "list_all (\<lambda>e. etx e = I) (es @ fs)"
    "level (es @ fs) = lv" "ends (es @ fs) = fin" using s t level_0 [OF t(4)] by simp_all
  ultimately show ?thesis using s unfolding stands_def by (intro exI [of _ tx'] exI [of _ "es @ fs"]) (auto simp: core_def)
qed

lemma advances_bind:
  "advances d L I st lv fin m R \<Longrightarrow> (\<And>x s. R s \<Longrightarrow> runs (f x) s (\<lambda>_. Q) (\<lambda>_. not_ahead d L I))
   \<Longrightarrow> advances d L I st lv fin (sbind m f) Q"
  unfolding advances_def by (blast intro: runs_sbind runs_conseq)

lemma advances_still:
  assumes "steps (still I) m" "lv \<le> stage st + d" "\<And>x. advances d L I st lv fin (f x) Q"
  shows "advances d L I st lv fin (sbind m f) Q"
proof (rule advancesI)
  fix s :: "'a kstate"
  assume s: "stands L I st lv fin s"
  show "runs (sbind m f) s (\<lambda>_. Q) (\<lambda>_. not_ahead d L I)"
    by (rule runs_sbind, rule runs_steps [OF assms(1)])
      (use stands_still [OF s] assms(2) in \<open>auto intro: advancesD [OF assms(3)] stands_not_ahead\<close>)
qed

lemma advances_require [advances_intros]:
  assumes "\<And>tx. tx_id tx = I \<Longrightarrow> tx_state tx = st \<Longrightarrow> advances d L I st lv fin (f tx) Q"
  shows "advances d L I st lv fin (sbind k_require f) Q"
proof (rule advancesI)
  fix s :: "'a kstate"
  assume s: "stands L I st lv fin s"
  then obtain tx where "ks_transaction s = Some tx" "tx_id tx = I" "tx_state tx = st" by (auto simp: stands_def core_def)
  then show "runs (sbind k_require f) s (\<lambda>_. Q) (\<lambda>_. not_ahead d L I)"
    using advancesD [OF assms s] by (simp add: runs_def sbind_def k_require_run)
qed

lemma advances_check [advances_intros]:
  "lv \<le> stage st + d \<Longrightarrow> (b \<Longrightarrow> advances d L I st lv fin (f ()) Q) \<Longrightarrow> advances d L I st lv fin (sbind (scheck b c m) f) Q"
  unfolding advances_def by (auto intro!: runs_sbind runs_scheck dest: stands_not_ahead)

lemma advances_throw [advances_intros]: "lv \<le> stage st + d \<Longrightarrow> advances d L I st lv fin (sthrow c m) Q"
  unfolding advances_def by (auto intro!: runs_sthrow dest: stands_not_ahead)

lemma advances_get [advances_intros]:
  "(\<And>s. advances d L I st lv fin (f s) Q) \<Longrightarrow> advances d L I st lv fin (sbind sget f) Q"
  unfolding advances_def by (auto intro!: runs_sbind runs_sget)

lemma advances_cases [advances_intros]:
  "(b \<Longrightarrow> advances d L I st lv fin m Q) \<Longrightarrow> (\<not> b \<Longrightarrow> advances d L I st lv fin n Q) \<Longrightarrow> advances d L I st lv fin (if b then m else n) Q"
  "(a = None \<Longrightarrow> advances d L I st lv fin n Q) \<Longrightarrow> (\<And>y. a = Some y \<Longrightarrow> advances d L I st lv fin (g y) Q)
   \<Longrightarrow> advances d L I st lv fin (case a of None \<Rightarrow> n | Some y \<Rightarrow> g y) Q"
  "(\<And>y z. p = (y, z) \<Longrightarrow> advances d L I st lv fin (h y z) Q) \<Longrightarrow> advances d L I st lv fin (case p of (y, z) \<Rightarrow> h y z) Q"
  "advances d L I st lv fin (k v) Q \<Longrightarrow> advances d L I st lv fin (let y = v in k y) Q"
  by (simp_all split: option.split prod.split)

lemma advances_assoc [advances_intros]:
  "advances d L I st lv fin (sbind m (\<lambda>x. sbind (f x) g)) Q \<Longrightarrow> advances d L I st lv fin (sbind (sbind m f) g) Q"
proof -
  have "sbind (sbind m f) g = sbind m (\<lambda>x. sbind (f x) g)"
    by (auto simp: sbind_def split: prod.splits sum.splits)
  then show "advances d L I st lv fin (sbind m (\<lambda>x. sbind (f x) g)) Q \<Longrightarrow> ?thesis" by simp
qed

lemma advances_append_any:
  assumes "tx_id tx = I" "lv \<le> stage st + d"
    and "advances d L I st (max lv (evidence_stage T)) (fin @ filter (\<lambda>t. t \<in> set TERMINAL_EVENT_TYPES) [T]) (f ()) Q"
  shows "advances d L I st lv fin (sbind (k_append K tx T p) f) Q"
proof (rule advancesI)
  fix s :: "'a kstate"
  assume s: "stands L I st lv fin s"
  show "runs (sbind (k_append K tx T p) f) s (\<lambda>_. Q) (\<lambda>_. not_ahead d L I)"
  proof (rule runs_sbind, rule runs_k_append)
    fix t
    assume "appended (tx_id tx) T s t"
    then obtain e l n where a: "klog t = klog s @ log_line e" "etype e = T" "etx e = I"
      "t = s\<lparr>ks_proj := (ks_proj s)\<lparr>pf_ledger := l\<rparr>, ks_tick := n\<rparr>"
      unfolding appended_def assms(1) by blast
    from a(4) have "ks_transaction t = ks_transaction s" by simp
    moreover from s obtain tx' es where "ks_transaction s = Some tx'" "core tx' = (I, st, tx_terminal_classification tx')" "st \<noteq> CREATED"
      "st \<notin> set TERMINAL_STATES \<longrightarrow> tx_terminal_classification tx' = None"
      "klog s = L @ concat (map log_line es)" "list_all (\<lambda>e. etx e = I) es" "level es = lv" "ends es = fin"
      unfolding stands_def by blast
    ultimately have "stands L I st (max lv (evidence_stage T)) (fin @ filter (\<lambda>t. t \<in> set TERMINAL_EVENT_TYPES) [T]) t"
      unfolding stands_def using a(1-3)
      by (intro exI [of _ tx'] exI [of _ "es @ [e]"]) (simp add: ends_def)
    then show "runs (f ()) t (\<lambda>_. Q) (\<lambda>_. not_ahead d L I)" by (rule advancesD [OF assms(3)])
  next
    fix e t
    assume "quiet s t"
    then show "not_ahead d L I t" by (rule stands_not_ahead [OF stands_still [OF s same_still [OF quiet_same]] assms(2)])
  qed
qed

lemma advances_append:
  "tx_id tx = I \<Longrightarrow> lv \<le> stage st + d \<Longrightarrow> T \<notin> set TERMINAL_EVENT_TYPES
   \<Longrightarrow> advances d L I st (max lv (evidence_stage T)) fin (f ()) Q \<Longrightarrow> advances d L I st lv fin (sbind (k_append K tx T p) f) Q"
  by (rule advances_append_any) simp_all

lemma advances_transition [advances_intros]:
  assumes "target = st \<or> target \<in> set (ALLOWED_TRANSITIONS st) \<Longrightarrow> advances d L I target lv fin (f ()) Q"
    and "target \<notin> set TERMINAL_STATES" "lv \<le> stage st + d \<or> target = st \<or> target \<in> set (ALLOWED_TRANSITIONS st)"
  shows "advances d L I st lv fin (sbind (k_transition target) f) Q"
proof (rule advancesI)
  fix s :: "'a kstate"
  assume s: "stands L I st lv fin s"
  then obtain tx es where tx: "ks_transaction s = Some tx" "core tx = (I, st, tx_terminal_classification tx)" "st \<noteq> CREATED"
      "st \<notin> set TERMINAL_STATES \<longrightarrow> tx_terminal_classification tx = None"
      "klog s = L @ concat (map log_line es)" "list_all (\<lambda>e. etx e = I) es" "level es = lv" "ends es = fin"
      unfolding stands_def by blast
  show "runs (sbind (k_transition target) f) s (\<lambda>_. Q) (\<lambda>_. not_ahead d L I)"
  proof (cases "tx_transition target tx")
    case (Inl e)
    then have "k_transition target s = (Inl e, s)"
      using tx(1) by (simp add: k_transition_def k_update_def sbind_def k_require_run eff_simps)
    moreover have "\<not> (target = st \<or> target \<in> set (ALLOWED_TRANSITIONS st))"
      using Inl tx(2) tx_transition_Inr [of target tx] by (auto simp: core_def)
    ultimately show ?thesis using stands_not_ahead [OF s] assms(3) by (simp add: runs_def sbind_def)
  next
    case (Inr tx')
    let ?t = "s\<lparr>ks_transaction := Some tx'\<rparr>"
    from Inr tx(2) have c: "target = st \<and> tx' = tx \<or> target \<in> set (ALLOWED_TRANSITIONS st) \<and> tx' = tx\<lparr>tx_state := target\<rparr>"
      by (auto simp: tx_transition_Inr core_def)
    have "tx_terminal_classification tx' = None" "core tx' = (I, target, tx_terminal_classification tx')" "target \<noteq> CREATED"
      using c tx(2-4) assms(2) no_way_back [of st] by (auto simp: core_def dest: terminal_no_successor)
    then have t: "stands L I target lv fin ?t"
      unfolding stands_def using tx by (intro exI [of _ tx'] exI [of _ es]) (simp add: klog_def)
    have "k_transition target s = (Inr (), ?t)"
      using tx(1) Inr by (simp add: k_transition_def k_update_def sbind_def k_require_run eff_simps)
    moreover from c have "target = st \<or> target \<in> set (ALLOWED_TRANSITIONS st)" by blast
    from advancesD [OF assms(1) [OF this] t] have "runs (f ()) ?t (\<lambda>_. Q) (\<lambda>_. not_ahead d L I)" .
    ultimately show ?thesis by (simp add: runs_def sbind_def)
  qed
qed

lemma advances_ret [advances_intros]:
  "lv = stage st \<Longrightarrow> fin = ending st \<Longrightarrow> advances d L I st lv fin (sret x) (settled L I)"
  unfolding advances_def settled_def by (auto intro!: runs_sret)

text \<open>A last call is one that is followed by a return.\<close>

lemma sbind_sret_right: "sbind m sret = m"
  by (rule ext) (auto simp: sbind_def eff_simps split: prod.split sum.split)

lemma advances_last: "advances d L I st lv fin (sbind m sret) Q \<Longrightarrow> advances d L I st lv fin m Q"
  by (simp add: sbind_sret_right)

lemma allowed_into [simp]:
  "LEASE_PENDING \<in> set (ALLOWED_TRANSITIONS st) \<longleftrightarrow> st = CREATED"
  "ACTIVE \<in> set (ALLOWED_TRANSITIONS st) \<longleftrightarrow> st = LEASE_PENDING"
  "RESULT_PENDING \<in> set (ALLOWED_TRANSITIONS st) \<longleftrightarrow> st = ACTIVE"
  "VALIDATING \<in> set (ALLOWED_TRANSITIONS st) \<longleftrightarrow> st = RESULT_PENDING"
  "FINALIZING \<in> set (ALLOWED_TRANSITIONS st) \<longleftrightarrow> st = VALIDATING"
  "COMPLETED \<in> set (ALLOWED_TRANSITIONS st) \<longleftrightarrow> st = FINALIZING"
  by (cases st; simp add: non_completed_terminals_def TERMINAL_STATES_def)+

lemma stage_values [simp]:
  "stage CREATED = 0" "stage LEASE_PENDING = 0" "stage ACTIVE = 1" "stage RESULT_PENDING = 2" "stage VALIDATING = 3"
  "stage FINALIZING = 4" "stage COMPLETED = 5" "stage BLOCKED = 5" "stage HUMAN_DECISION_REQUIRED = 5"
  "stage RETRYABLE_FAILURE = 5" "stage TERMINAL_FAILURE = 5" "stage SUPERSEDED = 5"
  by (simp_all add: stage_def)

lemma ending_open [simp]:
  "ending CREATED = []" "ending LEASE_PENDING = []" "ending ACTIVE = []" "ending RESULT_PENDING = []"
  "ending VALIDATING = []" "ending FINALIZING = []"
  by (simp_all add: ending_def non_completed_terminals_def TERMINAL_STATES_def)

lemmas evidence_types = evidence_stage_def TERMINAL_EVENT_TYPES_def TERMINAL_STATES_def

subsection \<open>The methods\<close>

lemma still_checkpoint [steps_intros]: "steps (still I) (checkpoint K n p)"
  unfolding checkpoint_def by (intro steps_intros; simp add: evidence_types)

lemma still_intent [steps_intros]: "tx_id tx = I \<Longrightarrow> steps (still I) (k_intent K tx a b c es)"
  unfolding k_intent_def by (intro steps_intros; simp add: evidence_types)

lemma still_methods [steps_intros]:
  "steps (still I) (prepare_starting_branch K)" "steps (still I) (capture_snapshot K)"
  "steps (still I) (authorize_normalization K a b c)" "steps (still I) (record_file_mutation_boundary K)"
  "steps (still I) (prepare_integration_changes K d)" "steps (still I) (k_release K)" "steps (still I) (k_announce K e v)"
  unfolding prepare_starting_branch_def capture_snapshot_def authorize_normalization_def
    record_file_mutation_boundary_def prepare_integration_changes_def k_release_def k_announce_def
  by (intro steps_intros; simp add: evidence_types)+

text \<open>A method that is \<open>still\<close> leaves a settled transaction settled.\<close>

lemma advances_still_last:
  "steps (still I) m \<Longrightarrow> lv = stage st \<Longrightarrow> fin = ending st \<Longrightarrow> advances d L I st lv fin m (settled L I)"
  by (rule advances_last, rule advances_still) (auto intro: advances_ret)

lemmas advances_settled = advances_still_last [OF _ refl refl]

lemma advances_append_last:
  "tx_id tx = I \<Longrightarrow> lv \<le> stage st + d \<Longrightarrow> T \<notin> set TERMINAL_EVENT_TYPES \<Longrightarrow> max lv (evidence_stage T) = stage st
   \<Longrightarrow> fin = ending st \<Longrightarrow> advances d L I st lv fin (k_append K tx T p) (settled L I)"
  by (rule advances_last, rule advances_append) (auto intro: advances_ret)

lemma advances_transition_last:
  "(target = st \<or> target \<in> set (ALLOWED_TRANSITIONS st) \<Longrightarrow> lv = stage target \<and> fin = ending target) \<Longrightarrow> target \<notin> set TERMINAL_STATES
   \<Longrightarrow> lv \<le> stage st + d \<or> target = st \<or> target \<in> set (ALLOWED_TRANSITIONS st)
   \<Longrightarrow> advances d L I st lv fin (k_transition target) (settled L I)"
  by (rule advances_last, rule advances_transition) (auto intro: advances_ret)

text \<open>Assignments cannot raise.\<close>

lemma advances_assign:
  assumes "steps (still I) m" "\<And>s. stands L I st lv fin s \<Longrightarrow> \<exists>t. m s = (Inr (), t)" "advances d L I st lv fin (f ()) Q"
  shows "advances d L I st lv fin (sbind m f) Q"
proof (rule advancesI)
  fix s :: "'a kstate"
  assume s: "stands L I st lv fin s"
  then obtain t where t: "m s = (Inr (), t)" using assms(2) by blast
  with assms(1) have "still I s t" by (rule stepsD)
  from advancesD [OF assms(3) stands_still [OF s this]] show "runs (sbind m f) s (\<lambda>_. Q) (\<lambda>_. not_ahead d L I)"
    by (simp add: runs_def sbind_def t)
qed

lemma advances_smodify:
  "(\<And>s. ks_transaction (g s) = ks_transaction s \<and> ks_proj (g s) = ks_proj s) \<Longrightarrow> advances d L I st lv fin (f ()) Q
   \<Longrightarrow> advances d L I st lv fin (sbind (smodify g) f) Q"
  by (rule advances_assign [OF same_smodify [THEN steps_still]]) (auto simp: eff_simps)

lemma advances_next_state:
  "advances d L I st lv fin (f ()) Q \<Longrightarrow> advances d L I st lv fin (sbind (k_next_state v) f) Q"
  by (rule advances_assign [OF same_fields(1) [THEN steps_still]])
    (auto simp: k_next_state_def k_update_def sbind_def k_require_run eff_simps stands_def)

lemmas advances_rules = advances_require advances_get advances_check advances_throw advances_append
  advances_transition advances_smodify advances_next_state advances_ret advances_cases advances_still
  advances_append_last advances_transition_last advances_still_last steps_intros

lemma advances_acquire_lease: "advances d L I st (stage st) (ending st) (acquire_lease K) (settled L I)"
  unfolding acquire_lease_def by (intro advances_rules; auto simp: evidence_types)

lemma advances_session_launched: "advances d L I st (stage st) (ending st) (session_launched K sid) (settled L I)"
  unfolding session_launched_def by (intro advances_rules; auto simp: evidence_types core_def)

lemma advances_accept_result: "advances d L I st (stage st) (ending st) (accept_result K e) (settled L I)"
  unfolding accept_result_def by (intro advances_rules; auto simp: evidence_types)

lemma advances_finalize_feature_branch: "advances d L I st (stage st) (ending st) (finalize_feature_branch K b) (settled L I)"
  unfolding finalize_feature_branch_def by (intro advances_rules; auto simp: evidence_types)

lemma advances_planning: "advances d L I st (stage st) (ending st) (finalize_deterministic_planning K a) (settled L I)"
  unfolding finalize_deterministic_planning_def by (intro advances_rules; simp add: evidence_types)

lemma advances_adopt: "advances d L I st (stage st) (ending st) (adopt_committed_planning_recovery K b) (settled L I)"
  unfolding adopt_committed_planning_recovery_def by (intro advances_rules; simp add: evidence_types)

lemma advances_prelaunch:
  "advances (Suc d) L I st (stage st) (ending st) (finalize_clean_prelaunch_recovery K a b p f) (settled L I)"
  unfolding finalize_clean_prelaunch_recovery_def by (intro advances_rules; auto simp: evidence_types)

lemma advances_planning_recovery:
  "advances d L I st (stage st) (ending st) (finalize_deterministic_planning_recovery K pr) (settled L I)"
  unfolding finalize_deterministic_planning_recovery_def by (intro advances_rules; simp add: evidence_types)

lemma advances_feature_recovery:
  "advances d L I st (stage st) (ending st) (finalize_deterministic_feature_recovery K fr) (settled L I)"
  unfolding finalize_deterministic_feature_recovery_def by (intro advances_rules; simp add: evidence_types)

lemma advances_raise: "lv \<le> stage st + d \<Longrightarrow> advances d L I st lv fin (sbind (slift (Inl e)) f) Q"
  unfolding advances_def by (auto simp: runs_def eff_simps dest: stands_not_ahead)

lemma advances_try:
  assumes "lv \<le> stage st + d" "\<And>x. advances d L I st lv fin (f x) Q" "\<And>e. advances d L I st lv fin (sbind (h e) f) Q"
  shows "advances d L I st lv fin (sbind (scatch c (slift r) h) f) Q"
proof (rule advancesI)
  fix s :: "'b kstate"
  assume s: "stands L I st lv fin s"
  show "runs (sbind (scatch c (slift r) h) f) s (\<lambda>_. Q) (\<lambda>_. not_ahead d L I)"
    using advancesD [OF assms(2) s] advancesD [OF assms(3) s] stands_not_ahead [OF s assms(1)]
    by (cases r) (auto simp: scatch_def sbind_def eff_simps runs_def split: prod.splits sum.splits)
qed

lemma advances_validate: "advances d L I st (stage st) (ending st) (k_validate K rs f) (settled L I)"
  unfolding k_validate_def
  by (intro advances_raise advances_try advances_assoc advances_rules; simp add: evidence_types)

lemma steps_acceptance: "steps R m \<Longrightarrow> steps R n \<Longrightarrow> steps R (case w of FEATURE_ACCEPTANCE \<Rightarrow> m | _ \<Rightarrow> n)"
  by (cases w) simp_all

lemma advances_unchanged:
  "tx_id tx = I \<Longrightarrow> st = FINALIZING \<Longrightarrow> lv = 4 \<Longrightarrow> fin = [] \<Longrightarrow> advances d L I st lv fin (finalize_unchanged K tx e) (settled L I)"
  unfolding finalize_unchanged_def Let_def
  by (intro advances_rules steps_acceptance steps_json; simp add: evidence_types)

lemma advances_changes:
  "tx_id tx = I \<Longrightarrow> st = FINALIZING \<Longrightarrow> lv = 4 \<Longrightarrow> fin = [] \<Longrightarrow> advances d L I st lv fin (finalize_changes K tx ps) (settled L I)"
  unfolding finalize_changes_def by (intro advances_rules; simp add: evidence_types)

lemma advances_finalize: "advances d L I st (stage st) (ending st) (k_finalize K) (settled L I)"
  unfolding k_finalize_def
  by (intro advances_unchanged advances_changes advances_rules; simp add: evidence_types)

lemma advances_json:
  "(\<And>x. advances d L I st lv fin (f x) Q) \<Longrightarrow> advances d L I st lv fin m Q \<Longrightarrow> advances d L I st lv fin (case v of JObj x \<Rightarrow> f x | _ \<Rightarrow> m) Q"
  "(\<And>x. advances d L I st lv fin (g x) Q) \<Longrightarrow> advances d L I st lv fin m Q \<Longrightarrow> advances d L I st lv fin (case v of JStr x \<Rightarrow> g x | _ \<Rightarrow> m) Q"
  by (cases v; simp)+

lemma advances_integrated:
  "tx_id tx = I \<Longrightarrow> st = VALIDATING \<Longrightarrow> lv = 3 \<Longrightarrow> fin = [] \<Longrightarrow> advances d L I st lv fin (k_integrated K tx plan r v) (settled L I)"
  unfolding k_integrated_def Let_def
  by (intro advances_json advances_rules; simp add: evidence_types)
definition conflicting :: "obj \<Rightarrow> bool" where
  "conflicting r \<longleftrightarrow> oget r ''classification'' = JStr ''SEMANTIC_CONFLICT''"

lemma advances_integration:
  "\<not> conflicting r \<Longrightarrow> advances d L I st (stage st) (ending st) (accept_deterministic_integration_result K plan r) (settled L I)"
  unfolding accept_deterministic_integration_result_def conflicting_def Let_def
  by (intro advances_integrated advances_json advances_rules; simp add: evidence_types)

lemma advances_ret_ahead: "lv \<le> stage st \<Longrightarrow> advances d L I st lv fin (sret x) (not_ahead 0 L I)"
  unfolding advances_def not_ahead_def by (auto intro!: runs_sret)

lemma advances_conflict:
  "conflicting r \<Longrightarrow> advances d L I st (stage st) (ending st) (accept_deterministic_integration_result K plan r) (not_ahead 0 L I)"
  unfolding accept_deterministic_integration_result_def conflicting_def Let_def
  by (intro advances_ret_ahead advances_json advances_rules; simp add: evidence_types)

lemma advances_terminal_update:
  assumes "st' \<in> set TERMINAL_STATES" "st \<in> set TERMINAL_STATES \<and> lv \<le> stage st + d \<or> st' \<in> set (ALLOWED_TRANSITIONS st)"
    and "st' \<in> set (ALLOWED_TRANSITIONS st) \<Longrightarrow> advances d L I st' lv fin (f ()) Q"
  shows "advances d L I st lv fin (sbind (k_update (tx_terminate st' c r)) f) Q"
proof (rule advancesI)
  fix s :: "'a kstate"
  assume s: "stands L I st lv fin s"
  then obtain tx es where tx: "ks_transaction s = Some tx" "core tx = (I, st, tx_terminal_classification tx)" "st \<noteq> CREATED"
      "st \<notin> set TERMINAL_STATES \<longrightarrow> tx_terminal_classification tx = None"
      "klog s = L @ concat (map log_line es)" "list_all (\<lambda>e. etx e = I) es" "level es = lv" "ends es = fin"
      unfolding stands_def by blast
  show "runs (sbind (k_update (tx_terminate st' c r)) f) s (\<lambda>_. Q) (\<lambda>_. not_ahead d L I)"
  proof (cases "st \<in> set TERMINAL_STATES")
    case True
    then have "fst (k_update (tx_terminate st' c r) s) = raise TransactionError ''transaction already has a terminal outcome''
        \<and> snd (k_update (tx_terminate st' c r) s) = s"
      using tx(1,2) assms(1) by (simp add: k_update_def sbind_def k_require_run eff_simps tx_terminate_def core_def raise_def)
    moreover have "not_ahead d L I s" using True assms(2) terminal_no_successor [OF True] stands_not_ahead [OF s] by auto
    ultimately show ?thesis by (auto simp: runs_def sbind_def raise_def split: prod.split sum.split)
  next
    case False
    with assms(2) have al: "st' \<in> set (ALLOWED_TRANSITIONS st)" by blast
    let ?tx = "tx\<lparr>tx_state := st', tx_terminal_classification := Some c, tx_terminal_reference := r\<rparr>"
    have "tx_transition st' tx = Inr (tx\<lparr>tx_state := st'\<rparr>)"
      using al tx(2) False by (auto simp: tx_transition_def core_def)
    then have k: "k_update (tx_terminate st' c r) s = (Inr (), s\<lparr>ks_transaction := Some ?tx\<rparr>)"
      using tx False assms(1) by (simp add: k_update_def sbind_def k_require_run eff_simps tx_terminate_def core_def rbind_def)
    have "stands L I st' lv fin (s\<lparr>ks_transaction := Some ?tx\<rparr>)"
      unfolding stands_def using tx assms(1) by (intro exI [of _ ?tx] exI [of _ es]) (auto simp: klog_def core_def TERMINAL_STATES_def)
    from advancesD [OF assms(3) [OF al] this] k show ?thesis by (simp add: runs_def sbind_def)
  qed
qed

lemma ending_terminal: "st' \<in> set non_completed_terminals \<Longrightarrow> ending st' = [blocking_event st']" "ending COMPLETED = [''TransactionCompleted'']"
  by (auto simp: ending_def non_completed_terminals_def)

lemma blocked_allowed: "st' \<in> set non_completed_terminals \<Longrightarrow> st \<in> set TERMINAL_STATES \<or> st' \<in> set (ALLOWED_TRANSITIONS st)"
  by (cases st) (auto simp: non_completed_terminals_def TERMINAL_STATES_def)

lemma advances_bind_option:
  "(a = None \<Longrightarrow> advances d L I st lv fin (sbind m f) Q) \<Longrightarrow> (\<And>y. a = Some y \<Longrightarrow> advances d L I st lv fin (sbind (g y) f) Q)
   \<Longrightarrow> advances d L I st lv fin (sbind (case a of None \<Rightarrow> m | Some y \<Rightarrow> g y) f) Q"
  by (cases a) simp_all

lemma ending_types: "ending st' = [event] \<Longrightarrow> event \<in> set TERMINAL_EVENT_TYPES"
  by (auto simp: ending_def blocking_event_def TERMINAL_EVENT_TYPES_def split: if_splits)

lemma advances_terminate:
  assumes "st' \<in> set TERMINAL_STATES" "ending st' = [event]" "st \<in> set TERMINAL_STATES \<or> st' \<in> set (ALLOWED_TRANSITIONS st)"
    and "lv = stage st" "fin = ending st"
    and "st' \<in> set (ALLOWED_TRANSITIONS st) \<Longrightarrow> advances d L I st' (stage st') (ending st') (f ()) Q"
  shows "advances d L I st lv fin (sbind (k_terminate K event p st' c r n) f) Q"
proof -
  have ev: "event \<in> set TERMINAL_EVENT_TYPES" by (rule ending_types [OF assms(2)])
  have "stage st' = 5" using assms(1) stage_bounds(2) by blast
  moreover have "stage st \<le> 5" by (rule stage_bounds)
  moreover have "ending st = []" if "st' \<in> set (ALLOWED_TRANSITIONS st)"
    using that by (cases st) auto
  ultimately show ?thesis
    unfolding k_terminate_def
    by (intro advances_assoc advances_require advances_append_any advances_terminal_update advances_next_state advances_still steps_intros;
        use assms ev in \<open>auto simp: evidence_stage_def stage_bounds(2) [symmetric]\<close>)
qed

lemma advances_block: "advances d L I st (stage st) (ending st) (k_block K b) (settled L I)"
  unfolding k_block_def
  by (intro advances_require advances_check advances_terminate advances_rules; auto simp: ending_terminal blocked_allowed non_completed_terminals_def)

lemma advances_complete: "advances d L I st (stage st) (ending st) (k_complete K a cb) (settled L I)"
  unfolding k_complete_def Let_def
  by (intro advances_require advances_check advances_terminate advances_bind_option advances_assoc advances_rules; auto simp: ending_terminal TERMINAL_STATES_def evidence_types)

end
