(* ===== verification/Kernel_Runs.thy ===== *)
theory Kernel_Runs
  imports Kernel_Evidence
begin

section \<open>Runs of the kernel\<close>

text \<open>
  The start of a transaction, every other method as an operation of one type, and what a sequence of
  them leaves: the state of the transaction is the one its evidence gives back.
\<close>

subsection \<open>The start\<close>

text \<open>A transaction that is in memory and has no evidence yet, and one whose start is recorded.\<close>

definition newborn :: "string \<Rightarrow> string \<Rightarrow> 'r kstate \<Rightarrow> bool" where
  "newborn L I s \<longleftrightarrow> klog s = L \<and> map_option core (ks_transaction s) = Some (I, CREATED, None)"

definition started :: "string \<Rightarrow> string \<Rightarrow> 'r kstate \<Rightarrow> bool" where
  "started L I s \<longleftrightarrow> map_option core (ks_transaction s) = Some (I, CREATED, None)
     \<and> (\<exists>e. klog s = L @ log_line e \<and> etx e = I \<and> etype e = ''TransactionStarted'')"

lemma newborn_same: "newborn L I s \<Longrightarrow> same s t \<Longrightarrow> newborn L I t"
  by (simp add: newborn_def same_def)

lemma runs_newborn:
  assumes "newborn L I s" "steps same m" "\<And>x t. newborn L I t \<Longrightarrow> runs (f x) t Q (\<lambda>_. newborn L I)"
  shows "runs (sbind m f) s Q (\<lambda>_. newborn L I)"
  by (rule runs_sbind, rule runs_steps [OF assms(2)]) (use newborn_same [OF assms(1)] in \<open>auto intro: assms(3)\<close>)

lemma runs_started:
  assumes "newborn L I s" "tx_id tx = I"
  shows "runs (k_append K tx ''TransactionStarted'' p) s (\<lambda>_. started L I) (\<lambda>_. newborn L I)"
proof (rule runs_k_append)
  fix t
  assume "appended (tx_id tx) ''TransactionStarted'' s t"
  then obtain e l n where a: "klog t = klog s @ log_line e" "etype e = ''TransactionStarted''" "etx e = tx_id tx"
      "t = s\<lparr>ks_proj := (ks_proj s)\<lparr>pf_ledger := l\<rparr>, ks_tick := n\<rparr>"
    unfolding appended_def by blast
  from a(4) have "ks_transaction t = ks_transaction s" by simp
  with a(1-3) assms show "started L I t" by (auto simp: started_def newborn_def)
qed (use newborn_same [OF assms(1) quiet_same] in auto)

lemma same_release_preacquired [steps_intros]: "steps same (release_preacquired_lease K)"
  unfolding release_preacquired_lease_def by (intro steps_intros; simp)

lemma same_preacquire [steps_intros]: "steps same (preacquire_lease K)"
  unfolding preacquire_lease_def by (intro steps_intros; simp)

lemma runs_abandon: "klog s = L \<Longrightarrow> runs (abandon K e) s Q (\<lambda>_ t. klog t = L)"
  unfolding abandon_def
  by (rule runs_sbind, rule runs_steps [OF same_release_preacquired])
    (auto simp: same_def klog_def runs_def sbind_def eff_simps)

definition open_begin :: "string \<Rightarrow> string \<Rightarrow> phase_transaction \<Rightarrow> 'r kstate \<Rightarrow> bool" where
  "open_begin L I tx t \<longleftrightarrow> ks_transaction t = Some tx \<and> stands L I LEASE_PENDING 0 [] t"

lemma begin_last:
  assumes "started L I u"
  shows "runs (sbind (k_transition LEASE_PENDING) (\<lambda>_. k_require)) u (open_begin L I) (\<lambda>_ t. klog t = L)"
proof -
  from assms obtain tx e where u: "ks_transaction u = Some tx" "core tx = (I, CREATED, None)"
    "klog u = L @ log_line e" "etx e = I" "etype e = ''TransactionStarted''" by (auto simp: started_def)
  let ?tx = "tx\<lparr>tx_state := LEASE_PENDING\<rparr>"
  have "k_transition LEASE_PENDING u = (Inr (), u\<lparr>ks_transaction := Some ?tx\<rparr>)"
    using u(1,2) by (simp add: k_transition_def k_update_def sbind_def k_require_run eff_simps tx_transition_def core_def TERMINAL_STATES_def)
  moreover have "stands L I LEASE_PENDING 0 [] (u\<lparr>ks_transaction := Some ?tx\<rparr>)"
    unfolding stands_def using u by (intro exI [of _ ?tx] exI [of _ "[e]"]) (simp add: klog_def core_def ends_def evidence_types)
  ultimately show ?thesis by (simp add: runs_def sbind_def k_require_run open_begin_def)
qed

lemma begin_tail:
  assumes s: "newborn L I s"
    and body: "\<And>t. newborn L I t \<Longrightarrow> runs body t (\<lambda>_. started L I) (\<lambda>_. newborn L I)"
  shows "runs (sbind (preacquire_lease K) (\<lambda>_. sbind (scatch (\<lambda>_. True) body (abandon K)) (\<lambda>_.
      sbind (k_transition LEASE_PENDING) (\<lambda>_. k_require)))) s (open_begin L I) (\<lambda>_ t. klog t = L)"
proof (rule runs_sbind, rule runs_steps [OF same_preacquire])
  fix x t
  assume "same s t"
  with s have t: "newborn L I t" by (rule newborn_same)
  show "runs (sbind (scatch (\<lambda>_. True) body (abandon K)) (\<lambda>_. sbind (k_transition LEASE_PENDING) (\<lambda>_. k_require))) t
    (open_begin L I) (\<lambda>_ t. klog t = L)"
    by (rule runs_sbind, rule runs_scatch, rule runs_conseq [OF body [OF t]])
      (auto simp: newborn_def intro: begin_last runs_abandon)
qed (use s in \<open>auto simp: newborn_def same_def\<close>)

lemma runs_quiet_log:
  assumes "klog s = L" "steps quiet m" "\<And>x t. klog t = L \<Longrightarrow> runs (f x) t Q (\<lambda>_ t. klog t = L)"
  shows "runs (sbind m f) s Q (\<lambda>_ t. klog t = L)"
proof (rule runs_sbind, rule runs_steps [OF assms(2)])
  show "runs (f x) t Q (\<lambda>_ t. klog t = L)" if "quiet s t" for x t
    using that assms(1) by (intro assms(3)) (simp add: quiet_def)
qed (use assms(1) in \<open>simp add: quiet_def\<close>)

lemma runs_created:
  assumes "klog s = L"
    and "\<And>tx t. klog t = L \<Longrightarrow> core tx = (tx_id tx, CREATED, None) \<Longrightarrow> runs (f tx) t Q (\<lambda>_ t. klog t = L)"
  shows "runs (sbind (created K a sn) f) s Q (\<lambda>_ t. klog t = L)"
  using assms unfolding created_def
  by (auto simp: runs_def sbind_def k_fresh_def eff_simps tx_create_def raise_def klog_def core_def split: prod.splits sum.splits)

definition began :: "string \<Rightarrow> phase_transaction \<Rightarrow> 'r kstate \<Rightarrow> bool" where
  "began L tx t \<longleftrightarrow> open_begin L (tx_id tx) tx t"

lemma open_begin_id: "open_begin L I tx t \<Longrightarrow> began L tx t"
  by (auto simp: open_begin_def began_def stands_def core_def)

lemma runs_owned:
  assumes "klog s = L" "core tx = (tx_id tx, CREATED, None)"
    and "\<And>t. newborn L (tx_id tx) t \<Longrightarrow> runs body t (\<lambda>_. started L (tx_id tx)) (\<lambda>_. newborn L (tx_id tx))"
  shows "runs (sbind (smodify (\<lambda>s. s\<lparr>ks_transaction := Some tx\<rparr>)) (\<lambda>_. sbind (preacquire_lease K) (\<lambda>_.
      sbind (scatch (\<lambda>_. True) body (abandon K)) (\<lambda>_. sbind (k_transition LEASE_PENDING) (\<lambda>_. k_require))))) s
    (began L) (\<lambda>_ t. klog t = L)"
proof -
  have n: "newborn L (tx_id tx) (s\<lparr>ks_transaction := Some tx\<rparr>)"
    using assms(1,2) by (simp add: newborn_def klog_def)
  show ?thesis
    by (rule runs_sbind, rule runs_smodify, rule runs_conseq [OF begin_tail [OF n assms(3)]])
      (auto intro: open_begin_id)
qed

lemma runs_begin: "runs (k_begin K a) s (began (klog s)) (\<lambda>_ t. klog t = klog s)"
  unfolding k_begin_def
  by (intro runs_owned runs_started runs_newborn runs_created runs_quiet_log steps_intros; simp)

lemma runs_begin_for_branch: "runs (k_begin_for_branch K a b) s (began (klog s)) (\<lambda>_ t. klog t = klog s)"
  unfolding k_begin_for_branch_def Let_def
  by (intro runs_owned runs_started runs_newborn runs_created runs_option runs_sthrow runs_quiet_log steps_intros; simp)

subsection \<open>The methods as operations\<close>

datatype 'r kernel_op =
    Prepare_starting_branch
  | Acquire_lease
  | Checkpoint string obj
  | Prepare_integration string
  | Capture_snapshot
  | Session_launched string
  | Accept_result session_envelope
  | Authorize_normalization "string list" "string list" string
  | Integration_result obj obj
  | Planning_recovery planning_recovery
  | Planning planning_args
  | Adopt_planning committed_planning
  | Prelaunch_recovery string string string string
  | Feature_recovery feature_recovery
  | Record_boundary
  | Validate "command_record list" "(session_envelope \<Rightarrow> string list \<Rightarrow> unit res) option"
  | Finalize
  | Finalize_branch string
  | Complete complete_args "(obj \<Rightarrow> ('r repo, unit) eff) option"
  | Block block_args

definition done_with :: "('s, 'a) eff \<Rightarrow> ('s, unit) eff" where
  "done_with m = sbind m (\<lambda>_. sret ())"

fun kernel_do :: "'r kenv \<Rightarrow> 'r kernel_op \<Rightarrow> ('r kstate, unit) eff" where
  "kernel_do K Prepare_starting_branch = prepare_starting_branch K"
| "kernel_do K Acquire_lease = done_with (acquire_lease K)"
| "kernel_do K (Checkpoint n p) = checkpoint K n p"
| "kernel_do K (Prepare_integration c) = done_with (prepare_integration_changes K c)"
| "kernel_do K Capture_snapshot = done_with (capture_snapshot K)"
| "kernel_do K (Session_launched s) = session_launched K s"
| "kernel_do K (Accept_result e) = accept_result K e"
| "kernel_do K (Authorize_normalization a b fp) = authorize_normalization K a b fp"
| "kernel_do K (Integration_result p r) = accept_deterministic_integration_result K p r"
| "kernel_do K (Planning_recovery a) = done_with (finalize_deterministic_planning_recovery K a)"
| "kernel_do K (Planning a) = finalize_deterministic_planning K a"
| "kernel_do K (Adopt_planning a) = done_with (adopt_committed_planning_recovery K a)"
| "kernel_do K (Prelaunch_recovery a b p f) = finalize_clean_prelaunch_recovery K a b p f"
| "kernel_do K (Feature_recovery a) = done_with (finalize_deterministic_feature_recovery K a)"
| "kernel_do K Record_boundary = record_file_mutation_boundary K"
| "kernel_do K (Validate rs f) = done_with (k_validate K rs f)"
| "kernel_do K Finalize = done_with (k_finalize K)"
| "kernel_do K (Finalize_branch b) = done_with (finalize_feature_branch K b)"
| "kernel_do K (Complete a cb) = done_with (k_complete K a cb)"
| "kernel_do K (Block b) = done_with (k_block K b)"

text \<open>The two methods that need a remark: an integration that reports a conflict leaves an object that
  waits for its gate, ahead of its evidence; the recovery of a failed launch records the validation
  before it moves the object.\<close>

fun conflicts :: "'r kernel_op \<Rightarrow> bool" where
  "conflicts (Integration_result p r) = conflicting r"
| "conflicts _ = False"

fun slack :: "'r kernel_op \<Rightarrow> nat" where
  "slack (Prelaunch_recovery a b p f) = 1"
| "slack _ = 0"

lemma advances_done: "advances d L I st lv fin m (settled L I) \<Longrightarrow> advances d L I st lv fin (done_with m) (settled L I)"
  unfolding done_with_def by (erule advances_bind) (rule runs_sret)

lemma advances_prelaunch':
  "0 < d \<Longrightarrow> advances d L I st (stage st) (ending st) (finalize_clean_prelaunch_recovery K a b p f) (settled L I)"
  using advances_prelaunch [of "d - 1"] by simp

lemmas advances_methods = still_methods [THEN advances_settled] still_checkpoint [THEN advances_settled]
  advances_acquire_lease advances_session_launched advances_accept_result advances_finalize_feature_branch
  advances_finalize advances_validate advances_planning advances_adopt advances_planning_recovery
  advances_feature_recovery advances_integration advances_block advances_complete advances_prelaunch'

lemma kernel_do_advances:
  "\<not> conflicts op \<Longrightarrow> slack op \<le> d \<Longrightarrow> advances d L I st (stage st) (ending st) (kernel_do K op) (settled L I)"
  by (cases op) (auto intro: advances_done advances_methods)

text \<open>Sequences: each method starts where the one before has settled.\<close>

lemma runs_ops:
  assumes "list_all (\<lambda>op. \<not> conflicts op \<and> slack op \<le> d) ops" "settled L I s"
  shows "runs (sall (kernel_do K) ops) s (\<lambda>_. settled L I) (\<lambda>_. not_ahead d L I)"
  using assms
proof (induction ops arbitrary: s)
  case Nil
  then show ?case by (simp add: runs_sret)
next
  case (Cons op ops)
  from Cons.prems(2) obtain st where st: "stands L I st (stage st) (ending st) s" by (auto simp: settled_def)
  from Cons.prems(1) have op: "\<not> conflicts op" "slack op \<le> d" and ops: "list_all (\<lambda>op. \<not> conflicts op \<and> slack op \<le> d) ops"
    by simp_all
  from advancesD [OF kernel_do_advances [OF op] st]
  have "runs (kernel_do K op) s (\<lambda>_. settled L I) (\<lambda>_. not_ahead d L I)" .
  then show ?case by (auto intro!: runs_sbind Cons.IH [OF ops] elim: runs_conseq)
qed

subsection \<open>What \<^verbatim>\<open>restore\<close> makes of the evidence\<close>

lemma stage_steps:
  "5 \<le> evidence_stage t \<longleftrightarrow> t \<in> set TERMINAL_EVENT_TYPES"
  "4 \<le> evidence_stage t \<longleftrightarrow> 5 \<le> evidence_stage t \<or> t \<in> set [''ValidationPassed'', ''CommitFinalized'']"
  "3 \<le> evidence_stage t \<longleftrightarrow> 4 \<le> evidence_stage t \<or> t \<in> set [''SessionResultAccepted'', ''ValidationStarted'', ''ValidationFailed'']"
  "2 \<le> evidence_stage t \<longleftrightarrow> 3 \<le> evidence_stage t \<or> t \<in> set [''SessionLaunched'']"
  "1 \<le> evidence_stage t \<longleftrightarrow> 2 \<le> evidence_stage t \<or> t \<in> set [''LeaseAcquired'']"
  by (auto simp: evidence_stage_def TERMINAL_EVENT_TYPES_def)

lemma level_steps:
  "5 \<le> level es \<longleftrightarrow> has_type TERMINAL_EVENT_TYPES es"
  "4 \<le> level es \<longleftrightarrow> 5 \<le> level es \<or> has_type [''ValidationPassed'', ''CommitFinalized''] es"
  "3 \<le> level es \<longleftrightarrow> 4 \<le> level es \<or> has_type [''SessionResultAccepted'', ''ValidationStarted'', ''ValidationFailed''] es"
  "2 \<le> level es \<longleftrightarrow> 3 \<le> level es \<or> has_type [''SessionLaunched''] es"
  "1 \<le> level es \<longleftrightarrow> 2 \<le> level es \<or> has_type [''LeaseAcquired''] es"
proof -
  have or: "(list_ex P es \<longleftrightarrow> list_ex Q es \<or> list_ex R es)" if "\<And>e. P e \<longleftrightarrow> Q e \<or> R e" for P Q R :: "obj \<Rightarrow> bool" and es
    using that by (induction es) auto
  show "5 \<le> level es \<longleftrightarrow> has_type TERMINAL_EVENT_TYPES es"
    by (simp add: level_geq has_type_def stage_steps(1))
  show "4 \<le> level es \<longleftrightarrow> 5 \<le> level es \<or> has_type [''ValidationPassed'', ''CommitFinalized''] es"
    unfolding level_geq [of 4, simplified] level_geq [of 5, simplified] has_type_def by (rule or) (rule stage_steps)
  show "3 \<le> level es \<longleftrightarrow> 4 \<le> level es \<or> has_type [''SessionResultAccepted'', ''ValidationStarted'', ''ValidationFailed''] es"
    unfolding level_geq [of 4, simplified] level_geq [of 3, simplified] has_type_def by (rule or) (rule stage_steps)
  show "2 \<le> level es \<longleftrightarrow> 3 \<le> level es \<or> has_type [''SessionLaunched''] es"
    unfolding level_geq [of 2, simplified] level_geq [of 3, simplified] has_type_def by (rule or) (rule stage_steps)
  show "1 \<le> level es \<longleftrightarrow> 2 \<le> level es \<or> has_type [''LeaseAcquired''] es"
    unfolding level_geq [OF zero_less_one] level_geq [of 2, simplified] has_type_def by (rule or) (rule stage_steps)
qed

lemma has_terminal: "set ts \<subseteq> set TERMINAL_EVENT_TYPES \<Longrightarrow> has_type ts es \<longleftrightarrow> list_ex (\<lambda>t. t \<in> set ts) (ends es)"
  by (auto simp: has_type_def ends_def list_ex_iff)

text \<open>The state a restored transaction has; a blocked transaction is not restored.\<close>

definition resumes :: "obj list \<Rightarrow> transaction_state \<Rightarrow> bool" where
  "resumes es st \<longleftrightarrow>
     (if st \<in> set non_completed_terminals
      then restored_state es = raise TransactionError ''terminal non-completed transaction cannot be resumed''
      else restored_state es = Inr st)"

lemma settled_resumes:
  assumes "level es = stage st" "ends es = ending st" "st \<noteq> CREATED"
  shows "resumes es st"
proof (cases "st \<in> set TERMINAL_STATES")
  case True
  then show ?thesis
    using assms(2) by (auto simp: resumes_def restored_state_def has_terminal TERMINAL_EVENT_TYPES_def ending_def
        non_completed_terminals_def TERMINAL_STATES_def blocking_event_def)
next
  case False
  then have e: "ends es = []" using assms(2) by (auto simp: ending_def non_completed_terminals_def TERMINAL_STATES_def)
  then have "\<not> has_type [''TransactionCompleted''] es"
    "\<not> has_type [''TransactionBlocked'', ''HumanGateRaised'', ''TransactionSuperseded''] es"
    by (simp_all add: has_terminal TERMINAL_EVENT_TYPES_def)
  then show ?thesis
    using False assms(1,3) level_steps [of es]
    by (cases st) (simp_all add: resumes_def restored_state_def non_completed_terminals_def TERMINAL_STATES_def)
qed
subsection \<open>The evidence of a run\<close>

fun kernel_start :: "'r kenv \<Rightarrow> string option \<Rightarrow> begin_args \<Rightarrow> ('r kstate, phase_transaction) eff" where
  "kernel_start K None a = k_begin K a"
| "kernel_start K (Some branch) a = k_begin_for_branch K a branch"

definition kernel_run :: "'r kenv \<Rightarrow> string option \<Rightarrow> begin_args \<Rightarrow> 'r kernel_op list \<Rightarrow> ('r kstate, unit) eff" where
  "kernel_run K branch a ops = sbind (kernel_start K branch a) (\<lambda>_. sall (kernel_do K) ops)"

lemma runs_start: "runs (kernel_start K branch a) s (began (klog s)) (\<lambda>_ t. klog t = klog s)"
  by (cases branch) (simp_all add: runs_begin runs_begin_for_branch)

lemma began_settled: "began L tx t \<Longrightarrow> settled L (tx_id tx) t"
  by (auto simp: began_def open_begin_def settled_def intro!: exI [of _ LEASE_PENDING])

definition run_slack :: "'r kernel_op list \<Rightarrow> nat" where
  "run_slack ops = (if list_ex (\<lambda>op. slack op = 1) ops then 1 else 0)"

lemma slack_le: "list_all (\<lambda>op. slack op \<le> run_slack ops) ops"
proof -
  have a: "slack op \<le> 1" and b: "slack op \<noteq> 1 \<Longrightarrow> slack op = 0" for op :: "'a kernel_op" by (cases op; simp)+
  show ?thesis
    by (cases "list_ex (\<lambda>op. slack op = 1) ops") (use a b in \<open>auto simp: run_slack_def list_all_iff list_ex_iff\<close>)
qed

text \<open>The two outcomes of a run that began at the log \<open>L\<close>.\<close>

definition run_settled :: "string \<Rightarrow> 'r kstate \<Rightarrow> bool" where
  "run_settled L t \<longleftrightarrow> (\<exists>I. settled L I t)"

definition run_failed :: "nat \<Rightarrow> string \<Rightarrow> 'r kstate \<Rightarrow> bool" where
  "run_failed d L t \<longleftrightarrow> klog t = L \<or> (\<exists>I. not_ahead d L I t)"

lemma runs_kernel:
  assumes "list_all (\<lambda>op. \<not> conflicts op) ops"
  shows "runs (kernel_run K branch a ops) s (\<lambda>_. run_settled (klog s)) (\<lambda>_. run_failed (run_slack ops) (klog s))"
  unfolding kernel_run_def
proof (rule runs_sbind, rule runs_conseq [OF runs_start])
  have "list_all (\<lambda>op. \<not> conflicts op \<and> slack op \<le> run_slack ops) ops"
    using assms slack_le [of ops] by (simp add: list_all_iff)
  then show "runs (sall (kernel_do K) ops) t (\<lambda>_. run_settled (klog s)) (\<lambda>_. run_failed (run_slack ops) (klog s))"
    if "began (klog s) tx t" for tx t
    by (rule runs_conseq [OF runs_ops [OF _ began_settled [OF that]]]) (auto simp: run_settled_def run_failed_def)
qed (simp add: run_failed_def)

definition run_evidence :: "nat \<Rightarrow> string \<Rightarrow> exn + 'a \<Rightarrow> 'r kstate \<Rightarrow> obj list \<Rightarrow> bool" where
  "run_evidence d L r t es \<longleftrightarrow>
     klog t = L @ concat (map log_line es)
     \<and> (case ks_transaction t of
          None \<Rightarrow> es = []
        | Some tx \<Rightarrow> list_all (\<lambda>e. etx e = tx_id tx) es
            \<and> (case r of Inr _ \<Rightarrow> resumes es (tx_state tx) | Inl _ \<Rightarrow> level es \<le> stage (tx_state tx) + d))"

lemma run_settled_evidence: "run_settled L t \<Longrightarrow> \<exists>es. run_evidence d L (Inr u) t es"
  by (auto simp: run_settled_def settled_def stands_def core_def run_evidence_def intro!: settled_resumes)

lemma run_failed_evidence: "run_failed d L t \<Longrightarrow> d \<le> d' \<Longrightarrow> \<exists>es. run_evidence d' L (Inl e) t es"
proof (unfold run_failed_def, elim disjE exE)
  show ?thesis if "klog t = L"
    using that by (auto simp: run_evidence_def intro!: exI [of _ "[]"] split: option.split)
qed (fastforce simp: not_ahead_def stands_def core_def run_evidence_def)

text \<open>
  Claim C1. What a run leaves in memory is what its evidence says. Start a transaction on either path and
  call any methods of the kernel, in any order and with any arguments, until one of them raises; an
  integration result that reports a conflict is left out, since it leaves the transaction waiting for its
  gate. The log has only grown, by events of this transaction. If every call returned, the evidence
  restores exactly the state of the object, or refuses to resume a blocked transaction. If a call raised,
  the evidence is not ahead of the object, except that the recovery of a failed launch records its
  validation one step early.
\<close>

theorem kernel_evidence_resumes:
  "case kernel_run K branch a (filter (\<lambda>op. \<not> conflicts op) ops) s of (r, t) \<Rightarrow>
     \<exists>es. klog t = klog s @ concat (map log_line es)
       \<and> (case ks_transaction t of
            None \<Rightarrow> es = []
          | Some tx \<Rightarrow> list_all (\<lambda>e. etx e = tx_id tx) es
              \<and> (case r of Inr _ \<Rightarrow> resumes es (tx_state tx)
                 | Inl _ \<Rightarrow> level es \<le> stage (tx_state tx) + run_slack ops))"
proof -
  let ?ops = "filter (\<lambda>op. \<not> conflicts op) ops"
  have d: "run_slack ?ops \<le> run_slack ops" by (auto simp: run_slack_def list_ex_iff)
  have ok: "list_all (\<lambda>op. \<not> conflicts op) ?ops" by (simp add: list_all_iff)
  obtain r t where rt: "kernel_run K branch a ?ops s = (r, t)" by (rule prod.exhaust)
  have "\<exists>es. run_evidence (run_slack ops) (klog s) r t es"
    using runs_kernel [OF ok, of K branch a s] rt run_settled_evidence run_failed_evidence [OF _ d]
    by (cases r) (auto simp: runs_def)
  then show ?thesis unfolding rt run_evidence_def by simp
qed

end
