(* ===== verification/Kernel_Guards.thy ===== *)
theory Kernel_Guards
  imports Kernel_Runs
begin

section \<open>What guards the writes of the kernel\<close>

text \<open>
  The lease before evidence, what a result must prove before it is accepted, what the final commit rests
  on, and the end of a phase driven by the bridge.
\<close>

subsection \<open>The lease\<close>

text \<open>The lease file holds the lease of the open transaction, with every field the kernel checks, taken by
  a process this kernel has been.\<close>

definition lease_held :: "'r kenv \<Rightarrow> 'r kstate \<Rightarrow> bool" where
  "lease_held K s \<longleftrightarrow>
     (\<exists>tx n r. ks_transaction s = Some tx \<and> lease_of (ks_lease s) = Some r
        \<and> lease_checks_ok (ke_process K n) (tx_checks K tx) r = Inr True)"

text \<open>A call that cannot return from states like \<open>s0\<close>, and changes nothing but what it may look at.\<close>

definition idle :: "'r kstate \<Rightarrow> ('r kstate, 'a) eff \<Rightarrow> bool" where
  "idle s0 m \<longleftrightarrow> (\<forall>s. quiet s0 s \<longrightarrow> runs m s (\<lambda>_ _. False) (\<lambda>_. quiet s0))"

lemma idle_still: "steps quiet m \<Longrightarrow> (\<And>x. idle s0 (f x)) \<Longrightarrow> idle s0 (sbind m f)"
  unfolding idle_def by (intro allI impI runs_sbind, rule runs_steps, assumption) (blast intro: quiet_trans)+

lemma idle_cases:
  "(b \<Longrightarrow> idle s0 m) \<Longrightarrow> (\<not> b \<Longrightarrow> idle s0 n) \<Longrightarrow> idle s0 (if b then m else n)"
  "(\<And>y. idle s0 (g y)) \<Longrightarrow> idle s0 n \<Longrightarrow> idle s0 (case a of None \<Rightarrow> n | Some y \<Rightarrow> g y)"
  "(\<And>y z. idle s0 (h y z)) \<Longrightarrow> idle s0 (case p of (y, z) \<Rightarrow> h y z)"
  "idle s0 (k v) \<Longrightarrow> idle s0 (let y = v in k y)"
  "idle s0 (sthrow c e)"
  by (simp_all add: idle_def runs_sthrow split: option.split prod.split)

lemma idle_revalidate:
  assumes "\<not> lease_held K s0"
  shows "idle s0 (sbind (revalidate_lease K) f)"
proof -
  have "revalidate_lease K s \<noteq> (Inr r, t)" if q: "quiet s0 s" for s r t
  proof
    assume "revalidate_lease K s = (Inr r, t)"
    then obtain tx g where tx: "ks_transaction s = Some tx"
      and w: "wl_revalidate (ke_process K (ks_tick s)) (tx_checks K tx) (ks_lease s) = (Inr r, g)"
      by (auto simp: revalidate_lease_def sbind_eq_Inr k_require_run k_lease_def raise_def split: option.splits prod.splits)
    have "lease_of (ks_lease s) = Some r" using wl_revalidate_Inr [OF w] by simp
    moreover have "lease_checks_ok (ke_process K (ks_tick s)) (tx_checks K tx) r = Inr True"
      using w by (auto simp: wl_revalidate_def sbind_eq_Inr slift_eq_Inr scheck_eq_Inr sret_eq_Inr split: option.splits)
    ultimately have "lease_held K s0"
      unfolding lease_held_def using q tx
      by (intro exI [of _ tx] exI [of _ "ks_tick s"] exI [of _ r]) (simp add: quiet_def)
    with assms show False ..
  qed
  then show ?thesis
    unfolding idle_def runs_def sbind_def
    by (auto split: prod.splits sum.splits dest: stepsD [OF quiet_revalidate] elim: quiet_trans)
qed

lemma idle_done: "idle s0 m \<Longrightarrow> idle s0 (done_with m)"
  unfolding idle_def done_with_def by (fastforce intro!: runs_sbind elim: runs_conseq)

text \<open>The methods that write without a lease of their transaction; every other one revalidates it first.\<close>

fun unguarded :: "'r kernel_op \<Rightarrow> bool" where
  "unguarded Acquire_lease = True"
| "unguarded Record_boundary = True"
| "unguarded (Complete a cb) = True"
| "unguarded _ = False"

lemma idle_guarded:
  assumes "\<not> lease_held K s0" "\<not> unguarded op"
  shows "idle s0 (kernel_do K op)"
proof (cases op)
  case Prepare_starting_branch
  show ?thesis unfolding Prepare_starting_branch kernel_do.simps prepare_starting_branch_def
    by (intro idle_revalidate idle_still steps_intros; simp add: assms)
qed (use assms in \<open>simp_all add: checkpoint_def prepare_integration_changes_def capture_snapshot_def session_launched_def
   accept_result_def authorize_normalization_def accept_deterministic_integration_result_def
   finalize_deterministic_planning_recovery_def finalize_deterministic_planning_def adopt_committed_planning_recovery_def
   finalize_clean_prelaunch_recovery_def finalize_deterministic_feature_recovery_def k_validate_def k_finalize_def
   finalize_feature_branch_def k_block_def\<close>,
   (intro idle_done idle_revalidate idle_cases idle_still steps_intros; simp)+)

text \<open>
  Claim C2. No evidence without the lease. A method that finds the lease file without the complete lease of
  its transaction (identity, type, repository, paths, starting point, run, session and policy, held by a
  process of this kernel) raises and leaves ledger, lease and transaction as they were. Not covered are
  \<^verbatim>\<open>acquire_lease\<close>, which takes the lease, \<^verbatim>\<open>complete\<close>, which finishes what a crash
  left after its release, and \<^verbatim>\<open>record_file_mutation_boundary\<close>, which does not look.
\<close>

theorem lease_guards_evidence:
  "case kernel_do K op s of (r, t) \<Rightarrow>
     unguarded op \<or> lease_held K s
     \<or> (isl r \<and> klog t = klog s \<and> ks_transaction t = ks_transaction s \<and> ks_lease t = ks_lease s)"
proof (cases "\<not> unguarded op \<and> \<not> lease_held K s")
  case True
  then have "runs (kernel_do K op) s (\<lambda>_ _. False) (\<lambda>_. quiet s)"
    using idle_guarded [of K s op] by (simp add: idle_def)
  then show ?thesis by (auto simp: runs_def quiet_def split: prod.splits sum.splits)
qed (auto split: prod.split)

subsection \<open>Calls that return\<close>

text \<open>\<open>yields m s Q\<close>: if the call returns, then with \<open>Q\<close>. The rules keep what is still true of the state \<open>s0\<close> the
  method started in.\<close>

definition yields :: "('s, 'a) eff \<Rightarrow> 's \<Rightarrow> ('a \<Rightarrow> 's \<Rightarrow> bool) \<Rightarrow> bool" where
  "yields m s Q \<longleftrightarrow> runs m s Q (\<lambda>_ _. True)"

lemma yields_case: "yields m s Q \<Longrightarrow> case m s of (Inl e, t) \<Rightarrow> True | (Inr x, t) \<Rightarrow> Q x t"
  by (simp add: yields_def runs_def)

lemma yields_bind: "yields m s (\<lambda>x t. yields (f x) t Q) \<Longrightarrow> yields (sbind m f) s Q"
  unfolding yields_def by (rule runs_sbind)

lemma yields_quiet:
  assumes "quiet s0 s" "steps quiet m" "\<And>x t. quiet s0 t \<Longrightarrow> yields (f x) t Q"
  shows "yields (sbind m f) s Q"
proof (rule yields_bind, unfold yields_def, rule runs_steps [OF assms(2)])
  show "runs (f x) t Q (\<lambda>_ _. True)" if "quiet s t" for x t
    using assms(3) [OF quiet_trans [OF assms(1) that]] by (simp add: yields_def)
qed simp

lemma yields_tail: "steps quiet m \<Longrightarrow> (\<And>x t. quiet s t \<Longrightarrow> Q x t) \<Longrightarrow> yields m s Q"
  unfolding yields_def by (erule runs_steps) simp_all

lemma yields_require:
  "(\<And>tx. ks_transaction s = Some tx \<Longrightarrow> yields (f tx) s Q) \<Longrightarrow> yields (sbind k_require f) s Q"
  by (auto simp: yields_def runs_def sbind_def k_require_run raise_def split: option.splits)

definition lease_is :: "'r kenv \<Rightarrow> 'r kstate \<Rightarrow> phase_transaction \<Rightarrow> workflow_lease \<Rightarrow> bool" where
  "lease_is K s tx r \<longleftrightarrow>
     lease_of (ks_lease s) = Some r \<and> (\<exists>n. lease_checks_ok (ke_process K n) (tx_checks K tx) r = Inr True)"

lemma revalidate_Inr:
  assumes "revalidate_lease K s = (Inr r, t)"
  shows "\<exists>tx. ks_transaction s = Some tx \<and> lease_is K s tx r"
proof -
  from assms obtain tx g where tx: "ks_transaction s = Some tx"
    and w: "wl_revalidate (ke_process K (ks_tick s)) (tx_checks K tx) (ks_lease s) = (Inr r, g)"
    by (auto simp: revalidate_lease_def sbind_eq_Inr k_require_run k_lease_def raise_def split: option.splits prod.splits)
  moreover have "lease_checks_ok (ke_process K (ks_tick s)) (tx_checks K tx) r = Inr True"
    using w by (auto simp: wl_revalidate_def sbind_eq_Inr slift_eq_Inr scheck_eq_Inr sret_eq_Inr split: option.splits)
  ultimately show ?thesis using wl_revalidate_Inr [OF w] by (auto simp: lease_is_def)
qed

lemma yields_revalidate:
  assumes "quiet s0 s"
    and "\<And>tx r t. quiet s0 t \<Longrightarrow> ks_transaction s0 = Some tx \<Longrightarrow> lease_is K s0 tx r \<Longrightarrow> yields (f r) t Q"
  shows "yields (sbind (revalidate_lease K) f) s Q"
proof (rule yields_bind, unfold yields_def, rule runsI)
  fix r t
  assume r: "revalidate_lease K s = (Inr r, t)"
  then obtain tx where "ks_transaction s = Some tx" "lease_is K s tx r" using revalidate_Inr by blast
  then have "ks_transaction s0 = Some tx" "lease_is K s0 tx r"
    using assms(1) by (simp_all add: quiet_def lease_is_def)
  moreover have "quiet s0 t" using assms(1) stepsD [OF quiet_revalidate r] by (rule quiet_trans)
  ultimately show "runs (f r) t Q (\<lambda>_ _. True)"
    using assms(2) by (simp add: yields_def)
qed simp

lemma yields_calls:
  "(b \<Longrightarrow> yields (f ()) s Q) \<Longrightarrow> yields (sbind (scheck b c e) f) s Q"
  "(\<And>x. r = Inr x \<Longrightarrow> yields (g x) s Q) \<Longrightarrow> yields (sbind (slift r) g) s Q"
  "yields (h s) s Q \<Longrightarrow> yields (sbind sget h) s Q"
  "yields (f ()) (k s) Q \<Longrightarrow> yields (sbind (smodify k) f) s Q"
  "Q y s \<Longrightarrow> yields (sret y) s Q"
  "yields (sthrow c e) s Q"
  "(a = None \<Longrightarrow> yields m s Q) \<Longrightarrow> (\<And>z. a = Some z \<Longrightarrow> yields (n z) s Q) \<Longrightarrow> yields (case a of None \<Rightarrow> m | Some z \<Rightarrow> n z) s Q"
  "(b \<Longrightarrow> yields m s Q) \<Longrightarrow> (\<not> b \<Longrightarrow> yields l s Q) \<Longrightarrow> yields (if b then m else l) s Q"
  "(\<And>u v. p = (u, v) \<Longrightarrow> yields (o' u v) s Q) \<Longrightarrow> yields (case p of (u, v) \<Rightarrow> o' u v) s Q"
  by (auto simp: yields_def runs_def eff_simps sbind_def check_def raise_def split: prod.splits sum.splits option.splits)

lemma yields_append:
  "(\<And>t. appended (tx_id tx) T s t \<Longrightarrow> yields (f ()) t Q) \<Longrightarrow> yields (sbind (k_append K tx T p) f) s Q"
  unfolding yields_def by (auto intro!: runs_sbind runs_k_append)

lemma yields_transition:
  assumes "\<And>tx. ks_transaction s = Some tx \<Longrightarrow> target = tx_state tx \<or> target \<in> set (ALLOWED_TRANSITIONS (tx_state tx))
    \<Longrightarrow> yields (f ()) (s\<lparr>ks_transaction := Some (tx\<lparr>tx_state := target\<rparr>)\<rparr>) Q"
  shows "yields (sbind (k_transition target) f) s Q"
proof (rule yields_bind, unfold yields_def, rule runsI)
  fix x t
  assume "k_transition target s = (Inr x, t)"
  then obtain tx tx' where "ks_transaction s = Some tx" "tx_transition target tx = Inr tx'" "t = s\<lparr>ks_transaction := Some tx'\<rparr>"
    by (auto simp: k_transition_def k_update_def sbind_eq_Inr k_require_run raise_def slift_eq_Inr smodify_eq_Inr split: option.splits)
  moreover then have "tx' = tx\<lparr>tx_state := target\<rparr>" by (auto simp: tx_transition_Inr)
  ultimately show "runs (f x) t Q (\<lambda>_ _. True)"
    using assms by (auto simp: yields_def tx_transition_Inr)
qed simp

lemma yields_bind_option:
  "(a = None \<Longrightarrow> yields (sbind m f) s Q) \<Longrightarrow> (\<And>y. a = Some y \<Longrightarrow> yields (sbind (g y) f) s Q)
   \<Longrightarrow> yields (sbind (case a of None \<Rightarrow> m | Some y \<Rightarrow> g y) f) s Q"
  by (cases a) simp_all

lemma yields_assoc: "yields (sbind m (\<lambda>x. sbind (f x) g)) s Q \<Longrightarrow> yields (sbind (sbind m f) g) s Q"
  by (simp add: yields_def runs_def sbind_def split: prod.splits sum.splits)

lemma klog_updates [simp]:
  "klog (s\<lparr>ks_transaction := a\<rparr>) = klog s" "klog (s\<lparr>ks_envelope := b\<rparr>) = klog s" "klog (s\<lparr>ks_validated := j\<rparr>) = klog s"
  "klog (s\<lparr>ks_final := j\<rparr>) = klog s" "klog (s\<lparr>ks_commands := l\<rparr>) = klog s"
  by (simp_all add: klog_def)

lemma appended_view:
  assumes "appended I T s t"
  shows "ks_transaction t = ks_transaction s \<and> ks_envelope t = ks_envelope s \<and> ks_validated t = ks_validated s
    \<and> ks_final t = ks_final s \<and> ks_commands t = ks_commands s \<and> ks_normalization t = ks_normalization s
    \<and> ks_prepared_paths t = ks_prepared_paths s \<and> ks_prepared_commit t = ks_prepared_commit s \<and> ks_lease t = ks_lease s
    \<and> (\<exists>e. klog t = klog s @ log_line e \<and> etype e = T \<and> etx e = I)"
proof -
  from assms obtain e l n where "klog t = klog s @ log_line e" "etype e = T" "etx e = I"
    "t = s\<lparr>ks_proj := (ks_proj s)\<lparr>pf_ledger := l\<rparr>, ks_tick := n\<rparr>" unfolding appended_def by blast
  then show ?thesis by auto
qed

lemmas yields_rules = yields_require yields_calls yields_transition yields_append yields_tail

subsection \<open>Accepted results\<close>

definition normalized :: "obj option \<Rightarrow> phase_transaction \<Rightarrow> session_envelope \<Rightarrow> bool" where
  "normalized n tx e \<longleftrightarrow> (case n of None \<Rightarrow> True | Some d \<Rightarrow> \<exists>observed. normalization_ok d tx e observed = Inr True)"

definition accepted :: "'r kenv \<Rightarrow> session_envelope \<Rightarrow> 'r kstate \<Rightarrow> 'r kstate \<Rightarrow> bool" where
  "accepted K e s t \<longleftrightarrow>
     (\<exists>tx r h ev. ks_transaction s = Some tx \<and> lease_is K s tx r \<and> envelope_matches tx r h e \<and> ks_envelope s = None
        \<and> \<not> isl (policy_validate (tx_policy tx) (se_changed_paths e)) \<and> normalized (ks_normalization s) tx e
        \<and> ks_transaction t = Some (tx\<lparr>tx_state := VALIDATING\<rparr>) \<and> ks_envelope t = Some e \<and> ks_lease t = ks_lease s
        \<and> klog t = klog s @ log_line ev \<and> etype ev = ''SessionResultAccepted'' \<and> etx ev = tx_id tx)"

lemma acceptedI:
  assumes "ks_transaction s = Some tx" "ks_transaction s = Some txa" "lease_is K s txa r" "envelope_matches tx r h e"
    and "ks_envelope ta = None" "quiet s ta" "policy_validate (tx_policy tx) (se_changed_paths e) = Inr xa"
    and u: "ks_transaction (te\<lparr>ks_envelope := Some e\<rparr>) = Some txb" "quiet s te"
    and "appended (tx_id tx) ''SessionResultAccepted'' (te\<lparr>ks_envelope := Some e, ks_transaction := Some (txb\<lparr>tx_state := VALIDATING\<rparr>)\<rparr>) tf"
    and "quiet tf t" and n: "normalized (ks_normalization ta) tx e"
  shows "accepted K e s t"
proof -
  have te: "txb = tx" "ks_lease te = ks_lease s" "klog te = klog s" using u assms(1) by (simp_all add: quiet_def)
  obtain ev where "klog tf = klog s @ log_line ev" "etype ev = ''SessionResultAccepted''" "etx ev = tx_id tx"
    "ks_transaction tf = Some (tx\<lparr>tx_state := VALIDATING\<rparr>)" "ks_envelope tf = Some e" "ks_lease tf = ks_lease s"
    using appended_view [OF assms(10)] te by auto
  then have t: "klog t = klog s @ log_line ev" "etype ev = ''SessionResultAccepted''" "etx ev = tx_id tx"
    "ks_transaction t = Some (tx\<lparr>tx_state := VALIDATING\<rparr>)" "ks_envelope t = Some e" "ks_lease t = ks_lease s"
    using assms(11) by (simp_all add: quiet_def)
  have "ks_envelope s = None" "normalized (ks_normalization s) tx e" using assms(5,6) n by (simp_all add: quiet_def)
  then show ?thesis
    unfolding accepted_def using assms(1-4,7) t
    by (intro exI [of _ tx] exI [of _ r] exI [of _ h] exI [of _ ev]) simp
qed

lemma yields_accept: "yields (accept_result K e) s (\<lambda>_. accepted K e s)"
  unfolding accept_result_def
  by (intro yields_bind_option yields_assoc yields_revalidate yields_require yields_calls yields_transition yields_append
      yields_quiet yields_tail steps_intros;
      (assumption | rule quiet_refl reflp_quiet transp_quiet | (rule acceptedI, assumption+, auto simp: normalized_def)))

subsection \<open>The final commit\<close>

text \<open>The first mutation boundary a read of the ledger finds for the transaction.\<close>

definition boundary_durable :: "'r kenv \<Rightarrow> 'r kstate \<Rightarrow> phase_transaction \<Rightarrow> string list \<Rightarrow> string \<Rightarrow> bool" where
  "boundary_durable K s tx paths fp \<longleftrightarrow>
     (\<exists>t es u rest. quiet s t \<and> k_read K t = (Inr es, u)
        \<and> rmap boundary_of (typed_events tx ''ChangesDetected'' es) = Inr ((map JStr paths, JStr fp) # rest))"

lemma assert_durable_boundary_Inr:
  assumes "assert_durable_boundary K paths fp s = (Inr x, t)"
  shows "\<exists>tx es u rest. ks_transaction s = Some tx \<and> k_read K s = (Inr es, u)
    \<and> rmap boundary_of (typed_events tx ''ChangesDetected'' es) = Inr ((map JStr paths, JStr fp) # rest)"
proof -
  from assms obtain tx es u bs t2 where a: "ks_transaction s = Some tx" "k_read K s = (Inr es, u)"
    and bs: "rmap boundary_of (typed_events tx ''ChangesDetected'' es) = Inr bs"
    and b: "(case bs of [] \<Rightarrow> tx_error ''validation requires a durable mutation boundary''
        | (ps, d) # rest \<Rightarrow> sbind (tx_check (list_all (\<lambda>(qs, g). list_all2 py_eq qs ps \<and> py_eq g d) rest)
                  ''durable mutation boundary is contradictory'') (\<lambda>_. tx_check (map JStr paths = ps \<and> d = JStr fp)
           ''repository diff does not match durable mutation boundary'')) t2 = (Inr x, t)"
    by (auto simp: assert_durable_boundary_def sbind_eq_Inr k_require_run raise_def slift_eq_Inr split: option.splits)
  from b obtain rest where "bs = (map JStr paths, JStr fp) # rest"
    by (cases bs) (auto simp: sbind_eq_Inr scheck_eq_Inr sthrow_def raise_def slift_def split: prod.splits)
  with a bs show ?thesis by blast
qed

lemma yields_boundary:
  assumes "quiet s0 s" "\<And>tx t. quiet s0 t \<Longrightarrow> ks_transaction s0 = Some tx \<Longrightarrow> boundary_durable K s0 tx paths fp \<Longrightarrow> yields (f ()) t Q"
  shows "yields (sbind (assert_durable_boundary K paths fp) f) s Q"
proof (rule yields_bind, unfold yields_def, rule runsI)
  fix x :: unit and t
  assume a: "assert_durable_boundary K paths fp s = (Inr x, t)"
  from assert_durable_boundary_Inr [OF a] obtain tx es u rest where tx: "ks_transaction s = Some tx"
    "k_read K s = (Inr es, u)" "rmap boundary_of (typed_events tx ''ChangesDetected'' es) = Inr ((map JStr paths, JStr fp) # rest)"
    by blast
  then have "ks_transaction s0 = Some tx" "boundary_durable K s0 tx paths fp"
    using assms(1) by (auto simp: boundary_durable_def quiet_def)
  moreover have "quiet s0 t" using assms(1) stepsD [OF quiet_paths(2) a] by (rule quiet_trans)
  ultimately show "runs (f x) t Q (\<lambda>_ _. True)" using assms(2) by (simp add: yields_def)
qed simp

definition committed :: "phase_transaction \<Rightarrow> 'r kstate \<Rightarrow> string \<Rightarrow> 'r kstate \<Rightarrow> bool" where
  "committed tx s commit t \<longleftrightarrow>
     ks_final t = JStr commit \<and> ks_transaction t = ks_transaction s \<and> ks_lease t = ks_lease s
     \<and> (\<exists>ev. klog t = klog s @ log_line ev \<and> etype ev = ''CommitFinalized'' \<and> etx ev = tx_id tx)"

lemma committedI:
  assumes "appended (tx_id tx) ''CommitFinalized'' u v" "quiet (te\<lparr>ks_final := JStr c\<rparr>) u" "quiet s te" "quiet v t"
  shows "committed tx s c t"
proof -
  from assms(2,3) have "ks_final u = JStr c \<and> ks_transaction u = ks_transaction s \<and> ks_lease u = ks_lease s \<and> klog u = klog s"
    by (simp add: quiet_def)
  with appended_view [OF assms(1)] assms(4) show ?thesis by (auto simp: committed_def quiet_def)
qed

lemma yields_unchanged:
  assumes "quiet s0 s"
  shows "yields (finalize_unchanged K tx e) s (\<lambda>c t. c = tx_starting_head tx \<and> committed tx s0 c t)"
  unfolding finalize_unchanged_def Let_def
proof (rule yields_quiet [OF assms], goal_cases)
  case 1
  show ?case by (simp only: split_conv, intro steps_intros steps_acceptance steps_json; simp)
next
  case (2 x t)
  show ?case
    apply (intro yields_calls yields_append)
    apply (rule yields_quiet, rule quiet_refl, intro steps_intros)
    apply (intro yields_calls)
    apply (simp add: committedI [OF _ _ 2])
    done
qed

lemma yields_changes:
  assumes "quiet s0 s"
  shows "yields (finalize_changes K tx paths) s (\<lambda>c t. c \<noteq> tx_starting_head tx \<and> committed tx s0 c t)"
  unfolding finalize_changes_def
  apply (intro yields_calls; (rule yields_quiet [OF assms], intro steps_intros; simp)?)
  apply (intro yields_calls yields_append yields_quiet steps_intros; (assumption | rule quiet_refl reflp_quiet transp_quiet)?)
  apply (simp, rule committedI; assumption)
  done

definition authorised :: "'r kenv \<Rightarrow> 'r kstate \<Rightarrow> phase_transaction \<Rightarrow> string list \<Rightarrow> bool" where
  "authorised K s tx paths \<longleftrightarrow>
     (\<exists>r fp. ks_transaction s = Some tx \<and> tx_state tx = FINALIZING \<and> lease_is K s tx r
        \<and> \<not> isl (policy_validate (tx_policy tx) paths) \<and> ks_validated s = JStr fp \<and> boundary_durable K s tx paths fp)"

lemma authorisedI:
  "quiet s t \<Longrightarrow> ks_validated t = JStr fp \<Longrightarrow> policy_validate (tx_policy tx) paths = Inr u \<Longrightarrow> tx_state tx = FINALIZING
    \<Longrightarrow> boundary_durable K s txb paths fp \<Longrightarrow> ks_transaction s = Some txb \<Longrightarrow> lease_is K s txa r \<Longrightarrow> ks_transaction s = Some txa
    \<Longrightarrow> ks_transaction s = Some tx \<Longrightarrow> authorised K s tx paths"
  by (simp add: authorised_def quiet_def) metis

lemma yields_conseq: "yields m s P \<Longrightarrow> (\<And>x t. P x t \<Longrightarrow> Q x t) \<Longrightarrow> yields m s Q"
  by (auto simp: yields_def elim: runs_conseq)

lemma yields_finalize:
  "yields (k_finalize K) s (\<lambda>c t. \<exists>tx paths. authorised K s tx paths \<and> (c = tx_starting_head tx \<longleftrightarrow> paths = []) \<and> committed tx s c t)"
  unfolding k_finalize_def
  apply (intro yields_require yields_calls yields_revalidate yields_boundary yields_quiet steps_intros;
     (assumption | rule quiet_refl reflp_quiet transp_quiet)?)
   apply (rule yields_conseq [OF yields_unchanged], assumption)
   apply (elim conjE, intro exI conjI, (rule authorisedI; (assumption | simp)), simp_all)
  apply (rule yields_conseq [OF yields_changes], assumption)
  apply (elim conjE, intro exI conjI, (rule authorisedI; (assumption | simp)), simp_all)
  done

text \<open>
  Claim C3. An accepted result is the result of this session. When \<^verbatim>\<open>accept_result\<close>
  returns, the transaction held its lease, the envelope names this transaction, run, session, attempt,
  starting point and lease, no result had been accepted before, its paths are within the mutation policy,
  a recorded normalisation is consistent with it, and the only change besides the object and the
  repository is one \<open>SessionResultAccepted\<close> line and the step to \<open>VALIDATING\<close>.
\<close>

theorem accepted_result_bound:
  "case accept_result K e s of (Inl _, _) \<Rightarrow> True | (Inr _, t) \<Rightarrow> accepted K e s t"
  by (rule yields_case [OF yields_accept])

text \<open>
  Claim C4. The final commit rests on what was validated. When \<^verbatim>\<open>finalize\<close> returns a
  commit, the transaction was in \<open>FINALIZING\<close> under its lease, the changed paths are within its
  policy, their fingerprint is the one validation stored and the first mutation boundary of the ledger, the
  commit is the starting head exactly when nothing changed, and one \<open>CommitFinalized\<close> line was
  written.
\<close>

theorem final_commit_authorised:
  "case k_finalize K s of (Inl _, _) \<Rightarrow> True
   | (Inr c, t) \<Rightarrow> \<exists>tx paths. authorised K s tx paths \<and> (c = tx_starting_head tx) = (paths = []) \<and> committed tx s c t"
  by (rule yields_case [OF yields_finalize])

end
