(* ===== verification/Execution_Plan.thy ===== *)
theory Execution_Plan
  imports Projection Feature_Queue
begin

section \<open>Execution plans\<close>

text \<open>
  \<^verbatim>\<open>execution_plan.py\<close>: what the controller may do next, read off the projection. The projection is
  the dictionary of \<open>projection_dict\<close>, bound to the queue by \<open>bind_projection_to_queue\<close>; a plan is
  the record \<open>execution_plan\<close>, whose fields that are copied from the projection stay JSON values; the
  status the controller reports repeats the plan under many names.
\<close>

definition HUMAN_MERGE_APPROVAL :: string where
  "HUMAN_MERGE_APPROVAL = ''human_merge_approval''"

text \<open>A workflow, or the wait for the human merge, which is no workflow.\<close>

datatype route = Phase workflow_type | Merge_Approval

fun route_value :: "route \<Rightarrow> string" where
  "route_value (Phase w) = workflow_value w"
| "route_value Merge_Approval = HUMAN_MERGE_APPROVAL"

definition ACTION_WORKFLOW :: "(string \<times> route) list" where
  "ACTION_WORKFLOW =
    [(''queue_reconciliation'', Phase QUEUE_RECONCILIATION), (''feature_cycle'', Phase FEATURE_EXECUTION),
     (''milestone_integration'', Phase MILESTONE_INTEGRATION), (''milestone_gate'', Phase MILESTONE_GATE),
     (''human_decision_resolution'', Phase HUMAN_DECISION_RESOLUTION), (''verify_consistency'', Phase RECOVERY),
     (HUMAN_MERGE_APPROVAL, Merge_Approval)]"

fun WORKFLOW_NEXT_STATE :: "workflow_type \<Rightarrow> string" where
  "WORKFLOW_NEXT_STATE QUEUE_RECONCILIATION = ''feature_ready''"
| "WORKFLOW_NEXT_STATE FEATURE_PREPARATION = ''feature_preparing''"
| "WORKFLOW_NEXT_STATE FEATURE_EXECUTION = ''feature_accepted''"
| "WORKFLOW_NEXT_STATE FEATURE_ACCEPTANCE = ''integration_ready''"
| "WORKFLOW_NEXT_STATE MILESTONE_INTEGRATION = ''feature_integrated''"
| "WORKFLOW_NEXT_STATE MILESTONE_GATE = ''milestone_ready_for_merge''"
| "WORKFLOW_NEXT_STATE HUMAN_DECISION_RESOLUTION = ''queue_reconciliation''"
| "WORKFLOW_NEXT_STATE RECOVERY = ''verify_consistency''"

fun SESSION_DESCRIPTION :: "workflow_type \<Rightarrow> string" where
  "SESSION_DESCRIPTION QUEUE_RECONCILIATION = ''fresh queue-reconciliation transaction''"
| "SESSION_DESCRIPTION FEATURE_PREPARATION = ''fresh feature-preparation transaction''"
| "SESSION_DESCRIPTION FEATURE_EXECUTION = ''fresh feature transaction''"
| "SESSION_DESCRIPTION FEATURE_ACCEPTANCE = ''fresh feature-acceptance transaction''"
| "SESSION_DESCRIPTION MILESTONE_INTEGRATION = ''fresh milestone-integration transaction''"
| "SESSION_DESCRIPTION MILESTONE_GATE = ''fresh milestone-gate transaction''"
| "SESSION_DESCRIPTION HUMAN_DECISION_RESOLUTION = ''fresh human-decision transaction''"
| "SESSION_DESCRIPTION RECOVERY = ''fresh recovery transaction''"

subsection \<open>Identity\<close>

record execution_identity =
  id_feature :: json
  id_accepted_commit :: json
  id_starting_commit :: json
  id_feature_branch :: json
  id_milestone_branch :: json
  id_gate_authoritative :: bool

definition dicts :: "json list \<Rightarrow> obj list" where
  "dicts xs = concat (map (\<lambda>v. case v of JObj d \<Rightarrow> [d] | _ \<Rightarrow> []) xs)"

definition listed :: "obj \<Rightarrow> string \<Rightarrow> obj list res" where
  "listed p k = rbind (elements (oget_or p k (JArr []))) (\<lambda>xs. Inr (dicts xs))"

text \<open>\<^verbatim>\<open>max(xs, key=k)\<close>: the first of the largest\<close>

fun max_by :: "('a \<Rightarrow> int) \<Rightarrow> 'a \<Rightarrow> 'a list \<Rightarrow> 'a" where
  "max_by k x [] = x"
| "max_by k x (y # ys) = max_by k (if k x < k y then y else x) ys"

definition sequence_of :: "obj \<Rightarrow> int" where
  "sequence_of d = (case int_of (oget d ''sequence'') of None \<Rightarrow> 0 | Some i \<Rightarrow> i)"

text \<open>The projection of a finished integration whose next step is to reconcile the queue.\<close>

definition cleared_planning :: "obj \<Rightarrow> string option \<Rightarrow> bool" where
  "cleared_planning p workflow \<longleftrightarrow>
     workflow = Some (workflow_value QUEUE_RECONCILIATION)
     \<and> oget p ''current_state'' = JStr ''queue_reconciliation''
     \<and> oget p ''allowed_next_action'' = JStr ''queue_reconciliation''
     \<and> list_all (\<lambda>k. oget p k = JNull)
         [''active_transaction'', ''current_feature'', ''selected_next_feature'', ''accepted_feature_commit'',
          ''human_gate'', ''required_lease'']
     \<and> oget p ''session_resume_eligible'' = JBool False"

text \<open>The terminal HEAD of the last integration, when its transaction and terminal snapshot confirm it.\<close>

definition outcome_complete :: "obj \<Rightarrow> bool" where
  "outcome_complete outcome \<longleftrightarrow>
     list_all (\<lambda>k. nonempty_str (oget outcome k))
       [''terminal_head'', ''transaction_id'', ''feature_id'', ''accepted_commit'', ''integrated_commit'']
     \<and> oget outcome ''terminal_repository_clean'' = JBool True"

definition confirmed_head :: "obj list \<Rightarrow> obj \<Rightarrow> json \<Rightarrow> json" where
  "confirmed_head transactions outcome branch =
     (case List.find (\<lambda>d. py_eq (oget d ''transaction_id'') (oget outcome ''transaction_id'')) transactions of
        None \<Rightarrow> JNull
      | Some tx \<Rightarrow>
          if oget tx ''workflow_type'' = JStr (workflow_value MILESTONE_INTEGRATION)
             \<and> oget tx ''state'' = JStr ''completed'' \<and> oget tx ''terminal_classification'' = JStr ''INTEGRATED''
             \<and> py_eq (oget tx ''feature_id'') (oget outcome ''feature_id'')
             \<and> py_eq (oget tx ''terminal_reference'') (oget outcome ''terminal_head'')
          then (case oget tx ''terminal_snapshot'' of
              JObj terminal \<Rightarrow>
                (case oget terminal ''git_operations'' of
                   JObj operations \<Rightarrow>
                     if py_eq (oget terminal ''branch'') branch
                        \<and> py_eq (oget terminal ''head'') (oget outcome ''terminal_head'')
                        \<and> oget terminal ''clean'' = JBool True \<and> \<not> list_ex (truthy \<circ> snd) operations
                     then oget outcome ''terminal_head'' else JNull
                 | _ \<Rightarrow> JNull)
            | _ \<Rightarrow> JNull)
          else JNull)"

definition completed_integration_planning_baseline :: "obj \<Rightarrow> string option \<Rightarrow> json \<Rightarrow> json res" where
  "completed_integration_planning_baseline p workflow milestone_branch =
     (let branch = jor (oget p ''milestone_branch'') milestone_branch in
      if \<not> cleared_planning p workflow \<or> \<not> nonempty_str branch then Inr JNull
      else rbind (listed p ''historical_integration_outcomes'') (\<lambda>items.
        case filter (\<lambda>d. oget d ''classification'' = JStr ''INTEGRATED'' \<and> is_int (oget d ''sequence'')) items of
          [] \<Rightarrow> Inr JNull
        | x # xs \<Rightarrow>
            let outcome = max_by sequence_of x xs in
            if \<not> outcome_complete outcome then Inr JNull
            else rbind (listed p ''transactions'') (\<lambda>txs. Inr (confirmed_head txs outcome branch))))"

text \<open>A gate counts only while the controller waits for its human decision.\<close>

definition gate_authoritative :: "obj \<Rightarrow> string option \<Rightarrow> bool" where
  "gate_authoritative p workflow \<longleftrightarrow>
     oget p ''current_state'' = JStr ''human_decision_required''
     \<and> workflow = Some (workflow_value HUMAN_DECISION_RESOLUTION) \<and> is_dict (oget p ''human_gate'')"

definition gate_identity_of :: "obj \<Rightarrow> string option \<Rightarrow> obj" where
  "gate_identity_of p workflow =
     (if gate_authoritative p workflow then (case oget p ''human_gate'' of JObj g \<Rightarrow> g | _ \<Rightarrow> []) else [])"

definition execution_identity :: "obj \<Rightarrow> string option \<Rightarrow> json \<Rightarrow> execution_identity res" where
  "execution_identity p workflow milestone_branch =
     (let g = gate_identity_of p workflow in
      rbind (completed_integration_planning_baseline p workflow milestone_branch) (\<lambda>baseline.
      Inr \<lparr>id_feature = jor (oget g ''feature_id'') (jor (oget g ''feature'')
              (jor (oget p ''current_feature'') (oget p ''selected_next_feature''))),
           id_accepted_commit = jor (oget g ''accepted_feature_commit'') (jor (oget g ''accepted_commit'')
              (oget p ''accepted_feature_commit'')),
           id_starting_commit = jor (oget g ''feature_starting_commit'')
              (jor (oget g ''candidate_validated_planning_commit'')
                (jor baseline (oget p ''selected_feature_starting_commit''))),
           id_feature_branch = jor (oget g ''feature_branch'') (oget p ''feature_branch''),
           id_milestone_branch = jor (oget g ''milestone_branch'')
              (jor (oget p ''milestone_branch'') milestone_branch),
           id_gate_authoritative = gate_authoritative p workflow\<rparr>))"

subsection \<open>The queue\<close>

definition cleared_fields :: obj where
  "cleared_fields =
    [(''accepted_feature_commit'', JNull), (''integration_status'', JNull), (''required_lease'', JNull),
     (''session_resume_eligible'', JBool False), (''human_gate'', JNull)]"

definition nothing_selected :: obj where
  "nothing_selected =
    [(''current_state'', JStr ''queue_reconciliation''), (''current_feature'', JNull),
     (''selected_next_feature'', JNull), (''feature_branch'', JNull),
     (''allowed_next_action'', JStr ''queue_reconciliation'')]"

definition feature_selected :: "feature_queue \<Rightarrow> string \<Rightarrow> obj" where
  "feature_selected q i =
    [(''current_state'', JStr ''feature_ready''), (''current_feature'', JStr i), (''selected_next_feature'', JStr i),
     (''feature_branch'', case feature_in q (JStr i) of None \<Rightarrow> JNull | Some f \<Rightarrow> oget f ''branch''),
     (''allowed_next_action'', JStr ''feature_cycle'')]"

definition bound_to :: "feature_queue \<Rightarrow> obj \<Rightarrow> string option \<Rightarrow> obj" where
  "bound_to q p selected =
     (let b = oupdate (oupdate p cleared_fields)
                (case selected of None \<Rightarrow> nothing_selected | Some i \<Rightarrow> feature_selected q i)
      in oset ''projection_fingerprint'' (JStr (projection_fingerprint b)) b)"

definition is_integrated :: "obj \<Rightarrow> bool" where
  "is_integrated f \<longleftrightarrow> oget f ''status'' = JStr ''integrated'' \<and> oget f ''integration_status'' = JStr ''passed''"

definition candidate_of :: "obj \<Rightarrow> json" where
  "candidate_of p = jor (oget p ''current_feature'') (oget p ''selected_next_feature'')"

definition bind_projection_to_queue :: "qenv \<Rightarrow> feature_queue \<Rightarrow> string \<Rightarrow> obj \<Rightarrow> obj res" where
  "bind_projection_to_queue Q q m p =
     (if oget p ''active_transaction'' \<noteq> JNull then Inr p
      else
        let action = oget p ''allowed_next_action''; candidate = candidate_of p;
            queued = (if truthy candidate then feature_in q (JStr (py_str candidate)) else None);
            terminal = (case queued of None \<Rightarrow> False | Some f \<Rightarrow> is_integrated f) in
        rbind (hash_in action [''feature_cycle'', ''queue_reconciliation'']) (\<lambda>routes.
        if \<not> routes \<and> \<not> terminal then Inr p
        else rbind (if action = JStr ''feature_cycle'' \<and> truthy candidate
                    then rbind (select_exact Q q m (py_str candidate)) (\<lambda>s. Inr (Some s))
                    else select_next Q q m) (\<lambda>selected.
             Inr (bound_to q p (map_option sl_feature_id selected)))))"

subsection \<open>The plan\<close>

record execution_plan =
  ep_project_id :: string
  ep_ledger_sequence :: int
  ep_ledger_fingerprint :: string
  ep_projection_fingerprint :: string
  ep_current_state :: string
  ep_workflow_type :: string
  ep_feature_id :: json
  ep_accepted_commit :: json
  ep_starting_branch :: json
  ep_starting_commit :: json
  ep_feature_branch :: json
  ep_milestone_branch :: json
  ep_transaction_mode :: string
  ep_session_resume_eligible :: bool
  ep_session_to_resume :: json
  ep_lease_type :: "string option"
  ep_application_mutation_expected :: bool
  ep_next_state_on_success :: string
  ep_accepted_tree :: "string option"
  ep_feature_worktree :: "string option"
  ep_integration_worktree :: "string option"
  ep_acceptance_transaction :: "string option"

definition plan_dict :: "execution_plan \<Rightarrow> obj" where
  "plan_dict e =
    [(''project_id'', JStr (ep_project_id e)), (''ledger_sequence'', JInt (ep_ledger_sequence e)),
     (''ledger_fingerprint'', JStr (ep_ledger_fingerprint e)),
     (''projection_fingerprint'', JStr (ep_projection_fingerprint e)),
     (''current_state'', JStr (ep_current_state e)), (''workflow_type'', JStr (ep_workflow_type e)),
     (''feature_id'', ep_feature_id e), (''accepted_commit'', ep_accepted_commit e),
     (''starting_branch'', ep_starting_branch e), (''starting_commit'', ep_starting_commit e),
     (''feature_branch'', ep_feature_branch e), (''milestone_branch'', ep_milestone_branch e),
     (''transaction_mode'', JStr (ep_transaction_mode e)),
     (''session_resume_eligible'', JBool (ep_session_resume_eligible e)),
     (''session_to_resume'', ep_session_to_resume e), (''lease_type'', of_opt (ep_lease_type e)),
     (''application_mutation_expected'', JBool (ep_application_mutation_expected e)),
     (''next_state_on_success'', JStr (ep_next_state_on_success e)),
     (''accepted_tree'', of_opt (ep_accepted_tree e)), (''feature_worktree'', of_opt (ep_feature_worktree e)),
     (''integration_worktree'', of_opt (ep_integration_worktree e)),
     (''acceptance_transaction'', of_opt (ep_acceptance_transaction e))]"

text \<open>The property \<^verbatim>\<open>workflow\<close>\<close>

definition plan_workflow :: "execution_plan \<Rightarrow> workflow_type option" where
  "plan_workflow e = (case parse_workflow (JStr (ep_workflow_type e)) of Inl _ \<Rightarrow> None | Inr w \<Rightarrow> Some w)"

definition plan_route :: "execution_plan \<Rightarrow> string option" where
  "plan_route e = map_option workflow_value (plan_workflow e)"

definition sessions_that_would_launch :: "execution_plan \<Rightarrow> string list res" where
  "sessions_that_would_launch e =
     (if ep_workflow_type e = HUMAN_MERGE_APPROVAL then Inr []
      else if plan_workflow e \<in> {Some MILESTONE_INTEGRATION, Some HUMAN_DECISION_RESOLUTION, Some RECOVERY} then Inr []
      else if ep_transaction_mode e = ''recovery''
        then Inr (if ep_session_resume_eligible e then [''resume exact kernel transaction''] else [])
      else (case plan_workflow e of
          None \<Rightarrow> raise ProjectionError ''execution plan has an unsupported workflow type''
        | Some w \<Rightarrow> Inr [SESSION_DESCRIPTION w]))"

subsection \<open>A plan against the projection\<close>

text \<open>\<^verbatim>\<open>int(v)\<close>; texts with underscores and floats with an exponent are refused.\<close>

definition py_int :: "json \<Rightarrow> int res" where
  "py_int v =
     (let digits = (\<lambda>s. let t = (case s of CHR ''-'' # t \<Rightarrow> t | _ \<Rightarrow> s) in
            if t \<noteq> [] \<and> list_all is_digit t then Inr (read_int s) else raise ValueError ''invalid literal for int()'') in
      case v of
        JInt i \<Rightarrow> Inr i
      | JBool b \<Rightarrow> Inr (of_bool b)
      | JStr s \<Rightarrow> digits (case strip s of CHR ''+'' # t \<Rightarrow> t | t \<Rightarrow> t)
      | JFloat r \<Rightarrow> digits (takeWhile (\<lambda>c. c \<noteq> CHR ''.'') r)
      | _ \<Rightarrow> raise TypeError ''int() argument'')"

definition action_of :: "obj \<Rightarrow> string" where
  "action_of p = py_str (jor (oget p ''allowed_next_action'') (JStr ''verify_consistency''))"

text \<open>\<^verbatim>\<open>next(item for item in xs if item.get(k) == v)\<close>, where an item may not be a dictionary\<close>

fun find_get :: "string \<Rightarrow> json \<Rightarrow> json list \<Rightarrow> obj option res" where
  "find_get k v [] = Inr None"
| "find_get k v (JObj d # xs) = (if py_eq (oget d k) v then Inr (Some d) else find_get k v xs)"
| "find_get k v (_ # xs) = raise AttributeError ''get''"

definition expected_route :: "obj \<Rightarrow> route res" where
  "expected_route p =
     (let active_id = oget p ''active_transaction'' in
      if active_id = JNull
      then Inr (case map_of ACTION_WORKFLOW (action_of p) of None \<Rightarrow> Phase RECOVERY | Some r \<Rightarrow> r)
      else rbind (elements (oget_or p ''transactions'' (JArr []))) (\<lambda>xs.
           rbind (find_get ''transaction_id'' active_id xs) (\<lambda>active.
           case active of
             None \<Rightarrow> raise ProjectionError ''execution plan names an absent active transaction''
           | Some d \<Rightarrow> rbind (osub d ''workflow_type'') (\<lambda>v.
               rbind (parse_workflow (JStr (py_str v))) (\<lambda>w. Inr (Phase w))))))"

definition route_lease :: "route \<Rightarrow> json" where
  "route_lease r = (case r of Phase w \<Rightarrow> JStr (lease_value (WORKFLOW_LEASE w)) | Merge_Approval \<Rightarrow> JNull)"

definition plan_checks :: "obj \<Rightarrow> route \<Rightarrow> execution_identity \<Rightarrow> execution_plan \<Rightarrow> (string \<times> bool) list" where
  "plan_checks p r i e =
     (let branch = (case (r, oget p ''prepared_feature_execution'') of
            (Phase FEATURE_EXECUTION, JObj d) \<Rightarrow> oget d ''feature_branch''
          | _ \<Rightarrow> jor (id_milestone_branch i) (ep_milestone_branch e)) in
      [(''project_id'', oget p ''project_id'' = JStr (ep_project_id e)),
       (''ledger_sequence'', py_eq (JInt (ep_ledger_sequence e)) (oget p ''ledger_sequence'')),
       (''ledger_fingerprint'', oget p ''ledger_fingerprint'' = JStr (ep_ledger_fingerprint e)),
       (''projection_fingerprint'', oget p ''projection_fingerprint'' = JStr (ep_projection_fingerprint e)),
       (''current_state'', oget p ''current_state'' = JStr (ep_current_state e)),
       (''workflow_type'', ep_workflow_type e = route_value r),
       (''feature_id'', py_eq (ep_feature_id e) (id_feature i)),
       (''accepted_commit'', py_eq (ep_accepted_commit e) (id_accepted_commit i)),
       (''starting_branch'', py_eq (ep_starting_branch e) branch),
       (''session_resume_eligible'', ep_session_resume_eligible e = truthy (oget p ''session_resume_eligible'')),
       (''lease_type'', py_eq (of_opt (ep_lease_type e)) (jor (oget p ''required_lease'') (route_lease r)))]
      @ (if id_starting_commit i \<noteq> JNull
         then [(''starting_commit'', py_eq (ep_starting_commit e) (id_starting_commit i))] else [])
      @ (if id_feature_branch i \<noteq> JNull
         then [(''feature_branch'', py_eq (ep_feature_branch e) (id_feature_branch i))] else [])
      @ (if id_milestone_branch i \<noteq> JNull
         then [(''milestone_branch'', py_eq (ep_milestone_branch e) (id_milestone_branch i))] else []))"

definition validate_against :: "obj \<Rightarrow> execution_plan \<Rightarrow> unit res" where
  "validate_against p e =
     rbind (expected_route p) (\<lambda>r.
     rbind (execution_identity p (Some (route_value r)) (ep_milestone_branch e)) (\<lambda>i.
     check (list_all snd (plan_checks p r i e)) ProjectionError
       ''execution plan disagrees with authoritative projection''))"

subsection \<open>Construction\<close>

record plan_inputs =
  pi_starting_commit :: "string option"
  pi_feature_branch :: "string option"
  pi_milestone_branch :: "string option"
  pi_accepted_tree :: "string option"
  pi_feature_worktree :: "string option"
  pi_integration_worktree :: "string option"
  pi_acceptance_transaction :: "string option"

text \<open>A set of values: each of them must be hashable.\<close>

definition value_set :: "json list \<Rightarrow> json list res" where
  "value_set vs = rbind (rall hashable vs) (\<lambda>_. Inr vs)"

definition history_of :: "obj \<Rightarrow> obj list res" where
  "history_of p = rbind (elements (jor (oget p ''historical_integration_outcomes'') (JArr []))) (\<lambda>xs. Inr (dicts xs))"

definition historical_commits :: "obj list \<Rightarrow> json list" where
  "historical_commits items = filter is_str (map (\<lambda>d. oget d ''accepted_commit'') items)"

definition integrated_ids :: "obj list \<Rightarrow> json list" where
  "integrated_ids items =
     map (\<lambda>d. oget d ''feature_id'') (filter (\<lambda>d. oget d ''classification'' = JStr ''INTEGRATED'') items)"

definition feature_route :: "route \<Rightarrow> bool" where
  "feature_route r \<longleftrightarrow> r \<in> {Phase FEATURE_EXECUTION, Phase MILESTONE_INTEGRATION}"

definition route_of :: "string \<Rightarrow> obj option \<Rightarrow> route res" where
  "route_of action active =
     (case active of
        None \<Rightarrow> Inr (case map_of ACTION_WORKFLOW action of None \<Rightarrow> Phase RECOVERY | Some r \<Rightarrow> r)
      | Some d \<Rightarrow> rewrap [KeyError, ValueError] ProjectionError ''active projection transaction has invalid workflow type''
          (rbind (osub d ''workflow_type'') (\<lambda>v. rbind (parse_workflow (JStr (py_str v))) (\<lambda>w. Inr (Phase w)))))"

text \<open>The boundary of a prepared feature must be the identity of the plan.\<close>

definition boundary_agrees :: "obj \<Rightarrow> route \<Rightarrow> execution_identity \<Rightarrow> bool" where
  "boundary_agrees p r i =
     (case oget p ''prepared_feature_execution'' of
        JObj d \<Rightarrow> r = Phase FEATURE_EXECUTION \<and> py_eq (oget d ''feature_id'') (id_feature i)
          \<and> py_eq (oget d ''feature_branch'') (id_feature_branch i)
          \<and> py_eq (oget d ''starting_commit'') (id_starting_commit i)
          \<and> py_eq (oget d ''milestone_branch'') (id_milestone_branch i)
      | _ \<Rightarrow> True)"

definition prepared_branch :: "obj \<Rightarrow> route \<Rightarrow> json" where
  "prepared_branch p r =
     (case (r, oget p ''prepared_feature_execution'') of
        (Phase FEATURE_EXECUTION, JObj d) \<Rightarrow> oget d ''feature_branch'' | _ \<Rightarrow> JNull)"

text \<open>A feature is planned once: not when it is integrated, nor for a commit that was accepted before.\<close>

definition check_fresh :: "obj \<Rightarrow> route \<Rightarrow> execution_identity \<Rightarrow> unit res" where
  "check_fresh p r i =
     rbind (history_of p) (\<lambda>items.
     rbind (value_set (integrated_ids items)) (\<lambda>integrated.
     if \<not> feature_route r then Inr ()
     else
       rbind (check (nonempty_str (id_feature i)) ProjectionError
                ''executable feature workflow lacks a selected feature'') (\<lambda>_.
       rbind (in_set (id_feature i) integrated) (\<lambda>done.
       rbind (check (\<not> done) ProjectionError ''integrated feature cannot receive a new executable plan'') (\<lambda>_.
       rbind (in_set (id_accepted_commit i) (historical_commits items)) (\<lambda>reused.
       check (\<not> reused) ProjectionError ''historical accepted commit cannot create a fresh executable plan''))))))"

definition session_of :: "obj option \<Rightarrow> bool \<Rightarrow> json res" where
  "session_of active resume =
     rbind (elements (jor (case active of None \<Rightarrow> JNull | Some d \<Rightarrow> oget d ''session_ids'') (JArr []))) (\<lambda>ss.
     let last_session = (if resume \<and> ss \<noteq> [] then last ss else JNull) in
     rbind (check (\<not> (resume \<and> last_session = JNull)) ProjectionError
              ''resume-eligible projection lacks an exact kernel session'') (\<lambda>_. Inr last_session))"

definition from_projection :: "obj \<Rightarrow> plan_inputs \<Rightarrow> execution_plan res" where
  "from_projection p a =
     (let claimed = oget p ''projection_fingerprint''; action = action_of p; ms = of_opt (pi_milestone_branch a) in
      rbind (check (claimed = JStr (projection_fingerprint p)) ProjectionError
               ''authoritative projection fingerprint is invalid'') (\<lambda>_.
      rbind (check (map_of ACTION_WORKFLOW action \<noteq> None) ProjectionError ''projection has unsupported next action'') (\<lambda>_.
      rbind (listed p ''transactions'') (\<lambda>txs.
      let active = List.find (\<lambda>d. py_eq (oget d ''transaction_id'') (oget p ''active_transaction'')) txs;
          resume = truthy (oget p ''session_resume_eligible'') in
      rbind (route_of action active) (\<lambda>r.
      rbind (session_of active resume) (\<lambda>session.
      rbind (check (oget p ''required_lease'' = JNull \<or> py_eq (oget p ''required_lease'') (route_lease r))
               ProjectionError ''projection required lease disagrees with its workflow'') (\<lambda>_.
      rbind (execution_identity p (Some (route_value r)) ms) (\<lambda>i.
      rbind (check (boundary_agrees p r i) ProjectionError
               ''prepared feature boundary disagrees with authoritative projection identity'') (\<lambda>_.
      rbind (check_fresh p r i) (\<lambda>_.
      rbind (py_int (oget_or p ''ledger_sequence'' (JInt (-1)))) (\<lambda>sequence.
      let e = \<lparr>ep_project_id = py_str (jor (oget p ''project_id'') (JStr [])), ep_ledger_sequence = sequence,
          ep_ledger_fingerprint = py_str (jor (oget p ''ledger_fingerprint'') (JStr [])),
          ep_projection_fingerprint = projection_fingerprint p,
          ep_current_state = py_str (jor (oget p ''current_state'') (JStr [])), ep_workflow_type = route_value r,
          ep_feature_id = id_feature i, ep_accepted_commit = id_accepted_commit i,
          ep_starting_branch = jor (prepared_branch p r) (jor (id_milestone_branch i) ms),
          ep_starting_commit = jor (id_starting_commit i) (of_opt (pi_starting_commit a)),
          ep_feature_branch = jor (id_feature_branch i) (of_opt (pi_feature_branch a)),
          ep_milestone_branch = jor (id_milestone_branch i) ms,
          ep_transaction_mode = (if active = None then ''fresh'' else ''recovery''),
          ep_session_resume_eligible = resume, ep_session_to_resume = session,
          ep_lease_type = str_of (route_lease r),
          ep_application_mutation_expected = (case r of Merge_Approval \<Rightarrow> False
            | Phase w \<Rightarrow> w \<notin> {FEATURE_ACCEPTANCE, HUMAN_DECISION_RESOLUTION, RECOVERY}),
          ep_next_state_on_success = (case r of Merge_Approval \<Rightarrow> ''milestone_ready_for_merge''
            | Phase w \<Rightarrow> WORKFLOW_NEXT_STATE w),
          ep_accepted_tree = pi_accepted_tree a, ep_feature_worktree = pi_feature_worktree a,
          ep_integration_worktree = pi_integration_worktree a,
          ep_acceptance_transaction = pi_acceptance_transaction a\<rparr> in
      rbind (validate_against p e) (\<lambda>_. Inr e))))))))))))"

subsection \<open>The plan against the queue\<close>

definition integrated_feature_execution_checks ::
  "qenv \<Rightarrow> feature_queue \<Rightarrow> string \<Rightarrow> obj \<Rightarrow> execution_plan \<Rightarrow> (string \<times> bool) list res" where
  "integrated_feature_execution_checks Q q m p e =
     rbind (queue_summary Q q m) (\<lambda>summary.
     let integrated = map (\<lambda>f. JStr (py_str (oget f ''id''))) (filter is_integrated (features_for_milestone q m));
         executable = plan_workflow e \<in> {Some FEATURE_EXECUTION, Some MILESTONE_INTEGRATION};
         projected = candidate_of p in
     rbind (history_of p) (\<lambda>items.
     rbind (if executable then in_set (ep_feature_id e) integrated else Inr False) (\<lambda>again.
     rbind (if oget p ''allowed_next_action'' \<noteq> JStr ''feature_cycle'' then Inr True
            else if \<not> is_str projected then Inr False
            else (case feature_in q projected of
                None \<Rightarrow> Inr False
              | Some f \<Rightarrow> if oget f ''milestone'' \<noteq> JStr m then Inr False
                  else rbind (feature_readiness Q q f) (\<lambda>rd. Inr (rd_ready rd)))) (\<lambda>matches.
     rbind (if executable then in_set (ep_accepted_commit e) (historical_commits items) else Inr False) (\<lambda>reused.
     Inr [(''integrated_feature_not_executable'', \<not> again),
          (''empty_ready_queue_has_no_feature_plan'',
             truthy (oget summary ''ready_features'') \<or> plan_workflow e \<noteq> Some FEATURE_EXECUTION),
          (''projected_selection_matches_queue'', matches),
          (''historical_accepted_commit_not_reused'', \<not> reused)])))))"

subsection \<open>Superseded cycles\<close>

definition superseded_fields :: "string list" where
  "superseded_fields = [''workflow_type'', ''run_id'', ''session_id'', ''feature_id'', ''legacy_phase'']"

definition superseded_entry :: "obj \<Rightarrow> obj" where
  "superseded_entry d =
     map (\<lambda>k. (k, oget d k)) superseded_fields
     @ [(''classification'', JStr ''superseded''), (''reason'', oget d ''reason'')]"

text \<open>\<open>seen\<close> is the set of identities, tuples of hashable values.\<close>

definition add_superseded :: "json \<Rightarrow> json list list \<times> obj list \<Rightarrow> (json list list \<times> obj list) res" where
  "add_superseded v acc =
     (case (v, acc) of
        (JObj d, seen, values) \<Rightarrow>
          let identity = map (oget d) superseded_fields in
          rbind (rall hashable identity) (\<lambda>_.
          Inr (if list_ex (list_all2 py_eq identity) seen then acc
               else (seen @ [identity], values @ [superseded_entry d])))
      | _ \<Rightarrow> Inr acc)"

definition superseded_legacy_cycles :: "obj list \<Rightarrow> obj list res" where
  "superseded_legacy_cycles events =
     rbind (rfold (\<lambda>event acc.
         if oget event ''event_type'' \<noteq> JStr ''TransactionCompleted'' then Inr acc
         else rbind (case oget_or event ''payload'' (JObj []) of
                JObj pl \<Rightarrow> elements (jor (oget_or pl ''superseded'' (JArr [])) (JArr []))
              | _ \<Rightarrow> raise AttributeError ''get'') (\<lambda>items. rfold add_superseded items acc)) events ([], [])) (\<lambda>acc.
     Inr (snd acc))"

subsection \<open>The status\<close>

text \<open>The identity fields of the status: what the projection says, else what the plan says.\<close>

definition status_identity :: "execution_identity \<Rightarrow> execution_plan \<Rightarrow> execution_identity" where
  "status_identity i e =
     i\<lparr>id_feature := jor (id_feature i) (ep_feature_id e),
       id_accepted_commit := jor (id_accepted_commit i) (ep_accepted_commit e),
       id_starting_commit := jor (id_starting_commit i) (ep_starting_commit e),
       id_feature_branch := jor (id_feature_branch i) (ep_feature_branch e),
       id_milestone_branch := jor (id_milestone_branch i) (ep_milestone_branch e)\<rparr>"

text \<open>A legacy cycle of an integrated feature counts as superseded.\<close>

definition effective_superseded :: "obj \<Rightarrow> obj \<Rightarrow> obj list \<Rightarrow> obj list res" where
  "effective_superseded p legacy cycles =
     rbind (listed p ''historical_integration_outcomes'') (\<lambda>items.
     rbind (value_set (integrated_ids items)) (\<lambda>integrated.
     case oget legacy ''existing_active_cycle'' of
       JObj c \<Rightarrow>
         rbind (in_set (oget c ''feature'') integrated) (\<lambda>done.
         Inr (if done \<and> \<not> list_ex (\<lambda>d. py_eq (oget d ''run_id'') (oget c ''run_id'')) cycles
              then cycles @ [[(''workflow_type'', JStr (workflow_value FEATURE_EXECUTION)),
                (''run_id'', oget c ''run_id''), (''session_id'', oget c ''session_id''),
                (''feature_id'', oget c ''feature''), (''legacy_phase'', oget c ''phase''),
                (''classification'', JStr ''superseded''),
                (''reason'', JStr ''completed integration is terminal for the legacy feature cycle'')]]
              else cycles))
     | _ \<Rightarrow> Inr cycles))"

definition status_fields ::
  "obj \<Rightarrow> execution_plan \<Rightarrow> obj \<Rightarrow> json \<Rightarrow> json \<Rightarrow> obj list \<Rightarrow> execution_identity \<Rightarrow> string list \<Rightarrow> json \<Rightarrow> json \<Rightarrow> obj" where
  "status_fields p e legacy persisted persisted_fp cycles i launched state fp =
     (let workflow = plan_workflow e; action = JStr (action_of p); plan = JObj (plan_dict e);
          gate = (case oget p ''human_gate'' of JObj g \<Rightarrow> if g = [] then JNull else JObj g | _ \<Rightarrow> JNull);
          resumable = (workflow \<notin> {None, Some HUMAN_DECISION_RESOLUTION, Some RECOVERY});
          stale = (\<not> py_eq persisted state \<or> \<not> py_eq persisted_fp fp);
          fresh = (ep_transaction_mode e = ''fresh''); sessions = strs launched in
      [(''current_state'', state), (''derived_state'', state), (''persisted_state'', state),
       (''selected_feature'', id_feature i), (''accepted_feature_commit'', id_accepted_commit i),
       (''feature_starting_commit'', id_starting_commit i), (''starting_commit'', id_starting_commit i),
       (''feature_branch'', id_feature_branch i), (''milestone_branch'', id_milestone_branch i),
       (''next_action'', action), (''proposed_next_action'', action), (''workflow_type'', JStr (ep_workflow_type e)),
       (''transaction_mode'', JStr (ep_transaction_mode e)), (''session_to_resume'', ep_session_to_resume e),
       (''lease_type'', of_opt (ep_lease_type e)), (''required_lease'', of_opt (ep_lease_type e)),
       (''application_mutation_expected'', JBool (ep_application_mutation_expected e)),
       (''next_state_on_success'', JStr (ep_next_state_on_success e)),
       (''state_source'', JStr ''evidence_ledger_projection''), (''human_gate'', gate),
       (''human_decision_required'', gate), (''kernel_projection'', JObj p), (''executable_plan'', plan),
       (''execution_plan'', plan),
       (''legacy_observations'', JObj
          [(''persisted_compatibility_state'', persisted),
           (''legacy_proposed_next_action'', oget legacy ''proposed_next_action''),
           (''legacy_existing_cycle'', oget legacy ''existing_active_cycle''),
           (''legacy_stale_cycle_evidence'', oget legacy ''stale_cycle_evidence''),
           (''legacy_sessions_that_would_launch'', oget_or legacy ''sessions_that_would_launch'' (JArr []))]),
       (''superseded_legacy_cycles'', JArr (map JObj cycles)), (''existing_active_cycle'', JNull),
       (''stale_cycle_evidence'', JNull), (''branch_recovery_required'', JBool False), (''cycle_phase'', JNull),
       (''cycle_stop_reason'', JNull), (''expected_branch'', id_feature_branch i),
       (''expected_stop_condition'',
          if workflow = Some QUEUE_RECONCILIATION
          then JStr ''Reconcile the validated milestone queue without reusing terminal feature identity.''
          else oget legacy ''expected_stop_condition''),
       (''session_resume_eligible'', JBool (ep_session_resume_eligible e)),
       (''old_session_will_resume'', JBool (ep_session_resume_eligible e)),
       (''session_completion_classification'',
          if fresh then JNull else oget legacy ''session_completion_classification''),
       (''session_completion_flags'',
          if fresh then JArr [] else oget_or legacy ''session_completion_flags'' (JArr [])),
       (''transactions_that_would_start'', sessions),
       (''model_sessions_that_would_launch'',
          if workflow = Some QUEUE_RECONCILIATION then strs [''queue reconciliation parent session''] else sessions),
       (''child_sessions_that_would_launch'', JArr []), (''sessions_that_would_launch'', sessions),
       (''fresh_transaction'', JBool fresh), (''ordinary_resume_allowed'', JBool resumable),
       (''resume_allowed'', JBool resumable), (''resume_allowed_after_lock'', JBool resumable),
       (''writer_lock_required_before_resume'', JBool False),
       (''writer_lock_would_be_acquired_before_mutation'', JBool (ep_application_mutation_expected e)),
       (''feature_factory_would_launch'', JBool (workflow = Some FEATURE_EXECUTION)),
       (''milestone_integrator_would_launch'', JBool False),
       (''deterministic_integration_executor_would_run'', JBool (workflow = Some MILESTONE_INTEGRATION)),
       (''model_session_would_launch'', JBool (workflow = Some QUEUE_RECONCILIATION \<or> launched \<noteq> [])),
       (''dry_run_writes_application_repository'', JBool False),
       (''state_consistency'', JStr ''projection_authoritative''), (''repair_transition_path'', JArr []),
       (''execution_state_path'', JArr [state, JStr (ep_next_state_on_success e)]),
       (''would_persist_state_repair'', JBool stale),
       (''state_reconciliation_reason'', JStr
          (if stale then ''controller compatibility cache is stale and ignored for execution''
           else ''controller compatibility cache agrees with the kernel projection'')),
       (''compatibility_cache'', JObj
          [(''observed_state'', persisted), (''observed_projection_fingerprint'', persisted_fp),
           (''projected_state'', state), (''stale'', JBool stale),
           (''ledger_sequence'', oget p ''ledger_sequence''), (''ledger_fingerprint'', oget p ''ledger_fingerprint''),
           (''projection_fingerprint'', fp)])])"

definition authoritative_status_fields ::
  "obj \<Rightarrow> execution_plan \<Rightarrow> obj \<Rightarrow> json \<Rightarrow> obj list \<Rightarrow> json \<Rightarrow> obj res" where
  "authoritative_status_fields p e legacy persisted cycles persisted_fp =
     rbind (validate_against p e) (\<lambda>_.
     rbind (effective_superseded p legacy cycles) (\<lambda>superseded.
     rbind (execution_identity p (plan_route e) (ep_milestone_branch e)) (\<lambda>i.
     rbind (osub p ''current_state'') (\<lambda>state.
     rbind (osub p ''projection_fingerprint'') (\<lambda>fp.
     rbind (sessions_that_would_launch e) (\<lambda>launched.
     rbind (rall (\<lambda>k. rbind (osub p k) (\<lambda>_. Inr ())) [''ledger_sequence'', ''ledger_fingerprint'']) (\<lambda>_.
     Inr (status_fields p e legacy persisted persisted_fp superseded (status_identity i e) launched state fp))))))))"

definition agreement_checks ::
  "obj \<Rightarrow> obj \<Rightarrow> execution_plan \<Rightarrow> execution_identity \<Rightarrow> string list \<Rightarrow> json \<Rightarrow> (string \<times> bool) list" where
  "agreement_checks p s e i launched lease_in_plan =
     (let is_projected = (\<lambda>k j. py_eq (oget s k) (oget p j)); resume = JBool (truthy (oget p ''session_resume_eligible''));
          lease = jor (oget p ''required_lease'') (of_opt (ep_lease_type e)) in
      [(''kernel_current_state'', is_projected ''current_state'' ''current_state''),
       (''derived_state'', is_projected ''derived_state'' ''current_state''),
       (''persisted_compatibility_state'', is_projected ''persisted_state'' ''current_state''),
       (''allowed_next_action'', is_projected ''next_action'' ''allowed_next_action''),
       (''proposed_next_action'', is_projected ''proposed_next_action'' ''allowed_next_action''),
       (''workflow_type'', oget s ''workflow_type'' = JStr (ep_workflow_type e)),
       (''session_resume_eligibility'', py_eq (oget s ''session_resume_eligible'') resume),
       (''old_session_resume'', py_eq (oget s ''old_session_will_resume'') resume),
       (''sessions_that_would_launch'', py_eq (oget s ''sessions_that_would_launch'') (strs launched)),
       (''executable_plan'', py_eq (oget s ''executable_plan'') (JObj (plan_dict e))),
       (''execution_plan'', py_eq (oget s ''execution_plan'') (JObj (plan_dict e))),
       (''selected_feature'', py_eq (oget s ''selected_feature'') (id_feature i)),
       (''accepted_commit'', py_eq (oget s ''accepted_feature_commit'') (id_accepted_commit i)),
       (''starting_commit'', py_eq (oget s ''feature_starting_commit'') (id_starting_commit i)),
       (''feature_branch'', py_eq (oget s ''feature_branch'') (id_feature_branch i)),
       (''milestone_branch'', py_eq (oget s ''milestone_branch'') (id_milestone_branch i)),
       (''required_lease'', py_eq (oget s ''required_lease'') lease),
       (''executable_plan_lease'', py_eq lease_in_plan lease)])"

definition execution_plan_projection_agreement ::
  "obj \<Rightarrow> obj \<Rightarrow> execution_plan \<Rightarrow> (bool \<times> (string \<times> bool) list) res" where
  "execution_plan_projection_agreement p s e =
     rbind (sessions_that_would_launch e) (\<lambda>launched.
     rbind (execution_identity p (plan_route e) (ep_milestone_branch e)) (\<lambda>i.
     rbind (jget (jor (oget s ''executable_plan'') (JObj [])) ''lease_type'') (\<lambda>lease_in_plan.
     let checks = agreement_checks p s e (status_identity i e) launched lease_in_plan in
     Inr (list_all snd checks, checks))))"

end
