(* ===== verification/Execution_Plan_Theorems.thy ===== *)
theory Execution_Plan_Theorems
  imports Execution_Plan Feature_Queue_Theorems
begin

section \<open>What execution plans guarantee\<close>

text \<open>
  The status agrees with the plan it was made from; binding a projection to the queue is idempotent; a
  plan made from a bound projection passes the checks against the queue.
\<close>

subsection \<open>Values that equal themselves\<close>

fun plain :: "json \<Rightarrow> bool" where
  "plain (JFloat r) \<longleftrightarrow> r \<noteq> ''nan''"
| "plain (JArr xs) \<longleftrightarrow> list_all plain xs"
| "plain (JObj d) \<longleftrightarrow> distinct (map fst d) \<and> list_all (\<lambda>kv. plain (snd kv)) d"
| "plain _ \<longleftrightarrow> True"

lemma plain_refl: "plain v \<Longrightarrow> py_eq v v"
proof (induction v rule: plain.induct)
  case (3 d)
  have "case map_of d (fst kv) of None \<Rightarrow> False | Some u \<Rightarrow> py_eq (snd kv) u" if "kv \<in> set d" for kv
  proof -
    from 3(2) that have "map_of d (fst kv) = Some (snd kv)" by (simp add: map_of_is_SomeI)
    moreover from 3 that have "py_eq (snd kv) (snd kv)" by (simp add: list_all_iff)
    ultimately show ?thesis by simp
  qed
  then show ?case by (simp add: list_all_iff)
qed (auto simp: list_all_iff list_all2_same)

lemma plain_oget: "plain (JObj d) \<Longrightarrow> plain (oget d k)"
  by (auto simp: oget_def list_all_iff split: option.split dest!: map_of_SomeD)

lemma plain_jor [simp]: "plain a \<Longrightarrow> plain b \<Longrightarrow> plain (jor a b)"
  by (simp add: jor_def)

lemma plain_nonempty_str: "nonempty_str v \<Longrightarrow> plain v"
  by (auto simp: nonempty_str_iff)

subsection \<open>Identity\<close>

lemma confirmed_head_text:
  "outcome_complete d \<Longrightarrow> \<not> nonempty_str (confirmed_head txs d b) \<Longrightarrow> confirmed_head txs d b = JNull"
  by (auto simp: confirmed_head_def outcome_complete_def split: option.splits json.splits if_splits)

lemma baseline_plain:
  assumes "completed_integration_planning_baseline p w ms = Inr v"
  shows "plain v"
proof -
  have "v = JNull \<or> nonempty_str v"
    using assms
    by (auto intro: confirmed_head_text simp: completed_integration_planning_baseline_def Let_def simp del: rbind_eq_Inr elim!: rbind_InrE
        split: if_split_asm list.split_asm)
  then show ?thesis by (auto dest: plain_nonempty_str)
qed

definition plain_identity :: "execution_identity \<Rightarrow> bool" where
  "plain_identity i \<longleftrightarrow> plain (id_feature i) \<and> plain (id_accepted_commit i) \<and> plain (id_starting_commit i)
     \<and> plain (id_feature_branch i) \<and> plain (id_milestone_branch i)"

lemma identity_plain:
  assumes "execution_identity p w ms = Inr i" "plain (JObj p)" "plain ms"
  shows "plain_identity i"
proof -
  have "plain (JObj (gate_identity_of p w))"
    using assms(2) plain_oget [of p "''human_gate''"] by (auto simp: gate_identity_of_def split: json.split)
  with assms show ?thesis
    by (auto simp: execution_identity_def plain_identity_def Let_def plain_oget baseline_plain)
qed

lemma status_identity_plain:
  assumes "plain_identity i" "plain (JObj (plan_dict e))"
  shows "plain_identity (status_identity i e)"
  using assms by (simp add: plain_identity_def status_identity_def plan_dict_def)

subsection \<open>The status agrees with the plan\<close>

lemma validated_plan:
  assumes "validate_against p e = Inr u"
  shows "oget p ''current_state'' = JStr (ep_current_state e)
    \<and> ep_session_resume_eligible e = truthy (oget p ''session_resume_eligible'')
    \<and> py_eq (of_opt (ep_lease_type e)) (jor (oget p ''required_lease'') (of_opt (ep_lease_type e)))"
proof -
  from assms obtain r i where "list_all snd (plan_checks p r i e)"
    by (auto simp: validate_against_def)
  then have c: "oget p ''current_state'' = JStr (ep_current_state e)"
    "ep_session_resume_eligible e = truthy (oget p ''session_resume_eligible'')"
    "jor (oget p ''required_lease'') (route_lease r) = of_opt (ep_lease_type e)"
    by (simp_all add: plan_checks_def Let_def)
  from c(3) have "jor (oget p ''required_lease'') (of_opt (ep_lease_type e)) = of_opt (ep_lease_type e)"
    by (auto simp: jor_def split: if_splits)
  with c show ?thesis by simp
qed

text \<open>
  Claim C27. One plan behind every name. The status the controller derives from a plan and its projection
  passes the comparison of all its aliases with both: state, next action, workflow, sessions, feature, commits,
  branches and lease. The projection and the plan hold no NaN and no key twice, and the projection names
  a next action, as \<^verbatim>\<open>projection_dict\<close> does.
\<close>

theorem status_agrees_with_plan:
  assumes "plain (JObj p)" "plain (JObj (plan_dict e))" "nonempty_str (oget p ''allowed_next_action'')"
  shows "case authoritative_status_fields p e legacy persisted cycles persisted_fp of
      Inl _ \<Rightarrow> True
    | Inr s \<Rightarrow> (case execution_plan_projection_agreement p s e of Inl _ \<Rightarrow> False | Inr (agreed, checks) \<Rightarrow> agreed)"
proof (cases "authoritative_status_fields p e legacy persisted cycles persisted_fp")
  case (Inr s)
  then obtain i state fp launched superseded where v: "validate_against p e = Inr ()"
    and i: "execution_identity p (plan_route e) (ep_milestone_branch e) = Inr i"
    and state: "map_of p ''current_state'' = Some state" and launched: "sessions_that_would_launch e = Inr launched"
    and s: "s = status_fields p e legacy persisted persisted_fp superseded (status_identity i e) launched state fp"
    unfolding authoritative_status_fields_def rbind_eq_Inr osub_Inr sum.inject
    by (elim exE conjE) (rule that; (assumption | erule sym | simp))
  have st: "oget p ''current_state'' = state" using state by (simp add: oget_def)
  have action: "oget p ''allowed_next_action'' = JStr (action_of p)"
    using assms(3) by (auto simp: action_of_def nonempty_str_iff jor_def)
  have "plain (ep_milestone_branch e)" using assms(2) by (simp add: plan_dict_def)
  then have "plain_identity (status_identity i e)"
    by (rule status_identity_plain [OF identity_plain [OF i assms(1)] assms(2)])
  then have same: "py_eq (id_feature (status_identity i e)) (id_feature (status_identity i e))"
    "py_eq (id_accepted_commit (status_identity i e)) (id_accepted_commit (status_identity i e))"
    "py_eq (id_starting_commit (status_identity i e)) (id_starting_commit (status_identity i e))"
    "py_eq (id_feature_branch (status_identity i e)) (id_feature_branch (status_identity i e))"
    "py_eq (id_milestone_branch (status_identity i e)) (id_milestone_branch (status_identity i e))"
    "py_eq state state" "py_eq (JObj (plan_dict e)) (JObj (plan_dict e))"
    using assms(1,2) plain_oget [of p "''current_state''"] unfolding st plain_identity_def
    by (simp_all only: plain_refl)
  have lease: "jget (jor (JObj (plan_dict e)) (JObj [])) ''lease_type'' = Inr (of_opt (ep_lease_type e))"
    by (simp add: jget_def jor_def plan_dict_def)
  have "list_all snd (agreement_checks p s e (status_identity i e) launched (of_opt (ep_lease_type e)))"
    using validated_plan [OF v] same unfolding s agreement_checks_def status_fields_def Let_def
    by (simp add: st action strs_def list_all2_same)
  moreover have "oget s ''executable_plan'' = JObj (plan_dict e)"
    unfolding s status_fields_def Let_def by simp
  ultimately show ?thesis
    using Inr i launched lease by (simp add: execution_plan_projection_agreement_def Let_def)
qed simp

definition sample_projection :: obj where
  "sample_projection =
    [(''project_id'', JStr ''p''), (''ledger_sequence'', JInt 3), (''ledger_fingerprint'', JStr ''l''),
     (''projection_fingerprint'', JStr ''f''), (''current_state'', JStr ''queue_reconciliation''),
     (''active_transaction'', JNull), (''allowed_next_action'', JStr ''queue_reconciliation''),
     (''session_resume_eligible'', JBool False), (''transactions'', JArr [])]"

definition sample_plan :: execution_plan where
  "sample_plan =
    \<lparr>ep_project_id = ''p'', ep_ledger_sequence = 3, ep_ledger_fingerprint = ''l'', ep_projection_fingerprint = ''f'',
     ep_current_state = ''queue_reconciliation'', ep_workflow_type = ''queue_reconciliation'', ep_feature_id = JNull,
     ep_accepted_commit = JNull, ep_starting_branch = JStr ''m'', ep_starting_commit = JStr ''c'',
     ep_feature_branch = JNull, ep_milestone_branch = JStr ''m'', ep_transaction_mode = ''fresh'',
     ep_session_resume_eligible = False, ep_session_to_resume = JNull, ep_lease_type = Some ''planning_writer'',
     ep_application_mutation_expected = True, ep_next_state_on_success = ''feature_ready'', ep_accepted_tree = None,
     ep_feature_worktree = None, ep_integration_worktree = None, ep_acceptance_transaction = None\<rparr>"

lemma sample_plan_status: "\<not> isl (authoritative_status_fields sample_projection sample_plan [] JNull [] JNull)"
  by code_simp

theorem status_agrees_with_plan_witness:
  "\<exists>s checks. authoritative_status_fields sample_projection sample_plan [] JNull [] JNull = Inr s
     \<and> execution_plan_projection_agreement sample_projection s sample_plan = Inr (True, checks)"
proof -
  have "plain (JObj sample_projection)" "plain (JObj (plan_dict sample_plan))"
    "nonempty_str (oget sample_projection ''allowed_next_action'')"
    by (simp_all add: sample_projection_def sample_plan_def plan_dict_def)
  from status_agrees_with_plan [OF this, of "[]" JNull "[]" JNull] sample_plan_status show ?thesis
    by (auto simp: isl_def split: sum.splits)
qed

subsection \<open>Binding to the queue\<close>

lemma oupdate_same: "list_all (\<lambda>kv. map_of d (fst kv) = Some (snd kv)) e \<Longrightarrow> oupdate d e = d"
proof (induction e)
  case (Cons kv e)
  have "aset k v d = d" if "map_of d k = Some v" for k v and d :: obj
    using that by (induction d) auto
  with Cons show ?case by (auto simp: oupdate_def)
qed simp

lemma adel_oset: "adel k (oset k v d) = adel k d"
  by (induction d) (auto simp: adel_def)

lemma adel_absent: "\<not> ohas d k \<Longrightarrow> adel k d = d"
  by (induction d) (auto simp: adel_def ohas_def)

lemma bound_fields:
  "map_of (bound_to q p sel) k =
     (if k = ''projection_fingerprint'' then Some (JStr (projection_fingerprint (bound_to q p sel)))
      else case map_of (case sel of None \<Rightarrow> nothing_selected | Some i \<Rightarrow> feature_selected q i) k of
          Some v \<Rightarrow> Some v
        | None \<Rightarrow> (case map_of cleared_fields k of Some v \<Rightarrow> Some v | None \<Rightarrow> map_of p k))"
  by (cases sel) (auto simp: bound_to_def Let_def map_of_oupdate map_of_aset_apply projection_fingerprint_def adel_oset
    nothing_selected_def feature_selected_def cleared_fields_def split: option.split)

lemma bound_again: "bound_to q (bound_to q p sel) sel = bound_to q p sel"
proof -
  let ?b = "bound_to q p sel"
  have a: "oupdate ?b cleared_fields = ?b"
    by (rule oupdate_same) (cases sel, simp_all add: bound_fields cleared_fields_def nothing_selected_def feature_selected_def)
  have b: "oupdate ?b (case sel of None \<Rightarrow> nothing_selected | Some i \<Rightarrow> feature_selected q i) = ?b"
    by (rule oupdate_same) (cases sel, simp_all add: bound_fields nothing_selected_def feature_selected_def)
  have "oset ''projection_fingerprint'' (JStr (projection_fingerprint ?b)) ?b = ?b"
    using oupdate_same [of ?b "[(''projection_fingerprint'', JStr (projection_fingerprint ?b))]"]
    by (simp add: oupdate_def bound_fields)
  with a b show ?thesis by (subst bound_to_def) (simp add: Let_def)
qed

text \<open>The feature a selection names is a feature of the milestone that the queue holds once, and is eligible.\<close>

definition selectable :: "qenv \<Rightarrow> feature_queue \<Rightarrow> string \<Rightarrow> string \<Rightarrow> bool" where
  "selectable Q q m i \<longleftrightarrow>
     (\<exists>f. feature_in q (JStr i) = Some f \<and> oget f ''id'' = JStr i \<and> eligible Q q f
        \<and> f \<in> set (features_for_milestone q m))"

lemma only_distinct: "distinct (map k xs) \<Longrightarrow> x \<in> set xs \<Longrightarrow> only (filter (\<lambda>y. k y = k x) xs) = Some x"
proof -
  assume d: "distinct (map k xs)" "x \<in> set xs"
  then have "filter (\<lambda>y. k y = k x) xs = [x]"
  proof (induction xs)
    case (Cons a xs)
    then show ?case by (cases "a = x") (auto simp: filter_empty_conv image_iff)
  qed simp
  then show ?thesis by (simp add: only_def)
qed

lemma feature_in_mem:
  assumes "queue_wf q" "f \<in> set (fq_features q)" "oget f ''id'' = JStr i"
  shows "feature_in q (JStr i) = Some f"
  using assms only_distinct [of "\<lambda>f. oget f ''id''" "fq_features q" f] by (simp add: feature_in_def queue_wf_def)

lemma in_milestone: "f \<in> set (features_for_milestone q m) \<Longrightarrow> f \<in> set (fq_features q)"
  by (auto simp: features_for_milestone_def split: option.splits)

lemma feature_in_Some: "feature_in q (JStr i) = Some f \<Longrightarrow> f \<in> set (fq_features q) \<and> oget f ''id'' = JStr i"
  by (auto simp: feature_in_def dest: only_mem)

lemma queue_wf_id: "queue_wf q \<Longrightarrow> f \<in> set (fq_features q) \<Longrightarrow> oget f ''id'' = JStr (item_id f) \<and> oget f ''status'' = JStr (item_status f)"
  by (auto simp: queue_wf_def feature_wf_def list_all_iff item_id_def item_status_def is_str_iff nonempty_str_iff)

lemma select_next_selectable:
  assumes "queue_wf q" "select_next Q q m = Inr (Some s)"
  shows "selectable Q q m (sl_feature_id s)"
proof -
  from assms(2) obtain f fs where r: "ready Q q m = Inr (f # fs)" and s: "sl_feature_id s = item_id f"
    by (auto simp: select_next_def simp del: rbind_eq_Inr elim!: rbind_InrE split: list.split_asm)
  have "f \<in> set (filter (eligible Q q) (features_for_milestone q m))"
    using ready_Inr [OF r] by (metis list.set_intros(1) set_sort)
  then have f: "f \<in> set (features_for_milestone q m)" "eligible Q q f" by auto
  with queue_wf_id [OF assms(1) in_milestone [OF f(1)]] feature_in_mem [OF assms(1) in_milestone [OF f(1)]] s
  show ?thesis by (auto simp: selectable_def)
qed

lemma readiness_eligible:
  assumes "oget f ''status'' = JStr (item_status f)"
  shows "feature_readiness Q q f = Inr rd \<and> rd_ready rd \<longleftrightarrow>
    rd = \<lparr>rd_ready = True, rd_dependencies_complete = True, rd_blocked_reason = None\<rparr> \<and> eligible Q q f"
proof (cases "dependencies_complete q f")
  case (Inr b)
  have e: "eligible Q q f \<longleftrightarrow> item_status f = ''ready'' \<and> oget f ''requires_human_decision'' \<noteq> JBool True \<and> b \<and> specified Q q f"
    using Inr by (auto simp: eligible_def dependencies_complete_def simp flip: all_complete_True)
  show ?thesis
    unfolding e using Inr assms
    by (auto simp: feature_readiness_def Let_def COMPLETE_STATUSES_def BLOCKED_STATUSES_def)
qed (auto simp: feature_readiness_def eligible_def dependencies_complete_def simp flip: all_complete_True)

lemma select_exact_selectable:
  assumes "queue_wf q" "select_exact Q q m i = Inr s"
  shows "sl_feature_id s = i \<and> selectable Q q m i"
proof -
  from assms(2) obtain f d rd where f: "feature_in q (JStr i) = Some f" and m: "milestone_in (fq_milestones q) m = Some d"
    and d: "py_eq (oget f ''milestone'') (oget d ''id'')" and rd: "feature_readiness Q q f = Inr rd" "rd_ready rd"
    and s: "sl_feature_id s = item_id f"
    by (auto simp: select_exact_def simp del: rbind_eq_Inr elim!: rbind_InrE split: option.split_asm)
  note f' = feature_in_Some [OF f]
  have w: "oget f ''id'' = JStr (item_id f) \<and> oget f ''status'' = JStr (item_status f)"
    using f' by (intro queue_wf_id [OF assms(1)]) simp
  have "eligible Q q f" using readiness_eligible [of f Q q rd] rd w by simp
  moreover have "f \<in> set (features_for_milestone q m)" using f' m d by (simp add: features_for_milestone_def)
  moreover have "item_id f = i" using f' w by simp
  ultimately show ?thesis using s f f' by (auto simp: selectable_def)
qed

lemma selectable_exact:
  assumes "queue_wf q" "selectable Q q m i"
  shows "\<exists>s. select_exact Q q m i = Inr s \<and> sl_feature_id s = i"
proof -
  from assms(2) obtain f where f: "feature_in q (JStr i) = Some f" "eligible Q q f" "f \<in> set (features_for_milestone q m)"
    by (auto simp: selectable_def)
  then obtain d where m: "milestone_in (fq_milestones q) m = Some d" "py_eq (oget f ''milestone'') (oget d ''id'')"
    "f \<in> set (fq_features q)"
    by (cases "milestone_in (fq_milestones q) m") (auto simp: features_for_milestone_def)
  note w = queue_wf_id [OF assms(1) m(3)] feature_in_Some [OF f(1)]
  have "feature_readiness Q q f = Inr \<lparr>rd_ready = True, rd_dependencies_complete = True, rd_blocked_reason = None\<rparr>"
    using readiness_eligible [of f Q q] f(2) w by blast
  then show ?thesis using f m w by (simp add: select_exact_def)
qed

lemma selectable_nonempty: "queue_wf q \<Longrightarrow> selectable Q q m i \<Longrightarrow> i \<noteq> []"
  by (auto simp: selectable_def queue_wf_def feature_wf_def list_all_iff nonempty_str_iff dest!: feature_in_Some)

text \<open>An idle projection that routes to the queue or to a feature.\<close>

definition idle_route :: "obj \<Rightarrow> bool" where
  "idle_route b \<longleftrightarrow> oget b ''active_transaction'' = JNull
     \<and> oget b ''allowed_next_action'' \<in> {JStr ''feature_cycle'', JStr ''queue_reconciliation''}"

text \<open>What binding does: nothing, or the projection is bound to a selection the queue offers.\<close>

lemma bind_cases:
  assumes "queue_wf q" "bind_projection_to_queue Q q m p = Inr b" "b \<noteq> p \<or> idle_route p"
  shows "\<exists>sel. b = bound_to q p sel \<and> oget p ''active_transaction'' = JNull
    \<and> (case sel of None \<Rightarrow> select_next Q q m = Inr None | Some i \<Rightarrow> selectable Q q m i)"
proof -
  from assms(2,3) obtain sel where "b = bound_to q p (map_option sl_feature_id sel)" "oget p ''active_transaction'' = JNull"
    and sel: "select_next Q q m = Inr sel \<or> (\<exists>i s. select_exact Q q m i = Inr s \<and> sel = Some s)"
    by (auto simp: bind_projection_to_queue_def idle_route_def Let_def simp del: rbind_eq_Inr elim!: rbind_InrE split: if_split_asm)
  moreover have "case map_option sl_feature_id sel of None \<Rightarrow> select_next Q q m = Inr None | Some i \<Rightarrow> selectable Q q m i"
    using sel select_next_selectable [OF assms(1)] select_exact_selectable [OF assms(1)]
    by (cases sel) auto
  ultimately show ?thesis by blast
qed

lemma bind_bound:
  assumes "queue_wf q" "oget p ''active_transaction'' = JNull"
    and "case sel of None \<Rightarrow> select_next Q q m = Inr None | Some i \<Rightarrow> selectable Q q m i"
  shows "bind_projection_to_queue Q q m (bound_to q p sel) = Inr (bound_to q p sel)"
proof -
  let ?b = "bound_to q p sel"
  have idle: "oget ?b ''active_transaction'' = JNull"
    using assms(2) by (cases sel) (simp_all add: oget_def bound_fields cleared_fields_def nothing_selected_def feature_selected_def)
  show ?thesis
  proof (cases sel)
    case None
    then have "oget ?b ''allowed_next_action'' = JStr ''queue_reconciliation''" "candidate_of ?b = JNull"
      by (simp_all add: oget_def bound_fields nothing_selected_def candidate_of_def jor_def)
    then show ?thesis
      using idle assms(3) None bound_again [of q p sel] by (simp add: bind_projection_to_queue_def)
  next
    case (Some i)
    then have b: "oget ?b ''allowed_next_action'' = JStr ''feature_cycle''" "candidate_of ?b = JStr i"
      by (simp_all add: oget_def bound_fields feature_selected_def candidate_of_def jor_def)
    from assms(3) Some have "selectable Q q m i" by simp
    from selectable_exact [OF assms(1) this] obtain s where "select_exact Q q m i = Inr s" "sl_feature_id s = i" by blast
    moreover have "i \<noteq> []" using assms(1,3) Some selectable_nonempty by auto
    ultimately show ?thesis
      using idle b Some bound_again [of q p sel] by (simp add: bind_projection_to_queue_def)
  qed
qed

text \<open>
  Binding settles. A projection bound to a queue that could be made is a fixed point: binding it
  again selects the same feature, or none, and changes nothing, its fingerprint included.
\<close>

theorem bind_idempotent:
  "case make_queue Q document path root of
     Inl _ \<Rightarrow> True
   | Inr q \<Rightarrow> (case bind_projection_to_queue Q q m p of
         Inl _ \<Rightarrow> True
       | Inr b \<Rightarrow> bind_projection_to_queue Q q m b = Inr b)"
proof (cases "make_queue Q document path root")
  case (Inr q)
  with make_queue_wf [of Q document path root] have q: "queue_wf q" by simp
  show ?thesis
  proof (cases "bind_projection_to_queue Q q m p")
    case b: (Inr b)
    show ?thesis
    proof (cases "b = p")
      case False
      from bind_cases [OF q b] False bind_bound [OF q] show ?thesis using Inr b by auto
    qed (use Inr b in simp)
  qed (use Inr in simp)
qed simp

subsection \<open>Plans of bound projections\<close>

text \<open>The transactions of the projection have identities; the milestone is named by its own identity.\<close>

definition identified :: "obj \<Rightarrow> bool" where
  "identified p \<longleftrightarrow>
     (case listed p ''transactions'' of Inl _ \<Rightarrow> False | Inr txs \<Rightarrow> list_all (\<lambda>d. oget d ''transaction_id'' \<noteq> JNull) txs)"

definition canonical :: "feature_queue \<Rightarrow> string \<Rightarrow> bool" where
  "canonical q m \<longleftrightarrow>
     (case milestone_in (fq_milestones q) m of None \<Rightarrow> False | Some d \<Rightarrow> oget d ''id'' = JStr m)"

lemma plan_workflow_value: "ep_workflow_type e = workflow_value w \<Longrightarrow> plan_workflow e = Some w"
  by (simp add: plan_workflow_def)

lemma bound_plan:
  assumes "identified p" "oget p ''active_transaction'' = JNull" "from_projection (bound_to q p sel) a = Inr e"
  shows "ep_accepted_commit e = JNull
    \<and> (case sel of None \<Rightarrow> plan_workflow e = Some QUEUE_RECONCILIATION
        | Some i \<Rightarrow> plan_workflow e = Some FEATURE_EXECUTION \<and> ep_feature_id e = JStr i)"
proof -
  let ?b = "bound_to q p sel"
  have t: "listed ?b ''transactions'' = listed p ''transactions''"
    by (cases sel) (simp_all add: listed_def oget_or_def bound_fields cleared_fields_def nothing_selected_def feature_selected_def)
  have active: "oget ?b ''active_transaction'' = JNull"
    using assms(2) by (cases sel) (simp_all add: oget_def bound_fields cleared_fields_def nothing_selected_def feature_selected_def)
  obtain txs where txs: "listed p ''transactions'' = Inr txs" "list_all (\<lambda>d. oget d ''transaction_id'' \<noteq> JNull) txs"
    using assms(1) by (auto simp: identified_def split: sum.splits)
  then have none: "List.find (\<lambda>d. py_eq (oget d ''transaction_id'') JNull) txs = None"
    by (auto simp: find_None_iff list_all_iff)
  from assms(3) obtain r i where r: "route_of (action_of ?b) None = Inr r"
    and i: "execution_identity ?b (Some (route_value r)) (of_opt (pi_milestone_branch a)) = Inr i"
    and e: "ep_feature_id e = id_feature i" "ep_accepted_commit e = id_accepted_commit i" "ep_workflow_type e = route_value r"
    unfolding from_projection_def Let_def t txs(1) active none rbind_eq_Inr rbind_Inr
      sum.inject
    by (elim exE conjE) (rule that, assumption, assumption, auto)
  have b: "oget ?b ''current_state'' \<noteq> JStr ''human_decision_required''" "oget ?b ''accepted_feature_commit'' = JNull"
    "action_of ?b = (case sel of None \<Rightarrow> ''queue_reconciliation'' | Some _ \<Rightarrow> ''feature_cycle'')"
    "jor (oget ?b ''current_feature'') (oget ?b ''selected_next_feature'') = (case sel of None \<Rightarrow> JNull | Some j \<Rightarrow> JStr j)"
    by (cases sel; simp add: oget_def bound_fields cleared_fields_def nothing_selected_def feature_selected_def action_of_def jor_def)+
  then have "gate_identity_of ?b w = []" for w by (simp add: gate_identity_of_def gate_authoritative_def)
  then have "id_accepted_commit i = JNull" "id_feature i = (case sel of None \<Rightarrow> JNull | Some j \<Rightarrow> JStr j)"
    using i b by (auto simp: execution_identity_def jor_def)
  moreover have "r = Phase (case sel of None \<Rightarrow> QUEUE_RECONCILIATION | Some _ \<Rightarrow> FEATURE_EXECUTION)"
    using r b by (cases sel) (simp_all add: route_of_def ACTION_WORKFLOW_def)
  ultimately show ?thesis
    using e plan_workflow_value [of e] by (cases sel) simp_all
qed

lemma checks_of_reconciliation:
  assumes "plan_workflow e = Some QUEUE_RECONCILIATION" "oget b ''allowed_next_action'' \<noteq> JStr ''feature_cycle''"
    and "integrated_feature_execution_checks Q q m b e = Inr cs"
  shows "list_all snd cs"
  using assms by (auto simp: integrated_feature_execution_checks_def)

lemma checks_of_feature:
  assumes q: "queue_wf q" "canonical q m" and i: "selectable Q q m i"
    and e: "plan_workflow e = Some FEATURE_EXECUTION" "ep_feature_id e = JStr i" "ep_accepted_commit e = JNull"
    and b: "candidate_of b = JStr i" and cs: "integrated_feature_execution_checks Q q m b e = Inr cs"
  shows "list_all snd cs"
proof -
  obtain f where f: "feature_in q (JStr i) = Some f" "oget f ''id'' = JStr i" "eligible Q q f"
    "f \<in> set (features_for_milestone q m)"
    using i by (auto simp: selectable_def)
  have again: "\<not> list_ex (py_eq (JStr i)) (map (\<lambda>f. JStr (py_str (oget f ''id''))) (filter is_integrated (features_for_milestone q m)))"
  proof
    assume "list_ex (py_eq (JStr i)) (map (\<lambda>f. JStr (py_str (oget f ''id''))) (filter is_integrated (features_for_milestone q m)))"
    then obtain g where g: "g \<in> set (features_for_milestone q m)" "is_integrated g" "py_str (oget g ''id'') = i"
      by (auto simp: list_ex_iff)
    then have "oget g ''id'' = JStr i" using queue_wf_id [OF q(1) in_milestone [OF g(1)]] by auto
    from feature_in_mem [OF q(1) in_milestone [OF g(1)] this] f(1) have "g = f" by simp
    with g(2) f(3) show False by (auto simp: is_integrated_def eligible_def item_status_def)
  qed
  obtain d where d: "milestone_in (fq_milestones q) m = Some d" "oget d ''id'' = JStr m"
    using q(2) by (auto simp: canonical_def split: option.splits)
  then have m: "oget f ''milestone'' = JStr m" using f(4) by (simp add: features_for_milestone_def)
  have "oget f ''status'' = JStr (item_status f)" using queue_wf_id [OF q(1) in_milestone [OF f(4)]] by simp
  then have ready: "feature_readiness Q q f = Inr \<lparr>rd_ready = True, rd_dependencies_complete = True, rd_blocked_reason = None\<rparr>"
    using readiness_eligible f(3) by blast
  have offered: "truthy (oget summary ''ready_features'')" if "queue_summary Q q m = Inr summary" for summary
  proof -
    from that d obtain rs where rs: "ready Q q m = Inr rs" and s: "oget summary ''ready_features'' = ids rs"
      by (auto simp: queue_summary_def Let_def)
    have "f \<in> set rs" using ready_Inr [OF rs] f(3,4) by simp
    then show ?thesis using s by (auto simp: ids_def)
  qed
  show ?thesis
    using cs offered again e b f(1) m ready
    by (auto simp: integrated_feature_execution_checks_def in_set_def hashable_def historical_commits_def list_ex_iff Let_def
        split: if_split_asm)
qed

text \<open>
  Claim C26. What binding selects can be executed. Let a queue be made, a milestone be named by its own
  identity, the transactions of the projection have identities, and bind the projection. If it is then idle
  and routes to the queue or to a feature, a plan made from it passes every check against the queue: its
  feature is not integrated, the queue offers ready work, the selection is ready, and no accepted commit
  is used again.
\<close>

theorem bound_plan_executable:
  assumes "make_queue Q document path root = Inr q" "canonical q m" "identified p"
    and "bind_projection_to_queue Q q m p = Inr b" "idle_route b"
  shows "case from_projection b a of
      Inl _ \<Rightarrow> True
    | Inr e \<Rightarrow> (case integrated_feature_execution_checks Q q m b e of
          Inl _ \<Rightarrow> True
        | Inr checks \<Rightarrow> list_all snd checks)"
proof -
  have q: "queue_wf q" using make_queue_wf [of Q document path root] assms(1) by simp
  obtain sel where b: "b = bound_to q p sel" and idle: "oget p ''active_transaction'' = JNull"
    and sel: "case sel of None \<Rightarrow> select_next Q q m = Inr None | Some i \<Rightarrow> selectable Q q m i"
    using bind_cases [OF q assms(4)] assms(5) by blast
  have "list_all snd checks"
    if e: "from_projection b a = Inr e" and cs: "integrated_feature_execution_checks Q q m b e = Inr checks" for e checks
  proof (cases sel)
    case None
    then show ?thesis
      using bound_plan [OF assms(3) idle e [unfolded b]] checks_of_reconciliation [OF _ _ cs] b
      by (simp add: oget_def bound_fields nothing_selected_def)
  next
    case (Some i)
    have "candidate_of b = JStr i"
      unfolding b Some by (simp add: candidate_of_def oget_def bound_fields feature_selected_def jor_def)
    with Some sel bound_plan [OF assms(3) idle e [unfolded b]] show ?thesis
      using checks_of_feature [OF q assms(2) _ _ _ _ _ cs] by simp
  qed
  then show ?thesis by (auto split: sum.split)
qed

definition sample_qenv :: qenv where
  "sample_qenv = \<lparr>qe_home = ''/home'', qe_expand = (\<lambda>s. s), qe_resolve = (\<lambda>s. s), qe_exists = (\<lambda>_. True), qe_is_file = (\<lambda>_. True)\<rparr>"

definition sample_document :: obj where
  "sample_document =
    [(''milestones'', JArr [JObj [(''id'', JStr ''m1'')]]),
     (''features'', JArr [JObj [(''id'', JStr ''f1''), (''title'', JStr ''First''), (''status'', JStr ''ready''),
        (''milestone'', JStr ''m1''), (''spec'', JStr ''docs/f1.md''),
        (''acceptance_criteria'', JArr [JStr ''works''])]])]"

definition sample_idle :: obj where
  "sample_idle = [(''allowed_next_action'', JStr ''queue_reconciliation''), (''transactions'', JArr [])]"

definition sample_inputs :: plan_inputs where
  "sample_inputs = \<lparr>pi_starting_commit = None, pi_feature_branch = None, pi_milestone_branch = Some ''m'',
     pi_accepted_tree = None, pi_feature_worktree = None, pi_integration_worktree = None,
     pi_acceptance_transaction = None\<rparr>"

lemma sample_queue:
  "\<exists>q. make_queue sample_qenv sample_document None None = Inr q \<and> canonical q ''m1''
     \<and> (\<exists>s. select_next sample_qenv q ''m1'' = Inr (Some s) \<and> sl_feature_id s = ''f1'')"
proof -
  define q where "q = (case make_queue sample_qenv sample_document None None of Inr q \<Rightarrow> q)"
  have "\<not> isl (make_queue sample_qenv sample_document None None)" by code_simp
  then have "make_queue sample_qenv sample_document None None = Inr q"
    by (auto simp: q_def isl_def split: sum.split)
  moreover have "canonical q ''m1''" unfolding q_def by code_simp
  moreover have "case select_next sample_qenv q ''m1'' of Inr (Some s) \<Rightarrow> sl_feature_id s = ''f1'' | _ \<Rightarrow> False"
    unfolding q_def by code_simp
  then have "\<exists>s. select_next sample_qenv q ''m1'' = Inr (Some s) \<and> sl_feature_id s = ''f1''"
    by (auto split: sum.splits option.splits)
  ultimately show ?thesis by blast
qed

theorem bound_plan_executable_witness:
  "\<exists>q b. make_queue sample_qenv sample_document None None = Inr q \<and> canonical q ''m1'' \<and> identified sample_idle
     \<and> bind_projection_to_queue sample_qenv q ''m1'' sample_idle = Inr b \<and> idle_route b \<and> candidate_of b = JStr ''f1''
     \<and> (case from_projection b sample_inputs of Inl _ \<Rightarrow> True
        | Inr e \<Rightarrow> (case integrated_feature_execution_checks sample_qenv q ''m1'' b e of
              Inl _ \<Rightarrow> True | Inr checks \<Rightarrow> list_all snd checks))"
proof -
  obtain q s where q: "make_queue sample_qenv sample_document None None = Inr q" "canonical q ''m1''"
    and s: "select_next sample_qenv q ''m1'' = Inr (Some s)" "sl_feature_id s = ''f1''"
    using sample_queue by blast
  let ?b = "bound_to q sample_idle (Some ''f1'')"
  have p: "identified sample_idle" by (simp add: identified_def listed_def sample_idle_def oget_or_def dicts_def)
  have b: "bind_projection_to_queue sample_qenv q ''m1'' sample_idle = Inr ?b"
    using s by (simp add: bind_projection_to_queue_def sample_idle_def candidate_of_def jor_def)
  have "idle_route ?b" "candidate_of ?b = JStr ''f1''"
    by (simp_all add: idle_route_def candidate_of_def jor_def oget_def bound_fields feature_selected_def cleared_fields_def sample_idle_def)
  with bound_plan_executable [OF q p b, of sample_inputs] q p b show ?thesis by blast
qed

end
