(* ===== verification/Json_Ascii.thy ===== *)
theory Json_Ascii
  imports Json_Parse
begin

section \<open>Reading back ASCII documents\<close>

text \<open>
  \<^verbatim>\<open>json.dumps\<close> with its defaults escapes every character outside printable ASCII. Such characters occur
  in string literals only, where an escape reads as the character it stands for: what the parser finds in
  a text it finds in the escaped text (\<open>parse_value_ascii\<close>), so a document written this way is read back
  (\<open>loads_dumps_ascii\<close>). The files a controller keeps of its own are written like this.
\<close>

text \<open>\<^verbatim>\<open>json.dumps(v, sort_keys=True)\<close>, with its default separators\<close>

fun dumps_wide :: "json \<Rightarrow> string" where
  "dumps_wide (JArr xs) = ''['' @ join '', '' (map dumps_wide xs) @ '']''"
| "dumps_wide (JObj kvs) =
     ''{'' @ join '', '' (map snd (sort_key fst
        (map (\<lambda>kv. (fst kv, dumps_str (fst kv) @ '': '' @ dumps_wide (snd kv))) kvs))) @ ''}''"
| "dumps_wide v = dumps v"

definition dumps_default :: "json \<Rightarrow> string" where
  "dumps_default v = concat (map escape_ascii (dumps_wide v))"

definition asc :: "string \<Rightarrow> string" where
  "asc s = concat (map escape_ascii s)"

lemma asc_Nil [simp]: "asc [] = []"
  by (simp add: asc_def)

lemma asc_append [simp]: "asc (s @ t) = asc s @ asc t"
  by (simp add: asc_def)

lemma asc_Cons: "asc (c # s) = escape_ascii c @ asc s"
  by (simp add: asc_def)

lemma dumps_ascii_asc: "dumps_ascii v = asc (dumps v)"
  by (simp add: dumps_ascii_def asc_def)

text \<open>The characters that stay as they are\<close>

definition plain_ascii :: "char \<Rightarrow> bool" where
  "plain_ascii c \<longleftrightarrow> (of_char c :: nat) < 127"

lemma escape_plain: "plain_ascii c \<Longrightarrow> escape_ascii c = [c]"
  by (simp add: plain_ascii_def escape_ascii_def)

lemma asc_plain_Cons [simp]: "plain_ascii c \<Longrightarrow> asc (c # s) = c # asc s"
  by (simp add: asc_Cons escape_plain)

lemma escape_other: "\<not> plain_ascii c \<Longrightarrow> \<exists>r. escape_ascii c = CHR 92 # r"
  by (simp add: plain_ascii_def escape_ascii_def Let_def)

lemma asc_other: "\<not> plain_ascii c \<Longrightarrow> \<exists>r. asc (c # s) = CHR 92 # r"
  using escape_other [of c] by (auto simp: asc_Cons)

lemma asc_eq_Nil [simp]: "asc s = [] \<longleftrightarrow> s = []"
proof (cases s)
  case (Cons c r)
  then show ?thesis using asc_other [of c r] by (cases "plain_ascii c") auto
qed simp

lemma plain_digit: "is_digit c \<Longrightarrow> plain_ascii c"
  by (auto simp: is_digit_def plain_ascii_def)

lemma plain_ws: "json_ws c \<Longrightarrow> plain_ascii c"
  by (auto simp: json_ws_def plain_ascii_def)

lemma plain_hex: "hex_val c = Some n \<Longrightarrow> plain_ascii c"
  by (auto simp: hex_val_def Let_def is_digit_def plain_ascii_def split: if_splits)

lemma plain_hex_ex: "hex_val c \<noteq> None \<Longrightarrow> plain_ascii c"
  using plain_hex by auto

lemma plain_marks [simp]:
  "plain_ascii (CHR 92)" "plain_ascii (CHR 34)" "plain_ascii (CHR ''u'')" "plain_ascii (CHR ''{'')"
  "plain_ascii (CHR ''}'')" "plain_ascii (CHR ''['')" "plain_ascii (CHR '']'')" "plain_ascii (CHR '','')"
  "plain_ascii (CHR '':'')" "plain_ascii (CHR ''0'')" "plain_ascii (CHR ''.'')" "plain_ascii (CHR ''e'')"
  "plain_ascii (CHR ''E'')" "plain_ascii (CHR ''+'')" "plain_ascii (CHR ''-'')"
  by (simp_all add: plain_ascii_def)

lemma plain_unescape: "unescape c = Some d \<Longrightarrow> plain_ascii c"
  by (auto simp: unescape_def plain_ascii_def split: if_splits)

text \<open>A scanner that skips characters which are all plain sees the same ones.\<close>

lemma dropWhile_asc:
  assumes "\<And>c. P c \<Longrightarrow> plain_ascii c" "\<not> P (CHR 92)"
  shows "dropWhile P (asc s) = asc (dropWhile P s)"
proof (induction s)
  case (Cons c s)
  then show ?case using assms asc_other [of c s] by (cases "plain_ascii c") auto
qed simp

lemma takeWhile_asc:
  assumes "\<And>c. P c \<Longrightarrow> plain_ascii c" "\<not> P (CHR 92)"
  shows "takeWhile P (asc s) = takeWhile P s"
proof (induction s)
  case (Cons c s)
  then show ?case using assms asc_other [of c s] by (cases "plain_ascii c") auto
qed simp

lemma skip_ws_asc [simp]: "skip_ws (asc s) = asc (skip_ws s)"
  unfolding skip_ws_def by (rule dropWhile_asc) (auto simp: plain_ws json_ws_def)

lemma scan_digits_asc: "scan_digits (asc s) = map_option (\<lambda>(d, r). (d, asc r)) (scan_digits s)"
  using takeWhile_asc [of is_digit s] dropWhile_asc [of is_digit s] plain_digit
  by (simp add: scan_digits_def Let_def) (simp add: is_digit_def)

text \<open>A text either starts with a plain character or its escaped form starts with a backslash.\<close>

lemma asc_cases:
  obtains (empty) "s = []" | (plain) c r where "s = c # r" "plain_ascii c" "asc s = c # asc r"
    | (other) c r t where "s = c # r" "\<not> plain_ascii c" "asc s = CHR 92 # t"
proof (cases s)
  case (Cons c r)
  then show ?thesis using plain [of c r] other [of c r] asc_other [of c r] by (cases "plain_ascii c") auto
qed (rule empty)

subsection \<open>Strings\<close>

lemma hex4_asc: "hex4 s = Some (n, r) \<Longrightarrow> hex4 (asc s) = Some (n, asc r)"
  by (induction s rule: hex4.induct) (auto split: option.splits simp: plain_hex_ex simp del: asc_eq_Nil)

lemma scan_string_other:
  assumes "\<not> plain_ascii c"
  shows "scan_string (escape_ascii c @ s) = map_option (\<lambda>(t, q). (c # t, q)) (scan_string s)"
proof -
  let ?n = "of_char c :: nat"
  define k m where "k = ?n div 16" and "m = ?n mod 16"
  have km: "k < 16" "m < 16" "k * 16 + m = ?n"
    unfolding k_def m_def by (simp_all add: less_mult_imp_div_less)
  have "hex_val (CHR ''0'') = Some 0" by (simp add: hex_val_def)
  moreover have "escape_ascii c = [CHR 92, CHR ''u'', CHR ''0'', CHR ''0'', hex_digit k, hex_digit m]"
    using assms by (simp add: plain_ascii_def escape_ascii_def Let_def k_def m_def)
  ultimately show ?thesis
    using km by (simp add: scan_string.simps [of "CHR 92 # _"])
qed

lemma scan_string_asc: "scan_string s = Some (t, r) \<Longrightarrow> scan_string (asc s) = Some (t, asc r)"
proof (induction s arbitrary: t r rule: scan_string.induct)
  case (1 s)
  show ?case
  proof (cases s)
    case Nil
    then show ?thesis using "1.prems" by (simp add: scan_string.simps [of "[]"])
  next
    case (Cons c s')
    consider (quote) "c = CHR 34" | (escape) "c = CHR 92" | (char) "c \<noteq> CHR 34" "c \<noteq> CHR 92" by blast
    then show ?thesis
    proof cases
      case quote
      then show ?thesis
        using "1.prems" by (auto simp: Cons scan_string.simps [of "CHR 34 # _"])
    next
      case escape
      then obtain d u where u: "s' = d # u"
        using "1.prems" by (cases s') (auto simp: Cons scan_string.simps [of "CHR 92 # _"])
      show ?thesis
      proof (cases "d = CHR ''u''")
        case True
        then obtain n v t' where "hex4 u = Some (n, v)" "n < 256" "scan_string v = Some (t', r)" "t = char_of n # t'"
          using "1.prems"
          by (auto simp: Cons escape u scan_string.simps [of "CHR 92 # _"] split: option.split_asm if_split_asm)
        moreover from this have "scan_string (asc v) = Some (t', asc r)"
          using "1.IH"(1) [OF Cons] by (simp add: escape u True)
        ultimately show ?thesis
          by (simp add: Cons escape u True scan_string.simps [of "CHR 92 # _"] hex4_asc)
      next
        case False
        then obtain x t' where x: "unescape d = Some x" "scan_string u = Some (t', r)" "t = x # t'"
          using "1.prems"
          by (auto simp: Cons escape u scan_string.simps [of "CHR 92 # _"] split: option.split_asm)
        moreover from x have "scan_string (asc u) = Some (t', asc r)"
          using "1.IH"(2) [OF Cons] by (simp add: escape u False)
        ultimately show ?thesis
          using False plain_unescape [OF x(1)]
          by (simp add: Cons escape u scan_string.simps [of "CHR 92 # _"])
      qed
    next
      case char
      then obtain t' where t: "scan_string s' = Some (t', r)" "t = c # t'" "\<not> (of_char c :: nat) < 32"
        using "1.prems" by (auto simp: Cons scan_string.simps [of "c # _"] split: if_split_asm)
      then have ih: "scan_string (asc s') = Some (t', asc r)"
        using "1.IH"(3) [OF Cons] char by simp
      show ?thesis
      proof (cases "plain_ascii c")
        case True
        then show ?thesis using char t ih by (simp add: Cons scan_string.simps [of "c # _"])
      next
        case False
        then show ?thesis using ih t(2) by (simp add: Cons asc_Cons scan_string_other)
      qed
    qed
  qed
qed

subsection \<open>Numbers\<close>

lemma scan_int_asc: "scan_int (asc s) = map_option (\<lambda>(d, r). (d, asc r)) (scan_int s)"
proof (cases s rule: asc_cases)
  case (plain c r)
  then show ?thesis using scan_digits_asc [of s] by (auto simp: scan_int_def)
next
  case (other c r t)
  then show ?thesis using scan_digits_asc [of s] by (auto simp: scan_int_def)
qed (simp add: scan_int_def)

lemma scan_fraction_asc: "scan_fraction (asc s) = apsnd asc (scan_fraction s)"
proof (cases s rule: asc_cases)
  case (plain c r)
  then show ?thesis by (auto simp: scan_fraction_def scan_digits_asc split: option.splits)
next
  case (other c r t)
  then show ?thesis by (auto simp: scan_fraction_def)
qed (simp add: scan_fraction_def)

lemma scan_exponent_asc: "scan_exponent (asc s) = apsnd asc (scan_exponent s)"
proof (cases s rule: asc_cases)
  case (plain c r)
  show ?thesis
  proof (cases r rule: asc_cases)
    case (plain d q)
    then show ?thesis using \<open>s = c # r\<close> \<open>plain_ascii c\<close> scan_digits_asc [of r] scan_digits_asc [of q]
      by (auto simp: scan_exponent_def split: option.splits)
  next
    case (other d q t)
    then show ?thesis using \<open>s = c # r\<close> \<open>plain_ascii c\<close> scan_digits_asc [of r]
      by (auto simp: scan_exponent_def split: option.splits)
  qed (use plain in \<open>simp add: scan_exponent_def\<close>)
next
  case (other c r t)
  then show ?thesis by (auto simp: scan_exponent_def)
qed (simp add: scan_exponent_def)

lemma scan_unsigned_asc: "scan_unsigned (asc s) = map_option (\<lambda>(l, f, r). (l, f, asc r)) (scan_unsigned s)"
  by (auto simp: scan_unsigned_def scan_int_asc scan_fraction_asc scan_exponent_asc split: option.splits prod.splits)

lemma scan_number_asc: "scan_number (asc s) = map_option (\<lambda>(l, f, r). (l, f, asc r)) (scan_number s)"
proof (cases s rule: asc_cases)
  case (plain c r)
  then show ?thesis using scan_unsigned_asc [of s]
    by (auto simp: scan_number_def scan_unsigned_asc option.map_comp comp_def split_def)
next
  case (other c r t)
  then show ?thesis using scan_unsigned_asc [of s] by (auto simp: scan_number_def)
qed (simp add: scan_number_def)

lemma read_number_asc: "read_number fr s = Some (v, r) \<Longrightarrow> read_number fr (asc s) = Some (v, asc r)"
  by (auto simp: read_number_def scan_number_asc prefix_def asc_Cons escape_ascii_def split: option.split_asm if_split_asm)

subsection \<open>Values\<close>

lemma asc_word: "list_all (\<lambda>c. plain_ascii c \<and> c \<noteq> CHR 92) w \<Longrightarrow> asc w = w"
  by (induction w) simp_all

lemma prefix_asc: "prefix w s \<Longrightarrow> list_all (\<lambda>c. plain_ascii c \<and> c \<noteq> CHR 92) w \<Longrightarrow> prefix w (asc s) \<and> drop (length w) (asc s) = asc (drop (length w) s)"
  by (auto simp: prefix_def asc_word)

text \<open>The branch on the first character after an opening bracket\<close>

lemma asc_open:
  assumes "(if d = c then Some (x, q) else map_option f (p (d # q))) = Some (v, r)" "plain_ascii c" "c \<noteq> CHR 92"
    and "\<And>y r. d \<noteq> c \<Longrightarrow> p (d # q) = Some (y, r) \<Longrightarrow> p (asc (d # q)) = Some (y, asc r)"
    and "\<And>y r. f (y, asc r) = apsnd asc (f (y, r))"
  shows "(case asc (d # q) of [] \<Rightarrow> None | d # q \<Rightarrow> if d = c then Some (x, q) else map_option f (p (d # q))) = Some (v, asc r)"
proof (cases "d = c")
  case True
  then show ?thesis using assms(1,2) by simp
next
  case False
  then obtain y u where u: "p (d # q) = Some (y, u)" "f (y, u) = (v, r)" using assms(1) by auto
  then have "p (asc (d # q)) = Some (y, asc u)" "f (y, asc u) = (v, asc r)"
    using assms(4) [OF False] assms(5) by simp_all
  moreover obtain d' q' where "asc (d # q) = d' # q'" "d' \<noteq> c"
    using False assms(2,3) asc_other [of d q] by (cases "plain_ascii d") auto
  ultimately show ?thesis by simp
qed

lemma prefix_asc_iff:
  "list_all (\<lambda>c. plain_ascii c \<and> c \<noteq> CHR 92) w \<Longrightarrow> prefix w (asc s) \<longleftrightarrow> prefix w s"
proof (induction w arbitrary: s)
  case (Cons c w)
  show ?case
  proof (cases s rule: asc_cases)
    case (plain d r)
    then show ?thesis using Cons by simp
  next
    case (other d r t)
    then show ?thesis using Cons.prems by auto
  qed simp
qed simp

lemma parse_value_number:
  "s = c # r \<Longrightarrow> c \<notin> {CHR 34, CHR ''{'', CHR ''['', CHR ''n'', CHR ''t'', CHR ''f''} \<Longrightarrow>
     parse_value fr (Suc n) s = read_number fr s"
  by auto

lemma parse_value_word:
  "s = c # r \<Longrightarrow> c \<notin> {CHR 34, CHR ''{'', CHR ''[''} \<Longrightarrow>
     parse_value fr (Suc n) s =
       (if prefix ''null'' s then Some (JNull, drop 4 s)
        else if prefix ''true'' s then Some (JBool True, drop 4 s)
        else if prefix ''false'' s then Some (JBool False, drop 5 s)
        else read_number fr s)"
  by simp

lemma json_words:
  "list_all (\<lambda>c. plain_ascii c \<and> c \<noteq> CHR 92) ''null''" "list_all (\<lambda>c. plain_ascii c \<and> c \<noteq> CHR 92) ''true''"
  "list_all (\<lambda>c. plain_ascii c \<and> c \<noteq> CHR 92) ''false''"
  by (simp_all add: plain_ascii_def)

lemma drop_words:
  "prefix ''null'' s \<Longrightarrow> drop 4 (asc s) = asc (drop 4 s)"
  "prefix ''true'' s \<Longrightarrow> drop 4 (asc s) = asc (drop 4 s)"
  "prefix ''false'' s \<Longrightarrow> drop 5 (asc s) = asc (drop 5 s)"
  using json_words [THEN prefix_asc [rotated], of s] by (simp_all add: eval_nat_numeral)

lemma words_asc:
  assumes "(if prefix ''null'' s then Some (JNull, drop 4 s) else if prefix ''true'' s then Some (JBool True, drop 4 s)
      else if prefix ''false'' s then Some (JBool False, drop 5 s) else read_number fr s) = Some (v, r)"
  shows "(if prefix ''null'' (asc s) then Some (JNull, drop 4 (asc s))
      else if prefix ''true'' (asc s) then Some (JBool True, drop 4 (asc s))
      else if prefix ''false'' (asc s) then Some (JBool False, drop 5 (asc s)) else read_number fr (asc s)) = Some (v, asc r)"
  using assms read_number_asc [of fr s v r] unfolding json_words [THEN prefix_asc_iff, of s]
  by (auto simp: drop_words split: if_split_asm)

lemma parse_value_ascii:
  "parse_value fr n s = Some (v, r) \<Longrightarrow> parse_value fr n (asc s) = Some (v, asc r)"
  "parse_elems fr n s = Some (vs, r) \<Longrightarrow> parse_elems fr n (asc s) = Some (vs, asc r)"
  "parse_members fr n s = Some (kvs, r) \<Longrightarrow> parse_members fr n (asc s) = Some (kvs, asc r)"
proof (induction fr n s and fr n s and fr n s arbitrary: v r and vs r and kvs r
    rule: parse_value_parse_elems_parse_members.induct)
  case (2 fr n s)
  show ?case
  proof (cases s rule: asc_cases)
    case empty
    then show ?thesis using "2.prems" by simp
  next
    case (other c u t)
    moreover from this have "c \<notin> {CHR 34, CHR ''{'', CHR ''['', CHR ''n'', CHR ''t'', CHR ''f''}"
      by (auto simp: plain_ascii_def)
    ultimately show ?thesis
      using "2.prems" read_number_asc [of fr s v r] parse_value_number [of s c u fr n]
        parse_value_number [of "asc s" "CHR 92" t fr n] by simp
  next
    case (plain c u)
    consider (str) "c = CHR 34" | (obj) "c = CHR ''{''" | (arr) "c = CHR ''[''"
      | (word) "c \<noteq> CHR 34" "c \<noteq> CHR ''{''" "c \<noteq> CHR ''[''" by blast
    then show ?thesis
    proof cases
      case str
      then show ?thesis using "2.prems" plain by (auto simp: scan_string_asc)
    next
      case obj
      then obtain d q where "skip_ws u = d # q" using "2.prems" plain by (auto split: list.split_asm)
      then show ?thesis
        using "2.prems" plain obj "2.IH"(1) [OF plain(1) _ obj] asc_open [of d "CHR ''}''" "JObj []" q
            "\<lambda>(kvs, q). (JObj (oupdate [] kvs), q)" "parse_members fr n" v r] by simp
    next
      case arr
      then obtain d q where "skip_ws u = d # q" using "2.prems" plain by (auto split: list.split_asm)
      then show ?thesis
        using "2.prems" plain arr "2.IH"(2) [OF plain(1) _ _ arr] asc_open [of d "CHR '']''" "JArr []" q
            "\<lambda>(vs, q). (JArr vs, q)" "parse_elems fr n" v r] by simp
    next
      case word
      then have w: "c \<notin> {CHR 34, CHR ''{'', CHR ''[''}" by simp
      show ?thesis
        unfolding parse_value_word [OF plain(3) w]
        by (rule words_asc) (use "2.prems" in \<open>unfold parse_value_word [OF plain(1) w]\<close>)
    qed
  qed
next
  case (4 fr n s)
  then obtain v r1 where v: "parse_value fr n s = Some (v, r1)" by (auto split: option.split_asm)
  then obtain c q where c: "skip_ws r1 = c # q" "c = CHR '']'' \<or> c = CHR '',''"
    using "4.prems" by (auto split: list.split_asm if_split_asm)
  show ?case
  proof (cases "c = CHR '']''")
    case True
    then show ?thesis using "4.prems" "4.IH"(1) [OF v] v c(1) by simp
  next
    case False
    then obtain ws p where "parse_elems fr n (skip_ws q) = Some (ws, r)" "vs = v # ws"
      using "4.prems" v c by auto
    then show ?thesis using "4.IH"(1) [OF v] "4.IH"(2) [OF v _ c(1)] v c False by simp
  qed
next
  case (6 fr n s)
  then obtain u k r1 where s: "s = CHR 34 # u" "scan_string u = Some (k, r1)"
    by (auto split: list.split_asm if_split_asm option.split_asm)
  then obtain r2 where r2: "skip_ws r1 = CHR '':'' # r2"
    using "6.prems" by (auto split: list.split_asm if_split_asm)
  then obtain v r3 where v: "parse_value fr n (skip_ws r2) = Some (v, r3)"
    using "6.prems" s by (auto split: option.split_asm)
  then obtain x q where x: "skip_ws r3 = x # q" "x = CHR ''}'' \<or> x = CHR '',''"
    using "6.prems" s r2 by (auto split: list.split_asm if_split_asm)
  have val: "parse_value fr n (skip_ws (asc r2)) = Some (v, asc r3)"
    using "6.IH"(1) [OF s(1) _ s(2) _ r2] v by simp
  show ?case
  proof (cases "x = CHR ''}''")
    case True
    then show ?thesis using "6.prems" val v s r2 x(1) scan_string_asc [OF s(2)] by simp
  next
    case False
    then obtain ws where "parse_members fr n (skip_ws q) = Some (ws, r)" "kvs = (k, v) # ws"
      using "6.prems" s r2 v x by auto
    then show ?thesis
      using "6.IH"(2) [OF s(1) _ s(2) _ r2 _ v _ x(1)] val s r2 x False scan_string_asc [OF s(2)] by simp
  qed
qed simp_all

theorem loads_dumps_ascii:
  assumes "json_wf v" "floats_ok fr v"
  shows "json_loads fr (dumps_ascii v @ [CHR 0x0A]) = Some (canon v)"
proof -
  have "length (dumps v) \<le> length (asc (dumps v))"
  proof -
    have "length s \<le> length (asc s)" for s
      by (induction s) (auto simp: asc_Cons escape_ascii_def Let_def)
    then show ?thesis .
  qed
  then have len: "2 * length (dumps v) < 2 * length (asc (dumps v) @ [CHR 0x0A]) + 1" by simp
  have "stops [CHR 0x0A]" by (simp add: stops_def is_digit_def)
  from parse_value_dumps [OF assms this len] have
    "parse_value fr (2 * length (asc (dumps v) @ [CHR 0x0A]) + 1) (asc (dumps v @ [CHR 0x0A])) = Some (canon v, asc [CHR 0x0A])"
    by (rule parse_value_ascii(1))
  moreover have "plain_ascii (CHR 0x0A)" by (simp add: plain_ascii_def)
  moreover have "skip_ws (asc (dumps v @ [CHR 0x0A])) = asc (dumps v @ [CHR 0x0A])"
    using starts_skip_ws [OF starts_append [OF starts_dumps [OF assms(2)], of "[CHR 0x0A]"]] by (simp only: skip_ws_asc)
  ultimately show ?thesis by (simp add: json_loads_def dumps_ascii_asc) (simp add: skip_ws_def json_ws_def)
qed

end
