(* ===== verification/Capability_Policy.thy ===== *)
theory Capability_Policy
  imports Command_Safety Json_Parse Mutation_Policy
begin

section \<open>Capability isolation\<close>

text \<open>
  \<^verbatim>\<open>capability_policy.py\<close>: before a session starts, the command line is asked twice what it would show
  the model, once as it is and once with everything disabled that the workflow does not need; the plan
  is supported only when the second answer is exactly the allowlist. \<open>probe\<close> is \<^verbatim>\<open>subprocess.run\<close>:
  \<open>None\<close> when the process does not start or takes too long, else its exit code, output and diagnostics. Each
  command line is run once. The state of the calls is the record of attempted commands of \<open>Command_Safety\<close>.
\<close>

definition CORE_CAPABILITIES :: "string list" where
  "CORE_CAPABILITIES = [''core:apply_patch'', ''core:shell'']"

definition WORKFLOW_SKILLS :: "(string \<times> string list) list" where
  "WORKFLOW_SKILLS =
    [(''queue_reconciliation'', [''development-conveyor'', ''feature-inventory'']),
     (''scope_features'', [''development-conveyor'', ''feature-inventory'']),
     (''reconcile_product_plan'', [''development-conveyor'', ''feature-inventory'']),
     (''feature_cycle'', [''development-conveyor'', ''feature-factory'']),
     (''milestone_integration'', [''development-conveyor'', ''milestone-integrator'']),
     (''milestone_gate'', [''development-conveyor'', ''milestone-gate'']),
     (''architecture'', [''development-conveyor'', ''architecture-audit'']),
     (''portfolio'', [''development-conveyor'', ''portfolio-status'']),
     (''application_onboarding'', [''development-conveyor'', ''app-bootstrap'']),
     (''human_decision_report'', [''development-conveyor''])]"

definition MACOS_SKILL_PREFIX :: string where
  "MACOS_SKILL_PREFIX = ''build-macos-apps:''"

definition DISABLED_FEATURES :: "string list" where
  "DISABLED_FEATURES =
    [''apps'', ''browser_use'', ''browser_use_external'', ''browser_use_full_cdp_access'', ''computer_use'',
     ''enable_mcp_apps'', ''goals'', ''image_generation'', ''in_app_browser'', ''memories'', ''plugin_sharing'',
     ''realtime_conversation'']"

definition AUTHENTICATION_MARKERS :: "string list" where
  "AUTHENTICATION_MARKERS = [''authentication required'', ''oauth'', ''sign in to'', ''login required'']"

definition SKILL_TRUNCATION_MARKERS :: "string list" where
  "SKILL_TRUNCATION_MARKERS = [''skill description'', ''skill context'', ''truncat'', ''context budget'']"

record skill =
  sk_name :: string
  sk_path :: string

record capability_plan =
  cp_requested :: "string list"
  cp_effective :: "string list"
  cp_config_args :: "string list"
  cp_mechanism :: string
  cp_supported :: bool
  cp_classification :: string
  cp_unsupported :: "string list"
  cp_unrelated :: "string list"
  cp_disabled_plugins :: "string list"
  cp_disabled_mcp :: "string list"
  cp_truncation_warnings :: "string list"
  cp_authentication_attempts :: "string list"

definition capability_plan_dict :: "capability_plan \<Rightarrow> obj" where
  "capability_plan_dict p =
    [(''schema_version'', JInt 1), (''requested_capability_allowlist'', strs (cp_requested p)),
     (''effective_capability_allowlist'', strs (cp_effective p)),
     (''capability_enforcement_mechanism'', JStr (cp_mechanism p)),
     (''capability_isolation_supported'', JBool (cp_supported p)), (''classification'', JStr (cp_classification p)),
     (''unsupported_requested_capabilities'', strs (cp_unsupported p)),
     (''unrelated_capabilities_detected'', strs (cp_unrelated p)),
     (''disabled_plugins'', strs (cp_disabled_plugins p)), (''disabled_mcp_servers'', strs (cp_disabled_mcp p)),
     (''skill_context_truncation_warnings'', strs (cp_truncation_warnings p)),
     (''unrelated_mcp_authentication_attempts'', strs (cp_authentication_attempts p))]"

subsection \<open>The allowlist\<close>

definition requested_capability_allowlist :: "string \<Rightarrow> string list \<Rightarrow> string list res" where
  "requested_capability_allowlist action macos_skills =
     (let skills = (case map_of WORKFLOW_SKILLS action of None \<Rightarrow> [''development-conveyor''] | Some s \<Rightarrow> s);
          macos = firsts macos_skills in
      rbind (check (list_all (prefix MACOS_SKILL_PREFIX) macos) SessionError
               ''Conveyor capability allowlist contains unsupported macOS skills: '') (\<lambda>_.
      Inr (firsts (CORE_CAPABILITIES @ skills @ macos))))"

subsection \<open>The configuration\<close>

text \<open>The part between a prefix and a suffix of a text.\<close>

definition between :: "string \<Rightarrow> string \<Rightarrow> string \<Rightarrow> string option" where
  "between a b s =
     (if prefix a s \<and> suffix b (drop (length a) s)
      then Some (take (length s - length a - length b) (drop (length a) s)) else None)"

definition quoted_key :: "string option \<Rightarrow> string option" where
  "quoted_key k = (case k of None \<Rightarrow> None | Some x \<Rightarrow> if x \<noteq> [] \<and> CHR 34 \<notin> set x then Some x else None)"

definition bare_char :: "char \<Rightarrow> bool" where
  "bare_char c \<longleftrightarrow> alnum_char c \<or> c \<in> {CHR ''_'', CHR ''-''}"

definition plugin_section :: "string \<Rightarrow> string option" where
  "plugin_section s = quoted_key (between (''[plugins.'' @ [CHR 34]) (CHR 34 # '']'') s)"

definition mcp_section :: "string \<Rightarrow> string option" where
  "mcp_section s =
     (case quoted_key (between (''[mcp_servers.'' @ [CHR 34]) (CHR 34 # '']'') s) of
        Some k \<Rightarrow> Some k
      | None \<Rightarrow> (case between ''[mcp_servers.'' '']'' s of
            None \<Rightarrow> None | Some x \<Rightarrow> if x \<noteq> [] \<and> list_all bare_char x then Some x else None))"

text \<open>The plugins and servers of the configuration file, \<open>None\<close> when it cannot be read; the keys come in the
  order of the dictionaries, which the caller sorts.\<close>

definition config_document :: "string option \<Rightarrow> (string list \<times> string list) option" where
  "config_document content =
     map_option (\<lambda>text. let sections = map strip (str_splitlines text) in
       (firsts (List.map_filter plugin_section sections),
        firsts (List.map_filter (\<lambda>s. if plugin_section s = None then mcp_section s else None) sections))) content"

subsection \<open>The probe\<close>

text \<open>\<^verbatim>\<open>_SKILL_LINE\<close>: a name, a colon, any text, and the last path in the form of a file mark that ends the line.\<close>

definition skill_name :: "string \<Rightarrow> bool" where
  "skill_name n \<longleftrightarrow> (case split_on (CHR '':'') n of
       [a] \<Rightarrow> a \<noteq> [] \<and> list_all bare_char a
     | [a, b] \<Rightarrow> a \<noteq> [] \<and> b \<noteq> [] \<and> list_all bare_char (a @ b)
     | _ \<Rightarrow> False)"

definition skill_path :: "string \<Rightarrow> bool" where
  "skill_path p \<longleftrightarrow> prefix ''/'' p \<and> suffix ''/SKILL.md'' p \<and> length ''//SKILL.md'' < length p \<and> CHR '')'' \<notin> set p"

fun file_mark :: "string \<Rightarrow> string option" where
  "file_mark [] = None"
| "file_mark (c # s) =
     (case file_mark s of
        Some p \<Rightarrow> Some p
      | None \<Rightarrow> (case between '' (file: '' '')'' (c # s) of
            None \<Rightarrow> None | Some p \<Rightarrow> if skill_path p then Some p else None))"

fun split_name :: "string \<Rightarrow> string \<Rightarrow> (string \<times> string) option" where
  "split_name acc [] = None"
| "split_name acc (c # s) = (if prefix '': '' (c # s) then Some (rev acc, tl s) else split_name (c # acc) s)"

definition skill_line :: "string \<Rightarrow> skill option" where
  "skill_line line =
     (if \<not> prefix ''- '' line then None
      else (case split_name [] (drop 2 line) of
          None \<Rightarrow> None
        | Some (n, rest) \<Rightarrow> if \<not> skill_name n then None
            else (case file_mark rest of None \<Rightarrow> None | Some p \<Rightarrow> Some \<lparr>sk_name = n, sk_path = p\<rparr>)))"

definition marked_lines :: "string list \<Rightarrow> string \<Rightarrow> string list" where
  "marked_lines markers text =
     map strip (filter (\<lambda>line. list_ex (\<lambda>m. contains m (lower line)) markers) (str_splitlines text))"

text \<open>The texts of all messages the answer holds.\<close>

definition message_texts :: "json \<Rightarrow> string list res" where
  "message_texts message =
     (case message of
        JObj d \<Rightarrow> rbind (elements (oget_or d ''content'' (JArr []))) (\<lambda>cs.
          Inr (List.map_filter (\<lambda>c. case c of JObj e \<Rightarrow> str_of (oget e ''text'') | _ \<Rightarrow> None) cs))
      | _ \<Rightarrow> Inr [])"

record probe_result =
  pb_code :: int
  pb_stdout :: string
  pb_stderr :: string

type_synonym probe = "string list \<Rightarrow> probe_result option"

definition parse_probe ::
  "(string \<Rightarrow> string) \<Rightarrow> probe_result option \<Rightarrow> (skill list \<times> string list \<times> string list) res" where
  "parse_probe fr result =
     (case result of
        None \<Rightarrow> raise SessionError ''capability_isolation_unsupported: prompt-input capability probe failed: ''
      | Some r \<Rightarrow>
          rbind (check (pb_code r = 0) SessionError
                   ''capability_isolation_unsupported: prompt-input capability probe failed: '') (\<lambda>_.
          case json_loads fr (pb_stdout r) of
            None \<Rightarrow> raise SessionError ''capability_isolation_unsupported: prompt-input probe did not return JSON''
          | Some (JArr messages) \<Rightarrow>
              rbind (rmap message_texts messages) (\<lambda>texts.
              Inr (List.map_filter skill_line (str_splitlines (join [CHR 0x0A] (concat texts))),
                   marked_lines SKILL_TRUNCATION_MARKERS (pb_stderr r),
                   marked_lines AUTHENTICATION_MARKERS (pb_stderr r)))
          | Some _ \<Rightarrow> raise SessionError ''capability_isolation_unsupported: prompt-input probe root is not a list''))"

definition run_prompt_probe ::
  "(string \<Rightarrow> string) \<Rightarrow> (string \<Rightarrow> string) \<Rightarrow> probe \<Rightarrow> string \<Rightarrow> string \<Rightarrow> string list
    \<Rightarrow> (obj list option, skill list \<times> string list \<times> string list) eff" where
  "run_prompt_probe fr rp probe executable cwd config_args =
     (let argv = executable # config_args @ [''debug'', ''prompt-input'', ''development-conveyor-capability-probe''] in
      sbind (validate_controller_command rp argv cwd (Some cwd) True) (\<lambda>_.
      slift (parse_probe fr (probe argv))))"

subsection \<open>The plan\<close>

definition skill_disable_argument :: "skill list \<Rightarrow> string list" where
  "skill_disable_argument skills =
     [''-c'', ''skills.config=['' @ join '','' (map (\<lambda>k. ''{path='' @ ascii_str (sk_path k) @ '',enabled=false}'') skills) @ '']'']"

definition plugin_for_skill :: "string \<Rightarrow> skill \<Rightarrow> bool" where
  "plugin_for_skill plugin_id k =
     (let short = takeWhile (\<lambda>c. c \<noteq> CHR ''@'') plugin_id in
      sk_name k = short \<or> prefix (short @ '':'') (sk_name k) \<or> contains (''/'' @ short @ ''/'') (sk_path k))"

definition MECHANISM :: string where
  "MECHANISM = ''codex_cli_session_config_and_prompt_input_probe''"

definition isolation_args :: "skill list \<Rightarrow> string list \<Rightarrow> string list \<Rightarrow> string list" where
  "isolation_args disabled_skills disabled_plugins disabled_mcp =
     (if disabled_skills = [] then [] else skill_disable_argument disabled_skills)
     @ concat (map (\<lambda>i. [''-c'', ''plugins.'' @ ascii_str i @ ''.enabled=false'']) disabled_plugins)
     @ (if disabled_mcp = [] then [] else [''-c'', ''mcp_servers={}''])
     @ concat (map (\<lambda>f. [''--disable'', f]) DISABLED_FEATURES)"

definition missing_plan ::
  "string list \<Rightarrow> string list \<Rightarrow> string list \<Rightarrow> string list \<Rightarrow> string list \<Rightarrow> string list \<Rightarrow> capability_plan" where
  "missing_plan requested skills available missing warnings authentication =
     \<lparr>cp_requested = requested, cp_effective = CORE_CAPABILITIES, cp_config_args = [], cp_mechanism = MECHANISM,
      cp_supported = False, cp_classification = ''capability_isolation_unsupported'', cp_unsupported = missing,
      cp_unrelated = sorted_set (filter (\<lambda>i. i \<notin> set skills) available), cp_disabled_plugins = [],
      cp_disabled_mcp = [], cp_truncation_warnings = warnings, cp_authentication_attempts = authentication\<rparr>"

text \<open>The plan of the second probe; \<open>warnings\<close> and \<open>auth\<close> are those of the first.\<close>

definition effective_plan ::
  "string list \<Rightarrow> string list \<Rightarrow> string list \<Rightarrow> string list \<Rightarrow> string list \<Rightarrow> string list \<Rightarrow> string list
    \<Rightarrow> skill list \<times> string list \<times> string list \<Rightarrow> capability_plan" where
  "effective_plan requested skills plugins mcp args warnings auth probed =
     (case probed of (effective, warnings', auth') \<Rightarrow>
        let names = map sk_name effective;
            unrelated = sorted_set (filter (\<lambda>i. i \<notin> set skills) names);
            unsupported = sorted_set (filter (\<lambda>i. i \<notin> set names) skills);
            supported = (unrelated = [] \<and> unsupported = [] \<and> auth' = []) in
        \<lparr>cp_requested = requested, cp_effective = firsts (CORE_CAPABILITIES @ names),
         cp_config_args = (if supported then args else []), cp_mechanism = MECHANISM, cp_supported = supported,
         cp_classification = (if supported then ''capability_isolation_enforced'' else ''capability_isolation_unsupported''),
         cp_unsupported = unsupported, cp_unrelated = unrelated, cp_disabled_plugins = plugins, cp_disabled_mcp = mcp,
         cp_truncation_warnings = firsts (warnings @ warnings'), cp_authentication_attempts = firsts (auth @ auth')\<rparr>)"

text \<open>\<open>config\<close> is the content of the configuration file.\<close>

definition build_capability_plan ::
  "(string \<Rightarrow> string) \<Rightarrow> (string \<Rightarrow> string) \<Rightarrow> probe \<Rightarrow> string option \<Rightarrow> string \<Rightarrow> string \<Rightarrow> string \<Rightarrow> string list
    \<Rightarrow> (obj list option, capability_plan) eff" where
  "build_capability_plan fr rp probe config executable cwd action macos_skills =
     sbind (slift (requested_capability_allowlist action macos_skills)) (\<lambda>requested.
     let skills = filter (\<lambda>i. i \<notin> set CORE_CAPABILITIES) requested in
     sbind (run_prompt_probe fr rp probe executable cwd []) (\<lambda>(baseline, warnings, auth).
     let available = map sk_name baseline; missing = sorted_set (filter (\<lambda>i. i \<notin> set available) skills) in
     if missing \<noteq> [] then sret (missing_plan requested skills available missing warnings auth)
     else
       let (plugins, mcp) = (case config_document config of None \<Rightarrow> ([], []) | Some c \<Rightarrow> c);
           allowed = filter (\<lambda>k. sk_name k \<in> set skills) baseline;
           disabled = filter (\<lambda>i. \<not> list_ex (plugin_for_skill i) allowed) (sort plugins);
           args = isolation_args (filter (\<lambda>k. sk_name k \<notin> set skills) baseline) disabled (sort mcp) in
       sbind (run_prompt_probe fr rp probe executable cwd args) (\<lambda>probed.
       sret (effective_plan requested skills disabled (sort mcp) args warnings auth probed))))"

definition require_capability_isolation :: "capability_plan \<Rightarrow> unit res" where
  "require_capability_isolation plan = check (cp_supported plan) SessionError ''capability_isolation_unsupported: ''"

subsection \<open>What a supported plan proves\<close>

lemma sorted_set_Nil [simp]: "sorted_set xs = [] \<longleftrightarrow> xs = []"
  by (metis set_empty set_sorted_set)

lemma effective_plan_supported:
  assumes "cp_supported (effective_plan requested (filter (\<lambda>i. i \<notin> set CORE_CAPABILITIES) requested) ps mcp args w a (ks, w', a'))"
    and "set CORE_CAPABILITIES \<subseteq> set requested"
  shows "a' = [] \<and> set CORE_CAPABILITIES \<union> set (map sk_name ks) = set requested"
  using assms by (auto simp: effective_plan_def Let_def filter_empty_conv)

lemma requested_core: "requested_capability_allowlist action macos = Inr r \<Longrightarrow> set CORE_CAPABILITIES \<subseteq> set r"
  by (auto simp: requested_capability_allowlist_def Let_def)

text \<open>A plan was made of the first probe alone, or of the second one.\<close>

lemma built_plan:
  assumes "build_capability_plan fr rp probe config executable cwd action macos s = (Inr plan, t)"
  shows "\<exists>r skills. requested_capability_allowlist action macos = Inr r \<and> skills = filter (\<lambda>i. i \<notin> set CORE_CAPABILITIES) r
    \<and> ((\<exists>available missing w a. plan = missing_plan r skills available missing w a)
       \<or> (\<exists>ps mcp args w a probed s1 s2. plan = effective_plan r skills ps mcp args w a probed
            \<and> run_prompt_probe fr rp probe executable cwd args s1 = (Inr probed, s2)))"
  using assms
  by (auto simp: build_capability_plan_def Let_def sbind_eq_Inr slift_eq_Inr sret_eq_Inr
      split: prod.splits if_split_asm)

text \<open>
  Claim C29. Isolation is proved, not assumed. A plan that \<^verbatim>\<open>require_capability_isolation\<close> lets
  through shows exactly the requested capabilities, and a probe under exactly the arguments the plan
  carries showed no skill outside them, all of them, and no attempt to authenticate; any other plan carries
  no arguments.
\<close>

theorem capability_isolation_proved:
  "case build_capability_plan fr rp probe config executable cwd action macos s of
     (Inl _, _) \<Rightarrow> True
   | (Inr plan, _) \<Rightarrow>
       (case require_capability_isolation plan of
          Inl _ \<Rightarrow> cp_config_args plan = []
        | Inr _ \<Rightarrow> Inr (cp_requested plan) = requested_capability_allowlist action macos
            \<and> set (cp_effective plan) = set (cp_requested plan)
            \<and> (\<exists>skills warnings s1 s2.
                  run_prompt_probe fr rp probe executable cwd (cp_config_args plan) s1 = (Inr (skills, warnings, []), s2)
                  \<and> set CORE_CAPABILITIES \<union> set (map sk_name skills) = set (cp_requested plan)))"
proof (cases "build_capability_plan fr rp probe config executable cwd action macos s")
  case (Pair r t)
  show ?thesis
  proof (cases r)
    case (Inr plan)
    from built_plan [OF Pair [unfolded Inr]] obtain q where q: "requested_capability_allowlist action macos = Inr q"
      and plan: "(\<exists>available missing w a. plan = missing_plan q (filter (\<lambda>i. i \<notin> set CORE_CAPABILITIES) q) available missing w a)
       \<or> (\<exists>ps mcp args w a probed s1 s2. plan = effective_plan q (filter (\<lambda>i. i \<notin> set CORE_CAPABILITIES) q) ps mcp args w a probed
            \<and> run_prompt_probe fr rp probe executable cwd args s1 = (Inr probed, s2))"
      by blast
    show ?thesis
    proof (cases "cp_supported plan")
      case True
      with plan obtain ps mcp args w a ks w' a' s1 s2 where p: "plan = effective_plan q (filter (\<lambda>i. i \<notin> set CORE_CAPABILITIES) q) ps mcp args w a (ks, w', a')"
        and run: "run_prompt_probe fr rp probe executable cwd args s1 = (Inr (ks, w', a'), s2)"
        by (auto simp: missing_plan_def)
      note e = effective_plan_supported [OF True [unfolded p] requested_core [OF q]]
      have "cp_config_args plan = args" "cp_requested plan = q" "set (cp_effective plan) = set q"
        using True e unfolding p by (simp_all add: effective_plan_def Let_def)
      with run e q True show ?thesis
        unfolding Pair Inr by (auto simp: require_capability_isolation_def)
    next
      case False
      with plan have "cp_config_args plan = []"
        by (auto simp: missing_plan_def effective_plan_def Let_def split: prod.splits)
      with False show ?thesis unfolding Pair Inr by (simp add: require_capability_isolation_def raise_def check_def)
    qed
  qed (use Pair in simp)
qed

subsection \<open>A skill that cannot be disabled\<close>

text \<open>
  The arguments that disable a skill name its path, and the command policy takes a word of the path for an
  operation: an unrelated skill in a directory \<^verbatim>\<open>release\<close> cannot be disabled, so no plan is
  made, whatever the probe would answer.
\<close>

definition release_skill :: skill where
  "release_skill = \<lparr>sk_name = ''release'', sk_path = ''/s/release/SKILL.md''\<rparr>"

lemma release_skill_tokens:
  "list_ex (\<lambda>w. w \<in> set (tokens_of (map lower (isolation_args [release_skill] [] []
     @ [''debug'', ''prompt-input'', ''development-conveyor-capability-probe''])))) PROHIBITED_WORDS"
  by code_simp

theorem unrelated_path_refused:
  "fst (run_prompt_probe fr rp probe ''codex'' cwd (isolation_args [release_skill] [] []) s)
     = raise SafetyViolation ''release, publication, deployment, and notarization operations are prohibited''"
proof -
  have "[] \<notin> set (isolation_args [release_skill] [] [])"
    by (simp add: isolation_args_def skill_disable_argument_def DISABLED_FEATURES_def)
  with release_skill_tokens show ?thesis
    by (simp add: run_prompt_probe_def validate_controller_command_def observe_command_attempt_def controller_command_def
        sbind_def smodify_def slift_def raise_def Let_def)
qed

end
