(* ===== verification/Feature_Delivery.thy ===== *)
theory Feature_Delivery
  imports Schema_Validation Execution_Plan_Theorems Workflow_Bridge
begin

section \<open>Branches and delivery of features\<close>

text \<open>
  \<^verbatim>\<open>feature_branches.py\<close> (the one branch of a feature), \<^verbatim>\<open>feature_delivery.py\<close> (validate,
  accept, integrate), \<^verbatim>\<open>compatibility_cache.py\<close> (the state file of older readers) and the tables of
  \<^verbatim>\<open>compact_output.py\<close>. \<open>field\<close> is what \<^verbatim>\<open>str.format\<close> gives for a replacement
  field that is not one of the three names (a format specification, a conversion, an attribute, a position),
  and fields are not nested.
\<close>

subsection \<open>The branch of a feature\<close>

text \<open>\<^verbatim>\<open>pattern.format(**names)\<close>; \<open>mode\<close> is the field being read, reversed.\<close>

fun py_format :: "(string \<Rightarrow> string res) \<Rightarrow> (string \<times> string) list \<Rightarrow> string option \<Rightarrow> string \<Rightarrow> string res" where
  "py_format field names None [] = Inr []"
| "py_format field names (Some acc) [] = raise ValueError ''expected '}' before end of string''"
| "py_format field names (Some acc) (c # s) =
     (if c = CHR ''}'' then
        rbind (case map_of names (rev acc) of Some v \<Rightarrow> Inr v | None \<Rightarrow> field (rev acc)) (\<lambda>v.
        rbind (py_format field names None s) (\<lambda>t. Inr (v @ t)))
      else py_format field names (Some (c # acc)) s)"
| "py_format field names None (c # s) =
     (if c = CHR ''{'' then
        (case s of
           d # s' \<Rightarrow> if d = CHR ''{'' then rbind (py_format field names None s') (\<lambda>t. Inr (c # t))
             else py_format field names (Some []) s
         | [] \<Rightarrow> raise ValueError ''Single '{' encountered in format string'')
      else if c = CHR ''}'' then
        (case s of
           d # s' \<Rightarrow> if d = CHR ''}'' then rbind (py_format field names None s') (\<lambda>t. Inr (c # t))
             else raise ValueError ''Single '}' encountered in format string''
         | [] \<Rightarrow> raise ValueError ''Single '}' encountered in format string'')
      else rbind (py_format field names None s) (\<lambda>t. Inr (c # t)))"

definition feature_slug :: "string \<Rightarrow> string" where
  "feature_slug title = strip_char (CHR ''-'') (sub_others (CHR ''-'') False (lower title))"

text \<open>\<^verbatim>\<open>[A-Za-z0-9]+(?:-[A-Za-z0-9]+)*\<close>\<close>

definition dashed_id :: "string \<Rightarrow> bool" where
  "dashed_id s \<longleftrightarrow> list_all (\<lambda>p. p \<noteq> [] \<and> list_all alnum_char p) (split_on (CHR ''-'') s)"

definition ref_char :: "char \<Rightarrow> bool" where
  "ref_char c \<longleftrightarrow> alnum_char c \<or> c \<in> set ''._/-''"

definition codex_prefix :: string where
  "codex_prefix = ''codex/''"

definition branch_ok :: "string \<Rightarrow> bool" where
  "branch_ok b \<longleftrightarrow> b \<noteq> [] \<and> alnum_char (hd b) \<and> list_all ref_char b \<and> \<not> contains ''..'' b \<and> \<not> suffix ''/'' b"

definition names_feature :: "string \<Rightarrow> string \<Rightarrow> bool" where
  "names_feature i b \<longleftrightarrow>
     (let stem = lower (drop (length codex_prefix) b) in stem = lower i \<or> prefix (lower i @ ''-'') stem)"

text \<open>\<open>content\<close> is the repository adapter.\<close>

definition canonical_feature_branch ::
  "(string \<Rightarrow> string) \<Rightarrow> (string \<Rightarrow> string res) \<Rightarrow> string option \<Rightarrow> obj \<Rightarrow> string res" where
  "canonical_feature_branch fr field content feature =
     (case Option.bind content (json_loads fr) of
        None \<Rightarrow> raise RecoveryError ''cannot derive feature branch from repository adapter''
      | Some adapter \<Rightarrow>
          rbind (jget adapter ''git'') (\<lambda>git.
          rbind (jget (jor git (JObj [])) ''feature_branch_pattern'') (\<lambda>pattern.
          case (pattern, oget feature ''id'', jor (oget feature ''name'') (oget feature ''title'')) of
            (JStr p, JStr i, JStr title) \<Rightarrow>
              let slug = feature_slug title in
              rbind (check (dashed_id i \<and> slug \<noteq> []) RecoveryError
                       ''feature ID or title cannot produce a safe feature branch'') (\<lambda>_.
              rbind (rewrap [KeyError, ValueError] RecoveryError ''feature branch pattern is unsupported''
                       (py_format field [(''feature_id'', i), (''feature_id_lower'', lower i), (''slug'', slug)] None p)) (\<lambda>derived.
              let branch = (case oget feature ''branch'' of JStr b \<Rightarrow> if b = [] then derived else b | _ \<Rightarrow> derived) in
              rbind (check (prefix codex_prefix branch \<and> list_all (\<lambda>c. \<not> is_space c) branch) RecoveryError
                       ''feature branch must use the allowed codex/ prefix and contain no whitespace'') (\<lambda>_.
              rbind (check (branch_ok branch) RecoveryError ''feature branch contains invalid ref characters'') (\<lambda>_.
              rbind (check (names_feature i branch) RecoveryError
                       ''explicit feature branch does not identify the selected feature'') (\<lambda>_.
              Inr branch)))))
          | _ \<Rightarrow> raise RecoveryError ''feature branch is absent and adapter branch metadata is incomplete'')))"

subsection \<open>Delivery\<close>

definition delivery_failure :: "string \<Rightarrow> exn \<Rightarrow> obj" where
  "delivery_failure phase e =
     [(''schema_version'', JInt 1), (''phase'', JStr phase), (''outcome'', JStr (phase @ ''_failed'')),
      (''error_type'', JStr (class_name (exn_cls e))), (''error'', JStr (exn_msg e)),
      (''complete_suite_invocations'', JInt 0), (''release_validation_invocations'', JInt 0)]"

definition total_of :: "string \<Rightarrow> obj list \<Rightarrow> int res" where
  "total_of k phases = rbind (rmap (\<lambda>d. py_int (oget_or d k (JInt 0))) phases) (\<lambda>ns. Inr (sum_list ns))"

definition delivery_result :: "string \<Rightarrow> string \<Rightarrow> string \<Rightarrow> obj list \<Rightarrow> obj res" where
  "delivery_result project feature outcome phases =
     rbind (total_of ''complete_suite_invocations'' phases) (\<lambda>suites.
     rbind (total_of ''release_validation_invocations'' phases) (\<lambda>releases.
     Inr [(''schema_version'', JInt 1), (''command'', JStr ''deliver-feature''), (''project_id'', JStr project),
          (''feature_id'', JStr feature), (''outcome'', JStr outcome), (''phases'', JArr (map JObj phases)),
          (''complete_suite_invocations'', JInt suites), (''release_validation_invocations'', JInt releases)]))"

definition is_conveyor_error :: "exn \<Rightarrow> bool" where
  "is_conveyor_error e \<longleftrightarrow> issubclass (exn_cls e) ConveyorError"

text \<open>\<^verbatim>\<open>try: m except caught as exc\<close>, with the exception as a value\<close>

definition attempt :: "(exn \<Rightarrow> bool) \<Rightarrow> ('s, 'a) eff \<Rightarrow> ('s, exn + 'a) eff" where
  "attempt caught m = scatch caught (sbind m (\<lambda>x. sret (Inr x))) (\<lambda>e. sret (Inl e))"

text \<open>What acceptance is given of the validation; a missing key raises.\<close>

definition acceptance_inputs :: "obj \<Rightarrow> obj res" where
  "acceptance_inputs validation =
     rbind (rmap (\<lambda>k. rbind (osub validation k) (\<lambda>v. Inr (k, v)))
       [''feature_branch'', ''milestone_base'', ''implementation_commit'', ''implementation_tree'', ''evidence'']) Inr"

text \<open>The three authorities are calls on the state of the world.\<close>

definition deliver_feature ::
  "string \<Rightarrow> string \<Rightarrow> ('s, obj) eff \<Rightarrow> (obj \<Rightarrow> ('s, obj) eff) \<Rightarrow> (obj \<Rightarrow> ('s, obj) eff) \<Rightarrow> ('s, obj) eff" where
  "deliver_feature project feature validating accepting integrating =
     (let finish = (\<lambda>outcome phases. slift (delivery_result project feature outcome phases)) in
      sbind (attempt is_conveyor_error validating) (\<lambda>v.
      case v of
        Inl e \<Rightarrow> finish ''validation_failed'' [delivery_failure ''validation'' e]
      | Inr validation \<Rightarrow>
          if oget validation ''outcome'' \<noteq> JStr ''validated'' then finish ''validation_failed'' [validation]
          else sbind (attempt (\<lambda>e. is_conveyor_error e \<or> exn_cls e \<in> {KeyError, TypeError})
                 (sbind (slift (acceptance_inputs validation)) accepting)) (\<lambda>w.
          case w of
            Inl e \<Rightarrow> finish ''acceptance_failed'' [validation, delivery_failure ''acceptance'' e]
          | Inr acceptance \<Rightarrow>
              sbind (attempt is_conveyor_error (integrating acceptance)) (\<lambda>x.
              case x of
                Inl e \<Rightarrow> finish ''integration_failed'' [validation, acceptance, delivery_failure ''integration'' e]
              | Inr integration \<Rightarrow> finish (py_str (jor (oget integration ''outcome'') (JStr ''integration_failed'')))
                  [validation, acceptance, integration]))))"

subsection \<open>The compatibility cache\<close>

record cache_inputs =
  ci_project_id :: string
  ci_repository_fingerprint :: string
  ci_active_milestone :: "string option"
  ci_run_id :: string
  ci_updated_at :: string

definition cache_document :: "obj \<Rightarrow> cache_inputs \<Rightarrow> obj \<Rightarrow> obj \<Rightarrow> obj res" where
  "cache_document existing a projection plan =
     (let history = (case oget existing ''human_decision_history'' of JArr xs \<Rightarrow> JArr xs | _ \<Rightarrow> JArr []);
          created = (if nonempty_str (oget existing ''created_at'') then oget existing ''created_at''
                     else JStr (ci_updated_at a)) in
      rbind (osub projection ''current_state'') (\<lambda>state.
      rbind (osub projection ''ledger_sequence'') (\<lambda>sequence.
      rbind (osub projection ''ledger_fingerprint'') (\<lambda>fp.
      rbind (osub projection ''projection_fingerprint'') (\<lambda>pfp.
      Inr [(''schema_version'', JInt 1), (''project_id'', JStr (ci_project_id a)),
           (''repository_fingerprint'', JStr (ci_repository_fingerprint a)), (''run_id'', JStr (ci_run_id a)),
           (''current_state'', state), (''active_milestone'', of_opt (ci_active_milestone a)),
           (''current_feature'', oget plan ''feature_id''), (''last_checkpoint'', JStr ''kernel_projection_reconciled''),
           (''stop_reason'', JNull), (''human_decision_required'', oget projection ''human_gate''),
           (''human_decision_history'', history),
           (''state_evidence'', JObj [(''source'', JStr ''evidence_ledger_projection''), (''ledger_sequence'', sequence),
              (''ledger_fingerprint'', fp), (''projection_fingerprint'', pfp), (''execution_plan'', JObj plan)]),
           (''created_at'', created), (''updated_at'', JStr (ci_updated_at a))])))))"

definition build_controller_compatibility_cache ::
  "(string \<Rightarrow> string \<Rightarrow> bool) \<Rightarrow> (json \<Rightarrow> json \<Rightarrow> bool) \<Rightarrow> obj \<Rightarrow> json \<Rightarrow> cache_inputs \<Rightarrow> obj \<Rightarrow> obj \<Rightarrow> obj res" where
  "build_controller_compatibility_cache rx lt existing schema a projection plan =
     rbind (cache_document existing a projection plan) (\<lambda>d.
     rbind (validate_schema rx lt (JObj d) schema) (\<lambda>_. Inr d))"

text \<open>The state is the file; \<^verbatim>\<open>atomic_write_json\<close> redacts what it writes.\<close>

definition write_controller_compatibility_cache ::
  "(string \<Rightarrow> string \<Rightarrow> bool) \<Rightarrow> (json \<Rightarrow> json \<Rightarrow> bool) \<Rightarrow> (string \<Rightarrow> string) \<Rightarrow> json \<Rightarrow> json \<Rightarrow> (json option, unit) eff" where
  "write_controller_compatibility_cache rx lt rt schema document =
     sbind (slift (validate_schema rx lt document schema)) (\<lambda>_.
     sbind (smodify (\<lambda>_. Some (redact_value rt document))) (\<lambda>_.
     sbind (slift (validate_schema rx lt (redact_value rt document) schema)) (\<lambda>_.
     scheck (py_eq (redact_value rt document) document) ValueError
       ''persisted controller compatibility cache changed during write'')))"

subsection \<open>Compact output\<close>

definition TERMINAL_REPORT_FIELDS :: "string list" where
  "TERMINAL_REPORT_FIELDS =
    [''workflow_type'', ''task'', ''selected_profile'', ''exact_model'', ''reasoning_effort'', ''policy_source'',
     ''parent_sessions_used'', ''child_sessions_used'', ''changed_paths'', ''validation_commands'', ''validation_result'',
     ''errors'', ''safety_findings'', ''blocker'', ''accepted_commit'', ''next_state'', ''recovery_instruction'',
     ''terminal_classification'']"

definition WORKFLOW_ALIASES :: "(string \<times> string) list" where
  "WORKFLOW_ALIASES = [(''feature_cycle'', ''feature_execution'')]"

definition normalize_workflow_label :: "string \<Rightarrow> string" where
  "normalize_workflow_label v = (case map_of WORKFLOW_ALIASES v of None \<Rightarrow> v | Some w \<Rightarrow> w)"

definition validate_terminal_workflow :: "string \<Rightarrow> string \<Rightarrow> unit res" where
  "validate_terminal_workflow invoked reported =
     check (normalize_workflow_label reported = normalize_workflow_label invoked) ValueError
       ''terminal workflow label conflicts with invoked workflow''"

definition compact_output_contract ::
  "string \<Rightarrow> string \<Rightarrow> string option \<Rightarrow> string option \<Rightarrow> string option \<Rightarrow> string option \<Rightarrow> obj" where
  "compact_output_contract workflow task profile model effort source =
    [(''schema_version'', JInt 1), (''format'', JStr ''single_compact_json_object''),
     (''required_fields'', strs TERMINAL_REPORT_FIELDS),
     (''identity'', JObj [(''workflow_type'', JStr (normalize_workflow_label workflow)), (''task'', JStr task),
        (''selected_profile'', of_opt profile), (''exact_model'', of_opt model), (''reasoning_effort'', of_opt effort),
        (''policy_source'', of_opt source)]),
     (''successful_command_summary_fields'',
        strs [''command'', ''exit_code'', ''duration'', ''output_hash'', ''bounded_tail_or_summary'']),
     (''suppress'', strs [''repeated status narration'', ''long introductions'', ''conversational acknowledgements'',
        ''large copied logs'', ''full skill descriptions'', ''full Git history'', ''speculative progress'']),
     (''preserve'', strs [''errors'', ''safety findings'', ''failed commands'', ''changed paths'', ''validation failures'',
        ''model or capability mismatch'', ''recovery instructions'', ''terminal identity'', ''exact commit evidence'',
        ''explicit blockers'']),
     (''workflow_label_policy'', JStr ''exact_after_documented_alias_normalization'')]"

subsection \<open>One feature, one branch\<close>

lemma canonical_branch_Inr:
  assumes "canonical_feature_branch fr field content f = Inr b"
  shows "\<exists>i. oget f ''id'' = JStr i \<and> names_feature i b \<and> prefix codex_prefix b \<and> branch_ok b
    \<and> list_all (\<lambda>c. \<not> is_space c) b"
  using assms
  by (auto simp: canonical_feature_branch_def Let_def simp del: rbind_eq_Inr elim!: rbind_InrE split: option.split_asm json.split_asm)

text \<open>One identity is the other, or extends it by a dash.\<close>

definition dash_related :: "string \<Rightarrow> string \<Rightarrow> bool" where
  "dash_related i j \<longleftrightarrow> lower i = lower j \<or> prefix (lower i @ ''-'') (lower j) \<or> prefix (lower j @ ''-'') (lower i)"

lemma names_feature_related:
  assumes "names_feature i b" "names_feature j b"
  shows "dash_related i j"
proof -
  have *: "prefix (a @ ''-'') c \<or> a = c" if "prefix (a @ ''-'') (c @ ''-'')" for a c :: string
    using that by (auto simp: prefix_snoc)
  from assms show ?thesis
    unfolding names_feature_def dash_related_def Let_def
    using * [of "lower i" "lower j"] * [of "lower j" "lower i"]
    by (metis prefix_same_cases)
qed

text \<open>
  Claim C31. Features with unrelated identities never share a branch. Whatever the adapters, titles and
  recorded branches are, if two features have the same canonical branch, the identity of one, in lower case,
  is that of the other or begins with it and a dash; and the branch lies under the allowed prefix, without
  white space and without a step to a parent.
\<close>

theorem branches_separate_features:
  "case (canonical_feature_branch fr field c1 f, canonical_feature_branch fr' field' c2 g) of
     (Inr b, Inr b') \<Rightarrow>
       prefix codex_prefix b \<and> list_all (\<lambda>c. \<not> is_space c) b \<and> \<not> contains ''..'' b
       \<and> (if b = b' then (case (oget f ''id'', oget g ''id'') of (JStr i, JStr j) \<Rightarrow> dash_related i j | _ \<Rightarrow> False) else True)
   | _ \<Rightarrow> True"
  using names_feature_related
  by (auto simp: branch_ok_def dest!: canonical_branch_Inr split: sum.split)

text \<open>
  A recorded branch of an extended identity passes for the shorter one, although it is the branch of the
  other feature.
\<close>

definition sample_adapter :: string where
  "sample_adapter = dumps (JObj [(''git'', JObj [(''feature_branch_pattern'', JStr ''codex/{feature_id_lower}-{slug}'')])])"

theorem branch_shared_by_extension:
  "canonical_feature_branch (\<lambda>r. r) Inr (Some sample_adapter)
       [(''id'', JStr ''F-1''), (''title'', JStr ''One''), (''branch'', JStr ''codex/f-1-2-two'')] = Inr ''codex/f-1-2-two''"
  "canonical_feature_branch (\<lambda>r. r) Inr (Some sample_adapter)
       [(''id'', JStr ''F-1-2''), (''title'', JStr ''Two'')] = Inr ''codex/f-1-2-two''"
  by code_simp+

end
