(* ===== verification/Cost_Policy.thy ===== *)
theory Cost_Policy
  imports Execution_Profiles Feature_Queue Capability_Policy Json_Ascii Hashing
begin

section \<open>Cost policy\<close>

text \<open>
  \<^verbatim>\<open>cost_policy.py\<close>: which model a task gets, which validations a change needs, the context a session is
  given, when earlier evidence counts again, and the plan of a run that puts them together before anything
  is started. Files are asked through \<open>files\<close>; the context of an application feature, which walks the
  repository, is an argument of \<open>build_run_plan\<close>.
\<close>

subsection \<open>Models\<close>

record model_selection =
  ms_model :: json
  ms_reasoning :: json
  ms_task :: string
  ms_risk :: string
  ms_alternative :: string
  ms_insufficient :: "string option"
  ms_triggers :: "string list"

definition deterministic_tasks :: "string list" where
  "deterministic_tasks =
    [''status'', ''consistency'', ''queue_parse'', ''dry_run'', ''integration'', ''git_inspection'', ''cleanliness'',
     ''hash_comparison'', ''test_execution'', ''validation_selection'', ''evidence_lookup'', ''report_generation'',
     ''planning_finalization'']"

definition select_model :: "string \<Rightarrow> string \<Rightarrow> model_selection" where
  "select_model task risk =
     (if task \<in> set deterministic_tasks then
        \<lparr>ms_model = JNull, ms_reasoning = JNull, ms_task = task, ms_risk = risk,
         ms_alternative = ''deterministic implementation available'', ms_insufficient = None, ms_triggers = []\<rparr>
      else if task \<in> {''metadata'', ''formatting'', ''mechanical_config'', ''fixture''} then
        \<lparr>ms_model = default_part ''mechanical'' ''model'', ms_reasoning = default_part ''mechanical'' ''reasoning'',
         ms_task = task, ms_risk = risk,
         ms_alternative = ''no model only when exact structured transformation exists'',
         ms_insufficient = Some ''semantic transformation remains'', ms_triggers = []\<rparr>
      else
        let profile = (if task = ''queue_reconciliation'' then ''repository_aware'' else ''generic_or_architectural'') in
        \<lparr>ms_model = default_part profile ''model'', ms_reasoning = default_part profile ''reasoning'',
         ms_task = task, ms_risk = risk,
         ms_alternative = ''deterministic path cannot perform the required semantic work'',
         ms_insufficient = Some (''workflow fallback applies only when feature metadata and an explicit ''
           @ ''override are absent''), ms_triggers = []\<rparr>)"

subsection \<open>Validations\<close>

record verification =
  vf_tier :: string
  vf_tests :: json
  vf_commands :: json
  vf_builds :: json
  vf_gates :: "json option"
  vf_criteria :: "json option"
  vf_skipped :: json

definition string_list :: "json \<Rightarrow> bool" where
  "string_list v = (case v of JArr xs \<Rightarrow> list_all is_str xs | _ \<Rightarrow> False)"

text \<open>\<^verbatim>\<open>commands.get(group, [])\<close> of an adapter, which may be absent or of another type\<close>

definition adapter_group :: "json \<Rightarrow> string \<Rightarrow> json list res" where
  "adapter_group adapter g =
     (case adapter of
        JObj a \<Rightarrow> (case oget_or a ''commands'' (JObj []) of
            JObj d \<Rightarrow> elements (oget_or d g (JArr [])) | _ \<Rightarrow> Inr [])
      | _ \<Rightarrow> Inr [])"

definition adapter_commands :: "json \<Rightarrow> string list \<Rightarrow> json list res" where
  "adapter_commands adapter groups =
     rbind (rmap (adapter_group adapter) groups) (\<lambda>gs. Inr (filter string_list (concat gs)))"

text \<open>\<^verbatim>\<open>any(... item.lower() ...)\<close>, which stops at the first hit\<close>

fun needs_relaunch :: "json list \<Rightarrow> bool res" where
  "needs_relaunch [] = Inr False"
| "needs_relaunch (v # vs) =
     (case v of
        JStr s \<Rightarrow> if contains ''accessibility'' (lower s) \<and> contains ''relaunch'' (lower s) then Inr True else needs_relaunch vs
      | _ \<Rightarrow> raise AttributeError ''lower'')"

definition feature_verification :: "obj \<Rightarrow> json \<Rightarrow> json \<Rightarrow> verification res" where
  "feature_verification feature adapter tests =
     rbind (adapter_commands adapter [''build'', ''test'', ''lint'', ''package'', ''validate'']) (\<lambda>gates.
     rbind (elements (jor (oget feature ''acceptance_criteria'') (JArr []))) (\<lambda>criteria.
     rbind (needs_relaunch criteria) (\<lambda>relaunch.
     rbind (adapter_commands adapter [''build'', ''test'']) (\<lambda>focused.
     rbind (rbind (adapter_group adapter ''build'') (rmap elements)) (\<lambda>builds.
     rbind (elements (jor tests (JArr []))) (\<lambda>found.
     Inr \<lparr>vf_tier = ''focused_application_feature'', vf_tests = JArr found, vf_commands = JArr focused,
          vf_builds = JArr (map JArr builds),
          vf_gates = Some (JArr (gates @ (if relaunch then [strs [''accessibility'', ''relaunch'', ''smoke'']] else [])
            @ [strs [''deterministic'', ''queue/inventory'', ''validation''],
               strs [''documentation'', ''architecture/ADR'', ''validation''], strs [''git'', ''diff'', ''--check'']])),
          vf_criteria = Some (JArr criteria),
          vf_skipped = strs [''controller full suite: controller implementation is not being changed by the application feature'',
            ''application full build/test during dry-run: dry-runs perform no validation commands'']\<rparr>))))))"

definition plain_verification :: "string \<Rightarrow> string list \<Rightarrow> string list list \<Rightarrow> string list \<Rightarrow> string list \<Rightarrow> verification" where
  "plain_verification tier tests commands builds skipped =
     \<lparr>vf_tier = tier, vf_tests = strs tests, vf_commands = JArr (map strs commands), vf_builds = strs builds,
      vf_gates = None, vf_criteria = None, vf_skipped = strs skipped\<rparr>"

definition docs_path :: "string \<Rightarrow> bool" where
  "docs_path p \<longleftrightarrow> prefix ''docs/'' p \<or> suffix ''.md'' p"

definition safety_path :: "string \<Rightarrow> bool" where
  "safety_path p \<longleftrightarrow> list_ex (\<lambda>t. contains t p) [''ledger'', ''lease'', ''migration'', ''recovery'', ''git'']"

definition controller_verification :: "string list \<Rightarrow> string \<Rightarrow> bool \<Rightarrow> verification" where
  "controller_verification paths risk runtime_changed =
     (if paths \<noteq> [] \<and> list_all docs_path paths then
        plain_verification ''focused'' [] [[''git'', ''diff'', ''--check'']] []
          [''controller suites and application builds: documentation-only change'']
      else if paths \<noteq> [] \<and> list_all (prefix ''config/'') paths then
        plain_verification ''focused'' [''tests/test_config.py'', ''tests/test_cli_compatibility_repair.py'']
          [[''scripts/conveyor'', ''validate-config'']] []
          [''unrelated controller and application tests: executable configuration only'']
      else if list_ex (contains ''integration_executor.py'') paths then
        plain_verification ''integration''
          [''tests/test_deterministic_integration_handoff.py'', ''tests/test_prohibited_actions.py'',
           ''tests/test_integration_recovery_contract.py'']
          [[''disposable-repository'', ''integration-scenario'']] [] []
      else if list_ex (\<lambda>p. suffix ''projection.py'' p \<or> suffix ''execution_plan.py'' p) paths then
        plain_verification ''focused''
          [''tests/test_projection_authority.py'', ''tests/test_planning_transaction_finalization.py'']
          [[''disposable-repository'', ''dry-run'']] [] [''unrelated persistent-store and application tests'']
      else if risk = ''high'' \<or> list_ex safety_path paths then
        plain_verification ''integration'' [''direct safety tests'', ''relevant consistency tests'']
          [[''disposable-repository'', ''end-to-end'']] []
          [''full suite unless a qualifying cross-module failure appears'']
      else plain_verification ''focused'' [''directly affected tests''] []
          (if runtime_changed then [''affected application only''] else []) [''full suite: no qualifying risk trigger''])"

definition verification_plan ::
  "string list \<Rightarrow> string \<Rightarrow> bool \<Rightarrow> obj option \<Rightarrow> json \<Rightarrow> json \<Rightarrow> verification res" where
  "verification_plan paths risk runtime_changed feature adapter tests =
     (case feature of
        Some f \<Rightarrow> if runtime_changed then feature_verification f adapter tests
                  else Inr (controller_verification paths risk runtime_changed)
      | None \<Rightarrow> Inr (controller_verification paths risk runtime_changed))"

subsection \<open>Context\<close>

text \<open>The files of a repository, by the path relative to it\<close>

record files =
  fl_is_file :: "string \<Rightarrow> bool"
  fl_size :: "string \<Rightarrow> int"

definition total_size :: "files \<Rightarrow> string list \<Rightarrow> json" where
  "total_size F ps = JInt (sum_list (map (fl_size F) ps))"

definition context_pack :: "files \<Rightarrow> string list \<Rightarrow> string list \<Rightarrow> bool \<Rightarrow> obj" where
  "context_pack F changed tests high_risk =
     (let fs = firsts (filter (fl_is_file F) (changed @ tests)
                @ (if high_risk then filter (fl_is_file F) [''docs/AUTONOMY_CONTRACT.md'', ''.factory/project.yaml''] else [])) in
      [(''files'', strs fs), (''file_count'', JInt (int (length fs))), (''approximate_bytes_estimate'', total_size F fs),
       (''included_reasons'', JObj (map (\<lambda>p. (p, JStr ''directly affected source, test, or required high-risk contract'')) fs)),
       (''excluded_categories'', strs [''application roadmaps'', ''unrelated feature specifications'', ''full history'',
          ''skills/plugins'', ''raw terminal logs'']),
       (''truncation'', JStr ''none; files are focused'')])"

definition item_spec :: "obj \<Rightarrow> json" where
  "item_spec f = jor (jor (oget f ''spec'') (oget f ''specification'')) (oget f ''spec_path'')"

definition open_candidates :: "qenv \<Rightarrow> feature_queue \<Rightarrow> string \<Rightarrow> obj list res" where
  "open_candidates Q q milestone =
     rbind (select_next Q q milestone) (\<lambda>selected.
     Inr (case selected of
            Some _ \<Rightarrow> []
          | None \<Rightarrow> filter (\<lambda>f. oget f ''status'' \<notin> set (map JStr [''accepted'', ''integrated'', ''passed'', ''completed'']))
                      (features_for_milestone q milestone)))"

definition queue_reconciliation_context_pack ::
  "qenv \<Rightarrow> files \<Rightarrow> feature_queue \<Rightarrow> string \<Rightarrow> string option \<Rightarrow> obj res" where
  "queue_reconciliation_context_pack Q F q location active =
     rbind (open_candidates Q q (case active of None \<Rightarrow> [] | Some m \<Rightarrow> m)) (\<lambda>all_candidates.
     let candidates = take 3 all_candidates;
         paths = [location, ''docs/CURRENT_STATUS.md'', ''docs/FEATURE_CATALOG.md'']
           @ List.map_filter (\<lambda>f. str_of (item_spec f)) candidates
           @ filter (fl_is_file F) [''docs/roadmap/DEVELOPMENT_ROADMAP.md'', ''docs/roadmap/IMPLEMENTATION_TASKS.md''];
         fs = firsts (filter (fl_is_file F) paths) in
     Inr [(''files'', strs fs), (''file_count'', JInt (int (length fs))), (''approximate_bytes_estimate'', total_size F fs),
          (''included_reasons'', JObj ((location, JStr ''compact validated queue and active milestone metadata'')
             # map (\<lambda>p. (p, JStr ''candidate specification or roadmap ordering constraint'')) (filter (\<lambda>p. p \<noteq> location) fs))),
          (''excluded_categories'', strs [''all milestones'', ''unrelated feature specifications'', ''full Git history'',
             ''global memory'', ''application source'']),
          (''candidate_feature_ids'', strs (List.map_filter (\<lambda>f. str_of (oget f ''id'')) candidates)),
          (''excluded_candidate_feature_count'', JInt (max 0 (int (length all_candidates) - int (length candidates)))),
          (''output_contract'', JStr ''queue reconciliation terminal result contract'')])"

text \<open>\<^verbatim>\<open>\b\<close> separates these from the others.\<close>

definition word_char :: "char \<Rightarrow> bool" where
  "word_char c = (let n = of_char c :: nat in
     alnum_char c \<or> c = CHR ''_'' \<or> n \<in> {170, 178, 179, 181, 185, 186, 188, 189, 190}
     \<or> (192 \<le> n \<and> n \<noteq> 215 \<and> n \<noteq> 247))"

definition skill_letter :: "char \<Rightarrow> bool" where
  "skill_letter c \<longleftrightarrow> alnum_char c \<and> lower_char c = c"

text \<open>The skill named at the start of a text: the longest sequence of parts that ends at a word boundary\<close>

definition skill_at :: "string \<Rightarrow> string option" where
  "skill_at s =
     (if prefix MACOS_SKILL_PREFIX s then
        let t = drop (length MACOS_SKILL_PREFIX) s;
            parts = takeWhile (\<lambda>p. p \<noteq> []) (split_on (CHR ''-'') (takeWhile (\<lambda>c. skill_letter c \<or> c = CHR ''-'') t));
            whole = join ''-'' parts;
            rest = drop (length whole) t;
            kept = (if rest \<noteq> [] \<and> word_char (hd rest) then butlast parts else parts) in
        if kept = [] then None else Some (MACOS_SKILL_PREFIX @ join ''-'' kept)
      else None)"

fun skills_in :: "nat \<Rightarrow> bool \<Rightarrow> string \<Rightarrow> string list" where
  "skills_in k before [] = []"
| "skills_in (Suc k) before (c # s) = skills_in k (word_char c) s"
| "skills_in 0 before (c # s) =
     (case (if before then None else skill_at (c # s)) of
        Some m \<Rightarrow> m # skills_in (length m - 1) (word_char c) s
      | None \<Rightarrow> skills_in 0 (word_char c) s)"

definition declared_macos_skills :: "string \<Rightarrow> string list" where
  "declared_macos_skills contract = firsts (skills_in 0 False contract)"

subsection \<open>Evidence\<close>

record validation_inputs =
  vi_source :: string
  vi_configuration :: string
  vi_fixture :: string
  vi_cli :: "string option"
  vi_toolchain :: "string option"
  vi_environment :: "(string \<times> string) list"

definition POLICY_VERSION :: int where
  "POLICY_VERSION = 1"

definition validation_identity :: "string list \<Rightarrow> validation_inputs \<Rightarrow> string" where
  "validation_identity command a =
     sha256_hex (dumps_ascii (JObj
       [(''command'', strs command), (''source_tree_hash'', JStr (vi_source a)),
        (''configuration_hash'', JStr (vi_configuration a)), (''fixture_version'', JStr (vi_fixture a)),
        (''cli_version'', of_opt (vi_cli a)), (''toolchain_version'', of_opt (vi_toolchain a)),
        (''environment'', JObj (map (\<lambda>kv. (fst kv, JStr (snd kv))) (vi_environment a))),
        (''planner_version'', JInt POLICY_VERSION)]))"

definition reusable :: "obj \<Rightarrow> string \<Rightarrow> bool" where
  "reusable record i \<longleftrightarrow>
     record \<noteq> [] \<and> oget record ''status'' = JStr ''passed'' \<and> oget record ''identity'' = JStr i
     \<and> oget record ''complete'' = JBool True \<and> oget record ''trusted'' = JBool True \<and> \<not> truthy (oget record ''dirty'')"

definition invalidation_conditions :: json where
  "invalidation_conditions =
     strs [''relevant source/config/fixture change'', ''CLI or toolchain change'', ''dirty/untrusted result'',
       ''external-state dependency'', ''fresh safety policy'']"

definition reusable_evidence :: "obj option \<Rightarrow> string \<Rightarrow> obj" where
  "reusable_evidence record i =
     (let ok = (case record of None \<Rightarrow> False | Some d \<Rightarrow> reusable d i) in
      [(''reused'', JBool ok), (''originating_run'', if ok then oget (the record) ''run_id'' else JNull),
       (''matching_identity'', if ok then JStr i else JNull),
       (''reason'', JStr (if ok then ''complete trusted identity matches''
          else ''missing, stale, dirty, incomplete, or failed evidence'')),
       (''invalidation_conditions'', invalidation_conditions)])"

text \<open>The cache is a file: its text, \<open>None\<close> when it is absent or cannot be read. \<open>fr\<close> reads floats.\<close>

definition cache_lookup :: "(string \<Rightarrow> string) \<Rightarrow> string option \<Rightarrow> string \<Rightarrow> obj option" where
  "cache_lookup fr file i =
     (case Option.bind file (json_loads fr) of
        Some (JObj d) \<Rightarrow> obj_of (oget d i)
      | _ \<Rightarrow> None)"

definition cache_store :: "(string \<Rightarrow> string) \<Rightarrow> string \<Rightarrow> obj \<Rightarrow> (string option, unit) eff" where
  "cache_store fr i record =
     sbind sget (\<lambda>file.
     case (case Option.bind file (json_loads fr) of None \<Rightarrow> JObj [] | Some v \<Rightarrow> v) of
       JObj d \<Rightarrow> smodify (\<lambda>_. Some (dumps_ascii (JObj (oset i (JObj (oset ''identity'' (JStr i) record)) d)) @ [CHR 0x0A]))
     | _ \<Rightarrow> sthrow TypeError ''object does not support item assignment'')"

subsection \<open>The budget of child sessions\<close>

record session_budget =
  bu_maximum :: int
  bu_workflow :: string
  bu_launched :: int

definition make_budget :: "int \<Rightarrow> string \<Rightarrow> session_budget" where
  "make_budget maximum workflow = \<lparr>bu_maximum = maximum, bu_workflow = workflow, bu_launched = 0\<rparr>"

definition launch :: "string \<Rightarrow> string option \<Rightarrow> (session_budget, 'a) eff \<Rightarrow> (session_budget, 'a) eff" where
  "launch role justification callback =
     sbind sget (\<lambda>b.
     sbind (scheck (bu_launched b < bu_maximum b \<and> justification \<notin> {None, Some []}) PermissionError
              ''child session budget exhausted or prohibited'') (\<lambda>_.
     sbind (smodify (\<lambda>b. b\<lparr>bu_launched := bu_launched b + 1\<rparr>)) (\<lambda>_. callback)))"

subsection \<open>The plan of a run\<close>

text \<open>
  A project as the plan reads it: its queue (what \<^verbatim>\<open>FeatureQueue.from_location\<close> returns), the files of its
  repository, and the text of its adapter. A context comes with the tests and skills it names.
\<close>

record run_project =
  pj_id :: string
  pj_queue :: "feature_queue res"
  pj_location :: string
  pj_milestone :: "string option"
  pj_files :: files
  pj_adapter :: "string option"

record run_context =
  cx_pack :: obj
  cx_tests :: json
  cx_skills :: "string list"

definition selected_text :: "obj \<Rightarrow> string option" where
  "selected_text plan = str_of (oget plan ''selected_feature'')"

definition run_action :: "obj \<Rightarrow> string" where
  "run_action plan = py_str (jor (oget plan ''proposed_next_action'') (JStr ''status''))"

definition deterministic_selection :: "obj \<Rightarrow> bool" where
  "deterministic_selection plan \<longleftrightarrow>
     run_action plan = ''queue_reconciliation'' \<and> selected_text plan \<notin> {None, Some []}"

definition semantic_reconciliation :: "obj \<Rightarrow> bool" where
  "semantic_reconciliation plan \<longleftrightarrow> run_action plan = ''queue_reconciliation'' \<and> \<not> deterministic_selection plan"

definition deterministic_actions :: "string list" where
  "deterministic_actions =
    [''verify_consistency'', ''milestone_integration'', ''planning_finalization'', ''cache_binding_recovery'']"

definition run_task :: "obj \<Rightarrow> bool \<Rightarrow> string" where
  "run_task plan application =
     (if application then ''application_feature''
      else if semantic_reconciliation plan then ''queue_reconciliation''
      else if run_action plan = ''planning_finalization'' then ''planning_finalization''
      else if run_action plan \<in> set deterministic_actions \<or> deterministic_selection plan then ''status''
      else ''controller_repair'')"

definition is_application :: "obj \<Rightarrow> run_project option \<Rightarrow> bool" where
  "is_application plan project \<longleftrightarrow>
     run_action plan = ''feature_cycle'' \<and> project \<noteq> None \<and> selected_text plan \<noteq> None"

definition application_feature :: "obj \<Rightarrow> run_project option \<Rightarrow> obj option res" where
  "application_feature plan project =
     (case project of
        Some p \<Rightarrow> if is_application plan project then
            rbind (pj_queue p) (\<lambda>q.
            case feature_in q (oget plan ''selected_feature'') of
              Some f \<Rightarrow> Inr (Some f)
            | None \<Rightarrow> raise SessionError ''selected application feature is absent from the queue'')
          else Inr None
      | None \<Rightarrow> Inr None)"

definition run_pack ::
  "qenv \<Rightarrow> files \<Rightarrow> (run_project \<Rightarrow> obj \<Rightarrow> run_context res) \<Rightarrow> obj \<Rightarrow> run_project option \<Rightarrow> obj option \<Rightarrow> run_context res" where
  "run_pack Q root application_pack plan project feature =
     (let plain = (\<lambda>d. Inr \<lparr>cx_pack = d, cx_tests = JArr [], cx_skills = []\<rparr>) in
      case project of
        None \<Rightarrow> plain (context_pack root [] [] False)
      | Some p \<Rightarrow>
          if semantic_reconciliation plan then
            rbind (pj_queue p) (\<lambda>q.
            rbind (queue_reconciliation_context_pack Q (pj_files p) q (pj_location p) (pj_milestone p)) plain)
          else (case feature of
              Some f \<Rightarrow> application_pack p f
            | None \<Rightarrow> plain (context_pack root [] [] False)))"

definition run_adapter :: "(string \<Rightarrow> string) \<Rightarrow> run_project option \<Rightarrow> bool \<Rightarrow> json res" where
  "run_adapter fr project application =
     (if application then
        (case Option.bind (Option.bind project pj_adapter) (json_loads fr) of
           None \<Rightarrow> raise SessionError ''application feature adapter is missing or invalid''
         | Some v \<Rightarrow> Inr v)
      else Inr JNull)"

definition run_plan_dict ::
  "obj \<Rightarrow> string \<Rightarrow> string \<Rightarrow> resolved_profile \<Rightarrow> run_context \<Rightarrow> verification \<Rightarrow> string list \<Rightarrow> json \<Rightarrow> json \<Rightarrow> obj" where
  "run_plan_dict plan task risk r c v requested count bytes =
     (let zero = (rp_model r = JNull);
          parents = (if zero then 0 else rp_parent r); children = (if zero then 0 else rp_child r) in
      [(''schema_version'', JInt POLICY_VERSION), (''workflow_type'', JStr (run_action plan)), (''task_classification'', JStr task),
       (''queue_reconciliation_route'', if deterministic_selection plan then JStr ''deterministic_queue_selection''
          else if semantic_reconciliation plan then JStr ''semantic_queue_reconciliation'' else JNull),
       (''risk_classification'', JStr risk),
       (''deterministic_alternative_considered'', JStr ''deterministic route evaluated before profile resolution''),
       (''execution_profile'', JObj (resolved_profile_dict r)), (''profile'', rp_profile r),
       (''profile_resolution_source'', JStr (rp_source r)), (''selected_model'', rp_model r),
       (''selected_reasoning_effort'', rp_reasoning r), (''parent_session_budget'', JInt (rp_parent r)),
       (''child_session_budget'', JInt (rp_child r)),
       (''child_agent_justification'', case rp_delegation r of None \<Rightarrow> JNull | Some d \<Rightarrow> if d = [] then JNull else JObj d),
       (''requested_capability_allowlist'', strs requested), (''relevant_macos_skills'', strs (cx_skills c)),
       (''context_pack'', JObj (cx_pack c)), (''deterministic_commands_planned'', vf_commands v), (''selected_tests'', vf_tests v),
       (''implementation_loop_verification'',
          JObj [(''tests'', vf_tests v), (''commands'', vf_commands v), (''builds'', vf_builds v)]),
       (''final_feature_acceptance_gates'', case vf_gates v of None \<Rightarrow> JArr [] | Some g \<Rightarrow> g),
       (''feature_acceptance_criteria'', case vf_criteria v of None \<Rightarrow> JArr [] | Some g \<Rightarrow> g),
       (''test_tier'', JStr (vf_tier v)), (''skipped_validations'', vf_skipped v), (''reusable_prior_evidence'', JArr []),
       (''evidence_invalidation_conditions'', invalidation_conditions), (''application_builds_planned'', vf_builds v),
       (''expected_application_mutations'', JBool (truthy (oget plan ''application_mutation_expected''))),
       (''expected_cost_class'', JStr risk), (''escalation_trigger'', of_opt (rp_trigger r)),
       (''escalation_profile'', of_opt (rp_escalation r)),
       (''stopping_criteria'', strs [''selected validations pass'', ''no unresolved safety risk'', ''acceptance criteria are proven'']),
       (''execution'', JObj [(''models_planned'', JInt parents)]),
       (''usage_accounting'', JObj [(''deterministic_only'', JBool zero), (''parent_sessions_planned'', JInt parents),
          (''parent_sessions_launched'', JInt 0), (''child_sessions_planned'', JInt children), (''child_sessions_launched'', JInt 0),
          (''context_pack_file_count'', count), (''context_bytes_estimate'', bytes), (''builds_run'', JArr []),
          (''elapsed_time_seconds'', JNull), (''report_files'', JArr []), (''escalated'', JBool (rp_escalated r)),
          (''lower_cost_deterministic_alternative_existed'', JBool zero), (''stopping_criteria_met'', JBool False)]),
       (''dry_run'', JObj (map (\<lambda>k. (k, JInt 0))
          [''models'', ''child_agents'', ''mutations'', ''tests'', ''builds'', ''leases'', ''transactions'']))])"

definition build_run_plan ::
  "(string \<Rightarrow> string) \<Rightarrow> qenv \<Rightarrow> files \<Rightarrow> (run_project \<Rightarrow> obj \<Rightarrow> run_context res) \<Rightarrow> obj
    \<Rightarrow> run_project option \<Rightarrow> json option \<Rightarrow> string option \<Rightarrow> obj res" where
  "build_run_plan fr Q root application_pack plan project configuration override =
     (let application = is_application plan project; task = run_task plan application;
          risk = (if application then ''high'' else ''low'') in
      rbind (application_feature plan project) (\<lambda>feature.
      rbind (resolve_execution_profile task (task \<in> {''status'', ''planning_finalization''}) feature
               (map_option pj_id project) configuration override (oget plan ''execution_profile_escalation_evidence'')) (\<lambda>resolved.
      rbind (run_pack Q root application_pack plan project feature) (\<lambda>c.
      rbind (run_adapter fr project application) (\<lambda>adapter.
      rbind (verification_plan [] risk application feature adapter (cx_tests c)) (\<lambda>v.
      rbind (requested_capability_allowlist (run_action plan) (if application then cx_skills c else [])) (\<lambda>requested.
      rbind (osub (cx_pack c) ''file_count'') (\<lambda>count.
      rbind (osub (cx_pack c) ''approximate_bytes_estimate'') (\<lambda>bytes.
      Inr (run_plan_dict plan task risk resolved c v requested count bytes))))))))))"

end
