(* ===== verification/Cost_Policy_Theorems.thy ===== *)
theory Cost_Policy_Theorems
  imports Cost_Policy Ledger_Durable
begin

section \<open>What the cost policy guarantees\<close>

text \<open>
  The cache of validation evidence is read back as it was stored, over every sequence of stores; the budget of
  child sessions is exact; and a planned run has no session exactly when its task is deterministic.
\<close>

subsection \<open>The cache of evidence\<close>

definition stored :: "string \<Rightarrow> obj \<Rightarrow> json" where
  "stored i r = JObj (oset ''identity'' (JStr i) r)"

definition record_ok :: "(string \<Rightarrow> string) \<Rightarrow> string \<times> obj \<Rightarrow> bool" where
  "record_ok fr ir \<longleftrightarrow> json_wf (JObj (snd ir)) \<and> floats_ok fr (JObj (snd ir))"

definition cache_run :: "(string \<Rightarrow> string) \<Rightarrow> (string \<times> obj) list \<Rightarrow> string option \<Rightarrow> string option" where
  "cache_run fr stores file = foldl (\<lambda>f ir. snd (cache_store fr (fst ir) (snd ir) f)) file stores"

lemma set_aset: "set (aset k v d) \<subseteq> insert (k, v) (set d)"
  by (induction d) auto

lemma oset_ok:
  assumes "json_wf (JObj d)" "floats_ok fr (JObj d)" "json_wf v" "floats_ok fr v"
  shows "json_wf (JObj (oset k v d))" "floats_ok fr (JObj (oset k v d))"
  using assms set_aset [of k v d] by (auto simp: distinct_aset list_all_iff)

text \<open>The document of the file: the one of an absent or unreadable file is empty.\<close>

definition cache_doc :: "(string \<Rightarrow> string) \<Rightarrow> string option \<Rightarrow> json" where
  "cache_doc fr file = (case Option.bind file (json_loads fr) of None \<Rightarrow> JObj [] | Some v \<Rightarrow> v)"

lemma cache_lookup_doc: "cache_doc fr file = JObj d \<Longrightarrow> cache_lookup fr file i = obj_of (oget d i)"
  by (auto simp: cache_doc_def cache_lookup_def split: option.splits)

lemma cache_store_doc:
  assumes "cache_doc fr file = JObj d" "json_wf (JObj d)" "floats_ok fr (JObj d)" "record_ok fr (i, r)"
  shows "cache_doc fr (snd (cache_store fr i r file)) = canon (JObj (oset i (stored i r) d))"
proof -
  have r: "json_wf (stored i r)" "floats_ok fr (stored i r)"
    unfolding stored_def using assms(4) oset_ok [of r fr "JStr i" "''identity''"] by (simp_all add: record_ok_def)
  have "snd (cache_store fr i r file) = Some (dumps_ascii (JObj (oset i (stored i r) d)) @ [CHR 0x0A])"
    using assms(1) by (simp add: cache_store_def cache_doc_def stored_def eff_simps sbind_def)
  then show ?thesis
    using loads_dumps_ascii [OF oset_ok [OF assms(2,3) r]] by (simp add: cache_doc_def)
qed

lemma cache_run_doc:
  assumes "list_all (record_ok fr) stores"
  shows "\<exists>d. cache_doc fr (cache_run fr stores None) = JObj d \<and> json_wf (JObj d) \<and> floats_ok fr (JObj d)
    \<and> (\<forall>i. oget d i = (case map_of (rev stores) i of None \<Rightarrow> JNull | Some r \<Rightarrow> canon (stored i r)))"
  using assms
proof (induction stores rule: rev_induct)
  case Nil
  show ?case by (rule exI [of _ "[]"]) (simp add: cache_run_def cache_doc_def)
next
  case (snoc ir stores)
  obtain i r where ir: "ir = (i, r)" by (cases ir)
  obtain d where d: "cache_doc fr (cache_run fr stores None) = JObj d" "json_wf (JObj d)" "floats_ok fr (JObj d)"
    "\<forall>i. oget d i = (case map_of (rev stores) i of None \<Rightarrow> JNull | Some r \<Rightarrow> canon (stored i r))"
    using snoc by auto
  let ?e = "oset i (stored i r) d"
  have r: "record_ok fr (i, r)" using snoc.prems ir by simp
  then have e: "json_wf (JObj ?e)" "floats_ok fr (JObj ?e)"
    using oset_ok [OF d(2,3), of "stored i r" i] oset_ok [of r fr "JStr i" "''identity''"]
    by (simp_all add: record_ok_def stored_def)
  have "cache_run fr (stores @ [ir]) None = snd (cache_store fr i r (cache_run fr stores None))"
    by (simp add: cache_run_def ir)
  then have "cache_doc fr (cache_run fr (stores @ [ir]) None) = JObj (canon_obj ?e)"
    using cache_store_doc [OF d(1-3) r] by (simp add: canon_JObj_obj)
  moreover have "json_wf (JObj (canon_obj ?e))" "floats_ok fr (JObj (canon_obj ?e))"
    using canon_wf [OF e(1)] canon_floats [OF e(2)] by (simp_all only: canon_JObj_obj)
  moreover have "oget (canon_obj ?e) j = (case map_of (rev (stores @ [ir])) j of None \<Rightarrow> JNull | Some r \<Rightarrow> canon (stored j r))" for j
    using e(1) d(4) by (auto simp: oget_canon_obj ir split: option.split)
  ultimately show ?case by blast
qed

text \<open>
  Claim C30. The evidence cache is a faithful map. After any sequence of stores into an absent file, the lookup of
  an identity returns the last record that was stored under it, in canonical form and carrying that identity,
  and nothing when none was stored: what was written as escaped JSON text is read back.
\<close>

theorem cache_roundtrip:
  assumes "list_all (record_ok fr) stores"
  shows "cache_lookup fr (cache_run fr stores None) i = map_option (\<lambda>r. canon_obj (oset ''identity'' (JStr i) r)) (map_of (rev stores) i)"
proof -
  obtain d where "cache_doc fr (cache_run fr stores None) = JObj d"
    "oget d i = (case map_of (rev stores) i of None \<Rightarrow> JNull | Some r \<Rightarrow> canon (stored i r))"
    using cache_run_doc [OF assms] by blast
  then show ?thesis
    by (simp add: cache_lookup_doc stored_def canon_JObj_obj split: option.split)
qed

theorem cache_roundtrip_witness:
  "cache_lookup (\<lambda>r. r) (cache_run (\<lambda>r. r) [(''a'', [(''status'', JStr ''passed'')]), (''b'', []), (''a'', [(''status'', JStr ''failed'')])] None) ''a''
     = Some [(''identity'', JStr ''a''), (''status'', JStr ''failed'')]"
proof -
  have "list_all (record_ok (\<lambda>r. r)) [(''a'', [(''status'', JStr ''passed'')]), (''b'', []), (''a'', [(''status'', JStr ''failed'')])]"
    by (simp add: record_ok_def)
  from cache_roundtrip [OF this, of "''a''"] show ?thesis by (simp add: canon_obj_def)
qed

subsection \<open>The budget\<close>

fun launches :: "(string \<times> string option \<times> 'a res) list \<Rightarrow> session_budget \<Rightarrow> session_budget" where
  "launches [] b = b"
| "launches ((role, justification, outcome) # rs) b = launches rs (snd (launch role justification (slift outcome) b))"

definition justified :: "string \<times> string option \<times> 'a res \<Rightarrow> bool" where
  "justified x \<longleftrightarrow> fst (snd x) \<notin> {None, Some []}"

lemma launch_step:
  "snd (launch role justification (slift outcome) b) =
     (if bu_launched b < bu_maximum b \<and> justification \<notin> {None, Some []} then b\<lparr>bu_launched := bu_launched b + 1\<rparr> else b)"
  by (auto simp: launch_def sbind_def eff_simps raise_def)

lemma launches_count:
  "bu_launched (launches rs b) =
     bu_launched b + min (max 0 (bu_maximum b - bu_launched b)) (int (length (filter justified rs)))"
proof (induction rs arbitrary: b)
  case (Cons x rs)
  obtain role j out where "x = (role, j, out)" by (cases x)
  then show ?case using Cons by (auto simp: launch_step justified_def)
qed simp

text \<open>
  Claim C32. The budget of child sessions is exact. Whatever is requested of a fresh budget and whatever the
  sessions do, the number launched is the number of justified requests, cut at the maximum; unjustified requests
  and requests beyond the maximum launch nothing, and a negative maximum is none.
\<close>

theorem child_budget_exact:
  "bu_launched (launches requests (make_budget maximum workflow)) =
     min (max 0 maximum) (int (length (filter justified requests)))"
  by (simp add: launches_count make_budget_def)

subsection \<open>Planned sessions\<close>

definition plans_no_session :: "obj \<Rightarrow> bool" where
  "plans_no_session d \<longleftrightarrow>
     oget d ''selected_model'' = JNull \<and> oget d ''parent_session_budget'' = JInt 0 \<and> oget d ''child_session_budget'' = JInt 0
     \<and> oget d ''execution'' = JObj [(''models_planned'', JInt 0)]"

definition plans_named_session :: "obj \<Rightarrow> bool" where
  "plans_named_session d \<longleftrightarrow>
     named_default (oget d ''profile'') (oget d ''selected_model'') (oget d ''selected_reasoning_effort'')
     \<and> (case (oget d ''parent_session_budget'', oget d ''execution'') of
          (JInt n, JObj e) \<Rightarrow> 1 \<le> n \<and> e = [(''models_planned'', JInt n)] | _ \<Rightarrow> False)"

lemma named_default_model: "\<not> named_default p JNull q"
proof -
  have "list_all (\<lambda>n. default_part n ''model'' \<noteq> JNull) PROFILE_NAMES" by code_simp
  then show ?thesis by (auto simp: named_default_def list_ex_iff list_all_iff)
qed

lemma build_run_plan_Inr:
  assumes "build_run_plan fr Q root ap plan project configuration override = Inr d"
  obtains r feature c v requested count bytes where
    "resolve_execution_profile (run_task plan (is_application plan project))
       (run_task plan (is_application plan project) \<in> {''status'', ''planning_finalization''}) feature (map_option pj_id project)
       configuration override (oget plan ''execution_profile_escalation_evidence'') = Inr r"
    "d = run_plan_dict plan (run_task plan (is_application plan project)) (if is_application plan project then ''high'' else ''low'')
           r c v requested count bytes"
    "requested_capability_allowlist (run_action plan) (if is_application plan project then cx_skills c else []) = Inr requested"
  using assms unfolding build_run_plan_def Let_def
  by (auto simp del: rbind_eq_Inr elim!: rbind_InrE)

text \<open>
  Claim C28. A planned run starts a session exactly when its task needs one. Whatever the action, project and
  configuration are, the plan of a deterministic task has no model and no session; the plan of every other task
  names one of the fixed profiles with its own model and reasoning, and at least one session. All counters
  of its dry run are zero.
\<close>

theorem run_plan_sessions:
  "case build_run_plan fr Q root ap plan project configuration override of
     Inl e \<Rightarrow> True
   | Inr d \<Rightarrow>
       (if run_task plan (is_application plan project) \<in> {''status'', ''planning_finalization''}
        then plans_no_session d else plans_named_session d)
       \<and> oget d ''workflow_type'' = JStr (run_action plan)
       \<and> (case oget d ''dry_run'' of JObj z \<Rightarrow> list_all (\<lambda>kv. snd kv = JInt 0) z | _ \<Rightarrow> False)"
proof (cases "build_run_plan fr Q root ap plan project configuration override")
  case (Inr d)
  let ?task = "run_task plan (is_application plan project)"
  obtain r feature c v requested count bytes where r:
    "resolve_execution_profile ?task (?task \<in> {''status'', ''planning_finalization''}) feature (map_option pj_id project)
       configuration override (oget plan ''execution_profile_escalation_evidence'') = Inr r"
    and d: "d = run_plan_dict plan ?task (if is_application plan project then ''high'' else ''low'') r c v requested count bytes"
    using build_run_plan_Inr [OF Inr] by metis
  have "trusted_profile (?task \<in> {''status'', ''planning_finalization''}) (oget plan ''execution_profile_escalation_evidence'') r"
    using resolve_trusted [where workflow = ?task and deterministic = "?task \<in> {''status'', ''planning_finalization''}"
        and feature = feature and project = "map_option pj_id project" and configuration = configuration
        and override = override and evidence = "oget plan ''execution_profile_escalation_evidence''"] r by simp
  then show ?thesis
    by (auto simp: named_default_model Inr d run_plan_dict_def trusted_profile_def plans_no_session_def plans_named_session_def Let_def)
qed simp

end
