(* ===== verification/Autopilot_Ownership.thy ===== *)
theory Autopilot_Ownership
  imports Locks
begin

section \<open>Ownership of the autopilot\<close>

text \<open>
  \<^verbatim>\<open>AutopilotOwnership\<close> of \<^verbatim>\<open>autopilot.py\<close>: one process owns the continuous loop of a project. Its
  record is a file like the other locks, so the state is a \<open>lock_dir\<close>; what the machine and the repository
  tell a call is an \<open>ap_view\<close>. \<^verbatim>\<open>acquire\<close> reads and authenticates the record it finds, and only later
  moves it aside: \<open>ownership_decide\<close> and \<open>ownership_commit\<close> are the two halves, a call that nothing
  interrupts is \<open>ownership_acquire\<close>.
\<close>

definition AUTOPILOT_EVENTS :: "string list" where
  "AUTOPILOT_EVENTS =
    [''AUTOPILOT_STARTED'', ''FEATURE_SELECTED'', ''FEATURE_CONTEXT_STARTED'', ''FEATURE_CONTEXT_READY'',
     ''FEATURE_SESSION_STARTED'', ''FEATURE_RESULT_RETAINED'', ''FEATURE_ACCEPTED'', ''FEATURE_INTEGRATED'',
     ''FEATURE_BLOCKED'', ''RECOVERY_STARTED'', ''RECOVERY_APPLIED'', ''FEATURE_REPAIR_STARTED'',
     ''FEATURE_REPAIR_VALIDATION_STARTED'', ''STOP_REQUESTED'', ''AUTOPILOT_STOPPED'', ''AUTOPILOT_COMPLETED'',
     ''AUTOPILOT_FAILED'']"

record ap_view =
  av_proc :: proc
  av_start :: string
  av_project :: string
  av_repository :: string
  av_identity :: string
  av_fingerprint :: string
  av_branch :: "string option"
  av_head :: string
  av_clean :: bool
  av_operation :: bool
  av_writer :: lock_file

definition ownership_record :: "ap_view \<Rightarrow> string \<Rightarrow> obj" where
  "ownership_record v run_id =
    [(''schema_version'', JInt 1), (''run_id'', JStr run_id), (''project_id'', JStr (av_project v)),
     (''repository'', JStr (av_repository v)), (''repository_identity'', JStr (av_identity v)),
     (''repository_path_fingerprint'', JStr (av_fingerprint v)), (''repository_branch'', of_opt (av_branch v)),
     (''repository_head'', JStr (av_head v)), (''process_id'', JInt (pr_pid (av_proc v))),
     (''process_start_identity'', JStr (av_start v)), (''host'', JStr (pr_host (av_proc v))),
     (''created_at'', JStr (pr_now (av_proc v))), (''last_heartbeat'', JStr (pr_now (av_proc v))),
     (''last_completed_event'', JNull), (''ledger_sequence'', JNull), (''ledger_fingerprint'', JNull),
     (''projection_fingerprint'', JNull)]"

text \<open>\<^verbatim>\<open>process_alive(pid) is False\<close> of a proper integer\<close>

definition proven_dead :: "proc \<Rightarrow> json \<Rightarrow> bool" where
  "proven_dead w pid = (case pid of JInt i \<Rightarrow> pr_alive w i = Some False | _ \<Rightarrow> False)"

definition owner_checks :: "ap_view \<Rightarrow> obj \<Rightarrow> bool" where
  "owner_checks v r \<longleftrightarrow>
     oget r ''project_id'' = JStr (av_project v) \<and> oget r ''repository'' = JStr (av_repository v)
     \<and> oget r ''repository_identity'' = JStr (av_identity v)
     \<and> oget r ''repository_path_fingerprint'' = JStr (av_fingerprint v)
     \<and> oget r ''host'' = JStr (pr_host (av_proc v)) \<and> nonempty_str (oget r ''run_id'')
     \<and> nonempty_str (oget r ''process_start_identity'')
     \<and> (case oget r ''last_completed_event'' of JNull \<Rightarrow> True | JStr e \<Rightarrow> e \<in> set AUTOPILOT_EVENTS | _ \<Rightarrow> False)
     \<and> nonempty_str (oget r ''repository_branch'') \<and> nonempty_str (oget r ''repository_head'')
     \<and> av_clean v \<and> \<not> av_operation v \<and> proven_dead (av_proc v) (oget r ''process_id'')"

text \<open>The writer lease of the repository, if there is one, is of the same dead process.\<close>

definition writer_of_owner :: "ap_view \<Rightarrow> obj \<Rightarrow> obj \<Rightarrow> bool" where
  "writer_of_owner v r writer \<longleftrightarrow>
     (let pid = jor (oget writer ''owner_pid'') (oget writer ''pid'') in
      jor (oget writer ''owner_host'') (oget writer ''host'') = JStr (pr_host (av_proc v))
      \<and> oget writer ''project_id'' = JStr (av_project v)
      \<and> jor (oget writer ''repository_path'') (oget writer ''repository'') = JStr (av_repository v)
      \<and> is_int pid \<and> py_eq pid (oget r ''process_id'')
      \<and> (case int_of pid of Some i \<Rightarrow> pr_alive (av_proc v) i = Some False | None \<Rightarrow> False)
      \<and> (let start = jor (oget writer ''owner_process_start'') (oget writer ''start_time'') in
         nonempty_str start \<and> start = oget r ''process_start_identity''))"

definition authenticate_dead_owner :: "ap_view \<Rightarrow> obj \<Rightarrow> unit res" where
  "authenticate_dead_owner v r =
     rbind (check (\<not> is_list (oget r ''last_completed_event'') \<and> \<not> is_dict (oget r ''last_completed_event''))
              TypeError ''unhashable type'') (\<lambda>_.
     rbind (check (owner_checks v r) AmbiguousLockError
              ''existing autopilot ownership cannot be authenticated as recoverable'') (\<lambda>_.
     rbind (read_lock (av_writer v)) (\<lambda>writer.
     check (case writer of None \<Rightarrow> True | Some l \<Rightarrow> writer_of_owner v r l) AmbiguousLockError
       ''dead autopilot ownership has an unauthenticated application writer lease'')))"

definition ownership_name :: "obj \<Rightarrow> string" where
  "ownership_name r = ''ownership.recovered-'' @ py_str (oget r ''run_id'') @ ''.json''"

text \<open>What \<^verbatim>\<open>acquire\<close> concludes from the record it read: the one to move aside, if any.\<close>

definition ownership_decide :: "ap_view \<Rightarrow> (lock_dir, obj option) eff" where
  "ownership_decide v =
     sbind load_lock (\<lambda>existing.
     case existing of
       None \<Rightarrow> sret None
     | Some r \<Rightarrow>
         sbind (scheck (holder_alive (av_proc v) (oget r ''host'') (oget r ''process_id'') \<noteq> Some True) LockError
                  ''autopilot is already active for project'') (\<lambda>_.
         sbind (slift (authenticate_dead_owner v r)) (\<lambda>_.
         sbind (scheck (CHR ''/'' \<notin> set (ownership_name r)) ValueError ''Invalid name'') (\<lambda>_.
         sret (Some r)))))"

text \<open>The record is moved aside in two steps as well: the recovery file is looked for, and then the lock goes.\<close>

definition look_aside :: "obj \<Rightarrow> (lock_dir, bool) eff" where
  "look_aside r =
     sbind sget (\<lambda>d.
     case map_of (ld_evidence d) (ownership_name r) of
       Some None \<Rightarrow> sthrow ValueError ''Expecting value''
     | Some (Some prior) \<Rightarrow>
         sbind (scheck (py_eq prior (JObj r)) AmbiguousLockError
                  ''autopilot crash-recovery evidence already differs'') (\<lambda>_. sret True)
     | None \<Rightarrow> sret False)"

definition take_aside :: "obj \<Rightarrow> bool \<Rightarrow> (lock_dir, unit) eff" where
  "take_aside r seen =
     sbind sget (\<lambda>d.
     case ld_lock d of
       None \<Rightarrow> sthrow OSError ''No such file or directory''
     | Some content \<Rightarrow>
         if seen then unlink_lock
         else smodify (\<lambda>d. d\<lparr>ld_evidence := (ownership_name r, content) # ld_evidence d, ld_lock := None\<rparr>))"

definition move_aside :: "obj \<Rightarrow> (lock_dir, unit) eff" where
  "move_aside r = sbind (look_aside r) (take_aside r)"

definition create_ownership :: "ap_view \<Rightarrow> string \<Rightarrow> (lock_dir, obj) eff" where
  "create_ownership v run_id =
     sbind (create_lock ''autopilot ownership appeared concurrently'' (ownership_record v run_id)) (\<lambda>_.
     sret (ownership_record v run_id))"

definition ownership_commit :: "ap_view \<Rightarrow> string \<Rightarrow> obj option \<Rightarrow> (lock_dir, obj \<times> string option) eff" where
  "ownership_commit v run_id found =
     sbind (case found of None \<Rightarrow> sret () | Some r \<Rightarrow> move_aside r) (\<lambda>_.
     sbind (create_ownership v run_id) (\<lambda>r. sret (r, map_option ownership_name found)))"

definition ownership_acquire :: "ap_view \<Rightarrow> string \<Rightarrow> (lock_dir, obj \<times> string option) eff" where
  "ownership_acquire v run_id = sbind (ownership_decide v) (ownership_commit v run_id)"

text \<open>\<open>self\<close> is \<^verbatim>\<open>self.run_id\<close>, the run that acquired.\<close>

definition with_projection :: "obj \<Rightarrow> obj \<Rightarrow> obj" where
  "with_projection projection r =
     foldl (\<lambda>r k. if oget projection k \<noteq> JNull then oset k (oget projection k) r else r) r
       [''ledger_sequence'', ''ledger_fingerprint'', ''projection_fingerprint'']"

definition heartbeat_read :: "ap_view \<Rightarrow> string option \<Rightarrow> string \<Rightarrow> obj \<Rightarrow> (lock_dir, obj) eff" where
  "heartbeat_read v self event projection =
     sbind load_lock (\<lambda>existing.
     case (existing, self) of
       (Some r, Some run_id) \<Rightarrow>
         sbind (scheck (oget r ''run_id'' = JStr run_id \<and> py_eq (oget r ''process_id'') (JInt (pr_pid (av_proc v)))
                  \<and> oget r ''process_start_identity'' = JStr (av_start v))
                LockError ''autopilot ownership changed during execution'') (\<lambda>_.
         sret (with_projection projection
           (oset ''repository_head'' (JStr (av_head v)) (oset ''repository_branch'' (of_opt (av_branch v))
           (oset ''last_completed_event'' (JStr event) (oset ''last_heartbeat'' (JStr (pr_now (av_proc v))) r))))))
     | _ \<Rightarrow> sthrow LockError ''autopilot ownership changed during execution'')"

definition ownership_heartbeat ::
  "(string \<Rightarrow> string) \<Rightarrow> ap_view \<Rightarrow> string option \<Rightarrow> string \<Rightarrow> obj \<Rightarrow> (lock_dir, unit) eff" where
  "ownership_heartbeat rt v self event projection =
     sbind (heartbeat_read v self event projection) (replace_lock rt)"

definition release_read :: "string option \<Rightarrow> (lock_dir, bool) eff" where
  "release_read self =
     sbind load_lock (\<lambda>existing.
     case existing of
       None \<Rightarrow> sret False
     | Some r \<Rightarrow>
         sbind (scheck (self \<noteq> None \<and> oget r ''run_id'' = of_opt self) LockError
                  ''refusing to release another autopilot owner's record'') (\<lambda>_. sret True))"

definition ownership_release :: "string option \<Rightarrow> (lock_dir, unit) eff" where
  "ownership_release self =
     sbind (release_read self) (\<lambda>owned. if owned then unlink_lock else sret ())"

lemma decide_state: "ownership_decide v d = (r, t) \<Longrightarrow> t = d"
  by (auto simp: ownership_decide_def load_lock_apply sbind_def eff_simps split: sum.splits option.splits prod.splits)

lemma decide_None: "ownership_decide v d = (Inr None, t) \<Longrightarrow> ld_lock d = None \<and> t = d"
  by (auto simp: ownership_decide_def lock_runs split: option.splits)

lemma decide_Some:
  "ownership_decide v d = (Inr (Some r), t) \<Longrightarrow> ld_lock d = Some (Some (JObj r)) \<and> owner_checks v r \<and> t = d"
  by (auto simp: ownership_decide_def authenticate_dead_owner_def lock_runs split: option.splits)

lemma move_aside_run:
  assumes "move_aside r d = (Inr u, t)"
  shows "ld_lock t = None" "ld_lock d = Some (Some (JObj r)) \<Longrightarrow>
    (case map_of (ld_evidence t) (ownership_name r) of Some (Some prior) \<Rightarrow> prior = JObj r \<or> py_eq prior (JObj r) | _ \<Rightarrow> False)"
  using assms
  by (auto simp: move_aside_def look_aside_def take_aside_def unlink_lock_def lock_runs sthrow_def
      split: option.splits if_splits)

lemma oget_with_projection:
  "k \<notin> {''ledger_sequence'', ''ledger_fingerprint'', ''projection_fingerprint''} \<Longrightarrow>
    oget (with_projection p r) k = oget r k"
  by (simp add: with_projection_def)

lemma ownership_heartbeat_alt:
  "ownership_heartbeat rt v self event projection =
     sbind load_lock (\<lambda>existing.
     case (existing, self) of
       (Some r, Some run_id) \<Rightarrow>
         sbind (scheck (oget r ''run_id'' = JStr run_id \<and> py_eq (oget r ''process_id'') (JInt (pr_pid (av_proc v)))
                  \<and> oget r ''process_start_identity'' = JStr (av_start v))
                LockError ''autopilot ownership changed during execution'') (\<lambda>_.
         replace_lock rt (with_projection projection
           (oset ''repository_head'' (JStr (av_head v)) (oset ''repository_branch'' (of_opt (av_branch v))
           (oset ''last_completed_event'' (JStr event) (oset ''last_heartbeat'' (JStr (pr_now (av_proc v))) r))))))
     | _ \<Rightarrow> sthrow LockError ''autopilot ownership changed during execution'')"
  by (auto simp: ownership_heartbeat_def heartbeat_read_def sbind_def eff_simps fun_eq_iff raise_def
      split: option.split sum.split prod.split)

lemma ownership_release_alt:
  "ownership_release self =
     sbind load_lock (\<lambda>existing.
     case existing of
       None \<Rightarrow> sret ()
     | Some r \<Rightarrow>
         sbind (scheck (self \<noteq> None \<and> oget r ''run_id'' = of_opt self) LockError
                  ''refusing to release another autopilot owner's record'') (\<lambda>_. unlink_lock))"
  by (auto simp: ownership_release_def release_read_def sbind_def eff_simps fun_eq_iff raise_def
      split: option.split sum.split prod.split)

subsection \<open>Interleaved runs\<close>

text \<open>
  The runs of several processes on one project, one access to a file at a time. A run between two accesses is at a
  \<open>stage\<close>: what it concluded from what it read. Its next access uses that conclusion, whatever the others did in
  between; an error ends its call.
\<close>

datatype stage = ToLook obj | ToTake obj bool | ToCreate | ToWrite obj | ToDrop

record owner_world =
  ow_dir :: lock_dir
  ow_stage :: "string \<Rightarrow> stage option"

datatype owner_event =
    ODecide ap_view string | OLook string | OTake string | OCreate ap_view string
  | OBeat ap_view string string obj | OWrite string | ORelease string | ODrop string

definition proceed :: "string \<Rightarrow> ('a \<Rightarrow> stage option) \<Rightarrow> (lock_dir, 'a) eff \<Rightarrow> owner_world \<Rightarrow> owner_world" where
  "proceed k f m s =
     (case m (ow_dir s) of (r, d) \<Rightarrow>
        \<lparr>ow_dir = d, ow_stage = (ow_stage s)(k := case r of Inl e \<Rightarrow> None | Inr x \<Rightarrow> f x)\<rparr>)"

fun owner_event_step :: "(string \<Rightarrow> string) \<Rightarrow> owner_event \<Rightarrow> owner_world \<Rightarrow> owner_world" where
  "owner_event_step rt (ODecide v k) s =
     proceed k (\<lambda>found. Some (case found of None \<Rightarrow> ToCreate | Some r \<Rightarrow> ToLook r)) (ownership_decide v) s"
| "owner_event_step rt (OLook k) s =
     (case ow_stage s k of Some (ToLook r) \<Rightarrow> proceed k (\<lambda>seen. Some (ToTake r seen)) (look_aside r) s | _ \<Rightarrow> s)"
| "owner_event_step rt (OTake k) s =
     (case ow_stage s k of Some (ToTake r seen) \<Rightarrow> proceed k (\<lambda>_. Some ToCreate) (take_aside r seen) s | _ \<Rightarrow> s)"
| "owner_event_step rt (OCreate v k) s =
     (case ow_stage s k of Some ToCreate \<Rightarrow> proceed k (\<lambda>_. None) (create_ownership v k) s | _ \<Rightarrow> s)"
| "owner_event_step rt (OBeat v k event projection) s =
     proceed k (\<lambda>r. Some (ToWrite r)) (heartbeat_read v (Some k) event projection) s"
| "owner_event_step rt (OWrite k) s =
     (case ow_stage s k of Some (ToWrite r) \<Rightarrow> proceed k (\<lambda>_. None) (replace_lock rt r) s | _ \<Rightarrow> s)"
| "owner_event_step rt (ORelease k) s =
     proceed k (\<lambda>owned. if owned then Some ToDrop else None) (release_read (Some k)) s"
| "owner_event_step rt (ODrop k) s =
     (case ow_stage s k of Some ToDrop \<Rightarrow> proceed k (\<lambda>_. None) unlink_lock s | _ \<Rightarrow> s)"

definition owner_events :: "(string \<Rightarrow> string) \<Rightarrow> owner_event list \<Rightarrow> owner_world \<Rightarrow> owner_world" where
  "owner_events rt es s = foldl (\<lambda>s e. owner_event_step rt e s) s es"

text \<open>
  The fields of a record that say who the owner is, and what a process would have to observe to take over from the
  owner \<open>o\<close>: it is on the same machine and works on the same project and repository, the repository is clean and in
  no Git operation, and the owner's process is gone.
\<close>

definition owner_fields :: "string list" where
  "owner_fields = [''run_id'', ''project_id'', ''repository'', ''repository_identity'', ''repository_path_fingerprint'',
     ''host'', ''process_id'', ''process_start_identity'']"

definition owner_gone :: "ap_view \<Rightarrow> ap_view \<Rightarrow> bool" where
  "owner_gone o' v \<longleftrightarrow>
     av_project v = av_project o' \<and> av_repository v = av_repository o' \<and> av_identity v = av_identity o'
     \<and> av_fingerprint v = av_fingerprint o' \<and> pr_host (av_proc v) = pr_host (av_proc o')
     \<and> av_clean v \<and> \<not> av_operation v \<and> pr_alive (av_proc v) (pr_pid (av_proc o')) = Some False"

text \<open>\<^verbatim>\<open>atomic_write_json\<close> redacts what a heartbeat writes; a repository whose path it replaces is a
  case of its own.\<close>

definition redaction_spares :: "(string \<Rightarrow> string) \<Rightarrow> ap_view \<Rightarrow> string \<Rightarrow> bool" where
  "redaction_spares rt o' k \<longleftrightarrow> list_all (\<lambda>x. rt x = x)
     [k, av_project o', av_repository o', av_identity o', av_fingerprint o', pr_host (av_proc o'), av_start o']"

fun owner_kept_by :: "(string \<Rightarrow> string) \<Rightarrow> ap_view \<Rightarrow> string \<Rightarrow> owner_event \<Rightarrow> bool" where
  "owner_kept_by rt o' k (ODecide v j) = (j \<noteq> k \<and> \<not> owner_gone o' v)"
| "owner_kept_by rt o' k (OBeat v j event projection) =
     (j = k \<longrightarrow> redaction_spares rt o' k)"
| "owner_kept_by rt o' k (ORelease j) = (j \<noteq> k)"
| "owner_kept_by rt o' k _ = True"

text \<open>The world after the owner's creation: the lock is its record, and other runs can only be about to create.\<close>

definition kept_record :: "ap_view \<Rightarrow> string \<Rightarrow> obj \<Rightarrow> bool" where
  "kept_record o' k r \<longleftrightarrow> map (oget r) owner_fields = map (oget (ownership_record o' k)) owner_fields"

definition owner_inv :: "(string \<Rightarrow> string) \<Rightarrow> ap_view \<Rightarrow> string \<Rightarrow> owner_world \<Rightarrow> bool" where
  "owner_inv rt o' k s \<longleftrightarrow>
     (\<exists>r. ld_lock (ow_dir s) = Some (Some (JObj r)) \<and> kept_record o' k r)
     \<and> (\<forall>j. ow_stage s j = None \<or> ow_stage s j = Some ToCreate
          \<or> j = k \<and> (\<exists>r. ow_stage s j = Some (ToWrite r) \<and> kept_record o' k r
              \<and> redaction_spares rt o' k))"

lemma owner_fields_plain: "list_all (\<lambda>f. \<not> sensitive_key f) owner_fields"
  by code_simp

lemma kept_record_redact:
  assumes "kept_record o' k r" "redaction_spares rt o' k"
  shows "\<exists>r'. redact_value rt (JObj r) = JObj r' \<and> kept_record o' k r'"
  using assms owner_fields_plain
  by (simp add: kept_record_def owner_fields_def oget_redact ownership_record_def redaction_spares_def)

lemma kept_record_checks:
  "kept_record o' k r \<Longrightarrow> owner_checks v r \<Longrightarrow> owner_gone o' v"
  by (auto simp: kept_record_def owner_fields_def ownership_record_def owner_checks_def owner_gone_def proven_dead_def)

lemma kept_record_beat:
  "kept_record o' k r \<Longrightarrow>
    kept_record o' k (with_projection p (oset ''repository_head'' h (oset ''repository_branch'' b
      (oset ''last_completed_event'' e (oset ''last_heartbeat'' n r)))))"
  by (simp add: kept_record_def owner_fields_def oget_with_projection)

lemma inv_stage:
  "owner_inv rt o' k s \<Longrightarrow> ow_stage s j = Some st \<Longrightarrow>
    st = ToCreate \<or> j = k \<and> (\<exists>r. st = ToWrite r \<and> kept_record o' k r
      \<and> redaction_spares rt o' k)"
  unfolding owner_inv_def by (metis option.distinct(1) option.inject)

lemma inv_keep:
  assumes "owner_inv rt o' k s" "ld_lock d = ld_lock (ow_dir s)"
    "st = None \<or> st = Some ToCreate"
  shows "owner_inv rt o' k \<lparr>ow_dir = d, ow_stage = (ow_stage s)(j := st)\<rparr>"
proof -
  have stages: "ow_stage s i = None \<or> ow_stage s i = Some ToCreate
      \<or> i = k \<and> (\<exists>r. ow_stage s i = Some (ToWrite r) \<and> kept_record o' k r
          \<and> redaction_spares rt o' k)" for i
    using assms(1) unfolding owner_inv_def by (elim conjE allE)
  show ?thesis
    unfolding owner_inv_def owner_world.simps
  proof (intro conjI allI)
    show "\<exists>r. ld_lock d = Some (Some (JObj r)) \<and> kept_record o' k r"
      using assms(1) unfolding owner_inv_def assms(2) by (elim conjE)
    show "((ow_stage s)(j := st)) i = None \<or> ((ow_stage s)(j := st)) i = Some ToCreate
        \<or> i = k \<and> (\<exists>r. ((ow_stage s)(j := st)) i = Some (ToWrite r) \<and> kept_record o' k r
            \<and> redaction_spares rt o' k)" for i
    proof (cases "i = j")
      case True
      then show ?thesis using assms(3) by (simp only: fun_upd_same) blast
    next
      case False
      then show ?thesis using stages [of i] by (simp only: fun_upd_other not_False_eq_True)
    qed
  qed
qed

lemma heartbeat_read_run:
  assumes "ld_lock d = Some (Some (JObj r))"
  shows "heartbeat_read v (Some j) event projection d =
    (if oget r ''run_id'' = JStr j \<and> py_eq (oget r ''process_id'') (JInt (pr_pid (av_proc v)))
        \<and> oget r ''process_start_identity'' = JStr (av_start v)
     then Inr (with_projection projection
           (oset ''repository_head'' (JStr (av_head v)) (oset ''repository_branch'' (of_opt (av_branch v))
           (oset ''last_completed_event'' (JStr event) (oset ''last_heartbeat'' (JStr (pr_now (av_proc v))) r)))))
     else raise LockError ''autopilot ownership changed during execution'', d)"
  using assms
  by (simp add: heartbeat_read_def load_lock_apply read_lock_def sbind_def eff_simps check_def raise_def sret_def)

lemma owner_inv_step:
  assumes inv: "owner_inv rt o' k s" and kept: "owner_kept_by rt o' k e"
  shows "owner_inv rt o' k (owner_event_step rt e s)"
proof -
  obtain r where r: "ld_lock (ow_dir s) = Some (Some (JObj r))" "kept_record o' k r"
    using inv unfolding owner_inv_def by blast
  have run: "oget r ''run_id'' = JStr k"
    using r(2) by (simp add: kept_record_def owner_fields_def ownership_record_def)
  show ?thesis
  proof (cases e)
    case (ODecide v j)
    obtain x t where x: "ownership_decide v (ow_dir s) = (x, t)" by force
    have "t = ow_dir s" using decide_state x by blast
    moreover have "x \<noteq> Inr None" "\<And>r'. x \<noteq> Inr (Some r')"
      using decide_None [of v "ow_dir s" t] decide_Some [of v "ow_dir s" _ t] x r kept ODecide kept_record_checks by auto
    ultimately have "ownership_decide v (ow_dir s) = (x, ow_dir s)" "\<exists>e. x = Inl e"
      using x by (auto, metis (full_types) option.exhaust sum.exhaust_sel)
    then show ?thesis using inv_keep [OF inv refl] ODecide by (auto simp: proceed_def)
  next
    case (OLook j)
    then show ?thesis using inv inv_stage by (fastforce split: option.splits stage.splits)
  next
    case (OTake j)
    then show ?thesis using inv inv_stage by (fastforce split: option.splits stage.splits)
  next
    case (OCreate v j)
    have "create_ownership v j (ow_dir s) = (raise LockError ''autopilot ownership appeared concurrently'', ow_dir s)"
      using r by (simp add: create_ownership_def create_lock_def sbind_def eff_simps check_def raise_def)
    then show ?thesis using inv inv_keep [OF inv refl] OCreate
      by (auto simp: proceed_def raise_def split: option.splits stage.splits)
  next
    case (OBeat v j event projection)
    define x where "x = fst (heartbeat_read v (Some j) event projection (ow_dir s))"
    have x: "heartbeat_read v (Some j) event projection (ow_dir s) = (x, ow_dir s)"
      unfolding x_def heartbeat_read_run [OF r(1)] by simp
    have beat: "j = k \<and> kept_record o' k r'" if "x = Inr r'" for r'
      using that run kept_record_beat [OF r(2)]
      unfolding x_def heartbeat_read_run [OF r(1)] by (auto simp: raise_def split: if_splits)
    show ?thesis
    proof (cases x)
      case (Inl e)
      then show ?thesis using inv_keep [OF inv refl] x OBeat by (simp add: proceed_def)
    next
      case (Inr w)
      then have w: "j = k" "kept_record o' k w" using beat by simp_all
      show ?thesis
        using inv kept x Inr w OBeat unfolding owner_inv_def by (simp add: proceed_def) blast
    qed
  next
    case (OWrite j)
    show ?thesis
    proof (cases "ow_stage s j")
      case (Some st)
      then show ?thesis
      proof (cases st)
        case (ToWrite w)
        then obtain r' where "redact_value rt (JObj w) = JObj r'" "kept_record o' k r'"
          using inv_stage [OF inv Some] kept_record_redact by blast
        then show ?thesis using inv Some ToWrite OWrite
          by (auto simp: proceed_def replace_lock_def smodify_def owner_inv_def)
      qed (use inv OWrite in simp_all)
    qed (use inv OWrite in simp)
  next
    case (ORelease j)
    then have "release_read (Some j) (ow_dir s)
        = (raise LockError ''refusing to release another autopilot owner's record'', ow_dir s)"
      using r run kept
      by (simp add: release_read_def load_lock_apply read_lock_def sbind_def eff_simps check_def raise_def)
    then show ?thesis using inv_keep [OF inv refl] ORelease by (simp add: proceed_def raise_def)
  next
    case (ODrop j)
    then show ?thesis using inv inv_stage by (fastforce split: option.splits stage.splits)
  qed
qed

lemma owner_inv_run: "owner_inv rt o' k s \<Longrightarrow> list_all (owner_kept_by rt o' k) es \<Longrightarrow> owner_inv rt o' k (owner_events rt es s)"
  unfolding owner_events_def
proof (induction es arbitrary: s)
  case (Cons e es)
  then show ?case using owner_inv_step [of rt o' k s e] by simp
qed simp

text \<open>
  Claim C33. A live owner keeps the loop. Once a run has created the ownership record of a project, the record in the
  file goes on naming this run and process, and its project, repository, host and process start, through every
  interleaving of single accesses by other runs (decisions, recoveries, creations, heartbeats and releases, of runs
  that had found no record before included) and of its own heartbeats, as long as no run that decides observes what
  \<open>owner_gone\<close> lists: same machine, project and repository, clean, and the owner's process gone. Left out are a
  heartbeat whose redaction changes one of the owner's identities, the owner's own release or new acquisition, and a
  run that decided to take over an earlier record and has not yet moved it aside (\<open>ownership_race\<close> below): events
  that are not \<open>owner_kept_by\<close> are filtered from the sequence, and no other run starts in the middle of a takeover.
\<close>

theorem live_owner_kept:
  "let start = \<lparr>ow_dir = d\<lparr>ld_lock := None\<rparr>, ow_stage = (\<lambda>j. if j \<in> set (k # waiting) then Some ToCreate else None)\<rparr>;
       s = owner_events rt (filter (owner_kept_by rt o' k) es) (owner_event_step rt (OCreate o' k) start) in
   case ld_lock (ow_dir s) of
     Some (Some (JObj r)) \<Rightarrow> map (oget r) owner_fields = map (oget (ownership_record o' k)) owner_fields
   | _ \<Rightarrow> False"
proof -
  let ?s = "\<lparr>ow_dir = d\<lparr>ld_lock := None\<rparr>, ow_stage = (\<lambda>j. if j \<in> set (k # waiting) then Some ToCreate else None)\<rparr>"
  have "owner_inv rt o' k (owner_event_step rt (OCreate o' k) ?s)"
    by (simp add: owner_inv_def proceed_def create_ownership_def create_lock_def sbind_def eff_simps check_def kept_record_def)
  then have "owner_inv rt o' k (owner_events rt (filter (owner_kept_by rt o' k) es) (owner_event_step rt (OCreate o' k) ?s))"
    by (rule owner_inv_run) (simp add: list_all_iff)
  then show ?thesis unfolding Let_def owner_inv_def kept_record_def by force
qed

text \<open>
  Claim C34. Ownership is taken over from the dead only, and nothing is lost. An uninterrupted acquisition that
  succeeds leaves exactly the record of the new run. When it found a record, that record named this project,
  repository and host and a process that is proven dead, the repository was clean and in no Git operation, and
  the record is now in a recovery file of its run.
\<close>

theorem takeover_proves_death:
  assumes "ownership_acquire v k d = (Inr (r, moved), t)"
  shows "ld_lock t = Some (Some (JObj (ownership_record v k))) \<and> r = ownership_record v k
    \<and> (case ld_lock d of
         None \<Rightarrow> moved = None \<and> ld_evidence t = ld_evidence d
       | Some c \<Rightarrow> list_ex (\<lambda>old. c = Some (JObj old) \<and> owner_checks v old \<and> moved = Some (ownership_name old)
           \<and> (case map_of (ld_evidence t) (ownership_name old) of Some (Some prior) \<Rightarrow> prior = JObj old \<or> py_eq prior (JObj old) | _ \<Rightarrow> False))
           (case c of Some (JObj old) \<Rightarrow> [old] | _ \<Rightarrow> []))"
proof -
  obtain found where f: "ownership_decide v d = (Inr found, d)" "ownership_commit v k found d = (Inr (r, moved), t)"
    using assms by (auto simp: ownership_acquire_def sbind_eq_Inr dest: decide_state)
  show ?thesis
  proof (cases found)
    case None
    then show ?thesis using f decide_None [of v d d]
      by (auto simp: ownership_commit_def create_ownership_def create_lock_def lock_runs)
  next
    case (Some old)
    then obtain u where u: "move_aside old d = (Inr (), u)" "create_ownership v k u = (Inr r, t)" "moved = Some (ownership_name old)"
      using f(2) by (auto simp: ownership_commit_def sbind_eq_Inr sret_eq_Inr)
    note old = decide_Some [OF f(1) [unfolded Some]]
    have "ld_evidence t = ld_evidence u" "ld_lock t = Some (Some (JObj (ownership_record v k)))" "r = ownership_record v k"
      using u(2) by (auto simp: create_ownership_def create_lock_def lock_runs)
    then show ?thesis using old u(3) move_aside_run(2) [OF u(1)] by simp
  qed
qed

subsection \<open>Concrete runs\<close>

definition sample_view :: "int \<Rightarrow> ap_view" where
  "sample_view pid = \<lparr>av_proc = sample_proc pid, av_start = ''s'', av_project = ''p'', av_repository = ''/r'', av_identity = ''i'',
     av_fingerprint = ''f'', av_branch = Some ''main'', av_head = ''h'', av_clean = True, av_operation = False, av_writer = None\<rparr>"

definition dead_owner_dir :: lock_dir where
  "dead_owner_dir = \<lparr>ld_lock = Some (Some (JObj (ownership_record (sample_view 9) ''old''))), ld_evidence = []\<rparr>"

lemma sample_acquire:
  "ownership_acquire (sample_view 1) ''new'' dead_owner_dir =
     (Inr (ownership_record (sample_view 1) ''new'', Some ''ownership.recovered-old.json''),
      \<lparr>ld_lock = Some (Some (JObj (ownership_record (sample_view 1) ''new''))),
       ld_evidence = [(''ownership.recovered-old.json'', Some (JObj (ownership_record (sample_view 9) ''old'')))]\<rparr>)"
  by code_simp

theorem takeover_proves_death_witness:
  "ld_lock (snd (ownership_acquire (sample_view 1) ''new'' dead_owner_dir)) = Some (Some (JObj (ownership_record (sample_view 1) ''new'')))"
  using takeover_proves_death [OF sample_acquire] by (simp only: sample_acquire snd_conv)

text \<open>
  Two processes that both authenticated the same dead record both acquire: the first moves the record aside and
  creates its own, and the second, which finds the recovery file in place, removes the first one's live record.
\<close>

theorem ownership_race:
  "let d = dead_owner_dir; r = Some (ownership_record (sample_view 9) ''old'');
       d1 = snd (ownership_commit (sample_view 1) ''first'' r d);
       d2 = snd (ownership_commit (sample_view 2) ''second'' r d1) in
     ownership_decide (sample_view 1) d = (Inr r, d) \<and> ownership_decide (sample_view 2) d = (Inr r, d)
     \<and> succeeds (fst (ownership_commit (sample_view 1) ''first'' r d))
     \<and> succeeds (fst (ownership_commit (sample_view 2) ''second'' r d1))
     \<and> lock_field ''run_id'' ''first'' d1 \<and> lock_field ''run_id'' ''second'' d2"
proof -
  let ?r = "Some (ownership_record (sample_view 9) ''old'')"
  let ?e = "[(''ownership.recovered-old.json'', Some (JObj (ownership_record (sample_view 9) ''old'')))]"
  have "ownership_decide (sample_view 1) dead_owner_dir = (Inr ?r, dead_owner_dir)" by code_simp
  moreover have "ownership_decide (sample_view 2) dead_owner_dir = (Inr ?r, dead_owner_dir)" by code_simp
  moreover have "ownership_commit (sample_view 1) ''first'' ?r dead_owner_dir =
      (Inr (ownership_record (sample_view 1) ''first'', Some ''ownership.recovered-old.json''),
       \<lparr>ld_lock = Some (Some (JObj (ownership_record (sample_view 1) ''first''))), ld_evidence = ?e\<rparr>)"
    by code_simp
  moreover have "ownership_commit (sample_view 2) ''second'' ?r
        \<lparr>ld_lock = Some (Some (JObj (ownership_record (sample_view 1) ''first''))), ld_evidence = ?e\<rparr> =
      (Inr (ownership_record (sample_view 2) ''second'', Some ''ownership.recovered-old.json''),
       \<lparr>ld_lock = Some (Some (JObj (ownership_record (sample_view 2) ''second''))), ld_evidence = ?e\<rparr>)"
    by code_simp
  ultimately show ?thesis by (simp add: lock_field_def ownership_record_def)
qed

end
