(* ===== verification/Autopilot.thy ===== *)
theory Autopilot
  imports Autopilot_Ownership Workflow_Bridge Execution_Plan Json_Ascii
begin

section \<open>The autopilot\<close>

text \<open>
  \<^verbatim>\<open>Autopilot\<close> of \<^verbatim>\<open>autopilot.py\<close>, the continuous loop: a turn takes the plan of the project, checks consistency
  and gates, runs the route of its action, and decides whether to go on. \<open>ap_io\<close> is what the calls the loop
  makes can change: the files of the autopilot, its events and feature records, and the world, which is a type
  parameter; \<open>ap_state\<close> adds the counters of failures. An \<open>autopilot\<close> holds the configuration and the calls
  into the engine: the plan, the checker, the recoveries (inspect, then apply) and the modes of
  \<^verbatim>\<open>run_project\<close>, each a call on \<open>ap_io\<close>, since the engine reports life-cycle boundaries back. The sink of
  events is output and left out. The loop is a partial function: \<open>None\<close> means it never ends.
\<close>

definition CANONICAL_ACTION_ALIASES :: "(string \<times> string) list" where
  "CANONICAL_ACTION_ALIASES =
    [(''feature_execution'', ''feature_cycle''), (''integration_ready'', ''milestone_integration''),
     (''planning_recovery'', ''planning_finalization'')]"

definition DETERMINISTIC_RECOVERY_ROUTES :: "string list" where
  "DETERMINISTIC_RECOVERY_ROUTES =
    [''cache_binding_recovery'', ''cycle_cache_repair'', ''planning_finalization'', ''feature_result_recovery'',
     ''retained_feature_repair_recovery'', ''accepted_commit_recovery'', ''feature_prelaunch_recovery'',
     ''integration_finalization_recovery'', ''kernel_recovery'', ''authenticated_writer_lease_recovery'',
     ''trusted_host_validation'']"

definition MODEL_BACKED_REPAIR_ROUTES :: "string list" where
  "MODEL_BACKED_REPAIR_ROUTES = [''retained_feature_repair'']"

definition DEFAULT_RETRY_BUDGETS :: "(string \<times> int) list" where
  "DEFAULT_RETRY_BUDGETS =
    [(''implementation_retries_per_feature'', 3), (''validation_retries'', 2), (''deterministic_recovery_attempts'', 3),
     (''planning_retries'', 2), (''integration_finalization_retries'', 2)]"

subsection \<open>State\<close>

record 'w ap_io =
  io_dir :: lock_dir
  io_stop :: lock_file
  io_ack :: "json option"
  io_status :: "json option"
  io_run :: "string option"
  io_owner :: "string option"
  io_observed :: "string option"
  io_events :: "obj list"
  io_features :: "(string \<times> obj) list"
  io_world :: 'w

record 'w ap_state =
  as_io :: "'w ap_io"
  as_signatures :: "(string \<times> int) list"
  as_retries :: "((string option \<times> string) \<times> int) list"

record 'w autopilot =
  au_view :: "'w \<Rightarrow> ap_view"
  au_redact :: "string \<Rightarrow> string"
  au_ownership_path :: string
  au_stop_path :: string
  au_status_path :: string
  au_plan :: "('w ap_io, obj) eff"
  au_consistency :: "('w ap_io, json) eff"
  au_recover :: "string \<Rightarrow> obj \<Rightarrow> ('w ap_io, obj) eff"
  au_run :: "string \<Rightarrow> ('w ap_io, obj) eff"
  au_snapshot :: "'w \<Rightarrow> obj res"
  au_elapsed :: "json \<Rightarrow> 'w \<Rightarrow> 'w \<Rightarrow> json"
  au_budgets :: "(string \<times> int) list"
  au_max_identical :: int

definition retry_budgets :: "obj \<Rightarrow> (string \<times> int) list res" where
  "retry_budgets configured =
     rmap (\<lambda>kv. rbind (py_int (oget_or configured (fst kv) (JInt (snd kv)))) (\<lambda>n. Inr (fst kv, n))) DEFAULT_RETRY_BUDGETS"

definition budget :: "'w autopilot \<Rightarrow> string \<Rightarrow> int" where
  "budget A k = (case map_of (au_budgets A) k of None \<Rightarrow> 0 | Some n \<Rightarrow> n)"

definition io_view :: "'w autopilot \<Rightarrow> 'w ap_io \<Rightarrow> ap_view" where
  "io_view A s = au_view A (io_world s)"

definition in_dir :: "(lock_dir, 'a) eff \<Rightarrow> ('w ap_io, 'a) eff" where
  "in_dir = spart io_dir (\<lambda>d s. s\<lparr>io_dir := d\<rparr>)"

definition on_io :: "('w ap_io, 'a) eff \<Rightarrow> ('w ap_state, 'a) eff" where
  "on_io = spart as_io (\<lambda>i s. s\<lparr>as_io := i\<rparr>)"

subsection \<open>Reading a plan\<close>

definition projection_of :: "obj \<Rightarrow> obj" where
  "projection_of plan = (case oget plan ''kernel_projection'' of JObj p \<Rightarrow> p | _ \<Rightarrow> [])"

definition plan_action :: "obj \<Rightarrow> string" where
  "plan_action plan =
     (let raw = py_str (jor (jor (jor (oget plan ''proposed_next_action'') (oget plan ''next_action''))
                  (oget (projection_of plan) ''allowed_next_action'')) (JStr ''verify_consistency'')) in
      case map_of CANONICAL_ACTION_ALIASES raw of None \<Rightarrow> raw | Some a \<Rightarrow> a)"

text \<open>\<^verbatim>\<open>(v or {}).get(k)\<close>\<close>

definition sub_get :: "json \<Rightarrow> string \<Rightarrow> json res" where
  "sub_get v k = jget (jor v (JObj [])) k"

definition plan_feature :: "obj \<Rightarrow> string option res" where
  "plan_feature plan =
     rbind (if truthy (oget plan ''selected_feature'') then Inr (oget plan ''selected_feature'')
            else rbind (sub_get (oget plan ''executable_plan'') ''feature_id'') (\<lambda>f.
              Inr (jor (jor f (oget (projection_of plan) ''selected_next_feature'')) (oget (projection_of plan) ''current_feature''))))
       (\<lambda>v. Inr (if nonempty_str v then str_of v else None))"

definition plan_state :: "obj \<Rightarrow> string" where
  "plan_state plan =
     py_str (jor (jor (oget plan ''current_state'') (oget (projection_of plan) ''current_state'')) (JStr ''unknown''))"

subsection \<open>Events and status\<close>

definition last_of :: "nat \<Rightarrow> 'a list \<Rightarrow> 'a list" where
  "last_of n xs = drop (length xs - n) xs"

definition write_status :: "'w autopilot \<Rightarrow> bool \<Rightarrow> string option \<Rightarrow> string option \<Rightarrow> ('w ap_io, unit) eff" where
  "write_status A terminal classification diagnostic =
     smodify (\<lambda>s. s\<lparr>io_status := Some (redact_value (au_redact A) (JObj
       [(''schema_version'', JInt 1), (''project'', JStr (av_project (io_view A s))), (''run_id'', of_opt (io_run s)),
        (''active'', JBool (\<not> terminal)), (''terminal_classification'', of_opt classification),
        (''diagnostic'', of_opt diagnostic), (''updated_at'', JStr (pr_now (av_proc (io_view A s)))),
        (''ownership_path'', JStr (au_ownership_path A)), (''stop_request_path'', JStr (au_stop_path A)),
        (''events'', JArr (map JObj (last_of 50 (io_events s)))), (''features'', JArr (map (JObj \<circ> snd) (io_features s))),
        (''retry_budgets'', JObj (map (\<lambda>kv. (fst kv, JInt (snd kv))) (au_budgets A)))]))\<rparr>)"

definition event_item :: "'w autopilot \<Rightarrow> 'w ap_io \<Rightarrow> string \<Rightarrow> obj \<Rightarrow> string \<Rightarrow> string option \<Rightarrow> obj res" where
  "event_item A s event plan diagnostic transaction =
     rbind (plan_feature plan) (\<lambda>feature.
     Inr [(''event'', JStr event), (''project'', JStr (av_project (io_view A s))), (''feature'', of_opt feature),
          (''state'', JStr (plan_state plan)),
          (''transaction'', jor (of_opt transaction)
             (case oget (projection_of plan) ''active_transaction'' of JObj t \<Rightarrow> oget t ''transaction_id'' | _ \<Rightarrow> JNull)),
          (''timestamp'', JStr (pr_now (av_proc (io_view A s)))), (''diagnostic'', JStr (au_redact A diagnostic))])"

definition emit_event :: "'w autopilot \<Rightarrow> string \<Rightarrow> obj \<Rightarrow> string \<Rightarrow> string option \<Rightarrow> ('w ap_io, unit) eff" where
  "emit_event A event plan diagnostic transaction =
     sbind (scheck (event \<in> set AUTOPILOT_EVENTS) ConveyorError ''unsupported autopilot event'') (\<lambda>_.
     sbind sget (\<lambda>s.
     sbind (slift (event_item A s event plan diagnostic transaction)) (\<lambda>item.
     sbind (smodify (\<lambda>s. s\<lparr>io_events := io_events s @ [item]\<rparr>)) (\<lambda>_.
     swhen (io_run s \<noteq> None \<and> ld_lock (io_dir s) \<noteq> None)
       (sbind (in_dir (ownership_heartbeat (au_redact A) (io_view A s) (io_owner s) event (projection_of plan))) (\<lambda>_.
        write_status A False None None))))))"

subsection \<open>Stop requests\<close>

definition stop_requested :: "'w autopilot \<Rightarrow> ('w ap_io, obj option) eff" where
  "stop_requested A =
     sbind sget (\<lambda>s.
     sbind (slift (read_lock (io_stop s))) (\<lambda>request.
     case request of
       None \<Rightarrow> sret None
     | Some r \<Rightarrow>
         sbind (scheck (oget r ''project_id'' = JStr (av_project (io_view A s)) \<and> is_str (oget r ''requested_at'')) AmbiguousLockError
                  ''autopilot stop request has invalid project identity'') (\<lambda>_. sret (Some r))))"

definition acknowledge_stop :: "'w autopilot \<Rightarrow> obj \<Rightarrow> ('w ap_io, unit) eff" where
  "acknowledge_stop A request =
     sbind sget (\<lambda>s.
     sbind (smodify (\<lambda>s. s\<lparr>io_ack := Some (redact_value (au_redact A) (JObj
              (oset ''acknowledged_by_run'' (of_opt (io_run s))
                (oset ''acknowledged_at'' (JStr (pr_now (av_proc (io_view A s)))) request))))\<rparr>)) (\<lambda>_.
     sbind (scheck (io_stop s \<noteq> None) OSError ''No such file or directory'') (\<lambda>_.
     smodify (\<lambda>s. s\<lparr>io_stop := None\<rparr>))))"

definition lifecycle_event :: "string \<Rightarrow> obj \<Rightarrow> (string \<times> string) option res" where
  "lifecycle_event boundary evidence =
     (let shown = (\<lambda>v. py_str (jor v (JStr ''unavailable''))) in
      rbind (sub_get (oget evidence ''context_pack'') ''context_pack_fingerprint'') (\<lambda>fp.
      Inr (map_of
        [(''feature_context_started'', (''FEATURE_CONTEXT_STARTED'', ''building bounded binary-safe feature context'')),
         (''feature_context_ready'', (''FEATURE_CONTEXT_READY'', ''feature context fingerprint='' @ shown fp)),
         (''feature_session_started'',
            (''FEATURE_SESSION_STARTED'', ''authenticated model session='' @ shown (oget evidence ''session_id'')))] boundary)))"

definition checked_boundaries :: "string list" where
  "checked_boundaries =
    [''before_transaction'', ''before_model'', ''feature_context_started'', ''feature_context_ready'',
     ''feature_session_started'', ''before_application_mutation'', ''before_commit'', ''before_integration'',
     ''between_validation_tiers'', ''before_next_feature'']"

definition observe_lifecycle :: "'w autopilot \<Rightarrow> string \<Rightarrow> obj \<Rightarrow> ('w ap_io, bool) eff" where
  "observe_lifecycle A boundary evidence =
     sbind (slift (lifecycle_event boundary evidence)) (\<lambda>le.
     sbind (case le of
         None \<Rightarrow> sret ()
       | Some (event, diagnostic) \<Rightarrow>
           emit_event A event
             [(''selected_feature'', oget evidence ''feature_id''),
              (''current_state'', JStr (if boundary = ''feature_session_started'' then ''feature_running'' else ''feature_preparing''))]
             diagnostic (str_of (oget evidence ''transaction_id''))) (\<lambda>_.
     if boundary \<notin> set checked_boundaries then sret False
     else sbind (stop_requested A) (\<lambda>stop.
       if stop = None then sret False
       else sbind (smodify (\<lambda>s. s\<lparr>io_observed := Some boundary\<rparr>)) (\<lambda>_. sret True))))"

subsection \<open>Routes\<close>

text \<open>The fields of its evidence a recovery is given; they must be non-empty texts.\<close>

definition RECOVERY_FIELDS :: "(string \<times> string list) list" where
  "RECOVERY_FIELDS =
    [(''feature_prelaunch_recovery'', [''feature_id'', ''autopilot_run_id'', ''expected_branch'', ''expected_head'']),
     (''feature_result_recovery'', [''feature_id'', ''original_transaction_id'', ''original_run_id'', ''original_session_id'',
        ''expected_branch'', ''expected_head'']),
     (''retained_feature_repair'', [''feature_id'', ''original_transaction_id'', ''failed_recovery_transaction_id'',
        ''expected_branch'', ''expected_head'']),
     (''retained_feature_repair_recovery'', [''feature_id'', ''repair_transaction_id'']),
     (''accepted_commit_recovery'', [''feature_id'', ''candidate_commit'', ''milestone_base'', ''feature_branch'',
        ''feature_transaction_id'', ''acceptance_transaction_id'']),
     (''cycle_cache_repair'', [])]"

definition recovery_fields :: "obj \<Rightarrow> string \<Rightarrow> string list \<Rightarrow> obj res" where
  "recovery_fields plan k required =
     (case oget plan k of
        JObj d \<Rightarrow>
          if list_all (\<lambda>f. nonempty_str (oget d f)) required then Inr (map (\<lambda>f. (f, oget d f)) required)
          else raise ConveyorError ''route lacks exact fields''
      | _ \<Rightarrow> raise ConveyorError ''route lacks exact recovery evidence'')"

definition run_route :: "'w autopilot \<Rightarrow> string \<Rightarrow> obj \<Rightarrow> ('w ap_io, obj) eff" where
  "run_route A action plan =
     (case map_of RECOVERY_FIELDS action of
        Some required \<Rightarrow>
          if required = [] then au_recover A action []
          else sbind (slift (recovery_fields plan action required)) (au_recover A action)
      | None \<Rightarrow>
          if action \<in> {''cache_binding_recovery'', ''planning_finalization'', ''integration_finalization_recovery'',
                      ''kernel_recovery'', ''verify_consistency''} then au_run A ''resume''
          else if action = ''feature_cycle'' then au_run A ''one_feature''
          else if action \<in> {''queue_reconciliation'', ''milestone_integration'', ''milestone_gate''} then au_run A ''milestone''
          else sthrow ConveyorError ''autopilot has no registered route'')"

definition outcome_of :: "obj \<Rightarrow> string" where
  "outcome_of result = py_str (jor (jor (oget result ''outcome'') (oget result ''classification'')) (JStr []))"

datatype terminal_kind = Human_Gate_Raised | Work_Completed

definition terminal_result :: "obj \<Rightarrow> terminal_kind option" where
  "terminal_result result =
     (if outcome_of result \<in> {''human_decision_required'', ''human_merge_approval'', ''HUMAN_DECISION_REQUIRED'', ''SEMANTIC_CONFLICT''}
         \<or> truthy (oget result ''human_gate'') then Some Human_Gate_Raised
      else if outcome_of result \<in> {''milestone_complete'', ''portfolio_complete'', ''already_completed'', ''AUTOPILOT_COMPLETED''}
      then Some Work_Completed else None)"

subsection \<open>Feature records\<close>

definition new_feature_record :: "string \<Rightarrow> json \<Rightarrow> json \<Rightarrow> obj res" where
  "new_feature_record feature cost usage =
     rbind (jget cost ''selected_model'') (\<lambda>model.
     rbind (jget cost ''selected_reasoning_effort'') (\<lambda>reasoning.
     rbind (jget usage ''context_bytes_estimate'') (\<lambda>bytes.
     rbind (if truthy bytes then Inr bytes
            else rbind (jget cost ''context_pack'') (\<lambda>p. sub_get p ''approximate_bytes_estimate'')) (\<lambda>estimate.
     rbind (case cost of JObj d \<Rightarrow> Inr (oget_or d ''deterministic_commands_planned'' (JArr []))
            | _ \<Rightarrow> raise AttributeError ''get'') (\<lambda>commands.
     Inr [(''feature'', JStr feature), (''model'', model), (''reasoning'', reasoning), (''parent_sessions'', JInt 0),
          (''child_sessions'', JInt 0), (''elapsed_seconds'', JFloat ''0.0''), (''context_estimate'', estimate),
          (''validation_commands'', commands), (''retry_count'', JInt 0), (''terminal_classification'', JNull),
          (''integration_result'', JNull)])))))"

text \<open>\<^verbatim>\<open>len(v or [])\<close>\<close>

definition len_of :: "json \<Rightarrow> int res" where
  "len_of v = rbind (elements (jor v (JArr []))) (\<lambda>xs. Inr (int (length xs)))"

definition add_to :: "string \<Rightarrow> int \<Rightarrow> obj \<Rightarrow> obj res" where
  "add_to k n r = rbind (osub r k) (\<lambda>v. rbind (py_int v) (\<lambda>m. Inr (oset k (JInt (m + n)) r)))"

definition updated_record :: "(json \<Rightarrow> json) \<Rightarrow> obj \<Rightarrow> obj \<Rightarrow> obj res" where
  "updated_record elapsed result r =
     rbind (osub r ''elapsed_seconds'') (\<lambda>e.
     rbind (py_int (if truthy (oget result ''parent_sessions_launched'') then oget result ''parent_sessions_launched''
                    else JBool (oget result ''model_session_launched'' = JBool True))) (\<lambda>parents.
     rbind (add_to ''parent_sessions'' parents (oset ''elapsed_seconds'' (elapsed e) r)) (\<lambda>r.
     rbind (py_int (jor (oget result ''child_sessions_launched'') (JInt 0))) (\<lambda>children.
     rbind (add_to ''child_sessions'' children r) (\<lambda>r.
     rbind (len_of (oget result ''repair_attempts'')) (\<lambda>attempts.
     rbind (add_to ''retry_count'' attempts r) (\<lambda>r.
     let outcome = jor (oget result ''outcome'') (oget result ''classification'');
         r = (if truthy outcome then oset ''terminal_classification'' outcome r else r) in
     rbind (check (\<not> is_list outcome \<and> \<not> is_dict outcome) TypeError ''unhashable type'') (\<lambda>_.
     Inr (if outcome \<in> {JStr ''feature_integrated'', JStr ''one_feature_integrated'', JStr ''INTEGRATED''}
          then oset ''integration_result'' outcome r else r)))))))))"

text \<open>\<open>before\<close> is the world when the route was started. A value of a wrong type ends the run; the record is then
  taken to be as before, although the code may have updated some of its fields.\<close>

definition record_result :: "'w autopilot \<Rightarrow> obj \<Rightarrow> obj \<Rightarrow> 'w \<Rightarrow> ('w ap_io, unit) eff" where
  "record_result A plan result before =
     sbind (slift (plan_feature plan)) (\<lambda>f.
     case f of
       None \<Rightarrow> sret ()
     | Some feature \<Rightarrow>
         let cost = jor (oget plan ''cost_aware_run_plan'') (JObj []) in
         sbind (slift (jget cost ''usage_accounting'')) (\<lambda>u.
         sbind (slift (new_feature_record feature cost (jor u (JObj [])))) (\<lambda>fresh.
         sbind sget (\<lambda>s.
         let r = (case map_of (io_features s) feature of None \<Rightarrow> fresh | Some r \<Rightarrow> r) in
         sbind (slift (updated_record (\<lambda>e. au_elapsed A e before (io_world s)) result r)) (\<lambda>r.
         smodify (\<lambda>s. s\<lparr>io_features := aset feature r (io_features s)\<rparr>))))))"

text \<open>\<^verbatim>\<open>setdefault(feature, {"feature": feature})\<close> followed by an update\<close>

definition mark_feature :: "string option \<Rightarrow> obj \<Rightarrow> ('w ap_io, unit) eff" where
  "mark_feature feature changes =
     (case feature of
        None \<Rightarrow> sret ()
      | Some f \<Rightarrow> smodify (\<lambda>s. s\<lparr>io_features := aset f
          (oupdate (case map_of (io_features s) f of None \<Rightarrow> [(''feature'', JStr f)] | Some r \<Rightarrow> r) changes) (io_features s)\<rparr>))"

subsection \<open>Failures\<close>

definition failure_signature :: "string \<Rightarrow> obj \<Rightarrow> obj \<Rightarrow> string res" where
  "failure_signature action plan result =
     rbind (plan_feature plan) (\<lambda>feature.
     Inr (sha256_hex (dumps_default (JObj
       [(''action'', JStr action), (''feature'', of_opt feature), (''state'', JStr (plan_state plan)),
        (''outcome'', oget result ''outcome''), (''classification'', oget result ''classification''),
        (''reason'', jor (oget result ''reason'') (oget result ''diagnostic''))]))))"

definition FEATURE_RESULT_RECOVERY_CAPABILITY_VERSION :: string where
  "FEATURE_RESULT_RECOVERY_CAPABILITY_VERSION = ''prepared-checkpoint-and-prelaunch-lineage-v3''"

record recovery_evidence =
  re_fingerprint :: string
  re_capability :: string
  re_diagnostic :: string

definition recovery_evidence_of :: "'w autopilot \<Rightarrow> 'w \<Rightarrow> string \<Rightarrow> obj \<Rightarrow> obj \<Rightarrow> recovery_evidence res" where
  "recovery_evidence_of A w action plan result =
     (let route = (case oget plan action of JObj d \<Rightarrow> d | _ \<Rightarrow> []);
          capability = py_str (jor (oget route ''recovery_capability_version'')
            (JStr (if action = ''feature_result_recovery'' then FEATURE_RESULT_RECOVERY_CAPABILITY_VERSION else ''deterministic-recovery-v1'')));
          diagnostic = py_str (jor (jor (jor (oget result ''reason'') (oget result ''diagnostic'')) (oget route ''preflight_error''))
            (JStr ''deterministic recovery preflight failed'')) in
      rbind (au_snapshot A w) (\<lambda>snapshot.
      rbind (plan_feature plan) (\<lambda>feature.
      Inr \<lparr>re_fingerprint = sha256_hex (dumps_ascii (JObj
             [(''action'', JStr action), (''capability_version'', JStr capability), (''project_id'', JStr (av_project (au_view A w))),
              (''feature'', of_opt feature), (''state'', JStr (plan_state plan)),
              (''recognized_technical_recovery'', oget plan ''recognized_technical_recovery''), (''route_evidence'', JObj route),
              (''technical_gate_to_supersede'', oget plan ''technical_gate_to_supersede''),
              (''projection'', JObj (map (\<lambda>k. (k, oget (projection_of plan) k))
                 [''ledger_sequence'', ''ledger_fingerprint'', ''projection_fingerprint'', ''current_state'', ''current_feature'',
                  ''selected_next_feature'', ''active_transaction'', ''human_gate''])),
              (''repository_snapshot'', JObj snapshot), (''preflight_diagnostic'', JStr diagnostic)])),
           re_capability = capability, re_diagnostic = diagnostic\<rparr>)))"

definition retry_budget_key :: "string \<Rightarrow> string \<Rightarrow> string" where
  "retry_budget_key action outcome =
     (if contains ''validation'' (lower outcome) then ''validation_retries''
      else if action = ''feature_cycle'' then ''implementation_retries_per_feature''
      else if action = ''queue_reconciliation'' then ''planning_retries''
      else if action \<in> {''milestone_integration'', ''integration_finalization_recovery''} then ''integration_finalization_retries''
      else ''deterministic_recovery_attempts'')"

subsection \<open>A turn\<close>

datatype ap_turn = Halt string string | Again "obj option"

definition RECOVERY_ACTIONS :: "string list" where
  "RECOVERY_ACTIONS =
    [''cache_binding_recovery'', ''cycle_cache_repair'', ''planning_finalization'', ''integration_finalization_recovery'',
     ''kernel_recovery'', ''verify_consistency'', ''feature_result_recovery'', ''retained_feature_repair_recovery'',
     ''retained_feature_repair'', ''accepted_commit_recovery'', ''feature_prelaunch_recovery'']"

definition recognized_recovery :: "obj \<Rightarrow> bool" where
  "recognized_recovery plan \<longleftrightarrow>
     (plan_action plan \<in> {''feature_result_recovery'', ''feature_prelaunch_recovery'', ''retained_feature_repair_recovery''}
        \<and> oget plan ''recognized_technical_recovery'' = JBool True)
     \<or> (plan_action plan = ''retained_feature_repair'' \<and> oget plan ''recognized_technical_repair'' = JBool True)"

text \<open>After a gate, the same without the recovery before a launch\<close>

definition gate_superseded :: "obj \<Rightarrow> bool" where
  "gate_superseded plan \<longleftrightarrow> recognized_recovery plan \<and> plan_action plan \<noteq> ''feature_prelaunch_recovery''"

text \<open>A request in the file ends the run; \<open>rest\<close> is what is done when there is none.\<close>

definition honour_stop :: "'w autopilot \<Rightarrow> obj \<Rightarrow> string \<Rightarrow> ('w ap_io, ap_turn) eff \<Rightarrow> ('w ap_io, ap_turn) eff" where
  "honour_stop A plan diagnostic rest =
     sbind (stop_requested A) (\<lambda>stop.
     case stop of
       None \<Rightarrow> rest
     | Some request \<Rightarrow>
         sbind sget (\<lambda>s.
         sbind (emit_event A ''STOP_REQUESTED'' plan
                  (py_str (jor (oget request ''reason'') (JStr ''durable stop requested''))
                   @ (case io_observed s of None \<Rightarrow> [] | Some b \<Rightarrow> if b = [] then [] else ''; first observed at '' @ b)) None) (\<lambda>_.
         sbind (acknowledge_stop A request) (\<lambda>_. sret (Halt ''AUTOPILOT_STOPPED'' diagnostic)))))"

definition announce_recovery :: "'w autopilot \<Rightarrow> string \<Rightarrow> obj \<Rightarrow> ('w ap_io, unit) eff" where
  "announce_recovery A action plan =
     swhen (action \<in> set RECOVERY_ACTIONS)
       (sbind (emit_event A ''RECOVERY_STARTED'' plan
          (''invoking registered '' @ (if action \<in> set MODEL_BACKED_REPAIR_ROUTES then ''model-backed repair'' else ''deterministic recovery'')
           @ '' route '' @ action) None) (\<lambda>_.
        swhen (action = ''retained_feature_repair'')
          (sbind (emit_event A ''FEATURE_REPAIR_STARTED'' plan
                    ''launching bounded Terra/high retained-feature repair with zero children'' None) (\<lambda>_.
           emit_event A ''FEATURE_REPAIR_VALIDATION_STARTED'' plan
             (''repair will run the authenticated trusted-host validation plan before '' @ ''any commit'') None))))"

definition recovery_failure :: "'w autopilot \<Rightarrow> exn \<Rightarrow> obj" where
  "recovery_failure A e =
     [(''outcome'', JStr ''deterministic_recovery_failed''), (''reason'', JStr (au_redact A (exn_msg e))),
      (''recoverable_technical_failure'', JBool True), (''human_gate_created'', JBool False), (''model_sessions_launched'', JInt 0),
      (''child_sessions_launched'', JInt 0)]"

definition attempt_route :: "'w autopilot \<Rightarrow> string \<Rightarrow> obj \<Rightarrow> ('w ap_io, obj) eff" where
  "attempt_route A action plan =
     scatch (\<lambda>e. action \<in> set RECOVERY_ACTIONS \<and> issubclass (exn_cls e) RecoveryError)
       (run_route A action plan) (\<lambda>e. sret (recovery_failure A e))"

definition recovery_failed :: "obj \<Rightarrow> bool" where
  "recovery_failed result \<longleftrightarrow>
     oget result ''recoverable_technical_failure'' = JBool True
     \<or> outcome_of result \<in> {''deterministic_recovery_failed'', ''validation_failed'', ''VALIDATION_FAILED'', ''repair_exhausted''}"

definition turn_failed :: "obj \<Rightarrow> bool" where
  "turn_failed result \<longleftrightarrow> outcome_of result \<in>
     {''validation_failed'', ''planning_validation_failed'', ''invalid_queue'', ''retry_exhausted'', ''TERMINAL_FEATURE_FAILURE'',
      ''TERMINAL_PLANNING_FAILURE'', ''VALIDATION_FAILED'', ''deterministic_recovery_failed'', ''repair_exhausted''}"

definition announce_retained :: "'w autopilot \<Rightarrow> obj \<Rightarrow> obj \<Rightarrow> ('w ap_io, unit) eff" where
  "announce_retained A plan result =
     (case (oget result ''retained_result'', oget result ''human_gate'') of
        (JObj retained, JObj gate) \<Rightarrow>
          swhen (oget retained ''result_classification'' = JStr ''structured_output_invalid'')
            (emit_event A ''FEATURE_RESULT_RETAINED'' (oset ''current_state'' (JStr ''human_decision_required'') plan)
               (''authenticated terminal feature result retained; structured output invalid; gate=''
                @ py_str (jor (oget gate ''gate_id'') (JStr ''unavailable''))) (str_of (oget retained ''transaction_id'')))
      | _ \<Rightarrow> sret ())"

definition announce_result :: "'w autopilot \<Rightarrow> string \<Rightarrow> obj \<Rightarrow> obj \<Rightarrow> ('w ap_io, unit) eff" where
  "announce_result A action plan result =
     sbind (announce_retained A plan result) (\<lambda>_.
     sbind (swhen (action \<in> set RECOVERY_ACTIONS \<and> \<not> recovery_failed result)
       (sbind (emit_event A ''RECOVERY_APPLIED'' plan
          (py_str (jor (jor (oget result ''outcome'') (oget result ''classification'')) (JStr ''deterministic recovery route completed'')))
          None) (\<lambda>_.
        swhen (action \<in> {''retained_feature_repair'', ''retained_feature_repair_recovery''}
                 \<and> truthy (oget result ''accepted_feature_commit''))
          (emit_event A ''FEATURE_ACCEPTED'' plan ''retained feature repaired and accepted'' None)))) (\<lambda>_.
     sbind (swhen (outcome_of result \<in> {''feature_accepted'', ''one_feature_accepted'', ''FEATURE_ACCEPTED''})
       (emit_event A ''FEATURE_ACCEPTED'' plan (outcome_of result) None)) (\<lambda>_.
     swhen (outcome_of result \<in> {''feature_integrated'', ''one_feature_integrated'', ''INTEGRATED''})
       (emit_event A ''FEATURE_INTEGRATED'' plan (outcome_of result) None))))"

text \<open>\<^verbatim>\<open>counts[k] = counts.get(k, 0) + 1\<close>\<close>

definition next_count :: "'k \<Rightarrow> ('k \<times> int) list \<Rightarrow> int" where
  "next_count k counts = (case map_of counts k of None \<Rightarrow> 0 | Some n \<Rightarrow> n) + 1"

definition count_retry :: "string option \<Rightarrow> string \<Rightarrow> ('w ap_state, int) eff" where
  "count_retry feature k =
     sbind sget (\<lambda>s. let n = next_count (feature, k) (as_retries s) in
     sbind (smodify (\<lambda>s. s\<lparr>as_retries := aset (feature, k) n (as_retries s)\<rparr>)) (\<lambda>_. sret n))"

definition count_signature :: "string \<Rightarrow> ('w ap_state, int) eff" where
  "count_signature sg =
     sbind sget (\<lambda>s. let n = next_count sg (as_signatures s) in
     sbind (smodify (\<lambda>s. s\<lparr>as_signatures := aset sg n (as_signatures s)\<rparr>)) (\<lambda>_. sret n))"

text \<open>A deterministic recovery that failed: the same evidence again stops the run, changed evidence is tried within the budget.\<close>

definition failed_recovery :: "'w autopilot \<Rightarrow> string \<Rightarrow> string option \<Rightarrow> obj \<Rightarrow> obj \<Rightarrow> ('w ap_state, ap_turn) eff" where
  "failed_recovery A action feature plan result =
     sbind sget (\<lambda>s.
     sbind (slift (recovery_evidence_of A (io_world (as_io s)) action plan result)) (\<lambda>current.
     sbind (count_retry feature ''deterministic_recovery_attempts'') (\<lambda>attempts.
     sbind (on_io (au_plan A)) (\<lambda>next_plan.
     sbind (if plan_action next_plan = action
            then sbind sget (\<lambda>s. slift (rbind (recovery_evidence_of A (io_world (as_io s)) action next_plan result)
                   (\<lambda>e. Inr (re_fingerprint e = re_fingerprint current))))
            else sret False) (\<lambda>unchanged.
     sbind (on_io (mark_feature feature
              [(''recovery_evidence_fingerprint'', JStr (re_fingerprint current)),
               (''recovery_capability_version'', JStr (re_capability current)),
               (''preflight_diagnostic'', JStr (re_diagnostic current)),
               (''deterministic_recovery_attempts'', JInt attempts), (''quarantined'', JBool False)])) (\<lambda>_.
     if unchanged then
       sbind (on_io (mark_feature feature [(''terminal_classification'', JStr ''technical_recovery_required'')])) (\<lambda>_.
       sret (Halt ''AUTOPILOT_STOPPED'' (''technical_recovery_required: '' @ re_diagnostic current
         @ ''; unchanged recovery evidence '' @ re_fingerprint current @ ''; deterministic recovery was not repeated'')))
     else if budget A ''deterministic_recovery_attempts'' < attempts then
       sbind (on_io (emit_event A ''FEATURE_BLOCKED'' plan
         (''deterministic_recovery_attempts exhausted across changed recovery evidence; feature quarantined in ''
          @ ''autopilot evidence without being marked complete'') None)) (\<lambda>_.
       sbind (on_io (mark_feature feature [(''quarantined'', JBool True), (''terminal_classification'', JStr ''bounded_recovery_exhausted'')])) (\<lambda>_.
       sret (Halt ''AUTOPILOT_STOPPED''
         (''recoverable technical failure: bounded recovery exhausted across '' @ ''distinct evidence''))))
     else sret (Again (Some next_plan))))))))"

text \<open>Any other failure: the run goes on to another feature when retries are exhausted or the failure repeats,
  and stops when none is offered. \<open>rest\<close> is the end of the turn.\<close>

definition failed_turn ::
  "'w autopilot \<Rightarrow> string \<Rightarrow> string option \<Rightarrow> obj \<Rightarrow> obj \<Rightarrow> ('w ap_state, ap_turn) eff \<Rightarrow> ('w ap_state, ap_turn) eff" where
  "failed_turn A action feature plan result rest =
     sbind (slift (failure_signature action plan result)) (\<lambda>sg.
     sbind (count_signature sg) (\<lambda>count.
     let k = retry_budget_key action (outcome_of result) in
     sbind (count_retry feature k) (\<lambda>attempts.
     if budget A k < attempts \<or> oget result ''outcome'' = JStr ''repair_exhausted'' \<or> au_max_identical A < count then
       sbind (on_io (emit_event A ''FEATURE_BLOCKED'' plan
         ((if au_max_identical A < count then ''identical evidence repeated'' else k @ '' exhausted'')
          @ ''; feature quarantined in autopilot evidence without being marked complete'') None)) (\<lambda>_.
       sbind (on_io (mark_feature feature [(''quarantined'', JBool True), (''terminal_classification'', JStr ''bounded_recovery_exhausted'')])) (\<lambda>_.
       sbind (on_io (au_plan A)) (\<lambda>next_plan.
       sbind (slift (plan_feature next_plan)) (\<lambda>next_feature.
       if next_feature \<noteq> None \<and> next_feature \<noteq> feature \<and> plan_action next_plan = ''feature_cycle'' then sret (Again None)
       else sret (Halt ''AUTOPILOT_STOPPED''
         (''recoverable technical failure: bounded recovery exhausted and no newly projected ''
          @ ''dependency-independent feature is safe''))))))
     else rest)))"

definition end_of_turn :: "'w autopilot \<Rightarrow> obj \<Rightarrow> ('w ap_state, ap_turn) eff" where
  "end_of_turn A plan =
     on_io (sbind (observe_lifecycle A ''before_next_feature'' []) (\<lambda>_.
       honour_stop A plan ''stopped before beginning the next transition'' (sret (Again None))))"

definition finish_turn :: "'w autopilot \<Rightarrow> string \<Rightarrow> string option \<Rightarrow> obj \<Rightarrow> obj \<Rightarrow> ('w ap_state, ap_turn) eff" where
  "finish_turn A action feature plan result =
     (case terminal_result result of
        Some Human_Gate_Raised \<Rightarrow>
          sbind (on_io (au_plan A)) (\<lambda>next_plan.
          if gate_superseded next_plan then sret (Again None)
          else sret (Halt ''AUTOPILOT_STOPPED'' ''normal route produced a genuine human gate''))
      | Some Work_Completed \<Rightarrow> sret (Halt ''AUTOPILOT_COMPLETED'' ''portfolio or milestone work is complete'')
      | None \<Rightarrow>
          if \<not> turn_failed result then end_of_turn A plan
          else if action \<in> set RECOVERY_ACTIONS \<and> action \<in> set DETERMINISTIC_RECOVERY_ROUTES
                  \<and> outcome_of result = ''deterministic_recovery_failed''
          then failed_recovery A action feature plan result
          else failed_turn A action feature plan result (end_of_turn A plan))"

text \<open>What stops a run before its route\<close>

definition gate_before_route :: "json \<Rightarrow> obj \<Rightarrow> ap_turn option res" where
  "gate_before_route classification plan =
     rbind (check (\<not> is_list classification \<and> \<not> is_dict classification) TypeError ''unhashable type'') (\<lambda>_.
     let action = plan_action plan in
     if classification \<notin> {JStr ''CONSISTENT'', JStr ''RECOVERABLE_INCONSISTENCY''} \<and> \<not> recognized_recovery plan then
       Inr (Some (Halt ''AUTOPILOT_FAILED''
         (''consistency requires a genuine gate: '' @ py_str (jor classification (JStr ''unknown'')))))
     else rbind (plan_feature plan) (\<lambda>_.
       if action \<in> {''human_decision_resolution'', ''human_merge_approval''}
           \<or> (truthy (oget plan ''human_gate'') \<and> \<not> recognized_recovery plan) then
         Inr (Some (Halt ''AUTOPILOT_STOPPED'' ''authoritative projection contains a genuine human gate''))
       else if action \<in> {''disabled'', ''paused'', ''portfolio_complete'', ''completed''} then
         Inr (Some (Halt ''AUTOPILOT_COMPLETED'' (''authoritative projection reached '' @ action)))
       else Inr None))"

definition route_turn :: "'w autopilot \<Rightarrow> obj \<Rightarrow> ('w ap_state, ap_turn) eff" where
  "route_turn A plan =
     sbind (slift (plan_feature plan)) (\<lambda>feature.
     let action = plan_action plan in
     sbind (case feature of None \<Rightarrow> sret ()
            | Some f \<Rightarrow> on_io (emit_event A ''FEATURE_SELECTED'' plan (f @ '' selected through '' @ action) None)) (\<lambda>_.
     sbind (on_io (announce_recovery A action plan)) (\<lambda>_.
     sbind sget (\<lambda>s.
     sbind (on_io (attempt_route A action plan)) (\<lambda>result.
     sbind (on_io (record_result A plan result (io_world (as_io s)))) (\<lambda>_.
     sbind (on_io (announce_result A action plan result)) (\<lambda>_.
     finish_turn A action feature plan result)))))))"

text \<open>\<open>pending\<close> is the plan a failed recovery already asked for.\<close>

definition planned_turn :: "'w autopilot \<Rightarrow> obj option \<Rightarrow> ('w ap_state, ap_turn) eff" where
  "planned_turn A pending =
     sbind (case pending of None \<Rightarrow> on_io (au_plan A) | Some p \<Rightarrow> sret p) (\<lambda>plan.
     sbind (on_io (au_consistency A)) (\<lambda>evidence.
     case evidence of
       JObj consistency \<Rightarrow>
         sbind (slift (gate_before_route (oget consistency ''classification'') plan)) (\<lambda>gate.
         case gate of
           Some turn \<Rightarrow> sret turn
         | None \<Rightarrow> route_turn A plan)
     | _ \<Rightarrow> sthrow ConveyorError ''consistency checker returned invalid evidence''))"

definition autopilot_turn :: "'w autopilot \<Rightarrow> obj option \<Rightarrow> ('w ap_state, ap_turn) eff" where
  "autopilot_turn A pending =
     sbind (on_io (honour_stop A [] ''stopped at a safe transition checkpoint'' (sret (Again None)))) (\<lambda>stop.
     case stop of
       Halt a b \<Rightarrow> sret (Halt a b)
     | Again _ \<Rightarrow> planned_turn A pending)"

subsection \<open>The loop\<close>

partial_function (option) autopilot_loop ::
  "'w autopilot \<Rightarrow> obj option \<Rightarrow> 'w ap_state \<Rightarrow> ((string \<times> string) res \<times> 'w ap_state) option" where
  "autopilot_loop A pending s =
     (case autopilot_turn A pending s of
        (Inl e, t) \<Rightarrow> Some (Inl e, t)
      | (Inr (Halt terminal diagnostic), t) \<Rightarrow> Some (Inr (terminal, diagnostic), t)
      | (Inr (Again p), t) \<Rightarrow> autopilot_loop A p t)"

definition ap_begin :: "'w autopilot \<Rightarrow> string \<Rightarrow> ('w ap_io, string option) eff" where
  "ap_begin A run_id =
     sbind (smodify (\<lambda>s. s\<lparr>io_run := Some run_id\<rparr>)) (\<lambda>_.
     sbind sget (\<lambda>s.
     sbind (in_dir (ownership_acquire (io_view A s) run_id)) (\<lambda>(record, moved).
     sbind (smodify (\<lambda>s. s\<lparr>io_owner := Some run_id\<rparr>)) (\<lambda>_. sret moved))))"

definition ap_started :: "'w autopilot \<Rightarrow> ('w ap_io, unit) eff" where
  "ap_started A =
     sbind (au_plan A) (\<lambda>initial.
     emit_event A ''AUTOPILOT_STARTED'' initial ''continuous controller loop acquired exclusive project ownership'' None)"

text \<open>The handler of the loop's exceptions\<close>

definition ap_interrupted :: "'w autopilot \<Rightarrow> exn \<Rightarrow> ('w ap_io, string \<times> string) eff" where
  "ap_interrupted A e =
     sbind (stop_requested A) (\<lambda>stop.
     case (exn_cls e, stop) of
       (AutopilotStopRequested, Some request) \<Rightarrow>
         sbind (acknowledge_stop A request) (\<lambda>_.
         sbind sget (\<lambda>s.
         sret (''AUTOPILOT_STOPPED'', ''stopped at safe inner lifecycle boundary ''
           @ (case io_observed s of None \<Rightarrow> ''unknown'' | Some b \<Rightarrow> if b = [] then ''unknown'' else b))))
     | _ \<Rightarrow> sret (''AUTOPILOT_FAILED'', class_name (exn_cls e) @ '': '' @ exn_msg e))"

definition ap_report_end :: "'w autopilot \<Rightarrow> string \<Rightarrow> string \<Rightarrow> ('w ap_io, unit) eff" where
  "ap_report_end A terminal diagnostic =
     sbind (scatch (\<lambda>_. True) (au_plan A) (\<lambda>_. sret [])) (\<lambda>plan.
     sbind (emit_event A terminal plan diagnostic None) (\<lambda>_.
     write_status A True (Some terminal) (Some diagnostic)))"

definition ap_release :: "('w ap_io, unit) eff" where
  "ap_release = sbind sget (\<lambda>s. in_dir (ownership_release (io_owner s)))"

text \<open>\<^verbatim>\<open>try: m finally: f\<close>, where an exception of \<open>f\<close> replaces the one of \<open>m\<close>\<close>

definition sfinally :: "('s, 'a) eff \<Rightarrow> ('s, unit) eff \<Rightarrow> ('s, 'a) eff" where
  "sfinally m f = (\<lambda>s. case m s of (r, t) \<Rightarrow> (case f t of (Inl e, u) \<Rightarrow> (Inl e, u) | (Inr _, u) \<Rightarrow> (r, u)))"

definition ap_report :: "'w autopilot \<Rightarrow> string option \<Rightarrow> string \<times> string \<Rightarrow> ('w ap_io, obj) eff" where
  "ap_report A moved terminal =
     sbind sget (\<lambda>s. sret
       [(''schema_version'', JInt 1), (''project'', JStr (av_project (io_view A s))), (''run_id'', of_opt (io_run s)),
        (''classification'', JStr (fst terminal)), (''diagnostic'', JStr (snd terminal)), (''status_path'', JStr (au_status_path A)),
        (''ownership_recovered'', of_opt moved), (''ownership_released'', JBool (ld_lock (io_dir s) = None)),
        (''writer_lease_remaining'', JBool (av_writer (io_view A s) \<noteq> None)), (''events'', JArr (map JObj (io_events s))),
        (''features'', JArr (map (JObj \<circ> snd) (io_features s)))])"

text \<open>The terminal state of a run, with the exception its handler raised, if any\<close>

definition ap_settle :: "'w autopilot \<Rightarrow> (string \<times> string) res \<Rightarrow> ('w ap_io, (string \<times> string) \<times> exn option) eff" where
  "ap_settle A outcome =
     (case outcome of
        Inr x \<Rightarrow> sret (x, None)
      | Inl e \<Rightarrow> (\<lambda>s. case ap_interrupted A e s of
            (Inr x, t) \<Rightarrow> (Inr (x, None), t)
          | (Inl e', t) \<Rightarrow> (Inr ((''AUTOPILOT_FAILED'', ''autopilot ended unexpectedly''), Some e'), t)))"

definition ap_end :: "'w autopilot \<Rightarrow> string option \<Rightarrow> (string \<times> string) res \<Rightarrow> ('w ap_io, obj) eff" where
  "ap_end A moved outcome =
     sbind (ap_settle A outcome) (\<lambda>(terminal, raised).
     sbind (sfinally (ap_report_end A (fst terminal) (snd terminal)) ap_release) (\<lambda>_.
     case raised of Some e \<Rightarrow> slift (Inl e) | None \<Rightarrow> ap_report A moved terminal))"

definition autopilot_apply :: "'w autopilot \<Rightarrow> string \<Rightarrow> 'w ap_state \<Rightarrow> (obj res \<times> 'w ap_state) option" where
  "autopilot_apply A run_id s =
     (case on_io (ap_begin A run_id) s of
        (Inl e, t) \<Rightarrow> Some (Inl e, t)
      | (Inr moved, t) \<Rightarrow>
          (case on_io (ap_started A) t of
             (Inl e, u) \<Rightarrow> Some (on_io (ap_end A moved (Inl e)) u)
           | (Inr _, u) \<Rightarrow> map_option (\<lambda>(r, v). on_io (ap_end A moved r) v) (autopilot_loop A None u)))"

subsection \<open>Requests from outside\<close>

definition request_stop :: "'w autopilot \<Rightarrow> string option \<Rightarrow> ('w ap_io, obj) eff" where
  "request_stop A reason =
     sbind sget (\<lambda>s. let v = io_view A s;
       request = [(''schema_version'', JInt 1), (''project_id'', JStr (av_project v)), (''requested_at'', JStr (pr_now (av_proc v))),
         (''requested_by_pid'', JInt (pr_pid (av_proc v))), (''requested_by_host'', JStr (pr_host (av_proc v))),
         (''reason'', JStr (case reason of None \<Rightarrow> ''user requested a durable autopilot stop''
            | Some r \<Rightarrow> if r = [] then ''user requested a durable autopilot stop'' else r))] in
     sbind (smodify (\<lambda>s. s\<lparr>io_stop := Some (Some (redact_value (au_redact A) (JObj request)))\<rparr>)) (\<lambda>_.
     sret [(''classification'', JStr ''STOP_REQUESTED''), (''project'', JStr (av_project v)),
           (''stop_request_path'', JStr (au_stop_path A)), (''request'', JObj request)]))"

definition autopilot_status :: "'w autopilot \<Rightarrow> 'w ap_io \<Rightarrow> obj res" where
  "autopilot_status A s =
     rbind (read_lock (ld_lock (io_dir s))) (\<lambda>ownership.
     rbind (read_lock (io_stop s)) (\<lambda>stop.
     rbind (read_lock (map_option Some (io_status s))) (\<lambda>report.
     let v = io_view A s;
         alive = (case ownership of None \<Rightarrow> None
            | Some r \<Rightarrow> holder_alive (av_proc v) (oget r ''host'') (oget r ''process_id''));
         shown = (\<lambda>d. case d of None \<Rightarrow> JNull | Some r \<Rightarrow> JObj r) in
     Inr [(''schema_version'', JInt 1), (''project'', JStr (av_project v)),
          (''active'', JBool (ownership \<noteq> None \<and> alive = Some True)), (''ownership'', shown ownership),
          (''owner_process_alive'', case alive of None \<Rightarrow> JNull | Some b \<Rightarrow> JBool b),
          (''stop_requested'', JBool (stop \<noteq> None)), (''stop_request'', shown stop), (''status_path'', JStr (au_status_path A)),
          (''report'', shown report)])))"

definition autopilot_dry_run :: "'w autopilot \<Rightarrow> ('w ap_io, obj) eff" where
  "autopilot_dry_run A =
     sbind (au_plan A) (\<lambda>plan.
     sbind (au_consistency A) (\<lambda>evidence.
     case evidence of
       JObj consistency \<Rightarrow>
         sbind (slift (plan_feature plan)) (\<lambda>feature.
         sbind sget (\<lambda>s.
         sret [(''schema_version'', JInt 1), (''mode'', JStr ''dry-run''), (''project'', JStr (av_project (io_view A s))),
               (''current_state'', JStr (plan_state plan)), (''first_feature'', of_opt feature),
               (''exact_next_route'', JStr (plan_action plan)), (''consistency'', oget consistency ''classification''),
               (''loop_policy'', strs [''queue_reconciliation'', ''feature_ready'', ''feature_preparation'', ''feature_execution'',
                  ''feature_acceptance'', ''integration_pending'', ''milestone_integration'', ''queue_reconciliation'', ''next_feature'']),
               (''retry_budgets'', JObj (map (\<lambda>kv. (fst kv, JInt (snd kv))) (au_budgets A))),
               (''stop_behavior'', JObj [(''durable_request'', JStr (au_stop_path A)),
                  (''safe_checkpoints'', strs [''before_transaction'', ''before_model'', ''before_application_mutation'', ''before_commit'',
                     ''before_integration'', ''between_validation_tiers'', ''before_next_feature'']),
                  (''atomic_operations_are_not_interrupted'', JBool True),
                  (''continuation_command'', JStr (''scripts/conveyor autopilot --project '' @ av_project (io_view A s) @ '' --apply''))]),
               (''deterministic_recovery_routes'', strs DETERMINISTIC_RECOVERY_ROUTES),
               (''model_backed_repair_routes'', strs MODEL_BACKED_REPAIR_ROUTES),
               (''first_cycle_estimate'', oget plan ''cost_aware_run_plan''),
               (''dry_run_guarantees'', JObj (map (\<lambda>k. (k, JInt 0)) [''writes'', ''models'', ''children'', ''feature_executions'',
                  ''integrations'', ''leases'', ''transactions'', ''tests'', ''application_mutations''])),
               (''structured_report_path_on_apply'', JStr (au_status_path A))]))
     | _ \<Rightarrow> sthrow ConveyorError ''consistency checker returned invalid evidence''))"

end
