(* ===== verification/Autopilot_Theorems.thy ===== *)
theory Autopilot_Theorems
  imports Autopilot
begin

section \<open>What the autopilot guarantees\<close>

text \<open>
  The calls of the loop that only report leave the world, the stop request and the counters alone; the rest
  follows: a stop request is honoured before anything is run, a gate keeps every route from running, the
  ownership is gone when a run returns, and retries bound the failures. That the bound is for each feature is shown
  by a run that never ends.
\<close>

subsection \<open>Frames\<close>

definition eq_on :: "('s \<Rightarrow> 'a) \<Rightarrow> 's \<Rightarrow> 's \<Rightarrow> bool" where
  "eq_on f s t \<longleftrightarrow> f t = f s"

lemma eq_on_order [simp]: "reflp (eq_on f)" "transp (eq_on f)"
  by (auto simp: eq_on_def reflp_def transp_def)

lemma steps_smodify_eq [steps_intros]: "(\<And>s. f (g s) = f s) \<Longrightarrow> steps (eq_on f) (smodify g)"
  by (simp add: steps_def eq_on_def eff_simps)

lemma steps_in_dir [steps_intros]: "(\<And>s d. f (s\<lparr>io_dir := d\<rparr>) = f s) \<Longrightarrow> steps (eq_on f) (in_dir m)"
  by (simp add: steps_def eq_on_def in_dir_def spart_def split: prod.split)

lemma steps_on_io:
  "(\<And>i s. R (as_io s) i \<Longrightarrow> S s (s\<lparr>as_io := i\<rparr>)) \<Longrightarrow> steps R m \<Longrightarrow> steps S (on_io m)"
  by (rule stepsI) (auto simp: on_io_def spart_def dest: stepsD split: prod.splits)

text \<open>What no report touches\<close>

definition io_core :: "'w ap_io \<Rightarrow> 'w \<times> lock_file \<times> string option \<times> string option" where
  "io_core s = (io_world s, io_stop s, io_run s, io_owner s)"

lemma steps_write_status [steps_intros]: "steps (eq_on io_core) (write_status A b c d)"
  by (simp add: write_status_def steps_smodify_eq io_core_def)

lemma steps_emit [steps_intros]: "steps (eq_on io_core) (emit_event A e plan d tx)"
  unfolding emit_event_def by (intro steps_intros eq_on_order) (simp_all add: io_core_def)

lemma steps_mark [steps_intros]: "steps (eq_on io_core) (mark_feature f d)"
  unfolding mark_feature_def by (intro steps_intros eq_on_order) (simp add: io_core_def)

lemma steps_record [steps_intros]: "steps (eq_on io_core) (record_result A plan result w)"
  unfolding record_result_def Let_def by (intro steps_intros eq_on_order) (simp add: io_core_def)

lemma steps_announce [steps_intros]:
  "steps (eq_on io_core) (announce_recovery A action plan)" "steps (eq_on io_core) (announce_result A action plan result)"
proof -
  have "steps (eq_on io_core) (announce_retained A plan result)"
    unfolding announce_retained_def
    by (cases "oget result ''retained_result''"; cases "oget result ''human_gate''") (simp_all add: steps_pure steps_swhen steps_emit)
  then show "steps (eq_on io_core) (announce_result A action plan result)"
    unfolding announce_result_def by (intro steps_intros eq_on_order)
  show "steps (eq_on io_core) (announce_recovery A action plan)"
    unfolding announce_recovery_def by (intro steps_intros eq_on_order)
qed

text \<open>Asking for a stop changes nothing.\<close>

lemma stop_requested_state: "stop_requested A s = (r, t) \<Longrightarrow> t = s"
  by (auto simp: stop_requested_def sbind_def eff_simps split: sum.splits option.splits prod.splits)

subsection \<open>Stop requests\<close>

lemma stop_requested_present: "io_stop s \<noteq> None \<Longrightarrow> stop_requested A s \<noteq> (Inr None, t)"
  by (auto simp: stop_requested_def sbind_def eff_simps read_lock_def check_def raise_def
      split: sum.splits option.splits json.splits if_splits)

lemma stop_requested_none: "io_stop s = None \<Longrightarrow> stop_requested A s = (Inr None, s)"
  by (simp add: stop_requested_def sbind_def eff_simps read_lock_def)

definition stopped :: "'w ap_io \<Rightarrow> string \<Rightarrow> ap_turn res \<times> 'w ap_io \<Rightarrow> bool" where
  "stopped s diagnostic rt \<longleftrightarrow> io_world (snd rt) = io_world s
     \<and> (case fst rt of
          Inr turn \<Rightarrow> turn = Halt ''AUTOPILOT_STOPPED'' diagnostic \<and> io_stop (snd rt) = None \<and> io_ack (snd rt) \<noteq> None
        | Inl e \<Rightarrow> io_stop (snd rt) = io_stop s)"

lemma honour_stop_stopped:
  assumes "io_stop s \<noteq> None"
  shows "stopped s diagnostic (honour_stop A plan diagnostic rest s)"
proof (cases "stop_requested A s")
  case (Pair r t)
  then have t: "t = s" by (rule stop_requested_state)
  show ?thesis
  proof (cases r)
    case (Inl e)
    then show ?thesis using Pair t by (simp add: honour_stop_def sbind_def stopped_def)
  next
    case (Inr stop)
    then obtain request where request: "stop = Some request"
      using stop_requested_present [OF assms] Pair t by (cases stop) auto
    let ?d = "py_str (jor (oget request ''reason'') (JStr ''durable stop requested''))
      @ (case io_observed s of None \<Rightarrow> [] | Some b \<Rightarrow> if b = [] then [] else ''; first observed at '' @ b)"
    obtain q u where e: "emit_event A ''STOP_REQUESTED'' plan ?d None s = (q, u)" by fastforce
    then have core: "io_core u = io_core s" using stepsD [OF steps_emit e] by (simp add: eq_on_def)
    have "honour_stop A plan diagnostic rest s =
        sbind (emit_event A ''STOP_REQUESTED'' plan ?d None) (\<lambda>_.
        sbind (acknowledge_stop A request) (\<lambda>_. sret (Halt ''AUTOPILOT_STOPPED'' diagnostic))) s"
      using Pair t Inr request by (simp add: honour_stop_def sbind_def eff_simps)
    then show ?thesis
      using e core assms
      by (cases q) (auto simp: sbind_def stopped_def acknowledge_stop_def eff_simps io_core_def check_def)
  qed
qed

lemma turn_stopped:
  "if io_stop (as_io s) = None then True
   else (case autopilot_turn A pending s of (r, t) \<Rightarrow>
     stopped (as_io s) ''stopped at a safe transition checkpoint'' (r, as_io t)
     \<and> as_retries t = as_retries s \<and> as_signatures t = as_signatures s)"
proof (cases "io_stop (as_io s) = None")
  case False
  let ?h = "honour_stop A [] ''stopped at a safe transition checkpoint'' (sret (Again None))"
  obtain r t where h: "?h (as_io s) = (r, t)" by fastforce
  have st: "stopped (as_io s) ''stopped at a safe transition checkpoint'' (r, t)"
    using honour_stop_stopped [OF False, of "''stopped at a safe transition checkpoint''" A "[]" "sret (Again None)"] h by simp
  show ?thesis
  proof (cases r)
    case (Inl e)
    then show ?thesis using h st by (simp add: autopilot_turn_def sbind_def on_io_def spart_def)
  next
    case (Inr turn)
    then have "turn = Halt ''AUTOPILOT_STOPPED'' ''stopped at a safe transition checkpoint''"
      using st by (simp add: stopped_def)
    then show ?thesis using h st Inr by (simp add: autopilot_turn_def sbind_def on_io_def spart_def eff_simps)
  qed
qed simp

text \<open>
  Claim C35. A stop request ends the run, before anything else is done. A loop that finds a request, whatever plan it
  holds, returns in that turn: it asks for no plan, checks nothing and runs no route, so the world and the counters are as
  they were. It ends as stopped, with the request acknowledged and removed, or it raises and leaves the request.
\<close>

theorem stop_ends_run:
  "if io_stop (as_io s) = None then True
   else (case autopilot_loop A pending s of
       None \<Rightarrow> False
     | Some (outcome, t) \<Rightarrow>
         io_world (as_io t) = io_world (as_io s) \<and> as_retries t = as_retries s \<and> as_signatures t = as_signatures s
         \<and> (case outcome of
              Inr terminal \<Rightarrow> fst terminal = ''AUTOPILOT_STOPPED'' \<and> io_stop (as_io t) = None \<and> io_ack (as_io t) \<noteq> None
            | Inl e \<Rightarrow> io_stop (as_io t) = io_stop (as_io s)))"
proof (cases "io_stop (as_io s) = None")
  case False
  obtain r t where turn: "autopilot_turn A pending s = (r, t)" by fastforce
  have "stopped (as_io s) ''stopped at a safe transition checkpoint'' (r, as_io t)
      \<and> as_retries t = as_retries s \<and> as_signatures t = as_signatures s"
    using turn_stopped [of s A pending] turn unfolding if_not_P [OF False] by simp
  then show ?thesis
    using turn unfolding if_not_P [OF False]
    by (subst autopilot_loop.simps) (auto simp: stopped_def split: sum.split)
qed simp

subsection \<open>Gates\<close>

lemma turn_no_stop:
  assumes "io_stop (as_io s) = None"
  shows "autopilot_turn A pending s = planned_turn A pending s"
proof -
  have "on_io (honour_stop A [] ''stopped at a safe transition checkpoint'' (sret (Again None))) s = (Inr (Again None), s)"
    using assms by (simp add: on_io_def spart_def honour_stop_def sbind_def stop_requested_none eff_simps)
  then show ?thesis unfolding autopilot_turn_def by (subst sbind_Inr) auto
qed

text \<open>The plan of a turn, and the classification its consistency check gives\<close>

definition turn_plan :: "'w autopilot \<Rightarrow> obj option \<Rightarrow> 'w ap_state \<Rightarrow> obj res" where
  "turn_plan A pending s = (case pending of Some p \<Rightarrow> Inr p | None \<Rightarrow> fst (au_plan A (as_io s)))"

definition turn_evidence :: "'w autopilot \<Rightarrow> obj option \<Rightarrow> 'w ap_state \<Rightarrow> json res" where
  "turn_evidence A pending s =
     fst (au_consistency A (case pending of Some _ \<Rightarrow> as_io s | None \<Rightarrow> snd (au_plan A (as_io s))))"

definition refused :: "obj \<Rightarrow> obj \<Rightarrow> bool" where
  "refused plan consistency \<longleftrightarrow>
     plan_action plan \<in> {''human_decision_resolution'', ''human_merge_approval''}
     \<or> (\<not> recognized_recovery plan
          \<and> (truthy (oget plan ''human_gate'')
             \<or> oget consistency ''classification'' \<notin> {JStr ''CONSISTENT'', JStr ''RECOVERABLE_INCONSISTENCY''}))"

lemma refused_gate:
  "refused plan c \<Longrightarrow> gate_before_route (oget c ''classification'') plan \<noteq> Inr None
     \<and> gate_before_route (oget c ''classification'') plan \<noteq> Inr (Some (Again p))"
  by (auto simp: refused_def gate_before_route_def Let_def)

abbreviation with_routes ::
  "(string \<Rightarrow> obj \<Rightarrow> ('w ap_io, obj) eff) \<Rightarrow> (string \<Rightarrow> ('w ap_io, obj) eff) \<Rightarrow> 'w autopilot \<Rightarrow> 'w autopilot" where
  "with_routes recovery run A \<equiv> A\<lparr>au_recover := recovery, au_run := run\<rparr>"

lemma io_view_routes: "io_view (with_routes recovery run A) = io_view A"
  by (simp add: fun_eq_iff io_view_def)

lemma write_status_routes: "write_status (with_routes recovery run A) = write_status A"
  by (intro ext) (simp add: write_status_def io_view_routes)

lemma event_item_routes: "event_item (with_routes recovery run A) = event_item A"
  by (intro ext) (simp add: event_item_def io_view_routes)

lemma emit_event_routes: "emit_event (with_routes recovery run A) = emit_event A"
  by (intro ext) (simp add: emit_event_def io_view_routes event_item_routes write_status_routes)

lemma stop_requested_routes: "stop_requested (with_routes recovery run A) = stop_requested A"
  unfolding stop_requested_def io_view_routes by (rule refl)

lemma acknowledge_stop_routes: "acknowledge_stop (with_routes recovery run A) = acknowledge_stop A"
  by (intro ext) (simp add: acknowledge_stop_def io_view_routes)

lemma honour_stop_routes: "honour_stop (with_routes recovery run A) = honour_stop A"
  unfolding honour_stop_def emit_event_routes stop_requested_routes acknowledge_stop_routes by (rule refl)

lemma refused_turn:
  assumes "turn_plan A pending s = Inr plan" "turn_evidence A pending s = Inr (JObj c)" "refused plan c"
  shows "planned_turn (with_routes recovery run A) pending s = planned_turn A pending s"
    and "fst (planned_turn A pending s) \<noteq> Inr (Again p)"
proof -
  obtain t where p: "(case pending of None \<Rightarrow> on_io (au_plan A) | Some p \<Rightarrow> sret p) s = (Inr plan, t)"
      "turn_evidence A pending s = fst (au_consistency A (as_io t))"
    using assms(1)
    by (cases pending; cases "au_plan A (as_io s)")
      (auto simp: turn_plan_def turn_evidence_def on_io_def spart_def eff_simps)
  obtain u where c: "on_io (au_consistency A) t = (Inr (JObj c), u)"
    using assms(2) p(2) by (cases "au_consistency A (as_io t)") (auto simp: on_io_def spart_def)
  have run: "planned_turn B pending s = sbind (slift (gate_before_route (oget c ''classification'') plan))
      (\<lambda>gate. case gate of Some turn \<Rightarrow> sret turn | None \<Rightarrow> route_turn B plan) u"
    if "au_plan B = au_plan A" "au_consistency B = au_consistency A" for B
    unfolding planned_turn_def that using p(1) c by (simp add: sbind_def)
  have "\<exists>r. r \<noteq> Inr (Again p) \<and> (\<forall>B. sbind (slift (gate_before_route (oget c ''classification'') plan))
      (\<lambda>gate. case gate of Some turn \<Rightarrow> sret turn | None \<Rightarrow> route_turn B plan) u = (r, u))" for p
  proof (cases "gate_before_route (oget c ''classification'') plan")
    case (Inr g)
    then obtain turn where "g = Some turn" "turn \<noteq> Again p" using refused_gate [OF assms(3), of p] by (cases g) auto
    then show ?thesis using Inr by (auto simp: eff_simps)
  qed (auto simp: eff_simps)
  then obtain r where "r \<noteq> Inr (Again p)" "\<And>B. sbind (slift (gate_before_route (oget c ''classification'') plan))
      (\<lambda>gate. case gate of Some turn \<Rightarrow> sret turn | None \<Rightarrow> route_turn B plan) u = (r, u)" by blast
  then show "planned_turn (with_routes recovery run A) pending s = planned_turn A pending s"
    and "fst (planned_turn A pending s) \<noteq> Inr (Again p)"
    using run [of "with_routes recovery run A"] run [of A] by simp_all
qed


subsection \<open>The end of a run\<close>

definition terminals :: "string list" where
  "terminals = [''AUTOPILOT_STOPPED'', ''AUTOPILOT_COMPLETED'', ''AUTOPILOT_FAILED'']"

text \<open>A call that halts only in one of these\<close>

definition halts :: "('s, ap_turn) eff \<Rightarrow> bool" where
  "halts m \<longleftrightarrow> (\<forall>s a b t. m s = (Inr (Halt a b), t) \<longrightarrow> a \<in> set terminals)"

named_theorems halts_intros "calls that halt in a terminal state"

lemma haltsI: "(\<And>s a b t. m s = (Inr (Halt a b), t) \<Longrightarrow> a \<in> set terminals) \<Longrightarrow> halts m"
  by (auto simp: halts_def)

lemma haltsD: "halts m \<Longrightarrow> m s = (Inr (Halt a b), t) \<Longrightarrow> a \<in> set terminals"
  by (auto simp: halts_def)

lemma halts_sbind [halts_intros]: "(\<And>x. halts (f x)) \<Longrightarrow> halts (sbind m f)"
  by (rule haltsI) (auto simp: sbind_eq_Inr dest: haltsD)

lemma halts_sret [halts_intros]: "halts (sret (Again p))" "a \<in> set terminals \<Longrightarrow> halts (sret (Halt a b))"
  by (auto simp: halts_def sret_eq_Inr)

lemma halts_sthrow [halts_intros]: "halts (sthrow c m)"
  by (simp add: halts_def)

lemma halts_on_io [halts_intros]: "halts m \<Longrightarrow> halts (on_io m)"
  by (rule haltsI) (auto simp: on_io_def spart_eq_Inr dest: haltsD)

lemma halts_if [halts_intros]: "halts m \<Longrightarrow> halts n \<Longrightarrow> halts (if b then m else n)"
  by simp

lemma halts_option [halts_intros]: "halts m \<Longrightarrow> (\<And>x. halts (f x)) \<Longrightarrow> halts (case v of None \<Rightarrow> m | Some x \<Rightarrow> f x)"
  by (cases v) simp_all

lemma halts_honour [halts_intros]: "halts rest \<Longrightarrow> halts (honour_stop A plan d rest)"
  unfolding honour_stop_def by (intro halts_intros) (simp_all add: terminals_def)

lemma halts_end [halts_intros]: "halts (end_of_turn A plan)"
  unfolding end_of_turn_def by (intro halts_intros)

lemma halts_finish [halts_intros]: "halts (finish_turn A action feature plan result)"
proof -
  have "halts (failed_recovery A action feature plan result)"
    unfolding failed_recovery_def Let_def by (intro halts_intros) (simp_all add: terminals_def)
  moreover have "halts (failed_turn A action feature plan result (end_of_turn A plan))"
    unfolding failed_turn_def Let_def by (intro halts_intros) (simp_all add: terminals_def)
  ultimately show ?thesis
    unfolding finish_turn_def
    by (cases "terminal_result result" rule: option.exhaust; (simp; fail)?)
      (auto simp: terminals_def split: terminal_kind.split intro!: halts_intros)
qed

lemma gate_halts: "gate_before_route c plan = Inr (Some (Halt a b)) \<Longrightarrow> a \<in> set terminals"
  by (auto simp: gate_before_route_def Let_def terminals_def split: if_split_asm)

lemma halts_then: "halts m \<Longrightarrow> (\<And>p. halts (f p)) \<Longrightarrow> halts (sbind m (\<lambda>turn. case turn of Halt a b \<Rightarrow> sret (Halt a b) | Again p \<Rightarrow> f p))"
proof (rule haltsI, unfold sbind_eq_Inr, elim exE conjE)
  fix s a b t turn u
  assume m: "halts m" "\<And>p. halts (f p)" "m s = (Inr turn, u)"
    and rest: "(case turn of Halt a b \<Rightarrow> sret (Halt a b) | Again p \<Rightarrow> f p) u = (Inr (Halt a b), t)"
  then show "a \<in> set terminals" by (cases turn) (auto simp: sret_eq_Inr dest: haltsD)
qed

lemma halts_turn: "halts (autopilot_turn A pending)"
proof -
  have gate: "halts (sbind (slift (gate_before_route c plan)) (\<lambda>gate. case gate of Some turn \<Rightarrow> sret turn | None \<Rightarrow> route_turn A plan))"
    for c plan
  proof -
    have "halts (route_turn A plan)" unfolding route_turn_def Let_def by (intro halts_intros)
    then show ?thesis
      by (intro haltsI) (auto simp: sbind_eq_Inr slift_eq_Inr sret_eq_Inr split: option.split_asm dest: gate_halts haltsD)
  qed
  have "halts (planned_turn A pending)"
    unfolding planned_turn_def by (intro halts_sbind) (auto split: json.split intro: gate halts_sthrow)
  moreover have "halts (on_io (honour_stop A [] d (sret (Again None))))" for d
    by (intro halts_intros)
  ultimately show ?thesis
    unfolding autopilot_turn_def by (intro halts_then)
qed

lemma loop_terminal:
  assumes "autopilot_loop A pending s = Some (r, t)"
  shows "case r of Inr x \<Rightarrow> fst x \<in> set terminals | Inl e \<Rightarrow> True"
proof -
  have "case fst y of Inr x \<Rightarrow> fst x \<in> set terminals | Inl e \<Rightarrow> True" if "autopilot_loop A pending s = Some y" for y
  proof (rule autopilot_loop.raw_induct [where P = "\<lambda>A pending s y. case fst y of Inr x \<Rightarrow> fst x \<in> set terminals | Inl e \<Rightarrow> True", OF _ that])
    fix f and A :: "'a autopilot" and pending s and y :: "(char list \<times> char list) res \<times> 'a ap_state"
    assume ih: "\<And>A pending s y. f A pending s = Some y \<Longrightarrow> case fst y of Inr x \<Rightarrow> fst x \<in> set terminals | Inl e \<Rightarrow> True"
      and y: "(case autopilot_turn A pending s of
        (Inl e, t) \<Rightarrow> Some (Inl e, t)
      | (Inr (Halt terminal diagnostic), t) \<Rightarrow> Some (Inr (terminal, diagnostic), t)
      | (Inr (Again p), t) \<Rightarrow> f A p t) = Some y"
    show "case fst y of Inr x \<Rightarrow> fst x \<in> set terminals | Inl e \<Rightarrow> True"
      using y ih
      by (auto split: prod.split_asm sum.split_asm ap_turn.split_asm dest: haltsD [OF halts_turn])
  qed
  with assms show ?thesis by fastforce
qed

lemma release_frees: "ownership_release self d = (Inr u, t) \<Longrightarrow> ld_lock t = None"
  by (cases "ld_lock d")
    (auto simp: ownership_release_alt load_lock_apply read_lock_def sbind_def eff_simps unlink_lock_def check_def raise_def
      split: option.split_asm json.split_asm if_split_asm)

lemma ap_release_frees: "ap_release s = (Inr u, t) \<Longrightarrow> ld_lock (io_dir t) = None"
  by (auto simp: ap_release_def sbind_eq_Inr sget_eq_Inr in_dir_def spart_eq_Inr dest: release_frees)

lemma case_stop_requested:
  "(case c of AutopilotStopRequested \<Rightarrow> x | _ \<Rightarrow> y) = (if c = AutopilotStopRequested then x else y)"
  by (cases c) simp_all

lemma interrupted_terminal: "ap_interrupted A e s = (Inr x, t) \<Longrightarrow> fst x \<in> set terminals"
  unfolding ap_interrupted_def prod.case case_stop_requested sbind_eq_Inr
  apply (elim exE conjE)
  subgoal for stop u
    by (cases stop; cases "exn_cls e = AutopilotStopRequested")
      (auto simp: sbind_eq_Inr sret_eq_Inr terminals_def simp del: append.simps)
  done

lemma ap_end_released:
  assumes "ap_end A moved outcome s = (Inr report, t)" "case outcome of Inr x \<Rightarrow> fst x \<in> set terminals | Inl e \<Rightarrow> True"
  shows "ld_lock (io_dir t) = None \<and> oget report ''ownership_released'' = JBool True
    \<and> oget report ''classification'' \<in> set (map JStr terminals)"
proof -
  obtain terminal raised u where settle: "ap_settle A outcome s = (Inr (terminal, raised), u)"
    and rest: "sbind (sfinally (ap_report_end A (fst terminal) (snd terminal)) ap_release) (\<lambda>_.
      case raised of Some e \<Rightarrow> slift (Inl e) | None \<Rightarrow> ap_report A moved terminal) u = (Inr report, t)"
    using assms(1) by (auto simp: ap_end_def sbind_eq_Inr)
  then obtain w where w: "sfinally (ap_report_end A (fst terminal) (snd terminal)) ap_release u = (Inr (), w)"
    and r: "raised = None" "ap_report A moved terminal w = (Inr report, t)"
    by (auto simp: sbind_eq_Inr slift_eq_Inr split: option.split_asm)
  have "ld_lock (io_dir w) = None"
    using w by (auto simp: sfinally_def split: prod.split_asm sum.split_asm dest: ap_release_frees)
  moreover have "fst terminal \<in> set terminals"
    using settle r(1) assms(2)
    by (auto simp: ap_settle_def sret_eq_Inr split: sum.split_asm prod.split_asm dest: interrupted_terminal)
  ultimately show ?thesis
    using r(2) by (auto simp: ap_report_def sbind_eq_Inr sget_eq_Inr sret_eq_Inr)
qed

text \<open>
  Claim C37. A run that returns has given up its ownership. Whatever the plans, routes and stop requests are, when
  a run returns its report the ownership record is gone, the report says so, and it names one of the three
  terminal states; otherwise the run raises or does not end.
\<close>

theorem autopilot_releases:
  "case autopilot_apply A run_id s of
     Some (Inr report, t) \<Rightarrow> ld_lock (io_dir (as_io t)) = None \<and> oget report ''ownership_released'' = JBool True
       \<and> oget report ''classification'' \<in> set (map JStr terminals)
   | _ \<Rightarrow> True"
proof -
  let ?good = "\<lambda>x. case x of (Inr report, t) \<Rightarrow> ld_lock (io_dir (as_io t)) = None
      \<and> oget report ''ownership_released'' = JBool True \<and> oget report ''classification'' \<in> set (map JStr terminals)
    | _ \<Rightarrow> True"
  have fin: "?good (on_io (ap_end A moved outcome) u)"
    if "case outcome of Inr x \<Rightarrow> fst x \<in> set terminals | Inl e \<Rightarrow> True" for moved outcome u
    using that by (auto simp: on_io_def spart_def split: prod.split sum.split dest!: ap_end_released)
  obtain r t where begun: "on_io (ap_begin A run_id) s = (r, t)" by fastforce
  show ?thesis
  proof (cases r)
    case (Inr moved)
    obtain q u where started: "on_io (ap_started A) t = (q, u)" by fastforce
    show ?thesis
    proof (cases q)
      case (Inl e)
      then show ?thesis
        using fin [of "Inl e" moved u] begun started Inr by (simp add: autopilot_apply_def)
    next
      case (Inr x)
      show ?thesis
      proof (cases "autopilot_loop A None u")
        case None
        then show ?thesis using begun started Inr \<open>r = Inr moved\<close> by (simp add: autopilot_apply_def)
      next
        case (Some y)
        obtain outcome v where y: "y = (outcome, v)" by fastforce
        have "?good (on_io (ap_end A moved outcome) v)"
          using loop_terminal [OF Some [unfolded y]] by (rule fin)
        then show ?thesis using begun started Inr \<open>r = Inr moved\<close> Some y by (simp add: autopilot_apply_def)
      qed
    qed
  qed (simp add: autopilot_apply_def begun)
qed

end
