(* ===== verification/Autopilot_Termination.thy ===== *)
theory Autopilot_Termination
  imports Autopilot_Theorems
begin

section \<open>When a run of the autopilot ends\<close>

text \<open>
  The loop has no bound of its own on turns: what bounds it are the retry budgets, which are kept for each feature, and
  the progress of the engine. \<open>settles\<close> states the progress: the plans are about one feature, and
  every call into the engine that neither fails nor completes the work lowers a measure of the world, which nothing
  raises. Then a run ends. Without the first condition it need not: two features that fail in turn are run for ever.
\<close>

subsection \<open>Progress\<close>

text \<open>The results after which the loop does not go on to new work: completion, or a failure it counts\<close>

definition spends :: "obj \<Rightarrow> bool" where
  "spends result \<longleftrightarrow> terminal_result result = Some Work_Completed \<or> (terminal_result result = None \<and> turn_failed result)"

definition progresses :: "('w \<Rightarrow> nat) \<Rightarrow> ('w ap_io, obj) eff \<Rightarrow> bool" where
  "progresses m call \<longleftrightarrow> (\<forall>s. case call s of
     (Inl e, t) \<Rightarrow> m (io_world t) \<le> m (io_world s)
   | (Inr result, t) \<Rightarrow> if spends result then m (io_world t) \<le> m (io_world s) else m (io_world t) < m (io_world s))"

definition calmer :: "('w \<Rightarrow> nat) \<Rightarrow> 'w ap_io \<Rightarrow> 'w ap_io \<Rightarrow> bool" where
  "calmer m s t \<longleftrightarrow> m (io_world t) \<le> m (io_world s)"

record 'w settling =
  st_feature :: "string option"
  st_measure :: "'w \<Rightarrow> nat"

definition settles :: "'w autopilot \<Rightarrow> 'w settling \<Rightarrow> bool" where
  "settles A g \<longleftrightarrow>
     steps (calmer (st_measure g)) (au_plan A) \<and> steps (calmer (st_measure g)) (au_consistency A)
     \<and> (\<forall>s plan t. au_plan A s = (Inr plan, t) \<longrightarrow> plan_feature plan = Inr (st_feature g))
     \<and> (\<forall>action fs. progresses (st_measure g) (au_recover A action fs))
     \<and> (\<forall>mode. progresses (st_measure g) (au_run A mode))"

lemma calmer_order [simp]: "reflp (calmer m)" "transp (calmer m)"
  by (auto simp: calmer_def reflp_def transp_def)

definition quiet :: "('w \<Rightarrow> nat) \<Rightarrow> 'w ap_state \<Rightarrow> 'w ap_state \<Rightarrow> bool" where
  "quiet m s t \<longleftrightarrow> m (io_world (as_io t)) \<le> m (io_world (as_io s)) \<and> as_retries t = as_retries s"

lemma quiet_order [simp]: "reflp (quiet m)" "transp (quiet m)"
  by (auto simp: quiet_def reflp_def transp_def)

lemma steps_quiet [steps_intros]: "steps (calmer m) c \<Longrightarrow> steps (quiet m) (on_io c)"
  by (erule steps_on_io [rotated]) (simp add: quiet_def calmer_def)

lemma steps_core: "steps (eq_on io_core) c \<Longrightarrow> steps (calmer m) c"
  by (rule stepsI) (drule (1) stepsD, simp add: eq_on_def io_core_def calmer_def)

lemmas core_calls = steps_emit [THEN steps_core] steps_mark [THEN steps_core] steps_record [THEN steps_core]
  steps_announce(1) [THEN steps_core] steps_announce(2) [THEN steps_core]

lemma steps_calmer_smodify [steps_intros]: "(\<And>s. io_world (g s) = io_world s) \<Longrightarrow> steps (calmer m) (smodify g)"
  by (simp add: steps_def calmer_def eff_simps)

lemma steps_stop_requested: "steps (calmer m) (stop_requested A)"
  by (rule stepsI) (auto simp: calmer_def dest: stop_requested_state)

lemma steps_honour [steps_intros]: "steps (calmer m) rest \<Longrightarrow> steps (calmer m) (honour_stop A plan d rest)"
  unfolding honour_stop_def acknowledge_stop_def
  by (intro steps_intros core_calls steps_stop_requested) simp_all

lemma steps_observe: "steps (calmer m) (observe_lifecycle A b e)"
  unfolding observe_lifecycle_def
  by (intro steps_intros core_calls steps_stop_requested) (auto split: prod.split intro!: core_calls)

lemma steps_end_of_turn: "steps (quiet m) (end_of_turn A plan)"
  unfolding end_of_turn_def by (intro steps_intros steps_observe) simp_all

lemma honour_again: "honour_stop A plan d (sret (Again None)) s = (Inr (Again p), t) \<Longrightarrow> p = None"
  by (auto simp: honour_stop_def sbind_eq_Inr sret_eq_Inr split: option.split_asm)

lemma end_of_turn_again: "end_of_turn A plan s = (Inr (Again p), t) \<Longrightarrow> p = None"
  by (auto simp: end_of_turn_def on_io_def spart_eq_Inr sbind_eq_Inr dest: honour_again)

subsection \<open>The variant\<close>

definition used :: "string option \<Rightarrow> string \<Rightarrow> ((string option \<times> string) \<times> int) list \<Rightarrow> int" where
  "used f k retries = (case map_of retries (f, k) of None \<Rightarrow> 0 | Some n \<Rightarrow> n)"

definition retries_left :: "'w autopilot \<Rightarrow> string option \<Rightarrow> ((string option \<times> string) \<times> int) list \<Rightarrow> nat" where
  "retries_left A f retries = (\<Sum>k\<leftarrow>map fst DEFAULT_RETRY_BUDGETS. nat (budget A k - used f k retries))"

definition variant :: "'w autopilot \<Rightarrow> 'w settling \<Rightarrow> 'w ap_state \<Rightarrow> nat" where
  "variant A g s = st_measure g (io_world (as_io s)) + retries_left A (st_feature g) (as_retries s)"

lemma quiet_variant: "quiet (st_measure g) s t \<Longrightarrow> variant A g t \<le> variant A g s"
  by (simp add: quiet_def variant_def)

lemma budget_key_listed: "retry_budget_key action outcome \<in> set (map fst DEFAULT_RETRY_BUDGETS)"
  by (simp add: retry_budget_key_def DEFAULT_RETRY_BUDGETS_def)

lemma used_aset: "used f k (aset (f, k') n retries) = (if k = k' then n else used f k retries)"
  by (simp add: used_def)

lemma retry_spent:
  assumes "k \<in> set (map fst DEFAULT_RETRY_BUDGETS)" "next_count (f, k) retries \<le> budget A k"
  shows "retries_left A f (aset (f, k) (next_count (f, k) retries) retries) < retries_left A f retries"
proof -
  have n: "next_count (f, k) retries = used f k retries + 1"
    by (simp add: next_count_def used_def)
  have keys: "distinct (map fst DEFAULT_RETRY_BUDGETS)" by (simp add: DEFAULT_RETRY_BUDGETS_def)
  show ?thesis
    unfolding retries_left_def sum_list_distinct_conv_sum_set [OF keys]
  proof (rule sum_strict_mono_ex1)
    show "finite (set (map fst DEFAULT_RETRY_BUDGETS))" by simp
    show "\<forall>k'\<in>set (map fst DEFAULT_RETRY_BUDGETS).
        nat (budget A k' - used f k' (aset (f, k) (next_count (f, k) retries) retries)) \<le> nat (budget A k' - used f k' retries)"
      using n by (auto simp: used_aset)
    show "\<exists>k'\<in>set (map fst DEFAULT_RETRY_BUDGETS).
        nat (budget A k' - used f k' (aset (f, k) (next_count (f, k) retries) retries)) < nat (budget A k' - used f k' retries)"
      using assms n by (intro bexI [of _ k]) (simp_all add: used_aset)
  qed
qed

subsection \<open>A turn\<close>

lemma count_retry_run: "count_retry f k s =
  (Inr (next_count (f, k) (as_retries s)), s\<lparr>as_retries := aset (f, k) (next_count (f, k) (as_retries s)) (as_retries s)\<rparr>)"
  by (simp add: count_retry_def Let_def eff_runs eff_simps)

lemma sbind_count_retry: "sbind (count_retry f k) c s = (let n = next_count (f, k) (as_retries s) in
    c n (s\<lparr>as_retries := aset (f, k) n (as_retries s)\<rparr>))"
  by (simp add: sbind_def count_retry_run Let_def)

lemma count_signature_quiet: "steps (quiet m) (count_signature sg)"
  unfolding count_signature_def Let_def
  by (intro steps_intros) (simp_all add: steps_def quiet_def eff_simps)

lemma settles_plan: "settles A g \<Longrightarrow> au_plan A s = (Inr plan, t) \<Longrightarrow> plan_feature plan = Inr (st_feature g)"
  by (simp add: settles_def) blast

lemma settles_calmer: "settles A g \<Longrightarrow> steps (calmer (st_measure g)) (au_plan A)"
  "settles A g \<Longrightarrow> steps (calmer (st_measure g)) (au_consistency A)"
  by (simp_all add: settles_def)

text \<open>When retries are exhausted the run goes on to another feature, and none is planned.\<close>

lemma exhausted_halts:
  assumes "settles A g"
  shows "sbind (on_io report) (\<lambda>_. sbind (on_io mark) (\<lambda>_. sbind (on_io (au_plan A)) (\<lambda>q. sbind (slift (plan_feature q)) (\<lambda>f.
      if f \<noteq> None \<and> f \<noteq> st_feature g \<and> other q then sret (Again None) else sret (Halt a b))))) s \<noteq> (Inr (Again p), t)"
  by (auto simp: sbind_eq_Inr slift_eq_Inr sret_eq_Inr on_io_def spart_eq_Inr split: if_split_asm dest!: settles_plan [OF assms])

lemma failed_turn_spends:
  assumes g: "settles A g"
    and run: "failed_turn A action (st_feature g) plan result (end_of_turn A plan) s = (Inr (Again p), t)"
  shows "p = None \<and> variant A g t < variant A g s"
proof -
  let ?k = "retry_budget_key action (outcome_of result)"
  obtain sg count u where sg: "failure_signature action plan result = Inr sg"
    and u: "count_signature sg s = (Inr count, u)"
    using run unfolding failed_turn_def sbind_eq_Inr slift_eq_Inr by blast
  define n where "n = next_count (st_feature g, ?k) (as_retries u)"
  define v where "v = u\<lparr>as_retries := aset (st_feature g, ?k) n (as_retries u)\<rparr>"
  have calm: "quiet (st_measure g) s u" using stepsD [OF count_signature_quiet u] .
  have cs: "sbind (count_signature sg) f s = f count u" for f :: "int \<Rightarrow> ('a ap_state, ap_turn) eff"
    using u by (simp add: sbind_def)
  have rest: "\<not> budget A ?k < n \<and> end_of_turn A plan v = (Inr (Again p), t)"
  proof (cases "budget A ?k < n \<or> oget result ''outcome'' = JStr ''repair_exhausted'' \<or> au_max_identical A < count")
    case True
    show ?thesis
      using run unfolding failed_turn_def sg sbind_slift_Inr cs sbind_count_retry Let_def
        n_def [symmetric] v_def [symmetric] if_P [OF True]
      by (rule notE [OF exhausted_halts [OF g]])
  next
    case False
    have "\<not> budget A ?k < n" using False by (simp only: de_Morgan_disj not_False_eq_True)
    moreover have "end_of_turn A plan v = (Inr (Again p), t)"
      using run unfolding failed_turn_def sg sbind_slift_Inr cs sbind_count_retry Let_def
        n_def [symmetric] v_def [symmetric] if_not_P [OF False] .
    ultimately show ?thesis by (rule conjI)
  qed
  have "quiet (st_measure g) v t" using stepsD [OF steps_end_of_turn conjunct2 [OF rest]] .
  then have "variant A g t \<le> variant A g v" by (rule quiet_variant)
  also have "\<dots> < variant A g u"
    using rest retry_spent [OF budget_key_listed, of "st_feature g" action "outcome_of result" "as_retries u" A]
    by (simp add: variant_def v_def n_def)
  also have "\<dots> \<le> variant A g s" using calm by (rule quiet_variant)
  finally show ?thesis using end_of_turn_again [OF conjunct2 [OF rest]] by (intro conjI)
qed

lemma look_run: "(if c then sbind sget (\<lambda>s. slift (f s)) else sret b) w = (Inr x, u) \<longleftrightarrow> (if c then f w = Inr x else x = b) \<and> u = w"
  by (auto simp: eff_runs slift_eq_Inr sret_eq_Inr)

lemma failed_recovery_spends:
  assumes g: "settles A g" and run: "failed_recovery A action (st_feature g) plan result s = (Inr (Again p), t)"
  shows "(\<exists>q. p = Some q \<and> plan_feature q = Inr (st_feature g)) \<and> variant A g t < variant A g s"
proof -
  let ?k = "''deterministic_recovery_attempts''"
  define n where "n = next_count (st_feature g, ?k) (as_retries s)"
  define v where "v = s\<lparr>as_retries := aset (st_feature g, ?k) n (as_retries s)\<rparr>"
  obtain w q changes where w: "on_io (au_plan A) v = (Inr q, w)" "\<not> budget A ?k < n" "p = Some q"
    and rest: "on_io (mark_feature (st_feature g) changes) w = (Inr (), t)"
    using run unfolding failed_recovery_def
    by (auto simp: sbind_eq_Inr slift_eq_Inr sget_eq_Inr look_run count_retry_run n_def v_def sret_eq_Inr
        split: if_split_asm)
  have "variant A g t \<le> variant A g w"
    using stepsD [OF steps_quiet [OF core_calls(2)] rest] by (rule quiet_variant)
  also have "\<dots> \<le> variant A g v"
    using stepsD [OF steps_quiet [OF settles_calmer(1) [OF g]] w(1)] by (rule quiet_variant)
  also have "\<dots> < variant A g s"
    using w(2) retry_spent [of ?k "st_feature g" "as_retries s" A]
    by (simp add: variant_def v_def n_def DEFAULT_RETRY_BUDGETS_def)
  finally show ?thesis
    using w settles_plan [OF g] by (auto simp: on_io_def spart_eq_Inr)
qed

definition pending_of :: "'w settling \<Rightarrow> obj option \<Rightarrow> bool" where
  "pending_of g p \<longleftrightarrow> (case p of None \<Rightarrow> True | Some q \<Rightarrow> plan_feature q = Inr (st_feature g))"

lemma finish_turn_spends:
  assumes g: "settles A g" and run: "finish_turn A action (st_feature g) plan result s = (Inr (Again p), t)"
  shows "pending_of g p \<and> (if spends result then variant A g t < variant A g s else variant A g t \<le> variant A g s)"
proof (cases "terminal_result result")
  case None
  show ?thesis
  proof (cases "turn_failed result")
    case True
    then have "spends result" using None by (simp add: spends_def)
    then show ?thesis
      using run None True
      by (auto simp: finish_turn_def pending_of_def split: if_split_asm
          dest!: failed_turn_spends [OF g] failed_recovery_spends [OF g])
  next
    case False
    then have run: "end_of_turn A plan s = (Inr (Again p), t)" using run None by (simp add: finish_turn_def)
    have "\<not> spends result" using None False by (simp add: spends_def)
    then show ?thesis
      using end_of_turn_again [OF run] quiet_variant [OF stepsD [OF steps_end_of_turn run]] by (simp add: pending_of_def)
  qed
next
  case (Some k)
  show ?thesis
  proof (cases k)
    case Human_Gate_Raised
    then obtain q where q: "on_io (au_plan A) s = (Inr q, t)" "p = None"
      using run Some by (auto simp: finish_turn_def sbind_eq_Inr sret_eq_Inr split: if_split_asm)
    have "\<not> spends result" using Some Human_Gate_Raised by (simp add: spends_def)
    then show ?thesis
      using q quiet_variant [OF stepsD [OF steps_quiet [OF settles_calmer(1) [OF g]] q(1)]] by (simp add: pending_of_def)
  next
    case Work_Completed
    then show ?thesis using run Some by (simp add: finish_turn_def sret_eq_Inr)
  qed
qed

lemma failure_spends: "spends (recovery_failure A e)"
  by (simp add: spends_def terminal_result_def turn_failed_def outcome_of_def recovery_failure_def oget_def jor_def py_str_def)

lemma progressesD: "progresses m c \<Longrightarrow> c s = (Inr result, t) \<Longrightarrow>
    if spends result then m (io_world t) \<le> m (io_world s) else m (io_world t) < m (io_world s)"
  by (fastforce simp: progresses_def split: prod.splits)

lemma progresses_failed: "progresses m c \<Longrightarrow> c s = (Inl e, t) \<Longrightarrow> m (io_world t) \<le> m (io_world s)"
  by (fastforce simp: progresses_def split: prod.splits)

lemma attempt_progresses:
  assumes g: "settles A g" and run: "attempt_route A action plan s = (Inr result, t)"
  shows "if spends result then st_measure g (io_world t) \<le> st_measure g (io_world s)
    else st_measure g (io_world t) < st_measure g (io_world s)"
proof -
  have calls: "progresses (st_measure g) (au_recover A action fs)" "progresses (st_measure g) (au_run A mode)" for fs mode
    using g by (simp_all add: settles_def)
  have "progresses (st_measure g) (sbind (slift r) (au_recover A action))" for r
    using calls(1) by (cases r) (simp_all add: progresses_def sbind_def eff_simps)
  moreover have "progresses (st_measure g) (sthrow c d)" for c d by (simp add: progresses_def eff_simps raise_def)
  ultimately have route: "progresses (st_measure g) (run_route A action plan)"
    using calls unfolding run_route_def by (cases "map_of RECOVERY_FIELDS action") simp_all
  obtain r u where r: "run_route A action plan s = (r, u)" by fastforce
  show ?thesis
  proof (cases r)
    case (Inl e)
    then have "result = recovery_failure A e \<and> t = u" using run r by (simp add: attempt_route_def scatch_def sret_eq_Inr split: if_split_asm)
    then show ?thesis using progresses_failed [OF route] r Inl by (simp add: failure_spends)
  next
    case (Inr x)
    then show ?thesis using progressesD [OF route r [unfolded Inr]] run r Inr by (auto simp: attempt_route_def scatch_def)
  qed
qed

lemma route_turn_spends:
  assumes g: "settles A g" and f: "plan_feature plan = Inr (st_feature g)"
    and run: "route_turn A plan s = (Inr (Again p), t)"
  shows "pending_of g p \<and> variant A g t < variant A g s"
proof -
  let ?action = "plan_action plan"
  let ?a = "sbind (case st_feature g of None \<Rightarrow> sret ()
      | Some f \<Rightarrow> on_io (emit_event A ''FEATURE_SELECTED'' plan (f @ '' selected through '' @ ?action) None))
    (\<lambda>_. on_io (announce_recovery A ?action plan))"
  obtain x y u v w result where u: "?a s = (Inr x, u)" and v: "on_io (attempt_route A ?action plan) u = (Inr result, v)"
    and w: "sbind (on_io (record_result A plan result (io_world (as_io u)))) (\<lambda>_. on_io (announce_result A ?action plan result)) v = (Inr y, w)"
    and fin: "finish_turn A ?action (st_feature g) plan result w = (Inr (Again p), t)"
    using run unfolding route_turn_def Let_def f sbind_eq_Inr slift_eq_Inr sget_eq_Inr by blast
  have "steps (quiet (st_measure g)) ?a" by (intro steps_intros core_calls) simp_all
  then have a: "variant A g u \<le> variant A g s" using u by (intro quiet_variant) (rule stepsD)
  have "steps (quiet (st_measure g)) (sbind (on_io (record_result A plan result (io_world (as_io u))))
      (\<lambda>_. on_io (announce_result A ?action plan result)))"
    by (intro steps_intros core_calls) simp_all
  then have b: "variant A g w \<le> variant A g v" using w by (intro quiet_variant) (rule stepsD)
  obtain i where "attempt_route A ?action plan (as_io u) = (Inr result, i)" "v = u\<lparr>as_io := i\<rparr>"
    using v by (auto simp: on_io_def spart_eq_Inr)
  then have c: "if spends result then variant A g v \<le> variant A g u else variant A g v < variant A g u"
    using attempt_progresses [OF g] by (fastforce simp: variant_def)
  show ?thesis using finish_turn_spends [OF g fin] a b c by (auto split: if_split_asm)
qed

lemma gate_never_again: "gate_before_route c plan \<noteq> Inr (Some (Again p))"
  by (simp add: gate_before_route_def Let_def rbind_eq_Inr)


lemma planned_turn_spends:
  assumes g: "settles A g" and pending: "pending_of g pending"
    and run: "planned_turn A pending s = (Inr (Again p), t)"
  shows "pending_of g p \<and> variant A g t < variant A g s"
proof -
  let ?ask = "case pending of None \<Rightarrow> on_io (au_plan A) | Some p \<Rightarrow> sret p"
  obtain plan u where u: "?ask s = (Inr plan, u)"
    and rest: "sbind (on_io (au_consistency A)) (\<lambda>evidence. case evidence of
       JObj consistency \<Rightarrow> sbind (slift (gate_before_route (oget consistency ''classification'') plan))
         (\<lambda>gate. case gate of Some turn \<Rightarrow> sret turn | None \<Rightarrow> route_turn A plan)
     | _ \<Rightarrow> sthrow ConveyorError ''consistency checker returned invalid evidence'') u = (Inr (Again p), t)"
    using run unfolding planned_turn_def sbind_eq_Inr [of ?ask] by blast
  obtain e v where e: "on_io (au_consistency A) u = (Inr e, v)"
    and rest: "(case e of JObj consistency \<Rightarrow> sbind (slift (gate_before_route (oget consistency ''classification'') plan))
         (\<lambda>gate. case gate of Some turn \<Rightarrow> sret turn | None \<Rightarrow> route_turn A plan)
     | _ \<Rightarrow> sthrow ConveyorError ''consistency checker returned invalid evidence'') v = (Inr (Again p), t)"
    using rest unfolding sbind_eq_Inr [of "on_io (au_consistency A)"] by blast
  then obtain c where v: "on_io (au_consistency A) u = (Inr (JObj c), v)" by (cases e) auto
  then obtain gate where "gate_before_route (oget c ''classification'') plan = Inr gate"
    "(case gate of Some turn \<Rightarrow> sret turn | None \<Rightarrow> route_turn A plan) v = (Inr (Again p), t)"
    using rest e by (auto simp: sbind_eq_Inr slift_eq_Inr)
  then have route: "route_turn A plan v = (Inr (Again p), t)"
    by (cases gate) (auto simp: sret_eq_Inr gate_never_again)
  have f: "plan_feature plan = Inr (st_feature g)"
    using u pending settles_plan [OF g]
    by (cases pending) (auto simp: on_io_def spart_eq_Inr sret_eq_Inr pending_of_def)
  have "steps (quiet (st_measure g)) ?ask"
    using settles_calmer(1) [OF g] by (intro steps_intros) simp_all
  then have "variant A g u \<le> variant A g s" using u by (intro quiet_variant) (rule stepsD)
  moreover have "variant A g v \<le> variant A g u"
    using stepsD [OF steps_quiet [OF settles_calmer(2) [OF g]] v] by (rule quiet_variant)
  ultimately show ?thesis using route_turn_spends [OF g f route] by simp
qed

lemma turn_spends:
  assumes g: "settles A g" "pending_of g pending" and run: "autopilot_turn A pending s = (Inr (Again p), t)"
  shows "pending_of g p \<and> variant A g t < variant A g s"
proof (cases "io_stop (as_io s) = None")
  case True
  then show ?thesis using planned_turn_spends [OF g] run by (simp add: turn_no_stop)
next
  case False
  then show ?thesis using turn_stopped [of s A pending] run unfolding if_not_P [OF False] by (simp add: stopped_def)
qed

subsection \<open>Runs that end, and one that does not\<close>

lemma loop_ends: "settles A g \<Longrightarrow> pending_of g pending \<Longrightarrow> autopilot_loop A pending s \<noteq> None"
proof (induction "variant A g s" arbitrary: pending s rule: less_induct)
  case less
  obtain r t where turn: "autopilot_turn A pending s = (r, t)" by fastforce
  show ?case
  proof (cases "\<exists>p. r = Inr (Again p)")
    case True
    then obtain p where p: "r = Inr (Again p)" by blast
    then have "pending_of g p \<and> variant A g t < variant A g s" using turn_spends [OF less.prems] turn by simp
    then have "autopilot_loop A p t \<noteq> None" using less by blast
    then show ?thesis using turn p by (subst autopilot_loop.simps) simp
  next
    case False
    then show ?thesis using turn by (subst autopilot_loop.simps) (auto split: sum.split ap_turn.split)
  qed
qed

lemma apply_ends: "settles A g \<Longrightarrow> autopilot_apply A run_id s \<noteq> None"
  using loop_ends [of A g None]
  by (auto simp: autopilot_apply_def pending_of_def split: prod.split sum.split) (metis surj_pair)

text \<open>
  Claim C38. A run on one feature ends. When every plan is about the same feature (or about none), and every call
  into the engine that neither fails nor completes the work lowers a measure that no call raises, a run of the
  autopilot returns or raises, from any state and with any budgets: each further failure uses up a retry.
\<close>

theorem autopilot_terminates:
  assumes "settles A g"
  shows "case autopilot_apply A run_id s of None \<Rightarrow> False | Some (outcome, t) \<Rightarrow> True"
  using apply_ends [OF assms] by (auto split: option.split)

text \<open>A project of one feature: three steps succeed, then validation fails for ever.\<close>

definition feature_plan :: "string \<Rightarrow> obj" where
  "feature_plan f = [(''selected_feature'', JStr f), (''proposed_next_action'', JStr ''feature_cycle'')]"

definition sample_autopilot :: "('w ap_io, obj) eff \<Rightarrow> (string \<Rightarrow> ('w ap_io, obj) eff) \<Rightarrow> 'w autopilot" where
  "sample_autopilot plan run =
     \<lparr>au_view = \<lambda>_. sample_view 1, au_redact = id, au_ownership_path = ''o'', au_stop_path = ''s'', au_status_path = ''t'',
      au_plan = plan, au_consistency = sret (JObj [(''classification'', JStr ''CONSISTENT'')]),
      au_recover = \<lambda>_ _. sthrow RecoveryError ''none'', au_run = run, au_snapshot = \<lambda>_. Inr [], au_elapsed = \<lambda>e _ _. e,
      au_budgets = DEFAULT_RETRY_BUDGETS, au_max_identical = 1\<rparr>"

definition stuck_project :: "nat autopilot" where
  "stuck_project = sample_autopilot (sret (feature_plan ''a''))
     (\<lambda>_ s. if io_world s = 0 then (Inr [(''outcome'', JStr ''validation_failed'')], s)
            else (Inr [(''outcome'', JStr ''feature_accepted'')], s\<lparr>io_world := io_world s - 1\<rparr>))"

definition initial :: "'w \<Rightarrow> 'w ap_state" where
  "initial w = \<lparr>as_io = \<lparr>io_dir = \<lparr>ld_lock = None, ld_evidence = []\<rparr>, io_stop = None, io_ack = None, io_status = None, io_run = None,
     io_owner = None, io_observed = None, io_events = [], io_features = [], io_world = w\<rparr>, as_signatures = [], as_retries = []\<rparr>"

lemma stuck_settles: "settles stuck_project \<lparr>st_feature = Some ''a'', st_measure = id\<rparr>"
proof -
  have "spends [(''outcome'', JStr ''validation_failed'')]" "\<not> spends [(''outcome'', JStr ''feature_accepted'')]"
    "plan_feature (feature_plan ''a'') = Inr (Some ''a'')"
    by code_simp+
  then show ?thesis
    by (auto simp: settles_def stuck_project_def sample_autopilot_def steps_def calmer_def progresses_def eff_simps raise_def)
qed

theorem autopilot_terminates_witness:
  "settles stuck_project \<lparr>st_feature = Some ''a'', st_measure = id\<rparr>
   \<and> (case autopilot_apply stuck_project ''r'' (initial 3) of None \<Rightarrow> False | Some (outcome, t) \<Rightarrow> True)"
  using stuck_settles autopilot_terminates [OF stuck_settles] by blast

text \<open>
  Two features that fail in turn. The planner offers the feature that was not run last, whatever the records of the
  autopilot say. Each failure exceeds the budget of its feature from some turn on and marks it as quarantined; the mark is
  read nowhere, so the other feature is started again. The run never ends.
\<close>

definition alternating_project :: "bool autopilot" where
  "alternating_project = sample_autopilot (\<lambda>s. (Inr (feature_plan (if io_world s then ''a'' else ''b'')), s))
     (\<lambda>_ s. (Inr [(''outcome'', JStr ''validation_failed'')], s\<lparr>io_world := \<not> io_world s\<rparr>))"

text \<open>A call that returns, and what holds then\<close>

definition returns :: "('s \<Rightarrow> bool) \<Rightarrow> ('s, 'a) eff \<Rightarrow> ('a \<Rightarrow> 's \<Rightarrow> bool) \<Rightarrow> bool" where
  "returns P m Q \<longleftrightarrow> (\<forall>s. P s \<longrightarrow> (\<exists>x t. m s = (Inr x, t) \<and> Q x t))"

definition counting_record :: "obj \<Rightarrow> bool" where
  "counting_record r \<longleftrightarrow> (\<exists>e m n k. map_of r ''elapsed_seconds'' = Some e \<and> map_of r ''parent_sessions'' = Some (JInt m)
     \<and> map_of r ''child_sessions'' = Some (JInt n) \<and> map_of r ''retry_count'' = Some (JInt k))"

definition going :: "bool ap_io \<Rightarrow> bool" where
  "going s \<longleftrightarrow> io_stop s = None \<and> io_run s = Some ''r'' \<and> io_owner s = Some ''r''
     \<and> lock_field ''run_id'' ''r'' (io_dir s) \<and> lock_field ''process_start_identity'' ''s'' (io_dir s)
     \<and> (\<exists>d. ld_lock (io_dir s) = Some (Some (JObj d)) \<and> oget d ''process_id'' = JInt 1)
     \<and> (\<forall>f r. map_of (io_features s) f = Some r \<longrightarrow> counting_record r)"

definition beaten :: "obj \<Rightarrow> string \<Rightarrow> obj \<Rightarrow> obj" where
  "beaten p e r = with_projection p (oset ''repository_head'' (JStr ''h'') (oset ''repository_branch'' (of_opt (Some ''main''))
     (oset ''last_completed_event'' (JStr e) (oset ''last_heartbeat'' (JStr (pr_now (sample_proc 1))) r))))"

lemma owner_keys: "\<not> sensitive_key ''run_id''" "\<not> sensitive_key ''process_start_identity''" "\<not> sensitive_key ''process_id''"
  by code_simp+

lemma oget_fold: "k \<notin> set ks \<Longrightarrow> oget (foldl (\<lambda>r k. if c k then oset k (v k) r else r) r ks) k = oget r k"
  by (induction ks arbitrary: r) auto

lemma oget_projected:
  "k \<notin> {''ledger_sequence'', ''ledger_fingerprint'', ''projection_fingerprint''} \<Longrightarrow> oget (with_projection p r) k = oget r k"
  unfolding with_projection_def by (rule oget_fold) simp

lemma oget_beaten:
  "oget (beaten p e r) ''run_id'' = oget r ''run_id''" "oget (beaten p e r) ''process_id'' = oget r ''process_id''"
  "oget (beaten p e r) ''process_start_identity'' = oget r ''process_start_identity''"
  by (simp_all add: beaten_def oget_projected)

lemma going_beat:
  assumes "going s"
  shows "\<exists>t. in_dir (ownership_heartbeat id (sample_view 1) (io_owner s) e p) s = (Inr (), t) \<and> going t"
proof -
  obtain d where d: "ld_lock (io_dir s) = Some (Some (JObj d))" "oget d ''run_id'' = JStr ''r''" "oget d ''process_id'' = JInt 1"
    "oget d ''process_start_identity'' = JStr ''s''" "io_owner s = Some ''r''"
    using assms by (auto simp: going_def lock_field_def)
  let ?d = "map (\<lambda>kv. (fst kv, if sensitive_key (fst kv) then JStr REDACTED else redact_value id (snd kv))) (beaten p e d)"
  have new: "oget ?d ''run_id'' = JStr ''r''" "oget ?d ''process_id'' = JInt 1" "oget ?d ''process_start_identity'' = JStr ''s''"
    using d by (simp_all add: oget_redact oget_beaten owner_keys del: map_map)
  have v: "av_start (sample_view 1) = ''s''" "pr_pid (av_proc (sample_view 1)) = 1" "av_head (sample_view 1) = ''h''"
    "av_branch (sample_view 1) = Some ''main''" "pr_now (av_proc (sample_view 1)) = pr_now (sample_proc 1)"
    by (simp_all add: sample_view_def sample_proc_def)
  have "in_dir (ownership_heartbeat id (sample_view 1) (io_owner s) e p) s =
      (Inr (), s\<lparr>io_dir := (io_dir s)\<lparr>ld_lock := Some (Some (JObj ?d))\<rparr>\<rparr>)"
    using d v
    by (simp add: in_dir_def spart_def ownership_heartbeat_alt sbind_def load_lock_apply read_lock_def eff_simps check_def
        replace_lock_def beaten_def del: of_opt.simps)
  moreover have "going (s\<lparr>io_dir := (io_dir s)\<lparr>ld_lock := Some (Some (JObj ?d))\<rparr>\<rparr>)"
    using assms new by (simp add: going_def lock_field_def)
  ultimately show ?thesis by blast
qed

lemma failing_fields:
  "''FEATURE_SELECTED'' \<in> set AUTOPILOT_EVENTS" "''FEATURE_BLOCKED'' \<in> set AUTOPILOT_EVENTS"
  "''AUTOPILOT_STARTED'' \<in> set AUTOPILOT_EVENTS"
  by code_simp+

lemma feature_plan_feature: "plan_feature (feature_plan f) = Inr (if f = [] then None else Some f)"
  by (simp add: plan_feature_def feature_plan_def oget_def nonempty_str_def jor_def sub_get_def jget_def projection_of_def)

lemma returns_emit:
  assumes "e \<in> set AUTOPILOT_EVENTS" "f \<noteq> []"
  shows "returns going (emit_event alternating_project e (feature_plan f) d None) (\<lambda>_. going)"
  unfolding returns_def
proof (intro allI impI)
  fix s assume going: "going s"
  let ?A = alternating_project
  obtain item where item: "event_item ?A s e (feature_plan f) d None = Inr item"
    using assms(2) by (simp add: event_item_def feature_plan_feature)
  let ?s = "s\<lparr>io_events := io_events s @ [item]\<rparr>"
  have "going ?s" using going by (simp add: going_def)
  then obtain t where t: "in_dir (ownership_heartbeat id (sample_view 1) (io_owner ?s) e (projection_of (feature_plan f))) ?s = (Inr (), t)"
      "going t" using going_beat by blast
  have "io_run s \<noteq> None \<and> ld_lock (io_dir s) \<noteq> None" using going by (auto simp: going_def)
  moreover have "au_redact ?A = id" "io_view ?A s = sample_view 1"
    by (simp_all add: alternating_project_def sample_autopilot_def io_view_def)
  moreover obtain u where "write_status ?A False None None t = (Inr (), u)" "going u"
    using t(2) by (simp add: write_status_def eff_simps going_def)
  ultimately show "\<exists>x t. emit_event ?A e (feature_plan f) d None s = (Inr x, t) \<and> going t"
    using assms(1) item t(1)
    by (simp add: emit_event_def sbind_def eff_simps check_def swhen_def)
qed

lemma returns_mark:
  "returns (\<lambda>s. going s \<and> map_of (io_features s) f \<noteq> None)
     (mark_feature (Some f) [(''quarantined'', JBool True), (''terminal_classification'', JStr c)]) (\<lambda>_. going)"
  by (auto simp: returns_def mark_feature_def eff_simps going_def counting_record_def oupdate_def)

lemma returns_frame: "returns P m Q \<Longrightarrow> steps (eq_on h) m \<Longrightarrow> returns (\<lambda>s. P s \<and> h s = w) m (\<lambda>x s. Q x s \<and> h s = w)"
  unfolding returns_def by (metis eq_on_def stepsD)

definition io_rest :: "'w ap_io \<Rightarrow> 'w \<times> (string \<times> obj) list" where
  "io_rest s = (io_world s, io_features s)"

lemma steps_emit_rest: "steps (eq_on io_rest) (emit_event A e plan d tx)"
  unfolding emit_event_def write_status_def by (intro steps_intros eq_on_order) (simp_all add: io_rest_def)

definition failure :: obj where
  "failure = [(''outcome'', JStr ''validation_failed'')]"

definition name_of :: "bool \<Rightarrow> string" where
  "name_of w = (if w then ''a'' else ''b'')"

lemma name_of_nonempty [simp]: "name_of w \<noteq> []"
  by (simp add: name_of_def)

lemma failure_facts: "terminal_result failure = None" "turn_failed failure" "recovery_failed failure"
  "outcome_of failure = ''validation_failed''" "''feature_cycle'' \<notin> set RECOVERY_ACTIONS"
  by code_simp+

lemma plan_facts: "plan_action (feature_plan (name_of w)) = ''feature_cycle''"
  "gate_before_route (JStr ''CONSISTENT'') (feature_plan (name_of w)) = Inr None"
  by (induct w rule: bool.induct; code_simp)+

lemma project_calls:
  "au_plan alternating_project s = (Inr (feature_plan (name_of (io_world s))), s)"
  "au_consistency alternating_project s = (Inr (JObj [(''classification'', JStr ''CONSISTENT'')]), s)"
  "au_run alternating_project mode s = (Inr failure, s\<lparr>io_world := \<not> io_world s\<rparr>)"
  by (simp_all add: alternating_project_def sample_autopilot_def name_of_def failure_def eff_simps)

lemma add_to_int: "map_of r k = Some (JInt m) \<Longrightarrow> add_to k n r = Inr (oset k (JInt (m + n)) r)"
  by (simp add: add_to_def osub_def py_int_def)

lemma failure_counts:
  "py_int (if truthy (oget failure ''parent_sessions_launched'') then oget failure ''parent_sessions_launched''
     else JBool (oget failure ''model_session_launched'' = JBool True)) = Inr 0"
  "py_int (jor (oget failure ''child_sessions_launched'') (JInt 0)) = Inr 0" "len_of (oget failure ''repair_attempts'') = Inr 0"
  "jor (oget failure ''outcome'') (oget failure ''classification'') = JStr ''validation_failed''"
  by code_simp+

lemma updated_failure:
  assumes "counting_record r"
  shows "\<exists>r'. updated_record (\<lambda>e. e) failure r = Inr r' \<and> counting_record r'"
proof -
  obtain e m n k where r: "map_of r ''elapsed_seconds'' = Some e" "map_of r ''parent_sessions'' = Some (JInt m)"
    "map_of r ''child_sessions'' = Some (JInt n)" "map_of r ''retry_count'' = Some (JInt k)"
    using assms by (auto simp: counting_record_def)
  let ?r = "oset ''terminal_classification'' (JStr ''validation_failed'') (oset ''retry_count'' (JInt k) (oset ''child_sessions'' (JInt n)
    (oset ''parent_sessions'' (JInt m) (oset ''elapsed_seconds'' e r))))"
  have "updated_record (\<lambda>e. e) failure r = Inr ?r"
    unfolding updated_record_def failure_counts by (simp add: r osub_def add_to_int Let_def check_def)
  moreover have "counting_record ?r" using r by (simp add: counting_record_def)
  ultimately show ?thesis by blast
qed

lemma fresh_record: "\<exists>r. new_feature_record f (JObj []) (JObj []) = Inr r \<and> counting_record r"
  by (auto simp: new_feature_record_def jget_def oget_def sub_get_def jor_def oget_or_def counting_record_def)

lemma returns_record:
  "returns going (record_result alternating_project (feature_plan (name_of w)) failure b)
     (\<lambda>_ s. going s \<and> map_of (io_features s) (name_of w) \<noteq> None)"
  unfolding returns_def
proof (intro allI impI)
  fix s assume going: "going s"
  obtain fresh where fresh: "new_feature_record (name_of w) (JObj []) (JObj []) = Inr fresh" "counting_record fresh"
    using fresh_record by blast
  let ?r = "case map_of (io_features s) (name_of w) of None \<Rightarrow> fresh | Some r \<Rightarrow> r"
  have "counting_record ?r" using going fresh(2) by (auto simp: going_def split: option.split)
  then obtain r where r: "updated_record (\<lambda>e. e) failure ?r = Inr r" "counting_record r"
    using updated_failure by blast
  have "au_elapsed alternating_project = (\<lambda>e _ _. e)" by (simp add: alternating_project_def sample_autopilot_def)
  moreover have "jor (oget (feature_plan (name_of w)) ''cost_aware_run_plan'') (JObj []) = JObj []"
    by (simp add: feature_plan_def oget_def jor_def)
  moreover have "jget (JObj []) ''usage_accounting'' = Inr JNull" "jor JNull (JObj []) = JObj []" by (simp_all add: jget_def oget_def jor_def)
  ultimately have "record_result alternating_project (feature_plan (name_of w)) failure b s =
      (Inr (), s\<lparr>io_features := aset (name_of w) r (io_features s)\<rparr>)"
    using fresh(1) r(1) by (simp add: record_result_def feature_plan_feature Let_def eff_simps eff_runs)
  then show "\<exists>x t. record_result alternating_project (feature_plan (name_of w)) failure b s = (Inr x, t)
      \<and> going t \<and> map_of (io_features t) (name_of w) \<noteq> None"
    using going r(2) by (auto simp: going_def)
qed

lemma announce_failure: "announce_result alternating_project ''feature_cycle'' plan failure s = (Inr (), s)"
proof -
  have "oget failure ''retained_result'' = JNull" by (simp add: failure_def oget_def)
  then show ?thesis
    by (simp add: announce_result_def announce_retained_def swhen_def failure_facts eff_runs eff_simps)
qed

lemma attempt_failure:
  "attempt_route alternating_project ''feature_cycle'' plan s = (Inr failure, s\<lparr>io_world := \<not> io_world s\<rparr>)"
  by (simp add: attempt_route_def scatch_def run_route_def RECOVERY_FIELDS_def project_calls)

lemma end_going:
  "going (as_io s) \<Longrightarrow> end_of_turn alternating_project plan s = (Inr (Again None), s)"
  by (simp add: end_of_turn_def observe_lifecycle_def lifecycle_event_def sub_get_def jor_def jget_def oget_def honour_stop_def on_io_def
      spart_def eff_runs eff_simps sbind_def stop_requested_none going_def)

lemma emit_going:
  assumes "e \<in> set AUTOPILOT_EVENTS" "going i"
  obtains j where "emit_event alternating_project e (feature_plan (name_of w)) d None i = (Inr (), j)" "going j"
    "io_world j = io_world i" "io_features j = io_features i"
proof -
  obtain j where "emit_event alternating_project e (feature_plan (name_of w)) d None i = (Inr (), j)" "going j" "io_rest j = io_rest i"
    using returns_frame [OF returns_emit [OF assms(1), of "name_of w" d] steps_emit_rest, of "io_rest i"] assms(2)
    by (auto simp: returns_def)
  then show thesis using that by (simp add: io_rest_def)
qed

lemma blocked_going:
  assumes "going i" "io_world i = (\<not> w)" "map_of (io_features i) (name_of w) \<noteq> None"
  shows "\<exists>t. sbind (on_io (emit_event alternating_project ''FEATURE_BLOCKED'' (feature_plan (name_of w)) d None)) (\<lambda>_.
       sbind (on_io (mark_feature (Some (name_of w)) [(''quarantined'', JBool True), (''terminal_classification'', JStr c)])) (\<lambda>_.
       sbind (on_io (au_plan alternating_project)) (\<lambda>next_plan.
       sbind (slift (plan_feature next_plan)) (\<lambda>next_feature.
       if next_feature \<noteq> None \<and> next_feature \<noteq> Some (name_of w) \<and> plan_action next_plan = ''feature_cycle'' then sret (Again None)
       else sret (Halt a b))))) (s\<lparr>as_io := i\<rparr>) = (Inr (Again None), t) \<and> going (as_io t)"
proof -
  obtain j where j: "emit_event alternating_project ''FEATURE_BLOCKED'' (feature_plan (name_of w)) d None i = (Inr (), j)" "going j"
    "io_world j = (\<not> w)" "io_features j = io_features i"
    using emit_going [OF failing_fields(2) assms(1)] assms(2) by metis
  obtain k where k: "mark_feature (Some (name_of w)) [(''quarantined'', JBool True), (''terminal_classification'', JStr c)] j = (Inr (), k)"
    "going k" using returns_mark [of "name_of w" c] j assms(3) by (auto simp: returns_def)
  have "io_world k = (\<not> w)" using stepsD [OF steps_mark k(1)] j(3) by (simp add: eq_on_def io_core_def)
  moreover have "name_of (\<not> w) \<noteq> name_of w" by (simp add: name_of_def)
  ultimately show ?thesis
    using j(1) k by (simp add: sbind_def on_io_def spart_def project_calls eff_simps feature_plan_feature plan_facts)
qed

lemma failed_going:
  assumes "going (as_io s)" "io_world (as_io s) = (\<not> w)" "map_of (io_features (as_io s)) (name_of w) \<noteq> None"
  shows "\<exists>t. failed_turn alternating_project ''feature_cycle'' (Some (name_of w)) (feature_plan (name_of w)) failure
      (end_of_turn alternating_project (feature_plan (name_of w))) s = (Inr (Again None), t) \<and> going (as_io t)"
proof -
  let ?k = "retry_budget_key ''feature_cycle'' (outcome_of failure)"
  obtain sg where sg: "failure_signature ''feature_cycle'' (feature_plan (name_of w)) failure = Inr sg"
    by (simp add: failure_signature_def feature_plan_feature)
  obtain count u where u: "count_signature sg s = (Inr count, u)" "as_io u = as_io s"
    by (simp add: count_signature_def Let_def eff_runs eff_simps)
  have cs: "sbind (count_signature sg) f s = f count u" for f :: "int \<Rightarrow> (bool ap_state, ap_turn) eff"
    using u by (simp add: sbind_def)
  define n where "n = next_count (Some (name_of w), ?k) (as_retries u)"
  define v where "v = u\<lparr>as_retries := aset (Some (name_of w), ?k) n (as_retries u)\<rparr>"
  have v: "as_io v = as_io s" "v\<lparr>as_io := as_io s\<rparr> = v" using u(2) by (simp_all add: v_def)
  show ?thesis
    unfolding failed_turn_def sg sbind_slift_Inr cs sbind_count_retry Let_def n_def [symmetric] v_def [symmetric]
  proof (split if_split, intro conjI impI)
    show "\<exists>t. end_of_turn alternating_project (feature_plan (name_of w)) v = (Inr (Again None), t) \<and> going (as_io t)"
      using end_going assms(1) v(1) by simp
  next
    show "\<exists>t. sbind (on_io (emit_event alternating_project ''FEATURE_BLOCKED'' (feature_plan (name_of w)) 
       ((if au_max_identical alternating_project < count then ''identical evidence repeated'' else ?k @ '' exhausted'')
          @ ''; feature quarantined in autopilot evidence without being marked complete'') None)) (\<lambda>_.
       sbind (on_io (mark_feature (Some (name_of w)) [(''quarantined'', JBool True), (''terminal_classification'', JStr ''bounded_recovery_exhausted'')])) (\<lambda>_.
       sbind (on_io (au_plan alternating_project)) (\<lambda>next_plan.
       sbind (slift (plan_feature next_plan)) (\<lambda>next_feature.
       if next_feature \<noteq> None \<and> next_feature \<noteq> Some (name_of w) \<and> plan_action next_plan = ''feature_cycle'' then sret (Again None)
       else sret (Halt ''AUTOPILOT_STOPPED''
         (''recoverable technical failure: bounded recovery exhausted and no newly projected ''
          @ ''dependency-independent feature is safe'')))))) v = (Inr (Again None), t) \<and> going (as_io t)"
      using blocked_going [OF assms, where s = v] unfolding v .
  qed
qed

lemma route_going:
  assumes "going (as_io s)" "io_world (as_io s) = w"
  shows "\<exists>t. route_turn alternating_project (feature_plan (name_of w)) s = (Inr (Again None), t) \<and> going (as_io t)"
proof -
  let ?p = "feature_plan (name_of w)"
  obtain i where i: "emit_event alternating_project ''FEATURE_SELECTED'' ?p (name_of w @ '' selected through '' @ ''feature_cycle'') None (as_io s) = (Inr (), i)"
    "going i" "io_world i = w"
    using emit_going [of "''FEATURE_SELECTED''" "as_io s" w] failing_fields(1) assms by metis
  let ?i = "i\<lparr>io_world := \<not> w\<rparr>"
  have "going ?i" using i(2) by (simp add: going_def)
  then obtain j where j: "record_result alternating_project ?p failure w ?i = (Inr (), j)" "going j"
    "map_of (io_features j) (name_of w) \<noteq> None"
    using returns_record [of w w] by (auto simp: returns_def)
  have "io_world j = (\<not> w)" using stepsD [OF steps_record j(1)] by (simp add: eq_on_def io_core_def)
  then obtain t where t: "failed_turn alternating_project ''feature_cycle'' (Some (name_of w)) ?p failure
      (end_of_turn alternating_project ?p) (s\<lparr>as_io := j\<rparr>) = (Inr (Again None), t)" "going (as_io t)"
    using failed_going [of "s\<lparr>as_io := j\<rparr>" w] j by auto
  have "route_turn alternating_project ?p s = finish_turn alternating_project ''feature_cycle'' (Some (name_of w)) ?p failure (s\<lparr>as_io := j\<rparr>)"
    using i j(1)
    by (simp add: route_turn_def Let_def feature_plan_feature plan_facts announce_recovery_def swhen_def failure_facts eff_runs
        on_io_def spart_def sbind_def sret_apply slift_apply sget_apply attempt_failure announce_failure)
  also have "\<dots> = (Inr (Again None), t)"
    using t(1) by (simp add: finish_turn_def failure_facts)
  finally show ?thesis using t(2) by blast
qed

lemma turn_going:
  assumes "going (as_io s)"
  shows "\<exists>t. autopilot_turn alternating_project None s = (Inr (Again None), t) \<and> going (as_io t)"
proof -
  have "io_stop (as_io s) = None" using assms by (simp add: going_def)
  then have "autopilot_turn alternating_project None s
      = route_turn alternating_project (feature_plan (name_of (io_world (as_io s)))) s"
    by (simp add: turn_no_stop planned_turn_def on_io_def spart_def sbind_def project_calls eff_simps oget_def plan_facts)
  then show ?thesis using route_going [OF assms refl] by simp
qed

lemma loop_goes_on: "going (as_io s) \<Longrightarrow> autopilot_loop alternating_project None s = None"
proof (rule ccontr)
  assume going: "going (as_io s)" and "autopilot_loop alternating_project None s \<noteq> None"
  then obtain y where y: "autopilot_loop alternating_project None s = Some y" by blast
  have "\<not> (A = alternating_project \<and> pending = None \<and> going (as_io s))" if "autopilot_loop A pending s = Some y" for A pending s y
  proof (rule autopilot_loop.raw_induct [where P = "\<lambda>A pending s y. \<not> (A = alternating_project \<and> pending = None \<and> going (as_io s))", OF _ that])
    fix f :: "bool autopilot \<Rightarrow> obj option \<Rightarrow> bool ap_state \<Rightarrow> _" and A pending s y
    assume ih: "\<And>A pending s y. f A pending s = Some y \<Longrightarrow> \<not> (A = alternating_project \<and> pending = None \<and> going (as_io s))"
      and y: "(case autopilot_turn A pending s of
        (Inl e, t) \<Rightarrow> Some (Inl e, t)
      | (Inr (Halt terminal diagnostic), t) \<Rightarrow> Some (Inr (terminal, diagnostic), t)
      | (Inr (Again p), t) \<Rightarrow> f A p t) = Some y"
    show "\<not> (A = alternating_project \<and> pending = None \<and> going (as_io s))"
    proof
      assume now: "A = alternating_project \<and> pending = None \<and> going (as_io s)"
      then obtain t where t: "autopilot_turn A pending s = (Inr (Again None), t)" "going (as_io t)"
        using turn_going by blast
      then have "f A None t = Some y" using y by simp
      then show False using ih [of A None t y] now t(2) by blast
    qed
  qed
  with y going show False by blast
qed

theorem quarantine_does_not_stop: "autopilot_apply alternating_project ''r'' (initial w) = None"
proof -
  let ?v = "sample_view 1"
  let ?d = "\<lparr>ld_lock = Some (Some (JObj (ownership_record ?v ''r''))), ld_evidence = []\<rparr>"
  let ?i = "(as_io (initial w))\<lparr>io_dir := ?d, io_run := Some ''r'', io_owner := Some ''r''\<rparr>"
  have "ownership_acquire ?v ''r'' \<lparr>ld_lock = None, ld_evidence = []\<rparr> = (Inr (ownership_record ?v ''r'', None), ?d)"
    by code_simp
  then have begun: "ap_begin alternating_project ''r'' (as_io (initial w)) = (Inr None, ?i)"
    by (simp add: ap_begin_def initial_def eff_runs eff_simps sbind_def in_dir_def spart_def io_view_def
        alternating_project_def sample_autopilot_def)
  have "lock_field ''run_id'' ''r'' ?d" "lock_field ''process_start_identity'' ''s'' ?d" "oget (ownership_record ?v ''r'') ''process_id'' = JInt 1"
    by (simp_all add: lock_field_def ownership_record_def sample_view_def sample_proc_def oget_def)
  then have "going ?i" by (simp add: going_def initial_def)
  then obtain j where "ap_started alternating_project ?i = (Inr (), j)" "going j"
    using emit_going [OF failing_fields(3), of ?i "io_world ?i"]
    by (auto simp: ap_started_def sbind_def project_calls)
  then show ?thesis
    using begun loop_goes_on [of "(initial w)\<lparr>as_io := j\<rparr>"]
    by (simp add: autopilot_apply_def on_io_def spart_def)
qed

end
