(* ===== verification/Cycle_Cache.thy ===== *)
theory Cycle_Cache
  imports Projection_Safety Schema_Validation Execution_Plan
begin

section \<open>The cache of a cycle\<close>

text \<open>
  \<^verbatim>\<open>cycle_cache.py\<close>: the compatibility cache of a cycle is derived from the ledger. What it says of the state is
  translated from the canonical projection, the document is checked against the registered schema, and it is written
  with the identity of the ledger, of the projection and of the terminal transaction it was made for, and signed.
  The engine and the ledger are the ones of \<^verbatim>\<open>projection.py\<close> and \<^verbatim>\<open>ledger.py\<close>; \<open>cc_file\<close> is
  the file that is written.
\<close>

definition LEGACY_CACHE_BINDING_RECOVERY_FIELD :: string where
  "LEGACY_CACHE_BINDING_RECOVERY_FIELD = ''cache_binding_recovery''"

definition LEGACY_RECOVERY_SCHEMA :: obj where
  "LEGACY_RECOVERY_SCHEMA =
     [(''type'', JStr ''object''), (''additionalProperties'', JBool False),
      (''required'', strs [''source_transaction'', ''recovery_run_id'']),
      (''properties'', JObj
        [(''source_transaction'', JObj [(''type'', JStr ''string''), (''minLength'', JInt 1)]),
         (''recovery_run_id'', JObj [(''type'', JStr ''string''), (''minLength'', JInt 1)])])]"

definition SEMANTIC_FIELD_BINDINGS :: "(string \<times> string) list" where
  "SEMANTIC_FIELD_BINDINGS =
     [(''current_phase'', ''current_state''), (''current_feature'', ''current_feature''),
      (''selected_feature'', ''selected_next_feature''), (''accepted_feature_commit'', ''accepted_feature_commit''),
      (''integration_status'', ''integration_status''), (''next_safe_action'', ''allowed_next_action'')]"

subsection \<open>What a projection says of a cycle\<close>

definition cycle_cache_semantics_from_projection :: "obj \<Rightarrow> obj" where
  "cycle_cache_semantics_from_projection projection =
     map (\<lambda>(cache_field, projection_field). (cache_field, oget projection projection_field)) SEMANTIC_FIELD_BINDINGS"

definition mismatches :: "obj \<Rightarrow> obj \<Rightarrow> string list" where
  "mismatches expected state = map fst (filter (\<lambda>kv. \<not> py_eq (oget state (fst kv)) (snd kv)) expected)"

definition cycle_cache_semantic_mismatches :: "obj \<Rightarrow> obj \<Rightarrow> string list" where
  "cycle_cache_semantic_mismatches state projection = mismatches (cycle_cache_semantics_from_projection projection) state"

text \<open>\<^verbatim>\<open>(schema.get("properties") or {}).keys()\<close>\<close>

definition registered_fields :: "obj \<Rightarrow> string list res" where
  "registered_fields schema =
     (case jor (oget schema ''properties'') (JObj []) of
        JObj d \<Rightarrow> Inr (map fst d)
      | _ \<Rightarrow> raise AttributeError ''keys'')"

definition build_canonical_cycle_cache ::
  "(string \<Rightarrow> string \<Rightarrow> bool) \<Rightarrow> (json \<Rightarrow> json \<Rightarrow> bool) \<Rightarrow> obj \<Rightarrow> obj \<Rightarrow> obj \<Rightarrow> obj \<Rightarrow> obj res" where
  "build_canonical_cycle_cache rx lt state schema updates projection =
     rbind (registered_fields schema) (\<lambda>supported.
     rbind (check (list_all (\<lambda>kv. fst kv \<in> set supported) updates) RecoveryError
              ''canonical cycle-cache update contains unsupported fields'') (\<lambda>_.
     let canonical = adel ''kernel_cache_fingerprint''
           (oupdate (oupdate (filter (\<lambda>kv. fst kv \<in> set supported) state) updates)
              (cycle_cache_semantics_from_projection projection)) in
     rbind (validate_schema rx lt (JObj canonical) (JObj schema)) (\<lambda>_. Inr canonical)))"

record transition_args =
  ct_run :: json
  ct_milestone :: json
  ct_pre_head :: json
  ct_snapshot :: obj
  ct_queue :: json
  ct_feature :: json
  ct_branch :: json
  ct_statuses :: "(string \<times> string option) list"
  ct_checkpoint :: json
  ct_updated :: json

definition completed_transition_cycle_updates :: "obj \<Rightarrow> transition_args \<Rightarrow> obj res" where
  "completed_transition_cycle_updates projection a =
     (let head = oget (ct_snapshot a) ''head''; selected = oget projection ''selected_next_feature'' in
      rbind (check (nonempty_str (ct_run a) \<and> nonempty_str (ct_milestone a) \<and> oget (ct_snapshot a) ''branch'' = ct_milestone a
               \<and> nonempty_str head \<and> oget (ct_snapshot a) ''clean'' = JBool True \<and> nonempty_str (ct_queue a)
               \<and> nonempty_str (ct_updated a))
              RecoveryError ''completed transition cache evidence is incomplete'') (\<lambda>_.
      rbind (if selected \<noteq> JNull
             then check (case ct_feature a of JObj f \<Rightarrow> py_eq (oget f ''id'') selected \<and> nonempty_str (ct_branch a) | _ \<Rightarrow> False)
                    RecoveryError ''completed transition selected-feature evidence is incomplete''
             else check (ct_feature a = JNull \<and> ct_branch a = JNull) RecoveryError
                    ''completed transition unexpectedly supplied selected-feature evidence'') (\<lambda>_.
      rbind (case ct_feature a of JObj f \<Rightarrow> elements (oget_or f ''dependencies'' (JArr [])) | _ \<Rightarrow> Inr []) (\<lambda>dependencies.
      rbind (rall hashable dependencies) (\<lambda>_.
      rbind (check ((\<lambda>kv. JStr (fst kv)) ` set (ct_statuses a) = set dependencies) RecoveryError
               ''completed transition dependency evidence is incomplete'') (\<lambda>_.
      Inr [(''conveyor_run_id'', ct_run a), (''current_feature'', oget projection ''current_feature''),
           (''selected_feature'', selected), (''feature_dependencies'', JArr dependencies),
           (''dependency_evidence'', JObj
             [(''declared'', JArr dependencies), (''statuses'', JObj (map (\<lambda>kv. (fst kv, of_opt (snd kv))) (ct_statuses a))),
              (''all_complete'', JBool (list_all (\<lambda>kv. snd kv \<in> {Some ''done'', Some ''integrated''}) (ct_statuses a)))]),
           (''queue_fingerprint'', ct_queue a), (''feature_branch'', ct_branch a), (''feature_worktree'', JNull),
           (''feature_starting_commit'', head), (''accepted_feature_commit'', oget projection ''accepted_feature_commit''),
           (''milestone_branch'', ct_milestone a), (''milestone_pre_integration_commit'', ct_pre_head a),
           (''milestone_post_integration_commit'', head), (''session_completion_classification'', JNull),
           (''session_completion_flags'', JArr []), (''session_completion_evidence'', JNull), (''branch_recovery'', JNull),
           (''writer_lock_identity'', JNull), (''validation_attempts'', JArr []), (''review_attempts'', JArr []),
           (''integration_attempts'', JArr []), (''last_successful_checkpoint'', ct_checkpoint a),
           (''last_verified_git_state'', JObj (ct_snapshot a)), (''failure_classification'', JNull),
           (''retry_exhausted'', JBool False), (''stop_reason'', JNull), (''human_decision_required'', JNull),
           (''session_id'', JNull), (''feature_session_id'', JNull), (''integration_session_id'', JNull),
           (''prior_integration_session_ids'', JArr []), (''integration_status'', oget projection ''integration_status''),
           (''integration_gate'', JNull), (''milestone_gate_session_id'', JNull),
           (''next_safe_action'', oget projection ''allowed_next_action''), (''updated_at'', ct_updated a)]))))))"

definition normalize_cycle_cache_for_rebinding ::
  "(string \<Rightarrow> string \<Rightarrow> bool) \<Rightarrow> (json \<Rightarrow> json \<Rightarrow> bool) \<Rightarrow> obj \<Rightarrow> obj \<Rightarrow> obj res" where
  "normalize_cycle_cache_for_rebinding rx lt state schema =
     rbind (if ohas state LEGACY_CACHE_BINDING_RECOVERY_FIELD
            then validate_schema rx lt (oget state LEGACY_CACHE_BINDING_RECOVERY_FIELD) (JObj LEGACY_RECOVERY_SCHEMA)
            else Inr ()) (\<lambda>_.
     let normalized = adel LEGACY_CACHE_BINDING_RECOVERY_FIELD state in
     rbind (validate_schema rx lt (JObj normalized) (JObj schema)) (\<lambda>_. Inr normalized))"

subsection \<open>The binding to the ledger\<close>

record cycle_fs =
  cc_engine :: proj_fs
  cc_file :: "json option"

definition on_engine :: "(proj_fs, 'a) eff \<Rightarrow> (cycle_fs, 'a) eff" where
  "on_engine = spart cc_engine (\<lambda>p s. s\<lparr>cc_engine := p\<rparr>)"

record projection_binding =
  cb_sequence :: int
  cb_ledger :: string
  cb_fingerprint :: json
  cb_projection :: obj
  cb_rebuild_required :: bool
  cb_rebuilt :: bool

definition binding_dict :: "projection_binding \<Rightarrow> obj" where
  "binding_dict b = [(''ledger_sequence'', JInt (cb_sequence b)), (''ledger_fingerprint'', JStr (cb_ledger b)),
     (''projection_fingerprint'', cb_fingerprint b)]"

text \<open>That a projection is of a ledger, and carries its own fingerprint\<close>

definition identity_checks :: "obj \<Rightarrow> integrity \<Rightarrow> unit res" where
  "identity_checks v i =
     rbind (check (py_eq (oget v ''ledger_sequence'') (JInt (li_sequence i))) RecoveryError ''ledger sequence disagrees'') (\<lambda>_.
     rbind (check (oget v ''ledger_fingerprint'' = JStr (li_fingerprint i)) RecoveryError ''ledger fingerprint disagrees'') (\<lambda>_.
     check (oget v ''projection_fingerprint'' = JStr (projection_fingerprint v)) RecoveryError ''projection fingerprint is invalid''))"

text \<open>A cache that is stale counts as absent, one that is invalid as an error.\<close>

definition persisted_cache :: "(string \<Rightarrow> string) \<Rightarrow> (string \<Rightarrow> string) \<Rightarrow> engine \<Rightarrow> bool \<Rightarrow> (proj_fs, obj option) eff" where
  "persisted_cache fr rt E stale_ok =
     scatch (\<lambda>e. issubclass (exn_cls e) ProjectionError) (load_cache fr rt E)
       (\<lambda>e. if stale_ok \<and> issubclass (exn_cls e) StaleProjectionCache then sret None
            else sthrow RecoveryError ''canonical persisted projection evidence is invalid'')"

text \<open>What \<^verbatim>\<open>ledger.terminal_event\<close> reads\<close>

definition read_terminal :: "(string \<Rightarrow> string) \<Rightarrow> (string \<Rightarrow> string) \<Rightarrow> ledger \<Rightarrow> string \<Rightarrow> (proj_fs, obj option) eff" where
  "read_terminal fr rt L tx =
     sbind (on_ledger (ledger_read fr rt L)) (\<lambda>events. slift (terminal_event tx events))"

record binding_args =
  ba_same_ledger :: bool
  ba_plan_stale :: bool
  ba_repair :: bool

definition validated_canonical_projection_binding ::
  "(string \<Rightarrow> string) \<Rightarrow> (string \<Rightarrow> string) \<Rightarrow> engine \<Rightarrow> string \<Rightarrow> binding_args \<Rightarrow> (proj_fs, projection_binding) eff" where
  "validated_canonical_projection_binding fr rt E tx a =
     sbind (scheck (\<not> (ba_plan_stale a \<and> ba_repair a)) RecoveryError ''canonical projection cache policy is ambiguous'') (\<lambda>_.
     sbind (scheck (ba_same_ledger a) RecoveryError ''canonical projection engine belongs to another ledger'') (\<lambda>_.
     sbind (scheck (en_cached E) RecoveryError ''canonical projection cache path is absent'') (\<lambda>_.
     sbind (on_ledger (ledger_verify fr rt (en_ledger E))) (\<lambda>i.
     sbind (rebuild fr rt E False None) (\<lambda>computed.
     sbind (slift (identity_checks computed i)) (\<lambda>_.
     sbind (persisted_cache fr rt E True) (\<lambda>found.
     sbind (if found \<noteq> None then sret (computed, found, False, False)
            else if ba_repair a then
              sbind (rebuild fr rt E True None) (\<lambda>computed.
              sbind (persisted_cache fr rt E False) (\<lambda>found. sret (computed, found, False, True)))
            else sbind (scheck (ba_plan_stale a) RecoveryError ''canonical persisted projection cache is missing or stale'') (\<lambda>_.
              sret (computed, None, True, False))) (\<lambda>(canonical, persisted, required, rebuilt).
     sbind (slift (case persisted of
         None \<Rightarrow> Inr ()
       | Some v \<Rightarrow> rbind (identity_checks v i) (\<lambda>_. check (py_eq (JObj v) (JObj canonical)) RecoveryError
           ''canonical persisted projection differs from the unchanged ledger rebuild''))) (\<lambda>_.
     sbind (read_terminal fr rt (en_ledger E) tx) (\<lambda>terminal.
     sbind (slift (case terminal of
         None \<Rightarrow> raise RecoveryError ''cycle cache transaction is unknown or nonterminal''
       | Some e \<Rightarrow>
           rbind (check (etype e \<in> set TERMINAL_EVENT_TYPES) RecoveryError ''cycle cache transaction is unknown or nonterminal'') (\<lambda>_.
           case int_of (oget_or e ''sequence'' (JInt (li_sequence i + 1))) of
             None \<Rightarrow> raise TypeError ''not supported between instances''
           | Some n \<Rightarrow> check (n \<le> li_sequence i) RecoveryError ''cycle cache terminal transaction is beyond ledger head''))) (\<lambda>_.
     sbind (slift (osub canonical ''projection_fingerprint'')) (\<lambda>fp.
     sret \<lparr>cb_sequence = li_sequence i, cb_ledger = li_fingerprint i, cb_fingerprint = fp, cb_projection = canonical,
           cb_rebuild_required = required, cb_rebuilt = rebuilt\<rparr>))))))))))))"

subsection \<open>The signed cache\<close>

definition CACHE_SIGNATURE :: string where
  "CACHE_SIGNATURE = ''kernel_cache_fingerprint''"

definition kernel_identity :: "projection_binding \<Rightarrow> string \<Rightarrow> obj" where
  "kernel_identity b tx =
     [(''kernel_transaction_id'', JStr tx), (''kernel_ledger_sequence'', JInt (cb_sequence b)),
      (''kernel_ledger_fingerprint'', JStr (cb_ledger b)), (''kernel_projection_fingerprint'', cb_fingerprint b)]"

definition feature_phases :: "json list" where
  "feature_phases = map (JStr \<circ> workflow_value) [FEATURE_PREPARATION, FEATURE_EXECUTION, FEATURE_ACCEPTANCE]"

definition all_in :: "json list \<Rightarrow> json list \<Rightarrow> bool res" where
  "all_in allowed vs = rfold (\<lambda>v ok. if ok then in_set v allowed else Inr False) vs True"

text \<open>The feature a cache is written for, against the terminal event and the projection\<close>

definition expected_feature_checks :: "obj option \<Rightarrow> obj \<Rightarrow> string \<Rightarrow> string option \<Rightarrow> unit res" where
  "expected_feature_checks terminal projection tx expected =
     (let event = (case terminal of None \<Rightarrow> [] | Some e \<Rightarrow> e) in
      rbind (jget (oget_or event ''payload'' (JObj [])) ''feature_id'') (\<lambda>terminal_feature.
      rbind (jget (oget_or event ''payload'' (JObj [])) ''selected_feature'') (\<lambda>terminal_selection.
      rbind (elements (oget_or projection ''transactions'' (JArr []))) (\<lambda>transactions.
      rbind (find_get ''transaction_id'' (JStr tx) transactions) (\<lambda>transaction.
      let transaction_feature = (case transaction of Some t \<Rightarrow> oget t ''feature_id'' | None \<Rightarrow> JNull);
          projection_feature = oget projection ''current_feature'';
          projection_selection = oget projection ''selected_next_feature'' in
      rbind (in_set (oget event ''workflow_type'') feature_phases) (\<lambda>feature_phase.
      case expected of
        None \<Rightarrow> Inr ()
      | Some f \<Rightarrow>
          if feature_phase then
            rbind (if transaction_feature = JStr f \<and> projection_feature = JStr f then in_set terminal_feature [JNull, JStr f] else Inr False)
              (\<lambda>ok. rbind (check ok RecoveryError ''cycle cache active feature disagrees with terminal projection'') (\<lambda>_.
            rbind (all_in [JNull, JStr f] [terminal_selection, projection_selection]) (\<lambda>ok.
            check ok RecoveryError ''cycle cache selected feature contradicts active feature identity'')))
          else
            check (jor terminal_selection terminal_feature = JStr f \<and> jor projection_selection projection_feature = JStr f)
              RecoveryError ''cycle cache selected feature disagrees with terminal projection''))))))"

definition bind_terminal_cycle_cache ::
  "obj \<Rightarrow> obj option \<Rightarrow> projection_binding \<Rightarrow> string \<Rightarrow> string option \<Rightarrow> obj res" where
  "bind_terminal_cycle_cache state terminal b tx expected =
     rbind (expected_feature_checks terminal (cb_projection b) tx expected) (\<lambda>_.
     let finalized = oupdate (adel LEGACY_CACHE_BINDING_RECOVERY_FIELD state) (kernel_identity b tx) in
     rbind (check (cycle_cache_semantic_mismatches finalized (cb_projection b) = []) RecoveryError
              ''cycle cache semantic state disagrees with terminal projection'') (\<lambda>_.
     rbind (check (mismatches (kernel_identity b tx) finalized = []) RecoveryError
              ''cycle cache binding disagrees with terminal projection'') (\<lambda>_.
     let signed = adel CACHE_SIGNATURE finalized in
     Inr (oset CACHE_SIGNATURE (JStr (fingerprint (JObj signed))) signed))))"

definition plain_binding :: "bool \<Rightarrow> binding_args" where
  "plain_binding same = \<lparr>ba_same_ledger = same, ba_plan_stale = False, ba_repair = False\<rparr>"

definition optional_schema ::
  "(string \<Rightarrow> string \<Rightarrow> bool) \<Rightarrow> (json \<Rightarrow> json \<Rightarrow> bool) \<Rightarrow> json \<Rightarrow> obj option \<Rightarrow> unit res" where
  "optional_schema rx lt v schema = (case schema of None \<Rightarrow> Inr () | Some s \<Rightarrow> validate_schema rx lt v (JObj s))"

text \<open>What is checked of the document that was read back\<close>

definition written_checks ::
  "(string \<Rightarrow> string \<Rightarrow> bool) \<Rightarrow> (json \<Rightarrow> json \<Rightarrow> bool) \<Rightarrow> obj option \<Rightarrow> obj \<Rightarrow> json option \<Rightarrow> obj res" where
  "written_checks rx lt schema finalized content =
     (case content of
        None \<Rightarrow> raise RecoveryError ''written cycle cache cannot be read back''
      | Some v \<Rightarrow>
          rbind (check (is_dict v \<and> py_eq v (JObj finalized)) RecoveryError
                   ''written cycle cache differs from the finalized cache'') (\<lambda>_.
          rbind (optional_schema rx lt v schema) (\<lambda>_.
          let persisted = (case v of JObj d \<Rightarrow> d | _ \<Rightarrow> []) in
          rbind (check (oget persisted CACHE_SIGNATURE = JStr (fingerprint (JObj (adel CACHE_SIGNATURE persisted)))) RecoveryError
                   ''written cycle cache signature is invalid'') (\<lambda>_. Inr persisted))))"

definition binding_kept :: "obj \<Rightarrow> projection_binding \<Rightarrow> projection_binding \<Rightarrow> unit res" where
  "binding_kept persisted b c =
     rbind (check (py_eq (JObj (binding_dict c)) (JObj (binding_dict b))) RecoveryError
              ''canonical projection binding changed during cycle-cache write'') (\<lambda>_.
     rbind (check (py_eq (oget persisted ''kernel_ledger_sequence'') (JInt (cb_sequence c))
               \<and> oget persisted ''kernel_ledger_fingerprint'' = JStr (cb_ledger c)
               \<and> py_eq (oget persisted ''kernel_projection_fingerprint'') (cb_fingerprint c)) RecoveryError
              ''written cycle cache disagrees with canonical projection binding'') (\<lambda>_.
     check (cycle_cache_semantic_mismatches persisted (cb_projection c) = []) RecoveryError
       ''written cycle cache semantic state disagrees with canonical projection''))"

definition write_cycle_file :: "(string \<Rightarrow> string) \<Rightarrow> obj \<Rightarrow> (cycle_fs, unit) eff" where
  "write_cycle_file rt v = smodify (\<lambda>s. s\<lparr>cc_file := Some (canon (redact_value rt (JObj v)))\<rparr>)"

record cycle_call =
  cy_transaction :: string
  cy_expected :: "string option"
  cy_schema :: "obj option"
  cy_same_ledger :: bool

definition write_terminal_cycle_cache ::
  "(string \<Rightarrow> string) \<Rightarrow> (string \<Rightarrow> string) \<Rightarrow> (string \<Rightarrow> string \<Rightarrow> bool) \<Rightarrow> (json \<Rightarrow> json \<Rightarrow> bool) \<Rightarrow> engine \<Rightarrow> cycle_call \<Rightarrow> obj
    \<Rightarrow> (cycle_fs, obj) eff" where
  "write_terminal_cycle_cache fr rt rx lt E a state =
     (let bound = on_engine (validated_canonical_projection_binding fr rt E (cy_transaction a) (plain_binding (cy_same_ledger a))) in
      sbind bound (\<lambda>b.
      sbind (on_engine (read_terminal fr rt (en_ledger E) (cy_transaction a))) (\<lambda>terminal.
      sbind (slift (bind_terminal_cycle_cache state terminal b (cy_transaction a) (cy_expected a))) (\<lambda>finalized.
      sbind (slift (optional_schema rx lt (JObj finalized) (cy_schema a))) (\<lambda>_.
      sbind (write_cycle_file rt finalized) (\<lambda>_.
      sbind sget (\<lambda>s.
      sbind (slift (written_checks rx lt (cy_schema a) finalized (cc_file s))) (\<lambda>persisted.
      sbind bound (\<lambda>c.
      sbind (slift (binding_kept persisted b c)) (\<lambda>_.
      sret persisted))))))))))"

end
