(* ===== verification/Cycle_Cache_Theorems.thy ===== *)
theory Cycle_Cache_Theorems
  imports Cycle_Cache
begin

section \<open>What a cycle cache is bound to\<close>

text \<open>
  The document that is built agrees with the projection field by field; the document that is written is signed and bound
  to a projection that was recomputed from the ledger after the write; and what was built for the present ledger
  can be written.
\<close>

subsection \<open>The document\<close>

lemma distinct_semantics: "distinct (map fst (cycle_cache_semantics_from_projection projection))"
  by (simp add: cycle_cache_semantics_from_projection_def SEMANTIC_FIELD_BINDINGS_def)

lemma map_of_semantics:
  "map_of (cycle_cache_semantics_from_projection projection) k = map_option (oget projection) (map_of SEMANTIC_FIELD_BINDINGS k)"
  by (simp add: cycle_cache_semantics_from_projection_def SEMANTIC_FIELD_BINDINGS_def)

lemma map_of_filter_keys: "map_of (filter (\<lambda>kv. P (fst kv)) d) k = (if P k then map_of d k else None)"
  by (induction d) auto

lemma oget_map_of: "oget d k = (case map_of d k of None \<Rightarrow> JNull | Some v \<Rightarrow> v)"
  by (simp add: oget_def)

lemma built_fields:
  assumes "build_canonical_cycle_cache rx lt state schema updates projection = Inr c" "distinct (map fst updates)"
  shows "validate_schema rx lt (JObj c) (JObj schema) = Inr ()"
    and "\<exists>supported. registered_fields schema = Inr supported \<and> list_all (\<lambda>kv. fst kv \<in> set supported) updates
      \<and> (\<forall>k. map_of c k = (if k = ''kernel_cache_fingerprint'' then None
           else case map_of SEMANTIC_FIELD_BINDINGS k of Some p \<Rightarrow> Some (oget projection p)
             | None \<Rightarrow> (case map_of updates k of Some v \<Rightarrow> Some v | None \<Rightarrow> if k \<in> set supported then map_of state k else None)))"
proof -
  obtain supported where s: "registered_fields schema = Inr supported" "list_all (\<lambda>kv. fst kv \<in> set supported) updates"
    and c: "c = adel ''kernel_cache_fingerprint'' (oupdate (oupdate (filter (\<lambda>kv. fst kv \<in> set supported) state) updates)
        (cycle_cache_semantics_from_projection projection))"
    and v: "validate_schema rx lt (JObj c) (JObj schema) = Inr ()"
    using assms(1) by (auto simp: build_canonical_cycle_cache_def Let_def rbind_eq_Inr)
  show "validate_schema rx lt (JObj c) (JObj schema) = Inr ()" by (rule v)
  have "map_of c k = (if k = ''kernel_cache_fingerprint'' then None
           else case map_of SEMANTIC_FIELD_BINDINGS k of Some p \<Rightarrow> Some (oget projection p)
             | None \<Rightarrow> (case map_of updates k of Some v \<Rightarrow> Some v | None \<Rightarrow> if k \<in> set supported then map_of state k else None))" for k
    using assms(2)
    by (simp add: c map_of_adel map_of_oupdate_distinct distinct_semantics map_of_semantics map_add_def
        map_of_filter_keys [where P = "\<lambda>k. k \<in> set supported"] split: option.split)
  then show "\<exists>supported. registered_fields schema = Inr supported \<and> list_all (\<lambda>kv. fst kv \<in> set supported) updates
      \<and> (\<forall>k. map_of c k = (if k = ''kernel_cache_fingerprint'' then None
           else case map_of SEMANTIC_FIELD_BINDINGS k of Some p \<Rightarrow> Some (oget projection p)
             | None \<Rightarrow> (case map_of updates k of Some v \<Rightarrow> Some v | None \<Rightarrow> if k \<in> set supported then map_of state k else None)))"
    using s by blast
qed

subsection \<open>What was written\<close>

lemma written_key:
  assumes "py_eq (JObj a) (JObj b)" "ohas a k"
  shows "py_eq (oget a k) (oget b k)"
proof -
  obtain u where u: "map_of a k = Some u" using assms(2) by (auto simp: ohas_iff)
  then have "(k, u) \<in> set a" by (rule map_of_SomeD)
  then obtain w where "map_of b k = Some w" "py_eq u w"
    using assms(1) by (fastforce simp: list_all_iff split: option.splits)
  then show ?thesis using u by (simp add: oget_def)
qed

lemma written_document:
  assumes "written_checks rx lt schema finalized (Some (canon (redact_value rt (JObj finalized)))) = Inr p"
  shows "canon (redact_value rt (JObj finalized)) = JObj p" "py_eq (JObj p) (JObj finalized)"
    "oget p CACHE_SIGNATURE = JStr (fingerprint (JObj (adel CACHE_SIGNATURE p)))" "optional_schema rx lt (JObj p) schema = Inr ()"
    "ohas p k \<longleftrightarrow> ohas finalized k"
proof -
  let ?r = "map (\<lambda>kv. (fst kv, if sensitive_key (fst kv) then JStr REDACTED else redact_value rt (snd kv))) finalized"
  have v: "canon (redact_value rt (JObj finalized)) = JObj (canon_obj ?r)" by (simp add: canon_JObj_obj [symmetric])
  have p: "p = canon_obj ?r" and checks: "py_eq (JObj (canon_obj ?r)) (JObj finalized)"
    "oget p CACHE_SIGNATURE = JStr (fingerprint (JObj (adel CACHE_SIGNATURE p)))" "optional_schema rx lt (JObj p) schema = Inr ()"
    using assms unfolding v by (auto simp: written_checks_def rbind_eq_Inr Let_def simp del: py_eq.simps)
  show "canon (redact_value rt (JObj finalized)) = JObj p" using v p by simp
  show "py_eq (JObj p) (JObj finalized)" using checks(1) p by simp
  show "oget p CACHE_SIGNATURE = JStr (fingerprint (JObj (adel CACHE_SIGNATURE p)))" "optional_schema rx lt (JObj p) schema = Inr ()"
    by (fact checks(2,3))+
  have "map fst ?r = map fst finalized" by simp
  then have "ohas ?r k = ohas finalized k" unfolding ohas_def by (rule arg_cong)
  then show "ohas p k \<longleftrightarrow> ohas finalized k" by (simp only: p ohas_canon_obj)
qed

lemma bound_document:
  assumes "bind_terminal_cycle_cache state terminal b tx expected = Inr finalized"
  shows "oget finalized ''kernel_transaction_id'' = JStr tx" "ohas finalized ''kernel_transaction_id''"
  using assms
  by (auto simp: bind_terminal_cycle_cache_def Let_def rbind_eq_Inr CACHE_SIGNATURE_def kernel_identity_def
      oget_def map_of_aset_apply map_of_adel map_of_oupdate_distinct ohas_iff)

text \<open>
  Claim C39. A written cycle cache is signed and bound to the ledger as it is after the write. Whatever the document
  and the files are, when the call returns the file holds exactly what it returned; it carries the transaction it was
  made for and the signature of its content, satisfies the schema if one is given, and agrees in its ledger identity and
  in every field that describes the state with a projection that was rebuilt and compared with the persisted one
  after the write.
\<close>

theorem written_cache_bound:
  "case write_terminal_cycle_cache fr rt rx lt E a state s of
     (Inl e, t) \<Rightarrow> True
   | (Inr p, t) \<Rightarrow> cc_file t = Some (JObj p)
       \<and> oget p CACHE_SIGNATURE = JStr (fingerprint (JObj (adel CACHE_SIGNATURE p)))
       \<and> optional_schema rx lt (JObj p) (cy_schema a) = Inr () \<and> oget p ''kernel_transaction_id'' = JStr (cy_transaction a)
       \<and> (\<exists>u b. validated_canonical_projection_binding fr rt E (cy_transaction a) (plain_binding True) u = (Inr b, cc_engine t)
            \<and> py_eq (oget p ''kernel_ledger_sequence'') (JInt (cb_sequence b))
            \<and> oget p ''kernel_ledger_fingerprint'' = JStr (cb_ledger b)
            \<and> py_eq (oget p ''kernel_projection_fingerprint'') (cb_fingerprint b)
            \<and> cycle_cache_semantic_mismatches p (cb_projection b) = [])"
proof (cases "write_terminal_cycle_cache fr rt rx lt E a state s")
  case (Pair r t)
  show ?thesis
  proof (cases r)
    case (Inr p)
    let ?bound = "validated_canonical_projection_binding fr rt E (cy_transaction a) (plain_binding (cy_same_ledger a))"
    obtain b terminal finalized u v c
      where fin: "bind_terminal_cycle_cache state terminal b (cy_transaction a) (cy_expected a) = Inr finalized"
        and v: "v = u\<lparr>cc_file := Some (canon (redact_value rt (JObj finalized)))\<rparr>"
        and doc: "written_checks rx lt (cy_schema a) finalized (cc_file v) = Inr p"
        and again: "on_engine ?bound v = (Inr c, t)" and kept: "binding_kept p b c = Inr ()"
      using Pair Inr
      by (auto simp: write_terminal_cycle_cache_def Let_def sbind_eq_Inr slift_eq_Inr sget_eq_Inr sret_eq_Inr
          write_cycle_file_def smodify_eq_Inr)
    have "cc_file v = Some (canon (redact_value rt (JObj finalized)))" by (simp only: v cycle_fs.select_convs cycle_fs.update_convs) simp
    note doc = written_document [OF doc [unfolded this]]
    obtain w where w: "?bound (cc_engine v) = (Inr c, w)" "t = v\<lparr>cc_engine := w\<rparr>"
      using again by (auto simp: on_engine_def spart_eq_Inr)
    have same: "cy_same_ledger a"
      using w(1) by (auto simp: validated_canonical_projection_binding_def plain_binding_def eff_runs sbind_scheck_eq_Inr)
    have "oget p ''kernel_transaction_id'' = JStr (cy_transaction a)"
      using written_key [OF doc(2)] bound_document [OF fin] doc(5) by fastforce
    then show ?thesis
      using Pair Inr doc w same kept by (auto simp: binding_kept_def rbind_eq_Inr v simp del: py_eq.simps canon.simps redact_value.simps)
  qed (simp add: Pair)
qed

subsection \<open>What can be written\<close>

text \<open>The one value that is not equal to itself is left out.\<close>

fun no_nan :: "json \<Rightarrow> bool" where
  "no_nan (JFloat r) = (r \<noteq> ''nan'')"
| "no_nan (JArr xs) = list_all no_nan xs"
| "no_nan (JObj kvs) = list_all (\<lambda>kv. no_nan (snd kv)) kvs"
| "no_nan _ = True"

lemma py_eq_canon: "json_wf v \<Longrightarrow> no_nan v \<Longrightarrow> py_eq (canon v) v"
proof (induction v)
  case (JArr xs)
  then show ?case by (auto simp: list_all2_map1 list_all_iff intro!: list.rel_refl_strong)
next
  case (JObj kvs)
  have "py_eq (canon (snd kv)) (snd kv) \<and> map_of kvs (fst kv) = Some (snd kv)" if "kv \<in> set kvs" for kv
    using that JObj.prems JObj.IH [of kv "snd kv"] by (auto simp: list_all_iff snds.simps)
  then show ?case unfolding canon.simps py_eq.simps json.case by (auto simp: list_all_iff)
qed simp_all

lemma identity_checked:
  assumes "projectable rt L es v"
  shows "identity_checks v (integrity_of es) = Inr ()"
    and "distinct (map fst v) \<Longrightarrow> identity_checks (canon_obj v) (integrity_of es) = Inr ()"
  using assms projection_dict_Inr(2)
  by (auto simp: identity_checks_def projectable_def integrity_of_def oget_canon_obj projection_fingerprint_canon)

definition current :: "(string \<Rightarrow> string) \<Rightarrow> (string \<Rightarrow> string) \<Rightarrow> engine \<Rightarrow> obj list \<Rightarrow> obj \<Rightarrow> proj_fs \<Rightarrow> bool" where
  "current fr rt E es v f \<longleftrightarrow> engine_ok fr rt E es f \<and> projectable rt (en_ledger E) es v \<and> json_wf (JObj v) \<and> no_nan (JObj v)
     \<and> pf_cache f = Regular 1 (Some (canon (JObj v)))"

lemma load_current:
  assumes "current fr rt E es v f"
  shows "load_cache fr rt E f = (Inr (Some (canon_obj v)), f)"
proof -
  have ok: "engine_ok fr rt E es f" and p: "projectable rt (en_ledger E) es v" and c: "pf_cache f = Regular 1 (Some (JObj (canon_obj v)))"
    using assms by (simp_all add: current_def canon_JObj_obj)
  have h: "holds fr (en_ledger E) (pf_ledger f) es" "en_cached E" using ok by (simp_all add: engine_ok_def)
  have d: "distinct (map fst v)" and fp: "oget v ''projection_fingerprint'' = JStr (projection_fingerprint v)"
    using p projection_dict_Inr by (auto simp: projectable_def)
  have "oget (canon_obj v) ''schema_version'' = JInt 1" "oget (canon_obj v) ''ledger_sequence'' = JInt (int (length es))"
    "oget (canon_obj v) ''ledger_fingerprint'' = JStr (last_fp es)"
    "oget (canon_obj v) ''projection_fingerprint'' = JStr (projection_fingerprint (canon_obj v))"
    using p d fp by (simp_all add: oget_canon_obj projectable_def projection_fingerprint_canon)
  then show ?thesis
    using h c validate_cache_path_ok [OF ok]
    by (simp add: load_cache_def sbind_def eff_simps on_ledger_reads check_cache_def integrity_of_def)
qed

lemma rebuild_quiet:
  assumes "current fr rt E es v f"
  shows "rebuild fr rt E False None f = (Inr v, f)"
proof -
  have "holds fr (en_ledger E) (pf_ledger f) es" "projectable rt (en_ledger E) es v"
    using assms by (simp_all add: current_def engine_ok_def)
  then show ?thesis by (simp add: rebuild_def sbind_def on_ledger_reads eff_simps projectable_def)
qed

definition binding_of :: "obj list \<Rightarrow> obj \<Rightarrow> projection_binding" where
  "binding_of es v = \<lparr>cb_sequence = int (length es), cb_ledger = last_fp es, cb_fingerprint = JStr (projection_fingerprint v),
     cb_projection = v, cb_rebuild_required = False, cb_rebuilt = False\<rparr>"

definition ended_by :: "string \<Rightarrow> obj list \<Rightarrow> obj \<Rightarrow> bool" where
  "ended_by tx es e \<longleftrightarrow> terminal_event tx es = Inr (Some e)
     \<and> (\<exists>n. oget_or e ''sequence'' (JInt (int (length es) + 1)) = JInt n \<and> n \<le> int (length es))"

lemma terminal_listed: "terminal_event tx es = Inr (Some e) \<Longrightarrow> etype e \<in> set TERMINAL_EVENT_TYPES"
proof -
  assume "terminal_event tx es = Inr (Some e)"
  then have "e \<in> set (filter (\<lambda>e. etx e = tx \<and> etype e \<in> set TERMINAL_EVENT_TYPES) es)"
    by (auto simp: terminal_event_def raise_def simp del: set_filter split: list.splits)
  then show ?thesis by simp
qed

lemma binding_current:
  assumes cur: "current fr rt E es v f" and e: "ended_by tx es e"
  shows "validated_canonical_projection_binding fr rt E tx (plain_binding True) f = (Inr (binding_of es v), f)"
    and "read_terminal fr rt (en_ledger E) tx f = (Inr (Some e), f)"
proof -
  have h: "holds fr (en_ledger E) (pf_ledger f) es" "en_cached E" and p: "projectable rt (en_ledger E) es v"
    using cur by (simp_all add: current_def engine_ok_def)
  have d: "distinct (map fst v)" and fp: "oget v ''projection_fingerprint'' = JStr (projection_fingerprint v)"
    using p projection_dict_Inr by (auto simp: projectable_def)
  have load: "persisted_cache fr rt E True f = (Inr (Some (canon_obj v)), f)"
    by (simp add: persisted_cache_def scatch_def load_current [OF cur])
  have same: "py_eq (JObj (canon_obj v)) (JObj v)"
    using cur py_eq_canon [of "JObj v"] unfolding canon_JObj_obj current_def by blast
  show terminal: "read_terminal fr rt (en_ledger E) tx f = (Inr (Some e), f)"
    using e h by (simp add: read_terminal_def sbind_def on_ledger_reads eff_simps ended_by_def)
  have sub: "osub v ''projection_fingerprint'' = Inr (JStr (projection_fingerprint v))"
    using fp by (auto simp: oget_def split: option.splits)
  show "validated_canonical_projection_binding fr rt E tx (plain_binding True) f = (Inr (binding_of es v), f)"
    using h e identity_checked [OF p] d same terminal_listed
    by (auto simp: sub validated_canonical_projection_binding_def plain_binding_def sbind_def eff_simps check_def on_ledger_reads
        rebuild_quiet [OF cur] load terminal ended_by_def binding_of_def integrity_of_def simp del: py_eq.simps)
qed

lemma py_eq_refl: "json_wf v \<Longrightarrow> no_nan v \<Longrightarrow> py_eq v v"
proof (induction v)
  case (JArr xs)
  then show ?case by (auto simp: list_all_iff intro!: list.rel_refl_strong)
next
  case (JObj kvs)
  have "py_eq (snd kv) (snd kv) \<and> map_of kvs (fst kv) = Some (snd kv)" if "kv \<in> set kvs" for kv
    using that JObj.prems JObj.IH [of kv "snd kv"] by (auto simp: list_all_iff snds.simps)
  then show ?case unfolding py_eq.simps json.case by (auto simp: list_all_iff)
qed simp_all

lemma plain_field:
  assumes "json_wf (JObj d)" "no_nan (JObj d)"
  shows "json_wf (oget d k)" "no_nan (oget d k)"
  using assms by (auto simp: oget_def list_all_iff dest!: map_of_SomeD split: option.split)

definition signed_cache :: "obj \<Rightarrow> projection_binding \<Rightarrow> string \<Rightarrow> obj" where
  "signed_cache c b tx =
     (let signed = adel CACHE_SIGNATURE (oupdate (adel LEGACY_CACHE_BINDING_RECOVERY_FIELD c) (kernel_identity b tx)) in
      oset CACHE_SIGNATURE (JStr (fingerprint (JObj signed))) signed)"

definition kernel_fields :: "string list" where
  "kernel_fields = [''kernel_transaction_id'', ''kernel_ledger_sequence'', ''kernel_ledger_fingerprint'', ''kernel_projection_fingerprint'']"

lemma kernel_identity_fields: "map fst (kernel_identity b tx) = kernel_fields" "distinct (map fst (kernel_identity b tx))"
  by (simp_all add: kernel_identity_def kernel_fields_def)

lemma map_of_finalized:
  "map_of (oupdate (adel LEGACY_CACHE_BINDING_RECOVERY_FIELD c) (kernel_identity b tx)) k =
     (case map_of (kernel_identity b tx) k of Some v \<Rightarrow> Some v
      | None \<Rightarrow> if k = LEGACY_CACHE_BINDING_RECOVERY_FIELD then None else map_of c k)"
  by (simp add: map_of_oupdate_distinct [OF kernel_identity_fields(2)] map_of_adel map_add_def split: option.split)

lemma kernel_value: "map_of (kernel_identity b tx) k = Some w \<Longrightarrow>
    oget (oupdate (adel LEGACY_CACHE_BINDING_RECOVERY_FIELD c) (kernel_identity b tx)) k = w"
  by (simp add: oget_map_of map_of_finalized)

lemma kernel_values:
  "map_of (kernel_identity b tx) ''kernel_ledger_sequence'' = Some (JInt (cb_sequence b))"
  "map_of (kernel_identity b tx) ''kernel_ledger_fingerprint'' = Some (JStr (cb_ledger b))"
  "map_of (kernel_identity b tx) ''kernel_projection_fingerprint'' = Some (cb_fingerprint b)"
  by (simp_all add: kernel_identity_def)

lemma semantic_field: "map_of SEMANTIC_FIELD_BINDINGS k = Some q \<Longrightarrow>
    map_of (kernel_identity b tx) k = None \<and> k \<noteq> LEGACY_CACHE_BINDING_RECOVERY_FIELD \<and> k \<noteq> CACHE_SIGNATURE"
  by (auto simp: SEMANTIC_FIELD_BINDINGS_def kernel_identity_def LEGACY_CACHE_BINDING_RECOVERY_FIELD_def CACHE_SIGNATURE_def
      split: if_split_asm)

lemma no_mismatches:
  "list_all (\<lambda>(k, q). py_eq (oget d k) (oget v q)) SEMANTIC_FIELD_BINDINGS \<Longrightarrow> cycle_cache_semantic_mismatches d v = []"
  by (auto simp: cycle_cache_semantic_mismatches_def mismatches_def cycle_cache_semantics_from_projection_def list_all_iff filter_empty_conv)

lemma semantics_listed: "(k, q) \<in> set SEMANTIC_FIELD_BINDINGS \<Longrightarrow> map_of SEMANTIC_FIELD_BINDINGS k = Some q"
  by (auto simp: SEMANTIC_FIELD_BINDINGS_def)

text \<open>
  What was built for the present ledger can be written. When the persisted projection is current, the transaction has
  ended and fits the expected feature, and the document survives the redaction, a cache that was built from the projection
  is written, signed and returned.
\<close>

theorem built_cache_written:
  fixes s :: cycle_fs
  defines "p es v tx c \<equiv> signed_cache c (binding_of es v) tx"
  assumes cur: "current fr rt E es v (cc_engine s)" and e: "ended_by tx es e"
    and built: "build_canonical_cycle_cache rx lt state schema updates v = Inr c" "distinct (map fst updates)"
    and fits: "expected_feature_checks (Some e) v tx expected = Inr ()"
    and plain: "json_wf (JObj (p es v tx c))" "no_nan (JObj (p es v tx c))" "redact_value rt (JObj (p es v tx c)) = JObj (p es v tx c)"
  shows "write_terminal_cycle_cache fr rt rx lt E
      \<lparr>cy_transaction = tx, cy_expected = expected, cy_schema = None, cy_same_ledger = True\<rparr> c s =
    (Inr (canon_obj (p es v tx c)), s\<lparr>cc_file := Some (JObj (canon_obj (p es v tx c)))\<rparr>)"
proof -
  let ?b = "binding_of es v" and ?p = "p es v tx c"
  let ?f = "oupdate (adel LEGACY_CACHE_BINDING_RECOVERY_FIELD c) (kernel_identity ?b tx)"
  have v: "json_wf (JObj v)" "no_nan (JObj v)" using cur by (simp_all add: current_def)
  have c: "oget c k = oget v q" if "map_of SEMANTIC_FIELD_BINDINGS k = Some q" for k q
    using built_fields(2) [OF built] that semantic_field [OF that] by (auto simp: oget_map_of CACHE_SIGNATURE_def)
  have f: "oget ?f k = oget v q" if "map_of SEMANTIC_FIELD_BINDINGS k = Some q" for k q
    using c [OF that] semantic_field [OF that, of ?b tx] by (simp add: oget_map_of map_of_finalized)
  have pf: "oget ?p k = oget ?f k" if "k \<noteq> CACHE_SIGNATURE" for k
    using that by (simp add: p_def signed_cache_def Let_def oget_map_of map_of_aset_apply map_of_adel)
  have d: "distinct (map fst ?p)" using plain(1) by simp
  have agrees: "cycle_cache_semantic_mismatches ?f v = []"
    by (rule no_mismatches) (auto simp: list_all_iff f [OF semantics_listed] py_eq_refl plain_field [OF v])
  have written: "cycle_cache_semantic_mismatches (canon_obj ?p) v = []"
    by (rule no_mismatches)
      (auto simp: list_all_iff oget_canon_obj [OF d] f [OF semantics_listed] pf semantic_field [OF semantics_listed]
        py_eq_canon plain_field [OF v])
  have own: "mismatches (kernel_identity ?b tx) ?f = []"
  proof -
    have "oget ?f (fst kv) = snd kv" if "kv \<in> set (kernel_identity ?b tx)" for kv
      by (rule kernel_value, rule map_of_is_SomeI [OF kernel_identity_fields(2)]) (simp add: that)
    moreover have "py_eq (snd kv) (snd kv)" if "kv \<in> set (kernel_identity ?b tx)" for kv
      using that by (auto simp: kernel_identity_def binding_of_def)
    ultimately show ?thesis by (auto simp: mismatches_def filter_empty_conv)
  qed
  have bind: "bind_terminal_cycle_cache c (Some e) ?b tx expected = Inr ?p"
    using fits agrees own
    by (simp add: bind_terminal_cycle_cache_def Let_def check_def p_def signed_cache_def binding_of_def)
  have sg: "oget (canon_obj ?p) CACHE_SIGNATURE = JStr (fingerprint (JObj (adel CACHE_SIGNATURE (canon_obj ?p))))"
  proof -
    have "oget ?p CACHE_SIGNATURE = JStr (fingerprint (JObj (adel CACHE_SIGNATURE ?f)))"
      by (simp add: p_def signed_cache_def Let_def)
    moreover have "adel CACHE_SIGNATURE ?p = adel CACHE_SIGNATURE ?f"
    proof -
      have "adel k (aset k w d) = adel k d" for k :: string and w :: json and d by (induction d) (auto simp: adel_def)
      moreover have "adel k (adel k d) = adel k d" for k :: string and d :: obj by (simp add: adel_def)
      ultimately show ?thesis by (simp add: p_def signed_cache_def Let_def)
    qed
    moreover have "fingerprint (JObj (adel CACHE_SIGNATURE (canon_obj ?p))) = fingerprint (JObj (adel CACHE_SIGNATURE ?p))"
      unfolding fingerprint_def by (metis adel_canon_obj [OF d] canon_JObj_obj dumps_canon)
    ultimately show ?thesis by (simp add: oget_canon_obj [OF d])
  qed
  have same: "py_eq (JObj (canon_obj ?p)) (JObj ?p)"
    using py_eq_canon [OF plain(1,2)] unfolding canon_JObj_obj .
  have doc: "written_checks rx lt None ?p (Some (JObj (canon_obj ?p))) = Inr (canon_obj ?p)"
    using same sg by (simp add: written_checks_def check_def optional_schema_def Let_def del: py_eq.simps)
  have kept: "binding_kept (canon_obj ?p) ?b ?b = Inr ()"
    using written
  proof -
    have k: "oget (canon_obj ?p) ''kernel_ledger_sequence'' = JInt (cb_sequence ?b)"
      "oget (canon_obj ?p) ''kernel_ledger_fingerprint'' = JStr (cb_ledger ?b)"
      "oget (canon_obj ?p) ''kernel_projection_fingerprint'' = cb_fingerprint ?b"
      using kernel_value [OF kernel_values(1) [of ?b tx], of c] kernel_value [OF kernel_values(2) [of ?b tx], of c]
        kernel_value [OF kernel_values(3) [of ?b tx], of c]
      by (simp_all add: oget_canon_obj [OF d] pf CACHE_SIGNATURE_def binding_of_def)
    show ?thesis
      using written by (simp add: binding_kept_def check_def k) (simp add: binding_dict_def binding_of_def)
  qed
  let ?s = "s\<lparr>cc_file := Some (JObj (canon_obj ?p))\<rparr>"
  have text_kept: "canon (redact_value rt (JObj ?p)) = JObj (canon_obj ?p)" unfolding plain(3) canon_JObj_obj by (rule refl)
  have "on_engine (validated_canonical_projection_binding fr rt E tx (plain_binding True)) u = (Inr ?b, u)"
    if "cc_engine u = cc_engine s" for u
    using that binding_current(1) [OF cur e] by (simp add: on_engine_def spart_def)
  moreover have "on_engine (read_terminal fr rt (en_ledger E) tx) s = (Inr (Some e), s)"
    using binding_current(2) [OF cur e] by (simp add: on_engine_def spart_def)
  ultimately show ?thesis
    using bind doc kept text_kept
    by (simp add: write_terminal_cycle_cache_def Let_def sbind_def eff_simps optional_schema_def write_cycle_file_def
        del: redact_value.simps canon.simps)
qed

end
