(* ===== verification/Integration_Plan.thy ===== *)
theory Integration_Plan
  imports Kernel_Recovery Ledger_Durable
begin

section \<open>Integration plans\<close>

text \<open>
  The plan documents of \<^verbatim>\<open>integration_executor.py\<close>: a plan names everything a deterministic integration may
  rely on and change, is bound to the lease and the ledger, and carries the fingerprint of its content; it is
  validated when it is built, when it is written and whenever it is loaded. \<open>rp\<close> is \<^verbatim>\<open>Path.resolve\<close>. A
  list of changed paths with elements that are no texts is refused with the class the code gives to most of them.
  \<open>adapter_commands\<close> is of \<^verbatim>\<open>validation_tiers.py\<close>.
\<close>

definition PLAN_SCHEMA_VERSION :: int where
  "PLAN_SCHEMA_VERSION = 2"

definition RUNTIME_PATTERN :: string where
  "RUNTIME_PATTERN = ''/.factory/runtime/milestone-integration/''"

definition RUNTIME_DESCENDANTS :: "string list" where
  "RUNTIME_DESCENDANTS =
     [''.factory/runtime/milestone-integration/latest.json'', ''.factory/runtime/milestone-integration/F005-plan.json'']"

definition VALIDATION_GROUPS :: "string list" where
  "VALIDATION_GROUPS = [''build'', ''test'', ''lint'', ''package'', ''validate'', ''validation_tiers.milestone'']"

definition LEASE_IDENTITY_FIELDS :: "string list" where
  "LEASE_IDENTITY_FIELDS =
     [''lease_id'', ''lease_type'', ''repository_identity'', ''repository_path_fingerprint'', ''repository_path'', ''project_id'',
      ''controller_project_id'', ''adapter_project_id'', ''transaction_id'', ''workflow_type'', ''milestone'', ''feature_id'',
      ''feature_branch'', ''accepted_commit'', ''starting_branch'', ''starting_head'', ''run_id'', ''session_id'', ''owner_pid'',
      ''owner_process_start'', ''owner_host'', ''allowed_mutations'']"

definition LEGACY_LEASE_IDENTITY_FIELDS :: "string list" where
  "LEGACY_LEASE_IDENTITY_FIELDS =
     filter (\<lambda>f. f \<notin> {''controller_project_id'', ''adapter_project_id''}) LEASE_IDENTITY_FIELDS"

definition PLAN_REQUIRED_FIELDS :: "string list" where
  "PLAN_REQUIRED_FIELDS =
     [''schema_version'', ''plan_fingerprint'', ''created_at'', ''project_id'', ''controller_project_id'', ''adapter_project_id'',
      ''repository'', ''repository_identity'', ''repository_path_fingerprint'', ''transaction_id'', ''run_id'', ''feature_id'',
      ''feature_branch'', ''accepted_commit'', ''accepted_metadata_ref'', ''accepted_queue_fingerprint'', ''accepted_changed_paths'',
      ''milestone_id'', ''milestone_branch'', ''pre_integration_head'', ''queue_path'', ''projection_fingerprint'', ''ledger_sequence'',
      ''ledger_fingerprint'', ''controller_ledger_path'', ''lease_identity'', ''runtime_exclusion'', ''validation_commands'',
      ''metadata_paths'']"

definition LEGACY_PLAN_REQUIRED_FIELDS :: "string list" where
  "LEGACY_PLAN_REQUIRED_FIELDS = filter (\<lambda>f. f \<noteq> ''controller_project_id'') PLAN_REQUIRED_FIELDS"

definition plan_fingerprint :: "obj \<Rightarrow> string" where
  "plan_fingerprint plan = sha256_hex (dumps (JObj (adel ''plan_fingerprint'' plan)))"

subsection \<open>The adapter\<close>

definition TIERS :: "string list" where
  "TIERS = [''feature'', ''milestone'', ''release'']"

definition LEGACY_GROUPS :: "string list" where
  "LEGACY_GROUPS = [''build'', ''test'', ''lint'', ''package'', ''validate'']"

definition argument_list :: "json \<Rightarrow> string list option" where
  "argument_list v =
     (case v of
        JArr xs \<Rightarrow> if xs \<noteq> [] \<and> list_all nonempty_str xs then Some (map text_of xs) else None
      | _ \<Rightarrow> None)"

definition argument_arrays :: "json \<Rightarrow> string list list res" where
  "argument_arrays v =
     (case v of
        JArr cs \<Rightarrow>
          rmap (\<lambda>c. case argument_list c of None \<Rightarrow> raise ConveyorError ''must be a non-empty argument array'' | Some argv \<Rightarrow> Inr argv) cs
      | _ \<Rightarrow> raise ConveyorError ''must be an array'')"

type_synonym validation_command = "string \<times> string list"

definition command_dict :: "validation_command \<Rightarrow> json" where
  "command_dict c = JObj [(''group'', JStr (fst c)), (''argv'', strs (snd c))]"

text \<open>The first command of each argument list\<close>

fun unseen :: "validation_command list \<Rightarrow> validation_command list \<Rightarrow> validation_command list" where
  "unseen seen [] = seen"
| "unseen seen (c # cs) = unseen (if snd c \<in> snd ` set seen then seen else seen @ [c]) cs"

definition adapter_commands :: "obj \<Rightarrow> string \<Rightarrow> (validation_command list \<times> string) res" where
  "adapter_commands adapter tier =
     rbind (check (tier \<in> set TIERS) ConveyorError ''unsupported validation tier'') (\<lambda>_.
     if oget adapter ''validation_tiers'' \<noteq> JNull then
       (case oget adapter ''validation_tiers'' of
          JObj configured \<Rightarrow>
            rbind (check (list_all (ohas configured) TIERS) ConveyorError
                     ''validation_tiers requires feature, milestone, and release'') (\<lambda>_.
            rbind (argument_arrays (oget configured tier)) (\<lambda>commands.
            rbind (check (commands \<noteq> []) ConveyorError ''validation tier must not be empty'') (\<lambda>_.
            Inr (map (\<lambda>c. (''validation_tiers.'' @ tier, c)) commands, ''tiered''))))
        | _ \<Rightarrow> raise ConveyorError ''validation_tiers must be an object'')
     else
       (case oget adapter ''commands'' of
          JObj commands \<Rightarrow>
            rbind (rmap (\<lambda>g. rbind (argument_arrays (oget_or commands g (JArr []))) (\<lambda>cs. Inr (map (\<lambda>c. (g, c)) cs))) LEGACY_GROUPS)
              (\<lambda>groups. Inr (unseen [] (concat groups), ''legacy''))
        | _ \<Rightarrow> raise ConveyorError ''legacy adapter commands must be an object''))"

text \<open>\<^verbatim>\<open>except ConveyorError as exc: raise IntegrationPlanError(str(exc))\<close>\<close>

definition as_plan_error :: "exn_class \<Rightarrow> 'a res \<Rightarrow> 'a res" where
  "as_plan_error c r = (case r of
     Inl e \<Rightarrow> if issubclass (exn_cls e) c then raise IntegrationPlanError (exn_msg e) else Inl e
   | Inr x \<Rightarrow> Inr x)"

definition commands_from_adapter :: "obj \<Rightarrow> validation_command list res" where
  "commands_from_adapter adapter =
     as_plan_error ConveyorError (rbind (adapter_commands adapter ''milestone'') (\<lambda>(commands, _). Inr commands))"

definition adapter_project_id :: "obj \<Rightarrow> string res" where
  "adapter_project_id adapter =
     (case oget adapter ''project'' of
        JObj p \<Rightarrow> (case oget p ''id'' of JStr (c # cs) \<Rightarrow> Inr (c # cs) | _ \<Rightarrow> raise IntegrationPlanError ''adapter project.id is missing'')
      | _ \<Rightarrow> raise IntegrationPlanError ''adapter project.id is missing'')"

definition plan_path :: "string \<Rightarrow> string res" where
  "plan_path v = (if safe_path v then Inr v else raise IntegrationPlanError ''is not a safe repository-relative path'')"

definition plan_metadata_paths :: "obj \<Rightarrow> string \<Rightarrow> string list res" where
  "plan_metadata_paths adapter queue_path =
     rbind (plan_path queue_path) (\<lambda>q.
     rbind (case oget adapter ''factory'' of
              JObj f \<Rightarrow> (case oget f ''run_log'' of JStr (c # cs) \<Rightarrow> plan_path (c # cs) | _ \<Rightarrow> Inr ''docs/RUN_LOG.md'')
            | _ \<Rightarrow> Inr ''docs/RUN_LOG.md'') (\<lambda>run_log.
     Inr (sorted_set [q, ''docs/CURRENT_STATUS.md'', run_log])))"

definition one_item :: "obj \<Rightarrow> string \<Rightarrow> string \<Rightarrow> obj res" where
  "one_item document collection wanted =
     (case oget document collection of
        JArr items \<Rightarrow>
          (case concat (map (\<lambda>i. case i of JObj d \<Rightarrow> if oget d ''id'' = JStr wanted then [d] else [] | _ \<Rightarrow> []) items) of
             [d] \<Rightarrow> Inr d
           | _ \<Rightarrow> raise IntegrationPlanError ''accepted metadata must contain exactly one'')
      | _ \<Rightarrow> raise IntegrationPlanError ''queue collection must be an array'')"

subsection \<open>Validation\<close>

definition same_keys :: "obj \<Rightarrow> string list \<Rightarrow> bool" where
  "same_keys d ks \<longleftrightarrow> list_all (ohas d) ks \<and> list_all (\<lambda>kv. fst kv \<in> set ks) d"

definition plan_text_fields :: "string list" where
  "plan_text_fields =
     [''plan_fingerprint'', ''created_at'', ''project_id'', ''repository'', ''repository_identity'', ''repository_path_fingerprint'',
      ''transaction_id'', ''run_id'', ''feature_id'', ''feature_branch'', ''accepted_commit'', ''accepted_metadata_ref'',
      ''accepted_queue_fingerprint'', ''milestone_id'', ''milestone_branch'', ''pre_integration_head'', ''queue_path'',
      ''projection_fingerprint'', ''ledger_fingerprint'', ''controller_ledger_path'']"

text \<open>\<^verbatim>\<open>ledger:[A-Za-z0-9][A-Za-z0-9._:-]{0,255}:[0-9a-f]{64}\<close>\<close>

definition ledger_ref :: "string \<Rightarrow> bool" where
  "ledger_ref s \<longleftrightarrow> prefix ''ledger:'' s \<and> length s > 72
     \<and> (let digest = drop (length s - 64) s; rest = take (length s - 64) s in
         last rest = CHR '':'' \<and> list_all (\<lambda>c. c \<in> set ''0123456789abcdef'') digest \<and> SAFE_IDENTIFIER (butlast (drop 7 rest)))"

definition changed_list :: "json \<Rightarrow> json list res" where
  "changed_list v =
     (case v of
        JArr xs \<Rightarrow>
          rbind (check (xs \<noteq> []) IntegrationPlanError ''integration plan accepted_changed_paths must be non-empty'') (\<lambda>_.
          rbind (check (list_all is_str xs \<and> map text_of xs = sorted_set (map text_of xs)) IntegrationPlanError
                   ''integration plan accepted_changed_paths must be sorted and unique'') (\<lambda>_. Inr xs))
      | _ \<Rightarrow> raise IntegrationPlanError ''integration plan accepted_changed_paths must be non-empty'')"

definition mutation_path :: "json \<Rightarrow> unit res" where
  "mutation_path v =
     (case v of
        JStr s \<Rightarrow> rbind (plan_path s) (\<lambda>_. Inr ())
      | _ \<Rightarrow> raise IntegrationPlanError ''integration plan mutation paths must be strings'')"

text \<open>The fields of a lease that repeat one of the plan, under the name of the plan\<close>

definition lease_bindings :: "(string \<times> string) list" where
  "lease_bindings =
     [(''repository_identity'', ''repository_identity''), (''repository_path_fingerprint'', ''repository_path_fingerprint''),
      (''transaction_id'', ''transaction_id''), (''run_id'', ''run_id''), (''feature_id'', ''feature_id''),
      (''feature_branch'', ''feature_branch''), (''accepted_commit'', ''accepted_commit''), (''milestone'', ''milestone_id''),
      (''starting_branch'', ''milestone_branch''), (''starting_head'', ''pre_integration_head'')]"

definition lease_bound :: "(string \<Rightarrow> string) \<Rightarrow> obj \<Rightarrow> string \<Rightarrow> obj \<Rightarrow> bool" where
  "lease_bound rp plan controller lease \<longleftrightarrow>
     (let legacy = py_eq (oget plan ''schema_version'') (JInt LEGACY_PLAN_SCHEMA_VERSION);
          named = (\<lambda>k. if legacy then JStr controller else oget lease k) in
      oget lease ''lease_type'' = JStr ''integration_writer'' \<and> oget lease ''workflow_type'' = JStr ''milestone_integration''
      \<and> list_all (\<lambda>(k, p). py_eq (oget lease k) (oget plan p)) lease_bindings
      \<and> rp (py_str (oget lease ''repository_path'')) = rp (text_of (oget plan ''repository''))
      \<and> oget lease ''project_id'' = JStr controller \<and> named ''controller_project_id'' = JStr controller
      \<and> py_eq (named ''adapter_project_id'') (oget plan ''adapter_project_id'') \<and> oget lease ''session_id'' = JNull)"

definition policy_matches :: "json \<Rightarrow> string list \<Rightarrow> bool" where
  "policy_matches policy paths \<longleftrightarrow>
     (case policy of
        JObj d \<Rightarrow> py_eq (oget d ''allowed_paths'') (strs paths) \<and> oget d ''allowed_prefixes'' = JArr []
          \<and> oget d ''allow_untracked'' = JBool False
      | _ \<Rightarrow> False)"

definition exclusion_bound :: "obj \<Rightarrow> bool" where
  "exclusion_bound plan \<longleftrightarrow>
     (case oget plan ''runtime_exclusion'' of
        JObj d \<Rightarrow> oget d ''pattern'' = JStr RUNTIME_PATTERN \<and> py_eq (oget d ''repository_identity'') (oget plan ''repository_identity'')
          \<and> py_eq (oget d ''repository_path_fingerprint'') (oget plan ''repository_path_fingerprint'')
          \<and> py_eq (oget d ''verified_descendants'') (strs RUNTIME_DESCENDANTS)
      | _ \<Rightarrow> False)"

definition command_ok :: "json \<Rightarrow> bool" where
  "command_ok c \<longleftrightarrow>
     (case c of
        JObj d \<Rightarrow> same_keys d [''group'', ''argv''] \<and> list_ex (\<lambda>g. oget d ''group'' = JStr g) VALIDATION_GROUPS
          \<and> argument_list (oget d ''argv'') \<noteq> None
      | _ \<Rightarrow> False)"

definition required_plan_fields :: "obj \<Rightarrow> (string list \<times> string list) res" where
  "required_plan_fields plan =
     (if py_eq (oget plan ''schema_version'') (JInt PLAN_SCHEMA_VERSION) then Inr (PLAN_REQUIRED_FIELDS, LEASE_IDENTITY_FIELDS)
      else if py_eq (oget plan ''schema_version'') (JInt LEGACY_PLAN_SCHEMA_VERSION)
        then Inr (LEGACY_PLAN_REQUIRED_FIELDS, LEGACY_LEASE_IDENTITY_FIELDS)
      else raise IntegrationPlanError ''unsupported integration plan schema version'')"

definition validate_plan_document :: "(string \<Rightarrow> string) \<Rightarrow> obj \<Rightarrow> unit res" where
  "validate_plan_document rp plan =
     rbind (required_plan_fields plan) (\<lambda>(required, lease_fields).
     rbind (check (same_keys plan required) IntegrationPlanError ''integration plan fields disagree'') (\<lambda>_.
     rbind (controller_project_id plan) (\<lambda>controller.
     rbind (check (oget plan ''project_id'' = JStr controller) IntegrationPlanError
              ''integration plan project_id compatibility alias must equal controller_project_id'') (\<lambda>_.
     rbind (check (list_all (\<lambda>f. nonempty_str (oget plan f)) plan_text_fields \<and> nonempty_str (oget plan ''adapter_project_id''))
              IntegrationPlanError ''integration plan field must be a non-empty string'') (\<lambda>_.
     rbind (check (case oget plan ''ledger_sequence'' of JInt n \<Rightarrow> 0 \<le> n | _ \<Rightarrow> False) IntegrationPlanError
              ''integration plan ledger_sequence must be non-negative'') (\<lambda>_.
     rbind (check (oget plan ''accepted_metadata_ref'' = oget plan ''accepted_commit''
                \<or> ledger_ref (text_of (oget plan ''accepted_metadata_ref''))) IntegrationPlanError
              ''accepted metadata ref must be the accepted commit or controller ledger authority'') (\<lambda>_.
     rbind (check (oget plan ''plan_fingerprint'' = JStr (plan_fingerprint plan)) IntegrationPlanError
              ''integration plan fingerprint is invalid'') (\<lambda>_.
     rbind (changed_list (oget plan ''accepted_changed_paths'')) (\<lambda>accepted.
     rbind (elements (oget_or plan ''metadata_paths'' (JArr []))) (\<lambda>metadata.
     rbind (rall mutation_path (accepted @ metadata)) (\<lambda>_.
     case oget plan ''lease_identity'' of
       JObj lease \<Rightarrow>
         rbind (check (same_keys lease lease_fields) IntegrationPlanError ''integration plan lease identity is incomplete'') (\<lambda>_.
         rbind (check (lease_bound rp plan controller lease) IntegrationPlanError ''integration plan lease binding failed'') (\<lambda>_.
         rbind (check (policy_matches (oget lease ''allowed_mutations'') (sorted_set (map text_of (accepted @ metadata)))) IntegrationPlanError
                  ''controller lease mutation policy does not match the immutable integration plan'') (\<lambda>_.
         rbind (check (exclusion_bound plan) IntegrationPlanError ''integration plan runtime exclusion binding is invalid'') (\<lambda>_.
         case oget plan ''validation_commands'' of
           JArr cs \<Rightarrow> check (list_all command_ok cs) IntegrationPlanError ''integration plan contains an invalid validation command''
         | _ \<Rightarrow> raise IntegrationPlanError ''integration plan validation_commands must be an array''))))
     | _ \<Rightarrow> raise IntegrationPlanError ''integration plan lease identity is incomplete'')))))))))))"

subsection \<open>Building, writing and loading\<close>

record plan_args =
  pa_created :: string
  pa_repository :: string
  pa_controller :: string
  pa_transaction :: string
  pa_run :: string
  pa_feature :: string
  pa_branch :: string
  pa_commit :: string
  pa_milestone :: string
  pa_milestone_branch :: string
  pa_head :: string
  pa_queue :: string
  pa_projection :: string
  pa_sequence :: int
  pa_ledger_fp :: string
  pa_ledger_path :: string
  pa_lease :: obj
  pa_exclusion :: json

definition build_integration_plan :: "(string \<Rightarrow> string) \<Rightarrow> plan_args \<Rightarrow> obj \<Rightarrow> obj res" where
  "build_integration_plan rp a verified =
     (let evidence = canon_obj verified in
      rbind (check (oget evidence ''controller_project_id'' = JStr (pa_controller a)) IntegrationPlanError
               ''verified integration evidence changed controller project identity'') (\<lambda>_.
      rbind (check (nonempty_str (oget evidence ''adapter_project_id'')) IntegrationPlanError
               ''verified integration evidence lacks adapter project identity'') (\<lambda>_.
      rbind (check (list_all (ohas (pa_lease a)) LEASE_IDENTITY_FIELDS) IntegrationPlanError
               ''controller lease identity is incomplete'') (\<lambda>_.
      rbind (osub evidence ''repository_identity'') (\<lambda>identity.
      rbind (osub evidence ''repository_path_fingerprint'') (\<lambda>path_fp.
      rbind (osub evidence ''accepted_metadata_ref'') (\<lambda>metadata_ref.
      rbind (osub evidence ''accepted_queue_fingerprint'') (\<lambda>queue_fp.
      rbind (osub evidence ''accepted_changed_paths'') (\<lambda>accepted_paths.
      rbind (plan_path (pa_queue a)) (\<lambda>queue.
      rbind (osub evidence ''validation_commands'') (\<lambda>commands.
      rbind (osub evidence ''metadata_paths'') (\<lambda>metadata.
      let plan =
        [(''schema_version'', JInt PLAN_SCHEMA_VERSION), (''created_at'', JStr (pa_created a)),
         (''project_id'', JStr (pa_controller a)), (''controller_project_id'', JStr (pa_controller a)),
         (''adapter_project_id'', oget evidence ''adapter_project_id''), (''repository'', JStr (rp (pa_repository a))),
         (''repository_identity'', identity), (''repository_path_fingerprint'', path_fp),
         (''transaction_id'', JStr (pa_transaction a)), (''run_id'', JStr (pa_run a)), (''feature_id'', JStr (pa_feature a)),
         (''feature_branch'', JStr (pa_branch a)), (''accepted_commit'', JStr (pa_commit a)), (''accepted_metadata_ref'', metadata_ref),
         (''accepted_queue_fingerprint'', queue_fp), (''accepted_changed_paths'', accepted_paths),
         (''milestone_id'', JStr (pa_milestone a)), (''milestone_branch'', JStr (pa_milestone_branch a)),
         (''pre_integration_head'', JStr (pa_head a)), (''queue_path'', JStr queue),
         (''projection_fingerprint'', JStr (pa_projection a)), (''ledger_sequence'', JInt (pa_sequence a)),
         (''ledger_fingerprint'', JStr (pa_ledger_fp a)), (''controller_ledger_path'', JStr (rp (pa_ledger_path a))),
         (''lease_identity'', canon (JObj (map (\<lambda>f. (f, oget (pa_lease a) f)) LEASE_IDENTITY_FIELDS))),
         (''runtime_exclusion'', pa_exclusion a), (''validation_commands'', commands), (''metadata_paths'', metadata)];
        signed = oset ''plan_fingerprint'' (JStr (plan_fingerprint plan)) plan in
      rbind (validate_plan_document rp signed) (\<lambda>_. Inr signed)))))))))))))"

text \<open>The file of a plan: what is at its path, and the JSON it holds\<close>

definition persist_integration_plan :: "(string \<Rightarrow> string) \<Rightarrow> obj \<Rightarrow> (entry, unit) eff" where
  "persist_integration_plan rp plan =
     sbind (slift (validate_plan_document rp plan)) (\<lambda>_.
     sbind sget (\<lambda>e.
     sbind (scheck (e = Missing) IntegrationPlanError ''immutable integration plan already exists'') (\<lambda>_.
     smodify (\<lambda>_. Regular 1 (Some (canon (JObj plan)))))))"

definition load_integration_plan :: "(string \<Rightarrow> string) \<Rightarrow> (entry, obj) eff" where
  "load_integration_plan rp =
     sbind sget (\<lambda>e.
     case e of
       Missing \<Rightarrow> sthrow IntegrationPlanError ''integration plan does not exist''
     | Regular n content \<Rightarrow>
         sbind (scheck (n = 1) IntegrationPlanError ''integration plan path is unsafe'') (\<lambda>_.
         sbind (scheck (content \<noteq> None) IntegrationPlanError ''integration plan is unreadable or malformed'') (\<lambda>_.
         case content of
           Some (JObj plan) \<Rightarrow> sbind (slift (validate_plan_document rp plan)) (\<lambda>_. sret plan)
         | _ \<Rightarrow> sthrow IntegrationPlanError ''integration plan must be an object''))
     | _ \<Rightarrow> sthrow IntegrationPlanError ''integration plan path is unsafe'')"

end
