(* ===== verification/Integration_Refs.thy ===== *)
theory Integration_Refs
  imports Integration_Plan Execution_Plan
begin

section \<open>What an integration reads\<close>

text \<open>
  The checks of \<^verbatim>\<open>integration_executor.py\<close> that read only: the two refs of an integration, the binding of a
  plan to the ledger, the acceptance the ledger holds, the exclusion of the runtime directory and the audit of the accepted
  commit. The environment \<open>xenv\<close> extends the host of the repository inspector: \<open>xe_spawn cwd argv vars\<close> is
  \<^verbatim>\<open>subprocess.run\<close> with variables added to the environment, \<open>Inl\<close> being the class of the exception when
  the process cannot be started or exceeds its time; \<open>xe_write\<close> replaces a file and says whether it could;
  \<open>xe_now\<close> is \<^verbatim>\<open>utc_now()\<close>. A file is its bytes. Regular expressions are written out.
\<close>

record 'r xenv =
  xe_host :: "'r host"
  xe_lease :: wenv
  xe_rt :: "string \<Rightarrow> string"
  xe_fr :: "string \<Rightarrow> string"
  xe_now :: "'r \<Rightarrow> string"
  xe_spawn :: "string \<Rightarrow> string list \<Rightarrow> (string \<times> string) list \<Rightarrow> 'r \<Rightarrow> (string + completed) \<times> 'r"
  xe_write :: "string \<Rightarrow> nat list \<Rightarrow> 'r \<Rightarrow> bool \<times> 'r"

subsection \<open>Bytes and text\<close>

text \<open>\<^verbatim>\<open>decode("utf-8")\<close> of text over the first 256 code points\<close>

fun utf8_text :: "nat list \<Rightarrow> string option" where
  "utf8_text [] = Some []"
| "utf8_text (n # ns) =
     (if n < 128 then map_option ((#) (char_of n)) (utf8_text ns)
      else (case ns of
          [] \<Rightarrow> None
        | m # ms \<Rightarrow>
            if n \<in> {194, 195} \<and> 128 \<le> m \<and> m < 192
            then map_option ((#) (char_of ((n - 192) * 64 + (m - 128)))) (utf8_text ms)
            else None))"

text \<open>\<^verbatim>\<open>bytes.splitlines()\<close>\<close>

fun byte_lines :: "nat list \<Rightarrow> nat list list" where
  "byte_lines [] = []"
| "byte_lines (c # s) =
     (if c = 10 \<or> c = 13 then
        [] # (case s of [] \<Rightarrow> [] | d # t \<Rightarrow> if c = 13 \<and> d = 10 then byte_lines t else byte_lines s)
      else (case byte_lines s of [] \<Rightarrow> [[c]] | l # ls \<Rightarrow> (c # l) # ls))"

definition plan_text :: "obj \<Rightarrow> string \<Rightarrow> string" where
  "plan_text plan k = text_of (oget plan k)"

definition plan_texts :: "obj \<Rightarrow> string \<Rightarrow> string list" where
  "plan_texts plan k = (case elements (oget plan k) of Inr xs \<Rightarrow> map text_of xs | Inl _ \<Rightarrow> [])"

subsection \<open>Processes and files\<close>

definition spawn :: "'r xenv \<Rightarrow> string \<Rightarrow> string list \<Rightarrow> (string \<times> string) list \<Rightarrow> ('r repo, string + completed) eff" where
  "spawn X cwd argv vars =
     (\<lambda>s. case xe_spawn X cwd argv vars (rp_machine s) of (r, m) \<Rightarrow> (Inr r, s\<lparr>rp_machine := m\<rparr>))"

definition x_git :: "'r xenv \<Rightarrow> string \<Rightarrow> string list \<Rightarrow> bool \<Rightarrow> ('r repo, completed) eff" where
  "x_git X root arguments chk =
     sbind (spawn X root (''git'' # arguments) []) (\<lambda>r.
     case r of
       Inl _ \<Rightarrow> sthrow IntegrationPlanError ''Git operation failed safely''
     | Inr c \<Rightarrow>
         sbind (scheck (\<not> (chk \<and> cp_status c \<noteq> 0)) IntegrationPlanError ''Git operation failed'') (\<lambda>_. sret c))"

definition x_output :: "'r xenv \<Rightarrow> string \<Rightarrow> string list \<Rightarrow> ('r repo, string) eff" where
  "x_output X root arguments = sbind (x_git X root arguments True) (\<lambda>c. sret (strip (cp_out c)))"

text \<open>\<^verbatim>\<open>read_bytes()\<close> and \<^verbatim>\<open>read_text(encoding="utf-8")\<close>\<close>

definition x_bytes :: "'r xenv \<Rightarrow> string \<Rightarrow> ('r repo, nat list) eff" where
  "x_bytes X path =
     sbind machine (\<lambda>m.
     case stat_bytes (xe_host X) m path of None \<Rightarrow> sthrow OSError ''cannot read'' | Some b \<Rightarrow> sret b)"

definition decoded :: "nat list \<Rightarrow> string res" where
  "decoded b = (case utf8_text b of None \<Rightarrow> raise ValueError ''codec cannot decode bytes'' | Some t \<Rightarrow> Inr t)"

definition x_text :: "'r xenv \<Rightarrow> string \<Rightarrow> ('r repo, string) eff" where
  "x_text X path = sbind (x_bytes X path) (\<lambda>b. slift (decoded b))"

text \<open>\<^verbatim>\<open>except OSError as exc: raise IntegrationPlanError(m) from exc\<close>\<close>

definition no_os_error :: "string \<Rightarrow> ('s, 'a) eff \<Rightarrow> ('s, 'a) eff" where
  "no_os_error m c = scatch (\<lambda>e. issubclass (exn_cls e) OSError) c (\<lambda>_. sthrow IntegrationPlanError m)"

definition json_object :: "(string \<Rightarrow> string) \<Rightarrow> string \<Rightarrow> string \<Rightarrow> obj res" where
  "json_object fr m text =
     (case json_loads fr text of Some (JObj d) \<Rightarrow> Inr d | _ \<Rightarrow> raise IntegrationPlanError m)"

definition json_at :: "'r xenv \<Rightarrow> string \<Rightarrow> string \<Rightarrow> string \<Rightarrow> ('r repo, obj \<times> string) eff" where
  "json_at X root commit relative =
     sbind (slift (plan_path relative)) (\<lambda>_.
     sbind (x_git X root [''show'', commit @ '':'' @ relative] False) (\<lambda>c.
     sbind (scheck (cp_status c = 0) IntegrationPlanError ''immutable metadata is missing'') (\<lambda>_.
     sbind (slift (json_object (xe_fr X) ''immutable metadata is no JSON-compatible YAML object'' (cp_out c))) (\<lambda>d.
     sret (d, cp_out c)))))"

subsection \<open>The two refs\<close>

record ref_args =
  ra_controller :: string
  ra_feature :: string
  ra_branch :: string
  ra_commit :: string
  ra_milestone :: string
  ra_milestone_branch :: string
  ra_head :: string
  ra_queue :: string
  ra_metadata :: "obj option"

definition read_adapter :: "(string \<Rightarrow> string) \<Rightarrow> nat list option \<Rightarrow> obj res" where
  "read_adapter fr content =
     (case Option.bind (Option.bind content utf8_text) (json_loads fr) of
        Some (JObj d) \<Rightarrow> Inr d
      | _ \<Rightarrow> raise IntegrationPlanError ''live adapter is unreadable, malformed or no object'')"

definition legacy_acceptance :: "ref_args \<Rightarrow> obj \<Rightarrow> bool res" where
  "legacy_acceptance a f =
     rbind (hash_in (oget f ''accepted_commit'') [''SELF'', ra_commit a]) (\<lambda>named.
     Inr (named \<and> lower (strip (py_str (oget_or f ''implementation_status'' (JStr [])))) = ''completed''
       \<and> oget f ''status'' = JStr ''integration_pending'' \<and> oget f ''integration_status'' = JStr ''pending''
       \<and> oget f ''branch'' = JStr (ra_branch a) \<and> oget f ''integration_base_commit'' = JStr (ra_head a)
       \<and> (case oget f ''acceptance'' of
            JObj d \<Rightarrow> list_all (\<lambda>k. oget d k = JBool True) [''tests_passed'', ''review_passed'', ''documentation_current'']
          | _ \<Rightarrow> False)))"

definition unsigned_metadata :: "obj \<Rightarrow> obj" where
  "unsigned_metadata m =
     filter (\<lambda>kv. fst kv \<notin> {''metadata_fingerprint'', ''completed_acceptance_transaction'', ''milestone_base''}) m"

definition completion_verified :: "obj \<Rightarrow> bool" where
  "completion_verified m \<longleftrightarrow> oget m ''completed_acceptance_transaction'' = JBool True"

definition ledger_acceptance :: "ref_args \<Rightarrow> obj \<Rightarrow> string option \<Rightarrow> bool res" where
  "ledger_acceptance a m tree =
     rbind (hash_in (oget m ''acceptance_tier'') [''feature'', ''milestone'', ''release'']) (\<lambda>tier.
     Inr (tier \<and> oget m ''surface'' = JStr ''controller_evidence_ledger'' \<and> oget m ''feature_id'' = JStr (ra_feature a)
       \<and> oget m ''implementation_commit'' = JStr (ra_commit a) \<and> py_eq (oget m ''implementation_tree'') (of_opt tree)
       \<and> oget m ''feature_branch'' = JStr (ra_branch a) \<and> oget m ''implementation_ref_unchanged'' = JBool True
       \<and> oget m ''integration_status'' = JStr ''pending'' \<and> nonempty_str (oget m ''tier_evidence_fingerprint'')
       \<and> oget m ''metadata_fingerprint'' = JStr (fingerprint (JObj (unsigned_metadata m)))
       \<and> (if completion_verified m then oget m ''milestone_base'' = JStr (ra_head a) else True)))"

definition metadata_ref :: "obj \<Rightarrow> string" where
  "metadata_ref m = ''ledger:'' @ py_str (jor (oget m ''transaction_id'') (JStr []))
     @ '':'' @ py_str (jor (oget m ''metadata_fingerprint'') (JStr []))"

definition transition_fields :: "string list" where
  "transition_fields = [''transaction_id'', ''metadata_fingerprint'', ''feature_id'', ''milestone_base'', ''implementation_commit'',
     ''implementation_tree'', ''feature_branch'', ''acceptance_tier'', ''tier_evidence_fingerprint'', ''implementation_ref_unchanged'']"

definition ledger_transition :: "obj \<Rightarrow> json" where
  "ledger_transition m =
     (if completion_verified m
      then JObj ((''completed_acceptance_transaction'', JBool True) # map (\<lambda>k. (k, oget m k)) transition_fields
             @ [(''integration_target_preflight_passed'', JBool True)])
      else JNull)"

text \<open>The reference to the acceptance and the authority of the ledger, after the checks of the accepted feature\<close>

definition acceptance_of ::
  "'r xenv \<Rightarrow> string \<Rightarrow> string \<Rightarrow> ref_args \<Rightarrow> obj \<Rightarrow> ('r repo, bool \<times> string \<times> json) eff" where
  "acceptance_of X root inspected a f =
     (case ra_metadata a of
        None \<Rightarrow>
          sbind (x_output X root [''show'', ''-s'', ''--format=%P'', ra_commit a]) (\<lambda>parents.
          sbind (scheck (split_ws parents = [ra_head a]) IntegrationPlanError
                   ''legacy accepted commit is not the exact permitted single child of the milestone HEAD'') (\<lambda>_.
          sbind (slift (legacy_acceptance a f)) (\<lambda>ok. sret (ok, ra_commit a, JNull))))
      | Some m \<Rightarrow>
          sbind (is_ancestor (xe_host X) inspected (ra_head a) (ra_commit a)) (\<lambda>b.
          sbind (scheck b IntegrationPlanError ''accepted implementation does not descend from the milestone HEAD'') (\<lambda>_.
          sbind (x_output X root [''rev-list'', ''--merges'', ra_head a @ ''..'' @ ra_commit a]) (\<lambda>merges.
          sbind (scheck (merges = []) IntegrationPlanError ''accepted implementation history must be linear'') (\<lambda>_.
          sbind (rev_parse (xe_host X) inspected (ra_commit a @ ''^{tree}'') False) (\<lambda>tree.
          sbind (slift (ledger_acceptance a m tree)) (\<lambda>ok. sret (ok, metadata_ref m, ledger_transition m))))))))"

text \<open>The features of a queue by their identity, the last of each first\<close>

definition features_by_id :: "json list \<Rightarrow> (string \<times> obj) list" where
  "features_by_id items =
     rev (concat (map (\<lambda>i. case i of JObj d \<Rightarrow> (case oget d ''id'' of JStr k \<Rightarrow> [(k, d)] | _ \<Rightarrow> []) | _ \<Rightarrow> []) items))"

definition id_array :: "json \<Rightarrow> string list option" where
  "id_array v = (case v of JArr xs \<Rightarrow> if list_all nonempty_str xs then Some (map text_of xs) else None | _ \<Rightarrow> None)"

definition integrated_in :: "json \<Rightarrow> string list res" where
  "integrated_in milestone =
     (case Option.bind (obj_of milestone) (\<lambda>d. id_array (oget d ''integrated_features'')) of
        None \<Rightarrow> raise IntegrationPlanError ''live milestone integrated_features must be ID arrays''
      | Some xs \<Rightarrow> Inr xs)"

definition check_dependency ::
  "'r xenv \<Rightarrow> string \<Rightarrow> ref_args \<Rightarrow> (string \<times> obj) list \<Rightarrow> string list \<Rightarrow> string \<Rightarrow> ('r repo, unit) eff" where
  "check_dependency X inspected a live integrated d =
     (case map_of live d of
        None \<Rightarrow> sthrow IntegrationPlanError ''integrated dependency is absent from the live milestone ref''
      | Some f \<Rightarrow>
          sbind (slift (hash_in (oget f ''status'') COMPLETE_STATUSES)) (\<lambda>complete.
          sbind (scheck (complete \<and> d \<in> set integrated) IntegrationPlanError
                   ''integrated dependency is absent from the live milestone ref'') (\<lambda>_.
          sbind (case oget f ''integrated_commit'' of
                   JStr c \<Rightarrow> is_ancestor (xe_host X) inspected c (ra_head a)
                 | _ \<Rightarrow> sret False) (\<lambda>b.
          scheck b IntegrationPlanError ''dependency commit is absent from the live milestone history''))))"

definition no_operation :: "'r xenv \<Rightarrow> string \<Rightarrow> ('r repo, bool) eff" where
  "no_operation X inspected =
     sbind (is_clean (xe_host X) inspected) (\<lambda>clean_now.
     if clean_now
     then sbind (git_operation_state (xe_host X) inspected) (\<lambda>operations. sret (\<not> list_ex snd operations))
     else sret False)"

definition changed_arguments :: "ref_args \<Rightarrow> string list" where
  "changed_arguments a =
     (if ra_metadata a \<noteq> None then [''diff'', ''--name-only'', ra_head a, ra_commit a, ''--'']
      else [''diff-tree'', ''--no-commit-id'', ''--name-only'', ''-r'', ra_commit a])"

text \<open>The identity of the project in the three adapters\<close>

definition inspect_adapters :: "'r xenv \<Rightarrow> string \<Rightarrow> string \<Rightarrow> ref_args \<Rightarrow> ('r repo, obj \<times> string) eff" where
  "inspect_adapters X root inspected a =
     sbind (json_at X root (ra_commit a) ''.factory/project.yaml'') (\<lambda>(accepted, _).
     sbind (slift (adapter_project_id accepted)) (\<lambda>accepted_id.
     sbind (file_bytes (xe_host X) inspected ''.factory/project.yaml'' False) (\<lambda>content.
     sbind (slift (read_adapter (xe_fr X) content)) (\<lambda>live.
     sbind (slift (adapter_project_id live)) (\<lambda>live_id.
     sbind (json_at X root (ra_head a) ''.factory/project.yaml'') (\<lambda>(milestone, _).
     sbind (slift (adapter_project_id milestone)) (\<lambda>milestone_id.
     sbind (scheck (live_id = milestone_id) IntegrationPlanError
              ''live worktree adapter project identity does not match the live milestone ref'') (\<lambda>_.
     sbind (scheck (accepted_id = live_id) IntegrationPlanError
              ''accepted-commit adapter project identity does not match the live milestone repository'') (\<lambda>_.
     sret (accepted, live_id))))))))))"

definition inspect_two_refs :: "'r xenv \<Rightarrow> string \<Rightarrow> ref_args \<Rightarrow> ('r repo, obj) eff" where
  "inspect_two_refs X repository a =
     (let H = xe_host X in
      sbind machine (\<lambda>m0.
      let root = ho_resolve H m0 (ho_expand H repository) in
      sbind (make_inspector H root) (\<lambda>inspected.
      sbind (repo_identity H inspected) (\<lambda>identity.
      sbind (no_operation X inspected) (\<lambda>idle.
      sbind (scheck idle IntegrationPlanError ''integration requires a clean repository and no Git operation'') (\<lambda>_.
      sbind (rev_parse H inspected (ra_milestone_branch a) False) (\<lambda>milestone_ref.
      sbind (scheck (milestone_ref = Some (ra_head a)) IntegrationPlanError
               ''live milestone ref does not match the planned starting HEAD'') (\<lambda>_.
      sbind (rev_parse H inspected (ra_branch a) False) (\<lambda>feature_ref.
      sbind (scheck (feature_ref = Some (ra_commit a)) IntegrationPlanError
               ''feature branch HEAD does not match the accepted commit'') (\<lambda>_.
      sbind (json_at X root (ra_commit a) (ra_queue a)) (\<lambda>(accepted_queue, accepted_text).
      sbind (inspect_adapters X root inspected a) (\<lambda>(adapter, adapter_id).
      sbind (json_at X root (ra_head a) (ra_queue a)) (\<lambda>(live_queue, _).
      sbind (slift (one_item accepted_queue ''features'' (ra_feature a))) (\<lambda>accepted_feature.
      sbind (slift (one_item accepted_queue ''milestones'' (ra_milestone a))) (\<lambda>accepted_milestone.
      sbind (slift (one_item live_queue ''milestones'' (ra_milestone a))) (\<lambda>live_milestone.
      sbind (acceptance_of X root inspected a accepted_feature) (\<lambda>(ok, metadata, transition).
      sbind (scheck (ok \<and> oget accepted_feature ''milestone'' = JStr (ra_milestone a)
                 \<and> oget accepted_milestone ''integration_branch'' = JStr (ra_milestone_branch a)
                 \<and> oget live_milestone ''integration_branch'' = JStr (ra_milestone_branch a)) IntegrationPlanError
               ''immutable accepted metadata failed two-ref validation'') (\<lambda>_.
      sbind (slift (elements (oget_or live_queue ''features'' (JArr [])))) (\<lambda>live_items.
      sbind (slift (rbind (elements (oget_or live_queue ''milestones'' (JArr []))) (rmap integrated_in))) (\<lambda>integrated.
      sbind (slift (case id_array (oget_or accepted_feature ''dependencies'' (JArr [])) of
               None \<Rightarrow> raise IntegrationPlanError ''accepted feature dependencies must be an ID array'' | Some ds \<Rightarrow> Inr ds)) (\<lambda>dependencies.
      sbind (sall (check_dependency X inspected a (features_by_id live_items) (concat integrated)) dependencies) (\<lambda>_.
      sbind (x_output X root (changed_arguments a)) (\<lambda>out.
      let changed = sort (full_lines out) in
      sbind (scheck (changed \<noteq> []) IntegrationPlanError ''accepted commit has no changed paths'') (\<lambda>_.
      sbind (scheck (case ra_metadata a of None \<Rightarrow> True | Some m \<Rightarrow> py_eq (oget m ''accepted_changed_paths'') (strs changed))
               IntegrationPlanError ''controller acceptance metadata changed paths disagree'') (\<lambda>_.
      sbind (slift (commands_from_adapter adapter)) (\<lambda>commands.
      sbind (slift (plan_metadata_paths adapter (ra_queue a))) (\<lambda>paths.
      sret [(''repository_identity'', JStr (id_repository_id identity)),
        (''repository_path_fingerprint'', JStr (id_path_fingerprint identity)),
        (''controller_project_id'', JStr (ra_controller a)), (''adapter_project_id'', JStr adapter_id),
        (''accepted_queue_fingerprint'', JStr (sha256_hex accepted_text)), (''accepted_changed_paths'', strs changed),
        (''accepted_metadata_ref'', JStr metadata), (''validation_commands'', JArr (map command_dict commands)),
        (''metadata_paths'', strs paths), (''dependencies'', strs dependencies), (''project_id'', JStr (ra_controller a)),
        (''ledger_transition_authority'', transition)])))))))))))))))))))))))))))"

subsection \<open>The ledger\<close>

definition parse_line :: "(string \<Rightarrow> string) \<Rightarrow> string \<Rightarrow> nat list \<Rightarrow> json res" where
  "parse_line fr m l =
     rbind (decoded l) (\<lambda>t. case json_loads fr t of None \<Rightarrow> raise IntegrationPlanError m | Some v \<Rightarrow> Inr v)"

definition field_is :: "string \<Rightarrow> string \<Rightarrow> json \<Rightarrow> bool res" where
  "field_is k v e = rbind (jget e k) (\<lambda>w. Inr (w = JStr v))"

definition same_project :: "string \<Rightarrow> json \<Rightarrow> unit res" where
  "same_project controller e =
     rbind (field_is ''project_id'' controller e) (\<lambda>b. check b IntegrationPlanError
       ''integration plan controller project identity does not match the controller ledger'')"

definition event_is :: "obj \<Rightarrow> json \<Rightarrow> bool res" where
  "event_is plan e =
     rbind (jget e ''sequence'') (\<lambda>n. rbind (jget e ''fingerprint'') (\<lambda>f.
     Inr (py_eq n (oget plan ''ledger_sequence'') \<and> py_eq f (oget plan ''ledger_fingerprint''))))"

definition verify_ledger_binding :: "'r xenv \<Rightarrow> obj \<Rightarrow> ('r repo, unit) eff" where
  "verify_ledger_binding X plan =
     sbind (no_os_error ''controller ledger cannot be read for plan verification''
              (x_bytes X (plan_text plan ''controller_ledger_path''))) (\<lambda>b.
     let ls = byte_lines b in
     sbind (scheck (oget plan ''ledger_sequence'' = JInt (int (length ls))) IntegrationPlanError
              ''controller ledger sequence changed after plan creation'') (\<lambda>_.
     sbind (scheck (ls \<noteq> []) IntegrationPlanError ''controller ledger is empty after transaction start'') (\<lambda>_.
     sbind (slift (rmap (parse_line (xe_fr X) ''controller ledger is malformed'') ls)) (\<lambda>events.
     sbind (slift (controller_project_id plan)) (\<lambda>controller.
     sbind (slift (rall (same_project controller) events)) (\<lambda>_.
     sbind (slift (event_is plan (last events))) (\<lambda>ok.
     scheck ok IntegrationPlanError ''controller ledger fingerprint changed after plan creation'')))))))"

text \<open>The conjunction of tests, in order\<close>

fun all_tests :: "('a \<Rightarrow> bool res) list \<Rightarrow> 'a \<Rightarrow> bool res" where
  "all_tests [] e = Inr True"
| "all_tests (t # ts) e = rbind (t e) (\<lambda>b. if b then all_tests ts e else Inr False)"

definition payload_is :: "string \<Rightarrow> string \<Rightarrow> json \<Rightarrow> bool res" where
  "payload_is k v e = rbind (jget e ''payload'') (\<lambda>p. field_is k v (jor p (JObj [])))"

definition acceptance_tests :: "string \<Rightarrow> string \<Rightarrow> (json \<Rightarrow> bool res) list" where
  "acceptance_tests feature commit =
     [field_is ''event_type'' ''TransactionCompleted'', field_is ''workflow_type'' ''feature_acceptance'',
      payload_is ''feature_id'' feature, payload_is ''accepted_feature_commit'' commit,
      payload_is ''acceptance_metadata_surface'' ''controller_evidence_ledger'']"

definition finalized_tests :: "json \<Rightarrow> (json \<Rightarrow> bool res) list" where
  "finalized_tests tx =
     [\<lambda>e. rbind (jget e ''transaction_id'') (\<lambda>t. Inr (py_eq t tx)), field_is ''workflow_type'' ''feature_acceptance'',
      field_is ''event_type'' ''CommitFinalized'']"

definition as_obj :: "json \<Rightarrow> obj" where
  "as_obj v = (case v of JObj d \<Rightarrow> d | _ \<Rightarrow> [])"

definition acceptance_value :: "obj \<Rightarrow> obj \<Rightarrow> string \<Rightarrow> obj res" where
  "acceptance_value e p feature =
     rbind (osub p ''acceptance_metadata_surface'') (\<lambda>surface.
     rbind (osub e ''transaction_id'') (\<lambda>tx.
     rbind (osub e ''sequence'') (\<lambda>n.
     rbind (osub e ''fingerprint'') (\<lambda>fp.
     rbind (osub p ''accepted_feature_commit'') (\<lambda>commit.
     Inr [(''surface'', surface), (''transaction_id'', tx), (''ledger_sequence'', n), (''ledger_fingerprint'', fp),
       (''feature_id'', JStr feature), (''implementation_commit'', commit),
       (''implementation_tree'', oget p ''accepted_implementation_tree''), (''feature_branch'', oget p ''implementation_ref''),
       (''implementation_ref_unchanged'', oget p ''implementation_ref_unchanged''),
       (''integration_status'', oget p ''integration_status''), (''acceptance_tier'', oget p ''acceptance_tier''),
       (''tier_evidence_fingerprint'', oget p ''tier_evidence_fingerprint''),
       (''accepted_changed_paths'', oget p ''accepted_changed_paths'')])))))"

definition acceptance_authority :: "json list \<Rightarrow> string \<Rightarrow> string \<Rightarrow> obj res" where
  "acceptance_authority events feature commit =
     rbind (rfilter (all_tests (acceptance_tests feature commit)) events) (\<lambda>found.
     case found of
       [v] \<Rightarrow>
         let e = as_obj v in
         rbind (osub e ''payload'') (\<lambda>payload.
         let p = as_obj payload in
         rbind (osub e ''transaction_id'') (\<lambda>tx.
         rbind (rfilter (all_tests (finalized_tests tx)) events) (\<lambda>finalized.
         case finalized of
           [f] \<Rightarrow>
             let fp = jor (oget (as_obj f) ''payload'') (JObj []) in
             rbind (jget fp ''commit'') (\<lambda>c.
             rbind (check (c = JStr commit \<and> py_eq (oget (as_obj fp) ''tree'') (oget p ''accepted_implementation_tree'')
                        \<and> nonempty_str (oget (as_obj fp) ''parent'')) IntegrationPlanError
                      ''completed ledger acceptance finalized identity is inconsistent'') (\<lambda>_.
             rbind (acceptance_value e p feature) (\<lambda>value.
             Inr (value @ [(''metadata_fingerprint'', JStr (fingerprint (JObj value))),
               (''completed_acceptance_transaction'', JBool True), (''milestone_base'', oget (as_obj fp) ''parent'')]))))
         | _ \<Rightarrow> raise IntegrationPlanError ''completed ledger acceptance must contain one finalized implementation'')))
     | _ \<Rightarrow> raise IntegrationPlanError ''controller ledger must contain exactly one matching acceptance authority'')"

definition acceptance_metadata_from_ledger ::
  "'r xenv \<Rightarrow> string \<Rightarrow> string \<Rightarrow> string \<Rightarrow> nat option \<Rightarrow> ('r repo, obj) eff" where
  "acceptance_metadata_from_ledger X path feature commit sequence_bound =
     (let m = ''controller acceptance ledger is unreadable or malformed'' in
      sbind (no_os_error m (x_bytes X path)) (\<lambda>b.
      let ls = byte_lines b in
      sbind (slift (rmap (parse_line (xe_fr X) m) (case sequence_bound of None \<Rightarrow> ls | Some n \<Rightarrow> take n ls))) (\<lambda>events.
      slift (acceptance_authority events feature commit))))"

subsection \<open>The runtime directory\<close>

definition verify_runtime_exclusion :: "'r xenv \<Rightarrow> string \<Rightarrow> obj \<Rightarrow> ('r repo, unit) eff" where
  "verify_runtime_exclusion X root plan =
     sbind (make_inspector (xe_host X) root) (\<lambda>inspected.
     sbind (slift (rbind (osub (as_obj (oget plan ''runtime_exclusion'')) ''common_git_dir'') (\<lambda>v.
       case v of JStr c \<Rightarrow> Inr c | _ \<Rightarrow> raise TypeError ''expected str''))) (\<lambda>c.
     sbind machine (\<lambda>m.
     let common = ho_resolve (xe_host X) m c in
     sbind (common_git_dir (xe_host X) inspected) (\<lambda>dir.
     sbind (scheck (dir = common) IntegrationPlanError ''runtime exclusion common Git directory changed'') (\<lambda>_.
     sbind (no_os_error ''runtime exclusion cannot be read'' (x_text X (path_div common ''info/exclude''))) (\<lambda>t.
     sbind (scheck (RUNTIME_PATTERN \<in> set (str_splitlines t)) IntegrationPlanError
              ''exact milestone-integration runtime exclusion is absent'') (\<lambda>_.
     sall (\<lambda>relative. sbind (x_git X root [''check-ignore'', ''-q'', ''--no-index'', ''--'', relative] False) (\<lambda>r.
       scheck (cp_status r = 0) IntegrationPlanError ''runtime exclusion does not cover'')) RUNTIME_DESCENDANTS)))))))"

subsection \<open>The audit of the accepted commit\<close>

definition PROFILES :: "string list" where
  "PROFILES = [''personal_private'', ''team_internal'', ''commercial_private'', ''public_distribution'', ''open_source'']"

text \<open>\<^verbatim>\<open>line.split("\t", 1)[0].split()[:2]\<close>, and the modes of links and submodules\<close>

definition raw_modes :: "string \<Rightarrow> string list" where
  "raw_modes line = take 2 (split_ws (takeWhile (\<lambda>c. c \<noteq> CHR 0x09) line))"

definition risky_modes :: "string \<Rightarrow> string list" where
  "risky_modes raw = filter (\<lambda>line. list_ex (\<lambda>m. m \<in> {''120000'', ''160000''}) (raw_modes line)) (str_splitlines raw)"

text \<open>\<^verbatim>\<open>\w\<close> over the first 256 code points, and a search at word boundaries\<close>

definition word_char :: "char \<Rightarrow> bool" where
  "word_char c = (let n = of_char c :: nat in alnum_char c \<or> n = 95 \<or> n \<in> {170, 178, 179, 181, 185, 186, 188, 189, 190}
     \<or> 192 \<le> n \<and> n \<noteq> 215 \<and> n \<noteq> 247)"

fun word_search :: "(string \<Rightarrow> bool) \<Rightarrow> bool \<Rightarrow> string \<Rightarrow> bool" where
  "word_search P before [] \<longleftrightarrow> False"
| "word_search P before (c # cs) \<longleftrightarrow> (\<not> before \<and> P (c # cs)) \<or> word_search P (word_char c) cs"

definition at_boundary :: "string \<Rightarrow> bool" where
  "at_boundary s = (case s of [] \<Rightarrow> True | c # _ \<Rightarrow> \<not> word_char c)"

text \<open>\<^verbatim>\<open>gh[pousr]_[A-Za-z0-9]{20,}\b\<close> and \<^verbatim>\<open>AKIA[0-9A-Z]{16}\b\<close>\<close>

definition github_token :: "string \<Rightarrow> bool" where
  "github_token s \<longleftrightarrow> prefix ''gh'' s \<and> 4 \<le> length s \<and> s ! 2 \<in> set ''pousr'' \<and> s ! 3 = CHR ''_''
     \<and> 20 \<le> length (takeWhile alnum_char (drop 4 s)) \<and> at_boundary (dropWhile alnum_char (drop 4 s))"

definition upper_digit :: "char \<Rightarrow> bool" where
  "upper_digit c = (let n = of_char c :: nat in (48 \<le> n \<and> n \<le> 57) \<or> (65 \<le> n \<and> n \<le> 90))"

definition aws_access_key :: "string \<Rightarrow> bool" where
  "aws_access_key s \<longleftrightarrow> prefix ''AKIA'' s \<and> 20 \<le> length s \<and> list_all upper_digit (take 16 (drop 4 s)) \<and> at_boundary (drop 20 s)"

definition private_key :: "string \<Rightarrow> bool" where
  "private_key s \<longleftrightarrow> list_ex (\<lambda>k. contains (''BEGIN '' @ k @ ''PRIVATE KEY'') s) [''RSA '', ''EC '', ''OPENSSH '', []]"

definition secret_categories :: "string \<Rightarrow> string list" where
  "secret_categories s =
     (if private_key s then [''private_key''] else []) @ (if word_search github_token False s then [''github_token''] else [])
     @ (if word_search aws_access_key False s then [''aws_access_key''] else [])"

definition added_text :: "string \<Rightarrow> string" where
  "added_text diff = join [CHR 0x0A] (map tl (filter (\<lambda>l. prefix ''+'' l \<and> \<not> prefix ''+++'' l) (str_splitlines diff)))"

definition audit_accepted_commit :: "'r xenv \<Rightarrow> string \<Rightarrow> obj \<Rightarrow> ('r repo, obj) eff" where
  "audit_accepted_commit X root plan =
     (let commit = plan_text plan ''accepted_commit'' in
      sbind (json_at X root commit ''.factory/project.yaml'') (\<lambda>(adapter, _).
      sbind (slift (case oget adapter ''project_profile'' of
               JObj d \<Rightarrow> rbind (hash_in (oget d ''usage'') PROFILES) (\<lambda>b. Inr (b \<and> is_dict (oget adapter ''content_policy'')))
             | _ \<Rightarrow> Inr False)) (\<lambda>ok.
      sbind (scheck ok IntegrationPlanError ''accepted commit lacks a supported project profile or content policy'') (\<lambda>_.
      sbind (json_at X root commit ''.factory/approved-content.yaml'') (\<lambda>(approved, _).
      sbind (scheck (py_eq (oget approved ''schema_version'') (JInt 1) \<and> is_list (oget approved ''approved'')) IntegrationPlanError
               ''accepted commit approved-content metadata is invalid'') (\<lambda>_.
      sbind (x_output X root [''diff-tree'', ''--no-commit-id'', ''--raw'', ''-r'', commit]) (\<lambda>raw.
      sbind (scheck (risky_modes raw = []) IntegrationPlanError
               ''accepted commit contains a symlink or submodule path requiring a human gate'') (\<lambda>_.
      sbind (x_git X root [''diff'', ''--unified=0'', plan_text plan ''pre_integration_head'', commit] True) (\<lambda>diff.
      sbind (scheck (secret_categories (added_text (cp_out diff)) = []) IntegrationPlanError
               ''accepted commit content audit found suspected secret categories'') (\<lambda>_.
      sret [(''accepted_commit'', oget plan ''accepted_commit''),
        (''changed_path_count'', JInt (int (length (plan_texts plan ''accepted_changed_paths'')))), (''risky_mode_paths'', JInt 0),
        (''suspected_secret_categories'', JArr []), (''profile_checked'', JBool True),
        (''profile_usage'', oget (as_obj (oget adapter ''project_profile'')) ''usage''),
        (''approved_content_checked'', JBool True)]))))))))))"

end
