(* ===== verification/Integration_Metadata.thy ===== *)
theory Integration_Metadata
  imports Integration_Refs
begin

section \<open>What an integration writes\<close>

text \<open>
  The writing half of \<^verbatim>\<open>integration_executor.py\<close>: evidence in the runtime directory, the Git mutations a plan
  authorises, the queue and the two Markdown files, the run of the validation commands. The Markdown files are handled as
  bytes: white space at their end is that of ASCII, line ends are unified when they are read, and a status block with a
  backslash, which \<^verbatim>\<open>re.sub\<close> would expand as a template, is refused.
\<close>

subsection \<open>Files\<close>

definition x_write :: "'r xenv \<Rightarrow> string \<Rightarrow> nat list \<Rightarrow> ('r repo, unit) eff" where
  "x_write X path content =
     (\<lambda>s. case xe_write X path content (rp_machine s) of (ok, m) \<Rightarrow>
        (check ok OSError ''cannot write'', s\<lparr>rp_machine := m\<rparr>))"

text \<open>\<^verbatim>\<open>json.dump(value, indent=2, sort_keys=True)\<close>\<close>

definition new_line :: "nat \<Rightarrow> string" where
  "new_line n = CHR 0x0A # replicate (2 * n) (CHR '' '')"

fun pretty :: "nat \<Rightarrow> json \<Rightarrow> string" where
  "pretty n (JArr xs) =
     (if xs = [] then ''[]''
      else ''['' @ new_line (n + 1) @ join ('','' @ new_line (n + 1)) (map (pretty (n + 1)) xs) @ new_line n @ '']'')"
| "pretty n (JObj kvs) =
     (if kvs = [] then ''{}''
      else ''{'' @ new_line (n + 1)
        @ join ('','' @ new_line (n + 1)) (map snd (sort_key fst
            (map (\<lambda>kv. (fst kv, ascii_str (fst kv) @ '': '' @ pretty (n + 1) (snd kv))) kvs))) @ new_line n @ ''}'')"
| "pretty n v = dumps_ascii v"

definition atomic_json :: "'r xenv \<Rightarrow> string \<Rightarrow> json \<Rightarrow> ('r repo, unit) eff" where
  "atomic_json X path v =
     sbind machine (\<lambda>m.
     sbind (scheck (case ho_lstat (xe_host X) m path of No_node \<Rightarrow> True | File_node _ _ \<Rightarrow> True | _ \<Rightarrow> False)
              IntegrationPlanError ''unsafe JSON evidence target'') (\<lambda>_.
     x_write X path (as_bytes (pretty 0 v @ [CHR 0x0A]))))"

definition load_worktree_json :: "'r xenv \<Rightarrow> string \<Rightarrow> string \<Rightarrow> ('r repo, obj) eff" where
  "load_worktree_json X root relative =
     sbind (slift (plan_path relative)) (\<lambda>_.
     sbind (no_os_error ''metadata file is unreadable'' (x_text X (path_div root relative))) (\<lambda>t.
     slift (json_object (xe_fr X) ''metadata file is no JSON object'' t)))"

definition write_worktree_json :: "'r xenv \<Rightarrow> string \<Rightarrow> string \<Rightarrow> obj \<Rightarrow> ('r repo, unit) eff" where
  "write_worktree_json X root relative v =
     sbind (slift (plan_path relative)) (\<lambda>_. atomic_json X (path_div root relative) (JObj v))"

definition runtime_directory :: string where
  "runtime_directory = ''.factory/runtime/milestone-integration''"

definition plan_lease :: "obj \<Rightarrow> obj" where
  "plan_lease plan = as_obj (oget plan ''lease_identity'')"

definition runtime_identity :: "obj \<Rightarrow> string \<Rightarrow> obj" where
  "runtime_identity plan controller =
     [(''project_id'', JStr controller), (''controller_project_id'', JStr controller)]
     @ map (\<lambda>k. (k, oget plan k))
         [''adapter_project_id'', ''repository_identity'', ''repository_path_fingerprint'', ''transaction_id'', ''run_id'',
          ''feature_id'', ''milestone_id'', ''milestone_branch'', ''accepted_commit'', ''pre_integration_head'']
     @ [(''lease_id'', oget (plan_lease plan) ''lease_id'')]"

definition check_runtime_directory :: "'r xenv \<Rightarrow> string \<Rightarrow> ('r repo, unit) eff" where
  "check_runtime_directory X dir =
     sbind machine (\<lambda>m.
     let H = xe_host X in
     if ho_stat H m dir = No_node then scheck (ho_lstat H m dir = No_node) OSError ''File exists''
     else scheck (ho_lstat H m dir \<noteq> Link_node \<and> ho_stat H m dir = Dir_node) IntegrationPlanError
            ''integration runtime directory is unsafe'')"

definition write_runtime :: "'r xenv \<Rightarrow> string \<Rightarrow> obj \<Rightarrow> string \<Rightarrow> json \<Rightarrow> ('r repo, json) eff" where
  "write_runtime X root plan phase evidence =
     sbind (verify_runtime_exclusion X root plan) (\<lambda>_.
     let dir = path_div root runtime_directory in
     sbind (check_runtime_directory X dir) (\<lambda>_.
     sbind machine (\<lambda>m.
     sbind (slift (controller_project_id plan)) (\<lambda>controller.
     let payload = JObj
           [(''schema_version'', JInt 1), (''phase'', JStr phase), (''updated_at'', JStr (xe_now X m)),
            (''plan_fingerprint'', oget plan ''plan_fingerprint''), (''runtime_identity'', JObj (runtime_identity plan controller)),
            (''evidence'', evidence)];
         name = plan_text plan ''feature_id'' @ ''-'' @ take 20 (plan_text plan ''plan_fingerprint'') @ ''.json'' in
     sbind (atomic_json X (path_div dir name) payload) (\<lambda>_.
     sbind (atomic_json X (path_div dir ''latest.json'') payload) (\<lambda>_.
     sbind (scheck (\<not> is_absolute name) ValueError ''is not in the subpath'') (\<lambda>_.
     sret (JObj [(''record'', JStr (as_posix (runtime_directory @ ''/'' @ name))),
       (''latest'', JStr (runtime_directory @ ''/latest.json''))]))))))))"

subsection \<open>Git mutations\<close>

definition plan_subjects :: "obj \<Rightarrow> string list" where
  "plan_subjects plan =
     (let f = plan_text plan ''feature_id'' in
      [''factory: mark '' @ f @ '' integrating'', ''factory: record '' @ f @ '' integration passed'',
       ''factory: record '' @ f @ '' integration failed'', ''factory: integrate '' @ f @ '' implementation''])"

definition pick_range :: "obj \<Rightarrow> string" where
  "pick_range plan = plan_text plan ''pre_integration_head'' @ ''..'' @ plan_text plan ''accepted_commit''"

definition mutation_allowed :: "obj \<Rightarrow> string list \<Rightarrow> bool" where
  "mutation_allowed plan argv \<longleftrightarrow>
     (if take 2 argv = [''add'', ''--''] then drop 2 argv = plan_texts plan ''metadata_paths''
      else if take 2 argv = [''commit'', ''-m''] then length argv = 3 \<and> argv ! 2 \<in> set (plan_subjects plan)
      else argv \<in> {[''switch'', plan_text plan ''milestone_branch''], [''cherry-pick'', plan_text plan ''accepted_commit''],
             [''cherry-pick'', ''--no-commit'', pick_range plan]})"

definition git_mutation :: "'r xenv \<Rightarrow> string \<Rightarrow> obj \<Rightarrow> string list \<Rightarrow> bool \<Rightarrow> ('r repo, completed) eff" where
  "git_mutation X root plan argv chk =
     sbind (scheck (mutation_allowed plan argv) IntegrationPlanError ''unapproved deterministic Git mutation'') (\<lambda>_.
     x_git X root argv chk)"

definition ensure_metadata_file :: "'r xenv \<Rightarrow> string \<Rightarrow> obj \<Rightarrow> string \<Rightarrow> ('r repo, unit) eff" where
  "ensure_metadata_file X root plan relative =
     sbind machine (\<lambda>m.
     if ho_stat (xe_host X) m (path_div root relative) \<noteq> No_node then sret ()
     else sbind (scheck (relative \<noteq> plan_text plan ''queue_path'') IntegrationPlanError
                   ''integration queue disappeared after cherry-pick'') (\<lambda>_.
          x_write X (path_div root relative)
            (as_bytes ((if suffix ''CURRENT_STATUS.md'' relative then ''# Current Status'' else ''# Factory Run Log'') @ [CHR 0x0A]))))"

definition commit_metadata :: "'r xenv \<Rightarrow> string \<Rightarrow> obj \<Rightarrow> string \<Rightarrow> ('r repo, string) eff" where
  "commit_metadata X root plan subject =
     sbind (git_mutation X root plan ([''add'', ''--''] @ plan_texts plan ''metadata_paths'') True) (\<lambda>_.
     sbind (x_git X root [''diff'', ''--cached'', ''--quiet''] False) (\<lambda>staged.
     sbind (if cp_status staged \<noteq> 0 then git_mutation X root plan [''commit'', ''-m'', subject] True else sret staged) (\<lambda>_.
     x_output X root [''rev-parse'', ''HEAD''])))"

subsection \<open>Markdown\<close>

fun unix_lines :: "nat list \<Rightarrow> nat list" where
  "unix_lines [] = []"
| "unix_lines (c # s) =
     (if c = 13 then 10 # (case s of [] \<Rightarrow> [] | d # t \<Rightarrow> if d = 10 then unix_lines t else unix_lines s) else c # unix_lines s)"

definition rstrip_bytes :: "nat list \<Rightarrow> nat list" where
  "rstrip_bytes b = rev (dropWhile (\<lambda>n. (9 \<le> n \<and> n \<le> 13) \<or> (28 \<le> n \<and> n \<le> 32)) (rev b))"

text \<open>What is before and after the first occurrence\<close>

fun first_split :: "'a list \<Rightarrow> 'a list \<Rightarrow> ('a list \<times> 'a list) option" where
  "first_split n [] = (if n = [] then Some ([], []) else None)"
| "first_split n (c # cs) =
     (if prefix n (c # cs) then Some ([], drop (length n) (c # cs))
      else map_option (\<lambda>(a, b). (c # a, b)) (first_split n cs))"

lemma first_split_append: "first_split n s = Some (a, b) \<Longrightarrow> s = a @ n @ b"
  by (induction s arbitrary: a) (auto simp: prefix_def split: if_splits)

definition STATUS_BEGIN :: "nat list" where
  "STATUS_BEGIN = as_bytes ''<!-- FACTORY_INTEGRATION_STATUS_BEGIN -->''"

definition STATUS_END :: "nat list" where
  "STATUS_END = as_bytes ''<!-- FACTORY_INTEGRATION_STATUS_END -->''"

text \<open>The replacement of every block, and whether there is one\<close>

function replace_blocks :: "nat list \<Rightarrow> nat list \<Rightarrow> nat list" where
  "replace_blocks block s =
     (case first_split STATUS_BEGIN s of
        None \<Rightarrow> s
      | Some (a, r) \<Rightarrow>
          (case first_split STATUS_END r of
             None \<Rightarrow> s
           | Some (_, t) \<Rightarrow> a @ block @ replace_blocks block t))"
  by pat_completeness auto

termination
proof (relation "measure (\<lambda>(block, s). length s)")
  fix block s x a r y b t
  assume x: "first_split STATUS_BEGIN s = Some x" "(a, r) = x" and y: "first_split STATUS_END r = Some y" "(b, t) = y"
  have "length s = length a + length STATUS_BEGIN + length r" "length r = length b + length STATUS_END + length t"
    using x y by (auto dest!: first_split_append)
  moreover have "0 < length STATUS_END" by (simp add: STATUS_END_def as_bytes_def)
  ultimately show "((block, t), (block, s)) \<in> measure (\<lambda>(block, s). length s)" by simp
qed simp

declare replace_blocks.simps [simp del]

definition has_block :: "nat list \<Rightarrow> bool" where
  "has_block s \<longleftrightarrow> (case first_split STATUS_BEGIN s of None \<Rightarrow> False | Some (_, r) \<Rightarrow> first_split STATUS_END r \<noteq> None)"

definition with_status :: "nat list \<Rightarrow> nat list \<Rightarrow> nat list res" where
  "with_status content existing =
     (let block = STATUS_BEGIN @ [10] @ rstrip_bytes content @ [10] @ STATUS_END in
      if has_block existing
      then rbind (check (92 \<notin> set block) ValueError ''bad escape'') (\<lambda>_. Inr (replace_blocks block existing))
      else Inr (rstrip_bytes existing @ [10, 10] @ block @ [10]))"

definition replace_status_block :: "'r xenv \<Rightarrow> string \<Rightarrow> nat list \<Rightarrow> ('r repo, unit) eff" where
  "replace_status_block X path content =
     sbind (x_bytes X path) (\<lambda>existing.
     sbind (slift (with_status content (unix_lines existing))) (\<lambda>rendered. x_write X path rendered))"

definition append_run_log :: "'r xenv \<Rightarrow> string \<Rightarrow> nat list \<Rightarrow> ('r repo, unit) eff" where
  "append_run_log X path content =
     sbind (x_bytes X path) (\<lambda>existing.
     x_write X path (rstrip_bytes (unix_lines existing) @ [10, 10] @ rstrip_bytes content @ [10]))"

subsection \<open>The queue while integrating\<close>

definition update_item :: "string \<Rightarrow> string \<Rightarrow> (obj \<Rightarrow> obj) \<Rightarrow> obj \<Rightarrow> obj" where
  "update_item collection wanted f document =
     (case oget document collection of
        JArr items \<Rightarrow>
          oset collection (JArr (map (\<lambda>i. case i of
              JObj d \<Rightarrow> if oget d ''id'' = JStr wanted then JObj (f d) else i | _ \<Rightarrow> i) items)) document
      | _ \<Rightarrow> document)"

definition transition_authorised :: "obj \<Rightarrow> obj \<Rightarrow> obj \<Rightarrow> string \<Rightarrow> bool res" where
  "transition_authorised plan feature authority tree =
     rbind (hash_in (oget authority ''acceptance_tier'') [''feature'', ''milestone'', ''release'']) (\<lambda>tier.
     Inr (tier \<and> oget authority ''completed_acceptance_transaction'' = JBool True
       \<and> (case (oget authority ''transaction_id'', oget authority ''metadata_fingerprint'') of
            (JStr t, JStr f) \<Rightarrow> oget plan ''accepted_metadata_ref'' = JStr (''ledger:'' @ t @ '':'' @ f)
          | _ \<Rightarrow> False)
       \<and> py_eq (oget authority ''feature_id'') (oget plan ''feature_id'')
       \<and> py_eq (oget authority ''milestone_base'') (oget plan ''pre_integration_head'')
       \<and> py_eq (oget authority ''implementation_commit'') (oget plan ''accepted_commit'')
       \<and> oget authority ''implementation_tree'' = JStr tree
       \<and> py_eq (oget authority ''feature_branch'') (oget plan ''feature_branch'')
       \<and> nonempty_str (oget authority ''tier_evidence_fingerprint'')
       \<and> oget authority ''implementation_ref_unchanged'' = JBool True
       \<and> oget authority ''integration_target_preflight_passed'' = JBool True
       \<and> py_eq (oget feature ''milestone'') (oget plan ''milestone_id'')))"

definition materialized :: "string list" where
  "materialized = [''accepted'', ''integration_pending'', ''integrating'']"

definition check_transition :: "'r xenv \<Rightarrow> string \<Rightarrow> obj \<Rightarrow> obj \<Rightarrow> json \<Rightarrow> ('r repo, unit) eff" where
  "check_transition X root plan feature authority =
     (let status = oget feature ''status''; fail = IntegrationPlanError in
      case authority of
        JObj auth \<Rightarrow>
          sbind (x_output X root [''rev-parse'', plan_text plan ''accepted_commit'' @ ''^{tree}'']) (\<lambda>tree.
          sbind (slift (transition_authorised plan feature auth tree)) (\<lambda>ok.
          sbind (scheck ok fail ''ledger integration transition authority failed'') (\<lambda>_.
          sbind (slift (hash_in status (materialized @ [''review'', ''ready'']))) (\<lambda>ok.
          sbind (scheck ok fail ''ledger-accepted feature has a conflicting queue status'') (\<lambda>_.
          sbind (slift (in_set (oget feature ''accepted_commit'') [JNull, JStr ''SELF'', oget plan ''accepted_commit''])) (\<lambda>ok.
          sbind (scheck ok fail ''ledger-accepted feature queue commit conflicts with authority'') (\<lambda>_.
          sbind (slift (in_set (oget feature ''branch'') [JNull, oget plan ''feature_branch''])) (\<lambda>ok.
          sbind (scheck ok fail ''ledger-accepted feature queue branch conflicts with authority'') (\<lambda>_.
          sbind (slift (hash_in (oget feature ''integration_status'') [''passed'', ''completed'', ''cancelled'', ''rejected''])) (\<lambda>over.
          scheck (\<not> over) fail ''ledger-accepted feature queue integration state is terminal''))))))))))
      | _ \<Rightarrow>
          sbind (slift (hash_in status materialized)) (\<lambda>ok.
          scheck ok fail ''accepted feature cannot transition to integrating''))"

definition feature_fields :: "obj \<Rightarrow> obj" where
  "feature_fields plan = [(''implementation_status'', JStr ''Completed''), (''branch'', oget plan ''feature_branch''),
     (''integration_base_commit'', oget plan ''pre_integration_head''), (''accepted_commit'', oget plan ''accepted_commit''),
     (''integration_attempted_at'', oget plan ''created_at'')]"

definition mark_integrating :: "'r xenv \<Rightarrow> string \<Rightarrow> obj \<Rightarrow> json \<Rightarrow> ('r repo, string) eff" where
  "mark_integrating X root plan authority =
     (let queue_path = plan_text plan ''queue_path''; feature_id = plan_text plan ''feature_id'' in
      sbind (sall (ensure_metadata_file X root plan) (plan_texts plan ''metadata_paths'')) (\<lambda>_.
      sbind (load_worktree_json X root queue_path) (\<lambda>queue.
      sbind (slift (one_item queue ''features'' feature_id)) (\<lambda>feature.
      sbind (check_transition X root plan feature authority) (\<lambda>_.
      sbind (write_worktree_json X root queue_path
               (update_item ''features'' feature_id
                  (\<lambda>d. oupdate d (feature_fields plan
                     @ [(''status'', JStr ''integrating''), (''integration_status'', JStr ''integrating'')])) queue)) (\<lambda>_.
      commit_metadata X root plan (''factory: mark '' @ feature_id @ '' integrating'')))))))"

subsection \<open>The validation commands\<close>

definition last_chars :: "nat \<Rightarrow> string \<Rightarrow> string" where
  "last_chars n s = drop (length s - n) s"

definition diagnostic_of :: "completed \<Rightarrow> string" where
  "diagnostic_of c = last_chars 2000 (if strip (cp_err c) \<noteq> [] then strip (cp_err c) else strip (cp_out c))"

definition command_record :: "'r xenv \<Rightarrow> json \<Rightarrow> string list \<Rightarrow> int \<Rightarrow> string \<Rightarrow> obj" where
  "command_record X g argv code diagnostic =
     [(''group'', g), (''argv'', strs argv), (''exit_code'', JInt code),
      (''diagnostic_tail'', if xe_rt X diagnostic = [] then JNull else JStr (xe_rt X diagnostic))]"

definition exit_of :: "string + completed \<Rightarrow> int \<times> string" where
  "exit_of r = (case r of Inl name \<Rightarrow> (124, name) | Inr c \<Rightarrow> (cp_status c, diagnostic_of c))"

text \<open>The commands up to the first that fails\<close>

fun run_commands ::
  "'r xenv \<Rightarrow> string \<Rightarrow> (string \<times> string) list \<Rightarrow> nat \<Rightarrow> json list \<Rightarrow> ('r repo, obj list \<times> string list) eff" where
  "run_commands X root vars i [] = sret ([], [])"
| "run_commands X root vars i (c # cs) =
     (let item = as_obj c; argv = plan_texts item ''argv'' in
      sbind machine (\<lambda>m.
      sbind (on_attempts (validate_configured_command (ho_resolve (xe_host X) m) argv root root)) (\<lambda>_.
      sbind (spawn X root argv vars) (\<lambda>r.
      let rec = command_record X (oget item ''group'') argv (fst (exit_of r)) (snd (exit_of r)) in
      if fst (exit_of r) \<noteq> 0
      then sret ([rec], [py_str (oget item ''group'') @ '' configured command failed at index '' @ show_nat i])
      else sbind (run_commands X root vars (i + 1) cs) (\<lambda>(rs, bs). sret (rec # rs, bs))))))"

record validation =
  va_ok :: bool
  va_commit :: string
  va_commands :: "obj list"
  va_blockers :: "string list"

definition validation_dict :: "validation \<Rightarrow> json" where
  "validation_dict v = JObj [(''ok'', JBool (va_ok v)), (''validated_commit'', JStr (va_commit v)),
     (''commands'', JArr (map JObj (va_commands v))), (''blockers'', strs (va_blockers v))]"

definition clean_worktree :: "'r xenv \<Rightarrow> string \<Rightarrow> ('r repo, bool) eff" where
  "clean_worktree X root = sbind (make_inspector (xe_host X) root) (\<lambda>i. is_clean (xe_host X) i)"

definition run_validation :: "'r xenv \<Rightarrow> string \<Rightarrow> obj \<Rightarrow> ('r repo, validation) eff" where
  "run_validation X root plan =
     sbind (x_output X root [''rev-parse'', ''HEAD'']) (\<lambda>candidate.
     let vars = [(''CONVEYOR_PREPARED_PARENT'', plan_text plan ''pre_integration_head''), (''CONVEYOR_CANDIDATE'', candidate)] in
     sbind (slift (elements (oget plan ''validation_commands''))) (\<lambda>commands.
     sbind (run_commands X root vars 0 commands) (\<lambda>(results, blockers).
     sbind (x_git X root [''diff'', ''--check''] False) (\<lambda>d.
     let results = results @ [command_record X (JStr ''git_diff_check'') [''git'', ''diff'', ''--check''] (cp_status d) (diagnostic_of d)];
         blockers = blockers @ (if cp_status d \<noteq> 0 then [''git diff --check failed''] else []) in
     sbind (clean_worktree X root) (\<lambda>clean_now.
     let blockers = blockers @ (if clean_now then [] else [''validation commands left the integration worktree dirty'']) in
     sbind (x_output X root [''rev-parse'', ''HEAD'']) (\<lambda>commit.
     sret \<lparr>va_ok = (blockers = []), va_commit = commit, va_commands = results, va_blockers = blockers\<rparr>))))))"

end
