(* ===== verification/Integration_Run.thy ===== *)
theory Integration_Run
  imports Integration_Metadata Workflow_Lease_Safety
begin

section \<open>Running an integration plan\<close>

text \<open>
  \<^verbatim>\<open>execute_integration_plan\<close>, \<^verbatim>\<open>inspect_integration_finalization_recovery\<close> and
  \<^verbatim>\<open>resume_integration_finalization\<close> of \<^verbatim>\<open>integration_executor.py\<close>. The state is the repository with
  its machine, the path of the writer lease and the path of the plan.
\<close>

record 'r exec =
  ex_repo :: "'r repo"
  ex_lease :: lease_fs
  ex_plan :: entry

definition on_repo :: "('r repo, 'a) eff \<Rightarrow> ('r exec, 'a) eff" where
  "on_repo = spart ex_repo (\<lambda>p s. s\<lparr>ex_repo := p\<rparr>)"

definition on_lease :: "(lease_fs, 'a) eff \<Rightarrow> ('r exec, 'a) eff" where
  "on_lease = spart ex_lease (\<lambda>p s. s\<lparr>ex_lease := p\<rparr>)"

definition on_plan :: "(entry, 'a) eff \<Rightarrow> ('r exec, 'a) eff" where
  "on_plan = spart ex_plan (\<lambda>p s. s\<lparr>ex_plan := p\<rparr>)"

text \<open>\<^verbatim>\<open>except LockError as exc: raise IntegrationPlanError(str(exc)) from exc\<close>\<close>

definition no_lock_error :: "('s, 'a) eff \<Rightarrow> ('s, 'a) eff" where
  "no_lock_error c =
     scatch (\<lambda>e. issubclass (exn_cls e) LockError) c (\<lambda>e. sthrow IntegrationPlanError (exn_msg e))"

definition load_plan :: "'r xenv \<Rightarrow> ('r exec, obj) eff" where
  "load_plan X = sbind (on_repo machine) (\<lambda>m. on_plan (load_integration_plan (ho_resolve (xe_host X) m)))"

subsection \<open>The final metadata\<close>

definition all_complete_items :: "json list \<Rightarrow> bool res" where
  "all_complete_items items =
     rfold (\<lambda>i ok. if ok then hash_in (oget (as_obj i) ''status'') COMPLETE_STATUSES else Inr False) items True"

definition scoped_items :: "obj \<Rightarrow> string \<Rightarrow> json list res" where
  "scoped_items queue milestone =
     rbind (elements (oget_or queue ''features'' (JArr []))) (\<lambda>items.
     Inr (filter (\<lambda>i. is_dict i \<and> oget (as_obj i) ''milestone'' = JStr milestone) items))"

definition final_feature :: "obj \<Rightarrow> validation \<Rightarrow> string \<Rightarrow> obj \<Rightarrow> obj" where
  "final_feature plan v resulting feature =
     (let updated = oupdate feature (feature_fields plan
            @ [(''status'', JStr (if va_ok v then ''integrated'' else ''failed'')), (''integrated_commit'', JStr resulting),
               (''integration_status'', JStr (if va_ok v then ''passed'' else ''failed''))]);
          fixed = (if ohas updated ''integration_fix_commits'' then updated
                   else oset ''integration_fix_commits'' (JArr []) updated) in
      if va_ok v then adel ''integration_failure'' fixed
      else oset ''integration_failure''
             (JObj [(''validated_commit'', JStr (va_commit v)), (''blockers'', strs (va_blockers v))]) fixed)"

definition final_milestone :: "obj \<Rightarrow> validation \<Rightarrow> obj \<Rightarrow> obj" where
  "final_milestone plan v milestone =
     (if va_ok v then
        let xs = (case oget_or milestone ''integrated_features'' (JArr []) of JArr xs \<Rightarrow> xs | _ \<Rightarrow> []);
            f = oget plan ''feature_id'' in
        oupdate milestone
          [(''integrated_features'', JArr (if list_ex (py_eq f) xs then xs else xs @ [f])),
           (''last_validated_commit'', JStr (va_commit v)), (''last_validation_at'', oget plan ''created_at'')]
      else milestone)"

definition final_queue :: "obj \<Rightarrow> validation \<Rightarrow> string \<Rightarrow> obj \<Rightarrow> (obj \<times> bool) res" where
  "final_queue plan v resulting queue =
     (let fid = plan_text plan ''feature_id''; mid = plan_text plan ''milestone_id'' in
      rbind (one_item queue ''features'' fid) (\<lambda>feature.
      rbind (one_item queue ''milestones'' mid) (\<lambda>milestone.
      rbind (check (is_list (oget_or feature ''integration_fix_commits'' (JArr []))) IntegrationPlanError
               ''integration_fix_commits must be an array'') (\<lambda>_.
      rbind (check (va_ok v \<longrightarrow> is_list (oget_or milestone ''integrated_features'' (JArr []))) IntegrationPlanError
               ''milestone integrated_features must be an array'') (\<lambda>_.
      let changed = update_item ''milestones'' mid (final_milestone plan v)
            (update_item ''features'' fid (final_feature plan v resulting) queue) in
      rbind (scoped_items changed mid) (\<lambda>scoped.
      rbind (all_complete_items scoped) (\<lambda>ok.
      let complete = scoped \<noteq> [] \<and> ok in
      Inr (update_item ''milestones'' mid
             (oset ''status'' (JStr (if complete then ''integration_complete'' else ''active''))) changed, complete))))))))"

definition md_lines :: "nat list list \<Rightarrow> nat list" where
  "md_lines ls = (case ls of [] \<Rightarrow> [] | l # ls \<Rightarrow> l @ concat (map ((#) 10) ls))"

definition status_content :: "obj \<Rightarrow> validation \<Rightarrow> string \<Rightarrow> string \<Rightarrow> nat list" where
  "status_content plan v word reason =
     md_lines (map utf8 [''## Milestone integration'', [], ''- Feature: '' @ plan_text plan ''feature_id'',
       ''- Milestone: '' @ plan_text plan ''milestone_id'', ''- Branch: `'' @ plan_text plan ''milestone_branch'' @ ''`'',
       ''- Integration: '' @ word, ''- Validated commit: `'' @ va_commit v @ ''`'', ''- Next action: '' @ reason @ ''.''])"

definition command_line :: "obj \<Rightarrow> string" where
  "command_line r = ''- `'' @ py_str (oget r ''group'') @ ''` `'' @ dumps_ascii (oget r ''argv'') @ ''`: exit ''
     @ py_str (oget r ''exit_code'')"

definition em_dash :: "nat list" where
  "em_dash = [226, 128, 148]"

definition log_content :: "obj \<Rightarrow> validation \<Rightarrow> string \<Rightarrow> string \<Rightarrow> string \<Rightarrow> nat list" where
  "log_content plan v resulting word reason =
     md_lines ((utf8 (''## '' @ plan_text plan ''created_at'' @ '' '') @ em_dash
         @ utf8 ('' Deterministic integration '' @ plan_text plan ''feature_id''))
       # map utf8 ([[], ''- Executor: `development-conveyor controller plan`'', ''- Model session launched: `false`'',
           ''- Accepted commit: `'' @ plan_text plan ''accepted_commit'' @ ''`'',
           ''- Milestone start: `'' @ plan_text plan ''pre_integration_head'' @ ''`'',
           ''- Resulting feature commit: `'' @ resulting @ ''`'', ''- Integration status: `'' @ word @ ''`'',
           ''- Stop reason: `'' @ reason @ ''`'', [], ''### Validation evidence'', []]
         @ map command_line (va_commands v)))"

definition stop_reason_of :: "bool \<Rightarrow> bool \<Rightarrow> string" where
  "stop_reason_of complete success =
     (if complete \<and> success then ''milestone_gate_required''
      else if success then ''next_feature_selection'' else ''integration_validation_failed'')"

record final_record =
  fm_evidence :: string
  fm_complete :: bool
  fm_reason :: string

definition record_final_metadata :: "'r xenv \<Rightarrow> string \<Rightarrow> obj \<Rightarrow> validation \<Rightarrow> string \<Rightarrow> ('r repo, final_record) eff" where
  "record_final_metadata X root plan v resulting =
     sbind (load_worktree_json X root (plan_text plan ''queue_path'')) (\<lambda>queue.
     sbind (slift (final_queue plan v resulting queue)) (\<lambda>(changed, complete).
     let word = (if va_ok v then ''passed'' else ''failed''); reason = stop_reason_of complete (va_ok v) in
     sbind (write_worktree_json X root (plan_text plan ''queue_path'') changed) (\<lambda>_.
     sbind (replace_status_block X (path_div root ''docs/CURRENT_STATUS.md'') (status_content plan v word reason)) (\<lambda>_.
     case List.find (suffix ''RUN_LOG.md'') (plan_texts plan ''metadata_paths'') of
       None \<Rightarrow> sthrow StopIteration []
     | Some relative \<Rightarrow>
         sbind (append_run_log X (path_div root relative) (log_content plan v resulting word reason)) (\<lambda>_.
         sbind (commit_metadata X root plan
                  (''factory: record '' @ plan_text plan ''feature_id'' @ '' integration '' @ word)) (\<lambda>evidence.
         sret \<lparr>fm_evidence = evidence, fm_complete = complete, fm_reason = reason\<rparr>))))))"

subsection \<open>Results\<close>

definition result_base :: "obj \<Rightarrow> string \<Rightarrow> string \<Rightarrow> obj" where
  "result_base plan controller classification =
     [(''schema_version'', JInt RESULT_SCHEMA_VERSION), (''classification'', JStr classification),
      (''plan_fingerprint'', oget plan ''plan_fingerprint''), (''project_id'', JStr controller)]
     @ map (\<lambda>(k, p). (k, oget plan p)) integration_identity
     @ [(''lease_id'', oget (plan_lease plan) ''lease_id''), (''model_session_launched'', JBool False)]"

definition conflict_result :: "obj \<Rightarrow> string \<Rightarrow> string \<Rightarrow> string list \<Rightarrow> json \<Rightarrow> obj" where
  "conflict_result plan controller current conflicts runtime =
     result_base plan controller ''SEMANTIC_CONFLICT'' @
     [(''current_commit'', JStr current), (''resulting_feature_commit'', JNull), (''evidence_commit'', JNull),
      (''changed_paths'', strs (sorted_set conflicts)), (''validation'', JNull), (''runtime'', runtime),
      (''human_gate'', JObj
        [(''gate_id'', JStr (controller @ ''-'' @ plan_text plan ''feature_id'' @ ''-semantic-conflict-''
            @ take 12 (plan_text plan ''plan_fingerprint''))),
         (''classification'', JStr ''semantic_integration_conflict''),
         (''reason'', JStr ''The exact accepted commit produced a preserved cherry-pick conflict.''),
         (''feature_id'', oget plan ''feature_id''), (''accepted_feature_commit'', oget plan ''accepted_commit''),
         (''milestone_branch'', oget plan ''milestone_branch''), (''milestone_head'', oget plan ''pre_integration_head''),
         (''conflicting_paths'', strs (sorted_set conflicts)), (''ordinary_resume_allowed'', JBool False),
         (''resolved'', JBool False)])]"

definition classification_of :: "validation \<Rightarrow> string" where
  "classification_of v = (if va_ok v then ''INTEGRATED'' else ''VALIDATION_FAILED'')"

definition final_result ::
  "obj \<Rightarrow> string \<Rightarrow> validation \<Rightarrow> final_record \<Rightarrow> string \<Rightarrow> json \<Rightarrow> json \<Rightarrow> string list \<Rightarrow> json \<Rightarrow> obj" where
  "final_result plan controller v f current resulting integrating changed runtime =
     result_base plan controller (classification_of v) @
     [(''current_commit'', JStr current), (''resulting_feature_commit'', resulting), (''integrating_metadata_commit'', integrating),
      (''evidence_commit'', JStr (fm_evidence f)), (''changed_paths'', strs (sorted_set changed)),
      (''validation'', validation_dict v), (''milestone_complete'', JBool (fm_complete f)), (''stop_reason'', JStr (fm_reason f)),
      (''runtime'', runtime), (''human_gate'', JNull)]"

definition final_phase :: "validation \<Rightarrow> string" where
  "final_phase v = (if va_ok v then ''complete'' else ''validation_failed'')"

subsection \<open>Execution\<close>

definition plan_args_of :: "obj \<Rightarrow> string \<Rightarrow> obj option \<Rightarrow> ref_args" where
  "plan_args_of plan controller metadata =
     \<lparr>ra_controller = controller, ra_feature = plan_text plan ''feature_id'', ra_branch = plan_text plan ''feature_branch'',
      ra_commit = plan_text plan ''accepted_commit'', ra_milestone = plan_text plan ''milestone_id'',
      ra_milestone_branch = plan_text plan ''milestone_branch'', ra_head = plan_text plan ''pre_integration_head'',
      ra_queue = plan_text plan ''queue_path'', ra_metadata = metadata\<rparr>"

definition exact_fields :: "string list" where
  "exact_fields = [''accepted_queue_fingerprint'', ''accepted_changed_paths'', ''accepted_metadata_ref'', ''adapter_project_id'',
     ''validation_commands'', ''metadata_paths'']"

definition ledger_authority :: "obj \<Rightarrow> bool" where
  "ledger_authority plan \<longleftrightarrow> prefix ''ledger:'' (plan_text plan ''accepted_metadata_ref'')"

definition plan_identity :: "'r xenv \<Rightarrow> obj \<Rightarrow> ('r repo, string \<times> string) eff" where
  "plan_identity X plan =
     (let H = xe_host X in
      sbind machine (\<lambda>m.
      let root = ho_resolve H m (ho_expand H (plan_text plan ''repository'')) in
      sbind (make_inspector H root) (\<lambda>inspected.
      sbind (repo_identity H inspected) (\<lambda>identity.
      sbind (scheck (oget plan ''repository_identity'' = JStr (id_repository_id identity)
                 \<and> oget plan ''repository_path_fingerprint'' = JStr (id_path_fingerprint identity)) IntegrationPlanError
               ''planned repository identity or path fingerprint changed'') (\<lambda>_.
      sret (root, inspected))))))"

text \<open>The evidence of the plan, gathered again\<close>

definition gather_evidence :: "'r xenv \<Rightarrow> string \<Rightarrow> obj \<Rightarrow> string \<Rightarrow> ('r repo, obj) eff" where
  "gather_evidence X root plan controller =
     sbind (if ledger_authority plan
            then sbind (acceptance_metadata_from_ledger X (plan_text plan ''controller_ledger_path'')
                          (plan_text plan ''feature_id'') (plan_text plan ''accepted_commit'')
                          (map_option nat (int_of (oget plan ''ledger_sequence'')))) (\<lambda>m. sret (Some m))
            else sret None) (\<lambda>metadata.
     sbind (inspect_two_refs X root (plan_args_of plan controller metadata)) (\<lambda>evidence.
     sbind (scheck (oget evidence ''controller_project_id'' = JStr controller
                \<and> list_all (\<lambda>k. py_eq (oget evidence k) (oget plan k)) exact_fields) IntegrationPlanError
              ''immutable integration evidence changed before mutation'') (\<lambda>_.
     sret evidence)))"

definition exact_checks :: json where
  "exact_checks = JObj (map (\<lambda>k. (k, JBool True)) (''controller_project_id'' # exact_fields))"

text \<open>The milestone branch, checked out at the planned commit\<close>

definition prepare_branch :: "'r xenv \<Rightarrow> string \<Rightarrow> string \<Rightarrow> obj \<Rightarrow> ('r repo, unit) eff" where
  "prepare_branch X root inspected plan =
     sbind (current_branch (xe_host X) inspected) (\<lambda>branch.
     sbind (if branch = Some (plan_text plan ''milestone_branch'') then sret ()
            else sbind (git_mutation X root plan [''switch'', plan_text plan ''milestone_branch''] True) (\<lambda>_. sret ())) (\<lambda>_.
     sbind (x_output X root [''rev-parse'', ''HEAD'']) (\<lambda>now.
     sbind (if now = plan_text plan ''pre_integration_head'' then clean_worktree X root else sret False) (\<lambda>ok.
     sbind (if ok then sbind (make_inspector (xe_host X) root) (\<lambda>i.
              sbind (git_operation_state (xe_host X) i) (\<lambda>operations. sret (\<not> list_ex snd operations)))
            else sret False) (\<lambda>ok.
     scheck ok IntegrationPlanError ''milestone ref changed immediately before cherry-pick'')))))"

definition pick_arguments :: "obj \<Rightarrow> string list" where
  "pick_arguments plan =
     (if ledger_authority plan then [''cherry-pick'', ''--no-commit'', pick_range plan]
      else [''cherry-pick'', plan_text plan ''accepted_commit''])"

definition report_conflict :: "'r xenv \<Rightarrow> string \<Rightarrow> obj \<Rightarrow> string \<Rightarrow> json \<Rightarrow> ('r repo, obj) eff" where
  "report_conflict X root plan controller runtime =
     sbind (x_git X root [''diff'', ''--name-only'', ''--diff-filter=U''] False) (\<lambda>c.
     sbind (x_output X root [''rev-parse'', ''HEAD'']) (\<lambda>current.
     let result = conflict_result plan controller current (str_splitlines (cp_out c)) runtime in
     sbind (write_runtime X root plan ''conflict'' (JObj result)) (\<lambda>written.
     sret (oset ''runtime'' written result))))"

text \<open>The picked commit: a child of the planned head with the accepted tree, or the accepted patch\<close>

definition picked_commit :: "'r xenv \<Rightarrow> string \<Rightarrow> string \<Rightarrow> obj \<Rightarrow> ('r repo, string) eff" where
  "picked_commit X root inspected plan =
     (let accepted = plan_text plan ''accepted_commit'' in
      sbind (if ledger_authority plan
             then sbind (git_mutation X root plan
                    [''commit'', ''-m'', ''factory: integrate '' @ plan_text plan ''feature_id'' @ '' implementation''] True) (\<lambda>_. sret ())
             else sret ()) (\<lambda>_.
      sbind (x_output X root [''rev-parse'', ''HEAD'']) (\<lambda>resulting.
      sbind (x_output X root [''rev-parse'', resulting @ ''^'']) (\<lambda>parent.
      sbind (scheck (parent = plan_text plan ''pre_integration_head'') IntegrationPlanError
               ''cherry-picked feature commit is not a direct child of the plan start'') (\<lambda>_.
      sbind (if ledger_authority plan
             then sbind (x_output X root [''rev-parse'', resulting @ ''^{tree}'']) (\<lambda>a.
                  sbind (x_output X root [''rev-parse'', accepted @ ''^{tree}'']) (\<lambda>b. sret (a = b)))
             else sbind (patch_fingerprint (xe_host X) inspected resulting) (\<lambda>a.
                  sbind (patch_fingerprint (xe_host X) inspected accepted) (\<lambda>b. sret (a = b)))) (\<lambda>same.
      sbind (scheck same IntegrationPlanError ''integrated feature differs from the accepted implementation'') (\<lambda>_.
      sret resulting)))))))"

definition changed_since :: "'r xenv \<Rightarrow> string \<Rightarrow> obj \<Rightarrow> string \<Rightarrow> ('r repo, string list) eff" where
  "changed_since X root plan current =
     sbind (x_output X root [''diff'', ''--name-only'', plan_text plan ''pre_integration_head'', current]) (\<lambda>out.
     sret (str_splitlines out))"

text \<open>Everything after the mark: validation, final metadata, result, evidence, a clean worktree\<close>

definition finish_integration ::
  "'r xenv \<Rightarrow> string \<Rightarrow> obj \<Rightarrow> string \<Rightarrow> string \<Rightarrow> json \<Rightarrow> json \<Rightarrow> obj \<Rightarrow> string
    \<Rightarrow> ('r repo, obj) eff" where
  "finish_integration X root plan controller resulting integrating runtime extra dirty =
     sbind (run_validation X root plan) (\<lambda>v.
     sbind (record_final_metadata X root plan v resulting) (\<lambda>f.
     sbind (x_output X root [''rev-parse'', ''HEAD'']) (\<lambda>current.
     sbind (changed_since X root plan current) (\<lambda>changed.
     let result = final_result plan controller v f current (JStr resulting) integrating changed runtime @ extra in
     sbind (write_runtime X root plan (final_phase v) (JObj result)) (\<lambda>written.
     sbind (clean_worktree X root) (\<lambda>clean_now.
     sbind (scheck clean_now IntegrationPlanError dirty) (\<lambda>_.
     sret (oset ''runtime'' written result))))))))"

text \<open>After the pick: the mark in the queue, validation and the final metadata, under the lease\<close>

definition integrate_picked ::
  "'r xenv \<Rightarrow> obj \<Rightarrow> string \<Rightarrow> string \<Rightarrow> string \<Rightarrow> json \<Rightarrow> json \<Rightarrow> ('r exec, obj) eff" where
  "integrate_picked X plan root inspected controller transition runtime =
     (let W = xe_lease X; lease = plan_lease plan in
      sbind (on_repo (picked_commit X root inspected plan)) (\<lambda>resulting.
      sbind (on_repo (mark_integrating X root plan transition)) (\<lambda>integrating.
      sbind (on_repo (write_runtime X root plan ''integrating''
               (JObj [(''resulting_feature_commit'', JStr resulting), (''integrating_metadata_commit'', JStr integrating)]))) (\<lambda>_.
      sbind (no_lock_error (on_lease (heartbeat_adopted W lease))) (\<lambda>_.
      sbind (on_repo (finish_integration X root plan controller resulting (JStr integrating) runtime []
               ''deterministic integration did not leave a clean worktree'')) (\<lambda>result.
      sbind (on_lease (revalidate_adopted W lease)) (\<lambda>_.
      sret result)))))))"

text \<open>After the plan is loaded and the repository is known to be its own\<close>

definition execute_loaded :: "'r xenv \<Rightarrow> obj \<Rightarrow> string \<Rightarrow> string \<Rightarrow> ('r exec, obj) eff" where
  "execute_loaded X plan root inspected =
     (let W = xe_lease X; lease = plan_lease plan in
      sbind (on_repo (verify_ledger_binding X plan)) (\<lambda>_.
      sbind (on_repo (verify_runtime_exclusion X root plan)) (\<lambda>_.
      sbind (on_repo (writer_lock_path (xe_host X) inspected ''.factory/locks/writer.json'')) (\<lambda>_.
      sbind (no_lock_error (on_lease (revalidate_adopted W lease))) (\<lambda>_.
      sbind (slift (controller_project_id plan)) (\<lambda>controller.
      sbind (on_repo (gather_evidence X root plan controller)) (\<lambda>evidence.
      sbind (on_repo (audit_accepted_commit X root plan)) (\<lambda>audit.
      sbind (no_lock_error (on_lease (heartbeat_adopted W lease))) (\<lambda>_.
      sbind (on_repo (write_runtime X root plan ''validated''
               (JObj [(''two_ref_validation'', exact_checks), (''accepted_commit_audit'', JObj audit)]))) (\<lambda>runtime.
      sbind (on_repo (prepare_branch X root inspected plan)) (\<lambda>_.
      sbind (no_lock_error (on_lease (heartbeat_adopted W lease))) (\<lambda>_.
      sbind (on_repo (git_mutation X root plan (pick_arguments plan) False)) (\<lambda>picked.
      if cp_status picked \<noteq> 0 then on_repo (report_conflict X root plan controller runtime)
      else integrate_picked X plan root inspected controller (oget evidence ''ledger_transition_authority'') runtime)))))))))))))"

definition execute_integration_plan :: "'r xenv \<Rightarrow> ('r exec, obj) eff" where
  "execute_integration_plan X =
     sbind (load_plan X) (\<lambda>plan.
     sbind (on_repo (plan_identity X plan)) (\<lambda>(root, inspected). execute_loaded X plan root inspected))"

end
