(* ===== verification/Integration_Resume.thy ===== *)
theory Integration_Resume
  imports Integration_Run
begin

section \<open>Resuming an interrupted integration\<close>

text \<open>
  \<^verbatim>\<open>inspect_integration_finalization_recovery\<close> reconstructs an integration that failed between the mark in the
  queue and its validation from the ledger, the refs, the queue and the runtime record, and changes nothing;
  \<^verbatim>\<open>resume_integration_finalization\<close> runs only validation and the final metadata on what was found.
\<close>

definition expected_events :: "string list" where
  "expected_events = [''TransactionStarted'', ''LeaseAcquired'', ''SnapshotCaptured'', ''TransactionBlocked'', ''LeaseReleased'',
     ''ProjectionUpdated'']"

text \<open>\<^verbatim>\<open>[json.loads(line) for line in text.splitlines() if line]\<close>\<close>

definition ledger_events :: "'r xenv \<Rightarrow> string \<Rightarrow> ('r repo, json list) eff" where
  "ledger_events X path =
     (let m = ''controller ledger is unavailable for recovery'' in
      sbind (no_os_error m (x_text X path)) (\<lambda>t.
      slift (rmap (\<lambda>l. case json_loads (xe_fr X) l of None \<Rightarrow> raise IntegrationPlanError m | Some v \<Rightarrow> Inr v) (full_lines t))))"

definition bound_event :: "obj \<Rightarrow> string \<Rightarrow> json list \<Rightarrow> unit res" where
  "bound_event plan controller events =
     (let n = (case int_of (oget plan ''ledger_sequence'') of Some i \<Rightarrow> i | None \<Rightarrow> 0);
          m = ''recovery plan does not match the controller ledger'' in
      rbind (check (n \<le> int (length events)) IntegrationPlanError ''controller ledger predates the immutable plan'') (\<lambda>_.
      rbind (if n = 0 then if events = [] then raise IndexError ''list index out of range'' else Inr (last events)
             else Inr (events ! nat (n - 1))) (\<lambda>e.
      rbind (event_is plan e) (\<lambda>ok.
      rbind (check ok IntegrationPlanError m) (\<lambda>_.
      rall (\<lambda>e. rbind (field_is ''project_id'' controller e) (\<lambda>b. check b IntegrationPlanError m)) events)))))"

definition of_transaction :: "obj \<Rightarrow> json list \<Rightarrow> json list res" where
  "of_transaction plan events =
     rfilter (\<lambda>e. rbind (jget e ''transaction_id'') (\<lambda>t. Inr (py_eq t (oget plan ''transaction_id'')))) events"

definition blocked_tests :: "(json \<Rightarrow> bool res) list" where
  "blocked_tests = [field_is ''classification'' ''VALIDATION_FAILED'', field_is ''terminal_state'' ''terminal_failure'',
     field_is ''reference'' ''SafetyViolation'']"

definition interrupted :: "obj \<Rightarrow> json list \<Rightarrow> unit res" where
  "interrupted plan events =
     rbind (of_transaction plan events) (\<lambda>es.
     rbind (rmap (\<lambda>e. jget e ''event_type'') es) (\<lambda>types.
     rbind (check (types = map JStr expected_events) IntegrationPlanError
              ''interrupted integration transaction has unexpected durable events'') (\<lambda>_.
     rbind (jget (es ! 3) ''payload'') (\<lambda>p.
     rbind (all_tests blocked_tests (jor p (JObj []))) (\<lambda>ok.
     check ok IntegrationPlanError ''integration transaction is not an exact pre-validation failure'')))))"

definition recovery_identity :: "'r xenv \<Rightarrow> obj \<Rightarrow> ('r repo, string \<times> string) eff" where
  "recovery_identity X plan =
     sbind (plan_identity X plan) (\<lambda>(root, inspected).
     sbind (no_operation X inspected) (\<lambda>idle.
     sbind (if idle then current_branch (xe_host X) inspected else sret None) (\<lambda>branch.
     sbind (scheck (idle \<and> branch = Some (plan_text plan ''milestone_branch'')) IntegrationPlanError
              ''integration finalization recovery requires the clean milestone branch'') (\<lambda>_.
     sret (root, inspected)))))"

text \<open>The picked commit below the mark, when Git names the parent of the mark\<close>

definition parent_ref :: "'r xenv \<Rightarrow> string \<Rightarrow> string option \<Rightarrow> ('r repo, string option) eff" where
  "parent_ref X inspected c =
     (case c of None \<Rightarrow> sret None | Some h \<Rightarrow> rev_parse (xe_host X) inspected (h @ ''^'') False)"

definition marking_paths :: "'r xenv \<Rightarrow> string \<Rightarrow> obj \<Rightarrow> string \<Rightarrow> ('r repo, bool) eff" where
  "marking_paths X inspected plan commit =
     (let paths = commit_changed_paths (xe_host X) inspected commit in
      sbind paths (\<lambda>ps.
      if ps = [] then sret False
      else sbind paths (\<lambda>ps.
        if plan_text plan ''queue_path'' \<notin> set ps then sret False
        else sbind paths (\<lambda>ps. sret (set ps \<subseteq> set (plan_texts plan ''metadata_paths''))))))"

definition interrupted_commits :: "'r xenv \<Rightarrow> string \<Rightarrow> obj \<Rightarrow> ('r repo, string \<times> string) eff" where
  "interrupted_commits X inspected plan =
     (let H = xe_host X; accepted = plan_text plan ''accepted_commit'' in
      sbind (rev_parse H inspected (plan_text plan ''milestone_branch'') False) (\<lambda>marked.
      sbind (if marked = None then sret None else sbind (repo_head H inspected) (\<lambda>h. sret (Some h))) (\<lambda>h.
      case marked of
        None \<Rightarrow> sthrow IntegrationPlanError ''milestone ref changed before finalization recovery''
      | Some mark \<Rightarrow>
      sbind (scheck (h = marked) IntegrationPlanError ''milestone ref changed before finalization recovery'') (\<lambda>_.
      sbind (parent_ref X inspected marked) (\<lambda>picked.
      sbind (parent_ref X inspected picked) (\<lambda>before.
      sbind (rev_parse H inspected (plan_text plan ''feature_branch'') False) (\<lambda>accepted_ref.
      sbind (case picked of
               None \<Rightarrow> sret False
             | Some c \<Rightarrow> sbind (patch_fingerprint H inspected c) (\<lambda>a.
                 sbind (patch_fingerprint H inspected accepted) (\<lambda>b. sret (a = b)))) (\<lambda>same.
      sbind (repo_commit_subject H inspected mark) (\<lambda>subject.
      sbind (marking_paths X inspected plan mark) (\<lambda>paths_ok.
      case picked of
        None \<Rightarrow> sthrow IntegrationPlanError ''interrupted integration Git topology mismatch''
      | Some c \<Rightarrow>
          sbind (scheck (before = Some (plan_text plan ''pre_integration_head'') \<and> accepted_ref = Some accepted \<and> same
                   \<and> subject = ''factory: mark '' @ plan_text plan ''feature_id'' @ '' integrating'' \<and> paths_ok)
                   IntegrationPlanError ''interrupted integration Git topology mismatch'') (\<lambda>_.
          sret (c, mark))))))))))))"

definition queue_integrating :: "obj \<Rightarrow> obj \<Rightarrow> bool" where
  "queue_integrating plan feature \<longleftrightarrow>
     oget feature ''status'' = JStr ''integrating'' \<and> oget feature ''integration_status'' = JStr ''integrating''
     \<and> oget feature ''accepted_commit'' = oget plan ''accepted_commit'' \<and> oget feature ''branch'' = oget plan ''feature_branch''
     \<and> oget feature ''integration_base_commit'' = oget plan ''pre_integration_head'' \<and> oget feature ''integrated_commit'' = JNull"

definition runtime_matches :: "obj \<Rightarrow> string \<Rightarrow> string \<Rightarrow> string \<Rightarrow> obj \<Rightarrow> bool res" where
  "runtime_matches plan controller resulting mark runtime =
     (let named = (\<lambda>k v. case oget runtime ''evidence'' of
            JObj d \<Rightarrow> in_set (oget d k) [JNull, JStr v] | _ \<Rightarrow> Inr True) in
      rbind (named ''resulting_feature_commit'' resulting) (\<lambda>picked_ok.
      rbind (named ''integrating_metadata_commit'' mark) (\<lambda>mark_ok.
      Inr (picked_ok \<and> mark_ok \<and> oget runtime ''phase'' = JStr ''integrating''
        \<and> oget runtime ''plan_fingerprint'' = oget plan ''plan_fingerprint''
        \<and> (case oget runtime ''runtime_identity'' of
             JObj d \<Rightarrow> oget d ''controller_project_id'' = JStr controller
               \<and> oget d ''adapter_project_id'' = oget plan ''adapter_project_id''
               \<and> oget d ''transaction_id'' = oget plan ''transaction_id''
           | _ \<Rightarrow> False)))))"

definition recovery_evidence :: "obj \<Rightarrow> string \<Rightarrow> string \<Rightarrow> string \<Rightarrow> obj" where
  "recovery_evidence plan controller resulting mark =
     (let evidence =
        [(''plan_fingerprint'', oget plan ''plan_fingerprint''), (''blocked_transaction_id'', oget plan ''transaction_id''),
         (''controller_project_id'', JStr controller)]
        @ map (\<lambda>k. (k, oget plan k)) [''adapter_project_id'', ''repository_identity'', ''repository_path_fingerprint'',
            ''feature_id'', ''accepted_commit'', ''pre_integration_head'']
        @ [(''resulting_feature_commit'', JStr resulting), (''integrating_metadata_commit'', JStr mark)] in
      evidence @ [(''topology_fingerprint'', JStr (fingerprint (JObj evidence)))])"

definition inspect_integration_finalization_recovery :: "'r xenv \<Rightarrow> ('r exec, obj) eff" where
  "inspect_integration_finalization_recovery X =
     sbind (load_plan X) (\<lambda>plan.
     on_repo (
       sbind (recovery_identity X plan) (\<lambda>(root, inspected).
       sbind (ledger_events X (plan_text plan ''controller_ledger_path'')) (\<lambda>events.
       sbind (slift (controller_project_id plan)) (\<lambda>controller.
       sbind (slift (bound_event plan controller events)) (\<lambda>_.
       sbind (slift (interrupted plan events)) (\<lambda>_.
       sbind (interrupted_commits X inspected plan) (\<lambda>(resulting, mark).
       sbind (load_worktree_json X root ''.factory/project.yaml'') (\<lambda>live.
       sbind (json_at X root (plan_text plan ''accepted_commit'') ''.factory/project.yaml'') (\<lambda>(accepted, _).
       sbind (slift (adapter_project_id live)) (\<lambda>live_id.
       sbind (slift (if oget plan ''adapter_project_id'' = JStr live_id then adapter_project_id accepted else Inr [])) (\<lambda>accepted_id.
       sbind (scheck (oget plan ''adapter_project_id'' = JStr live_id \<and> accepted_id = live_id) IntegrationPlanError
                ''adapter project identity changed before recovery'') (\<lambda>_.
       sbind (load_worktree_json X root (plan_text plan ''queue_path'')) (\<lambda>queue.
       sbind (slift (one_item queue ''features'' (plan_text plan ''feature_id''))) (\<lambda>feature.
       sbind (scheck (queue_integrating plan feature) IntegrationPlanError
                ''interrupted integration queue topology mismatch'') (\<lambda>_.
       sbind (no_os_error ''integration runtime is unavailable for recovery''
                (x_text X (path_div (path_div root runtime_directory) ''latest.json''))) (\<lambda>t.
       sbind (slift (json_object (xe_fr X) ''integration runtime must be a JSON object for recovery'' t)) (\<lambda>runtime.
       sbind (slift (runtime_matches plan controller resulting mark runtime)) (\<lambda>ok.
       sbind (scheck ok IntegrationPlanError ''integration runtime identity changed before recovery'') (\<lambda>_.
       sret (recovery_evidence plan controller resulting mark)))))))))))))))))))))"

definition resume_integration_finalization :: "'r xenv \<Rightarrow> ('r exec, obj) eff" where
  "resume_integration_finalization X =
     sbind (load_plan X) (\<lambda>plan.
     sbind (on_repo machine) (\<lambda>m.
     let root = ho_resolve (xe_host X) m (ho_expand (xe_host X) (plan_text plan ''repository'')) in
     sbind (inspect_integration_finalization_recovery X) (\<lambda>recovery.
     sbind (on_repo (audit_accepted_commit X root plan)) (\<lambda>_.
     sbind (slift (controller_project_id plan)) (\<lambda>controller.
     sbind (on_repo (finish_integration X root plan controller (text_of (oget recovery ''resulting_feature_commit''))
              (oget recovery ''integrating_metadata_commit'') (JObj []) [(''recovery'', JObj recovery)]
              ''integration finalization recovery left a dirty worktree'')) (\<lambda>result.
     sbind (slift (validate_integration_result plan result)) (\<lambda>_.
     sret result)))))))"

end
