(* ===== verification/Integration_Confined.thy ===== *)
theory Integration_Confined
  imports Integration_Resume
begin

section \<open>What an integration runs and writes\<close>

text \<open>
  The environment \<open>traced X\<close> is \<open>X\<close> with a record of every command that is started and of every path that is
  written. The locale \<open>confinement\<close> is the contract between the executor and the authority of its plan: given a set of
  commands that contains the queries of the inspector, and a set of paths, everything that only reads adds queries to the
  record. Its interpretation on the authority of a plan shows that an execution starts and writes nothing else.
\<close>

record 'r trace =
  tr_machine :: 'r
  tr_commands :: "string list list"
  tr_writes :: "string list"

definition traced_host :: "'r host \<Rightarrow> 'r trace host" where
  "traced_host H =
     \<lparr>ho_home = ho_home H, ho_expand = ho_expand H, ho_resolve = (\<lambda>t. ho_resolve H (tr_machine t)),
      ho_lstat = (\<lambda>t. ho_lstat H (tr_machine t)), ho_stat = (\<lambda>t. ho_stat H (tr_machine t)),
      ho_run = (\<lambda>cwd argv t. case ho_run H cwd argv (tr_machine t) of (c, m) \<Rightarrow>
        (c, t\<lparr>tr_machine := m, tr_commands := tr_commands t @ [argv]\<rparr>))\<rparr>"

definition traced :: "'r xenv \<Rightarrow> 'r trace xenv" where
  "traced X =
     \<lparr>xe_host = traced_host (xe_host X), xe_lease = xe_lease X, xe_rt = xe_rt X, xe_fr = xe_fr X,
      xe_now = (\<lambda>t. xe_now X (tr_machine t)),
      xe_spawn = (\<lambda>cwd argv vars t. case xe_spawn X cwd argv vars (tr_machine t) of (r, m) \<Rightarrow>
        (r, t\<lparr>tr_machine := m, tr_commands := tr_commands t @ [argv]\<rparr>)),
      xe_write = (\<lambda>path content t. case xe_write X path content (tr_machine t) of (ok, m) \<Rightarrow>
        (ok, t\<lparr>tr_machine := m, tr_writes := tr_writes t @ [path]\<rparr>))\<rparr>"

lemma xe_host_traced [simp]: "xe_host (traced X) = traced_host (xe_host X)"
  by (simp add: traced_def)

text \<open>The queries: a Git command that only reads, and the reading forms of \<^verbatim>\<open>git branch\<close> and
  \<^verbatim>\<open>git worktree\<close>.\<close>

definition READING :: "string list" where
  "READING = [''check-ref-format'', ''check-ignore'', ''diff'', ''diff-tree'', ''merge-base'', ''rev-list'', ''rev-parse'', ''show'', ''status'']"

definition reading :: "string list \<Rightarrow> bool" where
  "reading cs \<longleftrightarrow> cs = [''branch'', ''--show-current''] \<or> cs = [''worktree'', ''list'', ''--porcelain'']
     \<or> (\<exists>c rest. cs = c # rest \<and> c \<in> set READING)"

definition query :: "string list \<Rightarrow> bool" where
  "query argv \<longleftrightarrow> (\<exists>cs. argv = ''git'' # cs \<and> reading cs)"

lemma query_git [simp]: "query (''git'' # cs) \<longleftrightarrow> reading cs"
  by (simp add: query_def)

definition added :: "(string list \<Rightarrow> bool) \<Rightarrow> (string \<Rightarrow> bool) \<Rightarrow> 'r trace repo \<Rightarrow> 'r trace repo \<Rightarrow> bool" where
  "added C W s t \<longleftrightarrow>
     (\<exists>cs ws. tr_commands (rp_machine t) = tr_commands (rp_machine s) @ cs \<and> list_all C cs
        \<and> tr_writes (rp_machine t) = tr_writes (rp_machine s) @ ws \<and> list_all W ws)"

lemma reflp_added [simp]: "reflp (added C W)"
  by (auto simp: reflp_def added_def)

lemma transp_added [simp]: "transp (added C W)"
proof (rule transpI)
  fix r s t :: "'r trace repo"
  assume "added C W r s" "added C W s t"
  then obtain cs ws ds vs
    where "tr_commands (rp_machine s) = tr_commands (rp_machine r) @ cs" "list_all C cs"
      "tr_writes (rp_machine s) = tr_writes (rp_machine r) @ ws" "list_all W ws"
      "tr_commands (rp_machine t) = tr_commands (rp_machine s) @ ds" "list_all C ds"
      "tr_writes (rp_machine t) = tr_writes (rp_machine s) @ vs" "list_all W vs"
    by (auto simp: added_def)
  then show "added C W r t" by (auto simp: added_def intro!: exI [of _ "cs @ ds"] exI [of _ "ws @ vs"])
qed

lemma steps_case_prod [steps_intros]: "(\<And>a b. steps R (f a b)) \<Longrightarrow> steps R (case x of (a, b) \<Rightarrow> f a b)"
  by (cases x) simp

lemma steps_case_list [steps_intros]:
  "steps R m \<Longrightarrow> (\<And>a b. steps R (f a b)) \<Longrightarrow> steps R (case x of [] \<Rightarrow> m | a # b \<Rightarrow> f a b)"
  by (cases x) simp_all

lemma steps_sum [steps_intros]:
  "(\<And>a. steps R (f a)) \<Longrightarrow> (\<And>a. steps R (g a)) \<Longrightarrow> steps R (case x of Inl a \<Rightarrow> f a | Inr a \<Rightarrow> g a)"
  by (cases x) simp_all

lemma steps_case_json [steps_intros]:
  assumes "steps R a" "\<And>x. steps R (b x)" "\<And>x. steps R (c x)" "\<And>x. steps R (d x)" "\<And>x. steps R (e x)"
    "\<And>x. steps R (f x)" "\<And>x. steps R (g x)"
  shows "steps R (case v of JNull \<Rightarrow> a | JBool x \<Rightarrow> b x | JInt x \<Rightarrow> c x | JFloat x \<Rightarrow> d x | JStr x \<Rightarrow> e x | JArr x \<Rightarrow> f x
    | JObj x \<Rightarrow> g x)"
  using assms by (cases v) simp_all

lemma steps_node [steps_intros]:
  assumes "steps R a" "steps R b" "steps R c" "\<And>x y. steps R (d x y)" "steps R e"
  shows "steps R (case v of No_node \<Rightarrow> a | Dir_node \<Rightarrow> b | Link_node \<Rightarrow> c | File_node x y \<Rightarrow> d x y | Other_node \<Rightarrow> e)"
  using assms by (cases v) simp_all

lemma steps_Let [steps_intros]: "(\<And>x. steps R (f x)) \<Longrightarrow> steps R (let x = a in f x)"
  by simp

named_theorems reads "calls that only add queries to the record"

lemmas read_commands = reading_def READING_def

subsection \<open>The contract\<close>

locale confinement =
  fixes C :: "string list \<Rightarrow> bool" and W :: "string \<Rightarrow> bool"
  assumes query_allowed: "query argv \<Longrightarrow> C argv"
begin

lemma steps_machine [reads]: "steps (added C W) machine"
  by (auto simp: steps_def machine_def added_def)

lemma steps_on_attempts [reads]: "steps (added C W) (on_attempts m)"
  by (auto simp: steps_def on_attempts_def spart_def added_def split: prod.splits)

lemma steps_run_process: "C argv \<Longrightarrow> steps (added C W) (run_process (traced_host H) cwd argv)"
  by (auto simp: steps_def run_process_def traced_host_def added_def split: prod.splits)

lemma steps_spawn: "C argv \<Longrightarrow> steps (added C W) (spawn (traced X) cwd argv vars)"
  by (auto simp: steps_def spawn_def traced_def added_def split: prod.splits)

lemma steps_write: "W path \<Longrightarrow> steps (added C W) (x_write (traced X) path content)"
  by (auto simp: steps_def x_write_def traced_def added_def split: prod.splits)

lemma steps_inspector_git [reads]:
  "reading (c # cs) \<Longrightarrow> steps (added C W) (inspector_git (traced_host H) root (c # cs) chk)"
  unfolding inspector_git_def
  by (intro steps_intros reads steps_run_process query_allowed) simp_all

lemma steps_git_output [reads]:
  "reading (c # cs) \<Longrightarrow> steps (added C W) (git_output (traced_host H) root (c # cs))"
  unfolding git_output_def by (intro steps_intros reads) simp_all

lemma steps_x_git: "C (''git'' # cs) \<Longrightarrow> steps (added C W) (x_git (traced X) root cs chk)"
  unfolding x_git_def by (intro steps_intros steps_spawn) simp_all

lemma steps_x_query [reads]: "reading (c # cs) \<Longrightarrow> steps (added C W) (x_git (traced X) root (c # cs) chk)"
  by (intro steps_x_git query_allowed) simp

lemma steps_x_output [reads]: "reading (c # cs) \<Longrightarrow> steps (added C W) (x_output (traced X) root (c # cs))"
  unfolding x_output_def by (intro steps_intros reads) simp_all

lemma steps_rev_parse [reads]: "steps (added C W) (rev_parse (traced_host H) root v chk)"
  unfolding rev_parse_def by (intro steps_intros reads) (simp_all add: read_commands)

lemma steps_common_git_dir [reads]: "steps (added C W) (common_git_dir (traced_host H) root)"
  unfolding common_git_dir_def by (intro steps_intros reads) (simp_all add: read_commands)

lemma steps_make_inspector [reads]: "steps (added C W) (make_inspector (traced_host H) root)"
  unfolding make_inspector_def by (intro steps_intros reads) (simp_all add: read_commands)

lemma steps_primary_worktree [reads]: "steps (added C W) (primary_worktree (traced_host H) root)"
  unfolding primary_worktree_def by (intro steps_intros reads) (simp_all add: read_commands)

lemma steps_current_branch [reads]: "steps (added C W) (current_branch (traced_host H) root)"
  unfolding current_branch_def by (intro steps_intros reads) (simp_all add: read_commands)

lemma steps_repo_head [reads]: "steps (added C W) (repo_head (traced_host H) root)"
  unfolding repo_head_def by (intro steps_intros reads) simp_all

lemma steps_is_clean [reads]: "steps (added C W) (is_clean (traced_host H) root)"
  unfolding is_clean_def dirty_entries_def by (intro steps_intros reads) (simp_all add: read_commands)

lemma steps_file_bytes [reads]: "steps (added C W) (file_bytes (traced_host H) root relative missing)"
proof -
  have "steps (added C W) (smodify (\<lambda>s. s\<lparr>rp_reads := f (rp_reads s)\<rparr>))" for f
    by (auto simp: steps_def added_def smodify_def)
  then show ?thesis unfolding file_bytes_def by (intro steps_intros reads) simp_all
qed

lemma steps_is_ancestor [reads]: "steps (added C W) (is_ancestor (traced_host H) root a d)"
  unfolding is_ancestor_def by (intro steps_intros reads) (simp_all add: read_commands)

lemma steps_git_operation_state [reads]: "steps (added C W) (git_operation_state (traced_host H) root)"
  unfolding git_operation_state_def by (intro steps_intros reads) (simp_all add: read_commands)

lemma steps_repo_identity [reads]: "steps (added C W) (repo_identity (traced_host H) root)"
  unfolding repo_identity_def by (intro steps_intros reads) (simp_all add: read_commands)

lemma steps_writer_lock_path [reads]: "steps (added C W) (writer_lock_path (traced_host H) root relative)"
  unfolding writer_lock_path_def by (intro steps_intros reads) simp_all

lemma steps_patch_fingerprint [reads]: "steps (added C W) (patch_fingerprint (traced_host H) root c)"
  unfolding patch_fingerprint_def by (intro steps_intros reads) (simp_all add: read_commands)

lemma steps_no_os_error [reads]: "steps (added C W) m \<Longrightarrow> steps (added C W) (no_os_error e m)"
  unfolding no_os_error_def by (intro steps_intros) simp_all

lemma steps_x_bytes [reads]: "steps (added C W) (x_bytes (traced X) path)"
  unfolding x_bytes_def by (intro steps_intros reads) simp_all

lemma steps_x_text [reads]: "steps (added C W) (x_text (traced X) path)"
  unfolding x_text_def by (intro steps_intros reads) simp_all

lemma steps_json_at [reads]: "steps (added C W) (json_at (traced X) root commit relative)"
  unfolding json_at_def by (intro steps_intros reads) (simp_all add: read_commands)

lemma steps_load_worktree_json [reads]: "steps (added C W) (load_worktree_json (traced X) root relative)"
  unfolding load_worktree_json_def by (intro steps_intros reads) simp_all

lemma steps_no_operation [reads]: "steps (added C W) (no_operation (traced X) inspected)"
  unfolding no_operation_def xe_host_traced by (intro steps_intros reads) simp_all

lemma steps_clean_worktree [reads]: "steps (added C W) (clean_worktree (traced X) root)"
  unfolding clean_worktree_def xe_host_traced by (intro steps_intros reads) simp_all

lemma steps_acceptance_of [reads]: "steps (added C W) (acceptance_of (traced X) root inspected a f)"
  unfolding acceptance_of_def xe_host_traced by (intro steps_intros reads) (simp_all add: read_commands)

lemma steps_check_dependency [reads]: "steps (added C W) (check_dependency (traced X) inspected a live integrated d)"
  unfolding check_dependency_def xe_host_traced by (intro steps_intros reads) simp_all

lemma steps_inspect_adapters [reads]: "steps (added C W) (inspect_adapters (traced X) root inspected a)"
  unfolding inspect_adapters_def xe_host_traced by (intro steps_intros reads) simp_all

lemma steps_changed_paths [reads]: "steps (added C W) (x_output (traced X) root (changed_arguments a))"
  unfolding changed_arguments_def by (cases "ra_metadata a") (simp_all add: steps_x_output read_commands)

lemma steps_inspect_two_refs [reads]: "steps (added C W) (inspect_two_refs (traced X) repository a)"
  unfolding inspect_two_refs_def xe_host_traced Let_def by (intro steps_intros reads) simp_all

lemma steps_verify_ledger_binding [reads]: "steps (added C W) (verify_ledger_binding (traced X) plan)"
  unfolding verify_ledger_binding_def by (intro steps_intros reads) simp_all

lemma steps_acceptance_metadata [reads]:
  "steps (added C W) (acceptance_metadata_from_ledger (traced X) path feature commit sequence_bound)"
  unfolding acceptance_metadata_from_ledger_def by (intro steps_intros reads) simp_all

lemma steps_verify_runtime_exclusion [reads]: "steps (added C W) (verify_runtime_exclusion (traced X) root plan)"
  unfolding verify_runtime_exclusion_def xe_host_traced by (intro steps_intros reads) (simp_all add: read_commands)

lemma steps_audit [reads]: "steps (added C W) (audit_accepted_commit (traced X) root plan)"
  unfolding audit_accepted_commit_def by (intro steps_intros reads) (simp_all add: read_commands)

lemma steps_gather_evidence [reads]: "steps (added C W) (gather_evidence (traced X) root plan controller)"
  unfolding gather_evidence_def by (intro steps_intros reads) simp_all

lemma steps_plan_identity [reads]: "steps (added C W) (plan_identity (traced X) plan)"
  unfolding plan_identity_def xe_host_traced Let_def by (intro steps_intros reads) simp_all

lemma steps_changed_since [reads]: "steps (added C W) (changed_since (traced X) root plan current)"
  unfolding changed_since_def by (intro steps_intros reads) (simp_all add: read_commands)

lemma steps_check_runtime_directory [reads]: "steps (added C W) (check_runtime_directory (traced X) dir)"
  unfolding check_runtime_directory_def xe_host_traced by (intro steps_intros reads) simp_all

lemma steps_check_transition [reads]: "steps (added C W) (check_transition (traced X) root plan feature authority)"
  unfolding check_transition_def by (intro steps_intros reads) (simp_all add: read_commands)

lemma steps_recovery_identity [reads]: "steps (added C W) (recovery_identity (traced X) plan)"
  unfolding recovery_identity_def xe_host_traced by (intro steps_intros reads) simp_all

lemma steps_ledger_events [reads]: "steps (added C W) (ledger_events (traced X) path)"
  unfolding ledger_events_def Let_def by (intro steps_intros reads) simp_all

lemma steps_parent_ref [reads]: "steps (added C W) (parent_ref (traced X) inspected c)"
  unfolding parent_ref_def xe_host_traced by (intro steps_intros reads) simp_all

lemma steps_subject [reads]: "steps (added C W) (repo_commit_subject (traced_host H) root c)"
  unfolding repo_commit_subject_def by (intro steps_intros reads) (simp_all add: read_commands)

lemma steps_commit_paths [reads]: "steps (added C W) (commit_changed_paths (traced_host H) root c)"
  unfolding commit_changed_paths_def by (intro steps_intros reads) (simp_all add: read_commands)

lemma steps_marking_paths [reads]: "steps (added C W) (marking_paths (traced X) inspected plan commit)"
  unfolding marking_paths_def xe_host_traced Let_def by (intro steps_intros reads) simp_all

lemma steps_interrupted_commits [reads]: "steps (added C W) (interrupted_commits (traced X) inspected plan)"
  unfolding interrupted_commits_def xe_host_traced Let_def by (intro steps_intros reads) simp_all

end

subsection \<open>The authority of a plan\<close>

text \<open>What a plan lets its execution start and write\<close>

definition runtime_record :: "obj \<Rightarrow> string" where
  "runtime_record plan = plan_text plan ''feature_id'' @ ''-'' @ take 20 (plan_text plan ''plan_fingerprint'') @ ''.json''"

definition plan_commands :: "obj \<Rightarrow> string list list" where
  "plan_commands plan =
     (case elements (oget plan ''validation_commands'') of
        Inr cs \<Rightarrow> map (\<lambda>c. plan_texts (as_obj c) ''argv'') cs | Inl _ \<Rightarrow> [])"

definition plan_mutations :: "obj \<Rightarrow> string list list" where
  "plan_mutations plan =
     (let f = plan_text plan ''feature_id''; c = plan_text plan ''accepted_commit'' in
      [[''git'', ''switch'', plan_text plan ''milestone_branch''],
       [''git'', ''cherry-pick'', c],
       [''git'', ''cherry-pick'', ''--no-commit'', plan_text plan ''pre_integration_head'' @ ''..'' @ c],
       [''git'', ''add'', ''--''] @ plan_texts plan ''metadata_paths'',
       [''git'', ''commit'', ''-m'', ''factory: integrate '' @ f @ '' implementation''],
       [''git'', ''commit'', ''-m'', ''factory: mark '' @ f @ '' integrating''],
       [''git'', ''commit'', ''-m'', ''factory: record '' @ f @ '' integration passed''],
       [''git'', ''commit'', ''-m'', ''factory: record '' @ f @ '' integration failed'']])"

definition command_authorised :: "obj \<Rightarrow> string list \<Rightarrow> bool" where
  "command_authorised plan argv \<longleftrightarrow>
     query argv \<or> argv \<in> set (plan_mutations plan) \<or> argv \<in> set (plan_commands plan)"

definition plan_files :: "string \<Rightarrow> obj \<Rightarrow> string list" where
  "plan_files root plan =
     map (path_div root) (plan_text plan ''queue_path'' # ''docs/CURRENT_STATUS.md'' # plan_texts plan ''metadata_paths'')
     @ map (path_div (path_div root runtime_directory)) [runtime_record plan, ''latest.json'']"

locale authority = confinement C W for C W +
  fixes root :: string and plan :: obj
  assumes mutations: "mutation_allowed plan cs \<Longrightarrow> C (''git'' # cs)"
    and validations: "argv \<in> set (plan_commands plan) \<Longrightarrow> C argv"
    and files: "path \<in> set (plan_files root plan) \<Longrightarrow> W path"
begin

lemma steps_git_mutation [reads]: "steps (added C W) (git_mutation (traced X) r plan cs chk)"
proof (cases "mutation_allowed plan cs")
  case True
  then show ?thesis unfolding git_mutation_def by (intro steps_intros steps_x_git mutations) simp_all
next
  case False
  then have "git_mutation (traced X) r plan cs chk
      = sthrow IntegrationPlanError ''unapproved deterministic Git mutation''"
    by (simp add: git_mutation_def sbind_def scheck_def slift_def check_def sthrow_def raise_def)
  then show ?thesis by (simp add: steps_pure)
qed

lemma steps_atomic_json: "path \<in> set (plan_files root plan) \<Longrightarrow> steps (added C W) (atomic_json (traced X) path v)"
  unfolding atomic_json_def by (intro steps_intros reads steps_write files) simp_all

lemma steps_write_runtime [reads]: "steps (added C W) (write_runtime (traced X) root plan phase evidence)"
  unfolding write_runtime_def Let_def
  by (intro steps_intros reads steps_atomic_json) (simp_all add: plan_files_def runtime_record_def)

lemma steps_write_queue [reads]:
  "steps (added C W) (write_worktree_json (traced X) root (plan_text plan ''queue_path'') v)"
  unfolding write_worktree_json_def by (intro steps_intros steps_atomic_json) (simp_all add: plan_files_def)

lemma steps_ensure_metadata_file:
  "relative \<in> set (plan_texts plan ''metadata_paths'') \<Longrightarrow>
     steps (added C W) (ensure_metadata_file (traced X) root plan relative)"
  unfolding ensure_metadata_file_def xe_host_traced
  by (intro steps_intros reads steps_write files) (simp_all add: plan_files_def)

lemma steps_sall_set:
  "(\<And>x. x \<in> set xs \<Longrightarrow> steps (added C W) (f x)) \<Longrightarrow> steps (added C W) (sall f xs)"
  by (induction xs) (simp_all add: steps_pure steps_sbind)

lemma steps_commit_metadata [reads]: "steps (added C W) (commit_metadata (traced X) r plan subject)"
  unfolding commit_metadata_def by (intro steps_intros reads) (simp_all add: read_commands)

lemma steps_mark_integrating [reads]: "steps (added C W) (mark_integrating (traced X) root plan auth)"
  unfolding mark_integrating_def Let_def
  by (intro steps_intros reads steps_sall_set steps_ensure_metadata_file) simp_all

lemma steps_run_commands [reads]:
  "(\<And>c. c \<in> set cs \<Longrightarrow> C (plan_texts (as_obj c) ''argv'')) \<Longrightarrow>
     steps (added C W) (run_commands (traced X) r vars i cs)"
proof (induction cs arbitrary: i)
  case Nil
  then show ?case by (simp add: steps_pure)
next
  case (Cons c cs)
  then show ?case
    unfolding run_commands.simps Let_def by (intro steps_intros reads steps_spawn Cons.IH) simp_all
qed

lemma steps_run_validation [reads]: "steps (added C W) (run_validation (traced X) r plan)"
proof -
  have run: "steps (added C W) (sbind (slift (elements (oget plan ''validation_commands'')))
      (\<lambda>commands. sbind (run_commands (traced X) r vars 0 commands) f))"
    if "\<And>x. steps (added C W) (f x)" for vars f
  proof (cases "elements (oget plan ''validation_commands'')")
    case (Inr cs)
    then have "C (plan_texts (as_obj c) ''argv'')" if "c \<in> set cs" for c
      using that by (intro validations) (simp add: plan_commands_def)
    then have "steps (added C W) (sbind (run_commands (traced X) r vars 0 cs) f)"
      using that by (intro steps_intros reads) simp_all
    then show ?thesis using Inr by (simp add: steps_def sbind_slift_Inr)
  qed (simp add: steps_def sbind_slift_Inl reflpD [OF reflp_added])
  show ?thesis
    unfolding run_validation_def Let_def
    by (intro steps_sbind [OF transp_added] run steps_intros reads) (simp_all add: read_commands)
qed

lemma steps_replace_status [reads]:
  "steps (added C W) (replace_status_block (traced X) (path_div root ''docs/CURRENT_STATUS.md'') content)"
  unfolding replace_status_block_def by (intro steps_intros reads steps_write files) (simp_all add: plan_files_def)

lemma steps_append_run_log:
  "relative \<in> set (plan_texts plan ''metadata_paths'') \<Longrightarrow>
     steps (added C W) (append_run_log (traced X) (path_div root relative) content)"
  unfolding append_run_log_def by (intro steps_intros reads steps_write files) (simp_all add: plan_files_def)

lemma steps_record_final [reads]: "steps (added C W) (record_final_metadata (traced X) root plan v resulting)"
proof -
  have "steps (added C W) (case List.find P (plan_texts plan ''metadata_paths'') of
      None \<Rightarrow> sthrow e m | Some relative \<Rightarrow> sbind (append_run_log (traced X) (path_div root relative) c) f)"
    if "\<And>x. steps (added C W) (f x)" for P e m c f
    using that
    by (cases "List.find P (plan_texts plan ''metadata_paths'')")
      (auto simp: steps_pure dest!: find_SomeD intro!: steps_sbind steps_append_run_log)
  note log = this
  show ?thesis
    unfolding record_final_metadata_def Let_def
    by (intro steps_sbind [OF transp_added] log steps_intros reads) simp_all
qed

lemma steps_finish [reads]:
  "steps (added C W) (finish_integration (traced X) root plan controller resulting integrating runtime extra dirty)"
  unfolding finish_integration_def Let_def by (intro steps_intros reads) (simp_all add: read_commands)

lemma steps_prepare_branch [reads]: "steps (added C W) (prepare_branch (traced X) root inspected plan)"
  unfolding prepare_branch_def xe_host_traced by (intro steps_intros reads) (simp_all add: read_commands)

lemma steps_picked_commit [reads]: "steps (added C W) (picked_commit (traced X) root inspected plan)"
  unfolding picked_commit_def xe_host_traced by (intro steps_intros reads) (simp_all add: read_commands)

lemma steps_report_conflict [reads]: "steps (added C W) (report_conflict (traced X) root plan controller runtime)"
  unfolding report_conflict_def Let_def by (intro steps_intros reads) (simp_all add: read_commands)

end

lemma allowed_in_plan:
  assumes "mutation_allowed plan cs"
  shows "''git'' # cs \<in> set (plan_mutations plan)"
proof (cases "take 2 cs = [''add'', ''--'']")
  case True
  then have "cs = [''add'', ''--''] @ plan_texts plan ''metadata_paths''"
    using assms append_take_drop_id [of 2 cs] by (simp add: mutation_allowed_def)
  then show ?thesis by (simp add: plan_mutations_def Let_def)
next
  case add: False
  show ?thesis
  proof (cases "take 2 cs = [''commit'', ''-m'']")
    case True
    then have "length cs = 3" "cs ! 2 \<in> set (plan_subjects plan)"
      using assms by (simp_all add: mutation_allowed_def)
    moreover from this have "cs = [''commit'', ''-m'', cs ! 2]"
      using True by (auto simp: numeral_3_eq_3 numeral_2_eq_2 length_Suc_conv)
    ultimately have "\<exists>m \<in> set (plan_subjects plan). cs = [''commit'', ''-m'', m]" by metis
    then show ?thesis by (auto simp: plan_mutations_def plan_subjects_def Let_def)
  next
    case False
    then have "cs \<in> {[''switch'', plan_text plan ''milestone_branch''], [''cherry-pick'', plan_text plan ''accepted_commit''],
        [''cherry-pick'', ''--no-commit'', pick_range plan]}"
      using assms add unfolding mutation_allowed_def by (simp only: if_False)
    then show ?thesis by (auto simp: plan_mutations_def pick_range_def Let_def)
  qed
qed

interpretation plan_authority: authority "command_authorised plan" "\<lambda>p. p \<in> set (plan_files root plan)" root plan
  for root plan
  by unfold_locales (auto simp: command_authorised_def allowed_in_plan)

subsection \<open>Executions\<close>

text \<open>The state of an execution with an empty record\<close>

definition traced_state :: "'r exec \<Rightarrow> 'r trace exec" where
  "traced_state s =
     \<lparr>ex_repo = \<lparr>rp_machine = \<lparr>tr_machine = rp_machine (ex_repo s), tr_commands = [], tr_writes = []\<rparr>,
        rp_attempts = rp_attempts (ex_repo s), rp_reads = rp_reads (ex_repo s)\<rparr>,
      ex_lease = ex_lease s, ex_plan = ex_plan s\<rparr>"

definition plan_root :: "'r xenv \<Rightarrow> obj \<Rightarrow> 'r \<Rightarrow> string" where
  "plan_root X plan m = ho_resolve (xe_host X) m (ho_expand (xe_host X) (plan_text plan ''repository''))"

abbreviation run_added :: "(string list \<Rightarrow> bool) \<Rightarrow> (string \<Rightarrow> bool) \<Rightarrow> 'r trace exec \<Rightarrow> 'r trace exec \<Rightarrow> bool" where
  "run_added C W \<equiv> \<lambda>s t. added C W (ex_repo s) (ex_repo t)"

lemma run_added_order [simp]: "reflp (run_added C W)" "transp (run_added C W)"
  using reflp_added transp_added by (auto simp: reflp_def transp_def) blast

lemma steps_on_repo [reads]: "steps (added C W) m \<Longrightarrow> steps (run_added C W) (on_repo m)"
  by (auto simp: steps_def on_repo_def spart_def split: prod.splits) (metis snd_conv)

lemma steps_on_lease [reads]: "steps (run_added C W) (no_lock_error (on_lease m))" "steps (run_added C W) (on_lease m)"
proof -
  show lease: "steps (run_added C W) (on_lease m)"
    by (auto simp: steps_def on_lease_def spart_def reflpD [OF reflp_added] split: prod.splits)
  then show "steps (run_added C W) (no_lock_error (on_lease m))"
    unfolding no_lock_error_def by (intro steps_intros) simp_all
qed

text \<open>Loading a plan reads the entry at its path and changes nothing.\<close>

lemma load_integration_plan_cases:
  obtains err where "load_integration_plan rp e = (Inl err, e)"
  | plan n where "load_integration_plan rp e = (Inr plan, e)" "e = Regular n (Some (JObj plan))"
      "validate_plan_document rp plan = Inr ()"
proof (cases e)
  case (Regular n content)
  show ?thesis
  proof (cases "n = 1 \<and> (\<exists>plan. content = Some (JObj plan))")
    case True
    then obtain plan where e: "e = Regular 1 (Some (JObj plan))" using Regular by auto
    show ?thesis
      using that e by (cases "validate_plan_document rp plan")
        (auto simp: load_integration_plan_def eff_simps eff_runs sbind_def check_def)
  next
    case False
    then have "\<exists>err. load_integration_plan rp e = (Inl err, e)"
      using Regular by (cases content) (auto simp: load_integration_plan_def eff_simps eff_runs sbind_def check_def raise_def
        split: json.splits)
    then show ?thesis using that by blast
  qed
qed (use that in \<open>auto simp: load_integration_plan_def eff_simps eff_runs raise_def\<close>)

lemma load_plan_cases:
  obtains err where "load_plan X s = (Inl err, s)"
  | plan n where "load_plan X s = (Inr plan, s)" "ex_plan s = Regular n (Some (JObj plan))"
      "validate_plan_document (ho_resolve (xe_host X) (rp_machine (ex_repo s))) plan = Inr ()"
  by (rule load_integration_plan_cases [of "ho_resolve (xe_host X) (rp_machine (ex_repo s))" "ex_plan s"])
    (auto simp: load_plan_def sbind_def on_repo_def on_plan_def spart_def machine_def intro: that)

lemma plan_identity_root:
  "plan_identity X plan s = (Inr (root, inspected), t) \<Longrightarrow> root = plan_root X plan (rp_machine s)"
  by (auto simp: plan_identity_def plan_root_def Let_def eff_elims machine_def)

lemma plan_root_traced [simp]: "plan_root (traced X) plan m = plan_root X plan (tr_machine m)"
  by (simp add: plan_root_def traced_host_def)

text \<open>The record of a run whose plan was loaded: the root is known once the identity of the plan is.\<close>

lemma run_after_identity:
  assumes "\<And>root inspected. steps (run_added (C root) (W root)) (f (root, inspected))"
    and "\<And>root argv. query argv \<Longrightarrow> C root argv"
  shows "run_added (C (plan_root X plan (tr_machine (rp_machine (ex_repo s)))))
      (W (plan_root X plan (tr_machine (rp_machine (ex_repo s))))) s
      (snd (sbind (on_repo (plan_identity (traced X) plan)) f s))"
proof -
  let ?r = "plan_root X plan (tr_machine (rp_machine (ex_repo s)))"
  have conf: "confinement (C ?r)" by unfold_locales (rule assms(2))
  obtain v p where v: "plan_identity (traced X) plan (ex_repo s) = (v, p)" by fastforce
  have step: "added (C ?r) (W ?r) (ex_repo s) p" 
    by (rule stepsD [OF confinement.steps_plan_identity [OF conf] v])
  have run: "on_repo (plan_identity (traced X) plan) s = (v, s\<lparr>ex_repo := p\<rparr>)" by (simp add: on_repo_def spart_def v)
  show ?thesis
  proof (cases v)
    case (Inr ri)
    obtain inspected where "v = Inr (?r, inspected)"
      using plan_identity_root [of "traced X" plan "ex_repo s" "fst ri" "snd ri" p] v Inr by (cases ri) auto
    moreover obtain x u where u: "f (?r, inspected) (s\<lparr>ex_repo := p\<rparr>) = (x, u)" by fastforce
    moreover have "added (C ?r) (W ?r) p (ex_repo u)" using stepsD [OF assms(1) u] by simp
    ultimately show ?thesis using transpD [OF transp_added step] by (simp add: sbind_def run)
  qed (use step in \<open>simp add: sbind_def run\<close>)
qed

end
