(* ===== verification/Integration_Theorems.thy ===== *)
theory Integration_Theorems
  imports Integration_Confined
begin

section \<open>What an integration guarantees\<close>

text \<open>
  An execution starts and writes only what its plan authorises (\<open>integration_confined\<close>), and both results it can return
  pass the check the kernel makes of a result against its plan.
\<close>

subsection \<open>Commands and files\<close>

lemma steps_integrate_picked:
  "steps (run_added (command_authorised plan) (\<lambda>p. p \<in> set (plan_files root plan)))
     (integrate_picked (traced X) plan root inspected controller transition runtime)"
  unfolding integrate_picked_def Let_def
  by (intro steps_intros reads plan_authority.steps_picked_commit plan_authority.steps_mark_integrating
      plan_authority.steps_write_runtime plan_authority.steps_finish) simp_all

lemma steps_execute_loaded:
  "steps (run_added (command_authorised plan) (\<lambda>p. p \<in> set (plan_files root plan)))
     (execute_loaded (traced X) plan root inspected)"
  unfolding execute_loaded_def Let_def xe_host_traced
  by (intro steps_intros steps_on_repo steps_on_lease steps_integrate_picked plan_authority.steps_verify_ledger_binding
      plan_authority.steps_verify_runtime_exclusion plan_authority.steps_writer_lock_path plan_authority.steps_gather_evidence
      plan_authority.steps_audit plan_authority.steps_write_runtime plan_authority.steps_prepare_branch
      plan_authority.steps_git_mutation plan_authority.steps_report_conflict) simp_all

lemma added_from_empty:
  "added C W s t \<Longrightarrow> tr_commands (rp_machine s) = [] \<Longrightarrow> tr_writes (rp_machine s) = [] \<Longrightarrow>
     list_all C (tr_commands (rp_machine t)) \<and> list_all W (tr_writes (rp_machine t))"
  by (auto simp: added_def)


subsection \<open>Results\<close>

text \<open>What a valid plan holds\<close>

lemma valid_plan:
  assumes "validate_plan_document rp plan = Inr ()"
  obtains required fs controller accepted metadata lease
  where "required_plan_fields plan = Inr (required, fs)" "same_keys plan required" "controller_project_id plan = Inr controller"
    "list_all (\<lambda>f. nonempty_str (oget plan f)) plan_text_fields"
    "oget plan ''plan_fingerprint'' = JStr (plan_fingerprint plan)"
    "changed_list (oget plan ''accepted_changed_paths'') = Inr accepted"
    "elements (oget_or plan ''metadata_paths'' (JArr [])) = Inr metadata" "rall mutation_path (accepted @ metadata) = Inr ()"
    "oget plan ''lease_identity'' = JObj lease" "same_keys lease fs" "lease_bound rp plan controller lease"
    "policy_matches (oget lease ''allowed_mutations'') (sorted_set (map text_of (accepted @ metadata)))"
proof -
  obtain lease where l: "oget plan ''lease_identity'' = JObj lease"
    using assms by (cases "oget plan ''lease_identity''") (auto simp: validate_plan_document_def raise_def)
  show thesis
    using assms unfolding validate_plan_document_def rbind_eq_Inr check_eq_Inr split_paired_Ex prod.case l json.case
    by (elim exE conjE) (rule that, (assumption | rule l | simp)+)
qed

lemma valid_plan_lease_id:
  assumes "validate_plan_document rp plan = Inr ()"
  shows "\<exists>lease. oget plan ''lease_identity'' = JObj lease \<and> ohas lease ''lease_id''"
proof (rule valid_plan [OF assms])
  fix required fs lease
  assume "required_plan_fields plan = Inr (required, fs)" "oget plan ''lease_identity'' = JObj lease" "same_keys lease fs"
  moreover from this have "''lease_id'' \<in> set fs"
    by (auto simp: required_plan_fields_def raise_def LEASE_IDENTITY_FIELDS_def LEGACY_LEASE_IDENTITY_FIELDS_def split: if_splits)
  ultimately show ?thesis by (auto simp: same_keys_def list_all_iff)
qed

lemma oget_append: "oget (xs @ ys) k = (if ohas xs k then oget xs k else oget ys k)"
  by (auto simp: oget_def ohas_iff map_add_def split: option.splits)

lemma ohas_append: "ohas (xs @ ys) k \<longleftrightarrow> ohas xs k \<or> ohas ys k"
  by (auto simp: ohas_def)

lemma ohas_oset: "ohas (oset k v d) k' \<longleftrightarrow> k' = k \<or> ohas d k'"
  by (auto simp: ohas_iff)

lemma oget_front: "oget (kv # d) k = (if fst kv = k then snd kv else oget d k)"
  by (simp add: oget_def)

lemma ohas_front: "ohas (kv # d) k \<longleftrightarrow> fst kv = k \<or> ohas d k"
  by (auto simp: ohas_def)

lemma ohas_none: "\<not> ohas [] k"
  by (simp add: ohas_def)

lemmas document_simps = oget_append ohas_append ohas_oset oget_front ohas_front ohas_none

lemma oget_renamed:
  "distinct (map fst kps) \<Longrightarrow> (k, p) \<in> set kps \<Longrightarrow> oget (map (\<lambda>(k, p). (k, g p)) kps) k = g p"
  by (induction kps) (auto simp: oget_front split: prod.splits, force)

lemma ohas_renamed: "ohas (map (\<lambda>(k, p). (k, g p)) kps) k \<longleftrightarrow> k \<in> fst ` set kps"
  by (induction kps) (auto simp: document_simps)

text \<open>The fields of a result that are not a copy of one of the plan, and those that depend on the run\<close>

definition fixed_fields :: "string list" where
  "fixed_fields = [''schema_version'', ''classification'', ''plan_fingerprint'', ''project_id'', ''lease_id'', ''model_session_launched'']"

definition open_fields :: "string list" where
  "open_fields = [''current_commit'', ''resulting_feature_commit'', ''evidence_commit'', ''changed_paths'', ''validation'', ''runtime'',
     ''human_gate'']"

lemma identity_keys:
  "distinct (map fst integration_identity)"
  "list_all (\<lambda>k. k \<notin> set fixed_fields \<and> k \<noteq> ''runtime'' \<and> k \<noteq> ''changed_paths'') (map fst integration_identity)"
  by code_simp+

lemma identity_key:
  assumes "(k, p) \<in> set integration_identity"
  shows "list_all (\<lambda>x. x \<noteq> k) fixed_fields" "k \<noteq> ''runtime''"
proof -
  have "k \<in> set (map fst integration_identity)" using assms by force
  then have "k \<notin> set fixed_fields \<and> k \<noteq> ''runtime''"
    using identity_keys(2) unfolding list_all_iff by blast
  then show "list_all (\<lambda>x. x \<noteq> k) fixed_fields" "k \<noteq> ''runtime''" by (auto simp: list_all_iff)
qed

lemma base_identity: "(k, p) \<in> set integration_identity \<Longrightarrow> oget (result_base plan controller c) k = oget plan p"
proof -
  assume k: "(k, p) \<in> set integration_identity"
  have named: "k \<in> fst ` set integration_identity" using k by force
  have "''schema_version'' \<noteq> k" "''classification'' \<noteq> k" "''plan_fingerprint'' \<noteq> k" "''project_id'' \<noteq> k"
    using identity_key(1) [OF k] by (simp_all add: fixed_fields_def)
  then show ?thesis
    using named oget_renamed [OF identity_keys(1) k, of "oget plan"]
    by (simp add: result_base_def oget_append oget_front ohas_front ohas_none ohas_renamed)
qed

lemma base_has: "ohas (result_base plan controller c) k \<longleftrightarrow> k \<in> set fixed_fields \<or> k \<in> set (map fst integration_identity)"
  by (auto simp: result_base_def ohas_append ohas_front ohas_none ohas_renamed fixed_fields_def)

lemma base_fields:
  "oget (result_base plan controller c) ''schema_version'' = JInt RESULT_SCHEMA_VERSION"
  "oget (result_base plan controller c) ''classification'' = JStr c"
  "oget (result_base plan controller c) ''plan_fingerprint'' = oget plan ''plan_fingerprint''"
  "oget (result_base plan controller c) ''project_id'' = JStr controller"
  "oget (result_base plan controller c) ''lease_id'' = oget (plan_lease plan) ''lease_id''"
  "oget (result_base plan controller c) ''model_session_launched'' = JBool False"
proof -
  have "k \<notin> fst ` set integration_identity" if "k \<in> set fixed_fields" for k
    using that identity_keys(2) by (auto simp: list_all_iff)
  then have "''lease_id'' \<notin> fst ` set integration_identity" "''model_session_launched'' \<notin> fst ` set integration_identity"
    by (simp_all add: fixed_fields_def)
  then show "oget (result_base plan controller c) ''schema_version'' = JInt RESULT_SCHEMA_VERSION"
    "oget (result_base plan controller c) ''classification'' = JStr c"
    "oget (result_base plan controller c) ''plan_fingerprint'' = oget plan ''plan_fingerprint''"
    "oget (result_base plan controller c) ''project_id'' = JStr controller"
    "oget (result_base plan controller c) ''lease_id'' = oget (plan_lease plan) ''lease_id''"
    "oget (result_base plan controller c) ''model_session_launched'' = JBool False"
    by (simp_all add: result_base_def oget_append oget_front ohas_front ohas_none ohas_renamed)
qed

lemma required_fields:
  "list_all (\<lambda>k. k \<in> set fixed_fields \<or> k \<in> set (map fst integration_identity) \<or> k \<in> set open_fields) integration_result_required"
  by code_simp

text \<open>A document that begins with the identity of the plan and lists sorted paths is accepted by the kernel.\<close>

lemma result_accepted:
  assumes valid: "validate_plan_document rp plan = Inr ()" and controller: "controller_project_id plan = Inr controller"
    and lease_text: "is_str (oget (plan_lease plan) ''lease_id'')"
    and known: "c \<in> {''INTEGRATED'', ''VALIDATION_FAILED'', ''SEMANTIC_CONFLICT''}"
    and rest: "list_all (ohas d) open_fields"
    and paths: "oget d ''changed_paths'' = strs (sorted_set ps)"
  shows "validate_integration_result plan (oset ''runtime'' w (result_base plan controller c @ d)) = Inr ()"
proof -
  let ?b = "result_base plan controller c" and ?r = "oset ''runtime'' w (result_base plan controller c @ d)"
  have texts: "list_all (\<lambda>f. nonempty_str (oget plan f)) plan_text_fields"
    by (rule valid_plan [OF valid])
  have named: "list_all (\<lambda>p. p \<in> set plan_text_fields) (''plan_fingerprint'' # map snd integration_identity)"
    by code_simp
  have sub: "osub plan p = Inr (oget plan p) \<and> py_eq (oget plan p) (oget plan p)" if "p \<in> set plan_text_fields" for p
  proof -
    have "nonempty_str (oget plan p)" using texts that by (simp add: list_all_iff)
    then obtain x where "oget plan p = JStr x" by (auto simp: nonempty_str_iff)
    then show ?thesis by (cases "map_of plan p") (auto simp: osub_def oget_def)
  qed
  obtain lease where lease: "oget plan ''lease_identity'' = JObj lease" "ohas lease ''lease_id''"
    using valid_plan_lease_id [OF valid] by blast
  then have id: "plan_lease plan = lease" "osub lease ''lease_id'' = Inr (oget lease ''lease_id'')"
    "osub plan ''lease_identity'' = Inr (JObj lease)"
    by (auto simp: plan_lease_def as_obj_def osub_def oget_def ohas_iff split: option.splits)
  have base: "oget ?r k = oget ?b k" if "ohas ?b k" "k \<noteq> ''runtime''" for k
    using that by (simp add: oget_append)
  have has: "list_all (ohas ?r) integration_result_required"
    using required_fields rest by (auto simp: list_all_iff ohas_oset ohas_append base_has)
  have same: "rmap (\<lambda>(k, p). rbind (osub plan p) (\<lambda>v. Inr (py_eq (oget ?r k) v))) kps = Inr (map (\<lambda>_. True) kps)"
    if "set kps \<subseteq> set integration_identity" for kps
    using that
  proof (induction kps)
    case (Cons kp kps)
    obtain k p where kp: "kp = (k, p)" by force
    then have k: "(k, p) \<in> set integration_identity" using Cons.prems by simp
    then have "p \<in> set plan_text_fields" using named by (force simp: list_all_iff)
    moreover have "ohas ?b k" using k by (force simp: base_has)
    moreover have "k \<noteq> ''runtime''" by (rule identity_key(2) [OF k])
    ultimately have "oget ?r k = oget plan p" "osub plan p = Inr (oget plan p)" "py_eq (oget plan p) (oget plan p)"
      using sub base base_identity [OF k] by metis+
    moreover have "rmap (\<lambda>(k, p). rbind (osub plan p) (\<lambda>v. Inr (py_eq (oget ?r k) v))) kps = Inr (map (\<lambda>_. True) kps)"
      using Cons by simp
    ultimately show ?case by (simp only: kp rmap.simps prod.case) (simp add: rbind_def del: oget_oset)
  qed simp
  have fixed: "ohas ?b ''schema_version''" "ohas ?b ''classification''" "ohas ?b ''plan_fingerprint''" "ohas ?b ''project_id''"
    "ohas ?b ''lease_id''" "ohas ?b ''model_session_launched''"
    by (simp_all add: base_has fixed_fields_def)
  have fields: "oget ?r ''schema_version'' = JInt RESULT_SCHEMA_VERSION" "oget ?r ''classification'' = JStr c"
    "oget ?r ''plan_fingerprint'' = oget plan ''plan_fingerprint''" "oget ?r ''project_id'' = JStr controller"
    "oget ?r ''lease_id'' = oget lease ''lease_id''" "oget ?r ''model_session_launched'' = JBool False"
    by (simp_all add: base fixed base_fields id(1) del: oget_oset)
  have "\<not> ohas ?b ''changed_paths''"
    using identity_keys(2) by (auto simp: base_has fixed_fields_def list_all_iff)
  then have changed: "oget ?r ''changed_paths'' = strs (sorted_set ps)" using paths by (simp add: oget_append)
  have "''plan_fingerprint'' \<in> set plan_text_fields" using named by simp
  note fp = conjunct1 [OF sub [OF this]] conjunct2 [OF sub [OF this]]
  have lease_eq: "py_eq (oget lease ''lease_id'') (oget lease ''lease_id'')" using lease_text id(1) by (auto simp: is_str_iff)
  have version: "py_eq (JInt RESULT_SCHEMA_VERSION) (JInt RESULT_SCHEMA_VERSION)" by simp
  have sorted: "map text_of (map JStr (sorted_set ps)) = sorted_set (map text_of (map JStr (sorted_set ps)))"
    "list_all is_str (map JStr (sorted_set ps))"
    by (simp_all add: comp_def text_of_def sorted_set_id list_all_iff)
  have classified: "hash_in (JStr c) [''INTEGRATED'', ''VALIDATION_FAILED'', ''SEMANTIC_CONFLICT''] = Inr True"
    using known by auto
  have lid: "map_of lease ''lease_id'' = Some (oget lease ''lease_id'')"
    using lease(2) by (auto simp: oget_def ohas_iff)
  have texts_id: "text_of \<circ> JStr = id" by (simp add: fun_eq_iff text_of_def)
  show ?thesis
    unfolding validate_integration_result_def fields same [OF subset_refl] changed fp(1) controller id classified
    by (simp add: has [unfolded list_all_iff] fp(2) lease_eq lid texts_id sorted_set_id version strs_def list_all_iff del: py_eq.simps)
qed

text \<open>Both results an execution returns are accepted by the check the kernel makes of them.\<close>

lemma final_result_accepted:
  assumes "validate_plan_document rp plan = Inr ()" "controller_project_id plan = Inr controller"
    and "is_str (oget (plan_lease plan) ''lease_id'')"
  shows "validate_integration_result plan
    (oset ''runtime'' w (final_result plan controller v f current resulting integrating changed rt @ extra)) = Inr ()"
  unfolding final_result_def append_assoc
  by (rule result_accepted [OF assms]) (simp_all add: classification_of_def open_fields_def document_simps)

lemma conflict_result_accepted:
  assumes "validate_plan_document rp plan = Inr ()" "controller_project_id plan = Inr controller"
    and "is_str (oget (plan_lease plan) ''lease_id'')"
  shows "validate_integration_result plan
    (oset ''runtime'' w (conflict_result plan controller current conflicts rt)) = Inr ()"
  unfolding conflict_result_def
  by (rule result_accepted [OF assms]) (simp_all add: open_fields_def document_simps)

end
