(* ===== verification/Spec2Isabelle.thy ===== *)
theory Spec2Isabelle
  imports Prelude State_Machine Warning_Evidence Contracts Mutation_Policy Human_Gate Phase_Transaction
    Effects Redaction Json_Parse Ledger Ledger_Spec Ledger_Append Ledger_Theorems Ledger_Store Ledger_Durable
    Schema_Validation Command_Safety Command_Authority Retry_Budget Scheduler Lock_Exclusion Locks Execution_Profiles Feature_Queue Feature_Queue_Theorems
    Session_Envelope Workflow_Lease Workflow_Lease_Safety Projection Projection_Safety
    Hashing Repository Run_Logic Kernel_State Kernel_Phases Kernel_Finalize Kernel_Recovery Phase_Adapters Workflow_Bridge
    Kernel_Logic Kernel_Evidence Kernel_Runs Kernel_Guards Execution_Plan Execution_Plan_Theorems
    Json_Ascii Capability_Policy Feature_Delivery Cost_Policy Cost_Policy_Theorems
    Autopilot_Ownership Autopilot Autopilot_Theorems Autopilot_Termination
    Cycle_Cache Cycle_Cache_Theorems
    Integration_Plan Integration_Refs Integration_Metadata Integration_Run Integration_Resume Integration_Confined Integration_Theorems
begin

text \<open>
  A verification library of the development conveyor, the controller in
  \<^verbatim>\<open>src/src/development_conveyor\<close>. File names below are relative to that directory.

  \<^bold>\<open>The program.\<close> The controller moves a repository through phases. A phase is a transaction: it takes the
  writer lease of the repository, captures a snapshot, launches a session or a deterministic executor,
  validates the result, and ends in a terminal event or at a human gate. Everything it does is an
  event of an append-only ledger of canonical JSON lines; the current state is a projection of the
  ledger, kept in a cache; launches are guarded by locks; what a session reports counts only as far as
  the controller's own metadata and commands corroborate it.

  \<^bold>\<open>Parts.\<close>
  \<^item> Vocabulary: \<^verbatim>\<open>Prelude\<close> (the exceptions of \<^verbatim>\<open>errors.py\<close>, results, Python text,
    tables), \<^verbatim>\<open>Effects\<close> (stateful calls that may raise), \<^verbatim>\<open>Json\<close> (values of
    \<^verbatim>\<open>json.loads\<close>, \<^verbatim>\<open>==\<close>, truth, \<^verbatim>\<open>dumps\<close>), \<^verbatim>\<open>Json_Parse\<close>
    (\<^verbatim>\<open>json.loads\<close> itself and its round trip), \<^verbatim>\<open>Json_Ascii\<close> (\<^verbatim>\<open>dumps\<close> with
    \<^verbatim>\<open>ensure_ascii\<close> and its round trip), \<^verbatim>\<open>Hashing\<close> (SHA-256 at its
    width of 32 bits), \<^verbatim>\<open>Redaction\<close> (\<^verbatim>\<open>redaction.py\<close>).
  \<^item> \<^verbatim>\<open>contracts.py\<close>: \<^verbatim>\<open>Contracts\<close> (enumerations, tables, identities, safe
    paths), \<^verbatim>\<open>Mutation_Policy\<close>, \<^verbatim>\<open>Human_Gate\<close>, \<^verbatim>\<open>Phase_Transaction\<close>,
    \<^verbatim>\<open>Session_Envelope\<close> (the result envelope and its extraction from the output of a
    session). \<^verbatim>\<open>Warning_Evidence\<close> is \<^verbatim>\<open>warning_evidence.py\<close>,
    \<^verbatim>\<open>State_Machine\<close> is \<^verbatim>\<open>state_machine.py\<close>.
  \<^item> \<^verbatim>\<open>ledger.py\<close>: \<^verbatim>\<open>Ledger\<close> (the one-pass validation), \<^verbatim>\<open>Ledger_Spec\<close>
    (what it accepts, declaratively), \<^verbatim>\<open>Ledger_Append\<close> (the incremental checks and the event
    an append builds), \<^verbatim>\<open>Ledger_Store\<close> (the log, its durable anchor, the cache, reads and
    appends), \<^verbatim>\<open>Ledger_Theorems\<close> and \<^verbatim>\<open>Ledger_Durable\<close> (what follows).
  \<^item> \<^verbatim>\<open>projection.py\<close>: \<^verbatim>\<open>Projection\<close> (the fold over the events, the settling of
    the current feature, the comparison with observations, the cache), \<^verbatim>\<open>Projection_Safety\<close>.
  \<^item> Exclusion: \<^verbatim>\<open>Lock_Exclusion\<close> is the contract of a lock as a locale,
    \<^verbatim>\<open>Locks\<close> (\<^verbatim>\<open>locks.py\<close>) and \<^verbatim>\<open>Workflow_Lease\<close>,
    \<^verbatim>\<open>Workflow_Lease_Safety\<close> (\<^verbatim>\<open>workflow_lease.py\<close>) interpret it on the
    operations of the launch reservation, the repository writer lease, the planning lease and the
    workflow lease.
  \<^item> Validation and commands: \<^verbatim>\<open>Schema_Validation\<close> and \<^verbatim>\<open>Command_Safety\<close>
    (\<^verbatim>\<open>validation.py\<close>), \<^verbatim>\<open>Command_Authority\<close> (\<^verbatim>\<open>command_authority.py\<close>),
    \<^verbatim>\<open>Retry_Budget\<close> (\<^verbatim>\<open>retries.py\<close>), \<^verbatim>\<open>Scheduler\<close>
    (\<^verbatim>\<open>registry.py\<close>, \<^verbatim>\<open>scheduler.py\<close>).
  \<^item> Selection: \<^verbatim>\<open>Feature_Queue\<close> and \<^verbatim>\<open>Feature_Queue_Theorems\<close>
    (\<^verbatim>\<open>queue.py\<close>: the plan, what Git and the snapshots say of each feature, the next one);
    \<^verbatim>\<open>Execution_Profiles\<close> (\<^verbatim>\<open>execution_profiles.py\<close> without the Markdown form
    of a policy).
  \<^item> The kernel: \<^verbatim>\<open>Repository\<close> (\<^verbatim>\<open>repository.py\<close>,
    \<^verbatim>\<open>snapshots.py\<close>), \<^verbatim>\<open>Kernel_State\<close> (the object, its files and queries),
    \<^verbatim>\<open>Kernel_Phases\<close> (start, restart, lease, session, result), \<^verbatim>\<open>Kernel_Finalize\<close>
    (validation, final commit, terminal events) and \<^verbatim>\<open>Kernel_Recovery\<close> (the deterministic
    results and the recoveries) are \<^verbatim>\<open>kernel.py\<close>, \<^verbatim>\<open>Phase_Adapters\<close> its
    adapters, \<^verbatim>\<open>Workflow_Bridge\<close> is \<^verbatim>\<open>workflow_bridge.py\<close>.
    \<^verbatim>\<open>Run_Logic\<close> and \<^verbatim>\<open>Kernel_Logic\<close> are the logic of its calls,
    \<^verbatim>\<open>Kernel_Evidence\<close>, \<^verbatim>\<open>Kernel_Runs\<close> and \<^verbatim>\<open>Kernel_Guards\<close> what
    follows.
  \<^item> Plans and policies: \<^verbatim>\<open>Execution_Plan\<close> and \<^verbatim>\<open>Execution_Plan_Theorems\<close>
    (\<^verbatim>\<open>execution_plan.py\<close>: binding a projection to the queue, the plan of the next phase, its checks, the
    status), \<^verbatim>\<open>Cost_Policy\<close> and \<^verbatim>\<open>Cost_Policy_Theorems\<close> (\<^verbatim>\<open>cost_policy.py\<close>: models,
    validations, reuse of evidence, child sessions, the plan of a run), \<^verbatim>\<open>Capability_Policy\<close>
    (\<^verbatim>\<open>capability_policy.py\<close>: the allowlist and its proof by probes), \<^verbatim>\<open>Feature_Delivery\<close>
    (\<^verbatim>\<open>feature_branches.py\<close>, \<^verbatim>\<open>feature_delivery.py\<close>, \<^verbatim>\<open>compatibility_cache.py\<close> and the
    contract of \<^verbatim>\<open>compact_output.py\<close>), \<^verbatim>\<open>Cycle_Cache\<close> and
    \<^verbatim>\<open>Cycle_Cache_Theorems\<close> (\<^verbatim>\<open>cycle_cache.py\<close>: the signed cache of a cycle, bound to the
    ledger).
  \<^item> Integration, \<^verbatim>\<open>integration_executor.py\<close>: \<^verbatim>\<open>Integration_Plan\<close> (the immutable plan: building,
    checks, file; with the commands of an adapter from \<^verbatim>\<open>validation_tiers.py\<close>), \<^verbatim>\<open>Integration_Refs\<close> (what
    is read and checked: two refs, ledger, acceptance, audit), \<^verbatim>\<open>Integration_Metadata\<close> (what is written: Git mutations,
    queue, status, run log, validation), \<^verbatim>\<open>Integration_Run\<close> and \<^verbatim>\<open>Integration_Resume\<close> (execution and recovery),
    \<^verbatim>\<open>Integration_Confined\<close> (the contract of what reads, the authority of a plan) and
    \<^verbatim>\<open>Integration_Theorems\<close>.
  \<^item> The continuous loop, \<^verbatim>\<open>autopilot.py\<close>: \<^verbatim>\<open>Autopilot_Ownership\<close> (the record of the owner and the interleaved
    accesses of several runs to it), \<^verbatim>\<open>Autopilot\<close> (events, status, stop requests, routes, failures and
    retries, the loop, requests from outside), \<^verbatim>\<open>Autopilot_Theorems\<close> and \<^verbatim>\<open>Autopilot_Termination\<close>.

  \<^bold>\<open>How the code is modelled.\<close> Definitions keep the names of the source. A dictionary is an association
  list in insertion order, a dataclass a record, an enumeration a datatype, an exception an
  \<open>Inl\<close> with its class and the constant part of its message. A method that changes state is an
  \<open>eff\<close>: it returns its outcome and the state it leaves, so that a failure keeps what was changed before
  it. A file is what reading it gives: \<open>fs_log\<close> is text, the other files are parsed JSON, since they are
  replaced as a whole. Text is over the first 256 code points; a float is its \<^verbatim>\<open>repr\<close>, and a float
  equals an integer when its \<^verbatim>\<open>repr\<close> is the integer followed by \<^verbatim>\<open>.0\<close>, which is all
  of them below ten to the sixteenth.

  \<^bold>\<open>Parameters.\<close> Code that is not the repository's, and state of the machine, is an argument:
  \<open>rt\<close> is \<^verbatim>\<open>redact_text\<close> (its regular expressions), \<open>fr\<close> is \<^verbatim>\<open>repr(float(s))\<close>,
  \<open>rp\<close> and the functions of \<open>wenv\<close> resolve paths, \<open>rx\<close> is \<^verbatim>\<open>re.search\<close> with a pattern
  from a document, \<open>lt\<close> compares with a float; a \<open>proc\<close> is a process with its identity, its clock and
  what it learns of other processes; \<open>qenv\<close> is what the queue reads of the file system and \<open>git\<close>
  answers the queries to Git;
  a \<open>host\<close> runs the processes the repository inspector starts; \<open>kenv\<close> holds what a kernel is built
  from, with its clock, its identities and its interruption hook; the bridge takes the handler of a phase; an
  \<open>xenv\<close> adds to the host the processes and file writes of the integration executor; an
  \<open>autopilot\<close> holds the engine it drives, as calls on its files and on a world of any type; identities and times drawn
  at a call are arguments of it.

  \<^bold>\<open>What is shown.\<close> The life cycle of transactions and of both state machines; which change sets a policy
  authorises; that a gate and an envelope carry the controller's identities and survive their round
  trips; that the validation of the ledger is its declarative specification, that a valid ledger is
  append-only evidence of complete transactions, that tampering and rollback are detected or collide a
  digest, that appends are durable and repaired after a crash; that the projection's active
  transaction is the unfinished one of the ledger, that integrated features are not offered again, and
  that the cache never answers for another ledger; that each of the four locks has one owner at a time
  over every sequence of operations, and what it takes to recover or adopt one; that commands outside
  the policy are refused and every attempt is observed; that retries are bounded, the scheduler's
  report deterministic, that a document is accepted exactly when it conforms to its schema, and only required commands decide a transaction; that a resolved execution
  profile is a trusted one and no cheaper than its stage allows; that the queue offers the first
  eligible feature in order, sorts every feature into one class and is well formed. Of the kernel: that
  over every sequence of its methods the evidence it leaves restores the state it left, that no evidence is
  written without the lease, that an accepted result is bound to its transaction, and that the final commit
  rests on what was validated. A conflicting integration result is outside the first of these: it appends a
  gate while the object still waits for its human. Of plans and policies: that a plan made from a projection that was
  bound to the queue passes every check, that its status agrees with it, that a plan of a run has sessions exactly when
  its task needs a model, that an isolated session sees exactly the requested capabilities, that the evidence cache
  returns what was stored, that a written cycle cache is bound to the ledger as it is after the write, that branches
  separate features. Of an integration: that an execution starts and writes only what
  its plan names, and that its results pass the check made of them. Of the loop: that the record of an owner survives every
  interleaving with other runs until one of them observes its process gone, and that an acquisition nobody interrupts takes
  over from the dead only; that a stop request ends it and a gate keeps every route from running; that a run that returns has given up
  its ownership; and that a run on one feature ends. The negative
  theorems (\<open>append_gap\<close>, \<open>dot_prefix_gap\<close>, \<open>first_append_crash\<close>, \<open>resume_race\<close>, \<open>resume_redaction_lockout\<close>,
  \<open>command_policy_gaps\<close>, \<open>configured_child_refused\<close>, \<open>unrelated_path_refused\<close>, \<open>branch_shared_by_extension\<close>,
  \<open>ownership_race\<close>, \<open>quarantine_does_not_stop\<close>) are concrete runs in which the code does not do what it says.

  \<^bold>\<open>Termination, bounds and fuel.\<close> Loops over lists and values are structural or have a measure, so every
  model function is total but one: \<open>autopilot_loop\<close> is a partial function whose value \<open>None\<close> means that the run never
  ends. \<open>autopilot_terminates\<close> gives conditions under which it ends, by a variant made of the measure of the world and
  the retries left, and \<open>quarantine_does_not_stop\<close> a project on which it does not. \<open>json_loads\<close> runs its parser with fuel twice the length of the text and one;
  \<open>parse_fuel\<close> shows that more fuel than this never changes the result. SHA-256 takes
  its blocks by the length of the message. The only wrap-around arithmetic is that of SHA-256.

  \<^bold>\<open>Not modelled.\<close> The regular expressions of the redaction, the parser of URLs, the system calls below a
  file (descriptors, modes, synchronisation, the advisory lock whose effect is that calls form one
  sequence), Git, and the processes of sessions. Of \<^verbatim>\<open>kernel.py\<close>,
  \<^verbatim>\<open>finalize_deterministic_accepted_commit\<close> is missing, which rests on
  \<^verbatim>\<open>accepted_commit.py\<close>; of \<^verbatim>\<open>repository.py\<close> the two methods that edit the
  local ignore file; of \<^verbatim>\<open>validation_tiers.py\<close> all but the commands of an adapter; of \<^verbatim>\<open>cost_policy.py\<close> not the run of a command nor the walk over the repository. The controllers
  that drive the kernel (\<^verbatim>\<open>cycle_engine.py\<close>, \<^verbatim>\<open>planning.py\<close>, \<^verbatim>\<open>sessions.py\<close>, the recovery
  tools, consistency, reporting and the command line) are not modelled: they run Git, sessions and host commands
  around the parts above, and appear as parameters of the loop and of the bridge.
\<close>

end
